(* ===== verification/Prelude.thy ===== *)
theory Prelude
  imports Main "HOL-Library.Word"
begin

text \<open>
  Shared vocabulary of the development: the names of the machine integers, the wrapping and
  saturating operations of Rust's integers, the little-endian byte conversions, the formatting
  of numbers in error messages, \<open>partition_point\<close> of the standard slices, and the generic
  lemmas about lists and words that several components use.

  Overflow is modelled as in the release build: \<open>+\<close>, \<open>-\<close> and \<open>*\<close> on machine
  integers wrap, and a shift amount is reduced modulo the width.
\<close>

unbundle bit_operations_syntax

named_theorems layout_simps \<open>facts that keep the region table of a memory in shape\<close>
named_theorems eval_simps \<open>definitions that a concrete run unfolds\<close>

type_synonym u8 = "8 word"
type_synonym u16 = "16 word"
type_synonym u32 = "32 word"
type_synonym u64 = "64 word"
type_synonym u128 = "128 word"
type_synonym bytes = "u8 list"

section \<open>Integers of the standard library\<close>

definition saturating_add :: "u64 \<Rightarrow> u64 \<Rightarrow> u64" where
  "saturating_add a b = (if unat a + unat b < 2 ^ 64 then a + b else - 1)"

definition shl64 :: "u64 \<Rightarrow> u32 \<Rightarrow> u64" where
  \<comment> \<open>\<open>v << n\<close> of the release build: the shift amount is taken modulo 64\<close>
  "shl64 v n = push_bit (unat n mod 64) v"

definition shr64 :: "u64 \<Rightarrow> u32 \<Rightarrow> u64" where
  "shr64 v n = drop_bit (unat n mod 64) v"

definition of_flag :: "bool \<Rightarrow> u64" where
  "of_flag b = (if b then 1 else 0)"

lemma unat_saturating_add:
  "unat (saturating_add a b) = min (unat a + unat b) (2 ^ 64 - 1)"
proof (cases "unat a + unat b < 2 ^ 64")
  case True
  then have "unat (a + b) = unat a + unat b"
    by (simp add: unat_word_ariths)
  with True show ?thesis by (simp add: saturating_add_def min_def)
next
  case False
  then show ?thesis
    by (simp add: saturating_add_def min_def unsigned_minus_1_eq_mask mask_eq_exp_minus_1)
qed

lemma of_flag_simps [simp]: "of_flag True = 1" "of_flag False = 0" "of_flag b = 0 \<longleftrightarrow> \<not> b"
  by (simp_all add: of_flag_def)

lemma unat_of_flag: "unat (of_flag b) = of_bool b"
  by (simp add: of_flag_def)

lemma word_less_unat: "a < b \<longleftrightarrow> unat a < unat b"
  for a b :: "'a::len word"
  by (simp add: word_less_nat_alt)

lemma word_le_unat: "a \<le> b \<longleftrightarrow> unat a \<le> unat b"
  for a b :: "'a::len word"
  by (simp add: word_le_nat_alt)

lemma unat_bound64: "unat (a :: u64) < 2 ^ 64"
  using unsigned_less [of a] by simp

lemma unat_plus_no_wrap: "unat a + n < 2 ^ 64 \<Longrightarrow> unat (a + of_nat n) = unat a + n"
  for a :: u64
  by (simp add: unat_word_ariths unat_of_nat)

lemma unat_minus_le: "b \<le> a \<Longrightarrow> unat (a - b) = unat a - unat b"
  for a b :: u64
  by (simp add: unat_sub word_le_nat_alt)

section \<open>Little-endian bytes\<close>

fun from_le :: "bytes \<Rightarrow> 'a::len word" where
  "from_le [] = 0"
| "from_le (b # bs) = ucast b OR push_bit 8 (from_le bs)"

definition to_le :: "nat \<Rightarrow> 'a::len word \<Rightarrow> bytes" where
  "to_le n v = map (\<lambda>i. ucast (drop_bit (8 * i) v)) [0..<n]"

lemma length_to_le [simp]: "length (to_le n v) = n"
  by (simp add: to_le_def)

lemma nth_to_le: "i < n \<Longrightarrow> to_le n v ! i = ucast (drop_bit (8 * i) v)"
  by (simp add: to_le_def)

lemma bit_from_le:
  "bit (from_le bs :: 'a::len word) i \<longleftrightarrow>
     i < LENGTH('a) \<and> i div 8 < length bs \<and> bit (bs ! (i div 8)) (i mod 8)"
proof (induction bs arbitrary: i)
  case Nil
  then show ?case by simp
next
  case (Cons b bs)
  show ?case
  proof (cases "i < 8")
    case True
    then show ?thesis by (auto simp: bit_simps)
  next
    case False
    then obtain j where j: "i = 8 + j"
      by (metis le_add_diff_inverse not_less)
    then have "i div 8 = Suc (j div 8)" "i mod 8 = j mod 8"
      by simp_all
    moreover have "\<not> bit b i"
      using False bit_imp_le_length [of b i] by auto
    ultimately show ?thesis
      using False j by (auto simp: bit_simps Cons.IH)
  qed
qed

lemma from_le_to_le:
  "from_le (to_le n v) = take_bit (8 * n) (v :: 'a::len word)"
proof (rule bit_word_eqI)
  fix i assume i: "i < LENGTH('a)"
  have *: "8 * (i div 8) + i mod 8 = i" by simp
  have "i div 8 < n \<longleftrightarrow> i < 8 * n" by linarith
  then show "bit (from_le (to_le n v) :: 'a word) i = bit (take_bit (8 * n) v) i"
    using i by (auto simp: bit_from_le nth_to_le bit_simps * bit_imp_le_length)
qed

lemma to_le_from_le:
  assumes "8 * length bs \<le> LENGTH('a)"
  shows "to_le (length bs) (from_le bs :: 'a::len word) = bs"
proof (rule nth_equalityI)
  show "length (to_le (length bs) (from_le bs :: 'a word)) = length bs" by simp
next
  fix i assume "i < length (to_le (length bs) (from_le bs :: 'a word))"
  then have i: "i < length bs" by simp
  show "to_le (length bs) (from_le bs :: 'a word) ! i = bs ! i"
  proof (rule bit_word_eqI)
    fix j assume j: "j < LENGTH(8)"
    then have j8: "j < 8" by simp
    from j8 have *: "(8 * i + j) div 8 = i" "(8 * i + j) mod 8 = j" by simp_all
    from i j8 assms have "8 * i + j < LENGTH('a)" by linarith
    then show "bit (to_le (length bs) (from_le bs :: 'a word) ! i) j = bit (bs ! i) j"
      using i j8 by (simp add: nth_to_le bit_simps bit_from_le *)
  qed
qed

lemma from_le_widen:
  assumes "8 * length bs \<le> LENGTH('a::len)" "8 * length bs \<le> LENGTH('b::len)"
  shows "ucast (from_le bs :: 'a word) = (from_le bs :: 'b word)"
proof (rule bit_word_eqI)
  fix i assume "i < LENGTH('b)"
  then show "bit (ucast (from_le bs :: 'a word) :: 'b word) i = bit (from_le bs :: 'b word) i"
    using assms by (auto simp: bit_ucast_iff bit_from_le)
qed

lemma to_le_ucast: "8 * n \<le> LENGTH('b::len) \<Longrightarrow> to_le n (ucast (v :: u64) :: 'b word) = to_le n v"
  by (intro nth_equalityI bit_word_eqI) (auto simp: nth_to_le bit_simps)

section \<open>Lists\<close>

definition nth_opt :: "'a list \<Rightarrow> nat \<Rightarrow> 'a option" where
  "nth_opt xs i = (if i < length xs then Some (xs ! i) else None)"

definition partition_point :: "('a \<Rightarrow> bool) \<Rightarrow> 'a list \<Rightarrow> nat" where
  \<comment> \<open>what \<open>slice::partition_point\<close> returns on a slice that is partitioned by \<open>P\<close>\<close>
  "partition_point P xs = length (takeWhile P xs)"

definition position :: "('a \<Rightarrow> bool) \<Rightarrow> 'a list \<Rightarrow> nat option" where
  "position P xs =
     (let i = length (takeWhile (\<lambda>x. \<not> P x) xs) in if i < length xs then Some i else None)"

definition insert_at :: "nat \<Rightarrow> 'a \<Rightarrow> 'a list \<Rightarrow> 'a list" where
  "insert_at i x xs = take i xs @ x # drop i xs"

definition blit :: "'a list \<Rightarrow> nat \<Rightarrow> 'a list \<Rightarrow> 'a list" where
  \<comment> \<open>\<open>dst[start..start + data.len()].copy_from_slice(data)\<close>\<close>
  "blit xs start ys = take start xs @ ys @ drop (start + length ys) xs"

definition subslice :: "'a list \<Rightarrow> nat \<Rightarrow> nat \<Rightarrow> 'a list" where
  "subslice xs start end = take (end - start) (drop start xs)"

lemma length_blit [simp]:
  "start + length ys \<le> length xs \<Longrightarrow> length (blit xs start ys) = length xs"
  by (simp add: blit_def)

lemma nth_blit:
  assumes "start + length ys \<le> length xs" "i < length xs"
  shows "blit xs start ys ! i =
    (if start \<le> i \<and> i < start + length ys then ys ! (i - start) else xs ! i)"
  using assms by (auto simp: blit_def nth_append min_def)

lemma length_subslice [simp]:
  "end \<le> length xs \<Longrightarrow> length (subslice xs start end) = end - start"
  by (simp add: subslice_def)

lemma nth_subslice:
  "start \<le> end \<Longrightarrow> end \<le> length xs \<Longrightarrow> i < end - start \<Longrightarrow>
    subslice xs start end ! i = xs ! (start + i)"
  by (simp add: subslice_def)

lemma subslice_blit [simp]:
  "start + length ys \<le> length xs \<Longrightarrow>
    subslice (blit xs start ys) start (start + length ys) = ys"
  by (simp add: subslice_def blit_def)

lemma set_insert_at [simp]: "set (insert_at i x xs) = insert x (set xs)"
proof -
  have "set (take i xs) \<union> set (drop i xs) = set xs"
    by (metis append_take_drop_id set_append)
  then show ?thesis by (auto simp: insert_at_def)
qed

lemma partition_point_le: "partition_point P xs \<le> length xs"
  by (simp add: partition_point_def length_takeWhile_le)

lemma nth_before_partition_point: "i < partition_point P xs \<Longrightarrow> P (xs ! i)"
  unfolding partition_point_def
  by (metis nth_mem set_takeWhileD takeWhile_nth)

lemma nth_at_partition_point:
  "partition_point P xs < length xs \<Longrightarrow> \<not> P (xs ! partition_point P xs)"
  unfolding partition_point_def by (rule nth_length_takeWhile)

definition binary_search :: "'a::linorder list \<Rightarrow> 'a \<Rightarrow> nat + nat" where
  \<comment> \<open>what \<open>slice::binary_search\<close> returns on a sorted slice without duplicates: \<open>Inr i\<close> for
    \<open>Ok(i)\<close>, \<open>Inl i\<close> for \<open>Err(i)\<close>, the place to insert at\<close>
  "binary_search xs x =
     (let i = partition_point (\<lambda>a. a < x) xs in
      if nth_opt xs i = Some x then Inr i else Inl i)"

definition remove_at :: "nat \<Rightarrow> 'a list \<Rightarrow> 'a list" where
  "remove_at i xs = take i xs @ drop (Suc i) xs"

definition word_range :: "u64 \<Rightarrow> u64 \<Rightarrow> u64 list" where
  \<comment> \<open>the inclusive range \<open>first..=last\<close>\<close>
  "word_range lo hi = map of_nat [unat lo..<Suc (unat hi)]"

lemma set_word_range: "set (word_range a b) = {x. a \<le> x \<and> x \<le> b}"
proof
  show "set (word_range a b) \<subseteq> {x. a \<le> x \<and> x \<le> b}"
  proof
    fix x assume "x \<in> set (word_range a b)"
    then obtain k where k: "x = of_nat k" "unat a \<le> k" "k \<le> unat b"
      by (auto simp: word_range_def simp flip: less_Suc_eq_le)
    then have "k < 2 ^ 64" using unat_bound64 [of b] by linarith
    then have "unat x = k" using k by (simp add: unat_of_nat take_bit_nat_eq_self)
    with k show "x \<in> {x. a \<le> x \<and> x \<le> b}" by (simp add: word_le_unat)
  qed
next
  show "{x. a \<le> x \<and> x \<le> b} \<subseteq> set (word_range a b)"
  proof
    fix x assume "x \<in> {x. a \<le> x \<and> x \<le> b}"
    then have "unat x \<in> set [unat a..<Suc (unat b)]" by (simp add: word_le_unat less_Suc_eq_le del: upt_Suc)
    moreover have "x = of_nat (unat x)" by simp
    ultimately show "x \<in> set (word_range a b)"
      unfolding word_range_def by (metis (no_types) image_eqI list.set_map)
  qed
qed

lemma binary_search_sorted:
  assumes "sorted_wrt (<) xs"
  shows "x \<in> set xs \<longleftrightarrow> (\<exists>i. binary_search xs x = Inr i)"
proof -
  let ?i = "partition_point (\<lambda>a. a < x) xs"
  have "x \<in> set xs \<Longrightarrow> nth_opt xs ?i = Some x"
  proof -
    assume "x \<in> set xs"
    then obtain k where k: "k < length xs" "xs ! k = x" by (auto simp: in_set_conv_nth)
    have lo: "\<not> k < ?i"
      using nth_before_partition_point [of k "\<lambda>a. a < x" xs] k by auto
    then have "?i < length xs" using k by simp
    then have hi: "\<not> ?i < k"
      using nth_at_partition_point [of "\<lambda>a. a < x" xs] k sorted_wrt_nth_less [OF assms, of ?i k]
      by auto
    from lo hi have "k = ?i" by (rule le_antisym [OF leI leI, rotated])
    with k show ?thesis by (simp add: nth_opt_def)
  qed
  moreover have "nth_opt xs ?i = Some x \<Longrightarrow> x \<in> set xs"
    unfolding nth_opt_def by (metis nth_mem option.distinct(1) option.inject)
  ultimately show ?thesis by (auto simp: binary_search_def Let_def)
qed

lemma binary_search_Inr: "binary_search xs x = Inr i \<Longrightarrow> i < length xs \<and> xs ! i = x"
  by (auto simp: binary_search_def Let_def nth_opt_def split: if_splits)

lemma binary_search_Inl: "binary_search xs x = Inl i \<Longrightarrow> i = partition_point (\<lambda>a. a < x) xs"
  by (auto simp: binary_search_def Let_def split: if_splits)

lemma sorted_wrt_insert_at:
  assumes "sorted_wrt R xs" "i \<le> length xs"
    "\<And>k. k < i \<Longrightarrow> R (xs ! k) x" "\<And>k. i \<le> k \<Longrightarrow> k < length xs \<Longrightarrow> R x (xs ! k)"
  shows "sorted_wrt R (insert_at i x xs)"
proof -
  have "\<forall>y \<in> set (take i xs). R y x"
    using assms(2,3) by (auto simp: in_set_conv_nth)
  moreover have "\<forall>y \<in> set (drop i xs). R x y"
    using assms(4) by (auto simp: in_set_conv_nth)
  moreover have "sorted_wrt R (take i xs) \<and> sorted_wrt R (drop i xs) \<and>
      (\<forall>y \<in> set (take i xs). \<forall>z \<in> set (drop i xs). R y z)"
    using assms(1) sorted_wrt_append [of R "take i xs" "drop i xs"] by simp
  ultimately show ?thesis
    unfolding insert_at_def by (auto simp: sorted_wrt_append)
qed

lemma sorted_wrt_remove_at: "sorted_wrt R xs \<Longrightarrow> sorted_wrt R (remove_at i xs)"
proof -
  assume "sorted_wrt R xs"
  then have "sorted_wrt R (take i xs) \<and> sorted_wrt R (drop i xs) \<and>
      (\<forall>y \<in> set (take i xs). \<forall>z \<in> set (drop i xs). R y z)"
    using sorted_wrt_append [of R "take i xs" "drop i xs"] by simp
  moreover have "set (drop (Suc i) xs) \<subseteq> set (drop i xs)" by (simp add: set_drop_subset_set_drop)
  ultimately show ?thesis
    unfolding remove_at_def
    by (auto simp: sorted_wrt_append sorted_wrt_drop \<open>sorted_wrt R xs\<close>)
qed

lemma set_remove_at:
  assumes "distinct xs" "i < length xs"
  shows "set (remove_at i xs) = set xs - {xs ! i}"
proof -
  have "xs = take i xs @ xs ! i # drop (Suc i) xs" using assms(2) by (rule id_take_nth_drop)
  then show ?thesis using assms(1) unfolding remove_at_def
    by (metis (no_types, lifting) Diff_insert_absorb Un_insert_right distinct.simps(2)
        distinct_append list.simps(15) not_distinct_conv_prefix set_append disjoint_insert(1)
        Un_iff)
qed

lemma sorted_less_distinct: "sorted_wrt (<) xs \<Longrightarrow> distinct xs"
  for xs :: "'a::linorder list"
  by (simp add: strict_sorted_iff)

section \<open>Numbers in messages\<close>

definition hex_char :: "nat \<Rightarrow> char" where
  "hex_char n = ''0123456789abcdef'' ! n"

fun digits_in :: "nat \<Rightarrow> nat \<Rightarrow> string" where
  "digits_in base n =
     (if base < 2 \<or> n < base then [hex_char (n mod 16)]
      else digits_in base (n div base) @ [hex_char (n mod base mod 16)])"

declare digits_in.simps [simp del]

definition fmt_dec :: "nat \<Rightarrow> string" where
  "fmt_dec n = digits_in 10 n"

definition fmt_hex :: "nat \<Rightarrow> string" where
  \<comment> \<open>\<open>{:#x}\<close>\<close>
  "fmt_hex n = ''0x'' @ digits_in 16 n"

definition fmt_hex2 :: "nat \<Rightarrow> string" where
  \<comment> \<open>\<open>{:#04x}\<close>\<close>
  "fmt_hex2 n = ''0x'' @ (if n < 16 then ''0'' else []) @ digits_in 16 n"

definition fmt_hex18 :: "nat \<Rightarrow> string" where
  \<comment> \<open>\<open>{:#018x}\<close>\<close>
  "fmt_hex18 n = (let d = digits_in 16 n in ''0x'' @ replicate (16 - length d) (hex_char 0) @ d)"

end
