(* ===== verification/Core_Error.thy ===== *)
theory Core_Error
  imports Prelude
begin

text \<open>
  \<open>core/src/error.rs\<close>, and the way the model writes down Rust's \<open>Result\<close> together with
  the mutable state it is threaded through. A computation takes the state and returns an
  outcome and the state, \<^emph>\<open>also\<close> when it fails: an early return through \<open>?\<close> keeps every
  assignment made before it, and the caller of the interpreter sees that state.

  Three ways to stop: \<open>Err\<close> is the source's \<open>Err(EmuError)\<close>, \<open>Panic\<close> is a Rust
  panic (the release build aborts), and \<open>Loops\<close> marks a loop of the source that has not
  returned within the bound the model gives it.
\<close>

datatype emu_error =
    Unmapped u64 nat
  | Permission u64 string
  | Overlap u64 u64
  | Decode u64 string
  | Unsupported string
  | InvalidPe string
  | Os string
  | Io string
  | Fault string emu_error

fun cause :: "emu_error \<Rightarrow> emu_error" where
  "cause (Fault report c) = cause c"
| "cause other = other"

definition show_error :: "emu_error \<Rightarrow> string" where
  \<comment> \<open>\<open>impl Display\<close>\<close>
  "show_error e = (case e of
     Unmapped a n \<Rightarrow> ''unmapped memory access at '' @ fmt_hex18 (unat a) @ '' ('' @ fmt_dec n @ '' bytes)''
   | Permission a needed \<Rightarrow>
       ''permission fault at '' @ fmt_hex18 (unat a) @ '': '' @ needed @ '' access denied''
   | Overlap a n \<Rightarrow> ''region overlap at '' @ fmt_hex18 (unat a) @ '' ('' @ fmt_dec (unat n) @ '' bytes)''
   | Decode rip opcode \<Rightarrow> ''cannot decode instruction at '' @ fmt_hex18 (unat rip) @ '': '' @ opcode
   | Unsupported what \<Rightarrow> ''unsupported: '' @ what
   | InvalidPe why \<Rightarrow> ''invalid PE image: '' @ why
   | Os why \<Rightarrow> ''emulated OS error: '' @ why
   | Io why \<Rightarrow> ''io error: '' @ why
   | Fault report c \<Rightarrow> report)"

definition is_fault :: "emu_error \<Rightarrow> bool" where
  "is_fault e = (case e of Fault r c \<Rightarrow> True | _ \<Rightarrow> False)"

lemma cause_not_fault: "\<not> is_fault (cause e)"
  by (induction e) (simp_all add: is_fault_def)

lemma cause_idem [simp]: "cause (cause e) = cause e"
  by (induction e) simp_all

section \<open>Outcomes and the computations that produce them\<close>

datatype stop = Err emu_error | Panic string | Loops

type_synonym ('s, 'a) em = "'s \<Rightarrow> (stop + 'a) \<times> 's"

definition em_return :: "'a \<Rightarrow> ('s, 'a) em" where
  "em_return a s = (Inr a, s)"

definition em_stop :: "stop \<Rightarrow> ('s, 'a) em" where
  "em_stop x s = (Inl x, s)"

definition em_bind :: "('s, 'a) em \<Rightarrow> ('a \<Rightarrow> ('s, 'b) em) \<Rightarrow> ('s, 'b) em" where
  "em_bind m f s = (case m s of (r, t) \<Rightarrow> (case r of Inl x \<Rightarrow> (Inl x, t) | Inr a \<Rightarrow> f a t))"

definition em_get :: "('s \<Rightarrow> 'a) \<Rightarrow> ('s, 'a) em" where
  "em_get f s = (Inr (f s), s)"

definition em_mod :: "('s \<Rightarrow> 's) \<Rightarrow> ('s, unit) em" where
  "em_mod f s = (Inr (), f s)"

definition em_run :: "('s \<Rightarrow> 'a \<times> 's) \<Rightarrow> ('s, 'a) em" where
  \<comment> \<open>a call that changes the state and cannot fail\<close>
  "em_run f s = (case f s of (a, t) \<Rightarrow> (Inr a, t))"

definition em_fail :: "emu_error \<Rightarrow> ('s, 'a) em" where
  "em_fail e = em_stop (Err e)"

definition em_panic :: "string \<Rightarrow> ('s, 'a) em" where
  "em_panic why = em_stop (Panic why)"

definition em_when :: "bool \<Rightarrow> ('s, unit) em \<Rightarrow> ('s, unit) em" where
  "em_when b m = (if b then m else em_return ())"

fun em_each :: "'a list \<Rightarrow> ('a \<Rightarrow> ('s, unit) em) \<Rightarrow> ('s, unit) em" where
  "em_each [] f = em_return ()"
| "em_each (x # xs) f = em_bind (f x) (\<lambda>_. em_each xs f)"

lemma em_apply [eval_simps]:
  "em_return a s = (Inr a, s)"
  "em_stop x s = (Inl x, s)"
  "em_get f s = (Inr (f s), s)"
  "em_mod g s = (Inr (), g s)"
  "em_fail e s = (Inl (Err e), s)"
  "em_panic w s = (Inl (Panic w), s)"
  by (simp_all add: em_return_def em_stop_def em_get_def em_mod_def em_fail_def em_panic_def)

lemma em_bind_apply [eval_simps]:
  "em_bind m f s = (case m s of (r, t) \<Rightarrow> (case r of Inl x \<Rightarrow> (Inl x, t) | Inr a \<Rightarrow> f a t))"
  by (simp add: em_bind_def)

lemma em_run_apply [eval_simps]: "em_run f s = (case f s of (a, t) \<Rightarrow> (Inr a, t))"
  by (simp add: em_run_def)

lemma em_bind_cong [cong]: "m = m' \<Longrightarrow> em_bind m f = em_bind m' f"
  \<comment> \<open>evaluate the first computation before the simplifier looks at the rest\<close>
  by simp

lemma em_bind_Inr: "m s = (Inr a, t) \<Longrightarrow> em_bind m f s = f a t"
  by (simp add: em_bind_def)

lemma em_bind_Inl: "m s = (Inl x, t) \<Longrightarrow> em_bind m f s = (Inl x, t)"
  by (simp add: em_bind_def)

lemma em_bind_Pair [eval_simps]:
  "em_bind (Pair (Inr a)) f = f a" "em_bind (Pair (Inl x)) f = Pair (Inl x)"
  by (simp_all add: fun_eq_iff em_bind_def)

lemma em_bind_return [simp]: "em_bind (em_return a) f = f a"
  by (simp add: fun_eq_iff em_bind_def em_apply)

lemma em_bind_assoc: "em_bind (em_bind m f) g = em_bind m (\<lambda>a. em_bind (f a) g)"
  by (simp add: fun_eq_iff em_bind_def split: prod.splits sum.splits)

section \<open>Properties of the state that a computation keeps\<close>

definition keeps :: "('s \<Rightarrow> bool) \<Rightarrow> ('s, 'a) em \<Rightarrow> bool" where
  \<comment> \<open>whatever the outcome, the state after is in \<open>P\<close> when the state before was\<close>
  "keeps P m \<longleftrightarrow> (\<forall>s. P s \<longrightarrow> P (snd (m s)))"

named_theorems keeps_intros \<open>composition rules for \<open>keeps\<close>\<close>

lemma keepsI: "(\<And>s. P s \<Longrightarrow> P (snd (m s))) \<Longrightarrow> keeps P m"
  by (simp add: keeps_def)

lemma keepsD: "keeps P m \<Longrightarrow> P s \<Longrightarrow> P (snd (m s))"
  by (simp add: keeps_def)

lemma keeps_bind [keeps_intros]:
  assumes "keeps P m" "\<And>a. keeps P (f a)"
  shows "keeps P (em_bind m f)"
proof (rule keepsI)
  fix s assume "P s"
  then have "P (snd (m s))" using assms(1) by (rule keepsD [rotated])
  then show "P (snd (em_bind m f s))"
    using assms(2) by (auto simp: em_bind_def keeps_def split: prod.splits sum.splits)
qed

lemma keeps_return [keeps_intros]: "keeps P (em_return a)"
  by (simp add: keeps_def em_apply)

lemma keeps_stop [keeps_intros]: "keeps P (em_stop x)"
  by (simp add: keeps_def em_apply)

lemma keeps_fail [keeps_intros]: "keeps P (em_fail e)"
  by (simp add: keeps_def em_apply)

lemma keeps_panic [keeps_intros]: "keeps P (em_panic w)"
  by (simp add: keeps_def em_apply)

lemma keeps_get [keeps_intros]: "keeps P (em_get f)"
  by (simp add: keeps_def em_apply)

lemma keeps_mod: "(\<And>s. P s \<Longrightarrow> P (f s)) \<Longrightarrow> keeps P (em_mod f)"
  by (simp add: keeps_def em_apply)

lemma keeps_run: "(\<And>s. P s \<Longrightarrow> P (snd (f s))) \<Longrightarrow> keeps P (em_run f)"
  by (auto simp: keeps_def em_run_def case_prod_beta)

lemma keeps_when [keeps_intros]: "keeps P m \<Longrightarrow> keeps P (em_when b m)"
  by (simp add: em_when_def keeps_return)

lemma keeps_if [keeps_intros]:
  "(b \<Longrightarrow> keeps P m) \<Longrightarrow> (\<not> b \<Longrightarrow> keeps P n) \<Longrightarrow> keeps P (if b then m else n)"
  by simp

lemma keeps_case_prod [keeps_intros]:
  "(\<And>a b. p = (a, b) \<Longrightarrow> keeps P (f a b)) \<Longrightarrow> keeps P (case p of (a, b) \<Rightarrow> f a b)"
  by (cases p) simp

lemma keeps_case_option [keeps_intros]:
  "keeps P m \<Longrightarrow> (\<And>a. keeps P (f a)) \<Longrightarrow> keeps P (case x of None \<Rightarrow> m | Some a \<Rightarrow> f a)"
  by (cases x) simp_all

lemma keeps_each [keeps_intros]:
  assumes "\<And>x. keeps P (f x)" shows "keeps P (em_each xs f)"
  by (induction xs) (simp_all add: keeps_return keeps_bind assms)

end
