(* ===== verification/Guest_Memory.thy ===== *)
theory Guest_Memory
  imports Core_Error
begin

text \<open>
  \<open>core/src/memory.rs\<close>: page permissions, regions, and the trait \<open>Memory\<close> through which the
  CPU, the unwinder and the OS layer reach guest memory. A \<open>dyn Memory\<close> is a table of
  methods, so the trait is a record of operations over the type \<open>'m\<close> of the implementing
  object; the methods that have a body in the trait are definitions over that table. What
  every implementation has to promise is the locale \<open>guest_memory\<close> at the end.
\<close>

section \<open>Permissions\<close>

datatype perm = Perm u8

primrec perm_bits :: "perm \<Rightarrow> u8" where
  "perm_bits (Perm b) = b"

definition PERM_NONE :: perm where "PERM_NONE = Perm 0"
definition PERM_READ :: perm where "PERM_READ = Perm (push_bit 0 1)"
definition PERM_WRITE :: perm where "PERM_WRITE = Perm (push_bit 1 1)"
definition PERM_EXEC :: perm where "PERM_EXEC = Perm (push_bit 2 1)"
definition PERM_RW :: perm where "PERM_RW = Perm 3"
definition PERM_RX :: perm where "PERM_RX = Perm 5"
definition PERM_RWX :: perm where "PERM_RWX = Perm 7"

lemmas perm_defs [eval_simps] = PERM_NONE_def PERM_READ_def PERM_WRITE_def PERM_EXEC_def
  PERM_RW_def PERM_RX_def PERM_RWX_def

definition perm_contains :: "perm \<Rightarrow> perm \<Rightarrow> bool" where
  "perm_contains self other \<longleftrightarrow> perm_bits self AND perm_bits other = perm_bits other"

definition perm_union :: "perm \<Rightarrow> perm \<Rightarrow> perm" where
  "perm_union self other = Perm (perm_bits self OR perm_bits other)"

lemma perm_contains_bits:
  "perm_contains p q \<longleftrightarrow> (\<forall>i. bit (perm_bits q) i \<longrightarrow> bit (perm_bits p) i)"
proof
  assume "perm_contains p q"
  then have "perm_bits p AND perm_bits q = perm_bits q" by (simp add: perm_contains_def)
  then show "\<forall>i. bit (perm_bits q) i \<longrightarrow> bit (perm_bits p) i" by (metis bit_and_iff)
next
  assume "\<forall>i. bit (perm_bits q) i \<longrightarrow> bit (perm_bits p) i"
  then show "perm_contains p q"
    unfolding perm_contains_def by (intro bit_eqI) (auto simp: bit_and_iff)
qed

text \<open>
  \<open>contains\<close> is the order of a lattice of rights whose join is \<open>union\<close>, so the library's
  order and lattice facts apply to permissions.
\<close>

instantiation perm :: bounded_semilattice_sup_bot
begin

definition less_eq_perm :: "perm \<Rightarrow> perm \<Rightarrow> bool" where
  "less_eq_perm p q \<longleftrightarrow> perm_contains q p"

definition less_perm :: "perm \<Rightarrow> perm \<Rightarrow> bool" where
  "less_perm p q \<longleftrightarrow> perm_contains q p \<and> \<not> perm_contains p q"

definition sup_perm :: "perm \<Rightarrow> perm \<Rightarrow> perm" where
  "sup_perm p q = perm_union p q"

definition bot_perm :: perm where
  "bot_perm = PERM_NONE"

instance
proof
  fix x y z :: perm
  show "x < y \<longleftrightarrow> x \<le> y \<and> \<not> y \<le> x"
    by (simp add: less_perm_def less_eq_perm_def)
  show "x \<le> x" by (simp add: less_eq_perm_def perm_contains_bits)
  show "x \<le> y \<Longrightarrow> y \<le> z \<Longrightarrow> x \<le> z" by (simp add: less_eq_perm_def perm_contains_bits)
  show "x \<le> y \<Longrightarrow> y \<le> x \<Longrightarrow> x = y"
    by (cases x; cases y) (simp add: less_eq_perm_def perm_contains_def and.commute)
  show "x \<le> sup x y" "y \<le> sup x y"
    by (simp_all add: less_eq_perm_def sup_perm_def perm_union_def perm_contains_bits bit_simps)
  show "y \<le> x \<Longrightarrow> z \<le> x \<Longrightarrow> sup y z \<le> x"
    by (auto simp: less_eq_perm_def sup_perm_def perm_union_def perm_contains_bits bit_simps)
  show "bot \<le> x"
    by (simp add: less_eq_perm_def bot_perm_def PERM_NONE_def perm_contains_bits)
qed

end

lemma perm_contains_union: "perm_contains (perm_union p q) r \<longleftrightarrow> r \<le> sup p q"
  by (simp add: less_eq_perm_def sup_perm_def)

section \<open>Regions\<close>

record region =
  rg_name :: string
  rg_base :: u64
  rg_size :: u64
  rg_perm :: perm

definition region_end :: "region \<Rightarrow> u64" where
  "region_end r = saturating_add (rg_base r) (rg_size r)"

definition region_contains :: "region \<Rightarrow> u64 \<Rightarrow> bool" where
  "region_contains r addr \<longleftrightarrow>
     rg_base r \<le> addr \<and> addr < saturating_add (rg_base r) (rg_size r)"

lemma region_contains_end: "region_contains r a \<longleftrightarrow> rg_base r \<le> a \<and> a < region_end r"
  by (simp add: region_contains_def region_end_def)

lemma unat_region_end:
  "unat (region_end r) = min (unat (rg_base r) + unat (rg_size r)) (2 ^ 64 - 1)"
  by (simp add: region_end_def unat_saturating_add)

lemma region_base_le_end: "rg_base r \<le> region_end r"
  using unat_bound64 [of "rg_base r"] by (simp add: word_le_unat unat_region_end)

lemma region_contains_offset:
  assumes "region_contains r a"
  shows "unat (a - rg_base r) < unat (rg_size r)"
  using assms
  by (auto simp: region_contains_end unat_minus_le word_less_unat word_le_unat unat_region_end)

definition CODE_PAGE_SIZE :: u64 where "CODE_PAGE_SIZE = 0x1000"

section \<open>The trait\<close>

record 'm memory_ops =
  mo_read :: "u64 \<Rightarrow> nat \<Rightarrow> ('m, bytes) em"
  mo_write :: "u64 \<Rightarrow> bytes \<Rightarrow> ('m, unit) em"
  mo_fetch :: "u64 \<Rightarrow> nat \<Rightarrow> ('m, bytes) em"
  mo_read_uint :: "u64 \<Rightarrow> nat \<Rightarrow> ('m, u64) em"
  mo_write_uint :: "u64 \<Rightarrow> nat \<Rightarrow> u64 \<Rightarrow> ('m, unit) em"
  mo_map_fixed :: "u64 \<Rightarrow> u64 \<Rightarrow> perm \<Rightarrow> string \<Rightarrow> ('m, unit) em"
  mo_protect :: "u64 \<Rightarrow> u64 \<Rightarrow> perm \<Rightarrow> ('m, perm) em"
  mo_unmap :: "u64 \<Rightarrow> u64 \<Rightarrow> ('m, unit) em"
  mo_next_region :: "'m \<Rightarrow> u64 \<Rightarrow> (u64 \<times> u64 \<times> perm) option"
  mo_layout_generation :: "'m \<Rightarrow> u64"
  mo_watchpoints_armed :: "'m \<Rightarrow> bool"
  mo_code_generation :: "'m \<Rightarrow> u64"
  mo_code_page_generation :: "'m \<Rightarrow> u64 \<Rightarrow> u64"

definition mem_read_u8 :: "'m memory_ops \<Rightarrow> u64 \<Rightarrow> ('m, u8) em" where
  "mem_read_u8 M addr = em_bind (mo_read M addr 1) (\<lambda>b. em_return (b ! 0))"

definition mem_read_u16 :: "'m memory_ops \<Rightarrow> u64 \<Rightarrow> ('m, u16) em" where
  "mem_read_u16 M addr = em_bind (mo_read M addr 2) (\<lambda>b. em_return (from_le b))"

definition mem_read_u32 :: "'m memory_ops \<Rightarrow> u64 \<Rightarrow> ('m, u32) em" where
  "mem_read_u32 M addr = em_bind (mo_read M addr 4) (\<lambda>b. em_return (from_le b))"

definition mem_read_u64 :: "'m memory_ops \<Rightarrow> u64 \<Rightarrow> ('m, u64) em" where
  "mem_read_u64 M addr = em_bind (mo_read M addr 8) (\<lambda>b. em_return (from_le b))"

definition mem_write_u8 :: "'m memory_ops \<Rightarrow> u64 \<Rightarrow> u8 \<Rightarrow> ('m, unit) em" where
  "mem_write_u8 M addr v = mo_write M addr (to_le 1 v)"

definition mem_write_u16 :: "'m memory_ops \<Rightarrow> u64 \<Rightarrow> u16 \<Rightarrow> ('m, unit) em" where
  "mem_write_u16 M addr v = mo_write M addr (to_le 2 v)"

definition mem_write_u32 :: "'m memory_ops \<Rightarrow> u64 \<Rightarrow> u32 \<Rightarrow> ('m, unit) em" where
  "mem_write_u32 M addr v = mo_write M addr (to_le 4 v)"

definition mem_write_u64 :: "'m memory_ops \<Rightarrow> u64 \<Rightarrow> u64 \<Rightarrow> ('m, unit) em" where
  "mem_write_u64 M addr v = mo_write M addr (to_le 8 v)"

definition bad_read_size :: "nat \<Rightarrow> emu_error" where
  "bad_read_size sz = Unsupported (''memory read of '' @ fmt_dec sz @ '' bytes'')"

definition bad_write_size :: "nat \<Rightarrow> emu_error" where
  "bad_write_size sz = Unsupported (''memory write of '' @ fmt_dec sz @ '' bytes'')"

definition trait_read_uint :: "'m memory_ops \<Rightarrow> u64 \<Rightarrow> nat \<Rightarrow> ('m, u64) em" where
  "trait_read_uint M addr sz =
     (if sz = 1 then em_bind (mem_read_u8 M addr) (\<lambda>v. em_return (ucast v))
      else if sz = 2 then em_bind (mem_read_u16 M addr) (\<lambda>v. em_return (ucast v))
      else if sz = 4 then em_bind (mem_read_u32 M addr) (\<lambda>v. em_return (ucast v))
      else if sz = 8 then mem_read_u64 M addr
      else em_fail (bad_read_size sz))"

definition trait_write_uint :: "'m memory_ops \<Rightarrow> u64 \<Rightarrow> nat \<Rightarrow> u64 \<Rightarrow> ('m, unit) em" where
  "trait_write_uint M addr sz v =
     (if sz = 1 then mem_write_u8 M addr (ucast v)
      else if sz = 2 then mem_write_u16 M addr (ucast v)
      else if sz = 4 then mem_write_u32 M addr (ucast v)
      else if sz = 8 then mem_write_u64 M addr v
      else em_fail (bad_write_size sz))"

fun mem_read_cstr_from :: "'m memory_ops \<Rightarrow> u64 \<Rightarrow> nat \<Rightarrow> ('m, bytes) em" where
  "mem_read_cstr_from M addr 0 = em_return []"
| "mem_read_cstr_from M addr (Suc n) =
     em_bind (mem_read_u8 M addr) (\<lambda>b.
       if b = 0 then em_return []
       else em_bind (mem_read_cstr_from M (addr + 1) n) (\<lambda>rest. em_return (b # rest)))"

definition mem_read_cstr :: "'m memory_ops \<Rightarrow> u64 \<Rightarrow> nat \<Rightarrow> ('m, bytes) em" where
  "mem_read_cstr M addr max_len = mem_read_cstr_from M addr max_len"

section \<open>What an implementation promises\<close>

text \<open>
  The guest sees an address space: a partial map from addresses to a byte and its rights. An
  access to a range succeeds where the range lies inside one mapping that grants the right
  (\<open>acc\<close>); it never depends on the bytes, and a write changes exactly the bytes of its range.
\<close>

type_synonym space = "u64 \<Rightarrow> (perm \<times> u8) option"

definition bytes_at :: "space \<Rightarrow> u64 \<Rightarrow> nat \<Rightarrow> bytes" where
  "bytes_at sp a n = map (\<lambda>i. snd (the (sp (a + of_nat i)))) [0..<n]"

definition overlay :: "u64 \<Rightarrow> bytes \<Rightarrow> space \<Rightarrow> space" where
  "overlay a bs sp x =
     (if unat (x - a) < length bs
      then map_option (\<lambda>(p, b). (p, bs ! unat (x - a))) (sp x) else sp x)"

lemma length_bytes_at [simp]: "length (bytes_at sp a n) = n"
  by (simp add: bytes_at_def)

lemma bytes_at_0 [simp]: "bytes_at sp a 0 = []"
  by (simp add: bytes_at_def)

lemma nth_bytes_at [simp]: "i < n \<Longrightarrow> bytes_at sp a n ! i = snd (the (sp (a + of_nat i)))"
  by (simp add: bytes_at_def)

lemma bytes_at_overlay:
  assumes "\<And>i. i < length bs \<Longrightarrow> sp (a + of_nat i) \<noteq> None" "length bs < 2 ^ 64"
  shows "bytes_at (overlay a bs sp) a (length bs) = bs"
proof (rule nth_equalityI)
  show "length (bytes_at (overlay a bs sp) a (length bs)) = length bs" by simp
next
  fix i assume "i < length (bytes_at (overlay a bs sp) a (length bs))"
  then have i: "i < length bs" by simp
  with assms(2) have "unat (of_nat i :: u64) = i" by (simp add: unat_of_nat take_bit_nat_eq_self)
  with i assms(1) [OF i] show "bytes_at (overlay a bs sp) a (length bs) ! i = bs ! i"
    by (auto simp: overlay_def)
qed

lemma bytes_at_overlay_disjoint:
  assumes "\<And>i. i < n \<Longrightarrow> \<not> unat (b + of_nat i - a) < length bs"
  shows "bytes_at (overlay a bs sp) b n = bytes_at sp b n"
  using assms by (simp add: bytes_at_def overlay_def)

lemma bytes_at_Suc: "bytes_at sp a (Suc n) = snd (the (sp a)) # bytes_at sp (a + 1) n"
  by (rule nth_equalityI) (auto simp: nth_Cons ac_simps split: nat.split)

lemma bytes_at_1: "bytes_at sp a 1 = [snd (the (sp a))]"
  by (simp add: bytes_at_def)

definition same_view :: "('m \<Rightarrow> bool) \<Rightarrow> ('m \<Rightarrow> space) \<Rightarrow> ('m \<Rightarrow> perm \<Rightarrow> u64 \<Rightarrow> nat \<Rightarrow> bool) \<Rightarrow> 'm \<Rightarrow> 'm \<Rightarrow> bool" where
  \<comment> \<open>what a read may change of a memory: nothing a guest can see\<close>
  "same_view minv sp macc m m' \<longleftrightarrow> minv m' \<and> sp m' = sp m \<and> macc m' = macc m"

locale guest_memory =
  fixes M :: "'m memory_ops"
    and inv :: "'m \<Rightarrow> bool"
    and space :: "'m \<Rightarrow> space"
    and acc :: "'m \<Rightarrow> perm \<Rightarrow> u64 \<Rightarrow> nat \<Rightarrow> bool"
  assumes read_ok: "inv m \<Longrightarrow> n = 0 \<or> acc m PERM_READ a n \<Longrightarrow>
      fst (mo_read M a n m) = Inr (bytes_at (space m) a n)"
    and read_err: "inv m \<Longrightarrow> n \<noteq> 0 \<Longrightarrow> \<not> acc m PERM_READ a n \<Longrightarrow> \<exists>e. fst (mo_read M a n m) = Inl (Err e)"
    and read_keeps: "inv m \<Longrightarrow> inv (snd (mo_read M a n m)) \<and>
      space (snd (mo_read M a n m)) = space m \<and> acc (snd (mo_read M a n m)) = acc m"
    and fetch_ok: "inv m \<Longrightarrow> n = 0 \<or> acc m PERM_EXEC a n \<Longrightarrow>
      fst (mo_fetch M a n m) = Inr (bytes_at (space m) a n)"
    and fetch_err: "inv m \<Longrightarrow> n \<noteq> 0 \<Longrightarrow> \<not> acc m PERM_EXEC a n \<Longrightarrow> \<exists>e. fst (mo_fetch M a n m) = Inl (Err e)"
    and fetch_keeps: "inv m \<Longrightarrow> inv (snd (mo_fetch M a n m)) \<and>
      space (snd (mo_fetch M a n m)) = space m \<and> acc (snd (mo_fetch M a n m)) = acc m"
    and write_ok: "inv m \<Longrightarrow> bs = [] \<or> acc m PERM_WRITE a (length bs) \<Longrightarrow>
      fst (mo_write M a bs m) = Inr () \<and> space (snd (mo_write M a bs m)) = overlay a bs (space m)"
    and write_err: "inv m \<Longrightarrow> bs \<noteq> [] \<Longrightarrow> \<not> acc m PERM_WRITE a (length bs) \<Longrightarrow>
      (\<exists>e. fst (mo_write M a bs m) = Inl (Err e)) \<and> space (snd (mo_write M a bs m)) = space m"
    and write_keeps: "inv m \<Longrightarrow> inv (snd (mo_write M a bs m)) \<and> acc (snd (mo_write M a bs m)) = acc m"
    and read_uint_trait: "inv m \<Longrightarrow> fst (mo_read_uint M a n m) = fst (trait_read_uint M a n m)"
    and read_uint_keeps: "inv m \<Longrightarrow> inv (snd (mo_read_uint M a n m)) \<and>
      space (snd (mo_read_uint M a n m)) = space m \<and> acc (snd (mo_read_uint M a n m)) = acc m"
    and write_uint_trait: "inv m \<Longrightarrow> fst (mo_write_uint M a n v m) = fst (trait_write_uint M a n v m) \<and>
      space (snd (mo_write_uint M a n v m)) = space (snd (trait_write_uint M a n v m))"
    and write_uint_keeps: "inv m \<Longrightarrow> inv (snd (mo_write_uint M a n v m)) \<and>
      acc (snd (mo_write_uint M a n v m)) = acc m"
    and acc_space: "inv m \<Longrightarrow> acc m p a n \<Longrightarrow> i < n \<Longrightarrow>
      n < 2 ^ 64 \<and> (\<exists>q b. space m (a + of_nat i) = Some (q, b) \<and> p \<le> q)"
    and acc_sub: "inv m \<Longrightarrow> acc m p a n \<Longrightarrow> 0 < k \<Longrightarrow> i + k \<le> n \<Longrightarrow> acc m p (a + of_nat i) k"
begin

lemma same_view_refl: "inv m \<Longrightarrow> same_view inv space acc m m"
  by (simp add: same_view_def)

lemma same_view_trans:
  "same_view inv space acc m m' \<Longrightarrow> same_view inv space acc m' m'' \<Longrightarrow> same_view inv space acc m m''"
  by (simp add: same_view_def)

lemma space_some: "inv m \<Longrightarrow> acc m p a n \<Longrightarrow> i < n \<Longrightarrow> space m (a + of_nat i) \<noteq> None"
  using acc_space by fastforce

text \<open>Reading back what was written, at the level of byte ranges.\<close>

lemma read_after_write:
  assumes "inv m" "bs \<noteq> []" "acc m PERM_WRITE a (length bs)" "acc m PERM_READ a (length bs)"
  shows "fst (mo_read M a (length bs) (snd (mo_write M a bs m))) = Inr bs"
proof -
  let ?m = "snd (mo_write M a bs m)"
  have "inv ?m" "acc ?m = acc m" using write_keeps [OF assms(1)] by auto
  then have "fst (mo_read M a (length bs) ?m) = Inr (bytes_at (space ?m) a (length bs))"
    using read_ok assms(4) by simp
  also have "space ?m = overlay a bs (space m)" using write_ok assms by blast
  also have "bytes_at (overlay a bs (space m)) a (length bs) = bs"
    using assms(1,2,3) acc_space [OF assms(1,3)] space_some [OF assms(1,3)]
    by (intro bytes_at_overlay) auto
  finally show ?thesis .
qed

end

text \<open>The last byte of the address space is never addressable: no access wraps around.\<close>

locale bounded_memory = guest_memory +
  assumes top_unmapped: "inv m \<Longrightarrow> \<not> acc m p (- 1) 1"
begin

lemma acc_no_wrap:
  assumes "inv m" "acc m p a n" "0 < n" "i < n"
  shows "a + of_nat i \<noteq> - 1"
proof
  assume "a + of_nat i = - 1"
  moreover have "acc m p (a + of_nat i) 1" using acc_sub [OF assms(1,2), of 1 i] assms(4) by simp
  ultimately show False using top_unmapped [OF assms(1)] by simp
qed

end

end
