(* ===== verification/Debug_Control.thy ===== *)
theory Debug_Control
  imports Prelude
begin

text \<open>
  \<open>core/src/debug.rs\<close>: the control block a debugger front end shares with the run loop.
  \<open>DebugControl\<close> is a handle on one shared object; its atomics and the two locked lists are
  the fields of the record, and each method is a function on it. The lists are guarded by
  two 64-bit Bloom filters so that the memory's fast path can skip the lock. The theory shows
  that the filters never hide a breakpoint or a watchpoint and that every method keeps
  them exact.
\<close>

section \<open>Data\<close>

datatype watch_kind = WkRead | WkWrite | WkReadWrite

fun watch_kind_as_u8 :: "watch_kind \<Rightarrow> u8" where
  "watch_kind_as_u8 WkRead = 1"
| "watch_kind_as_u8 WkWrite = 2"
| "watch_kind_as_u8 WkReadWrite = 3"

definition watch_kind_covers :: "watch_kind \<Rightarrow> watch_kind \<Rightarrow> bool" where
  "watch_kind_covers self access \<longleftrightarrow> watch_kind_as_u8 self AND watch_kind_as_u8 access \<noteq> 0"

definition watch_kind_from_u8 :: "u8 \<Rightarrow> watch_kind option" where
  "watch_kind_from_u8 v =
     (if v = 1 then Some WkRead else if v = 2 then Some WkWrite
      else if v = 3 then Some WkReadWrite else None)"

record watchpoint =
  wp_base :: u64
  wp_len :: u64
  wp_kind :: watch_kind

definition watchpoint_overlaps :: "watchpoint \<Rightarrow> u64 \<Rightarrow> u64 \<Rightarrow> bool" where
  "watchpoint_overlaps w addr len =
     (if len = 0 then False
      else let a_end = saturating_add addr len;
               w_end = saturating_add (wp_base w) (wp_len w)
           in addr < w_end \<and> wp_base w < a_end)"

datatype stop_request = SrRun | SrPause | SrStep

fun stop_request_as_u8 :: "stop_request \<Rightarrow> u8" where
  "stop_request_as_u8 SrRun = 0"
| "stop_request_as_u8 SrPause = 1"
| "stop_request_as_u8 SrStep = 2"

definition stop_request_from_u8 :: "u8 \<Rightarrow> stop_request" where
  "stop_request_from_u8 v = (if v = 1 then SrPause else if v = 2 then SrStep else SrRun)"

definition BREAK_AT_STEP_DISABLED :: u64 where "BREAK_AT_STEP_DISABLED = - 1"
definition WATCH_PAGE_SHIFT :: nat where "WATCH_PAGE_SHIFT = 12"
definition WATCH_FILTER_MAX_PAGES :: u64 where "WATCH_FILTER_MAX_PAGES = 4096"
definition ACCESS_PROBE_MAX_PAGES :: u64 where "ACCESS_PROBE_MAX_PAGES = 64"

record debug =
  dbg_attached :: bool
  dbg_generation :: u64
  dbg_bp_filter :: u64
  dbg_wp_filter :: u64
  dbg_stop_request :: u8
  dbg_break_at_step :: u64
  dbg_watch_hit :: u64
  dbg_watch_kind :: u8
  dbg_breakpoints :: "u64 list"
  dbg_watchpoints :: "watchpoint list"

definition debug_new :: "bool \<Rightarrow> debug" where
  "debug_new attached =
     \<lparr>dbg_attached = attached, dbg_generation = 0, dbg_bp_filter = 0, dbg_wp_filter = 0,
      dbg_stop_request = stop_request_as_u8 SrRun,
      dbg_break_at_step = BREAK_AT_STEP_DISABLED, dbg_watch_hit = 0, dbg_watch_kind = 0,
      dbg_breakpoints = [], dbg_watchpoints = []\<rparr>"

section \<open>The filters\<close>

definition mix64 :: "u64 \<Rightarrow> u64" where
  "mix64 x0 =
     (let x1 = x0 XOR drop_bit 30 x0;
          x2 = x1 * 0xbf58476d1ce4e5b9;
          x3 = x2 XOR drop_bit 27 x2;
          x4 = x3 * 0x94d049bb133111eb
      in x4 XOR drop_bit 31 x4)"

definition bloom_bits :: "u64 \<Rightarrow> u64" where
  "bloom_bits key =
     (let h = mix64 key in
      push_bit (unat (h AND 63)) 1 OR push_bit (unat (drop_bit 32 h AND 63)) 1)"

definition watch_pages :: "u64 \<Rightarrow> u64 \<Rightarrow> u64 \<times> u64" where
  \<comment> \<open>\<open>first\<close> and \<open>last\<close> of \<open>watch_bits\<close> and \<open>access_may_hit\<close>\<close>
  "watch_pages addr len =
     (drop_bit WATCH_PAGE_SHIFT addr,
      drop_bit WATCH_PAGE_SHIFT (saturating_add addr (len - 1)))"

definition watch_bits :: "watchpoint \<Rightarrow> u64" where
  "watch_bits w =
     (case watch_pages (wp_base w) (wp_len w) of (lo, hi) \<Rightarrow>
      if hi - lo \<ge> WATCH_FILTER_MAX_PAGES then - 1
      else fold (\<lambda>p acc. acc OR bloom_bits p) (word_range lo hi) 0)"

definition access_may_hit :: "u64 \<Rightarrow> u64 \<Rightarrow> u64 \<Rightarrow> bool" where
  "access_may_hit flt addr len =
     (case watch_pages addr len of (lo, hi) \<Rightarrow>
      if hi - lo \<ge> ACCESS_PROBE_MAX_PAGES then True
      else list_ex (\<lambda>p. flt AND bloom_bits p = bloom_bits p) (word_range lo hi))"

definition breakpoint_filter :: "u64 list \<Rightarrow> u64" where
  "breakpoint_filter bps = fold (\<lambda>a acc. acc OR bloom_bits a) bps 0"

definition watchpoint_filter :: "watchpoint list \<Rightarrow> u64" where
  "watchpoint_filter wps = fold (\<lambda>w acc. acc OR watch_bits w) wps 0"

section \<open>Methods\<close>

definition debug_mutate ::
    "(u64 list \<times> watchpoint list \<Rightarrow> bool \<times> u64 list \<times> watchpoint list) \<Rightarrow> debug \<Rightarrow> debug" where
  "debug_mutate f d =
     (if \<not> dbg_attached d then d
      else case f (dbg_breakpoints d, dbg_watchpoints d) of (changed, bps, wps) \<Rightarrow>
        let d1 = d\<lparr>dbg_breakpoints := bps, dbg_watchpoints := wps\<rparr> in
        if \<not> changed then d1
        else d1\<lparr>dbg_bp_filter := breakpoint_filter bps,
                dbg_wp_filter := watchpoint_filter wps,
                dbg_generation := dbg_generation d + 1\<rparr>)"

definition is_break :: "debug \<Rightarrow> u64 \<Rightarrow> bool" where
  "is_break d addr =
     (if \<not> dbg_attached d then False
      else if dbg_bp_filter d AND bloom_bits addr \<noteq> bloom_bits addr then False
      else case binary_search (dbg_breakpoints d) addr of Inr i \<Rightarrow> True | Inl i \<Rightarrow> False)"

definition any_breakpoints :: "debug \<Rightarrow> bool" where
  "any_breakpoints d \<longleftrightarrow> dbg_attached d \<and> dbg_bp_filter d \<noteq> 0"

definition next_break_at_or_after :: "debug \<Rightarrow> u64 \<Rightarrow> u64 option" where
  "next_break_at_or_after d start =
     (if \<not> any_breakpoints d then None
      else nth_opt (dbg_breakpoints d) (partition_point (\<lambda>a. a < start) (dbg_breakpoints d)))"

definition breakpoints :: "debug \<Rightarrow> u64 list" where
  "breakpoints d = (if \<not> dbg_attached d then [] else dbg_breakpoints d)"

definition arm_break :: "u64 \<Rightarrow> debug \<Rightarrow> debug" where
  "arm_break addr = debug_mutate (\<lambda>(bps, wps).
     case binary_search bps addr of
       Inr i \<Rightarrow> (False, bps, wps)
     | Inl i \<Rightarrow> (True, insert_at i addr bps, wps))"

definition disarm_break :: "u64 \<Rightarrow> debug \<Rightarrow> debug" where
  "disarm_break addr = debug_mutate (\<lambda>(bps, wps).
     case binary_search bps addr of
       Inr i \<Rightarrow> (True, remove_at i bps, wps)
     | Inl i \<Rightarrow> (False, bps, wps))"

definition any_watchpoints :: "debug \<Rightarrow> bool" where
  "any_watchpoints d \<longleftrightarrow> dbg_attached d \<and> dbg_wp_filter d \<noteq> 0"

definition is_watched :: "debug \<Rightarrow> u64 \<Rightarrow> u64 \<Rightarrow> watch_kind \<Rightarrow> bool" where
  "is_watched d addr len kind =
     (if \<not> dbg_attached d \<or> len = 0 then False
      else if dbg_wp_filter d = 0 \<or> \<not> access_may_hit (dbg_wp_filter d) addr len then False
      else list_ex (\<lambda>w. watch_kind_covers (wp_kind w) kind \<and> watchpoint_overlaps w addr len)
             (dbg_watchpoints d))"

definition watchpoints :: "debug \<Rightarrow> watchpoint list" where
  "watchpoints d = (if \<not> dbg_attached d then [] else dbg_watchpoints d)"

definition arm_watch :: "u64 \<Rightarrow> u64 \<Rightarrow> watch_kind \<Rightarrow> debug \<Rightarrow> debug" where
  "arm_watch base len kind d =
     (if len = 0 then d
      else debug_mutate (\<lambda>(bps, wps).
        (True, bps, wps @ [\<lparr>wp_base = base, wp_len = len, wp_kind = kind\<rparr>])) d)"

definition disarm_watch :: "u64 \<Rightarrow> debug \<Rightarrow> debug" where
  "disarm_watch base = debug_mutate (\<lambda>(bps, wps).
     let kept = filter (\<lambda>w. wp_base w \<noteq> base) wps in
     (length kept \<noteq> length wps, bps, kept))"

definition note_watch_hit :: "u64 \<Rightarrow> watch_kind \<Rightarrow> debug \<Rightarrow> debug" where
  "note_watch_hit addr kind d =
     (if \<not> dbg_attached d then d
      else d\<lparr>dbg_watch_kind := watch_kind_as_u8 kind, dbg_watch_hit := addr + 1\<rparr>)"

definition take_watch_hit :: "debug \<Rightarrow> (u64 \<times> watch_kind) option \<times> debug" where
  "take_watch_hit d =
     (if \<not> dbg_attached d \<or> dbg_watch_hit d = 0 then (None, d)
      else let raw = dbg_watch_hit d; d1 = d\<lparr>dbg_watch_hit := 0\<rparr> in
        if raw = 0 then (None, d1)
        else case watch_kind_from_u8 (dbg_watch_kind d1) of
            None \<Rightarrow> (None, d1\<lparr>dbg_watch_kind := 0\<rparr>)
          | Some kind \<Rightarrow> (Some (raw - 1, kind), d1\<lparr>dbg_watch_kind := 0\<rparr>))"

definition request :: "stop_request \<Rightarrow> debug \<Rightarrow> debug" where
  "request r d =
     (if \<not> dbg_attached d then d else d\<lparr>dbg_stop_request := stop_request_as_u8 r\<rparr>)"

definition pending_request :: "debug \<Rightarrow> stop_request" where
  "pending_request d =
     (if \<not> dbg_attached d then SrRun else stop_request_from_u8 (dbg_stop_request d))"

definition take_request :: "debug \<Rightarrow> stop_request \<times> debug" where
  "take_request d =
     (if \<not> dbg_attached d then (SrRun, d)
      else (stop_request_from_u8 (dbg_stop_request d),
            d\<lparr>dbg_stop_request := stop_request_as_u8 SrRun\<rparr>))"

definition set_break_at_step :: "u64 option \<Rightarrow> debug \<Rightarrow> debug" where
  "set_break_at_step steps d =
     (if \<not> dbg_attached d then d
      else d\<lparr>dbg_break_at_step :=
             (case steps of Some n \<Rightarrow> n | None \<Rightarrow> BREAK_AT_STEP_DISABLED)\<rparr>)"

definition break_at_step :: "debug \<Rightarrow> u64" where
  "break_at_step d = (if \<not> dbg_attached d then BREAK_AT_STEP_DISABLED else dbg_break_at_step d)"

section \<open>Bloom filters\<close>

text \<open>
  A filter is the union of the bit patterns of its keys. Two patterns are used here: one
  address or page (\<open>bloom_bits\<close>) and one watchpoint (\<open>watch_bits\<close>); all the filter
  arguments need is that no pattern is empty.
\<close>

lemma bit_fold_or:
  "bit (fold (\<lambda>k acc. acc OR f k) ks z) i \<longleftrightarrow> bit z i \<or> (\<exists>k \<in> set ks. bit (f k :: u64) i)"
  by (induction ks arbitrary: z) (auto simp: bit_or_iff)

definition bits_within :: "u64 \<Rightarrow> u64 \<Rightarrow> bool" where
  "bits_within b flt \<longleftrightarrow> flt AND b = b"

lemma bits_within_iff: "bits_within b flt \<longleftrightarrow> (\<forall>i. bit b i \<longrightarrow> bit flt i)"
proof
  assume "bits_within b flt"
  then show "\<forall>i. bit b i \<longrightarrow> bit flt i" unfolding bits_within_def by (metis bit_and_iff)
next
  assume "\<forall>i. bit b i \<longrightarrow> bit flt i"
  then show "bits_within b flt"
    unfolding bits_within_def by (intro bit_eqI) (auto simp: bit_and_iff)
qed

locale bloom_filter =
  fixes bits :: "'k \<Rightarrow> u64"
    and valid :: "'k \<Rightarrow> bool"
  assumes bits_nonzero: "valid k \<Longrightarrow> bits k \<noteq> 0"
begin

lemma member_within: "k \<in> set ks \<Longrightarrow> bits_within (bits k) (fold (\<lambda>k acc. acc OR bits k) ks 0)"
  by (auto simp: bits_within_iff bit_fold_or)

lemma empty_iff:
  assumes "\<forall>k \<in> set ks. valid k"
  shows "fold (\<lambda>k acc. acc OR bits k) ks 0 = 0 \<longleftrightarrow> ks = []"
proof
  assume z: "fold (\<lambda>k acc. acc OR bits k) ks 0 = 0"
  show "ks = []"
  proof (rule ccontr)
    assume "ks \<noteq> []"
    then have k: "hd ks \<in> set ks" by simp
    then have "bits_within (bits (hd ks)) 0" using member_within [OF k] z by simp
    then have "bits (hd ks) = 0" by (simp add: bits_within_def)
    with k assms bits_nonzero show False by blast
  qed
qed simp

end

lemma bloom_bits_nonzero: "bloom_bits k \<noteq> 0"
proof -
  let ?n = "unat (mix64 k AND 63)"
  have "mix64 k AND 63 \<le> 63" by (rule word_and_le1)
  then have "?n < 64" by (simp add: word_le_unat)
  then have "bit (bloom_bits k) ?n" by (simp add: bloom_bits_def Let_def bit_simps)
  then show ?thesis by (metis bit_0_eq bot_apply bot_bool_def)
qed

lemma unat_page: "unat (drop_bit WATCH_PAGE_SHIFT a) = unat a div 2 ^ 12" for a :: u64
proof -
  have "unat (drop_bit 12 a) = drop_bit 12 (unat a)" by (rule unat_drop_bit_eq)
  also have "\<dots> = unat a div 2 ^ 12" by (rule drop_bit_eq_div)
  finally show ?thesis by (simp add: WATCH_PAGE_SHIFT_def)
qed

lemma page_mono: "a \<le> b \<Longrightarrow> drop_bit WATCH_PAGE_SHIFT a \<le> drop_bit WATCH_PAGE_SHIFT b" for a b :: u64
  by (simp add: word_le_unat unat_page div_le_mono)

lemma unat_pred: "len \<noteq> 0 \<Longrightarrow> unat (len - 1) = unat len - 1" for len :: u64
  by (simp add: unat_minus_one)

lemma le_span_end: "a \<le> saturating_add a n"
  using unat_bound64 [of a] by (simp add: word_le_unat unat_saturating_add)

lemma watch_bits_page:
  assumes "wp_len w \<noteq> 0" "wp_base w \<le> x" "x \<le> saturating_add (wp_base w) (wp_len w - 1)"
  shows "bits_within (bloom_bits (drop_bit WATCH_PAGE_SHIFT x)) (watch_bits w)"
proof -
  let ?lo = "drop_bit WATCH_PAGE_SHIFT (wp_base w)"
  let ?hi = "drop_bit WATCH_PAGE_SHIFT (saturating_add (wp_base w) (wp_len w - 1))"
  let ?p = "drop_bit WATCH_PAGE_SHIFT x"
  have "?p \<in> set (word_range ?lo ?hi)"
    using assms by (simp add: set_word_range page_mono)
  moreover have "bit (bloom_bits ?p) i \<Longrightarrow> i < 64" for i
    using bit_imp_le_length [of "bloom_bits ?p" i] by simp
  ultimately show ?thesis
    by (auto simp: watch_bits_def watch_pages_def bits_within_iff bit_fold_or bit_minus_1_iff
        possible_bit_word)
qed

lemma watch_bits_nonzero: "wp_len w \<noteq> 0 \<Longrightarrow> watch_bits w \<noteq> 0"
  using watch_bits_page [of w "wp_base w"] le_span_end [of "wp_base w"] bloom_bits_nonzero
  by (auto simp: bits_within_def)

interpretation bp_filter: bloom_filter bloom_bits "\<lambda>_. True"
  by unfold_locales (rule bloom_bits_nonzero)

interpretation wp_filter: bloom_filter watch_bits "\<lambda>w. wp_len w \<noteq> 0"
  by unfold_locales (rule watch_bits_nonzero)

section \<open>The invariant of the control block\<close>

definition debug_inv :: "debug \<Rightarrow> bool" where
  "debug_inv d \<longleftrightarrow>
     sorted_wrt (<) (dbg_breakpoints d) \<and>
     (\<forall>w \<in> set (dbg_watchpoints d). wp_len w \<noteq> 0) \<and>
     dbg_bp_filter d = breakpoint_filter (dbg_breakpoints d) \<and>
     dbg_wp_filter d = watchpoint_filter (dbg_watchpoints d)"

lemma debug_inv_new: "debug_inv (debug_new b)"
  by (simp add: debug_inv_def debug_new_def breakpoint_filter_def watchpoint_filter_def)

lemma debug_inv_mutate:
  assumes "debug_inv d"
    and "\<And>bps wps changed bps' wps'. f (bps, wps) = (changed, bps', wps') \<Longrightarrow>
      sorted_wrt (<) bps \<Longrightarrow> \<forall>w \<in> set wps. wp_len w \<noteq> 0 \<Longrightarrow>
      sorted_wrt (<) bps' \<and> (\<forall>w \<in> set wps'. wp_len w \<noteq> 0) \<and>
      (\<not> changed \<longrightarrow> bps' = bps \<and> wps' = wps)"
  shows "debug_inv (debug_mutate f d)"
proof -
  obtain changed bps' wps' where
    f: "f (dbg_breakpoints d, dbg_watchpoints d) = (changed, bps', wps')"
    by (metis prod.exhaust)
  with assms(2) [OF f] assms(1) show ?thesis
    by (auto simp: debug_mutate_def debug_inv_def Let_def)
qed

lemma debug_inv_arm_break: "debug_inv d \<Longrightarrow> debug_inv (arm_break a d)"
  unfolding arm_break_def
proof (erule debug_inv_mutate, goal_cases)
  case (1 bps wps changed bps' wps')
  have "sorted_wrt (<) (insert_at i a bps)" if i: "binary_search bps a = Inl i" for i
  proof (rule sorted_wrt_insert_at [OF 1(2)])
    have pp: "i = partition_point (\<lambda>b. b < a) bps" using i by (rule binary_search_Inl)
    then show "i \<le> length bps" by (simp add: partition_point_le)
    show "bps ! k < a" if "k < i" for k
      using that pp nth_before_partition_point [of k "\<lambda>b. b < a" bps] by simp
    show "a < bps ! k" if k: "i \<le> k" "k < length bps" for k
    proof -
      have "\<not> bps ! i < a" using pp k nth_at_partition_point [of "\<lambda>b. b < a" bps] by simp
      moreover have "bps ! i \<noteq> a"
        using i pp k by (auto simp: binary_search_def Let_def nth_opt_def split: if_splits)
      ultimately have "a < bps ! i" by simp
      also have "bps ! i \<le> bps ! k"
        using k sorted_wrt_nth_less [OF 1(2), of i k] by (cases "i = k") auto
      finally show ?thesis .
    qed
  qed
  with 1 show ?case by (auto split: sum.splits)
qed

lemma debug_inv_disarm_break: "debug_inv d \<Longrightarrow> debug_inv (disarm_break a d)"
  unfolding disarm_break_def
  by (erule debug_inv_mutate) (auto simp: sorted_wrt_remove_at split: sum.splits)

lemma debug_inv_arm_watch: "debug_inv d \<Longrightarrow> debug_inv (arm_watch b n k d)"
  unfolding arm_watch_def by (auto elim!: debug_inv_mutate)

lemma filter_same_length: "length (filter P xs) = length xs \<Longrightarrow> filter P xs = xs"
  by (metis length_filter_less less_irrefl filter_True)

lemma debug_inv_disarm_watch: "debug_inv d \<Longrightarrow> debug_inv (disarm_watch b d)"
  unfolding disarm_watch_def
  by (erule debug_inv_mutate) (auto simp: Let_def dest!: filter_same_length)

lemma debug_inv_frame:
  "debug_inv d \<Longrightarrow> debug_inv (note_watch_hit a k d)"
  "debug_inv d \<Longrightarrow> debug_inv (snd (take_watch_hit d))"
  "debug_inv d \<Longrightarrow> debug_inv (request r d)"
  "debug_inv d \<Longrightarrow> debug_inv (snd (take_request d))"
  "debug_inv d \<Longrightarrow> debug_inv (set_break_at_step n d)"
  by (auto simp: debug_inv_def note_watch_hit_def take_watch_hit_def request_def
      take_request_def set_break_at_step_def Let_def split: option.splits)

text \<open>Every control block a program can obtain: created by a constructor, changed by methods.\<close>

inductive debug_reachable :: "debug \<Rightarrow> bool" where
  created: "debug_reachable (debug_new b)"
| arm_break: "debug_reachable d \<Longrightarrow> debug_reachable (arm_break a d)"
| disarm_break: "debug_reachable d \<Longrightarrow> debug_reachable (disarm_break a d)"
| arm_watch: "debug_reachable d \<Longrightarrow> debug_reachable (arm_watch a n k d)"
| disarm_watch: "debug_reachable d \<Longrightarrow> debug_reachable (disarm_watch a d)"
| note_watch_hit: "debug_reachable d \<Longrightarrow> debug_reachable (note_watch_hit a k d)"
| take_watch_hit: "debug_reachable d \<Longrightarrow> debug_reachable (snd (take_watch_hit d))"
| request: "debug_reachable d \<Longrightarrow> debug_reachable (request r d)"
| take_request: "debug_reachable d \<Longrightarrow> debug_reachable (snd (take_request d))"
| set_break_at_step: "debug_reachable d \<Longrightarrow> debug_reachable (set_break_at_step s d)"

lemma debug_reachable_inv: "debug_reachable d \<Longrightarrow> debug_inv d"
  by (induction rule: debug_reachable.induct)
    (auto intro: debug_inv_new debug_inv_arm_break debug_inv_disarm_break debug_inv_arm_watch
      debug_inv_disarm_watch debug_inv_frame)

section \<open>The fast paths answer like the lists\<close>

lemma first_not_below:
  assumes "sorted_wrt (<) (xs :: u64 list)"
  shows "nth_opt xs (partition_point (\<lambda>a. a < x) xs) =
    (if {b \<in> set xs. x \<le> b} = {} then None else Some (Min {b \<in> set xs. x \<le> b}))"
proof -
  let ?i = "partition_point (\<lambda>a. a < x) xs"
  have below: "xs ! k < x" if "k < ?i" for k
    using that nth_before_partition_point [of k "\<lambda>a. a < x" xs] by simp
  have above: "xs ! ?i \<le> xs ! k" if "?i \<le> k" "k < length xs" for k
    using that sorted_wrt_nth_less [OF assms, of ?i k] by (cases "?i = k") auto
  show ?thesis
  proof (cases "?i < length xs")
    case True
    then have x: "x \<le> xs ! ?i" using nth_at_partition_point [of "\<lambda>a. a < x" xs] by simp
    have "xs ! ?i \<le> b" if "b \<in> set xs" "x \<le> b" for b
      using that below above by (metis in_set_conv_nth leD not_le_imp_less)
    then have "Min {b \<in> set xs. x \<le> b} = xs ! ?i"
      using x True by (intro Min_eqI) auto
    moreover have "xs ! ?i \<in> {b \<in> set xs. x \<le> b}" using x True by simp
    ultimately show ?thesis using True by (auto simp: nth_opt_def simp del: mem_Collect_eq)
  next
    case False
    then have "xs ! k < x" if "k < length xs" for k
      using that by (intro below) simp
    then have "\<forall>b \<in> set xs. b < x" by (metis in_set_conv_nth)
    then have "{b \<in> set xs. x \<le> b} = {}" by force
    with False show ?thesis by (simp add: nth_opt_def)
  qed
qed

lemma any_watchpoints_iff:
  "debug_inv d \<Longrightarrow> any_watchpoints d \<longleftrightarrow> dbg_attached d \<and> dbg_watchpoints d \<noteq> []"
  using wp_filter.empty_iff [of "dbg_watchpoints d"]
  by (auto simp: any_watchpoints_def debug_inv_def watchpoint_filter_def)

lemma any_breakpoints_iff:
  "debug_inv d \<Longrightarrow> any_breakpoints d \<longleftrightarrow> dbg_attached d \<and> dbg_breakpoints d \<noteq> []"
  using bp_filter.empty_iff [of "dbg_breakpoints d"]
  by (auto simp: any_breakpoints_def debug_inv_def breakpoint_filter_def)

lemma overlap_point:
  assumes "watchpoint_overlaps w a n" "wp_len w \<noteq> 0"
  obtains x where "a \<le> x" "x \<le> saturating_add a (n - 1)"
    "wp_base w \<le> x" "x \<le> saturating_add (wp_base w) (wp_len w - 1)"
proof -
  have n0: "n \<noteq> 0" and lt: "a < saturating_add (wp_base w) (wp_len w)"
    "wp_base w < saturating_add a n"
    using assms(1) by (auto simp: watchpoint_overlaps_def Let_def split: if_splits)
  have last: "a \<le> saturating_add b (l - 1)" if "a < saturating_add b l" "l \<noteq> 0" for a b l
  proof -
    from that have "unat a < min (unat b + unat l) (2 ^ 64 - 1)"
      by (simp add: word_less_unat unat_saturating_add)
    then have "unat a \<le> min (unat b + (unat l - 1)) (2 ^ 64 - 1)" by linarith
    with that show ?thesis by (simp add: word_le_unat unat_saturating_add unat_pred)
  qed
  have ends: "a \<le> saturating_add (wp_base w) (wp_len w - 1)" "wp_base w \<le> saturating_add a (n - 1)"
    using last [OF lt(1) assms(2)] last [OF lt(2) n0] .
  show ?thesis
  proof (cases "a \<le> wp_base w")
    case True
    then show ?thesis using ends le_span_end by (intro that [of "wp_base w"]) auto
  next
    case False
    then show ?thesis using ends le_span_end by (intro that [of a]) auto
  qed
qed

lemma access_may_hit_complete:
  assumes "w \<in> set ws" "watchpoint_overlaps w a n" "wp_len w \<noteq> 0"
  shows "access_may_hit (watchpoint_filter ws) a n"
proof -
  obtain x where x: "a \<le> x" "x \<le> saturating_add a (n - 1)"
    "wp_base w \<le> x" "x \<le> saturating_add (wp_base w) (wp_len w - 1)"
    using overlap_point [OF assms(2,3)] .
  let ?p = "drop_bit WATCH_PAGE_SHIFT x"
  have "bits_within (bloom_bits ?p) (watchpoint_filter ws)"
    using watch_bits_page [OF assms(3) x(3,4)] wp_filter.member_within [OF assms(1)]
    by (auto simp: bits_within_iff watchpoint_filter_def)
  moreover have "?p \<in> set (word_range (drop_bit WATCH_PAGE_SHIFT a)
      (drop_bit WATCH_PAGE_SHIFT (saturating_add a (n - 1))))"
    using x by (simp add: set_word_range page_mono)
  ultimately show ?thesis
    by (auto simp: access_may_hit_def watch_pages_def list_ex_iff bits_within_def)
qed

text \<open>
  C8: In every reachable state of the debug control block the filtered query
  \<open>is_watched\<close> gives the answer of a scan of the armed watchpoints: the page filter and the
  64-page shortcut never hide a watchpoint that the access overlaps.
\<close>

theorem is_watched_exact:
  assumes "debug_reachable d"
  shows "is_watched d addr len kind \<longleftrightarrow>
    dbg_attached d \<and> len \<noteq> 0 \<and>
    (\<exists>w \<in> set (dbg_watchpoints d). watch_kind_covers (wp_kind w) kind \<and>
       watchpoint_overlaps w addr len)"
proof -
  have inv: "debug_inv d" using assms by (rule debug_reachable_inv)
  have "access_may_hit (dbg_wp_filter d) addr len \<and> dbg_wp_filter d \<noteq> 0"
    if "w \<in> set (dbg_watchpoints d)" "watchpoint_overlaps w addr len" for w
    using inv that access_may_hit_complete [OF that]
      wp_filter.empty_iff [of "dbg_watchpoints d"]
    by (auto simp: debug_inv_def watchpoint_filter_def)
  then show ?thesis by (auto simp: is_watched_def list_ex_iff)
qed

definition demo_debug :: debug where
  "demo_debug = arm_watch 0x1FFC 8 WkWrite (arm_break 0x400010 (debug_new True))"

lemma demo_debug_reachable: "debug_reachable demo_debug"
  unfolding demo_debug_def by (intro debug_reachable.intros)

theorem is_watched_exact_witness:
  "debug_reachable demo_debug \<and> is_watched demo_debug 0x2000 4 WkWrite"
proof -
  have "dbg_watchpoints demo_debug = [\<lparr>wp_base = 0x1FFC, wp_len = 8, wp_kind = WkWrite\<rparr>]"
    "dbg_attached demo_debug"
    by (simp_all add: demo_debug_def arm_watch_def arm_break_def debug_mutate_def debug_new_def
        Let_def binary_search_def partition_point_def nth_opt_def)
  then show ?thesis
    using is_watched_exact [OF demo_debug_reachable, of "0x2000" 4 WkWrite] demo_debug_reachable
    by (simp add: watch_kind_covers_def watchpoint_overlaps_def saturating_add_def)
qed

text \<open>
  In every reachable state the filtered, binary-searched breakpoint query is membership
  in the armed set, and \<open>next_break_at_or_after\<close> returns the least armed address that is not
  below the given one (the bound the block compiler stops a block at).
\<close>

theorem break_queries_exact:
  assumes "debug_reachable d"
  shows "(is_break d addr \<longleftrightarrow> addr \<in> set (breakpoints d)) \<and>
    next_break_at_or_after d addr =
      (if {b \<in> set (breakpoints d). addr \<le> b} = {} then None
       else Some (Min {b \<in> set (breakpoints d). addr \<le> b}))"
proof -
  have inv: "debug_inv d" using assms by (rule debug_reachable_inv)
  then have sorted: "sorted_wrt (<) (dbg_breakpoints d)" by (simp add: debug_inv_def)
  have "is_break d addr \<longleftrightarrow> addr \<in> set (breakpoints d)"
  proof (cases "dbg_attached d \<and> addr \<in> set (dbg_breakpoints d)")
    case True
    then have "bits_within (bloom_bits addr) (dbg_bp_filter d)"
      using inv bp_filter.member_within [of addr "dbg_breakpoints d"]
      by (simp add: debug_inv_def breakpoint_filter_def)
    with True show ?thesis
      using binary_search_sorted [OF sorted, of addr]
      by (auto simp: is_break_def breakpoints_def bits_within_def)
  next
    case False
    then show ?thesis
      using binary_search_sorted [OF sorted, of addr]
      by (auto simp: is_break_def breakpoints_def split: sum.splits)
  qed
  moreover have "next_break_at_or_after d addr =
      (if {b \<in> set (breakpoints d). addr \<le> b} = {} then None
       else Some (Min {b \<in> set (breakpoints d). addr \<le> b}))"
    using first_not_below [OF sorted, of addr] any_breakpoints_iff [OF inv]
    by (auto simp: next_break_at_or_after_def breakpoints_def nth_opt_def)
  ultimately show ?thesis by blast
qed

theorem break_queries_exact_witness:
  "is_break demo_debug 0x400010 \<and> next_break_at_or_after demo_debug 0x400000 = Some 0x400010"
proof -
  have b: "breakpoints demo_debug = [0x400010]"
    by (simp add: demo_debug_def arm_watch_def arm_break_def debug_mutate_def debug_new_def
        Let_def binary_search_def partition_point_def nth_opt_def breakpoints_def insert_at_def)
  have "{x \<in> set [0x400010 :: u64]. 0x400000 \<le> x} = {0x400010}" by auto
  then show ?thesis
    using break_queries_exact [OF demo_debug_reachable, of "0x400010"]
      break_queries_exact [OF demo_debug_reachable, of "0x400000"] b by simp
qed

end
