(* ===== verification/Virtual_Memory.thy ===== *)
theory Virtual_Memory
  imports Guest_Memory Debug_Control
begin

text \<open>
  \<open>memory/src/lib.rs\<close>: guest memory as a sorted table of regions, each with its bytes and its
  permissions. Next to the table the object keeps an eight-slot cache of region indices
  (\<open>hints\<close>), a generation counter of the layout, and a global and a per-page generation
  of writes to executable memory, by which the block compiler knows that code it translated
  is stale. \<open>&self\<close> methods may still write the cache and the debugger's watch hit, so
  they return the memory as well.

  The allocator is not part of the repository: whether it grants a region of a given size is
  the parameter \<open>alloc\<close>.
\<close>

section \<open>State\<close>

record mapped =
  mp_region :: region
  mp_bytes :: bytes

definition mapped_end :: "mapped \<Rightarrow> u64" where
  "mapped_end m = region_end (mp_region m)"

type_synonym hint_slot = "3 word"

record vmem =
  vm_regions :: "mapped list"
  vm_code_gen :: u64
  vm_page_gen :: "u64 \<Rightarrow> u64 option"
  vm_hints :: "hint_slot \<Rightarrow> nat"
  vm_layout_gen :: u64
  vm_debug :: "debug option"

definition vm_new :: vmem where
  "vm_new = \<lparr>vm_regions = [], vm_code_gen = 0, vm_page_gen = (\<lambda>_. None),
     vm_hints = (\<lambda>_. 0), vm_layout_gen = 0, vm_debug = None\<rparr>"

definition zeroed :: "(u64 \<Rightarrow> bool) \<Rightarrow> u64 \<Rightarrow> stop + bytes" where
  "zeroed alloc sz =
     (if alloc sz then Inr (replicate (unat sz) 0)
      else Inl (Err (Unsupported (''cannot back a '' @ fmt_hex (unat sz) @ ''-byte region''))))"

definition vm_set_debug :: "debug \<Rightarrow> vmem \<Rightarrow> vmem" where
  "vm_set_debug d m = m\<lparr>vm_debug := (if dbg_attached d then Some d else None)\<rparr>"

section \<open>Bookkeeping\<close>

definition record_watch_hit :: "debug \<Rightarrow> u64 \<Rightarrow> nat \<Rightarrow> watch_kind \<Rightarrow> debug" where
  "record_watch_hit d addr len kind =
     (if is_watched d addr (of_nat len) kind then note_watch_hit addr kind d else d)"

definition note_watched_access :: "u64 \<Rightarrow> nat \<Rightarrow> watch_kind \<Rightarrow> vmem \<Rightarrow> vmem" where
  "note_watched_access addr len kind m =
     (case vm_debug m of
        None \<Rightarrow> m
      | Some d \<Rightarrow>
          if \<not> any_watchpoints d then m
          else m\<lparr>vm_debug := Some (record_watch_hit d addr len kind)\<rparr>)"

definition bump_page :: "u64 \<Rightarrow> (u64 \<Rightarrow> u64 option) \<Rightarrow> (u64 \<Rightarrow> u64 option)" where
  "bump_page page g =
     (let key = page * CODE_PAGE_SIZE in
      g(key \<mapsto> (case g key of None \<Rightarrow> 0 | Some n \<Rightarrow> n) + 1))"

definition note_code_write :: "u64 \<Rightarrow> nat \<Rightarrow> vmem \<Rightarrow> vmem" where
  "note_code_write addr len m =
     (let lo = addr div CODE_PAGE_SIZE;
          hi = (addr + (of_nat len - 1)) div CODE_PAGE_SIZE
      in m\<lparr>vm_code_gen := vm_code_gen m + 1,
           vm_page_gen := fold bump_page (word_range lo hi) (vm_page_gen m)\<rparr>)"

section \<open>The region table\<close>

definition overlaps :: "region \<Rightarrow> mapped \<Rightarrow> bool" where
  "overlaps r m \<longleftrightarrow> rg_base r < mapped_end m \<and> rg_base (mp_region m) < region_end r"

definition vm_insert :: "region \<Rightarrow> bytes \<Rightarrow> (vmem, unit) em" where
  "vm_insert r bytes m =
     (if rg_size r = 0 then (Inr (), m)
      else if list_ex (overlaps r) (vm_regions m) then
        (Inl (Err (Overlap (rg_base r) (rg_size r))), m)
      else
        let pos = partition_point (\<lambda>x. rg_base (mp_region x) < rg_base r) (vm_regions m) in
        (Inr (), m\<lparr>vm_regions :=
             insert_at pos \<lparr>mp_region = r, mp_bytes = bytes\<rparr> (vm_regions m),
           vm_layout_gen := vm_layout_gen m + 1\<rparr>))"

definition vm_map :: "(u64 \<Rightarrow> bool) \<Rightarrow> region \<Rightarrow> (vmem, unit) em" where
  "vm_map alloc r m =
     (case zeroed alloc (rg_size r) of
        Inl e \<Rightarrow> (Inl e, m)
      | Inr bytes \<Rightarrow> vm_insert r bytes m)"

definition vm_map_with_data ::
    "(u64 \<Rightarrow> bool) \<Rightarrow> string \<Rightarrow> u64 \<Rightarrow> u64 \<Rightarrow> bytes \<Rightarrow> perm \<Rightarrow> (vmem, unit) em" where
  "vm_map_with_data alloc name base sz0 data perm m =
     (let sz = max sz0 (of_nat (length data)) in
      case zeroed alloc sz of
        Inl e \<Rightarrow> (Inl e, m)
      | Inr bytes \<Rightarrow>
          vm_insert \<lparr>rg_name = name, rg_base = base, rg_size = sz, rg_perm = perm\<rparr>
            (blit bytes 0 data) m)"

definition hint_slot_of :: "u64 \<Rightarrow> hint_slot" where
  \<comment> \<open>\<open>((addr >> 12) as usize) & (HINT_SLOTS - 1)\<close>\<close>
  "hint_slot_of addr = ucast (drop_bit 12 addr)"

definition find_idx_slow :: "u64 \<Rightarrow> hint_slot \<Rightarrow> vmem \<Rightarrow> nat option \<times> vmem" where
  "find_idx_slow addr slot m =
     (let idx = partition_point (\<lambda>x. rg_base (mp_region x) \<le> addr) (vm_regions m) in
      if idx = 0 then (None, m)
      else if region_contains (mp_region (vm_regions m ! (idx - 1))) addr then
        (Some (idx - 1), m\<lparr>vm_hints := (vm_hints m)(slot := idx - 1)\<rparr>)
      else (None, m))"

definition find_idx :: "u64 \<Rightarrow> vmem \<Rightarrow> nat option \<times> vmem" where
  "find_idx addr m =
     (let slot = hint_slot_of addr; hint = vm_hints m slot in
      case nth_opt (vm_regions m) hint of
        Some x \<Rightarrow> if region_contains (mp_region x) addr then (Some hint, m)
                  else find_idx_slow addr slot m
      | None \<Rightarrow> find_idx_slow addr slot m)"

definition vm_locate ::
    "u64 \<Rightarrow> nat \<Rightarrow> perm \<Rightarrow> string \<Rightarrow> (vmem, nat \<times> nat \<times> nat) em" where
  "vm_locate addr len needed what m =
     (case find_idx addr m of (found, m1) \<Rightarrow>
      case found of
        None \<Rightarrow> (Inl (Err (Unmapped addr len)), m1)
      | Some idx \<Rightarrow>
          let r = mp_region (vm_regions m1 ! idx);
              start = unat (addr - rg_base r);
              end = start + len
          in if \<not> (end < 2 ^ 64 \<and> end \<le> unat (rg_size r))
             then (Inl (Err (Unmapped addr len)), m1)
             else if \<not> perm_contains (rg_perm r) needed
             then (Inl (Err (Permission addr what)), m1)
             else (Inr (idx, start, end), m1))"

definition set_bytes :: "nat \<Rightarrow> (bytes \<Rightarrow> bytes) \<Rightarrow> vmem \<Rightarrow> vmem" where
  "set_bytes idx f m =
     m\<lparr>vm_regions := (vm_regions m)[idx := (vm_regions m ! idx)
         \<lparr>mp_bytes := f (mp_bytes (vm_regions m ! idx))\<rparr>]\<rparr>"

definition is_exec_region :: "vmem \<Rightarrow> nat \<Rightarrow> bool" where
  "is_exec_region m idx =
     perm_contains (rg_perm (mp_region (vm_regions m ! idx))) PERM_EXEC"

definition vm_poke :: "u64 \<Rightarrow> bytes \<Rightarrow> (vmem, unit) em" where
  "vm_poke addr data m =
     (if data = [] then (Inr (), m)
      else case find_idx addr m of (found, m1) \<Rightarrow>
        case found of
          None \<Rightarrow> (Inl (Err (Unmapped addr (length data))), m1)
        | Some idx \<Rightarrow>
            let r = mp_region (vm_regions m1 ! idx);
                start = unat (addr - rg_base r);
                end = start + length data
            in if \<not> (end < 2 ^ 64 \<and> end \<le> unat (rg_size r))
               then (Inl (Err (Unmapped addr (length data))), m1)
               else let m2 = set_bytes idx (\<lambda>b. blit b start data) m1 in
                 (Inr (), if is_exec_region m1 idx
                          then note_code_write addr (length data) m2 else m2))"

section \<open>The methods of the trait\<close>

definition vm_read :: "u64 \<Rightarrow> nat \<Rightarrow> (vmem, bytes) em" where
  "vm_read addr len =
     (if len = 0 then em_return []
      else em_bind (vm_locate addr len PERM_READ ''read'') (\<lambda>(idx, start, end).
           em_bind (em_get (\<lambda>m. subslice (mp_bytes (vm_regions m ! idx)) start end)) (\<lambda>buf.
           em_bind (em_mod (note_watched_access addr len WkRead)) (\<lambda>_.
           em_return buf))))"

definition vm_fetch :: "u64 \<Rightarrow> nat \<Rightarrow> (vmem, bytes) em" where
  "vm_fetch addr len =
     (if len = 0 then em_return []
      else em_bind (vm_locate addr len PERM_EXEC ''execute'') (\<lambda>(idx, start, end).
           em_get (\<lambda>m. subslice (mp_bytes (vm_regions m ! idx)) start end)))"

definition vm_write :: "u64 \<Rightarrow> bytes \<Rightarrow> (vmem, unit) em" where
  "vm_write addr data =
     (if data = [] then em_return ()
      else em_bind (vm_locate addr (length data) PERM_WRITE ''write'') (\<lambda>(idx, start, end).
           em_bind (em_get (\<lambda>m. is_exec_region m idx)) (\<lambda>is_exec.
           em_bind (em_mod (set_bytes idx (\<lambda>b. blit b start data))) (\<lambda>_.
           em_bind (em_when is_exec (em_mod (note_code_write addr (length data)))) (\<lambda>_.
           em_mod (note_watched_access addr (length data) WkWrite))))))"

definition uint_size :: "nat \<Rightarrow> bool" where
  "uint_size sz \<longleftrightarrow> sz = 1 \<or> sz = 2 \<or> sz = 4 \<or> sz = 8"

definition vm_read_uint :: "u64 \<Rightarrow> nat \<Rightarrow> (vmem, u64) em" where
  "vm_read_uint addr sz =
     (if \<not> uint_size sz then em_fail (bad_read_size sz)
      else em_bind (vm_locate addr sz PERM_READ ''read'') (\<lambda>(idx, start, end).
           em_bind (em_get (\<lambda>m. subslice (mp_bytes (vm_regions m ! idx)) start end)) (\<lambda>b.
           em_bind (em_mod (note_watched_access addr sz WkRead)) (\<lambda>_.
           em_return
             (if sz = 1 then ucast (b ! 0)
              else if sz = 2 then ucast (from_le [b ! 0, b ! 1] :: u16)
              else if sz = 4 then ucast (from_le [b ! 0, b ! 1, b ! 2, b ! 3] :: u32)
              else from_le [b ! 0, b ! 1, b ! 2, b ! 3, b ! 4, b ! 5, b ! 6, b ! 7])))))"

definition vm_write_uint :: "u64 \<Rightarrow> nat \<Rightarrow> u64 \<Rightarrow> (vmem, unit) em" where
  "vm_write_uint addr sz v =
     (if \<not> uint_size sz then em_fail (bad_write_size sz)
      else em_bind (vm_locate addr sz PERM_WRITE ''write'') (\<lambda>(idx, start, end).
           em_bind (em_get (\<lambda>m. is_exec_region m idx)) (\<lambda>is_exec.
           em_bind (em_mod (set_bytes idx (\<lambda>b. blit b start
             (if sz = 1 then [ucast v]
              else if sz = 2 then to_le 2 (ucast v :: u16)
              else if sz = 4 then to_le 4 (ucast v :: u32)
              else to_le 8 v)))) (\<lambda>_.
           em_bind (em_when is_exec (em_mod (note_code_write addr sz))) (\<lambda>_.
           em_mod (note_watched_access addr sz WkWrite))))))"

definition vm_map_fixed ::
    "(u64 \<Rightarrow> bool) \<Rightarrow> u64 \<Rightarrow> u64 \<Rightarrow> perm \<Rightarrow> string \<Rightarrow> (vmem, unit) em" where
  "vm_map_fixed alloc base sz perm name =
     vm_map alloc \<lparr>rg_name = name, rg_base = base, rg_size = sz, rg_perm = perm\<rparr>"

definition set_perm :: "nat \<Rightarrow> perm \<Rightarrow> vmem \<Rightarrow> vmem" where
  "set_perm idx perm m =
     m\<lparr>vm_regions := (vm_regions m)[idx := (vm_regions m ! idx)
         \<lparr>mp_region := (mp_region (vm_regions m ! idx))\<lparr>rg_perm := perm\<rparr>\<rparr>]\<rparr>"

definition vm_protect :: "u64 \<Rightarrow> u64 \<Rightarrow> perm \<Rightarrow> (vmem, perm) em" where
  "vm_protect base sz perm m =
     (case find_idx base m of (found, m1) \<Rightarrow>
      case found of
        None \<Rightarrow> (Inl (Err (Unmapped base (unat sz))), m1)
      | Some idx \<Rightarrow>
          let old = rg_perm (mp_region (vm_regions m1 ! idx)); m2 = set_perm idx perm m1 in
          (Inr old, m2\<lparr>vm_layout_gen := vm_layout_gen m2 + 1\<rparr>))"

definition vm_unmap :: "u64 \<Rightarrow> u64 \<Rightarrow> (vmem, unit) em" where
  "vm_unmap base sz m0 =
     (let m = m0\<lparr>vm_layout_gen := vm_layout_gen m0 + 1\<rparr> in
      if sz = 0 then
        case position (\<lambda>x. rg_base (mp_region x) = base) (vm_regions m) of
          Some pos \<Rightarrow> (Inr (), m\<lparr>vm_regions := remove_at pos (vm_regions m)\<rparr>)
        | None \<Rightarrow> (Inr (), m)
      else
        let end = saturating_add base sz in
        (Inr (), m\<lparr>vm_regions :=
           filter (\<lambda>x. \<not> (rg_base (mp_region x) \<ge> base \<and> mapped_end x \<le> end))
             (vm_regions m)\<rparr>))"

definition vm_next_region :: "vmem \<Rightarrow> u64 \<Rightarrow> (u64 \<times> u64 \<times> perm) option" where
  "vm_next_region m addr =
     map_option (\<lambda>x. (rg_base (mp_region x), rg_size (mp_region x), rg_perm (mp_region x)))
       (List.find (\<lambda>x. mapped_end x > addr) (vm_regions m))"

definition vm_watchpoints_armed :: "vmem \<Rightarrow> bool" where
  "vm_watchpoints_armed m = (case vm_debug m of None \<Rightarrow> False | Some d \<Rightarrow> any_watchpoints d)"

definition vm_host_span :: "u64 \<Rightarrow> nat \<Rightarrow> perm \<Rightarrow> vmem \<Rightarrow> bytes option \<times> vmem" where
  "vm_host_span addr len needed m =
     (if len = 0 \<or> vm_watchpoints_armed m then (None, m)
      else case vm_locate addr len needed ''read'' m of (r, m1) \<Rightarrow>
        (case r of Inl e \<Rightarrow> None
         | Inr (idx, start, end) \<Rightarrow> Some (subslice (mp_bytes (vm_regions m1 ! idx)) start end), m1))"

definition vm_host_span_mut :: "u64 \<Rightarrow> nat \<Rightarrow> perm \<Rightarrow> vmem \<Rightarrow> (nat \<times> nat \<times> nat) option \<times> vmem" where
  \<comment> \<open>the borrowed range \<open>regions[idx].bytes[start..end]\<close> the caller may write\<close>
  "vm_host_span_mut addr len needed m =
     (if len = 0 \<or> vm_watchpoints_armed m then (None, m)
      else case vm_locate addr len needed ''write'' m of (r, m1) \<Rightarrow>
        (case r of Inl e \<Rightarrow> None
         | Inr (idx, start, end) \<Rightarrow> if is_exec_region m1 idx then None else Some (idx, start, end), m1))"

definition vm_code_page_generation :: "vmem \<Rightarrow> u64 \<Rightarrow> u64" where
  "vm_code_page_generation m addr =
     (let page = (addr div CODE_PAGE_SIZE) * CODE_PAGE_SIZE in
      case vm_page_gen m page of None \<Rightarrow> 0 | Some n \<Rightarrow> n)"

definition vm_mapped_bytes :: "vmem \<Rightarrow> u64" where
  "vm_mapped_bytes m = sum_list (map (\<lambda>x. rg_size (mp_region x)) (vm_regions m))"

definition vm_ops :: "(u64 \<Rightarrow> bool) \<Rightarrow> vmem memory_ops" where
  "vm_ops alloc =
     \<lparr>mo_read = vm_read, mo_write = vm_write, mo_fetch = vm_fetch,
      mo_read_uint = vm_read_uint, mo_write_uint = vm_write_uint,
      mo_map_fixed = vm_map_fixed alloc, mo_protect = vm_protect, mo_unmap = vm_unmap,
      mo_next_region = vm_next_region, mo_layout_generation = vm_layout_gen,
      mo_watchpoints_armed = vm_watchpoints_armed, mo_code_generation = vm_code_gen,
      mo_code_page_generation = vm_code_page_generation\<rparr>"

end
