(* ===== verification/Memory_Laws.thy ===== *)
theory Memory_Laws
  imports Virtual_Memory
begin

text \<open>
  The region table is kept sorted, disjoint and backed by exactly its bytes; under that
  invariant the cached lookup is a search of the table, every access is the access the
  address-space contract \<open>guest_memory\<close> describes, and \<open>VirtualMemory\<close> interprets it.
\<close>

section \<open>The invariant\<close>

definition region_ok :: "mapped \<Rightarrow> bool" where
  "region_ok x \<longleftrightarrow> rg_size (mp_region x) \<noteq> 0 \<and> length (mp_bytes x) = unat (rg_size (mp_region x))"

definition below_top :: "region \<Rightarrow> bool" where
  "below_top r \<longleftrightarrow> unat (rg_base r) + unat (rg_size r) < 2 ^ 64"

definition table_ok :: "mapped list \<Rightarrow> bool" where
  "table_ok rs \<longleftrightarrow>
     sorted_wrt (\<lambda>x y. mapped_end x \<le> rg_base (mp_region y)) rs \<and> (\<forall>x \<in> set rs. region_ok x)"

definition table_below_top :: "mapped list \<Rightarrow> bool" where
  "table_below_top rs \<longleftrightarrow> (\<forall>x \<in> set rs. below_top (mp_region x))"

definition vm_inv :: "vmem \<Rightarrow> bool" where
  "vm_inv m \<longleftrightarrow> table_ok (vm_regions m) \<and>
     (\<forall>d. vm_debug m = Some d \<longrightarrow> debug_inv d \<and> dbg_attached d)"

definition vm_ok :: "vmem \<Rightarrow> bool" where
  "vm_ok m \<longleftrightarrow> vm_inv m \<and> table_below_top (vm_regions m)"

section \<open>Lookup\<close>

abbreviation in_region :: "u64 \<Rightarrow> mapped \<Rightarrow> bool" where
  "in_region a x \<equiv> region_contains (mp_region x) a"

lemma position_Some:
  "position P xs = Some i \<longleftrightarrow> i < length xs \<and> P (xs ! i) \<and> (\<forall>k < i. \<not> P (xs ! k))"
proof -
  let ?t = "length (takeWhile (\<lambda>x. \<not> P x) xs)"
  have before: "\<not> P (xs ! k)" if "k < ?t" for k
    using that by (metis nth_mem set_takeWhileD takeWhile_nth)
  have at: "?t < length xs \<Longrightarrow> P (xs ! ?t)"
    using nth_length_takeWhile [of "\<lambda>x. \<not> P x" xs] by simp
  show ?thesis
  proof
    assume "position P xs = Some i"
    then have "?t = i" "i < length xs" by (auto simp: position_def Let_def split: if_splits)
    with before at show "i < length xs \<and> P (xs ! i) \<and> (\<forall>k < i. \<not> P (xs ! k))" by auto
  next
    assume r: "i < length xs \<and> P (xs ! i) \<and> (\<forall>k < i. \<not> P (xs ! k))"
    then have "\<not> i < ?t" using before by auto
    moreover have "\<not> ?t < i" using r at by auto
    ultimately have "?t = i" by simp
    with r show "position P xs = Some i" by (simp add: position_def)
  qed
qed

lemma position_None: "position P xs = None \<longleftrightarrow> (\<forall>x \<in> set xs. \<not> P x)"
proof -
  have "position P xs = None \<longleftrightarrow> \<not> length (takeWhile (\<lambda>x. \<not> P x) xs) < length xs"
    by (simp add: position_def Let_def)
  also have "\<dots> \<longleftrightarrow> (\<forall>x \<in> set xs. \<not> P x)"
  proof
    assume "\<not> length (takeWhile (\<lambda>x. \<not> P x) xs) < length xs"
    then have "takeWhile (\<lambda>x. \<not> P x) xs = xs"
      using takeWhile_eq_take [of "\<lambda>x. \<not> P x" xs] by (metis not_less take_all)
    then show "\<forall>x \<in> set xs. \<not> P x" by (simp add: takeWhile_eq_all_conv)
  next
    assume "\<forall>x \<in> set xs. \<not> P x"
    then show "\<not> length (takeWhile (\<lambda>x. \<not> P x) xs) < length xs"
      by (simp add: takeWhile_eq_all_conv [THEN iffD2])
  qed
  finally show ?thesis .
qed

lemma position_map: "position (\<lambda>x. P (f x)) xs = position P (map f xs)"
  by (simp add: position_def takeWhile_map comp_def)

lemma region_end_gt_base: "region_ok x \<Longrightarrow> rg_base (mp_region x) \<noteq> - 1 \<Longrightarrow>
    rg_base (mp_region x) < mapped_end x"
proof -
  assume ok: "region_ok x" "rg_base (mp_region x) \<noteq> - 1"
  have "unat (rg_size (mp_region x)) > 0"
    using ok(1) by (simp add: region_ok_def unat_gt_0)
  moreover have "unat (rg_base (mp_region x)) < 2 ^ 64 - 1"
  proof -
    have "unat (rg_base (mp_region x)) \<noteq> unat (- 1 :: u64)"
      using ok(2) by (metis unsigned_word_eqI)
    then show ?thesis
      using unat_bound64 [of "rg_base (mp_region x)"]
      by (simp add: unsigned_minus_1_eq_mask mask_eq_exp_minus_1)
  qed
  ultimately show ?thesis by (simp add: word_less_unat mapped_end_def unat_region_end)
qed

lemma table_sorted:
  "table_ok rs \<Longrightarrow> i < j \<Longrightarrow> j < length rs \<Longrightarrow> mapped_end (rs ! i) \<le> rg_base (mp_region (rs ! j))"
  using sorted_wrt_nth_less [of "\<lambda>x y. mapped_end x \<le> rg_base (mp_region y)" rs i j]
  by (simp add: table_ok_def)

lemma base_le_mapped_end: "rg_base (mp_region x) \<le> mapped_end x"
  by (simp add: mapped_end_def region_base_le_end)

lemma table_bases_sorted:
  "table_ok rs \<Longrightarrow> i \<le> j \<Longrightarrow> j < length rs \<Longrightarrow>
    rg_base (mp_region (rs ! i)) \<le> rg_base (mp_region (rs ! j))"
  using table_sorted [of rs i j] base_le_mapped_end [of "rs ! i"]
  by (cases "i = j") (auto intro: order_trans)

lemma in_region_iff: "in_region a x \<longleftrightarrow> rg_base (mp_region x) \<le> a \<and> a < mapped_end x"
  by (simp add: region_contains_end mapped_end_def)

lemma in_region_unique:
  assumes "table_ok rs" "i < length rs" "j < length rs" "in_region a (rs ! i)" "in_region a (rs ! j)"
  shows "i = j"
proof -
  have apart: "\<not> i < j"
    if "j < length rs" "in_region a (rs ! i)" "in_region a (rs ! j)" for i j
  proof
    assume "i < j"
    then have "mapped_end (rs ! i) \<le> rg_base (mp_region (rs ! j))"
      using table_sorted [OF assms(1)] that(1) by blast
    with that(2,3) show False unfolding in_region_iff by (meson leD order_trans)
  qed
  from apart [OF assms(3,4,5)] apart [OF assms(2,5,4)] show ?thesis by simp
qed

lemma position_in_region:
  assumes "table_ok rs" "i < length rs" "in_region a (rs ! i)"
  shows "position (in_region a) rs = Some i"
proof -
  have "\<not> in_region a (rs ! k)" if "k < i" for k
    using that assms(2,3) in_region_unique [OF assms(1), of k i a] by linarith
  with assms(2,3) show ?thesis by (simp add: position_Some)
qed

lemma find_idx_slow_ref:
  assumes "table_ok (vm_regions m)"
  shows "fst (find_idx_slow a slot m) = position (in_region a) (vm_regions m)"
proof -
  let ?rs = "vm_regions m"
  let ?idx = "partition_point (\<lambda>x. rg_base (mp_region x) \<le> a) ?rs"
  have le: "?idx \<le> length ?rs" by (rule partition_point_le)
  have after: "\<not> rg_base (mp_region (?rs ! k)) \<le> a" if "?idx \<le> k" "k < length ?rs" for k
  proof -
    have "\<not> rg_base (mp_region (?rs ! ?idx)) \<le> a"
      using that nth_at_partition_point [of "\<lambda>x. rg_base (mp_region x) \<le> a" ?rs] by simp
    with table_bases_sorted [OF assms that] show ?thesis by auto
  qed
  have earlier: "k = ?idx - 1" if "k < length ?rs" "in_region a (?rs ! k)" for k
  proof -
    have "k < ?idx" using that after by (metis in_region_iff not_le_imp_less)
    moreover have "\<not> k < ?idx - 1"
    proof
      assume k: "k < ?idx - 1"
      then have "rg_base (mp_region (?rs ! (?idx - 1))) \<le> a"
        using nth_before_partition_point [of "?idx - 1" "\<lambda>x. rg_base (mp_region x) \<le> a" ?rs] by simp
      moreover have "mapped_end (?rs ! k) \<le> rg_base (mp_region (?rs ! (?idx - 1)))"
        using table_sorted [OF assms k] le k by linarith
      ultimately show False using that by (auto simp: in_region_iff)
    qed
    ultimately show ?thesis by linarith
  qed
  show ?thesis
  proof (cases "?idx \<noteq> 0 \<and> in_region a (?rs ! (?idx - 1))")
    case True
    then have "position (in_region a) ?rs = Some (?idx - 1)"
      using le by (intro position_in_region [OF assms]) auto
    with True show ?thesis by (simp add: find_idx_slow_def Let_def)
  next
    case False
    then have "\<not> in_region a (?rs ! k)" if "k < length ?rs" for k
      using that earlier after by (metis in_region_iff le0 neq0_conv)
    then have "position (in_region a) ?rs = None"
      by (simp add: position_None) (metis in_set_conv_nth)
    with False show ?thesis by (auto simp: find_idx_slow_def Let_def)
  qed
qed

lemma find_idx_ref:
  assumes "table_ok (vm_regions m)"
  shows "fst (find_idx a m) = position (in_region a) (vm_regions m)"
proof (cases "nth_opt (vm_regions m) (vm_hints m (hint_slot_of a))")
  case None
  then show ?thesis by (simp add: find_idx_def Let_def find_idx_slow_ref assms)
next
  case (Some x)
  then have "vm_hints m (hint_slot_of a) < length (vm_regions m)"
    "vm_regions m ! vm_hints m (hint_slot_of a) = x"
    by (auto simp: nth_opt_def split: if_splits)
  with Some show ?thesis
    using position_in_region [OF assms]
    by (auto simp: find_idx_def Let_def find_idx_slow_ref assms)
qed

lemma find_idx_hints: "\<exists>h. snd (find_idx a m) = m\<lparr>vm_hints := h\<rparr>"
proof -
  have same: "\<exists>h. m = m\<lparr>vm_hints := h\<rparr>" by (rule exI [of _ "vm_hints m"]) simp
  have "\<exists>h. snd (find_idx_slow a slot m) = m\<lparr>vm_hints := h\<rparr>" for slot
    using same by (auto simp: find_idx_slow_def Let_def)
  with same show ?thesis by (simp add: find_idx_def Let_def split: option.split)
qed

section \<open>Located accesses\<close>

definition locate_ref :: "mapped list \<Rightarrow> u64 \<Rightarrow> nat \<Rightarrow> perm \<Rightarrow> string \<Rightarrow> stop + nat \<times> nat \<times> nat" where
  \<comment> \<open>\<open>vm_locate\<close> with a search of the table in place of the cache\<close>
  "locate_ref rs addr len needed what =
     (case position (in_region addr) rs of
        None \<Rightarrow> Inl (Err (Unmapped addr len))
      | Some idx \<Rightarrow>
          let r = mp_region (rs ! idx); start = unat (addr - rg_base r) in
          if \<not> start + len \<le> unat (rg_size r) then Inl (Err (Unmapped addr len))
          else if \<not> needed \<le> rg_perm r then Inl (Err (Permission addr what))
          else Inr (idx, start, start + len))"

lemma vm_locate_ref:
  assumes "table_ok (vm_regions m)"
  shows "\<exists>h. vm_locate addr len needed what m =
    (locate_ref (vm_regions m) addr len needed what, m\<lparr>vm_hints := h\<rparr>)"
proof -
  obtain h where h: "snd (find_idx addr m) = m\<lparr>vm_hints := h\<rparr>" using find_idx_hints by blast
  have f: "find_idx addr m = (position (in_region addr) (vm_regions m), m\<lparr>vm_hints := h\<rparr>)"
    using h find_idx_ref [OF assms, of addr] by (metis prod.collapse)
  have lt: "unat (rg_size r) < 2 ^ 64" for r by (rule unat_bound64)
  have "n \<le> unat (rg_size r) \<longleftrightarrow> n < 2 ^ 64 \<and> n \<le> unat (rg_size r)" for n r
    using lt [of r] by linarith
  then show ?thesis
    by (auto simp: vm_locate_def f locate_ref_def Let_def less_eq_perm_def split: option.splits)
qed

definition vm_acc :: "vmem \<Rightarrow> perm \<Rightarrow> u64 \<Rightarrow> nat \<Rightarrow> bool" where
  "vm_acc m p a n \<longleftrightarrow>
     list_ex (\<lambda>x. in_region a x \<and> unat (a - rg_base (mp_region x)) + n \<le> unat (rg_size (mp_region x)) \<and>
       p \<le> rg_perm (mp_region x)) (vm_regions m)"

definition table_space :: "mapped list \<Rightarrow> space" where
  "table_space rs a =
     (case position (in_region a) rs of
        None \<Rightarrow> None
      | Some i \<Rightarrow> Some (rg_perm (mp_region (rs ! i)),
          mp_bytes (rs ! i) ! unat (a - rg_base (mp_region (rs ! i)))))"

definition vm_space :: "vmem \<Rightarrow> space" where
  "vm_space m = table_space (vm_regions m)"

lemma vm_acc_locate:
  assumes "table_ok (vm_regions m)"
  shows "vm_acc m p a n \<longleftrightarrow> (\<exists>i. locate_ref (vm_regions m) a n p w =
    Inr (i, unat (a - rg_base (mp_region (vm_regions m ! i))),
         unat (a - rg_base (mp_region (vm_regions m ! i))) + n))"
proof -
  let ?rs = "vm_regions m"
  have "vm_acc m p a n \<longleftrightarrow> (\<exists>i. position (in_region a) ?rs = Some i \<and>
      unat (a - rg_base (mp_region (?rs ! i))) + n \<le> unat (rg_size (mp_region (?rs ! i))) \<and>
      p \<le> rg_perm (mp_region (?rs ! i)))"
  proof
    assume "vm_acc m p a n"
    then obtain i where "i < length ?rs" "in_region a (?rs ! i)"
      "unat (a - rg_base (mp_region (?rs ! i))) + n \<le> unat (rg_size (mp_region (?rs ! i)))"
      "p \<le> rg_perm (mp_region (?rs ! i))"
      by (auto simp: vm_acc_def list_ex_iff in_set_conv_nth)
    with position_in_region [OF assms this(1,2)] show "\<exists>i. position (in_region a) ?rs = Some i \<and>
      unat (a - rg_base (mp_region (?rs ! i))) + n \<le> unat (rg_size (mp_region (?rs ! i))) \<and>
      p \<le> rg_perm (mp_region (?rs ! i))" by blast
  next
    assume "\<exists>i. position (in_region a) ?rs = Some i \<and>
      unat (a - rg_base (mp_region (?rs ! i))) + n \<le> unat (rg_size (mp_region (?rs ! i))) \<and>
      p \<le> rg_perm (mp_region (?rs ! i))"
    then show "vm_acc m p a n"
      by (auto simp: vm_acc_def list_ex_iff position_Some dest: nth_mem)
  qed
  then show ?thesis by (auto simp: locate_ref_def Let_def split: option.splits)
qed

lemma locate_ref_Inr:
  assumes "table_ok rs" "locate_ref rs a n p w = Inr (i, s, e)"
  shows "i < length rs" "in_region a (rs ! i)" "s = unat (a - rg_base (mp_region (rs ! i)))"
    "e = s + n" "e \<le> length (mp_bytes (rs ! i))" "p \<le> rg_perm (mp_region (rs ! i))"
proof -
  have pos: "position (in_region a) rs = Some i" and
    *: "s = unat (a - rg_base (mp_region (rs ! i)))" "e = s + n"
      "e \<le> unat (rg_size (mp_region (rs ! i)))" "p \<le> rg_perm (mp_region (rs ! i))"
    using assms(2) by (auto simp: locate_ref_def Let_def split: option.splits if_splits)
  then have i: "i < length rs" "in_region a (rs ! i)" by (auto simp: position_Some)
  have "region_ok (rs ! i)" using assms(1) i by (simp add: table_ok_def)
  with * i show "i < length rs" "in_region a (rs ! i)" "s = unat (a - rg_base (mp_region (rs ! i)))"
    "e = s + n" "e \<le> length (mp_bytes (rs ! i))" "p \<le> rg_perm (mp_region (rs ! i))"
    by (auto simp: region_ok_def)
qed

lemma locate_ref_Inl: "locate_ref rs a n p w = Inl x \<Longrightarrow> x = Err (Unmapped a n) \<or> x = Err (Permission a w)"
  by (auto simp: locate_ref_def Let_def split: option.splits if_splits)

text \<open>Addresses of a range that lies inside one region below the top of the address space.\<close>

lemma range_in_region:
  assumes "below_top (mp_region x)" "in_region a x"
    "unat (a - rg_base (mp_region x)) + n \<le> unat (rg_size (mp_region x))" "k < n"
  shows "in_region (a + of_nat k) x" "unat (a + of_nat k) = unat a + k"
    "unat (a + of_nat k - rg_base (mp_region x)) = unat (a - rg_base (mp_region x)) + k"
proof -
  let ?b = "rg_base (mp_region x)" let ?z = "rg_size (mp_region x)"
  have ba: "?b \<le> a" using assms(2) by (simp add: in_region_iff)
  then have off: "unat (a - ?b) = unat a - unat ?b" by (rule unat_minus_le)
  have top: "unat ?b + unat ?z < 2 ^ 64" using assms(1) by (simp add: below_top_def)
  have bound: "unat a + k < unat ?b + unat ?z"
    using assms(3,4) off ba by (simp add: word_le_unat)
  then show 1: "unat (a + of_nat k) = unat a + k"
    using top by (intro unat_plus_no_wrap) linarith
  have le: "?b \<le> a + of_nat k" using ba 1 by (simp add: word_le_unat)
  show "in_region (a + of_nat k) x"
    using bound 1 le top by (simp add: in_region_iff mapped_end_def word_less_unat unat_region_end)
  show "unat (a + of_nat k - ?b) = unat (a - ?b) + k"
    using ba off by (simp add: unat_minus_le [OF le] 1 word_le_unat)
qed

lemma table_space_in_region:
  assumes "table_ok rs" "i < length rs" "in_region a (rs ! i)"
  shows "table_space rs a = Some (rg_perm (mp_region (rs ! i)),
    mp_bytes (rs ! i) ! unat (a - rg_base (mp_region (rs ! i))))"
  using position_in_region [OF assms] by (simp add: table_space_def)

lemma bytes_at_region:
  assumes "table_ok rs" "below_top (mp_region (rs ! i))" "i < length rs" "in_region a (rs ! i)"
    "unat (a - rg_base (mp_region (rs ! i))) + n \<le> unat (rg_size (mp_region (rs ! i)))"
  shows "bytes_at (table_space rs) a n =
    subslice (mp_bytes (rs ! i)) (unat (a - rg_base (mp_region (rs ! i))))
      (unat (a - rg_base (mp_region (rs ! i))) + n)"
proof (rule nth_equalityI)
  have len: "length (mp_bytes (rs ! i)) = unat (rg_size (mp_region (rs ! i)))"
    using assms(1,3) by (simp add: table_ok_def region_ok_def)
  with assms(5) show "length (bytes_at (table_space rs) a n) = length (subslice (mp_bytes (rs ! i))
    (unat (a - rg_base (mp_region (rs ! i)))) (unat (a - rg_base (mp_region (rs ! i))) + n))"
    by simp
  fix k assume "k < length (bytes_at (table_space rs) a n)"
  then have k: "k < n" by simp
  show "bytes_at (table_space rs) a n ! k = subslice (mp_bytes (rs ! i))
    (unat (a - rg_base (mp_region (rs ! i)))) (unat (a - rg_base (mp_region (rs ! i))) + n) ! k"
    using k len assms(5) range_in_region [OF assms(2,4,5) k]
    by (simp add: table_space_in_region [OF assms(1,3)] nth_subslice)
qed

section \<open>Writing the bytes of a range\<close>

definition splice_at :: "mapped list \<Rightarrow> nat \<Rightarrow> nat \<Rightarrow> bytes \<Rightarrow> mapped list" where
  "splice_at rs i s bs = rs[i := (rs ! i)\<lparr>mp_bytes := blit (mp_bytes (rs ! i)) s bs\<rparr>]"

lemma map_region_splice_at [simp]: "map mp_region (splice_at rs i s bs) = map mp_region rs"
proof (cases "i < length rs")
  case True
  then show ?thesis by (simp add: splice_at_def map_update list_update_same_conv)
next
  case False
  then show ?thesis by (simp add: splice_at_def list_update_beyond)
qed

lemma length_splice_at [simp]: "length (splice_at rs i s bs) = length rs"
  by (simp add: splice_at_def)

lemma nth_splice_at:
  "k < length rs \<Longrightarrow> splice_at rs i s bs ! k =
    (if k = i then (rs ! i)\<lparr>mp_bytes := blit (mp_bytes (rs ! i)) s bs\<rparr> else rs ! k)"
  by (simp add: splice_at_def nth_list_update)

lemma mp_region_splice_at:
  "k < length rs \<Longrightarrow> mp_region (splice_at rs i s bs ! k) = mp_region (rs ! k)"
  by (simp add: nth_splice_at)

lemma position_splice_at: "position (in_region a) (splice_at rs i s bs) = position (in_region a) rs"
  by (simp add: position_map [of "\<lambda>r. region_contains r a" mp_region])

lemma table_ok_splice_at:
  assumes "table_ok rs" "s + length bs \<le> length (mp_bytes (rs ! i))"
  shows "table_ok (splice_at rs i s bs)"
proof -
  have sorted: "sorted_wrt (\<lambda>x y. mapped_end x \<le> rg_base (mp_region y)) (splice_at rs i s bs)"
    using assms(1) by (simp add: table_ok_def sorted_wrt_iff_nth_less mapped_end_def mp_region_splice_at)
  have "region_ok (splice_at rs i s bs ! k)" if "k < length rs" for k
  proof -
    have "region_ok (rs ! k)" using that assms(1) by (simp add: table_ok_def)
    then show ?thesis using that assms(2) by (auto simp: region_ok_def nth_splice_at)
  qed
  then have "\<forall>x \<in> set (splice_at rs i s bs). region_ok x"
    by (metis in_set_conv_nth length_splice_at)
  with sorted show ?thesis by (simp add: table_ok_def)
qed

lemma table_below_top_splice_at:
  "table_below_top rs \<Longrightarrow> table_below_top (splice_at rs i s bs)"
proof -
  have "table_below_top rs \<longleftrightarrow> (\<forall>r \<in> set (map mp_region rs). below_top r)" for rs
    by (simp add: table_below_top_def)
  then show "table_below_top rs \<Longrightarrow> table_below_top (splice_at rs i s bs)"
    by (simp del: set_map)
qed

lemma table_space_splice_at:
  assumes ok: "table_ok rs" and top: "table_below_top rs"
    and i: "i < length rs" "in_region a (rs ! i)"
    and fits: "unat (a - rg_base (mp_region (rs ! i))) + length bs \<le> unat (rg_size (mp_region (rs ! i)))"
  shows "table_space (splice_at rs i (unat (a - rg_base (mp_region (rs ! i)))) bs) =
    overlay a bs (table_space rs)"
proof
  fix x
  let ?r = "mp_region (rs ! i)"
  let ?s = "unat (a - rg_base ?r)"
  have bt: "unat (rg_base ?r) + unat (rg_size ?r) < 2 ^ 64"
    using top i by (simp add: table_below_top_def below_top_def)
  have len: "length (mp_bytes (rs ! i)) = unat (rg_size ?r)"
    using ok i by (simp add: table_ok_def region_ok_def)
  have ba: "unat (rg_base ?r) \<le> unat a" "?s = unat a - unat (rg_base ?r)"
    using i by (simp_all add: in_region_iff word_le_unat unat_minus_le)
  have below: "length bs \<le> unat (x - a)" if "x < a"
  proof -
    have "unat (x - a) = 2 ^ 64 + unat x - unat a"
      using that by (simp add: unat_sub_if' word_less_unat)
    then show ?thesis using fits ba bt by linarith
  qed
  show "table_space (splice_at rs i ?s bs) x = overlay a bs (table_space rs) x"
  proof (cases "position (in_region x) rs")
    case None
    then show ?thesis by (simp add: table_space_def position_splice_at overlay_def)
  next
    case (Some j)
    then have j: "j < length rs" "in_region x (rs ! j)" by (auto simp: position_Some)
    show ?thesis
    proof (cases "j = i")
      case True
      then have xb: "unat (rg_base ?r) \<le> unat x" "unat (x - rg_base ?r) = unat x - unat (rg_base ?r)"
        "unat (x - rg_base ?r) < length (mp_bytes (rs ! i))"
        using j region_contains_offset [of ?r x] len
        by (simp_all add: in_region_iff word_le_unat unat_minus_le)
      have "blit (mp_bytes (rs ! i)) ?s bs ! unat (x - rg_base ?r) =
        (if unat (x - a) < length bs then bs ! unat (x - a)
         else mp_bytes (rs ! i) ! unat (x - rg_base ?r))"
      proof (cases "x < a")
        case True
        then have "unat x < unat a" by (simp add: word_less_unat)
        then have "\<not> ?s \<le> unat (x - rg_base ?r)" using xb ba by linarith
        with True show ?thesis
          using below fits len xb(3) by (simp add: nth_blit)
      next
        case False
        then have "unat (x - a) = unat x - unat a" by (simp add: unat_minus_le)
        with False show ?thesis
          using fits len xb ba by (auto simp: nth_blit word_less_unat)
      qed
      then show ?thesis
        using Some True j
        by (simp add: table_space_def position_splice_at overlay_def nth_splice_at)
    next
      case False
      have "\<not> in_region x (rs ! i)"
        using in_region_unique [OF ok j(1) i(1) j(2)] False by blast
      moreover have "in_region x (rs ! i)" if lt: "unat (x - a) < length bs"
      proof -
        have "x = a + of_nat (unat (x - a))" by simp
        then show ?thesis
          using range_in_region(1) [OF _ i(2) fits lt] top i by (simp add: table_below_top_def)
      qed
      ultimately have "\<not> unat (x - a) < length bs" by blast
      then show ?thesis using Some j False
        by (simp add: table_space_def position_splice_at overlay_def nth_splice_at)
    qed
  qed
qed

section \<open>Bookkeeping touches neither the table nor the rights\<close>

lemma note_watched_access_regions [layout_simps, simp]:
  "vm_regions (note_watched_access a n k m) = vm_regions m"
  "vm_code_gen (note_watched_access a n k m) = vm_code_gen m"
  "vm_page_gen (note_watched_access a n k m) = vm_page_gen m"
  "vm_layout_gen (note_watched_access a n k m) = vm_layout_gen m"
  by (simp_all add: note_watched_access_def split: option.split)

lemma note_code_write_regions [layout_simps, simp]:
  "vm_regions (note_code_write a n m) = vm_regions m"
  "vm_debug (note_code_write a n m) = vm_debug m"
  "vm_layout_gen (note_code_write a n m) = vm_layout_gen m"
  by (simp_all add: note_code_write_def Let_def)

lemma note_watched_access_debug:
  assumes "\<forall>d. vm_debug m = Some d \<longrightarrow> debug_inv d \<and> dbg_attached d"
  shows "\<forall>d. vm_debug (note_watched_access a n k m) = Some d \<longrightarrow> debug_inv d \<and> dbg_attached d"
proof -
  have "debug_inv (record_watch_hit d a n k) \<and> dbg_attached (record_watch_hit d a n k)"
    if "debug_inv d" "dbg_attached d" for d
    using that debug_inv_frame(1) [of d a k]
    by (simp add: record_watch_hit_def) (simp add: note_watch_hit_def)
  with assms show ?thesis by (simp add: note_watched_access_def split: option.split)
qed

lemma vm_inv_cong:
  "vm_regions m = vm_regions m' \<Longrightarrow> vm_debug m = vm_debug m' \<Longrightarrow> vm_inv m = vm_inv m'"
  by (simp add: vm_inv_def)

lemma vm_inv_watched [layout_simps]: "vm_inv m \<Longrightarrow> vm_inv (note_watched_access a n k m)"
  unfolding vm_inv_def note_watched_access_regions using note_watched_access_debug by blast

lemma vm_inv_code_write [layout_simps, simp]: "vm_inv (note_code_write a n m) = vm_inv m"
  by (simp add: vm_inv_def)

lemma vm_inv_hints [layout_simps, simp]: "vm_inv (m\<lparr>vm_hints := h\<rparr>) = vm_inv m"
  by (simp add: vm_inv_def)

lemma vm_ok_inv: "vm_ok m \<Longrightarrow> vm_inv m"
  by (simp add: vm_ok_def)

lemma vm_inv_table: "vm_inv m \<Longrightarrow> table_ok (vm_regions m)"
  by (simp add: vm_inv_def)

lemma vm_acc_cong: "map mp_region (vm_regions m) = map mp_region (vm_regions m') \<Longrightarrow> vm_acc m = vm_acc m'"
proof -
  assume "map mp_region (vm_regions m) = map mp_region (vm_regions m')"
  moreover have "vm_acc m p a n \<longleftrightarrow> list_ex (\<lambda>r. region_contains r a \<and>
      unat (a - rg_base r) + n \<le> unat (rg_size r) \<and> p \<le> rg_perm r) (map mp_region (vm_regions m))" for m p a n
    by (simp add: vm_acc_def list_ex_iff)
  ultimately show ?thesis by (simp add: fun_eq_iff)
qed

lemma set_bytes_blit:
  "vm_regions (set_bytes i (\<lambda>b. blit b s bs) m) = splice_at (vm_regions m) i s bs"
  "vm_debug (set_bytes i f m) = vm_debug m"
  "vm_hints (set_bytes i f m) = vm_hints m"
  "vm_code_gen (set_bytes i f m) = vm_code_gen m"
  "vm_page_gen (set_bytes i f m) = vm_page_gen m"
  "vm_layout_gen (set_bytes i f m) = vm_layout_gen m"
  by (simp_all add: set_bytes_def splice_at_def)

end
