(* ===== verification/Memory_Contract.thy ===== *)
theory Memory_Contract
  imports Memory_Laws
begin

text \<open>
  \<open>VirtualMemory\<close> keeps the contract \<open>guest_memory\<close>: each method is unfolded once into a
  search of the table followed by its effect, and the laws of the contract follow.
\<close>

section \<open>The methods without the cache\<close>

lemma vm_read_cases:
  assumes "vm_inv m" "n \<noteq> 0"
  obtains (err) h x where "locate_ref (vm_regions m) a n PERM_READ ''read'' = Inl x"
      "vm_read a n m = (Inl x, m\<lparr>vm_hints := h\<rparr>)"
    | (ok) h i s e where "locate_ref (vm_regions m) a n PERM_READ ''read'' = Inr (i, s, e)"
      "vm_read a n m = (Inr (subslice (mp_bytes (vm_regions m ! i)) s e),
        note_watched_access a n WkRead (m\<lparr>vm_hints := h\<rparr>))"
proof -
  obtain h where h: "vm_locate a n PERM_READ ''read'' m =
      (locate_ref (vm_regions m) a n PERM_READ ''read'', m\<lparr>vm_hints := h\<rparr>)"
    using vm_locate_ref [OF vm_inv_table [OF assms(1)]] by blast
  show thesis
  proof (cases "locate_ref (vm_regions m) a n PERM_READ ''read''")
    case (Inl x)
    with h assms(2) show thesis by (intro err) (simp_all add: vm_read_def em_bind_def)
  next
    case (Inr t)
    obtain i s e where "t = (i, s, e)" by (cases t)
    with Inr h assms(2) show thesis
      by (intro ok [of i s e h]) (simp_all add: vm_read_def em_bind_def em_apply)
  qed
qed

lemma vm_fetch_cases:
  assumes "vm_inv m" "n \<noteq> 0"
  obtains (err) h x where "locate_ref (vm_regions m) a n PERM_EXEC ''execute'' = Inl x"
      "vm_fetch a n m = (Inl x, m\<lparr>vm_hints := h\<rparr>)"
    | (ok) h i s e where "locate_ref (vm_regions m) a n PERM_EXEC ''execute'' = Inr (i, s, e)"
      "vm_fetch a n m = (Inr (subslice (mp_bytes (vm_regions m ! i)) s e), m\<lparr>vm_hints := h\<rparr>)"
proof -
  obtain h where h: "vm_locate a n PERM_EXEC ''execute'' m =
      (locate_ref (vm_regions m) a n PERM_EXEC ''execute'', m\<lparr>vm_hints := h\<rparr>)"
    using vm_locate_ref [OF vm_inv_table [OF assms(1)]] by blast
  show thesis
  proof (cases "locate_ref (vm_regions m) a n PERM_EXEC ''execute''")
    case (Inl x)
    with h assms(2) show thesis by (intro err) (simp_all add: vm_fetch_def em_bind_def)
  next
    case (Inr t)
    obtain i s e where "t = (i, s, e)" by (cases t)
    with Inr h assms(2) show thesis
      by (intro ok [of i s e h]) (simp_all add: vm_fetch_def em_bind_def em_apply)
  qed
qed

definition write_located :: "u64 \<Rightarrow> bytes \<Rightarrow> nat \<Rightarrow> nat \<Rightarrow> vmem \<Rightarrow> vmem" where
  "write_located a bs i s m =
     (let m1 = set_bytes i (\<lambda>b. blit b s bs) m;
          m2 = (if is_exec_region m i then note_code_write a (length bs) m1 else m1)
      in note_watched_access a (length bs) WkWrite m2)"

lemma vm_write_cases:
  assumes "vm_inv m" "bs \<noteq> []"
  obtains (err) h x where "locate_ref (vm_regions m) a (length bs) PERM_WRITE ''write'' = Inl x"
      "vm_write a bs m = (Inl x, m\<lparr>vm_hints := h\<rparr>)"
    | (ok) h i s e where "locate_ref (vm_regions m) a (length bs) PERM_WRITE ''write'' = Inr (i, s, e)"
      "vm_write a bs m = (Inr (), write_located a bs i s (m\<lparr>vm_hints := h\<rparr>))"
proof -
  obtain h where h: "vm_locate a (length bs) PERM_WRITE ''write'' m =
      (locate_ref (vm_regions m) a (length bs) PERM_WRITE ''write'', m\<lparr>vm_hints := h\<rparr>)"
    using vm_locate_ref [OF vm_inv_table [OF assms(1)]] by blast
  show thesis
  proof (cases "locate_ref (vm_regions m) a (length bs) PERM_WRITE ''write''")
    case (Inl x)
    with h assms(2) show thesis by (intro err) (simp_all add: vm_write_def em_bind_def)
  next
    case (Inr t)
    obtain i s e where "t = (i, s, e)" by (cases t)
    with Inr h assms(2) show thesis
      by (intro ok [of i s e h])
        (simp_all add: vm_write_def em_bind_def em_apply em_when_def write_located_def Let_def)
  qed
qed

definition uint_bytes :: "nat \<Rightarrow> u64 \<Rightarrow> bytes" where
  \<comment> \<open>the bytes \<open>write_uint\<close> stores\<close>
  "uint_bytes sz v =
     (if sz = 1 then [ucast v] else if sz = 2 then to_le 2 (ucast v :: u16)
      else if sz = 4 then to_le 4 (ucast v :: u32) else to_le 8 v)"

lemma length_uint_bytes: "uint_size sz \<Longrightarrow> length (uint_bytes sz v) = sz"
  by (auto simp: uint_size_def uint_bytes_def)

lemma vm_write_uint_write:
  assumes "uint_size sz"
  shows "vm_write_uint a sz v = vm_write a (uint_bytes sz v)"
proof -
  have "uint_bytes sz v \<noteq> []"
    using assms by (auto simp: uint_size_def uint_bytes_def to_le_def)
  with assms show ?thesis
    unfolding vm_write_uint_def vm_write_def uint_bytes_def [symmetric] length_uint_bytes [OF assms]
    by (simp cong del: em_bind_cong)
qed

definition uint_value :: "nat \<Rightarrow> bytes \<Rightarrow> u64" where
  "uint_value sz b =
     (if sz = 1 then ucast (b ! 0)
      else if sz = 2 then ucast (from_le [b ! 0, b ! 1] :: u16)
      else if sz = 4 then ucast (from_le [b ! 0, b ! 1, b ! 2, b ! 3] :: u32)
      else from_le [b ! 0, b ! 1, b ! 2, b ! 3, b ! 4, b ! 5, b ! 6, b ! 7])"

lemma vm_read_uint_read:
  assumes "uint_size sz"
  shows "vm_read_uint a sz = em_bind (vm_read a sz) (\<lambda>b. em_return (uint_value sz b))"
  using assms
  by (auto simp: fun_eq_iff vm_read_uint_def vm_read_def uint_value_def uint_size_def em_bind_def
      em_apply split: prod.splits sum.splits)

section \<open>Invariant of every method\<close>

lemma vm_inv_set_bytes:
  assumes "vm_inv m" "s + length bs \<le> length (mp_bytes (vm_regions m ! i))"
  shows "vm_inv (set_bytes i (\<lambda>b. blit b s bs) m)"
  using assms table_ok_splice_at by (simp add: vm_inv_def set_bytes_blit)

lemma vm_inv_write_located:
  assumes "vm_inv m" "s + length bs \<le> length (mp_bytes (vm_regions m ! i))"
  shows "vm_inv (write_located a bs i s m)"
  using vm_inv_set_bytes [OF assms]
  by (auto simp: write_located_def Let_def intro!: vm_inv_watched)

lemma vm_regions_write_located:
  "vm_regions (write_located a bs i s m) = splice_at (vm_regions m) i s bs"
  by (simp add: write_located_def Let_def set_bytes_blit)

lemma vm_inv_read: "vm_inv m \<Longrightarrow> vm_inv (snd (vm_read a n m))"
proof (cases "n = 0")
  case False
  assume inv: "vm_inv m"
  from inv False show ?thesis
    by (cases rule: vm_read_cases [where a = a]) (simp_all add: inv vm_inv_watched)
qed (simp add: vm_read_def em_apply)

lemma vm_inv_fetch: "vm_inv m \<Longrightarrow> vm_inv (snd (vm_fetch a n m))"
proof (cases "n = 0")
  case False
  assume inv: "vm_inv m"
  from inv False show ?thesis
    by (cases rule: vm_fetch_cases [where a = a]) (simp_all add: inv)
qed (simp add: vm_fetch_def em_apply)

lemma vm_inv_write: "vm_inv m \<Longrightarrow> vm_inv (snd (vm_write a bs m))"
proof (cases "bs = []")
  case False
  assume inv: "vm_inv m"
  from inv False show ?thesis
  proof (cases rule: vm_write_cases [where a = a])
    case (ok h i s e)
    with locate_ref_Inr [OF vm_inv_table [OF inv] ok(1)] show ?thesis
      by (simp add: vm_inv_write_located inv)
  qed (simp add: inv)
qed (simp add: vm_write_def em_apply)

lemma vm_inv_read_uint: "vm_inv m \<Longrightarrow> vm_inv (snd (vm_read_uint a n m))"
proof (cases "uint_size n")
  case True
  assume "vm_inv m"
  then have "vm_inv (snd (vm_read a n m))" by (rule vm_inv_read)
  then show ?thesis
    by (auto simp: vm_read_uint_read [OF True] em_bind_def em_apply split: prod.split sum.split)
qed (simp add: vm_read_uint_def em_apply)

lemma vm_inv_write_uint: "vm_inv m \<Longrightarrow> vm_inv (snd (vm_write_uint a n v m))"
proof (cases "uint_size n")
  case True
  then show "vm_inv m \<Longrightarrow> ?thesis" by (simp only: vm_write_uint_write vm_inv_write)
qed (simp add: vm_write_uint_def em_apply)

section \<open>The address-space contract\<close>

lemma vm_ok_table: "vm_ok m \<Longrightarrow> table_ok (vm_regions m)"
  by (simp add: vm_ok_def vm_inv_def)

lemma vm_ok_below: "vm_ok m \<Longrightarrow> i < length (vm_regions m) \<Longrightarrow> below_top (mp_region (vm_regions m ! i))"
  by (simp add: vm_ok_def table_below_top_def)

lemma vm_okI: "vm_inv m \<Longrightarrow> table_below_top (vm_regions m) \<Longrightarrow> vm_ok m"
  by (simp add: vm_ok_def)

lemma vm_read_ok:
  assumes "vm_ok m" "n = 0 \<or> vm_acc m PERM_READ a n"
  shows "fst (vm_read a n m) = Inr (bytes_at (vm_space m) a n)"
proof (cases "n = 0")
  case False
  note tab = vm_ok_table [OF assms(1)]
  from vm_ok_inv [OF assms(1)] False show ?thesis
  proof (cases rule: vm_read_cases [where a = a])
    case (err h x)
    with assms(2) False show ?thesis by (auto simp: vm_acc_locate [OF tab, where w = "''read''"])
  next
    case (ok h i s e)
    note L = locate_ref_Inr [OF tab ok(1)]
    have "e \<le> unat (rg_size (mp_region (vm_regions m ! i)))"
      using L(1,5) tab by (simp add: table_ok_def region_ok_def)
    then show ?thesis
      using ok(2) L(3,4) bytes_at_region [OF tab vm_ok_below [OF assms(1) L(1)] L(1,2), of n]
      by (simp add: vm_space_def)
  qed
qed (simp add: vm_read_def em_apply)

lemma vm_fetch_ok:
  assumes "vm_ok m" "n = 0 \<or> vm_acc m PERM_EXEC a n"
  shows "fst (vm_fetch a n m) = Inr (bytes_at (vm_space m) a n)"
proof (cases "n = 0")
  case False
  note tab = vm_ok_table [OF assms(1)]
  from vm_ok_inv [OF assms(1)] False show ?thesis
  proof (cases rule: vm_fetch_cases [where a = a])
    case (err h x)
    with assms(2) False show ?thesis by (auto simp: vm_acc_locate [OF tab, where w = "''execute''"])
  next
    case (ok h i s e)
    note L = locate_ref_Inr [OF tab ok(1)]
    have "e \<le> unat (rg_size (mp_region (vm_regions m ! i)))"
      using L(1,5) tab by (simp add: table_ok_def region_ok_def)
    then show ?thesis
      using ok(2) L(3,4) bytes_at_region [OF tab vm_ok_below [OF assms(1) L(1)] L(1,2), of n]
      by (simp add: vm_space_def)
  qed
qed (simp add: vm_fetch_def em_apply)

lemma not_acc_locate:
  assumes "vm_ok m" "\<not> vm_acc m p a n"
  obtains x where "locate_ref (vm_regions m) a n p w = Inl x"
proof (cases "locate_ref (vm_regions m) a n p w")
  case (Inr t)
  obtain i s e where "t = (i, s, e)" by (cases t)
  with Inr locate_ref_Inr [OF vm_ok_table [OF assms(1)], of a n p w i s e] assms(2)
  show ?thesis by (auto simp: vm_acc_locate [OF vm_ok_table [OF assms(1)], where w = w])
qed

lemma vm_read_err:
  assumes "vm_ok m" "n \<noteq> 0" "\<not> vm_acc m PERM_READ a n"
  shows "\<exists>e. fst (vm_read a n m) = Inl (Err e)"
proof -
  obtain x where x: "locate_ref (vm_regions m) a n PERM_READ ''read'' = Inl x"
    using not_acc_locate [OF assms(1,3)] by blast
  from vm_ok_inv [OF assms(1)] assms(2) show ?thesis
    by (cases rule: vm_read_cases [where a = a]) (use x locate_ref_Inl in \<open>auto, blast+\<close>)
qed

lemma vm_fetch_err:
  assumes "vm_ok m" "n \<noteq> 0" "\<not> vm_acc m PERM_EXEC a n"
  shows "\<exists>e. fst (vm_fetch a n m) = Inl (Err e)"
proof -
  obtain x where x: "locate_ref (vm_regions m) a n PERM_EXEC ''execute'' = Inl x"
    using not_acc_locate [OF assms(1,3)] by blast
  from vm_ok_inv [OF assms(1)] assms(2) show ?thesis
    by (cases rule: vm_fetch_cases [where a = a]) (use x locate_ref_Inl in \<open>auto, blast+\<close>)
qed

lemma vm_read_frame:
  assumes "vm_inv m"
  shows "vm_regions (snd (vm_read a n m)) = vm_regions m"
    "vm_regions (snd (vm_fetch a n m)) = vm_regions m"
proof -
  show "vm_regions (snd (vm_read a n m)) = vm_regions m"
  proof (cases "n = 0")
    case False
    with assms show ?thesis by (cases rule: vm_read_cases [where a = a]) simp_all
  qed (simp add: vm_read_def em_apply)
  show "vm_regions (snd (vm_fetch a n m)) = vm_regions m"
  proof (cases "n = 0")
    case False
    with assms show ?thesis by (cases rule: vm_fetch_cases [where a = a]) simp_all
  qed (simp add: vm_fetch_def em_apply)
qed

lemma vm_same_regions:
  assumes "vm_regions m' = vm_regions m"
  shows "vm_space m' = vm_space m" "vm_acc m' = vm_acc m"
  using assms vm_acc_cong [of m' m] by (simp_all add: vm_space_def)

lemma vm_hints_same [simp]:
  "vm_space (m\<lparr>vm_hints := h\<rparr>) = vm_space m" "vm_acc (m\<lparr>vm_hints := h\<rparr>) = vm_acc m"
  "vm_ok (m\<lparr>vm_hints := h\<rparr>) = vm_ok m"
  by (simp_all add: vm_space_def vm_acc_def vm_ok_def fun_eq_iff)

lemma vm_read_keeps:
  assumes "vm_ok m"
  shows "vm_ok (snd (vm_read a n m)) \<and> vm_space (snd (vm_read a n m)) = vm_space m \<and>
    vm_acc (snd (vm_read a n m)) = vm_acc m"
  using assms vm_inv_read [OF vm_ok_inv [OF assms]] vm_read_frame(1) [OF vm_ok_inv [OF assms], of a n]
    vm_same_regions [OF vm_read_frame(1) [OF vm_ok_inv [OF assms], of a n]]
  by (simp add: vm_ok_def)

lemma vm_fetch_keeps:
  assumes "vm_ok m"
  shows "vm_ok (snd (vm_fetch a n m)) \<and> vm_space (snd (vm_fetch a n m)) = vm_space m \<and>
    vm_acc (snd (vm_fetch a n m)) = vm_acc m"
  using assms vm_inv_fetch [OF vm_ok_inv [OF assms]] vm_read_frame(2) [OF vm_ok_inv [OF assms], of a n]
    vm_same_regions [OF vm_read_frame(2) [OF vm_ok_inv [OF assms], of a n]]
  by (simp add: vm_ok_def)

lemma vm_write_ok:
  assumes "vm_ok m" "bs = [] \<or> vm_acc m PERM_WRITE a (length bs)"
  shows "fst (vm_write a bs m) = Inr () \<and> vm_space (snd (vm_write a bs m)) = overlay a bs (vm_space m)"
proof (cases "bs = []")
  case True
  then show ?thesis by (simp add: vm_write_def em_apply overlay_def fun_eq_iff)
next
  case False
  note tab = vm_ok_table [OF assms(1)]
  from vm_ok_inv [OF assms(1)] False show ?thesis
  proof (cases rule: vm_write_cases [where a = a])
    case (err h x)
    with assms(2) False show ?thesis by (auto simp: vm_acc_locate [OF tab, where w = "''write''"])
  next
    case (ok h i s e)
    note L = locate_ref_Inr [OF tab ok(1)]
    have "unat (a - rg_base (mp_region (vm_regions m ! i))) + length bs
        \<le> unat (rg_size (mp_region (vm_regions m ! i)))"
      using L(1,3-5) tab by (simp add: table_ok_def region_ok_def)
    then show ?thesis
      using ok(2) L(3) table_space_splice_at [OF tab _ L(1,2)] assms(1)
      by (simp add: vm_space_def vm_regions_write_located vm_ok_def)
  qed
qed

lemma vm_write_err:
  assumes "vm_ok m" "bs \<noteq> []" "\<not> vm_acc m PERM_WRITE a (length bs)"
  shows "(\<exists>e. fst (vm_write a bs m) = Inl (Err e)) \<and> vm_space (snd (vm_write a bs m)) = vm_space m"
proof -
  obtain x where x: "locate_ref (vm_regions m) a (length bs) PERM_WRITE ''write'' = Inl x"
    using not_acc_locate [OF assms(1,3)] by blast
  from vm_ok_inv [OF assms(1)] assms(2) show ?thesis
    by (cases rule: vm_write_cases [where a = a])
      (use x locate_ref_Inl in \<open>auto, blast+\<close>)
qed

lemma vm_write_keeps:
  assumes "vm_ok m"
  shows "vm_ok (snd (vm_write a bs m)) \<and> vm_acc (snd (vm_write a bs m)) = vm_acc m"
proof (cases "bs = []")
  case False
  from vm_ok_inv [OF assms] False show ?thesis
  proof (cases rule: vm_write_cases [where a = a])
    case (err h x)
    with assms show ?thesis by simp
  next
    case (ok h i s e)
    have "vm_acc (snd (vm_write a bs m)) = vm_acc m"
      using ok(2) by (intro vm_acc_cong) (simp add: vm_regions_write_located)
    with ok(2) assms show ?thesis
      using vm_inv_write [OF vm_ok_inv [OF assms], of a bs]
      by (simp add: vm_ok_def vm_regions_write_located table_below_top_splice_at)
  qed
qed (simp add: vm_write_def em_apply assms)

lemma vm_acc_space:
  assumes "vm_ok m" "vm_acc m p a n" "i < n"
  shows "n < 2 ^ 64 \<and> (\<exists>q b. vm_space m (a + of_nat i) = Some (q, b) \<and> p \<le> q)"
proof -
  obtain k where k: "k < length (vm_regions m)" "in_region a (vm_regions m ! k)"
    "unat (a - rg_base (mp_region (vm_regions m ! k))) + n \<le> unat (rg_size (mp_region (vm_regions m ! k)))"
    "p \<le> rg_perm (mp_region (vm_regions m ! k))"
    using assms(2) by (auto simp: vm_acc_def list_ex_iff in_set_conv_nth)
  have "n < 2 ^ 64" using k(3) unat_bound64 [of "rg_size (mp_region (vm_regions m ! k))"] by linarith
  moreover have "vm_space m (a + of_nat i) = Some (rg_perm (mp_region (vm_regions m ! k)),
      mp_bytes (vm_regions m ! k) ! unat (a + of_nat i - rg_base (mp_region (vm_regions m ! k))))"
    using range_in_region(1) [OF vm_ok_below [OF assms(1) k(1)] k(2,3) assms(3)]
    by (simp add: vm_space_def table_space_in_region [OF vm_ok_table [OF assms(1)] k(1)])
  ultimately show ?thesis using k(4) by auto
qed

lemma vm_acc_sub:
  assumes "vm_ok m" "vm_acc m p a n" "0 < k" "i + k \<le> n"
  shows "vm_acc m p (a + of_nat i) k"
proof -
  obtain x where x: "x \<in> set (vm_regions m)" "in_region a x"
    "unat (a - rg_base (mp_region x)) + n \<le> unat (rg_size (mp_region x))" "p \<le> rg_perm (mp_region x)"
    using assms(2) by (auto simp: vm_acc_def list_ex_iff)
  have i: "i < n" using assms(3,4) by simp
  have "below_top (mp_region x)" using assms(1) x(1) by (simp add: vm_ok_def table_below_top_def)
  note R = range_in_region [OF this x(2,3) i]
  then show ?thesis
    using x assms(4) by (auto simp: vm_acc_def list_ex_iff intro!: bexI [of _ x])
qed

section \<open>The inlined integer accessors are the trait's\<close>

lemma vm_read_length:
  assumes "vm_inv m" "vm_read a n m = (Inr b, m')"
  shows "length b = n"
proof (cases "n = 0")
  case True
  with assms(2) show ?thesis by (simp add: vm_read_def em_apply)
next
  case False
  with assms(1) show ?thesis
  proof (cases rule: vm_read_cases [where a = a])
    case (ok h i s e)
    with assms(2) locate_ref_Inr [OF vm_inv_table [OF assms(1)] ok(1)] show ?thesis by auto
  qed (use assms(2) in simp)
qed

lemma to_le_1: "to_le 1 (v :: u8) = [v]"
  by (simp add: to_le_def)

lemma list_1_2_4_8:
  "length b = 1 \<Longrightarrow> [b ! 0] = b"
  "length b = 2 \<Longrightarrow> [b ! 0, b ! 1] = b"
  "length b = 4 \<Longrightarrow> [b ! 0, b ! 1, b ! 2, b ! 3] = b"
  "length b = 8 \<Longrightarrow> [b ! 0, b ! 1, b ! 2, b ! 3, b ! 4, b ! 5, b ! 6, b ! 7] = b"
  by (auto simp: list_eq_iff_nth_eq less_Suc_eq numeral_eq_Suc nth_Cons split: nat.splits)

lemma uint_value_from_le:
  "length b = 1 \<Longrightarrow> uint_value 1 b = ucast (b ! 0)"
  "length b = 2 \<Longrightarrow> uint_value 2 b = ucast (from_le b :: u16)"
  "length b = 4 \<Longrightarrow> uint_value 4 b = ucast (from_le b :: u32)"
  "length b = 8 \<Longrightarrow> uint_value 8 b = from_le b"
  unfolding uint_value_def by (simp_all only: list_1_2_4_8) (simp_all add: list_1_2_4_8)

lemma vm_read_uint_trait:
  assumes "vm_inv m"
  shows "vm_read_uint a n m = trait_read_uint (vm_ops alloc) a n m"
proof (cases "uint_size n")
  case True
  obtain r m' where r: "vm_read a n m = (r, m')" by (cases "vm_read a n m")
  show ?thesis
  proof (cases r)
    case (Inl x)
    with r True show ?thesis
      by (auto simp: vm_read_uint_read trait_read_uint_def mem_read_u8_def mem_read_u16_def
          mem_read_u32_def mem_read_u64_def vm_ops_def em_bind_def uint_size_def)
  next
    case (Inr b)
    then have "length b = n" using vm_read_length [OF assms] r by blast
    with Inr r True show ?thesis
      by (auto simp: vm_read_uint_read trait_read_uint_def mem_read_u8_def mem_read_u16_def
          mem_read_u32_def mem_read_u64_def vm_ops_def em_bind_def uint_size_def
          em_apply uint_value_from_le [simplified])
  qed
qed (simp add: vm_read_uint_def trait_read_uint_def uint_size_def em_apply)

lemma vm_write_uint_trait: "vm_write_uint a n v = trait_write_uint (vm_ops alloc) a n v"
proof (cases "uint_size n")
  case True
  then show ?thesis
    by (auto simp: vm_write_uint_write trait_write_uint_def mem_write_u8_def mem_write_u16_def
        mem_write_u32_def mem_write_u64_def vm_ops_def uint_size_def uint_bytes_def to_le_1 [simplified])
qed (simp add: vm_write_uint_def trait_write_uint_def uint_size_def)

lemma vm_read_uint_keeps:
  assumes "vm_ok m"
  shows "vm_ok (snd (vm_read_uint a n m)) \<and> vm_space (snd (vm_read_uint a n m)) = vm_space m \<and>
    vm_acc (snd (vm_read_uint a n m)) = vm_acc m"
proof (cases "uint_size n")
  case True
  then have "snd (vm_read_uint a n m) = snd (vm_read a n m)"
    by (simp add: vm_read_uint_read em_bind_def em_apply split: prod.split sum.split)
  then show ?thesis using vm_read_keeps [OF assms] by simp
qed (simp add: vm_read_uint_def em_apply assms)

lemma vm_write_uint_keeps:
  assumes "vm_ok m"
  shows "vm_ok (snd (vm_write_uint a n v m)) \<and> vm_acc (snd (vm_write_uint a n v m)) = vm_acc m"
proof (cases "uint_size n")
  case True
  then show ?thesis using vm_write_keeps [OF assms] by (simp add: vm_write_uint_write)
qed (simp add: vm_write_uint_def em_apply assms)

lemma vm_ops_simps [simp]:
  "mo_read (vm_ops alloc) = vm_read" "mo_write (vm_ops alloc) = vm_write"
  "mo_fetch (vm_ops alloc) = vm_fetch" "mo_read_uint (vm_ops alloc) = vm_read_uint"
  "mo_write_uint (vm_ops alloc) = vm_write_uint"
  by (simp_all add: vm_ops_def)

interpretation vmem: guest_memory "vm_ops alloc" vm_ok vm_space vm_acc for alloc
proof (unfold_locales, unfold vm_ops_simps)
  fix m a n v p i k and bs :: bytes
  assume ok: "vm_ok m"
  show "n = 0 \<or> vm_acc m PERM_READ a n \<Longrightarrow> fst (vm_read a n m) = Inr (bytes_at (vm_space m) a n)"
    using vm_read_ok [OF ok] .
  show "n \<noteq> 0 \<Longrightarrow> \<not> vm_acc m PERM_READ a n \<Longrightarrow> \<exists>e. fst (vm_read a n m) = Inl (Err e)"
    using vm_read_err [OF ok] .
  show "n = 0 \<or> vm_acc m PERM_EXEC a n \<Longrightarrow> fst (vm_fetch a n m) = Inr (bytes_at (vm_space m) a n)"
    using vm_fetch_ok [OF ok] .
  show "n \<noteq> 0 \<Longrightarrow> \<not> vm_acc m PERM_EXEC a n \<Longrightarrow> \<exists>e. fst (vm_fetch a n m) = Inl (Err e)"
    using vm_fetch_err [OF ok] .
  show "bs = [] \<or> vm_acc m PERM_WRITE a (length bs) \<Longrightarrow>
      fst (vm_write a bs m) = Inr () \<and> vm_space (snd (vm_write a bs m)) = overlay a bs (vm_space m)"
    using vm_write_ok [OF ok] .
  show "bs \<noteq> [] \<Longrightarrow> \<not> vm_acc m PERM_WRITE a (length bs) \<Longrightarrow>
      (\<exists>e. fst (vm_write a bs m) = Inl (Err e)) \<and> vm_space (snd (vm_write a bs m)) = vm_space m"
    using vm_write_err [OF ok] .
  show "fst (vm_read_uint a n m) = fst (trait_read_uint (vm_ops alloc) a n m)"
    by (simp add: vm_read_uint_trait [OF vm_ok_inv [OF ok], where alloc = alloc])
  show "fst (vm_write_uint a n v m) = fst (trait_write_uint (vm_ops alloc) a n v m) \<and>
      vm_space (snd (vm_write_uint a n v m)) = vm_space (snd (trait_write_uint (vm_ops alloc) a n v m))"
    by (simp add: vm_write_uint_trait [where alloc = alloc])
  show "vm_acc m p a n \<Longrightarrow> i < n \<Longrightarrow>
      n < 2 ^ 64 \<and> (\<exists>q b. vm_space m (a + of_nat i) = Some (q, b) \<and> p \<le> q)"
    using vm_acc_space [OF ok] .
  show "vm_acc m p a n \<Longrightarrow> 0 < k \<Longrightarrow> i + k \<le> n \<Longrightarrow> vm_acc m p (a + of_nat i) k"
    using vm_acc_sub [OF ok] .
qed (simp_all add: vm_read_keeps vm_fetch_keeps vm_write_keeps vm_read_uint_keeps vm_write_uint_keeps)

lemma vm_top_unmapped: "\<not> vm_acc m p (- 1) 1"
proof -
  have "\<not> in_region (- 1) x" for x
    by (simp add: region_contains_end word_less_unat unat_region_end unsigned_minus_1_eq_mask
        mask_eq_exp_minus_1)
  then show ?thesis by (simp add: vm_acc_def list_ex_iff)
qed

interpretation vtop: bounded_memory "vm_ops alloc" vm_ok vm_space vm_acc for alloc
  by unfold_locales (rule vm_top_unmapped)

end
