(* ===== verification/Memory_Properties.thy ===== *)
theory Memory_Properties
  imports Memory_Contract
begin

text \<open>
  Every memory a program can build: \<open>vm_reachable\<close> closes the empty memory under all methods
  of \<open>VirtualMemory\<close> and under the debugger changing its control block from outside. The
  table invariant holds in all of them, and the properties of the accesses rest on it.
\<close>

section \<open>The methods that change the table\<close>

lemma zeroed_length: "zeroed alloc n = Inr bs \<Longrightarrow> length bs = unat n"
  by (auto simp: zeroed_def split: if_splits)

lemma table_ok_insert_at:
  assumes ok: "table_ok rs" and r: "rg_size r \<noteq> 0" "length bs = unat (rg_size r)"
    and apart: "\<not> list_ex (overlaps r) rs"
  shows "table_ok (insert_at (partition_point (\<lambda>x. rg_base (mp_region x) < rg_base r) rs)
    \<lparr>mp_region = r, mp_bytes = bs\<rparr> rs)" (is "table_ok (insert_at ?p ?x rs)")
proof -
  have disj: "mapped_end x \<le> rg_base r \<or> region_end r \<le> rg_base (mp_region x)" if "x \<in> set rs" for x
    using apart that by (auto simp: list_ex_iff overlaps_def not_less)
  have x: "region_ok ?x" using r by (simp add: region_ok_def)
  have "sorted_wrt (\<lambda>x y. mapped_end x \<le> rg_base (mp_region y)) (insert_at ?p ?x rs)"
  proof (rule sorted_wrt_insert_at)
    show "sorted_wrt (\<lambda>x y. mapped_end x \<le> rg_base (mp_region y)) rs"
      using ok by (simp add: table_ok_def)
    show "?p \<le> length rs" by (rule partition_point_le)
    fix k
    show "mapped_end (rs ! k) \<le> rg_base (mp_region ?x)" if k: "k < ?p"
    proof -
      have "rg_base (mp_region (rs ! k)) < rg_base r"
        using nth_before_partition_point [OF k] .
      moreover have "k < length rs" using k partition_point_le [of _ rs] by (rule less_le_trans)
      ultimately show ?thesis
        using disj [of "rs ! k"] region_base_le_end [of r] by (auto dest: le_less_trans)
    qed
    show "mapped_end ?x \<le> rg_base (mp_region (rs ! k))" if k: "?p \<le> k" "k < length rs"
    proof -
      have "\<not> rg_base (mp_region (rs ! ?p)) < rg_base r"
        using k nth_at_partition_point [of "\<lambda>x. rg_base (mp_region x) < rg_base r" rs] by simp
      with table_bases_sorted [OF ok k] have le: "rg_base r \<le> rg_base (mp_region (rs ! k))" by simp
      show ?thesis
      proof (cases "mapped_end (rs ! k) \<le> rg_base r")
        case True
        have rk: "region_ok (rs ! k)" using ok k by (simp add: table_ok_def)
        have "\<not> rg_base (mp_region (rs ! k)) < mapped_end (rs ! k)"
          using True le by simp
        then have "rg_base (mp_region (rs ! k)) = - 1" using region_end_gt_base [OF rk] by blast
        then show ?thesis by (simp add: word_coorder.not_eq_extremum)
      qed (use disj [of "rs ! k"] k in \<open>auto simp: mapped_end_def\<close>)
    qed
  qed
  with x ok show ?thesis by (simp add: table_ok_def)
qed

lemma vm_insert_cases:
  obtains (nothing) "rg_size r = 0" "vm_insert r bs m = (Inr (), m)"
    | (overlap) "rg_size r \<noteq> 0" "list_ex (overlaps r) (vm_regions m)"
        "vm_insert r bs m = (Inl (Err (Overlap (rg_base r) (rg_size r))), m)"
    | (inserted) "rg_size r \<noteq> 0" "\<not> list_ex (overlaps r) (vm_regions m)"
        "vm_insert r bs m = (Inr (), m\<lparr>vm_regions :=
           insert_at (partition_point (\<lambda>x. rg_base (mp_region x) < rg_base r) (vm_regions m))
             \<lparr>mp_region = r, mp_bytes = bs\<rparr> (vm_regions m),
           vm_layout_gen := vm_layout_gen m + 1\<rparr>)"
  by (cases "rg_size r = 0"; cases "list_ex (overlaps r) (vm_regions m)")
    (simp_all add: vm_insert_def Let_def)

lemma vm_inv_insert:
  assumes "vm_inv m" "length bs = unat (rg_size r)"
  shows "vm_inv (snd (vm_insert r bs m))"
proof (cases rule: vm_insert_cases [of r bs m])
  case inserted
  then show ?thesis
    using table_ok_insert_at [OF vm_inv_table [OF assms(1)] inserted(1) assms(2) inserted(2)] assms(1)
    by (simp add: vm_inv_def)
qed (simp_all add: assms)

lemma vm_inv_map: "vm_inv m \<Longrightarrow> vm_inv (snd (vm_map alloc r m))"
  by (auto simp: vm_map_def vm_inv_insert zeroed_length split: sum.split)

lemma vm_inv_map_with_data:
  assumes "vm_inv m" "length data < 2 ^ 64"
  shows "vm_inv (snd (vm_map_with_data alloc name base n data p m))"
proof -
  have "length data \<le> unat (max n (of_nat (length data)))"
    using assms(2) by (auto simp: max_def word_le_unat unat_of_nat take_bit_nat_eq_self)
  then show ?thesis
    by (auto simp: vm_map_with_data_def Let_def assms(1) zeroed_length
        intro!: vm_inv_insert split: sum.split)
qed

lemma table_ok_filter: "table_ok rs \<Longrightarrow> table_ok (filter P rs)"
  by (auto simp: table_ok_def sorted_wrt_filter)

lemma table_ok_remove_at: "table_ok rs \<Longrightarrow> table_ok (remove_at i rs)"
  using sorted_wrt_remove_at [of "\<lambda>x y. mapped_end x \<le> rg_base (mp_region y)" rs i]
    set_take_subset [of i rs] set_drop_subset [of "Suc i" rs]
  by (auto simp: table_ok_def) (auto simp: remove_at_def)

lemma vm_inv_unmap: "vm_inv m \<Longrightarrow> vm_inv (snd (vm_unmap base n m))"
  by (auto simp: vm_unmap_def Let_def vm_inv_def table_ok_filter table_ok_remove_at split: option.split)

lemma table_ok_set_perm:
  assumes "table_ok (vm_regions m)"
  shows "table_ok (vm_regions (set_perm i p m))"
proof (cases "i < length (vm_regions m)")
  case True
  let ?rs = "vm_regions m" let ?rs' = "vm_regions (set_perm i p m)"
  have len: "length ?rs' = length ?rs" by (simp add: set_perm_def)
  have same: "rg_base (mp_region (?rs' ! k)) = rg_base (mp_region (?rs ! k)) \<and>
      rg_size (mp_region (?rs' ! k)) = rg_size (mp_region (?rs ! k)) \<and>
      mp_bytes (?rs' ! k) = mp_bytes (?rs ! k)" if "k < length ?rs" for k
    using that True by (simp add: set_perm_def nth_list_update)
  have "sorted_wrt (\<lambda>x y. mapped_end x \<le> rg_base (mp_region y)) ?rs'"
    using assms same len
    by (simp add: table_ok_def sorted_wrt_iff_nth_less mapped_end_def region_end_def)
  moreover have "\<forall>x \<in> set ?rs'. region_ok x"
    using assms same len unfolding table_ok_def region_ok_def by (metis in_set_conv_nth)
  ultimately show ?thesis by (simp add: table_ok_def)
next
  case False
  with assms show ?thesis by (simp add: set_perm_def list_update_beyond)
qed

lemma vm_inv_protect:
  assumes "vm_inv m"
  shows "vm_inv (snd (vm_protect base n p m))"
proof -
  obtain h where h: "snd (find_idx base m) = m\<lparr>vm_hints := h\<rparr>" using find_idx_hints by blast
  obtain found where f: "find_idx base m = (found, m\<lparr>vm_hints := h\<rparr>)"
    using h by (metis prod.collapse)
  have "table_ok (vm_regions (set_perm i p (m\<lparr>vm_hints := h\<rparr>)))" for i
    using vm_inv_table [OF assms] by (intro table_ok_set_perm) simp
  with f assms show ?thesis
    by (auto simp: vm_protect_def Let_def vm_inv_def set_perm_def split: option.split)
qed

lemma vm_poke_cases:
  assumes "vm_inv m" "bs \<noteq> []"
  obtains (err) h where "locate_ref (vm_regions m) a (length bs) PERM_NONE ''poke'' = Inl (Err (Unmapped a (length bs)))"
      "vm_poke a bs m = (Inl (Err (Unmapped a (length bs))), m\<lparr>vm_hints := h\<rparr>)"
    | (ok) h i s e where "locate_ref (vm_regions m) a (length bs) PERM_NONE ''poke'' = Inr (i, s, e)"
      "vm_poke a bs m = (Inr (),
         (if is_exec_region m i then note_code_write a (length bs) else id)
           (set_bytes i (\<lambda>b. blit b s bs) (m\<lparr>vm_hints := h\<rparr>)))"
proof -
  obtain h where h: "snd (find_idx a m) = m\<lparr>vm_hints := h\<rparr>" using find_idx_hints by blast
  have f: "find_idx a m = (position (in_region a) (vm_regions m), m\<lparr>vm_hints := h\<rparr>)"
    using h find_idx_ref [OF vm_inv_table [OF assms(1)], of a] by (metis prod.collapse)
  have n: "PERM_NONE \<le> p" for p by (simp flip: bot_perm_def)
  have lt: "k < 18446744073709551616 \<and> k \<le> unat z \<longleftrightarrow> k \<le> unat z" for k and z :: u64
    using unat_bound64 [of z] by auto
  show thesis
  proof (cases "locate_ref (vm_regions m) a (length bs) PERM_NONE ''poke''")
    case (Inl x)
    with n have "x = Err (Unmapped a (length bs))"
      by (auto simp: locate_ref_def Let_def split: option.splits if_splits)
    with Inl f n assms(2) show thesis
      by (intro err [of h]) (auto simp: vm_poke_def locate_ref_def Let_def lt split: option.splits)
  next
    case (Inr t)
    obtain i s e where "t = (i, s, e)" by (cases t)
    with Inr f n assms(2) show thesis
      by (intro ok [of i s e h])
        (auto simp: vm_poke_def locate_ref_def Let_def is_exec_region_def lt
          split: option.splits if_splits)
  qed
qed

lemma vm_inv_poke: "vm_inv m \<Longrightarrow> vm_inv (snd (vm_poke a bs m))"
proof (cases "bs = []")
  case False
  assume inv: "vm_inv m"
  from inv False show ?thesis
  proof (cases rule: vm_poke_cases [where a = a])
    case (ok h i s e)
    note L = locate_ref_Inr [OF vm_inv_table [OF inv] ok(1)]
    then have "vm_inv (set_bytes i (\<lambda>b. blit b s bs) (m\<lparr>vm_hints := h\<rparr>))"
      using inv by (intro vm_inv_set_bytes) simp_all
    with ok(2) show ?thesis by simp
  qed (simp add: inv)
qed (simp add: vm_poke_def)

lemma vm_locate_hints: "\<exists>h. snd (vm_locate a n p w m) = m\<lparr>vm_hints := h\<rparr>"
proof -
  obtain h where "snd (find_idx a m) = m\<lparr>vm_hints := h\<rparr>" using find_idx_hints by blast
  then have "snd (vm_locate a n p w m) = m\<lparr>vm_hints := h\<rparr>"
    by (auto simp: vm_locate_def Let_def split: prod.splits option.splits)
  then show ?thesis by blast
qed

lemma vm_host_span_hints: "\<exists>h. snd (vm_host_span a n p m) = m\<lparr>vm_hints := h\<rparr>"
  using vm_locate_hints [of a n p "''read''" m] exI [of "\<lambda>h. m = m\<lparr>vm_hints := h\<rparr>" "vm_hints m"]
  by (auto simp: vm_host_span_def split: prod.split)

lemma vm_host_span_mut_hints: "\<exists>h. snd (vm_host_span_mut a n p m) = m\<lparr>vm_hints := h\<rparr>"
  using vm_locate_hints [of a n p "''write''" m] exI [of "\<lambda>h. m = m\<lparr>vm_hints := h\<rparr>" "vm_hints m"]
  by (auto simp: vm_host_span_mut_def split: prod.split)

section \<open>Reachable memories\<close>

inductive vm_reachable :: "vmem \<Rightarrow> bool" where
  new: "vm_reachable vm_new"
| set_debug: "vm_reachable m \<Longrightarrow> debug_reachable d \<Longrightarrow> vm_reachable (vm_set_debug d m)"
| debugger: "vm_reachable m \<Longrightarrow> vm_debug m = Some d \<Longrightarrow> debug_reachable d' \<Longrightarrow>
    dbg_attached d' \<Longrightarrow> vm_reachable (m\<lparr>vm_debug := Some d'\<rparr>)"
| vm_map: "vm_reachable m \<Longrightarrow> vm_reachable (snd (vm_map alloc r m))"
| map_with_data: "vm_reachable m \<Longrightarrow> length data < 2 ^ 64 \<Longrightarrow>
    vm_reachable (snd (vm_map_with_data alloc name base n data p m))"
| poking: "vm_reachable m \<Longrightarrow> vm_reachable (snd (vm_poke a bs m))"
| reading: "vm_reachable m \<Longrightarrow> vm_reachable (snd (vm_read a n m))"
| fetching: "vm_reachable m \<Longrightarrow> vm_reachable (snd (vm_fetch a n m))"
| writing: "vm_reachable m \<Longrightarrow> vm_reachable (snd (vm_write a bs m))"
| reading_uint: "vm_reachable m \<Longrightarrow> vm_reachable (snd (vm_read_uint a n m))"
| writing_uint: "vm_reachable m \<Longrightarrow> vm_reachable (snd (vm_write_uint a n v m))"
| map_fixed: "vm_reachable m \<Longrightarrow> vm_reachable (snd (vm_map_fixed alloc base n p name m))"
| protecting: "vm_reachable m \<Longrightarrow> vm_reachable (snd (vm_protect base n p m))"
| unmapping: "vm_reachable m \<Longrightarrow> vm_reachable (snd (vm_unmap base n m))"
| host_span: "vm_reachable m \<Longrightarrow> vm_reachable (snd (vm_host_span a n p m))"
| host_span_mut: "vm_reachable m \<Longrightarrow> vm_reachable (snd (vm_host_span_mut a n p m))"

lemma vm_inv_new: "vm_inv vm_new"
  by (simp add: vm_inv_def vm_new_def table_ok_def)

lemma vm_reachable_vm_inv: "vm_reachable m \<Longrightarrow> vm_inv m"
proof (induction rule: vm_reachable.induct)
  case (set_debug m d)
  then show ?case by (auto simp: vm_inv_def vm_set_debug_def debug_reachable_inv)
next
  case (debugger m d d')
  then show ?case by (auto simp: vm_inv_def debug_reachable_inv)
next
  case (host_span m a n p)
  obtain h where "snd (vm_host_span a n p m) = m\<lparr>vm_hints := h\<rparr>" using vm_host_span_hints by blast
  with host_span show ?case by simp
next
  case (host_span_mut m a n p)
  obtain h where "snd (vm_host_span_mut a n p m) = m\<lparr>vm_hints := h\<rparr>"
    using vm_host_span_mut_hints by blast
  with host_span_mut show ?case by simp
qed (auto simp: vm_inv_new vm_map_fixed_def intro: vm_inv_map vm_inv_map_with_data vm_inv_poke
    vm_inv_read vm_inv_fetch vm_inv_write vm_inv_read_uint vm_inv_write_uint vm_inv_protect vm_inv_unmap)

section \<open>Generations of the executable pages\<close>

definition page_no :: "u64 \<Rightarrow> u64" where
  "page_no x = x div CODE_PAGE_SIZE"

lemma unat_page_no: "unat (page_no x) = unat x div 4096"
  by (simp add: page_no_def CODE_PAGE_SIZE_def unat_div)

lemma page_bound: "unat (page_no x) < 2 ^ 52"
  using unat_bound64 [of x] unfolding unat_page_no by (simp add: less_mult_imp_div_less)

lemma page_key_inj:
  assumes "unat p < 2 ^ 52" "unat q < 2 ^ 52"
  shows "p * CODE_PAGE_SIZE = q * CODE_PAGE_SIZE \<longleftrightarrow> p = q"
proof -
  have "unat (p * CODE_PAGE_SIZE) = unat p * 4096" if "unat p < 2 ^ 52" for p
    using that by (simp add: CODE_PAGE_SIZE_def unat_word_ariths)
  with assms show ?thesis by (metis mult_right_cancel word_unat_eq_iff zero_neq_numeral)
qed

lemma distinct_word_range: "distinct (word_range a b)"
proof -
  have "unat (of_nat k :: u64) = k" if "k \<in> set [unat a..<Suc (unat b)]" for k
  proof -
    have "k < 2 ^ 64" using that unat_bound64 [of b] by auto
    then show ?thesis by (simp add: unat_of_nat take_bit_nat_eq_self)
  qed
  then have "inj_on (of_nat :: nat \<Rightarrow> u64) (set [unat a..<Suc (unat b)])"
    by (rule inj_on_inverseI)
  then show ?thesis by (simp add: word_range_def distinct_map)
qed

definition gen_at :: "(u64 \<Rightarrow> u64 option) \<Rightarrow> u64 \<Rightarrow> u64" where
  "gen_at g k = (case g k of None \<Rightarrow> 0 | Some n \<Rightarrow> n)"

lemma gen_at_bump: "gen_at (bump_page p g) k = gen_at g k + of_bool (k = p * CODE_PAGE_SIZE)"
  by (simp add: gen_at_def bump_page_def Let_def)

lemma gen_at_fold_bump:
  assumes "distinct ps" "\<forall>p \<in> set ps. unat p < 2 ^ 52" "unat q < 2 ^ 52"
  shows "gen_at (fold bump_page ps g) (q * CODE_PAGE_SIZE) =
    gen_at g (q * CODE_PAGE_SIZE) + of_bool (q \<in> set ps)"
  using assms(1,2)
proof (induction ps arbitrary: g)
  case Nil
  then show ?case by simp
next
  case (Cons p ps)
  then show ?case
    using page_key_inj [OF assms(3), of p] by (auto simp: gen_at_bump)
qed

lemma vm_code_page_generation_gen_at:
  "vm_code_page_generation m x = gen_at (vm_page_gen m) (page_no x * CODE_PAGE_SIZE)"
  by (simp add: vm_code_page_generation_def gen_at_def page_no_def)

lemma page_no_le: "x \<le> y \<Longrightarrow> page_no x \<le> page_no y"
  by (simp add: word_le_unat unat_page_no div_le_mono)

lemma note_code_write_generation:
  assumes "n \<noteq> 0" "unat a + n \<le> 2 ^ 64"
  shows "vm_code_page_generation (note_code_write a n m) x =
    vm_code_page_generation m x + of_bool (\<exists>k < n. page_no (a + of_nat k) = page_no x)"
proof -
  let ?lo = "page_no a" let ?hi = "page_no (a + (of_nat n - 1))"
  have n1: "of_nat n - 1 = (of_nat (n - 1) :: u64)" using assms(1) by (cases n) simp_all
  have off: "unat (a + of_nat k) = unat a + k" if "k < n" for k
    using that assms(2) by (intro unat_plus_no_wrap) linarith
  have last: "unat (a + (of_nat n - 1)) = unat a + (n - 1)"
    unfolding n1 using assms(1) by (intro off) simp
  have "page_no x \<in> set (word_range ?lo ?hi) \<longleftrightarrow> (\<exists>k < n. page_no (a + of_nat k) = page_no x)"
  proof
    assume "page_no x \<in> set (word_range ?lo ?hi)"
    then have le: "unat a div 4096 \<le> unat x div 4096" "unat x div 4096 \<le> (unat a + (n - 1)) div 4096"
      by (simp_all only: set_word_range mem_Collect_eq word_le_unat unat_page_no last)
    define y where "y = max (unat a) (4096 * (unat x div 4096))"
    have "unat x div 4096 \<le> unat a div 4096" if "4096 * (unat x div 4096) \<le> unat a"
      using that by (simp add: less_eq_div_iff_mult_less_eq mult.commute)
    then have y1: "y div 4096 = unat x div 4096" using le(1) by (auto simp: y_def max_def)
    have "4096 * (unat x div 4096) \<le> 4096 * ((unat a + (n - 1)) div 4096)"
      using le(2) by (rule mult_le_mono2)
    also have "\<dots> \<le> unat a + (n - 1)" by simp
    finally have "y < unat a + n" using assms(1) by (simp add: y_def)
    moreover have "unat a \<le> y" by (simp add: y_def)
    ultimately have y: "y div 4096 = unat x div 4096" "unat a \<le> y" "y < unat a + n"
      using y1 by blast+
    have "page_no (a + of_nat (y - unat a)) = page_no x"
      using y off [of "y - unat a"] by (simp add: word_unat_eq_iff unat_page_no)
    moreover have "y - unat a < n" using y by linarith
    ultimately show "\<exists>k < n. page_no (a + of_nat k) = page_no x" by blast
  next
    assume "\<exists>k < n. page_no (a + of_nat k) = page_no x"
    then obtain k where k: "k < n" "page_no (a + of_nat k) = page_no x" by blast
    have "?lo \<le> page_no (a + of_nat k)" "page_no (a + of_nat k) \<le> ?hi"
      unfolding word_le_unat unat_page_no off [OF k(1)] last using k(1) by (simp_all add: div_le_mono)
    with k(2) show "page_no x \<in> set (word_range ?lo ?hi)" by (simp add: set_word_range)
  qed
  moreover have "unat p < 2 ^ 52" if "p \<in> set (word_range ?lo ?hi)" for p
    using that page_bound [of "a + (of_nat n - 1)"] by (auto simp: set_word_range word_le_unat)
  moreover have "vm_page_gen (note_code_write a n m) = fold bump_page (word_range ?lo ?hi) (vm_page_gen m)"
    by (simp add: note_code_write_def Let_def page_no_def)
  ultimately show ?thesis
    using gen_at_fold_bump [OF distinct_word_range _ page_bound, of ?lo ?hi "vm_page_gen m" x]
    by (auto simp: vm_code_page_generation_gen_at)
qed

definition poked :: "u64 \<Rightarrow> bytes \<Rightarrow> nat \<Rightarrow> vmem \<Rightarrow> vmem" where
  \<comment> \<open>the bytes of a range inside region \<open>i\<close> replaced, and the executable write noted\<close>
  "poked a bs i m =
     (let s = unat (a - rg_base (mp_region (vm_regions m ! i))); m1 = set_bytes i (\<lambda>b. blit b s bs) m
      in if is_exec_region m i then note_code_write a (length bs) m1 else m1)"

definition fits_in :: "u64 \<Rightarrow> nat \<Rightarrow> nat \<Rightarrow> vmem \<Rightarrow> bool" where
  "fits_in a n i m \<longleftrightarrow> i < length (vm_regions m) \<and> in_region a (vm_regions m ! i) \<and>
     unat (a - rg_base (mp_region (vm_regions m ! i))) + n \<le> unat (rg_size (mp_region (vm_regions m ! i)))"

lemma locate_fits_in:
  assumes "table_ok (vm_regions m)" "locate_ref (vm_regions m) a n p w = Inr (i, s, e)"
  shows "fits_in a n i m"
  using locate_ref_Inr [OF assms] assms(1) by (auto simp: fits_in_def table_ok_def region_ok_def)

lemma vm_write_effect:
  assumes "vm_inv m" "bs \<noteq> []" "m' = snd (vm_write a bs m) \<or> m' = snd (vm_poke a bs m)"
  obtains (same) h where "m' = m\<lparr>vm_hints := h\<rparr>"
    | (poked) h i where "fits_in a (length bs) i m" "m' = poked a bs i (m\<lparr>vm_hints := h\<rparr>) \<or>
        m' = note_watched_access a (length bs) WkWrite (poked a bs i (m\<lparr>vm_hints := h\<rparr>))"
  using assms(3)
proof
  assume m': "m' = snd (vm_write a bs m)"
  from assms(1,2) show thesis
  proof (cases rule: vm_write_cases [where a = a])
    case (err h x)
    with m' show thesis by (intro same [of h]) simp
  next
    case (ok h i s e)
    with m' locate_ref_Inr(3) [OF vm_inv_table [OF assms(1)] ok(1)] show thesis
      by (intro poked [OF locate_fits_in [OF vm_inv_table [OF assms(1)] ok(1)], of h])
        (simp add: write_located_def poked_def Let_def is_exec_region_def)
  qed
next
  assume m': "m' = snd (vm_poke a bs m)"
  from assms(1,2) show thesis
  proof (cases rule: vm_poke_cases [where a = a])
    case (err h)
    with m' show thesis by (intro same [of h]) simp
  next
    case (ok h i s e)
    with m' locate_ref_Inr(3) [OF vm_inv_table [OF assms(1)] ok(1)] show thesis
      by (intro poked [OF locate_fits_in [OF vm_inv_table [OF assms(1)] ok(1)], of h])
        (simp add: poked_def Let_def is_exec_region_def)
  qed
qed

lemma poked_space:
  assumes "vm_ok m" "fits_in a (length bs) i m"
  shows "vm_space (poked a bs i m) = overlay a bs (vm_space m)"
  using table_space_splice_at [OF vm_ok_table [OF assms(1)], of i a bs] assms
  by (simp add: poked_def vm_space_def set_bytes_blit vm_ok_def Let_def fits_in_def)

lemma fits_in_hints [simp]: "fits_in a n i (m\<lparr>vm_hints := h\<rparr>) = fits_in a n i m"
  by (simp add: fits_in_def)

lemma fits_in_no_wrap:
  assumes "vm_ok m" "fits_in a n i m" "n \<noteq> 0"
  shows "unat a + n \<le> 2 ^ 64"
proof -
  have f: "i < length (vm_regions m)" "in_region a (vm_regions m ! i)"
    "unat (a - rg_base (mp_region (vm_regions m ! i))) + n \<le> unat (rg_size (mp_region (vm_regions m ! i)))"
    using assms(2) by (simp_all add: fits_in_def)
  have "unat (a + of_nat (n - 1)) = unat a + (n - 1)"
    using assms(3) by (intro range_in_region(2) [OF vm_ok_below [OF assms(1) f(1)] f(2,3)]) simp
  then show ?thesis using unat_bound64 [of "a + of_nat (n - 1)"] by linarith
qed

lemma poked_noticed:
  assumes ok: "vm_ok m" and f: "fits_in a (length bs) i m" "bs \<noteq> []"
    and x: "vm_space m x = Some (p, b)" "PERM_EXEC \<le> p" "vm_space (poked a bs i m) x \<noteq> vm_space m x"
  shows "vm_code_page_generation (poked a bs i m) x = vm_code_page_generation m x + 1 \<and>
    vm_code_gen (poked a bs i m) = vm_code_gen m + 1"
proof -
  have lt: "unat (x - a) < length bs"
    using x(3) unfolding poked_space [OF ok f(1)] by (simp add: overlay_def split: if_splits)
  have i: "i < length (vm_regions m)" "in_region a (vm_regions m ! i)"
    "unat (a - rg_base (mp_region (vm_regions m ! i))) + length bs
      \<le> unat (rg_size (mp_region (vm_regions m ! i)))"
    using f(1) by (simp_all add: fits_in_def)
  have "in_region x (vm_regions m ! i)"
    using range_in_region(1) [OF vm_ok_below [OF ok i(1)] i(2,3) lt] by simp
  then have "p = rg_perm (mp_region (vm_regions m ! i))"
    using x(1) by (simp add: vm_space_def table_space_in_region [OF vm_ok_table [OF ok] i(1)])
  then have ex: "is_exec_region m i" using x(2) by (simp add: is_exec_region_def less_eq_perm_def)
  have "x = a + of_nat (unat (x - a))" by simp
  with lt have "\<exists>k < length bs. page_no (a + of_nat k) = page_no x" by metis
  moreover have "vm_code_page_generation (set_bytes i g m) x = vm_code_page_generation m x" for g
    by (simp add: vm_code_page_generation_def set_bytes_def)
  ultimately show ?thesis
    using ex f(2) fits_in_no_wrap [OF ok f(1)]
    by (simp add: poked_def Let_def note_code_write_generation)
      (simp add: note_code_write_def set_bytes_def Let_def)
qed

lemma vm_space_watched [simp]: "vm_space (note_watched_access a n k m) = vm_space m"
  "vm_code_page_generation (note_watched_access a n k m) x = vm_code_page_generation m x"
  by (simp_all add: vm_space_def vm_code_page_generation_def)

end
