(* ===== verification/Memory_Theorems.thy ===== *)
theory Memory_Theorems
  imports Memory_Properties
begin

text \<open>
  What \<open>VirtualMemory\<close> guarantees its clients, on a concrete memory and in general: the table
  invariant, the transparency of the lookup cache, read-after-write with its frame, the exact
  outcome of every access, mapping and unmapping, the integer accessors, and the generations by
  which stale translations are noticed.
\<close>


section \<open>A small memory for concrete runs\<close>

definition demo_vm :: vmem where
  "demo_vm = snd (vm_map_with_data (\<lambda>_. True) ''code'' 0x400000 16 [0x90, 0xC3] PERM_RWX vm_new)"

lemma demo_vm_eq:
  "demo_vm = \<lparr>vm_regions = [\<lparr>mp_region = \<lparr>rg_name = ''code'', rg_base = 0x400000, rg_size = 16, rg_perm = PERM_RWX\<rparr>,
       mp_bytes = [0x90, 0xC3, 0, 0, 0, 0, 0, 0, 0, 0, 0, 0, 0, 0, 0, 0]\<rparr>],
     vm_code_gen = 0, vm_page_gen = (\<lambda>_. None), vm_hints = (\<lambda>_. 0), vm_layout_gen = 1, vm_debug = None\<rparr>"
proof -
  have "replicate 14 (0 :: u8) = [0, 0, 0, 0, 0, 0, 0, 0, 0, 0, 0, 0, 0, 0]"
    by (simp add: numeral_eq_Suc)
  then show ?thesis
    by (simp add: demo_vm_def vm_map_with_data_def zeroed_def vm_insert_def vm_new_def blit_def
        insert_at_def partition_point_def Let_def max_def)
qed

lemma demo_vm_reachable: "vm_reachable demo_vm"
  unfolding demo_vm_def by (intro vm_reachable.map_with_data vm_reachable.new) simp

lemma demo_vm_ok: "vm_ok demo_vm"
  using vm_reachable_vm_inv [OF demo_vm_reachable]
  by (simp add: vm_ok_def table_below_top_def below_top_def demo_vm_eq)

lemma perm_le_eval [eval_simps]: "p \<le> q \<longleftrightarrow> perm_bits q AND perm_bits p = perm_bits p"
  by (simp add: less_eq_perm_def perm_contains_def)

lemma demo_vm_acc:
  "vm_acc demo_vm PERM_WRITE 0x400004 4" "vm_acc demo_vm PERM_READ 0x400004 4"
  by (simp_all add: demo_vm_eq vm_acc_def region_contains_def saturating_add_def eval_simps)

lemma demo_vm_space: "vm_space demo_vm 0x400001 = Some (PERM_RWX, 0xC3)"
  by (simp add: vm_space_def demo_vm_eq table_space_def position_def region_contains_def
      saturating_add_def Let_def)

section \<open>Properties\<close>

text \<open>
  C5: In every memory a program can build, the region table is sorted by address, regions
  neither overlap nor are empty, each region is backed by exactly as many bytes as its size,
  and the attached debug control block is in a consistent state.
\<close>

theorem region_table_invariant:
  assumes "vm_reachable m"
  shows "sorted_wrt (\<lambda>x y. mapped_end x \<le> rg_base (mp_region y)) (vm_regions m) \<and>
    (\<forall>x \<in> set (vm_regions m). rg_size (mp_region x) \<noteq> 0 \<and>
       length (mp_bytes x) = unat (rg_size (mp_region x))) \<and>
    (\<forall>d. vm_debug m = Some d \<longrightarrow> debug_inv d \<and> dbg_attached d)"
  using vm_reachable_vm_inv [OF assms] by (simp add: vm_inv_def table_ok_def region_ok_def)

theorem region_table_invariant_witness:
  "vm_reachable demo_vm \<and> length (mp_bytes (vm_regions demo_vm ! 0)) = unat (rg_size (mp_region (vm_regions demo_vm ! 0)))"
  using region_table_invariant [OF demo_vm_reachable] demo_vm_reachable by (simp add: demo_vm_eq)

text \<open>
  C4: The cached lookup is transparent: whatever the eight hint slots hold, \<open>find_idx\<close>
  returns the index of the one region that contains the address, as a search of the whole
  table does, and changes nothing but the hints.
\<close>

theorem cached_lookup_exact:
  assumes "vm_reachable m"
  shows "fst (find_idx a (m\<lparr>vm_hints := h\<rparr>)) = position (\<lambda>x. region_contains (mp_region x) a) (vm_regions m) \<and>
    (\<exists>h'. snd (find_idx a (m\<lparr>vm_hints := h\<rparr>)) = m\<lparr>vm_hints := h'\<rparr>)"
  using find_idx_ref [of "m\<lparr>vm_hints := h\<rparr>" a] find_idx_hints [of a "m\<lparr>vm_hints := h\<rparr>"]
    vm_inv_table [OF vm_reachable_vm_inv [OF assms]]
  by auto

theorem cached_lookup_exact_witness:
  "fst (find_idx 0x400005 (demo_vm\<lparr>vm_hints := \<lambda>_. 7\<rparr>)) = Some 0"
  using cached_lookup_exact [OF demo_vm_reachable, of "0x400005" "\<lambda>_. 7"]
  by (simp add: demo_vm_eq position_def region_contains_def saturating_add_def)

lemma locate_ref_error:
  assumes "vm_ok m" "locate_ref (vm_regions m) a n p w = Inl x"
  shows "x = Err (if vm_acc m PERM_NONE a n then Permission a w else Unmapped a n)"
proof -
  have none: "PERM_NONE \<le> p" for p by (simp flip: bot_perm_def)
  from assms(2) none show ?thesis
    by (auto simp: vm_acc_locate [OF vm_ok_table [OF assms(1)], where w = w] locate_ref_def Let_def
        split: option.splits if_splits)
qed

lemma read_outcome:
  assumes "vm_ok m"
  shows "fst (vm_read a n m) =
      (if n = 0 \<or> vm_acc m PERM_READ a n then Inr (bytes_at (vm_space m) a n)
       else if vm_acc m PERM_NONE a n then Inl (Err (Permission a ''read''))
       else Inl (Err (Unmapped a n)))"
proof (cases "n = 0 \<or> vm_acc m PERM_READ a n")
  case False
  then have n: "n \<noteq> 0" "\<not> vm_acc m PERM_READ a n" by simp_all
  obtain x where "locate_ref (vm_regions m) a n PERM_READ ''read'' = Inl x"
    using not_acc_locate [OF assms n(2)] by blast
  with vm_ok_inv [OF assms] n(1) n(2) locate_ref_error [OF assms this] show ?thesis
    by (cases rule: vm_read_cases [where a = a]) (auto simp: n)
qed (simp add: vm_read_ok [OF assms])

lemma fetch_outcome:
  assumes "vm_ok m"
  shows "fst (vm_fetch a n m) =
      (if n = 0 \<or> vm_acc m PERM_EXEC a n then Inr (bytes_at (vm_space m) a n)
       else if vm_acc m PERM_NONE a n then Inl (Err (Permission a ''execute''))
       else Inl (Err (Unmapped a n)))"
proof (cases "n = 0 \<or> vm_acc m PERM_EXEC a n")
  case False
  then have n: "n \<noteq> 0" "\<not> vm_acc m PERM_EXEC a n" by simp_all
  obtain x where "locate_ref (vm_regions m) a n PERM_EXEC ''execute'' = Inl x"
    using not_acc_locate [OF assms n(2)] by blast
  with vm_ok_inv [OF assms] n(1) n(2) locate_ref_error [OF assms this] show ?thesis
    by (cases rule: vm_fetch_cases [where a = a]) (auto simp: n)
qed (simp add: vm_fetch_ok [OF assms])

text \<open>
  C1: Read after write, and the frame of a write. In well-formed memory (the region table in
  order, no region reaching the last address), a guest write of at least one byte that the rights
  allow succeeds; reading the range back gives the bytes written where the range is readable at
  all; and a read or a fetch of any disjoint range, mapped or not and whatever its rights, has
  exactly the outcome it had before the write, the bytes or the same error.
\<close>

theorem write_read_frame:
  assumes ok: "vm_ok m" and bs: "bs \<noteq> []" and acc: "vm_acc m PERM_WRITE a (length bs)"
  shows "fst (vm_write a bs m) = Inr () \<and>
    (vm_acc m PERM_READ a (length bs) \<longrightarrow>
      fst (vm_read a (length bs) (snd (vm_write a bs m))) = Inr bs) \<and>
    ((\<forall>i < n. \<not> unat (b + of_nat i - a) < length bs) \<longrightarrow>
      fst (vm_read b n (snd (vm_write a bs m))) = fst (vm_read b n m) \<and>
      fst (vm_fetch b n (snd (vm_write a bs m))) = fst (vm_fetch b n m))"
proof (intro conjI impI)
  let ?m = "snd (vm_write a bs m)"
  show "fst (vm_write a bs m) = Inr ()"
    using vmem.write_ok [OF ok] acc by simp
  show "fst (vm_read a (length bs) ?m) = Inr bs" if "vm_acc m PERM_READ a (length bs)"
    using vmem.read_after_write [OF ok bs acc that] by simp
  have ok': "vm_ok ?m" and acc': "vm_acc ?m = vm_acc m" using vm_write_keeps [OF ok, of a bs] by simp_all
  assume apart: "\<forall>i < n. \<not> unat (b + of_nat i - a) < length bs"
  then have same: "bytes_at (vm_space ?m) b n = bytes_at (vm_space m) b n"
    using vm_write_ok [OF ok, of bs a] acc bytes_at_overlay_disjoint [of n b a bs "vm_space m"] by simp
  show "fst (vm_read b n ?m) = fst (vm_read b n m)"
    unfolding read_outcome [OF ok] read_outcome [OF ok'] acc' same ..
  show "fst (vm_fetch b n ?m) = fst (vm_fetch b n m)"
    unfolding fetch_outcome [OF ok] fetch_outcome [OF ok'] acc' same ..
qed

theorem write_read_frame_witness:
  "fst (vm_read 0x400004 4 (snd (vm_write 0x400004 [1, 2, 3, 4] demo_vm))) = Inr [1, 2, 3, 4] \<and>
   fst (vm_read 0x400008 100 (snd (vm_write 0x400004 [1, 2, 3, 4] demo_vm))) =
   fst (vm_read 0x400008 100 demo_vm)"
proof (rule conjI)
  have "\<not> unat (0x400008 + of_nat i - 0x400004 :: u64) < 4" if "i < 100" for i
  proof -
    have "0x400008 + of_nat i - 0x400004 = (of_nat (i + 4) :: u64)" by simp
    then show ?thesis using that by (simp only: unat_of_nat) simp
  qed
  then show "fst (vm_read 0x400008 100 (snd (vm_write 0x400004 [1, 2, 3, 4] demo_vm))) =
   fst (vm_read 0x400008 100 demo_vm)"
    using write_read_frame [OF demo_vm_ok, of "[1, 2, 3, 4]" "0x400004" 100 "0x400008"] demo_vm_acc
    by (simp add: numeral_eq_Suc)
  show "fst (vm_read 0x400004 4 (snd (vm_write 0x400004 [1, 2, 3, 4] demo_vm))) = Inr [1, 2, 3, 4]"
    using write_read_frame [OF demo_vm_ok, of "[1, 2, 3, 4]" "0x400004"] demo_vm_acc
    by (simp add: numeral_eq_Suc)
qed



lemma range_write_noticed:
  assumes "vm_ok m" "vm_space m x = Some (p, b)" "PERM_EXEC \<le> p"
    and "m' = snd (vm_write a bs m) \<or> m' = snd (vm_poke a bs m)"
    and "vm_space m' x \<noteq> vm_space m x"
  shows "vm_code_page_generation m' x = vm_code_page_generation m x + 1 \<and>
    vm_code_gen m' = vm_code_gen m + 1"
proof (cases "bs = []")
  case True
  then show ?thesis using assms(4,5) by (auto simp: vm_write_def vm_poke_def em_apply)
next
  case False
  from vm_ok_inv [OF assms(1)] False assms(4) show ?thesis
  proof (cases rule: vm_write_effect)
    case (same h)
    with assms(5) show ?thesis by simp
  next
    case (poked h i)
    let ?m = "m\<lparr>vm_hints := h\<rparr>"
    have "vm_space m' = vm_space (poked a bs i ?m) \<and> vm_code_gen m' = vm_code_gen (poked a bs i ?m) \<and>
        vm_code_page_generation m' x = vm_code_page_generation (poked a bs i ?m) x"
      using poked(2) by auto
    then show ?thesis
      using poked_noticed [of ?m a bs i x p b] poked(1) False assms(1,2,3,5)
      by (simp add: vm_code_page_generation_def)
  qed
qed

text \<open>
  C2: Stale translations are noticed. In well-formed memory, whenever a guest write of a byte
  range, a scalar store of the interpreter (\<open>write_uint\<close>) or the loader's \<open>poke\<close> changes a byte
  that is executable, the generation of that byte's page and the global generation both advance
  by one, so a block compiled from the page before the write no longer matches.
\<close>

theorem code_write_noticed:
  assumes ok: "vm_ok m" and x: "vm_space m x = Some (p, b)" "PERM_EXEC \<le> p"
    and "m' = snd (vm_write a bs m) \<or> m' = snd (vm_write_uint a sz v m) \<or> m' = snd (vm_poke a bs m)"
    and diff: "vm_space m' x \<noteq> vm_space m x"
  shows "vm_code_page_generation m' x = vm_code_page_generation m x + 1 \<and>
    vm_code_gen m' = vm_code_gen m + 1"
  using assms(4)
proof (elim disjE)
  assume "m' = snd (vm_write_uint a sz v m)"
  with diff have "m' = snd (vm_write a (uint_bytes sz v) m)"
    by (cases "uint_size sz") (simp_all add: vm_write_uint_write, simp add: vm_write_uint_def em_apply)
  then show ?thesis using range_write_noticed [OF ok x _ diff] by blast
qed (use range_write_noticed [OF ok x _ diff] in blast)+

theorem code_write_noticed_witness:
  "vm_code_page_generation (snd (vm_write_uint 0x400001 1 0x90 demo_vm)) 0x400001 =
   vm_code_page_generation demo_vm 0x400001 + 1"
proof -
  have acc: "vm_acc demo_vm PERM_WRITE 0x400001 1"
    by (simp add: demo_vm_eq vm_acc_def region_contains_def saturating_add_def eval_simps)
  have "vm_space (snd (vm_write_uint 0x400001 1 0x90 demo_vm)) 0x400001 = Some (PERM_RWX, 0x90)"
    using vm_write_ok [OF demo_vm_ok, of "[0x90]" "0x400001"] acc
    by (simp add: overlay_def demo_vm_space vm_write_uint_write uint_size_def uint_bytes_def)
  then show ?thesis
    using code_write_noticed [OF demo_vm_ok demo_vm_space, of _ "0x400001" "[]" 1 "0x90"]
    by (simp add: eval_simps demo_vm_space)
qed

lemma position_sorted:
  assumes "table_ok rs"
  shows "position (in_region a) rs = Some i \<longleftrightarrow> i < length rs \<and> in_region a (rs ! i)"
  using position_in_region [OF assms] by (auto simp: position_Some)

lemma table_space_Some:
  assumes "table_ok rs"
  shows "table_space rs a = Some (p, b) \<longleftrightarrow>
    (\<exists>x \<in> set rs. in_region a x \<and> p = rg_perm (mp_region x) \<and>
       b = mp_bytes x ! unat (a - rg_base (mp_region x)))"
proof
  assume "table_space rs a = Some (p, b)"
  then obtain i where "position (in_region a) rs = Some i" "p = rg_perm (mp_region (rs ! i))"
    "b = mp_bytes (rs ! i) ! unat (a - rg_base (mp_region (rs ! i)))"
    by (auto simp: table_space_def split: option.splits)
  then show "\<exists>x \<in> set rs. in_region a x \<and> p = rg_perm (mp_region x) \<and>
       b = mp_bytes x ! unat (a - rg_base (mp_region x))"
    by (auto simp: position_Some)
next
  assume "\<exists>x \<in> set rs. in_region a x \<and> p = rg_perm (mp_region x) \<and>
       b = mp_bytes x ! unat (a - rg_base (mp_region x))"
  then show "table_space rs a = Some (p, b)"
    using table_space_in_region [OF assms] by (auto simp: in_set_conv_nth)
qed

lemma table_space_eqI:
  assumes "table_ok rs" "table_ok rs'"
    "\<And>x. x \<in> set rs \<Longrightarrow> in_region a x \<Longrightarrow> x \<in> set rs'"
    "\<And>x. x \<in> set rs' \<Longrightarrow> in_region a x \<Longrightarrow> x \<in> set rs"
  shows "table_space rs a = table_space rs' a"
proof (rule option.expand)
  have eq: "table_space rs a = Some v \<longleftrightarrow> table_space rs' a = Some v" for v
    using assms by (cases v) (auto simp: table_space_Some)
  show "(table_space rs a = None) = (table_space rs' a = None)"
    using eq by (metis option.exhaust option.distinct(1))
  show "table_space rs a \<noteq> None \<Longrightarrow> table_space rs' a \<noteq> None \<Longrightarrow>
      the (table_space rs a) = the (table_space rs' a)"
    using eq by (metis option.exhaust_sel option.inject)
qed

lemma vm_insert_space:
  fixes r m defines "bs \<equiv> replicate (unat (rg_size r)) 0 :: bytes"
  assumes inv: "vm_inv m" and r: "rg_size r \<noteq> 0" "\<not> list_ex (overlaps r) (vm_regions m)"
  shows "vm_space (snd (vm_insert r bs m)) a =
    (if region_contains r a then Some (rg_perm r, 0) else vm_space m a)"
proof -
  let ?m = "snd (vm_insert r bs m)"
  note tab = vm_inv_table [OF inv]
  have tab': "table_ok (vm_regions ?m)"
    using vm_inv_insert [OF inv, of bs r] by (simp add: bs_def vm_inv_def)
  have regs: "set (vm_regions ?m) = insert \<lparr>mp_region = r, mp_bytes = bs\<rparr> (set (vm_regions m))"
    using r by (simp add: vm_insert_def Let_def)
  show ?thesis
  proof (cases "region_contains r a")
    case True
    have "bs ! unat (a - rg_base r) = 0" using region_contains_offset [OF True] by (simp add: bs_def)
    then have "table_space (vm_regions ?m) a = Some (rg_perm r, 0)"
      unfolding table_space_Some [OF tab'] regs using True by auto
    with True show ?thesis by (simp add: vm_space_def)
  next
    case False
    then have "table_space (vm_regions ?m) a = table_space (vm_regions m) a"
      by (intro table_space_eqI [OF tab' tab]) (auto simp: regs)
    with False show ?thesis by (simp add: vm_space_def)
  qed
qed

lemma overlaps_share:
  assumes "table_ok rs" "x \<in> set rs" "rg_size r \<noteq> 0"
  shows "overlaps r x \<longleftrightarrow> (\<exists>a. region_contains r a \<and> in_region a x)"
proof
  assume over: "overlaps r x"
  have pos: "0 < unat (rg_size r)" "0 < unat (rg_size (mp_region x))"
    using assms by (simp_all add: table_ok_def region_ok_def unat_gt_0)
  have less: "unat (rg_base r) < unat (mapped_end x)" "unat (rg_base (mp_region x)) < unat (region_end r)"
    using over by (simp_all add: overlaps_def word_less_unat)
  have "rg_base r < region_end r"
    using less(1) pos(1) unat_bound64 [of "mapped_end x"] by (simp add: word_less_unat unat_region_end)
  moreover have "rg_base (mp_region x) < mapped_end x"
    using less(2) pos(2) unat_bound64 [of "region_end r"]
    by (simp add: word_less_unat mapped_end_def unat_region_end)
  ultimately have "region_contains r (max (rg_base r) (rg_base (mp_region x))) \<and>
      in_region (max (rg_base r) (rg_base (mp_region x))) x"
    using over by (auto simp: overlaps_def region_contains_end mapped_end_def max_def)
  then show "\<exists>a. region_contains r a \<and> in_region a x" by blast
qed (auto simp: overlaps_def region_contains_end mapped_end_def intro: le_less_trans)

text \<open>
  C6: The exact outcome of mapping a region, for every region and every host allocator. When
  the host cannot back a region of that size, mapping changes nothing and fails as unsupported,
  whether or not the region overlaps; a region of size zero is accepted and changes nothing;
  otherwise, when an existing region shares an address with it, mapping changes nothing and
  reports the overlap; and in every other case it succeeds, and the guest sees the region
  zero-filled with its rights and every other address as before.
\<close>

theorem map_exact:
  assumes m: "vm_reachable m"
  shows "if \<not> alloc (rg_size r)
    then vm_map alloc r m =
      (Inl (Err (Unsupported (''cannot back a '' @ fmt_hex (unat (rg_size r)) @ ''-byte region''))), m)
    else if rg_size r = 0 then vm_map alloc r m = (Inr (), m)
    else if \<exists>x \<in> set (vm_regions m). \<exists>a. region_contains r a \<and> in_region a x
    then vm_map alloc r m = (Inl (Err (Overlap (rg_base r) (rg_size r))), m)
    else fst (vm_map alloc r m) = Inr () \<and>
      vm_space (snd (vm_map alloc r m)) =
        (\<lambda>a. if region_contains r a then Some (rg_perm r, 0) else vm_space m a)"
proof (cases "alloc (rg_size r)")
  case True
  note inv = vm_reachable_vm_inv [OF m]
  let ?bs = "replicate (unat (rg_size r)) 0 :: bytes"
  have map: "vm_map alloc r m = vm_insert r ?bs m" using True by (simp add: vm_map_def zeroed_def)
  have over: "list_ex (overlaps r) (vm_regions m) \<longleftrightarrow>
      (\<exists>x \<in> set (vm_regions m). \<exists>a. region_contains r a \<and> in_region a x)" if "rg_size r \<noteq> 0"
    using overlaps_share [OF vm_inv_table [OF inv]] that by (auto simp: list_ex_iff)
  show ?thesis
  proof (cases rule: vm_insert_cases [of r ?bs m])
    case inserted
    have "vm_space (snd (vm_insert r ?bs m)) a = (if region_contains r a then Some (rg_perm r, 0) else vm_space m a)" for a
      by (rule vm_insert_space [OF inv inserted(1,2)])
    with inserted over True show ?thesis by (auto simp: map)
  qed (use over True map in auto)
qed (simp add: vm_map_def zeroed_def)

theorem map_exact_witness:
  "vm_map (\<lambda>_. True) \<lparr>rg_name = ''x'', rg_base = 0x400008, rg_size = 16, rg_perm = PERM_RW\<rparr> demo_vm =
   (Inl (Err (Overlap 0x400008 16)), demo_vm)"
proof -
  let ?r = "\<lparr>rg_name = ''x'', rg_base = 0x400008, rg_size = 16, rg_perm = PERM_RW\<rparr>"
  have "region_contains ?r 0x400008 \<and> in_region 0x400008 (vm_regions demo_vm ! 0)"
    by (simp add: demo_vm_eq region_contains_def saturating_add_def)
  moreover have "vm_regions demo_vm ! 0 \<in> set (vm_regions demo_vm)" by (simp add: demo_vm_eq)
  ultimately have "\<exists>x \<in> set (vm_regions demo_vm). \<exists>a. region_contains ?r a \<and> in_region a x" by blast
  then show ?thesis
    using map_exact [OF demo_vm_reachable, where r = ?r and alloc = "\<lambda>_. True"] by simp
qed

text \<open>
  C7: \<open>unmap\<close> with a length removes exactly the regions that lie inside the range: an address
  of such a region becomes unmapped, every other address keeps its byte and its rights.
\<close>

theorem unmap_range_exact:
  assumes m: "vm_reachable m" and n: "n \<noteq> 0"
  shows "fst (vm_unmap base n m) = Inr () \<and>
    vm_space (snd (vm_unmap base n m)) a =
      (if \<exists>x \<in> set (vm_regions m). in_region a x \<and> base \<le> rg_base (mp_region x) \<and>
          mapped_end x \<le> saturating_add base n
       then None else vm_space m a)"
proof -
  note tab = vm_inv_table [OF vm_reachable_vm_inv [OF m]]
  let ?rs' = "vm_regions (snd (vm_unmap base n m))"
  have rs': "?rs' = filter (\<lambda>x. \<not> (rg_base (mp_region x) \<ge> base \<and> mapped_end x \<le> saturating_add base n))
      (vm_regions m)"
    using n by (simp add: vm_unmap_def Let_def)
  have tab': "table_ok ?rs'" unfolding rs' using tab by (rule table_ok_filter)
  have "table_space ?rs' a =
      (if \<exists>x \<in> set (vm_regions m). in_region a x \<and> base \<le> rg_base (mp_region x) \<and>
          mapped_end x \<le> saturating_add base n then None else table_space (vm_regions m) a)"
  proof (cases "\<exists>x \<in> set (vm_regions m). in_region a x \<and> base \<le> rg_base (mp_region x) \<and>
      mapped_end x \<le> saturating_add base n")
    case True
    have "y = x" if "x \<in> set (vm_regions m)" "y \<in> set (vm_regions m)" "in_region a x" "in_region a y" for x y
      using that in_region_unique [OF tab] by (metis in_set_conv_nth)
    then have "\<forall>y \<in> set ?rs'. \<not> in_region a y" using True unfolding rs' by auto
    then have "position (in_region a) ?rs' = None" by (simp only: position_None)
    with True show ?thesis by (simp add: table_space_def)
  next
    case False
    then have "table_space ?rs' a = table_space (vm_regions m) a"
      by (intro table_space_eqI [OF tab' tab]) (auto simp: rs')
    with False show ?thesis by (simp only: if_False)
  qed
  moreover have "fst (vm_unmap base n m) = Inr ()" using n by (simp add: vm_unmap_def Let_def)
  ultimately show ?thesis unfolding vm_space_def by blast
qed

theorem unmap_range_exact_witness:
  "vm_space (snd (vm_unmap 0x400000 0x1000 demo_vm)) 0x400001 = None"
proof -
  have "\<exists>x \<in> set (vm_regions demo_vm). in_region 0x400001 x \<and> 0x400000 \<le> rg_base (mp_region x) \<and>
      mapped_end x \<le> saturating_add 0x400000 0x1000"
    by (simp add: demo_vm_eq region_contains_def saturating_add_def mapped_end_def region_end_def)
  with unmap_range_exact [OF demo_vm_reachable, where n = "0x1000" and base = "0x400000" and a = "0x400001"] show ?thesis by simp
qed

text \<open>
  The integer accessors the interpreter uses are the trait's default ones (byte for byte,
  state included), and an integer read back from where it was written is the value truncated to
  the access size.
\<close>

theorem uint_accessors:
  assumes "vm_ok m" "uint_size n" "vm_acc m PERM_WRITE a n" "vm_acc m PERM_READ a n"
  shows "vm_read_uint a n m = trait_read_uint (vm_ops alloc) a n m \<and>
    vm_write_uint a n v m = trait_write_uint (vm_ops alloc) a n v m \<and>
    fst (vm_read_uint a n (snd (vm_write_uint a n v m))) = Inr (take_bit (8 * n) v)"
proof (intro conjI)
  show "vm_read_uint a n m = trait_read_uint (vm_ops alloc) a n m"
    by (rule vm_read_uint_trait [OF vm_ok_inv [OF assms(1)]])
  show "vm_write_uint a n v m = trait_write_uint (vm_ops alloc) a n v m"
    by (simp add: vm_write_uint_trait [where alloc = alloc])
  let ?bs = "uint_bytes n v"
  have len: "length ?bs = n" using assms(2) by (rule length_uint_bytes)
  moreover have "?bs \<noteq> []" using len assms(2) by (auto simp: uint_size_def)
  ultimately have "fst (vm_read a n (snd (vm_write a ?bs m))) = Inr ?bs"
    using vmem.read_after_write [OF assms(1), of ?bs a] assms(3,4) by simp
  moreover have "uint_value n ?bs = take_bit (8 * n) v"
  proof -
    have "from_le (to_le 2 w) = w" "from_le (to_le 4 x) = x" "from_le (to_le 8 v) = v"
      for w :: u16 and x :: u32
      by (simp_all add: from_le_to_le take_bit_word_eq_self)
    moreover have "ucast (ucast v :: u8) = take_bit 8 v" "ucast (ucast v :: u16) = take_bit 16 v"
      "ucast (ucast v :: u32) = take_bit 32 v" "take_bit 64 v = v"
      by (rule bit_word_eqI; auto simp: bit_simps)+
    ultimately show ?thesis
      using assms(2) len unfolding uint_size_def
      by (elim disjE) (simp_all add: uint_value_from_le [simplified] uint_bytes_def)
  qed
  ultimately show "fst (vm_read_uint a n (snd (vm_write_uint a n v m))) = Inr (take_bit (8 * n) v)"
    by (cases "vm_read a n (snd (vm_write a ?bs m))")
      (simp add: vm_read_uint_read [OF assms(2)] vm_write_uint_write [OF assms(2)] em_bind_def em_apply)
qed

theorem uint_accessors_witness:
  "fst (vm_read_uint 0x400004 4 (snd (vm_write_uint 0x400004 4 0x1122334455 demo_vm))) = Inr 0x22334455"
  using uint_accessors [OF demo_vm_ok _ demo_vm_acc, where v = "0x1122334455"]
  by (simp add: uint_size_def take_bit_eq_mask mask_eq_exp_minus_1)
end
