(* ===== verification/Cpu_State.thy ===== *)
theory Cpu_State
  imports Prelude
begin

text \<open>
  \<open>core/src/cpu.rs\<close>: the architectural state of the guest CPU. The register files are arrays
  of fixed size that the source indexes under a mask (\<open>index & 0xf\<close>, \<open>i & 7\<close>), so they are
  functions of a 4-bit or 3-bit index and the mask is the conversion to it.
\<close>

type_synonym reg = "4 word"

definition Rax :: reg where "Rax = 0"
definition Rcx :: reg where "Rcx = 1"
definition Rdx :: reg where "Rdx = 2"
definition Rbx :: reg where "Rbx = 3"
definition Rsp :: reg where "Rsp = 4"
definition Rbp :: reg where "Rbp = 5"
definition Rsi :: reg where "Rsi = 6"
definition Rdi :: reg where "Rdi = 7"

lemmas reg_defs [eval_simps] = Rax_def Rcx_def Rdx_def Rbx_def Rsp_def Rbp_def Rsi_def Rdi_def

definition CF :: u64 where "CF = push_bit 0 1"
definition PF :: u64 where "PF = push_bit 2 1"
definition AF :: u64 where "AF = push_bit 4 1"
definition ZF :: u64 where "ZF = push_bit 6 1"
definition SF :: u64 where "SF = push_bit 7 1"
definition TF :: u64 where "TF = push_bit 8 1"
definition IF :: u64 where "IF = push_bit 9 1"
definition DF :: u64 where "DF = push_bit 10 1"
definition OF :: u64 where "OF = push_bit 11 1"
definition RESERVED_ONE :: u64 where "RESERVED_ONE = push_bit 1 1"

lemmas flag_defs [eval_simps] = CF_def PF_def AF_def ZF_def SF_def TF_def IF_def DF_def OF_def
  RESERVED_ONE_def

section \<open>x87\<close>

record x87 =
  fp_st :: "3 word \<Rightarrow> u128"
  fp_cw :: u16
  fp_sw :: u16
  fp_tw :: u16
  fp_fop :: u16
  fp_fip :: u64
  fp_fcs :: u16
  fp_fdp :: u64
  fp_fds :: u16

definition x87_new :: x87 where
  "x87_new = \<lparr>fp_st = (\<lambda>_. 0), fp_cw = 0x037F, fp_sw = 0, fp_tw = 0xFFFF, fp_fop = 0,
     fp_fip = 0, fp_fcs = 0, fp_fdp = 0, fp_fds = 0\<rparr>"

definition x87_top :: "x87 \<Rightarrow> u8" where
  "x87_top f = ucast (drop_bit 11 (fp_sw f) AND 7)"

definition x87_set_top :: "u8 \<Rightarrow> x87 \<Rightarrow> x87" where
  "x87_set_top tos f =
     f\<lparr>fp_sw := (fp_sw f AND NOT 0x3800) OR push_bit 11 (ucast tos AND 7)\<rparr>"

definition x87_phys :: "u8 \<Rightarrow> x87 \<Rightarrow> 3 word" where
  "x87_phys i f = ucast (x87_top f + i)"

definition x87_mmx :: "u8 \<Rightarrow> x87 \<Rightarrow> u64" where
  "x87_mmx i f = ucast (fp_st f (ucast i))"

definition x87_set_mmx :: "u8 \<Rightarrow> u64 \<Rightarrow> x87 \<Rightarrow> x87" where
  "x87_set_mmx i v f =
     (let idx = (ucast i :: 3 word) in
      f\<lparr>fp_st := (fp_st f)(idx := push_bit 64 0xFFFF OR ucast v),
        fp_tw := fp_tw f AND NOT (push_bit (unat idx * 2) 3)\<rparr>)"

definition x87_emms :: "x87 \<Rightarrow> x87" where
  "x87_emms f = f\<lparr>fp_tw := 0xFFFF\<rparr>"

section \<open>The CPU\<close>

record cpu_state =
  cpu_gpr :: "reg \<Rightarrow> u64"
  cpu_xmm :: "reg \<Rightarrow> u128"
  cpu_ymm_hi :: "reg \<Rightarrow> u128"
  cpu_x87 :: x87
  cpu_rip :: u64
  cpu_rflags :: u64
  cpu_gs_base :: u64
  cpu_fs_base :: u64

definition DEFAULT_GS_BASE :: u64 where "DEFAULT_GS_BASE = 0x00007FFF00000000"
definition DEFAULT_FS_BASE :: u64 where "DEFAULT_FS_BASE = 0x7EFD0000"
definition SEL_CS64 :: u16 where "SEL_CS64 = 0x33"
definition SEL_CS32 :: u16 where "SEL_CS32 = 0x23"
definition SEL_DATA :: u16 where "SEL_DATA = 0x2b"

definition cpu_state_new :: cpu_state where
  "cpu_state_new = \<lparr>cpu_gpr = (\<lambda>_. 0), cpu_xmm = (\<lambda>_. 0), cpu_ymm_hi = (\<lambda>_. 0),
     cpu_x87 = x87_new, cpu_rip = 0, cpu_rflags = RESERVED_ONE OR IF,
     cpu_gs_base = DEFAULT_GS_BASE, cpu_fs_base = DEFAULT_FS_BASE\<rparr>"

definition cpu_reg :: "reg \<Rightarrow> cpu_state \<Rightarrow> u64" where
  "cpu_reg r s = cpu_gpr s r"

definition cpu_set_reg :: "reg \<Rightarrow> u64 \<Rightarrow> cpu_state \<Rightarrow> cpu_state" where
  "cpu_set_reg r v s = s\<lparr>cpu_gpr := (cpu_gpr s)(r := v)\<rparr>"

definition cpu_rsp :: "cpu_state \<Rightarrow> u64" where
  "cpu_rsp s = cpu_gpr s Rsp"

definition cpu_set_rsp :: "u64 \<Rightarrow> cpu_state \<Rightarrow> cpu_state" where
  "cpu_set_rsp v s = s\<lparr>cpu_gpr := (cpu_gpr s)(Rsp := v)\<rparr>"

definition gpr_read :: "u8 \<Rightarrow> nat \<Rightarrow> cpu_state \<Rightarrow> u64" where
  "gpr_read index sz s =
     (let full = cpu_gpr s (ucast index) in
      if sz = 1 then full AND 0xff else if sz = 2 then full AND 0xffff
      else if sz = 4 then full AND 0xffffffff else full)"

definition gpr_merge :: "nat \<Rightarrow> u64 \<Rightarrow> u64 \<Rightarrow> u64" where
  "gpr_merge sz v slot =
     (if sz = 1 then (slot AND NOT 0xff) OR (v AND 0xff)
      else if sz = 2 then (slot AND NOT 0xffff) OR (v AND 0xffff)
      else if sz = 4 then v AND 0xffffffff else v)"

definition gpr_write :: "u8 \<Rightarrow> nat \<Rightarrow> u64 \<Rightarrow> cpu_state \<Rightarrow> cpu_state" where
  "gpr_write index sz v s =
     s\<lparr>cpu_gpr := (cpu_gpr s)(ucast index := gpr_merge sz v (cpu_gpr s (ucast index)))\<rparr>"

definition gpr_read_high8 :: "u8 \<Rightarrow> cpu_state \<Rightarrow> u64" where
  "gpr_read_high8 index s = drop_bit 8 (cpu_gpr s (ucast (index AND 3))) AND 0xff"

definition gpr_write_high8 :: "u8 \<Rightarrow> u64 \<Rightarrow> cpu_state \<Rightarrow> cpu_state" where
  "gpr_write_high8 index v s =
     (let i = ucast (index AND 3) in
      s\<lparr>cpu_gpr := (cpu_gpr s)(i := (cpu_gpr s i AND NOT 0xff00) OR push_bit 8 (v AND 0xff))\<rparr>)"

definition xmm_get :: "u8 \<Rightarrow> cpu_state \<Rightarrow> u128" where
  "xmm_get i s = cpu_xmm s (ucast i)"

definition ymm_hi_get :: "u8 \<Rightarrow> cpu_state \<Rightarrow> u128" where
  "ymm_hi_get i s = cpu_ymm_hi s (ucast i)"

definition set_ymm :: "u8 \<Rightarrow> u128 \<Rightarrow> u128 \<Rightarrow> cpu_state \<Rightarrow> cpu_state" where
  "set_ymm i low high s =
     s\<lparr>cpu_xmm := (cpu_xmm s)(ucast i := low), cpu_ymm_hi := (cpu_ymm_hi s)(ucast i := high)\<rparr>"

definition set_xmm_zero_upper :: "u8 \<Rightarrow> u128 \<Rightarrow> cpu_state \<Rightarrow> cpu_state" where
  "set_xmm_zero_upper i low s =
     s\<lparr>cpu_xmm := (cpu_xmm s)(ucast i := low), cpu_ymm_hi := (cpu_ymm_hi s)(ucast i := 0)\<rparr>"

definition set_xmm_keep_upper :: "u8 \<Rightarrow> u128 \<Rightarrow> cpu_state \<Rightarrow> cpu_state" where
  "set_xmm_keep_upper i low s = s\<lparr>cpu_xmm := (cpu_xmm s)(ucast i := low)\<rparr>"

definition cpu_flag :: "u64 \<Rightarrow> cpu_state \<Rightarrow> bool" where
  "cpu_flag m s \<longleftrightarrow> cpu_rflags s AND m \<noteq> 0"

definition set_flag :: "u64 \<Rightarrow> bool \<Rightarrow> cpu_state \<Rightarrow> cpu_state" where
  "set_flag m on s =
     s\<lparr>cpu_rflags := (if on then cpu_rflags s OR m else cpu_rflags s AND NOT m)\<rparr>"

datatype exit = Continue | Halted | Interrupt u8 | Syscall u32 | ProcessExit "32 word"

end
