(* ===== verification/Alu.thy ===== *)
theory Alu
  imports Cpu_State
begin

text \<open>
  \<open>cpu/src/alu.rs\<close>: the arithmetic unit. Every operation takes operands in 64-bit containers
  with an operand size of 1, 2, 4 or 8 bytes, returns the result cut to that size and updates
  the flags. Shift counts are \<open>u32\<close> and a shift by them reduces the amount modulo 64, as the
  release build does; that matters in \<open>shld\<close>, where \<open>bits - count\<close> can wrap.
\<close>

definition alu_mask :: "nat \<Rightarrow> u64" where
  "alu_mask sz =
     (if sz = 1 then 0xff else if sz = 2 then 0xffff else if sz = 4 then 0xffffffff else - 1)"

definition sign_bit :: "nat \<Rightarrow> u64" where
  "sign_bit sz = push_bit (sz * 8 - 1) 1"

definition sext :: "u64 \<Rightarrow> nat \<Rightarrow> u64" where
  "sext v sz =
     (if sz = 1 then scast (ucast v :: u8) else if sz = 2 then scast (ucast v :: u16)
      else if sz = 4 then scast (ucast v :: u32) else v)"

fun count_ones :: "nat \<Rightarrow> u8 \<Rightarrow> nat" where
  \<comment> \<open>the set bits among the lowest \<open>n\<close>\<close>
  "count_ones 0 v = 0"
| "count_ones (Suc n) v = of_bool (bit v n) + count_ones n v"

definition parity :: "u64 \<Rightarrow> bool" where
  "parity v \<longleftrightarrow> count_ones 8 (ucast v) mod 2 = 0"

definition set_szp :: "u64 \<Rightarrow> nat \<Rightarrow> cpu_state \<Rightarrow> cpu_state" where
  "set_szp res sz s =
     (let r = res AND alu_mask sz in
      set_flag PF (parity r) (set_flag SF (r AND sign_bit sz \<noteq> 0) (set_flag ZF (r = 0) s)))"

definition alu_add :: "u64 \<Rightarrow> u64 \<Rightarrow> u64 \<Rightarrow> nat \<Rightarrow> cpu_state \<Rightarrow> u64 \<times> cpu_state" where
  "alu_add a0 b0 carry_in sz s =
     (let m = alu_mask sz; a = a0 AND m; b = b0 AND m;
          full = (ucast a + ucast b + ucast carry_in :: u128);
          res = ucast full AND m;
          s1 = set_flag CF (drop_bit (sz * 8) full AND 1 \<noteq> 0) s;
          s2 = set_flag AF ((a XOR b XOR res) AND 0x10 \<noteq> 0) s1;
          sb = sign_bit sz;
          s3 = set_flag OF ((NOT (a XOR b) AND (a XOR res)) AND sb \<noteq> 0) s2
      in (res, set_szp res sz s3))"

definition alu_sub :: "u64 \<Rightarrow> u64 \<Rightarrow> u64 \<Rightarrow> nat \<Rightarrow> cpu_state \<Rightarrow> u64 \<times> cpu_state" where
  "alu_sub a0 b0 borrow_in sz s =
     (let m = alu_mask sz; a = a0 AND m; b = b0 AND m;
          rhs = (ucast b + ucast borrow_in :: u128);
          s1 = set_flag CF ((ucast a :: u128) < rhs) s;
          res = (a - b - borrow_in) AND m;
          s2 = set_flag AF ((a XOR b XOR res) AND 0x10 \<noteq> 0) s1;
          sb = sign_bit sz;
          s3 = set_flag OF ((a XOR b) AND (a XOR res) AND sb \<noteq> 0) s2
      in (res, set_szp res sz s3))"

definition alu_logic :: "u64 \<Rightarrow> nat \<Rightarrow> cpu_state \<Rightarrow> u64 \<times> cpu_state" where
  "alu_logic res sz s =
     (let r = res AND alu_mask sz in
      (r, set_szp r sz (set_flag AF False (set_flag OF False (set_flag CF False s)))))"

definition alu_inc :: "u64 \<Rightarrow> nat \<Rightarrow> cpu_state \<Rightarrow> u64 \<times> cpu_state" where
  "alu_inc a sz s =
     (let cf = cpu_flag CF s in
      case alu_add a 1 0 sz s of (r, s1) \<Rightarrow> (r, set_flag CF cf s1))"

definition alu_dec :: "u64 \<Rightarrow> nat \<Rightarrow> cpu_state \<Rightarrow> u64 \<times> cpu_state" where
  "alu_dec a sz s =
     (let cf = cpu_flag CF s in
      case alu_sub a 1 0 sz s of (r, s1) \<Rightarrow> (r, set_flag CF cf s1))"

definition shift_count :: "u64 \<Rightarrow> nat \<Rightarrow> u32" where
  "shift_count count sz = ucast (count AND (if sz = 8 then 0x3f else 0x1f))"

definition alu_shld :: "u64 \<Rightarrow> u64 \<Rightarrow> u64 \<Rightarrow> nat \<Rightarrow> cpu_state \<Rightarrow> u64 \<times> cpu_state" where
  "alu_shld dst0 src0 count0 sz s =
     (let bits = (of_nat (sz * 8) :: u32); count = shift_count count0 sz in
      if count = 0 then (dst0 AND alu_mask sz, s)
      else
        let m = alu_mask sz; dst = dst0 AND m; src = src0 AND m;
            res = (if bits \<le> count then shl64 src (count - bits) AND m
                   else (shl64 dst count OR shr64 src (bits - count)) AND m);
            cf = (shr64 dst (bits - count) AND 1 \<noteq> 0)
        in (res, set_szp res sz (set_flag CF cf s)))"

definition alu_shrd :: "u64 \<Rightarrow> u64 \<Rightarrow> u64 \<Rightarrow> nat \<Rightarrow> cpu_state \<Rightarrow> u64 \<times> cpu_state" where
  "alu_shrd dst0 src0 count0 sz s =
     (let bits = (of_nat (sz * 8) :: u32); count = shift_count count0 sz in
      if count = 0 then (dst0 AND alu_mask sz, s)
      else
        let m = alu_mask sz; dst = dst0 AND m; src = src0 AND m;
            res = (if bits \<le> count then shr64 src (count - bits) AND m
                   else (shr64 dst count OR shl64 src (bits - count)) AND m);
            cf = (shr64 dst (count - 1) AND 1 \<noteq> 0)
        in (res, set_szp res sz (set_flag CF cf s)))"

datatype shift_kind = Rol | Ror | Rcl | Rcr | Shl | Shr | Sar

definition shift_from_reg :: "u8 \<Rightarrow> shift_kind" where
  "shift_from_reg reg =
     (let r = reg AND 7 in
      if r = 0 then Rol else if r = 1 then Ror else if r = 2 then Rcl else if r = 3 then Rcr
      else if r = 4 \<or> r = 6 then Shl else if r = 5 then Shr else Sar)"

definition rcl_step :: "nat \<Rightarrow> u64 \<times> bool \<Rightarrow> u64 \<times> bool" where
  "rcl_step sz = (\<lambda>(res, cf).
     ((push_bit 1 res OR of_flag cf) AND alu_mask sz, res AND sign_bit sz \<noteq> 0))"

definition rcr_step :: "nat \<Rightarrow> u64 \<times> bool \<Rightarrow> u64 \<times> bool" where
  "rcr_step sz = (\<lambda>(res, cf).
     (drop_bit 1 res OR push_bit (sz * 8 - 1) (of_flag cf), res AND 1 \<noteq> 0))"

definition when_one :: "u32 \<Rightarrow> u64 \<Rightarrow> bool \<Rightarrow> cpu_state \<Rightarrow> cpu_state" where
  \<comment> \<open>\<open>if count == 1 { s.set_flag(..) }\<close>\<close>
  "when_one count flag on s = (if count = 1 then set_flag flag on s else s)"

definition alu_shift :: "shift_kind \<Rightarrow> u64 \<Rightarrow> u64 \<Rightarrow> nat \<Rightarrow> cpu_state \<Rightarrow> u64 \<times> cpu_state" where
  "alu_shift kind val count0 sz s =
     (let bits = (of_nat (sz * 8) :: u32); count = shift_count count0 sz in
      if count = 0 then (val AND alu_mask sz, s)
      else
        let m = alu_mask sz; v = val AND m; sb = sign_bit sz in
        case kind of
          Shl \<Rightarrow>
            let cf = (count \<le> bits \<and> shr64 v (bits - count) AND 1 \<noteq> 0);
                res = shl64 v count AND m
            in (res, set_szp res sz
                 (when_one count OF ((res AND sb \<noteq> 0) \<noteq> cf) (set_flag CF cf s)))
        | Shr \<Rightarrow>
            let cf = (shr64 v (count - 1) AND 1 \<noteq> 0); res = shr64 v count
            in (res, set_szp res sz (when_one count OF (v AND sb \<noteq> 0) (set_flag CF cf s)))
        | Sar \<Rightarrow>
            let signed = sext v sz; cf = (shr64 signed (count - 1) AND 1 \<noteq> 0);
                res = signed_drop_bit (unat count mod 64) signed AND m
            in (res, set_szp res sz (when_one count OF False (set_flag CF cf s)))
        | Rol \<Rightarrow>
            let c = count mod bits;
                res = (shl64 v c OR shr64 v ((bits - c) mod bits)) AND m;
                cf = (res AND 1 \<noteq> 0)
            in (res, when_one count OF ((res AND sb \<noteq> 0) \<noteq> cf) (set_flag CF cf s))
        | Ror \<Rightarrow>
            let c = count mod bits;
                res = (shr64 v c OR shl64 v ((bits - c) mod bits)) AND m;
                cf = (res AND sb \<noteq> 0)
            in (res, when_one count OF ((res AND sb \<noteq> 0) \<noteq> (res AND drop_bit 1 sb \<noteq> 0))
                 (set_flag CF cf s))
        | Rcl \<Rightarrow>
            (case (rcl_step sz ^^ unat count) (v, cpu_flag CF s) of (res, cf) \<Rightarrow>
              (res AND m, when_one count OF ((res AND sb \<noteq> 0) \<noteq> cf) (set_flag CF cf s)))
        | Rcr \<Rightarrow>
            (case (rcr_step sz ^^ unat count) (v, cpu_flag CF s) of (res, cf) \<Rightarrow>
              (res AND m, when_one count OF ((res AND sb \<noteq> 0) \<noteq> (res AND drop_bit 1 sb \<noteq> 0))
                (set_flag CF cf s))))"

end
