(* ===== verification/Alu_Laws.thy ===== *)
theory Alu_Laws
  imports Alu
begin

text \<open>
  The arithmetic unit computes what the instruction set asks for: results and flags of addition
  and subtraction are stated over the natural and the signed values of the operands, for all
  four operand sizes at once.
\<close>

section \<open>Flags are single bits\<close>

lemma cpu_flag_bit: "k < 64 \<Longrightarrow> cpu_flag (push_bit k 1) s \<longleftrightarrow> bit (cpu_rflags s) k"
proof -
  assume k: "k < 64"
  have "cpu_rflags s AND push_bit k 1 \<noteq> 0 \<longleftrightarrow> (\<exists>i. bit (cpu_rflags s AND push_bit k 1) i)"
    by (metis bit_eqI bit_0_eq bot_apply bot_bool_def)
  also have "\<dots> \<longleftrightarrow> bit (cpu_rflags s) k"
    using k by (auto simp: bit_simps)
  finally show ?thesis by (simp add: cpu_flag_def)
qed

lemma rflags_set_flag: "k < 64 \<Longrightarrow> bit (cpu_rflags (set_flag (push_bit k 1) on s)) j \<longleftrightarrow>
    (if j = k then on else bit (cpu_rflags s) j)"
  by (auto simp: set_flag_def bit_simps dest: bit_imp_le_length)

lemma flag_set_flag: "k < 64 \<Longrightarrow> j < 64 \<Longrightarrow>
    cpu_flag (push_bit j 1) (set_flag (push_bit k 1) on s) \<longleftrightarrow>
    (if j = k then on else cpu_flag (push_bit j 1) s)"
  by (simp add: cpu_flag_bit rflags_set_flag del: push_bit_of_1)

named_theorems flag_simps \<open>reading one flag after setting another\<close>

lemma flag_set_flag_all [flag_simps]:
  "cpu_flag CF (set_flag CF on s) = on" "cpu_flag CF (set_flag PF on s) = cpu_flag CF s"
  "cpu_flag CF (set_flag AF on s) = cpu_flag CF s" "cpu_flag CF (set_flag ZF on s) = cpu_flag CF s"
  "cpu_flag CF (set_flag SF on s) = cpu_flag CF s" "cpu_flag CF (set_flag OF on s) = cpu_flag CF s"
  "cpu_flag PF (set_flag PF on s) = on" "cpu_flag PF (set_flag CF on s) = cpu_flag PF s"
  "cpu_flag PF (set_flag AF on s) = cpu_flag PF s" "cpu_flag PF (set_flag ZF on s) = cpu_flag PF s"
  "cpu_flag PF (set_flag SF on s) = cpu_flag PF s" "cpu_flag PF (set_flag OF on s) = cpu_flag PF s"
  "cpu_flag AF (set_flag AF on s) = on" "cpu_flag AF (set_flag CF on s) = cpu_flag AF s"
  "cpu_flag AF (set_flag PF on s) = cpu_flag AF s" "cpu_flag AF (set_flag ZF on s) = cpu_flag AF s"
  "cpu_flag AF (set_flag SF on s) = cpu_flag AF s" "cpu_flag AF (set_flag OF on s) = cpu_flag AF s"
  "cpu_flag ZF (set_flag ZF on s) = on" "cpu_flag ZF (set_flag CF on s) = cpu_flag ZF s"
  "cpu_flag ZF (set_flag PF on s) = cpu_flag ZF s" "cpu_flag ZF (set_flag AF on s) = cpu_flag ZF s"
  "cpu_flag ZF (set_flag SF on s) = cpu_flag ZF s" "cpu_flag ZF (set_flag OF on s) = cpu_flag ZF s"
  "cpu_flag SF (set_flag SF on s) = on" "cpu_flag SF (set_flag CF on s) = cpu_flag SF s"
  "cpu_flag SF (set_flag PF on s) = cpu_flag SF s" "cpu_flag SF (set_flag AF on s) = cpu_flag SF s"
  "cpu_flag SF (set_flag ZF on s) = cpu_flag SF s" "cpu_flag SF (set_flag OF on s) = cpu_flag SF s"
  "cpu_flag OF (set_flag OF on s) = on" "cpu_flag OF (set_flag CF on s) = cpu_flag OF s"
  "cpu_flag OF (set_flag PF on s) = cpu_flag OF s" "cpu_flag OF (set_flag AF on s) = cpu_flag OF s"
  "cpu_flag OF (set_flag ZF on s) = cpu_flag OF s" "cpu_flag OF (set_flag SF on s) = cpu_flag OF s"
  unfolding flag_defs by (rule trans [OF flag_set_flag]; simp)+

definition STATUS :: "nat set" where
  \<comment> \<open>the positions of the six status flags\<close>
  "STATUS = {0, 2, 4, 6, 7, 11}"

definition only_status :: "cpu_state \<Rightarrow> cpu_state \<Rightarrow> bool" where
  \<comment> \<open>nothing but status flags changed\<close>
  "only_status s s' \<longleftrightarrow> s' = s\<lparr>cpu_rflags := cpu_rflags s'\<rparr> \<and>
     (\<forall>k. k \<notin> STATUS \<longrightarrow> bit (cpu_rflags s') k = bit (cpu_rflags s) k)"

lemma only_status_refl [simp]: "only_status s s"
  by (simp add: only_status_def)

lemma only_status_trans: "only_status s t \<Longrightarrow> only_status t u \<Longrightarrow> only_status s u"
  unfolding only_status_def
  by (metis (no_types, lifting) cpu_state.surjective cpu_state.update_convs(6))

lemma only_status_set_flag:
  assumes "k \<in> STATUS"
  shows "only_status s (set_flag (push_bit k 1) on s)"
proof -
  have k: "k < 64" using assms by (auto simp: STATUS_def)
  have "bit (cpu_rflags (set_flag (push_bit k 1) on s)) j = bit (cpu_rflags s) j" if "j \<notin> STATUS" for j
    using assms that unfolding rflags_set_flag [OF k] by auto
  moreover have "set_flag (push_bit k 1) on s = s\<lparr>cpu_rflags := cpu_rflags (set_flag (push_bit k 1) on s)\<rparr>"
    by (simp add: set_flag_def)
  ultimately show ?thesis by (simp add: only_status_def)
qed

lemma only_status_flags [simp]:
  "only_status s (set_flag CF on s)" "only_status s (set_flag PF on s)"
  "only_status s (set_flag AF on s)" "only_status s (set_flag ZF on s)"
  "only_status s (set_flag SF on s)" "only_status s (set_flag OF on s)"
  unfolding flag_defs by (rule only_status_set_flag; simp add: STATUS_def)+

lemma only_status_szp [simp]: "only_status s (set_szp r sz s)"
  unfolding set_szp_def Let_def
  by (rule only_status_trans [OF only_status_trans]) (rule only_status_flags)+

section \<open>Operand sizes\<close>

definition op_size :: "nat \<Rightarrow> bool" where
  "op_size sz \<longleftrightarrow> sz = 1 \<or> sz = 2 \<or> sz = 4 \<or> sz = 8"

definition uval :: "nat \<Rightarrow> u64 \<Rightarrow> nat" where
  \<comment> \<open>the operand as a natural number\<close>
  "uval sz a = unat a mod 2 ^ (8 * sz)"

definition sval :: "nat \<Rightarrow> u64 \<Rightarrow> int" where
  \<comment> \<open>the operand in two's complement\<close>
  "sval sz a = (if 2 ^ (8 * sz - 1) \<le> uval sz a then int (uval sz a) - 2 ^ (8 * sz) else int (uval sz a))"

definition fits_signed :: "nat \<Rightarrow> int \<Rightarrow> bool" where
  "fits_signed sz i \<longleftrightarrow> - (2 ^ (8 * sz - 1)) \<le> i \<and> i < 2 ^ (8 * sz - 1)"

lemma alu_mask_mask: "op_size sz \<Longrightarrow> alu_mask sz = mask (8 * sz)"
  by (auto simp: op_size_def alu_mask_def mask_eq_exp_minus_1)

lemma unat_and_alu_mask: "op_size sz \<Longrightarrow> unat (a AND alu_mask sz) = uval sz a"
  by (simp add: alu_mask_mask uval_def unsigned_take_bit_eq take_bit_nat_def flip: take_bit_eq_mask)

lemma uval_less: "uval sz a < 2 ^ (8 * sz)"
  by (simp add: uval_def)

lemma power_size: "op_size sz \<Longrightarrow> (2::nat) ^ (8 * sz) = 2 * 2 ^ (8 * sz - 1)"
  by (auto simp: op_size_def)

lemma sign_test: "op_size sz \<Longrightarrow> r AND sign_bit sz \<noteq> 0 \<longleftrightarrow> bit r (8 * sz - 1)"
proof -
  assume "op_size sz"
  then have k: "8 * sz - 1 < 64" by (auto simp: op_size_def)
  have "r AND push_bit (8 * sz - 1) 1 \<noteq> 0 \<longleftrightarrow> bit r (8 * sz - 1)"
    using cpu_flag_bit [OF k, of "undefined\<lparr>cpu_rflags := r\<rparr>"] by (simp add: cpu_flag_def)
  then show ?thesis by (simp add: sign_bit_def mult.commute)
qed

lemma bit_top_uval:
  assumes "op_size sz"
  shows "bit (a AND alu_mask sz) (8 * sz - 1) \<longleftrightarrow> 2 ^ (8 * sz - 1) \<le> uval sz a"
proof -
  have "bit (a AND alu_mask sz) (8 * sz - 1) \<longleftrightarrow> bit (unat (a AND alu_mask sz)) (8 * sz - 1)"
    by (simp add: bit_unsigned_iff)
  also have "\<dots> \<longleftrightarrow> odd (uval sz a div 2 ^ (8 * sz - 1))"
    by (simp add: unat_and_alu_mask [OF assms] bit_iff_odd)
  also have "\<dots> \<longleftrightarrow> 2 ^ (8 * sz - 1) \<le> uval sz a"
  proof (cases "2 ^ (8 * sz - 1) \<le> uval sz a")
    case True
    have "uval sz a < 2 * 2 ^ (8 * sz - 1)" using uval_less [of sz a] power_size [OF assms] by simp
    with True have "uval sz a div 2 ^ (8 * sz - 1) = 1" by (intro div_nat_eqI) simp_all
    with True show ?thesis by simp
  qed simp
  finally show ?thesis .
qed

lemma sval_neg: "op_size sz \<Longrightarrow> sval sz a < 0 \<longleftrightarrow> 2 ^ (8 * sz - 1) \<le> uval sz a"
proof -
  have "int (uval sz a) < 2 ^ (8 * sz)"
    by (metis of_nat_less_iff of_nat_numeral of_nat_power uval_less)
  then show ?thesis by (simp add: sval_def)
qed

lemma parity_card: "parity v \<longleftrightarrow> even (card {i. i < 8 \<and> bit v i})"
proof -
  have "count_ones n w = card {i. i < n \<and> bit w i}" for n w
  proof (induction n)
    case (Suc n)
    have "{i. i < Suc n \<and> bit w i} = (if bit w n then insert n {i. i < n \<and> bit w i} else {i. i < n \<and> bit w i})"
      by (auto simp: less_Suc_eq)
    with Suc show ?case by simp
  qed simp
  moreover have "{i. i < 8 \<and> bit (ucast v :: u8) i} = {i. i < 8 \<and> bit v i}"
    by (auto simp: bit_simps)
  ultimately show ?thesis by (simp add: parity_def even_iff_mod_2_eq_zero)
qed

lemma flags_szp [flag_simps]:
  "cpu_flag ZF (set_szp r sz s) \<longleftrightarrow> r AND alu_mask sz = 0"
  "cpu_flag SF (set_szp r sz s) \<longleftrightarrow> (r AND alu_mask sz) AND sign_bit sz \<noteq> 0"
  "cpu_flag PF (set_szp r sz s) \<longleftrightarrow> parity (r AND alu_mask sz)"
  "cpu_flag CF (set_szp r sz s) = cpu_flag CF s" "cpu_flag AF (set_szp r sz s) = cpu_flag AF s"
  "cpu_flag OF (set_szp r sz s) = cpu_flag OF s"
  by (simp_all add: set_szp_def Let_def flag_simps)

definition result_flags :: "nat \<Rightarrow> u64 \<Rightarrow> cpu_state \<Rightarrow> bool" where
  \<comment> \<open>ZF, SF and PF describe the result \<open>r\<close>\<close>
  "result_flags sz r s \<longleftrightarrow>
     (cpu_flag ZF s \<longleftrightarrow> uval sz r = 0) \<and> (cpu_flag SF s \<longleftrightarrow> sval sz r < 0) \<and>
     (cpu_flag PF s \<longleftrightarrow> even (card {i. i < 8 \<and> bit r i}))"

lemma result_flags_szp:
  assumes "op_size sz"
  shows "result_flags sz r (set_szp r sz s)"
proof -
  have "{i. i < 8 \<and> bit (r AND alu_mask sz) i} = {i. i < 8 \<and> bit r i}"
    using assms by (auto simp: alu_mask_mask op_size_def bit_simps)
  moreover have "r AND alu_mask sz = 0 \<longleftrightarrow> uval sz r = 0"
    using unat_and_alu_mask [OF assms, of r] by (metis unat_eq_zero)
  ultimately show ?thesis
    using bit_top_uval [OF assms, of r]
    by (simp add: result_flags_def flag_simps parity_card sign_test [OF assms] sval_neg [OF assms])
qed

section \<open>Addition\<close>

lemma bit_uval: "op_size sz \<Longrightarrow> k < 8 * sz \<Longrightarrow> bit a k \<longleftrightarrow> odd (uval sz a div 2 ^ k)"
proof -
  assume sz: "op_size sz" and k: "k < 8 * sz"
  then have k64: "k < 64" by (auto simp: op_size_def)
  have "bit a k \<longleftrightarrow> bit (unat a) k" using k64 by (simp add: bit_unsigned_iff)
  also have "\<dots> \<longleftrightarrow> bit (take_bit (8 * sz) (unat a)) k" using k by (simp add: bit_take_bit_iff)
  finally show ?thesis by (simp add: bit_iff_odd uval_def take_bit_nat_def)
qed

lemma uval_masked [simp]: "op_size sz \<Longrightarrow> uval sz (a AND alu_mask sz) = uval sz a"
  by (simp add: uval_def [of sz "a AND alu_mask sz"] unat_and_alu_mask) (simp add: uval_def)

lemma carry_out: "(x + y + c) mod 2 ^ n = (if 2 ^ n \<le> x + y + c then x + y + c - 2 ^ n else x + y + c)"
  if "x < 2 ^ n" "y < 2 ^ n" "c \<le> 1" for x y c n :: nat
proof (cases "2 ^ n \<le> x + y + c")
  case True
  have "x + y + c - 2 ^ n < 2 ^ n" using that by linarith
  with True show ?thesis by (simp add: le_mod_geq)
qed simp

lemma odd_div16_sum:
  "odd ((x + y + c) div 16) \<longleftrightarrow>
    ((odd (x div 16) \<noteq> odd (y div 16)) \<noteq> (16 \<le> x mod 16 + y mod 16 + c))"
  if "c \<le> 1" for x y c :: nat
proof -
  have "(x + y + c) div 16 = x div 16 + y div 16 + (x mod 16 + y mod 16 + c) div 16"
  proof -
    have "x + y + c = 16 * (x div 16 + y div 16) + (x mod 16 + y mod 16 + c)"
      using div_mult_mod_eq [of x 16] div_mult_mod_eq [of y 16] by (simp add: algebra_simps)
    then have "(x + y + c) div 16 = (16 * (x div 16 + y div 16) + (x mod 16 + y mod 16 + c)) div 16"
      by (rule arg_cong)
    also have "\<dots> = x div 16 + y div 16 + (x mod 16 + y mod 16 + c) div 16"
      by (rule div_mult_self4) simp
    finally show ?thesis .
  qed
  moreover have "(x mod 16 + y mod 16 + c) div 16 = of_bool (16 \<le> x mod 16 + y mod 16 + c)"
  proof -
    have "x mod 16 < 16" "y mod 16 < 16" by simp_all
    then have "x mod 16 + y mod 16 + c < 32" using that by linarith
    then show ?thesis by (cases "16 \<le> x mod 16 + y mod 16 + c") (simp_all add: div_nat_eqI)
  qed
  ultimately show ?thesis by auto
qed

lemma alu_add_result:
  assumes sz: "op_size sz" and c: "unat c \<le> 1"
  shows "fst (alu_add a b c sz s) = of_nat ((uval sz a + uval sz b + unat c) mod 2 ^ (8 * sz))"
    "unat (fst (alu_add a b c sz s)) = (uval sz a + uval sz b + unat c) mod 2 ^ (8 * sz)"
proof -
  let ?full = "ucast (a AND alu_mask sz) + ucast (b AND alu_mask sz) + ucast c :: u128"
  let ?S = "uval sz a + uval sz b + unat c"
  have p: "(2::nat) ^ (8 * sz) \<le> 2 ^ 64" using sz by (auto simp: op_size_def)
  have S: "?S < 2 ^ 128"
    using uval_less [of sz a] uval_less [of sz b] p c by (simp add: power_strict_mono)
  have full: "?full = of_nat ?S"
    by (simp flip: unat_and_alu_mask [OF sz])
  have "ucast ?full AND alu_mask sz = (of_nat (?S mod 2 ^ (8 * sz)) :: u64)"
  proof -
    have "unat (ucast ?full AND alu_mask sz :: u64) = ?S mod 2 ^ (8 * sz)"
    proof -
      have "unat (ucast (of_nat N :: u128) :: u64) = N mod 2 ^ 64" if "N < 2 ^ 128" for N
        using that by (simp add: unsigned_ucast_eq unsigned_take_bit_eq unat_of_nat take_bit_nat_def)
      then have "unat (ucast (of_nat ?S :: u128) :: u64) = ?S mod 2 ^ 64" using S by blast
      moreover have "?S mod 2 ^ 64 mod 2 ^ (8 * sz) = ?S mod 2 ^ (8 * sz)"
        using sz by (auto simp: op_size_def mod_mod_cancel)
      ultimately show ?thesis unfolding full by (simp only: unat_and_alu_mask [OF sz] uval_def)
    qed
    then have "of_nat (unat (ucast ?full AND alu_mask sz :: u64)) = (of_nat (?S mod 2 ^ (8 * sz)) :: u64)"
      by (rule arg_cong)
    then show ?thesis by simp
  qed
  then show r: "fst (alu_add a b c sz s) = of_nat (?S mod 2 ^ (8 * sz))"
    by (simp add: alu_add_def Let_def)
  have "?S mod 2 ^ (8 * sz) < 2 ^ (8 * sz)" by simp
  then have "?S mod 2 ^ (8 * sz) < 2 ^ 64" using p by linarith
  then show "unat (fst (alu_add a b c sz s)) = ?S mod 2 ^ (8 * sz)"
    by (simp add: r unat_of_nat take_bit_nat_eq_self)
qed

lemma low_bit_test: "drop_bit k w AND 1 \<noteq> 0 \<longleftrightarrow> bit w k" for w :: "'a::len word"
  by (simp add: and_one_eq bit_iff_odd_drop_bit mod_2_eq_odd)

lemma alu_add_sum128:
  assumes sz: "op_size sz" and c: "unat c \<le> 1"
  shows "drop_bit (sz * 8) (ucast (a AND alu_mask sz) + ucast (b AND alu_mask sz) + ucast c :: u128) AND 1 \<noteq> 0
    \<longleftrightarrow> 2 ^ (8 * sz) \<le> uval sz a + uval sz b + unat c"
proof -
  let ?S = "uval sz a + uval sz b + unat c"
  have p: "(2::nat) ^ (8 * sz) \<le> 2 ^ 64" using sz by (auto simp: op_size_def)
  have lt: "?S < 2 * 2 ^ (8 * sz)"
    using uval_less [of sz a] uval_less [of sz b] c by linarith
  then have "?S < 2 * 2 ^ 64" using p by linarith
  then have S: "?S < 2 ^ 128" by simp
  have full: "(ucast (a AND alu_mask sz) + ucast (b AND alu_mask sz) + ucast c :: u128) = of_nat ?S"
    by (simp flip: unat_and_alu_mask [OF sz])
  have k: "sz * 8 < 128" using sz by (auto simp: op_size_def)
  have "bit (of_nat N :: u128) (sz * 8) \<longleftrightarrow> odd (N div 2 ^ (sz * 8))" for N
  proof -
    have "bit (of_nat N :: u128) (sz * 8) \<longleftrightarrow> bit N (sz * 8)" using k by (simp add: bit_simps)
    also have "\<dots> \<longleftrightarrow> odd (N div 2 ^ (sz * 8))" by (rule bit_iff_odd)
    finally show ?thesis .
  qed
  then have "drop_bit (sz * 8) (of_nat ?S :: u128) AND 1 \<noteq> 0 \<longleftrightarrow> odd (?S div 2 ^ (sz * 8))"
    unfolding low_bit_test .
  also have "\<dots> \<longleftrightarrow> 2 ^ (8 * sz) \<le> ?S"
  proof (cases "2 ^ (8 * sz) \<le> ?S")
    case True
    with lt have "?S div 2 ^ (sz * 8) = 1" by (intro div_nat_eqI) (simp_all add: mult.commute)
    with True show ?thesis by simp
  qed (simp add: mult.commute)
  finally show ?thesis unfolding full .
qed

lemma nibble_test:
  assumes "op_size sz"
  shows "(x XOR y XOR z) AND 0x10 \<noteq> 0 \<longleftrightarrow>
    ((odd (uval sz x div 16) \<noteq> odd (uval sz y div 16)) \<noteq> odd (uval sz z div 16))"
proof -
  have "(x XOR y XOR z) AND 0x10 \<noteq> 0 \<longleftrightarrow> bit (x XOR y XOR z) 4"
    using cpu_flag_bit [of 4 "undefined\<lparr>cpu_rflags := x XOR y XOR z\<rparr>"] by (simp add: cpu_flag_def)
  moreover have "4 < 8 * sz" using assms by (auto simp: op_size_def)
  ultimately show ?thesis using bit_uval [OF assms] by (simp add: bit_xor_iff) blast
qed

lemma top_bit: "op_size sz \<Longrightarrow> bit x (8 * sz - 1) \<longleftrightarrow> 2 ^ (8 * sz - 1) \<le> uval sz x"
  using bit_top_uval [of sz x] by (auto simp: alu_mask_mask bit_simps op_size_def)

lemma top_bit_test:
  assumes "op_size sz"
  shows "(NOT (x XOR y) AND (x XOR r)) AND sign_bit sz \<noteq> 0 \<longleftrightarrow>
      (2 ^ (8 * sz - 1) \<le> uval sz x \<longleftrightarrow> 2 ^ (8 * sz - 1) \<le> uval sz y) \<and>
      (2 ^ (8 * sz - 1) \<le> uval sz x) \<noteq> (2 ^ (8 * sz - 1) \<le> uval sz r)"
    "(x XOR y) AND (x XOR r) AND sign_bit sz \<noteq> 0 \<longleftrightarrow>
      (2 ^ (8 * sz - 1) \<le> uval sz x) \<noteq> (2 ^ (8 * sz - 1) \<le> uval sz y) \<and>
      (2 ^ (8 * sz - 1) \<le> uval sz x) \<noteq> (2 ^ (8 * sz - 1) \<le> uval sz r)"
proof -
  have k: "8 * sz - 1 < 64" using assms by (auto simp: op_size_def)
  show "(NOT (x XOR y) AND (x XOR r)) AND sign_bit sz \<noteq> 0 \<longleftrightarrow>
      (2 ^ (8 * sz - 1) \<le> uval sz x \<longleftrightarrow> 2 ^ (8 * sz - 1) \<le> uval sz y) \<and>
      (2 ^ (8 * sz - 1) \<le> uval sz x) \<noteq> (2 ^ (8 * sz - 1) \<le> uval sz r)"
    unfolding sign_test [OF assms] top_bit [OF assms, symmetric] using k
    by (auto simp: bit_and_iff bit_not_iff bit_xor_iff)
  show "(x XOR y) AND (x XOR r) AND sign_bit sz \<noteq> 0 \<longleftrightarrow>
      (2 ^ (8 * sz - 1) \<le> uval sz x) \<noteq> (2 ^ (8 * sz - 1) \<le> uval sz y) \<and>
      (2 ^ (8 * sz - 1) \<le> uval sz x) \<noteq> (2 ^ (8 * sz - 1) \<le> uval sz r)"
    unfolding and.assoc [symmetric] sign_test [OF assms] top_bit [OF assms, symmetric]
    by (simp only: bit_and_iff bit_xor_iff)
qed

lemma fits_signed_add:
  fixes A B H R :: nat
  assumes "A < 2 * H" "B < 2 * H" "c \<le> 1" "R = (if 2 * H \<le> A + B + c then A + B + c - 2 * H else A + B + c)"
    "sA = (if H \<le> A then int A - 2 * int H else int A)" "sB = (if H \<le> B then int B - 2 * int H else int B)"
  shows "((H \<le> A \<longleftrightarrow> H \<le> B) \<and> (H \<le> A) \<noteq> (H \<le> R)) \<longleftrightarrow>
    \<not> (- int H \<le> sA + sB + int c \<and> sA + sB + int c < int H)"
  using assms by (auto split: if_splits)

lemma int_power_size: "op_size sz \<Longrightarrow> (2::int) ^ (8 * sz) = 2 * 2 ^ (8 * sz - 1)"
  by (auto simp: op_size_def)

lemma sval_alt:
  "op_size sz \<Longrightarrow> sval sz a = (if 2 ^ (8 * sz - 1) \<le> uval sz a
     then int (uval sz a) - 2 * int (2 ^ (8 * sz - 1)) else int (uval sz a))"
  by (simp add: sval_def int_power_size)

lemma uval_of_result:
  "op_size sz \<Longrightarrow> x < 2 ^ (8 * sz) \<Longrightarrow> uval sz (of_nat x) = x"
proof -
  assume sz: "op_size sz" and x: "x < 2 ^ (8 * sz)"
  have "(2::nat) ^ (8 * sz) \<le> 2 ^ 64" using sz by (auto simp: op_size_def)
  then have "x < 2 ^ 64" using x by linarith
  then show ?thesis using x by (simp add: uval_def unat_of_nat take_bit_nat_eq_self)
qed

lemma alu_add_facts:
  assumes sz: "op_size sz" and c: "unat c \<le> 1" and r: "alu_add a b c sz s = (r, s')"
  shows "unat r = (uval sz a + uval sz b + unat c) mod 2 ^ (8 * sz) \<and>
    (cpu_flag CF s' \<longleftrightarrow> 2 ^ (8 * sz) \<le> uval sz a + uval sz b + unat c) \<and>
    (cpu_flag OF s' \<longleftrightarrow> \<not> fits_signed sz (sval sz a + sval sz b + int (unat c))) \<and>
    (cpu_flag AF s' \<longleftrightarrow> 16 \<le> uval sz a mod 16 + uval sz b mod 16 + unat c) \<and>
    result_flags sz r s' \<and> only_status s s'"
proof -
  let ?A = "uval sz a" let ?B = "uval sz b" let ?C = "unat c" let ?H = "2 ^ (8 * sz - 1) :: nat"
  have res: "unat r = (?A + ?B + ?C) mod 2 ^ (8 * sz)" "r = of_nat ((?A + ?B + ?C) mod 2 ^ (8 * sz))"
    using alu_add_result [OF sz c, of a b s] r by simp_all
  have ur: "uval sz r = (?A + ?B + ?C) mod 2 ^ (8 * sz)"
    unfolding res(2) by (rule uval_of_result [OF sz]) simp
  have R: "uval sz r = (if 2 * ?H \<le> ?A + ?B + ?C then ?A + ?B + ?C - 2 * ?H else ?A + ?B + ?C)"
    using carry_out [OF uval_less uval_less c, of sz a b] unfolding ur power_size [OF sz] .
  have s': "s' = set_szp r sz (set_flag OF ((NOT (a AND alu_mask sz XOR b AND alu_mask sz) AND
      (a AND alu_mask sz XOR r)) AND sign_bit sz \<noteq> 0)
    (set_flag AF ((a AND alu_mask sz XOR b AND alu_mask sz XOR r) AND 0x10 \<noteq> 0)
    (set_flag CF (drop_bit (sz * 8) (ucast (a AND alu_mask sz) + ucast (b AND alu_mask sz) + ucast c :: u128) AND 1 \<noteq> 0) s)))"
    using r by (auto simp: alu_add_def Let_def)
  have CF: "cpu_flag CF s' \<longleftrightarrow> 2 ^ (8 * sz) \<le> ?A + ?B + ?C"
    by (simp only: s' flag_simps alu_add_sum128 [OF sz c])
  have "cpu_flag OF s' \<longleftrightarrow> (?H \<le> ?A \<longleftrightarrow> ?H \<le> ?B) \<and> (?H \<le> ?A) \<noteq> (?H \<le> uval sz r)"
    by (simp only: s' flag_simps top_bit_test [OF sz] uval_masked [OF sz])
  also have "\<dots> \<longleftrightarrow> \<not> (- int ?H \<le> sval sz a + sval sz b + int ?C \<and> sval sz a + sval sz b + int ?C < int ?H)"
    using uval_less [of sz a] uval_less [of sz b] power_size [OF sz] c R
    by (intro fits_signed_add) (simp_all add: sval_alt [OF sz])
  finally have OF: "cpu_flag OF s' \<longleftrightarrow> \<not> fits_signed sz (sval sz a + sval sz b + int ?C)"
    by (simp add: fits_signed_def)
  have d16: "odd (uval sz r div 16) \<longleftrightarrow> odd ((?A + ?B + ?C) div 16)"
  proof -
    have "32 dvd (2 * ?H)" using sz by (auto simp: op_size_def)
    then obtain q where q: "2 * ?H = 32 * q" by (elim dvdE)
    then have "(?A + ?B + ?C) div 16 = uval sz r div 16 \<or> (?A + ?B + ?C) div 16 = uval sz r div 16 + 2 * q"
      unfolding R by auto
    then show ?thesis by auto
  qed
  have AF: "cpu_flag AF s' \<longleftrightarrow> 16 \<le> ?A mod 16 + ?B mod 16 + ?C"
    using nibble_test [OF sz, of "a AND alu_mask sz" "b AND alu_mask sz" r] odd_div16_sum [OF c, of ?A ?B]
    by (simp only: s' flag_simps uval_masked [OF sz] d16) blast
  have "only_status s s'"
    unfolding s' by (rule only_status_trans [OF only_status_trans [OF only_status_trans]])
      (rule only_status_flags only_status_szp)+
  moreover have "result_flags sz r s'" unfolding s' by (rule result_flags_szp [OF sz])
  ultimately show ?thesis using res(1) CF OF AF by blast
qed

text \<open>
  C12: Addition with carry, for every operand size: the result is the sum modulo \<open>2 ^ bits\<close>;
  CF is the unsigned carry, OF says that the signed sum does not fit, AF is the carry out of the
  low nibble, ZF, SF and PF describe the result, and nothing but the status flags changes.
\<close>

theorem alu_add_exact:
  assumes sz: "op_size sz" and c: "unat c \<le> 1" and r: "alu_add a b c sz s = (r, s')"
  shows "unat r = (uval sz a + uval sz b + unat c) mod 2 ^ (8 * sz) \<and>
    (cpu_flag CF s' \<longleftrightarrow> 2 ^ (8 * sz) \<le> uval sz a + uval sz b + unat c) \<and>
    (cpu_flag OF s' \<longleftrightarrow> \<not> fits_signed sz (sval sz a + sval sz b + int (unat c))) \<and>
    (cpu_flag AF s' \<longleftrightarrow> 16 \<le> uval sz a mod 16 + uval sz b mod 16 + unat c) \<and>
    result_flags sz r s' \<and> only_status s s'"
  by (rule alu_add_facts [OF assms])

theorem alu_add_exact_witness:
  "cpu_flag OF (snd (alu_add 0x7F 0x01 0 1 cpu_state_new)) \<and>
   \<not> cpu_flag CF (snd (alu_add 0x7F 0x01 0 1 cpu_state_new))"
  using alu_add_exact [of 1 0 "0x7F" "0x01" cpu_state_new "fst (alu_add 0x7F 0x01 0 1 cpu_state_new)"
      "snd (alu_add 0x7F 0x01 0 1 cpu_state_new)"]
  by (simp add: op_size_def fits_signed_def sval_def uval_def)
end
