(* ===== verification/Clock.thy ===== *)
theory Clock
  imports Prelude
begin

text \<open>
  \<open>core/src/clock.rs\<close>: the guest's clock. In virtual mode time is the number of retired
  instructions plus the credit of the sleeps, so a run is reproducible; in host mode the clock
  counts nothing and the caller asks the host. The clones of a \<open>GuestClock\<close> share one counter
  block, which the model passes as state.
\<close>

definition QPC_FREQUENCY :: u64 where "QPC_FREQUENCY = 10000000"
definition TSC_TICKS_PER_100NS :: u64 where "TSC_TICKS_PER_100NS = 100"
definition VIRTUAL_EPOCH_FILETIME :: u64 where "VIRTUAL_EPOCH_FILETIME = 134116992000000000"
definition INFINITE_MS :: u64 where "INFINITE_MS = 0xFFFFFFFF"
definition MAX_CREDIT_MS :: u64 where "MAX_CREDIT_MS = 60000"

record clock =
  ck_virtualized :: bool
  ck_instret :: u64
  ck_credit_100ns :: u64

definition clock_new :: "bool \<Rightarrow> clock" where
  "clock_new virtualized = \<lparr>ck_virtualized = virtualized, ck_instret = 0, ck_credit_100ns = 0\<rparr>"

definition retire_one :: "clock \<Rightarrow> clock" where
  "retire_one c = (if \<not> ck_virtualized c then c else c\<lparr>ck_instret := ck_instret c + 1\<rparr>)"

definition retire :: "u64 \<Rightarrow> clock \<Rightarrow> clock" where
  "retire n c = (if \<not> ck_virtualized c \<or> n = 0 then c else c\<lparr>ck_instret := ck_instret c + n\<rparr>)"

definition credit_ms :: "u64 \<Rightarrow> clock \<Rightarrow> clock" where
  "credit_ms ms c =
     (if \<not> ck_virtualized c \<or> ms = 0 \<or> ms = INFINITE_MS then c
      else let ticks = min ms MAX_CREDIT_MS * (QPC_FREQUENCY div 1000)
           in c\<lparr>ck_credit_100ns := ck_credit_100ns c + ticks\<rparr>)"

definition monotonic_100ns :: "clock \<Rightarrow> u64 option" where
  "monotonic_100ns c =
     (if \<not> ck_virtualized c then None else Some (ck_instret c + ck_credit_100ns c))"

definition tick_count_ms :: "clock \<Rightarrow> u64 option" where
  "tick_count_ms c = map_option (\<lambda>t. t div (QPC_FREQUENCY div 1000)) (monotonic_100ns c)"

definition filetime :: "clock \<Rightarrow> u64 option" where
  "filetime c = map_option (\<lambda>t. VIRTUAL_EPOCH_FILETIME + t) (monotonic_100ns c)"

definition tsc :: "clock \<Rightarrow> u64 option" where
  "tsc c = map_option (\<lambda>t. t * TSC_TICKS_PER_100NS) (monotonic_100ns c)"

section \<open>Runs of the clock\<close>

datatype clock_event = RetireOne | Retire u64 | CreditMs u64

primrec clock_step :: "clock_event \<Rightarrow> clock \<Rightarrow> clock" where
  "clock_step RetireOne = retire_one"
| "clock_step (Retire n) = retire n"
| "clock_step (CreditMs ms) = credit_ms ms"

primrec event_ticks :: "clock_event \<Rightarrow> nat" where
  \<comment> \<open>the 100 ns ticks an event is worth: one per instruction, 10 000 per credited millisecond\<close>
  "event_ticks RetireOne = 1"
| "event_ticks (Retire n) = unat n"
| "event_ticks (CreditMs ms) = (if ms = INFINITE_MS then 0 else min (unat ms) 60000 * 10000)"

definition elapsed :: "clock_event list \<Rightarrow> nat" where
  "elapsed evs = sum_list (map event_ticks evs)"

lemma clock_step_virtualized [simp]: "ck_virtualized (clock_step e c) = ck_virtualized c"
  by (cases e) (simp_all add: retire_one_def retire_def credit_ms_def Let_def)

lemma clock_run_virtualized [simp]: "ck_virtualized (fold clock_step evs c) = ck_virtualized c"
  by (induction evs arbitrary: c) simp_all

lemma credit_ticks:
  "min ms MAX_CREDIT_MS * (QPC_FREQUENCY div 1000) = of_nat (min (unat ms) 60000 * 10000)"
proof -
  have "QPC_FREQUENCY div 1000 = of_nat 10000" by (simp add: QPC_FREQUENCY_def)
  moreover have "min ms MAX_CREDIT_MS = of_nat (min (unat ms) 60000)"
    by (auto simp: min_def word_le_unat MAX_CREDIT_MS_def)
  ultimately show ?thesis by (simp add: of_nat_mult)
qed

lemma clock_step_ticks:
  assumes "ck_virtualized c"
  shows "ck_instret (clock_step e c) + ck_credit_100ns (clock_step e c) =
    ck_instret c + ck_credit_100ns c + of_nat (event_ticks e)"
proof (cases e)
  case (CreditMs ms)
  with assms show ?thesis
    by (simp add: credit_ms_def Let_def credit_ticks del: of_nat_mult)
qed (use assms in \<open>simp_all add: retire_one_def retire_def\<close>)

lemma clock_run_ticks:
  assumes "ck_virtualized c"
  shows "ck_instret (fold clock_step evs c) + ck_credit_100ns (fold clock_step evs c) =
    ck_instret c + ck_credit_100ns c + of_nat (elapsed evs)"
  using assms
proof (induction evs arbitrary: c)
  case (Cons e evs)
  then show ?case by (simp add: clock_step_ticks elapsed_def add.assoc)
qed (simp add: elapsed_def)

text \<open>
  C17: Virtual time is a function of the retired instructions and the credited sleeps alone, and
  each reading is an exact function of it. After any sequence of events, with \<open>elapsed\<close> the sum
  of one tick per retired instruction and 10 000 per credited millisecond (an infinite wait counts
  nothing, a longer one than a minute counts a minute), a virtual clock reads that sum (modulo
  \<open>2 ^ 64\<close>) in 100 ns ticks, a ten-thousandth of the reading in milliseconds, the sum past the
  fixed epoch as file time, and a hundred times the sum as time stamp counter (both again modulo
  \<open>2 ^ 64\<close>); the host clock answers none of the four. As long as the sum does not wrap, neither the
  tick reading nor the millisecond reading runs backwards.
\<close>

theorem virtual_clock_exact:
  "let c = fold clock_step evs (clock_new v); c' = fold clock_step (evs @ later) (clock_new v) in
   monotonic_100ns c = (if v then Some (of_nat (elapsed evs)) else None) \<and>
   tick_count_ms c = (if v then Some (of_nat (elapsed evs mod 2 ^ 64 div 10000)) else None) \<and>
   filetime c = (if v then Some (of_nat (134116992000000000 + elapsed evs)) else None) \<and>
   tsc c = (if v then Some (of_nat (100 * elapsed evs)) else None) \<and>
   (elapsed (evs @ later) < 2 ^ 64 \<longrightarrow> v \<longrightarrow>
     the (monotonic_100ns c) \<le> the (monotonic_100ns c') \<and>
     the (tick_count_ms c) \<le> the (tick_count_ms c'))"
proof -
  have run: "monotonic_100ns (fold clock_step evs (clock_new v)) =
      (if v then Some (of_nat (elapsed evs)) else None)" for evs
    using clock_run_ticks [of "clock_new v" evs]
    by (simp add: monotonic_100ns_def) (simp add: clock_new_def)
  have ms: "(of_nat n :: u64) div (QPC_FREQUENCY div 1000) = of_nat (n mod 2 ^ 64 div 10000)" for n
    by (rule word_unat_eq_iff [THEN iffD2])
      (simp add: QPC_FREQUENCY_def unat_div unat_of_nat take_bit_eq_mod
        le_less_trans [OF div_le_dividend mod_less_divisor, THEN mod_less])
  have "elapsed evs \<le> elapsed (evs @ later)" by (simp add: elapsed_def)
  then have "(of_nat (elapsed evs) :: u64) \<le> of_nat (elapsed (evs @ later)) \<and>
      (of_nat (elapsed evs mod 2 ^ 64 div 10000) :: u64) \<le> of_nat (elapsed (evs @ later) mod 2 ^ 64 div 10000)"
    if "elapsed (evs @ later) < 2 ^ 64"
    using that by (simp add: word_le_unat unat_of_nat take_bit_nat_eq_self div_le_mono)
  then show ?thesis
    using run [of evs] run [of "evs @ later"]
    by (cases v) (simp_all add: Let_def tsc_def filetime_def tick_count_ms_def ms TSC_TICKS_PER_100NS_def VIRTUAL_EPOCH_FILETIME_def mult.commute)
qed

theorem virtual_clock_exact_witness:
  "the (tick_count_ms (fold clock_step [RetireOne] (clock_new True)))
    \<le> the (tick_count_ms (fold clock_step [RetireOne, CreditMs 5] (clock_new True)))"
  using virtual_clock_exact [of "[RetireOne]" True "[CreditMs 5]"]
  by (simp add: elapsed_def INFINITE_MS_def Let_def)

end
