(* ===== verification/Interp.thy ===== *)
theory Interp
  imports Guest_Memory Alu Clock
begin

text \<open>
  \<open>cpu/src/lib.rs\<close>: the state of the interpreter, the instruction stream with its 16-byte
  prefetch buffer, prefixes and ModRM decoding, operand access, the stack and the condition
  codes.

  An instruction runs on a machine state of three parts: the interpreter (\<open>self\<close>), the decode
  context of the instruction (\<open>ctx\<close>, a local variable of \<open>execute_one\<close> in the source) and the
  memory (\<open>mem\<close>), of which only the operations \<open>M\<close> are known.
\<close>

section \<open>State\<close>

datatype bits = B32 | B64

record interp =
  it_state :: cpu_state
  it_bits :: bits
  it_tsc :: u64
  it_clock :: clock
  it_mxcsr :: u32
  it_xcr0 :: u64

definition MXCSR_MASK :: u32 where "MXCSR_MASK = 0x0000FFFF"
definition XCR0_SUPPORTED :: u64 where "XCR0_SUPPORTED = 7"
definition FS_BASE :: u64 where "FS_BASE = 0x00007FFE00000000"

definition interp_with_bits :: "bits \<Rightarrow> interp" where
  "interp_with_bits b = \<lparr>it_state = cpu_state_new, it_bits = b, it_tsc = 0,
     it_clock = clock_new False, it_mxcsr = 0x1F80, it_xcr0 = XCR0_SUPPORTED\<rparr>"

definition interp_with_state :: "cpu_state \<Rightarrow> interp" where
  "interp_with_state s = (interp_with_bits B64)\<lparr>it_state := s\<rparr>"

definition set_mxcsr :: "u32 \<Rightarrow> interp \<Rightarrow> interp" where
  "set_mxcsr v it = it\<lparr>it_mxcsr := v AND MXCSR_MASK\<rparr>"

definition read_tsc :: "interp \<Rightarrow> u64 \<times> interp" where
  "read_tsc it =
     (case tsc (it_clock it) of
        Some t \<Rightarrow> (t, it)
      | None \<Rightarrow> (it_tsc it, it\<lparr>it_tsc := it_tsc it + 64\<rparr>))"

definition bits_mask :: "bits \<Rightarrow> u64" where
  "bits_mask b = (case b of B64 \<Rightarrow> - 1 | B32 \<Rightarrow> 0xFFFFFFFF)"

definition addr_mask :: "interp \<Rightarrow> u64" where
  "addr_mask it = bits_mask (it_bits it)"

definition stack_width :: "interp \<Rightarrow> nat" where
  "stack_width it = (case it_bits it of B64 \<Rightarrow> 8 | B32 \<Rightarrow> 4)"

record prefixes =
  px_rex :: u8
  px_has_rex :: bool
  px_p66 :: bool
  px_rep :: u8
  px_seg :: u8
  px_lock :: bool

definition no_prefixes :: prefixes where
  "no_prefixes = \<lparr>px_rex = 0, px_has_rex = False, px_p66 = False, px_rep = 0, px_seg = 0,
     px_lock = False\<rparr>"

definition px_w :: "prefixes \<Rightarrow> bool" where "px_w p \<longleftrightarrow> px_rex p AND 8 \<noteq> 0"
definition px_r :: "prefixes \<Rightarrow> u8" where "px_r p = drop_bit 2 (px_rex p) AND 1"
definition px_x :: "prefixes \<Rightarrow> u8" where "px_x p = drop_bit 1 (px_rex p) AND 1"
definition px_b :: "prefixes \<Rightarrow> u8" where "px_b p = px_rex p AND 1"

datatype rm = RmReg u8 | RmMem u64 u64 bool

definition IBUF_LEN :: nat where "IBUF_LEN = 16"

record ctx =
  cx_pfx :: prefixes
  cx_cur :: u64
  cx_reg :: u8
  cx_rm :: rm
  cx_bits :: bits
  cx_u8_at_op :: u8
  cx_ibuf :: bytes
  cx_ibuf_base :: u64
  cx_ibuf_n :: nat

record 'm mach =
  mc_it :: interp
  mc_ctx :: ctx
  mc_mem :: 'm

section \<open>Access to the parts of the machine\<close>

definition cpu :: "(cpu_state \<Rightarrow> 'a) \<Rightarrow> ('m mach, 'a) em" where
  "cpu f = em_get (\<lambda>s. f (it_state (mc_it s)))"

definition upd_cpu :: "(cpu_state \<Rightarrow> cpu_state) \<Rightarrow> ('m mach, unit) em" where
  "upd_cpu f = em_mod (\<lambda>s. s\<lparr>mc_it := (mc_it s)\<lparr>it_state := f (it_state (mc_it s))\<rparr>\<rparr>)"

definition run_cpu :: "(cpu_state \<Rightarrow> 'a \<times> cpu_state) \<Rightarrow> ('m mach, 'a) em" where
  \<comment> \<open>an operation on the CPU state that returns a value, as \<open>alu::add(&mut self.state, ..)\<close>\<close>
  "run_cpu f = em_run (\<lambda>s. case f (it_state (mc_it s)) of (a, c) \<Rightarrow>
     (a, s\<lparr>mc_it := (mc_it s)\<lparr>it_state := c\<rparr>\<rparr>))"

definition interp :: "(interp \<Rightarrow> 'a) \<Rightarrow> ('m mach, 'a) em" where
  "interp f = em_get (\<lambda>s. f (mc_it s))"

definition upd_interp :: "(interp \<Rightarrow> interp) \<Rightarrow> ('m mach, unit) em" where
  "upd_interp f = em_mod (\<lambda>s. s\<lparr>mc_it := f (mc_it s)\<rparr>)"

definition ctx :: "(ctx \<Rightarrow> 'a) \<Rightarrow> ('m mach, 'a) em" where
  "ctx f = em_get (\<lambda>s. f (mc_ctx s))"

definition upd_ctx :: "(ctx \<Rightarrow> ctx) \<Rightarrow> ('m mach, unit) em" where
  "upd_ctx f = em_mod (\<lambda>s. s\<lparr>mc_ctx := f (mc_ctx s)\<rparr>)"

definition mem_do :: "('m, 'a) em \<Rightarrow> ('m mach, 'a) em" where
  "mem_do f s = (case f (mc_mem s) of (r, m) \<Rightarrow> (r, s\<lparr>mc_mem := m\<rparr>))"

definition set_rip :: "u64 \<Rightarrow> ('m mach, unit) em" where
  "set_rip v = upd_cpu (\<lambda>c. c\<lparr>cpu_rip := v\<rparr>)"

definition get_gpr :: "u8 \<Rightarrow> nat \<Rightarrow> ('m mach, u64) em" where
  "get_gpr i sz = cpu (gpr_read i sz)"

definition put_gpr :: "u8 \<Rightarrow> nat \<Rightarrow> u64 \<Rightarrow> ('m mach, unit) em" where
  "put_gpr i sz v = upd_cpu (gpr_write i sz v)"

definition put_flag :: "u64 \<Rightarrow> bool \<Rightarrow> ('m mach, unit) em" where
  "put_flag m on = upd_cpu (set_flag m on)"

section \<open>The instruction stream\<close>

definition prefetch :: "'m memory_ops \<Rightarrow> u64 \<Rightarrow> 'm \<Rightarrow> (bytes \<times> nat) \<times> 'm" where
  "prefetch M addr m =
     (case mo_fetch M addr IBUF_LEN m of (r, m') \<Rightarrow>
       (case r of Inr buf \<Rightarrow> (buf, IBUF_LEN) | Inl e \<Rightarrow> (replicate IBUF_LEN 0, 0), m'))"

definition ctx_take :: "nat \<Rightarrow> ('m mach, bytes option) em" where
  "ctx_take n = em_bind (ctx (\<lambda>c. c)) (\<lambda>c.
     let off = cx_cur c - cx_ibuf_base c in
     if unat off < cx_ibuf_n c - (n - 1) then
       em_bind (upd_ctx (\<lambda>c. c\<lparr>cx_cur := cx_cur c + of_nat n\<rparr>)) (\<lambda>_.
       em_return (Some (subslice (cx_ibuf c) (unat off) (unat off + n))))
     else em_return None)"

definition ctx_u8_slow :: "'m memory_ops \<Rightarrow> ('m mach, u8) em" where
  "ctx_u8_slow M = em_bind (ctx cx_cur) (\<lambda>cur.
     em_bind (mem_do (mo_fetch M cur 1)) (\<lambda>b.
     em_bind (upd_ctx (\<lambda>c. c\<lparr>cx_cur := cx_cur c + 1\<rparr>)) (\<lambda>_.
     em_return (b ! 0))))"

definition ctx_u8 :: "'m memory_ops \<Rightarrow> ('m mach, u8) em" where
  "ctx_u8 M = em_bind (ctx_take 1) (\<lambda>t.
     case t of Some b \<Rightarrow> em_return (b ! 0) | None \<Rightarrow> ctx_u8_slow M)"

fun ctx_bytes :: "'m memory_ops \<Rightarrow> nat \<Rightarrow> ('m mach, bytes) em" where
  "ctx_bytes M 0 = em_return []"
| "ctx_bytes M (Suc n) = em_bind (ctx_u8 M) (\<lambda>b.
     em_bind (ctx_bytes M n) (\<lambda>bs. em_return (b # bs)))"

definition ctx_uint :: "'m memory_ops \<Rightarrow> nat \<Rightarrow> ('m mach, bytes) em" where
  \<comment> \<open>the common shape of \<open>Ctx::u16\<close>, \<open>Ctx::u32\<close> and \<open>Ctx::u64\<close>: the buffer, else byte by byte\<close>
  "ctx_uint M n = em_bind (ctx_take n) (\<lambda>t.
     case t of Some b \<Rightarrow> em_return b | None \<Rightarrow> ctx_bytes M n)"

definition ctx_u16 :: "'m memory_ops \<Rightarrow> ('m mach, u16) em" where
  "ctx_u16 M = em_bind (ctx_uint M 2) (\<lambda>b. em_return (from_le b))"

definition ctx_u32 :: "'m memory_ops \<Rightarrow> ('m mach, u32) em" where
  "ctx_u32 M = em_bind (ctx_uint M 4) (\<lambda>b. em_return (from_le b))"

definition ctx_u64 :: "'m memory_ops \<Rightarrow> ('m mach, u64) em" where
  "ctx_u64 M = em_bind (ctx_uint M 8) (\<lambda>b. em_return (from_le b))"

definition rm_addr_of :: "ctx \<Rightarrow> u64" where
  "rm_addr_of c =
     (case cx_rm c of
        RmMem base disp rip_rel \<Rightarrow> if rip_rel then cx_cur c + disp else base + disp
      | RmReg i \<Rightarrow> 0) AND bits_mask (cx_bits c)"

definition rm_addr :: "('m mach, u64) em" where
  "rm_addr = ctx rm_addr_of"

section \<open>Prefixes\<close>

definition opsize_of :: "ctx \<Rightarrow> nat" where
  "opsize_of c =
     (if cx_bits c = B64 \<and> px_w (cx_pfx c) then 8 else if px_p66 (cx_pfx c) then 2 else 4)"

definition opsize :: "('m mach, nat) em" where
  "opsize = ctx opsize_of"

definition upd_pfx :: "(prefixes \<Rightarrow> prefixes) \<Rightarrow> ('m mach, unit) em" where
  "upd_pfx f = upd_ctx (\<lambda>c. c\<lparr>cx_pfx := f (cx_pfx c)\<rparr>)"

definition prefix_byte :: "u8 \<Rightarrow> bits \<Rightarrow> (prefixes \<Rightarrow> prefixes) option" where
  \<comment> \<open>what a byte of the loop records when the loop goes on after it; \<open>None\<close> ends the loop\<close>
  "prefix_byte b bts =
     (if b = 0x66 then Some (\<lambda>p. p\<lparr>px_p66 := True\<rparr>)
      else if b = 0x67 then Some (\<lambda>p. p)
      else if b = 0xF0 then Some (\<lambda>p. p\<lparr>px_lock := True\<rparr>)
      else if b = 0xF2 \<or> b = 0xF3 then Some (\<lambda>p. p\<lparr>px_rep := b\<rparr>)
      else if b = 0x2E \<or> b = 0x36 \<or> b = 0x3E \<or> b = 0x26 then Some (\<lambda>p. p)
      else if b = 0x64 \<or> b = 0x65 then Some (\<lambda>p. p\<lparr>px_seg := b\<rparr>)
      else None)"

fun prefix_loop :: "'m memory_ops \<Rightarrow> nat \<Rightarrow> ('m mach, unit) em" where
  "prefix_loop M 0 = em_stop Loops"
| "prefix_loop M (Suc n) = em_bind (ctx_u8 M) (\<lambda>b. em_bind (ctx cx_bits) (\<lambda>bts.
     case prefix_byte b bts of
       Some f \<Rightarrow> em_bind (upd_pfx f) (\<lambda>_. prefix_loop M n)
     | None \<Rightarrow>
         if 0x40 \<le> b \<and> b \<le> 0x4F \<and> bts = B64
         then upd_pfx (\<lambda>p. p\<lparr>px_rex := b, px_has_rex := True\<rparr>)
         else upd_ctx (\<lambda>c. c\<lparr>cx_cur := cx_cur c - 1\<rparr>)))"

definition read_prefixes :: "'m memory_ops \<Rightarrow> ('m mach, unit) em" where
  \<comment> \<open>the loop of the source; it stops at the first byte that is no prefix or cannot be fetched,
    and the bound is the number of addresses above the instruction\<close>
  "read_prefixes M = em_bind (ctx cx_cur) (\<lambda>cur. prefix_loop M (2 ^ 64 - unat cur))"

end
