(* ===== verification/Operands.thy ===== *)
theory Operands
  imports Interp
begin

text \<open>
  The rest of \<open>cpu/src/lib.rs\<close>: the ModRM and SIB bytes, register and memory operands, the
  stack, immediates and the sixteen conditions. Every definition that reaches guest memory
  takes the operations \<open>M\<close> of the \<open>dyn Memory\<close> it is given.
\<close>

section \<open>ModRM\<close>

definition reg_at :: "u8 \<Rightarrow> cpu_state \<Rightarrow> u64" where
  "reg_at index s = cpu_gpr s (ucast index)"

definition fs_base_of :: "bits \<Rightarrow> cpu_state \<Rightarrow> u64" where
  "fs_base_of b s = (case b of B32 \<Rightarrow> cpu_fs_base s | B64 \<Rightarrow> FS_BASE)"

definition seg_base :: "ctx \<Rightarrow> cpu_state \<Rightarrow> u64" where
  \<comment> \<open>what the segment override adds to an effective address\<close>
  "seg_base c s =
     (if px_seg (cx_pfx c) = 0x65 then cpu_gs_base s
      else if px_seg (cx_pfx c) = 0x64 then fs_base_of (cx_bits c) s else 0)"

definition sx8 :: "u8 \<Rightarrow> u64" where "sx8 b = scast b"
definition sx32 :: "u32 \<Rightarrow> u64" where "sx32 v = scast v"

definition set_rm :: "rm \<Rightarrow> ('m mach, unit) em" where
  "set_rm r = upd_ctx (\<lambda>c. c\<lparr>cx_rm := r\<rparr>)"

definition modrm_disp :: "'m memory_ops \<Rightarrow> u8 \<Rightarrow> u64 \<Rightarrow> ('m mach, unit) em" where
  \<comment> \<open>the displacement after the base and the index, then the segment base\<close>
  "modrm_disp M md base =
     em_bind (if md = 0 then em_return 0
              else if md = 1 then em_bind (ctx_u8 M) (\<lambda>b. em_return (sx8 b))
              else em_bind (ctx_u32 M) (\<lambda>v. em_return (sx32 v))) (\<lambda>disp.
     em_bind (ctx (\<lambda>c. c)) (\<lambda>c. em_bind (cpu (seg_base c)) (\<lambda>seg.
     set_rm (RmMem (base + seg) disp False))))"

definition modrm_sib :: "'m memory_ops \<Rightarrow> u8 \<Rightarrow> ('m mach, unit) em" where
  "modrm_sib M md =
     em_bind (ctx_u8 M) (\<lambda>sib.
     em_bind (ctx (\<lambda>c. c)) (\<lambda>c.
     em_bind (cpu (\<lambda>s. s)) (\<lambda>s.
       let p = cx_pfx c;
           scale = push_bit (unat (drop_bit 6 sib)) (1 :: u64);
           index = (drop_bit 3 sib AND 7) OR push_bit 3 (px_x p);
           base_reg = (sib AND 7) OR push_bit 3 (px_b p);
           base = (if drop_bit 3 sib AND 7 \<noteq> 4 \<or> px_x p \<noteq> 0 then reg_at index s * scale else 0)
       in if sib AND 7 = 5 \<and> md = 0 then
            em_bind (ctx_u32 M) (\<lambda>v.
            em_bind (ctx (\<lambda>c. c)) (\<lambda>c.
            set_rm (RmMem (base + seg_base c s) (sx32 v) False)))
          else modrm_disp M md (base + reg_at base_reg s))))"

definition modrm_abs :: "'m memory_ops \<Rightarrow> ('m mach, unit) em" where
  "modrm_abs M =
     em_bind (ctx_u32 M) (\<lambda>v.
     em_bind (ctx (\<lambda>c. c)) (\<lambda>c.
     em_bind (cpu (seg_base c)) (\<lambda>seg.
     set_rm (RmMem seg (sx32 v) (cx_bits c = B64)))))"

definition read_modrm :: "'m memory_ops \<Rightarrow> ('m mach, unit) em" where
  "read_modrm M =
     em_bind (ctx_u8 M) (\<lambda>modrm.
     em_bind (ctx cx_pfx) (\<lambda>p.
       let md = drop_bit 6 modrm;
           reg = (drop_bit 3 modrm AND 7) OR push_bit 3 (px_r p);
           rm = modrm AND 7
       in em_bind (upd_ctx (\<lambda>c. c\<lparr>cx_reg := reg\<rparr>)) (\<lambda>_.
          if md = 3 then set_rm (RmReg (rm OR push_bit 3 (px_b p)))
          else if rm = 4 then modrm_sib M md
          else if rm = 5 \<and> md = 0 then modrm_abs M
          else em_bind (cpu (reg_at (rm OR push_bit 3 (px_b p)))) (\<lambda>base.
               modrm_disp M md base))))"

section \<open>Operands\<close>

definition read_gpr_of :: "u8 \<Rightarrow> nat \<Rightarrow> bool \<Rightarrow> cpu_state \<Rightarrow> u64" where
  "read_gpr_of index sz has_rex s =
     (if sz = 1 \<and> \<not> has_rex \<and> 4 \<le> index \<and> index < 8
      then gpr_read_high8 index s else gpr_read index sz s)"

definition write_gpr_of :: "u8 \<Rightarrow> nat \<Rightarrow> bool \<Rightarrow> u64 \<Rightarrow> cpu_state \<Rightarrow> cpu_state" where
  "write_gpr_of index sz has_rex v s =
     (if sz = 1 \<and> \<not> has_rex \<and> 4 \<le> index \<and> index < 8
      then gpr_write_high8 index v s else gpr_write index sz v s)"

definition read_rm :: "'m memory_ops \<Rightarrow> nat \<Rightarrow> ('m mach, u64) em" where
  "read_rm M sz = em_bind (ctx (\<lambda>c. c)) (\<lambda>c. case cx_rm c of
     RmReg i \<Rightarrow> cpu (read_gpr_of i sz (px_has_rex (cx_pfx c)))
   | RmMem b d r \<Rightarrow> mem_do (mo_read_uint M (rm_addr_of c) sz))"

definition write_rm :: "'m memory_ops \<Rightarrow> nat \<Rightarrow> u64 \<Rightarrow> ('m mach, unit) em" where
  "write_rm M sz v = em_bind (ctx (\<lambda>c. c)) (\<lambda>c. case cx_rm c of
     RmReg i \<Rightarrow> upd_cpu (write_gpr_of i sz (px_has_rex (cx_pfx c)) v)
   | RmMem b d r \<Rightarrow> mem_do (mo_write_uint M (rm_addr_of c) sz v))"

definition read_reg_field :: "nat \<Rightarrow> ('m mach, u64) em" where
  "read_reg_field sz = em_bind (ctx (\<lambda>c. c)) (\<lambda>c.
     cpu (read_gpr_of (cx_reg c) sz (px_has_rex (cx_pfx c))))"

definition write_reg_field :: "nat \<Rightarrow> u64 \<Rightarrow> ('m mach, unit) em" where
  "write_reg_field sz v = em_bind (ctx (\<lambda>c. c)) (\<lambda>c.
     upd_cpu (write_gpr_of (cx_reg c) sz (px_has_rex (cx_pfx c)) v))"

section \<open>The stack\<close>

definition push_stack :: "'m memory_ops \<Rightarrow> u64 \<Rightarrow> ('m mach, unit) em" where
  "push_stack M v = em_bind (interp (\<lambda>it. it)) (\<lambda>it.
     let w = stack_width it;
         sp = (cpu_rsp (it_state it) - of_nat w) AND addr_mask it
     in em_bind (upd_cpu (cpu_set_rsp sp)) (\<lambda>_. mem_do (mo_write_uint M sp w v)))"

definition pop_stack :: "'m memory_ops \<Rightarrow> ('m mach, u64) em" where
  "pop_stack M = em_bind (interp (\<lambda>it. it)) (\<lambda>it.
     let w = stack_width it;
         sp = cpu_rsp (it_state it) AND addr_mask it
     in em_bind (mem_do (mo_read_uint M sp w)) (\<lambda>v.
        em_bind (upd_cpu (cpu_set_rsp ((sp + of_nat w) AND addr_mask it))) (\<lambda>_.
        em_return v)))"

section \<open>Immediates and conditions\<close>

definition imm_z :: "'m memory_ops \<Rightarrow> nat \<Rightarrow> ('m mach, u64) em" where
  "imm_z M sz =
     (if sz = 2 then em_bind (ctx_u16 M) (\<lambda>v. em_return (sext (ucast v) 2 AND alu_mask sz))
      else em_bind (ctx_u32 M) (\<lambda>v. em_return (sext (ucast v) 4 AND alu_mask sz)))"

definition cond_of :: "u8 \<Rightarrow> cpu_state \<Rightarrow> bool" where
  "cond_of tttn s =
     (let cf = cpu_flag CF s; zf = cpu_flag ZF s; sf = cpu_flag SF s; ovf = cpu_flag OF s;
          pf = cpu_flag PF s; t = tttn AND 0xF in
      if t = 0 then ovf else if t = 1 then \<not> ovf
      else if t = 2 then cf else if t = 3 then \<not> cf
      else if t = 4 then zf else if t = 5 then \<not> zf
      else if t = 6 then cf \<or> zf else if t = 7 then \<not> (cf \<or> zf)
      else if t = 8 then sf else if t = 9 then \<not> sf
      else if t = 10 then pf else if t = 11 then \<not> pf
      else if t = 12 then sf \<noteq> ovf else if t = 13 then sf = ovf
      else if t = 14 then zf \<or> sf \<noteq> ovf else \<not> zf \<and> sf = ovf)"

definition segment_selector :: "u8 \<Rightarrow> interp \<Rightarrow> u16" where
  "segment_selector idx it =
     (if idx = 1 then (case it_bits it of B64 \<Rightarrow> SEL_CS64 | B32 \<Rightarrow> SEL_CS32) else SEL_DATA)"

text \<open>The lifting of the arithmetic unit to the machine.\<close>

definition do_alu_of :: "u8 \<Rightarrow> u64 \<Rightarrow> u64 \<Rightarrow> nat \<Rightarrow> cpu_state \<Rightarrow> u64 \<times> cpu_state" where
  "do_alu_of op a b sz s =
     (if op = 0 then alu_add a b 0 sz s
      else if op = 1 then alu_logic (a OR b) sz s
      else if op = 2 then alu_add a b (of_flag (cpu_flag CF s)) sz s
      else if op = 3 then alu_sub a b (of_flag (cpu_flag CF s)) sz s
      else if op = 4 then alu_logic (a AND b) sz s
      else if op = 5 then alu_sub a b 0 sz s
      else if op = 6 then alu_logic (a XOR b) sz s
      else (a, snd (alu_sub a b 0 sz s)))"

definition do_alu :: "u8 \<Rightarrow> u64 \<Rightarrow> u64 \<Rightarrow> nat \<Rightarrow> ('m mach, u64) em" where
  "do_alu op a b sz = run_cpu (do_alu_of op a b sz)"

text \<open>What an arm of the dispatch leaves: \<open>None\<close> to fall through to the end of
  \<open>execute_one\<close>, where \<open>rip\<close> becomes the end of the instruction, or the exit it returns.\<close>

type_synonym 'm arm = "('m mach, exit option) em"

definition fall :: "'m arm" where
  "fall = em_return None"

definition leave :: "exit \<Rightarrow> 'm arm" where
  "leave e = em_return (Some e)"

end
