(* ===== verification/Alu_Compare.thy ===== *)
theory Alu_Compare
  imports Alu_Laws Operands
begin

text \<open>
  Subtraction with all its flags, the conditions that follow a comparison, and the increments,
  decrements and logical operations.
\<close>

section \<open>Subtraction and comparison\<close>

lemma fits_signed_sub:
  fixes A B H R :: nat
  assumes "A < 2 * H" "B < 2 * H" "c \<le> 1" "R = (if A < B + c then A + 2 * H - B - c else A - B - c)"
    "sA = (if H \<le> A then int A - 2 * int H else int A)" "sB = (if H \<le> B then int B - 2 * int H else int B)"
  shows "((H \<le> A) \<noteq> (H \<le> B) \<and> (H \<le> A) \<noteq> (H \<le> R)) \<longleftrightarrow>
    \<not> (- int H \<le> sA - sB - int c \<and> sA - sB - int c < int H)"
  using assms by (auto split: if_splits)

lemma borrow_out:
  "(int A - int B - int c) mod int N = int (if A < B + c then A + N - B - c else A - B - c)"
  if "A < N" "B < N" "c \<le> 1" for A B c N :: nat
proof (cases "A < B + c")
  case True
  have "(int A - int B - int c) mod int N = (int A - int B - int c + int N) mod int N" by simp
  also have "\<dots> = int A - int B - int c + int N"
    using True that by (intro mod_pos_pos_trivial) linarith+
  finally show ?thesis using True that by (simp add: of_nat_diff)
next
  case False
  then have "(int A - int B - int c) mod int N = int A - int B - int c"
    using that by (intro mod_pos_pos_trivial) linarith+
  with False show ?thesis by (simp add: of_nat_diff)
qed

lemma alu_sub_result:
  assumes sz: "op_size sz" and c: "unat c \<le> 1"
  shows "unat (fst (alu_sub a b c sz s)) = (if uval sz a < uval sz b + unat c
      then uval sz a + 2 ^ (8 * sz) - uval sz b - unat c else uval sz a - uval sz b - unat c)"
proof -
  let ?w = "(a AND alu_mask sz) - (b AND alu_mask sz) - c"
  have "int (uval sz ?w) = uint ?w mod 2 ^ (8 * sz)"
    by (simp add: uval_def of_nat_mod)
  also have "\<dots> = (int (uval sz a) - int (uval sz b) - int (unat c)) mod 2 ^ 64 mod 2 ^ (8 * sz)"
    by (simp add: uint_word_ariths mod_simps flip: unat_and_alu_mask [OF sz])
  also have "\<dots> = (int (uval sz a) - int (uval sz b) - int (unat c)) mod int (2 ^ (8 * sz))"
    using sz by (auto simp: op_size_def mod_mod_cancel)
  also have "\<dots> = int (if uval sz a < uval sz b + unat c
      then uval sz a + 2 ^ (8 * sz) - uval sz b - unat c else uval sz a - uval sz b - unat c)"
    by (rule borrow_out [OF uval_less uval_less c])
  finally have "uval sz ?w = (if uval sz a < uval sz b + unat c
      then uval sz a + 2 ^ (8 * sz) - uval sz b - unat c else uval sz a - uval sz b - unat c)"
    by (simp only: of_nat_eq_iff)
  then show ?thesis by (simp add: alu_sub_def Let_def unat_and_alu_mask [OF sz])
qed

lemma alu_sub_borrow:
  assumes sz: "op_size sz" and c: "unat c \<le> 1"
  shows "(ucast (a AND alu_mask sz) :: u128) < ucast (b AND alu_mask sz) + ucast c \<longleftrightarrow>
    uval sz a < uval sz b + unat c"
proof -
  have p: "(2::nat) ^ (8 * sz) \<le> 2 ^ 64" using sz by (auto simp: op_size_def)
  have "uval sz b < 2 ^ 64" "uval sz a < 2 ^ 64"
    using uval_less [of sz b] uval_less [of sz a] p by (blast intro: less_le_trans)+
  then have lt: "uval sz b + unat c < 2 ^ 128" "uval sz a < 2 ^ 128"
    using c by simp_all
  have n: "(of_nat x :: u128) < of_nat y \<longleftrightarrow> x < y" if "x < 2 ^ 128" "y < 2 ^ 128" for x y
    using that by (simp add: word_less_unat unat_of_nat take_bit_nat_eq_self)
  have "(ucast (a AND alu_mask sz) :: u128) = of_nat (uval sz a)"
    "(ucast (b AND alu_mask sz) + ucast c :: u128) = of_nat (uval sz b + unat c)"
    by (simp_all flip: unat_and_alu_mask [OF sz])
  then show ?thesis using n [OF lt(2,1)] by simp
qed

lemma nibble_wrap:
  "r < 16 \<Longrightarrow> a = (if 16 \<le> r + b + c then r + b + c - 16 else r + b + c) \<Longrightarrow>
    16 \<le> r + b + c \<longleftrightarrow> a < b + c" for r b c a :: nat
  by auto

lemma borrow_nibble:
  fixes A B R c :: nat
  assumes "R + B + c = A \<or> R + B + c = A + 32 * q" "c \<le> 1"
  shows "((odd (A div 16) \<noteq> odd (B div 16)) \<noteq> odd (R div 16)) \<longleftrightarrow> A mod 16 < B mod 16 + c"
proof -
  have "(A + 16 * (2 * q)) mod 16 = A mod 16" by (rule mod_mult_self2)
  then have "(A + 32 * q) div 16 = A div 16 + 2 * q" "(A + 32 * q) mod 16 = A mod 16"
    by simp_all
  then have d: "odd ((R + B + c) div 16) = odd (A div 16)" "(R + B + c) mod 16 = A mod 16"
    using assms(1) by auto
  have e: "A mod 16 = (if 16 \<le> R mod 16 + B mod 16 + c then R mod 16 + B mod 16 + c - 16
      else R mod 16 + B mod 16 + c)"
  proof -
    have "(R mod 16 + B mod 16 + c) mod 16 = (R + B + c) mod 16"
      by (metis mod_add_eq mod_add_left_eq)
    then have "A mod 16 = (R mod 16 + B mod 16 + c) mod 16" unfolding d(2) by (rule sym)
    moreover have "R mod 16 < 16" "B mod 16 < 16" by simp_all
    ultimately show ?thesis using assms(2) by (auto simp: le_mod_geq)
  qed
  have "R mod 16 < 16" by simp
  then have "16 \<le> R mod 16 + B mod 16 + c \<longleftrightarrow> A mod 16 < B mod 16 + c"
    by (rule nibble_wrap [OF _ e])
  then show ?thesis using odd_div16_sum [OF assms(2), of R B] d(1) by blast
qed

lemma alu_sub_facts:
  assumes sz: "op_size sz" and c: "unat c \<le> 1" and r: "alu_sub a b c sz s = (r, s')"
  shows "int (unat r) = (int (uval sz a) - int (uval sz b) - int (unat c)) mod 2 ^ (8 * sz) \<and>
    (cpu_flag CF s' \<longleftrightarrow> uval sz a < uval sz b + unat c) \<and>
    (cpu_flag OF s' \<longleftrightarrow> \<not> fits_signed sz (sval sz a - sval sz b - int (unat c))) \<and>
    (cpu_flag AF s' \<longleftrightarrow> uval sz a mod 16 < uval sz b mod 16 + unat c) \<and>
    result_flags sz r s' \<and> only_status s s'"
proof -
  let ?A = "uval sz a" let ?B = "uval sz b" let ?C = "unat c" let ?H = "2 ^ (8 * sz - 1) :: nat"
  have res: "unat r = (if ?A < ?B + ?C then ?A + 2 ^ (8 * sz) - ?B - ?C else ?A - ?B - ?C)"
    using alu_sub_result [OF sz c, of a b s] r by simp
  have lt: "unat r < 2 ^ (8 * sz)"
    unfolding res using uval_less [of sz a] uval_less [of sz b] by auto
  then have ur: "uval sz r = unat r" by (simp add: uval_def)
  have R: "uval sz r = (if ?A < ?B + ?C then ?A + 2 * ?H - ?B - ?C else ?A - ?B - ?C)"
    unfolding ur res power_size [OF sz] ..
  have s': "s' = set_szp r sz (set_flag OF ((a AND alu_mask sz XOR b AND alu_mask sz) AND
      (a AND alu_mask sz XOR r) AND sign_bit sz \<noteq> 0)
    (set_flag AF ((a AND alu_mask sz XOR b AND alu_mask sz XOR r) AND 0x10 \<noteq> 0)
    (set_flag CF ((ucast (a AND alu_mask sz) :: u128) < ucast (b AND alu_mask sz) + ucast c) s)))"
    using r by (auto simp: alu_sub_def Let_def)
  have CF: "cpu_flag CF s' \<longleftrightarrow> ?A < ?B + ?C"
    by (simp only: s' flag_simps alu_sub_borrow [OF sz c])
  have "cpu_flag OF s' \<longleftrightarrow> (?H \<le> ?A) \<noteq> (?H \<le> ?B) \<and> (?H \<le> ?A) \<noteq> (?H \<le> uval sz r)"
    by (simp only: s' flag_simps top_bit_test [OF sz] uval_masked [OF sz])
  also have "\<dots> \<longleftrightarrow> \<not> (- int ?H \<le> sval sz a - sval sz b - int ?C \<and> sval sz a - sval sz b - int ?C < int ?H)"
    using uval_less [of sz a] uval_less [of sz b] power_size [OF sz] c R
    by (intro fits_signed_sub) (simp_all add: sval_alt [OF sz])
  finally have OF: "cpu_flag OF s' \<longleftrightarrow> \<not> fits_signed sz (sval sz a - sval sz b - int ?C)"
    by (simp add: fits_signed_def)
  obtain q where q: "2 * ?H = 32 * q"
  proof -
    have "32 dvd (2 * ?H)" using sz by (auto simp: op_size_def)
    then show thesis using that by (elim dvdE)
  qed
  have "uval sz r + ?B + ?C = ?A \<or> uval sz r + ?B + ?C = ?A + 32 * q"
    unfolding q [symmetric] using R uval_less [of sz b] power_size [OF sz] c by (auto split: if_splits)
  then have AF: "cpu_flag AF s' \<longleftrightarrow> ?A mod 16 < ?B mod 16 + ?C"
    using nibble_test [OF sz, of "a AND alu_mask sz" "b AND alu_mask sz" r] borrow_nibble [OF _ c]
    by (simp only: s' flag_simps uval_masked [OF sz])
  have "only_status s s'"
    unfolding s' by (rule only_status_trans [OF only_status_trans [OF only_status_trans]])
      (rule only_status_flags only_status_szp)+
  moreover have "result_flags sz r s'" unfolding s' by (rule result_flags_szp [OF sz])
  moreover have "int (unat r) = (int ?A - int ?B - int ?C) mod 2 ^ (8 * sz)"
    using borrow_out [OF uval_less uval_less c, of sz a b] unfolding res by simp
  ultimately show ?thesis using CF OF AF by blast
qed

text \<open>
  C13: Subtraction with borrow, for every operand size: the result is the difference modulo
  \<open>2 ^ bits\<close>; CF is the unsigned borrow, OF says that the signed difference does not fit, AF is
  the borrow into the low nibble, ZF, SF and PF describe the result, and nothing but the status
  flags changes.
\<close>

theorem alu_sub_exact:
  assumes sz: "op_size sz" and c: "unat c \<le> 1" and r: "alu_sub a b c sz s = (r, s')"
  shows "int (unat r) = (int (uval sz a) - int (uval sz b) - int (unat c)) mod 2 ^ (8 * sz) \<and>
    (cpu_flag CF s' \<longleftrightarrow> uval sz a < uval sz b + unat c) \<and>
    (cpu_flag OF s' \<longleftrightarrow> \<not> fits_signed sz (sval sz a - sval sz b - int (unat c))) \<and>
    (cpu_flag AF s' \<longleftrightarrow> uval sz a mod 16 < uval sz b mod 16 + unat c) \<and>
    result_flags sz r s' \<and> only_status s s'"
  by (rule alu_sub_facts [OF assms])

theorem alu_sub_exact_witness:
  "cpu_flag CF (snd (alu_sub 0x00 0x01 0 1 cpu_state_new)) \<and>
   cpu_flag AF (snd (alu_sub 0x00 0x01 0 1 cpu_state_new))"
  using alu_sub_exact [of 1 0 "0x00" "0x01" cpu_state_new "fst (alu_sub 0x00 0x01 0 1 cpu_state_new)"
      "snd (alu_sub 0x00 0x01 0 1 cpu_state_new)"]
  by (simp add: op_size_def result_flags_def sval_def uval_def)

lemma sval_range: "op_size sz \<Longrightarrow> fits_signed sz (sval sz a)"
proof -
  assume sz: "op_size sz"
  have "int (uval sz a) < 2 * 2 ^ (8 * sz - 1)"
    using uval_less [of sz a] int_power_size [OF sz] by (metis of_nat_less_iff of_nat_numeral of_nat_power)
  then show ?thesis by (simp add: fits_signed_def sval_alt [OF sz])
qed

lemma sval_eq_iff: "op_size sz \<Longrightarrow> sval sz a = sval sz b \<longleftrightarrow> uval sz a = uval sz b"
proof -
  assume sz: "op_size sz"
  have "int (uval sz x) < 2 * int (2 ^ (8 * sz - 1))" for x
    using uval_less [of sz x] power_size [OF sz] by linarith
  from this [of a] this [of b] show ?thesis by (auto simp: sval_alt [OF sz])
qed

lemma signed_less_sub:
  fixes A B H R :: nat and sA sB :: int
  assumes "A < 2 * H" "B < 2 * H" "R = (if A < B then A + 2 * H - B else A - B)"
    "sA = (if H \<le> A then int A - 2 * int H else int A)"
    "sB = (if H \<le> B then int B - 2 * int H else int B)"
  shows "H \<le> R \<longleftrightarrow> (sA < sB) \<noteq> (\<not> (- int H \<le> sA - sB \<and> sA - sB < int H))"
  using assms by (auto split: if_splits)

lemma sval_diff:
  assumes sz: "op_size sz"
    and r: "int (unat r) = (int (uval sz a) - int (uval sz b)) mod 2 ^ (8 * sz)"
  shows "sval sz r < 0 \<longleftrightarrow> (sval sz a < sval sz b) \<noteq> (\<not> fits_signed sz (sval sz a - sval sz b))"
proof -
  let ?H = "2 ^ (8 * sz - 1) :: nat"
  have lt: "uval sz x < 2 * ?H" for x using uval_less [of sz x] power_size [OF sz] by simp
  have "int (unat r) = int (if uval sz a < uval sz b then uval sz a + 2 * ?H - uval sz b
      else uval sz a - uval sz b)"
    using borrow_out [OF lt [of a] lt [of b], of 0] r by (simp add: int_power_size [OF sz])
  then have ur: "unat r = (if uval sz a < uval sz b then uval sz a + 2 * ?H - uval sz b
      else uval sz a - uval sz b)" by (simp only: of_nat_eq_iff)
  then have "unat r < 2 * ?H" using lt [of a] lt [of b] by auto
  then have u: "uval sz r = unat r" by (simp add: uval_def power_size [OF sz])
  show ?thesis
    unfolding sval_neg [OF sz] u
    using signed_less_sub [OF lt lt ur sval_alt [OF sz] sval_alt [OF sz]] by (simp add: fits_signed_def)
qed

lemma signed_edges:
  fixes A H :: nat and sA :: int
  assumes "1 \<le> H" "A < 2 * H" "sA = (if H \<le> A then int A - 2 * int H else int A)"
  shows "\<not> (- int H \<le> sA + 1 \<and> sA + 1 < int H) \<longleftrightarrow> A = H - 1"
    "\<not> (- int H \<le> sA - 1 \<and> sA - 1 < int H) \<longleftrightarrow> A = H"
  using assms by (auto split: if_splits)

section \<open>Increment, decrement and logic\<close>

lemma flag_restore_CF: "only_status s t \<Longrightarrow> only_status s (set_flag CF on t)"
  by (rule only_status_trans [OF _ only_status_flags(1)])

text \<open>
  INC and DEC compute as an addition and a subtraction of one but keep CF, and the logical
  operations clear CF, OF and AF; each describes its result in ZF, SF and PF.
\<close>

theorem inc_dec_logic_exact:
  assumes sz: "op_size sz"
  shows "uval sz (fst (alu_inc a sz s)) = (uval sz a + 1) mod 2 ^ (8 * sz) \<and>
    (cpu_flag CF (snd (alu_inc a sz s)) \<longleftrightarrow> cpu_flag CF s) \<and>
    (cpu_flag OF (snd (alu_inc a sz s)) \<longleftrightarrow> uval sz a = 2 ^ (8 * sz - 1) - 1) \<and>
    int (uval sz (fst (alu_dec a sz s))) = (int (uval sz a) - 1) mod 2 ^ (8 * sz) \<and>
    (cpu_flag CF (snd (alu_dec a sz s)) \<longleftrightarrow> cpu_flag CF s) \<and>
    (cpu_flag OF (snd (alu_dec a sz s)) \<longleftrightarrow> uval sz a = 2 ^ (8 * sz - 1)) \<and>
    uval sz (fst (alu_logic a sz s)) = uval sz a \<and>
    \<not> cpu_flag CF (snd (alu_logic a sz s)) \<and> \<not> cpu_flag OF (snd (alu_logic a sz s)) \<and>
    (cpu_flag ZF (snd (alu_logic a sz s)) \<longleftrightarrow> uval sz a = 0)"
proof -
  obtain r t where add: "alu_add a 1 0 sz s = (r, t)" by (cases "alu_add a 1 0 sz s")
  obtain q u where sub: "alu_sub a 1 0 sz s = (q, u)" by (cases "alu_sub a 1 0 sz s")
  have one: "uval sz 1 = 1" "sval sz 1 = 1" using sz by (auto simp: op_size_def uval_def sval_def)
  note A = alu_add_facts [OF sz _ add] note S = alu_sub_facts [OF sz _ sub]
  have edge: "uval sz a < 2 * 2 ^ (8 * sz - 1)" using uval_less [of sz a] power_size [OF sz] by simp
  have inc: "\<not> fits_signed sz (sval sz a + 1) \<longleftrightarrow> uval sz a = 2 ^ (8 * sz - 1) - 1"
    using signed_edges(1) [OF _ edge sval_alt [OF sz]] by (simp add: fits_signed_def)
  have dec: "\<not> fits_signed sz (sval sz a - 1) \<longleftrightarrow> uval sz a = 2 ^ (8 * sz - 1)"
    using signed_edges(2) [OF _ edge sval_alt [OF sz]] by (simp add: fits_signed_def)
  have u: "uval sz r = unat r" "uval sz q = unat q"
  proof -
    have "unat r < 2 ^ (8 * sz)" using A by simp
    moreover have "int (unat q) < int (2 ^ (8 * sz))" using S by simp
    then have "unat q < 2 ^ (8 * sz)" by (simp only: of_nat_less_iff)
    ultimately show "uval sz r = unat r" "uval sz q = unat q" unfolding uval_def by simp_all
  qed
  have inc_dec: "alu_inc a sz s = (r, set_flag CF (cpu_flag CF s) t)"
    "alu_dec a sz s = (q, set_flag CF (cpu_flag CF s) u)"
    by (simp_all add: alu_inc_def alu_dec_def Let_def add sub)
  have log: "uval sz (fst (alu_logic a sz s)) = uval sz a"
    by (simp add: alu_logic_def Let_def sz)
  have logf: "\<not> cpu_flag CF (snd (alu_logic a sz s))" "\<not> cpu_flag OF (snd (alu_logic a sz s))"
    "cpu_flag ZF (snd (alu_logic a sz s)) \<longleftrightarrow> uval sz a = 0"
    using unat_and_alu_mask [OF sz, of a]
    by (simp_all add: alu_logic_def Let_def flag_simps flip: unat_eq_zero)
  show ?thesis using A S one inc dec u log logf by (simp add: inc_dec flag_simps)
qed

theorem inc_dec_logic_exact_witness:
  "uval 1 (fst (alu_inc 0xFF 1 cpu_state_new)) = 0 \<and>
   \<not> cpu_flag CF (snd (alu_inc 0xFF 1 cpu_state_new))"
  using inc_dec_logic_exact [of 1 "0xFF" cpu_state_new]
  by (simp add: op_size_def uval_def cpu_flag_def cpu_state_new_def flag_defs)

section \<open>Conditions\<close>

text \<open>
  C14: After a comparison the conditions answer what their mnemonics say: below, equal and
  below-or-equal compare the operands as naturals, less and less-or-equal in two's complement
  (also when the difference overflows), and every odd condition is the negation of the even one
  before it, whatever the flags are.
\<close>

theorem compare_conditions:
  assumes sz: "op_size sz" and r: "alu_sub a b 0 sz s = (r, s')"
  shows "(cond_of 2 s' \<longleftrightarrow> uval sz a < uval sz b) \<and> (cond_of 4 s' \<longleftrightarrow> uval sz a = uval sz b) \<and>
    (cond_of 6 s' \<longleftrightarrow> uval sz a \<le> uval sz b) \<and>
    (cond_of 0xC s' \<longleftrightarrow> sval sz a < sval sz b) \<and> (cond_of 0xE s' \<longleftrightarrow> sval sz a \<le> sval sz b) \<and>
    (cond_of 1 t \<longleftrightarrow> \<not> cond_of 0 t) \<and> (cond_of 3 t \<longleftrightarrow> \<not> cond_of 2 t) \<and>
    (cond_of 5 t \<longleftrightarrow> \<not> cond_of 4 t) \<and> (cond_of 7 t \<longleftrightarrow> \<not> cond_of 6 t) \<and>
    (cond_of 9 t \<longleftrightarrow> \<not> cond_of 8 t) \<and> (cond_of 0xB t \<longleftrightarrow> \<not> cond_of 0xA t) \<and>
    (cond_of 0xD t \<longleftrightarrow> \<not> cond_of 0xC t) \<and> (cond_of 0xF t \<longleftrightarrow> \<not> cond_of 0xE t)"
proof -
  have S: "int (unat r) = (int (uval sz a) - int (uval sz b)) mod 2 ^ (8 * sz)"
    "cpu_flag CF s' \<longleftrightarrow> uval sz a < uval sz b"
    "cpu_flag OF s' \<longleftrightarrow> \<not> fits_signed sz (sval sz a - sval sz b)" "result_flags sz r s'"
    using alu_sub_facts [OF sz _ r] by simp_all
  have "int (unat r) < int (2 ^ (8 * sz))" using S(1) by simp
  then have ur: "uval sz r = unat r" by (simp only: of_nat_less_iff uval_def mod_less)
  have ZF: "cpu_flag ZF s' \<longleftrightarrow> uval sz a = uval sz b"
  proof -
    have "int (unat r) = int (if uval sz a < uval sz b then uval sz a + 2 ^ (8 * sz) - uval sz b
        else uval sz a - uval sz b)"
      using borrow_out [OF uval_less uval_less, of 0 sz a b] S(1) by simp
    then have "unat r = (if uval sz a < uval sz b then uval sz a + 2 ^ (8 * sz) - uval sz b
        else uval sz a - uval sz b)"
      by (simp only: of_nat_eq_iff)
    then have "unat r = 0 \<longleftrightarrow> uval sz a = uval sz b"
      using uval_less [of sz b] by auto
    then show ?thesis using S(4) by (simp add: result_flags_def ur)
  qed
  have L: "cpu_flag SF s' \<noteq> cpu_flag OF s' \<longleftrightarrow> sval sz a < sval sz b"
    using S(3,4) sval_diff [OF sz S(1)] by (auto simp: result_flags_def)
  have even: "cond_of 2 s' = cpu_flag CF s'" "cond_of 4 s' = cpu_flag ZF s'"
    "cond_of 6 s' = (cpu_flag CF s' \<or> cpu_flag ZF s')"
    "cond_of 0xC s' = (cpu_flag SF s' \<noteq> cpu_flag OF s')"
    "cond_of 0xE s' = (cpu_flag ZF s' \<or> cpu_flag SF s' \<noteq> cpu_flag OF s')"
    by (simp_all add: cond_of_def Let_def)
  have "cond_of 6 s' \<longleftrightarrow> uval sz a \<le> uval sz b" using S(2) ZF even by auto
  moreover have "cond_of 0xE s' \<longleftrightarrow> sval sz a \<le> sval sz b"
    using L ZF sval_eq_iff [OF sz, of a b] even by auto
  moreover have "cond_of 2 s' \<longleftrightarrow> uval sz a < uval sz b" using S(2) even by simp
  moreover have "cond_of 4 s' \<longleftrightarrow> uval sz a = uval sz b" using ZF even by simp
  moreover have "cond_of 0xC s' \<longleftrightarrow> sval sz a < sval sz b" using L even by simp
  moreover have "(cond_of 1 t \<longleftrightarrow> \<not> cond_of 0 t) \<and> (cond_of 3 t \<longleftrightarrow> \<not> cond_of 2 t) \<and>
    (cond_of 5 t \<longleftrightarrow> \<not> cond_of 4 t) \<and> (cond_of 7 t \<longleftrightarrow> \<not> cond_of 6 t) \<and>
    (cond_of 9 t \<longleftrightarrow> \<not> cond_of 8 t) \<and> (cond_of 0xB t \<longleftrightarrow> \<not> cond_of 0xA t) \<and>
    (cond_of 0xD t \<longleftrightarrow> \<not> cond_of 0xC t) \<and> (cond_of 0xF t \<longleftrightarrow> \<not> cond_of 0xE t)"
    by (simp add: cond_of_def Let_def)
  ultimately show ?thesis by blast
qed

theorem compare_conditions_witness:
  "cond_of 0xC (snd (alu_sub 0x80 0x01 0 1 cpu_state_new)) \<and>
   \<not> cond_of 2 (snd (alu_sub 0x80 0x01 0 1 cpu_state_new))"
  using compare_conditions [of 1 "0x80" "0x01" cpu_state_new "fst (alu_sub 0x80 0x01 0 1 cpu_state_new)"
      "snd (alu_sub 0x80 0x01 0 1 cpu_state_new)"]
  by (simp add: op_size_def sval_def uval_def)

end
