(* ===== verification/Shift_Laws.thy ===== *)
theory Shift_Laws
  imports Alu_Compare
begin

text \<open>
  Shifts and rotates of \<open>cpu/src/alu.rs\<close> against arithmetic: a left shift multiplies, the right
  shifts divide (the arithmetic one rounding down), the carry is the last bit shifted out, and
  the rotates are inverse to each other.
\<close>

section \<open>Counts\<close>

definition shift_amount :: "u64 \<Rightarrow> nat \<Rightarrow> nat" where
  \<comment> \<open>the count the processor uses: five bits of it, six for a 64-bit operand\<close>
  "shift_amount count sz = unat count mod (if sz = 8 then 64 else 32)"

lemma unat_shift_count: "unat (shift_count count sz) = shift_amount count sz"
proof -
  have "count AND 0x3f = take_bit 6 count" "count AND 0x1f = take_bit 5 count"
    by (simp_all add: take_bit_eq_mask mask_eq_exp_minus_1)
  then have "unat (count AND (if sz = 8 then 0x3f else 0x1f)) = shift_amount count sz"
    by (simp add: shift_amount_def unsigned_take_bit_eq take_bit_nat_def)
  moreover have "shift_amount count sz < 2 ^ 32"
    by (simp add: shift_amount_def less_trans [OF mod_less_divisor])
  ultimately show ?thesis
    by (simp add: shift_count_def unsigned_ucast_eq take_bit_nat_eq_self)
qed

lemma shift_amount_less: "shift_amount count sz < 64" "sz \<noteq> 8 \<Longrightarrow> shift_amount count sz < 32"
  by (simp_all add: shift_amount_def less_trans [OF mod_less_divisor])

lemma shift_count_zero: "shift_count count sz = 0 \<longleftrightarrow> shift_amount count sz = 0"
  by (metis unat_eq_zero unat_shift_count)

lemma unat_bits: "op_size sz \<Longrightarrow> unat (of_nat (sz * 8) :: u32) = 8 * sz"
  by (auto simp: op_size_def)

lemma shl64_count: "shl64 v (shift_count count sz) = push_bit (shift_amount count sz) v"
  by (simp add: shl64_def unat_shift_count shift_amount_less)

lemma shr64_count: "shr64 v (shift_count count sz) = drop_bit (shift_amount count sz) v"
  by (simp add: shr64_def unat_shift_count shift_amount_less)

lemma shr64_pred:
  assumes "shift_amount count sz \<noteq> 0"
  shows "shr64 v (shift_count count sz - 1) = drop_bit (shift_amount count sz - 1) v"
proof -
  have "unat (shift_count count sz - 1) = shift_amount count sz - 1"
    using assms by (simp add: unat_minus_one shift_count_zero unat_shift_count)
  moreover have "shift_amount count sz - 1 < 64" using shift_amount_less(1) [of count sz] by linarith
  ultimately show ?thesis by (simp add: shr64_def)
qed

lemma shr64_rest:
  assumes "op_size sz" "shift_amount count sz \<noteq> 0" "shift_amount count sz \<le> 8 * sz"
  shows "shr64 v (of_nat (sz * 8) - shift_count count sz) = drop_bit (8 * sz - shift_amount count sz) v"
proof -
  have "shift_count count sz \<le> of_nat (sz * 8)"
    unfolding word_le_nat_alt unat_shift_count unat_bits [OF assms(1)] by (rule assms(3))
  then have "unat (of_nat (sz * 8) - shift_count count sz :: u32) = 8 * sz - shift_amount count sz"
    by (simp only: unat_sub_if' unat_shift_count unat_bits [OF assms(1)] word_le_nat_alt if_True)
  moreover have "8 * sz - shift_amount count sz < 64" using assms by (auto simp: op_size_def)
  ultimately show ?thesis unfolding shr64_def by (simp only: mod_less)
qed

lemma count_le_bits:
  "op_size sz \<Longrightarrow> shift_count count sz \<le> of_nat (sz * 8) \<longleftrightarrow> shift_amount count sz \<le> 8 * sz"
  by (simp only: word_le_nat_alt unat_shift_count unat_bits)

lemma uval_push:
  assumes "op_size sz"
  shows "uval sz (push_bit k (v AND alu_mask sz)) = uval sz v * 2 ^ k mod 2 ^ (8 * sz)"
proof -
  have "(2::nat) ^ (8 * sz) dvd 2 ^ 64" using assms by (intro le_imp_power_dvd) (auto simp: op_size_def)
  then have "unat (push_bit k (v AND alu_mask sz)) mod 2 ^ (8 * sz) =
      unat (v AND alu_mask sz) * 2 ^ k mod 2 ^ (8 * sz)"
    unfolding unsigned_push_bit_eq take_bit_nat_def push_bit_nat_def by (simp add: mod_mod_cancel)
  then show ?thesis unfolding uval_def [of sz "push_bit k (v AND alu_mask sz)"]
    by (simp only: unat_and_alu_mask [OF assms])
qed

section \<open>Flags\<close>

lemma flags_when_one [flag_simps]:
  "cpu_flag CF (when_one c OF on s) = cpu_flag CF s" "cpu_flag ZF (when_one c OF on s) = cpu_flag ZF s"
  "cpu_flag SF (when_one c OF on s) = cpu_flag SF s" "cpu_flag PF (when_one c OF on s) = cpu_flag PF s"
  "cpu_flag AF (when_one c OF on s) = cpu_flag AF s"
  by (simp_all add: when_one_def flag_simps)

lemma only_status_when_one [simp]: "only_status s (when_one c OF on s)"
  by (simp add: when_one_def)

lemma only_status_shift:
  "only_status s (set_szp res sz (when_one c OF on (set_flag CF cf s)))"
  "only_status s (when_one c OF on (set_flag CF cf s))"
  using only_status_trans [OF only_status_flags(1) [of s cf] only_status_when_one [of "set_flag CF cf s" c on]]
    only_status_trans [OF _ only_status_szp]
  by blast+

lemma alu_shift_zero: "shift_amount count sz = 0 \<Longrightarrow> alu_shift k v count sz s = (v AND alu_mask sz, s)"
  by (simp add: alu_shift_def Let_def shift_count_zero)

section \<open>Shifts\<close>

lemma shl_facts:
  assumes sz: "op_size sz" and c: "shift_amount count sz \<noteq> 0" and r: "alu_shift Shl v count sz s = (r, s')"
  shows "unat r = uval sz v * 2 ^ shift_amount count sz mod 2 ^ (8 * sz)"
    and "cpu_flag CF s' \<longleftrightarrow> shift_amount count sz \<le> 8 * sz \<and>
      odd (uval sz v div 2 ^ (8 * sz - shift_amount count sz))"
    and "result_flags sz r s'" "only_status s s'"
proof -
  let ?k = "shift_amount count sz" and ?v = "v AND alu_mask sz"
  have res: "r = push_bit ?k ?v AND alu_mask sz"
    using r c by (simp add: alu_shift_def Let_def shift_count_zero shl64_count)
  show "unat r = uval sz v * 2 ^ ?k mod 2 ^ (8 * sz)"
    unfolding res unat_and_alu_mask [OF sz] by (rule uval_push [OF sz])
  obtain cf on where s': "s' = set_szp r sz (when_one (shift_count count sz) OF on (set_flag CF cf s))"
    and cf: "cf \<longleftrightarrow> ?k \<le> 8 * sz \<and> shr64 ?v (of_nat (sz * 8) - shift_count count sz) AND 1 \<noteq> 0"
    using r c by (auto simp: alu_shift_def Let_def shift_count_zero count_le_bits [OF sz, simplified])
  show "cpu_flag CF s' \<longleftrightarrow> ?k \<le> 8 * sz \<and> odd (uval sz v div 2 ^ (8 * sz - ?k))"
  proof (cases "?k \<le> 8 * sz")
    case True
    then show ?thesis
      using bit_uval [OF sz, of "8 * sz - ?k" ?v] c sz
      unfolding s' cf shr64_rest [OF sz c True] low_bit_test
      by (auto simp: flag_simps op_size_def)
  qed (simp add: s' cf flag_simps)
  show "result_flags sz r s'" unfolding s' by (rule result_flags_szp [OF sz])
  show "only_status s s'" unfolding s' by (rule only_status_shift)
qed

lemma shr_facts:
  assumes sz: "op_size sz" and c: "shift_amount count sz \<noteq> 0" and r: "alu_shift Shr v count sz s = (r, s')"
  shows "unat r = uval sz v div 2 ^ shift_amount count sz"
    and "cpu_flag CF s' \<longleftrightarrow> odd (uval sz v div 2 ^ (shift_amount count sz - 1))"
    and "result_flags sz r s'" "only_status s s'"
proof -
  let ?k = "shift_amount count sz" and ?v = "v AND alu_mask sz"
  have res: "r = drop_bit ?k ?v"
    using r c by (simp add: alu_shift_def Let_def shift_count_zero shr64_count)
  show "unat r = uval sz v div 2 ^ ?k"
    unfolding res unat_drop_bit_eq drop_bit_nat_def unat_and_alu_mask [OF sz] ..
  obtain cf on where s': "s' = set_szp r sz (when_one (shift_count count sz) OF on (set_flag CF cf s))"
    and cf: "cf \<longleftrightarrow> bit ?v (?k - 1)"
    using r c by (auto simp: alu_shift_def Let_def shift_count_zero shr64_pred low_bit_test)
  have "bit ?v (?k - 1) \<longleftrightarrow> bit (unat ?v) (?k - 1)" by (simp add: bit_unsigned_iff)
  then show "cpu_flag CF s' \<longleftrightarrow> odd (uval sz v div 2 ^ (?k - 1))"
    by (simp add: s' cf flag_simps unat_and_alu_mask [OF sz] bit_iff_odd)
  show "result_flags sz r s'" unfolding s' by (rule result_flags_szp [OF sz])
  show "only_status s s'" unfolding s' by (rule only_status_shift)
qed

section \<open>Sign extension\<close>

lemma sval_signed_take_bit:
  assumes "op_size sz"
  shows "sval sz x = signed_take_bit (8 * sz - 1) (uint x)"
proof -
  have S: "Suc (8 * sz - 1) = 8 * sz" and lt: "8 * sz - 1 < 64" using assms by (auto simp: op_size_def)
  have u: "int (uval sz x) = take_bit (8 * sz) (uint x)"
    by (simp add: uval_def take_bit_eq_mod of_nat_mod flip: uint_nat)
  have "bit (uint x) (8 * sz - 1) \<longleftrightarrow> bit x (8 * sz - 1)"
    using lt by (auto simp: bit_uint_iff)
  then show ?thesis
    using top_bit [OF assms, of x] u
    unfolding signed_take_bit_eq_take_bit_minus S by (simp add: sval_def)
qed

lemma sval_sint: "op_size sz \<Longrightarrow> sval sz x = signed_take_bit (8 * sz - 1) (sint x)"
  by (simp add: sval_signed_take_bit sint_uint op_size_def min_def) auto

lemma sval_of_sint: "op_size sz \<Longrightarrow> fits_signed sz (sint x) \<Longrightarrow> sval sz x = sint x"
  by (simp add: sval_sint fits_signed_def signed_take_bit_int_eq_self)

lemma sint_extend:
  "sint (scast (ucast v :: u8) :: u64) = signed_take_bit 7 (uint v)"
  "sint (scast (ucast v :: u16) :: u64) = signed_take_bit 15 (uint v)"
  "sint (scast (ucast v :: u32) :: u64) = signed_take_bit 31 (uint v)"
  for v :: u64
  by (subst sint_up_scast;
      simp add: is_up_def target_size source_size word_size signed_ucast_eq)+

lemma sint_sext:
  assumes "op_size sz"
  shows "sint (sext v sz) = sval sz v"
proof -
  consider "sz = 1" | "sz = 2" | "sz = 4" | "sz = 8" using assms by (auto simp: op_size_def)
  then show ?thesis
  proof cases
    case 1 show ?thesis
      unfolding sval_signed_take_bit [OF assms] unfolding 1 sext_def using sint_extend(1) [of v] by simp
  next
    case 2 show ?thesis
      unfolding sval_signed_take_bit [OF assms] unfolding 2 sext_def using sint_extend(2) [of v] by simp
  next
    case 3 show ?thesis
      unfolding sval_signed_take_bit [OF assms] unfolding 3 sext_def using sint_extend(3) [of v] by simp
  next
    case 4 show ?thesis
      unfolding sval_signed_take_bit [OF assms] unfolding 4 sext_def by (simp add: sint_uint)
  qed
qed

lemma sval_masked [simp]: "op_size sz \<Longrightarrow> sval sz (x AND alu_mask sz) = sval sz x"
  by (simp add: sval_def)

lemma sext_masked [simp]:
  assumes "op_size sz"
  shows "sext (x AND alu_mask sz) sz = sext x sz"
proof -
  have "sint (sext (x AND alu_mask sz) sz) = sint (sext x sz)"
    by (simp add: sint_sext assms)
  from arg_cong [OF this, of "of_int :: int \<Rightarrow> u64"] show ?thesis by (simp only: of_int_sint scast_id)
qed

lemma sar_facts:
  assumes sz: "op_size sz" and c: "shift_amount count sz \<noteq> 0" and r: "alu_shift Sar v count sz s = (r, s')"
  shows "sval sz r = sval sz v div 2 ^ shift_amount count sz" "unat r = uval sz r"
    and "cpu_flag CF s' \<longleftrightarrow> odd (sval sz v div 2 ^ (shift_amount count sz - 1))"
    and "result_flags sz r s'" "only_status s s'"
proof -
  let ?k = "shift_amount count sz" and ?x = "sext v sz"
  have res: "r = signed_drop_bit ?k ?x AND alu_mask sz"
    using r c sz by (simp add: alu_shift_def Let_def shift_count_zero unat_shift_count shift_amount_less)
  have x: "sint (signed_drop_bit ?k ?x) = sval sz v div 2 ^ ?k"
    by (simp add: sint_signed_drop_bit_eq drop_bit_int_def sint_sext [OF sz])
  have "fits_signed sz (sval sz v div 2 ^ ?k)"
    using sval_range [OF sz, of v] unfolding fits_signed_def
    by (smt (verit) div_nonneg_neg_le0 int_div_less_self neg_imp_zdiv_neg_iff pos_imp_zdiv_nonneg_iff
        zdiv_mono2_neg zero_less_power div_by_1 zdiv_mono2 one_le_power div_le_dividend)
  then show "sval sz r = sval sz v div 2 ^ ?k" using x sval_of_sint [OF sz, of "signed_drop_bit ?k ?x"]
    unfolding res sval_masked [OF sz] by simp
  show "unat r = uval sz r" by (simp add: res unat_and_alu_mask [OF sz] sz)
  obtain cf where s': "s' = set_szp r sz (when_one (shift_count count sz) OF False (set_flag CF cf s))"
    and cf: "cf \<longleftrightarrow> bit ?x (?k - 1)"
    using r c sz by (auto simp: alu_shift_def Let_def shift_count_zero shr64_pred low_bit_test)
  have "bit ?x (?k - 1) \<longleftrightarrow> bit (sint ?x) (?k - 1)"
    using shift_amount_less(1) [of count sz] by (auto simp: bit_sint_iff)
  then show "cpu_flag CF s' \<longleftrightarrow> odd (sval sz v div 2 ^ (?k - 1))"
    by (simp add: s' cf flag_simps sint_sext [OF sz] bit_iff_odd)
  show "result_flags sz r s'" unfolding s' by (rule result_flags_szp [OF sz])
  show "only_status s s'" unfolding s' by (rule only_status_shift)
qed

section \<open>Rotates\<close>

lemma bit_masked: "op_size sz \<Longrightarrow> bit (a AND alu_mask sz) i \<longleftrightarrow> i < 8 * sz \<and> bit a i"
  by (auto simp: alu_mask_mask bit_simps op_size_def)

lemma rot_count:
  assumes "op_size sz"
  shows "unat (shift_count count sz mod of_nat (sz * 8)) = shift_amount count sz mod (8 * sz)"
    and "unat ((of_nat (sz * 8) - shift_count count sz mod of_nat (sz * 8)) mod of_nat (sz * 8) :: u32)
      = (8 * sz - shift_amount count sz mod (8 * sz)) mod (8 * sz)"
proof -
  let ?b = "of_nat (sz * 8) :: u32" and ?c = "shift_count count sz mod of_nat (sz * 8)"
  show c: "unat ?c = shift_amount count sz mod (8 * sz)"
    by (simp only: unat_mod unat_shift_count unat_bits [OF assms])
  have "unat ?c \<le> 8 * sz" using assms unfolding c by (simp add: op_size_def mod_less_divisor less_imp_le)
      (auto intro: less_imp_le mod_less_divisor)
  then have "unat (?b - ?c) = 8 * sz - unat ?c"
    by (simp only: unat_sub_if' unat_bits [OF assms] if_True)
  then have "unat (?b - ?c) = 8 * sz - shift_amount count sz mod (8 * sz)" unfolding c .
  then show "unat ((?b - ?c) mod ?b) = (8 * sz - shift_amount count sz mod (8 * sz)) mod (8 * sz)"
    by (simp only: unat_mod unat_bits [OF assms])
qed

lemma rotate_parts:
  assumes "op_size sz"
  shows "shl64 x (shift_count count sz mod of_nat (sz * 8)) = push_bit (shift_amount count sz mod (8 * sz)) x"
    and "shr64 x (shift_count count sz mod of_nat (sz * 8)) = drop_bit (shift_amount count sz mod (8 * sz)) x"
    and "shl64 x ((of_nat (sz * 8) - shift_count count sz mod of_nat (sz * 8)) mod of_nat (sz * 8)) =
      push_bit ((8 * sz - shift_amount count sz mod (8 * sz)) mod (8 * sz)) x"
    and "shr64 x ((of_nat (sz * 8) - shift_count count sz mod of_nat (sz * 8)) mod of_nat (sz * 8)) =
      drop_bit ((8 * sz - shift_amount count sz mod (8 * sz)) mod (8 * sz)) x"
proof -
  have "k mod (8 * sz) < 64" for k
  proof -
    have "k mod (8 * sz) < 8 * sz" "8 * sz \<le> 64" using assms by (auto simp: op_size_def)
    then show ?thesis by linarith
  qed
  then have *: "k mod (8 * sz) mod 64 = k mod (8 * sz)" for k by (rule mod_less)
  show "shl64 x (shift_count count sz mod of_nat (sz * 8)) = push_bit (shift_amount count sz mod (8 * sz)) x"
    "shr64 x (shift_count count sz mod of_nat (sz * 8)) = drop_bit (shift_amount count sz mod (8 * sz)) x"
    "shl64 x ((of_nat (sz * 8) - shift_count count sz mod of_nat (sz * 8)) mod of_nat (sz * 8)) =
      push_bit ((8 * sz - shift_amount count sz mod (8 * sz)) mod (8 * sz)) x"
    "shr64 x ((of_nat (sz * 8) - shift_count count sz mod of_nat (sz * 8)) mod of_nat (sz * 8)) =
      drop_bit ((8 * sz - shift_amount count sz mod (8 * sz)) mod (8 * sz)) x"
    unfolding shl64_def shr64_def rot_count [OF assms] * by (rule refl)+
qed

lemma rotate_index:
  fixes i k n :: nat
  assumes "i < n" "k < n"
  shows "(i + n - k) mod n = (if k \<le> i then i - k else i + n - k)"
    and "(i + k) mod n = (if i + k < n then i + k else i + k - n)"
    and "(n - k) mod n = (if k = 0 then 0 else n - k)"
proof -
  show "(i + n - k) mod n = (if k \<le> i then i - k else i + n - k)"
  proof (cases "k \<le> i")
    case True
    then have "i + n - k = i - k + n" by simp
    then have "(i + n - k) mod n = (i - k) mod n" by (simp only: mod_add_self2)
    with True assms show ?thesis by simp
  qed (use assms in simp)
  show "(i + k) mod n = (if i + k < n then i + k else i + k - n)"
    using assms by (auto simp: mod_if)
  show "(n - k) mod n = (if k = 0 then 0 else n - k)" using assms by auto
qed

lemma rotate_bits:
  fixes x :: u64
  assumes n: "n \<le> 64" and k: "k < n" and i: "i < n" and x: "\<And>j. bit x j \<longleftrightarrow> j < n \<and> bit v j"
  shows "bit (push_bit k x OR drop_bit ((n - k) mod n) x) i \<longleftrightarrow> bit v ((i + n - k) mod n)"
    and "bit (drop_bit k x OR push_bit ((n - k) mod n) x) i \<longleftrightarrow> bit v ((i + k) mod n)"
proof -
  show "bit (push_bit k x OR drop_bit ((n - k) mod n) x) i \<longleftrightarrow> bit v ((i + n - k) mod n)"
    using n i k by (auto simp: rotate_index [OF i k] x bit_or_iff bit_push_bit_iff bit_drop_bit_eq add.commute)
  have "\<not> i + k < n \<Longrightarrow> i - (n - k) = i + k - n" using k by simp
  then show "bit (drop_bit k x OR push_bit ((n - k) mod n) x) i \<longleftrightarrow> bit v ((i + k) mod n)"
    using n i k by (auto simp: rotate_index [OF i k] x bit_or_iff bit_push_bit_iff bit_drop_bit_eq add.commute)
qed

lemma rotate_facts:
  assumes sz: "op_size sz" and i: "i < 8 * sz"
  shows "bit (fst (alu_shift Rol v count sz s)) i \<longleftrightarrow>
      bit v ((i + 8 * sz - shift_amount count sz mod (8 * sz)) mod (8 * sz))"
    and "bit (fst (alu_shift Ror v count sz s)) i \<longleftrightarrow>
      bit v ((i + shift_amount count sz mod (8 * sz)) mod (8 * sz))"
proof -
  have k: "shift_amount count sz mod (8 * sz) < 8 * sz" and n: "8 * sz \<le> 64"
    using sz by (auto simp: op_size_def)
  show "bit (fst (alu_shift Rol v count sz s)) i \<longleftrightarrow>
      bit v ((i + 8 * sz - shift_amount count sz mod (8 * sz)) mod (8 * sz))"
    using rotate_bits(1) [OF n k i bit_masked [OF sz], of v] i
    by (simp add: alu_shift_def Let_def rotate_parts [OF sz, simplified] shift_count_zero bit_masked [OF sz])
  show "bit (fst (alu_shift Ror v count sz s)) i \<longleftrightarrow>
      bit v ((i + shift_amount count sz mod (8 * sz)) mod (8 * sz))"
    using rotate_bits(2) [OF n k i bit_masked [OF sz], of v] i
    by (simp add: alu_shift_def Let_def rotate_parts [OF sz, simplified] shift_count_zero bit_masked [OF sz])
qed

lemma rotate_masked:
  "op_size sz \<Longrightarrow> k = Rol \<or> k = Ror \<Longrightarrow> bit (fst (alu_shift k v count sz s)) i \<Longrightarrow> i < 8 * sz"
  by (auto simp: alu_shift_def Let_def bit_masked split: if_splits)

lemma rotate_round:
  fixes i k n :: nat
  assumes "i < n" "k < n"
  shows "((i + k) mod n + n - k) mod n = i" "((i + n - k) mod n + k) mod n = i"
proof -
  have "(i + k) mod n + n - k = (i + k) mod n + (n - k)" "i + k + (n - k) = i + n" "i + n - k + k = i + n"
    using assms by simp_all
  then show "((i + k) mod n + n - k) mod n = i" "((i + n - k) mod n + k) mod n = i"
    using assms by (simp_all only: mod_add_left_eq mod_add_self2 mod_less)
qed

lemma rotate_inverse:
  assumes sz: "op_size sz"
  shows "fst (alu_shift Ror (fst (alu_shift Rol v count sz s)) count sz t) = v AND alu_mask sz"
    and "fst (alu_shift Rol (fst (alu_shift Ror v count sz s)) count sz t) = v AND alu_mask sz"
proof -
  let ?n = "8 * sz" and ?k = "shift_amount count sz mod (8 * sz)"
  have n: "0 < ?n" and k: "?k < ?n" using sz by (auto simp: op_size_def)
  note there = rotate_round [OF _ k]
  have less: "j mod ?n < ?n" for j using n by simp
  show "fst (alu_shift Ror (fst (alu_shift Rol v count sz s)) count sz t) = v AND alu_mask sz"
  proof (rule bit_word_eqI)
    fix i
    show "bit (fst (alu_shift Ror (fst (alu_shift Rol v count sz s)) count sz t)) i = bit (v AND alu_mask sz) i"
      using rotate_masked [OF sz, of Ror "fst (alu_shift Rol v count sz s)" count t i]
      by (cases "i < ?n") (auto simp: rotate_facts(2) [OF sz] rotate_facts(1) [OF sz less] there(1) bit_masked [OF sz])
  qed
  show "fst (alu_shift Rol (fst (alu_shift Ror v count sz s)) count sz t) = v AND alu_mask sz"
  proof (rule bit_word_eqI)
    fix i
    show "bit (fst (alu_shift Rol (fst (alu_shift Ror v count sz s)) count sz t)) i = bit (v AND alu_mask sz) i"
      using rotate_masked [OF sz, of Rol "fst (alu_shift Ror v count sz s)" count t i]
      by (cases "i < ?n") (auto simp: rotate_facts(1) [OF sz] rotate_facts(2) [OF sz less] there(2) bit_masked [OF sz])
  qed
qed

section \<open>Rotates through the carry\<close>

definition ring_bit :: "nat \<Rightarrow> u64 \<times> bool \<Rightarrow> nat \<Rightarrow> bool" where
  \<comment> \<open>the operand with the carry as its highest bit\<close>
  "ring_bit sz p i \<longleftrightarrow> (if i = 8 * sz then snd p else bit (fst p) i)"

definition in_ring :: "nat \<Rightarrow> u64 \<times> bool \<Rightarrow> bool" where
  "in_ring sz p \<longleftrightarrow> fst p AND alu_mask sz = fst p"

lemma in_ring_bit: "op_size sz \<Longrightarrow> in_ring sz p \<Longrightarrow> bit (fst p) i \<Longrightarrow> i < 8 * sz"
  using bit_masked [of sz "fst p" i] by (simp add: in_ring_def)

lemma in_ringI: "op_size sz \<Longrightarrow> (\<And>i. bit (fst p) i \<Longrightarrow> i < 8 * sz) \<Longrightarrow> in_ring sz p"
  unfolding in_ring_def by (rule bit_word_eqI) (auto simp: bit_masked)

lemma bit_of_flag: "bit (of_flag b) i \<longleftrightarrow> b \<and> i = 0"
  by (auto simp: of_flag_def bit_1_iff)

lemma ring_step:
  assumes sz: "op_size sz" and p: "in_ring sz p" and i: "i \<le> 8 * sz"
  shows "in_ring sz (rcl_step sz p)" "ring_bit sz (rcl_step sz p) i \<longleftrightarrow> ring_bit sz p ((i + 8 * sz) mod (8 * sz + 1))"
    and "in_ring sz (rcr_step sz p)" "ring_bit sz (rcr_step sz p) i \<longleftrightarrow> ring_bit sz p ((i + 1) mod (8 * sz + 1))"
proof -
  obtain r c where rc: "p = (r, c)" by (cases p)
  have n: "8 * sz \<le> 64" "0 < 8 * sz" using sz by (auto simp: op_size_def)
  have r: "bit r j \<Longrightarrow> j < 8 * sz" for j using in_ring_bit [OF sz p] rc by simp
  have bwd: "(i + 8 * sz) mod (8 * sz + 1) = (if i = 0 then 8 * sz else i - 1)"
  proof (cases i)
    case (Suc j)
    then have "i + 8 * sz = j + (8 * sz + 1)" by simp
    then have "(i + 8 * sz) mod (8 * sz + 1) = j mod (8 * sz + 1)" by (simp only: mod_add_self2)
    with Suc i show ?thesis by simp
  qed simp
  have fwd: "(i + 1) mod (8 * sz + 1) = (if i = 8 * sz then 0 else i + 1)" using i by auto
  have L: "bit (fst (rcl_step sz p)) j \<longleftrightarrow> j < 8 * sz \<and> (if j = 0 then c else bit r (j - 1))" for j
  proof -
    have "bit (push_bit 1 r) j \<longleftrightarrow> 0 < j \<and> j < 64 \<and> bit r (j - 1)"
      using bit_push_bit_iff [of 1 r j] by auto
    then show ?thesis
      using n by (auto simp: rcl_step_def rc bit_masked [OF sz] bit_or_iff bit_of_flag simp del: push_bit_Suc)
  qed
  have R: "bit (fst (rcr_step sz p)) j \<longleftrightarrow> bit r (j + 1) \<or> c \<and> j = 8 * sz - 1" for j
    using n by (auto simp: rcr_step_def rc bit_or_iff bit_push_bit_iff bit_drop_bit_eq bit_of_flag mult.commute)
  show "in_ring sz (rcl_step sz p)" using L by (intro in_ringI [OF sz]) blast
  show "in_ring sz (rcr_step sz p)" using R r n by (intro in_ringI [OF sz]) fastforce
  have "snd (rcl_step sz p) = bit r (8 * sz - 1)" by (simp add: rcl_step_def rc sign_test [OF sz])
  then show "ring_bit sz (rcl_step sz p) i \<longleftrightarrow> ring_bit sz p ((i + 8 * sz) mod (8 * sz + 1))"
    using i n unfolding bwd by (auto simp: ring_bit_def L [unfolded rc] rc)
  have "snd (rcr_step sz p) = bit r 0" using low_bit_test [of 0 r] by (simp add: rcr_step_def rc)
  then show "ring_bit sz (rcr_step sz p) i \<longleftrightarrow> ring_bit sz p ((i + 1) mod (8 * sz + 1))"
    using i n r unfolding fwd by (auto simp: ring_bit_def R [unfolded rc] rc)
qed

lemma ring_steps:
  assumes sz: "op_size sz" and p: "in_ring sz p" and i: "i \<le> 8 * sz"
  shows "in_ring sz ((rcl_step sz ^^ k) p) \<and>
      (ring_bit sz ((rcl_step sz ^^ k) p) i \<longleftrightarrow> ring_bit sz p ((i + k * (8 * sz)) mod (8 * sz + 1)))"
    and "in_ring sz ((rcr_step sz ^^ k) p) \<and>
      (ring_bit sz ((rcr_step sz ^^ k) p) i \<longleftrightarrow> ring_bit sz p ((i + k) mod (8 * sz + 1)))"
proof -
  have less: "j mod (8 * sz + 1) \<le> 8 * sz" for j using mod_less_divisor [of "8 * sz + 1" j] by linarith
  show "in_ring sz ((rcl_step sz ^^ k) p) \<and>
      (ring_bit sz ((rcl_step sz ^^ k) p) i \<longleftrightarrow> ring_bit sz p ((i + k * (8 * sz)) mod (8 * sz + 1)))"
    using i
  proof (induction k arbitrary: i)
    case (Suc k)
    have "((i + 8 * sz) mod (8 * sz + 1) + k * (8 * sz)) mod (8 * sz + 1) = (i + Suc k * (8 * sz)) mod (8 * sz + 1)"
      by (simp only: mod_add_left_eq) (simp add: algebra_simps)
    then show ?case using ring_step(1,2) [OF sz _ Suc.prems] Suc.IH [OF less] by simp
  qed (use p in simp)
  show "in_ring sz ((rcr_step sz ^^ k) p) \<and>
      (ring_bit sz ((rcr_step sz ^^ k) p) i \<longleftrightarrow> ring_bit sz p ((i + k) mod (8 * sz + 1)))"
    using i
  proof (induction k arbitrary: i)
    case (Suc k)
    have "((i + 1) mod (8 * sz + 1) + k) mod (8 * sz + 1) = (i + Suc k) mod (8 * sz + 1)"
      by (simp only: mod_add_left_eq) simp
    then show ?case using ring_step(3,4) [OF sz _ Suc.prems] Suc.IH [OF less] by simp
  qed (use p in simp)
qed

lemma alu_rc_ring:
  assumes "op_size sz"
  shows "(fst (alu_shift Rcl v count sz s), cpu_flag CF (snd (alu_shift Rcl v count sz s))) =
      (rcl_step sz ^^ shift_amount count sz) (v AND alu_mask sz, cpu_flag CF s)"
    and "(fst (alu_shift Rcr v count sz s), cpu_flag CF (snd (alu_shift Rcr v count sz s))) =
      (rcr_step sz ^^ shift_amount count sz) (v AND alu_mask sz, cpu_flag CF s)"
proof -
  have p: "in_ring sz (v AND alu_mask sz, cpu_flag CF s)" by (simp add: in_ring_def ac_simps)
  show "(fst (alu_shift Rcl v count sz s), cpu_flag CF (snd (alu_shift Rcl v count sz s))) =
      (rcl_step sz ^^ shift_amount count sz) (v AND alu_mask sz, cpu_flag CF s)"
    using ring_steps(1) [OF assms p, of 0 "shift_amount count sz"]
    by (auto simp: alu_shift_def Let_def shift_count_zero unat_shift_count flag_simps in_ring_def
        split: prod.split)
  show "(fst (alu_shift Rcr v count sz s), cpu_flag CF (snd (alu_shift Rcr v count sz s))) =
      (rcr_step sz ^^ shift_amount count sz) (v AND alu_mask sz, cpu_flag CF s)"
    using ring_steps(2) [OF assms p, of 0 "shift_amount count sz"]
    by (auto simp: alu_shift_def Let_def shift_count_zero unat_shift_count flag_simps in_ring_def
        split: prod.split)
qed

section \<open>Properties\<close>

text \<open>
  C15: The shifts compute, for every operand size: SHL multiplies by a power of two modulo the
  operand range, SHR divides the natural number and SAR the signed number rounding down; the
  carry is the last bit shifted out (none for a SHL by more than the operand width), ZF, SF and
  PF describe the result, and nothing but status flags changes. A count that is zero after the
  reduction to five or six bits changes nothing at all.
\<close>

theorem shift_exact:
  assumes sz: "op_size sz" and k: "k = shift_amount count sz"
  shows "(k = 0 \<longrightarrow> alu_shift kind v count sz s = (v AND alu_mask sz, s)) \<and>
    (k \<noteq> 0 \<longrightarrow> (case alu_shift Shl v count sz s of (r, t) \<Rightarrow>
        unat r = uval sz v * 2 ^ k mod 2 ^ (8 * sz) \<and>
        (cpu_flag CF t \<longleftrightarrow> k \<le> 8 * sz \<and> odd (uval sz v div 2 ^ (8 * sz - k))) \<and>
        result_flags sz r t \<and> only_status s t)) \<and>
    (k \<noteq> 0 \<longrightarrow> (case alu_shift Shr v count sz s of (r, t) \<Rightarrow>
        unat r = uval sz v div 2 ^ k \<and> (cpu_flag CF t \<longleftrightarrow> odd (uval sz v div 2 ^ (k - 1))) \<and>
        result_flags sz r t \<and> only_status s t)) \<and>
    (k \<noteq> 0 \<longrightarrow> (case alu_shift Sar v count sz s of (r, t) \<Rightarrow>
        sval sz r = sval sz v div 2 ^ k \<and> unat r = uval sz r \<and>
        (cpu_flag CF t \<longleftrightarrow> odd (sval sz v div 2 ^ (k - 1))) \<and>
        result_flags sz r t \<and> only_status s t))"
  using alu_shift_zero [of count sz kind v s] shl_facts [OF sz, of count v s] shr_facts [OF sz, of count v s]
    sar_facts [OF sz, of count v s]
  unfolding k by (auto split: prod.split)

theorem shift_exact_witness:
  "unat (fst (alu_shift Shl 0x81 1 1 cpu_state_new)) = 2 \<and>
   unat (fst (alu_shift Shr 0x81 1 1 cpu_state_new)) = 0x40"
  using shift_exact [of 1 1 1 Shl "0x81" cpu_state_new]
  by (simp add: op_size_def shift_amount_def case_prod_beta uval_def)

lemma rc_inverse:
  assumes "op_size sz" "in_ring sz p"
  shows "(rcr_step sz ^^ k) ((rcl_step sz ^^ k) p) = p"
proof (induction k)
  case (Suc k)
  have step: "rcr_step sz (rcl_step sz q) = q" if q: "in_ring sz q" for q
  proof (rule prod_eqI)
    note Q = ring_step(1,2) [OF assms(1) q] and R = ring_step(3,4) [OF assms(1) ring_step(1) [OF assms(1) q le0]]
    have ring: "ring_bit sz (rcr_step sz (rcl_step sz q)) i = ring_bit sz q i" if i: "i \<le> 8 * sz" for i
    proof -
      have le: "(i + 1) mod (8 * sz + 1) \<le> 8 * sz"
        using mod_less_divisor [of "8 * sz + 1" "i + 1"] by linarith
      have "((i + 1) mod (8 * sz + 1) + 8 * sz) mod (8 * sz + 1) = (i + 1 + 8 * sz) mod (8 * sz + 1)"
        by (rule mod_add_left_eq)
      also have "i + 1 + 8 * sz = i + (8 * sz + 1)" by simp
      also have "\<dots> mod (8 * sz + 1) = i" using i by (simp only: mod_add_self2) simp
      finally show ?thesis using R(2) [OF i] Q(2) [OF le] by simp
    qed
    show "snd (rcr_step sz (rcl_step sz q)) = snd q" using ring [of "8 * sz"] by (simp add: ring_bit_def)
    show "fst (rcr_step sz (rcl_step sz q)) = fst q"
    proof (rule bit_word_eqI)
      fix i
      show "bit (fst (rcr_step sz (rcl_step sz q))) i = bit (fst q) i"
        using ring [of i] in_ring_bit [OF assms(1) R(1) [OF le0]] in_ring_bit [OF assms(1) q]
        by (cases "i < 8 * sz") (auto simp: ring_bit_def)
    qed
  qed
  have "in_ring sz ((rcl_step sz ^^ k) p)" using ring_steps(1) [OF assms le0] by blast
  note here = step [OF this]
  have "(rcr_step sz ^^ Suc k) ((rcl_step sz ^^ Suc k) p) =
      (rcr_step sz ^^ k) (rcr_step sz (rcl_step sz ((rcl_step sz ^^ k) p)))"
    by (simp only: funpow_Suc_right [where f = "rcr_step sz"] funpow.simps(2) [where f = "rcl_step sz"] o_apply)
  then show ?case by (simp only: here Suc)
qed simp

lemma rotate_flags:
  assumes "kind \<in> {Rol, Ror, Rcl, Rcr}"
  shows "case alu_shift kind v count sz s of (r, u) \<Rightarrow>
      cpu_flag ZF u = cpu_flag ZF s \<and> cpu_flag SF u = cpu_flag SF s \<and>
      cpu_flag PF u = cpu_flag PF s \<and> cpu_flag AF u = cpu_flag AF s"
proof -
  have "kind = Rol \<or> kind = Ror \<or> kind = Rcl \<or> kind = Rcr" using assms by simp
  then show ?thesis
    unfolding alu_shift_def Let_def
    by (elim disjE; simp only: shift_kind.case case_prod_beta prod.case if_distrib flag_simps fst_conv snd_conv)
      (simp_all add: flag_simps)
qed

text \<open>
  C16: ROL and ROR rotate the operand bit by bit by the count modulo its width, each undoes the
  other, and RCL and RCR rotate the operand together with the carry, one bit more than the
  operand; an RCR of the same count gives the operand and the carry back that RCL was given.
  A rotate by one or more leaves ZF, SF, PF and AF alone.
\<close>

theorem rotate_exact:
  assumes sz: "op_size sz" and k: "k = shift_amount count sz"
  shows "(\<forall>i < 8 * sz.
      (bit (fst (alu_shift Rol v count sz s)) i \<longleftrightarrow> bit v ((i + 8 * sz - k mod (8 * sz)) mod (8 * sz))) \<and>
      (bit (fst (alu_shift Ror v count sz s)) i \<longleftrightarrow> bit v ((i + k mod (8 * sz)) mod (8 * sz)))) \<and>
    fst (alu_shift Ror (fst (alu_shift Rol v count sz s)) count sz t) = v AND alu_mask sz \<and>
    fst (alu_shift Rol (fst (alu_shift Ror v count sz s)) count sz t) = v AND alu_mask sz \<and>
    (case alu_shift Rcl v count sz s of (r, u) \<Rightarrow>
      (\<forall>i \<le> 8 * sz. ring_bit sz (r, cpu_flag CF u) i \<longleftrightarrow>
        ring_bit sz (v AND alu_mask sz, cpu_flag CF s) ((i + k * (8 * sz)) mod (8 * sz + 1))) \<and>
      (case alu_shift Rcr r count sz u of (v', s') \<Rightarrow>
        v' = v AND alu_mask sz \<and> cpu_flag CF s' = cpu_flag CF s)) \<and>
    (\<forall>kind \<in> {Rol, Ror, Rcl, Rcr}. case alu_shift kind v count sz s of (r, u) \<Rightarrow>
      cpu_flag ZF u = cpu_flag ZF s \<and> cpu_flag SF u = cpu_flag SF s \<and>
      cpu_flag PF u = cpu_flag PF s \<and> cpu_flag AF u = cpu_flag AF s)"
proof -
  have p: "in_ring sz (v AND alu_mask sz, cpu_flag CF s)" by (simp add: in_ring_def ac_simps)
  obtain r u where ru: "alu_shift Rcl v count sz s = (r, u)" by fastforce
  have L: "(r, cpu_flag CF u) = (rcl_step sz ^^ k) (v AND alu_mask sz, cpu_flag CF s)"
    using alu_rc_ring(1) [OF sz, of v count s] ru k by simp
  have rm: "r AND alu_mask sz = r" using ring_steps(1) [OF sz p le0, of k] by (simp add: in_ring_def flip: L)
  have "(fst (alu_shift Rcr r count sz u), cpu_flag CF (snd (alu_shift Rcr r count sz u))) =
      (v AND alu_mask sz, cpu_flag CF s)"
    using alu_rc_ring(2) [OF sz, of r count u] rc_inverse [OF sz p, of k] by (simp add: rm L flip: k)
  moreover have "\<forall>i \<le> 8 * sz. ring_bit sz (r, cpu_flag CF u) i \<longleftrightarrow>
      ring_bit sz (v AND alu_mask sz, cpu_flag CF s) ((i + k * (8 * sz)) mod (8 * sz + 1))"
    using ring_steps(1) [OF sz p, of _ k] unfolding L by blast
  moreover note rotate_flags [where v = v and count = count and sz = sz and s = s] rotate_facts [OF sz, of _ v count s]
    rotate_inverse [OF sz, of v count s t]
  ultimately show ?thesis
    unfolding ru k prod.case by (simp only: case_prod_beta ball_simps prod.inject fst_conv snd_conv simp_thms) blast
qed

theorem rotate_exact_witness:
  "fst (alu_shift Ror (fst (alu_shift Rol 0x81 3 1 cpu_state_new)) 3 1 cpu_state_new) = 0x81"
proof -
  have "op_size 1" "shift_amount 3 1 = shift_amount 3 1" by (simp_all add: op_size_def)
  from rotate_exact [OF this, of "0x81" cpu_state_new cpu_state_new, THEN conjunct2, THEN conjunct1]
  show ?thesis by (simp only: alu_mask_def) simp
qed

end
