(* ===== verification/Exec_Arith.thy ===== *)
theory Exec_Arith
  imports Operands
begin


text \<open>
  \<open>cpu/src/exec.rs\<close>: the arms of \<open>execute_one\<close> that move data, those that transfer control, and the
  arithmetic groups.

  The arms that move data and the regular arithmetic: one
  definition per arm of the \<open>match\<close>, with the opcode as an argument where the arm covers a range.
  An arm that runs to its end is \<open>fall\<close>.
\<close>

definition fall_after :: "('m mach, unit) em \<Rightarrow> 'm arm" where
  "fall_after m = em_bind m (\<lambda>_. fall)"

definition size8_or :: "bool \<Rightarrow> ('m mach, nat) em" where
  \<comment> \<open>\<open>if opcode == .. { 1 } else { Self::opsize(&ctx) }\<close>\<close>
  "size8_or byte = (if byte then em_return 1 else opsize)"

definition op_reg :: "u8 \<Rightarrow> ('m mach, u8) em" where
  \<comment> \<open>\<open>(opcode & 7) | (ctx.pfx.b() << 3)\<close>\<close>
  "op_reg opcode = em_bind (ctx cx_pfx) (\<lambda>p. em_return ((opcode AND 7) OR push_bit 3 (px_b p)))"

section \<open>The regular arithmetic, opcodes below \<open>0x40\<close>\<close>

definition alu_regular :: "'m memory_ops \<Rightarrow> u8 \<Rightarrow> ('m mach, unit) em" where
  "alu_regular M opcode =
     (let op = drop_bit 3 opcode; form = opcode AND 7 in
      em_bind (size8_or (form mod 2 = 0 \<and> form \<noteq> 5)) (\<lambda>sz.
      if form = 0 \<or> form = 1 then
        em_bind (read_modrm M) (\<lambda>_.
        em_bind (read_reg_field sz) (\<lambda>b.
        em_bind (read_rm M sz) (\<lambda>a.
        em_bind (do_alu op a b sz) (\<lambda>r.
        em_when (op \<noteq> 7) (write_rm M sz r)))))
      else if form = 2 \<or> form = 3 then
        em_bind (read_modrm M) (\<lambda>_.
        em_bind (read_reg_field sz) (\<lambda>a.
        em_bind (read_rm M sz) (\<lambda>b.
        em_bind (do_alu op a b sz) (\<lambda>r.
        em_when (op \<noteq> 7) (write_reg_field sz r)))))
      else if form = 4 then
        em_bind (ctx_u8 M) (\<lambda>imm.
        em_bind (get_gpr 0 1) (\<lambda>a.
        em_bind (do_alu op a (ucast imm) 1) (\<lambda>r.
        em_when (op \<noteq> 7) (put_gpr 0 1 r))))
      else
        em_bind (imm_z M sz) (\<lambda>imm.
        em_bind (get_gpr 0 sz) (\<lambda>a.
        em_bind (do_alu op a imm sz) (\<lambda>r.
        em_when (op \<noteq> 7) (put_gpr 0 sz r))))))"

section \<open>Increments, pushes and pops\<close>

definition x_inc_dec :: "u8 \<Rightarrow> 'm arm" where
  "x_inc_dec opcode = fall_after (
     let r = opcode AND 7 in
     em_bind opsize (\<lambda>sz.
     em_bind (get_gpr r sz) (\<lambda>v.
     em_bind (run_cpu (if opcode < 0x48 then alu_inc v sz else alu_dec v sz)) (\<lambda>res.
     put_gpr r sz res))))"

definition x_push :: "'m memory_ops \<Rightarrow> u8 \<Rightarrow> 'm arm" where
  "x_push M opcode = fall_after (
     em_bind (op_reg opcode) (\<lambda>r. em_bind (cpu (reg_at r)) (\<lambda>v. push_stack M v)))"

definition x_pop :: "'m memory_ops \<Rightarrow> u8 \<Rightarrow> 'm arm" where
  "x_pop M opcode = fall_after (
     em_bind (op_reg opcode) (\<lambda>r.
     em_bind (pop_stack M) (\<lambda>v.
     em_bind (interp addr_mask) (\<lambda>am.
     upd_cpu (cpu_set_reg (ucast r) (v AND am))))))"

definition push_gpr :: "'m memory_ops \<Rightarrow> u8 \<Rightarrow> ('m mach, unit) em" where
  "push_gpr M r = em_bind (get_gpr r 4) (\<lambda>v. push_stack M v)"

definition pop_gpr :: "'m memory_ops \<Rightarrow> u8 \<Rightarrow> ('m mach, unit) em" where
  "pop_gpr M r = em_bind (pop_stack M) (\<lambda>v. put_gpr r 4 v)"

definition x_pusha :: "'m memory_ops \<Rightarrow> 'm arm" where
  "x_pusha M = fall_after (
     em_bind (cpu cpu_rsp) (\<lambda>esp.
     em_bind (em_each [0, 1, 2, 3] (push_gpr M)) (\<lambda>_.
     em_bind (push_stack M esp) (\<lambda>_.
     em_each [5, 6, 7] (push_gpr M)))))"

definition x_popa :: "'m memory_ops \<Rightarrow> 'm arm" where
  "x_popa M = fall_after (
     em_bind (em_each [7, 6, 5] (pop_gpr M)) (\<lambda>_.
     em_bind (pop_stack M) (\<lambda>esp.
     em_each [3, 2, 1, 0] (pop_gpr M))))"

definition x_push_imm :: "'m memory_ops \<Rightarrow> u8 \<Rightarrow> 'm arm" where
  "x_push_imm M opcode = fall_after (
     if opcode = 0x68
     then em_bind (ctx_u32 M) (\<lambda>v. push_stack M (sext (ucast v) 4))
     else em_bind (ctx_u8 M) (\<lambda>v. push_stack M (sext (ucast v) 1)))"

section \<open>Moves\<close>

definition x_movsxd :: "'m memory_ops \<Rightarrow> 'm arm" where
  "x_movsxd M = fall_after (
     em_bind (read_modrm M) (\<lambda>_.
     em_bind (read_rm M 4) (\<lambda>v.
     em_bind opsize (\<lambda>sz.
     write_reg_field sz (sext v 4 AND alu_mask sz)))))"

definition x_test :: "'m memory_ops \<Rightarrow> u8 \<Rightarrow> 'm arm" where
  "x_test M opcode = fall_after (
     em_bind (read_modrm M) (\<lambda>_.
     em_bind (size8_or (opcode = 0x84)) (\<lambda>sz.
     em_bind (read_rm M sz) (\<lambda>a.
     em_bind (read_reg_field sz) (\<lambda>b.
     em_bind (run_cpu (alu_logic (a AND b) sz)) (\<lambda>_. em_return ()))))))"

definition x_xchg :: "'m memory_ops \<Rightarrow> u8 \<Rightarrow> 'm arm" where
  "x_xchg M opcode = fall_after (
     em_bind (read_modrm M) (\<lambda>_.
     em_bind (size8_or (opcode = 0x86)) (\<lambda>sz.
     em_bind (read_rm M sz) (\<lambda>a.
     em_bind (read_reg_field sz) (\<lambda>b.
     em_bind (write_rm M sz b) (\<lambda>_.
     write_reg_field sz a))))))"

definition x_mov_store :: "'m memory_ops \<Rightarrow> u8 \<Rightarrow> 'm arm" where
  "x_mov_store M opcode = fall_after (
     em_bind (read_modrm M) (\<lambda>_.
     em_bind (size8_or (opcode = 0x88)) (\<lambda>sz.
     em_bind (read_reg_field sz) (\<lambda>v. write_rm M sz v))))"

definition x_mov_load :: "'m memory_ops \<Rightarrow> u8 \<Rightarrow> 'm arm" where
  "x_mov_load M opcode = fall_after (
     em_bind (read_modrm M) (\<lambda>_.
     em_bind (size8_or (opcode = 0x8A)) (\<lambda>sz.
     em_bind (read_rm M sz) (\<lambda>v. write_reg_field sz v))))"

definition x_mov_from_seg :: "'m memory_ops \<Rightarrow> 'm arm" where
  "x_mov_from_seg M = fall_after (
     em_bind (read_modrm M) (\<lambda>_.
     em_bind (ctx cx_reg) (\<lambda>r.
     em_bind (interp (segment_selector (r AND 7))) (\<lambda>sel.
     write_rm M 2 (ucast sel)))))"

definition x_mov_to_seg :: "'m memory_ops \<Rightarrow> 'm arm" where
  "x_mov_to_seg M = fall_after (
     em_bind (read_modrm M) (\<lambda>_. em_bind (read_rm M 2) (\<lambda>selector. em_return ())))"

definition x_lea :: "'m memory_ops \<Rightarrow> 'm arm" where
  "x_lea M = fall_after (
     em_bind (read_modrm M) (\<lambda>_.
     em_bind opsize (\<lambda>sz.
     em_bind rm_addr (\<lambda>addr. write_reg_field sz addr))))"

definition x_pop_rm :: "'m memory_ops \<Rightarrow> 'm arm" where
  "x_pop_rm M = fall_after (
     em_bind (read_modrm M) (\<lambda>_.
     em_bind (pop_stack M) (\<lambda>v.
     em_bind (interp stack_width) (\<lambda>w. write_rm M w v))))"

definition x_xchg_acc :: "u8 \<Rightarrow> 'm arm" where
  "x_xchg_acc opcode = fall_after (
     em_bind (op_reg opcode) (\<lambda>r.
     em_when (r \<noteq> 0) (
       em_bind opsize (\<lambda>sz.
       em_bind (get_gpr 0 sz) (\<lambda>a.
       em_bind (get_gpr r sz) (\<lambda>b.
       em_bind (put_gpr 0 sz b) (\<lambda>_.
       put_gpr r sz a)))))))"

definition x_convert :: "'m arm" where
  \<comment> \<open>\<open>0x98\<close>: CBW, CWDE, CDQE\<close>
  "x_convert = fall_after (
     em_bind (ctx cx_pfx) (\<lambda>p.
     if px_w p then em_bind (get_gpr 0 4) (\<lambda>v. upd_cpu (cpu_set_reg Rax (sext v 4)))
     else if px_p66 p then em_bind (get_gpr 0 1) (\<lambda>v. put_gpr 0 2 (sext v 1))
     else em_bind (get_gpr 0 2) (\<lambda>v. put_gpr 0 4 (sext v 2))))"

definition x_cwd :: "'m arm" where
  "x_cwd = fall_after (
     em_bind opsize (\<lambda>sz.
     em_bind (get_gpr 0 sz) (\<lambda>a.
     put_gpr 2 sz (if a AND sign_bit sz \<noteq> 0 then alu_mask sz else 0))))"

definition FLAGS_WRITABLE :: u64 where "FLAGS_WRITABLE = 0xFCFFD5"

definition x_pushf :: "'m memory_ops \<Rightarrow> 'm arm" where
  "x_pushf M = fall_after (em_bind (cpu cpu_rflags) (\<lambda>v. push_stack M v))"

definition x_popf :: "'m memory_ops \<Rightarrow> 'm arm" where
  "x_popf M = fall_after (
     em_bind (pop_stack M) (\<lambda>v.
     upd_cpu (\<lambda>c. c\<lparr>cpu_rflags := (v AND FLAGS_WRITABLE) OR RESERVED_ONE\<rparr>)))"

definition x_test_acc :: "'m memory_ops \<Rightarrow> u8 \<Rightarrow> 'm arm" where
  "x_test_acc M opcode = fall_after (
     if opcode = 0xA8 then
       em_bind (ctx_u8 M) (\<lambda>imm.
       em_bind (get_gpr 0 1) (\<lambda>a.
       em_bind (run_cpu (alu_logic (a AND ucast imm) 1)) (\<lambda>_. em_return ())))
     else
       em_bind opsize (\<lambda>sz.
       em_bind (imm_z M sz) (\<lambda>imm.
       em_bind (get_gpr 0 sz) (\<lambda>a.
       em_bind (run_cpu (alu_logic (a AND imm) sz)) (\<lambda>_. em_return ())))))"

definition x_moffs :: "'m memory_ops \<Rightarrow> u8 \<Rightarrow> 'm arm" where
  "x_moffs M opcode = fall_after (
     em_bind (ctx cx_bits) (\<lambda>b.
     em_bind (if b = B64 then ctx_u64 M else em_bind (ctx_u32 M) (\<lambda>v. em_return (ucast v))) (\<lambda>a.
     em_bind (ctx (\<lambda>c. c)) (\<lambda>c.
     em_bind (interp (\<lambda>it. (a + seg_base c (it_state it)) AND addr_mask it)) (\<lambda>addr.
     em_bind (size8_or (opcode AND 1 = 0)) (\<lambda>sz.
     if opcode = 0xA0 \<or> opcode = 0xA1 then
       em_bind (mem_do (mo_read_uint M addr sz)) (\<lambda>v. put_gpr 0 sz v)
     else
       em_bind (get_gpr 0 sz) (\<lambda>v. mem_do (mo_write_uint M addr sz v))))))))"

definition x_mov_imm8 :: "'m memory_ops \<Rightarrow> u8 \<Rightarrow> 'm arm" where
  "x_mov_imm8 M opcode = fall_after (
     em_bind (op_reg opcode) (\<lambda>r.
     em_bind (ctx_u8 M) (\<lambda>imm.
     em_bind (ctx cx_pfx) (\<lambda>p.
     upd_cpu (write_gpr_of r 1 (px_has_rex p) (ucast imm))))))"

definition x_mov_imm :: "'m memory_ops \<Rightarrow> u8 \<Rightarrow> 'm arm" where
  "x_mov_imm M opcode = fall_after (
     em_bind (op_reg opcode) (\<lambda>r.
     em_bind (ctx cx_pfx) (\<lambda>p.
     if px_w p then em_bind (ctx_u64 M) (\<lambda>imm. upd_cpu (cpu_set_reg (ucast r) imm))
     else if px_p66 p then em_bind (ctx_u16 M) (\<lambda>imm. put_gpr r 2 (ucast imm))
     else em_bind (ctx_u32 M) (\<lambda>imm. put_gpr r 4 (ucast imm)))))"

definition x_mov_rm_imm :: "'m memory_ops \<Rightarrow> u8 \<Rightarrow> 'm arm" where
  "x_mov_rm_imm M opcode = fall_after (
     em_bind (read_modrm M) (\<lambda>_.
     if opcode = 0xC6 then em_bind (ctx_u8 M) (\<lambda>imm. write_rm M 1 (ucast imm))
     else em_bind opsize (\<lambda>sz. em_bind (imm_z M sz) (\<lambda>imm. write_rm M sz imm))))"

definition x_leave :: "'m memory_ops \<Rightarrow> 'm arm" where
  "x_leave M = fall_after (
     em_bind (cpu (cpu_reg Rbp)) (\<lambda>bp.
     em_bind (upd_cpu (cpu_set_rsp bp)) (\<lambda>_.
     em_bind (pop_stack M) (\<lambda>v.
     upd_cpu (cpu_set_reg Rbp v)))))"

definition x_flag :: "u8 \<Rightarrow> 'm arm" where
  "x_flag opcode = fall_after (
     if opcode = 0xF8 then put_flag CF False else if opcode = 0xF9 then put_flag CF True
     else if opcode = 0xFA then put_flag IF False else if opcode = 0xFB then put_flag IF True
     else if opcode = 0xFC then put_flag DF False else put_flag DF True)"

text \<open>
  \<open>cpu/src/exec.rs\<close>, the arms of \<open>execute_one\<close> that transfer control: branches, calls, returns,
  loops, interrupts, far jumps, and the unary groups \<open>0xFE\<close> and \<open>0xFF\<close>. An arm that sets
  \<open>rip\<close> itself leaves with \<open>Exit::Continue\<close>.
\<close>

definition jump_to :: "u64 \<Rightarrow> 'm arm" where
  \<comment> \<open>\<open>self.state.rip = target & self.addr_mask(); return Ok(Exit::Continue)\<close>\<close>
  "jump_to target = em_bind (interp addr_mask) (\<lambda>am.
     em_bind (set_rip (target AND am)) (\<lambda>_. leave Continue))"

definition x_jcc :: "'m memory_ops \<Rightarrow> u8 \<Rightarrow> 'm arm" where
  "x_jcc M opcode =
     em_bind (ctx_u8 M) (\<lambda>rel.
     em_bind (cpu (cond_of (opcode AND 0xF))) (\<lambda>taken.
     em_bind (ctx cx_cur) (\<lambda>cur.
     jump_to (if taken then cur + sx8 rel else cur))))"

definition x_ret_imm :: "'m memory_ops \<Rightarrow> 'm arm" where
  "x_ret_imm M =
     em_bind (ctx_u16 M) (\<lambda>extra.
     em_bind (pop_stack M) (\<lambda>ret.
     em_bind (interp addr_mask) (\<lambda>am.
     em_bind (upd_cpu (\<lambda>c. cpu_set_rsp ((cpu_rsp c + ucast extra) AND am) c)) (\<lambda>_.
     em_bind (set_rip ret) (\<lambda>_. leave Continue)))))"

definition x_ret :: "'m memory_ops \<Rightarrow> 'm arm" where
  "x_ret M = em_bind (pop_stack M) (\<lambda>ret. em_bind (set_rip ret) (\<lambda>_. leave Continue))"

definition x_int :: "'m memory_ops \<Rightarrow> 'm arm" where
  "x_int M =
     em_bind (ctx_u8 M) (\<lambda>n.
     em_bind (ctx cx_cur) (\<lambda>cur.
     em_bind (set_rip cur) (\<lambda>_. leave (Interrupt n))))"

definition selector_bits :: "u64 \<Rightarrow> bits" where
  "selector_bits sel = (if sel AND 0xFFF8 = 0x30 then B64 else B32)"

definition iret_slot :: "'m memory_ops \<Rightarrow> bool \<Rightarrow> u64 \<Rightarrow> nat \<Rightarrow> ('m mach, u64) em" where
  "iret_slot M wide sp k =
     (if wide then mem_do (mem_read_u64 M (sp + of_nat (8 * k)))
      else em_bind (mem_do (mem_read_u32 M (sp + of_nat (4 * k)))) (\<lambda>v. em_return (ucast v)))"

definition x_iret :: "'m memory_ops \<Rightarrow> 'm arm" where
  "x_iret M =
     em_bind (cpu cpu_rsp) (\<lambda>sp.
     em_bind (ctx (\<lambda>c. px_w (cx_pfx c))) (\<lambda>wide.
     em_bind (iret_slot M wide sp 0) (\<lambda>rip.
     em_bind (iret_slot M wide sp 1) (\<lambda>cs.
     em_bind (iret_slot M wide sp 2) (\<lambda>rflags.
     em_bind (iret_slot M wide sp 3) (\<lambda>new_rsp.
     em_bind (upd_interp (\<lambda>it. it\<lparr>it_bits := selector_bits cs\<rparr>)) (\<lambda>_.
     em_bind (upd_cpu (\<lambda>c. c\<lparr>cpu_rflags := (rflags AND FLAGS_WRITABLE) OR RESERVED_ONE\<rparr>)) (\<lambda>_.
     em_bind (interp addr_mask) (\<lambda>am.
     em_bind (upd_cpu (cpu_set_rsp (new_rsp AND am))) (\<lambda>_.
     jump_to rip))))))))))"

definition loop_taken :: "u8 \<Rightarrow> nat \<Rightarrow> ('m mach, bool) em" where
  "loop_taken opcode csize =
     (if opcode = 0xE3 then em_bind (get_gpr 1 csize) (\<lambda>c. em_return (c = 0))
      else
        em_bind (get_gpr 1 csize) (\<lambda>c0.
          let c = (c0 - 1) AND alu_mask csize in
        em_bind (put_gpr 1 csize c) (\<lambda>_.
        em_bind (cpu (cpu_flag ZF)) (\<lambda>zf.
        em_return
          (if opcode = 0xE0 then c \<noteq> 0 \<and> \<not> zf
           else if opcode = 0xE1 then c \<noteq> 0 \<and> zf else c \<noteq> 0)))))"

definition x_loop :: "'m memory_ops \<Rightarrow> u8 \<Rightarrow> 'm arm" where
  "x_loop M opcode =
     em_bind (ctx_u8 M) (\<lambda>rel.
     em_bind (ctx (\<lambda>c. c)) (\<lambda>c.
     em_bind (loop_taken opcode (if cx_bits c = B64 then 8 else 4)) (\<lambda>taken.
     jump_to (if taken then cx_cur c + sx8 rel else cx_cur c))))"

definition x_call :: "'m memory_ops \<Rightarrow> 'm arm" where
  "x_call M =
     em_bind (ctx_u32 M) (\<lambda>rel.
     em_bind (ctx cx_cur) (\<lambda>ret.
     em_bind (push_stack M ret) (\<lambda>_.
     jump_to (ret + sx32 rel))))"

definition x_jmp :: "'m memory_ops \<Rightarrow> u8 \<Rightarrow> 'm arm" where
  "x_jmp M opcode =
     em_bind (if opcode = 0xE9 then em_bind (ctx_u32 M) (\<lambda>v. em_return (sx32 v))
              else em_bind (ctx_u8 M) (\<lambda>v. em_return (sx8 v))) (\<lambda>rel.
     em_bind (ctx cx_cur) (\<lambda>cur. jump_to (cur + rel)))"

section \<open>Group 4 and group 5\<close>

definition inc_dec_rm :: "'m memory_ops \<Rightarrow> bool \<Rightarrow> nat \<Rightarrow> 'm arm" where
  "inc_dec_rm M up sz = fall_after (
     em_bind (read_rm M sz) (\<lambda>v.
     em_bind (run_cpu (if up then alu_inc v sz else alu_dec v sz)) (\<lambda>r.
     write_rm M sz r)))"

definition x_group4 :: "'m memory_ops \<Rightarrow> 'm arm" where
  "x_group4 M =
     em_bind (read_modrm M) (\<lambda>_.
     em_bind (ctx cx_reg) (\<lambda>reg. inc_dec_rm M (reg AND 7 = 0) 1))"

definition far_jump :: "'m memory_ops \<Rightarrow> nat \<Rightarrow> u64 \<Rightarrow> 'm arm" where
  "far_jump M sz start =
     em_bind (ctx (\<lambda>c. c)) (\<lambda>c.
     case cx_rm c of
       RmReg i \<Rightarrow> em_fail (Unsupported (''far JMP with register operand at '' @ fmt_hex (unat start)))
     | RmMem b d r \<Rightarrow>
         let addr = rm_addr_of c in
         em_bind (if sz = 8 then mem_do (mem_read_u64 M addr)
                  else em_bind (mem_do (mem_read_u32 M addr)) (\<lambda>v. em_return (ucast v))) (\<lambda>offset.
         em_bind (mem_do (mem_read_u16 M (addr + of_nat sz))) (\<lambda>selector.
         em_bind (upd_interp (\<lambda>it. it\<lparr>it_bits := selector_bits (ucast selector)\<rparr>)) (\<lambda>_.
         jump_to offset))))"

definition x_group5 :: "'m memory_ops \<Rightarrow> u64 \<Rightarrow> 'm arm" where
  "x_group5 M start =
     em_bind (read_modrm M) (\<lambda>_.
     em_bind opsize (\<lambda>sz.
     em_bind (ctx (\<lambda>c. c)) (\<lambda>c.
     em_bind (interp stack_width) (\<lambda>w.
       let d = cx_reg c AND 7 in
       if d = 0 then inc_dec_rm M True sz
       else if d = 1 then inc_dec_rm M False sz
       else if d = 2 then
         em_bind (read_rm M w) (\<lambda>target.
         em_bind (push_stack M (cx_cur c)) (\<lambda>_. jump_to target))
       else if d = 4 then em_bind (read_rm M w) (\<lambda>target. jump_to target)
       else if d = 5 then far_jump M sz start
       else if d = 6 then fall_after (em_bind (read_rm M w) (\<lambda>v. push_stack M v))
       else em_fail (Unsupported (''group5 /'' @ fmt_dec (unat d) @ '' at '' @ fmt_hex (unat start)))))))"

text \<open>
  \<open>cpu/src/exec.rs\<close>: group 1, shifts, multiplication and division. The 128-bit products and
  quotients are the source's \<open>i128\<close> and \<open>u128\<close>: words of 128 bits, with the signed reading
  where the source has one. A division that Rust refuses (the most negative number by \<open>-1\<close>) is
  a panic.
\<close>

definition imul_trunc_of :: "u64 \<Rightarrow> u64 \<Rightarrow> nat \<Rightarrow> cpu_state \<Rightarrow> u64 \<times> cpu_state" where
  "imul_trunc_of a b sz s =
     (let prod = (scast (sext a sz) :: u128) * scast (sext b sz);
          res = ucast prod AND alu_mask sz;
          overflow = (scast (sext res sz) \<noteq> prod)
      in (res, set_flag OF overflow (set_flag CF overflow s)))"

definition imul_trunc :: "u64 \<Rightarrow> u64 \<Rightarrow> nat \<Rightarrow> ('m mach, u64) em" where
  "imul_trunc a b sz = run_cpu (imul_trunc_of a b sz)"

definition x_imul_imm :: "'m memory_ops \<Rightarrow> u8 \<Rightarrow> 'm arm" where
  "x_imul_imm M opcode = fall_after (
     em_bind (read_modrm M) (\<lambda>_.
     em_bind opsize (\<lambda>sz.
     em_bind (if opcode = 0x6B then em_bind (ctx_u8 M) (\<lambda>v. em_return (sext (ucast v) 1))
              else imm_z M sz) (\<lambda>imm.
     em_bind (read_rm M sz) (\<lambda>src.
     em_bind (imul_trunc src imm sz) (\<lambda>r.
     write_reg_field sz r))))))"

definition x_group1 :: "'m memory_ops \<Rightarrow> u8 \<Rightarrow> 'm arm" where
  "x_group1 M opcode = fall_after (
     em_bind (read_modrm M) (\<lambda>_.
     em_bind (size8_or (opcode = 0x80)) (\<lambda>sz.
     em_bind (ctx cx_reg) (\<lambda>reg.
       let op = reg AND 7 in
     em_bind (if opcode = 0x80 then em_bind (ctx_u8 M) (\<lambda>v. em_return (ucast v))
              else if opcode = 0x81 then imm_z M sz
              else em_bind (ctx_u8 M) (\<lambda>v. em_return (sext (ucast v) 1 AND alu_mask sz))) (\<lambda>imm.
     em_bind (read_rm M sz) (\<lambda>a.
     em_bind (do_alu op a imm sz) (\<lambda>r.
     em_when (op \<noteq> 7) (write_rm M sz r))))))))"

definition x_shift :: "'m memory_ops \<Rightarrow> u8 \<Rightarrow> 'm arm" where
  "x_shift M opcode = fall_after (
     em_bind (read_modrm M) (\<lambda>_.
     em_bind (size8_or (opcode AND 1 = 0)) (\<lambda>sz.
     em_bind (ctx cx_reg) (\<lambda>reg.
     em_bind (if opcode = 0xC0 \<or> opcode = 0xC1 then em_bind (ctx_u8 M) (\<lambda>v. em_return (ucast v))
              else if opcode = 0xD0 \<or> opcode = 0xD1 then em_return 1
              else get_gpr 1 1) (\<lambda>count.
     em_bind (read_rm M sz) (\<lambda>v.
     em_bind (run_cpu (alu_shift (shift_from_reg reg) v count sz)) (\<lambda>r.
     write_rm M sz r)))))))"

section \<open>Multiplication\<close>

definition mul_parts :: "u64 \<Rightarrow> u64 \<Rightarrow> nat \<Rightarrow> bool \<Rightarrow> u64 \<times> u64 \<times> bool" where
  \<comment> \<open>\<open>(lo, hi, flag)\<close>\<close>
  "mul_parts a src sz sg =
     (if sg then
        let prod = (scast (sext a sz) :: u128) * scast (sext src sz);
            lo = ucast prod AND alu_mask sz;
            hi = ucast (signed_drop_bit (sz * 8) prod) AND alu_mask sz
        in (lo, hi, scast (sext lo sz) \<noteq> prod)
      else
        let prod = (ucast a :: u128) * ucast src;
            lo = ucast prod AND alu_mask sz;
            hi = ucast (drop_bit (sz * 8) prod) AND alu_mask sz
        in (lo, hi, hi \<noteq> 0))"

definition mul_op :: "'m memory_ops \<Rightarrow> nat \<Rightarrow> bool \<Rightarrow> ('m mach, unit) em" where
  "mul_op M sz sg =
     em_bind (read_rm M sz) (\<lambda>src.
     em_bind (get_gpr 0 sz) (\<lambda>a.
     case mul_parts a src sz sg of (lo, hi, flag) \<Rightarrow>
     em_bind (if sz = 1 then put_gpr 0 2 (lo OR push_bit 8 hi)
              else em_bind (put_gpr 0 sz lo) (\<lambda>_. put_gpr 2 sz hi)) (\<lambda>_.
     em_bind (put_flag CF flag) (\<lambda>_.
     put_flag OF flag))))"

section \<open>Division\<close>

definition sdiv_words :: "'a::len word \<Rightarrow> 'a word \<Rightarrow> ('a word \<times> 'a word) option" where
  \<comment> \<open>\<open>(n / d, n % d)\<close> of a signed type, rounding to zero; \<open>None\<close> where Rust panics\<close>
  "sdiv_words n d =
     (let i = sint n; j = sint d in
      if j = 0 \<or> (j = - 1 \<and> i = - (2 ^ (LENGTH('a) - 1))) then None
      else Some (word_of_int (sgn i * sgn j * (\<bar>i\<bar> div \<bar>j\<bar>)), word_of_int (sgn i * (\<bar>i\<bar> mod \<bar>j\<bar>))))"

definition div8 :: "u64 \<Rightarrow> u64 \<Rightarrow> bool \<Rightarrow> (u16 \<times> u16) option" where
  \<comment> \<open>the 8-bit division: quotient and remainder as \<open>i16\<close>\<close>
  "div8 num divisor sg =
     (if sg then sdiv_words (ucast num :: u16) (scast (ucast divisor :: u8))
      else let d = divisor AND 0xff in
           if d = 0 then None else Some (ucast (num div d), ucast (num mod d)))"

definition div_wide :: "u64 \<Rightarrow> u64 \<Rightarrow> u64 \<Rightarrow> nat \<Rightarrow> bool \<Rightarrow> (u128 \<times> u128) option" where
  "div_wide hi lo divisor sz sg =
     (let bits = sz * 8 in
      if sg then
        let num0 = push_bit bits (ucast hi) OR (ucast lo AND ucast (alu_mask sz)) :: u128;
            num = signed_drop_bit (128 - 2 * bits) (push_bit (128 - 2 * bits) num0)
        in sdiv_words num (scast (sext divisor sz))
      else
        let num = push_bit bits (ucast hi) OR ucast lo; d = ucast divisor
        in Some (num div d, num mod d))"

definition div_op :: "'m memory_ops \<Rightarrow> nat \<Rightarrow> bool \<Rightarrow> 'm arm" where
  "div_op M sz sg =
     em_bind (read_rm M sz) (\<lambda>divisor.
     if divisor = 0 then leave (Interrupt 0)
     else if sz = 1 then
       em_bind (get_gpr 0 2) (\<lambda>num.
       case div8 num divisor sg of
         None \<Rightarrow> em_panic ''attempt to divide with overflow''
       | Some (q, r) \<Rightarrow>
           if sg \<and> \<not> (- 128 \<le> sint q \<and> sint q \<le> 127) then leave (Interrupt 0)
           else em_bind (put_gpr 0 1 (scast q)) (\<lambda>_.
                em_bind (upd_cpu (gpr_write_high8 0 (scast r))) (\<lambda>_. fall)))
     else
       em_bind (get_gpr 0 sz) (\<lambda>lo.
       em_bind (get_gpr 2 sz) (\<lambda>hi.
       case div_wide hi lo divisor sz sg of
         None \<Rightarrow> em_panic ''attempt to divide with overflow''
       | Some (q, r) \<Rightarrow>
           em_bind (put_gpr 0 sz (ucast q)) (\<lambda>_.
           em_bind (put_gpr 2 sz (ucast r)) (\<lambda>_. fall)))))"

definition x_group3 :: "'m memory_ops \<Rightarrow> u8 \<Rightarrow> 'm arm" where
  "x_group3 M opcode =
     em_bind (read_modrm M) (\<lambda>_.
     em_bind (size8_or (opcode = 0xF6)) (\<lambda>sz.
     em_bind (ctx cx_reg) (\<lambda>reg.
       let d = reg AND 7 in
       if d = 0 \<or> d = 1 then fall_after (
         em_bind (if sz = 1 then em_bind (ctx_u8 M) (\<lambda>v. em_return (ucast v)) else imm_z M sz) (\<lambda>imm.
         em_bind (read_rm M sz) (\<lambda>a.
         em_bind (run_cpu (alu_logic (a AND imm) sz)) (\<lambda>_. em_return ()))))
       else if d = 2 then fall_after (em_bind (read_rm M sz) (\<lambda>v. write_rm M sz (NOT v)))
       else if d = 3 then fall_after (
         em_bind (read_rm M sz) (\<lambda>v.
         em_bind (run_cpu (alu_sub 0 v 0 sz)) (\<lambda>r. write_rm M sz r)))
       else if d = 4 then fall_after (mul_op M sz False)
       else if d = 5 then fall_after (mul_op M sz True)
       else if d = 6 then div_op M sz False
       else div_op M sz True)))"

end
