(* ===== verification/Exec_String.thy ===== *)
theory Exec_String
  imports Exec_Arith
begin

text \<open>
  \<open>cpu/src/exec.rs\<close>: the string instructions. STOS, MOVS and LODS run a fixed number of times
  and are recursions on it; SCAS and CMPS may stop early and run while \<open>RCX\<close> lasts, so they are
  functions on the machine state that terminate because every turn decreases \<open>RCX\<close>.
\<close>

section \<open>How the machine accessors change the registers\<close>

lemma get_laws:
  "cpu f s = (Inr (f (it_state (mc_it s))), s)"
  "interp g s = (Inr (g (mc_it s)), s)"
  "ctx h s = (Inr (h (mc_ctx s)), s)"
  by (simp_all add: cpu_def interp_def ctx_def em_apply)

lemma upd_laws:
  "upd_cpu f s = (Inr (), s\<lparr>mc_it := (mc_it s)\<lparr>it_state := f (it_state (mc_it s))\<rparr>\<rparr>)"
  "upd_interp g s = (Inr (), s\<lparr>mc_it := g (mc_it s)\<rparr>)"
  "upd_ctx h s = (Inr (), s\<lparr>mc_ctx := h (mc_ctx s)\<rparr>)"
  by (simp_all add: upd_cpu_def upd_interp_def upd_ctx_def em_apply)

lemma run_cpu_law:
  "run_cpu f s = (case f (it_state (mc_it s)) of (a, c) \<Rightarrow>
     (Inr a, s\<lparr>mc_it := (mc_it s)\<lparr>it_state := c\<rparr>\<rparr>))"
  by (simp add: run_cpu_def em_run_def case_prod_beta)

lemmas mach_laws [eval_simps] = get_laws upd_laws run_cpu_law mem_do_def

lemma set_flag_gpr [simp]: "cpu_gpr (set_flag m on s) = cpu_gpr s"
  by (simp add: set_flag_def)

lemma set_szp_gpr [simp]: "cpu_gpr (set_szp r sz s) = cpu_gpr s"
  by (simp add: set_szp_def Let_def)

lemma alu_sub_gpr [simp]: "cpu_gpr (snd (alu_sub a b c sz s)) = cpu_gpr s"
  by (simp add: alu_sub_def Let_def)

lemma alu_add_gpr [simp]: "cpu_gpr (snd (alu_add a b c sz s)) = cpu_gpr s"
  by (simp add: alu_add_def Let_def)

section \<open>Counted loops\<close>

definition string_step :: "nat \<Rightarrow> cpu_state \<Rightarrow> u64" where
  "string_step sz s = (if cpu_flag DF s then - of_nat sz else of_nat sz)"

definition string_count :: "('m mach, nat) em" where
  \<comment> \<open>\<open>if ctx.pfx.rep != 0 { RCX } else { 1 }\<close>\<close>
  "string_count = em_bind (ctx (\<lambda>c. px_rep (cx_pfx c))) (\<lambda>rep.
     if rep \<noteq> 0 then em_bind (cpu (cpu_reg Rcx)) (\<lambda>c. em_return (unat c)) else em_return 1)"

definition string_finish :: "('m mach, unit) em" where
  "string_finish = em_bind (ctx (\<lambda>c. px_rep (cx_pfx c))) (\<lambda>rep.
     em_when (rep \<noteq> 0) (upd_cpu (cpu_set_reg Rcx 0)))"

fun em_times :: "nat \<Rightarrow> ('s, unit) em \<Rightarrow> ('s, unit) em" where
  \<comment> \<open>\<open>while count > 0 { ..; count -= 1; }\<close>\<close>
  "em_times 0 m = em_return ()"
| "em_times (Suc n) m = em_bind m (\<lambda>_. em_times n m)"

definition stos_body :: "'m memory_ops \<Rightarrow> nat \<Rightarrow> u64 \<Rightarrow> u64 \<Rightarrow> ('m mach, unit) em" where
  "stos_body M sz stp v =
     em_bind (cpu (cpu_reg Rdi)) (\<lambda>di.
     em_bind (mem_do (mo_write_uint M di sz v)) (\<lambda>_.
     upd_cpu (cpu_set_reg Rdi (di + stp))))"

definition string_stos :: "'m memory_ops \<Rightarrow> nat \<Rightarrow> ('m mach, unit) em" where
  "string_stos M sz =
     em_bind (cpu (string_step sz)) (\<lambda>stp.
     em_bind (get_gpr 0 sz) (\<lambda>v.
     em_bind string_count (\<lambda>n.
     em_bind (em_times n (stos_body M sz stp v)) (\<lambda>_.
     string_finish))))"

definition movs_body :: "'m memory_ops \<Rightarrow> nat \<Rightarrow> u64 \<Rightarrow> ('m mach, unit) em" where
  "movs_body M sz stp =
     em_bind (cpu (cpu_reg Rsi)) (\<lambda>si.
     em_bind (cpu (cpu_reg Rdi)) (\<lambda>di.
     em_bind (mem_do (mo_read_uint M si sz)) (\<lambda>v.
     em_bind (mem_do (mo_write_uint M di sz v)) (\<lambda>_.
     em_bind (upd_cpu (cpu_set_reg Rsi (si + stp))) (\<lambda>_.
     upd_cpu (cpu_set_reg Rdi (di + stp)))))))"

definition string_movs :: "'m memory_ops \<Rightarrow> nat \<Rightarrow> ('m mach, unit) em" where
  "string_movs M sz =
     em_bind (cpu (string_step sz)) (\<lambda>stp.
     em_bind string_count (\<lambda>n.
     em_bind (em_times n (movs_body M sz stp)) (\<lambda>_.
     string_finish)))"

definition lods_body :: "'m memory_ops \<Rightarrow> nat \<Rightarrow> u64 \<Rightarrow> ('m mach, unit) em" where
  "lods_body M sz stp =
     em_bind (cpu (cpu_reg Rsi)) (\<lambda>si.
     em_bind (mem_do (mo_read_uint M si sz)) (\<lambda>v.
     em_bind (put_gpr 0 sz v) (\<lambda>_.
     em_bind (interp addr_mask) (\<lambda>am.
     upd_cpu (cpu_set_reg Rsi ((si + stp) AND am))))))"

definition string_lods :: "'m memory_ops \<Rightarrow> nat \<Rightarrow> ('m mach, unit) em" where
  "string_lods M sz =
     em_bind (cpu (string_step sz)) (\<lambda>stp.
     em_bind string_count (\<lambda>n.
     em_bind (em_times n (lods_body M sz stp)) (\<lambda>_.
     string_finish)))"

section \<open>Loops that may stop early\<close>

definition rep_string_break :: "u8 \<Rightarrow> 'm mach \<Rightarrow> bool \<times> 'm mach" where
  "rep_string_break rep s =
     (let it = mc_it s; st = it_state it;
          c = (cpu_reg Rcx st - 1) AND addr_mask it;
          zf = cpu_flag ZF st
      in (c = 0 \<or> rep = 0xF3 \<and> \<not> zf \<or> rep = 0xF2 \<and> zf,
          s\<lparr>mc_it := it\<lparr>it_state := cpu_set_reg Rcx c st\<rparr>\<rparr>))"

definition mach_rcx :: "'m mach \<Rightarrow> u64" where
  "mach_rcx s = cpu_reg Rcx (it_state (mc_it s))"

definition scas_body :: "'m memory_ops \<Rightarrow> nat \<Rightarrow> u64 \<Rightarrow> u64 \<Rightarrow> ('m mach, unit) em" where
  "scas_body M sz stp a =
     em_bind (cpu (cpu_reg Rdi)) (\<lambda>di.
     em_bind (mem_do (mo_read_uint M di sz)) (\<lambda>v.
     em_bind (run_cpu (alu_sub a v 0 sz)) (\<lambda>_.
     em_bind (interp addr_mask) (\<lambda>am.
     upd_cpu (cpu_set_reg Rdi ((di + stp) AND am))))))"

definition cmps_body :: "'m memory_ops \<Rightarrow> nat \<Rightarrow> u64 \<Rightarrow> ('m mach, unit) em" where
  "cmps_body M sz stp =
     em_bind (cpu (cpu_reg Rsi)) (\<lambda>si.
     em_bind (cpu (cpu_reg Rdi)) (\<lambda>di.
     em_bind (mem_do (mo_read_uint M si sz)) (\<lambda>a.
     em_bind (mem_do (mo_read_uint M di sz)) (\<lambda>b.
     em_bind (run_cpu (alu_sub a b 0 sz)) (\<lambda>_.
     em_bind (interp addr_mask) (\<lambda>am.
     em_bind (upd_cpu (cpu_set_reg Rsi ((si + stp) AND am))) (\<lambda>_.
     upd_cpu (cpu_set_reg Rdi ((di + stp) AND am)))))))))"

lemma keeps_rcx_set_reg: "r \<noteq> Rcx \<Longrightarrow> keeps (\<lambda>s. mach_rcx s = k) (upd_cpu (cpu_set_reg r v))"
  by (rule keepsI) (simp add: upd_laws cpu_set_reg_def mach_rcx_def cpu_reg_def)

lemma keeps_rcx_get:
  "keeps (\<lambda>s. mach_rcx s = k) (cpu f)" "keeps (\<lambda>s. mach_rcx s = k) (interp g)"
  "keeps (\<lambda>s. mach_rcx s = k) (mem_do h)" "keeps (\<lambda>s. mach_rcx s = k) (run_cpu (alu_sub a b c sz))"
  by (auto simp: keeps_def mach_laws mach_rcx_def cpu_reg_def split: prod.splits)
    (metis alu_sub_gpr snd_conv)

lemma keeps_rcx_body:
  "keeps (\<lambda>s. mach_rcx s = k) (scas_body M sz stp a)"
  "keeps (\<lambda>s. mach_rcx s = k) (cmps_body M sz stp)"
  unfolding scas_body_def cmps_body_def
  by (intro keeps_bind keeps_rcx_get keeps_rcx_set_reg; simp add: reg_defs)+

lemma rcx_decreases:
  assumes "rep_string_break rep t = (stop, u)" "mach_rcx t \<noteq> 0"
  shows "unat (mach_rcx u) < unat (mach_rcx t)"
proof -
  have u: "mach_rcx u = (mach_rcx t - 1) AND addr_mask (mc_it t)"
    using assms(1)
    by (auto simp: rep_string_break_def Let_def mach_rcx_def cpu_reg_def cpu_set_reg_def)
  have "(mach_rcx t - 1) AND addr_mask (mc_it t) \<le> mach_rcx t - 1" by (rule word_and_le2)
  moreover have "unat (mach_rcx t - 1) < unat (mach_rcx t)"
    using assms(2) by (simp add: unat_minus_one unat_gt_0)
  ultimately show ?thesis unfolding u by (simp add: word_le_unat)
qed

lemma loop_turn_decreases:
  assumes "keeps (\<lambda>s. mach_rcx s = mach_rcx s0) body" "(r, t) = body s0" "mach_rcx s0 \<noteq> 0"
    "(stop, u) = rep_string_break rep t"
  shows "unat (mach_rcx u) < unat (mach_rcx s0)"
proof -
  have "mach_rcx t = mach_rcx s0" using keepsD [OF assms(1), of s0] by (simp flip: assms(2))
  with rcx_decreases [OF assms(4) [symmetric]] assms(3) show ?thesis by simp
qed

function scas_loop ::
    "'m memory_ops \<Rightarrow> nat \<Rightarrow> u64 \<Rightarrow> u64 \<Rightarrow> u8 \<Rightarrow> 'm mach \<Rightarrow> (stop + unit) \<times> 'm mach" where
  "scas_loop M sz stp a rep s =
     (if rep \<noteq> 0 \<and> mach_rcx s = 0 then (Inr (), s)
      else case scas_body M sz stp a s of (r, t) \<Rightarrow>
        (case r of
           Inl x \<Rightarrow> (Inl x, t)
         | Inr _ \<Rightarrow>
             if rep = 0 then (Inr (), t)
             else case rep_string_break rep t of (stop, u) \<Rightarrow>
               if stop then (Inr (), u) else scas_loop M sz stp a rep u))"
  by pat_completeness auto

termination
  by (relation "measure (\<lambda>(M, sz, stp, a, rep, s). unat (mach_rcx s))")
    (auto intro: loop_turn_decreases [OF keeps_rcx_body(1)])

function cmps_loop ::
    "'m memory_ops \<Rightarrow> nat \<Rightarrow> u64 \<Rightarrow> u8 \<Rightarrow> 'm mach \<Rightarrow> (stop + unit) \<times> 'm mach" where
  "cmps_loop M sz stp rep s =
     (if rep \<noteq> 0 \<and> mach_rcx s = 0 then (Inr (), s)
      else case cmps_body M sz stp s of (r, t) \<Rightarrow>
        (case r of
           Inl x \<Rightarrow> (Inl x, t)
         | Inr _ \<Rightarrow>
             if rep = 0 then (Inr (), t)
             else case rep_string_break rep t of (stop, u) \<Rightarrow>
               if stop then (Inr (), u) else cmps_loop M sz stp rep u))"
  by pat_completeness auto

termination
  by (relation "measure (\<lambda>(M, sz, stp, rep, s). unat (mach_rcx s))")
    (auto intro: loop_turn_decreases [OF keeps_rcx_body(2)])

declare scas_loop.simps [simp del] cmps_loop.simps [simp del]

definition string_scas :: "'m memory_ops \<Rightarrow> nat \<Rightarrow> ('m mach, unit) em" where
  "string_scas M sz =
     em_bind (cpu (string_step sz)) (\<lambda>stp.
     em_bind (get_gpr 0 sz) (\<lambda>a.
     em_bind (ctx (\<lambda>c. px_rep (cx_pfx c))) (\<lambda>rep.
     scas_loop M sz stp a rep)))"

definition string_cmps :: "'m memory_ops \<Rightarrow> nat \<Rightarrow> ('m mach, unit) em" where
  "string_cmps M sz =
     em_bind (cpu (string_step sz)) (\<lambda>stp.
     em_bind (ctx (\<lambda>c. px_rep (cx_pfx c))) (\<lambda>rep.
     cmps_loop M sz stp rep))"

definition x_string :: "'m memory_ops \<Rightarrow> u8 \<Rightarrow> 'm arm" where
  "x_string M opcode =
     em_bind (size8_or (opcode AND 1 = 0)) (\<lambda>sz.
     fall_after (
       if opcode = 0xA4 \<or> opcode = 0xA5 then string_movs M sz
       else if opcode = 0xAA \<or> opcode = 0xAB then string_stos M sz
       else if opcode = 0xA6 \<or> opcode = 0xA7 then string_cmps M sz
       else if opcode = 0xAC \<or> opcode = 0xAD then string_lods M sz
       else string_scas M sz))"

end
