(* ===== verification/Exec_Xsave.thy ===== *)
theory Exec_Xsave
  imports Exec_String
begin

text \<open>
  \<open>cpu/src/exec.rs\<close>: saving and restoring the floating-point and vector state (FXSAVE, FXRSTOR,
  XSAVE, XRSTOR, LDMXCSR, STMXCSR). The 512-byte area is a list of bytes that is filled field by
  field as the source fills its array.
\<close>

definition abridged_ftw :: "u16 \<Rightarrow> u8" where
  "abridged_ftw full =
     fold (\<lambda>j out. if drop_bit (j * 2) full AND 3 \<noteq> 3 then out OR push_bit j 1 else out) [0..<8] 0"

definition full_tag :: "u128 \<Rightarrow> u16" where
  "full_tag v =
     (let exp = (ucast (drop_bit 64 v AND 0x7fff) :: u32); signif = (ucast v :: u64);
          integer_bit = (signif AND 0x8000000000000000 \<noteq> 0)
      in if exp = 0 \<and> signif = 0 then 1
         else if exp = 0x7fff \<or> exp = 0 \<and> signif \<noteq> 0 \<or> exp \<noteq> 0 \<and> \<not> integer_bit then 2
         else 0)"

definition put :: "nat \<Rightarrow> bytes \<Rightarrow> bytes \<Rightarrow> bytes" where
  \<comment> \<open>\<open>buf[off..off + data.len()].copy_from_slice(data)\<close>\<close>
  "put off data buf = blit buf off data"

definition xmm_count :: "interp \<Rightarrow> nat" where
  "xmm_count it = (case it_bits it of B64 \<Rightarrow> 16 | B32 \<Rightarrow> 8)"

definition put_st :: "x87 \<Rightarrow> nat \<Rightarrow> bytes \<Rightarrow> bytes" where
  "put_st x i = put (32 + i * 16) (take 10 (to_le 16 (fp_st x (x87_phys (of_nat i) x))))"

definition put_xmm :: "cpu_state \<Rightarrow> nat \<Rightarrow> bytes \<Rightarrow> bytes" where
  "put_xmm s i = put (160 + i * 16) (to_le 16 (cpu_xmm s (of_nat i)))"

definition put_pointers :: "x87 \<Rightarrow> bool \<Rightarrow> bytes \<Rightarrow> bytes" where
  "put_pointers x rexw buf =
     (if rexw then put 16 (to_le 8 (fp_fdp x)) (put 8 (to_le 8 (fp_fip x)) buf)
      else put 20 (to_le 2 (fp_fds x))
          (put 16 (to_le 4 (ucast (fp_fdp x) :: u32))
          (put 12 (to_le 2 (fp_fcs x))
          (put 8 (to_le 4 (ucast (fp_fip x) :: u32)) buf))))"

definition build_fxsave_area :: "bool \<Rightarrow> interp \<Rightarrow> bytes" where
  "build_fxsave_area rexw it =
     (let s = it_state it; x = cpu_x87 s;
          b1 = put 0 (to_le 2 (fp_cw x)) (replicate 512 0);
          b2 = put 2 (to_le 2 (fp_sw x)) b1;
          b3 = put 4 [abridged_ftw (fp_tw x)] b2;
          b4 = put 6 (to_le 2 (fp_fop x)) b3;
          b5 = put_pointers x rexw b4;
          b6 = put 24 (to_le 4 (it_mxcsr it)) b5;
          b7 = put 28 (to_le 4 MXCSR_MASK) b6;
          b8 = fold (put_st x) [0..<8] b7
      in fold (put_xmm s) [0..<xmm_count it] b8)"

definition u16_at :: "bytes \<Rightarrow> nat \<Rightarrow> u16" where
  "u16_at buf off = from_le [buf ! off, buf ! (off + 1)]"

definition u32_at :: "bytes \<Rightarrow> nat \<Rightarrow> u32" where
  "u32_at buf off = from_le (subslice buf off (off + 4))"

definition u64_at :: "bytes \<Rightarrow> nat \<Rightarrow> u64" where
  "u64_at buf off = from_le (subslice buf off (off + 8))"

definition restore_st :: "bytes \<Rightarrow> nat \<Rightarrow> x87 \<times> u16 \<Rightarrow> x87 \<times> u16" where
  "restore_st buf i = (\<lambda>(x, full_tw).
     (let off = 32 + i * 16;
          v = from_le (subslice buf off (off + 10)) AND (push_bit 80 1 - 1) :: u128;
          phys = x87_phys (of_nat i) x;
          tag = (if buf ! 4 AND push_bit (unat phys) 1 = 0 then 3 else full_tag v)
      in (x\<lparr>fp_st := (fp_st x)(phys := v)\<rparr>, full_tw OR push_bit (unat phys * 2) (tag AND 3))))"

definition restore_pointers :: "bytes \<Rightarrow> bool \<Rightarrow> x87 \<Rightarrow> x87" where
  "restore_pointers buf rexw x =
     (if rexw then x\<lparr>fp_fip := u64_at buf 8, fp_fcs := 0, fp_fdp := u64_at buf 16, fp_fds := 0\<rparr>
      else x\<lparr>fp_fip := ucast (u32_at buf 8), fp_fcs := u16_at buf 12,
             fp_fdp := ucast (u32_at buf 16), fp_fds := u16_at buf 20\<rparr>)"

definition restore_x87_component :: "bytes \<Rightarrow> bool \<Rightarrow> cpu_state \<Rightarrow> cpu_state" where
  "restore_x87_component buf rexw s =
     (let x1 = (cpu_x87 s)\<lparr>fp_sw := u16_at buf 2, fp_cw := u16_at buf 0, fp_fop := u16_at buf 6\<rparr>;
          x2 = restore_pointers buf rexw x1
      in case fold (restore_st buf) [0..<8] (x2, 0) of
           (x3, full_tw) \<Rightarrow> s\<lparr>cpu_x87 := x3\<lparr>fp_tw := full_tw\<rparr>\<rparr>)"

definition restore_xmm :: "bytes \<Rightarrow> nat \<Rightarrow> cpu_state \<Rightarrow> cpu_state" where
  "restore_xmm buf i s =
     s\<lparr>cpu_xmm := (cpu_xmm s)(of_nat i := from_le (subslice buf (160 + i * 16) (160 + i * 16 + 16)))\<rparr>"

definition restore_xmm_component :: "bytes \<Rightarrow> interp \<Rightarrow> interp" where
  "restore_xmm_component buf it =
     it\<lparr>it_state := fold (restore_xmm buf) [0..<xmm_count it] (it_state it)\<rparr>"

definition restore_mxcsr :: "bytes \<Rightarrow> interp \<Rightarrow> interp" where
  "restore_mxcsr buf it = it\<lparr>it_mxcsr := u32_at buf 24 AND MXCSR_MASK\<rparr>"

definition restore_fxsave_area :: "bytes \<Rightarrow> bool \<Rightarrow> interp \<Rightarrow> interp" where
  "restore_fxsave_area buf rexw it =
     restore_xmm_component buf (restore_mxcsr buf
       (it\<lparr>it_state := restore_x87_component buf rexw (it_state it)\<rparr>))"

definition write_avx_component :: "'m memory_ops \<Rightarrow> u64 \<Rightarrow> ('m mach, unit) em" where
  "write_avx_component M addr =
     em_bind (interp xmm_count) (\<lambda>n.
     em_each [0..<n] (\<lambda>i.
       em_bind (cpu (\<lambda>s. cpu_ymm_hi s (of_nat i))) (\<lambda>v.
       mem_do (mo_write M (addr + 576 + of_nat i * 16) (to_le 16 v)))))"

definition read_avx_component :: "'m memory_ops \<Rightarrow> u64 \<Rightarrow> ('m mach, unit) em" where
  "read_avx_component M addr =
     em_bind (interp xmm_count) (\<lambda>n.
     em_each [0..<n] (\<lambda>i.
       em_bind (mem_do (mo_read M (addr + 576 + of_nat i * 16) 16)) (\<lambda>b.
       upd_cpu (\<lambda>s. s\<lparr>cpu_ymm_hi := (cpu_ymm_hi s)(of_nat i := from_le b)\<rparr>))))"

definition xsave_rfbm :: "interp \<Rightarrow> u64" where
  "xsave_rfbm it =
     (let eax = gpr_read 0 4 (it_state it); edx = gpr_read 2 4 (it_state it)
      in (push_bit 32 edx OR eax) AND it_xcr0 it AND XCR0_SUPPORTED)"

definition xrstor_apply :: "bytes \<Rightarrow> u64 \<Rightarrow> u64 \<Rightarrow> bool \<Rightarrow> interp \<Rightarrow> interp" where
  "xrstor_apply area rfbm xstate_bv rexw it =
     (let it1 = (if rfbm AND 1 \<noteq> 0 then
                   it\<lparr>it_state := (if xstate_bv AND 1 \<noteq> 0
                        then restore_x87_component area rexw (it_state it)
                        else (it_state it)\<lparr>cpu_x87 := x87_new\<rparr>)\<rparr>
                 else it)
      in if rfbm AND 2 \<noteq> 0 then
           let it2 = restore_mxcsr area it1 in
           if xstate_bv AND 2 \<noteq> 0 then restore_xmm_component area it2
           else it2\<lparr>it_state := (it_state it2)\<lparr>cpu_xmm := (\<lambda>_. 0)\<rparr>\<rparr>
         else it1)"

section \<open>The group \<open>0F AE\<close>\<close>

definition xsave_op :: "'m memory_ops \<Rightarrow> u64 \<Rightarrow> bool \<Rightarrow> ('m mach, unit) em" where
  "xsave_op M addr rexw =
     em_bind (interp xsave_rfbm) (\<lambda>rfbm.
     em_bind (interp (build_fxsave_area rexw)) (\<lambda>buf.
     em_bind (mem_do (mo_write M addr buf)) (\<lambda>_.
     em_bind (em_when (rfbm AND 4 \<noteq> 0) (write_avx_component M addr)) (\<lambda>_.
     em_bind (mem_do (mem_read_u64 M (addr + 512))) (\<lambda>old_bv.
     mem_do (mem_write_u64 M (addr + 512)
       ((old_bv AND NOT rfbm) OR (rfbm AND XCR0_SUPPORTED))))))))"

definition xrstor_op :: "'m memory_ops \<Rightarrow> u64 \<Rightarrow> bool \<Rightarrow> ('m mach, unit) em" where
  "xrstor_op M addr rexw =
     em_bind (interp xsave_rfbm) (\<lambda>rfbm.
     em_bind (mem_do (mo_read M addr 512)) (\<lambda>area.
     em_bind (mem_do (mem_read_u64 M (addr + 512))) (\<lambda>xstate_bv.
     em_bind (upd_interp (xrstor_apply area rfbm xstate_bv rexw)) (\<lambda>_.
     em_when (rfbm AND 4 \<noteq> 0)
       (if xstate_bv AND 4 \<noteq> 0 then read_avx_component M addr
        else upd_cpu (\<lambda>s. s\<lparr>cpu_ymm_hi := (\<lambda>_. 0)\<rparr>))))))"

definition is_mem_rm :: "rm \<Rightarrow> bool" where
  "is_mem_rm r = (case r of RmMem b d x \<Rightarrow> True | RmReg i \<Rightarrow> False)"

definition x_0f_ae :: "'m memory_ops \<Rightarrow> u64 \<Rightarrow> 'm arm" where
  "x_0f_ae M start =
     em_bind (read_modrm M) (\<lambda>_.
     em_bind (ctx (\<lambda>c. c)) (\<lambda>c.
       let digit = cx_reg c AND 7; is_mem = is_mem_rm (cx_rm c); addr = rm_addr_of c;
           rexw = px_w (cx_pfx c)
       in if \<not> is_mem \<and> 5 \<le> digit then fall
          else if is_mem \<and> (digit = 6 \<or> digit = 7) then fall
          else fall_after (
            if digit = 0 then
              em_bind (interp (build_fxsave_area rexw)) (\<lambda>buf. mem_do (mo_write M addr buf))
            else if digit = 1 then
              em_bind (mem_do (mo_read M addr 512)) (\<lambda>buf. upd_interp (restore_fxsave_area buf rexw))
            else if digit = 2 then
              em_bind (mem_do (mem_read_u32 M addr)) (\<lambda>v.
              upd_interp (\<lambda>it. it\<lparr>it_mxcsr := v AND MXCSR_MASK\<rparr>))
            else if digit = 3 then
              em_bind (interp it_mxcsr) (\<lambda>v. mem_do (mem_write_u32 M addr v))
            else if digit = 4 then xsave_op M addr rexw
            else if digit = 5 then xrstor_op M addr rexw
            else em_fail (Unsupported
              (''0f ae /'' @ fmt_dec (unat digit) @ '' at '' @ fmt_hex (unat start))))))"

end
