(* ===== verification/Simd_Int.thy ===== *)
theory Simd_Int
  imports Prelude
begin

text \<open>
  \<open>cpu/src/sse.rs\<close>, the integer lane operations that the vector units share: pure functions on
  128-bit registers. A loop \<open>for i in 0..n { out |= .. << .. }\<close> is \<open>or_lanes\<close>, the
  disjunction of its contributions.
\<close>

definition or_lanes :: "nat \<Rightarrow> (nat \<Rightarrow> 'a::len word) \<Rightarrow> 'a word" where
  "or_lanes n f = fold (\<lambda>i out. out OR f i) [0..<n] 0"

definition LOW32 :: u128 where "LOW32 = 0xFFFFFFFF"
definition LOW64 :: u128 where "LOW64 = 0xFFFFFFFFFFFFFFFF"

definition low_mask :: "nat \<Rightarrow> u128" where
  "low_mask n = (if 16 \<le> n then - 1 else push_bit (n * 8) 1 - 1)"

definition emask :: "nat \<Rightarrow> u128" where
  "emask esz = (let bits = esz * 8 in if 128 \<le> bits then - 1 else push_bit bits 1 - 1)"

definition clamp64 :: "u64 \<Rightarrow> u64 \<Rightarrow> u64 \<Rightarrow> u64" where
  \<comment> \<open>\<open>i64::clamp\<close>\<close>
  "clamp64 lo hi v = (if sint v < sint lo then lo else if sint hi < sint v then hi else v)"

definition sign_shift :: "nat \<Rightarrow> u64 \<Rightarrow> u64" where
  \<comment> \<open>\<open>((x << shift) as i64) >> shift\<close>\<close>
  "sign_shift shift x = signed_drop_bit shift (push_bit shift x)"

definition punpck :: "u128 \<Rightarrow> u128 \<Rightarrow> nat \<Rightarrow> bool \<Rightarrow> u128" where
  "punpck a b esz high =
     (let bits = esz * 8; m = emask esz; half = 16 div esz div 2; base = (if high then half else 0) in
      or_lanes half (\<lambda>i.
        let d = drop_bit ((base + i) * bits) a AND m; s = drop_bit ((base + i) * bits) b AND m in
        push_bit ((2 * i) * bits) d OR push_bit ((2 * i + 1) * bits) s))"

definition pcmp :: "u128 \<Rightarrow> u128 \<Rightarrow> nat \<Rightarrow> bool \<Rightarrow> u128" where
  "pcmp a b esz gt =
     (let bits = esz * 8; m = emask esz; sign = push_bit (bits - 1) 1 in
      or_lanes (16 div esz) (\<lambda>i.
        let x = drop_bit (i * bits) a AND m; y = drop_bit (i * bits) b AND m;
            hit = (if gt then y XOR sign < x XOR sign else x = y)
        in if hit then push_bit (i * bits) m else 0))"

definition add_sub :: "u128 \<Rightarrow> u128 \<Rightarrow> nat \<Rightarrow> bool \<Rightarrow> u128" where
  "add_sub a b esz add =
     (let bits = esz * 8; m = emask esz in
      or_lanes (16 div esz) (\<lambda>i.
        let x = (ucast (drop_bit (i * bits) a AND m) :: u64);
            y = (ucast (drop_bit (i * bits) b AND m) :: u64);
            r = ucast (if add then x + y else x - y)
        in push_bit (i * bits) (r AND m)))"

definition add_sub_sat :: "u128 \<Rightarrow> u128 \<Rightarrow> nat \<Rightarrow> bool \<Rightarrow> bool \<Rightarrow> u128" where
  "add_sub_sat a b esz add sg =
     (let bits = esz * 8; m = emask esz in
      or_lanes (16 div esz) (\<lambda>i.
        let x = (ucast (drop_bit (i * bits) a AND m) :: u64);
            y = (ucast (drop_bit (i * bits) b AND m) :: u64);
            r = (if sg then
                   let shift = 64 - bits; sx = sign_shift shift x; sy = sign_shift shift y;
                       v = (if add then sx + sy else sx - sy);
                       hi = push_bit (bits - 1) 1 - 1; lo = - push_bit (bits - 1) 1
                   in clamp64 lo hi v AND ucast m
                 else if add then min (x + y) (ucast m)
                 else if y \<le> x then x - y else 0)
        in push_bit (i * bits) (ucast r AND m)))"

definition pmullw :: "u128 \<Rightarrow> u128 \<Rightarrow> u128" where
  "pmullw a b = or_lanes 8 (\<lambda>i.
     let x = (ucast (drop_bit (i * 16) a AND 0xFFFF) :: u32);
         y = (ucast (drop_bit (i * 16) b AND 0xFFFF) :: u32)
     in push_bit (i * 16) (ucast (x * y AND 0xFFFF)))"

definition pmulh :: "u128 \<Rightarrow> u128 \<Rightarrow> bool \<Rightarrow> u128" where
  "pmulh a b sg = or_lanes 8 (\<lambda>i.
     let x = (ucast (drop_bit (i * 16) a AND 0xFFFF) :: u16);
         y = (ucast (drop_bit (i * 16) b AND 0xFFFF) :: u16);
         p = (if sg then scast x * scast y else ucast x * ucast y :: u64)
     in push_bit (i * 16) (scast (signed_drop_bit 16 p) AND 0xFFFF))"

definition pmuludq :: "u128 \<Rightarrow> u128 \<Rightarrow> u128" where
  "pmuludq a b =
     (let a0 = (ucast (a AND LOW32) :: u64); b0 = (ucast (b AND LOW32) :: u64);
          a2 = (ucast (drop_bit 64 a AND LOW32) :: u64); b2 = (ucast (drop_bit 64 b AND LOW32) :: u64)
      in (ucast a0 * ucast b0) OR push_bit 64 (ucast a2 * ucast b2))"

definition i16_lane :: "u128 \<Rightarrow> nat \<Rightarrow> u32" where
  \<comment> \<open>\<open>((v >> at) & 0xFFFF) as u16 as i16 as i32\<close>\<close>
  "i16_lane v at = scast (ucast (drop_bit at v AND 0xFFFF) :: u16)"

definition pmaddwd :: "u128 \<Rightarrow> u128 \<Rightarrow> u128" where
  "pmaddwd a b = or_lanes 4 (\<lambda>i.
     let base = i * 32;
         s = i16_lane a base * i16_lane b base + i16_lane a (base + 16) * i16_lane b (base + 16)
     in push_bit base (ucast s))"

definition pavg :: "u128 \<Rightarrow> u128 \<Rightarrow> nat \<Rightarrow> u128" where
  "pavg a b esz =
     (let bits = esz * 8; m = emask esz in
      or_lanes (16 div esz) (\<lambda>i.
        let x = (ucast (drop_bit (i * bits) a AND m) :: u64);
            y = (ucast (drop_bit (i * bits) b AND m) :: u64)
        in push_bit (i * bits) (ucast (drop_bit 1 (x + y + 1)) AND m)))"

definition byte_distance :: "u32 \<Rightarrow> u32 \<Rightarrow> u32" where
  \<comment> \<open>\<open>(x - y).unsigned_abs()\<close> on \<open>i32\<close>\<close>
  "byte_distance x y = of_int \<bar>sint (x - y)\<bar>"

definition psadbw :: "u128 \<Rightarrow> u128 \<Rightarrow> u128" where
  "psadbw a b =
     (let half = (\<lambda>h. ucast (fold (\<lambda>i sum.
            let sh = (h * 8 + i) * 8 in
            sum + byte_distance (ucast (drop_bit sh a AND 0xFF)) (ucast (drop_bit sh b AND 0xFF)))
            [0..<8] 0 :: u32))
      in half 0 OR push_bit 64 (half 1))"

definition pack_at :: "nat \<Rightarrow> bool \<Rightarrow> u128 \<Rightarrow> nat \<Rightarrow> u128" where
  \<comment> \<open>the lane \<open>i\<close> of one source, saturated\<close>
  "pack_at esz_in signed_out src i =
     (let bits_in = esz_in * 8; bits_out = bits_in div 2;
          lo = (if signed_out then - push_bit (bits_out - 1) 1 else 0);
          hi = (if signed_out then push_bit (bits_out - 1) 1 - 1 else push_bit bits_out 1 - 1);
          raw = (ucast (drop_bit (i * bits_in) src AND emask esz_in) :: u64)
      in ucast (clamp64 lo hi (sign_shift (64 - bits_in) raw) AND ucast (emask (esz_in div 2))))"

definition pack :: "u128 \<Rightarrow> u128 \<Rightarrow> nat \<Rightarrow> bool \<Rightarrow> u128" where
  "pack a b esz_in signed_out =
     (let bits_out = esz_in * 8 div 2; lanes = 16 div esz_in in
      or_lanes lanes (\<lambda>i. push_bit (i * bits_out) (pack_at esz_in signed_out a i)) OR
      or_lanes lanes (\<lambda>i. push_bit ((lanes + i) * bits_out) (pack_at esz_in signed_out b i)))"

definition byte_minmax :: "u128 \<Rightarrow> u128 \<Rightarrow> bool \<Rightarrow> u128" where
  "byte_minmax a b max_of = or_lanes 16 (\<lambda>i.
     let x = (ucast (drop_bit (i * 8) a AND 0xFF) :: u8); y = (ucast (drop_bit (i * 8) b AND 0xFF) :: u8)
     in push_bit (i * 8) (ucast (if max_of then max x y else min x y)))"

definition pmovmskb :: "u128 \<Rightarrow> u32" where
  "pmovmskb v = or_lanes 16 (\<lambda>i. if drop_bit (i * 8 + 7) v AND 1 = 1 then push_bit i 1 else 0)"

definition shift_r :: "u128 \<Rightarrow> nat \<Rightarrow> u64 \<Rightarrow> bool \<Rightarrow> u128" where
  "shift_r v esz count arith =
     (let bits = esz * 8; m = emask esz; sign = push_bit (bits - 1) 1; wide = bits \<le> unat count in
      or_lanes (16 div esz) (\<lambda>i.
        let e = drop_bit (i * bits) v AND m;
            r = (if arith then
                   let se = (e XOR sign) - sign in
                   signed_drop_bit (if wide then 127 else unat count) se AND m
                 else if wide then 0 else drop_bit (unat count) e)
        in push_bit (i * bits) r))"

definition shift_l :: "u128 \<Rightarrow> nat \<Rightarrow> u64 \<Rightarrow> u128" where
  "shift_l v esz count =
     (let bits = esz * 8; m = emask esz in
      if bits \<le> unat count then 0
      else or_lanes (16 div esz) (\<lambda>i.
        let e = drop_bit (i * bits) v AND m in
        push_bit (i * bits) (push_bit (unat count) e AND m)))"

section \<open>Shuffles\<close>

definition selector :: "u8 \<Rightarrow> nat \<Rightarrow> nat" where
  \<comment> \<open>\<open>(imm >> (i * 2)) & 3\<close>\<close>
  "selector imm i = unat (drop_bit (i * 2) imm AND 3)"

definition pshufd :: "u128 \<Rightarrow> u8 \<Rightarrow> u128" where
  "pshufd src imm = or_lanes 4 (\<lambda>i. push_bit (i * 32) (drop_bit (selector imm i * 32) src AND LOW32))"

definition pshuflw :: "u128 \<Rightarrow> u8 \<Rightarrow> u128" where
  "pshuflw src imm =
     (let low = or_lanes 4 (\<lambda>i. push_bit (i * 16) (drop_bit (selector imm i * 16) src AND 0xFFFF))
      in (src AND NOT LOW64) OR (low AND LOW64))"

definition pshufhw :: "u128 \<Rightarrow> u8 \<Rightarrow> u128" where
  "pshufhw src imm =
     (let hi = drop_bit 64 src;
          out = or_lanes 4 (\<lambda>i. push_bit (i * 16) (drop_bit (selector imm i * 16) hi AND 0xFFFF))
      in (src AND LOW64) OR push_bit 64 out)"

definition dword_at :: "u128 \<Rightarrow> nat \<Rightarrow> u128" where
  "dword_at v i = drop_bit (i * 32) v AND LOW32"

definition shufps :: "u128 \<Rightarrow> u128 \<Rightarrow> u8 \<Rightarrow> u128" where
  "shufps dst src imm =
     dword_at dst (selector imm 0) OR push_bit 32 (dword_at dst (selector imm 1)) OR
     push_bit 64 (dword_at src (selector imm 2)) OR push_bit 96 (dword_at src (selector imm 3))"

definition shufpd :: "u128 \<Rightarrow> u128 \<Rightarrow> u8 \<Rightarrow> u128" where
  "shufpd dst src imm =
     (let lo = (if imm AND 1 = 0 then dst AND LOW64 else drop_bit 64 dst AND LOW64);
          hi = (if imm AND 2 = 0 then src AND LOW64 else drop_bit 64 src AND LOW64)
      in lo OR push_bit 64 hi)"

definition pshufb :: "u128 \<Rightarrow> u128 \<Rightarrow> u128" where
  "pshufb a b = or_lanes 16 (\<lambda>i.
     let ctl = (ucast (drop_bit (i * 8) b AND 0xFF) :: u8) in
     if ctl AND 0x80 = 0
     then push_bit (i * 8) (drop_bit (unat (ctl AND 0x0F) * 8) a AND 0xFF) else 0)"

end
