(* ===== verification/Exec_Mmx.thy ===== *)
theory Exec_Mmx
  imports Operands Simd_Int
begin

text \<open>
  \<open>cpu/src/mmx.rs\<close>: the MMX instructions on the 64-bit halves of the x87 registers. Where the
  source widens both operands and calls the 128-bit lane operation of \<open>sse.rs\<close>
  (its closure \<open>lane\<close>), so does \<open>mmx_lane\<close>.
\<close>

definition is_mmx :: "u8 \<Rightarrow> bool" where
  "is_mmx op2 \<longleftrightarrow>
     op2 \<in> {0x6E, 0x6F, 0x7E, 0x7F, 0x74, 0x75, 0x76, 0x70, 0x71, 0x72, 0x73,
       0xD1, 0xD2, 0xD3, 0xE1, 0xE2, 0xF1, 0xF2, 0xF3, 0xD5, 0xE4, 0xE5, 0xF4, 0xF5, 0xD4, 0xFB,
       0xDB, 0xDF, 0xEB, 0xEF, 0xDC, 0xDD, 0xD8, 0xD9, 0xEC, 0xED, 0xE8, 0xE9,
       0xDA, 0xDE, 0xE0, 0xE3, 0xF6, 0xD7} \<or>
     0x60 \<le> op2 \<and> op2 \<le> 0x6B \<or> 0xFC \<le> op2 \<and> op2 \<le> 0xFE \<or> 0xF8 \<le> op2 \<and> op2 \<le> 0xFA"

section \<open>Lane operations on 64 bits\<close>

definition mmx_lane :: "(u128 \<Rightarrow> u128 \<Rightarrow> u128) \<Rightarrow> u64 \<Rightarrow> u64 \<Rightarrow> u64" where
  "mmx_lane f a b = ucast (f (ucast a) (ucast b))"

definition mask64 :: "nat \<Rightarrow> u64" where
  "mask64 sz = (if sz = 1 then 0xff else if sz = 2 then 0xffff else if sz = 4 then 0xffffffff else - 1)"

definition lane_mask :: "nat \<Rightarrow> u64" where
  \<comment> \<open>\<open>if bits >= 64 { u64::MAX } else { (1 << bits) - 1 }\<close>\<close>
  "lane_mask bits = (if 64 \<le> bits then - 1 else push_bit bits 1 - 1)"

definition punpck64 :: "u64 \<Rightarrow> u64 \<Rightarrow> nat \<Rightarrow> bool \<Rightarrow> u64" where
  "punpck64 a b esz high =
     (let bits = esz * 8; m = lane_mask bits; half = 8 div esz div 2; base = (if high then half else 0) in
      or_lanes half (\<lambda>i.
        let d = drop_bit ((base + i) * bits) a AND m; s = drop_bit ((base + i) * bits) b AND m in
        push_bit ((2 * i) * bits) d OR push_bit ((2 * i + 1) * bits) s))"

definition pack64_at :: "nat \<Rightarrow> bool \<Rightarrow> u64 \<Rightarrow> nat \<Rightarrow> u64" where
  "pack64_at esz_in signed_out src i =
     (let bits_in = esz_in * 8; bits_out = bits_in div 2;
          raw = drop_bit (i * bits_in) src AND lane_mask bits_in;
          sv = sign_shift (64 - bits_in) raw;
          lo = (if signed_out then - push_bit (bits_out - 1) 1 else 0);
          hi = (if signed_out then push_bit (bits_out - 1) 1 - 1 else push_bit bits_out 1 - 1)
      in clamp64 lo hi sv AND (push_bit bits_out 1 - 1))"

definition pack64 :: "u64 \<Rightarrow> u64 \<Rightarrow> nat \<Rightarrow> bool \<Rightarrow> u64" where
  "pack64 a b esz_in signed_out =
     (let bits_out = esz_in * 8 div 2; n = 8 div esz_in in
      or_lanes n (\<lambda>i. push_bit (i * bits_out) (pack64_at esz_in signed_out a i)) OR
      or_lanes n (\<lambda>i. push_bit ((n + i) * bits_out) (pack64_at esz_in signed_out b i)))"

definition psadbw64 :: "u64 \<Rightarrow> u64 \<Rightarrow> u64" where
  "psadbw64 a b =
     fold (\<lambda>i sum.
       sum + ucast (byte_distance (ucast (drop_bit (i * 8) a AND 0xFF)) (ucast (drop_bit (i * 8) b AND 0xFF))))
       [0..<8] 0"

datatype mmx_shift_kind = Sll | Srl | Sra

definition mmx_shift :: "u64 \<Rightarrow> nat \<Rightarrow> u64 \<Rightarrow> mmx_shift_kind \<Rightarrow> u64" where
  "mmx_shift v esz count kind =
     (let bits = esz * 8; m = lane_mask bits; n = unat count in
      or_lanes (8 div esz) (\<lambda>i.
        let lane = drop_bit (i * bits) v AND m;
            r = (case kind of
                   Sll \<Rightarrow> if bits \<le> n then 0 else push_bit n lane AND m
                 | Srl \<Rightarrow> if bits \<le> n then 0 else drop_bit n lane
                 | Sra \<Rightarrow> signed_drop_bit (min n (bits - 1)) (sign_shift (64 - bits) lane) AND m)
        in push_bit (i * bits) r))"

definition pmovmskb64 :: "u64 \<Rightarrow> u64" where
  \<comment> \<open>the loop of the arm \<open>0xD7\<close>\<close>
  "pmovmskb64 src = or_lanes 8 (\<lambda>i. if drop_bit (i * 8 + 7) src AND 1 \<noteq> 0 then push_bit i 1 else 0)"

definition pshufw :: "u64 \<Rightarrow> u8 \<Rightarrow> u64" where
  \<comment> \<open>the loop of the arm \<open>0x70\<close>\<close>
  "pshufw src imm = or_lanes 4 (\<lambda>i. push_bit (i * 16) (drop_bit (selector imm i * 16) src AND 0xFFFF))"

definition mmx_binary :: "u8 \<Rightarrow> u64 \<Rightarrow> u64 \<Rightarrow> u64" where
  \<comment> \<open>the arms that combine the destination with the operand\<close>
  "mmx_binary op2 a b =
     (if op2 \<in> {0x60, 0x61, 0x62, 0x68, 0x69, 0x6A}
      then punpck64 a b (2 ^ unat (op2 AND 3)) (0x68 \<le> op2)
      else if op2 = 0x63 then pack64 a b 2 True
      else if op2 = 0x6B then pack64 a b 4 True
      else if op2 = 0x67 then pack64 a b 2 False
      else if 0xFC \<le> op2 \<and> op2 \<le> 0xFE
      then mmx_lane (\<lambda>x y. add_sub x y (2 ^ unat (op2 - 0xFC)) True) a b
      else if 0xF8 \<le> op2 \<and> op2 \<le> 0xFA
      then mmx_lane (\<lambda>x y. add_sub x y (2 ^ unat (op2 - 0xF8)) False) a b
      else if op2 = 0xD4 then a + b
      else if op2 = 0xFB then a - b
      else if op2 \<in> {0xD8, 0xD9, 0xDC, 0xDD, 0xE8, 0xE9, 0xEC, 0xED}
      then mmx_lane (\<lambda>x y. add_sub_sat x y (if op2 AND 1 = 0 then 1 else 2)
             (op2 \<in> {0xDC, 0xDD, 0xEC, 0xED}) (op2 \<in> {0xE8, 0xE9, 0xEC, 0xED})) a b
      else if op2 = 0xDB then a AND b
      else if op2 = 0xDF then NOT a AND b
      else if op2 = 0xEB then a OR b
      else if op2 = 0xEF then a XOR b
      else if op2 \<in> {0x74, 0x75, 0x76, 0x64, 0x65, 0x66}
      then mmx_lane (\<lambda>x y. pcmp x y (2 ^ unat (op2 AND 3)) (op2 < 0x70)) a b
      else if op2 = 0xD5 then mmx_lane pmullw a b
      else if op2 = 0xE5 then mmx_lane (\<lambda>x y. pmulh x y True) a b
      else if op2 = 0xE4 then mmx_lane (\<lambda>x y. pmulh x y False) a b
      else if op2 = 0xF4 then ucast (ucast a :: u32) * ucast (ucast b :: u32)
      else if op2 = 0xF5 then mmx_lane pmaddwd a b
      else if op2 = 0xDA then mmx_lane (\<lambda>x y. byte_minmax x y False) a b
      else if op2 = 0xDE then mmx_lane (\<lambda>x y. byte_minmax x y True) a b
      else if op2 = 0xE0 then mmx_lane (\<lambda>x y. pavg x y 1) a b
      else if op2 = 0xE3 then mmx_lane (\<lambda>x y. pavg x y 2) a b
      else if op2 = 0xF6 then psadbw64 a b
      else if op2 = 0xD1 then mmx_shift a 2 b Srl
      else if op2 = 0xD2 then mmx_shift a 4 b Srl
      else if op2 = 0xD3 then mmx_shift a 8 b Srl
      else if op2 = 0xE1 then mmx_shift a 2 b Sra
      else if op2 = 0xE2 then mmx_shift a 4 b Sra
      else if op2 = 0xF1 then mmx_shift a 2 b Sll
      else if op2 = 0xF2 then mmx_shift a 4 b Sll
      else mmx_shift a 8 b Sll)"

definition mmx_is_binary :: "u8 \<Rightarrow> bool" where
  "mmx_is_binary op2 \<longleftrightarrow> is_mmx op2 \<and> op2 \<notin> {0x6E, 0x7E, 0x6F, 0x7F, 0xD7, 0x70, 0x71, 0x72, 0x73}"

section \<open>Operands and dispatch\<close>

definition get_mmx :: "u8 \<Rightarrow> ('m mach, u64) em" where
  "get_mmx i = cpu (\<lambda>s. x87_mmx i (cpu_x87 s))"

definition put_mmx :: "u8 \<Rightarrow> u64 \<Rightarrow> ('m mach, unit) em" where
  "put_mmx i v = upd_cpu (\<lambda>s. s\<lparr>cpu_x87 := x87_set_mmx i v (cpu_x87 s)\<rparr>)"

definition mmx_rm :: "'m memory_ops \<Rightarrow> ('m mach, u64) em" where
  "mmx_rm M = em_bind (ctx (\<lambda>c. c)) (\<lambda>c. case cx_rm c of
     RmReg i \<Rightarrow> get_mmx (i AND 7)
   | RmMem b d r \<Rightarrow> mem_do (mem_read_u64 M (rm_addr_of c)))"

definition mmx_store_rm :: "'m memory_ops \<Rightarrow> u64 \<Rightarrow> ('m mach, unit) em" where
  "mmx_store_rm M v = em_bind (ctx (\<lambda>c. c)) (\<lambda>c. case cx_rm c of
     RmReg i \<Rightarrow> put_mmx (i AND 7) v
   | RmMem b d r \<Rightarrow> mem_do (mem_write_u64 M (rm_addr_of c) v))"

definition mmx_shift_group :: "'m memory_ops \<Rightarrow> u8 \<Rightarrow> ('m mach, unit) em" where
  "mmx_shift_group M op2 = em_bind (ctx (\<lambda>c. c)) (\<lambda>c. case cx_rm c of
     RmMem b d r \<Rightarrow> em_fail (Unsupported ''mmx shift m64,imm'')
   | RmReg i \<Rightarrow>
       em_bind (get_mmx (i AND 7)) (\<lambda>src.
       em_bind (ctx_u8 M) (\<lambda>imm.
         let digit = cx_reg c AND 7; count = ucast imm;
             esz = (if op2 = 0x71 then 2 else if op2 = 0x72 then 4 else 8)
         in if digit = 2 then put_mmx (i AND 7) (mmx_shift src esz count Srl)
            else if (op2 = 0x71 \<or> op2 = 0x72) \<and> digit = 4
            then put_mmx (i AND 7) (mmx_shift src esz count Sra)
            else if digit = 6 then put_mmx (i AND 7) (mmx_shift src esz count Sll)
            else em_fail (Unsupported
              (''mmx shift-group '' @ fmt_hex (unat op2) @ ''/'' @ fmt_dec (unat digit))))))"

definition mmx_movmsk :: "('m mach, unit) em" where
  "mmx_movmsk = em_bind (ctx (\<lambda>c. c)) (\<lambda>c. case cx_rm c of
     RmMem b d r \<Rightarrow> em_fail (Unsupported ''pmovmskb mm,m'')
   | RmReg i \<Rightarrow> em_bind (get_mmx (i AND 7)) (\<lambda>src.
       write_reg_field (if px_w (cx_pfx c) then 8 else 4) (pmovmskb64 src)))"

definition exec_mmx :: "'m memory_ops \<Rightarrow> u8 \<Rightarrow> ('m mach, unit) em" where
  "exec_mmx M op2 =
     em_bind (read_modrm M) (\<lambda>_.
     em_bind (ctx (\<lambda>c. c)) (\<lambda>c.
       let reg = cx_reg c AND 7; sz = (if px_w (cx_pfx c) then 8 else 4) in
       if op2 = 0x6E then em_bind (read_rm M sz) (\<lambda>v. put_mmx reg v)
       else if op2 = 0x7E then em_bind (get_mmx reg) (\<lambda>v. write_rm M sz (v AND mask64 sz))
       else if op2 = 0x6F then em_bind (mmx_rm M) (\<lambda>v. put_mmx reg v)
       else if op2 = 0x7F then em_bind (get_mmx reg) (\<lambda>v. mmx_store_rm M v)
       else if op2 = 0xD7 then mmx_movmsk
       else if op2 = 0x70 then
         em_bind (mmx_rm M) (\<lambda>src. em_bind (ctx_u8 M) (\<lambda>imm. put_mmx reg (pshufw src imm)))
       else if op2 = 0x71 \<or> op2 = 0x72 \<or> op2 = 0x73 then mmx_shift_group M op2
       else if mmx_is_binary op2 then
         em_bind (mmx_rm M) (\<lambda>b. em_bind (get_mmx reg) (\<lambda>a. put_mmx reg (mmx_binary op2 a b)))
       else em_fail (Unsupported (''mmx 0f '' @ fmt_hex2 (unat op2)))))"

end
