(* ===== verification/Exec_0F.thy ===== *)
theory Exec_0F
  imports Exec_Xsave Exec_Mmx
begin

text \<open>
  \<open>cpu/src/exec.rs\<close>: \<open>exec_0f\<close>, the two-byte opcodes, with CPUID, the bit instructions, the
  counts, the exchanges and the conditional moves. The x87, VEX and SSE units are reached
  through their entry points, which are a record of parameters here.
\<close>

section \<open>The units behind the dispatch\<close>

record 'm ext_units =
  eu_x87 :: "u8 \<Rightarrow> ('m mach, unit) em"
  eu_vex :: "bool \<Rightarrow> ('m mach, unit) em"
  eu_sse :: "u8 \<Rightarrow> ('m mach, unit) em"
  eu_sse_0f38 :: "u8 \<Rightarrow> ('m mach, unit) em"
  eu_sse_0f3a :: "u8 \<Rightarrow> ('m mach, unit) em"

definition is_sse :: "u8 \<Rightarrow> bool" where
  "is_sse op2 \<longleftrightarrow>
     0x10 \<le> op2 \<and> op2 \<le> 0x17 \<or> 0x28 \<le> op2 \<and> op2 \<le> 0x2F \<or> 0x50 \<le> op2 \<and> op2 \<le> 0x5F \<or>
     0x60 \<le> op2 \<and> op2 \<le> 0x76 \<or> op2 = 0x7E \<or> op2 = 0x7F \<or>
     op2 = 0xC2 \<or> op2 = 0xC4 \<or> op2 = 0xC5 \<or> op2 = 0xC6 \<or> 0xD0 \<le> op2 \<and> op2 \<le> 0xFE"

section \<open>CPUID and the time stamp\<close>

definition cpuid_brand :: bytes where
  "cpuid_brand = map of_char ''exemu virtual x86-64 CPU'' @ replicate 24 0"

definition brand_word :: "nat \<Rightarrow> u32" where
  "brand_word i = from_le (subslice cpuid_brand i (i + 4))"

definition brand_words :: "nat \<Rightarrow> u32 \<times> u32 \<times> u32 \<times> u32" where
  "brand_words i = (brand_word i, brand_word (i + 4), brand_word (i + 8), brand_word (i + 12))"

definition bits_of :: "nat list \<Rightarrow> u32" where
  \<comment> \<open>\<open>(1 << a) | (1 << b) | ..\<close>\<close>
  "bits_of ns = fold (\<lambda>n v. v OR push_bit n 1) ns 0"

definition cpuid_leaf :: "u32 \<Rightarrow> u32 \<Rightarrow> u32 \<times> u32 \<times> u32 \<times> u32" where
  "cpuid_leaf leaf subleaf =
     (if leaf = 0 then (0xD, 0x756e6547, 0x6c65746e, 0x49656e69)
      else if leaf = 1 then
        (0x000306c3, 0x00010800, bits_of [9, 13, 19, 20, 23, 26, 27, 28, 29],
         bits_of [0, 4, 15, 23, 24, 25, 26])
      else if leaf = 7 then
        if subleaf = 0 then (0, bits_of [3, 5, 8, 19], 0, 0) else (0, 0, 0, 0)
      else if leaf = 0xD then
        if subleaf = 0 then (ucast XCR0_SUPPORTED, 832, 832, ucast (drop_bit 32 XCR0_SUPPORTED))
        else if subleaf = 2 then (256, 576, 0, 0) else (0, 0, 0, 0)
      else if leaf = 0x80000000 then (0x80000004, 0, 0, 0)
      else if leaf = 0x80000001 then (0, 0, bits_of [5], bits_of [11, 27, 29])
      else if leaf = 0x80000002 then brand_words 0
      else if leaf = 0x80000003 then brand_words 16
      else if leaf = 0x80000004 then brand_words 32
      else (0, 0, 0, 0))"

definition cpuid_of :: "cpu_state \<Rightarrow> cpu_state" where
  "cpuid_of s =
     (case cpuid_leaf (ucast (gpr_read 0 4 s)) (ucast (gpr_read 1 4 s)) of (eax, ebx, ecx, edx) \<Rightarrow>
       gpr_write 2 4 (ucast edx) (gpr_write 1 4 (ucast ecx)
         (gpr_write 3 4 (ucast ebx) (gpr_write 0 4 (ucast eax) s))))"

definition put_edx_eax :: "u64 \<Rightarrow> ('m mach, unit) em" where
  "put_edx_eax t = em_bind (put_gpr 0 4 (t AND 0xffffffff)) (\<lambda>_. put_gpr 2 4 (drop_bit 32 t))"

definition get_tsc :: "('m mach, u64) em" where
  "get_tsc = em_run (\<lambda>s. case read_tsc (mc_it s) of (t, it) \<Rightarrow> (t, s\<lparr>mc_it := it\<rparr>))"

definition x_rdtsc :: "'m arm" where
  "x_rdtsc = fall_after (em_bind get_tsc put_edx_eax)"

definition x_0f_01 :: "'m memory_ops \<Rightarrow> u64 \<Rightarrow> 'm arm" where
  "x_0f_01 M start = fall_after (
     em_bind (ctx_u8 M) (\<lambda>sub.
     if sub = 0xF9 then
       em_bind get_tsc (\<lambda>t. em_bind (put_edx_eax t) (\<lambda>_. put_gpr 1 4 0))
     else if sub = 0xD0 then
       em_bind (get_gpr 1 4) (\<lambda>ecx.
       em_bind (interp it_xcr0) (\<lambda>x. put_edx_eax (if ecx = 0 then x else 0)))
     else if sub = 0xD1 then
       em_bind (get_gpr 1 4) (\<lambda>ecx.
       em_when (ecx = 0) (
         em_bind (get_gpr 0 4) (\<lambda>eax.
         em_bind (get_gpr 2 4) (\<lambda>edx.
         upd_interp (\<lambda>it. it\<lparr>it_xcr0 := ((push_bit 32 edx OR eax) AND XCR0_SUPPORTED) OR 1\<rparr>)))))
     else em_fail (Unsupported
       (''0f 01 '' @ fmt_hex2 (unat sub) @ '' at '' @ fmt_hex (unat start)))))"

definition x_syscall :: "'m arm" where
  "x_syscall =
     em_bind (ctx cx_cur) (\<lambda>ret_rip.
     em_bind (upd_cpu (cpu_set_reg Rcx ret_rip)) (\<lambda>_.
     em_bind (upd_cpu (\<lambda>s. cpu_set_reg 11 (cpu_rflags s) s)) (\<lambda>_.
     em_bind (set_rip ret_rip) (\<lambda>_.
     em_bind (get_gpr 0 4) (\<lambda>rax. leave (Syscall (ucast rax)))))))"

section \<open>Conditional and extending moves\<close>

definition x_cmov :: "'m memory_ops \<Rightarrow> u8 \<Rightarrow> 'm arm" where
  "x_cmov M op2 = fall_after (
     em_bind (read_modrm M) (\<lambda>_.
     em_bind opsize (\<lambda>sz.
     em_bind (read_rm M sz) (\<lambda>v.
     em_bind (read_reg_field sz) (\<lambda>keep.
     em_bind (cpu (cond_of (op2 AND 0xF))) (\<lambda>b.
     write_reg_field sz (if b then v else keep)))))))"

definition x_jcc_near :: "'m memory_ops \<Rightarrow> u8 \<Rightarrow> 'm arm" where
  "x_jcc_near M op2 =
     em_bind (ctx_u32 M) (\<lambda>rel.
     em_bind (cpu (cond_of (op2 AND 0xF))) (\<lambda>taken.
     em_bind (ctx cx_cur) (\<lambda>cur.
     jump_to (if taken then cur + sx32 rel else cur))))"

definition x_setcc :: "'m memory_ops \<Rightarrow> u8 \<Rightarrow> 'm arm" where
  "x_setcc M op2 = fall_after (
     em_bind (read_modrm M) (\<lambda>_.
     em_bind (cpu (cond_of (op2 AND 0xF))) (\<lambda>b. write_rm M 1 (of_flag b))))"

definition x_imul :: "'m memory_ops \<Rightarrow> 'm arm" where
  "x_imul M = fall_after (
     em_bind (read_modrm M) (\<lambda>_.
     em_bind opsize (\<lambda>sz.
     em_bind (read_reg_field sz) (\<lambda>a.
     em_bind (read_rm M sz) (\<lambda>b.
     em_bind (imul_trunc a b sz) (\<lambda>r. write_reg_field sz r))))))"

definition x_movzx :: "'m memory_ops \<Rightarrow> u8 \<Rightarrow> 'm arm" where
  "x_movzx M op2 = fall_after (
     let src_size = (if op2 = 0xB6 then 1 else 2) in
     em_bind (read_modrm M) (\<lambda>_.
     em_bind opsize (\<lambda>dst.
     em_bind (read_rm M src_size) (\<lambda>v.
     write_reg_field dst (v AND alu_mask src_size)))))"

definition x_movsx :: "'m memory_ops \<Rightarrow> u8 \<Rightarrow> 'm arm" where
  "x_movsx M op2 = fall_after (
     let src_size = (if op2 = 0xBE then 1 else 2) in
     em_bind (read_modrm M) (\<lambda>_.
     em_bind opsize (\<lambda>dst.
     em_bind (read_rm M src_size) (\<lambda>v.
     write_reg_field dst (sext v src_size AND alu_mask dst)))))"

definition x_shift_double :: "'m memory_ops \<Rightarrow> u8 \<Rightarrow> 'm arm" where
  "x_shift_double M op2 = fall_after (
     em_bind (read_modrm M) (\<lambda>_.
     em_bind opsize (\<lambda>sz.
     em_bind (if op2 AND 1 = 0 then em_bind (ctx_u8 M) (\<lambda>v. em_return (ucast v)) else get_gpr 1 1) (\<lambda>count.
     em_bind (read_rm M sz) (\<lambda>dst.
     em_bind (read_reg_field sz) (\<lambda>src.
     em_bind (run_cpu (if op2 < 0xAC then alu_shld dst src count sz else alu_shrd dst src count sz)) (\<lambda>r.
     write_rm M sz r)))))))"

section \<open>Bits\<close>

definition bit_modify :: "u8 \<Rightarrow> u64 \<Rightarrow> nat \<Rightarrow> u64" where
  "bit_modify op2 v n =
     (if op2 = 0xAB then v OR push_bit n 1
      else if op2 = 0xB3 then v AND NOT (push_bit n 1)
      else if op2 = 0xBB then v XOR push_bit n 1 else v)"

definition bit_op :: "'m memory_ops \<Rightarrow> u8 \<Rightarrow> nat \<Rightarrow> u64 \<Rightarrow> ('m mach, unit) em" where
  "bit_op M op2 sz idx =
     em_bind (ctx (\<lambda>c. c)) (\<lambda>c. case cx_rm c of
       RmReg i \<Rightarrow>
         let n = unat (idx mod of_nat (sz * 8)) in
         em_bind (get_gpr i sz) (\<lambda>v.
         em_bind (put_flag CF (bit v n)) (\<lambda>_.
         em_when (op2 \<noteq> 0xA3) (put_gpr i sz (bit_modify op2 v n))))
     | RmMem b d r \<Rightarrow>
         let n = unat (idx AND 7) in
         em_bind (interp addr_mask) (\<lambda>am.
           let addr = (rm_addr_of c + word_of_int (sint idx div 8)) AND am in
         em_bind (mem_do (mem_read_u8 M addr)) (\<lambda>byte.
         em_bind (put_flag CF (bit byte n)) (\<lambda>_.
         em_when (op2 \<noteq> 0xA3)
           (mem_do (mem_write_u8 M addr (ucast (bit_modify op2 (ucast byte) n))))))))"

definition x_bt :: "'m memory_ops \<Rightarrow> u8 \<Rightarrow> 'm arm" where
  "x_bt M op2 = fall_after (
     em_bind (read_modrm M) (\<lambda>_.
     em_bind opsize (\<lambda>sz.
     em_bind (read_reg_field sz) (\<lambda>idx. bit_op M op2 sz idx))))"

definition x_bt_imm :: "'m memory_ops \<Rightarrow> 'm arm" where
  "x_bt_imm M = fall_after (
     em_bind (read_modrm M) (\<lambda>_.
     em_bind opsize (\<lambda>sz.
     em_bind (ctx_u8 M) (\<lambda>idx.
     em_bind (ctx cx_reg) (\<lambda>reg.
       let d = reg AND 7;
           sub = (if d = 4 then 0xA3 else if d = 5 then 0xAB else if d = 6 then 0xB3 else 0xBB)
       in bit_op M sub sz (ucast idx))))))"

fun first_bit_from :: "nat \<Rightarrow> nat \<Rightarrow> u64 \<Rightarrow> nat" where
  "first_bit_from 0 i v = i"
| "first_bit_from (Suc n) i v = (if bit v i then i else first_bit_from n (Suc i) v)"

definition trailing_zeros :: "u64 \<Rightarrow> nat" where
  "trailing_zeros v = first_bit_from 64 0 v"

fun zeros_above :: "nat \<Rightarrow> u64 \<Rightarrow> nat" where
  \<comment> \<open>the zero bits of \<open>v\<close> from bit \<open>n - 1\<close> downwards\<close>
  "zeros_above 0 v = 0"
| "zeros_above (Suc n) v = (if bit v n then 0 else Suc (zeros_above n v))"

definition leading_zeros :: "u64 \<Rightarrow> nat" where
  "leading_zeros v = zeros_above 64 v"

definition put_flags_off :: "u64 list \<Rightarrow> ('m mach, unit) em" where
  "put_flags_off fs = em_each fs (\<lambda>f. put_flag f False)"

definition x_bit_scan :: "'m memory_ops \<Rightarrow> u8 \<Rightarrow> 'm arm" where
  "x_bit_scan M op2 = fall_after (
     em_bind (read_modrm M) (\<lambda>_.
     em_bind opsize (\<lambda>sz.
     em_bind (read_rm M sz) (\<lambda>v0.
     em_bind (ctx (\<lambda>c. px_rep (cx_pfx c))) (\<lambda>rep.
       let v = v0 AND alu_mask sz in
       if rep = 0xF3 then
         let cnt = (if v = 0 then sz * 8 else if op2 = 0xBC then trailing_zeros v
                    else leading_zeros v - (64 - sz * 8)) in
         em_bind (write_reg_field sz (of_nat cnt)) (\<lambda>_.
         em_bind (put_flag CF (v = 0)) (\<lambda>_.
         em_bind (put_flag ZF (cnt = 0)) (\<lambda>_.
         put_flags_off [OF, SF, AF, PF])))
       else if v = 0 then put_flag ZF True
       else em_bind (put_flag ZF False) (\<lambda>_.
            write_reg_field sz
              (of_nat (if op2 = 0xBC then trailing_zeros v else 63 - leading_zeros v))))))))"

fun popcount64 :: "nat \<Rightarrow> u64 \<Rightarrow> nat" where
  "popcount64 0 v = 0"
| "popcount64 (Suc n) v = of_bool (bit v n) + popcount64 n v"

definition x_popcnt :: "'m memory_ops \<Rightarrow> 'm arm" where
  "x_popcnt M = fall_after (
     em_bind (read_modrm M) (\<lambda>_.
     em_bind opsize (\<lambda>sz.
     em_bind (read_rm M sz) (\<lambda>v0.
       let v = v0 AND alu_mask sz in
     em_bind (write_reg_field sz (of_nat (popcount64 64 v))) (\<lambda>_.
     em_bind (put_flag ZF (v = 0)) (\<lambda>_.
     put_flags_off [CF, OF, SF, AF, PF]))))))"

definition swap_bytes :: "nat \<Rightarrow> u64 \<Rightarrow> u64" where
  \<comment> \<open>the lowest \<open>n\<close> bytes in reverse order\<close>
  "swap_bytes n v = from_le (rev (to_le n v))"

definition x_bswap :: "u8 \<Rightarrow> 'm arm" where
  "x_bswap op2 = fall_after (
     em_bind (op_reg op2) (\<lambda>r.
     em_bind (ctx (\<lambda>c. px_w (cx_pfx c))) (\<lambda>w.
       let sz = (if w then 8 else 4) in
     em_bind (get_gpr r sz) (\<lambda>v. put_gpr r sz (swap_bytes sz v)))))"

section \<open>Exchanges\<close>

definition x_xadd :: "'m memory_ops \<Rightarrow> u8 \<Rightarrow> 'm arm" where
  "x_xadd M op2 = fall_after (
     em_bind (read_modrm M) (\<lambda>_.
     em_bind (size8_or (op2 = 0xC0)) (\<lambda>sz.
     em_bind (read_rm M sz) (\<lambda>dst.
     em_bind (read_reg_field sz) (\<lambda>src.
     em_bind (run_cpu (alu_add dst src 0 sz)) (\<lambda>sum.
     em_bind (write_reg_field sz dst) (\<lambda>_.
     write_rm M sz sum)))))))"

definition x_cmpxchg :: "'m memory_ops \<Rightarrow> u8 \<Rightarrow> 'm arm" where
  "x_cmpxchg M op2 = fall_after (
     em_bind (read_modrm M) (\<lambda>_.
     em_bind (size8_or (op2 = 0xB0)) (\<lambda>sz.
     em_bind (read_rm M sz) (\<lambda>dst.
     em_bind (get_gpr 0 sz) (\<lambda>a.
     em_bind (run_cpu (alu_sub a dst 0 sz)) (\<lambda>_.
     em_bind (cpu (cpu_flag ZF)) (\<lambda>equal.
     em_bind (if equal then read_reg_field sz else em_return dst) (\<lambda>store.
     em_bind (put_gpr 0 sz dst) (\<lambda>_.
     write_rm M sz store)))))))))"

definition cmpxchg16b :: "'m memory_ops \<Rightarrow> u64 \<Rightarrow> ('m mach, unit) em" where
  "cmpxchg16b M addr =
     em_bind (mem_do (mem_read_u64 M addr)) (\<lambda>lo.
     em_bind (mem_do (mem_read_u64 M (addr + 8))) (\<lambda>hi.
     em_bind (get_gpr 0 8) (\<lambda>rax.
     em_bind (get_gpr 2 8) (\<lambda>rdx.
     if lo = rax \<and> hi = rdx then
       em_bind (put_flag ZF True) (\<lambda>_.
       em_bind (get_gpr 3 8) (\<lambda>rbx.
       em_bind (get_gpr 1 8) (\<lambda>rcx.
       em_bind (mem_do (mem_write_u64 M addr rbx)) (\<lambda>_.
       mem_do (mem_write_u64 M (addr + 8) rcx)))))
     else
       em_bind (put_flag ZF False) (\<lambda>_.
       em_bind (put_gpr 0 8 lo) (\<lambda>_. put_gpr 2 8 hi))))))"

definition cmpxchg8b :: "'m memory_ops \<Rightarrow> u64 \<Rightarrow> ('m mach, unit) em" where
  "cmpxchg8b M addr =
     em_bind (mem_do (mem_read_u64 M addr)) (\<lambda>v.
     em_bind (get_gpr 0 4) (\<lambda>eax.
     em_bind (get_gpr 2 4) (\<lambda>edx.
     if v = push_bit 32 edx OR eax then
       em_bind (put_flag ZF True) (\<lambda>_.
       em_bind (get_gpr 3 4) (\<lambda>ebx.
       em_bind (get_gpr 1 4) (\<lambda>ecx.
       mem_do (mem_write_u64 M addr (push_bit 32 ecx OR ebx)))))
     else
       em_bind (put_flag ZF False) (\<lambda>_.
       em_bind (put_gpr 0 4 (v AND 0xffffffff)) (\<lambda>_. put_gpr 2 4 (drop_bit 32 v))))))"

definition x_0f_c7 :: "'m memory_ops \<Rightarrow> u64 \<Rightarrow> 'm arm" where
  "x_0f_c7 M start =
     em_bind (read_modrm M) (\<lambda>_.
     em_bind (ctx (\<lambda>c. c)) (\<lambda>c.
       let digit = cx_reg c AND 7; addr = rm_addr_of c in
       if digit \<noteq> 1 then em_fail (Unsupported
         (''0f c7 /'' @ fmt_dec (unat digit) @ '' at '' @ fmt_hex (unat start)))
       else if \<not> is_mem_rm (cx_rm c) then em_fail (Unsupported
         (''cmpxchg8b/16b reg-form at '' @ fmt_hex (unat start)))
       else if px_w (cx_pfx c) then
         if addr AND 0xF \<noteq> 0 then
           em_bind (interp addr_mask) (\<lambda>am.
           em_bind (set_rip (cx_cur c AND am)) (\<lambda>_. leave (Interrupt 13)))
         else fall_after (cmpxchg16b M addr)
       else fall_after (cmpxchg8b M addr)))"

section \<open>\<open>0F 38\<close>\<close>

definition x_movbe :: "'m memory_ops \<Rightarrow> u8 \<Rightarrow> ('m mach, unit) em" where
  "x_movbe M op3 =
     em_bind (read_modrm M) (\<lambda>_.
     em_bind opsize (\<lambda>sz.
     if op3 = 0xF0 then em_bind (read_rm M sz) (\<lambda>v. write_reg_field sz (swap_bytes sz v))
     else em_bind (read_reg_field sz) (\<lambda>v. write_rm M sz (swap_bytes sz v))))"

definition x_adx :: "'m memory_ops \<Rightarrow> ('m mach, unit) em" where
  "x_adx M =
     em_bind (read_modrm M) (\<lambda>_.
     em_bind (ctx cx_pfx) (\<lambda>p.
       let sz = (if px_w p then 8 else 4); m = alu_mask sz; use_of = (px_rep p = 0xF3);
           fl = (if use_of then OF else CF) in
     em_bind (read_reg_field sz) (\<lambda>d.
     em_bind (read_rm M sz) (\<lambda>v.
     em_bind (cpu (cpu_flag fl)) (\<lambda>carry_in.
       let full = (ucast (d AND m) + ucast (v AND m) + of_bool carry_in :: u128);
           res = ucast full AND m in
     em_bind (write_reg_field sz res) (\<lambda>_.
     put_flag fl (drop_bit (sz * 8) full AND 1 \<noteq> 0)))))))"

definition x_0f_38 :: "'m ext_units \<Rightarrow> 'm memory_ops \<Rightarrow> 'm arm" where
  "x_0f_38 U M = fall_after (
     em_bind (ctx_u8 M) (\<lambda>op3.
     em_bind (ctx cx_pfx) (\<lambda>p.
     if (op3 = 0xF0 \<or> op3 = 0xF1) \<and> px_rep p \<noteq> 0xF2 then x_movbe M op3
     else if op3 = 0xF6 \<and> (px_p66 p \<or> px_rep p = 0xF3) then x_adx M
     else eu_sse_0f38 U op3)))"

section \<open>The dispatch\<close>

definition exec_0f_match :: "'m ext_units \<Rightarrow> 'm memory_ops \<Rightarrow> u8 \<Rightarrow> u64 \<Rightarrow> u8 \<Rightarrow> 'm arm" where
  \<comment> \<open>the \<open>match op2\<close> of \<open>exec_0f\<close>; \<open>rep\<close> is the repeat prefix that guards POPCNT\<close>
  "exec_0f_match U M op2 start rep =
     (if op2 = 0x05 then x_syscall
      else if op2 = 0x0B then em_fail (Unsupported (''ud2 at '' @ fmt_hex (unat start)))
      else if op2 = 0x1E \<or> op2 = 0x1F then fall_after (read_modrm M)
      else if op2 = 0xA2 then fall_after (upd_cpu cpuid_of)
      else if op2 = 0x31 then x_rdtsc
      else if op2 = 0x01 then x_0f_01 M start
      else if op2 = 0xAE then x_0f_ae M start
      else if 0x40 \<le> op2 \<and> op2 \<le> 0x4F then x_cmov M op2
      else if 0x80 \<le> op2 \<and> op2 \<le> 0x8F then x_jcc_near M op2
      else if 0x90 \<le> op2 \<and> op2 \<le> 0x9F then x_setcc M op2
      else if op2 = 0xAF then x_imul M
      else if op2 = 0xB6 \<or> op2 = 0xB7 then x_movzx M op2
      else if op2 = 0xBE \<or> op2 = 0xBF then x_movsx M op2
      else if op2 = 0xA4 \<or> op2 = 0xA5 \<or> op2 = 0xAC \<or> op2 = 0xAD then x_shift_double M op2
      else if op2 = 0xA3 \<or> op2 = 0xAB \<or> op2 = 0xB3 \<or> op2 = 0xBB then x_bt M op2
      else if op2 = 0xBA then x_bt_imm M
      else if op2 = 0xBC \<or> op2 = 0xBD then x_bit_scan M op2
      else if op2 = 0xB8 \<and> rep = 0xF3 then x_popcnt M
      else if 0xC8 \<le> op2 \<and> op2 \<le> 0xCF then x_bswap op2
      else if op2 = 0xC0 \<or> op2 = 0xC1 then x_xadd M op2
      else if op2 = 0xB0 \<or> op2 = 0xB1 then x_cmpxchg M op2
      else if op2 = 0xC7 then x_0f_c7 M start
      else if op2 = 0x38 then x_0f_38 U M
      else if op2 = 0x3A then
        fall_after (em_bind (ctx_u8 M) (\<lambda>op3. eu_sse_0f3a U op3))
      else em_fail (Decode start (''0f '' @ fmt_hex2 (unat op2))))"

definition exec_0f :: "'m ext_units \<Rightarrow> 'm memory_ops \<Rightarrow> u8 \<Rightarrow> u64 \<Rightarrow> 'm arm" where
  "exec_0f U M op2 start =
     em_bind (ctx cx_pfx) (\<lambda>p.
       let no_mandatory = (px_rep p = 0 \<and> \<not> px_p66 p) in
       if no_mandatory \<and> is_mmx op2 then fall_after (exec_mmx M op2)
       else if op2 = 0x77 \<and> no_mandatory then
         fall_after (upd_cpu (\<lambda>s. s\<lparr>cpu_x87 := x87_emms (cpu_x87 s)\<rparr>))
       else if is_sse op2 then fall_after (eu_sse U op2)
       else exec_0f_match U M op2 start (px_rep p))"

end
