(* ===== verification/Exec.thy ===== *)
theory Exec
  imports Exec_0F
begin

text \<open>
  \<open>execute_one\<close> of \<open>cpu/src/exec.rs\<close>, with the dispatch on the first opcode byte, and
  \<open>Cpu::step\<close> of \<open>cpu/src/lib.rs\<close>, which lets the hooks of the embedder (\<open>core/src/hooks.rs\<close>)
  intercept the instruction and serve system calls.
\<close>

definition x_vex :: "'m ext_units \<Rightarrow> 'm memory_ops \<Rightarrow> u8 \<Rightarrow> u64 \<Rightarrow> 'm arm" where
  "x_vex U M opcode start =
     em_bind (ctx (\<lambda>c. c)) (\<lambda>c.
     em_bind (if cx_bits c = B32 then
                em_bind (mem_do (mem_read_u8 M (cx_cur c))) (\<lambda>peek.
                if drop_bit 6 peek \<noteq> 3
                then em_fail (Unsupported (''LES/LDS at '' @ fmt_hex (unat start)))
                else em_return ())
              else em_return ()) (\<lambda>_.
     fall_after (eu_vex U (opcode = 0xC5))))"

definition dispatch_low :: "'m memory_ops \<Rightarrow> u8 \<Rightarrow> 'm arm" where
  \<comment> \<open>the arms \<open>0x40..=0x9F\<close> that \<open>match opcode\<close> has\<close>
  "dispatch_low M opcode =
     (if opcode \<le> 0x4F then x_inc_dec opcode
      else if opcode \<le> 0x57 then x_push M opcode
      else if opcode \<le> 0x5F then x_pop M opcode
      else if opcode = 0x60 then x_pusha M
      else if opcode = 0x61 then x_popa M
      else if opcode = 0x68 \<or> opcode = 0x6A then x_push_imm M opcode
      else if opcode = 0x63 then x_movsxd M
      else if opcode = 0x69 \<or> opcode = 0x6B then x_imul_imm M opcode
      else if 0x70 \<le> opcode \<and> opcode \<le> 0x7F then x_jcc M opcode
      else if opcode = 0x80 \<or> opcode = 0x81 \<or> opcode = 0x83 then x_group1 M opcode
      else if opcode = 0x84 \<or> opcode = 0x85 then x_test M opcode
      else if opcode = 0x86 \<or> opcode = 0x87 then x_xchg M opcode
      else if opcode = 0x88 \<or> opcode = 0x89 then x_mov_store M opcode
      else if opcode = 0x8A \<or> opcode = 0x8B then x_mov_load M opcode
      else if opcode = 0x8C then x_mov_from_seg M
      else if opcode = 0x8E then x_mov_to_seg M
      else if opcode = 0x8D then x_lea M
      else if opcode = 0x8F then x_pop_rm M
      else if 0x90 \<le> opcode \<and> opcode \<le> 0x97 then x_xchg_acc opcode
      else if opcode = 0x98 then x_convert
      else if opcode = 0x99 then x_cwd
      else if opcode = 0x9B then fall
      else if opcode = 0x9C then x_pushf M
      else x_popf M)"

definition dispatch_low_opcode :: "u8 \<Rightarrow> bool" where
  "dispatch_low_opcode opcode \<longleftrightarrow>
     0x40 \<le> opcode \<and> opcode \<le> 0x9D \<and>
     opcode \<notin> {0x62, 0x64, 0x65, 0x66, 0x67, 0x6C, 0x6D, 0x6E, 0x6F, 0x82, 0x9A}"

definition dispatch_high :: "'m ext_units \<Rightarrow> 'm memory_ops \<Rightarrow> u8 \<Rightarrow> u64 \<Rightarrow> 'm arm" where
  "dispatch_high U M opcode start =
     (if opcode = 0xA8 \<or> opcode = 0xA9 then x_test_acc M opcode
      else if 0xA0 \<le> opcode \<and> opcode \<le> 0xA3 then x_moffs M opcode
      else if 0xA4 \<le> opcode \<and> opcode \<le> 0xA7 \<or> 0xAA \<le> opcode \<and> opcode \<le> 0xAF then x_string M opcode
      else if 0xB0 \<le> opcode \<and> opcode \<le> 0xB7 then x_mov_imm8 M opcode
      else if 0xB8 \<le> opcode \<and> opcode \<le> 0xBF then x_mov_imm M opcode
      else if opcode = 0xC0 \<or> opcode = 0xC1 \<or> 0xD0 \<le> opcode \<and> opcode \<le> 0xD3 then x_shift M opcode
      else if opcode = 0xC2 then x_ret_imm M
      else if opcode = 0xC3 then x_ret M
      else if opcode = 0xC6 \<or> opcode = 0xC7 then x_mov_rm_imm M opcode
      else if opcode = 0xC9 then x_leave M
      else if opcode = 0xCC then leave (Interrupt 3)
      else if opcode = 0xCD then x_int M
      else if opcode = 0xCF then x_iret M
      else if 0xE0 \<le> opcode \<and> opcode \<le> 0xE3 then x_loop M opcode
      else if opcode = 0xE8 then x_call M
      else if opcode = 0xE9 \<or> opcode = 0xEB then x_jmp M opcode
      else if opcode = 0xF4 then leave Halted
      else if opcode = 0xF6 \<or> opcode = 0xF7 then x_group3 M opcode
      else if 0xF8 \<le> opcode \<and> opcode \<le> 0xFD then x_flag opcode
      else if opcode = 0xFE then x_group4 M
      else if opcode = 0xFF then x_group5 M start
      else if 0xD8 \<le> opcode \<and> opcode \<le> 0xDF then fall_after (eu_x87 U opcode)
      else if opcode = 0xC4 \<or> opcode = 0xC5 then x_vex U M opcode start
      else if opcode = 0x0F then em_bind (ctx_u8 M) (\<lambda>op2. exec_0f U M op2 start)
      else em_fail (Decode start (fmt_hex2 (unat opcode))))"

definition dispatch :: "'m ext_units \<Rightarrow> 'm memory_ops \<Rightarrow> u8 \<Rightarrow> u64 \<Rightarrow> 'm arm" where
  "dispatch U M opcode start =
     (if opcode < 0x40 \<and> opcode AND 7 < 6 then fall_after (alu_regular M opcode)
      else if dispatch_low_opcode opcode then dispatch_low M opcode
      else dispatch_high U M opcode start)"

definition run_arm :: "'m arm \<Rightarrow> ('m mach, exit) em" where
  \<comment> \<open>the end of \<open>execute_one\<close>: an arm that fell through advances \<open>rip\<close> over the instruction\<close>
  "run_arm arm = em_bind arm (\<lambda>e.
     case e of
       Some x \<Rightarrow> em_return x
     | None \<Rightarrow> em_bind (ctx cx_cur) (\<lambda>cur. em_bind (interp addr_mask) (\<lambda>am.
         em_bind (set_rip (cur AND am)) (\<lambda>_. em_return Continue))))"

definition fresh_ctx :: "interp \<Rightarrow> bytes \<Rightarrow> nat \<Rightarrow> ctx" where
  "fresh_ctx it ibuf n =
     \<lparr>cx_pfx = no_prefixes, cx_cur = cpu_rip (it_state it), cx_reg = 0, cx_rm = RmReg 0,
      cx_bits = it_bits it, cx_u8_at_op = 0, cx_ibuf = ibuf, cx_ibuf_base = cpu_rip (it_state it), cx_ibuf_n = n\<rparr>"

definition start_instruction :: "'m memory_ops \<Rightarrow> ('m mach, unit) em" where
  "start_instruction M = em_mod (\<lambda>s.
     case prefetch M (cpu_rip (it_state (mc_it s))) (mc_mem s) of ((ibuf, n), m) \<Rightarrow>
       s\<lparr>mc_ctx := fresh_ctx (mc_it s) ibuf n, mc_mem := m\<rparr>)"

definition execute_one :: "'m ext_units \<Rightarrow> 'm memory_ops \<Rightarrow> ('m mach, exit) em" where
  "execute_one U M =
     em_bind (cpu cpu_rip) (\<lambda>start.
     em_bind (start_instruction M) (\<lambda>_.
     em_bind (read_prefixes M) (\<lambda>_.
     em_bind (ctx_u8 M) (\<lambda>opcode.
     run_arm (dispatch U M opcode start)))))"

section \<open>A step under the embedder's hooks\<close>

text \<open>
  The hooks are a trait object of the embedder: a record of operations over its own state
  \<open>'h\<close>, the CPU state and the memory. The clock of the interpreter is a shared handle
  (\<open>GuestClock\<close> is an \<open>Arc\<close>), so a hook may act on it as well.
\<close>

type_synonym ('h, 'm) world = "'h \<times> cpu_state \<times> clock \<times> 'm"

record ('h, 'm) hooks =
  hk_intercept :: "u64 \<Rightarrow> (('h, 'm) world, exit option) em"
  hk_syscall :: "u32 \<Rightarrow> (('h, 'm) world, exit) em"

definition no_hooks :: "('h, 'm) hooks" where
  "no_hooks = \<lparr>hk_intercept = (\<lambda>rip. em_return None), hk_syscall = (\<lambda>index. em_return (Interrupt 0x80))\<rparr>"

record ('h, 'm) runner =
  rn_hooks :: 'h
  rn_mach :: "'m mach"

definition with_world :: "(('h, 'm) world, 'a) em \<Rightarrow> (('h, 'm) runner, 'a) em" where
  "with_world f r =
     (let it = mc_it (rn_mach r) in
      case f (rn_hooks r, it_state it, it_clock it, mc_mem (rn_mach r)) of (x, h, c, k, m) \<Rightarrow>
        (x, r\<lparr>rn_hooks := h,
              rn_mach := (rn_mach r)\<lparr>mc_it := it\<lparr>it_state := c, it_clock := k\<rparr>, mc_mem := m\<rparr>\<rparr>))"

definition with_mach :: "('m mach, 'a) em \<Rightarrow> (('h, 'm) runner, 'a) em" where
  "with_mach f r = (case f (rn_mach r) of (x, s) \<Rightarrow> (x, r\<lparr>rn_mach := s\<rparr>))"

definition cpu_step :: "('h, 'm) hooks \<Rightarrow> 'm ext_units \<Rightarrow> 'm memory_ops \<Rightarrow> (('h, 'm) runner, exit) em" where
  "cpu_step H U M =
     em_bind (with_mach (upd_interp (\<lambda>it. it\<lparr>it_clock := retire_one (it_clock it)\<rparr>))) (\<lambda>_.
     em_bind (em_get (\<lambda>r. cpu_rip (it_state (mc_it (rn_mach r))))) (\<lambda>rip.
     em_bind (with_world (hk_intercept H rip)) (\<lambda>i.
     case i of
       Some exit \<Rightarrow> em_return exit
     | None \<Rightarrow>
         em_bind (with_mach (execute_one U M)) (\<lambda>e.
         case e of
           Syscall index \<Rightarrow> with_world (hk_syscall H index)
         | _ \<Rightarrow> em_return e))))"

end
