(* ===== verification/Calculus.thy ===== *)
theory Calculus
  imports Core_Error
begin

text \<open>
  A composition calculus for computations. \<open>sound_for B P m\<close> says that \<open>m\<close> keeps the invariant
  \<open>P\<close> whatever its outcome, and that where it does not return it stops in one of the ways of
  \<open>B\<close>: an error only (\<open>safe\<close>), or an error or the panic of a division that overflows
  (\<open>sound\<close>). Both rule out a loop without an end.
\<close>

definition only_errors :: "stop \<Rightarrow> bool" where
  "only_errors x \<longleftrightarrow> (case x of Err e \<Rightarrow> True | _ \<Rightarrow> False)"

definition benign :: "stop \<Rightarrow> bool" where
  "benign x \<longleftrightarrow> (case x of Err e \<Rightarrow> True | Panic w \<Rightarrow> w = ''attempt to divide with overflow'' | Loops \<Rightarrow> False)"

definition sound_for :: "(stop \<Rightarrow> bool) \<Rightarrow> ('s \<Rightarrow> bool) \<Rightarrow> ('s, 'a) em \<Rightarrow> bool" where
  "sound_for B P m \<longleftrightarrow> (\<forall>s. P s \<longrightarrow> P (snd (m s)) \<and> (\<forall>x. fst (m s) = Inl x \<longrightarrow> B x))"

abbreviation sound :: "('s \<Rightarrow> bool) \<Rightarrow> ('s, 'a) em \<Rightarrow> bool" where
  "sound \<equiv> sound_for benign"

abbreviation safe :: "('s \<Rightarrow> bool) \<Rightarrow> ('s, 'a) em \<Rightarrow> bool" where
  "safe \<equiv> sound_for only_errors"

lemmas sound_def = sound_for_def [of benign]
lemmas safe_def = sound_for_def [of only_errors]

named_theorems sound_intros \<open>composition rules for \<open>sound\<close>\<close>

lemma only_errors_simps [simp]: "only_errors (Err e)" "\<not> only_errors (Panic w)" "\<not> only_errors Loops"
  by (simp_all add: only_errors_def)

lemma benign_simps [simp]: "benign (Err e)" "benign (Panic ''attempt to divide with overflow'')" "\<not> benign Loops"
  by (simp_all add: benign_def)

lemma soundI:
  "(\<And>s. P s \<Longrightarrow> P (snd (m s))) \<Longrightarrow> (\<And>s x. P s \<Longrightarrow> fst (m s) = Inl x \<Longrightarrow> B x) \<Longrightarrow> sound_for B P m"
  by (simp add: sound_for_def)

lemma soundD: "sound_for B P m \<Longrightarrow> P s \<Longrightarrow> P (snd (m s))"
  by (simp add: sound_for_def)

lemma sound_stop: "sound_for B P m \<Longrightarrow> P s \<Longrightarrow> fst (m s) = Inl x \<Longrightarrow> B x"
  by (simp add: sound_for_def)

lemma sound_bind [sound_intros]:
  assumes "sound_for B P m" "\<And>a. sound_for B P (f a)"
  shows "sound_for B P (em_bind m f)"
proof (rule soundI)
  fix s assume s: "P s"
  show "P (snd (em_bind m f s))"
    using soundD [OF assms(1) s] soundD [OF assms(2)]
    by (cases "m s") (auto simp: em_bind_def split: sum.split)
  show "fst (em_bind m f s) = Inl x \<Longrightarrow> B x" for x
    using soundD [OF assms(1) s] sound_stop [OF assms(1) s] sound_stop [OF assms(2)]
    by (cases "m s") (auto simp: em_bind_def split: sum.splits)
qed

lemma sound_simple [sound_intros]:
  "sound_for B P (em_return a)" "sound_for B P (em_get g)" "sound P (em_fail e)" "safe P (em_fail e)"
  "sound P (em_panic ''attempt to divide with overflow'')"
  by (simp_all add: sound_for_def em_apply)

lemma safe_sound: "safe P m \<Longrightarrow> sound P m"
  by (auto simp: sound_for_def benign_def only_errors_def split: stop.splits)

lemma sound_when [sound_intros]: "sound_for B P m \<Longrightarrow> sound_for B P (em_when b m)"
  by (simp add: em_when_def sound_simple)

lemma sound_if [sound_intros]:
  "(b \<Longrightarrow> sound_for B P m) \<Longrightarrow> (\<not> b \<Longrightarrow> sound_for B P n) \<Longrightarrow> sound_for B P (if b then m else n)"
  by simp

lemma sound_case_prod [sound_intros]:
  "(\<And>a b. p = (a, b) \<Longrightarrow> sound_for B P (f a b)) \<Longrightarrow> sound_for B P (case p of (a, b) \<Rightarrow> f a b)"
  by (cases p) simp

lemma sound_case_option [sound_intros]:
  "sound_for B P m \<Longrightarrow> (\<And>a. sound_for B P (f a)) \<Longrightarrow> sound_for B P (case x of None \<Rightarrow> m | Some a \<Rightarrow> f a)"
  by (cases x) simp_all

lemma sound_each [sound_intros]:
  assumes "\<And>x. sound_for B P (f x)" shows "sound_for B P (em_each xs f)"
  by (induction xs) (simp_all add: sound_simple sound_bind assms)

lemma sound_mod: "(\<And>s. P s \<Longrightarrow> P (f s)) \<Longrightarrow> sound_for B P (em_mod f)"
  by (simp add: sound_for_def em_apply)

lemma sound_run: "(\<And>s. P s \<Longrightarrow> P (snd (f s))) \<Longrightarrow> sound_for B P (em_run f)"
  by (auto simp: sound_for_def em_run_def case_prod_beta)

end
