(* ===== verification/Step_Sound.thy ===== *)
theory Step_Sound
  imports Exec Alu_Laws Memory_Contract Calculus
begin

text \<open>
  The soundness of the interpreter, from the flags up to the instruction.

  The reserved bits of RFLAGS: every operation of the arithmetic unit, and every flag the
  instructions set, keeps them.
\<close>

lemma sound_case_rm [sound_intros]:
  "(\<And>i. sound_for B P (f i)) \<Longrightarrow> (\<And>b d r. sound_for B P (g b d r)) \<Longrightarrow>
    sound_for B P (case x of RmReg i \<Rightarrow> f i | RmMem b d r \<Rightarrow> g b d r)"
  by (cases x) simp_all

lemma sound_times [sound_intros]:
  assumes "sound_for B P m" shows "sound_for B P (em_times n m)"
  by (induction n) (simp_all add: sound_simple sound_bind assms)

section \<open>RFLAGS\<close>

definition rflags_ok :: "u64 \<Rightarrow> bool" where
  \<comment> \<open>bit 1 is set and no bit outside the writable ones is\<close>
  "rflags_ok f \<longleftrightarrow> bit f 1 \<and> (\<forall>k. bit f k \<longrightarrow> k = 1 \<or> bit FLAGS_WRITABLE k)"

definition flags_kept :: "(cpu_state \<Rightarrow> cpu_state) \<Rightarrow> bool" where
  "flags_kept f \<longleftrightarrow> (\<forall>c. rflags_ok (cpu_rflags c) \<longrightarrow> rflags_ok (cpu_rflags (f c)))"

lemma bit_flag: "bit (push_bit k (1 :: u64)) j \<longleftrightarrow> j = k \<and> k < 64"
  unfolding bit_push_bit_iff by (auto simp: bit_1_iff)

lemma rflags_ok_new: "rflags_ok (RESERVED_ONE OR IF)"
proof -
  have "bit (RESERVED_ONE OR IF) k \<longleftrightarrow> k = 1 \<or> k = 9" for k
    unfolding RESERVED_ONE_def IF_def bit_or_iff bit_flag by simp
  moreover have "bit FLAGS_WRITABLE 9" by (simp add: FLAGS_WRITABLE_def)
  ultimately show ?thesis by (auto simp: rflags_ok_def)
qed

lemma rflags_ok_writable: "rflags_ok ((v AND FLAGS_WRITABLE) OR RESERVED_ONE)"
  unfolding rflags_ok_def RESERVED_ONE_def bit_or_iff bit_and_iff bit_flag by simp

lemma rflags_ok_set_flag:
  assumes "rflags_ok (cpu_rflags s)" "k < 64" "k \<noteq> 1" "bit FLAGS_WRITABLE k"
  shows "rflags_ok (cpu_rflags (set_flag (push_bit k 1) on s))"
  using assms unfolding rflags_ok_def rflags_set_flag [OF assms(2)] by auto

lemma rflags_ok_flags [simp]:
  assumes "rflags_ok (cpu_rflags s)"
  shows "rflags_ok (cpu_rflags (set_flag CF on s))" "rflags_ok (cpu_rflags (set_flag PF on s))"
    "rflags_ok (cpu_rflags (set_flag AF on s))" "rflags_ok (cpu_rflags (set_flag ZF on s))"
    "rflags_ok (cpu_rflags (set_flag SF on s))" "rflags_ok (cpu_rflags (set_flag IF on s))"
    "rflags_ok (cpu_rflags (set_flag DF on s))" "rflags_ok (cpu_rflags (set_flag OF on s))"
  unfolding flag_defs
  by (rule rflags_ok_set_flag [OF assms]; simp add: FLAGS_WRITABLE_def)+

lemma rflags_ok_status: "only_status s t \<Longrightarrow> rflags_ok (cpu_rflags s) \<Longrightarrow> rflags_ok (cpu_rflags t)"
proof -
  assume st: "only_status s t" and ok: "rflags_ok (cpu_rflags s)"
  have "bit FLAGS_WRITABLE k" if "k \<in> STATUS" for k
    using that by (auto simp: STATUS_def FLAGS_WRITABLE_def)
  moreover have "1 \<notin> STATUS" by (simp add: STATUS_def)
  ultimately show ?thesis using st ok unfolding only_status_def rflags_ok_def by metis
qed

lemma rflags_ok_szp [simp]: "rflags_ok (cpu_rflags s) \<Longrightarrow> rflags_ok (cpu_rflags (set_szp r sz s))"
  by (simp add: set_szp_def Let_def)

lemma rflags_ok_when_one [simp]:
  "rflags_ok (cpu_rflags s) \<Longrightarrow> rflags_ok (cpu_rflags (when_one c OF on s))"
  by (simp add: when_one_def)

lemma rflags_ok_alu [simp]:
  assumes "rflags_ok (cpu_rflags s)"
  shows "rflags_ok (cpu_rflags (snd (alu_add a b c sz s)))" "rflags_ok (cpu_rflags (snd (alu_sub a b c sz s)))"
    "rflags_ok (cpu_rflags (snd (alu_logic a sz s)))" "rflags_ok (cpu_rflags (snd (alu_inc a sz s)))"
    "rflags_ok (cpu_rflags (snd (alu_dec a sz s)))" "rflags_ok (cpu_rflags (snd (alu_shld a b c sz s)))"
    "rflags_ok (cpu_rflags (snd (alu_shrd a b c sz s)))" "rflags_ok (cpu_rflags (snd (imul_trunc_of a b sz s)))"
proof -
  show add: "rflags_ok (cpu_rflags (snd (alu_add a b c sz s)))" for b c
    using assms by (simp add: alu_add_def Let_def)
  show sub: "rflags_ok (cpu_rflags (snd (alu_sub a b c sz s)))" for b c
    using assms by (simp add: alu_sub_def Let_def)
  show "rflags_ok (cpu_rflags (snd (alu_logic a sz s)))" using assms by (simp add: alu_logic_def Let_def)
  show "rflags_ok (cpu_rflags (snd (alu_inc a sz s)))"
    using add [of 1 0] by (simp add: alu_inc_def case_prod_beta)
  show "rflags_ok (cpu_rflags (snd (alu_dec a sz s)))"
    using sub [of 1 0] by (simp add: alu_dec_def case_prod_beta)
  show "rflags_ok (cpu_rflags (snd (alu_shld a b c sz s)))" using assms by (simp add: alu_shld_def Let_def)
  show "rflags_ok (cpu_rflags (snd (alu_shrd a b c sz s)))" using assms by (simp add: alu_shrd_def Let_def)
  show "rflags_ok (cpu_rflags (snd (imul_trunc_of a b sz s)))" using assms by (simp add: imul_trunc_of_def Let_def)
qed

lemma rflags_ok_shift [simp]:
  "rflags_ok (cpu_rflags s) \<Longrightarrow> rflags_ok (cpu_rflags (snd (alu_shift k v c sz s)))"
  by (cases k) (simp_all add: alu_shift_def Let_def case_prod_beta)

lemma rflags_ok_do_alu [simp]:
  "rflags_ok (cpu_rflags s) \<Longrightarrow> rflags_ok (cpu_rflags (snd (do_alu_of op a b sz s)))"
  by (simp add: do_alu_of_def)

text \<open>
  Every helper and every arm of the interpreter is sound for the invariant of the machine, over
  any memory that keeps the contract \<open>bounded_memory\<close>.
\<close>

section \<open>The invariant of the machine\<close>

definition ibuf_ok :: "('m \<Rightarrow> perm \<Rightarrow> u64 \<Rightarrow> nat \<Rightarrow> bool) \<Rightarrow> 'm \<Rightarrow> ctx \<Rightarrow> bool" where
  "ibuf_ok macc m c \<longleftrightarrow>
     cx_ibuf_n c = 0 \<or> cx_ibuf_n c = IBUF_LEN \<and> macc m PERM_EXEC (cx_ibuf_base c) IBUF_LEN"

definition interp_ok :: "clock \<Rightarrow> interp \<Rightarrow> bool" where
  \<comment> \<open>between instructions, with \<open>k\<close> the clock, which instructions never touch\<close>
  "interp_ok k it \<longleftrightarrow> it_clock it = k \<and> rflags_ok (cpu_rflags (it_state it)) \<and>
     it_mxcsr it AND MXCSR_MASK = it_mxcsr it \<and> it_xcr0 it AND XCR0_SUPPORTED = it_xcr0 it"

definition mach_ok ::
    "('m \<Rightarrow> bool) \<Rightarrow> ('m \<Rightarrow> perm \<Rightarrow> u64 \<Rightarrow> nat \<Rightarrow> bool) \<Rightarrow> clock \<Rightarrow> 'm mach \<Rightarrow> bool" where
  "mach_ok minv macc k s \<longleftrightarrow> minv (mc_mem s) \<and> interp_ok k (mc_it s) \<and> ibuf_ok macc (mc_mem s) (mc_ctx s)"

definition at_boundary :: "('m \<Rightarrow> bool) \<Rightarrow> clock \<Rightarrow> 'm mach \<Rightarrow> bool" where
  \<comment> \<open>between two instructions: the decode context is garbage\<close>
  "at_boundary minv k s \<longleftrightarrow> minv (mc_mem s) \<and> interp_ok k (mc_it s)"

lemma mach_ok_boundary: "mach_ok minv macc k s \<Longrightarrow> at_boundary minv k s"
  by (simp add: mach_ok_def at_boundary_def)

lemma interp_ok_new: "interp_ok (clock_new False) (interp_with_bits b)"
  by (simp add: interp_ok_def interp_with_bits_def cpu_state_new_def rflags_ok_new MXCSR_MASK_def
      XCR0_SUPPORTED_def)

text \<open>
  The laws are proved for a weaker invariant that hooks can keep as well. A hook may set the clock
  and every register, RFLAGS included (a sleep credits the clock, a system call returns the flags of
  \<open>r11\<close>): with \<open>None\<close> in place of the clock, nothing is said of the two.
\<close>

definition interp_fit :: "clock option \<Rightarrow> interp \<Rightarrow> bool" where
  "interp_fit k it \<longleftrightarrow>
     (\<forall>c. k = Some c \<longrightarrow> it_clock it = c \<and> rflags_ok (cpu_rflags (it_state it))) \<and>
     it_mxcsr it AND MXCSR_MASK = it_mxcsr it \<and> it_xcr0 it AND XCR0_SUPPORTED = it_xcr0 it"

definition mach_fit ::
    "('m \<Rightarrow> bool) \<Rightarrow> ('m \<Rightarrow> perm \<Rightarrow> u64 \<Rightarrow> nat \<Rightarrow> bool) \<Rightarrow> clock option \<Rightarrow> 'm mach \<Rightarrow> bool" where
  "mach_fit minv macc k s \<longleftrightarrow> minv (mc_mem s) \<and> interp_fit k (mc_it s) \<and> ibuf_ok macc (mc_mem s) (mc_ctx s)"

definition at_rest :: "('m \<Rightarrow> bool) \<Rightarrow> clock option \<Rightarrow> 'm mach \<Rightarrow> bool" where
  "at_rest minv k s \<longleftrightarrow> minv (mc_mem s) \<and> interp_fit k (mc_it s)"

lemma fit_ok: "interp_ok c = interp_fit (Some c)" "mach_ok minv macc c = mach_fit minv macc (Some c)"
  "at_boundary minv c = at_rest minv (Some c)"
  by (simp_all add: fun_eq_iff interp_ok_def interp_fit_def mach_ok_def mach_fit_def at_boundary_def at_rest_def)

lemma mach_fit_rest: "mach_fit minv macc k s \<Longrightarrow> at_rest minv k s"
  by (simp add: mach_fit_def at_rest_def)

section \<open>Access to the parts of the machine\<close>

lemma sound_gets [sound_intros]: "sound P (cpu f)" "sound P (interp g)" "sound P (ctx h)"
  by (simp_all add: sound_def mach_laws)

lemma sound_upd_cpu: "flags_kept f \<Longrightarrow> sound (mach_fit minv macc k) (upd_cpu f)"
  by (simp add: sound_def mach_laws mach_fit_def interp_fit_def flags_kept_def)

lemma sound_run_cpu:
  "(\<And>c. rflags_ok (cpu_rflags c) \<Longrightarrow> rflags_ok (cpu_rflags (snd (f c)))) \<Longrightarrow>
    sound (mach_fit minv macc k) (run_cpu f)"
  by (auto simp: sound_def mach_laws mach_fit_def interp_fit_def case_prod_beta)

lemma sound_upd_interp: "(\<And>it. interp_fit k it \<Longrightarrow> interp_fit k (f it)) \<Longrightarrow> sound (mach_fit minv macc k) (upd_interp f)"
  by (simp add: sound_def mach_laws mach_fit_def)

lemma sound_upd_ctx:
  "(\<And>c. cx_ibuf_n (f c) = cx_ibuf_n c \<and> cx_ibuf_base (f c) = cx_ibuf_base c) \<Longrightarrow>
    sound (mach_fit minv macc k) (upd_ctx f)"
  by (simp add: sound_def mach_laws mach_fit_def ibuf_ok_def)

lemma flags_kept_same: "(\<And>c. cpu_rflags (f c) = cpu_rflags c) \<Longrightarrow> flags_kept f"
  by (simp add: flags_kept_def)

lemma rflags_same [simp]:
  "cpu_rflags (cpu_set_reg r v c) = cpu_rflags c" "cpu_rflags (cpu_set_rsp v c) = cpu_rflags c"
  "cpu_rflags (gpr_write i sz v c) = cpu_rflags c" "cpu_rflags (gpr_write_high8 i v c) = cpu_rflags c"
  "cpu_rflags (write_gpr_of i sz b v c) = cpu_rflags c" "cpu_rflags (cpuid_of c) = cpu_rflags c"
  "cpu_rflags (restore_x87_component buf w c) = cpu_rflags c"
  by (simp_all add: cpu_set_reg_def cpu_set_rsp_def gpr_write_def gpr_write_high8_def write_gpr_of_def
      Let_def cpuid_of_def restore_x87_component_def split: prod.split)

lemma flags_kept_flags [sound_intros]:
  "flags_kept (set_flag CF on)" "flags_kept (set_flag PF on)" "flags_kept (set_flag AF on)"
  "flags_kept (set_flag ZF on)" "flags_kept (set_flag SF on)" "flags_kept (set_flag IF on)"
  "flags_kept (set_flag DF on)" "flags_kept (set_flag OF on)"
  by (simp_all add: flags_kept_def)

lemma flags_kept_writes [sound_intros]:
  "flags_kept (cpu_set_reg r v)" "flags_kept (cpu_set_rsp v)" "flags_kept (gpr_write i sz v)"
  "flags_kept (gpr_write_high8 i v)" "flags_kept (write_gpr_of i sz b v)" "flags_kept cpuid_of"
  "flags_kept (\<lambda>c. cpu_set_rsp (g c) c)" "flags_kept (\<lambda>c. cpu_set_reg r (g c) c)"
  "flags_kept (\<lambda>c. c\<lparr>cpu_rip := x\<rparr>)" "flags_kept (\<lambda>c. c\<lparr>cpu_x87 := f c\<rparr>)"
  "flags_kept (\<lambda>c. c\<lparr>cpu_ymm_hi := k c\<rparr>)"
  "flags_kept (\<lambda>c. c\<lparr>cpu_rflags := (w AND FLAGS_WRITABLE) OR RESERVED_ONE\<rparr>)"
  by (simp_all add: flags_kept_def rflags_ok_writable)

lemmas sound_updates [sound_intros] = sound_upd_cpu sound_upd_ctx [OF conjI]

lemma sound_put [sound_intros]:
  "sound (mach_fit minv macc k) (set_rip v)" "sound (mach_fit minv macc k) (put_gpr i sz v)"
  "sound P (get_gpr i sz)"
  by (simp_all add: set_rip_def put_gpr_def get_gpr_def sound_intros)

lemma sound_flags [sound_intros]:
  "sound (mach_fit minv macc k) (put_flag CF on)" "sound (mach_fit minv macc k) (put_flag PF on)"
  "sound (mach_fit minv macc k) (put_flag AF on)" "sound (mach_fit minv macc k) (put_flag ZF on)"
  "sound (mach_fit minv macc k) (put_flag SF on)" "sound (mach_fit minv macc k) (put_flag IF on)"
  "sound (mach_fit minv macc k) (put_flag DF on)" "sound (mach_fit minv macc k) (put_flag OF on)"
  by (simp_all add: put_flag_def sound_intros)

lemma sound_flag_if [sound_intros]:
  "sound P (put_flag f on) \<Longrightarrow> sound P (put_flag g on) \<Longrightarrow> sound P (put_flag (if b then f else g) on)"
  by simp

lemma sound_alu [sound_intros]:
  "sound (mach_fit minv macc k) (run_cpu (alu_add a b c sz))" "sound (mach_fit minv macc k) (run_cpu (alu_sub a b c sz))"
  "sound (mach_fit minv macc k) (run_cpu (alu_logic a sz))" "sound (mach_fit minv macc k) (run_cpu (alu_inc a sz))"
  "sound (mach_fit minv macc k) (run_cpu (alu_dec a sz))" "sound (mach_fit minv macc k) (run_cpu (alu_shld a b n sz))"
  "sound (mach_fit minv macc k) (run_cpu (alu_shrd a b n sz))" "sound (mach_fit minv macc k) (run_cpu (alu_shift kind a n sz))"
  "sound (mach_fit minv macc k) (imul_trunc a b sz)" "sound (mach_fit minv macc k) (do_alu op a b sz)"
  by (simp_all add: sound_run_cpu imul_trunc_def do_alu_def)

lemma sound_run_if [sound_intros]:
  "sound P (run_cpu f) \<Longrightarrow> sound P (run_cpu g) \<Longrightarrow> sound P (run_cpu (if b then f else g))"
  by simp

lemma sound_ctx_writes [sound_intros]:
  "sound (mach_fit minv macc k) (set_rm r)" "sound (mach_fit minv macc k) (upd_pfx f)"
  by (simp_all add: set_rm_def upd_pfx_def sound_upd_ctx)

lemma sound_mem:
  assumes "\<And>A. sound (\<lambda>m. minv m \<and> macc m = A) f"
  shows "sound (mach_fit minv macc k) (mem_do f)"
proof (rule soundI)
  fix s assume ok: "mach_fit minv macc k s"
  have "sound (\<lambda>m. minv m \<and> macc m = macc (mc_mem s)) f" by (rule assms)
  moreover have "minv (mc_mem s) \<and> macc (mc_mem s) = macc (mc_mem s)" using ok by (simp add: mach_fit_def)
  ultimately have "minv (snd (f (mc_mem s)))" "macc (snd (f (mc_mem s))) = macc (mc_mem s)"
    "fst (f (mc_mem s)) = Inl x \<Longrightarrow> benign x" for x
    using soundD [of benign "\<lambda>m. minv m \<and> macc m = macc (mc_mem s)" f "mc_mem s"]
      sound_stop [of benign "\<lambda>m. minv m \<and> macc m = macc (mc_mem s)" f "mc_mem s"] by auto
  then show "mach_fit minv macc k (snd (mem_do f s))" "fst (mem_do f s) = Inl x \<Longrightarrow> benign x" for x
    using ok by (auto simp: mem_do_def mach_fit_def ibuf_ok_def case_prod_beta)
qed

section \<open>Memory\<close>

context guest_memory
begin

lemma sound_ops:
  "sound (\<lambda>m. inv m \<and> acc m = A) (mo_read M a n)" "sound (\<lambda>m. inv m \<and> acc m = A) (mo_fetch M a n)"
  "sound (\<lambda>m. inv m \<and> acc m = A) (mo_write M a bs)"
  using read_ok read_err read_keeps fetch_ok fetch_err fetch_keeps write_ok write_err write_keeps
  by (auto intro!: soundI; metis benign_simps(1) sum.distinct(1) sum.inject(1))+

lemma sound_reads:
  "sound (\<lambda>m. inv m \<and> acc m = A) (mem_read_u8 M a)" "sound (\<lambda>m. inv m \<and> acc m = A) (mem_read_u16 M a)"
  "sound (\<lambda>m. inv m \<and> acc m = A) (mem_read_u32 M a)" "sound (\<lambda>m. inv m \<and> acc m = A) (mem_read_u64 M a)"
  "sound (\<lambda>m. inv m \<and> acc m = A) (mem_write_u8 M a b)" "sound (\<lambda>m. inv m \<and> acc m = A) (mem_write_u16 M a c)"
  "sound (\<lambda>m. inv m \<and> acc m = A) (mem_write_u32 M a d)" "sound (\<lambda>m. inv m \<and> acc m = A) (mem_write_u64 M a e)"
  unfolding mem_read_u8_def mem_read_u16_def mem_read_u32_def mem_read_u64_def mem_write_u8_def
    mem_write_u16_def mem_write_u32_def mem_write_u64_def
  by (intro sound_intros sound_ops)+

lemma sound_trait_uint:
  "sound (\<lambda>m. inv m \<and> acc m = A) (trait_read_uint M a n)"
  "sound (\<lambda>m. inv m \<and> acc m = A) (trait_write_uint M a n v)"
  unfolding trait_read_uint_def trait_write_uint_def
  by (intro sound_intros sound_reads)+

lemma sound_uint:
  "sound (\<lambda>m. inv m \<and> acc m = A) (mo_read_uint M a n)"
  "sound (\<lambda>m. inv m \<and> acc m = A) (mo_write_uint M a n v)"
  using read_uint_trait read_uint_keeps write_uint_trait write_uint_keeps
    sound_stop [OF sound_trait_uint(1)] sound_stop [OF sound_trait_uint(2)]
  by (auto intro!: soundI; metis)+

lemmas mem_sound =
  sound_mem [OF sound_ops(1)] sound_mem [OF sound_ops(2)] sound_mem [OF sound_ops(3)]
  sound_mem [OF sound_reads(1)] sound_mem [OF sound_reads(2)] sound_mem [OF sound_reads(3)]
  sound_mem [OF sound_reads(4)] sound_mem [OF sound_reads(5)] sound_mem [OF sound_reads(6)]
  sound_mem [OF sound_reads(7)] sound_mem [OF sound_reads(8)]
  sound_mem [OF sound_uint(1)] sound_mem [OF sound_uint(2)]

end

section \<open>Decoding and operands\<close>

lemma sound_case_opt_fun [sound_intros]:
  "(\<And>a. sound P (f a)) \<Longrightarrow> sound P (g ()) \<Longrightarrow> sound P (case x of Some a \<Rightarrow> f a | None \<Rightarrow> g ())"
  by (cases x) simp_all

context bounded_memory
begin

lemma sound_ctx_take: "sound (mach_fit inv acc k) (ctx_take n)"
  unfolding ctx_take_def Let_def by (intro sound_intros) simp_all

lemma sound_ctx_u8: "sound (mach_fit inv acc k) (ctx_u8 M)"
  unfolding ctx_u8_def ctx_u8_slow_def by (intro sound_intros sound_ctx_take mem_sound) simp_all

lemma sound_ctx_bytes: "sound (mach_fit inv acc k) (ctx_bytes M n)"
  by (induction n) (simp_all add: sound_simple sound_bind sound_ctx_u8)

lemma sound_ctx_uint: "sound (mach_fit inv acc k) (ctx_uint M n)"
  unfolding ctx_uint_def by (intro sound_intros sound_ctx_take sound_ctx_bytes)

lemma sound_ctx_ints:
  "sound (mach_fit inv acc k) (ctx_u16 M)" "sound (mach_fit inv acc k) (ctx_u32 M)"
  "sound (mach_fit inv acc k) (ctx_u64 M)"
  unfolding ctx_u16_def ctx_u32_def ctx_u64_def by (intro sound_intros sound_ctx_uint)+

lemma sound_imm_z: "sound (mach_fit inv acc k) (imm_z M sz)"
  unfolding imm_z_def by (intro sound_intros sound_ctx_ints)

lemmas sound_stream = sound_ctx_u8 sound_ctx_ints sound_imm_z

lemma sound_modrm:
  "sound (mach_fit inv acc k) (modrm_disp M md base)" "sound (mach_fit inv acc k) (modrm_abs M)"
  unfolding modrm_disp_def modrm_abs_def by (intro sound_intros sound_stream)+

lemma sound_sib: "sound (mach_fit inv acc k) (modrm_sib M md)"
  unfolding modrm_sib_def Let_def by (intro sound_intros sound_stream sound_modrm)

lemma sound_read_modrm: "sound (mach_fit inv acc k) (read_modrm M)"
  unfolding read_modrm_def Let_def by (intro sound_intros sound_stream sound_modrm sound_sib) simp_all

lemma sound_operands:
  "sound (mach_fit inv acc k) (read_rm M sz)" "sound (mach_fit inv acc k) (write_rm M sz v)"
  "sound (mach_fit inv acc k) (read_reg_field sz)" "sound (mach_fit inv acc k) (write_reg_field sz v)"
  "sound (mach_fit inv acc k) (push_stack M v)" "sound (mach_fit inv acc k) (pop_stack M)"
  "sound (mach_fit inv acc k) opsize" "sound (mach_fit inv acc k) rm_addr" "sound (mach_fit inv acc k) (size8_or b)"
  "sound (mach_fit inv acc k) (op_reg r)"
  unfolding read_rm_def write_rm_def read_reg_field_def write_reg_field_def push_stack_def pop_stack_def
    Let_def opsize_def rm_addr_def size8_or_def op_reg_def
  by (intro sound_intros mem_sound)+

lemma sound_fall [sound_intros]: "sound P fall" "sound P (leave e)" "sound P m \<Longrightarrow> sound P (fall_after m)"
  unfolding fall_def leave_def fall_after_def by (simp_all add: sound_intros)

lemma sound_jump: "sound (mach_fit inv acc k) (jump_to t)"
  unfolding jump_to_def by (intro sound_intros)

lemmas step_sound = sound_stream sound_read_modrm sound_operands sound_jump mem_sound

section \<open>The arms\<close>

lemma sound_data_arms:
  "sound (mach_fit inv acc k) (alu_regular M op)" "sound (mach_fit inv acc k) (x_inc_dec op)"
  "sound (mach_fit inv acc k) (x_push M op)" "sound (mach_fit inv acc k) (x_pop M op)"
  "sound (mach_fit inv acc k) (x_pusha M)" "sound (mach_fit inv acc k) (x_popa M)"
  "sound (mach_fit inv acc k) (x_push_imm M op)" "sound (mach_fit inv acc k) (x_movsxd M)"
  "sound (mach_fit inv acc k) (x_test M op)" "sound (mach_fit inv acc k) (x_xchg M op)"
  "sound (mach_fit inv acc k) (x_mov_store M op)" "sound (mach_fit inv acc k) (x_mov_load M op)"
  "sound (mach_fit inv acc k) (x_mov_from_seg M)" "sound (mach_fit inv acc k) (x_mov_to_seg M)"
  "sound (mach_fit inv acc k) (x_lea M)" "sound (mach_fit inv acc k) (x_pop_rm M)"
  "sound (mach_fit inv acc k) (x_xchg_acc op)" "sound (mach_fit inv acc k) x_convert"
  "sound (mach_fit inv acc k) x_cwd" "sound (mach_fit inv acc k) (x_pushf M)" "sound (mach_fit inv acc k) (x_popf M)"
  "sound (mach_fit inv acc k) (x_test_acc M op)" "sound (mach_fit inv acc k) (x_moffs M op)"
  "sound (mach_fit inv acc k) (x_mov_imm8 M op)" "sound (mach_fit inv acc k) (x_mov_imm M op)"
  "sound (mach_fit inv acc k) (x_mov_rm_imm M op)" "sound (mach_fit inv acc k) (x_leave M)"
  "sound (mach_fit inv acc k) (x_flag op)"
  unfolding alu_regular_def Let_def x_inc_dec_def x_push_def x_pop_def x_pusha_def x_popa_def push_gpr_def
    pop_gpr_def x_push_imm_def x_movsxd_def x_test_def x_xchg_def x_mov_store_def x_mov_load_def
    x_mov_from_seg_def x_mov_to_seg_def x_lea_def x_pop_rm_def x_xchg_acc_def x_convert_def x_cwd_def
    x_pushf_def x_popf_def x_test_acc_def x_moffs_def x_mov_imm8_def x_mov_imm_def x_mov_rm_imm_def
    x_leave_def x_flag_def
  by (intro sound_intros step_sound)+

lemma interp_fit_bits [simp]: "interp_fit k (it\<lparr>it_bits := b\<rparr>) = interp_fit k it"
  by (simp add: interp_fit_def)

lemma sound_control_arms:
  "sound (mach_fit inv acc k) (x_jcc M op)" "sound (mach_fit inv acc k) (x_ret_imm M)"
  "sound (mach_fit inv acc k) (x_ret M)" "sound (mach_fit inv acc k) (x_int M)"
  "sound (mach_fit inv acc k) (x_iret M)" "sound (mach_fit inv acc k) (x_loop M op)"
  "sound (mach_fit inv acc k) (x_call M)" "sound (mach_fit inv acc k) (x_jmp M op)"
  "sound (mach_fit inv acc k) (x_group4 M)" "sound (mach_fit inv acc k) (x_group5 M start)"
  unfolding x_jcc_def x_ret_imm_def x_ret_def x_int_def x_iret_def iret_slot_def x_loop_def loop_taken_def
    Let_def x_call_def x_jmp_def x_group4_def x_group5_def inc_dec_rm_def far_jump_def
  by (intro sound_intros step_sound sound_upd_interp; simp)+

lemma sound_arith_arms:
  "sound (mach_fit inv acc k) (x_imul_imm M op)" "sound (mach_fit inv acc k) (x_group1 M op)"
  "sound (mach_fit inv acc k) (x_shift M op)" "sound (mach_fit inv acc k) (mul_op M sz sg)"
  "sound (mach_fit inv acc k) (div_op M sz sg)"
  unfolding x_imul_imm_def x_group1_def x_shift_def Let_def mul_op_def div_op_def
  by (intro sound_intros step_sound)+

lemma sound_group3: "sound (mach_fit inv acc k) (x_group3 M op)"
  unfolding x_group3_def Let_def by (intro sound_intros step_sound sound_arith_arms)

lemma sound_string_bodies:
  "sound (mach_fit inv acc k) (stos_body M sz stp v)" "sound (mach_fit inv acc k) (movs_body M sz stp)"
  "sound (mach_fit inv acc k) (lods_body M sz stp)" "sound (mach_fit inv acc k) (scas_body M sz stp a)"
  "sound (mach_fit inv acc k) (cmps_body M sz stp)" "sound (mach_fit inv acc k) string_count"
  "sound (mach_fit inv acc k) string_finish"
  unfolding stos_body_def movs_body_def lods_body_def scas_body_def cmps_body_def string_count_def
    string_finish_def
  by (intro sound_intros step_sound)+

lemma mach_fit_break: "mach_fit inv acc k t \<Longrightarrow> mach_fit inv acc k (snd (rep_string_break rep t))"
  by (simp add: rep_string_break_def Let_def mach_fit_def interp_fit_def)

lemma sound_scas_loop: "sound (mach_fit inv acc k) (scas_loop M sz stp a rep)"
proof -
  have "mach_fit inv acc k (snd (scas_loop N sz stp a rep s)) \<and>
      (\<forall>x. fst (scas_loop N sz stp a rep s) = Inl x \<longrightarrow> benign x)" if "N = M" "mach_fit inv acc k s" for N s
    using that
  proof (induction N sz stp a rep s rule: scas_loop.induct)
    case (1 N sz stp a rep s)
    note bodies = sound_string_bodies(4) [where k = k and sz = sz and stp = stp and a = a]
    note body = soundD [OF bodies, of s] sound_stop [OF bodies, of s]
    obtain r t where rt: "scas_body M sz stp a s = (r, t)" by fastforce
    obtain b u where bu: "rep_string_break rep t = (b, u)" by fastforce
    have "mach_fit inv acc k u" using mach_fit_break [where t = t and rep = rep and k = k] body rt 1(3) bu by simp
    with 1 rt bu body show ?case
      by (subst (1 2) scas_loop.simps) (auto split: sum.split)
  qed
  then show ?thesis by (simp add: sound_def)
qed

lemma sound_cmps_loop: "sound (mach_fit inv acc k) (cmps_loop M sz stp rep)"
proof -
  have "mach_fit inv acc k (snd (cmps_loop N sz stp rep s)) \<and>
      (\<forall>x. fst (cmps_loop N sz stp rep s) = Inl x \<longrightarrow> benign x)" if "N = M" "mach_fit inv acc k s" for N s
    using that
  proof (induction N sz stp rep s rule: cmps_loop.induct)
    case (1 N sz stp rep s)
    note bodies = sound_string_bodies(5) [where k = k and sz = sz and stp = stp]
    note body = soundD [OF bodies, of s] sound_stop [OF bodies, of s]
    obtain r t where rt: "cmps_body M sz stp s = (r, t)" by fastforce
    obtain b u where bu: "rep_string_break rep t = (b, u)" by fastforce
    have "mach_fit inv acc k u" using mach_fit_break [where t = t and rep = rep and k = k] body rt 1(3) bu by simp
    with 1 rt bu body show ?case
      by (subst (1 2) cmps_loop.simps) (auto split: sum.split)
  qed
  then show ?thesis by (simp add: sound_def)
qed

lemma sound_string: "sound (mach_fit inv acc k) (x_string M op)"
  unfolding x_string_def string_stos_def string_movs_def string_lods_def string_scas_def string_cmps_def
  by (intro sound_intros step_sound sound_string_bodies sound_scas_loop sound_cmps_loop)

lemma mxcsr_masked: "(v AND MXCSR_MASK) AND MXCSR_MASK = v AND MXCSR_MASK"
  by (simp add: ac_simps)

lemma fold_restore_xmm_rflags: "cpu_rflags (fold (restore_xmm buf) is c) = cpu_rflags c"
  by (induction "is" arbitrary: c) (simp_all add: restore_xmm_def)

lemma interp_fit_restore:
  assumes "interp_fit k it"
  shows "interp_fit k (restore_mxcsr buf it)" "interp_fit k (restore_xmm_component buf it)"
    "interp_fit k (restore_fxsave_area buf w it)" "interp_fit k (xrstor_apply buf rfbm bv w it)"
    "interp_fit k (it\<lparr>it_mxcsr := v AND MXCSR_MASK\<rparr>)"
proof -
  have m: "interp_fit k (restore_mxcsr buf it)" if "interp_fit k it" for it
    using that by (simp add: interp_fit_def restore_mxcsr_def mxcsr_masked)
  have x: "interp_fit k (restore_xmm_component buf it)" if "interp_fit k it" for it
    using that by (simp add: interp_fit_def restore_xmm_component_def fold_restore_xmm_rflags)
  have c: "interp_fit k (it\<lparr>it_state := restore_x87_component buf w (it_state it)\<rparr>)" using assms by (simp add: interp_fit_def)
  show "interp_fit k (restore_mxcsr buf it)" "interp_fit k (restore_xmm_component buf it)" using m x assms by auto
  show "interp_fit k (restore_fxsave_area buf w it)" using m x c by (simp add: restore_fxsave_area_def)
  have i: "interp_fit k (it\<lparr>it_state := (it_state it)\<lparr>cpu_x87 := x87_new\<rparr>\<rparr>)"
    "interp_fit k (j\<lparr>it_state := (it_state j)\<lparr>cpu_xmm := z\<rparr>\<rparr>) = interp_fit k j" for j z
    using assms by (simp_all add: interp_fit_def)
  show "interp_fit k (xrstor_apply buf rfbm bv w it)"
    using assms m x c i by (simp add: xrstor_apply_def Let_def)
  show "interp_fit k (it\<lparr>it_mxcsr := v AND MXCSR_MASK\<rparr>)"
    using assms by (simp add: interp_fit_def mxcsr_masked)
qed

lemma sound_xsave:
  "sound (mach_fit inv acc k) (write_avx_component M a)" "sound (mach_fit inv acc k) (read_avx_component M a)"
  unfolding write_avx_component_def read_avx_component_def by (intro sound_intros step_sound)+

lemma sound_xsave_arms:
  "sound (mach_fit inv acc k) (xsave_op M a w)" "sound (mach_fit inv acc k) (xrstor_op M a w)"
  unfolding xsave_op_def xrstor_op_def
  by (intro sound_intros step_sound sound_xsave sound_upd_interp interp_fit_restore; assumption)+

lemma sound_0f_ae: "sound (mach_fit inv acc k) (x_0f_ae M start)"
  unfolding x_0f_ae_def Let_def
  by (intro sound_intros step_sound sound_xsave_arms sound_upd_interp interp_fit_restore; assumption)

lemma sound_get_tsc: "sound (mach_fit inv acc k) get_tsc"
  unfolding get_tsc_def
  by (rule sound_run) (simp add: read_tsc_def mach_fit_def interp_fit_def split: option.split)

lemma sound_edx_eax: "sound (mach_fit inv acc k) (put_edx_eax v)"
  unfolding put_edx_eax_def by (intro sound_intros)

lemma interp_fit_xcr0:
  "interp_fit k it \<Longrightarrow> interp_fit k (it\<lparr>it_xcr0 := (v AND XCR0_SUPPORTED) OR 1\<rparr>)"
proof -
  have "((v AND XCR0_SUPPORTED) OR 1) AND XCR0_SUPPORTED = (v AND XCR0_SUPPORTED) OR 1"
    by (rule bit_word_eqI) (auto simp: XCR0_SUPPORTED_def bit_simps)
  then show "interp_fit k it \<Longrightarrow> ?thesis" by (simp add: interp_fit_def)
qed

lemma sound_bit_op: "sound (mach_fit inv acc k) (bit_op M op sz idx)"
  unfolding bit_op_def Let_def by (intro sound_intros step_sound)

lemma sound_flags_off: "set fs \<subseteq> {CF, PF, AF, ZF, SF, OF} \<Longrightarrow> sound (mach_fit inv acc k) (put_flags_off fs)"
  unfolding put_flags_off_def by (induction fs) (auto simp: sound_simple intro!: sound_bind sound_flags)

lemma sound_0f_arms:
  "sound (mach_fit inv acc k) x_rdtsc" "sound (mach_fit inv acc k) (x_0f_01 M start)"
  "sound (mach_fit inv acc k) x_syscall" "sound (mach_fit inv acc k) (x_cmov M op)"
  "sound (mach_fit inv acc k) (x_jcc_near M op)" "sound (mach_fit inv acc k) (x_setcc M op)"
  "sound (mach_fit inv acc k) (x_imul M)" "sound (mach_fit inv acc k) (x_movzx M op)"
  "sound (mach_fit inv acc k) (x_movsx M op)" "sound (mach_fit inv acc k) (x_shift_double M op)"
  "sound (mach_fit inv acc k) (x_bt M op)" "sound (mach_fit inv acc k) (x_bt_imm M)"
  "sound (mach_fit inv acc k) (x_bit_scan M op)" "sound (mach_fit inv acc k) (x_popcnt M)"
  "sound (mach_fit inv acc k) (x_bswap op)" "sound (mach_fit inv acc k) (x_xadd M op)"
  "sound (mach_fit inv acc k) (x_cmpxchg M op)" "sound (mach_fit inv acc k) (x_0f_c7 M start)"
  unfolding x_rdtsc_def x_0f_01_def x_syscall_def x_cmov_def x_jcc_near_def x_setcc_def x_imul_def
    x_movzx_def x_movsx_def x_shift_double_def x_bt_def x_bt_imm_def x_bit_scan_def x_popcnt_def
    x_bswap_def x_xadd_def x_cmpxchg_def x_0f_c7_def cmpxchg16b_def cmpxchg8b_def Let_def
  by (intro sound_intros step_sound sound_get_tsc sound_edx_eax sound_bit_op sound_flags_off
      sound_upd_interp interp_fit_xcr0; simp)+

lemma sound_mmx_operands:
  "sound (mach_fit inv acc k) (get_mmx i)" "sound (mach_fit inv acc k) (put_mmx i v)"
  "sound (mach_fit inv acc k) (mmx_rm M)" "sound (mach_fit inv acc k) (mmx_store_rm M v)"
  unfolding mmx_rm_def mmx_store_rm_def get_mmx_def put_mmx_def by (intro sound_intros step_sound)+

lemma sound_exec_mmx: "sound (mach_fit inv acc k) (exec_mmx M op)"
  unfolding exec_mmx_def mmx_shift_group_def mmx_movmsk_def Let_def
  by (intro sound_intros step_sound sound_mmx_operands)

section \<open>Prefixes end\<close>

lemma ctx_u8_advances:
  assumes ok: "mach_fit inv acc k s" and u: "ctx_u8 M s = (Inr b, t)"
  shows "cx_cur (mc_ctx s) \<noteq> - 1 \<and> cx_cur (mc_ctx t) = cx_cur (mc_ctx s) + 1"
proof -
  let ?c = "mc_ctx s"
  have inv: "inv (mc_mem s)" using ok by (simp add: mach_fit_def)
  show ?thesis
  proof (cases "unat (cx_cur ?c - cx_ibuf_base ?c) < cx_ibuf_n ?c")
    case True
    then have "acc (mc_mem s) PERM_EXEC (cx_ibuf_base ?c) IBUF_LEN"
        "unat (cx_cur ?c - cx_ibuf_base ?c) < IBUF_LEN"
      using ok by (auto simp: mach_fit_def ibuf_ok_def)
    from acc_no_wrap [OF inv this(1) _ this(2)] have "cx_cur ?c \<noteq> - 1" by (simp add: IBUF_LEN_def)
    with u True show ?thesis
      by (auto simp: ctx_u8_def ctx_take_def Let_def em_bind_def mach_laws em_apply)
  next
    case False
    then have slow: "ctx_u8 M s = ctx_u8_slow M s"
      by (simp add: ctx_u8_def ctx_take_def Let_def em_bind_def mach_laws em_apply)
    obtain r m where f: "mo_fetch M (cx_cur ?c) 1 (mc_mem s) = (r, m)" by fastforce
    have "acc (mc_mem s) PERM_EXEC (cx_cur ?c) 1"
      using fetch_err [OF inv, of 1 "cx_cur ?c"] f u [unfolded slow]
      by (cases "acc (mc_mem s) PERM_EXEC (cx_cur ?c) 1")
        (auto simp: ctx_u8_slow_def em_bind_def mach_laws em_apply)
    then have "cx_cur ?c \<noteq> - 1" using top_unmapped [OF inv] by auto
    with f u [unfolded slow] show ?thesis
      by (auto simp: ctx_u8_slow_def em_bind_def mach_laws em_apply split: sum.splits)
  qed
qed

lemma prefix_loop_sound:
  assumes "mach_fit inv acc k s" "2 ^ 64 \<le> n + unat (cx_cur (mc_ctx s))"
  shows "mach_fit inv acc k (snd (prefix_loop M n s)) \<and> (\<forall>x. fst (prefix_loop M n s) = Inl x \<longrightarrow> benign x)"
  using assms
proof (induction n arbitrary: s)
  case 0
  then show ?case using unat_bound64 [of "cx_cur (mc_ctx s)"] by simp
next
  case (Suc n)
  note u8 = soundD [OF sound_ctx_u8 Suc.prems(1)] sound_stop [OF sound_ctx_u8 Suc.prems(1)]
  obtain r t where rt: "ctx_u8 M s = (r, t)" by fastforce
  show ?case
  proof (cases r)
    case (Inl x)
    with rt u8 show ?thesis by (simp add: em_bind_def)
  next
    case (Inr b)
    have t: "mach_fit inv acc k t" using u8(1) rt by simp
    have adv: "cx_cur (mc_ctx s) \<noteq> - 1" "cx_cur (mc_ctx t) = cx_cur (mc_ctx s) + 1"
      using ctx_u8_advances [OF Suc.prems(1)] rt Inr by auto
    then have "unat (cx_cur (mc_ctx t)) = Suc (unat (cx_cur (mc_ctx s)))"
      using unatSuc [of "cx_cur (mc_ctx s)"] by (simp add: add.commute add_eq_0_iff)
    then have n: "2 ^ 64 \<le> n + unat (cx_cur (mc_ctx t))" using Suc.prems(2) by simp
    have step: "mach_fit inv acc k (t\<lparr>mc_ctx := (mc_ctx t)\<lparr>cx_pfx := p\<rparr>\<rparr>)"
      "mach_fit inv acc k (t\<lparr>mc_ctx := (mc_ctx t)\<lparr>cx_cur := a\<rparr>\<rparr>)" for p a
      using t by (simp_all add: mach_fit_def ibuf_ok_def)
    from rt Inr Suc.IH [OF step(1)] n step show ?thesis
      by (auto simp: em_bind_def mach_laws upd_pfx_def split: option.split)
  qed
qed

lemma sound_read_prefixes: "sound (mach_fit inv acc k) (read_prefixes M)"
  unfolding sound_def read_prefixes_def
proof (intro allI impI)
  fix s assume "mach_fit inv acc k s"
  from prefix_loop_sound [OF this, of "2 ^ 64 - unat (cx_cur (mc_ctx s))"]
  show "mach_fit inv acc k (snd (em_bind (ctx cx_cur) (\<lambda>cur. prefix_loop M (2 ^ 64 - unat cur)) s)) \<and>
      (\<forall>x. fst (em_bind (ctx cx_cur) (\<lambda>cur. prefix_loop M (2 ^ 64 - unat cur)) s) = Inl x \<longrightarrow> benign x)"
    using unat_bound64 [of "cx_cur (mc_ctx s)"] by (simp add: em_bind_def mach_laws)
qed

end

section \<open>The units behind the dispatch\<close>

definition units_sound :: "('m mach \<Rightarrow> bool) \<Rightarrow> 'm ext_units \<Rightarrow> bool" where
  "units_sound P U \<longleftrightarrow> (\<forall>op. sound P (eu_x87 U op) \<and> sound P (eu_sse U op) \<and>
     sound P (eu_sse_0f38 U op) \<and> sound P (eu_sse_0f3a U op)) \<and> (\<forall>b. sound P (eu_vex U b))"

lemma units_soundD:
  assumes "units_sound P U"
  shows "sound P (eu_x87 U op)" "sound P (eu_sse U op)" "sound P (eu_sse_0f38 U op)"
    "sound P (eu_sse_0f3a U op)" "sound P (eu_vex U b)"
  using assms by (auto simp: units_sound_def)

section \<open>One instruction\<close>

context bounded_memory
begin

lemma sound_exec_0f:
  assumes "units_sound (mach_fit inv acc k) U"
  shows "sound (mach_fit inv acc k) (exec_0f U M op2 start)"
  unfolding exec_0f_def exec_0f_match_def x_0f_38_def x_movbe_def x_adx_def Let_def
  by (intro sound_intros step_sound sound_0f_arms sound_0f_ae sound_exec_mmx units_soundD [OF assms])

lemma sound_x_vex:
  assumes "units_sound (mach_fit inv acc k) U"
  shows "sound (mach_fit inv acc k) (x_vex U M op start)"
  unfolding x_vex_def by (intro sound_intros step_sound units_soundD [OF assms])

lemma sound_dispatch:
  assumes "units_sound (mach_fit inv acc k) U"
  shows "sound (mach_fit inv acc k) (dispatch U M op start)"
  unfolding dispatch_def dispatch_low_def dispatch_high_def
  by (intro sound_intros step_sound sound_data_arms sound_control_arms sound_arith_arms sound_group3
      sound_string sound_exec_0f sound_x_vex units_soundD [OF assms] assms)

lemma start_instruction_ok:
  assumes ok: "at_rest inv k s"
  shows "\<exists>t. start_instruction M s = (Inr (), t) \<and> mach_fit inv acc k t"
proof -
  let ?a = "cpu_rip (it_state (mc_it s))"
  obtain r m where f: "mo_fetch M ?a IBUF_LEN (mc_mem s) = (r, m)" by fastforce
  have inv: "inv (mc_mem s)" using ok by (simp add: at_rest_def)
  have "inv m" "acc m = acc (mc_mem s)" using fetch_keeps [OF inv, of ?a IBUF_LEN] f by auto
  moreover have "acc (mc_mem s) PERM_EXEC ?a IBUF_LEN" if "r = Inr b" for b
    using fetch_err [OF inv, of IBUF_LEN ?a] f that by (auto simp: IBUF_LEN_def)
  ultimately show ?thesis
    using ok f by (cases r)
      (auto simp: start_instruction_def em_apply prefetch_def mach_fit_def at_rest_def ibuf_ok_def fresh_ctx_def)
qed

lemma execute_one_fit:
  assumes "units_sound (mach_fit inv acc k) U" "at_rest inv k s"
  shows "mach_fit inv acc k (snd (execute_one U M s)) \<and> (\<forall>x. fst (execute_one U M s) = Inl x \<longrightarrow> benign x)"
proof -
  obtain t where t: "start_instruction M s = (Inr (), t)" "mach_fit inv acc k t"
    using start_instruction_ok [OF assms(2)] by blast
  have rest: "sound (mach_fit inv acc k) (em_bind (read_prefixes M) (\<lambda>_.
      em_bind (ctx_u8 M) (\<lambda>opcode. run_arm (dispatch U M opcode start))))" for start
    unfolding run_arm_def
    by (intro sound_intros sound_read_prefixes step_sound sound_dispatch [OF assms(1)])
  show ?thesis
    using soundD [OF rest t(2)] sound_stop [OF rest t(2)]
    by (simp add: execute_one_def em_bind_def [of "cpu cpu_rip"] em_bind_def [of "start_instruction M"] mach_laws t(1))
qed

lemma execute_one_ok:
  assumes "units_sound (mach_ok inv acc k) U" "at_boundary inv k s"
  shows "mach_ok inv acc k (snd (execute_one U M s)) \<and> (\<forall>x. fst (execute_one U M s) = Inl x \<longrightarrow> benign x)"
  using execute_one_fit assms unfolding fit_ok .

end

end
