(* ===== verification/Decode_Laws.thy ===== *)
theory Decode_Laws
  imports Step_Sound Memory_Theorems
begin


text \<open>
  Runs of the interpreter, and what decoding reads.

  What holds of every instruction and every run on \<open>VirtualMemory\<close>, by the interpretation of the
  memory contract.
\<close>

section \<open>Runs\<close>

inductive cpu_runs ::
    "('h, 'm) hooks \<Rightarrow> 'm ext_units \<Rightarrow> 'm memory_ops \<Rightarrow> nat \<Rightarrow> ('h, 'm) runner \<Rightarrow> ('h, 'm) runner \<Rightarrow> bool"
  for H U M where
  start: "cpu_runs H U M 0 r r"
| step: "cpu_runs H U M n r s \<Longrightarrow> cpu_step H U M s = (Inr e, t) \<Longrightarrow> cpu_runs H U M (Suc n) r t"

inductive_cases cpu_runs_0E: "cpu_runs H U M 0 r s"
inductive_cases cpu_runs_SucE: "cpu_runs H U M (Suc n) r s"

definition runner_ok :: "('m \<Rightarrow> bool) \<Rightarrow> clock \<Rightarrow> ('h, 'm) runner \<Rightarrow> bool" where
  "runner_ok minv k r \<longleftrightarrow> at_boundary minv k (rn_mach r)"

definition hooks_sound :: "('m \<Rightarrow> bool) \<Rightarrow> ('h, 'm) hooks \<Rightarrow> bool" where
  \<comment> \<open>the hooks keep the invariant, return, and leave the clock alone\<close>
  "hooks_sound minv H \<longleftrightarrow> (\<forall>k a i.
     sound (runner_ok minv k) (with_world (hk_intercept H a)) \<and>
     sound (runner_ok minv k) (with_world (hk_syscall H i)))"

lemma hooks_soundD:
  assumes "hooks_sound minv H"
  shows "sound (runner_ok minv k) (with_world (hk_intercept H a))"
    "sound (runner_ok minv k) (with_world (hk_syscall H i))"
  using assms by (auto simp: hooks_sound_def)

lemma with_world_return [simp]: "with_world (em_return a) r = (Inr a, r)"
  by (simp add: with_world_def em_apply Let_def)

lemma hooks_sound_none: "hooks_sound minv no_hooks"
  by (simp add: hooks_sound_def sound_def no_hooks_def)

lemma sound_case_exit [sound_intros]:
  "(\<And>i. sound_for B P (f i)) \<Longrightarrow> (\<And>e. sound_for B P (g e)) \<Longrightarrow>
    sound_for B P (case e of Syscall i \<Rightarrow> f i | _ \<Rightarrow> g e)"
  by (cases e) simp_all

context bounded_memory
begin

lemma sound_with_mach_execute:
  assumes "units_sound (mach_ok inv acc k) U"
  shows "sound (runner_ok inv k) (with_mach (execute_one U M))"
  using execute_one_ok [OF assms] mach_ok_boundary [of inv acc k]
  by (auto intro!: soundI simp: with_mach_def runner_ok_def case_prod_beta)

lemma cpu_step_ok:
  assumes H: "hooks_sound inv H" and U: "units_sound (mach_ok inv acc (retire_one k)) U"
    and r: "runner_ok inv k r"
  shows "runner_ok inv (retire_one k) (snd (cpu_step H U M r)) \<and>
    (\<forall>x. fst (cpu_step H U M r) = Inl x \<longrightarrow> benign x)"
proof -
  let ?r = "r\<lparr>rn_mach := (rn_mach r)\<lparr>mc_it := (mc_it (rn_mach r))\<lparr>it_clock := retire_one k\<rparr>\<rparr>\<rparr>"
  let ?rest = "em_bind (em_get (\<lambda>r. cpu_rip (it_state (mc_it (rn_mach r))))) (\<lambda>rip.
     em_bind (with_world (hk_intercept H rip)) (\<lambda>i.
     case i of
       Some exit \<Rightarrow> em_return exit
     | None \<Rightarrow>
         em_bind (with_mach (execute_one U M)) (\<lambda>e.
         case e of
           Syscall index \<Rightarrow> with_world (hk_syscall H index)
         | _ \<Rightarrow> em_return e)))"
  have k: "it_clock (mc_it (rn_mach r)) = k" using r by (simp add: runner_ok_def at_boundary_def interp_ok_def)
  have eq: "cpu_step H U M r = ?rest ?r"
    unfolding cpu_step_def
    by (rule em_bind_Inr) (simp add: with_mach_def mach_laws k)
  have "runner_ok inv (retire_one k) ?r"
    using r by (simp add: runner_ok_def at_boundary_def interp_ok_def)
  moreover have "sound (runner_ok inv (retire_one k)) ?rest"
    by (intro sound_intros hooks_soundD [OF H] sound_with_mach_execute [OF U])
  ultimately show ?thesis unfolding eq by (simp add: sound_def)
qed

lemma cpu_runs_ok:
  assumes "cpu_runs H U M n r s" "hooks_sound inv H" "\<And>k. units_sound (mach_ok inv acc k) U" "runner_ok inv k r"
  shows "runner_ok inv ((retire_one ^^ n) k) s"
  using assms
proof (induction rule: cpu_runs.induct)
  case (step n r s e t)
  then show ?case using cpu_step_ok [OF step.prems(1) step.prems(2), of "(retire_one ^^ n) k" s] by simp
qed simp

end

text \<open>
  Hooks reach the registers, the clock and the memory. Under hooks that only keep the invariant of
  the memory, a step keeps memory, MXCSR and XCR0 well-formed; it stops with what a hook stops with,
  with an error, or with a division that overflows.
\<close>

definition world_ok :: "('m \<Rightarrow> bool) \<Rightarrow> ('h, 'm) world \<Rightarrow> bool" where
  "world_ok minv w \<longleftrightarrow> minv (snd (snd (snd w)))"

definition hooks_keep :: "(stop \<Rightarrow> bool) \<Rightarrow> ('m \<Rightarrow> bool) \<Rightarrow> ('h, 'm) hooks \<Rightarrow> bool" where
  \<comment> \<open>the hooks keep the invariant of the memory, and stop only with \<open>B\<close>\<close>
  "hooks_keep B minv H \<longleftrightarrow> (\<forall>a i.
     sound_for B (world_ok minv) (hk_intercept H a) \<and> sound_for B (world_ok minv) (hk_syscall H i))"

definition runner_fit :: "('m \<Rightarrow> bool) \<Rightarrow> ('h, 'm) runner \<Rightarrow> bool" where
  "runner_fit minv r \<longleftrightarrow> at_rest minv None (rn_mach r)"

lemma runner_fit_ok: "runner_ok minv k r \<Longrightarrow> runner_fit minv r"
  by (simp add: runner_ok_def runner_fit_def at_boundary_def at_rest_def interp_ok_def interp_fit_def)

lemma sound_world:
  fixes f :: "(('h, 'm) world, 'a) em"
  assumes "sound_for B (world_ok minv) f"
  shows "sound_for B (runner_fit minv) (with_world f)"
proof (rule soundI)
  fix r :: "('h, 'm) runner" and x assume r: "runner_fit minv r"
  let ?w = "(rn_hooks r, it_state (mc_it (rn_mach r)), it_clock (mc_it (rn_mach r)), mc_mem (rn_mach r))"
  have w: "world_ok minv ?w" using r by (simp add: world_ok_def runner_fit_def at_rest_def)
  obtain y h c k m where f: "f ?w = (y, h, c, k, m)" by (metis prod.exhaust)
  show "runner_fit minv (snd (with_world f r))"
    using soundD [OF assms w] r f by (simp add: with_world_def Let_def runner_fit_def at_rest_def interp_fit_def world_ok_def)
  show "fst (with_world f r) = Inl x \<Longrightarrow> B x"
    using sound_stop [OF assms w] f by (simp add: with_world_def Let_def)
qed

context bounded_memory
begin

lemma cpu_step_fit:
  assumes H: "hooks_keep B inv H" and B: "\<And>x. benign x \<Longrightarrow> B x" and U: "units_sound (mach_fit inv acc None) U"
  shows "sound_for B (runner_fit inv) (cpu_step H U M)"
proof -
  have weaken: "sound P f \<Longrightarrow> sound_for B P f" for P and f :: "(('b, 'a) runner, 'c) em"
    using B by (auto simp: sound_for_def)
  have "sound (runner_fit inv) (with_mach (execute_one U M))"
    using execute_one_fit [OF U] mach_fit_rest [of inv acc None]
    by (auto intro!: soundI simp: with_mach_def runner_fit_def case_prod_beta)
  moreover have "sound (runner_fit inv) (with_mach (upd_interp (\<lambda>it. it\<lparr>it_clock := f it\<rparr>)))" for f
    by (auto intro!: soundI simp: with_mach_def runner_fit_def at_rest_def interp_fit_def mach_laws)
  ultimately show ?thesis
    unfolding cpu_step_def
    by (intro sound_intros sound_world weaken) (use H in \<open>auto simp: hooks_keep_def\<close>)
qed

lemma cpu_runs_fit:
  assumes "cpu_runs H U M n r s" "hooks_keep B inv H" "\<And>x. benign x \<Longrightarrow> B x" "units_sound (mach_fit inv acc None) U"
    "runner_fit inv r"
  shows "runner_fit inv s"
  using assms
proof (induction rule: cpu_runs.induct)
  case (step n r s e t)
  then show ?case using soundD [OF cpu_step_fit [OF step.prems(1-3)], of s] by simp
qed simp

end

lemma instret_retire: "ck_virtualized k \<Longrightarrow> ck_instret ((retire_one ^^ n) k) = ck_instret k + of_nat n \<and>
    ck_virtualized ((retire_one ^^ n) k)"
  by (induction n) (simp_all add: retire_one_def algebra_simps)

section \<open>A machine for concrete runs\<close>

definition no_units :: "'m ext_units" where
  "no_units = \<lparr>eu_x87 = (\<lambda>op. em_fail (Unsupported ''x87'')), eu_vex = (\<lambda>b. em_fail (Unsupported ''vex'')),
     eu_sse = (\<lambda>op. em_fail (Unsupported ''sse'')), eu_sse_0f38 = (\<lambda>op. em_fail (Unsupported ''0f38'')),
     eu_sse_0f3a = (\<lambda>op. em_fail (Unsupported ''0f3a''))\<rparr>"

lemma units_sound_none: "units_sound P no_units"
  by (simp add: units_sound_def no_units_def sound_intros)

definition boot :: "u64 \<Rightarrow> vmem \<Rightarrow> vmem mach" where
  \<comment> \<open>a fresh 64-bit interpreter about to run at \<open>rip\<close>\<close>
  "boot rip m = \<lparr>mc_it = interp_with_state (cpu_state_new\<lparr>cpu_rip := rip\<rparr>),
     mc_ctx = fresh_ctx (interp_with_bits B64) [] 0, mc_mem = m\<rparr>"

lemma boot_ok: "vm_ok m \<Longrightarrow> at_boundary vm_ok (clock_new False) (boot rip m)"
  using interp_ok_new [of B64]
  by (simp add: at_boundary_def boot_def interp_ok_def interp_with_state_def interp_with_bits_def cpu_state_new_def)

section \<open>Properties\<close>

text \<open>
  C9: Whatever bytes lie at \<open>rip\<close>, executing one instruction on \<open>VirtualMemory\<close> comes to an
  end: also an endless sequence of prefixes runs out of executable memory. Whether it succeeds or
  fails it leaves memory, RFLAGS (bit 1 set, no reserved bit), MXCSR and XCR0 well-formed and the
  clock alone, and the only panic it can have is a division that overflows. The vector and x87
  units have to keep the same invariant.
\<close>

theorem instruction_safe:
  assumes "at_boundary vm_ok k s" "units_sound (mach_ok vm_ok vm_acc k) U"
  shows "at_boundary vm_ok k (snd (execute_one U (vm_ops alloc) s)) \<and>
    fst (execute_one U (vm_ops alloc) s) \<noteq> Inl Loops \<and>
    (fst (execute_one U (vm_ops alloc) s) = Inl (Panic why) \<longrightarrow> why = ''attempt to divide with overflow'')"
  using vtop.execute_one_ok [OF assms(2,1), where alloc = alloc] mach_ok_boundary [of vm_ok vm_acc k]
  by (auto simp: benign_def)

theorem instruction_safe_witness:
  "fst (execute_one no_units (vm_ops (\<lambda>_. True)) (boot 0x400000 demo_vm)) \<noteq> Inl Loops"
  using instruction_safe [OF boot_ok [OF demo_vm_ok] units_sound_none] by blast

text \<open>
  The instruction stream: reading through the 16-byte prefetch buffer gives the bytes that memory
  holds, across the end of the buffer and across region boundaries, and an instruction whose
  first byte is no prefix is dispatched on that byte.
\<close>

section \<open>The buffer\<close>

definition stream_ok ::
    "('m \<Rightarrow> space) \<Rightarrow> ('m \<Rightarrow> perm \<Rightarrow> u64 \<Rightarrow> nat \<Rightarrow> bool) \<Rightarrow> 'm mach \<Rightarrow> bool" where
  \<comment> \<open>a filled buffer holds what executable memory holds\<close>
  "stream_ok sp macc s \<longleftrightarrow> cx_ibuf_n (mc_ctx s) = 0 \<or>
     cx_ibuf_n (mc_ctx s) = IBUF_LEN \<and> macc (mc_mem s) PERM_EXEC (cx_ibuf_base (mc_ctx s)) IBUF_LEN \<and>
     cx_ibuf (mc_ctx s) = bytes_at (sp (mc_mem s)) (cx_ibuf_base (mc_ctx s)) IBUF_LEN"

definition cursor :: "'m mach \<Rightarrow> u64" where
  "cursor s = cx_cur (mc_ctx s)"

definition move :: "u64 \<Rightarrow> 'm mach \<Rightarrow> 'm mach" where
  "move a s = s\<lparr>mc_ctx := (mc_ctx s)\<lparr>cx_cur := a\<rparr>\<rparr>"

lemma move_simps [simp]:
  "cursor (move a s) = a" "mc_it (move a s) = mc_it s" "mc_mem (move a s) = mc_mem s"
  "move a (move b s) = move a s" "move (cursor s) s = s"
  "stream_ok sp macc (move a s) = stream_ok sp macc s"
  by (simp_all add: cursor_def move_def stream_ok_def)

definition all_exec :: "('m \<Rightarrow> perm \<Rightarrow> u64 \<Rightarrow> nat \<Rightarrow> bool) \<Rightarrow> 'm \<Rightarrow> u64 \<Rightarrow> nat \<Rightarrow> bool" where
  "all_exec macc m a n \<longleftrightarrow> (\<forall>i < n. macc m PERM_EXEC (a + of_nat i) 1)"

lemma all_exec_Suc: "all_exec macc m a (Suc n) \<longleftrightarrow> macc m PERM_EXEC a 1 \<and> all_exec macc m (a + 1) n"
  by (auto simp: all_exec_def less_Suc_eq_0_disj ac_simps)

lemma subslice_bytes_at:
  "k + n \<le> l \<Longrightarrow> subslice (bytes_at sp a l) k (k + n) = bytes_at sp (a + of_nat k) n"
  by (rule nth_equalityI) (simp_all add: nth_subslice ac_simps)

lemma in_buffer:
  assumes "unat (c - base) < IBUF_LEN - (n - 1)" "0 < n" "n \<le> IBUF_LEN"
  obtains k where "k = unat (c - base)" "k + n \<le> IBUF_LEN" "c = base + of_nat k"
proof (rule that [OF refl])
  show "unat (c - base) + n \<le> IBUF_LEN" using assms by linarith
qed simp

definition stream_read ::
    "('m \<Rightarrow> bool) \<Rightarrow> ('m \<Rightarrow> space) \<Rightarrow> ('m \<Rightarrow> perm \<Rightarrow> u64 \<Rightarrow> nat \<Rightarrow> bool) \<Rightarrow> nat \<Rightarrow> 'm mach \<Rightarrow>
      (stop + bytes) \<times> 'm mach \<Rightarrow> bool" where
  \<comment> \<open>the outcome of reading \<open>n\<close> bytes of the instruction stream\<close>
  "stream_read minv sp macc n s = (\<lambda>(r, t). same_view minv sp macc (mc_mem s) (mc_mem t) \<and> mc_it t = mc_it s \<and>
     (if all_exec macc (mc_mem s) (cursor s) n
      then r = Inr (bytes_at (sp (mc_mem s)) (cursor s) n) \<and>
        t = move (cursor s + of_nat n) (s\<lparr>mc_mem := mc_mem t\<rparr>)
      else \<exists>e. r = Inl (Err e)))"

context guest_memory
begin

lemma ctx_take_exact:
  assumes ok: "stream_ok space acc s" and inv: "inv (mc_mem s)" and n: "0 < n" "n \<le> IBUF_LEN"
  obtains (hit) "ctx_take n s = (Inr (Some (bytes_at (space (mc_mem s)) (cursor s) n)), move (cursor s + of_nat n) s)"
      "acc (mc_mem s) PERM_EXEC (cursor s) n"
    | (miss) "ctx_take n s = (Inr None, s)"
proof (cases "unat (cursor s - cx_ibuf_base (mc_ctx s)) < cx_ibuf_n (mc_ctx s) - (n - 1)")
  case True
  with ok have b: "cx_ibuf_n (mc_ctx s) = IBUF_LEN" "acc (mc_mem s) PERM_EXEC (cx_ibuf_base (mc_ctx s)) IBUF_LEN"
    "cx_ibuf (mc_ctx s) = bytes_at (space (mc_mem s)) (cx_ibuf_base (mc_ctx s)) IBUF_LEN"
    by (auto simp: stream_ok_def)
  obtain k where k: "k = unat (cursor s - cx_ibuf_base (mc_ctx s))" "k + n \<le> IBUF_LEN"
    "cursor s = cx_ibuf_base (mc_ctx s) + of_nat k"
    using in_buffer [OF _ n] True b(1) by metis
  have "acc (mc_mem s) PERM_EXEC (cursor s) n" unfolding k(3) using acc_sub [OF inv b(2) n(1) k(2)] .
  moreover have "ctx_take n s =
      (Inr (Some (bytes_at (space (mc_mem s)) (cursor s) n)), move (cursor s + of_nat n) s)"
    using True subslice_bytes_at [OF k(2), of "space (mc_mem s)" "cx_ibuf_base (mc_ctx s)"]
    by (simp add: ctx_take_def em_bind_def mach_laws em_apply Let_def cursor_def move_def b(3) k(1))
  ultimately show thesis by (rule hit [rotated])
next
  case False
  then have "ctx_take n s = (Inr None, s)"
    by (simp add: ctx_take_def em_bind_def mach_laws em_apply Let_def cursor_def)
  then show thesis by (rule miss)
qed

lemma stream_readI:
  assumes "same_view inv space acc (mc_mem s) m"
    "all_exec acc (mc_mem s) (cursor s) n \<Longrightarrow>
      r = Inr (bytes_at (space (mc_mem s)) (cursor s) n) \<and> t = move (cursor s + of_nat n) (s\<lparr>mc_mem := m\<rparr>)"
    "\<not> all_exec acc (mc_mem s) (cursor s) n \<Longrightarrow> (\<exists>e. r = Inl (Err e)) \<and> mc_mem t = m \<and> mc_it t = mc_it s"
  shows "stream_read inv space acc n s (r, t)"
  using assms by (auto simp: stream_read_def)

lemma all_exec_1: "all_exec acc m a 1 \<longleftrightarrow> acc m PERM_EXEC a 1"
  by (simp add: all_exec_def)

lemma one_le_buffer: "1 \<le> IBUF_LEN"
  by (simp add: IBUF_LEN_def)

lemma ctx_u8_exact:
  assumes ok: "stream_ok space acc s" and inv: "inv (mc_mem s)"
  shows "stream_read inv space acc 1 s (case ctx_u8 M s of (r, t) \<Rightarrow> (map_sum id (\<lambda>b. [b]) r, t))"
  using ok inv zero_less_one one_le_buffer
proof (cases rule: ctx_take_exact)
  case hit
  have "ctx_u8 M s = (Inr (snd (the (space (mc_mem s) (cursor s)))), move (cursor s + of_nat 1) s)"
    unfolding ctx_u8_def em_bind_def hit(1) by (simp add: em_apply bytes_at_def)
  moreover have "s\<lparr>mc_mem := mc_mem s\<rparr> = s" by simp
  ultimately show ?thesis using hit(2) all_exec_1 same_view_refl [OF inv]
    by (simp only: prod.case map_sum.simps) (rule stream_readI [of _ "mc_mem s"]; simp add: bytes_at_def all_exec_def)
next
  case miss
  obtain r m where f: "mo_fetch M (cursor s) 1 (mc_mem s) = (r, m)" by fastforce
  have view: "same_view inv space acc (mc_mem s) m"
    using fetch_keeps [OF inv, of "cursor s" 1] f by (simp add: same_view_def)
  have u8: "ctx_u8 M s = (case r of Inl x \<Rightarrow> (Inl x, s\<lparr>mc_mem := m\<rparr>)
      | Inr b \<Rightarrow> (Inr (b ! 0), move (cursor s + 1) (s\<lparr>mc_mem := m\<rparr>)))"
    using f unfolding ctx_u8_def em_bind_def [of "ctx_take 1"] miss
    by (simp add: ctx_u8_slow_def em_bind_def mach_laws em_apply cursor_def move_def split: sum.split)
  show ?thesis
  proof (cases "acc (mc_mem s) PERM_EXEC (cursor s) 1")
    case True
    then have "r = Inr (bytes_at (space (mc_mem s)) (cursor s) 1)"
      using fetch_ok [OF inv, of 1 "cursor s"] f by simp
    with True view show ?thesis
      by (simp only: u8 sum.case prod.case map_sum.simps bytes_at_1)
        (rule stream_readI [of _ m]; simp add: all_exec_def bytes_at_def)
  next
    case False
    then obtain e where "r = Inl (Err e)" using fetch_err [OF inv, of 1 "cursor s"] f by auto
    with False view show ?thesis
      by (simp only: u8 sum.case prod.case map_sum.simps) (rule stream_readI [of _ m]; simp add: all_exec_1 [simplified])
  qed
qed

lemma stream_ok_view:
  "same_view inv space acc (mc_mem s) m \<Longrightarrow> stream_ok space acc (s\<lparr>mc_mem := m\<rparr>) = stream_ok space acc s"
  by (simp add: stream_ok_def same_view_def)

lemma stream_read_cons:
  assumes "stream_read inv space acc 1 s (r, t)" "r = Inr [b]" "stream_read inv space acc n t (r', u)"
    "\<And>bs. r' = Inr bs \<Longrightarrow> r'' = Inr (b # bs)" "\<And>x. r' = Inl x \<Longrightarrow> r'' = Inl x"
  shows "stream_read inv space acc (Suc n) s (r'', u)"
proof -
  from assms(1,2) have acc: "acc (mc_mem s) PERM_EXEC (cursor s) 1"
    and t: "t = move (cursor s + 1) (s\<lparr>mc_mem := mc_mem t\<rparr>)" and b: "b = snd (the (space (mc_mem s) (cursor s)))"
    and view: "same_view inv space acc (mc_mem s) (mc_mem t)"
    by (auto simp: stream_read_def all_exec_def bytes_at_def split: if_splits)
  have c: "cursor t = cursor s + 1" and it: "mc_it t = mc_it s"
    using arg_cong [OF t, of cursor] arg_cong [OF t, of mc_it] by simp_all
  have A: "all_exec acc (mc_mem s) (cursor s) (Suc n) = all_exec acc (mc_mem t) (cursor t) n"
    using acc view unfolding all_exec_Suc by (simp add: c same_view_def all_exec_def)
  have S: "bytes_at (space (mc_mem s)) (cursor s) (Suc n) = b # bytes_at (space (mc_mem t)) (cursor t) n"
    using view by (simp add: bytes_at_Suc b c same_view_def)
  have view': "same_view inv space acc (mc_mem s) (mc_mem u)"
    using assms(3) view same_view_trans by (auto simp: stream_read_def)
  show ?thesis
  proof (rule stream_readI [OF view'])
    assume "all_exec acc (mc_mem s) (cursor s) (Suc n)"
    with assms(3) A have "r' = Inr (bytes_at (space (mc_mem t)) (cursor t) n)"
      "u = move (cursor t + of_nat n) (t\<lparr>mc_mem := mc_mem u\<rparr>)"
      by (auto simp: stream_read_def)
    moreover have "move (cursor t + of_nat n) (t\<lparr>mc_mem := m\<rparr>) = move (cursor s + of_nat (Suc n)) (s\<lparr>mc_mem := m\<rparr>)" for m
      by (subst t) (simp add: move_def c ac_simps)
    ultimately show "r'' = Inr (bytes_at (space (mc_mem s)) (cursor s) (Suc n)) \<and>
        u = move (cursor s + of_nat (Suc n)) (s\<lparr>mc_mem := mc_mem u\<rparr>)"
      using assms(4) S by auto
  next
    assume "\<not> all_exec acc (mc_mem s) (cursor s) (Suc n)"
    with assms(3,5) A it show "(\<exists>e. r'' = Inl (Err e)) \<and> mc_mem u = mc_mem u \<and> mc_it u = mc_it s"
      by (auto simp: stream_read_def)
  qed
qed

lemma stream_read_ok:
  assumes "stream_read inv space acc n s (r, t)" "stream_ok space acc s" "r = Inr bs"
  shows "stream_ok space acc t \<and> inv (mc_mem t)"
proof -
  have view: "same_view inv space acc (mc_mem s) (mc_mem t)"
    and t: "t = move (cursor s + of_nat n) (s\<lparr>mc_mem := mc_mem t\<rparr>)"
    using assms(1,3) by (auto simp: stream_read_def split: if_splits)
  have "stream_ok space acc (move (cursor s + of_nat n) (s\<lparr>mc_mem := mc_mem t\<rparr>))"
    using assms(2) stream_ok_view [OF view] by simp
  then show ?thesis using view t by (auto simp: same_view_def)
qed

lemma ctx_bytes_exact:
  assumes "stream_ok space acc s" "inv (mc_mem s)"
  shows "stream_read inv space acc n s (ctx_bytes M n s)"
  using assms
proof (induction n arbitrary: s)
  case 0
  then show ?case using same_view_refl by (simp add: em_apply stream_read_def all_exec_def)
next
  case (Suc n)
  obtain r t where rt: "ctx_u8 M s = (r, t)" by fastforce
  have one: "stream_read inv space acc 1 s (map_sum id (\<lambda>b. [b]) r, t)"
    using ctx_u8_exact [OF Suc.prems] rt by simp
  show ?case
  proof (cases r)
    case (Inl x)
    then have "ctx_bytes M (Suc n) s = (Inl x, t)" using rt by (simp add: em_bind_def)
    with one Inl show ?thesis
      by (auto simp: stream_read_def all_exec_Suc [of _ _ _ n] all_exec_1 [simplified] split: if_splits)
  next
    case (Inr b)
    obtain r' u where ru: "ctx_bytes M n t = (r', u)" by fastforce
    have "stream_read inv space acc n t (r', u)"
      using Suc.IH [of t] stream_read_ok [OF one Suc.prems(1)] Inr ru by simp
    from stream_read_cons [OF one _ this, of b] Inr rt ru show ?thesis
      by (cases r') (auto simp: em_bind_def em_apply)
  qed
qed

lemma ctx_uint_exact:
  assumes "stream_ok space acc s" "inv (mc_mem s)" "0 < n" "n \<le> IBUF_LEN"
  shows "stream_read inv space acc n s (ctx_uint M n s)"
  using assms
proof (cases rule: ctx_take_exact)
  case hit
  have "all_exec acc (mc_mem s) (cursor s) n"
    unfolding all_exec_def using acc_sub [OF assms(2) hit(2), of 1] by simp
  with hit(1) show ?thesis using same_view_refl [OF assms(2)]
    by (simp add: stream_read_def ctx_uint_def em_bind_def em_apply)
next
  case miss
  then have "ctx_uint M n s = ctx_bytes M n s" by (simp add: ctx_uint_def em_bind_def)
  then show ?thesis using ctx_bytes_exact [OF assms(1,2), of n] by simp
qed

lemma all_exec_acc: "inv m \<Longrightarrow> acc m PERM_EXEC a n \<Longrightarrow> all_exec acc m a n"
  unfolding all_exec_def using acc_sub [of m PERM_EXEC a n 1] by simp

lemma stream_ok_start:
  assumes inv: "inv (mc_mem s)"
  shows "stream_ok space acc (snd (start_instruction M s)) \<and>
    cursor (snd (start_instruction M s)) = cpu_rip (it_state (mc_it s)) \<and>
    same_view inv space acc (mc_mem s) (mc_mem (snd (start_instruction M s)))"
proof -
  let ?a = "cpu_rip (it_state (mc_it s))"
  obtain r m where f: "mo_fetch M ?a IBUF_LEN (mc_mem s) = (r, m)" by fastforce
  have m: "inv m" "space m = space (mc_mem s)" "acc m = acc (mc_mem s)"
    using fetch_keeps [OF inv, of ?a IBUF_LEN] f by auto
  have "acc (mc_mem s) PERM_EXEC ?a IBUF_LEN \<and> b = bytes_at (space (mc_mem s)) ?a IBUF_LEN" if "r = Inr b" for b
    using fetch_err [OF inv, of IBUF_LEN ?a] fetch_ok [OF inv, of IBUF_LEN ?a] f that
    by (cases "acc (mc_mem s) PERM_EXEC ?a IBUF_LEN") (auto simp: IBUF_LEN_def)
  then show ?thesis
    using f m by (cases r)
      (auto simp: start_instruction_def em_apply prefetch_def stream_ok_def fresh_ctx_def cursor_def same_view_def)
qed

end

lemma stream_read_cases:
  assumes "stream_read minv sp macc n s (f s)"
  shows "(all_exec macc (mc_mem s) (cursor s) n \<longrightarrow>
      fst (em_bind f (\<lambda>b. em_return (g b)) s) = Inr (g (bytes_at (sp (mc_mem s)) (cursor s) n)) \<and>
      cursor (snd (em_bind f (\<lambda>b. em_return (g b)) s)) = cursor s + of_nat n) \<and>
    (\<not> all_exec macc (mc_mem s) (cursor s) n \<longrightarrow> (\<exists>e. fst (em_bind f (\<lambda>b. em_return (g b)) s) = Inl (Err e)))"
proof -
  obtain r t where rt: "f s = (r, t)" by fastforce
  have "all_exec macc (mc_mem s) (cursor s) n \<Longrightarrow> cursor t = cursor s + of_nat n"
    using assms rt by (auto simp: stream_read_def dest!: arg_cong [of t _ cursor])
  with assms rt show ?thesis by (auto simp: stream_read_def em_bind_def em_apply split: if_splits)
qed

text \<open>
  C10: Decoding reads what memory holds, whatever the prefetch buffer covers: on a machine whose
  buffer was filled by the start of an instruction, reading 1, 2, 4 or 8 bytes yields the
  little-endian value of the bytes at the cursor and moves the cursor over them when each of them
  is executable (also across the end of the buffer or of a region), and fails otherwise.
\<close>

theorem decode_exact:
  assumes "vm_ok (mc_mem s)" "stream_ok vm_space vm_acc s"
  defines "m \<equiv> mc_mem s" and "a \<equiv> cursor s"
  shows "(if all_exec vm_acc m a 1 then fst (ctx_u8 (vm_ops alloc) s) = Inr (snd (the (vm_space m a)))
      else (\<exists>e. fst (ctx_u8 (vm_ops alloc) s) = Inl (Err e))) \<and>
    (if all_exec vm_acc m a 2 then fst (ctx_u16 (vm_ops alloc) s) = Inr (from_le (bytes_at (vm_space m) a 2)) \<and>
        cursor (snd (ctx_u16 (vm_ops alloc) s)) = a + 2
      else (\<exists>e. fst (ctx_u16 (vm_ops alloc) s) = Inl (Err e))) \<and>
    (if all_exec vm_acc m a 4 then fst (ctx_u32 (vm_ops alloc) s) = Inr (from_le (bytes_at (vm_space m) a 4)) \<and>
        cursor (snd (ctx_u32 (vm_ops alloc) s)) = a + 4
      else (\<exists>e. fst (ctx_u32 (vm_ops alloc) s) = Inl (Err e))) \<and>
    (if all_exec vm_acc m a 8 then fst (ctx_u64 (vm_ops alloc) s) = Inr (from_le (bytes_at (vm_space m) a 8)) \<and>
        cursor (snd (ctx_u64 (vm_ops alloc) s)) = a + 8
      else (\<exists>e. fst (ctx_u64 (vm_ops alloc) s) = Inl (Err e)))"
proof -
  note u2 = stream_read_cases [where g = "from_le :: bytes \<Rightarrow> u16" and f = "ctx_uint (vm_ops alloc) 2",
      OF vmem.ctx_uint_exact [OF assms(2,1)]]
  note u4 = stream_read_cases [where g = "from_le :: bytes \<Rightarrow> u32" and f = "ctx_uint (vm_ops alloc) 4",
      OF vmem.ctx_uint_exact [OF assms(2,1)]]
  note u8 = stream_read_cases [where g = "from_le :: bytes \<Rightarrow> u64" and f = "ctx_uint (vm_ops alloc) 8",
      OF vmem.ctx_uint_exact [OF assms(2,1)]]
  have "stream_read vm_ok vm_space vm_acc 1 s
      (case ctx_u8 (vm_ops alloc) s of (r, t) \<Rightarrow> (map_sum id (\<lambda>b. [b]) r, t))"
    by (rule vmem.ctx_u8_exact [OF assms(2,1)])
  then have "if all_exec vm_acc m a 1 then fst (ctx_u8 (vm_ops alloc) s) = Inr (snd (the (vm_space m a)))
      else (\<exists>e. fst (ctx_u8 (vm_ops alloc) s) = Inl (Err e))"
    by (cases "ctx_u8 (vm_ops alloc) s"; cases "fst (ctx_u8 (vm_ops alloc) s)")
      (auto simp: stream_read_def bytes_at_def m_def a_def split: if_splits)
  then show ?thesis
    using u2 u4 u8 unfolding ctx_u16_def [symmetric] ctx_u32_def [symmetric] ctx_u64_def [symmetric]
    by (simp add: IBUF_LEN_def m_def a_def)
qed

definition demo_start :: "vmem mach" where
  "demo_start = snd (start_instruction (vm_ops (\<lambda>_. True)) (boot 0x400000 demo_vm))"

lemma demo_start_ok:
  "vm_ok (mc_mem demo_start)" "stream_ok vm_space vm_acc demo_start" "cursor demo_start = 0x400000"
  "vm_space (mc_mem demo_start) = vm_space demo_vm" "vm_acc (mc_mem demo_start) = vm_acc demo_vm"
  using vmem.stream_ok_start [of "boot 0x400000 demo_vm" "\<lambda>_. True"] demo_vm_ok
  unfolding demo_start_def
  by (simp_all add: boot_def same_view_def interp_with_state_def)

lemma demo_start_exec: "all_exec vm_acc (mc_mem demo_start) a n = all_exec vm_acc demo_vm a n"
  by (simp add: all_exec_def demo_start_ok)

theorem decode_exact_witness:
  "fst (ctx_u16 (vm_ops (\<lambda>_. True)) demo_start) = Inr 0xC390"
proof -
  have two: "[0..<2] = [0, 1 :: nat]" by (simp add: numeral_eq_Suc)
  have "vm_acc demo_vm PERM_EXEC 0x400000 2"
    by (simp add: demo_vm_eq vm_acc_def region_contains_def saturating_add_def eval_simps)
  then have "all_exec vm_acc demo_vm 0x400000 2" by (rule vmem.all_exec_acc [OF demo_vm_ok])
  moreover have "from_le (bytes_at (vm_space demo_vm) 0x400000 2) = (0xC390 :: u16)"
    unfolding bytes_at_def two
    by (simp add: vm_space_def demo_vm_eq table_space_def position_def region_contains_def saturating_add_def)
  ultimately show ?thesis
    using decode_exact [OF demo_start_ok(1,2), of "\<lambda>_. True",
        unfolded demo_start_ok(3,4,5) demo_start_exec] by simp
qed

section \<open>Dispatch on the first byte\<close>

definition buffered :: "'m mach \<Rightarrow> u64 \<Rightarrow> bytes \<Rightarrow> bool" where
  \<comment> \<open>a full buffer with the sixteen bytes \<open>bs\<close> from address \<open>a\<close> on\<close>
  "buffered s a bs \<longleftrightarrow> cx_ibuf_n (mc_ctx s) = 16 \<and> cx_ibuf_base (mc_ctx s) = a \<and> cx_ibuf (mc_ctx s) = bs \<and>
     length bs = 16"

lemma buffered_move [simp]: "buffered (move c s) a bs = buffered s a bs"
  by (simp add: buffered_def move_def)

lemma ctx_take_buffered:
  assumes "buffered s a bs" "cursor s = a + of_nat k" "k + n \<le> 16" "0 < n"
  shows "ctx_take n s = (Inr (Some (subslice bs k (k + n))), move (a + of_nat (k + n)) s)"
proof -
  have "unat (of_nat k :: u64) = k" using assms(3) by (simp add: unat_of_nat take_bit_nat_eq_self)
  moreover have "k < 16 - (n - 1)" using assms(3,4) by linarith
  ultimately show ?thesis
    using assms by (simp add: buffered_def ctx_take_def cursor_def move_def Let_def em_bind_def mach_laws
        em_apply ac_simps)
qed

lemma ctx_u8_buffered:
  assumes "buffered s a bs" "cursor s = a + of_nat k" "k < 16"
  shows "ctx_u8 M s = (Inr (bs ! k), move (a + of_nat (k + 1)) s)"
  using ctx_take_buffered [OF assms(1,2), of 1] assms
  by (simp add: ctx_u8_def em_bind_def em_apply subslice_def buffered_def)

lemma ctx_uint_buffered:
  assumes "buffered s a bs" "cursor s = a + of_nat k" "k + n \<le> 16" "0 < n"
  shows "ctx_uint M n s = (Inr (subslice bs k (k + n)), move (a + of_nat (k + n)) s)"
  using ctx_take_buffered [OF assms] by (simp add: ctx_uint_def em_bind_def em_apply)

lemma prefix_loop_unfold:
  assumes "n \<noteq> 0"
  shows "prefix_loop M n = em_bind (ctx_u8 M) (\<lambda>b. em_bind (ctx cx_bits) (\<lambda>bts.
     case prefix_byte b bts of
       Some f \<Rightarrow> em_bind (upd_pfx f) (\<lambda>_. prefix_loop M (n - 1))
     | None \<Rightarrow>
         if 0x40 \<le> b \<and> b \<le> 0x4F \<and> bts = B64
         then upd_pfx (\<lambda>p. p\<lparr>px_rex := b, px_has_rex := True\<rparr>)
         else upd_ctx (\<lambda>c. c\<lparr>cx_cur := cx_cur c - 1\<rparr>)))"
proof -
  from assms obtain m where m: "n = Suc m" by (cases n) auto
  show ?thesis unfolding m diff_Suc_1 by (rule prefix_loop.simps(2))
qed

lemma fuel_left: "2 ^ 64 - unat (a :: u64) \<noteq> 0"
  using unat_bound64 [of a] by simp

lemma execute_plain:
  assumes "start_instruction M s = (Inr (), t)" "buffered t a bs" "cursor t = a"
    "prefix_byte (bs ! 0) (cx_bits (mc_ctx t)) = None"
    "\<not> (0x40 \<le> bs ! 0 \<and> bs ! 0 \<le> 0x4F \<and> cx_bits (mc_ctx t) = B64)"
  shows "execute_one U M s = run_arm (dispatch U M (bs ! 0) (cpu_rip (it_state (mc_it s)))) (move (a + 1) t)"
proof -
  have c: "ctx f (move x t) = (Inr (f ((mc_ctx t)\<lparr>cx_cur := x\<rparr>)), move x t)" for f :: "ctx \<Rightarrow> 'b" and x
    by (simp add: get_laws move_def)
  have u8: "ctx_u8 M t = (Inr (bs ! 0), move (a + 1) t)"
    using ctx_u8_buffered [OF assms(2), of 0] assms(3) by simp
  have "prefix_loop M (2 ^ 64 - unat (cx_cur (mc_ctx t))) t = (Inr (), t)"
    unfolding prefix_loop_unfold [OF fuel_left] em_bind_def u8 prod.case sum.case c
    using assms(3-5) by (auto simp: upd_laws move_def cursor_def)
  then have "read_prefixes M t = (Inr (), t)" by (simp add: read_prefixes_def em_bind_def get_laws)
  then show ?thesis
    by (simp add: execute_one_def em_bind_def get_laws assms(1) u8)
qed

lemma execute_rex:
  assumes "start_instruction M s = (Inr (), t)" "buffered t a bs" "cursor t = a"
    "0x40 \<le> bs ! 0" "bs ! 0 \<le> 0x4F" "cx_bits (mc_ctx t) = B64"
  shows "execute_one U M s = run_arm (dispatch U M (bs ! 1) (cpu_rip (it_state (mc_it s))))
    (move (a + 2) (t\<lparr>mc_ctx := (mc_ctx t)\<lparr>cx_pfx := (cx_pfx (mc_ctx t))\<lparr>px_rex := bs ! 0, px_has_rex := True\<rparr>\<rparr>\<rparr>))"
proof -
  let ?t = "t\<lparr>mc_ctx := (mc_ctx t)\<lparr>cx_pfx := (cx_pfx (mc_ctx t))\<lparr>px_rex := bs ! 0, px_has_rex := True\<rparr>\<rparr>\<rparr>"
  have c: "ctx f (move x t) = (Inr (f ((mc_ctx t)\<lparr>cx_cur := x\<rparr>)), move x t)" for f :: "ctx \<Rightarrow> 'b" and x
    by (simp add: get_laws move_def)
  have u8: "ctx_u8 M t = (Inr (bs ! 0), move (a + 1) t)"
    using ctx_u8_buffered [OF assms(2), of 0] assms(3) by simp
  have "unat (bs ! 0) \<noteq> 0x66 \<and> unat (bs ! 0) \<le> 0x4F \<and> 0x40 \<le> unat (bs ! 0)"
    using assms(4,5) by (simp add: word_le_unat)
  then have p: "prefix_byte (bs ! 0) B64 = None" by (auto simp: prefix_byte_def)
  have "prefix_loop M (2 ^ 64 - unat (cx_cur (mc_ctx t))) t = (Inr (), move (a + 1) ?t)"
    unfolding prefix_loop_unfold [OF fuel_left] em_bind_def u8 prod.case sum.case c
    using assms(4-6) p by (auto simp: upd_laws upd_pfx_def move_def)
  then have r: "read_prefixes M t = (Inr (), move (a + 1) ?t)" by (simp add: read_prefixes_def em_bind_def get_laws)
  have "buffered (move (a + 1) ?t) a bs" using assms(2) by (simp add: buffered_def move_def)
  from ctx_u8_buffered [OF this, of 1] have "ctx_u8 M (move (a + 1) ?t) = (Inr (bs ! 1), move (a + 2) ?t)"
    by simp
  then show ?thesis
    by (simp add: execute_one_def em_bind_def get_laws assms(1) r)
qed

end
