(* ===== verification/Stack_Theorems.thy ===== *)
theory Stack_Theorems
  imports Decode_Laws
begin

text \<open>
  The stack and the instructions that use it, over any memory that keeps the contract: what a
  push and a pop do exactly, that they undo each other, and that a call comes back.
\<close>

section \<open>Integers in memory\<close>

lemma uint_bytes_to_le: "uint_size sz \<Longrightarrow> uint_bytes sz v = to_le sz v"
  by (auto simp: uint_size_def uint_bytes_def intro!: nth_equalityI bit_word_eqI simp: nth_to_le bit_simps)

context guest_memory
begin

lemma write_uint_ok:
  assumes "inv m" "uint_size sz" "acc m PERM_WRITE a sz"
  shows "fst (mo_write_uint M a sz v m) = Inr ()"
    "space (snd (mo_write_uint M a sz v m)) = overlay a (to_le sz v) (space m)"
proof -
  have w: "fst (mo_write M a (to_le sz v) m) = Inr ()"
    "space (snd (mo_write M a (to_le sz v) m)) = overlay a (to_le sz v) (space m)"
    using write_ok [OF assms(1), of "to_le sz v" a] assms(3) by auto
  have "trait_write_uint M a sz v = mo_write M a (to_le sz v)"
    using assms(2)
    by (auto simp: trait_write_uint_def uint_size_def mem_write_u8_def mem_write_u16_def mem_write_u32_def
        mem_write_u64_def to_le_ucast)
  with w write_uint_trait [OF assms(1), of a sz v]
  show "fst (mo_write_uint M a sz v m) = Inr ()"
    "space (snd (mo_write_uint M a sz v m)) = overlay a (to_le sz v) (space m)" by simp_all
qed

lemma read_uint_ok:
  assumes "inv m" "uint_size sz" "acc m PERM_READ a sz"
  shows "fst (mo_read_uint M a sz m) = Inr (from_le (bytes_at (space m) a sz))"
proof -
  have r: "fst (mo_read M a sz m) = Inr (bytes_at (space m) a sz)"
    using read_ok [OF assms(1), of sz a] assms(3) by auto
  have "fst (trait_read_uint M a sz m) = Inr (from_le (bytes_at (space m) a sz))"
    using assms(2) r
    by (cases "mo_read M a sz m")
      (auto simp: trait_read_uint_def uint_size_def mem_read_u8_def mem_read_u16_def mem_read_u32_def
        mem_read_u64_def em_bind_def em_apply from_le_widen bytes_at_1 [simplified])
  then show ?thesis using read_uint_trait [OF assms(1)] by simp
qed

lemma write_uint_err:
  assumes "inv m" "uint_size sz" "\<not> acc m PERM_WRITE a sz"
  shows "\<exists>e. fst (mo_write_uint M a sz v m) = Inl (Err e)" "space (snd (mo_write_uint M a sz v m)) = space m"
proof -
  have ne: "to_le sz v \<noteq> []" using assms(2) by (auto simp: uint_size_def to_le_def)
  have "trait_write_uint M a sz v = mo_write M a (to_le sz v)"
    using assms(2)
    by (auto simp: trait_write_uint_def uint_size_def mem_write_u8_def mem_write_u16_def mem_write_u32_def
        mem_write_u64_def to_le_ucast)
  with write_err [OF assms(1) ne, of a] assms(3) write_uint_trait [OF assms(1), of a sz v]
  show "\<exists>e. fst (mo_write_uint M a sz v m) = Inl (Err e)" "space (snd (mo_write_uint M a sz v m)) = space m"
    by simp_all
qed

section \<open>Push and pop\<close>

lemma stack_width_size: "uint_size (stack_width it)"
  by (simp add: uint_size_def stack_width_def split: bits.split)

lemma push_stack_exact:
  assumes inv: "inv (mc_mem s)"
  defines "it \<equiv> mc_it s"
  defines "w \<equiv> stack_width it" and "sp \<equiv> (cpu_rsp (it_state it) - of_nat (stack_width it)) AND addr_mask it"
  shows "\<exists>m. push_stack M v s = (if acc (mc_mem s) PERM_WRITE sp w then Inr () else fst (push_stack M v s),
      s\<lparr>mc_it := it\<lparr>it_state := cpu_set_rsp sp (it_state it)\<rparr>, mc_mem := m\<rparr>) \<and>
    inv m \<and> acc m = acc (mc_mem s) \<and>
    space m = (if acc (mc_mem s) PERM_WRITE sp w then overlay sp (to_le w v) (space (mc_mem s)) else space (mc_mem s)) \<and>
    (\<not> acc (mc_mem s) PERM_WRITE sp w \<longrightarrow> (\<exists>e. fst (push_stack M v s) = Inl (Err e)))"
proof -
  obtain r m where rm: "mo_write_uint M sp w v (mc_mem s) = (r, m)" by fastforce
  have push: "push_stack M v s = (r, s\<lparr>mc_it := it\<lparr>it_state := cpu_set_rsp sp (it_state it)\<rparr>, mc_mem := m\<rparr>)"
    using rm by (simp add: push_stack_def em_bind_def mach_laws Let_def it_def w_def sp_def)
  have w: "uint_size w" unfolding w_def by (rule stack_width_size)
  show ?thesis
    using write_uint_ok [OF inv w, of sp v] write_uint_err [OF inv w, of sp v] write_uint_keeps [OF inv, of sp w v] rm
    by (intro exI [of _ m]) (auto simp: push)
qed

lemma pop_stack_exact:
  assumes inv: "inv (mc_mem s)"
  defines "it \<equiv> mc_it s"
  defines "w \<equiv> stack_width it" and "sp \<equiv> cpu_rsp (it_state it) AND addr_mask it"
  assumes acc: "acc (mc_mem s) PERM_READ sp w"
  shows "\<exists>m. pop_stack M s = (Inr (from_le (bytes_at (space (mc_mem s)) sp w)),
      s\<lparr>mc_it := it\<lparr>it_state := cpu_set_rsp ((sp + of_nat w) AND addr_mask it) (it_state it)\<rparr>, mc_mem := m\<rparr>) \<and>
    same_view inv space acc (mc_mem s) m"
proof -
  obtain r m where rm: "mo_read_uint M sp w (mc_mem s) = (r, m)" by fastforce
  have w: "uint_size w" unfolding w_def by (rule stack_width_size)
  have "r = Inr (from_le (bytes_at (space (mc_mem s)) sp w))"
    using read_uint_ok [OF inv w acc] rm by simp
  then show ?thesis
    using read_uint_keeps [OF inv, of sp w] rm
    by (intro exI [of _ m])
      (simp add: pop_stack_def em_bind_def em_apply mach_laws Let_def it_def w_def sp_def same_view_def)
qed

section \<open>Calls\<close>

lemma start_buffered:
  assumes inv: "inv (mc_mem s)" and acc: "acc (mc_mem s) PERM_EXEC (cpu_rip (it_state (mc_it s))) 16"
  shows "\<exists>m. start_instruction M s = (Inr (), s\<lparr>mc_ctx := fresh_ctx (mc_it s)
      (bytes_at (space (mc_mem s)) (cpu_rip (it_state (mc_it s))) 16) 16, mc_mem := m\<rparr>) \<and>
    same_view inv space acc (mc_mem s) m"
proof -
  let ?a = "cpu_rip (it_state (mc_it s))"
  obtain r m where f: "mo_fetch M ?a IBUF_LEN (mc_mem s) = (r, m)" by fastforce
  then have "r = Inr (bytes_at (space (mc_mem s)) ?a 16)"
    using fetch_ok [OF inv, of IBUF_LEN ?a] acc by (simp add: IBUF_LEN_def)
  then show ?thesis using f fetch_keeps [OF inv, of ?a IBUF_LEN]
    by (intro exI [of _ m]) (simp add: start_instruction_def em_apply prefetch_def same_view_def IBUF_LEN_def)
qed

lemma fresh_buffered:
  "buffered (s\<lparr>mc_ctx := fresh_ctx it (bytes_at sp (cpu_rip (it_state it)) 16) 16, mc_mem := m\<rparr>)
     (cpu_rip (it_state it)) (bytes_at sp (cpu_rip (it_state it)) 16)"
  "cursor (s\<lparr>mc_ctx := fresh_ctx it (bytes_at sp (cpu_rip (it_state it)) 16) 16, mc_mem := m\<rparr>) = cpu_rip (it_state it)"
  by (simp_all add: buffered_def fresh_ctx_def cursor_def)

lemma dispatch_call: "dispatch U M 0xE8 a = x_call M"
  by (simp add: dispatch_def dispatch_low_opcode_def dispatch_high_def)

lemma dispatch_ret: "dispatch U M 0xC3 a = x_ret M"
  by (simp add: dispatch_def dispatch_low_opcode_def dispatch_high_def)

lemma execute_call:
  assumes inv: "inv (mc_mem s)"
  defines "it \<equiv> mc_it s"
  defines "a \<equiv> cpu_rip (it_state it)" and "w \<equiv> stack_width it"
    and "sp \<equiv> (cpu_rsp (it_state it) - of_nat (stack_width it)) AND addr_mask it"
  assumes exec: "acc (mc_mem s) PERM_EXEC a 16" and op: "snd (the (space (mc_mem s) a)) = 0xE8"
    and stack: "acc (mc_mem s) PERM_WRITE sp w"
  shows "\<exists>t. execute_one U M s = (Inr Continue, t) \<and>
    mc_it t = it\<lparr>it_state := (cpu_set_rsp sp (it_state it))
      \<lparr>cpu_rip := (a + 5 + sx32 (from_le (bytes_at (space (mc_mem s)) (a + 1) 4))) AND addr_mask it\<rparr>\<rparr> \<and>
    inv (mc_mem t) \<and> acc (mc_mem t) = acc (mc_mem s) \<and>
    space (mc_mem t) = overlay sp (to_le w (a + 5)) (space (mc_mem s))"
proof -
  let ?bs = "bytes_at (space (mc_mem s)) a 16"
  obtain m where st: "start_instruction M s = (Inr (), s\<lparr>mc_ctx := fresh_ctx it ?bs 16, mc_mem := m\<rparr>)"
    and view: "same_view inv space acc (mc_mem s) m"
    using start_buffered [OF inv] exec unfolding it_def a_def by blast
  let ?t = "s\<lparr>mc_ctx := fresh_ctx it ?bs 16, mc_mem := m\<rparr>"
  have buf: "buffered ?t a ?bs" "cursor ?t = a" unfolding a_def by (rule fresh_buffered)+
  have b0: "?bs ! 0 = 0xE8" using op by simp
  have "execute_one U M s = run_arm (dispatch U M (?bs ! 0) (cpu_rip (it_state (mc_it s)))) (move (a + 1) ?t)"
    by (rule execute_plain [OF st buf]) (simp_all add: b0 prefix_byte_def)
  then have run: "execute_one U M s = run_arm (x_call M) (move (a + 1) ?t)" by (simp only: b0 dispatch_call)
  have imm: "ctx_u32 M (move (a + 1) ?t) = (Inr (from_le (bytes_at (space (mc_mem s)) (a + 1) 4)), move (a + 5) ?t)"
    using ctx_uint_buffered [of "move (a + 1) ?t" a ?bs 1 4 M] buf subslice_bytes_at [of 1 4 16]
    by (simp add: ctx_u32_def em_bind_def em_apply)
  have "inv (mc_mem (move (a + 5) ?t))" using view by (simp add: same_view_def)
  from push_stack_exact [OF this, of "a + 5"] obtain m' where
    push: "push_stack M (a + 5) (move (a + 5) ?t) =
      (Inr (), (move (a + 5) ?t)\<lparr>mc_it := it\<lparr>it_state := cpu_set_rsp sp (it_state it)\<rparr>, mc_mem := m'\<rparr>)"
    and m': "inv m'" "acc m' = acc m" "space m' = overlay sp (to_le w (a + 5)) (space m)"
    using stack view unfolding it_def w_def sp_def by (auto simp: same_view_def)
  have "ctx cx_cur (move (a + 5) ?t) = (Inr (a + 5), move (a + 5) ?t)" by (simp add: get_laws move_def)
  then show ?thesis
    unfolding run run_arm_def x_call_def jump_to_def leave_def
    using imm push m' view
    by (simp add: em_bind_def em_apply mach_laws set_rip_def same_view_def addr_mask_def)
qed

lemma execute_ret:
  assumes inv: "inv (mc_mem s)"
  defines "it \<equiv> mc_it s"
  defines "a \<equiv> cpu_rip (it_state it)" and "w \<equiv> stack_width it" and "sp \<equiv> cpu_rsp (it_state it) AND addr_mask it"
  assumes exec: "acc (mc_mem s) PERM_EXEC a 16" and op: "snd (the (space (mc_mem s) a)) = 0xC3"
    and stack: "acc (mc_mem s) PERM_READ sp w"
  shows "\<exists>t. execute_one U M s = (Inr Continue, t) \<and>
    mc_it t = it\<lparr>it_state := (cpu_set_rsp ((sp + of_nat w) AND addr_mask it) (it_state it))
      \<lparr>cpu_rip := from_le (bytes_at (space (mc_mem s)) sp w)\<rparr>\<rparr> \<and>
    same_view inv space acc (mc_mem s) (mc_mem t)"
proof -
  let ?bs = "bytes_at (space (mc_mem s)) a 16"
  obtain m where st: "start_instruction M s = (Inr (), s\<lparr>mc_ctx := fresh_ctx it ?bs 16, mc_mem := m\<rparr>)"
    and view: "same_view inv space acc (mc_mem s) m"
    using start_buffered [OF inv] exec unfolding it_def a_def by blast
  let ?t = "s\<lparr>mc_ctx := fresh_ctx it ?bs 16, mc_mem := m\<rparr>"
  have buf: "buffered ?t a ?bs" "cursor ?t = a" unfolding a_def by (rule fresh_buffered)+
  have b0: "?bs ! 0 = 0xC3" using op by simp
  have "execute_one U M s = run_arm (dispatch U M (?bs ! 0) (cpu_rip (it_state (mc_it s)))) (move (a + 1) ?t)"
    by (rule execute_plain [OF st buf]) (simp_all add: b0 prefix_byte_def)
  then have run: "execute_one U M s = run_arm (x_ret M) (move (a + 1) ?t)" by (simp only: b0 dispatch_ret)
  have "inv (mc_mem (move (a + 1) ?t))" using view by (simp add: same_view_def)
  from pop_stack_exact [OF this] obtain m' where
    pop: "pop_stack M (move (a + 1) ?t) = (Inr (from_le (bytes_at (space m) sp w)),
      (move (a + 1) ?t)\<lparr>mc_it := it\<lparr>it_state := cpu_set_rsp ((sp + of_nat w) AND addr_mask it) (it_state it)\<rparr>,
        mc_mem := m'\<rparr>)"
    and m': "same_view inv space acc m m'"
    using stack view unfolding it_def w_def sp_def by (auto simp: same_view_def)
  then show ?thesis
    unfolding run run_arm_def x_ret_def leave_def
    using view by (simp add: em_bind_def em_apply mach_laws set_rip_def same_view_def)
qed

end

text \<open>
  Pushes, pops, calls and returns on \<open>VirtualMemory\<close>, and a concrete run.
\<close>

lemma mask_idem: "(x AND addr_mask it) AND addr_mask it = x AND addr_mask it"
  by (simp add: ac_simps)

lemma rsp_back: "((x - n) AND addr_mask it) + n AND addr_mask it = x AND addr_mask it"
proof -
  have "take_bit 32 (take_bit 32 (x - n) + n) = take_bit 32 x" for x n :: u64
  proof -
    have "take_bit 32 (take_bit 32 y + n) = take_bit 32 (y + n)" for y :: u64
      by transfer (simp add: take_bit_eq_mod mod_simps mod_mod_cancel)
    then show ?thesis by simp
  qed
  then show ?thesis
    by (cases "it_bits it") (simp_all add: addr_mask_def bits_mask_def take_bit_eq_mask mask_eq_exp_minus_1)
qed

lemma same_outside: "\<not> unat (x - a) < length bs \<Longrightarrow> overlay a bs sp x = sp x"
  by (simp add: overlay_def)

lemma read_back:
  assumes "vm_ok m" "vm_acc m PERM_WRITE a n" "8 * n \<le> 64"
  shows "from_le (bytes_at (overlay a (to_le n (v :: u64)) (vm_space m)) a n) = take_bit (8 * n) v"
proof -
  have "n < 2 ^ 64" using assms(3) by simp
  then have "bytes_at (overlay a (to_le n v) (vm_space m)) a (length (to_le n v)) = to_le n v"
    using vmem.space_some [OF assms(1,2)] by (intro bytes_at_overlay) simp_all
  then show ?thesis by (simp add: from_le_to_le)
qed

lemma stack_width_bits: "8 * stack_width it \<le> 64"
  by (simp add: stack_width_def split: bits.split)

text \<open>
  C11: A push onto a writable stack and the pop after it give the value back (its low 32 bits in
  32-bit mode), restore the stack pointer and the other registers, and change no byte of memory
  outside the slot below the old stack pointer.
\<close>

theorem push_pop_inverse:
  assumes ok: "vm_ok (mc_mem s)"
  defines "it \<equiv> mc_it s"
  defines "w \<equiv> stack_width it" and "sp \<equiv> (cpu_rsp (it_state it) - of_nat (stack_width it)) AND addr_mask it"
  assumes acc: "vm_acc (mc_mem s) PERM_WRITE sp w" "vm_acc (mc_mem s) PERM_READ sp w"
  shows "\<exists>t u. push_stack (vm_ops alloc) v s = (Inr (), t) \<and>
    pop_stack (vm_ops alloc) t = (Inr (take_bit (8 * w) v), u) \<and>
    mc_it u = it\<lparr>it_state := cpu_set_rsp (cpu_rsp (it_state it) AND addr_mask it) (it_state it)\<rparr> \<and>
    (\<forall>x. \<not> unat (x - sp) < w \<longrightarrow> vm_space (mc_mem u) x = vm_space (mc_mem s) x)"
proof -
  obtain m where push: "push_stack (vm_ops alloc) v s =
      (Inr (), s\<lparr>mc_it := it\<lparr>it_state := cpu_set_rsp sp (it_state it)\<rparr>, mc_mem := m\<rparr>)"
    and m: "vm_ok m" "vm_acc m = vm_acc (mc_mem s)" "vm_space m = overlay sp (to_le w v) (vm_space (mc_mem s))"
    using vmem.push_stack_exact [OF ok, of alloc v] acc unfolding it_def w_def sp_def by auto
  let ?t = "s\<lparr>mc_it := it\<lparr>it_state := cpu_set_rsp sp (it_state it)\<rparr>, mc_mem := m\<rparr>"
  have t: "stack_width (mc_it ?t) = w" "cpu_rsp (it_state (mc_it ?t)) AND addr_mask it = sp"
    "addr_mask (mc_it ?t) = addr_mask it"
    by (simp_all add: w_def stack_width_def addr_mask_def cpu_rsp_def cpu_set_rsp_def sp_def ac_simps)
  have ok': "vm_ok (mc_mem ?t)" using m(1) by simp
  have acc': "vm_acc (mc_mem ?t) PERM_READ (cpu_rsp (it_state (mc_it ?t)) AND addr_mask (mc_it ?t))
      (stack_width (mc_it ?t))" unfolding t using acc m by simp
  from vmem.pop_stack_exact [OF ok' acc', of alloc] obtain m' where
    pop: "pop_stack (vm_ops alloc) ?t = (Inr (from_le (bytes_at (vm_space m) sp w)),
      ?t\<lparr>mc_it := (mc_it ?t)\<lparr>it_state := cpu_set_rsp ((sp + of_nat w) AND addr_mask it) (it_state (mc_it ?t))\<rparr>, mc_mem := m'\<rparr>)"
    and m': "same_view vm_ok vm_space vm_acc m m'"
    unfolding t by auto
  have v: "from_le (bytes_at (vm_space m) sp w) = take_bit (8 * w) v"
    unfolding m(3) using acc(1) stack_width_bits by (intro read_back [OF ok]) (simp_all add: w_def)
  have sp: "(sp + of_nat w) AND addr_mask it = cpu_rsp (it_state it) AND addr_mask it"
    unfolding sp_def w_def by (rule rsp_back)
  show ?thesis
    using push pop v sp m m' by (auto simp: same_view_def cpu_set_rsp_def same_outside)
qed

definition stack_demo :: "vmem mach" where
  "stack_demo = (boot 0x400000 demo_vm)\<lparr>mc_it := interp_with_state
     (cpu_set_rsp 0x400010 (cpu_state_new\<lparr>cpu_rip := 0x400000\<rparr>))\<rparr>"

lemma stack_demo_simps:
  "mc_mem stack_demo = demo_vm" "stack_width (mc_it stack_demo) = 8" "addr_mask (mc_it stack_demo) = - 1"
  "cpu_rsp (it_state (mc_it stack_demo)) = 0x400010" "cpu_rip (it_state (mc_it stack_demo)) = 0x400000"
  by (simp_all add: stack_demo_def boot_def interp_with_state_def interp_with_bits_def stack_width_def
      addr_mask_def bits_mask_def cpu_rsp_def cpu_set_rsp_def)

lemma demo_vm_stack: "vm_acc demo_vm PERM_WRITE 0x400008 8" "vm_acc demo_vm PERM_READ 0x400008 8"
  by (simp_all add: demo_vm_eq vm_acc_def region_contains_def saturating_add_def eval_simps)

theorem push_pop_inverse_witness:
  "fst (pop_stack (vm_ops (\<lambda>_. True)) (snd (push_stack (vm_ops (\<lambda>_. True)) 0x1122334455667788 stack_demo)))
    = Inr 0x1122334455667788"
proof -
  have "vm_ok (mc_mem stack_demo)" using demo_vm_ok by (simp add: stack_demo_simps)
  from push_pop_inverse [OF this, of "\<lambda>_. True" "0x1122334455667788", unfolded stack_demo_simps]
  show ?thesis using demo_vm_stack by auto
qed

end
