(* ===== verification/Unwind.thy ===== *)
theory Unwind
  imports Guest_Memory Cpu_State
begin

text \<open>
  \<open>core/src/unwind.rs\<close>: the x64 virtual unwinder. It walks from a frame to its caller on a copy
  of the CPU state, from the unwind codes of the function or by simulating the rest of an epilog.
  A walk changes the CPU state it is given (\<open>ctx\<close>) and only reads the memory; reading may
  record a watch hit, so the memory is threaded through as well.
\<close>

section \<open>Tables\<close>

datatype unwind_op =
    PushNonvolatile u8
  | Alloc u32
  | SetFrameRegister
  | SaveNonvolatile u8 u32
  | SaveXmm128 u8 u32
  | PushMachineFrame bool
  | Epilog u16

record unwind_code =
  uc_prolog_offset :: u8
  uc_op :: unwind_op

datatype unwind_entry =
    UnwindEntry (ue_begin: u32) (ue_end: u32) (ue_record: u32) (ue_info: unwind_info)
and unwind_info =
    UnwindInfo (ui_version: u8) (ui_exception: bool) (ui_termination: bool) (ui_prolog_size: u8)
      (ui_frame_register: "u8 option") (ui_frame_offset: u16) (ui_codes: "unwind_code list")
      (ui_handler: "u32 option") (ui_handler_data: "u32 option") (ui_chained: "unwind_entry option")

definition unwind_lookup :: "unwind_entry list \<Rightarrow> u32 \<Rightarrow> unwind_entry option" where
  "unwind_lookup table rva =
     (case partition_point (\<lambda>e. ue_begin e \<le> rva) table of
        0 \<Rightarrow> None
      | Suc i \<Rightarrow> (case nth_opt table i of
          None \<Rightarrow> None
        | Some e \<Rightarrow> if rva < ue_end e then Some e else None))"

record frame_unwind =
  fu_establisher_frame :: u64
  fu_handler_rva :: "u32 option"
  fu_handler_data_rva :: "u32 option"
  fu_leaf_or_epilog :: bool

datatype handler_type = HandlerType u32

definition HT_NONE :: handler_type where "HT_NONE = HandlerType 0"
definition HT_EXCEPTION :: handler_type where "HT_EXCEPTION = HandlerType 1"
definition HT_UNWIND :: handler_type where "HT_UNWIND = HandlerType 2"

section \<open>Walk state\<close>

type_synonym 'm walk = "cpu_state \<times> 'm"

definition w_get :: "(cpu_state \<Rightarrow> 'a) \<Rightarrow> ('m walk, 'a) em" where
  "w_get f = em_get (\<lambda>s. f (fst s))"

definition w_upd :: "(cpu_state \<Rightarrow> cpu_state) \<Rightarrow> ('m walk, unit) em" where
  "w_upd f = em_mod (\<lambda>s. (f (fst s), snd s))"

definition w_mem :: "('m, 'a) em \<Rightarrow> ('m walk, 'a) em" where
  "w_mem f s = (case f (snd s) of (r, m) \<Rightarrow> (r, fst s, m))"

definition em_try :: "('s, 'a) em \<Rightarrow> ('s, 'a option) em" where
  \<comment> \<open>\<open>match .. { Ok(a) => .., Err(_) => .. }\<close>\<close>
  "em_try f s = (case f s of (r, t) \<Rightarrow>
     (case r of Inr a \<Rightarrow> Inr (Some a) | Inl (Err e) \<Rightarrow> Inr None | Inl x \<Rightarrow> Inl x, t))"

definition set_gpr_masked :: "u8 \<Rightarrow> u64 \<Rightarrow> cpu_state \<Rightarrow> cpu_state" where
  \<comment> \<open>\<open>ctx.gpr[reg as usize & 0xf] = v\<close>\<close>
  "set_gpr_masked r v = cpu_set_reg (ucast r) v"

definition pop_return_address :: "'m memory_ops \<Rightarrow> ('m walk, unit) em" where
  "pop_return_address M =
     em_bind (w_get cpu_rsp) (\<lambda>sp.
     em_bind (w_mem (mem_read_u64 M sp)) (\<lambda>rip.
     w_upd (\<lambda>c. cpu_set_rsp (sp + 8) (c\<lparr>cpu_rip := rip\<rparr>))))"

section \<open>Unwind codes\<close>

definition frame_base :: "unwind_info \<Rightarrow> cpu_state \<Rightarrow> u64" where
  "frame_base info c =
     (case ui_frame_register info of
        Some fr \<Rightarrow> cpu_gpr c (ucast fr) - ucast (ui_frame_offset info)
      | None \<Rightarrow> cpu_rsp c)"

definition apply_code :: "'m memory_ops \<Rightarrow> u64 \<Rightarrow> unwind_op \<Rightarrow> ('m walk, unit) em" where
  "apply_code M frame op =
     (case op of
        PushNonvolatile reg \<Rightarrow>
          em_bind (w_get cpu_rsp) (\<lambda>sp.
          em_bind (w_mem (mem_read_u64 M sp)) (\<lambda>v.
          w_upd (\<lambda>c. let c = set_gpr_masked reg v c in cpu_set_rsp (cpu_rsp c + 8) c)))
      | Alloc sz \<Rightarrow> w_upd (\<lambda>c. cpu_set_rsp (cpu_rsp c + ucast sz) c)
      | SetFrameRegister \<Rightarrow> w_upd (cpu_set_rsp frame)
      | SaveNonvolatile reg off \<Rightarrow>
          em_bind (w_mem (mem_read_u64 M (frame + ucast off))) (\<lambda>v. w_upd (set_gpr_masked reg v))
      | SaveXmm128 reg off \<Rightarrow>
          em_bind (w_mem (mo_read M (frame + ucast off) 16)) (\<lambda>b.
          w_upd (\<lambda>c. c\<lparr>cpu_xmm := (cpu_xmm c)(ucast reg := from_le b)\<rparr>))
      | PushMachineFrame with_error_code \<Rightarrow>
          em_bind (w_get (\<lambda>c. cpu_rsp c + (if with_error_code then 8 else 0))) (\<lambda>base.
          em_bind (w_mem (mem_read_u64 M base)) (\<lambda>rip.
          em_bind (w_upd (\<lambda>c. c\<lparr>cpu_rip := rip\<rparr>)) (\<lambda>_.
          em_bind (w_mem (mem_read_u64 M (base + 24))) (\<lambda>sp.
          w_upd (cpu_set_rsp sp)))))
      | Epilog raw \<Rightarrow> em_return ())"

definition is_machine_frame :: "unwind_op \<Rightarrow> bool" where
  "is_machine_frame op = (case op of PushMachineFrame b \<Rightarrow> True | _ \<Rightarrow> False)"

fun apply_codes :: "'m memory_ops \<Rightarrow> u64 \<Rightarrow> unwind_code list \<Rightarrow> bool \<Rightarrow> ('m walk, bool) em" where
  "apply_codes M frame [] mf = em_return mf"
| "apply_codes M frame (c # cs) mf =
     em_bind (apply_code M frame (uc_op c)) (\<lambda>_.
     apply_codes M frame cs (mf \<or> is_machine_frame (uc_op c)))"

definition executed_codes :: "bool \<Rightarrow> u32 \<Rightarrow> unwind_code list \<Rightarrow> unwind_code list" where
  \<comment> \<open>the codes the loop does not skip: in the first frame, those the prolog has reached\<close>
  "executed_codes first offset_in_func codes =
     filter (\<lambda>c. \<not> (first \<and> offset_in_func < ucast (uc_prolog_offset c))) codes"

lemma size_chained [termination_simp]: "ui_chained info = Some p \<Longrightarrow> size p < Suc (size info)"
  by (cases info) simp

fun apply_chain :: "'m memory_ops \<Rightarrow> u32 \<Rightarrow> unwind_entry \<Rightarrow> bool \<Rightarrow> bool \<Rightarrow> ('m walk, bool) em" where
  "apply_chain M off (UnwindEntry bg en rc info) first mf =
     em_bind (w_get (frame_base info)) (\<lambda>frame.
     em_bind (apply_codes M frame (executed_codes first off (ui_codes info)) mf) (\<lambda>mf'.
     case ui_chained info of
       Some parent \<Rightarrow> apply_chain M off parent False mf'
     | None \<Rightarrow> em_return mf'))"

section \<open>Epilogs\<close>

datatype epi_op = AddRsp u64 | LeaRsp u8 u32 | EpiPop u8

definition w_byte :: "'m memory_ops \<Rightarrow> u64 \<Rightarrow> ('m walk, u8) em" where
  "w_byte M at = w_mem (mem_read_u8 M at)"

definition sext8 :: "u8 \<Rightarrow> u64" where "sext8 b = scast b"
definition sext32 :: "u32 \<Rightarrow> u64" where "sext32 v = scast v"

definition epi_lea :: "'m memory_ops \<Rightarrow> u64 \<Rightarrow> u8 \<Rightarrow> ('m walk, (epi_op list \<times> u64) option) em" where
  \<comment> \<open>\<open>lea rsp, [reg + disp]\<close>; \<open>None\<close> is the early \<open>return Ok(false)\<close>\<close>
  "epi_lea M pc b0 =
     em_bind (w_byte M (pc + 2)) (\<lambda>modrm.
       let md = drop_bit 6 modrm; reg = drop_bit 3 modrm AND 7; rm = modrm AND 7;
           fp = (if b0 = 0x49 then rm + 8 else rm) in
       if reg \<noteq> 4 \<or> rm = 4 \<or> (md \<noteq> 1 \<and> md \<noteq> 2) then em_return None
       else if md = 1 then
         em_bind (w_byte M (pc + 3)) (\<lambda>d. em_return (Some ([LeaRsp fp (scast d)], pc + 4)))
       else
         em_bind (w_mem (mem_read_u32 M (pc + 3))) (\<lambda>d. em_return (Some ([LeaRsp fp d], pc + 7))))"

definition epi_first :: "'m memory_ops \<Rightarrow> u64 \<Rightarrow> ('m walk, (epi_op list \<times> u64) option) em" where
  \<comment> \<open>the instruction that frees the frame, if the rest of the function starts with one\<close>
  "epi_first M pc =
     em_bind (em_try (w_byte M pc)) (\<lambda>o0.
     case o0 of
       None \<Rightarrow> em_return None
     | Some b0 \<Rightarrow>
         if b0 = 0x48 \<or> b0 = 0x49 then
           em_bind (em_try (w_byte M (pc + 1))) (\<lambda>o1.
             if (o1 = Some 0x83 \<or> o1 = Some 0x81) \<and> b0 = 0x48 then
               em_bind (em_try (w_byte M (pc + 2))) (\<lambda>o2.
                 if o2 = Some 0xC4 then
                   if o1 = Some 0x83 then
                     em_bind (w_byte M (pc + 3)) (\<lambda>imm. em_return (Some ([AddRsp (sext8 imm)], pc + 4)))
                   else
                     em_bind (w_mem (mem_read_u32 M (pc + 3))) (\<lambda>imm.
                       em_return (Some ([AddRsp (sext32 imm)], pc + 7)))
                 else em_return (Some ([], pc)))
             else if o1 = Some 0x8D then epi_lea M pc b0
             else em_return (Some ([], pc)))
         else em_return (Some ([], pc)))"

definition jump_leaves :: "u64 \<Rightarrow> u64 \<Rightarrow> u64 \<Rightarrow> bool" where
  \<comment> \<open>\<open>!(func_begin..func_end).contains(&target)\<close>\<close>
  "jump_leaves fbegin fend target \<longleftrightarrow> \<not> (fbegin \<le> target \<and> target < fend)"

fun epi_scan :: "'m memory_ops \<Rightarrow> u64 \<Rightarrow> u64 \<Rightarrow> nat \<Rightarrow> u64 \<Rightarrow> epi_op list \<Rightarrow> ('m walk, epi_op list option) em" where
  \<comment> \<open>the loop over the pops up to the terminator; \<open>None\<close>: this is no epilog\<close>
  "epi_scan M fb fe 0 pc ops = em_stop Loops"
| "epi_scan M fb fe (Suc n) pc ops =
     em_bind (em_try (w_byte M pc)) (\<lambda>o0.
     case o0 of
       None \<Rightarrow> em_return None
     | Some b \<Rightarrow>
         if 0x58 \<le> b \<and> b \<le> 0x5F then epi_scan M fb fe n (pc + 1) (ops @ [EpiPop (b - 0x58)])
         else if b = 0x41 then
           em_bind (em_try (w_byte M (pc + 1))) (\<lambda>o1.
           case o1 of
             None \<Rightarrow> em_return None
           | Some p \<Rightarrow> if 0x58 \<le> p \<and> p \<le> 0x5F
               then epi_scan M fb fe n (pc + 2) (ops @ [EpiPop (p - 0x58 + 8)])
               else em_return None)
         else if b = 0xC3 \<or> b = 0xC2 then em_return (Some ops)
         else if b = 0xF3 then
           em_bind (em_try (w_byte M (pc + 1))) (\<lambda>o1. em_return (if o1 = Some 0xC3 then Some ops else None))
         else if b = 0xEB then
           em_bind (w_byte M (pc + 1)) (\<lambda>rel.
             em_return (if jump_leaves fb fe (pc + 2 + sext8 rel) then Some ops else None))
         else if b = 0xE9 then
           em_bind (w_mem (mem_read_u32 M (pc + 1))) (\<lambda>rel.
             em_return (if jump_leaves fb fe (pc + 5 + sext32 rel) then Some ops else None))
         else if b = 0xFF then
           em_bind (em_try (w_byte M (pc + 1))) (\<lambda>o1.
             em_return (case o1 of Some m \<Rightarrow> if m AND 0x38 = 0x20 then Some ops else None | None \<Rightarrow> None))
         else em_return None)"

definition epi_apply :: "'m memory_ops \<Rightarrow> epi_op \<Rightarrow> ('m walk, unit) em" where
  "epi_apply M op =
     (case op of
        AddRsp v \<Rightarrow> w_upd (\<lambda>c. cpu_set_rsp (cpu_rsp c + v) c)
      | LeaRsp reg disp \<Rightarrow> w_upd (\<lambda>c. cpu_set_rsp (cpu_gpr c (ucast reg) + sext32 disp) c)
      | EpiPop reg \<Rightarrow>
          em_bind (w_get cpu_rsp) (\<lambda>sp.
          em_bind (w_mem (mem_read_u64 M sp)) (\<lambda>v.
          w_upd (\<lambda>c. let c = set_gpr_masked reg v c in cpu_set_rsp (cpu_rsp c + 8) c))))"

definition try_simulate_epilog :: "'m memory_ops \<Rightarrow> unwind_entry \<Rightarrow> u64 \<Rightarrow> ('m walk, bool) em" where
  "try_simulate_epilog M entry image_base =
     (let fb = image_base + ucast (ue_begin entry); fe = image_base + ucast (ue_end entry) in
      em_bind (w_get cpu_rip) (\<lambda>pc.
      em_bind (epi_first M pc) (\<lambda>start.
      case start of
        None \<Rightarrow> em_return False
      | Some (ops, pc) \<Rightarrow>
          em_bind (epi_scan M fb fe (2 ^ 64 - unat pc) pc ops) (\<lambda>scanned.
          case scanned of
            None \<Rightarrow> em_return False
          | Some ops \<Rightarrow>
              em_bind (em_each ops (epi_apply M)) (\<lambda>_.
              em_bind (pop_return_address M) (\<lambda>_. em_return True))))))"

section \<open>Unwinding a frame\<close>

definition leaf_frame :: "cpu_state \<Rightarrow> frame_unwind" where
  \<comment> \<open>\<open>FrameUnwind { establisher_frame: ctx.rsp(), is_leaf_or_epilog: true, ..Default::default() }\<close>\<close>
  "leaf_frame c = \<lparr>fu_establisher_frame = cpu_rsp c, fu_handler_rva = None,
     fu_handler_data_rva = None, fu_leaf_or_epilog = True\<rparr>"

definition unwind_leaf :: "'m memory_ops \<Rightarrow> ('m walk, frame_unwind) em" where
  "unwind_leaf M = em_bind (pop_return_address M) (\<lambda>_. w_get leaf_frame)"

definition wants_handler :: "handler_type \<Rightarrow> unwind_info \<Rightarrow> bool" where
  "wants_handler ht info =
     (if ht = HT_EXCEPTION then ui_exception info
      else if ht = HT_UNWIND then ui_termination info else False)"

definition unwind_body :: "'m memory_ops \<Rightarrow> handler_type \<Rightarrow> u32 \<Rightarrow> unwind_entry \<Rightarrow> ('m walk, frame_unwind) em" where
  "unwind_body M ht rva entry =
     (let info = ue_info entry; opts = wants_handler ht info in
      em_bind (w_get (frame_base info)) (\<lambda>establisher.
      em_bind (apply_chain M (rva - ue_begin entry) entry True False) (\<lambda>machine_frame.
      em_bind (em_when (\<not> machine_frame) (pop_return_address M)) (\<lambda>_.
      em_return \<lparr>fu_establisher_frame = establisher,
        fu_handler_rva = (if opts then ui_handler info else None),
        fu_handler_data_rva = (if opts then ui_handler_data info else None),
        fu_leaf_or_epilog = False\<rparr>))))"

definition rva_of :: "u64 \<Rightarrow> u64 \<Rightarrow> u32 option" where
  \<comment> \<open>\<open>rip.checked_sub(image_base)\<close> where it fits in \<open>u32\<close>\<close>
  "rva_of image_base rip =
     (if image_base \<le> rip \<and> rip - image_base < 2 ^ 32 then Some (ucast (rip - image_base)) else None)"

definition virtual_unwind_typed ::
    "'m memory_ops \<Rightarrow> unwind_entry list \<Rightarrow> u64 \<Rightarrow> handler_type \<Rightarrow> ('m walk, frame_unwind) em" where
  "virtual_unwind_typed M table image_base ht =
     em_bind (w_get cpu_rip) (\<lambda>rip.
     case rva_of image_base rip of
       None \<Rightarrow> unwind_leaf M
     | Some rva \<Rightarrow>
         (case unwind_lookup table rva of
            None \<Rightarrow> unwind_leaf M
          | Some entry \<Rightarrow>
              em_bind (try_simulate_epilog M entry image_base) (\<lambda>done.
                if done then w_get leaf_frame else unwind_body M ht rva entry)))"

definition virtual_unwind_frame :: "'m memory_ops \<Rightarrow> unwind_entry list \<Rightarrow> u64 \<Rightarrow> ('m walk, frame_unwind) em" where
  "virtual_unwind_frame M table image_base = virtual_unwind_typed M table image_base HT_EXCEPTION"

definition virtual_unwind :: "'m memory_ops \<Rightarrow> unwind_entry list \<Rightarrow> u64 \<Rightarrow> ('m walk, unit) em" where
  "virtual_unwind M table image_base =
     em_bind (virtual_unwind_frame M table image_base) (\<lambda>_. em_return ())"

section \<open>Backtraces\<close>

fun backtrace_loop :: "'m memory_ops \<Rightarrow> unwind_entry list \<Rightarrow> u64 \<Rightarrow> nat \<Rightarrow> ('m walk, u64 list) em" where
  "backtrace_loop M table image_base 0 = em_return []"
| "backtrace_loop M table image_base (Suc n) =
     em_bind (w_get (\<lambda>c. (cpu_rip c, cpu_rsp c))) (\<lambda>(prev_rip, prev_rsp).
     em_bind (em_try (virtual_unwind M table image_base)) (\<lambda>walked.
     case walked of
       None \<Rightarrow> em_return []
     | Some _ \<Rightarrow>
         em_bind (w_get (\<lambda>c. (cpu_rip c, cpu_rsp c))) (\<lambda>(rip, rsp).
           if rip = 0 \<or> rip = prev_rip \<or> rsp \<le> prev_rsp then em_return []
           else em_bind (backtrace_loop M table image_base n) (\<lambda>rest. em_return (rip # rest)))))"

definition backtrace :: "'m memory_ops \<Rightarrow> unwind_entry list \<Rightarrow> u64 \<Rightarrow> cpu_state \<Rightarrow> nat \<Rightarrow> ('m, u64 list) em" where
  \<comment> \<open>the walk is on a copy of the CPU state\<close>
  "backtrace M table image_base c limit m =
     (case backtrace_loop M table image_base limit (c, m) of (r, w) \<Rightarrow> (r, snd w))"

end
