(* ===== verification/Unwind_Laws.thy ===== *)
theory Unwind_Laws
  imports Unwind Calculus Memory_Contract
begin

text \<open>
  The unwinder over any memory that keeps the contract: it always comes to an end, it never
  changes what the guest sees of its memory, an epilog it rejects leaves the registers alone, and
  the unwind codes of a prolog undo the prolog.
\<close>

section \<open>Walks\<close>

lemmas walk_laws = w_get_def w_upd_def w_mem_def em_apply

lemma sound_w_mem: "sound_for B P f \<Longrightarrow> sound_for B (\<lambda>s. P (snd s)) (w_mem f)"
  by (auto simp: sound_for_def w_mem_def case_prod_beta)

lemma sound_walk [sound_intros]:
  "sound_for B (\<lambda>s. P (snd s)) (w_get g)" "sound_for B (\<lambda>s. P (snd s)) (w_upd f)"
  by (simp_all add: sound_for_def walk_laws)

lemma sound_try [sound_intros]: "sound_for B P m \<Longrightarrow> sound_for B P (em_try m)"
  by (fastforce simp: sound_for_def em_try_def case_prod_beta split: sum.splits stop.splits)

lemma sound_at_bind:
  assumes "P (snd (m s))" "\<And>x. fst (m s) = Inl x \<Longrightarrow> B x"
    "\<And>a t. m s = (Inr a, t) \<Longrightarrow> P (snd (f a t)) \<and> (\<forall>x. fst (f a t) = Inl x \<longrightarrow> B x)"
  shows "P (snd (em_bind m f s)) \<and> (\<forall>x. fst (em_bind m f s) = Inl x \<longrightarrow> B x)"
  using assms by (cases "m s") (auto simp: em_bind_def split: sum.split)

lemma sound_at: "sound_for B P m \<Longrightarrow> P s \<Longrightarrow> P (snd (m s)) \<and> (\<forall>x. fst (m s) = Inl x \<longrightarrow> B x)"
  by (simp add: sound_for_def)

lemma sound_case_list_pair [sound_intros]:
  "(\<And>a b. sound_for B P (f a b)) \<Longrightarrow> sound_for B P m \<Longrightarrow>
    sound_for B P (case x of None \<Rightarrow> m | Some (a, b) \<Rightarrow> f a b)"
  by (cases x) auto

lemma sound_case_Some:
  "sound_for B P m \<Longrightarrow> (\<And>a. x = Some a \<Longrightarrow> sound_for B P (f a)) \<Longrightarrow>
    sound_for B P (case x of Some a \<Rightarrow> f a | None \<Rightarrow> m)"
  by (cases x) simp_all

lemma em_try_Some: "em_try m s = (Inr (Some a), t) \<longleftrightarrow> m s = (Inr a, t)"
  by (cases "m s") (auto simp: em_try_def split: sum.split stop.split)

context guest_memory
begin

definition walk_ok :: "'m \<Rightarrow> 'm walk \<Rightarrow> bool" where
  "walk_ok m s \<longleftrightarrow> same_view inv space acc m (snd s)"

lemma safe_read: "safe (same_view inv space acc m) (mo_read M a n)"
proof (rule soundI)
  fix m' assume v: "same_view inv space acc m m'"
  then have i: "inv m'" by (simp add: same_view_def)
  show "same_view inv space acc m (snd (mo_read M a n m'))"
    using read_keeps [OF i] v by (simp add: same_view_def)
  show "fst (mo_read M a n m') = Inl x \<Longrightarrow> only_errors x" for x
    using read_ok [OF i, of n a] read_err [OF i, of n a] by (cases "n = 0 \<or> acc m' PERM_READ a n") auto
qed

lemma safe_reads:
  "safe (same_view inv space acc m) (mem_read_u8 M a)" "safe (same_view inv space acc m) (mem_read_u32 M a)"
  "safe (same_view inv space acc m) (mem_read_u64 M a)"
  unfolding mem_read_u8_def mem_read_u32_def mem_read_u64_def by (intro sound_intros safe_read)+

lemma walk_ok_eq: "walk_ok m = (\<lambda>s. same_view inv space acc m (snd s))"
  by (simp add: fun_eq_iff walk_ok_def)

lemma safe_walk_reads:
  "safe (walk_ok m) (w_mem (mem_read_u32 M a))" "safe (walk_ok m) (w_mem (mem_read_u64 M a))"
  "safe (walk_ok m) (w_mem (mo_read M a n))" "safe (walk_ok m) (w_byte M a)"
  unfolding walk_ok_eq w_byte_def by (rule sound_w_mem safe_reads safe_read)+

lemma safe_walk_simple: "safe (walk_ok m) (w_get g)" "safe (walk_ok m) (w_upd f)"
  unfolding walk_ok_eq by (rule sound_intros)+

lemmas walk_sound = safe_walk_reads safe_walk_simple

section \<open>Safety and termination\<close>

lemma safe_pop_return: "safe (walk_ok m) (pop_return_address M)"
  unfolding pop_return_address_def by (intro sound_intros walk_sound)

lemma safe_apply_code: "safe (walk_ok m) (apply_code M frame op)"
  by (cases op) (simp_all only: apply_code_def unwind_op.case, (intro sound_intros walk_sound)+)

lemma safe_apply_codes: "safe (walk_ok m) (apply_codes M frame cs mf)"
  by (induction cs arbitrary: mf) (simp_all add: sound_simple sound_bind safe_apply_code)

lemma safe_apply_chain: "safe (walk_ok m) (apply_chain M off e first mf)"
proof (induction e arbitrary: first mf rule: measure_induct_rule [where f = size])
  case (less e)
  obtain bg en rc info where e: "e = UnwindEntry bg en rc info" by (cases e)
  have "safe (walk_ok m) (apply_chain M off parent False mf')" if "ui_chained info = Some parent" for parent mf'
    using size_chained [OF that] by (intro less.IH) (simp add: e)
  then show ?case
    unfolding e apply_chain.simps
    by (intro sound_bind walk_sound safe_apply_codes sound_case_Some sound_simple)
qed

lemma safe_unwind_body: "safe (walk_ok m) (unwind_body M ht rva e)"
  unfolding unwind_body_def Let_def by (intro sound_intros walk_sound safe_apply_chain safe_pop_return)

lemma safe_unwind_leaf: "safe (walk_ok m) (unwind_leaf M)"
  unfolding unwind_leaf_def by (intro sound_intros walk_sound safe_pop_return)

lemma safe_epi_first: "safe (walk_ok m) (epi_first M pc)"
  unfolding epi_first_def epi_lea_def Let_def by (intro sound_intros walk_sound)

lemma safe_epi_apply: "safe (walk_ok m) (epi_apply M op)"
  by (cases op) (simp_all only: epi_apply_def epi_op.case, (intro sound_intros walk_sound)+)

lemma byte_readable:
  assumes "em_try (w_byte M pc) s = (Inr (Some b), t)" "walk_ok m s"
  shows "acc m PERM_READ pc 1" "walk_ok m t"
proof -
  have i: "inv (snd s)" and a: "acc (snd s) = acc m" using assms(2) by (simp_all add: walk_ok_def same_view_def)
  have w: "w_byte M pc s = (Inr b, t)" using assms(1) by (simp add: em_try_Some)
  then have "\<exists>v. fst (mo_read M pc 1 (snd s)) = Inr v"
    by (cases "mo_read M pc 1 (snd s)")
      (auto simp: w_byte_def w_mem_def mem_read_u8_def em_bind_def split: sum.splits)
  then show "acc m PERM_READ pc 1" using read_err [OF i, of 1 pc] a by fastforce
  show "walk_ok m t" using soundD [OF safe_walk_reads(4) assms(2), of pc] w by simp
qed

end

context bounded_memory
begin

lemma unat_above:
  assumes "inv m" "acc m PERM_READ a 1"
  shows "unat (a + 1) = Suc (unat a)"
proof -
  have "a \<noteq> - 1" using top_unmapped [OF assms(1)] assms(2) by auto
  then have "1 + a \<noteq> 0" by (metis add.commute eq_neg_iff_add_eq_0)
  then show ?thesis using unatSuc [of a] by (simp add: add.commute)
qed

lemma epi_scan_safe:
  assumes "walk_ok m s" "inv m" "2 ^ 64 - unat pc \<le> n"
  shows "walk_ok m (snd (epi_scan M fb fe n pc ops s)) \<and> (\<forall>x. fst (epi_scan M fb fe n pc ops s) = Inl x \<longrightarrow> only_errors x)"
  using assms
proof (induction n arbitrary: pc ops s)
  case 0
  then show ?case using unat_bound64 [of pc] by simp
next
  case (Suc n)
  note read = sound_at [OF sound_try [OF safe_walk_reads(4)]] and up = unat_above [OF Suc.prems(2)]
  let ?ok = "\<lambda>r. walk_ok m (snd r) \<and> (\<forall>x. fst r = Inl x \<longrightarrow> only_errors x)"
  show ?case
    unfolding epi_scan.simps
  proof (rule sound_at_bind, goal_cases)
    case 1
    then show ?case using read [OF Suc.prems(1), of pc] by blast
  next
    case (2 x)
    then show ?case using read [OF Suc.prems(1), of pc] by blast
  next
    case (3 a t)
    note t = this
    have ok: "walk_ok m t" using read [OF Suc.prems(1), of pc] t by simp
    show ?case
    proof (cases a)
      case None
      then show ?thesis using ok by (simp add: em_apply)
    next
      case (Some b)
      have pc: "acc m PERM_READ pc 1" using byte_readable(1) t Some Suc.prems(1) by blast
      have one: "?ok (epi_scan M fb fe n (pc + 1) ops' t)" for ops'
        using up [OF pc] Suc.prems(3) by (intro Suc.IH [OF ok Suc.prems(2)]) simp
      have two: "?ok (em_bind (em_try (w_byte M (pc + 1))) (\<lambda>o1. case o1 of None \<Rightarrow> em_return None
          | Some p \<Rightarrow> if 0x58 \<le> p \<and> p \<le> 0x5F then epi_scan M fb fe n (pc + 2) (ops @ [EpiPop (p - 0x58 + 8)])
            else em_return None) t)"
      proof (rule sound_at_bind)
        show "walk_ok m (snd (em_try (w_byte M (pc + 1)) t))"
          "fst (em_try (w_byte M (pc + 1)) t) = Inl x \<Longrightarrow> only_errors x" for x
          using read [OF ok, of "pc + 1"] by auto
        fix c u assume u: "em_try (w_byte M (pc + 1)) t = (Inr c, u)"
        have ok': "walk_ok m u" using read [OF ok, of "pc + 1"] u by simp
        have "?ok (epi_scan M fb fe n (pc + 2) ops' u)" if "c = Some p" for p ops'
        proof -
          have "acc m PERM_READ (pc + 1) 1" using byte_readable(1) u that ok by blast
          then have "unat (pc + 2) = Suc (Suc (unat pc))" using up [OF pc] up [of "pc + 1"] by (simp add: add.assoc)
          then show ?thesis using Suc.prems(3) by (intro Suc.IH [OF ok' Suc.prems(2)]) simp
        qed
        then show "?ok ((case c of None \<Rightarrow> em_return None | Some p \<Rightarrow> if 0x58 \<le> p \<and> p \<le> 0x5F
            then epi_scan M fb fe n (pc + 2) (ops @ [EpiPop (p - 0x58 + 8)]) else em_return None) u)"
          using ok' by (cases c) (simp_all add: em_apply)
      qed
      have rest: "safe (walk_ok m)
        (if b = 0xC3 \<or> b = 0xC2 then em_return (Some ops)
         else if b = 0xF3 then
           em_bind (em_try (w_byte M (pc + 1))) (\<lambda>o1. em_return (if o1 = Some 0xC3 then Some ops else None))
         else if b = 0xEB then
           em_bind (w_byte M (pc + 1)) (\<lambda>rel.
             em_return (if jump_leaves fb fe (pc + 2 + sext8 rel) then Some ops else None))
         else if b = 0xE9 then
           em_bind (w_mem (mem_read_u32 M (pc + 1))) (\<lambda>rel.
             em_return (if jump_leaves fb fe (pc + 5 + sext32 rel) then Some ops else None))
         else if b = 0xFF then
           em_bind (em_try (w_byte M (pc + 1))) (\<lambda>o1.
             em_return (case o1 of Some m \<Rightarrow> if m AND 0x38 = 0x20 then Some ops else None | None \<Rightarrow> None))
         else em_return None)"
        by (intro sound_intros walk_sound)
      show ?thesis using one two sound_at [OF rest ok] by (simp add: Some)
    qed
  qed
qed

lemma safe_epilog: "inv m \<Longrightarrow> safe (walk_ok m) (try_simulate_epilog M e base)"
  unfolding try_simulate_epilog_def Let_def
  by (intro sound_intros walk_sound safe_epi_first safe_epi_apply safe_pop_return
      soundI [where m = "epi_scan M _ _ _ _ _"])
    (use epi_scan_safe in \<open>blast+\<close>)

lemma safe_unwind_typed: "inv m \<Longrightarrow> safe (walk_ok m) (virtual_unwind_typed M table base ht)"
  unfolding virtual_unwind_typed_def
  by (intro sound_intros walk_sound safe_unwind_leaf safe_unwind_body safe_epilog)

lemma safe_unwind: "inv m \<Longrightarrow> safe (walk_ok m) (virtual_unwind M table base)"
  unfolding virtual_unwind_def virtual_unwind_frame_def by (intro sound_intros safe_unwind_typed)

end

section \<open>Rejected epilogs\<close>

lemma keeps_regs [keeps_intros]: "keeps (\<lambda>s. fst s = c) (w_mem f)" "keeps (\<lambda>s. fst s = c) (w_get g)"
  "keeps (\<lambda>s. fst s = c) (w_byte M a)"
  by (auto simp: keeps_def walk_laws w_byte_def case_prod_beta)

lemma keeps_try [keeps_intros]: "keeps P m \<Longrightarrow> keeps P (em_try m)"
  by (auto simp: keeps_def em_try_def case_prod_beta)

lemma epi_first_regs: "keeps (\<lambda>s. fst s = c) (epi_first M pc)"
  unfolding epi_first_def epi_lea_def Let_def by (intro keeps_intros)

lemma epi_scan_regs: "keeps (\<lambda>s. fst s = c) (epi_scan M fb fe n pc ops)"
proof (induction n arbitrary: pc ops)
  case 0
  then show ?case by (simp add: keeps_stop)
next
  case (Suc n)
  show ?case unfolding epi_scan.simps by (intro keeps_intros Suc.IH)
qed

definition rejects_clean :: "cpu_state \<Rightarrow> ('m walk, bool) em \<Rightarrow> bool" where
  \<comment> \<open>the answer \<open>False\<close> leaves the registers \<open>c\<close>\<close>
  "rejects_clean c f \<longleftrightarrow> (\<forall>s t. fst s = c \<longrightarrow> f s = (Inr False, t) \<longrightarrow> fst t = c)"

lemma rejects_bind:
  assumes "keeps (\<lambda>s. fst s = c) f" "\<And>a. rejects_clean c (g a)"
  shows "rejects_clean c (em_bind f g)"
  unfolding rejects_clean_def
proof (intro allI impI)
  fix s t assume s: "fst s = c" "em_bind f g s = (Inr False, t)"
  obtain r u where u: "f s = (r, u)" by (cases "f s")
  with s obtain a where "r = Inr a" "g a u = (Inr False, t)" by (cases r) (auto simp: em_bind_def)
  moreover have "fst u = c" using keepsD [OF assms(1) s(1)] u by simp
  ultimately show "fst t = c" using assms(2) unfolding rejects_clean_def by blast
qed

lemma rejects_simple: "rejects_clean c (em_return b)"
  by (simp add: rejects_clean_def em_apply)

lemma rejects_never:
  assumes "\<And>a. rejects_clean c (g a) \<and> (\<forall>s t. g a s \<noteq> (Inr False, t))"
  shows "rejects_clean c (em_bind f g) \<and> (\<forall>s t. em_bind f g s \<noteq> (Inr False, t))"
  using assms by (auto simp: rejects_clean_def em_bind_def split: prod.splits sum.splits)

lemma rejects_option:
  "rejects_clean c f \<Longrightarrow> (\<And>a. rejects_clean c (g a)) \<Longrightarrow>
    rejects_clean c (case x of None \<Rightarrow> f | Some a \<Rightarrow> g a)"
  by (cases x) simp_all

lemma epilog_rejects: "rejects_clean c (try_simulate_epilog M e base)"
proof -
  have "rejects_clean c (em_return True) \<and> (\<forall>s t. em_return True s \<noteq> (Inr False, t :: 'm walk))"
    by (simp add: rejects_simple em_apply)
  then have tail: "rejects_clean c (em_bind (em_each ops (epi_apply M)) (\<lambda>_.
      em_bind (pop_return_address M) (\<lambda>_. em_return True)))" for ops
    by (intro rejects_never [THEN conjunct1] rejects_never) simp
  show ?thesis
    unfolding try_simulate_epilog_def Let_def
    by (intro rejects_bind rejects_option rejects_simple keeps_intros epi_first_regs)
      (auto intro!: rejects_bind rejects_option rejects_simple epi_scan_regs tail split: prod.split)
qed

section \<open>Prologs\<close>

fun prolog_step :: "unwind_op \<Rightarrow> cpu_state \<times> space \<Rightarrow> cpu_state \<times> space" where
  \<comment> \<open>what the instruction described by an unwind code does to the registers and the stack\<close>
  "prolog_step (PushNonvolatile r) (c, sp) =
     (let a = cpu_rsp c - 8 in (cpu_set_rsp a c, overlay a (to_le 8 (cpu_gpr c (ucast r))) sp))"
| "prolog_step (Alloc n) (c, sp) = (cpu_set_rsp (cpu_rsp c - ucast n) c, sp)"
| "prolog_step op s = s"

fun code_size :: "unwind_op \<Rightarrow> nat" where
  "code_size (PushNonvolatile r) = 8"
| "code_size (Alloc n) = unat n"
| "code_size op = 0"

definition frame_size :: "unwind_op list \<Rightarrow> nat" where
  "frame_size ops = sum_list (map code_size ops)"

fun plain_code :: "unwind_op \<Rightarrow> bool" where
  "plain_code (PushNonvolatile r) \<longleftrightarrow> (ucast r :: reg) \<noteq> Rsp"
| "plain_code (Alloc n) \<longleftrightarrow> True"
| "plain_code op \<longleftrightarrow> False"

definition saved :: "unwind_op list \<Rightarrow> reg set" where
  "saved ops = {ucast r |r. PushNonvolatile r \<in> set ops}"

definition prolog :: "unwind_op list \<Rightarrow> cpu_state \<times> space \<Rightarrow> cpu_state \<times> space" where
  \<comment> \<open>the codes are listed from the last instruction of the prolog to its first\<close>
  "prolog ops s = foldr prolog_step ops s"

definition restored :: "unwind_op list \<Rightarrow> cpu_state \<Rightarrow> cpu_state \<Rightarrow> cpu_state" where
  \<comment> \<open>the registers of the caller \<open>c0\<close> where the prolog saved them, and its stack pointer\<close>
  "restored ops c0 c = c\<lparr>cpu_gpr := \<lambda>i. if i = Rsp \<or> i \<in> saved ops then cpu_gpr c0 i else cpu_gpr c i\<rparr>"

lemma restored_set_rsp [simp]: "restored ops c0 (cpu_set_rsp v c) = restored ops c0 c"
  by (intro cpu_state.equality) (auto simp: restored_def cpu_set_rsp_def)

lemma restored_rsp [simp]: "cpu_rsp (restored ops c0 c) = cpu_rsp c0" "cpu_rsp (cpu_set_rsp v c) = v"
  by (simp_all add: restored_def cpu_rsp_def cpu_set_rsp_def)

lemma restored_saved: "saved ops = saved ops' \<Longrightarrow> restored ops = restored ops'"
  by (simp add: restored_def fun_eq_iff)

lemma prolog_rsp: "plain_code op \<Longrightarrow> cpu_rsp (fst (prolog_step op s)) = cpu_rsp (fst s) - of_nat (code_size op)"
  by (cases s; cases op) (auto simp: Let_def cpu_rsp_def cpu_set_rsp_def)

lemma prolog_gprs: "i \<noteq> Rsp \<Longrightarrow> cpu_gpr (fst (prolog ops s)) i = cpu_gpr (fst s) i"
proof (induction ops)
  case (Cons op ops)
  then show ?case
    by (cases "prolog ops s"; cases op) (auto simp: prolog_def Let_def cpu_set_rsp_def)
qed (simp add: prolog_def)

lemma prolog_Cons: "prolog (op # ops) s = prolog_step op (prolog ops s)"
  by (simp add: prolog_def)

lemma frame_size_Cons [simp]: "frame_size (op # ops) = code_size op + frame_size ops" "frame_size [] = 0"
  by (simp_all add: frame_size_def)

lemma prolog_step_space:
  assumes "plain_code op" "code_size op \<le> i" "i < 2 ^ 64" "cpu_rsp (fst (prolog_step op s)) = a"
  shows "snd (prolog_step op s) (a + of_nat i) = snd s (a + of_nat i)"
  using assms
  by (cases s; cases op) (auto simp: Let_def cpu_rsp_def cpu_set_rsp_def overlay_def unat_of_nat take_bit_nat_eq_self)

lemma prolog_step_mapped: "snd (prolog_step op s) x = None \<longleftrightarrow> snd s x = None"
  by (cases s; cases op) (auto simp: Let_def overlay_def)

lemma prolog_mapped: "snd (prolog ops s) x = None \<longleftrightarrow> snd s x = None"
  by (induction ops) (simp_all add: prolog_def prolog_step_mapped)

lemma saved_Cons: "saved (PushNonvolatile r # ops) = insert (ucast r) (saved ops)"
  "saved (Alloc n # ops) = saved ops"
  by (auto simp: saved_def)

lemma pushed_bytes:
  assumes "s' = prolog_step (PushNonvolatile r) s" "a = cpu_rsp (fst s')"
    "\<And>i. i < 8 \<Longrightarrow> snd s (a + of_nat i) \<noteq> None" "\<And>i. i < 8 \<Longrightarrow> sp (a + of_nat i) = snd s' (a + of_nat i)"
  shows "bytes_at sp a 8 = to_le 8 (cpu_gpr (fst s) (ucast r))"
proof (rule nth_equalityI)
  fix i assume "i < length (bytes_at sp a 8)"
  then have i: "i < 8" by simp
  have a: "a = cpu_rsp (fst s) - 8" using assms(1,2) by (cases s) (simp add: Let_def cpu_rsp_def cpu_set_rsp_def)
  have "unat (of_nat i :: u64) = i" using i by (simp add: unat_of_nat take_bit_nat_eq_self)
  then have "snd (the (sp (a + of_nat i))) = to_le 8 (cpu_gpr (fst s) (ucast r)) ! i"
    using assms(3) [OF i] assms(4) [OF i] i
    by (cases s) (auto simp: assms(1) Let_def overlay_def a)
  then show "bytes_at sp a 8 ! i = to_le 8 (cpu_gpr (fst s) (ucast r)) ! i" using i by simp
qed simp

context guest_memory
begin

lemma read_u64_exact:
  assumes "inv m" "acc m PERM_READ a 8"
  shows "\<exists>m'. mem_read_u64 M a m = (Inr (from_le (bytes_at (space m) a 8)), m') \<and> same_view inv space acc m m'"
  using read_ok [OF assms(1), of 8 a] read_keeps [OF assms(1), of a 8] assms(2)
  by (cases "mo_read M a 8 m") (simp add: mem_read_u64_def em_bind_def em_apply same_view_def)

lemma apply_push:
  assumes "inv m" "acc m PERM_READ (cpu_rsp c) 8" "(ucast r :: reg) \<noteq> Rsp"
  shows "\<exists>m'. apply_code M frame (PushNonvolatile r) (c, m) =
      (Inr (), cpu_set_rsp (cpu_rsp c + 8) (cpu_set_reg (ucast r) (from_le (bytes_at (space m) (cpu_rsp c) 8)) c), m')
    \<and> same_view inv space acc m m'"
  using read_u64_exact [OF assms(1,2)] assms(3)
  by (auto simp: apply_code_def em_bind_def walk_laws Let_def set_gpr_masked_def cpu_set_reg_def cpu_rsp_def)

lemma apply_pushed:
  \<comment> \<open>popping what the prolog pushed\<close>
  assumes inv: "inv m" and sp: "cpu_rsp c = cpu_rsp c' - 8" and r: "(ucast r :: reg) \<noteq> Rsp"
    and acc: "acc m PERM_READ (cpu_rsp c) 8"
    and bytes: "bytes_at (space m) (cpu_rsp c) 8 = to_le 8 (cpu_gpr c' (ucast r))"
  shows "\<exists>m'. apply_code M frame (PushNonvolatile r) (c, m) =
      (Inr (), cpu_set_rsp (cpu_rsp c') (cpu_set_reg (ucast r) (cpu_gpr c' (ucast r)) c), m') \<and>
    same_view inv space acc m m'"
  using apply_push [OF inv acc r, unfolded bytes] by (simp add: from_le_to_le sp take_bit_word_eq_self)

lemma codes_undo_prolog:
  assumes "list_all plain_code ops" "frame_size ops < 2 ^ 64"
    "fst (prolog ops (c0, sp0)) = c1" "cpu_rsp c = cpu_rsp c1" "inv m"
    "\<And>i. i < frame_size ops \<Longrightarrow> sp0 (cpu_rsp c1 + of_nat i) \<noteq> None"
    "\<And>i. i < frame_size ops \<Longrightarrow> space m (cpu_rsp c1 + of_nat i) = snd (prolog ops (c0, sp0)) (cpu_rsp c1 + of_nat i)"
    "frame_size ops \<noteq> 0 \<Longrightarrow> acc m PERM_READ (cpu_rsp c1) (frame_size ops)" "map uc_op cs = ops"
  shows "\<exists>m'. apply_codes M frame cs mf (c, m) = (Inr mf, restored ops c0 c, m') \<and> same_view inv space acc m m'"
  using assms
proof (induction ops arbitrary: c1 c m cs mf)
  case Nil
  then have "restored [] c0 c = c"
    by (intro cpu_state.equality) (auto simp: restored_def saved_def prolog_def cpu_rsp_def)
  with Nil show ?case by (auto simp: em_apply same_view_refl)
next
  case (Cons op ops)
  let ?s = "prolog ops (c0, sp0)" and ?k = "code_size op" and ?d = "frame_size ops" and ?a = "cpu_rsp c1"
  let ?c' = "fst ?s"
  have plain: "plain_code op" "list_all plain_code ops" and small: "?k + ?d < 2 ^ 64"
    using Cons.prems by simp_all
  have c1: "c1 = fst (prolog_step op ?s)" using Cons.prems(3) by (simp add: prolog_Cons)
  have a: "?a = cpu_rsp ?c' - of_nat ?k" unfolding c1 by (rule prolog_rsp [OF plain(1)])
  have up: "cpu_rsp ?c' + of_nat i = ?a + of_nat (?k + i)" for i by (simp add: a)
  have mapped: "i < ?d \<Longrightarrow> sp0 (cpu_rsp ?c' + of_nat i) \<noteq> None" for i
    unfolding up using Cons.prems(6) [of "?k + i"] by simp
  have same: "i < ?d \<Longrightarrow> space m (cpu_rsp ?c' + of_nat i) = snd ?s (cpu_rsp ?c' + of_nat i)" for i
    unfolding up using Cons.prems(7) [of "?k + i"] small prolog_step_space [OF plain(1), of "?k + i" ?s ?a]
    by (simp add: prolog_Cons c1)
  have acc': "acc m PERM_READ (cpu_rsp ?c') ?d" if "?d \<noteq> 0"
    using acc_sub [OF Cons.prems(5), of PERM_READ ?a "?k + ?d" ?d ?k] Cons.prems(8) that by (simp add: a)
  obtain x cs' where cs: "cs = x # cs'" "uc_op x = op" "map uc_op cs' = ops" using Cons.prems(9) by auto
  have no_mf: "is_machine_frame op = False" using plain(1) by (cases op) (simp_all add: is_machine_frame_def)
  obtain c2 m2 where step: "apply_code M frame op (c, m) = (Inr (), c2, m2)" "same_view inv space acc m m2"
    and c2: "cpu_rsp c2 = cpu_rsp ?c'" "restored ops c0 c2 = restored (op # ops) c0 c"
  proof (cases op)
    case (PushNonvolatile r)
    have 8: "i < 8 \<Longrightarrow> snd ?s (?a + of_nat i) \<noteq> None"
      "i < 8 \<Longrightarrow> space m (?a + of_nat i) = snd (prolog_step op ?s) (?a + of_nat i)" for i
      using Cons.prems(6,7) [of i] prolog_mapped [of ops "(c0, sp0)"] by (auto simp: PushNonvolatile prolog_Cons)
    have bytes: "bytes_at (space m) (cpu_rsp c) 8 = to_le 8 (cpu_gpr ?c' (ucast r))"
      unfolding Cons.prems(4) using 8 by (intro pushed_bytes [of "prolog_step op ?s" r ?s]) (simp_all add: PushNonvolatile c1)
    have r: "(ucast r :: reg) \<noteq> Rsp" using plain(1) by (simp add: PushNonvolatile)
    have "acc m PERM_READ (cpu_rsp c) 8"
      using acc_sub [OF Cons.prems(5), of PERM_READ ?a "?k + ?d" 8 0] Cons.prems(4,8) by (simp add: PushNonvolatile)
    moreover have "cpu_rsp c = cpu_rsp ?c' - 8" using a Cons.prems(4) by (simp add: PushNonvolatile)
    ultimately obtain m2 where "apply_code M frame (PushNonvolatile r) (c, m) =
        (Inr (), cpu_set_rsp (cpu_rsp ?c') (cpu_set_reg (ucast r) (cpu_gpr ?c' (ucast r)) c), m2)"
      "same_view inv space acc m m2"
      using apply_pushed [OF Cons.prems(5) _ r _ bytes] by blast
    moreover have "restored ops c0 (cpu_set_rsp (cpu_rsp ?c') (cpu_set_reg (ucast r) (cpu_gpr ?c' (ucast r)) c))
        = restored (op # ops) c0 c"
      using prolog_gprs [OF r, of ops "(c0, sp0)"]
      by (intro cpu_state.equality) (auto simp: restored_def cpu_set_rsp_def cpu_set_reg_def PushNonvolatile saved_Cons)
    ultimately show ?thesis using that by (simp add: PushNonvolatile cpu_rsp_def cpu_set_rsp_def)
  next
    case (Alloc n)
    have "cpu_rsp c + ucast n = cpu_rsp ?c'" using a Cons.prems(4) by (simp add: Alloc)
    then show ?thesis
      using same_view_refl [OF Cons.prems(5)]
      by (intro that [of "cpu_set_rsp (cpu_rsp c + ucast n) c" m])
        (auto simp: Alloc apply_code_def walk_laws restored_saved [OF saved_Cons(2)])
  qed (use plain(1) in simp_all)
  have view: "inv m2" "space m2 = space m" "acc m2 = acc m" using step(2) by (simp_all add: same_view_def)
  obtain m3 where "apply_codes M frame cs' mf (c2, m2) = (Inr mf, restored ops c0 c2, m3)" "same_view inv space acc m2 m3"
    using Cons.IH [of ?c' c2 m2 cs' mf] plain(2) small c2(1) view mapped same acc' cs(3) by auto
  then show ?case
    using step c2(2) cs no_mf by (auto simp: em_bind_def intro: same_view_trans)
qed

lemma pop_return_exact:
  assumes "inv m" "acc m PERM_READ (cpu_rsp c) 8"
  shows "\<exists>m'. pop_return_address M (c, m) = (Inr (),
      cpu_set_rsp (cpu_rsp c + 8) (c\<lparr>cpu_rip := from_le (bytes_at (space m) (cpu_rsp c) 8)\<rparr>), m') \<and>
    same_view inv space acc m m'"
  using read_u64_exact [OF assms] by (auto simp: pop_return_address_def em_bind_def walk_laws)

end

lemma prolog_top: "list_all plain_code ops \<Longrightarrow> cpu_rsp (fst (prolog ops s)) + of_nat (frame_size ops) = cpu_rsp (fst s)"
proof (induction ops)
  case (Cons op ops)
  have "cpu_rsp (fst (prolog (op # ops) s)) = cpu_rsp (fst (prolog ops s)) - of_nat (code_size op)"
    using prolog_rsp [of op "prolog ops s"] Cons.prems by (simp add: prolog_Cons)
  then have "cpu_rsp (fst (prolog (op # ops) s)) + of_nat (frame_size (op # ops)) =
      cpu_rsp (fst (prolog ops s)) + of_nat (frame_size ops)" by simp
  with Cons show ?case by simp
qed (simp add: prolog_def)

lemma prolog_space_above:
  "list_all plain_code ops \<Longrightarrow> frame_size ops + i < 2 ^ 64 \<Longrightarrow>
    snd (prolog ops s) (cpu_rsp (fst s) + of_nat i) = snd s (cpu_rsp (fst s) + of_nat i)"
proof (induction ops)
  case (Cons op ops)
  let ?s = "prolog ops s"
  have top: "cpu_rsp (fst s) = cpu_rsp (fst (prolog_step op ?s)) + of_nat (code_size op + frame_size ops)"
    using prolog_top [of "op # ops" s] Cons.prems by (simp add: prolog_Cons)
  have "snd (prolog_step op ?s) (cpu_rsp (fst s) + of_nat i) = snd ?s (cpu_rsp (fst s) + of_nat i)"
    using prolog_step_space [of op "code_size op + frame_size ops + i" ?s] Cons.prems
    by (simp add: top algebra_simps)
  then show ?case using Cons by (simp add: prolog_Cons)
qed (simp add: prolog_def)

definition stands_in ::
    "unwind_entry \<Rightarrow> u32 \<Rightarrow> unwind_op list \<Rightarrow> cpu_state \<Rightarrow> cpu_state \<Rightarrow> bool" where
  \<comment> \<open>a frame of the function, at an offset by which the prolog has executed \<open>ops\<close> and has moved
    the stack pointer to that of \<open>c1\<close>: without a frame register \<open>rsp\<close> still has that value, with
    one (after the instruction that sets it) the frame register remembers it\<close>
  "stands_in e off ops c1 c \<longleftrightarrow>
     ui_chained (ue_info e) = None \<and> list_all plain_code ops \<and> frame_size ops + 8 < 2 ^ 64 \<and>
     (map uc_op (executed_codes True off (ui_codes (ue_info e))) = ops \<and> cpu_rsp c = cpu_rsp c1 \<or>
      map uc_op (executed_codes True off (ui_codes (ue_info e))) = SetFrameRegister # ops \<and>
        frame_base (ue_info e) c = cpu_rsp c1)"

context bounded_memory
begin

lemma unwind_body_exact:
  assumes inv: "inv m" and st: "stands_in e (rva - ue_begin e) ops c1 c"
    and c1: "c1 = fst (prolog ops (c0, sp0))"
    and acc: "acc m PERM_READ (cpu_rsp c1) (frame_size ops + 8)"
    and mapped: "\<And>i. i < frame_size ops + 8 \<Longrightarrow> sp0 (cpu_rsp c1 + of_nat i) \<noteq> None"
    and same: "\<And>i. i < frame_size ops + 8 \<Longrightarrow>
      space m (cpu_rsp c1 + of_nat i) = snd (prolog ops (c0, sp0)) (cpu_rsp c1 + of_nat i)"
  shows "\<exists>fu m'. unwind_body M ht rva e (c, m) = (Inr fu,
      cpu_set_rsp (cpu_rsp c0 + 8) ((restored ops c0 c)\<lparr>cpu_rip := from_le (bytes_at sp0 (cpu_rsp c0) 8)\<rparr>), m') \<and>
    same_view inv space acc m m' \<and> \<not> fu_leaf_or_epilog fu \<and> fu_establisher_frame fu = frame_base (ue_info e) c \<and>
    fu_handler_rva fu = (if wants_handler ht (ue_info e) then ui_handler (ue_info e) else None)"
proof -
  let ?info = "ue_info e" and ?frame = "frame_base (ue_info e) c"
  let ?cs = "executed_codes True (rva - ue_begin e) (ui_codes ?info)"
  have plain: "list_all plain_code ops" and size: "frame_size ops + 8 < 2 ^ 64" and ch: "ui_chained ?info = None"
    using st by (auto simp: stands_in_def)
  have top: "cpu_rsp c1 + of_nat (frame_size ops) = cpu_rsp c0" using prolog_top [OF plain, of "(c0, sp0)"] c1 by simp
  have undo: "\<exists>m'. apply_codes M ?frame cs False (c', m) = (Inr False, restored ops c0 c', m') \<and> same_view inv space acc m m'"
    if "cpu_rsp c' = cpu_rsp c1" "map uc_op cs = ops" for c' cs
    using size acc_sub [OF inv acc, of "frame_size ops" 0]
    by (intro codes_undo_prolog [OF plain _ c1 [symmetric] that(1) inv _ _ _ that(2)] mapped same) auto
  have codes: "\<exists>m'. apply_codes M ?frame ?cs False (c, m) = (Inr False, restored ops c0 c, m') \<and> same_view inv space acc m m'"
  proof (cases "map uc_op ?cs = ops \<and> cpu_rsp c = cpu_rsp c1")
    case True
    then show ?thesis using undo by simp
  next
    case False
    then obtain x cs where cs: "?cs = x # cs" "uc_op x = SetFrameRegister" "map uc_op cs = ops"
      and fr: "?frame = cpu_rsp c1"
      using st by (auto simp: stands_in_def)
    then show ?thesis
      using undo [of "cpu_set_rsp ?frame c" cs]
      by (simp add: em_bind_def apply_code_def walk_laws is_machine_frame_def)
  qed
  then obtain m1 where m1: "apply_codes M ?frame ?cs False (c, m) = (Inr False, restored ops c0 c, m1)"
    "same_view inv space acc m m1" by blast
  then have view1: "inv m1" "space m1 = space m" "acc m1 = acc m" by (simp_all add: same_view_def)
  have "apply_chain M (rva - ue_begin e) e True False (c, m) = (Inr False, restored ops c0 c, m1)"
    using m1 ch by (cases e) (simp add: em_bind_def walk_laws)
  moreover have "acc m1 PERM_READ (cpu_rsp (restored ops c0 c)) 8"
    using acc_sub [OF inv acc, of 8 "frame_size ops"] by (simp add: view1 top)
  then obtain m2 where "pop_return_address M (restored ops c0 c, m1) = (Inr (), cpu_set_rsp (cpu_rsp c0 + 8)
      ((restored ops c0 c)\<lparr>cpu_rip := from_le (bytes_at (space m) (cpu_rsp c0) 8)\<rparr>), m2)" "same_view inv space acc m1 m2"
    using pop_return_exact [OF view1(1)] view1 by fastforce
  moreover have "bytes_at (space m) (cpu_rsp c0) 8 = bytes_at sp0 (cpu_rsp c0) 8"
  proof -
    have "space m (cpu_rsp c0 + of_nat i) = sp0 (cpu_rsp c0 + of_nat i)" if "i < 8" for i
      using same [of "frame_size ops + i"] prolog_space_above [OF plain, of i "(c0, sp0)"] size that
      by (simp add: add.assoc [symmetric] top)
    then show ?thesis by (simp add: bytes_at_def)
  qed
  ultimately show ?thesis
    using m1(2) by (auto simp: unwind_body_def Let_def em_bind_def em_when_def walk_laws intro: same_view_trans)
qed

lemma unwind_frame_exact:
  assumes rva: "rva_of base (cpu_rip c) = Some rva" "unwind_lookup table rva = Some e"
    and no_epilog: "fst (try_simulate_epilog M e base (c, m)) = Inr False"
    and inv: "inv m" and st: "stands_in e (rva - ue_begin e) ops c1 c" and c1: "c1 = fst (prolog ops (c0, sp0))"
    and acc: "acc m PERM_READ (cpu_rsp c1) (frame_size ops + 8)"
    and mapped: "\<And>i. i < frame_size ops + 8 \<Longrightarrow> sp0 (cpu_rsp c1 + of_nat i) \<noteq> None"
    and same: "\<And>i. i < frame_size ops + 8 \<Longrightarrow>
      space m (cpu_rsp c1 + of_nat i) = snd (prolog ops (c0, sp0)) (cpu_rsp c1 + of_nat i)"
  shows "\<exists>fu m'. virtual_unwind_typed M table base ht (c, m) = (Inr fu,
      cpu_set_rsp (cpu_rsp c0 + 8) ((restored ops c0 c)\<lparr>cpu_rip := from_le (bytes_at sp0 (cpu_rsp c0) 8)\<rparr>), m') \<and>
    same_view inv space acc m m' \<and> \<not> fu_leaf_or_epilog fu \<and> fu_establisher_frame fu = frame_base (ue_info e) c \<and>
    fu_handler_rva fu = (if wants_handler ht (ue_info e) then ui_handler (ue_info e) else None)"
proof -
  obtain c' m' where ep: "try_simulate_epilog M e base (c, m) = (Inr False, c', m')"
    using no_epilog by (cases "try_simulate_epilog M e base (c, m)") auto
  have "c' = c" using epilog_rejects [of c M e base] ep unfolding rejects_clean_def by (metis fst_conv)
  moreover have view: "same_view inv space acc m m'"
    using soundD [OF safe_epilog [OF inv], of "(c, m)" e base] ep same_view_refl [OF inv] by (simp add: walk_ok_def)
  ultimately have "virtual_unwind_typed M table base ht (c, m) = unwind_body M ht rva e (c, m')"
    using rva ep by (simp add: virtual_unwind_typed_def em_bind_def walk_laws)
  moreover have "inv m'" "space m' = space m" "acc m' = acc m" using view by (simp_all add: same_view_def)
  moreover obtain fu m2 where "unwind_body M ht rva e (c, m') = (Inr fu,
      cpu_set_rsp (cpu_rsp c0 + 8) ((restored ops c0 c)\<lparr>cpu_rip := from_le (bytes_at sp0 (cpu_rsp c0) 8)\<rparr>), m2)"
    "same_view inv space acc m' m2" "\<not> fu_leaf_or_epilog fu" "fu_establisher_frame fu = frame_base (ue_info e) c"
    "fu_handler_rva fu = (if wants_handler ht (ue_info e) then ui_handler (ue_info e) else None)"
    using unwind_body_exact [OF _ st c1, of m'] acc mapped same calculation(2-4) by metis
  ultimately show ?thesis using same_view_trans [OF view] by auto
qed

end

end
