(* ===== verification/Unwind_Theorems.thy ===== *)
theory Unwind_Theorems
  imports Unwind_Laws Memory_Theorems
begin

text \<open>
  The unwinder on \<open>VirtualMemory\<close>: it always returns or fails with an error, a backtrace is
  bounded, and unwinding a frame gives the caller its registers back.
\<close>

context bounded_memory
begin

lemma try_safe:
  assumes "safe P f" "P s"
  shows "\<exists>r t. em_try f s = (Inr r, t) \<and> P t"
  using soundD [OF assms] sound_stop [OF assms]
  by (cases "f s") (auto simp: em_try_def only_errors_def split: sum.split stop.splits)

lemma backtrace_loop_bound:
  assumes "inv m" "walk_ok m s"
  shows "\<exists>fs t. backtrace_loop M table base n s = (Inr fs, t) \<and> walk_ok m t \<and> length fs \<le> n \<and> 0 \<notin> set fs"
  using assms(2)
proof (induction n arbitrary: s)
  case 0
  then show ?case by (simp add: em_apply)
next
  case (Suc n)
  obtain r t where t: "em_try (virtual_unwind M table base) s = (Inr r, t)" "walk_ok m t"
    using try_safe [OF safe_unwind [OF assms(1)] Suc.prems] by blast
  obtain fs u where "backtrace_loop M table base n t = (Inr fs, u)" "walk_ok m u" "length fs \<le> n" "0 \<notin> set fs"
    using Suc.IH [OF t(2)] by blast
  then show ?case
    using t by (cases r; cases t; cases u) (auto simp: em_bind_def walk_laws Let_def)
qed

lemma backtrace_bound:
  assumes "inv m"
  shows "\<exists>fs m'. backtrace M table base c limit m = (Inr fs, m') \<and> same_view inv space acc m m' \<and>
    length fs \<le> limit \<and> 0 \<notin> set fs"
proof -
  obtain fs t where "backtrace_loop M table base limit (c, m) = (Inr fs, t)" "walk_ok m t" "length fs \<le> limit" "0 \<notin> set fs"
    using backtrace_loop_bound [OF assms, of "(c, m)" table base limit] same_view_refl [OF assms]
    by (auto simp: walk_ok_def)
  then show ?thesis by (auto simp: backtrace_def walk_ok_def)
qed

lemma read_u8_exact:
  assumes "inv m" "acc m PERM_READ a 1"
  shows "\<exists>m'. w_byte M a (c, m) = (Inr (snd (the (space m a))), c, m')"
  using read_ok [OF assms(1), of 1 a] assms(2)
  by (cases "mo_read M a 1 m") (simp add: w_byte_def w_mem_def mem_read_u8_def em_bind_def em_apply bytes_at_1 [simplified])

lemma no_epilog:
  assumes "inv m" "acc m PERM_READ (cpu_rip c) 1" "b = snd (the (space m (cpu_rip c)))"
    "b \<notin> {0x48, 0x49, 0x41, 0xC3, 0xC2, 0xF3, 0xEB, 0xE9, 0xFF}" "\<not> (0x58 \<le> b \<and> b \<le> 0x5F)"
  shows "fst (try_simulate_epilog M e base (c, m)) = Inr False"
proof -
  obtain m1 where 1: "w_byte M (cpu_rip c) (c, m) = (Inr b, c, m1)"
    using read_u8_exact [OF assms(1,2)] assms(3) by blast
  then have t1: "em_try (w_byte M (cpu_rip c)) (c, m) = (Inr (Some b), c, m1)" by (simp add: em_try_Some)
  have "walk_ok m (c, m)" using same_view_refl [OF assms(1)] by (simp add: walk_ok_def)
  from byte_readable(2) [OF t1 this] have view: "inv m1" "space m1 = space m" "acc m1 = acc m"
    by (simp_all add: walk_ok_def same_view_def)
  then obtain m2 where "w_byte M (cpu_rip c) (c, m1) = (Inr b, c, m2)"
    using read_u8_exact [of m1 "cpu_rip c" c] assms(2,3) by auto
  then have t2: "em_try (w_byte M (cpu_rip c)) (c, m1) = (Inr (Some b), c, m2)" by (simp add: em_try_Some)
  have first: "epi_first M (cpu_rip c) (c, m) = (Inr (Some ([], cpu_rip c)), c, m1)"
    using t1 assms(4) by (simp add: epi_first_def em_bind_def em_apply)
  have scan: "n \<noteq> 0 \<Longrightarrow> epi_scan M fb fe n (cpu_rip c) ops (c, m1) = (Inr None, c, m2)" for n fb fe ops
    using t2 assms(4,5) by (cases n) (auto simp: em_bind_def em_apply)
  have "2 ^ 64 - unat (cpu_rip c) \<noteq> 0" using unat_bound64 [of "cpu_rip c"] by linarith
  then show ?thesis
    using first scan by (simp add: try_simulate_epilog_def Let_def em_bind_def em_apply walk_laws)
qed

end

section \<open>Properties\<close>

text \<open>
  C18: On \<open>VirtualMemory\<close>, whatever the function table, the code at \<open>rip\<close> and the stack,
  unwinding one frame comes to an end: it returns, or it fails with an error, never with a panic;
  the memory the guest sees is unchanged. A backtrace always returns, with at most as many frames
  as it was asked for and no null frame.
\<close>

theorem unwind_terminates:
  assumes "vm_ok m"
  shows "(\<exists>r m'. virtual_unwind_typed (vm_ops alloc) table base ht (c, m) = (r, m') \<and>
      ((\<exists>fu. r = Inr fu) \<or> (\<exists>e. r = Inl (Err e))) \<and> vm_space (snd m') = vm_space m) \<and>
    (\<exists>fs m'. backtrace (vm_ops alloc) table base c limit m = (Inr fs, m') \<and> vm_space m' = vm_space m \<and>
      length fs \<le> limit \<and> 0 \<notin> set fs)"
proof (intro conjI)
  let ?u = "virtual_unwind_typed (vm_ops alloc) table base ht (c, m)"
  have ok: "vmem.walk_ok m (c, m)" using vmem.same_view_refl [OF assms] by (simp add: vmem.walk_ok_def)
  note safe = vtop.safe_unwind_typed [OF assms, of alloc table base ht]
  have "vm_space (snd (snd ?u)) = vm_space m"
    using soundD [OF safe ok] by (simp add: vmem.walk_ok_def same_view_def)
  moreover have "(\<exists>fu. fst ?u = Inr fu) \<or> (\<exists>e. fst ?u = Inl (Err e))"
    using sound_stop [OF safe ok] by (cases "fst ?u") (auto simp: only_errors_def split: stop.splits)
  ultimately show "\<exists>r m'. ?u = (r, m') \<and> ((\<exists>fu. r = Inr fu) \<or> (\<exists>e. r = Inl (Err e))) \<and> vm_space (snd m') = vm_space m"
    by (metis prod.collapse)
  show "\<exists>fs m'. backtrace (vm_ops alloc) table base c limit m = (Inr fs, m') \<and> vm_space m' = vm_space m \<and>
      length fs \<le> limit \<and> 0 \<notin> set fs"
    using vtop.backtrace_bound [OF assms, of alloc table base c limit] by (auto simp: same_view_def)
qed

theorem unwind_terminates_witness:
  "\<exists>fs m'. backtrace (vm_ops (\<lambda>_. True)) [] 0x400000 cpu_state_new 5 demo_vm = (Inr fs, m') \<and> length fs \<le> 5"
  using unwind_terminates [OF demo_vm_ok, of "\<lambda>_. True" "[]" "0x400000" HT_NONE cpu_state_new 5] by blast

text \<open>
  C19: Unwinding undoes the prolog, also from its middle. Let a function be entered with registers
  \<open>c0\<close>, and let the part \<open>ops\<close> of its prolog have run, made of pushes of nonvolatile registers and
  stack allocations alone. Let the function be one without chained unwind data, and let the
  instruction at \<open>rip\<close> be one that the unwinder does not take for the beginning of an epilog (it
  disassembles forward to decide, and can take an indirect jump of the body for one). Whatever the
  body did to the other registers, as long as the stack pointer, or the frame register if the
  function has one that is already set, still is where that part of the prolog put it, and the
  frame (mapped on entry, and readable now without leaving its region) still holds what the prolog
  stored: unwinding restores every pushed register and the stack pointer to the values of \<open>c0\<close>,
  pops the return address the caller had pushed, and changes no other register and no byte of
  memory. It reports the function's handler exactly when the function has one of the kind asked for.
\<close>

theorem unwind_undoes_prolog:
  assumes "vm_ok m" "rva_of base (cpu_rip c) = Some rva" "unwind_lookup table rva = Some e"
    and "fst (try_simulate_epilog (vm_ops alloc) e base (c, m)) = Inr False"
    and "stands_in e (rva - ue_begin e) ops (fst (prolog ops (c0, sp0))) c"
    and "vm_acc m PERM_READ (cpu_rsp (fst (prolog ops (c0, sp0)))) (frame_size ops + 8)"
    and "\<And>i. i < frame_size ops + 8 \<Longrightarrow> sp0 (cpu_rsp (fst (prolog ops (c0, sp0))) + of_nat i) \<noteq> None"
    and "\<And>i. i < frame_size ops + 8 \<Longrightarrow> vm_space m (cpu_rsp (fst (prolog ops (c0, sp0))) + of_nat i) =
      snd (prolog ops (c0, sp0)) (cpu_rsp (fst (prolog ops (c0, sp0))) + of_nat i)"
  shows "\<exists>fu c' m'. virtual_unwind_typed (vm_ops alloc) table base ht (c, m) = (Inr fu, c', m') \<and>
    vm_space m' = vm_space m \<and>
    cpu_rip c' = from_le (bytes_at sp0 (cpu_rsp c0) 8) \<and> cpu_rsp c' = cpu_rsp c0 + 8 \<and>
    (\<forall>i. i \<noteq> Rsp \<longrightarrow> cpu_gpr c' i = (if i \<in> saved ops then cpu_gpr c0 i else cpu_gpr c i)) \<and>
    cpu_xmm c' = cpu_xmm c \<and> cpu_rflags c' = cpu_rflags c \<and>
    fu_establisher_frame fu = frame_base (ue_info e) c \<and>
    fu_handler_rva fu = (if wants_handler ht (ue_info e) then ui_handler (ue_info e) else None)"
  using vtop.unwind_frame_exact [OF assms(2,3,4,1,5) refl assms(6,7,8), of ht]
  by (fastforce simp: same_view_def cpu_rsp_def cpu_set_rsp_def restored_def)

definition unwind_demo_entry :: unwind_entry where
  "unwind_demo_entry = UnwindEntry 0 0x100 0 (UnwindInfo 1 False False 1 None 0
     [\<lparr>uc_prolog_offset = 0, uc_op = PushNonvolatile 5\<rparr>] None None None)"

definition unwind_demo_caller :: cpu_state where
  "unwind_demo_caller = cpu_set_reg Rbp 0xC390 (cpu_set_rsp 0x400008 cpu_state_new)"

definition unwind_demo_callee :: cpu_state where
  "unwind_demo_callee = cpu_set_rsp 0x400000 (cpu_state_new\<lparr>cpu_rip := 0x400000\<rparr>)"

lemma unwind_demo_frame:
  "prolog [PushNonvolatile 5] (unwind_demo_caller, vm_space demo_vm) =
    (cpu_set_rsp 0x400000 unwind_demo_caller, overlay 0x400000 (to_le 8 (0xC390 :: u64)) (vm_space demo_vm))"
  by (simp add: prolog_def Let_def unwind_demo_caller_def cpu_rsp_def cpu_set_rsp_def cpu_set_reg_def reg_defs)

lemma overlay_same:
  assumes "n < 2 ^ 64" shows "overlay a (bytes_at sp a n) sp = sp"
proof
  fix x show "overlay a (bytes_at sp a n) sp x = sp x"
    by (cases "sp x") (auto simp: overlay_def)
qed

lemma demo_vm_bytes: "bytes_at (vm_space demo_vm) 0x400000 8 = to_le 8 (0xC390 :: u64)"
    "bytes_at (vm_space demo_vm) 0x400008 8 = to_le 8 (0 :: u64)"
  by (simp_all add: bytes_at_def to_le_def vm_space_def demo_vm_eq table_space_def position_def
      region_contains_def saturating_add_def upt_rec Let_def)

lemma demo_vm_all: "vm_acc demo_vm PERM_READ 0x400000 16"
  by (simp add: demo_vm_eq vm_acc_def region_contains_def saturating_add_def eval_simps)

lemma unwind_demo_space: "snd (prolog [PushNonvolatile 5] (unwind_demo_caller, vm_space demo_vm)) = vm_space demo_vm"
  using overlay_same [of 8 "0x400000" "vm_space demo_vm"] by (simp add: unwind_demo_frame demo_vm_bytes)

theorem unwind_undoes_prolog_witness:
  "\<exists>fu c' m'. virtual_unwind_typed (vm_ops (\<lambda>_. True)) [unwind_demo_entry] 0x400000 HT_NONE (unwind_demo_callee, demo_vm)
      = (Inr fu, c', m') \<and> cpu_rip c' = 0 \<and> cpu_rsp c' = 0x400010 \<and> cpu_gpr c' Rbp = 0xC390"
proof -
  have 1: "rva_of 0x400000 (cpu_rip unwind_demo_callee) = Some 0"
    by (simp add: rva_of_def unwind_demo_callee_def cpu_set_rsp_def)
  have 2: "unwind_lookup [unwind_demo_entry] 0 = Some unwind_demo_entry"
    by (simp add: unwind_lookup_def unwind_demo_entry_def partition_point_def nth_opt_def)
  have 3: "fst (try_simulate_epilog (vm_ops (\<lambda>_. True)) unwind_demo_entry 0x400000 (unwind_demo_callee, demo_vm)) = Inr False"
    using demo_vm_ok demo_vm_all vmem.acc_sub [OF demo_vm_ok demo_vm_all, of 1 0]
    by (intro vtop.no_epilog [where b = "0x90"])
      (simp_all add: unwind_demo_callee_def cpu_set_rsp_def vm_space_def demo_vm_eq table_space_def position_def
        region_contains_def saturating_add_def)
  have 4: "stands_in unwind_demo_entry (0 - ue_begin unwind_demo_entry) [PushNonvolatile 5]
      (fst (prolog [PushNonvolatile 5] (unwind_demo_caller, vm_space demo_vm))) unwind_demo_callee"
    by (simp add: stands_in_def unwind_demo_frame unwind_demo_entry_def executed_codes_def unwind_demo_callee_def reg_defs)
  have 5: "frame_size [PushNonvolatile 5] + 8 = 16" by simp
  have 6: "cpu_rsp (fst (prolog [PushNonvolatile 5] (unwind_demo_caller, vm_space demo_vm))) = 0x400000"
    by (simp add: unwind_demo_frame)
  have 7: "cpu_rsp unwind_demo_caller = 0x400008" "cpu_gpr unwind_demo_caller Rbp = 0xC390" "saved [PushNonvolatile 5] = {Rbp}"
    by (simp_all add: unwind_demo_caller_def cpu_rsp_def cpu_set_rsp_def cpu_set_reg_def saved_def reg_defs)
  obtain fu c' m' where "virtual_unwind_typed (vm_ops (\<lambda>_. True)) [unwind_demo_entry] 0x400000 HT_NONE
      (unwind_demo_callee, demo_vm) = (Inr fu, c', m')"
    and c': "cpu_rip c' = from_le (bytes_at (vm_space demo_vm) 0x400008 8)" "cpu_rsp c' = 0x400008 + 8"
      "\<forall>i. i \<noteq> Rsp \<longrightarrow> cpu_gpr c' i = (if i \<in> {Rbp} then cpu_gpr unwind_demo_caller i else cpu_gpr unwind_demo_callee i)"
    using unwind_undoes_prolog [OF demo_vm_ok 1 2 3 4, of HT_NONE, unfolded 5 6 7 unwind_demo_space, OF demo_vm_all]
      vmem.space_some [OF demo_vm_ok demo_vm_all] by blast
  moreover have "cpu_gpr c' Rbp = 0xC390" using c'(3) [rule_format, of Rbp] 7(2) by (simp add: reg_defs)
  ultimately show ?thesis by (simp add: demo_vm_bytes from_le_to_le)
qed

end
