(* ===== verification/Text.thy ===== *)
theory Text
  imports Prelude
begin

text \<open>
  Strings of Rust's standard library. A \<open>String\<close> is the list of its UTF-8 bytes; the lossy
  conversions replace what is no text by U+FFFD.
\<close>

section \<open>UTF-8\<close>

definition continuation :: "u8 \<Rightarrow> bool" where
  "continuation b \<longleftrightarrow> 0x80 \<le> b \<and> b \<le> 0xBF"

definition second_of_3 :: "u8 \<Rightarrow> u8 \<Rightarrow> bool" where
  "second_of_3 a b \<longleftrightarrow>
     (if a = 0xE0 then 0xA0 \<le> b \<and> b \<le> 0xBF else if a = 0xED then 0x80 \<le> b \<and> b \<le> 0x9F else continuation b)"

definition second_of_4 :: "u8 \<Rightarrow> u8 \<Rightarrow> bool" where
  "second_of_4 a b \<longleftrightarrow>
     (if a = 0xF0 then 0x90 \<le> b \<and> b \<le> 0xBF else if a = 0xF4 then 0x80 \<le> b \<and> b \<le> 0x8F else continuation b)"

definition utf8_tests :: "u8 \<Rightarrow> (u8 \<Rightarrow> bool) list option" where
  \<comment> \<open>the tests that the bytes after a lead byte have to pass; \<open>None\<close>: no lead byte\<close>
  "utf8_tests a =
     (if a < 0x80 then Some []
      else if 0xC2 \<le> a \<and> a \<le> 0xDF then Some [continuation]
      else if 0xE0 \<le> a \<and> a \<le> 0xEF then Some [second_of_3 a, continuation]
      else if 0xF0 \<le> a \<and> a \<le> 0xF4 then Some [second_of_4 a, continuation, continuation]
      else None)"

fun passed :: "(u8 \<Rightarrow> bool) list \<Rightarrow> bytes \<Rightarrow> nat" where
  "passed (t # ts) (b # bs) = (if t b then Suc (passed ts bs) else 0)"
| "passed ts bs = 0"

definition utf8_next :: "u8 \<Rightarrow> bytes \<Rightarrow> nat \<times> bool" where
  \<comment> \<open>how many bytes after the lead byte belong to its sequence, and whether it is complete\<close>
  "utf8_next a bs =
     (case utf8_tests a of None \<Rightarrow> (0, False) | Some ts \<Rightarrow> (passed ts bs, passed ts bs = length ts))"

definition replacement :: string where
  "replacement = [CHR 0xEF, CHR 0xBF, CHR 0xBD]"

definition char_of_u8 :: "u8 \<Rightarrow> char" where
  "char_of_u8 b = char_of (unat b)"

function utf8_lossy :: "bytes \<Rightarrow> string" where
  \<comment> \<open>\<open>String::from_utf8_lossy\<close>: every maximal invalid part becomes U+FFFD\<close>
  "utf8_lossy [] = []"
| "utf8_lossy (a # bs) =
     (case utf8_next a bs of (n, valid) \<Rightarrow>
        (if valid then map char_of_u8 (a # take n bs) else replacement) @ utf8_lossy (drop n bs))"
  by pat_completeness auto
termination by (relation "measure length") auto

definition ascii_lower :: "char \<Rightarrow> char" where
  "ascii_lower c =
     (let n = (of_char c :: nat) in if 0x41 \<le> n \<and> n \<le> 0x5A then char_of (n + 32) else c)"

definition to_ascii_lowercase :: "string \<Rightarrow> string" where
  "to_ascii_lowercase = map ascii_lower"

section \<open>UTF-16\<close>

definition utf8_bytes :: "nat \<Rightarrow> string" where
  \<comment> \<open>the UTF-8 form of a code point\<close>
  "utf8_bytes c =
     map char_of
       (if c < 0x80 then [c]
        else if c < 0x800 then [0xC0 + c div 64, 0x80 + c mod 64]
        else if c < 0x10000 then [0xE0 + c div 4096, 0x80 + c div 64 mod 64, 0x80 + c mod 64]
        else [0xF0 + c div 262144, 0x80 + c div 4096 mod 64, 0x80 + c div 64 mod 64, 0x80 + c mod 64])"

fun utf16_lossy :: "u16 list \<Rightarrow> string" where
  \<comment> \<open>\<open>String::from_utf16_lossy\<close>: an unpaired surrogate becomes U+FFFD\<close>
  "utf16_lossy [] = []"
| "utf16_lossy [u] =
     (if 0xD800 \<le> u \<and> u \<le> 0xDFFF then utf8_bytes 0xFFFD else utf8_bytes (unat u))"
| "utf16_lossy (u # v # us) =
     (if 0xD800 \<le> u \<and> u \<le> 0xDBFF \<and> 0xDC00 \<le> v \<and> v \<le> 0xDFFF then
        utf8_bytes (0x10000 + (unat u - 0xD800) * 1024 + (unat v - 0xDC00)) @ utf16_lossy us
      else if 0xD800 \<le> u \<and> u \<le> 0xDFFF then utf8_bytes 0xFFFD @ utf16_lossy (v # us)
      else utf8_bytes (unat u) @ utf16_lossy (v # us))"

end
