(* ===== verification/Pe_Image.thy ===== *)
theory Pe_Image
  imports Core_Error Unwind Text
begin

text \<open>
  The data of a parsed PE image (\<open>core/src/pe.rs\<close>), the bounds-checked byte reader
  (\<open>loader/src/reader.rs\<close>) and the readers of section data by relative virtual address
  (\<open>loader/src/lib.rs\<close>). The loader is pure: a \<open>Result\<close> is the sum \<open>'a outcome\<close>. A Rust
  \<open>String\<close> is the list of its UTF-8 bytes.
\<close>

section \<open>Results\<close>

type_synonym 'a outcome = "stop + 'a"

definition invalid_pe :: "string \<Rightarrow> 'a outcome" where
  "invalid_pe why = Inl (Err (InvalidPe why))"

definition ok_bind :: "'a outcome \<Rightarrow> ('a \<Rightarrow> 'b outcome) \<Rightarrow> 'b outcome" where
  \<comment> \<open>the operator \<open>?\<close>\<close>
  "ok_bind r f = (case r of Inl x \<Rightarrow> Inl x | Inr a \<Rightarrow> f a)"

definition ok_try :: "'a outcome \<Rightarrow> ('a option \<Rightarrow> 'b outcome) \<Rightarrow> 'b outcome" where
  \<comment> \<open>\<open>.ok()\<close>: an error is \<open>None\<close>\<close>
  "ok_try r f = (case r of Inr a \<Rightarrow> f (Some a) | Inl (Err e) \<Rightarrow> f None | Inl x \<Rightarrow> Inl x)"

fun ok_all :: "('a \<Rightarrow> 'b outcome) \<Rightarrow> 'a list \<Rightarrow> 'b list outcome" where
  "ok_all f [] = Inr []"
| "ok_all f (x # xs) = ok_bind (f x) (\<lambda>y. ok_bind (ok_all f xs) (\<lambda>ys. Inr (y # ys)))"

lemma ok_bind_simps [simp]: "ok_bind (Inl x) f = Inl x" "ok_bind (Inr a) f = f a"
  by (simp_all add: ok_bind_def)

lemma ok_bind_Inr: "ok_bind r f = Inr b \<longleftrightarrow> (\<exists>a. r = Inr a \<and> f a = Inr b)"
  by (cases r) simp_all

lemma ok_try_simps [simp]: "ok_try (Inr a) f = f (Some a)" "ok_try (Inl (Err e)) f = f None"
  by (simp_all add: ok_try_def)

lemma ok_bind_cong [fundef_cong]: "r = r' \<Longrightarrow> (\<And>a. r' = Inr a \<Longrightarrow> f a = g a) \<Longrightarrow> ok_bind r f = ok_bind r' g"
  by (cases r') simp_all

lemma invalid_pe_not [simp]: "invalid_pe w \<noteq> Inr a" "invalid_pe w \<noteq> Inl Loops"
  by (simp_all add: invalid_pe_def)

section \<open>Images\<close>

record pe_section =
  sec_name :: string
  sec_rva :: u32
  sec_virtual_size :: u32
  sec_data :: bytes
  sec_readable :: bool
  sec_writable :: bool
  sec_executable :: bool

datatype import_symbol = Named string | Ordinal u16

record import_entry =
  im_dll :: string
  im_symbol :: import_symbol
  im_iat_rva :: u32

record export_entry =
  ex_name :: "string option"
  ex_ordinal :: u16
  ex_rva :: u32
  ex_forwarder :: "string option"

record tls =
  tls_start :: u64
  tls_end :: u64
  tls_index :: u64
  tls_callbacks :: u64
  tls_zero_fill :: u32
  tls_characteristics :: u32
  tls_template :: bytes
  tls_callback_rvas :: "u32 list"

record reloc =
  rl_rva :: u32
  rl_kind :: u8

record 'act pe_image =
  pe_is_64bit :: bool
  pe_image_base :: u64
  pe_entry_rva :: u32
  pe_size_of_image :: u32
  pe_size_of_headers :: u32
  pe_subsystem :: u16
  pe_stack_reserve :: u64
  pe_sections :: "pe_section list"
  pe_imports :: "import_entry list"
  pe_exports :: "export_entry list"
  pe_relocations :: "reloc list"
  pe_tls :: "tls option"
  pe_dll_name :: "string option"
  pe_headers :: bytes
  pe_function_table :: "unwind_entry list"
  pe_activation_context :: 'act

definition pe_entry_va :: "'act pe_image \<Rightarrow> u64" where
  "pe_entry_va img = pe_image_base img + ucast (pe_entry_rva img)"

definition pe_find_unwind :: "'act pe_image \<Rightarrow> u32 \<Rightarrow> unwind_entry option" where
  "pe_find_unwind img rva = unwind_lookup (pe_function_table img) rva"

section \<open>The reader\<close>

definition slice_get :: "bytes \<Rightarrow> nat \<Rightarrow> nat \<Rightarrow> bytes option" where
  \<comment> \<open>\<open>data.get(off..off + len)\<close>\<close>
  "slice_get data off len = (if off + len \<le> length data then Some (subslice data off (off + len)) else None)"

definition rd_bytes :: "bytes \<Rightarrow> nat \<Rightarrow> nat \<Rightarrow> bytes outcome" where
  "rd_bytes data off len =
     (case slice_get data off len of
        Some b \<Rightarrow> Inr b
      | None \<Rightarrow> invalid_pe (''read of '' @ fmt_dec len @ '' bytes at '' @ fmt_hex off @ '' out of bounds''))"

definition rd_u16 :: "bytes \<Rightarrow> nat \<Rightarrow> u16 outcome" where
  "rd_u16 data off = ok_bind (rd_bytes data off 2) (\<lambda>b. Inr (from_le b))"

definition rd_u32 :: "bytes \<Rightarrow> nat \<Rightarrow> u32 outcome" where
  "rd_u32 data off = ok_bind (rd_bytes data off 4) (\<lambda>b. Inr (from_le b))"

definition rd_u64 :: "bytes \<Rightarrow> nat \<Rightarrow> u64 outcome" where
  "rd_u64 data off = ok_bind (rd_bytes data off 8) (\<lambda>b. Inr (from_le b))"

section \<open>Section data by address\<close>

definition sec_vsize :: "pe_section \<Rightarrow> u32" where
  "sec_vsize s = max (sec_virtual_size s) (of_nat (length (sec_data s)))"

definition sec_holds :: "pe_section \<Rightarrow> u32 \<Rightarrow> bool" where
  "sec_holds s rva \<longleftrightarrow> sec_rva s \<le> rva \<and> unat rva < unat (sec_rva s) + unat (sec_vsize s)"

fun read_at_rva :: "pe_section list \<Rightarrow> u32 \<Rightarrow> (pe_section \<times> nat) option" where
  "read_at_rva [] rva = None"
| "read_at_rva (s # ss) rva = (if sec_holds s rva then Some (s, unat (rva - sec_rva s)) else read_at_rva ss rva)"

definition slice_at :: "pe_section list \<Rightarrow> u32 \<Rightarrow> nat \<Rightarrow> bytes outcome" where
  \<comment> \<open>the common shape of \<open>slice_u8\<close> to \<open>slice_u64\<close>\<close>
  "slice_at ss rva len =
     (case read_at_rva ss rva of
        None \<Rightarrow> invalid_pe (''rva '' @ fmt_hex (unat rva) @ '' not in any section'')
      | Some (s, off) \<Rightarrow>
          (case slice_get (sec_data s) off len of
             None \<Rightarrow> invalid_pe (''rva '' @ fmt_hex (unat rva) @ '' past section data'')
           | Some b \<Rightarrow> Inr b))"

definition slice_u8 :: "pe_section list \<Rightarrow> u32 \<Rightarrow> u8 outcome" where
  "slice_u8 ss rva = ok_bind (slice_at ss rva 1) (\<lambda>b. Inr (from_le b))"

definition slice_u16 :: "pe_section list \<Rightarrow> u32 \<Rightarrow> u16 outcome" where
  "slice_u16 ss rva = ok_bind (slice_at ss rva 2) (\<lambda>b. Inr (from_le b))"

definition slice_u32 :: "pe_section list \<Rightarrow> u32 \<Rightarrow> u32 outcome" where
  "slice_u32 ss rva = ok_bind (slice_at ss rva 4) (\<lambda>b. Inr (from_le b))"

definition slice_u64 :: "pe_section list \<Rightarrow> u32 \<Rightarrow> u64 outcome" where
  "slice_u64 ss rva = ok_bind (slice_at ss rva 8) (\<lambda>b. Inr (from_le b))"

definition cstr_at_rva :: "pe_section list \<Rightarrow> u32 \<Rightarrow> string outcome" where
  "cstr_at_rva ss rva =
     (case read_at_rva ss rva of
        None \<Rightarrow> invalid_pe (''string rva '' @ fmt_hex (unat rva) @ '' not in any section'')
      | Some (s, off) \<Rightarrow>
          if off \<le> length (sec_data s)
          then Inr (utf8_lossy (takeWhile (\<lambda>b. b \<noteq> 0) (drop off (sec_data s))))
          else invalid_pe (''string rva '' @ fmt_hex (unat rva) @ '' past section data''))"

end
