(* ===== verification/Pe_Parse.thy ===== *)
theory Pe_Parse
  imports Pe_Image "HOL-Library.Product_Lexorder"
begin


text \<open>
  The PE parser, \<open>loader/src/lib.rs\<close>, after the part it calls for the exception directory.

  \<open>loader/src/unwind.rs\<close>: the exception directory of a 64-bit image, decoded into the function
  table of the unwinder. A record that does not decode is left out, and the table is sorted.
\<close>

definition UNW_FLAG_EHANDLER :: u8 where "UNW_FLAG_EHANDLER = 1"
definition UNW_FLAG_UHANDLER :: u8 where "UNW_FLAG_UHANDLER = 2"
definition UNW_FLAG_CHAININFO :: u8 where "UNW_FLAG_CHAININFO = 4"
definition MAX_CHAIN_DEPTH :: nat where "MAX_CHAIN_DEPTH = 8"

definition slot_rva :: "u32 \<Rightarrow> nat \<Rightarrow> u32" where
  "slot_rva slots i = slots + of_nat (2 * i)"

definition next_scaled :: "pe_section list \<Rightarrow> u32 \<Rightarrow> nat \<Rightarrow> u32 \<Rightarrow> u32 outcome" where
  \<comment> \<open>\<open>next_u16(i)? as u32 * scale\<close>\<close>
  "next_scaled ss slots i scale = ok_bind (slice_u16 ss (slot_rva slots i)) (\<lambda>v. Inr (ucast v * scale))"

definition next_u32 :: "pe_section list \<Rightarrow> u32 \<Rightarrow> nat \<Rightarrow> u32 outcome" where
  "next_u32 ss slots i = slice_u32 ss (slot_rva slots i)"

definition decode_op :: "pe_section list \<Rightarrow> u8 \<Rightarrow> u32 \<Rightarrow> nat \<Rightarrow> u8 \<Rightarrow> u8 \<Rightarrow> (unwind_op \<times> nat) outcome" where
  \<comment> \<open>the operation of the slot \<open>i\<close> and the number of slots it takes\<close>
  "decode_op ss version slots i op info =
     (if op = 0 then Inr (PushNonvolatile info, 1)
      else if op = 1 then
        if info = 0 then ok_bind (next_scaled ss slots (i + 1) 8) (\<lambda>v. Inr (Alloc v, 2))
        else if info = 1 then ok_bind (next_u32 ss slots (i + 1)) (\<lambda>v. Inr (Alloc v, 3))
        else invalid_pe (''ALLOC_LARGE op_info '' @ fmt_dec (unat info))
      else if op = 2 then Inr (Alloc (ucast info * 8 + 8), 1)
      else if op = 3 then Inr (SetFrameRegister, 1)
      else if op = 4 then ok_bind (next_scaled ss slots (i + 1) 8) (\<lambda>v. Inr (SaveNonvolatile info v, 2))
      else if op = 5 then ok_bind (next_u32 ss slots (i + 1)) (\<lambda>v. Inr (SaveNonvolatile info v, 3))
      else if op = 6 \<and> version = 2 then ok_bind (slice_u16 ss (slot_rva slots i)) (\<lambda>v. Inr (Epilog v, 1))
      else if op = 8 then ok_bind (next_scaled ss slots (i + 1) 16) (\<lambda>v. Inr (SaveXmm128 info v, 2))
      else if op = 9 then ok_bind (next_u32 ss slots (i + 1)) (\<lambda>v. Inr (SaveXmm128 info v, 3))
      else if op = 10 then Inr (PushMachineFrame (info = 1), 1)
      else invalid_pe (''unwind op '' @ fmt_dec (unat op)))"

lemma decode_op_used: "decode_op ss version slots i op info = Inr (x, used) \<Longrightarrow> 1 \<le> used \<and> used \<le> 3"
  by (auto simp: decode_op_def ok_bind_Inr split: if_splits)

function decode_codes :: "pe_section list \<Rightarrow> u8 \<Rightarrow> u32 \<Rightarrow> nat \<Rightarrow> nat \<Rightarrow> (unwind_code list) outcome" where
  \<comment> \<open>the loop over the slots, and the test behind it\<close>
  "decode_codes ss version slots count i =
     (if i < count then
        ok_bind (slice_u8 ss (slot_rva slots i)) (\<lambda>lo.
        ok_bind (slice_u8 ss (slot_rva slots i + 1)) (\<lambda>hi.
        ok_bind (decode_op ss version slots i (hi AND 0xF) (drop_bit 4 hi)) (\<lambda>(op, used).
        ok_bind (decode_codes ss version slots count (i + used)) (\<lambda>rest.
        Inr (\<lparr>uc_prolog_offset = lo, uc_op = op\<rparr> # rest)))))
      else if count < i then invalid_pe ''unwind codes overrun their count''
      else Inr [])"
  by pat_completeness auto
termination
  by (relation "measure (\<lambda>(ss, version, slots, count, i). count - i)") (auto dest: decode_op_used)

declare decode_codes.simps [simp del]

definition frame_register_of :: "u8 \<Rightarrow> u8 option" where
  "frame_register_of b3 = (if b3 AND 0xF = 0 then None else Some (b3 AND 0xF))"

function parse_runtime_function :: "pe_section list \<Rightarrow> u32 \<Rightarrow> nat \<Rightarrow> (unwind_entry option) outcome"
  and parse_unwind_info :: "pe_section list \<Rightarrow> u32 \<Rightarrow> nat \<Rightarrow> unwind_info outcome" where
  "parse_runtime_function ss rec depth =
     ok_bind (slice_u32 ss rec) (\<lambda>bg.
     ok_bind (slice_u32 ss (rec + 4)) (\<lambda>en.
     ok_bind (slice_u32 ss (rec + 8)) (\<lambda>info_rva.
       if bg = 0 \<and> en = 0 then Inr None
       else if en \<le> bg then
         invalid_pe (''RUNTIME_FUNCTION with empty range '' @ fmt_hex (unat bg) @ ''..'' @ fmt_hex (unat en))
       else ok_bind (parse_unwind_info ss info_rva depth) (\<lambda>info. Inr (Some (UnwindEntry bg en rec info))))))"
| "parse_unwind_info ss rva depth =
     ok_bind (slice_u8 ss rva) (\<lambda>b0.
       let version = b0 AND 7; flags = drop_bit 3 b0 in
       if version \<noteq> 1 \<and> version \<noteq> 2 then invalid_pe (''UNWIND_INFO version '' @ fmt_dec (unat version))
       else
     ok_bind (slice_u8 ss (rva + 1)) (\<lambda>prolog_size.
     ok_bind (slice_u8 ss (rva + 2)) (\<lambda>count.
     ok_bind (slice_u8 ss (rva + 3)) (\<lambda>b3.
     ok_bind (decode_codes ss version (rva + 4) (unat count) 0) (\<lambda>codes.
       let after = rva + 4 + 2 * ((ucast count + 1) AND NOT 1);
           made = (\<lambda>h hd ch. UnwindInfo version (flags AND UNW_FLAG_EHANDLER \<noteq> 0) (flags AND UNW_FLAG_UHANDLER \<noteq> 0)
             prolog_size (frame_register_of b3) (ucast (drop_bit 4 b3) * 16) codes h hd ch) in
       if flags AND UNW_FLAG_CHAININFO \<noteq> 0 then
         if MAX_CHAIN_DEPTH \<le> depth then invalid_pe ''chained unwind info nested too deep''
         else ok_bind (parse_runtime_function ss after (depth + 1)) (\<lambda>chained.
           case chained of
             Some e \<Rightarrow> Inr (made None None (Some e))
           | None \<Rightarrow> invalid_pe ''chained RUNTIME_FUNCTION is zero'')
       else if flags AND (UNW_FLAG_EHANDLER OR UNW_FLAG_UHANDLER) \<noteq> 0 then
         ok_bind (slice_u32 ss after) (\<lambda>h. Inr (made (Some h) (Some (after + 4)) None))
       else Inr (made None None None))))))"
  by pat_completeness auto
termination
  by (relation "measure (\<lambda>x. case x of Inl (ss, rva, depth) \<Rightarrow> 2 * (MAX_CHAIN_DEPTH - depth) + 1
      | Inr (ss, rva, depth) \<Rightarrow> 2 * (MAX_CHAIN_DEPTH - depth))") auto

definition readable_end :: "pe_section list \<Rightarrow> nat" where
  "readable_end ss = fold max (map (\<lambda>s. unat (sec_rva s) + length (sec_data s)) ss) 0"

definition runtime_entry :: "pe_section list \<Rightarrow> u32 \<Rightarrow> unwind_entry option" where
  \<comment> \<open>what the loop pushes for a record; an error is skipped\<close>
  "runtime_entry ss rec = (case parse_runtime_function ss rec 0 of Inr e \<Rightarrow> e | Inl x \<Rightarrow> None)"

definition parse_function_table :: "pe_section list \<Rightarrow> u32 \<Rightarrow> u32 \<Rightarrow> unwind_entry list" where
  "parse_function_table ss dir_rva dir_size =
     (let readable = (readable_end ss - unat dir_rva) div 12;
          count = min (unat dir_size div 12) (if readable < 2 ^ 32 then readable else 2 ^ 32 - 1)
      in sort_key ue_begin (List.map_filter (\<lambda>i. runtime_entry ss (dir_rva + of_nat (i * 12))) [0..<count]))"

text \<open>
  \<open>loader/src/lib.rs\<close>: the PE parser. The file is a byte list, offsets are natural numbers
  (\<open>usize\<close> does not overflow on any file). Loops that read until a terminator walk the RVA space,
  which wraps at \<open>2\<^sup>3\<^sup>2\<close>: their bound is the number of RVAs, after which they would only repeat.
  The activation context is read by the resource and manifest parsers, a parameter here.
\<close>

definition DOS_MAGIC :: u16 where "DOS_MAGIC = 0x5A4D"
definition PE_SIGNATURE :: u32 where "PE_SIGNATURE = 0x00004550"
definition MACHINE_AMD64 :: u16 where "MACHINE_AMD64 = 0x8664"
definition MACHINE_I386 :: u16 where "MACHINE_I386 = 0x014c"
definition OPT_MAGIC_PE32 :: u16 where "OPT_MAGIC_PE32 = 0x10B"
definition OPT_MAGIC_PE32PLUS :: u16 where "OPT_MAGIC_PE32PLUS = 0x20B"
definition SCN_CNT_UNINIT_DATA :: u32 where "SCN_CNT_UNINIT_DATA = 0x00000080"
definition SCN_MEM_EXECUTE :: u32 where "SCN_MEM_EXECUTE = 0x20000000"
definition SCN_MEM_READ :: u32 where "SCN_MEM_READ = 0x40000000"
definition SCN_MEM_WRITE :: u32 where "SCN_MEM_WRITE = 0x80000000"
definition SECTION_HEADER_SIZE :: nat where "SECTION_HEADER_SIZE = 40"

definition DIR_EXPORT :: nat where "DIR_EXPORT = 0"
definition DIR_IMPORT :: nat where "DIR_IMPORT = 1"
definition DIR_EXCEPTION :: nat where "DIR_EXCEPTION = 3"
definition DIR_BASERELOC :: nat where "DIR_BASERELOC = 5"
definition DIR_TLS :: nat where "DIR_TLS = 9"
definition DIR_DELAY_IMPORT :: nat where "DIR_DELAY_IMPORT = 13"

section \<open>Section headers\<close>

record section_header =
  sh_name :: string
  sh_virtual_size :: u32
  sh_rva :: u32
  sh_size_raw :: nat
  sh_ptr_raw :: nat
  sh_chars :: u32

definition read_section_header :: "bytes \<Rightarrow> nat \<Rightarrow> section_header outcome" where
  "read_section_header r at =
     ok_bind (rd_bytes r at 8) (\<lambda>raw_name.
     ok_bind (rd_u32 r (at + 8)) (\<lambda>virtual_size.
     ok_bind (rd_u32 r (at + 12)) (\<lambda>rva.
     ok_bind (rd_u32 r (at + 16)) (\<lambda>size_raw.
     ok_bind (rd_u32 r (at + 20)) (\<lambda>ptr_raw.
     ok_bind (rd_u32 r (at + 36)) (\<lambda>chars.
     Inr \<lparr>sh_name = utf8_lossy (takeWhile (\<lambda>b. b \<noteq> 0) raw_name), sh_virtual_size = virtual_size,
       sh_rva = rva, sh_size_raw = unat size_raw, sh_ptr_raw = unat ptr_raw, sh_chars = chars\<rparr>))))))"

definition virtual_span :: "section_header \<Rightarrow> nat" where
  "virtual_span h = (if sh_virtual_size h \<noteq> 0 then unat (sh_virtual_size h) else sh_size_raw h)"

definition virtual_end :: "section_header \<Rightarrow> nat" where
  "virtual_end h = unat (sh_rva h) + virtual_span h"

definition quoted :: "string \<Rightarrow> string" where
  \<comment> \<open>\<open>{:?}\<close> of a name, but for the escapes of unprintable characters\<close>
  "quoted s = [CHR 0x22] @ s @ [CHR 0x22]"

definition sections_overlap :: "section_header \<Rightarrow> section_header \<Rightarrow> 'a outcome" where
  "sections_overlap a b = invalid_pe (''section '' @ quoted (sh_name a) @ '' at rva '' @ fmt_hex (unat (sh_rva a)) @
     '' overlaps section '' @ quoted (sh_name b) @ '' at rva '' @ fmt_hex (unat (sh_rva b)))"

fun limit_pairs :: "section_header list \<Rightarrow> nat list \<Rightarrow> (nat option) list \<Rightarrow> (nat option) list outcome" where
  \<comment> \<open>the loop over \<open>by_rva.windows(2)\<close>; \<open>None\<close> is \<open>usize::MAX\<close>\<close>
  "limit_pairs hs (i # j # is) limits =
     (let cur = hs ! i; nxt = hs ! j in
      if unat (sh_rva nxt) < virtual_end cur then sections_overlap cur nxt
      else limit_pairs hs (j # is) (limits[i := Some (unat (sh_rva nxt) - unat (sh_rva cur))]))"
| "limit_pairs hs is limits = Inr limits"

definition raw_copy_limits :: "section_header list \<Rightarrow> (nat option) list outcome" where
  "raw_copy_limits hs =
     limit_pairs hs (sort_key (\<lambda>i. (unat (sh_rva (hs ! i)), virtual_span (hs ! i))) [0..<length hs])
       (replicate (length hs) None)"

definition below_limit :: "nat \<Rightarrow> nat option \<Rightarrow> nat" where
  "below_limit n limit = (case limit of None \<Rightarrow> n | Some l \<Rightarrow> min n l)"

definition load_section :: "bytes \<Rightarrow> section_header \<times> nat option \<Rightarrow> pe_section outcome" where
  "load_section r = (\<lambda>(h, limit).
     ok_bind (if sh_size_raw h = 0 \<or> sh_chars h AND SCN_CNT_UNINIT_DATA \<noteq> 0 then Inr []
              else rd_bytes r (sh_ptr_raw h)
                (below_limit (min (length r - sh_ptr_raw h) (sh_size_raw h)) limit)) (\<lambda>data.
     Inr \<lparr>sec_name = sh_name h, sec_rva = sh_rva h, sec_virtual_size = sh_virtual_size h, sec_data = data,
       sec_readable = (sh_chars h AND SCN_MEM_READ \<noteq> 0), sec_writable = (sh_chars h AND SCN_MEM_WRITE \<noteq> 0),
       sec_executable = (sh_chars h AND SCN_MEM_EXECUTE \<noteq> 0)\<rparr>))"

definition parse_sections :: "bytes \<Rightarrow> nat \<Rightarrow> nat \<Rightarrow> pe_section list outcome" where
  "parse_sections r num sec_table =
     ok_bind (ok_all (\<lambda>i. read_section_header r (sec_table + i * SECTION_HEADER_SIZE)) [0..<num]) (\<lambda>hs.
     ok_bind (raw_copy_limits hs) (\<lambda>limits.
     ok_all (load_section r) (zip hs limits)))"

section \<open>Imports\<close>

definition RVAS :: nat where "RVAS = 2 ^ 32"

definition read_thunk :: "bool \<Rightarrow> pe_section list \<Rightarrow> u32 \<Rightarrow> u64 outcome" where
  "read_thunk is_64bit ss rva =
     (if is_64bit then slice_u64 ss rva else ok_bind (slice_u32 ss rva) (\<lambda>v. Inr (ucast v)))"

definition thunk_size :: "bool \<Rightarrow> u32" where
  "thunk_size is_64bit = (if is_64bit then 8 else 4)"

definition ordinal_flag :: "bool \<Rightarrow> u64" where
  "ordinal_flag is_64bit = (if is_64bit then push_bit 63 1 else push_bit 31 1)"

definition by_name_rva :: "u64 \<Rightarrow> u32" where
  "by_name_rva thunk = ucast (thunk AND 0x7FFFFFFF) + 2"

fun import_thunks ::
    "bool \<Rightarrow> pe_section list \<Rightarrow> string \<Rightarrow> u32 \<Rightarrow> u32 \<Rightarrow> nat \<Rightarrow> u32 \<Rightarrow> import_entry list outcome" where
  "import_thunks is_64bit ss dll lookup first 0 i = Inl Loops"
| "import_thunks is_64bit ss dll lookup first (Suc n) i =
     ok_bind (read_thunk is_64bit ss (lookup + i * thunk_size is_64bit)) (\<lambda>thunk.
       if thunk = 0 then Inr []
       else
         ok_bind (if thunk AND ordinal_flag is_64bit \<noteq> 0 then Inr (Ordinal (ucast (thunk AND 0xFFFF)))
                  else ok_bind (cstr_at_rva ss (by_name_rva thunk)) (\<lambda>name. Inr (Named name))) (\<lambda>symbol.
         ok_bind (import_thunks is_64bit ss dll lookup first n (i + 1)) (\<lambda>rest.
         Inr (\<lparr>im_dll = dll, im_symbol = symbol, im_iat_rva = first + i * thunk_size is_64bit\<rparr> # rest))))"

fun import_descriptors :: "bool \<Rightarrow> pe_section list \<Rightarrow> nat \<Rightarrow> u32 \<Rightarrow> import_entry list outcome" where
  "import_descriptors is_64bit ss 0 desc = Inl Loops"
| "import_descriptors is_64bit ss (Suc n) desc =
     ok_bind (slice_u32 ss desc) (\<lambda>orig_first_thunk.
     ok_bind (slice_u32 ss (desc + 12)) (\<lambda>name_rva.
     ok_bind (slice_u32 ss (desc + 16)) (\<lambda>first_thunk.
       if orig_first_thunk = 0 \<and> name_rva = 0 \<and> first_thunk = 0 then Inr []
       else
         ok_bind (cstr_at_rva ss name_rva) (\<lambda>dll.
         ok_bind (import_thunks is_64bit ss (to_ascii_lowercase dll)
           (if orig_first_thunk \<noteq> 0 then orig_first_thunk else first_thunk) first_thunk RVAS 0) (\<lambda>here.
         ok_bind (import_descriptors is_64bit ss n (desc + 20)) (\<lambda>rest. Inr (here @ rest)))))))"

definition parse_imports :: "pe_section list \<Rightarrow> u32 \<Rightarrow> bool \<Rightarrow> import_entry list outcome" where
  "parse_imports ss dir_rva is_64bit = import_descriptors is_64bit ss RVAS dir_rva"

fun delay_thunks ::
    "bool \<Rightarrow> pe_section list \<Rightarrow> string \<Rightarrow> u32 \<Rightarrow> u32 \<Rightarrow> nat \<Rightarrow> u32 \<Rightarrow> import_entry list outcome" where
  "delay_thunks is_64bit ss dll int_rva iat_rva 0 i = Inl Loops"
| "delay_thunks is_64bit ss dll int_rva iat_rva (Suc n) i =
     ok_try (read_thunk is_64bit ss (int_rva + i * thunk_size is_64bit)) (\<lambda>t.
     case t of
       None \<Rightarrow> Inr []
     | Some thunk \<Rightarrow>
         if thunk = 0 then Inr []
         else
           ok_try (if thunk AND ordinal_flag is_64bit \<noteq> 0 then Inr (Ordinal (ucast (thunk AND 0xFFFF)))
                   else ok_bind (cstr_at_rva ss (by_name_rva thunk)) (\<lambda>name. Inr (Named name))) (\<lambda>s.
           case s of
             None \<Rightarrow> Inr []
           | Some symbol \<Rightarrow>
               ok_bind (delay_thunks is_64bit ss dll int_rva iat_rva n (i + 1)) (\<lambda>rest.
               Inr (\<lparr>im_dll = dll, im_symbol = symbol, im_iat_rva = iat_rva + i * thunk_size is_64bit\<rparr> # rest))))"

definition delay_rva :: "u64 \<Rightarrow> u32 \<Rightarrow> u32 \<Rightarrow> u32" where
  \<comment> \<open>the closure \<open>to_rva\<close>\<close>
  "delay_rva image_base attributes field =
     (if attributes AND 1 \<noteq> 0 then field else ucast (ucast field - image_base))"

fun delay_descriptors :: "bool \<Rightarrow> u64 \<Rightarrow> pe_section list \<Rightarrow> nat \<Rightarrow> u32 \<Rightarrow> import_entry list outcome" where
  "delay_descriptors is_64bit image_base ss 0 desc = Inl Loops"
| "delay_descriptors is_64bit image_base ss (Suc n) desc =
     ok_bind (slice_u32 ss desc) (\<lambda>attributes.
     ok_bind (slice_u32 ss (desc + 4)) (\<lambda>name_field.
     ok_bind (slice_u32 ss (desc + 12)) (\<lambda>iat_field.
     ok_bind (slice_u32 ss (desc + 16)) (\<lambda>int_field.
       if attributes = 0 \<and> name_field = 0 \<and> iat_field = 0 \<and> int_field = 0 then Inr []
       else
         ok_try (cstr_at_rva ss (delay_rva image_base attributes name_field)) (\<lambda>name.
         case name of
           None \<Rightarrow> delay_descriptors is_64bit image_base ss n (desc + 32)
         | Some dll \<Rightarrow>
             ok_bind (delay_thunks is_64bit ss (to_ascii_lowercase dll) (delay_rva image_base attributes int_field)
               (delay_rva image_base attributes iat_field) RVAS 0) (\<lambda>here.
             ok_bind (delay_descriptors is_64bit image_base ss n (desc + 32)) (\<lambda>rest. Inr (here @ rest))))))))"

definition parse_delay_imports :: "pe_section list \<Rightarrow> u32 \<Rightarrow> u64 \<Rightarrow> bool \<Rightarrow> import_entry list outcome" where
  "parse_delay_imports ss dir_rva image_base is_64bit = delay_descriptors is_64bit image_base ss RVAS dir_rva"

section \<open>Exports\<close>

definition export_names :: "pe_section list \<Rightarrow> u32 \<Rightarrow> u32 \<Rightarrow> nat \<Rightarrow> (u32 \<rightharpoonup> string) outcome" where
  "export_names ss names_rva ords_rva num =
     ok_bind (ok_all (\<lambda>i.
       ok_bind (slice_u32 ss (names_rva + of_nat i * 4)) (\<lambda>name_rva.
       ok_bind (slice_u16 ss (ords_rva + of_nat i * 2)) (\<lambda>ord.
       ok_try (cstr_at_rva ss name_rva) (\<lambda>nm. Inr (ucast ord :: u32, nm))))) [0..<num]) (\<lambda>rows.
     Inr (fold (\<lambda>(ord, nm) m. case nm of Some n \<Rightarrow> m(ord \<mapsto> n) | None \<Rightarrow> m) rows Map.empty))"

definition export_at ::
    "pe_section list \<Rightarrow> u32 \<Rightarrow> u32 \<Rightarrow> u32 \<Rightarrow> u32 \<Rightarrow> (u32 \<rightharpoonup> string) \<Rightarrow> nat \<Rightarrow> export_entry option outcome" where
  "export_at ss dir_rva dir_end ordinal_base funcs_rva names i =
     ok_bind (slice_u32 ss (funcs_rva + of_nat i * 4)) (\<lambda>func_rva.
       if func_rva = 0 then Inr None
       else
         ok_try (if dir_rva \<le> func_rva \<and> func_rva < dir_end then cstr_at_rva ss func_rva else invalid_pe []) (\<lambda>fw.
         Inr (Some \<lparr>ex_name = names (of_nat i), ex_ordinal = ucast (ordinal_base + of_nat i :: u32),
           ex_rva = func_rva, ex_forwarder = fw\<rparr>)))"

definition saturating_add32 :: "u32 \<Rightarrow> u32 \<Rightarrow> u32" where
  "saturating_add32 a b = (if unat a + unat b < 2 ^ 32 then a + b else - 1)"

definition parse_exports :: "pe_section list \<Rightarrow> u32 \<Rightarrow> u32 \<Rightarrow> (export_entry list \<times> string option) outcome" where
  "parse_exports ss dir_rva dir_size =
     ok_bind (slice_u32 ss (dir_rva + 16)) (\<lambda>ordinal_base.
     ok_bind (slice_u32 ss (dir_rva + 20)) (\<lambda>num_funcs.
     ok_bind (slice_u32 ss (dir_rva + 24)) (\<lambda>num_names.
     ok_bind (slice_u32 ss (dir_rva + 28)) (\<lambda>funcs_rva.
     ok_bind (slice_u32 ss (dir_rva + 32)) (\<lambda>names_rva.
     ok_bind (slice_u32 ss (dir_rva + 36)) (\<lambda>ords_rva.
     ok_bind (slice_u32 ss (dir_rva + 12)) (\<lambda>name_ptr.
     ok_try (if name_ptr \<noteq> 0 then cstr_at_rva ss name_ptr else invalid_pe []) (\<lambda>dll_name.
     ok_bind (export_names ss names_rva ords_rva (unat num_names)) (\<lambda>names.
     ok_bind (ok_all (export_at ss dir_rva (saturating_add32 dir_rva dir_size) ordinal_base funcs_rva names)
       [0..<unat num_funcs]) (\<lambda>exports.
     Inr (List.map_filter id exports, dll_name)))))))))))"

section \<open>Base relocations\<close>

definition reloc_of :: "u32 \<Rightarrow> u16 \<Rightarrow> reloc option" where
  "reloc_of page_rva v =
     (let kind = (ucast (drop_bit 12 v) :: u8) in
      if kind \<noteq> 0 then Some \<lparr>rl_rva = page_rva + ucast (v AND 0x0FFF), rl_kind = kind\<rparr> else None)"

function reloc_blocks :: "pe_section list \<Rightarrow> u32 \<Rightarrow> u32 \<Rightarrow> nat \<Rightarrow> reloc list outcome" where
  \<comment> \<open>\<open>off\<close> saturates at \<open>u32::MAX\<close>, from where no block fits\<close>
  "reloc_blocks ss dir_rva dir_size off =
     (if off + 8 \<le> unat dir_size then
        ok_bind (slice_u32 ss (dir_rva + of_nat off)) (\<lambda>page_rva.
        ok_bind (slice_u32 ss (dir_rva + of_nat off + 4)) (\<lambda>block_size.
          if block_size < 8 then Inr []
          else
            ok_bind (ok_all (\<lambda>e. slice_u16 ss (dir_rva + of_nat off + 8 + of_nat e * 2)) [0..<(unat block_size - 8) div 2]) (\<lambda>vs.
            ok_bind (reloc_blocks ss dir_rva dir_size (min (off + unat block_size) (2 ^ 32 - 1))) (\<lambda>rest.
            Inr (List.map_filter (reloc_of page_rva) vs @ rest)))))
      else Inr [])"
  by pat_completeness auto
termination
proof (relation "measure (\<lambda>(ss, dir_rva, dir_size, off). 2 ^ 32 - off)", goal_cases)
  case (2 ss dir_rva dir_size off page_rva block_size vs)
  have "unat dir_size < 2 ^ 32" using unsigned_less [of dir_size] by simp
  moreover have "8 \<le> unat block_size" using 2 by (simp add: word_less_nat_alt not_less)
  ultimately show ?case using 2 by simp
qed simp

declare reloc_blocks.simps [simp del]

definition parse_relocs :: "pe_section list \<Rightarrow> u32 \<Rightarrow> u32 \<Rightarrow> reloc list outcome" where
  "parse_relocs ss dir_rva dir_size = reloc_blocks ss dir_rva dir_size 0"

section \<open>Thread-local storage\<close>

definition va_to_rva :: "u64 \<Rightarrow> u64 \<Rightarrow> u32 option" where
  "va_to_rva image_base va = (if va = 0 then None else rva_of image_base va)"

fun tls_bytes :: "pe_section list \<Rightarrow> u32 \<Rightarrow> nat \<Rightarrow> nat \<Rightarrow> bytes option" where
  \<comment> \<open>the template; \<open>None\<close> when a byte of it is not in the file\<close>
  "tls_bytes ss start_rva i 0 = Some []"
| "tls_bytes ss start_rva i (Suc n) =
     (case slice_u8 ss (start_rva + of_nat i) of
        Inl x \<Rightarrow> None
      | Inr b \<Rightarrow> (case tls_bytes ss start_rva (Suc i) n of None \<Rightarrow> None | Some bs \<Rightarrow> Some (b # bs)))"

fun tls_callbacks_at :: "bool \<Rightarrow> pe_section list \<Rightarrow> u64 \<Rightarrow> nat \<Rightarrow> u32 \<Rightarrow> u32 list outcome" where
  "tls_callbacks_at is_64bit ss image_base 0 arr_rva = Inl Loops"
| "tls_callbacks_at is_64bit ss image_base (Suc n) arr_rva =
     ok_try (read_thunk is_64bit ss arr_rva) (\<lambda>t.
     case t of
       None \<Rightarrow> Inr []
     | Some cb_va \<Rightarrow>
         if cb_va = 0 then Inr []
         else (case va_to_rva image_base cb_va of
                 None \<Rightarrow> Inr []
               | Some rva \<Rightarrow>
                   ok_bind (tls_callbacks_at is_64bit ss image_base n (arr_rva + thunk_size is_64bit)) (\<lambda>rest.
                   Inr (rva # rest))))"

definition parse_tls :: "pe_section list \<Rightarrow> u32 \<Rightarrow> u64 \<Rightarrow> bool \<Rightarrow> tls outcome" where
  "parse_tls ss dir_rva image_base is_64bit =
     (let p = thunk_size is_64bit; ptr = read_thunk is_64bit ss in
      ok_bind (ptr dir_rva) (\<lambda>start.
      ok_bind (ptr (dir_rva + p)) (\<lambda>fin.
      ok_bind (ptr (dir_rva + 2 * p)) (\<lambda>index.
      ok_bind (ptr (dir_rva + 3 * p)) (\<lambda>callbacks.
      ok_bind (slice_u32 ss (dir_rva + 4 * p)) (\<lambda>zero_fill.
      ok_bind (slice_u32 ss (dir_rva + (4 * p + 4))) (\<lambda>characteristics.
      ok_bind (case va_to_rva image_base callbacks of
                 None \<Rightarrow> Inr [] | Some arr \<Rightarrow> tls_callbacks_at is_64bit ss image_base RVAS arr) (\<lambda>rvas.
      Inr \<lparr>tls_start = start, tls_end = fin, tls_index = index, tls_callbacks = callbacks,
        tls_zero_fill = zero_fill, tls_characteristics = characteristics,
        tls_template = (case va_to_rva image_base start of
            Some start_rva \<Rightarrow> if start < fin
              then (case tls_bytes ss start_rva 0 (unat (fin - start)) of Some bs \<Rightarrow> bs | None \<Rightarrow> []) else []
          | None \<Rightarrow> []),
        tls_callback_rvas = rvas\<rparr>))))))))"

section \<open>The image\<close>

definition data_dir :: "bytes \<Rightarrow> nat \<Rightarrow> nat \<Rightarrow> nat \<Rightarrow> (u32 \<times> u32) outcome" where
  \<comment> \<open>the closure \<open>dir\<close>: the entry \<open>i\<close> of the table at \<open>dirs\<close>\<close>
  "data_dir r dirs num_dirs i =
     (if i < num_dirs then
        ok_bind (rd_u32 r (dirs + i * 8)) (\<lambda>rva. ok_bind (rd_u32 r (dirs + i * 8 + 4)) (\<lambda>sz. Inr (rva, sz)))
      else Inr (0, 0))"

definition all_imports ::
    "pe_section list \<Rightarrow> u32 \<times> u32 \<Rightarrow> u32 \<times> u32 \<Rightarrow> u64 \<Rightarrow> bool \<Rightarrow> import_entry list outcome" where
  "all_imports ss import_dir delay_dir image_base is_64bit =
     ok_bind (if fst import_dir \<noteq> 0 \<and> snd import_dir \<noteq> 0
              then parse_imports ss (fst import_dir) is_64bit else Inr []) (\<lambda>imports.
     if fst delay_dir \<noteq> 0 \<and> snd delay_dir \<noteq> 0 then
       ok_try (parse_delay_imports ss (fst delay_dir) image_base is_64bit) (\<lambda>delay.
       Inr (imports @ (case delay of Some d \<Rightarrow> d | None \<Rightarrow> [])))
     else Inr imports)"

definition or_default :: "'a \<Rightarrow> bool \<Rightarrow> 'a outcome \<Rightarrow> 'a outcome" where
  \<comment> \<open>\<open>if present { parse(..).unwrap_or_default() } else { default }\<close>\<close>
  "or_default d present r =
     (if present then ok_try r (\<lambda>x. Inr (case x of Some a \<Rightarrow> a | None \<Rightarrow> d)) else Inr d)"

record pe_header =
  \<comment> \<open>the fields that \<open>parse\<close> reads before the sections, with the offset of the section table\<close>
  ph_is_64bit :: bool
  ph_image_base :: u64
  ph_entry_rva :: u32
  ph_size_of_image :: u32
  ph_size_of_headers :: u32
  ph_subsystem :: u16
  ph_stack_reserve :: u64
  ph_num_sections :: nat
  ph_sec_table :: nat
  ph_dir :: "nat \<Rightarrow> u32 \<times> u32"

definition fmt_hex6 :: "nat \<Rightarrow> string" where
  \<comment> \<open>\<open>{:#06x}\<close>\<close>
  "fmt_hex6 n = (let d = digits_in 16 n in ''0x'' @ replicate (4 - length d) (hex_char 0) @ d)"

definition parse_dirs :: "bytes \<Rightarrow> nat \<Rightarrow> nat \<Rightarrow> (nat \<Rightarrow> u32 \<times> u32) outcome" where
  \<comment> \<open>the six directories, in the order they are read\<close>
  "parse_dirs r dirs num_dirs =
     (let is = [DIR_IMPORT, DIR_EXPORT, DIR_EXCEPTION, DIR_BASERELOC, DIR_TLS, DIR_DELAY_IMPORT] in
      ok_bind (ok_all (data_dir r dirs num_dirs) is) (\<lambda>ds.
      Inr (\<lambda>i. case map_of (zip is ds) i of Some d \<Rightarrow> d | None \<Rightarrow> (0, 0))))"

definition parse_optional_header :: "bytes \<Rightarrow> nat \<Rightarrow> nat \<Rightarrow> nat \<Rightarrow> pe_header outcome" where
  "parse_optional_header r opt num_sections size_opt_header =
     ok_bind (rd_u16 r opt) (\<lambda>magic.
     ok_bind (if magic = OPT_MAGIC_PE32PLUS then Inr True
              else if magic = OPT_MAGIC_PE32 then Inr False
              else invalid_pe (''unknown optional-header magic '' @ fmt_hex6 (unat magic))) (\<lambda>is_64bit.
     ok_bind (rd_u32 r (opt + 16)) (\<lambda>entry_rva.
     ok_bind (rd_u32 r (opt + 56)) (\<lambda>size_of_image.
     ok_bind (rd_u32 r (opt + 60)) (\<lambda>size_of_headers.
     ok_bind (rd_u16 r (opt + 68)) (\<lambda>subsystem.
     ok_bind (if is_64bit then rd_u64 r (opt + 24) else ok_bind (rd_u32 r (opt + 28)) (\<lambda>v. Inr (ucast v))) (\<lambda>base.
     ok_bind (if is_64bit then rd_u64 r (opt + 72) else ok_bind (rd_u32 r (opt + 72)) (\<lambda>v. Inr (ucast v))) (\<lambda>reserve.
     ok_bind (rd_u32 r (opt + (if is_64bit then 108 else 92))) (\<lambda>num_dirs.
     ok_bind (parse_dirs r (opt + (if is_64bit then 112 else 96)) (unat num_dirs)) (\<lambda>dir.
     Inr \<lparr>ph_is_64bit = is_64bit, ph_image_base = base, ph_entry_rva = entry_rva, ph_size_of_image = size_of_image,
       ph_size_of_headers = size_of_headers, ph_subsystem = subsystem, ph_stack_reserve = reserve,
       ph_num_sections = num_sections, ph_sec_table = opt + size_opt_header, ph_dir = dir\<rparr>))))))))))"

definition parse_header :: "bytes \<Rightarrow> pe_header outcome" where
  "parse_header r =
     ok_bind (rd_u16 r 0) (\<lambda>dos.
     if dos \<noteq> DOS_MAGIC then invalid_pe ''missing 'MZ' DOS signature'' else
     ok_bind (rd_u32 r 0x3C) (\<lambda>pe_off.
     ok_bind (rd_u32 r (unat pe_off)) (\<lambda>sig.
     if sig \<noteq> PE_SIGNATURE then invalid_pe (''missing 'PE'' @ [CHR 0x5C] @ ''0'' @ [CHR 0x5C] @ ''0' signature'') else
     let coff = unat pe_off + 4 in
     ok_bind (rd_u16 r coff) (\<lambda>machine.
     if machine \<noteq> MACHINE_AMD64 \<and> machine \<noteq> MACHINE_I386 then
       invalid_pe (''unsupported machine '' @ fmt_hex6 (unat machine) @ '' (only x86-64 and 32-bit x86 are supported)'')
     else
     ok_bind (rd_u16 r (coff + 2)) (\<lambda>num_sections.
     ok_bind (rd_u16 r (coff + 16)) (\<lambda>size_opt_header.
     parse_optional_header r (coff + 20) (unat num_sections) (unat size_opt_header)))))))"

definition finish_image :: "bytes \<Rightarrow> (bytes \<Rightarrow> 'act) \<Rightarrow> pe_header \<Rightarrow> pe_section list \<Rightarrow> 'act pe_image outcome" where
  \<comment> \<open>the directories, once the sections are known\<close>
  "finish_image r act h ss =
     (let dir = ph_dir h; is_64bit = ph_is_64bit h; base = ph_image_base h;
          present = (\<lambda>i. fst (dir i) \<noteq> 0 \<and> snd (dir i) \<noteq> 0) in
      ok_bind (all_imports ss (dir DIR_IMPORT) (dir DIR_DELAY_IMPORT) base is_64bit) (\<lambda>imports.
      ok_bind (or_default ([], None) (present DIR_EXPORT)
        (parse_exports ss (fst (dir DIR_EXPORT)) (snd (dir DIR_EXPORT)))) (\<lambda>(exports, dll_name).
      ok_bind (or_default [] (present DIR_BASERELOC)
        (parse_relocs ss (fst (dir DIR_BASERELOC)) (snd (dir DIR_BASERELOC)))) (\<lambda>relocs.
      ok_bind (or_default None (fst (dir DIR_TLS) \<noteq> 0)
        (ok_bind (parse_tls ss (fst (dir DIR_TLS)) base is_64bit) (\<lambda>t. Inr (Some t)))) (\<lambda>tls.
      ok_bind (rd_bytes r 0 (min (unat (ph_size_of_headers h)) (length r))) (\<lambda>headers.
      Inr \<lparr>pe_is_64bit = is_64bit, pe_image_base = base, pe_entry_rva = ph_entry_rva h,
        pe_size_of_image = ph_size_of_image h, pe_size_of_headers = ph_size_of_headers h,
        pe_subsystem = ph_subsystem h, pe_stack_reserve = ph_stack_reserve h, pe_sections = ss,
        pe_imports = imports, pe_exports = exports, pe_relocations = relocs, pe_tls = tls,
        pe_dll_name = dll_name, pe_headers = headers,
        pe_function_table = (if is_64bit \<and> present DIR_EXCEPTION
          then parse_function_table ss (fst (dir DIR_EXCEPTION)) (snd (dir DIR_EXCEPTION)) else []),
        pe_activation_context = act r\<rparr>))))))"

definition parse_pe :: "bytes \<Rightarrow> (bytes \<Rightarrow> 'act) \<Rightarrow> 'act pe_image outcome" where
  "parse_pe r act =
     ok_bind (parse_header r) (\<lambda>h.
     ok_bind (parse_sections r (ph_num_sections h) (ph_sec_table h)) (\<lambda>ss.
     finish_image r act h ss))"

end
