(* ===== verification/Pe_Resolve.thy ===== *)
theory Pe_Resolve
  imports Pe_Image
begin

text \<open>
  \<open>loader/src/reloc.rs\<close>: base relocation. The sections are changed in place, also when a later
  relocation fails, so they are the state of the computation.
\<close>

definition REL_HIGHLOW :: u8 where "REL_HIGHLOW = 3"
definition REL_DIR64 :: u8 where "REL_DIR64 = 10"

definition rel_holds :: "pe_section \<Rightarrow> u32 \<Rightarrow> bool" where
  \<comment> \<open>the test of \<open>slice_ref\<close> and \<open>slice_mut\<close>; here the end of the section wraps at \<open>2\<^sup>3\<^sup>2\<close>\<close>
  "rel_holds s rva \<longleftrightarrow> sec_rva s \<le> rva \<and> rva < sec_rva s + sec_vsize s"

definition rel_past :: "u32 \<Rightarrow> 'a outcome" where
  "rel_past rva = invalid_pe (''relocation at rva '' @ fmt_hex (unat rva) @ '' past section data'')"

definition rel_nowhere :: "u32 \<Rightarrow> 'a outcome" where
  "rel_nowhere rva = invalid_pe (''relocation rva '' @ fmt_hex (unat rva) @ '' not in any section'')"

fun slice_ref :: "pe_section list \<Rightarrow> u32 \<Rightarrow> nat \<Rightarrow> bytes outcome" where
  "slice_ref [] rva len = rel_nowhere rva"
| "slice_ref (s # ss) rva len =
     (if rel_holds s rva then
        case slice_get (sec_data s) (unat (rva - sec_rva s)) len of
          Some b \<Rightarrow> Inr b | None \<Rightarrow> rel_past rva
      else slice_ref ss rva len)"

fun slice_put :: "pe_section list \<Rightarrow> u32 \<Rightarrow> bytes \<Rightarrow> pe_section list outcome" where
  \<comment> \<open>\<open>slice_mut(..)?.copy_from_slice(bs)\<close>\<close>
  "slice_put [] rva bs = rel_nowhere rva"
| "slice_put (s # ss) rva bs =
     (if rel_holds s rva then
        let off = unat (rva - sec_rva s) in
        if off + length bs \<le> length (sec_data s)
        then Inr (s\<lparr>sec_data := blit (sec_data s) off bs\<rparr> # ss)
        else rel_past rva
      else ok_bind (slice_put ss rva bs) (\<lambda>ss'. Inr (s # ss')))"

type_synonym 'a relocating = "(pe_section list, 'a) em"

definition rel_get :: "(pe_section list \<Rightarrow> 'a outcome) \<Rightarrow> 'a relocating" where
  "rel_get f ss = (f ss, ss)"

definition rel_put :: "u32 \<Rightarrow> bytes \<Rightarrow> unit relocating" where
  "rel_put rva bs ss = (case slice_put ss rva bs of Inr ss' \<Rightarrow> (Inr (), ss') | Inl x \<Rightarrow> (Inl x, ss))"

definition rel_read_u32 :: "u32 \<Rightarrow> u32 relocating" where
  "rel_read_u32 rva = rel_get (\<lambda>ss. slice_u32 ss rva)"

definition rel_read_u64 :: "u32 \<Rightarrow> u64 relocating" where
  "rel_read_u64 rva = rel_get (\<lambda>ss. ok_bind (slice_ref ss rva 8) (\<lambda>b. Inr (from_le b)))"

definition rel_write_u32 :: "u32 \<Rightarrow> u32 \<Rightarrow> unit relocating" where
  "rel_write_u32 rva v = rel_put rva (to_le 4 v)"

definition rel_write_u64 :: "u32 \<Rightarrow> u64 \<Rightarrow> unit relocating" where
  "rel_write_u64 rva v = rel_put rva (to_le 8 v)"

definition apply_reloc :: "u64 \<Rightarrow> reloc \<Rightarrow> unit relocating" where
  "apply_reloc delta r =
     (if rl_kind r = REL_HIGHLOW then
        em_bind (rel_read_u32 (rl_rva r)) (\<lambda>old. rel_write_u32 (rl_rva r) (old + ucast delta))
      else if rl_kind r = REL_DIR64 then
        em_bind (rel_read_u64 (rl_rva r)) (\<lambda>old. rel_write_u64 (rl_rva r) (old + delta))
      else em_stop (Err (InvalidPe (''unsupported base-relocation type '' @ fmt_dec (unat (rl_kind r)) @
        '' at rva '' @ fmt_hex (unat (rl_rva r))))))"

definition apply_relocations :: "reloc list \<Rightarrow> u64 \<Rightarrow> u64 \<Rightarrow> unit relocating" where
  "apply_relocations relocs preferred_base actual_base =
     em_each relocs (apply_reloc (actual_base - preferred_base))"

text \<open>
  \<open>loader/src/resolve.rs\<close>: import resolution through the loaded modules, with forwarded exports
  followed for a bounded number of hops, and \<open>loader/src/api_set.rs\<close>: the host of an API set
  contract. The set of loaded modules is a trait object: a function from a normalized name to the
  base and the exports of the module.
\<close>

type_synonym modules = "string \<Rightarrow> (u64 \<times> export_entry list) option"

datatype resolved = GuestCode u64 | Fallback

definition MAX_FORWARDER_HOPS :: nat where "MAX_FORWARDER_HOPS = 16"

definition find_export :: "export_entry list \<Rightarrow> import_symbol \<Rightarrow> export_entry option" where
  "find_export exports symbol =
     (case symbol of
        Named name \<Rightarrow> List.find (\<lambda>e. ex_name e = Some name) exports
      | Ordinal n \<Rightarrow> List.find (\<lambda>e. ex_ordinal e = n) exports)"

definition normalize_dll :: "string \<Rightarrow> string" where
  "normalize_dll dll =
     (let n = to_ascii_lowercase dll in if CHR ''.'' \<in> set n then n else n @ ''.dll'')"

definition is_digit :: "char \<Rightarrow> bool" where
  "is_digit c \<longleftrightarrow> 0x30 \<le> (of_char c :: nat) \<and> of_char c \<le> (0x39 :: nat)"

definition digits_value :: "string \<Rightarrow> nat" where
  "digits_value s = fold (\<lambda>c v. v * 10 + (of_char c - 0x30)) s 0"

definition parse_u16 :: "string \<Rightarrow> u16 option" where
  \<comment> \<open>\<open>str::parse::<u16>\<close>: an optional plus sign and decimal digits whose value fits\<close>
  "parse_u16 s =
     (let d = (case s of c # cs \<Rightarrow> if c = CHR ''+'' then cs else s | [] \<Rightarrow> []) in
      if d \<noteq> [] \<and> list_all is_digit d \<and> digits_value d < 2 ^ 16 then Some (of_nat (digits_value d)) else None)"

definition split_last_dot :: "string \<Rightarrow> (string \<times> string) option" where
  \<comment> \<open>what is before and behind the last dot\<close>
  "split_last_dot s =
     (if CHR ''.'' \<in> set s then
        let tail = takeWhile (\<lambda>c. c \<noteq> CHR ''.'') (rev s) in
        Some (take (length s - length tail - 1) s, rev tail)
      else None)"

definition parse_forwarder :: "string \<Rightarrow> (string \<times> import_symbol) option" where
  "parse_forwarder s =
     (case split_last_dot s of
        None \<Rightarrow> None
      | Some (dll_part, sym_part) \<Rightarrow>
          if dll_part = [] \<or> sym_part = [] then None
          else if hd sym_part = CHR ''#'' then
            (case parse_u16 (tl sym_part) of
               Some n \<Rightarrow> Some (normalize_dll dll_part, Ordinal n) | None \<Rightarrow> None)
          else Some (normalize_dll dll_part, Named sym_part))"

fun resolve_hops :: "modules \<Rightarrow> nat \<Rightarrow> string \<Rightarrow> import_symbol \<Rightarrow> resolved" where
  "resolve_hops ms 0 dll symbol = Fallback"
| "resolve_hops ms (Suc n) dll symbol =
     (case ms dll of
        None \<Rightarrow> Fallback
      | Some (base, exports) \<Rightarrow>
          (case find_export exports symbol of
             None \<Rightarrow> Fallback
           | Some e \<Rightarrow>
               (case ex_forwarder e of
                  None \<Rightarrow> GuestCode (base + ucast (ex_rva e))
                | Some target \<Rightarrow>
                    (case parse_forwarder target of
                       None \<Rightarrow> Fallback
                     | Some (next_dll, next_symbol) \<Rightarrow> resolve_hops ms n next_dll next_symbol))))"

definition resolve_import :: "modules \<Rightarrow> string \<Rightarrow> import_symbol \<Rightarrow> resolved" where
  "resolve_import ms dll symbol = resolve_hops ms MAX_FORWARDER_HOPS (normalize_dll dll) symbol"

definition resolve_export :: "modules \<Rightarrow> string \<Rightarrow> import_symbol \<Rightarrow> u64 option" where
  \<comment> \<open>\<open>app/src/image_loader.rs\<close>\<close>
  "resolve_export ms dll symbol =
     (case resolve_import ms dll symbol of GuestCode addr \<Rightarrow> Some addr | Fallback \<Rightarrow> None)"

section \<open>API sets\<close>

definition starts_with :: "string \<Rightarrow> string \<Rightarrow> bool" where
  "starts_with s p \<longleftrightarrow> take (length p) s = p"

definition strip_dll :: "string \<Rightarrow> string" where
  "strip_dll s = (if 4 \<le> length s \<and> drop (length s - 4) s = ''.dll'' then take (length s - 4) s else s)"

definition API_EXPLICIT :: "(string \<times> string) list" where
  "API_EXPLICIT =
    [(''api-ms-win-crt-'', ''ucrtbase''),
     (''api-ms-win-downlevel-'', ''kernelbase''),
     (''api-ms-win-eventing-'', ''sechost''),
     (''api-ms-win-eventlog-'', ''advapi32''),
     (''api-ms-win-wevtapi-'', ''wevtapi''),
     (''api-ms-win-security-base-'', ''advapi32''),
     (''api-ms-win-security-credentials-'', ''credui''),
     (''api-ms-win-security-cryptoapi-'', ''crypt32''),
     (''api-ms-win-security-lsalookup-'', ''secur32''),
     (''api-ms-win-security-provider-'', ''advapi32''),
     (''api-ms-win-security-sddl-'', ''advapi32''),
     (''api-ms-win-security-systemaudit-'', ''advapi32''),
     (''api-ms-win-service-'', ''sechost''),
     (''api-ms-win-core-namedpipe-'', ''kernelbase''),
     (''ext-ms-win-winsock-'', ''ws2_32''),
     (''ext-ms-win-iphlpapi-'', ''iphlpapi''),
     (''ext-ms-win-dnsapi-'', ''dnsapi''),
     (''ext-ms-win-ntuser-'', ''user32''),
     (''ext-ms-win-ntos-'', ''ntoskrnl''),
     (''ext-ms-win-shell-'', ''shell32''),
     (''ext-ms-win-ole-'', ''ole32''),
     (''ext-ms-win-com-'', ''combase''),
     (''ext-ms-win-ras-'', ''rasapi32''),
     (''ext-ms-win-storage-'', ''api-ms-win-storage-l1-1-0'')]"

definition API_PREFIX_RULES :: "(string \<times> string) list" where
  "API_PREFIX_RULES =
    [(''api-ms-win-core-'', ''kernelbase''),
     (''api-ms-win-'', ''kernelbase''),
     (''ext-ms-win-'', ''kernelbase''),
     (''ext-'', ''kernelbase'')]"

definition api_lookup :: "string \<Rightarrow> string" where
  "api_lookup bare =
     (case List.find (\<lambda>(contract, host). bare = contract \<or> starts_with bare contract) API_EXPLICIT of
        Some (c, host) \<Rightarrow> host
      | None \<Rightarrow>
          (case List.find (\<lambda>(prefix, host). starts_with bare prefix) API_PREFIX_RULES of
             Some (p, host) \<Rightarrow> host
           | None \<Rightarrow> ''ntdll''))"

definition resolve_api_set :: "string \<Rightarrow> string option" where
  "resolve_api_set name =
     (let bare = strip_dll name in
      if \<not> starts_with bare ''api-'' \<and> \<not> starts_with bare ''ext-'' then None else Some (api_lookup bare))"

end
