(* ===== verification/Pe_Total.thy ===== *)
theory Pe_Total
  imports Pe_Parse Calculus
begin

text \<open>
  The loader comes to an end. Everything it does either returns or fails with an error; its loops
  over terminated tables walk the RVA space upwards, and end at the latest where no section holds
  the next entry.
\<close>

definition ends :: "'a outcome \<Rightarrow> bool" where
  \<comment> \<open>a value or an error\<close>
  "ends r \<longleftrightarrow> (\<forall>x. r = Inl x \<longrightarrow> only_errors x)"

named_theorems ends_intros \<open>composition rules for \<open>ends\<close>\<close>

lemma ends_Inr [ends_intros, simp]: "ends (Inr a)"
  by (simp add: ends_def)

lemma ends_invalid [ends_intros, simp]: "ends (invalid_pe w)"
  by (simp add: ends_def invalid_pe_def)

lemma ends_bind [ends_intros]: "ends r \<Longrightarrow> (\<And>a. r = Inr a \<Longrightarrow> ends (f a)) \<Longrightarrow> ends (ok_bind r f)"
  by (cases r) (auto simp: ends_def)

lemma ends_try [ends_intros]: "ends r \<Longrightarrow> (\<And>a. ends (f a)) \<Longrightarrow> ends (ok_try r f)"
  by (auto simp: ends_def ok_try_def split: sum.splits stop.splits)

lemma ends_all [ends_intros]: "(\<And>x. ends (f x)) \<Longrightarrow> ends (ok_all f xs)"
  by (induction xs) (auto intro!: ends_intros)

lemma ends_if [ends_intros]: "(b \<Longrightarrow> ends r) \<Longrightarrow> (\<not> b \<Longrightarrow> ends q) \<Longrightarrow> ends (if b then r else q)"
  by simp

lemma ends_option [ends_intros]:
  "(x = None \<Longrightarrow> ends r) \<Longrightarrow> (\<And>a. x = Some a \<Longrightarrow> ends (f a)) \<Longrightarrow>
    ends (case x of None \<Rightarrow> r | Some a \<Rightarrow> f a)"
  by (cases x) auto

lemma ends_pair [ends_intros]: "(\<And>a b. p = (a, b) \<Longrightarrow> ends (f a b)) \<Longrightarrow> ends (case p of (a, b) \<Rightarrow> f a b)"
  by (cases p) auto

section \<open>The readers\<close>

lemma ends_rd [ends_intros]: "ends (rd_bytes r off n)" "ends (rd_u16 r off)" "ends (rd_u32 r off)" "ends (rd_u64 r off)"
  unfolding rd_u16_def rd_u32_def rd_u64_def rd_bytes_def by (intro ends_intros)+

lemma ends_slice_at [ends_intros]: "ends (slice_at ss a n)"
  unfolding slice_at_def by (intro ends_intros)

lemma ends_slice [ends_intros]:
  "ends (slice_u8 ss a)" "ends (slice_u16 ss a)" "ends (slice_u32 ss a)" "ends (slice_u64 ss a)"
  unfolding slice_u8_def slice_u16_def slice_u32_def slice_u64_def by (intro ends_intros)+

lemma ends_cstr [ends_intros]: "ends (cstr_at_rva ss a)"
  unfolding cstr_at_rva_def by (intro ends_intros)

lemma ends_thunk [ends_intros]: "ends (read_thunk b ss a)"
  unfolding read_thunk_def by (intro ends_intros)

lemma ends_default [ends_intros]: "ends r \<Longrightarrow> ends (or_default d b r)"
  unfolding or_default_def by (intro ends_intros)

section \<open>Walks through the RVA space\<close>

definition top_free :: "pe_section list \<Rightarrow> bool" where
  \<comment> \<open>no section holds one of the last 32 RVAs\<close>
  "top_free ss \<longleftrightarrow> (\<forall>s \<in> set ss. unat (sec_rva s) + unat (sec_vsize s) \<le> 2 ^ 32 - 32)"

lemma top_not_held: "top_free ss \<Longrightarrow> 2 ^ 32 - 32 \<le> unat a \<Longrightarrow> read_at_rva ss a = None"
  by (induction ss) (fastforce simp: top_free_def sec_holds_def)+

lemma top_slice: "top_free ss \<Longrightarrow> 2 ^ 32 - 32 \<le> unat a \<Longrightarrow> \<exists>e. slice_at ss a n = Inl (Err e)"
  by (simp add: slice_at_def top_not_held invalid_pe_def)

lemma top_reads:
  assumes "top_free ss" "2 ^ 32 - 32 \<le> unat a"
  shows "\<exists>e. slice_u32 ss a = Inl (Err e)" "\<exists>e. read_thunk b ss a = Inl (Err e)"
  using top_slice [OF assms, of 4] top_slice [OF assms, of 8]
  by (auto simp: slice_u32_def slice_u64_def read_thunk_def)

definition enough :: "nat \<Rightarrow> u32 \<Rightarrow> bool" where
  \<comment> \<open>\<open>n\<close> steps reach the last 32 RVAs from \<open>a\<close>\<close>
  "enough n a \<longleftrightarrow> 2 ^ 32 - 32 < unat a + n \<and> 0 < n"

lemma enough_RVAS: "enough RVAS a"
  by (simp add: enough_def RVAS_def)

lemma not_enough_0 [simp]: "\<not> enough 0 a"
  by (simp add: enough_def)

lemma enough_step:
  assumes "enough (Suc n) a" "unat a < 2 ^ 32 - 32" "0 < unat t" "unat t \<le> 32"
  shows "enough n (a + t)"
proof -
  have "unat (a + t) = unat a + unat t" using assms by (intro unat_add_lem [THEN iffD1]) simp
  then show ?thesis using assms by (simp add: enough_def)
qed

lemma thunk_size_bounds: "0 < unat (thunk_size b)" "unat (thunk_size b) \<le> 32"
  by (simp_all add: thunk_size_def)

lemma next_thunk: "enough (Suc n) (a + i * thunk_size b) \<Longrightarrow> unat (a + i * thunk_size b) < 2 ^ 32 - 32 \<Longrightarrow>
    enough n (a + (i + 1) * thunk_size b)"
  using enough_step [OF _ _ thunk_size_bounds, of n "a + i * thunk_size b" b] by (simp add: algebra_simps)

lemma ends_import_thunks:
  "top_free ss \<Longrightarrow> enough n (lookup + i * thunk_size b) \<Longrightarrow> ends (import_thunks b ss dll lookup first n i)"
proof (induction n arbitrary: i)
  case (Suc n)
  show ?case
  proof (cases "unat (lookup + i * thunk_size b) < 2 ^ 32 - 32")
    case True
    note IH = Suc.IH [OF Suc.prems(1) next_thunk [OF Suc.prems(2) True]]
    show ?thesis unfolding import_thunks.simps by (intro ends_intros IH)
  next
    case False
    then show ?thesis using top_reads(2) [OF Suc.prems(1), of "lookup + i * thunk_size b" b] by (auto simp: ends_def)
  qed
qed simp

lemma ends_import_descriptors:
  "top_free ss \<Longrightarrow> enough n desc \<Longrightarrow> ends (import_descriptors b ss n desc)"
proof (induction n arbitrary: desc)
  case (Suc n)
  show ?case
  proof (cases "unat desc < 2 ^ 32 - 32")
    case True
    then have "enough n (desc + 20)" using enough_step [OF Suc.prems(2), of 20] by simp
    note IH = Suc.IH [OF Suc.prems(1) this]
    show ?thesis unfolding import_descriptors.simps
      by (intro ends_intros IH ends_import_thunks Suc.prems enough_RVAS)
  next
    case False
    then show ?thesis using top_reads(1) [OF Suc.prems(1), of desc] by (auto simp: ends_def)
  qed
qed simp

lemma ends_delay_thunks:
  "top_free ss \<Longrightarrow> enough n (int_rva + i * thunk_size b) \<Longrightarrow> ends (delay_thunks b ss dll int_rva iat n i)"
proof (induction n arbitrary: i)
  case (Suc n)
  show ?case
  proof (cases "unat (int_rva + i * thunk_size b) < 2 ^ 32 - 32")
    case True
    note IH = Suc.IH [OF Suc.prems(1) next_thunk [OF Suc.prems(2) True]]
    show ?thesis unfolding delay_thunks.simps by (intro ends_intros IH)
  next
    case False
    then show ?thesis using top_reads(2) [OF Suc.prems(1), of "int_rva + i * thunk_size b" b] by auto
  qed
qed simp

lemma ends_delay_descriptors:
  "top_free ss \<Longrightarrow> enough n desc \<Longrightarrow> ends (delay_descriptors b base ss n desc)"
proof (induction n arbitrary: desc)
  case (Suc n)
  show ?case
  proof (cases "unat desc < 2 ^ 32 - 32")
    case True
    then have "enough n (desc + 32)" using enough_step [OF Suc.prems(2), of 32] by simp
    note IH = Suc.IH [OF Suc.prems(1) this]
    show ?thesis unfolding delay_descriptors.simps
      by (intro ends_intros IH ends_delay_thunks Suc.prems enough_RVAS)
  next
    case False
    then show ?thesis using top_reads(1) [OF Suc.prems(1), of desc] by (auto simp: ends_def)
  qed
qed simp

lemma ends_callbacks: "top_free ss \<Longrightarrow> enough n a \<Longrightarrow> ends (tls_callbacks_at b ss base n a)"
proof (induction n arbitrary: a)
  case (Suc n)
  show ?case
  proof (cases "unat a < 2 ^ 32 - 32")
    case True
    note IH = Suc.IH [OF Suc.prems(1) enough_step [OF Suc.prems(2) True thunk_size_bounds]]
    show ?thesis unfolding tls_callbacks_at.simps by (intro ends_intros IH)
  next
    case False
    then show ?thesis using top_reads(2) [OF Suc.prems(1), of a b] by auto
  qed
qed simp

section \<open>The parts of the parser\<close>

lemma ends_imports: "top_free ss \<Longrightarrow> ends (all_imports ss i d base b)"
  unfolding all_imports_def parse_imports_def parse_delay_imports_def
  by (intro ends_intros ends_import_descriptors ends_delay_descriptors enough_RVAS)

lemma ends_exports: "ends (parse_exports ss a n)"
  unfolding parse_exports_def export_names_def export_at_def by (intro ends_intros)

lemma ends_reloc_blocks: "ends (reloc_blocks ss a n off)"
proof (induction ss a n off rule: reloc_blocks.induct)
  case (1 ss a n off)
  show ?case by (subst reloc_blocks.simps) (intro ends_intros 1)
qed

lemma ends_tls: "top_free ss \<Longrightarrow> ends (parse_tls ss a base b)"
  unfolding parse_tls_def Let_def by (intro ends_intros ends_callbacks enough_RVAS)

lemma ends_limit_pairs: "ends (limit_pairs hs is limits)"
  by (induction hs "is" limits rule: limit_pairs.induct) (auto simp: Let_def sections_overlap_def)

lemma ends_sections: "ends (parse_sections r n t)"
  unfolding parse_sections_def read_section_header_def raw_copy_limits_def load_section_def
  by (intro ends_intros ends_limit_pairs)

lemma ends_header: "ends (parse_header r)"
  unfolding parse_header_def parse_optional_header_def parse_dirs_def data_dir_def Let_def by (intro ends_intros)

lemma ends_finish: "top_free ss \<Longrightarrow> ends (finish_image r act h ss)"
  unfolding finish_image_def Let_def parse_relocs_def
  by (intro ends_intros ends_imports ends_exports ends_reloc_blocks ends_tls)

end
