(* ===== verification/Reloc_Laws.thy ===== *)
theory Reloc_Laws
  imports Pe_Resolve
begin

text \<open>
  Base relocation: patching words of the sections, as updates of disjoint places that commute and
  add up.
\<close>

section \<open>Places in the sections\<close>

definition fits :: "pe_section list \<Rightarrow> bool" where
  \<comment> \<open>no section reaches the end of the RVA space\<close>
  "fits ss \<longleftrightarrow> (\<forall>s \<in> set ss. unat (sec_rva s) + unat (sec_vsize s) < 2 ^ 32)"

definition far :: "u32 \<Rightarrow> nat \<Rightarrow> u32 \<Rightarrow> nat \<Rightarrow> bool" where
  "far a n b k \<longleftrightarrow> unat a + n \<le> unat b \<or> unat b + k \<le> unat a"

lemma slice_get_eq: "slice_get d off n = Some b \<longleftrightarrow> off + n \<le> length d \<and> b = subslice d off (off + n)"
  by (auto simp: slice_get_def)

lemma rel_holds_update [simp]:
  "length d = length (sec_data s) \<Longrightarrow> rel_holds (s\<lparr>sec_data := d\<rparr>) a = rel_holds s a"
  "length d = length (sec_data s) \<Longrightarrow> sec_vsize (s\<lparr>sec_data := d\<rparr>) = sec_vsize s"
  by (simp_all add: rel_holds_def sec_vsize_def)

lemma slice_ref_Inr_length: "slice_ref ss a n = Inr b \<Longrightarrow> length b = n"
  by (induction ss) (auto simp: slice_get_def rel_past_def rel_nowhere_def split: if_splits)

lemma slice_put_Cons:
  "slice_put (s # ss) a bs = Inr u \<longleftrightarrow>
     (if rel_holds s a
      then unat (a - sec_rva s) + length bs \<le> length (sec_data s) \<and>
        u = s\<lparr>sec_data := blit (sec_data s) (unat (a - sec_rva s)) bs\<rparr> # ss
      else \<exists>u'. slice_put ss a bs = Inr u' \<and> u = s # u')"
  by (auto simp: Let_def ok_bind_Inr rel_past_def)

lemma slice_put_Nil [simp]: "slice_put [] a bs \<noteq> Inr u"
  by (simp add: rel_nowhere_def)

declare slice_put.simps [simp del] slice_put_Cons [simp]

lemma slice_ref_Cons:
  "slice_ref (s # ss) a n = Inr b \<longleftrightarrow>
     (if rel_holds s a
      then unat (a - sec_rva s) + n \<le> length (sec_data s) \<and>
        b = subslice (sec_data s) (unat (a - sec_rva s)) (unat (a - sec_rva s) + n)
      else slice_ref ss a n = Inr b)"
  by (auto simp: slice_get_def rel_past_def)

lemma slice_ref_Nil [simp]: "slice_ref [] a n \<noteq> Inr b"
  by (simp add: rel_nowhere_def)

declare slice_ref.simps [simp del] slice_ref_Cons [simp]

lemma put_ok: "slice_ref ss a (length bs) = Inr old \<Longrightarrow> \<exists>u. slice_put ss a bs = Inr u"
  by (induction ss) (auto split: if_splits)

lemma put_get: "slice_put ss a bs = Inr u \<Longrightarrow> slice_ref u a (length bs) = Inr bs"
  by (induction ss arbitrary: u) (auto split: if_splits)

lemma put_same: "slice_ref ss a n = Inr b \<Longrightarrow> slice_put ss a b = Inr ss"
proof (induction ss)
  case (Cons s ss)
  have "blit d off (subslice d off (off + n)) = d" if "off + n \<le> length d" for d :: bytes and off
    using that by (simp add: blit_def subslice_def min_def) (metis append_take_drop_id drop_drop add.commute)
  then show ?case using Cons by (auto split: if_splits)
qed simp

lemma blit_blit: "length ys = length xs \<Longrightarrow> start + length xs \<le> length d \<Longrightarrow>
    blit (blit d start xs) start ys = blit d start ys"
  by (intro nth_equalityI) (auto simp: nth_blit)

lemma put_put: "slice_put ss a bs = Inr u \<Longrightarrow> length cs = length bs \<Longrightarrow> slice_put u a cs = slice_put ss a cs"
proof (induction ss arbitrary: u)
  case (Cons s ss)
  show ?case
  proof (cases "rel_holds s a")
    case True
    with Cons.prems have "unat (a - sec_rva s) + length bs \<le> length (sec_data s)"
      "u = s\<lparr>sec_data := blit (sec_data s) (unat (a - sec_rva s)) bs\<rparr> # ss" by auto
    then show ?thesis using Cons.prems(2) True by (simp add: slice_put.simps Let_def blit_blit)
  next
    case False
    with Cons.prems obtain v where "slice_put ss a bs = Inr v" "u = s # v" by auto
    then show ?thesis using Cons.IH Cons.prems(2) False by (simp add: slice_put.simps)
  qed
qed simp

lemma far_offsets:
  assumes "far a n b k" "sec_rva s \<le> a" "sec_rva s \<le> b"
  shows "unat (a - sec_rva s) + n \<le> unat (b - sec_rva s) \<or> unat (b - sec_rva s) + k \<le> unat (a - sec_rva s)"
  using assms by (auto simp: far_def unat_sub word_le_nat_alt)

lemma blit_commute:
  assumes "i + length xs \<le> j \<or> j + length ys \<le> i" "i + length xs \<le> length d" "j + length ys \<le> length d"
  shows "blit (blit d i xs) j ys = blit (blit d j ys) i xs"
  using assms by (intro nth_equalityI) (auto simp: nth_blit)

lemma subslice_blit_far:
  assumes "i + length xs \<le> j \<or> j + n \<le> i" "i + length xs \<le> length d" "j + n \<le> length d"
  shows "subslice (blit d i xs) j (j + n) = subslice d j (j + n)"
  using assms by (intro nth_equalityI) (auto simp: nth_subslice nth_blit)

lemma rel_holds_rva: "rel_holds s a \<Longrightarrow> sec_rva s \<le> a"
  by (simp add: rel_holds_def)

lemma put_get_far:
  "slice_put ss a bs = Inr u \<Longrightarrow> far a (length bs) b n \<Longrightarrow> slice_ref u b n = Inr c \<longleftrightarrow> slice_ref ss b n = Inr c"
proof (induction ss arbitrary: u)
  case (Cons s ss)
  then show ?case
    using far_offsets [OF Cons.prems(2), of s] rel_holds_rva
      subslice_blit_far [of "unat (a - sec_rva s)" bs "unat (b - sec_rva s)" n "sec_data s"]
    by (auto split: if_splits)
qed simp

lemma put_commute:
  "slice_put ss a xs = Inr u \<Longrightarrow> slice_put u b ys = Inr v \<Longrightarrow> far a (length xs) b (length ys) \<Longrightarrow>
    \<exists>w. slice_put ss b ys = Inr w \<and> slice_put w a xs = Inr v"
proof (induction ss arbitrary: u v)
  case (Cons s ss)
  show ?case
  proof (cases "rel_holds s a \<and> rel_holds s b")
    case True
    then show ?thesis
      using Cons.prems far_offsets [OF Cons.prems(3), of s] rel_holds_rva [of s]
        blit_commute [of "unat (a - sec_rva s)" xs "unat (b - sec_rva s)" ys "sec_data s"]
      by (auto simp: ac_simps)
  next
    case False
    then show ?thesis using Cons by (fastforce split: if_splits)
  qed
qed simp

section \<open>Relocations\<close>

definition reloc_size :: "reloc \<Rightarrow> nat" where
  "reloc_size r = (if rl_kind r = REL_HIGHLOW then 4 else 8)"

definition relocs_apart :: "reloc list \<Rightarrow> bool" where
  "relocs_apart rs \<longleftrightarrow> sorted_wrt (\<lambda>r q. far (rl_rva r) (reloc_size r) (rl_rva q) (reloc_size q)) rs"

definition shifted :: "u64 \<Rightarrow> nat \<Rightarrow> bytes \<Rightarrow> bytes" where
  \<comment> \<open>the word of \<open>n\<close> bytes plus \<open>delta\<close>\<close>
  "shifted delta n b = to_le n ((from_le b :: u64) + delta)"

definition patch :: "u64 \<Rightarrow> reloc \<Rightarrow> pe_section list \<Rightarrow> pe_section list option" where
  "patch delta r ss =
     (if rl_kind r = REL_HIGHLOW \<or> rl_kind r = REL_DIR64 then
        case slice_ref ss (rl_rva r) (reloc_size r) of
          Inl x \<Rightarrow> None
        | Inr b \<Rightarrow> (case slice_put ss (rl_rva r) (shifted delta (reloc_size r) b) of Inr u \<Rightarrow> Some u | Inl x \<Rightarrow> None)
      else None)"

lemma length_shifted [simp]: "length (shifted d n b) = n"
  by (simp add: shifted_def)

lemma take_bit_plus_word: "k \<le> LENGTH('a) \<Longrightarrow> take_bit k (take_bit k x + e) = take_bit k (x + e)"
  for x :: "'a::len word"
proof (transfer fixing: k, goal_cases)
  case (1 x e)
  have "take_bit k (take_bit LENGTH('a) (take_bit k x + e)) = take_bit k (take_bit k x + e)" using 1 by (simp add: min_def)
  also have "\<dots> = take_bit k (x + e)" using take_bit_add [of k "take_bit k x" e] take_bit_add [of k x e] by simp
  finally show ?case using 1 by (simp add: min_def ac_simps)
qed

lemma shifted_shifted:
  assumes "length b = n" "n \<le> 8" shows "shifted e n (shifted d n b) = shifted (d + e) n b"
proof -
  have "to_le n (take_bit (8 * n) (x :: u64) + e) = to_le n (x + e)" for x
  proof (rule nth_equalityI)
    fix i assume "i < length (to_le n (take_bit (8 * n) x + e))"
    then have i: "i < n" by simp
    have "take_bit (8 * n) (take_bit (8 * n) x + e) = take_bit (8 * n) (x + e)"
      using assms(2) by (intro take_bit_plus_word) simp
    then have "bit (take_bit (8 * n) x + e) j = bit (x + e) j" if "j < 8 * n" for j
      using that by (metis bit_take_bit_iff)
    then have "ucast (drop_bit (8 * i) (take_bit (8 * n) x + e)) = (ucast (drop_bit (8 * i) (x + e)) :: u8)"
      using i by (intro bit_word_eqI) (auto simp: bit_simps)
    then show "to_le n (take_bit (8 * n) x + e) ! i = to_le n (x + e) ! i" using i by (simp add: nth_to_le)
  qed simp
  then show ?thesis using assms(2) by (simp add: shifted_def from_le_to_le add.assoc)
qed

lemma shifted_0: "length b = n \<Longrightarrow> n \<le> 8 \<Longrightarrow> shifted 0 n b = b"
  using to_le_from_le [of b, where ?'a = 64] by (simp add: shifted_def)

lemma reloc_size_le: "reloc_size r \<le> 8"
  by (simp add: reloc_size_def)

lemma patch_Some:
  "patch d r ss = Some u \<longleftrightarrow> (rl_kind r = REL_HIGHLOW \<or> rl_kind r = REL_DIR64) \<and>
     (\<exists>b. slice_ref ss (rl_rva r) (reloc_size r) = Inr b \<and> slice_put ss (rl_rva r) (shifted d (reloc_size r) b) = Inr u)"
  by (auto simp: patch_def split: sum.splits)

lemma patch_patch: "patch d r ss = Some u \<Longrightarrow> patch e r u = patch (d + e) r ss"
proof -
  assume "patch d r ss = Some u"
  then obtain b where k: "rl_kind r = REL_HIGHLOW \<or> rl_kind r = REL_DIR64"
    and b: "slice_ref ss (rl_rva r) (reloc_size r) = Inr b"
    and u: "slice_put ss (rl_rva r) (shifted d (reloc_size r) b) = Inr u" by (auto simp: patch_Some)
  have "slice_ref u (rl_rva r) (reloc_size r) = Inr (shifted d (reloc_size r) b)" using put_get [OF u] by simp
  moreover have "slice_put u (rl_rva r) cs = slice_put ss (rl_rva r) cs" if "length cs = reloc_size r" for cs
    using put_put [OF u] that by simp
  ultimately show ?thesis
    using k b slice_ref_Inr_length [OF b] reloc_size_le [of r] by (simp add: patch_def shifted_shifted)
qed

lemma patch_0: "patch d r ss = Some u \<Longrightarrow> patch 0 r ss = Some ss"
  using put_same slice_ref_Inr_length reloc_size_le [of r] by (fastforce simp: patch_Some shifted_0)

lemma patch_commute:
  assumes "patch d r ss = Some u" "patch e q u = Some v" "far (rl_rva r) (reloc_size r) (rl_rva q) (reloc_size q)"
  shows "\<exists>w. patch e q ss = Some w \<and> patch d r w = Some v"
proof -
  obtain b where b: "slice_ref ss (rl_rva r) (reloc_size r) = Inr b"
    and u: "slice_put ss (rl_rva r) (shifted d (reloc_size r) b) = Inr u" using assms(1) by (auto simp: patch_Some)
  obtain c where c: "slice_ref u (rl_rva q) (reloc_size q) = Inr c"
    and v: "slice_put u (rl_rva q) (shifted e (reloc_size q) c) = Inr v" using assms(2) by (auto simp: patch_Some)
  have far: "far (rl_rva q) (reloc_size q) (rl_rva r) (reloc_size r)" using assms(3) by (auto simp: far_def)
  have c': "slice_ref ss (rl_rva q) (reloc_size q) = Inr c" using put_get_far [OF u] c assms(3) by simp
  obtain w where w: "slice_put ss (rl_rva q) (shifted e (reloc_size q) c) = Inr w"
    "slice_put w (rl_rva r) (shifted d (reloc_size r) b) = Inr v"
    using put_commute [OF u v] assms(3) by auto
  have "slice_ref w (rl_rva r) (reloc_size r) = Inr b" using put_get_far [OF w(1)] b far by simp
  then show ?thesis using w c' assms(1,2) by (auto simp: patch_Some)
qed

fun patch_all :: "u64 \<Rightarrow> reloc list \<Rightarrow> pe_section list \<Rightarrow> pe_section list option" where
  "patch_all d [] ss = Some ss"
| "patch_all d (r # rs) ss = (case patch d r ss of None \<Rightarrow> None | Some u \<Rightarrow> patch_all d rs u)"

lemma patch_all_commute:
  "patch_all d rs ss = Some u \<Longrightarrow> patch e q u = Some v \<Longrightarrow>
    \<forall>r \<in> set rs. far (rl_rva r) (reloc_size r) (rl_rva q) (reloc_size q) \<Longrightarrow>
    \<exists>w. patch e q ss = Some w \<and> patch_all d rs w = Some v"
proof (induction rs arbitrary: ss)
  case (Cons r rs)
  obtain t where t: "patch d r ss = Some t" "patch_all d rs t = Some u"
    using Cons.prems(1) by (auto split: option.splits)
  obtain w where w: "patch e q t = Some w" "patch_all d rs w = Some v" using Cons.IH [OF t(2)] Cons.prems by auto
  obtain x where "patch e q ss = Some x" "patch d r x = Some w"
    using patch_commute [OF t(1) w(1)] Cons.prems(3) by auto
  then show ?case using w(2) by simp
qed auto

lemma reads_Cons:
  "(\<exists>c. slice_ref (s # ss) b n = Inr c) \<longleftrightarrow>
     (if rel_holds s b then unat (b - sec_rva s) + n \<le> length (sec_data s) else \<exists>c. slice_ref ss b n = Inr c)"
  by simp

lemma put_shape:
  "slice_put ss a bs = Inr u \<Longrightarrow> (\<exists>c. slice_ref u b n = Inr c) \<longleftrightarrow> (\<exists>c. slice_ref ss b n = Inr c)"
proof (induction ss arbitrary: u)
  case (Cons s ss)
  show ?case
  proof (cases "rel_holds s a")
    case True
    with Cons.prems show ?thesis by (auto simp: reads_Cons simp del: slice_ref_Cons)
  next
    case False
    then obtain v where "slice_put ss a bs = Inr v" "u = s # v" using Cons.prems by auto
    with Cons.IH show ?thesis by (simp add: reads_Cons del: slice_ref_Cons)
  qed
qed simp

definition readable :: "reloc list \<Rightarrow> pe_section list \<Rightarrow> bool" where
  "readable rs ss \<longleftrightarrow> (\<forall>r \<in> set rs. (rl_kind r = REL_HIGHLOW \<or> rl_kind r = REL_DIR64) \<and>
     (\<exists>b. slice_ref ss (rl_rva r) (reloc_size r) = Inr b))"

lemma readable_put: "slice_put ss a bs = Inr u \<Longrightarrow> readable rs u = readable rs ss"
  by (simp add: readable_def put_shape)

lemma patch_readable: "(\<exists>u. patch d r ss = Some u) \<longleftrightarrow> readable [r] ss"
  using put_ok by (fastforce simp: patch_Some readable_def dest: slice_ref_Inr_length)

lemma patch_keeps_readable: "patch d r ss = Some u \<Longrightarrow> readable rs u = readable rs ss"
  using readable_put by (auto simp: patch_Some)

lemma readable_Cons: "readable (r # rs) ss \<longleftrightarrow> readable [r] ss \<and> readable rs ss"
  by (auto simp: readable_def)

lemma patch_all_add:
  "relocs_apart rs \<Longrightarrow> patch_all d rs ss = Some u \<Longrightarrow> patch_all e rs u = patch_all (d + e) rs ss"
proof (induction rs arbitrary: ss u)
  case (Cons r rs)
  have far: "\<forall>q \<in> set rs. far (rl_rva r) (reloc_size r) (rl_rva q) (reloc_size q)" and ap: "relocs_apart rs"
    using Cons.prems(1) by (simp_all add: relocs_apart_def)
  then have far': "\<forall>q \<in> set rs. far (rl_rva q) (reloc_size q) (rl_rva r) (reloc_size r)" by (auto simp: far_def)
  obtain t where t: "patch d r ss = Some t" "patch_all d rs t = Some u"
    using Cons.prems(2) by (auto split: option.splits)
  have step: "patch e r t = patch (d + e) r ss" using patch_patch [OF t(1)] .
  obtain w where w: "patch e r t = Some w"
    using patch_readable [of d r ss] patch_readable [of e r t] patch_keeps_readable [OF t(1)] t(1) by blast
  have down: "\<exists>v. patch e r u = Some v \<and> patch_all d rs w = Some v"
    using t(2) w far' ap
  proof (induction rs arbitrary: t w)
    case (Cons q qs)
    obtain x where x: "patch d q t = Some x" "patch_all d qs x = Some u"
      using Cons.prems(1) by (auto split: option.splits)
    have "far (rl_rva r) (reloc_size r) (rl_rva q) (reloc_size q)" using Cons.prems(3) by (auto simp: far_def)
    then obtain y where y: "patch d q w = Some y"
      using x(1) Cons.prems(2) put_get_far put_ok slice_ref_Inr_length
      by (fastforce simp: patch_Some)
    then obtain z where z: "patch d q t = Some z" "patch e r z = Some y"
      using patch_commute [OF Cons.prems(2) y] \<open>far (rl_rva r) _ _ _\<close> by blast
    then show ?case using Cons.IH [of x y] x y Cons.prems(3,4) by (simp add: relocs_apart_def)
  qed simp
  then obtain v where v: "patch e r u = Some v" "patch_all d rs w = Some v" by blast
  have "patch_all e (r # rs) u = patch_all e rs v" using v(1) by simp
  also have "\<dots> = patch_all (d + e) rs w" using Cons.IH [OF ap v(2)] .
  also have "\<dots> = patch_all (d + e) (r # rs) ss" using w step by simp
  finally show ?case .
qed simp

lemma patch_all_readable: "(\<exists>u. patch_all d rs ss = Some u) \<longleftrightarrow> readable rs ss"
proof (induction rs arbitrary: ss)
  case (Cons r rs)
  show ?case
    using patch_readable [of d r ss] patch_keeps_readable [of d r ss _ rs] Cons
    by (subst readable_Cons) (auto split: option.split)
qed (simp add: readable_def)

lemma patch_all_0: "readable rs ss \<Longrightarrow> patch_all 0 rs ss = Some ss"
proof (induction rs)
  case (Cons r rs)
  then have "patch 0 r ss = Some ss"
    using patch_readable [of 0 r ss] patch_0 by (auto simp: readable_Cons [of r rs])
  with Cons show ?case by (simp add: readable_Cons [of r rs])
qed simp

lemma patch_all_keeps_readable: "patch_all d rs ss = Some u \<Longrightarrow> readable qs u = readable qs ss"
proof (induction rs arbitrary: ss)
  case (Cons r rs)
  then show ?case using patch_keeps_readable by (auto split: option.splits)
qed simp

section \<open>The code\<close>

lemma fits_holds: "fits ss \<Longrightarrow> s \<in> set ss \<Longrightarrow> sec_holds s a = rel_holds s a"
proof -
  assume "fits ss" "s \<in> set ss"
  then have "unat (sec_rva s + sec_vsize s) = unat (sec_rva s) + unat (sec_vsize s)"
    by (intro unat_add_lem [THEN iffD1]) (simp add: fits_def)
  then show ?thesis by (simp add: sec_holds_def rel_holds_def word_less_nat_alt)
qed

lemma fits_slice: "fits ss \<Longrightarrow> slice_at ss a n = Inr b \<longleftrightarrow> slice_ref ss a n = Inr b"
proof (induction ss)
  case (Cons s ss)
  then have "fits ss" "sec_holds s a = rel_holds s a" using fits_holds [of "s # ss" s a] by (auto simp: fits_def)
  with Cons.IH show ?case by (auto simp: slice_at_def slice_get_def invalid_pe_def split: option.splits)
qed (simp add: slice_at_def)

lemma fits_put: "slice_put ss a bs = Inr u \<Longrightarrow> fits u = fits ss"
  by (induction ss arbitrary: u) (auto simp: fits_def split: if_splits)

lemma patch_all_fits: "patch_all d rs ss = Some u \<Longrightarrow> fits u = fits ss"
proof (induction rs arbitrary: ss)
  case (Cons r rs)
  then show ?case using fits_put by (fastforce simp: patch_Some split: option.splits)
qed simp

lemma ucast_add_32: "(ucast (x + y) :: u32) = ucast x + ucast y" for x y :: u64
proof -
  have "unat (ucast (x + y) :: u32) = unat (ucast x + ucast y :: u32)"
    by (simp add: unat_word_ariths unsigned_ucast_eq unsigned_take_bit_eq take_bit_eq_mod mod_mod_cancel mod_simps)
  then show ?thesis by (simp add: word_unat_eq_iff)
qed

lemma shifted_32: "to_le 4 (from_le b + ucast (d :: u64) :: u32) = shifted d 4 b" if "length b = 4"
proof (rule nth_equalityI)
  fix i assume "i < length (to_le 4 (from_le b + ucast d :: u32))"
  then have i: "i < 4" by simp
  have e: "(from_le b + ucast d :: u32) = ucast ((from_le b :: u64) + d)"
  proof -
    have "(from_le b :: u32) = ucast (from_le b :: u64)" using that by (simp add: from_le_widen)
    then show ?thesis by (simp add: ucast_add_32)
  qed
  show "to_le 4 (from_le b + ucast d :: u32) ! i = shifted d 4 b ! i"
    unfolding e shifted_def using i by (simp add: nth_to_le) (auto intro!: bit_word_eqI simp: bit_simps)
qed simp

lemma apply_reloc_patch:
  assumes "fits ss"
  shows "apply_reloc d r ss = (Inr (), u) \<longleftrightarrow> patch d r ss = Some u"
proof -
  have 32: "rel_read_u32 a ss = (Inr v, t) \<longleftrightarrow> t = ss \<and> (\<exists>b. slice_ref ss a 4 = Inr b \<and> v = from_le b)" for a v t
    by (auto simp: rel_read_u32_def rel_get_def slice_u32_def ok_bind_Inr fits_slice [OF assms])
  have 64: "rel_read_u64 a ss = (Inr v, t) \<longleftrightarrow> t = ss \<and> (\<exists>b. slice_ref ss a 8 = Inr b \<and> v = from_le b)" for a v t
    by (auto simp: rel_read_u64_def rel_get_def ok_bind_Inr)
  have bind: "em_bind f g ss = (Inr (), u) \<longleftrightarrow> (\<exists>v t. f ss = (Inr v, t) \<and> g v t = (Inr (), u))" for f :: "('b relocating)" and g
    by (cases "f ss") (auto simp: em_bind_def split: sum.split)
  have put: "rel_put a bs ss = (Inr (), u) \<longleftrightarrow> slice_put ss a bs = Inr u" for a bs
    by (auto simp: rel_put_def split: sum.split)
  have len: "slice_ref ss a n = Inr b \<Longrightarrow> length b = n" for a n b by (rule slice_ref_Inr_length)
  show ?thesis
    unfolding apply_reloc_def patch_Some
    by (auto simp: bind 32 64 put rel_write_u32_def rel_write_u64_def em_apply reloc_size_def
        shifted_32 [OF len] shifted_def [of d 8] REL_HIGHLOW_def REL_DIR64_def)
qed

lemma apply_all_patch:
  "fits ss \<Longrightarrow> em_each rs (apply_reloc d) ss = (Inr (), u) \<longleftrightarrow> patch_all d rs ss = Some u"
proof (induction rs arbitrary: ss)
  case (Cons r rs)
  have "em_each (r # rs) (apply_reloc d) ss = (Inr (), u) \<longleftrightarrow>
      (\<exists>t. apply_reloc d r ss = (Inr (), t) \<and> em_each rs (apply_reloc d) t = (Inr (), u))"
    by (cases "apply_reloc d r ss") (auto simp: em_bind_def split: sum.split)
  also have "\<dots> \<longleftrightarrow> (\<exists>t. patch d r ss = Some t \<and> patch_all d rs t = Some u)"
    using apply_reloc_patch [OF Cons.prems] Cons.IH fits_put Cons.prems by (metis patch_Some)
  finally show ?case by (auto split: option.split)
qed (auto simp: em_apply)

end
