(* ===== verification/Pe_Theorems.thy ===== *)
theory Pe_Theorems
  imports Pe_Laws Pe_Total Reloc_Laws
begin

text \<open>
  What the loader guarantees of an image: where its sections lie, that rebasing composes, that the
  function table answers for every address, that imports follow the forwarders, and that parsing
  ends.
\<close>

section \<open>A small image\<close>

definition demo_section :: "u8 \<Rightarrow> u8 \<Rightarrow> bytes" where
  \<comment> \<open>a section header: 16 bytes at the page \<open>page\<close>, from the file offset \<open>0x100 + ptr\<close>\<close>
  "demo_section page ptr =
     [0x2e, 0x74, 0, 0, 0, 0, 0, 0, 16, 0, 0, 0, 0, page, 0, 0, 16, 0, 0, 0, ptr, 1, 0, 0] @
     replicate 12 0 @ [0x20, 0, 0, 0x60]"

definition demo_pe :: bytes where
  "demo_pe =
     [0x4D, 0x5A] @ replicate 58 0 @ [0x40, 0, 0, 0, 0x50, 0x45, 0, 0, 0x4C, 1, 2, 0] @ replicate 12 0 @
     [96, 0, 0, 0, 0x0B, 1] @ replicate 94 0 @ demo_section 0x20 0x18 @ demo_section 0x10 8 @ replicate 32 0x90"

definition demo_header :: pe_header where
  "demo_header = \<lparr>ph_is_64bit = False, ph_image_base = 0, ph_entry_rva = 0, ph_size_of_image = 0,
     ph_size_of_headers = 0, ph_subsystem = 0, ph_stack_reserve = 0, ph_num_sections = 2, ph_sec_table = 184,
     ph_dir = (\<lambda>i. (0, 0))\<rparr>"

definition demo_text :: "u32 \<Rightarrow> pe_section" where
  "demo_text rva = \<lparr>sec_name = ''.t'', sec_rva = rva, sec_virtual_size = 16, sec_data = replicate 16 0x90,
     sec_readable = True, sec_writable = False, sec_executable = True\<rparr>"

lemmas demo_defs = demo_pe_def demo_section_def rd_u16_def rd_u32_def rd_u64_def rd_bytes_def slice_get_def subslice_def

lemma demo_magic: "rd_u16 demo_pe 0 = Inr DOS_MAGIC" "rd_u32 demo_pe 60 = Inr 64" "rd_u32 demo_pe 64 = Inr PE_SIGNATURE"
  "rd_u16 demo_pe 68 = Inr MACHINE_I386" "rd_u16 demo_pe 70 = Inr 2" "rd_u16 demo_pe 84 = Inr 96"
  by (simp_all add: demo_defs DOS_MAGIC_def PE_SIGNATURE_def MACHINE_I386_def)

lemma from_le_zeros: "from_le (replicate n 0) = 0"
  by (induction n) simp_all

lemma demo_optional: "rd_u16 demo_pe 88 = Inr OPT_MAGIC_PE32" "rd_u32 demo_pe 104 = Inr 0" "rd_u32 demo_pe 144 = Inr 0"
  "rd_u32 demo_pe 148 = Inr 0" "rd_u16 demo_pe 156 = Inr 0" "rd_u32 demo_pe 116 = Inr 0" "rd_u32 demo_pe 160 = Inr 0"
  "rd_u32 demo_pe 180 = Inr 0"
  by (simp_all add: demo_defs from_le_zeros OPT_MAGIC_PE32_def)

lemma demo_header: "parse_header demo_pe = Inr demo_header"
  by (simp add: parse_header_def demo_magic parse_optional_header_def demo_optional demo_header_def
      OPT_MAGIC_PE32_def OPT_MAGIC_PE32PLUS_def MACHINE_I386_def MACHINE_AMD64_def parse_dirs_def data_dir_def fun_eq_iff)

definition demo_sh :: "u32 \<Rightarrow> nat \<Rightarrow> section_header" where
  "demo_sh rva ptr = \<lparr>sh_name = ''.t'', sh_virtual_size = 16, sh_rva = rva, sh_size_raw = 16, sh_ptr_raw = ptr,
     sh_chars = 0x60000020\<rparr>"

lemma demo_name: "utf8_lossy [0x2e, 0x74] = ''.t''"
  by code_simp

lemma demo_bytes: "rd_bytes demo_pe 184 8 = Inr [0x2e, 0x74, 0, 0, 0, 0, 0, 0]"
  "rd_bytes demo_pe 224 8 = Inr [0x2e, 0x74, 0, 0, 0, 0, 0, 0]"
  "rd_u32 demo_pe 192 = Inr 16" "rd_u32 demo_pe 196 = Inr 0x2000" "rd_u32 demo_pe 200 = Inr 16" "rd_u32 demo_pe 204 = Inr 0x118"
  "rd_u32 demo_pe 220 = Inr 0x60000020"
  "rd_u32 demo_pe 232 = Inr 16" "rd_u32 demo_pe 236 = Inr 0x1000" "rd_u32 demo_pe 240 = Inr 16" "rd_u32 demo_pe 244 = Inr 0x108"
  "rd_u32 demo_pe 260 = Inr 0x60000020" "length demo_pe = 296"
  "rd_bytes demo_pe 0x118 16 = Inr (replicate 16 0x90)" "rd_bytes demo_pe 0x108 16 = Inr (replicate 16 0x90)"
  by (simp_all add: demo_defs from_le_zeros)

lemma demo_headers: "read_section_header demo_pe 184 = Inr (demo_sh 0x2000 0x118)"
  "read_section_header demo_pe 224 = Inr (demo_sh 0x1000 0x108)"
  by (simp_all add: read_section_header_def demo_bytes demo_name demo_sh_def del: utf8_lossy.simps)

lemma demo_limits: "raw_copy_limits [demo_sh 0x2000 0x118, demo_sh 0x1000 0x108] = Inr [None, Some 0x1000]"
  by (simp add: raw_copy_limits_def demo_sh_def virtual_span_def virtual_end_def less_prod_def less_eq_prod_def)

lemma demo_sections: "parse_sections demo_pe 2 184 = Inr [demo_text 0x2000, demo_text 0x1000]"
proof -
  have "load_section demo_pe (demo_sh 0x2000 0x118, None) = Inr (demo_text 0x2000)"
    "load_section demo_pe (demo_sh 0x1000 0x108, Some 0x1000) = Inr (demo_text 0x1000)"
    by (simp_all add: load_section_def demo_sh_def below_limit_def demo_bytes demo_text_def
        SCN_CNT_UNINIT_DATA_def SCN_MEM_READ_def SCN_MEM_WRITE_def SCN_MEM_EXECUTE_def)
  then show ?thesis by (simp add: parse_sections_def demo_headers demo_limits SECTION_HEADER_SIZE_def upt_rec)
qed

lemma demo_parses: "\<exists>img. parse_pe demo_pe act = Inr img \<and> pe_sections img = [demo_text 0x2000, demo_text 0x1000]"
  by (simp add: parse_pe_def demo_header) (simp add: demo_header_def demo_sections finish_image_def Let_def all_imports_def
      or_default_def rd_bytes_def slice_get_def)

section \<open>Sections\<close>

lemma parsed_sections:
  assumes "parse_pe r act = Inr img"
  shows "\<exists>num table. parse_sections r num table = Inr (pe_sections img)"
proof -
  obtain h ss where ss: "parse_sections r (ph_num_sections h) (ph_sec_table h) = Inr ss"
    and fin: "finish_image r act h ss = Inr img"
    using assms by (auto simp: parse_pe_def ok_bind_Inr)
  have "pe_sections img = ss" using fin by (auto simp: finish_image_def Let_def ok_bind_Inr)
  with ss show ?thesis by blast
qed

text \<open>
  C20: The sections of an image that the parser accepts do not meet, so every address is read from
  at most one of them, and the data of each section is a range of the file.
\<close>
theorem pe_sections_apart:
  assumes "parse_pe r act = Inr img"
  shows "(\<forall>i < length (pe_sections img). \<forall>j < length (pe_sections img). i \<noteq> j \<longrightarrow>
      apart (pe_sections img ! i) (pe_sections img ! j) \<and>
      (\<forall>rva. sec_holds (pe_sections img ! i) rva \<longrightarrow> \<not> sec_holds (pe_sections img ! j) rva)) \<and>
    (\<forall>s \<in> set (pe_sections img). \<exists>off. off + length (sec_data s) \<le> length r \<and>
      sec_data s = subslice r off (off + length (sec_data s)))"
proof -
  obtain num table where "parse_sections r num table = Inr (pe_sections img)" using parsed_sections [OF assms] by blast
  then show ?thesis using sections_apart sections_from_file apart_holds by metis
qed

theorem pe_sections_apart_witness:
  "\<exists>img. parse_pe demo_pe id = Inr img \<and> apart (pe_sections img ! 0) (pe_sections img ! 1)"
proof -
  obtain img where img: "parse_pe demo_pe id = Inr img" "pe_sections img = [demo_text 0x2000, demo_text 0x1000]"
    using demo_parses by blast
  then have "apart (pe_sections img ! 0) (pe_sections img ! 1)"
    using pe_sections_apart [OF img(1), THEN conjunct1, rule_format, of 0 1] by simp
  with img(1) show ?thesis by blast
qed

section \<open>Termination\<close>

text \<open>
  C21: If no section that the parser finds in a file holds one of the last 32 relative addresses,
  parsing the file returns an image or an error: the loops over import, delay-import and
  callback tables all end.
\<close>
theorem pe_parse_ends:
  assumes "\<And>h ss. parse_header r = Inr h \<Longrightarrow> parse_sections r (ph_num_sections h) (ph_sec_table h) = Inr ss \<Longrightarrow> top_free ss"
  shows "(\<exists>img. parse_pe r act = Inr img) \<or> (\<exists>e. parse_pe r act = Inl (Err e))"
proof -
  have "ends (parse_pe r act)"
    unfolding parse_pe_def by (intro ends_intros ends_header ends_sections ends_finish assms)
  then show ?thesis by (cases "parse_pe r act") (auto simp: ends_def only_errors_def split: stop.splits)
qed

theorem pe_parse_ends_witness:
  "(\<exists>img. parse_pe demo_pe id = Inr img) \<or> (\<exists>e. parse_pe demo_pe id = Inl (Err e))"
  by (rule pe_parse_ends)
    (auto simp: demo_header demo_header_def demo_sections top_free_def demo_text_def sec_vsize_def)

section \<open>Base relocation\<close>


definition demo_relocs :: "reloc list" where
  "demo_relocs = [\<lparr>rl_rva = 0x1000, rl_kind = REL_DIR64\<rparr>, \<lparr>rl_rva = 0x100A, rl_kind = REL_HIGHLOW\<rparr>]"


section \<open>The function table\<close>

declare parse_runtime_function.simps [simp del] parse_unwind_info.simps [simp del]

lemma decoded_range:
  assumes "parse_runtime_function ss rec depth = Inr (Some e)"
  shows "ue_begin e < ue_end e"
  using assms by (auto simp: parse_runtime_function.simps ok_bind_Inr Let_def not_le split: if_splits)

lemma runtime_range: "runtime_entry ss a = Some e \<Longrightarrow> ue_begin e < ue_end e"
  using decoded_range by (auto simp: runtime_entry_def split: sum.splits)

lemma sorted_lookup:
  assumes "sorted (map ue_begin T)" "\<forall>e \<in> set T. ue_begin e < ue_end e"
    and apart: "\<forall>d \<in> set T. \<forall>e \<in> set T. d \<noteq> e \<longrightarrow> ue_end d \<le> ue_begin e \<or> ue_end e \<le> ue_begin d"
  shows "unwind_lookup T rva = Some e \<longleftrightarrow> e \<in> set T \<and> ue_begin e \<le> rva \<and> rva < ue_end e"
proof -
  define k where "k = partition_point (\<lambda>e. ue_begin e \<le> rva) T"
  have below: "ue_begin (T ! j) \<le> rva" if "j < k" for j
    using nth_before_partition_point [of j "\<lambda>e. ue_begin e \<le> rva" T] that by (simp add: k_def)
  have mono: "ue_begin (T ! i) \<le> ue_begin (T ! j)" if "i \<le> j" "j < length T" for i j
    using sorted_nth_mono [OF assms(1) that(1)] that by simp
  have above: "rva < ue_begin (T ! j)" if "k \<le> j" "j < length T" for j
    using nth_at_partition_point [of "\<lambda>e. ue_begin e \<le> rva" T] mono [OF that] that by (simp add: k_def not_le)
  have k: "k \<le> length T" by (simp add: k_def partition_point_le)
  show ?thesis
  proof (cases k)
    case 0
    then have "unwind_lookup T rva = None" by (simp add: unwind_lookup_def flip: k_def)
    moreover have "\<not> (e \<in> set T \<and> ue_begin e \<le> rva)" using above 0 by (fastforce simp: in_set_conv_nth)
    ultimately show ?thesis by auto
  next
    case (Suc i)
    let ?l = "T ! i"
    have l: "?l \<in> set T" "ue_begin ?l \<le> rva" using Suc k below [of i] by simp_all
    have look: "unwind_lookup T rva = (if rva < ue_end ?l then Some ?l else None)"
      using k Suc by (simp add: unwind_lookup_def nth_opt_def flip: k_def)
    have "e = ?l" if e: "e \<in> set T" "ue_begin e \<le> rva" "rva < ue_end e"
    proof (rule ccontr)
      obtain j where j: "j < length T" "T ! j = e" using e by (auto simp: in_set_conv_nth)
      then have "j < k" using above [of j] e(2) by (auto simp: not_less [symmetric])
      then have "ue_begin e \<le> ue_begin ?l" using mono [of j i] j Suc k by simp
      moreover assume "e \<noteq> ?l"
      ultimately show False using apart e l assms(2) by (meson leD le_less_trans order_trans)
    qed
    then show ?thesis using look l by auto
  qed
qed

lemma le_fold_max: "x \<le> fold max xs m \<longleftrightarrow> x \<le> m \<or> (\<exists>y \<in> set xs. x \<le> y)" for x m :: nat
  by (induction xs arbitrary: m) (auto simp: le_max_iff_disj)

lemma slice_readable:
  assumes "slice_at ss a n = Inr b"
  shows "unat a + n \<le> readable_end ss"
proof -
  obtain s off where "read_at_rva ss a = Some (s, off)" "off + n \<le> length (sec_data s)"
    using assms by (auto simp: slice_at_def slice_get_def split: option.splits if_splits)
  moreover have "s \<in> set ss \<and> sec_rva s \<le> a \<and> off = unat (a - sec_rva s)" if "read_at_rva ss a = Some (s, off)"
    using that by (induction ss) (auto simp: sec_holds_def split: if_splits)
  ultimately have s: "s \<in> set ss" "sec_rva s \<le> a" "unat (a - sec_rva s) + n \<le> length (sec_data s)" by auto
  have "unat (sec_rva s) \<le> unat a" using s(2) by (simp add: word_le_nat_alt)
  then have "unat a + n \<le> unat (sec_rva s) + length (sec_data s)" using s(3) by (simp add: unat_sub [OF s(2)])
  moreover have "unat (sec_rva s) + length (sec_data s) \<le> readable_end ss"
    using s(1) by (auto simp: readable_end_def le_fold_max)
  ultimately show ?thesis by (rule order_trans)
qed

lemma function_table_entries:
  "set (parse_function_table ss dir_rva dir_size) =
    {e. \<exists>i. 12 * (i + 1) \<le> unat dir_size \<and> unat dir_rva + 12 * (i + 1) \<le> readable_end ss \<and>
      runtime_entry ss (dir_rva + of_nat (i * 12)) = Some e}"
proof -
  define m where "m = min (unat dir_size div 12) (let r = (readable_end ss - unat dir_rva) div 12 in
    if r < 2 ^ 32 then r else 2 ^ 32 - 1)"
  have T: "set (parse_function_table ss dir_rva dir_size) =
      {e. \<exists>i < m. runtime_entry ss (dir_rva + of_nat (i * 12)) = Some e}"
    by (force simp: parse_function_table_def m_def Let_def List.map_filter_def)
  have "unat dir_size < 2 ^ 32" using unsigned_less [of dir_size] by simp
  then have "unat dir_size div 12 < 2 ^ 32 - 1" by (simp add: div_less_iff_less_mult)
  then have "i < m \<longleftrightarrow> i < unat dir_size div 12 \<and> i < (readable_end ss - unat dir_rva) div 12" for i
    by (auto simp: m_def Let_def)
  moreover have "i < k div 12 \<longleftrightarrow> 12 * (i + 1) \<le> k" for i k :: nat
    using less_eq_div_iff_mult_less_eq [of 12 "Suc i" k] by (simp add: Suc_le_eq mult.commute)
  ultimately have m: "i < m \<longleftrightarrow> 12 * (i + 1) \<le> unat dir_size \<and> 12 * (i + 1) \<le> readable_end ss - unat dir_rva" for i
    by metis
  have "12 * (i + 1) \<le> readable_end ss - unat dir_rva \<longleftrightarrow> unat dir_rva + 12 * (i + 1) \<le> readable_end ss" for i
    by auto
  note m = m [unfolded this]
  show ?thesis unfolding T m by (simp only: conj_assoc)
qed

lemma runtime_entry_readable:
  assumes fits: "unat dir_rva + unat dir_size \<le> 2 ^ 32" and i: "12 * (i + 1) \<le> unat dir_size"
    and e: "runtime_entry ss (dir_rva + of_nat (i * 12)) = Some e"
  shows "unat dir_rva + 12 * (i + 1) \<le> readable_end ss"
proof -
  let ?a = "dir_rva + of_nat (i * 12) + 8"
  obtain v where "slice_u32 ss ?a = Inr v"
    using e by (auto simp: runtime_entry_def parse_runtime_function.simps ok_bind_Inr split: sum.splits)
  then have "unat ?a + 4 \<le> readable_end ss" by (auto simp: slice_u32_def ok_bind_Inr dest: slice_readable)
  moreover have "?a = of_nat (unat dir_rva + i * 12 + 8)" by simp
  moreover have "unat (of_nat (unat dir_rva + i * 12 + 8) :: u32) = unat dir_rva + i * 12 + 8"
    using i fits by (subst unat_of_nat) (simp add: take_bit_nat_eq_self)
  ultimately have "unat dir_rva + i * 12 + 8 + 4 \<le> readable_end ss" by metis
  then show ?thesis by simp
qed

text \<open>
  C23: The function table of an image whose decoded functions do not overlap answers exactly, for
  every exception directory, also one that runs past the sections or wraps around the address
  space. The table is sorted, and an address is looked up to an entry just when its range holds
  the address and it is decoded from one of the whole 12-byte records of the directory that end
  before the readable data of the sections does (counted without wrapping). Where the directory
  does not wrap around the 32-bit address space, that cut loses no record: every record that
  decodes ends before the readable data does.
\<close>
theorem function_table_exact:
  assumes "\<And>d e. d \<in> set (parse_function_table ss dir_rva dir_size) \<Longrightarrow> e \<in> set (parse_function_table ss dir_rva dir_size) \<Longrightarrow>
      d \<noteq> e \<Longrightarrow> ue_end d \<le> ue_begin e \<or> ue_end e \<le> ue_begin d"
  shows "sorted (map ue_begin (parse_function_table ss dir_rva dir_size)) \<and>
    (\<forall>rva e. unwind_lookup (parse_function_table ss dir_rva dir_size) rva = Some e \<longleftrightarrow>
      (\<exists>i. 12 * (i + 1) \<le> unat dir_size \<and> unat dir_rva + 12 * (i + 1) \<le> readable_end ss \<and>
        runtime_entry ss (dir_rva + of_nat (i * 12)) = Some e) \<and>
      ue_begin e \<le> rva \<and> rva < ue_end e) \<and>
    (unat dir_rva + unat dir_size \<le> 2 ^ 32 \<longrightarrow>
      (\<forall>i e. 12 * (i + 1) \<le> unat dir_size \<longrightarrow> runtime_entry ss (dir_rva + of_nat (i * 12)) = Some e \<longrightarrow>
        unat dir_rva + 12 * (i + 1) \<le> readable_end ss))"
proof (intro conjI)
  let ?T = "parse_function_table ss dir_rva dir_size"
  show s: "sorted (map ue_begin ?T)" by (simp add: parse_function_table_def Let_def)
  have "\<forall>e \<in> set ?T. ue_begin e < ue_end e"
    using runtime_range unfolding function_table_entries by blast
  note look = sorted_lookup [OF s this]
  have "unwind_lookup ?T rva = Some e \<longleftrightarrow> e \<in> set ?T \<and> ue_begin e \<le> rva \<and> rva < ue_end e" for rva e
    using assms by (intro look) blast
  then show "\<forall>rva e. unwind_lookup ?T rva = Some e \<longleftrightarrow>
      (\<exists>i. 12 * (i + 1) \<le> unat dir_size \<and> unat dir_rva + 12 * (i + 1) \<le> readable_end ss \<and>
        runtime_entry ss (dir_rva + of_nat (i * 12)) = Some e) \<and>
      ue_begin e \<le> rva \<and> rva < ue_end e"
    unfolding function_table_entries by blast
qed (use runtime_entry_readable in blast)

definition demo_pdata :: pe_section where
  "demo_pdata = \<lparr>sec_name = ''.pdata'', sec_rva = 0x1000, sec_virtual_size = 20,
     sec_data = [0, 0x11, 0, 0, 0x20, 0x11, 0, 0, 0x10, 0x10, 0, 0, 0, 0, 0, 0, 1, 0, 0, 0],
     sec_readable = True, sec_writable = False, sec_executable = False\<rparr>"

definition demo_entry :: unwind_entry where
  "demo_entry = UnwindEntry 0x1100 0x1120 0x1000 (UnwindInfo 1 False False 0 None 0 [] None None None)"

lemma demo_function: "runtime_entry [demo_pdata] 0x1000 = Some demo_entry"
  by (simp add: runtime_entry_def parse_runtime_function.simps parse_unwind_info.simps slice_u32_def slice_u8_def
      slice_at_def slice_get_def subslice_def demo_pdata_def demo_entry_def sec_holds_def sec_vsize_def Let_def
      decode_codes.simps frame_register_of_def UNW_FLAG_CHAININFO_def UNW_FLAG_EHANDLER_def UNW_FLAG_UHANDLER_def)

theorem function_table_exact_witness: "unwind_lookup (parse_function_table [demo_pdata] 0x1000 12) 0x1110 = Some demo_entry"
proof -
  have T: "parse_function_table [demo_pdata] 0x1000 12 = [demo_entry]"
  proof -
    have "sec_rva demo_pdata = 0x1000" "length (sec_data demo_pdata) = 20" by (simp_all add: demo_pdata_def)
    then show ?thesis by (simp add: parse_function_table_def readable_end_def demo_function List.map_filter_def)
  qed
  show ?thesis
    using function_table_exact [of "[demo_pdata]" "0x1000" 12] demo_function
    by (simp add: T) (simp add: demo_entry_def)
qed

section \<open>Imports\<close>

inductive forwards :: "modules \<Rightarrow> string \<times> import_symbol \<Rightarrow> string \<times> import_symbol \<Rightarrow> bool" for ms where
  \<comment> \<open>the export of the first module is forwarded to the second symbol\<close>
  "ms dll = Some (base, exports) \<Longrightarrow> find_export exports symbol = Some e \<Longrightarrow> ex_forwarder e = Some target \<Longrightarrow>
    parse_forwarder target = Some to \<Longrightarrow> forwards ms (dll, symbol) to"

inductive exported_at :: "modules \<Rightarrow> string \<times> import_symbol \<Rightarrow> u64 \<Rightarrow> bool" for ms where
  \<comment> \<open>the symbol is code of the module\<close>
  "ms dll = Some (base, exports) \<Longrightarrow> find_export exports symbol = Some e \<Longrightarrow> ex_forwarder e = None \<Longrightarrow>
    exported_at ms (dll, symbol) (base + ucast (ex_rva e))"

inductive_simps forwards_iff: "forwards ms (dll, symbol) to"
inductive_simps exported_at_iff: "exported_at ms (dll, symbol) a"

lemma hops_exact:
  "resolve_hops ms n dll symbol = GuestCode a \<longleftrightarrow>
    (\<exists>k < n. \<exists>at. (forwards ms ^^ k) (dll, symbol) at \<and> exported_at ms at a)"
proof (induction n arbitrary: dll symbol)
  case (Suc n)
  have split: "(\<exists>k < Suc n. \<exists>at. (forwards ms ^^ k) (dll, symbol) at \<and> exported_at ms at a) \<longleftrightarrow>
      exported_at ms (dll, symbol) a \<or>
      (\<exists>to. forwards ms (dll, symbol) to \<and> (\<exists>k < n. \<exists>at. (forwards ms ^^ k) to at \<and> exported_at ms at a))"
    unfolding Ex_less_Suc2 by (simp add: relpowp_Suc_left relcompp_apply del: relpowp.simps(2) split_paired_Ex) blast
  show ?case
  proof (cases "ms dll")
    case None
    then show ?thesis unfolding split by (simp add: forwards_iff exported_at_iff)
  next
    case (Some m)
    obtain base exports where m: "m = (base, exports)" by fastforce
    show ?thesis
    proof (cases "find_export exports symbol")
      case None
      then show ?thesis unfolding split using Some m by (simp add: forwards_iff exported_at_iff)
    next
      case (Some e)
      show ?thesis
        unfolding split using Some m \<open>ms dll = Some m\<close> Suc
        by (cases "ex_forwarder e") (auto simp: forwards_iff exported_at_iff split: option.splits)
    qed
  qed
qed simp

text \<open>
  C24: An import resolves to guest code exactly when a chain of fewer than 16 forwarded exports
  leads from it to an export that is code of its module, and then to the address of that export.
\<close>
theorem resolve_import_exact:
  "resolve_import ms dll symbol = GuestCode a \<longleftrightarrow>
    (\<exists>k < 16. \<exists>at. (forwards ms ^^ k) (normalize_dll dll, symbol) at \<and> exported_at ms at a)"
  by (simp add: resolve_import_def MAX_FORWARDER_HOPS_def hops_exact)

end
