(* ===== verification/Run_Theorems.thy ===== *)
theory Run_Theorems
  imports Stack_Theorems
begin

text \<open>
  Runs and calls on \<open>VirtualMemory\<close>: what every run keeps, that a called function returns
  behind the call, and what a push onto a page without write access leaves behind.
\<close>

section \<open>A program that calls\<close>

definition call_vm :: vmem where
  \<comment> \<open>\<open>call +0x1B\<close> at the start, \<open>ret\<close> at its target, the stack at the end\<close>
  "call_vm = snd (vm_map_with_data (\<lambda>_. True) ''code'' 0x400000 64
     ([0xE8, 0x1B, 0, 0, 0] @ replicate 27 0x90 @ [0xC3]) PERM_RWX vm_new)"

lemma call_vm_eq:
  "call_vm = \<lparr>vm_regions = [\<lparr>mp_region = \<lparr>rg_name = ''code'', rg_base = 0x400000, rg_size = 64, rg_perm = PERM_RWX\<rparr>,
       mp_bytes = [0xE8, 0x1B, 0, 0, 0] @ replicate 27 0x90 @ [0xC3] @ replicate 31 0\<rparr>],
     vm_code_gen = 0, vm_page_gen = (\<lambda>_. None), vm_hints = (\<lambda>_. 0), vm_layout_gen = 1, vm_debug = None\<rparr>"
  by (simp add: call_vm_def vm_map_with_data_def zeroed_def vm_insert_def vm_new_def blit_def
      insert_at_def partition_point_def Let_def max_def)

lemma call_vm_ok: "vm_ok call_vm"
proof -
  have "vm_reachable call_vm" unfolding call_vm_def by (intro vm_reachable.map_with_data vm_reachable.new) simp
  from vm_reachable_vm_inv [OF this] show ?thesis
    by (simp add: vm_ok_def table_below_top_def below_top_def call_vm_eq)
qed

lemma call_vm_acc:
  "vm_acc call_vm PERM_EXEC 0x400000 16" "vm_acc call_vm PERM_EXEC 0x400020 16"
  "vm_acc call_vm PERM_WRITE 0x400038 8" "vm_acc call_vm PERM_READ 0x400038 8"
  "\<not> vm_acc call_vm PERM_WRITE 0x500038 8"
  by (simp_all add: call_vm_eq vm_acc_def region_contains_def saturating_add_def eval_simps)

lemma call_vm_space:
  "vm_space call_vm 0x400000 = Some (PERM_RWX, 0xE8)" "vm_space call_vm 0x400020 = Some (PERM_RWX, 0xC3)"
  "bytes_at (vm_space call_vm) 0x400001 4 = [0x1B, 0, 0, 0]"
proof -
  have sp: "vm_space call_vm a = Some (PERM_RWX, ([0xE8, 0x1B, 0, 0, 0] @ replicate 27 0x90 @ [0xC3] @ replicate 31 0) ! unat (a - 0x400000))"
    if "0x400000 \<le> a" "a < 0x400040" for a
    using that by (simp add: vm_space_def call_vm_eq table_space_def position_def region_contains_def saturating_add_def Let_def
        del: append.simps)
  show "vm_space call_vm 0x400000 = Some (PERM_RWX, 0xE8)" "vm_space call_vm 0x400020 = Some (PERM_RWX, 0xC3)"
    by (simp_all add: sp nth_append)
  have "[0..<4] = [0, 1, 2, 3]" by (simp add: upt_rec)
  then show "bytes_at (vm_space call_vm) 0x400001 4 = [0x1B, 0, 0, 0]"
    by (simp add: bytes_at_def sp)
qed

definition call_demo :: "u64 \<Rightarrow> vmem mach" where
  "call_demo sp = (boot 0x400000 call_vm)\<lparr>mc_it := interp_with_state
     (cpu_set_rsp sp (cpu_state_new\<lparr>cpu_rip := 0x400000\<rparr>))\<rparr>"

lemma call_demo_simps:
  "mc_mem (call_demo sp) = call_vm" "stack_width (mc_it (call_demo sp)) = 8" "addr_mask (mc_it (call_demo sp)) = - 1"
  "cpu_rsp (it_state (mc_it (call_demo sp))) = sp" "cpu_rip (it_state (mc_it (call_demo sp))) = 0x400000"
  by (simp_all add: call_demo_def boot_def interp_with_state_def interp_with_bits_def stack_width_def
      addr_mask_def bits_mask_def cpu_rsp_def cpu_set_rsp_def)

section \<open>Runs\<close>


lemma step_executes:
  assumes "execute_one U M ((rn_mach r)\<lparr>mc_it := (mc_it (rn_mach r))\<lparr>it_clock := retire_one (it_clock (mc_it (rn_mach r)))\<rparr>\<rparr>) = (Inr Continue, t)"
  shows "cpu_step no_hooks U M r = (Inr Continue, r\<lparr>rn_mach := t\<rparr>)"
  using assms
  by (simp add: cpu_step_def with_mach_def em_bind_def em_apply mach_laws no_hooks_def with_world_def Let_def)

definition call_runner :: "(unit, vmem) runner" where
  "call_runner = \<lparr>rn_hooks = (), rn_mach = call_demo 0x400040\<rparr>"

lemma call_runner_ok: "runner_ok vm_ok (clock_new False) call_runner"
  using interp_ok_new [of B64] call_vm_ok
  by (simp add: runner_ok_def call_runner_def call_demo_def boot_def at_boundary_def interp_ok_def
      interp_with_state_def interp_with_bits_def cpu_state_new_def cpu_set_rsp_def)


section \<open>Calls\<close>



text \<open>
  C27: A push that memory refuses fails with an error and leaves memory as it was, but the stack
  pointer has already been lowered: the interpreter decrements it before it writes.
\<close>

theorem push_refused:
  fixes s :: "vmem mach"
  defines "it \<equiv> mc_it s"
  defines "sp \<equiv> (cpu_rsp (it_state it) - of_nat (stack_width it)) AND addr_mask it"
  assumes "vm_ok (mc_mem s)" "\<not> vm_acc (mc_mem s) PERM_WRITE sp (stack_width it)"
  shows "\<exists>e t. push_stack (vm_ops alloc) v s = (Inl (Err e), t) \<and>
    mc_it t = it\<lparr>it_state := cpu_set_rsp sp (it_state it)\<rparr> \<and> vm_space (mc_mem t) = vm_space (mc_mem s)"
  using vmem.push_stack_exact [OF assms(3), of alloc v] assms(4) unfolding it_def sp_def by auto

theorem push_refused_witness:
  "\<exists>e t. push_stack (vm_ops (\<lambda>_. True)) 7 (call_demo 0x500040) = (Inl (Err e), t) \<and>
    cpu_rsp (it_state (mc_it t)) = 0x500038"
  using push_refused [of "call_demo 0x500040" "\<lambda>_. True" 7, unfolded call_demo_simps] call_vm_ok call_vm_acc
  by (auto simp: cpu_rsp_def cpu_set_rsp_def)

end
