(* ===== verification/Os_State.thy ===== *)
theory Os_State
  imports Core_Error Guest_Memory Cpu_State Clock Text Unwind
begin

text \<open>
  The state of the Windows services (\<open>WinOs\<close> of \<open>os/src/lib.rs\<close>), restricted to what the modelled
  services use, and the helpers every service calls: arguments, pointers and returns of an API
  call, last error and handles. A service runs on the services, the CPU state and the memory.
\<close>

section \<open>Data\<close>

datatype api_outcome =
  \<comment> \<open>\<open>Outcome\<close> of \<open>os/src/api.rs\<close>\<close>
  Return u64 | Exit "32 word" | Resume

datatype kobject =
    KEvent bool bool                 \<comment> \<open>manual reset, signaled\<close>
  | KMutex "u32 option" u32          \<comment> \<open>owner, recursion\<close>
  | KSemaphore "32 word" "32 word"   \<comment> \<open>count, maximum (\<open>i32\<close>)\<close>
  | KTimer bool bool                 \<comment> \<open>manual reset, signaled\<close>
  | KThread bool                     \<comment> \<open>exited\<close>
  | KProcess bool                    \<comment> \<open>exited\<close>

datatype thread_state = Ready | Running | Blocked | Suspended | Terminated

record wait_desc =
  wd_handles :: "u64 list"
  wd_all :: bool

record posted_msg =
  pm_hwnd :: u64
  pm_message :: u32
  pm_wparam :: u64
  pm_lparam :: u64

record thread =
  th_tid :: u32
  th_handle :: u64
  th_state :: thread_state
  th_saved :: cpu_state
  th_exit_code :: u32
  th_stack_base :: u64
  th_stack_size :: u64
  th_teb_base :: u64
  th_teb_owned :: u64
  th_suspend_count :: u32
  th_wait :: "wait_desc option"
  th_tls :: "u64 \<rightharpoonup> u64"
  th_fls :: "u64 \<rightharpoonup> u64"
  th_msgs :: "posted_msg list"
  th_quit_code :: "32 word option"
  th_pending_entry :: "(u64 \<times> u64) option"
  th_mode32 :: bool
  th_wow64_block :: u64
  th_wow64_stack32 :: "u64 \<times> u64"

record vm_alloc =
  va_base :: u64
  va_size :: u64
  va_protect :: u32
  va_committed :: bool
  va_mtype :: u32

record cb_frame =
  cb_remaining :: "(u64 \<times> u64 list) list"
  cb_ret_addr :: u64
  cb_final_rsp :: u64
  cb_result :: u64
  cb_modal :: bool

record dll_module =
  md_base :: u64
  md_entry :: u64
  md_attached :: bool
  md_thread_calls_disabled :: bool

record wow64_threading =
  ww_ldrp_initialize :: u64
  ww_rtl_user_thread_start32 :: u64

record os_config =
  \<comment> \<open>the fields of \<open>WinConfig\<close> that the modelled services read\<close>
  cf_image_base :: u64
  cf_is_64bit :: bool
  cf_peb_addr :: u64
  cf_teb_base :: u64
  cf_heap_base :: u64
  cf_heap_size :: u64
  cf_api_base :: u64
  cf_valloc_base :: u64

datatype exc_phase = SearchPhase | UnwindPhase

record dispatch_frame =
  \<comment> \<open>\<open>DispatchFrame\<close> of \<open>os/src/exc.rs\<close>\<close>
  df_phase :: exc_phase
  df_record :: u64
  df_orig_context :: u64
  df_work_context :: u64
  df_dispatcher :: u64
  df_final_rsp :: u64
  df_frame_context :: u64
  df_target_frame :: u64
  df_target_ip :: u64
  df_return_value :: u64

record unhandled_exception =
  uh_code :: u32
  uh_address :: u64
  uh_how :: string

record exc_chain =
  ec_first :: "(u32 \<times> u64) option"
  ec_last :: "(u32 \<times> u64 \<times> u64) option"
  ec_repeats :: u32
  ec_depth :: u32

definition exc_chain_default :: exc_chain where
  "exc_chain_default = \<lparr>ec_first = None, ec_last = None, ec_repeats = 0, ec_depth = 0\<rparr>"

record win_os =
  os_cfg :: os_config
  os_last_error :: u32
  os_env :: "(string \<times> string) list"
  os_heap_next :: u64
  os_heap_sizes :: "u64 \<rightharpoonup> u64"
  os_next_thunk :: u64
  os_vm_allocs :: "vm_alloc list"
  os_valloc_next :: u64
  os_cb_driver :: u64
  os_cb_stack :: "cb_frame list"   \<comment> \<open>the last one first\<close>
  os_modules :: "dll_module list"
  os_next_handle :: u64
  os_tls_alloc :: "bool list"
  os_fls_alloc :: "bool list"
  os_tls_callbacks :: "u64 list"
  os_kobjects :: "u64 \<rightharpoonup> kobject"
  os_named_kobjects :: "string \<rightharpoonup> u64"
  os_current_tid :: u32
  os_threads :: "thread list"
  os_current :: nat
  os_next_tid :: u32
  os_thread_exit_thunk :: u64
  os_thread_tls_thunk :: u64
  os_thread_entry_thunk :: u64
  os_sched_ticks :: u64
  os_clock :: clock
  os_unix_stack_top :: u64
  os_syscall_guest_rsp :: u64
  os_syscall_resume_as_is :: bool
  os_syscall_result64 :: "u64 option"
  os_pending_syscall_exit :: "32 word option"
  os_wow64_peb32 :: u64
  os_guest_mode32 :: bool
  os_pending_mode_switch :: "bool option"
  os_wow64_threading :: "wow64_threading option"
  os_function_table :: "unwind_entry list"
  os_exc_driver :: u64
  os_exc_stack :: "dispatch_frame list"   \<comment> \<open>the last one first\<close>
  os_exc_chain :: exc_chain
  os_unhandled :: "unhandled_exception option"
  os_by_name :: "string \<rightharpoonup> u64"
  os_has_exports :: "u64 \<Rightarrow> bool"   \<comment> \<open>the keys of \<open>dll.exports\<close>\<close>

record 'm sysw =
  sw_os :: win_os
  sw_cpu :: cpu_state
  sw_mem :: 'm

type_synonym ('m, 'a) service = "('m sysw, 'a) em"

section \<open>Access\<close>

definition os :: "(win_os \<Rightarrow> 'a) \<Rightarrow> ('m, 'a) service" where
  "os f = em_get (\<lambda>s. f (sw_os s))"

definition os_upd :: "(win_os \<Rightarrow> win_os) \<Rightarrow> ('m, unit) service" where
  "os_upd f = em_mod (\<lambda>s. s\<lparr>sw_os := f (sw_os s)\<rparr>)"

definition os_run :: "(win_os \<Rightarrow> 'a \<times> win_os) \<Rightarrow> ('m, 'a) service" where
  "os_run f s = (case f (sw_os s) of (a, w) \<Rightarrow> (Inr a, s\<lparr>sw_os := w\<rparr>))"

definition on_cpu :: "(cpu_state \<Rightarrow> 'a) \<Rightarrow> ('m, 'a) service" where
  "on_cpu f = em_get (\<lambda>s. f (sw_cpu s))"

definition cpu_upd :: "(cpu_state \<Rightarrow> cpu_state) \<Rightarrow> ('m, unit) service" where
  "cpu_upd f = em_mod (\<lambda>s. s\<lparr>sw_cpu := f (sw_cpu s)\<rparr>)"

definition on_mem :: "('m, 'a) em \<Rightarrow> ('m, 'a) service" where
  "on_mem f s = (case f (sw_mem s) of (r, m) \<Rightarrow> (r, s\<lparr>sw_mem := m\<rparr>))"

definition tried :: "('m, 'a) em \<Rightarrow> ('m, 'a option) em" where
  \<comment> \<open>\<open>.ok()\<close>: an error is \<open>None\<close>, a panic stays one\<close>
  "tried f s = (case f s of (r, t) \<Rightarrow>
     (case r of Inr a \<Rightarrow> Inr (Some a) | Inl (Err e) \<Rightarrow> Inr None | Inl x \<Rightarrow> Inl x, t))"

definition is_64bit :: "win_os \<Rightarrow> bool" where
  "is_64bit w = cf_is_64bit (os_cfg w)"

definition R8 :: reg where "R8 = 8"
definition R9 :: reg where "R9 = 9"
definition R10 :: reg where "R10 = 10"
definition R11 :: reg where "R11 = 11"
definition R12 :: reg where "R12 = 12"
definition R13 :: reg where "R13 = 13"
definition R14 :: reg where "R14 = 14"
definition R15 :: reg where "R15 = 15"

section \<open>Arguments and results\<close>

definition api_arg :: "'m memory_ops \<Rightarrow> nat \<Rightarrow> ('m, u64) service" where
  \<comment> \<open>\<open>WinOs::arg\<close>: the Windows calling convention of the guest\<close>
  "api_arg M i =
     em_bind (os is_64bit) (\<lambda>b64.
     if b64 then
       if i = 0 then on_cpu (cpu_reg Rcx)
       else if i = 1 then on_cpu (cpu_reg Rdx)
       else if i = 2 then on_cpu (cpu_reg R8)
       else if i = 3 then on_cpu (cpu_reg R9)
       else em_bind (on_cpu cpu_rsp) (\<lambda>sp. on_mem (mem_read_u64 M (sp + 0x28 + (of_nat i - 4) * 8)))
     else
       em_bind (on_cpu cpu_rsp) (\<lambda>sp.
       em_bind (on_mem (mem_read_u32 M (sp + 4 + of_nat i * 4))) (\<lambda>v. em_return (ucast v))))"

definition syscall_arg :: "'m memory_ops \<Rightarrow> nat \<Rightarrow> ('m, u64) service" where
  "syscall_arg M i =
     (if i = 0 then on_cpu (cpu_reg R10)
      else if i = 1 then on_cpu (cpu_reg Rdx)
      else if i = 2 then on_cpu (cpu_reg R8)
      else if i = 3 then on_cpu (cpu_reg R9)
      else em_bind (os os_syscall_guest_rsp) (\<lambda>sp. on_mem (mem_read_u64 M (sp + 0x28 + (of_nat i - 4) * 8))))"

definition read_ptr :: "'m memory_ops \<Rightarrow> u64 \<Rightarrow> ('m, u64) service" where
  "read_ptr M addr =
     em_bind (os is_64bit) (\<lambda>b64.
     if b64 then on_mem (mem_read_u64 M addr)
     else em_bind (on_mem (mem_read_u32 M addr)) (\<lambda>v. em_return (ucast v)))"

definition write_ptr :: "'m memory_ops \<Rightarrow> u64 \<Rightarrow> u64 \<Rightarrow> ('m, unit) service" where
  "write_ptr M addr v =
     em_bind (os is_64bit) (\<lambda>b64.
     if b64 then on_mem (mem_write_u64 M addr v) else on_mem (mem_write_u32 M addr (ucast v)))"

definition api_ret :: "'m memory_ops \<Rightarrow> u32 \<Rightarrow> ('m, unit) service" where
  \<comment> \<open>\<open>WinOs::ret\<close>\<close>
  "api_ret M stack_args =
     em_bind (on_cpu cpu_rsp) (\<lambda>sp.
     em_bind (os is_64bit) (\<lambda>b64.
     if b64 then
       em_bind (on_mem (mem_read_u64 M sp)) (\<lambda>rip.
       cpu_upd (\<lambda>c. cpu_set_rsp (sp + 8) (c\<lparr>cpu_rip := rip\<rparr>)))
     else
       em_bind (on_mem (mem_read_u32 M sp)) (\<lambda>rip.
       cpu_upd (\<lambda>c. cpu_set_rsp ((sp + 4 + ucast stack_args * 4) AND 0xFFFFFFFF) (c\<lparr>cpu_rip := ucast rip\<rparr>)))))"

definition set_result :: "u64 \<Rightarrow> ('m, unit) service" where
  \<comment> \<open>the value of the call in \<open>rax\<close>\<close>
  "set_result v =
     em_bind (os is_64bit) (\<lambda>b64.
     cpu_upd (\<lambda>c. if b64 then cpu_set_reg Rax v c else gpr_write 0 4 v c))"

definition set_last_error :: "u32 \<Rightarrow> ('m, unit) service" where
  "set_last_error code = os_upd (\<lambda>w. w\<lparr>os_last_error := code\<rparr>)"

definition alloc_khandle :: "win_os \<Rightarrow> u64 \<times> win_os" where
  "alloc_khandle w = (os_next_handle w, w\<lparr>os_next_handle := os_next_handle w + 4\<rparr>)"

definition is_wow64 :: "win_os \<Rightarrow> bool" where
  "is_wow64 w \<longleftrightarrow> os_wow64_peb32 w \<noteq> 0"

section \<open>Guest strings\<close>

fun wstr_units :: "'m memory_ops \<Rightarrow> u64 \<Rightarrow> nat \<Rightarrow> u64 \<Rightarrow> ('m, u16 list) em" where
  \<comment> \<open>the loop of \<open>read_wstr\<close>: it stops at a zero unit, or when \<open>i\<close> exceeds \<open>2\<^sup>1\<^sup>6\<close>\<close>
  "wstr_units M addr 0 i = em_return []"
| "wstr_units M addr (Suc n) i =
     em_bind (mem_read_u16 M (addr + i * 2)) (\<lambda>w.
     if w = 0 \<or> 2 ^ 16 < i then em_return []
     else em_bind (wstr_units M addr n (i + 1)) (\<lambda>rest. em_return (w # rest)))"

definition read_wstr :: "'m memory_ops \<Rightarrow> u64 \<Rightarrow> ('m, string) em" where
  "read_wstr M addr =
     (if addr = 0 then em_return []
      else em_bind (wstr_units M addr (2 ^ 16 + 2) 0) (\<lambda>us. em_return (utf16_lossy us)))"

fun read_units :: "'m memory_ops \<Rightarrow> u64 \<Rightarrow> nat \<Rightarrow> nat \<Rightarrow> ('m, u16 list) em" where
  "read_units M addr i 0 = em_return []"
| "read_units M addr i (Suc n) =
     em_bind (mem_read_u16 M (addr + of_nat i * 2)) (\<lambda>w.
     em_bind (read_units M addr (Suc i) n) (\<lambda>rest. em_return (w # rest)))"

definition read_unicode_string :: "'m memory_ops \<Rightarrow> u64 \<Rightarrow> ('m, string option) em" where
  \<comment> \<open>\<open>fs::read_unicode_string\<close>; a read that fails makes it \<open>None\<close>\<close>
  "read_unicode_string M ptr =
     (if ptr = 0 then em_return None
      else tried (
        em_bind (mem_read_u16 M ptr) (\<lambda>len.
        em_bind (mem_read_u64 M (ptr + 8)) (\<lambda>buffer.
        if buffer = 0 then em_return []
        else em_bind (read_units M buffer 0 (unat len div 2)) (\<lambda>us. em_return (utf16_lossy us))))))"

fun strip_prefix :: "string \<Rightarrow> string \<Rightarrow> string option" where
  "strip_prefix [] s = Some s"
| "strip_prefix (p # ps) [] = None"
| "strip_prefix (p # ps) (c # cs) = (if p = c then strip_prefix ps cs else None)"

definition BACKSLASH :: char where "BACKSLASH = CHR 0x5C"

definition NT_PREFIXES :: "string list" where
  "NT_PREFIXES =
    [[BACKSLASH] @ ''??'' @ [BACKSLASH], [BACKSLASH, BACKSLASH] @ ''?'' @ [BACKSLASH],
     [BACKSLASH] @ ''DosDevices'' @ [BACKSLASH], [BACKSLASH] @ ''GLOBAL??'' @ [BACKSLASH]]"

definition strip_nt_prefix :: "string \<Rightarrow> string" where
  "strip_nt_prefix name =
     (case List.map_filter (\<lambda>p. strip_prefix p name) NT_PREFIXES of rest # _ \<Rightarrow> rest | [] \<Rightarrow> name)"

end
