(* ===== verification/Os_Vm.thy ===== *)
theory Os_Vm
  imports Os_State
begin

text \<open>
  \<open>os/src/vm.rs\<close>: the manager of the guest's address space. It keeps a sorted list of the
  allocations and places new ones by asking the memory for its next region. The search loops have
  a bound after which their base address, a multiple of the granularity, would only repeat.
\<close>

definition MEM_COMMIT :: u32 where "MEM_COMMIT = 0x1000"
definition MEM_DECOMMIT :: u32 where "MEM_DECOMMIT = 0x4000"
definition MEM_RELEASE :: u32 where "MEM_RELEASE = 0x8000"
definition MEM_STATE_COMMIT :: u32 where "MEM_STATE_COMMIT = 0x1000"
definition MEM_STATE_RESERVE :: u32 where "MEM_STATE_RESERVE = 0x2000"
definition MEM_STATE_FREE :: u32 where "MEM_STATE_FREE = 0x10000"
definition MEM_PRIVATE :: u32 where "MEM_PRIVATE = 0x20000"
definition MEM_MAPPED :: u32 where "MEM_MAPPED = 0x40000"
definition MEM_IMAGE :: u32 where "MEM_IMAGE = 0x1000000"
definition PAGE :: u64 where "PAGE = 0x1000"
definition GRAN :: u64 where "GRAN = 0x10000"
definition LOW_ARENA_BASE :: u64 where "LOW_ARENA_BASE = 0x10000"
definition PAGE_PROTECTION_MASK :: u32 where "PAGE_PROTECTION_MASK = 0xff"

definition zero_bits_ceiling :: "u64 \<Rightarrow> u64" where
  "zero_bits_ceiling zero_bits =
     (if zero_bits = 0 then - 1
      else if zero_bits < 32 then push_bit (64 - unat zero_bits) 1 - 1
      else zero_bits)"

definition align_up :: "u64 \<Rightarrow> u64 \<Rightarrow> u64" where
  "align_up v a = (v + a - 1) AND NOT (a - 1)"

definition page_of :: "u64 \<Rightarrow> u64" where
  \<comment> \<open>\<open>addr & !(PAGE - 1)\<close>\<close>
  "page_of addr = addr AND NOT (PAGE - 1)"

definition perm_from_protect :: "u32 \<Rightarrow> perm option" where
  "perm_from_protect protect =
     (let p = protect AND PAGE_PROTECTION_MASK in
      if p = 0x01 then Some PERM_NONE
      else if p = 0x02 then Some PERM_READ
      else if p = 0x04 \<or> p = 0x08 then Some PERM_RW
      else if p = 0x10 then Some PERM_EXEC
      else if p = 0x20 then Some PERM_RX
      else if p = 0x40 \<or> p = 0x80 then Some PERM_RWX
      else None)"

definition protect_from_perm :: "perm \<Rightarrow> u32" where
  "protect_from_perm p =
     (let x = perm_contains p PERM_EXEC; w = perm_contains p PERM_WRITE; r = perm_contains p PERM_READ in
      if x \<and> w then 0x40 else if x \<and> r then 0x20 else if x then 0x10
      else if w then 0x04 else if r then 0x02 else 0x01)"

section \<open>Finding room\<close>

definition BASES :: nat where "BASES = 2 ^ 48"

fun find_free_from :: "(u64 \<Rightarrow> (u64 \<times> u64 \<times> perm) option) \<Rightarrow> u64 \<Rightarrow> nat \<Rightarrow> u64 \<Rightarrow> u64 option" where
  \<comment> \<open>the loop of \<open>vm_find_free\<close>; \<open>None\<close>: it has no end\<close>
  "find_free_from next_reg sz 0 base = None"
| "find_free_from next_reg sz (Suc n) base =
     (case next_reg base of
        None \<Rightarrow> Some base
      | Some (rb, rsize, perm) \<Rightarrow>
          if saturating_add base sz \<le> rb then Some base
          else find_free_from next_reg sz n (align_up (rb + rsize) GRAN))"

definition vm_find_free :: "'m memory_ops \<Rightarrow> u64 \<Rightarrow> ('m, u64) service" where
  "vm_find_free M sz s =
     (let w = sw_os s in
      case find_free_from (mo_next_region M (sw_mem s)) sz BASES (align_up (os_valloc_next w) GRAN) of
        None \<Rightarrow> (Inl Loops, s)
      | Some base \<Rightarrow> (Inr base, s\<lparr>sw_os := w\<lparr>os_valloc_next := base + align_up sz GRAN\<rparr>\<rparr>))"

fun find_low_from :: "(u64 \<Rightarrow> (u64 \<times> u64 \<times> perm) option) \<Rightarrow> u64 \<Rightarrow> u64 \<Rightarrow> nat \<Rightarrow> u64 \<Rightarrow> u64 option option" where
  \<comment> \<open>the loop of \<open>vm_find_free_below\<close>; the outer \<open>None\<close>: it has no end\<close>
  "find_low_from next_reg sz max_addr 0 base = None"
| "find_low_from next_reg sz max_addr (Suc n) base =
     (if 2 ^ 64 \<le> unat base + unat sz \<or> max_addr < base + sz - 1 then Some None
      else
        case next_reg base of
          None \<Rightarrow> Some (Some base)
        | Some (rb, rsize, perm) \<Rightarrow>
            if base + sz \<le> rb then Some (Some base)
            else find_low_from next_reg sz max_addr n (align_up (rb + rsize) GRAN))"

definition vm_find_free_below :: "'m memory_ops \<Rightarrow> u64 \<Rightarrow> u64 \<Rightarrow> ('m, u64 option) service" where
  "vm_find_free_below M sz max_addr s =
     (if max_addr = - 1 then em_bind (vm_find_free M sz) (\<lambda>b. em_return (Some b)) s
      else (case find_low_from (mo_next_region M (sw_mem s)) sz max_addr BASES LOW_ARENA_BASE of
              None \<Rightarrow> (Inl Loops, s) | Some r \<Rightarrow> (Inr r, s)))"

definition map_anywhere :: "'m memory_ops \<Rightarrow> u64 \<Rightarrow> perm \<Rightarrow> string \<Rightarrow> ('m, u64 option) service" where
  "map_anywhere M sz perm name =
     em_bind (vm_find_free M sz) (\<lambda>base.
     em_bind (on_mem (tried (mo_map_fixed M base sz perm name))) (\<lambda>ok.
     em_return (map_option (\<lambda>_. base) ok)))"

definition map_anywhere_low :: "'m memory_ops \<Rightarrow> u64 \<Rightarrow> perm \<Rightarrow> string \<Rightarrow> ('m, u64 option) service" where
  "map_anywhere_low M sz perm name =
     em_bind (vm_find_free_below M sz 0xFFFFFFFF) (\<lambda>found.
     case found of
       None \<Rightarrow> em_return None
     | Some base \<Rightarrow>
         em_bind (on_mem (tried (mo_map_fixed M base sz perm name))) (\<lambda>ok.
         em_return (map_option (\<lambda>_. base) ok)))"

section \<open>Allocations\<close>

definition va_holds :: "u64 \<Rightarrow> vm_alloc \<Rightarrow> bool" where
  \<comment> \<open>the sum wraps\<close>
  "va_holds a v \<longleftrightarrow> va_base v \<le> a \<and> a < va_base v + va_size v"

definition vm_insert_alloc :: "vm_alloc \<Rightarrow> win_os \<Rightarrow> win_os" where
  "vm_insert_alloc a w =
     w\<lparr>os_vm_allocs := insert_at (partition_point (\<lambda>x. va_base x < va_base a) (os_vm_allocs w)) a (os_vm_allocs w)\<rparr>"

definition upd_first :: "('a \<Rightarrow> bool) \<Rightarrow> ('a \<Rightarrow> 'a) \<Rightarrow> 'a list \<Rightarrow> 'a list" where
  \<comment> \<open>\<open>if let Some(a) = xs.iter_mut().find(p) { .. }\<close>\<close>
  "upd_first p f xs = (case position p xs of None \<Rightarrow> xs | Some i \<Rightarrow> xs[i := f (xs ! i)])"

definition upd_alloc :: "u64 \<Rightarrow> (vm_alloc \<Rightarrow> vm_alloc) \<Rightarrow> win_os \<Rightarrow> win_os" where
  "upd_alloc a f w = w\<lparr>os_vm_allocs := upd_first (va_holds a) f (os_vm_allocs w)\<rparr>"

definition find_alloc :: "u64 \<Rightarrow> win_os \<Rightarrow> vm_alloc option" where
  "find_alloc a w = List.find (va_holds a) (os_vm_allocs w)"

definition vm_region_bounds :: "u64 \<Rightarrow> win_os \<Rightarrow> (u64 \<times> u64) option" where
  "vm_region_bounds a w = map_option (\<lambda>v. (va_base v, va_size v)) (find_alloc a w)"

definition vm_view_base :: "u64 \<Rightarrow> win_os \<Rightarrow> u64 option" where
  "vm_view_base a w = map_option va_base (List.find (\<lambda>v. va_base v = a) (os_vm_allocs w))"

definition private_alloc :: "u64 \<Rightarrow> u64 \<Rightarrow> u32 \<Rightarrow> bool \<Rightarrow> vm_alloc" where
  "private_alloc base sz protect committed =
     \<lparr>va_base = base, va_size = sz, va_protect = protect, va_committed = committed, va_mtype = MEM_PRIVATE\<rparr>"

definition vm_alloc_new :: "'m memory_ops \<Rightarrow> u64 \<Rightarrow> u32 \<Rightarrow> bool \<Rightarrow> u64 \<Rightarrow> ('m, u64) service" where
  \<comment> \<open>\<open>addr_req == 0\<close>\<close>
  "vm_alloc_new M sz protect committed max_addr =
     em_bind (vm_find_free_below M sz max_addr) (\<lambda>found.
     case found of
       None \<Rightarrow> em_bind (set_last_error 8) (\<lambda>_. em_return 0)
     | Some base \<Rightarrow>
         em_bind (on_mem (tried (mo_map_fixed M base sz PERM_RWX ''valloc''))) (\<lambda>ok.
         if ok = None then em_bind (set_last_error 8) (\<lambda>_. em_return 0)
         else
           em_bind (os_upd (vm_insert_alloc (private_alloc base sz protect committed))) (\<lambda>_.
           em_return base)))"

definition vm_alloc_at :: "'m memory_ops \<Rightarrow> u64 \<Rightarrow> u64 \<Rightarrow> u32 \<Rightarrow> bool \<Rightarrow> ('m, u64) service" where
  \<comment> \<open>at the page \<open>base\<close> that the guest asks for\<close>
  "vm_alloc_at M base sz protect committed =
     em_bind (os (find_alloc base)) (\<lambda>found.
     if found \<noteq> None then
       em_bind (os_upd (upd_alloc base (\<lambda>a. a\<lparr>va_committed := va_committed a \<or> committed,
         va_protect := if protect \<noteq> 0 then protect else va_protect a\<rparr>))) (\<lambda>_.
       em_return base)
     else
       em_bind (em_get (\<lambda>s. case mo_next_region M (sw_mem s) base of
         None \<Rightarrow> True | Some (rb, rsize, p) \<Rightarrow> base + sz \<le> rb)) (\<lambda>free_here.
       if free_here then
         em_bind (on_mem (tried (mo_map_fixed M base sz PERM_RWX ''valloc''))) (\<lambda>ok.
         em_bind (em_when (ok \<noteq> None)
           (os_upd (vm_insert_alloc (private_alloc base sz protect committed)))) (\<lambda>_.
         em_return base))
       else em_return base))"

definition vm_alloc_region_below ::
    "'m memory_ops \<Rightarrow> u64 \<Rightarrow> u64 \<Rightarrow> u32 \<Rightarrow> u32 \<Rightarrow> u64 \<Rightarrow> ('m, u64) service" where
  "vm_alloc_region_below M addr_req size_req alloc_type protect max_addr =
     (let committed = (alloc_type AND MEM_COMMIT \<noteq> 0); sz = align_up (max size_req 1) PAGE in
      if addr_req = 0 then vm_alloc_new M sz protect committed max_addr
      else vm_alloc_at M (page_of addr_req) sz protect committed)"

definition vm_alloc_region :: "'m memory_ops \<Rightarrow> u64 \<Rightarrow> u64 \<Rightarrow> u32 \<Rightarrow> u32 \<Rightarrow> ('m, u64) service" where
  "vm_alloc_region M addr_req size_req alloc_type protect =
     vm_alloc_region_below M addr_req size_req alloc_type protect (- 1)"

definition vm_free_region :: "'m memory_ops \<Rightarrow> u64 \<Rightarrow> u32 \<Rightarrow> ('m, unit) service" where
  "vm_free_region M addr free_type =
     (let base = page_of addr in
      if free_type AND MEM_RELEASE \<noteq> 0 then
        em_bind (os (\<lambda>w. position (\<lambda>a. va_base a = base) (os_vm_allocs w))) (\<lambda>pos.
        case pos of
          None \<Rightarrow> em_return ()
        | Some i \<Rightarrow>
            em_bind (os_upd (\<lambda>w. w\<lparr>os_vm_allocs := remove_at i (os_vm_allocs w)\<rparr>)) (\<lambda>_.
            em_bind (on_mem (tried (mo_unmap M base 0))) (\<lambda>_. em_return ())))
      else if free_type AND MEM_DECOMMIT \<noteq> 0 then
        os_upd (upd_alloc base (\<lambda>a. a\<lparr>va_committed := False\<rparr>))
      else em_return ())"

definition vm_protect_region :: "u64 \<Rightarrow> u32 \<Rightarrow> win_os \<Rightarrow> u32 \<times> win_os" where
  "vm_protect_region addr new_protect w =
     (let base = page_of addr in
      ((case find_alloc base w of None \<Rightarrow> 0x40 | Some a \<Rightarrow> va_protect a),
       upd_alloc base (\<lambda>a. a\<lparr>va_protect := new_protect\<rparr>) w))"

section \<open>Queries\<close>

record mbi =
  mb_base :: u64
  mb_alloc_base :: u64
  mb_alloc_protect :: u32
  mb_region_size :: u64
  mb_state :: u32
  mb_protect :: u32
  mb_type :: u32

definition write_mbi :: "'m memory_ops \<Rightarrow> u64 \<Rightarrow> mbi \<Rightarrow> ('m, u64) service" where
  \<comment> \<open>the number of bytes written, \<open>Outcome::Return\<close> of it in the source\<close>
  "write_mbi M buf b =
     (if buf = 0 then em_return 0
      else
        em_bind (os is_64bit) (\<lambda>b64.
        if b64 then
          em_bind (on_mem (mem_write_u64 M buf (mb_base b))) (\<lambda>_.
          em_bind (on_mem (mem_write_u64 M (buf + 0x08) (mb_alloc_base b))) (\<lambda>_.
          em_bind (on_mem (mem_write_u32 M (buf + 0x10) (mb_alloc_protect b))) (\<lambda>_.
          em_bind (on_mem (mem_write_u32 M (buf + 0x14) 0)) (\<lambda>_.
          em_bind (on_mem (mem_write_u64 M (buf + 0x18) (mb_region_size b))) (\<lambda>_.
          em_bind (on_mem (mem_write_u32 M (buf + 0x20) (mb_state b))) (\<lambda>_.
          em_bind (on_mem (mem_write_u32 M (buf + 0x24) (mb_protect b))) (\<lambda>_.
          em_bind (on_mem (mem_write_u32 M (buf + 0x28) (mb_type b))) (\<lambda>_.
          em_bind (on_mem (mem_write_u32 M (buf + 0x2C) 0)) (\<lambda>_. em_return 0x30)))))))))
        else
          em_bind (on_mem (mem_write_u32 M buf (ucast (mb_base b)))) (\<lambda>_.
          em_bind (on_mem (mem_write_u32 M (buf + 0x04) (ucast (mb_alloc_base b)))) (\<lambda>_.
          em_bind (on_mem (mem_write_u32 M (buf + 0x08) (mb_alloc_protect b))) (\<lambda>_.
          em_bind (on_mem (mem_write_u32 M (buf + 0x0C) (ucast (mb_region_size b)))) (\<lambda>_.
          em_bind (on_mem (mem_write_u32 M (buf + 0x10) (mb_state b))) (\<lambda>_.
          em_bind (on_mem (mem_write_u32 M (buf + 0x14) (mb_protect b))) (\<lambda>_.
          em_bind (on_mem (mem_write_u32 M (buf + 0x18) (mb_type b))) (\<lambda>_. em_return 0x1C)))))))))"

definition region_mbi :: "(u64 \<times> u64 \<times> perm) option \<Rightarrow> u64 \<Rightarrow> mbi" where
  \<comment> \<open>what is said of an address outside the allocations, from the next mapped region\<close>
  "region_mbi next_reg addr =
     (let page = page_of addr;
          free = (\<lambda>n. \<lparr>mb_base = page, mb_alloc_base = 0, mb_alloc_protect = 0, mb_region_size = n,
            mb_state = MEM_STATE_FREE, mb_protect = 0, mb_type = 0\<rparr>)
      in case next_reg of
           None \<Rightarrow> free 0x10000000
         | Some (rb, rsize, rperm) \<Rightarrow>
             if rb \<le> addr then
               \<lparr>mb_base = page, mb_alloc_base = rb, mb_alloc_protect = protect_from_perm rperm,
                 mb_region_size = rb + rsize - page, mb_state = MEM_STATE_COMMIT,
                 mb_protect = protect_from_perm rperm, mb_type = MEM_PRIVATE\<rparr>
             else free (rb - page))"

definition alloc_mbi :: "vm_alloc \<Rightarrow> u64 \<Rightarrow> mbi" where
  "alloc_mbi a addr =
     (let page = page_of addr in
      \<lparr>mb_base = page, mb_alloc_base = va_base a, mb_alloc_protect = va_protect a,
        mb_region_size = va_base a + va_size a - page,
        mb_state = (if va_committed a then MEM_STATE_COMMIT else MEM_STATE_RESERVE),
        mb_protect = (if va_committed a then va_protect a else 0), mb_type = va_mtype a\<rparr>)"

definition vm_query_region :: "'m memory_ops \<Rightarrow> u64 \<Rightarrow> u64 \<Rightarrow> ('m, u64) service" where
  "vm_query_region M addr buf =
     em_bind (os (find_alloc addr)) (\<lambda>found.
     case found of
       Some a \<Rightarrow> write_mbi M buf (alloc_mbi a addr)
     | None \<Rightarrow>
         em_bind (em_get (\<lambda>s. mo_next_region M (sw_mem s) addr)) (\<lambda>nr. write_mbi M buf (region_mbi nr addr)))"

end
