(* ===== verification/Os_Sched.thy ===== *)
theory Os_Sched
  imports Os_State
begin

text \<open>
  The scheduler: the kernel objects a thread can wait for (\<open>KObject\<close> of \<open>os/src/sync.rs\<close>) and the
  switching of threads (\<open>os/src/thread.rs\<close>). One host thread runs all guest threads in turn; a
  switch exchanges the CPU state.
\<close>

section \<open>Kernel objects\<close>

definition is_signaled :: "u32 \<Rightarrow> kobject \<Rightarrow> bool" where
  "is_signaled tid k =
     (case k of
        KEvent manual signaled \<Rightarrow> signaled
      | KTimer manual signaled \<Rightarrow> signaled
      | KSemaphore count mx \<Rightarrow> 0 <s count
      | KMutex owner recursion \<Rightarrow> owner = None \<or> owner = Some tid
      | KThread exited \<Rightarrow> exited
      | KProcess exited \<Rightarrow> exited)"

definition acquire :: "u32 \<Rightarrow> kobject \<Rightarrow> bool \<times> kobject" where
  "acquire tid k =
     (case k of
        KEvent manual signaled \<Rightarrow> if signaled then (True, KEvent manual manual) else (False, k)
      | KTimer manual signaled \<Rightarrow> if signaled then (True, KTimer manual manual) else (False, k)
      | KSemaphore count mx \<Rightarrow> if 0 <s count then (True, KSemaphore (count - 1) mx) else (False, k)
      | KMutex owner recursion \<Rightarrow>
          (case owner of
             None \<Rightarrow> (True, KMutex (Some tid) 1)
           | Some ow \<Rightarrow> if ow = tid then (True, KMutex owner (recursion + 1)) else (False, k))
      | KThread exited \<Rightarrow> (exited, k)
      | KProcess exited \<Rightarrow> (exited, k))"

definition kobject_is_signaled :: "win_os \<Rightarrow> u32 \<Rightarrow> u64 \<Rightarrow> bool" where
  \<comment> \<open>an unknown handle counts as signaled\<close>
  "kobject_is_signaled w tid h = (case os_kobjects w h of None \<Rightarrow> True | Some k \<Rightarrow> is_signaled tid k)"

definition kobject_acquire :: "u64 \<Rightarrow> u32 \<Rightarrow> win_os \<Rightarrow> bool \<times> win_os" where
  "kobject_acquire h tid w =
     (case os_kobjects w h of
        None \<Rightarrow> (True, w)
      | Some k \<Rightarrow> (case acquire tid k of (got, k') \<Rightarrow> (got, w\<lparr>os_kobjects := (os_kobjects w)(h \<mapsto> k')\<rparr>)))"

section \<open>Choosing the next thread\<close>

definition TIMESLICE :: u64 where "TIMESLICE = 50000"

definition wait_satisfiable :: "win_os \<Rightarrow> wait_desc \<Rightarrow> u32 \<Rightarrow> bool" where
  "wait_satisfiable w d tid =
     (if wd_all d then list_all (kobject_is_signaled w tid) (wd_handles d)
      else list_ex (kobject_is_signaled w tid) (wd_handles d))"

definition runnable :: "win_os \<Rightarrow> nat \<Rightarrow> bool" where
  "runnable w i =
     (let t = os_threads w ! i in
      case th_state t of
        Ready \<Rightarrow> True
      | Blocked \<Rightarrow> (case th_wait t of None \<Rightarrow> True | Some d \<Rightarrow> wait_satisfiable w d (th_tid t))
      | _ \<Rightarrow> False)"

definition pick_next :: "win_os \<Rightarrow> nat option" where
  "pick_next w =
     (let n = length (os_threads w) in
      List.find (runnable w) (map (\<lambda>s. (os_current w + s) mod n) [1..<n]))"

section \<open>Switching\<close>

definition upd_thread :: "nat \<Rightarrow> (thread \<Rightarrow> thread) \<Rightarrow> win_os \<Rightarrow> win_os" where
  \<comment> \<open>an assignment to \<open>self.threads[i]\<close>\<close>
  "upd_thread i f w = w\<lparr>os_threads := (os_threads w)[i := f (os_threads w ! i)]\<rparr>"

definition activate :: "nat \<Rightarrow> win_os \<Rightarrow> cpu_state \<times> win_os" where
  "activate next_t w =
     (let w = upd_thread (os_current w) (\<lambda>t. t\<lparr>th_mode32 := os_guest_mode32 w\<rparr>) w;
          t = os_threads w ! next_t;
          w = upd_thread next_t (\<lambda>t. t\<lparr>th_state := Running, th_wait := None\<rparr>) w
      in (th_saved t, w\<lparr>os_pending_mode_switch := Some (th_mode32 t), os_current := next_t,
            os_current_tid := th_tid t, os_sched_ticks := 0\<rparr>))"

definition switch_from :: "(thread \<Rightarrow> thread) \<Rightarrow> cpu_state \<Rightarrow> win_os \<Rightarrow> bool \<times> cpu_state \<times> win_os" where
  \<comment> \<open>the common shape of \<open>block_and_switch\<close> and \<open>yield_and_switch\<close>: nothing changes when no
    other thread can run\<close>
  "switch_from leave c w =
     (case pick_next w of
        None \<Rightarrow> (False, c, w)
      | Some n \<Rightarrow> (True, activate n (upd_thread (os_current w) (\<lambda>t. leave (t\<lparr>th_saved := c\<rparr>)) w)))"

definition block_leave :: "wait_desc \<Rightarrow> thread \<Rightarrow> thread" where
  "block_leave d t = t\<lparr>th_state := Blocked, th_wait := Some d\<rparr>"

definition yield_leave :: "thread \<Rightarrow> thread" where
  "yield_leave t = t\<lparr>th_state := Ready\<rparr>"

definition on_switch :: "(cpu_state \<Rightarrow> win_os \<Rightarrow> 'a \<times> cpu_state \<times> win_os) \<Rightarrow> ('m, 'a) service" where
  "on_switch f s = (case f (sw_cpu s) (sw_os s) of (a, c, w) \<Rightarrow> (Inr a, s\<lparr>sw_cpu := c, sw_os := w\<rparr>))"

definition block_and_switch :: "wait_desc \<Rightarrow> ('m, bool) service" where
  "block_and_switch d = on_switch (switch_from (block_leave d))"

definition yield_and_switch :: "('m, bool) service" where
  "yield_and_switch = on_switch (switch_from yield_leave)"

definition activate_thread :: "nat \<Rightarrow> ('m, unit) service" where
  "activate_thread n = on_switch (\<lambda>c w. ((), activate n w))"

definition ticks_left :: "win_os \<Rightarrow> u64" where
  "ticks_left w =
     (if length (os_threads w) < 2 then - 1
      else if os_sched_ticks w + 1 \<le> TIMESLICE then TIMESLICE - (os_sched_ticks w + 1) else 0)"

definition preempt_by :: "u64 \<Rightarrow> ('m, bool) service" where
  "preempt_by n =
     em_bind (os (\<lambda>w. length (os_threads w))) (\<lambda>len.
     if len < 2 then em_return False
     else
       em_bind (os_upd (\<lambda>w. w\<lparr>os_sched_ticks := os_sched_ticks w + n\<rparr>)) (\<lambda>_.
       em_bind (os os_sched_ticks) (\<lambda>ticks.
       if ticks < TIMESLICE then em_return False
       else
         em_bind (os_upd (\<lambda>w. w\<lparr>os_sched_ticks := 0\<rparr>)) (\<lambda>_. yield_and_switch))))"

definition preempt :: "('m, bool) service" where
  "preempt = preempt_by 1"

definition thread_by_handle :: "u64 \<Rightarrow> win_os \<Rightarrow> nat option" where
  "thread_by_handle h w = position (\<lambda>t. th_handle t = h \<and> h \<noteq> 0) (os_threads w)"

end
