(* ===== verification/Os_Sync.thy ===== *)
theory Os_Sync
  imports Os_Sched
begin

text \<open>
  \<open>os/src/sync.rs\<close>: the synchronisation services, Win32 and native. A wait that cannot be
  satisfied blocks the thread; the service is executed again when the thread is next chosen,
  because the saved \<open>rip\<close> is still at the call.
\<close>

datatype sync_kind = SyncEvent | SyncMutex | SyncSemaphore | SyncTimer

datatype signal_op = SetEvent | ResetEvent | PulseEvent | ReleaseMutex | ReleaseSemaphore

datatype nt_timeout = Infinite | Poll | Finite

definition WAIT_OBJECT_0 :: u64 where "WAIT_OBJECT_0 = 0"
definition WAIT_TIMEOUT :: u64 where "WAIT_TIMEOUT = 0x102"
definition STATUS_SUCCESS :: u32 where "STATUS_SUCCESS = 0"
definition STATUS_WAIT_0 :: u32 where "STATUS_WAIT_0 = 0"
definition STATUS_TIMEOUT :: u32 where "STATUS_TIMEOUT = 0x102"
definition STATUS_INVALID_HANDLE :: u32 where "STATUS_INVALID_HANDLE = 0xC0000008"
definition STATUS_INVALID_PARAMETER :: u32 where "STATUS_INVALID_PARAMETER = 0xC000000D"
definition STATUS_OBJECT_TYPE_MISMATCH :: u32 where "STATUS_OBJECT_TYPE_MISMATCH = 0xC0000024"
definition STATUS_OBJECT_NAME_NOT_FOUND :: u32 where "STATUS_OBJECT_NAME_NOT_FOUND = 0xC0000034"
definition STATUS_SEMAPHORE_LIMIT_EXCEEDED :: u32 where "STATUS_SEMAPHORE_LIMIT_EXCEEDED = 0xC0000047"
definition NOTIFICATION_EVENT :: u32 where "NOTIFICATION_EVENT = 0"
definition WAIT_TYPE_ALL :: u32 where "WAIT_TYPE_ALL = 0"
definition WAIT_TYPE_ANY :: u32 where "WAIT_TYPE_ANY = 1"
definition MAXIMUM_WAIT_OBJECTS :: u64 where "MAXIMUM_WAIT_OBJECTS = 64"
definition SYSCALL_INSN_LEN :: u64 where "SYSCALL_INSN_LEN = 2"

lemmas status_defs = STATUS_SUCCESS_def STATUS_WAIT_0_def STATUS_TIMEOUT_def STATUS_INVALID_HANDLE_def
  STATUS_INVALID_PARAMETER_def STATUS_OBJECT_TYPE_MISMATCH_def STATUS_OBJECT_NAME_NOT_FOUND_def
  STATUS_SEMAPHORE_LIMIT_EXCEEDED_def

section \<open>Creating and opening\<close>

definition handle_stride :: "win_os \<Rightarrow> u64" where
  "handle_stride w = (if is_64bit w then 8 else 4)"

definition new_kobject :: "sync_kind \<Rightarrow> bool \<Rightarrow> bool \<Rightarrow> 32 word \<Rightarrow> 32 word \<Rightarrow> u32 \<Rightarrow> kobject" where
  "new_kobject kind manual signaled count mx tid =
     (case kind of
        SyncEvent \<Rightarrow> KEvent manual signaled
      | SyncTimer \<Rightarrow> KTimer manual signaled
      | SyncMutex \<Rightarrow> KMutex (if signaled then Some tid else None) (if signaled then 1 else 0)
      | SyncSemaphore \<Rightarrow> KSemaphore count mx)"

definition insert_kobject :: "kobject \<Rightarrow> win_os \<Rightarrow> u64 \<times> win_os" where
  \<comment> \<open>\<open>let h = self.alloc_khandle(); self.kobjects.insert(h, obj)\<close>\<close>
  "insert_kobject k w =
     (case alloc_khandle w of (h, w') \<Rightarrow> (h, w'\<lparr>os_kobjects := (os_kobjects w')(h \<mapsto> k)\<rparr>))"

definition make_object ::
    "sync_kind \<Rightarrow> string option \<Rightarrow> bool \<Rightarrow> bool \<Rightarrow> 32 word \<Rightarrow> 32 word \<Rightarrow> win_os \<Rightarrow> u64 \<times> win_os" where
  "make_object kind name manual signaled count mx w =
     (case (case name of None \<Rightarrow> None | Some n \<Rightarrow> os_named_kobjects w n) of
        Some h \<Rightarrow> (h, w\<lparr>os_last_error := 183\<rparr>)
      | None \<Rightarrow>
          (case insert_kobject (new_kobject kind manual signaled count mx (os_current_tid w)) w of (h, w') \<Rightarrow>
             (h, case name of None \<Rightarrow> w' | Some n \<Rightarrow> w'\<lparr>os_named_kobjects := (os_named_kobjects w')(n \<mapsto> h)\<rparr>)))"

definition read_name :: "'m memory_ops \<Rightarrow> u64 \<Rightarrow> bool \<Rightarrow> ('m, string option) service" where
  "read_name M ptr wide =
     (if ptr = 0 then em_return None
      else
        em_bind (if wide then on_mem (read_wstr M ptr)
                 else em_bind (on_mem (mem_read_cstr M ptr 512)) (\<lambda>b. em_return (utf8_lossy b))) (\<lambda>s.
        em_return (if s = [] then None else Some s)))"

definition name_arg :: "'m memory_ops \<Rightarrow> nat \<Rightarrow> bool \<Rightarrow> ('m, string option) service" where
  "name_arg M i wide = em_bind (api_arg M i) (\<lambda>ptr. read_name M ptr wide)"

definition made :: "(win_os \<Rightarrow> u64 \<times> win_os) \<Rightarrow> ('m, api_outcome) service" where
  "made f = em_bind (os_run f) (\<lambda>h. em_return (Return h))"

definition create_event :: "'m memory_ops \<Rightarrow> bool \<Rightarrow> bool \<Rightarrow> ('m, api_outcome) service" where
  "create_event M ex wide =
     (if ex then
        em_bind (name_arg M 1 wide) (\<lambda>name.
        em_bind (api_arg M 2) (\<lambda>flags.
        made (make_object SyncEvent name (flags AND 1 \<noteq> 0) (flags AND 2 \<noteq> 0) 0 0)))
      else
        em_bind (api_arg M 1) (\<lambda>manual.
        em_bind (api_arg M 2) (\<lambda>initial.
        em_bind (name_arg M 3 wide) (\<lambda>name.
        made (make_object SyncEvent name (manual \<noteq> 0) (initial \<noteq> 0) 0 0)))))"

definition create_mutex :: "'m memory_ops \<Rightarrow> bool \<Rightarrow> bool \<Rightarrow> ('m, api_outcome) service" where
  "create_mutex M ex wide =
     (if ex then
        em_bind (name_arg M 1 wide) (\<lambda>name.
        em_bind (api_arg M 2) (\<lambda>flags.
        made (make_object SyncMutex name False (flags AND 1 \<noteq> 0) 0 0)))
      else
        em_bind (api_arg M 1) (\<lambda>owned.
        em_bind (name_arg M 2 wide) (\<lambda>name.
        made (make_object SyncMutex name False (owned \<noteq> 0) 0 0))))"

definition create_semaphore :: "'m memory_ops \<Rightarrow> bool \<Rightarrow> ('m, api_outcome) service" where
  \<comment> \<open>both forms take the same arguments\<close>
  "create_semaphore M wide =
     em_bind (api_arg M 1) (\<lambda>init.
     em_bind (api_arg M 2) (\<lambda>mx.
     em_bind (name_arg M 3 wide) (\<lambda>name.
     made (make_object SyncSemaphore name False False (ucast init) (ucast mx)))))"

definition create_timer :: "'m memory_ops \<Rightarrow> bool \<Rightarrow> bool \<Rightarrow> ('m, api_outcome) service" where
  "create_timer M ex wide =
     (if ex then
        em_bind (name_arg M 1 wide) (\<lambda>name.
        em_bind (api_arg M 2) (\<lambda>flags.
        made (make_object SyncTimer name (flags AND 2 \<noteq> 0) False 0 0)))
      else
        em_bind (api_arg M 1) (\<lambda>manual.
        em_bind (name_arg M 2 wide) (\<lambda>name.
        made (make_object SyncTimer name (manual \<noteq> 0) False 0 0))))"

definition create_sync :: "'m memory_ops \<Rightarrow> sync_kind \<Rightarrow> bool \<Rightarrow> bool \<Rightarrow> ('m, api_outcome) service" where
  "create_sync M kind ex wide =
     em_bind (set_last_error 0) (\<lambda>_.
     case kind of
       SyncEvent \<Rightarrow> create_event M ex wide
     | SyncMutex \<Rightarrow> create_mutex M ex wide
     | SyncSemaphore \<Rightarrow> create_semaphore M wide
     | SyncTimer \<Rightarrow> create_timer M ex wide)"

definition open_sync :: "'m memory_ops \<Rightarrow> bool \<Rightarrow> ('m, api_outcome) service" where
  "open_sync M wide =
     em_bind (name_arg M 2 wide) (\<lambda>name.
     em_bind (os (\<lambda>w. case name of None \<Rightarrow> None | Some n \<Rightarrow> os_named_kobjects w n)) (\<lambda>h.
     case h of
       Some h \<Rightarrow> em_return (Return h)
     | None \<Rightarrow> em_bind (set_last_error 2) (\<lambda>_. em_return (Return 0))))"

section \<open>Signaling\<close>

definition set_signaled :: "bool \<Rightarrow> kobject \<Rightarrow> kobject option" where
  "set_signaled b k =
     (case k of KEvent manual s \<Rightarrow> Some (KEvent manual b) | KTimer manual s \<Rightarrow> Some (KTimer manual b) | _ \<Rightarrow> None)"

definition put_kobject :: "u64 \<Rightarrow> kobject \<Rightarrow> win_os \<Rightarrow> win_os" where
  "put_kobject h k w = w\<lparr>os_kobjects := (os_kobjects w)(h \<mapsto> k)\<rparr>"

definition signal_event_handle :: "u64 \<Rightarrow> win_os \<Rightarrow> bool \<times> win_os" where
  "signal_event_handle h w =
     (case os_kobjects w h of
        None \<Rightarrow> (False, w)
      | Some k \<Rightarrow> (case set_signaled True k of None \<Rightarrow> (False, w) | Some k' \<Rightarrow> (True, put_kobject h k' w)))"

definition release_mutex :: "u32 \<Rightarrow> u32 option \<Rightarrow> u32 \<Rightarrow> bool \<times> kobject" where
  "release_mutex tid owner recursion =
     (if owner = Some tid then
        let r = recursion - (if recursion = 0 then 0 else 1)
        in (True, KMutex (if r = 0 then None else owner) r)
      else (False, KMutex owner recursion))"

definition release_semaphore :: "32 word \<Rightarrow> 32 word \<Rightarrow> 32 word \<Rightarrow> bool \<times> kobject" where
  \<comment> \<open>the sum wraps\<close>
  "release_semaphore rel count mx =
     (let bump = count + rel in
      if 0 <s mx \<and> mx <s bump then (False, KSemaphore count mx) else (True, KSemaphore bump mx))"

definition signal_kobject :: "u32 \<Rightarrow> signal_op \<Rightarrow> 32 word \<Rightarrow> kobject \<Rightarrow> bool \<times> kobject" where
  "signal_kobject tid op rel k =
     (case op of
        SetEvent \<Rightarrow> (case set_signaled True k of Some k' \<Rightarrow> (True, k') | None \<Rightarrow> (False, k))
      | ResetEvent \<Rightarrow> (case set_signaled False k of Some k' \<Rightarrow> (True, k') | None \<Rightarrow> (False, k))
      | PulseEvent \<Rightarrow> (case set_signaled False k of Some k' \<Rightarrow> (True, k') | None \<Rightarrow> (False, k))
      | ReleaseMutex \<Rightarrow> (case k of KMutex owner r \<Rightarrow> release_mutex tid owner r | _ \<Rightarrow> (False, k))
      | ReleaseSemaphore \<Rightarrow> (case k of KSemaphore c m \<Rightarrow> release_semaphore rel c m | _ \<Rightarrow> (False, k)))"

definition previous_count :: "signal_op \<Rightarrow> kobject \<Rightarrow> 32 word" where
  "previous_count op k =
     (case op of ReleaseSemaphore \<Rightarrow> (case k of KSemaphore c m \<Rightarrow> c | _ \<Rightarrow> 0) | _ \<Rightarrow> 0)"

definition signal_sync :: "'m memory_ops \<Rightarrow> signal_op \<Rightarrow> ('m, api_outcome) service" where
  "signal_sync M op =
     em_bind (api_arg M 0) (\<lambda>handle.
     em_bind (if op = ReleaseSemaphore
              then em_bind (api_arg M 1) (\<lambda>n. em_bind (api_arg M 2) (\<lambda>p. em_return (ucast n, p)))
              else em_return (0, 0)) (\<lambda>(rel_count, prev_ptr).
     em_bind (os (\<lambda>w. (os_kobjects w handle, os_current_tid w))) (\<lambda>(obj, tid).
     case obj of
       None \<Rightarrow> em_return (Return 1)
     | Some k \<Rightarrow>
         (case signal_kobject tid op rel_count k of (ok, k') \<Rightarrow>
            em_bind (os_upd (put_kobject handle k')) (\<lambda>_.
            em_bind (em_when (op = ReleaseSemaphore \<and> prev_ptr \<noteq> 0)
              (on_mem (mem_write_u32 M prev_ptr (previous_count op k)))) (\<lambda>_.
            em_return (Return (if ok then 1 else 0))))))))"

section \<open>Waiting, Win32\<close>

definition blocked_or_zero :: "wait_desc \<Rightarrow> ('m, api_outcome) service" where
  "blocked_or_zero d =
     em_bind (block_and_switch d) (\<lambda>switched.
     em_return (if switched then Resume else Return WAIT_OBJECT_0))"

definition wait_single :: "'m memory_ops \<Rightarrow> ('m, api_outcome) service" where
  "wait_single M =
     em_bind (api_arg M 0) (\<lambda>handle.
     em_bind (api_arg M 1) (\<lambda>timeout.
     em_bind (os os_current_tid) (\<lambda>tid.
     em_bind (os_run (kobject_acquire handle tid)) (\<lambda>acquired.
     if acquired then em_return (Return WAIT_OBJECT_0)
     else if (ucast timeout :: u32) = 0 then em_return (Return WAIT_TIMEOUT)
     else blocked_or_zero \<lparr>wd_handles = [handle], wd_all = True\<rparr>))))"

fun read_handles :: "'m memory_ops \<Rightarrow> u64 \<Rightarrow> u64 \<Rightarrow> nat \<Rightarrow> nat \<Rightarrow> ('m, u64 list) service" where
  "read_handles M arr stride i 0 = em_return []"
| "read_handles M arr stride i (Suc n) =
     em_bind (read_ptr M (arr + of_nat i * stride)) (\<lambda>h.
     em_bind (read_handles M arr stride (Suc i) n) (\<lambda>hs. em_return (h # hs)))"

definition acquire_every :: "u32 \<Rightarrow> u64 list \<Rightarrow> win_os \<Rightarrow> win_os" where
  "acquire_every tid hs w = fold (\<lambda>h w. snd (kobject_acquire h tid w)) hs w"

fun acquire_first :: "u32 \<Rightarrow> nat \<Rightarrow> u64 list \<Rightarrow> win_os \<Rightarrow> nat option \<times> win_os" where
  \<comment> \<open>the index of the first handle that can be acquired\<close>
  "acquire_first tid i [] w = (None, w)"
| "acquire_first tid i (h # hs) w =
     (case kobject_acquire h tid w of (got, w') \<Rightarrow>
        if got then (Some i, w') else acquire_first tid (Suc i) hs w')"

definition wait_multiple :: "'m memory_ops \<Rightarrow> ('m, api_outcome) service" where
  "wait_multiple M =
     em_bind (api_arg M 0) (\<lambda>count.
     em_bind (api_arg M 1) (\<lambda>arr.
     em_bind (api_arg M 2) (\<lambda>wait_all.
     em_bind (api_arg M 3) (\<lambda>timeout.
     em_bind (os (\<lambda>w. (os_current_tid w, handle_stride w))) (\<lambda>(tid, stride).
     em_bind (read_handles M arr stride 0 (unat (ucast count :: u32))) (\<lambda>handles.
     let desc = \<lparr>wd_handles = handles, wd_all = (wait_all \<noteq> 0)\<rparr>;
         unsatisfied = (if (ucast timeout :: u32) = 0 then em_return (Return WAIT_TIMEOUT) else blocked_or_zero desc) in
     em_bind (os (\<lambda>w. wait_satisfiable w desc tid)) (\<lambda>satisfiable.
     if satisfiable then
       if wait_all \<noteq> 0 then
         em_bind (os_upd (acquire_every tid handles)) (\<lambda>_. em_return (Return WAIT_OBJECT_0))
       else
         em_bind (os_run (acquire_first tid 0 handles)) (\<lambda>i.
         case i of Some i \<Rightarrow> em_return (Return (WAIT_OBJECT_0 + of_nat i)) | None \<Rightarrow> unsatisfied)
     else unsatisfied)))))))"

end
