(* ===== verification/Os_Sync_Nt.thy ===== *)
theory Os_Sync_Nt
  imports Os_Sync
begin

text \<open>
  \<open>os/src/sync.rs\<close>: the native synchronisation services. They return a status; a wait that blocks
  first rewinds the CPU to the system call, so that the call is made again on waking up.
\<close>

definition status :: "u32 \<Rightarrow> ('m, u32) service" where
  "status s = em_return s"

section \<open>Objects\<close>

definition BASE_NAMED_OBJECTS :: string where
  "BASE_NAMED_OBJECTS = [BACKSLASH] @ ''BaseNamedObjects'' @ [BACKSLASH]"

definition object_name :: "string \<Rightarrow> string option" where
  "object_name raw =
     (if raw = [] then None
      else
        let stripped = strip_nt_prefix raw;
            name = (case strip_prefix BASE_NAMED_OBJECTS stripped of Some r \<Rightarrow> r | None \<Rightarrow> stripped)
        in if name = [] then None else Some name)"

definition nt_object_attr_name :: "'m memory_ops \<Rightarrow> u64 \<Rightarrow> ('m, string option) service" where
  "nt_object_attr_name M objattr =
     (if objattr = 0 then em_return None
      else
        em_bind (on_mem (mem_read_u64 M (objattr + 0x10))) (\<lambda>name_ptr.
        em_bind (on_mem (read_unicode_string M name_ptr)) (\<lambda>raw.
        em_return (case raw of None \<Rightarrow> None | Some r \<Rightarrow> object_name r))))"

definition created :: "'m memory_ops \<Rightarrow> u64 \<Rightarrow> (win_os \<Rightarrow> u64 \<times> win_os) \<Rightarrow> ('m, u32) service" where
  \<comment> \<open>make the object and give its handle to the guest\<close>
  "created M handle_out f =
     em_bind (os_run f) (\<lambda>handle.
     em_bind (write_ptr M handle_out handle) (\<lambda>_. status STATUS_SUCCESS))"

definition nt_create_event :: "'m memory_ops \<Rightarrow> ('m, u32) service" where
  "nt_create_event M =
     em_bind (syscall_arg M 0) (\<lambda>handle_out.
     em_bind (syscall_arg M 2) (\<lambda>objattr.
     em_bind (syscall_arg M 3) (\<lambda>event_type.
     em_bind (syscall_arg M 4) (\<lambda>initial.
     if handle_out = 0 then status STATUS_INVALID_PARAMETER
     else
       em_bind (nt_object_attr_name M objattr) (\<lambda>name.
       created M handle_out
         (make_object SyncEvent name (ucast event_type = NOTIFICATION_EVENT) (initial \<noteq> 0) 0 0))))))"

definition nt_open_event :: "'m memory_ops \<Rightarrow> ('m, u32) service" where
  "nt_open_event M =
     em_bind (syscall_arg M 0) (\<lambda>handle_out.
     em_bind (syscall_arg M 2) (\<lambda>objattr.
     if handle_out = 0 then status STATUS_INVALID_PARAMETER
     else
       em_bind (nt_object_attr_name M objattr) (\<lambda>name.
       case name of
         None \<Rightarrow> status STATUS_INVALID_PARAMETER
       | Some n \<Rightarrow>
           em_bind (os (\<lambda>w. os_named_kobjects w n)) (\<lambda>h.
           case h of
             Some handle \<Rightarrow> em_bind (write_ptr M handle_out handle) (\<lambda>_. status STATUS_SUCCESS)
           | None \<Rightarrow> status STATUS_OBJECT_NAME_NOT_FOUND))))"

definition was_signaled :: "kobject \<Rightarrow> bool" where
  "was_signaled k = (case k of KEvent m s \<Rightarrow> s | KTimer m s \<Rightarrow> s | _ \<Rightarrow> False)"

definition nt_set_event :: "'m memory_ops \<Rightarrow> ('m, u32) service" where
  "nt_set_event M =
     em_bind (syscall_arg M 0) (\<lambda>handle.
     em_bind (syscall_arg M 1) (\<lambda>prev_ptr.
     em_bind (os (\<lambda>w. os_kobjects w handle)) (\<lambda>obj.
     case obj of
       None \<Rightarrow> status STATUS_INVALID_HANDLE
     | Some k \<Rightarrow>
         (case set_signaled True k of
            None \<Rightarrow> status STATUS_OBJECT_TYPE_MISMATCH
          | Some k' \<Rightarrow>
              em_bind (os_upd (put_kobject handle k')) (\<lambda>_.
              em_bind (em_when (prev_ptr \<noteq> 0)
                (on_mem (mem_write_u32 M prev_ptr (if was_signaled k then 1 else 0)))) (\<lambda>_.
              status STATUS_SUCCESS))))))"

definition nt_create_mutant :: "'m memory_ops \<Rightarrow> ('m, u32) service" where
  "nt_create_mutant M =
     em_bind (syscall_arg M 0) (\<lambda>handle_out.
     em_bind (syscall_arg M 2) (\<lambda>objattr.
     em_bind (syscall_arg M 3) (\<lambda>initial_owner.
     if handle_out = 0 then status STATUS_INVALID_PARAMETER
     else
       em_bind (nt_object_attr_name M objattr) (\<lambda>name.
       created M handle_out (make_object SyncMutex name False (initial_owner \<noteq> 0) 0 0)))))"

definition nt_create_semaphore :: "'m memory_ops \<Rightarrow> ('m, u32) service" where
  "nt_create_semaphore M =
     em_bind (syscall_arg M 0) (\<lambda>handle_out.
     em_bind (syscall_arg M 2) (\<lambda>objattr.
     em_bind (syscall_arg M 3) (\<lambda>initial.
     em_bind (syscall_arg M 4) (\<lambda>mx.
     if handle_out = 0 then status STATUS_INVALID_PARAMETER
     else
       let i = (ucast initial :: 32 word); m = (ucast mx :: 32 word) in
       if m <s 1 \<or> i <s 0 \<or> m <s i then status STATUS_INVALID_PARAMETER
       else
         em_bind (nt_object_attr_name M objattr) (\<lambda>name.
         created M handle_out (make_object SyncSemaphore name False False i m))))))"

definition checked_add_i32 :: "32 word \<Rightarrow> 32 word \<Rightarrow> 32 word option" where
  "checked_add_i32 a b =
     (let s = sint a + sint b in if - (2 ^ 31) \<le> s \<and> s < 2 ^ 31 then Some (a + b) else None)"

definition nt_release_count :: "32 word \<Rightarrow> 32 word \<Rightarrow> 32 word \<Rightarrow> 32 word option" where
  \<comment> \<open>the new count; \<open>None\<close> when it would exceed the limit\<close>
  "nt_release_count count mx release =
     (case checked_add_i32 count release of
        Some b \<Rightarrow> if mx \<le>s 0 \<or> b \<le>s mx then Some b else None
      | None \<Rightarrow> None)"

definition nt_release_semaphore :: "'m memory_ops \<Rightarrow> ('m, u32) service" where
  "nt_release_semaphore M =
     em_bind (syscall_arg M 0) (\<lambda>handle.
     em_bind (syscall_arg M 1) (\<lambda>rel.
     em_bind (syscall_arg M 2) (\<lambda>prev_ptr.
     em_bind (os (\<lambda>w. os_kobjects w handle)) (\<lambda>obj.
     case obj of
       None \<Rightarrow> status STATUS_INVALID_HANDLE
     | Some (KSemaphore count mx) \<Rightarrow>
         let release = (ucast rel :: 32 word) in
         if release <s 1 then status STATUS_INVALID_PARAMETER
         else (case nt_release_count count mx release of
            None \<Rightarrow> status STATUS_SEMAPHORE_LIMIT_EXCEEDED
          | Some b \<Rightarrow>
              em_bind (os_upd (put_kobject handle (KSemaphore b mx))) (\<lambda>_.
              em_bind (em_when (prev_ptr \<noteq> 0) (on_mem (mem_write_u32 M prev_ptr count))) (\<lambda>_.
              status STATUS_SUCCESS)))
     | Some _ \<Rightarrow> status STATUS_OBJECT_TYPE_MISMATCH))))"

section \<open>Waiting\<close>

definition nt_wait_satisfiable :: "u64 list \<Rightarrow> bool \<Rightarrow> u32 \<Rightarrow> win_os \<Rightarrow> bool" where
  "nt_wait_satisfiable handles all_of tid w =
     (if all_of then list_all (kobject_is_signaled w tid) handles
      else list_ex (kobject_is_signaled w tid) handles)"

definition nt_wait_acquire :: "u64 list \<Rightarrow> bool \<Rightarrow> u32 \<Rightarrow> win_os \<Rightarrow> u32 \<times> win_os" where
  "nt_wait_acquire handles all_of tid w =
     (if all_of then (STATUS_WAIT_0, acquire_every tid handles w)
      else (case acquire_first tid 0 handles w of
              (Some i, w') \<Rightarrow> (STATUS_WAIT_0 + of_nat i, w')
            | (None, w') \<Rightarrow> (STATUS_WAIT_0, w')))"

definition rewind_syscall :: "('m, unit) service" where
  "rewind_syscall =
     em_bind (os os_syscall_guest_rsp) (\<lambda>sp.
     cpu_upd (\<lambda>c. cpu_set_rsp sp (c\<lparr>cpu_rip := cpu_reg Rcx c - SYSCALL_INSN_LEN, cpu_rflags := cpu_reg R11 c\<rparr>)))"

definition debug_handles :: "u64 list \<Rightarrow> string" where
  \<comment> \<open>\<open>{:#x?}\<close> of the vector, one element to a line\<close>
  "debug_handles hs =
     (if hs = [] then ''[]''
      else ''['' @ [CHR 0x0A] @ concat (map (\<lambda>h. ''    '' @ fmt_hex (unat h) @ '','' @ [CHR 0x0A]) hs) @ '']'')"

definition deadlock_message :: "u64 list \<Rightarrow> bool \<Rightarrow> string" where
  "deadlock_message handles all_of =
     ''guest deadlock: NtWaitFor'' @ (if length handles = 1 then ''SingleObject'' else ''MultipleObjects'') @
     '' on '' @ debug_handles handles @ '' (wait_all='' @ (if all_of then ''true'' else ''false'') @
     '') with an infinite timeout, but no other thread can run to signal it''"

definition nt_wait :: "u64 list \<Rightarrow> bool \<Rightarrow> nt_timeout \<Rightarrow> ('m, u32) service" where
  "nt_wait handles all_of timeout =
     em_bind (os (\<lambda>w. (os_current_tid w, nt_wait_satisfiable handles all_of (os_current_tid w) w))) (\<lambda>(tid, now).
     if now then os_run (nt_wait_acquire handles all_of tid)
     else if timeout = Poll then status STATUS_TIMEOUT
     else
       em_bind rewind_syscall (\<lambda>_.
       em_bind (block_and_switch \<lparr>wd_handles = handles, wd_all = all_of\<rparr>) (\<lambda>switched.
       if switched then
         em_bind (os_upd (\<lambda>w. w\<lparr>os_syscall_resume_as_is := True\<rparr>)) (\<lambda>_. status STATUS_WAIT_0)
       else if timeout = Infinite then em_fail (Os (deadlock_message handles all_of))
       else status STATUS_TIMEOUT)))"

definition read_nt_timeout :: "'m memory_ops \<Rightarrow> u64 \<Rightarrow> ('m, nt_timeout) service" where
  "read_nt_timeout M ptr =
     (if ptr = 0 then em_return Infinite
      else em_bind (on_mem (mem_read_u64 M ptr)) (\<lambda>v. em_return (if v = 0 then Poll else Finite)))"

definition nt_wait_for_single_object :: "'m memory_ops \<Rightarrow> ('m, u32) service" where
  "nt_wait_for_single_object M =
     em_bind (syscall_arg M 0) (\<lambda>handle.
     em_bind (syscall_arg M 1) (\<lambda>alertable.
     em_bind (syscall_arg M 2) (\<lambda>timeout_ptr.
     em_bind (os (\<lambda>w. os_kobjects w handle)) (\<lambda>obj.
     if obj = None then status STATUS_INVALID_HANDLE
     else em_bind (read_nt_timeout M timeout_ptr) (\<lambda>timeout. nt_wait [handle] False timeout)))))"

fun read_known_handles :: "'m memory_ops \<Rightarrow> u64 \<Rightarrow> u64 \<Rightarrow> nat \<Rightarrow> nat \<Rightarrow> ('m, u64 list option) service" where
  \<comment> \<open>\<open>None\<close> at the first handle that names no object\<close>
  "read_known_handles M ptr stride i 0 = em_return (Some [])"
| "read_known_handles M ptr stride i (Suc n) =
     em_bind (read_ptr M (ptr + of_nat i * stride)) (\<lambda>h.
     em_bind (os (\<lambda>w. os_kobjects w h)) (\<lambda>obj.
     if obj = None then em_return None
     else em_bind (read_known_handles M ptr stride (Suc i) n) (\<lambda>hs. em_return (map_option (Cons h) hs))))"

definition nt_wait_for_multiple_objects :: "'m memory_ops \<Rightarrow> ('m, u32) service" where
  "nt_wait_for_multiple_objects M =
     em_bind (syscall_arg M 0) (\<lambda>cnt.
     em_bind (syscall_arg M 1) (\<lambda>handles_ptr.
     em_bind (syscall_arg M 2) (\<lambda>wt.
     em_bind (syscall_arg M 3) (\<lambda>alertable.
     em_bind (syscall_arg M 4) (\<lambda>timeout_ptr.
     let count = (ucast cnt :: u32); wait_type = (ucast wt :: u32) in
     if count = 0 \<or> MAXIMUM_WAIT_OBJECTS < ucast count then status STATUS_INVALID_PARAMETER
     else if wait_type \<noteq> WAIT_TYPE_ALL \<and> wait_type \<noteq> WAIT_TYPE_ANY then status STATUS_INVALID_PARAMETER
     else
       em_bind (os handle_stride) (\<lambda>stride.
       em_bind (read_known_handles M handles_ptr stride 0 (unat count)) (\<lambda>hs.
       case hs of
         None \<Rightarrow> status STATUS_INVALID_HANDLE
       | Some handles \<Rightarrow>
           em_bind (read_nt_timeout M timeout_ptr) (\<lambda>timeout.
           nt_wait handles (wait_type = WAIT_TYPE_ALL) timeout))))))))"

definition dup_kobject_handle :: "u64 \<Rightarrow> win_os \<Rightarrow> u64 option \<times> win_os" where
  \<comment> \<open>the duplicate is a copy of the object\<close>
  "dup_kobject_handle src w =
     (case os_kobjects w src of
        None \<Rightarrow> (None, w)
      | Some k \<Rightarrow> (case insert_kobject k w of (h, w') \<Rightarrow> (Some h, w')))"

end
