(* ===== verification/Os_Vm_Nt.thy ===== *)
theory Os_Vm_Nt
  imports Os_Vm Os_Sync_Nt
begin

text \<open>\<open>os/src/vm.rs\<close>: the services of the address-space manager, Win32 and native.\<close>

definition STATUS_NO_MEMORY :: u32 where "STATUS_NO_MEMORY = 0xC0000017"
definition STATUS_INVALID_PAGE_PROTECTION :: u32 where "STATUS_INVALID_PAGE_PROTECTION = 0xC0000045"

section \<open>Win32\<close>

definition virtual_alloc :: "'m memory_ops \<Rightarrow> ('m, api_outcome) service" where
  "virtual_alloc M =
     em_bind (api_arg M 0) (\<lambda>addr_req.
     em_bind (api_arg M 1) (\<lambda>size_req.
     em_bind (api_arg M 2) (\<lambda>alloc_type.
     em_bind (api_arg M 3) (\<lambda>protect.
     em_bind (vm_alloc_region M addr_req size_req (ucast alloc_type) (ucast protect)) (\<lambda>base.
     em_return (Return base))))))"

definition virtual_free :: "'m memory_ops \<Rightarrow> ('m, api_outcome) service" where
  "virtual_free M =
     em_bind (api_arg M 0) (\<lambda>addr.
     em_bind (api_arg M 2) (\<lambda>free_type.
     em_bind (vm_free_region M addr (ucast free_type)) (\<lambda>_. em_return (Return 1))))"

definition virtual_protect :: "'m memory_ops \<Rightarrow> ('m, api_outcome) service" where
  "virtual_protect M =
     em_bind (api_arg M 0) (\<lambda>addr.
     em_bind (api_arg M 2) (\<lambda>new_protect.
     em_bind (api_arg M 3) (\<lambda>old_ptr.
     em_bind (os_run (vm_protect_region addr (ucast new_protect))) (\<lambda>old.
     em_bind (em_when (old_ptr \<noteq> 0) (on_mem (mem_write_u32 M old_ptr old))) (\<lambda>_.
     em_return (Return 1))))))"

definition virtual_query :: "'m memory_ops \<Rightarrow> ('m, api_outcome) service" where
  "virtual_query M =
     em_bind (api_arg M 0) (\<lambda>addr.
     em_bind (api_arg M 1) (\<lambda>buf.
     em_bind (vm_query_region M addr buf) (\<lambda>n. em_return (Return n))))"

section \<open>Native\<close>

definition nt_allocate_virtual_memory :: "'m memory_ops \<Rightarrow> ('m, u32) service" where
  "nt_allocate_virtual_memory M =
     em_bind (syscall_arg M 1) (\<lambda>base_ptr.
     em_bind (syscall_arg M 2) (\<lambda>zero_bits.
     em_bind (syscall_arg M 3) (\<lambda>size_ptr.
     em_bind (syscall_arg M 4) (\<lambda>alloc_type.
     em_bind (syscall_arg M 5) (\<lambda>protect.
     if base_ptr = 0 \<or> size_ptr = 0 then status STATUS_INVALID_PARAMETER
     else
       em_bind (on_mem (mem_read_u64 M base_ptr)) (\<lambda>addr_req.
       em_bind (on_mem (mem_read_u64 M size_ptr)) (\<lambda>size_req.
       em_bind (vm_alloc_region_below M addr_req size_req (ucast alloc_type) (ucast protect)
         (zero_bits_ceiling zero_bits)) (\<lambda>base.
       if base = 0 then status STATUS_NO_MEMORY
       else
         em_bind (on_mem (mem_write_u64 M base_ptr base)) (\<lambda>_.
         em_bind (on_mem (mem_write_u64 M size_ptr (align_up (max size_req 1) PAGE))) (\<lambda>_.
         status STATUS_SUCCESS))))))))))"

definition nt_free_virtual_memory :: "'m memory_ops \<Rightarrow> ('m, u32) service" where
  "nt_free_virtual_memory M =
     em_bind (syscall_arg M 1) (\<lambda>base_ptr.
     em_bind (syscall_arg M 2) (\<lambda>size_ptr.
     em_bind (syscall_arg M 3) (\<lambda>free_type.
     if base_ptr = 0 then status STATUS_INVALID_PARAMETER
     else
       em_bind (on_mem (mem_read_u64 M base_ptr)) (\<lambda>addr.
       em_bind (os (vm_region_bounds addr)) (\<lambda>region.
       em_bind (vm_free_region M addr (ucast free_type)) (\<lambda>_.
       em_bind (case region of
           None \<Rightarrow> em_return ()
         | Some (base, sz) \<Rightarrow>
             em_bind (on_mem (mem_write_u64 M base_ptr base)) (\<lambda>_.
             em_when (size_ptr \<noteq> 0) (on_mem (mem_write_u64 M size_ptr sz)))) (\<lambda>_.
       status STATUS_SUCCESS)))))))"

fun protect_pages :: "'m memory_ops \<Rightarrow> perm \<Rightarrow> u64 \<Rightarrow> u64 \<Rightarrow> nat \<Rightarrow> u64 \<Rightarrow> ('m, unit) em" where
  \<comment> \<open>the loop over the regions between \<open>start\<close> and \<open>end\<close>; it moves on by a page at least\<close>
  "protect_pages M new_perm start fin 0 at = em_stop Loops"
| "protect_pages M new_perm start fin (Suc n) at =
     (if at < fin then
        em_bind (em_get (\<lambda>m. mo_next_region M m at)) (\<lambda>nr.
        case nr of
          None \<Rightarrow> em_return ()
        | Some (rb, rsize, p) \<Rightarrow>
            if fin \<le> rb then em_return ()
            else
              let covered = (start \<le> rb \<and> rb + rsize \<le> fin);
                  perm_now = (if covered then new_perm else perm_union p new_perm) in
              em_bind (if perm_now \<noteq> p then em_bind (tried (mo_protect M rb rsize perm_now)) (\<lambda>_. em_return ())
                       else em_return ()) (\<lambda>_.
              protect_pages M new_perm start fin n (max (rb + rsize) (at + PAGE))))
      else em_return ())"

definition PAGES :: nat where "PAGES = 2 ^ 52"

definition pages_end :: "u64 \<Rightarrow> u64 \<Rightarrow> u64 option" where
  \<comment> \<open>the checked sums, rounded down to a page\<close>
  "pages_end addr sz =
     (let e = unat addr + unat (max sz 1) + unat (PAGE - 1) in
      if e < 2 ^ 64 then Some (page_of (of_nat e)) else None)"

definition protect_mapped_image_pages ::
    "'m memory_ops \<Rightarrow> u64 \<Rightarrow> u64 \<Rightarrow> u32 \<Rightarrow> ('m, u32 + u32 option) service" where
  \<comment> \<open>\<open>Inl\<close> is the error status\<close>
  "protect_mapped_image_pages M addr sz new_protect =
     em_bind (os (vm_region_bounds addr)) (\<lambda>bounds.
     if bounds \<noteq> None then em_return (Inr None)
     else
       let start = page_of addr in
       em_bind (em_get (\<lambda>s. mo_next_region M (sw_mem s) start)) (\<lambda>nr.
       case nr of
         None \<Rightarrow> em_return (Inr None)
       | Some (rb, rsize, old_perm) \<Rightarrow>
           if \<not> rb \<le> start then em_return (Inr None)
           else
             (case perm_from_protect new_protect of
                None \<Rightarrow> em_return (Inl STATUS_INVALID_PAGE_PROTECTION)
              | Some new_perm \<Rightarrow>
                  (case pages_end addr sz of
                     None \<Rightarrow> em_return (Inl STATUS_INVALID_PARAMETER)
                   | Some fin \<Rightarrow>
                       em_bind (on_mem (protect_pages M new_perm start fin PAGES start)) (\<lambda>_.
                       em_return (Inr (Some (protect_from_perm old_perm))))))))"

definition nt_protect_virtual_memory :: "'m memory_ops \<Rightarrow> ('m, u32) service" where
  "nt_protect_virtual_memory M =
     em_bind (syscall_arg M 1) (\<lambda>base_ptr.
     em_bind (syscall_arg M 2) (\<lambda>size_ptr.
     em_bind (syscall_arg M 3) (\<lambda>new_protect.
     em_bind (syscall_arg M 4) (\<lambda>old_ptr.
     if base_ptr = 0 then status STATUS_INVALID_PARAMETER
     else
       em_bind (on_mem (mem_read_u64 M base_ptr)) (\<lambda>addr.
       em_bind (if size_ptr \<noteq> 0 then on_mem (mem_read_u64 M size_ptr) else em_return 0) (\<lambda>sz.
       em_bind (protect_mapped_image_pages M addr sz (ucast new_protect)) (\<lambda>r.
       case r of
         Inl st \<Rightarrow> status st
       | Inr o1 \<Rightarrow>
           em_bind (case o1 of Some old \<Rightarrow> em_return old
                    | None \<Rightarrow> os_run (vm_protect_region addr (ucast new_protect))) (\<lambda>old.
           em_bind (em_when (old_ptr \<noteq> 0) (on_mem (mem_write_u32 M old_ptr old))) (\<lambda>_.
           status STATUS_SUCCESS)))))))))"

definition nt_query_virtual_memory_basic :: "'m memory_ops \<Rightarrow> ('m, u32) service" where
  "nt_query_virtual_memory_basic M =
     em_bind (syscall_arg M 1) (\<lambda>base_address.
     em_bind (syscall_arg M 3) (\<lambda>buffer.
     em_bind (syscall_arg M 4) (\<lambda>len.
     em_bind (syscall_arg M 5) (\<lambda>return_length.
     em_bind (os is_64bit) (\<lambda>b64.
     if buffer = 0 \<or> len < (if b64 then 0x30 else 0x1C) then status STATUS_INVALID_PARAMETER
     else
       em_bind (vm_query_region M base_address buffer) (\<lambda>written.
       em_bind (em_when (return_length \<noteq> 0) (on_mem (mem_write_u64 M return_length written))) (\<lambda>_.
       status STATUS_SUCCESS)))))))"

end
