(* ===== verification/Os_Thread.thy ===== *)
theory Os_Thread
  imports Os_Vm_Nt
begin

text \<open>
  \<open>os/src/thread.rs\<close>: the life of a thread. A new thread gets a stack, a thread environment block
  and a CPU state that starts at its entry point; on its end its memory is unmapped and its
  object signals. The blocks of a WoW64 thread are written as in \<open>os/src/wow64.rs\<close>.
\<close>

definition CREATE_SUSPENDED :: u64 where "CREATE_SUSPENDED = 4"
definition STILL_ACTIVE :: u32 where "STILL_ACTIVE = 259"
definition THREAD_STACK_SIZE :: u64 where "THREAD_STACK_SIZE = 0x100000"
definition THREAD_TEB_SIZE :: u64 where "THREAD_TEB_SIZE = 0x4000"
definition WOW64_THREAD_BLOCK :: u64 where "WOW64_THREAD_BLOCK = 0x8000"
definition WOW64_THREAD_CPU_AREA :: u64 where "WOW64_THREAD_CPU_AREA = THREAD_TEB_SIZE + 0x2000"
definition PROCESS_ID :: u64 where "PROCESS_ID = 0x1000"
definition MAIN_TID :: u32 where "MAIN_TID = 0x1001"

definition main_thread :: "u32 \<Rightarrow> thread" where
  "main_thread tid =
     \<lparr>th_tid = tid, th_handle = 0, th_state = Running, th_saved = cpu_state_new, th_exit_code = STILL_ACTIVE,
       th_stack_base = 0, th_stack_size = 0, th_teb_base = 0, th_teb_owned = 0, th_suspend_count = 0,
       th_wait = None, th_tls = Map.empty, th_fls = Map.empty, th_msgs = [], th_quit_code = None,
       th_pending_entry = None, th_mode32 = False, th_wow64_block = 0, th_wow64_stack32 = (0, 0)\<rparr>"

section \<open>Thread environment blocks\<close>

definition write_u64s :: "'m memory_ops \<Rightarrow> u64 \<Rightarrow> (u64 \<times> u64) list \<Rightarrow> ('m, unit) em" where
  "write_u64s M base ws = em_each ws (\<lambda>(off, v). mem_write_u64 M (base + off) v)"

definition write_u32s :: "'m memory_ops \<Rightarrow> u64 \<Rightarrow> (u64 \<times> u32) list \<Rightarrow> ('m, unit) em" where
  "write_u32s M base ws = em_each ws (\<lambda>(off, v). mem_write_u32 M (base + off) v)"

definition STATIC_UNICODE_MAX_BYTES :: u64 where "STATIC_UNICODE_MAX_BYTES = 522"

definition teb64_fields :: "u64 \<Rightarrow> u32 \<Rightarrow> u64 \<Rightarrow> u64 \<Rightarrow> u64 \<Rightarrow> (u64 \<times> u64) list" where
  "teb64_fields teb tid peb stack_top stack_base =
     (let actx = teb + 0x1900 in
      [(0x000, - 1), (0x008, stack_top), (0x010, stack_base), (0x030, teb), (0x040, PROCESS_ID),
       (0x048, ucast tid), (0x058, 0), (0x060, peb), (0x1258, push_bit 16 STATIC_UNICODE_MAX_BYTES),
       (0x1260, teb + 0x1268), (0x6C8, 0), (0x1478, stack_base), (0x1780, 0),
       (0x2c8, actx), (0x1908, actx + 8), (0x1910, actx + 8)])"

definition teb32_fields :: "u64 \<Rightarrow> u32 \<Rightarrow> u64 \<Rightarrow> u64 \<Rightarrow> u64 \<Rightarrow> (u64 \<times> u32) list" where
  "teb32_fields teb tid peb stack_top stack_base =
     [(0x000, - 1), (0x004, ucast stack_top), (0x008, ucast stack_base), (0x018, ucast teb),
      (0x020, ucast PROCESS_ID), (0x024, tid), (0x02C, 0), (0x030, ucast peb),
      (0x0AC, push_bit 16 (ucast STATIC_UNICODE_MAX_BYTES)), (0x0B0, ucast (teb + 0x0B4)),
      (0x38C, 0), (0x0E0C, ucast stack_base), (0x0F94, 0)]"

definition seed_teb_64 :: "'m memory_ops \<Rightarrow> bool \<Rightarrow> u64 \<Rightarrow> u32 \<Rightarrow> u64 \<Rightarrow> u64 \<Rightarrow> u64 \<Rightarrow> ('m, unit) em" where
  "seed_teb_64 M b64 teb tid peb stack_top stack_base =
     (if b64 then write_u64s M teb (teb64_fields teb tid peb stack_top stack_base)
      else write_u32s M teb (teb32_fields teb tid peb stack_top stack_base))"

definition seed_main_teb :: "'m memory_ops \<Rightarrow> u64 \<Rightarrow> u64 \<Rightarrow> ('m, unit) service" where
  "seed_main_teb M stack_base stack_top =
     em_bind (os os_cfg) (\<lambda>cfg.
     if cf_teb_base cfg = 0 then em_return ()
     else on_mem (seed_teb_64 M (cf_is_64bit cfg) (cf_teb_base cfg) MAIN_TID (cf_peb_addr cfg) stack_top stack_base))"

definition new_thread_teb :: "'m memory_ops \<Rightarrow> u32 \<Rightarrow> u64 \<Rightarrow> u64 \<Rightarrow> ('m, u64 option) service" where
  "new_thread_teb M tid stack_base stack_top =
     em_bind (map_anywhere M THREAD_TEB_SIZE PERM_RW ''thread-teb'') (\<lambda>teb.
     case teb of
       None \<Rightarrow> em_return None
     | Some t \<Rightarrow>
         em_bind (os os_cfg) (\<lambda>cfg.
         em_bind (on_mem (tried (seed_teb_64 M (cf_is_64bit cfg) t tid (cf_peb_addr cfg) stack_top stack_base))) (\<lambda>ok.
         em_return (map_option (\<lambda>_. t) ok))))"

section \<open>New threads\<close>

definition thread_notify_targets :: "win_os \<Rightarrow> (u64 \<times> u64) list" where
  "thread_notify_targets w =
     map (\<lambda>m. (md_entry m, md_base m))
       (filter (\<lambda>m. md_entry m \<noteq> 0 \<and> md_attached m \<and> \<not> md_thread_calls_disabled m) (os_modules w))"

definition fresh_tid :: "win_os \<Rightarrow> u32 \<times> win_os" where
  "fresh_tid w = (os_next_tid w, w\<lparr>os_next_tid := os_next_tid w + 1\<rparr>)"

definition no_memory :: "('m, 'a option) service" where
  "no_memory = em_bind (set_last_error 8) (\<lambda>_. em_return None)"

definition stack_start :: "u64 \<Rightarrow> u64" where
  "stack_start stack_top = (stack_top - 0x100) AND NOT 0xf"

definition thread_cpu :: "u64 \<Rightarrow> u64 \<Rightarrow> u64 \<Rightarrow> u64 \<Rightarrow> cpu_state" where
  "thread_cpu gs fs sp rip =
     cpu_set_rsp sp (cpu_state_new\<lparr>cpu_gs_base := gs, cpu_fs_base := fs, cpu_rip := rip\<rparr>)"

definition first_frame ::
    "'m memory_ops \<Rightarrow> win_os \<Rightarrow> u64 \<Rightarrow> u64 \<Rightarrow> u64 \<Rightarrow> u64 \<Rightarrow> ('m, cpu_state \<times> (u64 \<times> u64) option) em" where
  \<comment> \<open>the initial stack and CPU state of a thread; with TLS callbacks the entry comes later\<close>
  "first_frame M w teb stack_top entry param =
     (let sp = stack_start stack_top;
          has_tls = (os_tls_callbacks w \<noteq> [] \<or> thread_notify_targets w \<noteq> []) in
      if is_64bit w then
        if has_tls then
          em_bind (mem_write_u64 M (sp - 8) (os_thread_entry_thunk w)) (\<lambda>_.
          em_return (thread_cpu teb teb (sp - 8) (os_thread_tls_thunk w), Some (entry, param)))
        else
          em_bind (mem_write_u64 M (sp - 8) (os_thread_exit_thunk w)) (\<lambda>_.
          em_return (cpu_set_reg Rcx param (thread_cpu teb teb (sp - 8) entry), None))
      else
        if has_tls then
          em_bind (mem_write_u32 M (sp - 4) (ucast (os_thread_entry_thunk w))) (\<lambda>_.
          em_return (thread_cpu teb teb (sp - 4) (os_thread_tls_thunk w), Some (entry, param)))
        else
          em_bind (mem_write_u32 M (sp - 4) (ucast param)) (\<lambda>_.
          em_bind (mem_write_u32 M (sp - 8) (ucast (os_thread_exit_thunk w))) (\<lambda>_.
          em_return (thread_cpu teb teb (sp - 8) entry, None))))"

definition new_thread :: "u32 \<Rightarrow> u64 \<Rightarrow> bool \<Rightarrow> cpu_state \<Rightarrow> thread" where
  "new_thread tid handle suspended st =
     (main_thread tid)\<lparr>th_handle := handle, th_state := (if suspended then Suspended else Ready),
       th_saved := st, th_suspend_count := (if suspended then 1 else 0)\<rparr>"

definition push_thread :: "thread \<Rightarrow> win_os \<Rightarrow> win_os" where
  "push_thread t w = w\<lparr>os_threads := os_threads w @ [t]\<rparr>"

definition spawn_thread ::
    "'m memory_ops \<Rightarrow> u64 \<Rightarrow> u64 \<Rightarrow> u64 \<Rightarrow> bool \<Rightarrow> ('m, (u64 \<times> u32) option) service" where
  "spawn_thread M req_stack entry param suspended =
     (let stack_size = align_up (max req_stack THREAD_STACK_SIZE) 0x1000 in
      em_bind (map_anywhere M stack_size PERM_RWX ''thread-stack'') (\<lambda>stack.
      case stack of
        None \<Rightarrow> no_memory
      | Some stack_base \<Rightarrow>
          em_bind (os_run fresh_tid) (\<lambda>tid.
          em_bind (new_thread_teb M tid stack_base (stack_base + stack_size)) (\<lambda>teb.
          case teb of
            None \<Rightarrow> em_bind (on_mem (tried (mo_unmap M stack_base stack_size))) (\<lambda>_. no_memory)
          | Some teb_base \<Rightarrow>
              em_bind (os id) (\<lambda>w.
              em_bind (on_mem (first_frame M w teb_base (stack_base + stack_size) entry param)) (\<lambda>(st, pending).
              em_bind (os_run (insert_kobject (KThread False))) (\<lambda>handle.
              em_bind (os_upd (push_thread ((new_thread tid handle suspended st)
                \<lparr>th_stack_base := stack_base, th_stack_size := stack_size, th_teb_base := teb_base,
                  th_teb_owned := teb_base, th_pending_entry := pending, th_mode32 := \<not> is_64bit w\<rparr>))) (\<lambda>_.
              em_return (Some (handle, tid))))))))))"

section \<open>WoW64 threads\<close>

definition TEB_CPU_AREA_PTR_OFF :: u64 where "TEB_CPU_AREA_PTR_OFF = 0x1488"
definition CPU_AREA_HEADER_LEN :: u64 where "CPU_AREA_HEADER_LEN = 4"
definition CPU_AREA_RELOAD_BIT :: u32 where "CPU_AREA_RELOAD_BIT = 1"
definition TEB64_WOW_TEB_OFFSET :: u64 where "TEB64_WOW_TEB_OFFSET = 0x180c"
definition TEB32_SELF :: u64 where "TEB32_SELF = 0x18"
definition EFLAGS_INIT :: u32 where "EFLAGS_INIT = 0x202"

definition seed_teb32 :: "'m memory_ops \<Rightarrow> u64 \<Rightarrow> u64 \<Rightarrow> u64 \<Rightarrow> u64 \<Rightarrow> ('m, unit) em" where
  "seed_teb32 M teb32 peb32 stack_base stack_top =
     (let actx = teb32 + 0x1800 in
      write_u32s M 0
       [(teb32, - 1), (teb32 + 4, ucast stack_top), (teb32 + 8, ucast stack_base),
        (teb32 + TEB32_SELF, ucast teb32), (teb32 + 0x30, ucast peb32), (teb32 + 0x1a8, ucast actx),
        (actx + 4, ucast actx + 4), (actx + 8, ucast actx + 4)])"

definition link_teb32 :: "'m memory_ops \<Rightarrow> u64 \<Rightarrow> u64 \<Rightarrow> ('m, unit) em" where
  "link_teb32 M teb64 teb32 =
     (if 0xFFFFFFFF < teb32 then
        em_fail (Os (''WoW64 TEB32 at '' @ fmt_hex (unat teb32) @
          '' is above 4 GiB '' @ utf8_bytes 0x2014 @ '' 32-bit guest code could not address it''))
      else
        let delta = sint (teb32 - teb64) in
        if delta < - (2 ^ 31) \<or> 2 ^ 31 \<le> delta then
          em_fail (Os (''WoW64 TEB32 '' @ fmt_hex (unat teb32) @ '' is more than 2 GiB from TEB64 '' @
            fmt_hex (unat teb64) @ '' '' @ utf8_bytes 0x2014 @ '' TEB64.WowTebOffset is a signed 32-bit field''))
        else
          em_bind (mem_write_u32 M (teb64 + TEB64_WOW_TEB_OFFSET) (ucast (teb32 - teb64))) (\<lambda>_.
          mem_write_u32 M (teb32 + TEB32_SELF) (ucast teb32)))"

record start32 =
  s32_eip :: u32
  s32_esp :: u32
  s32_eax :: u32
  s32_ebx :: u32

definition init_cpu_area :: "'m memory_ops \<Rightarrow> u64 \<Rightarrow> u64 \<Rightarrow> start32 \<Rightarrow> ('m, unit) em" where
  "init_cpu_area M teb_base area start =
     em_bind (mem_write_u64 M (teb_base + TEB_CPU_AREA_PTR_OFF) area) (\<lambda>_.
     em_bind (mem_write_u32 M area 0) (\<lambda>_.
     write_u32s M (area + CPU_AREA_HEADER_LEN)
       [(0xb8, s32_eip start), (0xc4, s32_esp start), (0xb0, s32_eax start), (0xa4, s32_ebx start),
        (0xc0, EFLAGS_INIT), (0xbc, ucast SEL_CS32), (0xc8, ucast SEL_DATA)]))"

definition wow64_blocks ::
    "'m memory_ops \<Rightarrow> win_os \<Rightarrow> u32 \<Rightarrow> wow64_threading \<Rightarrow> u64 \<Rightarrow> u64 \<Rightarrow> u64 \<Rightarrow> u64 \<Rightarrow> u64 \<Rightarrow> u64 \<Rightarrow> ('m, unit) em" where
  \<comment> \<open>both environment blocks and the CPU area of a WoW64 thread\<close>
  "wow64_blocks M w tid ww block stack32 stack32_top stack64 entry param =
     (let teb64 = block; teb32 = block + THREAD_TEB_SIZE in
      em_bind (seed_teb_64 M (is_64bit w) teb64 tid (cf_peb_addr (os_cfg w)) (stack64 + THREAD_STACK_SIZE) stack64) (\<lambda>_.
      em_bind (seed_teb32 M teb32 (os_wow64_peb32 w) stack32 stack32_top) (\<lambda>_.
      em_bind (link_teb32 M teb64 teb32) (\<lambda>_.
      init_cpu_area M teb64 (block + WOW64_THREAD_CPU_AREA)
        \<lparr>s32_eip = ucast (ww_rtl_user_thread_start32 ww), s32_esp = ucast (stack_start stack32_top),
          s32_eax = ucast entry, s32_ebx = ucast param\<rparr>))))"

definition spawn_wow64_thread ::
    "'m memory_ops \<Rightarrow> u64 \<Rightarrow> u64 \<Rightarrow> u64 \<Rightarrow> bool \<Rightarrow> ('m, (u64 \<times> u32) option) service" where
  "spawn_wow64_thread M req_stack entry param suspended =
     em_bind (os os_wow64_threading) (\<lambda>wow.
     case wow of
       None \<Rightarrow> em_return None
     | Some ww \<Rightarrow>
         let stack32_size = align_up (max req_stack THREAD_STACK_SIZE) 0x1000;
             release = (\<lambda>a n. on_mem (tried (mo_unmap M a n))) in
         em_bind (map_anywhere_low M stack32_size PERM_RW ''wow64-thread-stack32'') (\<lambda>s32.
         case s32 of
           None \<Rightarrow> no_memory
         | Some stack32 \<Rightarrow>
             em_bind (map_anywhere M THREAD_STACK_SIZE PERM_RWX ''wow64-thread-stack64'') (\<lambda>s64.
             case s64 of
               None \<Rightarrow> em_bind (release stack32 stack32_size) (\<lambda>_. no_memory)
             | Some stack64 \<Rightarrow>
                 em_bind (map_anywhere_low M WOW64_THREAD_BLOCK PERM_RW ''wow64-thread-teb'') (\<lambda>b.
                 case b of
                   None \<Rightarrow>
                     em_bind (release stack32 stack32_size) (\<lambda>_.
                     em_bind (release stack64 THREAD_STACK_SIZE) (\<lambda>_. no_memory))
                 | Some block \<Rightarrow>
                     em_bind (os_run fresh_tid) (\<lambda>tid.
                     em_bind (os id) (\<lambda>w.
                     em_bind (on_mem (wow64_blocks M w tid ww block stack32 (stack32 + stack32_size) stack64 entry param)) (\<lambda>_.
                     em_bind (os_run (insert_kobject (KThread False))) (\<lambda>handle.
                     em_bind (os_upd (push_thread ((new_thread tid handle suspended
                         (cpu_set_reg Rcx 0 (thread_cpu block (block + THREAD_TEB_SIZE)
                           (stack_start (stack64 + THREAD_STACK_SIZE) - 8) (ww_ldrp_initialize ww))))
                       \<lparr>th_stack_base := stack64, th_stack_size := THREAD_STACK_SIZE, th_teb_base := block,
                         th_wow64_block := block, th_wow64_stack32 := (stack32, stack32_size)\<rparr>))) (\<lambda>_.
                     em_return (Some (handle, tid)))))))))))"

end
