(* ===== verification/Os_Thread_Nt.thy ===== *)
theory Os_Thread_Nt
  imports Os_Thread
begin


text \<open>
  \<open>os/src/thread.rs\<close>: the thread services, Win32 and native. The services for child processes,
  which two of them call, are given by a record.
\<close>

record 'm child_ops =
  \<comment> \<open>\<open>os/src/process.rs\<close>\<close>
  ch_resume_thread :: "u64 \<Rightarrow> ('m, u32 option) service"
  ch_terminate :: "u64 \<Rightarrow> u32 \<Rightarrow> ('m, bool) service"

definition NT_CURRENT_THREAD :: u64 where "NT_CURRENT_THREAD = - 2"
definition CREATE_SUSPENDED_NT :: u64 where "CREATE_SUSPENDED_NT = 1"
definition THREAD_BASIC_INFORMATION :: u32 where "THREAD_BASIC_INFORMATION = 0"
definition THREAD_WOW64_CONTEXT :: u32 where "THREAD_WOW64_CONTEXT = 0x1d"
definition WOW64_CONTEXT_SIZE :: u64 where "WOW64_CONTEXT_SIZE = 0x2cc"
definition STATUS_INFO_LENGTH_MISMATCH :: u32 where "STATUS_INFO_LENGTH_MISMATCH = 0xC0000004"
definition STATUS_NOT_IMPLEMENTED :: u32 where "STATUS_NOT_IMPLEMENTED = 0xC0000002"

section \<open>Calls into the guest\<close>

fun push_args :: "'m memory_ops \<Rightarrow> u64 \<Rightarrow> u64 list \<Rightarrow> ('m, u64) em" where
  \<comment> \<open>push 32-bit values one after another; the new stack pointer\<close>
  "push_args M sp [] = em_return sp"
| "push_args M sp (a # as) = em_bind (mem_write_u32 M (sp - 4) (ucast a)) (\<lambda>_. push_args M (sp - 4) as)"

definition set_args64 :: "u64 list \<Rightarrow> cpu_state \<Rightarrow> cpu_state" where
  "set_args64 args c = fold (\<lambda>(r, a). cpu_set_reg r a) (zip [Rcx, Rdx, R8, R9] args) c"

definition setup_call_args :: "'m memory_ops \<Rightarrow> u64 \<Rightarrow> u64 list \<Rightarrow> u64 \<Rightarrow> u64 \<Rightarrow> ('m, unit) service" where
  "setup_call_args M func args ret_thunk base_rsp =
     em_bind (os is_64bit) (\<lambda>b64.
     em_bind
       (if b64 then
          let sp = (base_rsp AND NOT 0xf) - 0x20 - 8 in
          em_bind (cpu_upd (set_args64 args)) (\<lambda>_.
          em_bind (on_mem (mem_write_u64 M sp ret_thunk)) (\<lambda>_. cpu_upd (cpu_set_rsp sp)))
        else
          em_bind (on_mem (push_args M (base_rsp AND NOT 0xf) (rev args @ [ret_thunk]))) (\<lambda>sp.
          cpu_upd (cpu_set_rsp sp))) (\<lambda>_.
     cpu_upd (\<lambda>c. c\<lparr>cpu_rip := func\<rparr>)))"

definition invoke_callbacks ::
    "'m memory_ops \<Rightarrow> (u64 \<times> u64 list) list \<Rightarrow> u64 \<Rightarrow> u32 \<Rightarrow> bool \<Rightarrow> ('m, api_outcome) service" where
  "invoke_callbacks M calls result argc modal =
     (case calls of
        [] \<Rightarrow> em_return (Return result)
      | (func, args) # q \<Rightarrow>
          em_bind (on_cpu cpu_rsp) (\<lambda>saved_rsp.
          em_bind (os is_64bit) (\<lambda>b64.
          em_bind (read_ptr M saved_rsp) (\<lambda>ret_addr.
          let final_rsp = saved_rsp + (if b64 then 8 else 4) + (if b64 then 0 else ucast argc * 4) in
          em_bind (os_upd (\<lambda>w. w\<lparr>os_cb_stack := \<lparr>cb_remaining = q, cb_ret_addr = ret_addr,
            cb_final_rsp = final_rsp, cb_result = result, cb_modal = modal\<rparr> # os_cb_stack w\<rparr>)) (\<lambda>_.
          em_bind (os os_cb_driver) (\<lambda>driver.
          em_bind (setup_call_args M func args driver saved_rsp) (\<lambda>_. em_return Resume)))))))"

section \<open>Creating and ending threads\<close>

definition create_thread :: "'m memory_ops \<Rightarrow> ('m, api_outcome) service" where
  "create_thread M =
     em_bind (api_arg M 1) (\<lambda>req_stack.
     em_bind (api_arg M 2) (\<lambda>entry.
     em_bind (api_arg M 3) (\<lambda>param.
     em_bind (api_arg M 4) (\<lambda>flags.
     em_bind (api_arg M 5) (\<lambda>tid_out.
     em_bind (spawn_thread M req_stack entry param (flags AND CREATE_SUSPENDED \<noteq> 0)) (\<lambda>spawned.
     case spawned of
       None \<Rightarrow> em_return (Return 0)
     | Some (handle, tid) \<Rightarrow>
         em_bind (em_when (tid_out \<noteq> 0) (on_mem (mem_write_u32 M tid_out tid))) (\<lambda>_.
         em_return (Return handle))))))))"

definition unmap_if :: "'m memory_ops \<Rightarrow> u64 \<Rightarrow> u64 \<Rightarrow> ('m, unit) service" where
  "unmap_if M base sz = em_when (base \<noteq> 0) (em_bind (on_mem (tried (mo_unmap M base sz))) (\<lambda>_. em_return ()))"

definition free_thread_stack :: "'m memory_ops \<Rightarrow> nat \<Rightarrow> ('m, unit) service" where
  "free_thread_stack M i =
     em_bind (os (\<lambda>w. os_threads w ! i)) (\<lambda>t.
     em_bind (unmap_if M (th_stack_base t) (th_stack_size t)) (\<lambda>_.
     em_bind (unmap_if M (th_teb_owned t) THREAD_TEB_SIZE) (\<lambda>_.
     em_bind (unmap_if M (th_wow64_block t) WOW64_THREAD_BLOCK) (\<lambda>_.
     unmap_if M (fst (th_wow64_stack32 t)) (snd (th_wow64_stack32 t))))))"

definition mark_terminated :: "nat \<Rightarrow> u32 \<Rightarrow> win_os \<Rightarrow> win_os" where
  \<comment> \<open>state, exit code, and the signal of the thread's object\<close>
  "mark_terminated i code w =
     (let w = upd_thread i (\<lambda>t. t\<lparr>th_state := Terminated, th_exit_code := code\<rparr>) w;
          h = th_handle (os_threads w ! i)
      in case os_kobjects w h of Some (KThread b) \<Rightarrow> put_kobject h (KThread True) w | _ \<Rightarrow> w)"

definition end_thread :: "'m memory_ops \<Rightarrow> nat \<Rightarrow> u32 \<Rightarrow> ('m, unit) service" where
  "end_thread M i code = em_bind (os_upd (mark_terminated i code)) (\<lambda>_. free_thread_stack M i)"

definition leave_thread :: "u32 \<Rightarrow> ('m, api_outcome) service" where
  \<comment> \<open>the current thread has ended\<close>
  "leave_thread code =
     em_bind (os pick_next) (\<lambda>n.
     case n of
       Some i \<Rightarrow> em_bind (activate_thread i) (\<lambda>_. em_return Resume)
     | None \<Rightarrow> em_return (Exit code))"

definition exit_thread :: "'m memory_ops \<Rightarrow> u32 \<Rightarrow> ('m, api_outcome) service" where
  "exit_thread M code =
     em_bind (os os_current) (\<lambda>cur. em_bind (end_thread M cur code) (\<lambda>_. leave_thread code))"

definition thread_start_returned :: "'m memory_ops \<Rightarrow> ('m, api_outcome) service" where
  "thread_start_returned M = em_bind (on_cpu (gpr_read 0 4)) (\<lambda>v. exit_thread M (ucast v))"

definition api_exit_thread :: "'m memory_ops \<Rightarrow> ('m, api_outcome) service" where
  "api_exit_thread M = em_bind (api_arg M 0) (\<lambda>code. exit_thread M (ucast code))"

definition thread_tls_attach :: "'m memory_ops \<Rightarrow> ('m, api_outcome) service" where
  "thread_tls_attach M =
     em_bind (os (\<lambda>w. map (\<lambda>cb. (cb, [cf_image_base (os_cfg w), 2, 0])) (os_tls_callbacks w) @
       map (\<lambda>(entry, base). (entry, [base, 2, 0])) (thread_notify_targets w))) (\<lambda>calls.
     invoke_callbacks M calls 0 0 False)"

definition take_pending_entry :: "win_os \<Rightarrow> (u64 \<times> u64) \<times> win_os" where
  "take_pending_entry w =
     ((case th_pending_entry (os_threads w ! os_current w) of Some e \<Rightarrow> e | None \<Rightarrow> (0, 0)),
      upd_thread (os_current w) (\<lambda>t. t\<lparr>th_pending_entry := None\<rparr>) w)"

definition thread_start_entry :: "'m memory_ops \<Rightarrow> ('m, api_outcome) service" where
  "thread_start_entry M =
     em_bind (os_run take_pending_entry) (\<lambda>(entry, param).
     em_bind (os os_thread_exit_thunk) (\<lambda>thunk.
     em_bind (on_cpu cpu_rsp) (\<lambda>base.
     em_bind (setup_call_args M entry [param] thunk base) (\<lambda>_. em_return Resume))))"

section \<open>Control of threads\<close>

definition resume_at :: "nat \<Rightarrow> win_os \<Rightarrow> u32 \<times> win_os" where
  \<comment> \<open>the suspend count before\<close>
  "resume_at i w =
     (let t = os_threads w ! i; prev = th_suspend_count t in
      (prev,
       if 0 < prev then
         upd_thread i (\<lambda>t. t\<lparr>th_suspend_count := prev - 1,
           th_state := (if prev - 1 = 0 \<and> th_state t = Suspended then Ready else th_state t)\<rparr>) w
       else w))"

definition suspend_at :: "nat \<Rightarrow> win_os \<Rightarrow> u32 \<times> win_os" where
  "suspend_at i w =
     (let t = os_threads w ! i; prev = th_suspend_count t in
      (prev,
       upd_thread i (\<lambda>t. t\<lparr>th_suspend_count := prev + 1,
         th_state := (if i \<noteq> os_current w \<and> th_state t \<noteq> Terminated then Suspended else th_state t)\<rparr>) w))"

definition resume_thread :: "'m memory_ops \<Rightarrow> ('m, api_outcome) service" where
  "resume_thread M =
     em_bind (api_arg M 0) (\<lambda>h.
     em_bind (os (thread_by_handle h)) (\<lambda>i.
     case i of
       None \<Rightarrow> em_return (Return 0xFFFFFFFF)
     | Some i \<Rightarrow> em_bind (os_run (resume_at i)) (\<lambda>prev. em_return (Return (ucast prev)))))"

definition suspend_thread :: "'m memory_ops \<Rightarrow> ('m, api_outcome) service" where
  "suspend_thread M =
     em_bind (api_arg M 0) (\<lambda>h.
     em_bind (os (thread_by_handle h)) (\<lambda>i.
     case i of
       None \<Rightarrow> em_return (Return 0xFFFFFFFF)
     | Some i \<Rightarrow> em_bind (os_run (suspend_at i)) (\<lambda>prev. em_return (Return (ucast prev)))))"

definition terminate_thread :: "'m memory_ops \<Rightarrow> ('m, api_outcome) service" where
  "terminate_thread M =
     em_bind (api_arg M 0) (\<lambda>h.
     em_bind (api_arg M 1) (\<lambda>code.
     em_bind (os (\<lambda>w. (thread_by_handle h w, os_current w))) (\<lambda>(i, cur).
     case i of
       None \<Rightarrow> em_return (Return 0)
     | Some i \<Rightarrow>
         em_bind (end_thread M i (ucast code)) (\<lambda>_.
         if i = cur then leave_thread (ucast code) else em_return (Return 1)))))"

definition exit_code_of :: "u64 \<Rightarrow> win_os \<Rightarrow> u32" where
  "exit_code_of h w =
     (case thread_by_handle h w of
        None \<Rightarrow> STILL_ACTIVE
      | Some i \<Rightarrow> let t = os_threads w ! i in
          if th_state t = Terminated then th_exit_code t else STILL_ACTIVE)"

definition get_exit_code_thread :: "'m memory_ops \<Rightarrow> ('m, api_outcome) service" where
  "get_exit_code_thread M =
     em_bind (api_arg M 0) (\<lambda>h.
     em_bind (api_arg M 1) (\<lambda>out.
     em_bind (os (exit_code_of h)) (\<lambda>code.
     em_bind (em_when (out \<noteq> 0) (on_mem (mem_write_u32 M out code))) (\<lambda>_. em_return (Return 1)))))"

section \<open>Giving up the processor\<close>

definition complete_and_yield :: "'m memory_ops \<Rightarrow> u64 \<Rightarrow> u32 \<Rightarrow> ('m, api_outcome) service" where
  "complete_and_yield M retval argc =
     em_bind (set_result retval) (\<lambda>_.
     em_bind (api_ret M argc) (\<lambda>_.
     em_bind yield_and_switch (\<lambda>_. em_return Resume)))"

definition sleep :: "'m memory_ops \<Rightarrow> u32 \<Rightarrow> ('m, api_outcome) service" where
  "sleep M argc =
     em_bind (api_arg M 0) (\<lambda>v.
     em_bind (os_upd (\<lambda>w. w\<lparr>os_clock := credit_ms (v AND 0xFFFFFFFF) (os_clock w)\<rparr>)) (\<lambda>_.
     complete_and_yield M 0 argc))"

definition switch_to_thread :: "'m memory_ops \<Rightarrow> ('m, api_outcome) service" where
  "switch_to_thread M =
     em_bind (os (\<lambda>w. pick_next w \<noteq> None)) (\<lambda>has_other.
     complete_and_yield M (if has_other then 1 else 0) 0)"

text \<open>
  \<open>os/src/thread.rs\<close>: the native thread services and the thread-local slots
  (\<open>tls_alloc\<close> to \<open>tls_free\<close> of \<open>os/src/api.rs\<close>). A service returns a status; one that switches
  to another thread sets \<open>syscall_resume_as_is\<close>, which keeps the dispatcher from restoring the
  context of the thread that called.
\<close>

definition SYSTEM_EMULATION_BASIC_INFORMATION :: u32 where "SYSTEM_EMULATION_BASIC_INFORMATION = 0x3e"
definition SYSTEM_SUPPORTED_PROCESSOR_ARCHITECTURES :: u32 where "SYSTEM_SUPPORTED_PROCESSOR_ARCHITECTURES = 0xb5"
definition WOW_MACHINE_I386 :: u16 where "WOW_MACHINE_I386 = 0x014c"
definition WOW_MACHINE_AMD64 :: u16 where "WOW_MACHINE_AMD64 = 0x8664"
definition ARCH_KERNEL_MODE :: u32 where "ARCH_KERNEL_MODE = push_bit 16 1"
definition ARCH_USER_MODE :: u32 where "ARCH_USER_MODE = push_bit 17 1"
definition ARCH_NATIVE :: u32 where "ARCH_NATIVE = push_bit 18 1"
definition ARCH_PROCESS :: u32 where "ARCH_PROCESS = push_bit 19 1"

definition current_thread_teb :: "win_os \<Rightarrow> u64" where
  "current_thread_teb w =
     (if os_current w < length (os_threads w) then th_teb_base (os_threads w ! os_current w) else 0)"

definition nt_thread_index :: "u64 \<Rightarrow> win_os \<Rightarrow> nat option" where
  "nt_thread_index h w = (if h = NT_CURRENT_THREAD then Some (os_current w) else thread_by_handle h w)"

definition put_u32 :: "'m memory_ops \<Rightarrow> u64 \<Rightarrow> u32 \<Rightarrow> ('m, unit) service" where
  \<comment> \<open>an optional result pointer\<close>
  "put_u32 M ptr v = em_when (ptr \<noteq> 0) (on_mem (mem_write_u32 M ptr v))"

section \<open>Creating, ending, suspending\<close>

definition nt_create_thread_ex :: "'m memory_ops \<Rightarrow> ('m, u32) service" where
  "nt_create_thread_ex M =
     em_bind (syscall_arg M 0) (\<lambda>handle_out.
     em_bind (syscall_arg M 4) (\<lambda>entry.
     em_bind (syscall_arg M 5) (\<lambda>param.
     em_bind (syscall_arg M 6) (\<lambda>create_flags.
     em_bind (syscall_arg M 8) (\<lambda>stack_size.
     if handle_out = 0 then status STATUS_INVALID_PARAMETER
     else
       let suspended = (create_flags AND CREATE_SUSPENDED_NT \<noteq> 0) in
       em_bind (os is_wow64) (\<lambda>wow.
       em_bind (if wow then spawn_wow64_thread M stack_size entry param suspended
                else spawn_thread M stack_size entry param suspended) (\<lambda>spawned.
       case spawned of
         Some (handle, tid) \<Rightarrow> em_bind (write_ptr M handle_out handle) (\<lambda>_. status STATUS_SUCCESS)
       | None \<Rightarrow> status STATUS_NO_MEMORY)))))))"

definition resume_as_is :: "('m, unit) service" where
  "resume_as_is = os_upd (\<lambda>w. w\<lparr>os_syscall_resume_as_is := True\<rparr>)"

definition nt_terminate_thread :: "'m memory_ops \<Rightarrow> ('m, u32) service" where
  "nt_terminate_thread M =
     em_bind (syscall_arg M 0) (\<lambda>handle.
     em_bind (syscall_arg M 1) (\<lambda>c.
     em_bind (os (\<lambda>w. (nt_thread_index handle w, os_current w))) (\<lambda>(i, cur).
     case i of
       None \<Rightarrow> status STATUS_INVALID_HANDLE
     | Some i \<Rightarrow>
         em_bind (end_thread M i (ucast c)) (\<lambda>_.
         if i = cur then
           em_bind resume_as_is (\<lambda>_.
           em_bind (os pick_next) (\<lambda>n.
           case n of
             Some n \<Rightarrow> em_bind (activate_thread n) (\<lambda>_. status STATUS_SUCCESS)
           | None \<Rightarrow> status (ucast c)))
         else status STATUS_SUCCESS))))"

definition nt_terminate_process :: "'m child_ops \<Rightarrow> 'm memory_ops \<Rightarrow> ('m, u32) service" where
  "nt_terminate_process C M =
     em_bind (syscall_arg M 0) (\<lambda>handle.
     em_bind (syscall_arg M 1) (\<lambda>c.
     if handle = 0 \<or> handle = - 1 then
       em_bind (os_upd (\<lambda>w. w\<lparr>os_pending_syscall_exit := Some (ucast c)\<rparr>)) (\<lambda>_. status STATUS_SUCCESS)
     else
       em_bind (ch_terminate C handle (ucast c)) (\<lambda>ok.
       status (if ok then STATUS_SUCCESS else STATUS_INVALID_HANDLE))))"

definition nt_suspend_thread :: "'m memory_ops \<Rightarrow> ('m, u32) service" where
  "nt_suspend_thread M =
     em_bind (syscall_arg M 0) (\<lambda>handle.
     em_bind (syscall_arg M 1) (\<lambda>prev_out.
     em_bind (os (nt_thread_index handle)) (\<lambda>i.
     case i of
       None \<Rightarrow> status STATUS_INVALID_HANDLE
     | Some i \<Rightarrow>
         em_bind (os_run (suspend_at i)) (\<lambda>prev.
         em_bind (put_u32 M prev_out prev) (\<lambda>_. status STATUS_SUCCESS)))))"

definition nt_resume_thread :: "'m child_ops \<Rightarrow> 'm memory_ops \<Rightarrow> ('m, u32) service" where
  "nt_resume_thread C M =
     em_bind (syscall_arg M 0) (\<lambda>handle.
     em_bind (syscall_arg M 1) (\<lambda>prev_out.
     em_bind (ch_resume_thread C handle) (\<lambda>child.
     case child of
       Some prev \<Rightarrow> em_bind (put_u32 M prev_out prev) (\<lambda>_. status STATUS_SUCCESS)
     | None \<Rightarrow>
         em_bind (os (nt_thread_index handle)) (\<lambda>i.
         case i of
           None \<Rightarrow> status STATUS_INVALID_HANDLE
         | Some i \<Rightarrow>
             em_bind (os_run (resume_at i)) (\<lambda>prev.
             em_bind (put_u32 M prev_out prev) (\<lambda>_. status STATUS_SUCCESS))))))"

section \<open>Information\<close>

definition wow64_context_area :: "'m memory_ops \<Rightarrow> ('m, u64) service" where
  \<comment> \<open>the CPU area of the thread that calls\<close>
  "wow64_context_area M =
     em_bind (on_cpu cpu_gs_base) (\<lambda>gs.
     em_bind (os (\<lambda>w. cf_teb_base (os_cfg w))) (\<lambda>teb.
     on_mem (mem_read_u64 M ((if gs \<noteq> 0 then gs else teb) + TEB_CPU_AREA_PTR_OFF))))"

definition query_wow64_context :: "'m memory_ops \<Rightarrow> u64 \<Rightarrow> u64 \<Rightarrow> u64 \<Rightarrow> u64 \<Rightarrow> ('m, u32) service" where
  "query_wow64_context M handle buffer len return_length =
     em_bind (os (nt_thread_index handle)) (\<lambda>i.
     if i = None then status STATUS_INVALID_HANDLE
     else if buffer = 0 \<or> len < WOW64_CONTEXT_SIZE then status STATUS_INFO_LENGTH_MISMATCH
     else
       em_bind (wow64_context_area M) (\<lambda>area.
       if area = 0 then status STATUS_INVALID_PARAMETER
       else
         em_bind (on_mem (mo_read M (area + CPU_AREA_HEADER_LEN) (unat WOW64_CONTEXT_SIZE))) (\<lambda>buf.
         em_bind (on_mem (mo_write M buffer buf)) (\<lambda>_.
         em_bind (put_u32 M return_length (ucast WOW64_CONTEXT_SIZE)) (\<lambda>_. status STATUS_SUCCESS)))))"

definition set_wow64_context :: "'m memory_ops \<Rightarrow> u64 \<Rightarrow> u64 \<Rightarrow> ('m, u32) service" where
  "set_wow64_context M buffer len =
     (if buffer = 0 \<or> len < WOW64_CONTEXT_SIZE then status STATUS_INFO_LENGTH_MISMATCH
      else
        em_bind (wow64_context_area M) (\<lambda>area.
        if area = 0 then status STATUS_INVALID_PARAMETER
        else
          em_bind (on_mem (mo_read M buffer (unat WOW64_CONTEXT_SIZE))) (\<lambda>buf.
          em_bind (on_mem (mo_write M (area + CPU_AREA_HEADER_LEN) buf)) (\<lambda>_.
          em_bind (on_mem (mem_read_u32 M area)) (\<lambda>header.
          em_bind (on_mem (mem_write_u32 M area (header OR CPU_AREA_RELOAD_BIT))) (\<lambda>_.
          status STATUS_SUCCESS))))))"

definition nt_set_information_thread :: "'m memory_ops \<Rightarrow> ('m, u32) service" where
  "nt_set_information_thread M =
     em_bind (syscall_arg M 0) (\<lambda>handle.
     em_bind (syscall_arg M 1) (\<lambda>cls.
     em_bind (syscall_arg M 2) (\<lambda>buffer.
     em_bind (syscall_arg M 3) (\<lambda>len.
     if ucast cls \<noteq> THREAD_WOW64_CONTEXT then status STATUS_NOT_IMPLEMENTED
     else
       em_bind (os (nt_thread_index handle)) (\<lambda>i.
       if i = None then status STATUS_INVALID_HANDLE else set_wow64_context M buffer len)))))"

definition write_thread_basic :: "'m memory_ops \<Rightarrow> bool \<Rightarrow> u64 \<Rightarrow> u32 \<Rightarrow> u64 \<Rightarrow> u32 \<Rightarrow> ('m, unit) em" where
  "write_thread_basic M b64 buffer exit_status teb tid =
     (if b64 then
        em_bind (mem_write_u32 M buffer exit_status) (\<lambda>_.
        em_bind (write_u64s M buffer [(0x08, teb), (0x10, PROCESS_ID), (0x18, ucast tid), (0x20, 1)]) (\<lambda>_.
        write_u32s M buffer [(0x28, 0), (0x2C, 0)]))
      else
        write_u32s M buffer [(0, exit_status), (0x04, ucast teb), (0x08, ucast PROCESS_ID), (0x0C, tid),
          (0x10, 1), (0x14, 0), (0x18, 0)])"

definition thread_exit_status :: "thread \<Rightarrow> u32" where
  "thread_exit_status t = (if th_state t = Terminated then th_exit_code t else STILL_ACTIVE)"

definition nt_query_information_thread :: "'m memory_ops \<Rightarrow> ('m, u32) service" where
  "nt_query_information_thread M =
     em_bind (syscall_arg M 0) (\<lambda>handle.
     em_bind (syscall_arg M 1) (\<lambda>cls.
     em_bind (syscall_arg M 2) (\<lambda>buffer.
     em_bind (syscall_arg M 3) (\<lambda>len.
     em_bind (syscall_arg M 4) (\<lambda>return_length.
     if ucast cls = THREAD_WOW64_CONTEXT then query_wow64_context M handle buffer len return_length
     else if ucast cls \<noteq> THREAD_BASIC_INFORMATION then status STATUS_NOT_IMPLEMENTED
     else
       em_bind (os (\<lambda>w. (nt_thread_index handle w, is_64bit w))) (\<lambda>(i, b64).
       case i of
         None \<Rightarrow> status STATUS_INVALID_HANDLE
       | Some i \<Rightarrow>
           let need = (if b64 then 0x30 else 0x1C) in
           if buffer = 0 \<or> len < need then status STATUS_INFO_LENGTH_MISMATCH
           else
             em_bind (os (\<lambda>w. os_threads w ! i)) (\<lambda>t.
             em_bind (on_mem (write_thread_basic M b64 buffer (thread_exit_status t) (th_teb_base t) (th_tid t))) (\<lambda>_.
             em_bind (put_u32 M return_length (ucast need)) (\<lambda>_. status STATUS_SUCCESS)))))))))"

definition nt_query_system_information :: "'m memory_ops \<Rightarrow> ('m, u32) service" where
  "nt_query_system_information M =
     em_bind (syscall_arg M 0) (\<lambda>cls.
     em_bind (syscall_arg M 1) (\<lambda>buffer.
     em_bind (syscall_arg M 2) (\<lambda>len.
     em_bind (syscall_arg M 3) (\<lambda>return_length.
     if ucast cls \<noteq> SYSTEM_EMULATION_BASIC_INFORMATION then status STATUS_NOT_IMPLEMENTED
     else if buffer = 0 \<or> len < 0x40 then status STATUS_INFO_LENGTH_MISMATCH
     else
       em_bind (on_mem (mo_write M buffer (replicate 0x40 0))) (\<lambda>_.
       em_bind (on_mem (write_u32s M buffer [(0x08, 0x1000), (0x18, 0x10000)])) (\<lambda>_.
       em_bind (on_mem (write_u64s M buffer [(0x20, 0x10000), (0x28, 0x7FFFFFFF), (0x30, 1)])) (\<lambda>_.
       em_bind (on_mem (mem_write_u8 M (buffer + 0x38) 1)) (\<lambda>_.
       em_bind (put_u32 M return_length 0x40) (\<lambda>_. status STATUS_SUCCESS)))))))))"

definition arch_entry :: "u16 \<Rightarrow> u32 \<Rightarrow> u32" where
  "arch_entry machine fl = ucast machine OR fl"

definition arch_entries :: "bool \<Rightarrow> u32 list" where
  \<comment> \<open>the machine of the process, the native machine, the end\<close>
  "arch_entries wow =
     [arch_entry (if wow then WOW_MACHINE_I386 else WOW_MACHINE_AMD64) (ARCH_USER_MODE OR ARCH_PROCESS),
      arch_entry WOW_MACHINE_AMD64 (ARCH_KERNEL_MODE OR ARCH_USER_MODE OR ARCH_NATIVE), 0]"

definition nt_query_system_information_ex :: "'m memory_ops \<Rightarrow> ('m, u32) service" where
  "nt_query_system_information_ex M =
     em_bind (syscall_arg M 0) (\<lambda>cls.
     em_bind (syscall_arg M 3) (\<lambda>buffer.
     em_bind (syscall_arg M 4) (\<lambda>len.
     em_bind (syscall_arg M 5) (\<lambda>return_length.
     if ucast cls \<noteq> SYSTEM_SUPPORTED_PROCESSOR_ARCHITECTURES then status STATUS_NOT_IMPLEMENTED
     else if buffer = 0 \<or> len < 12 then status STATUS_INFO_LENGTH_MISMATCH
     else
       em_bind (os is_wow64) (\<lambda>wow.
       em_bind (on_mem (write_u32s M buffer (zip [0, 4, 8] (arch_entries wow)))) (\<lambda>_.
       em_bind (put_u32 M return_length 12) (\<lambda>_. status STATUS_SUCCESS)))))))"

end
