(* ===== verification/Os_Logic.thy ===== *)
theory Os_Logic
  imports Os_Thread_Nt
begin

text \<open>
  A Hoare logic for services. \<open>leads P m R\<close>: when the state of the services satisfies \<open>P\<close>, it
  satisfies \<open>R\<close> after \<open>m\<close>, whatever the outcome of \<open>m\<close> and whatever the memory and the CPU state.
  A computation that leaves the state of the services alone is \<open>silent\<close>.
\<close>

definition leads :: "(win_os \<Rightarrow> bool) \<Rightarrow> ('m, 'a) service \<Rightarrow> (win_os \<Rightarrow> bool) \<Rightarrow> bool" where
  "leads P m R \<longleftrightarrow> (\<forall>s. P (sw_os s) \<longrightarrow> R (sw_os (snd (m s))))"

definition silent :: "('m, 'a) service \<Rightarrow> bool" where
  "silent m \<longleftrightarrow> (\<forall>s. sw_os (snd (m s)) = sw_os s)"

named_theorems silent_intros \<open>composition rules for \<open>silent\<close>\<close>

lemma leadsD: "leads P m R \<Longrightarrow> P (sw_os s) \<Longrightarrow> R (sw_os (snd (m s)))"
  by (simp add: leads_def)

lemma leadsI: "(\<And>s. P (sw_os s) \<Longrightarrow> R (sw_os (snd (m s)))) \<Longrightarrow> leads P m R"
  by (simp add: leads_def)

lemma silentD: "silent m \<Longrightarrow> sw_os (snd (m s)) = sw_os s"
  by (simp add: silent_def)

section \<open>Silent computations\<close>

lemma silent_simple [silent_intros]:
  "silent (em_return a)" "silent (em_stop x)" "silent (em_fail e)" "silent (em_panic w)"
  "silent (em_get g)" "silent (os f)" "silent (on_cpu f')" "silent (cpu_upd u)" "silent (status st)"
  by (simp_all add: silent_def em_apply os_def on_cpu_def cpu_upd_def status_def)

lemma silent_on_mem [silent_intros]: "silent (on_mem f)"
  by (simp add: silent_def on_mem_def split: prod.splits)

lemma silent_bind [silent_intros]: "silent m \<Longrightarrow> (\<And>a. silent (f a)) \<Longrightarrow> silent (em_bind m f)"
  by (simp add: silent_def em_bind_def split: prod.splits sum.splits) (metis snd_conv)

lemma silent_if [silent_intros]: "silent m \<Longrightarrow> silent n \<Longrightarrow> silent (if b then m else n)"
  by simp

lemma silent_when [silent_intros]: "silent m \<Longrightarrow> silent (em_when b m)"
  by (simp add: em_when_def silent_intros)

lemma silent_option [silent_intros]:
  "silent m \<Longrightarrow> (\<And>a. silent (f a)) \<Longrightarrow> silent (case x of None \<Rightarrow> m | Some a \<Rightarrow> f a)"
  by (cases x) simp_all

lemma silent_prod [silent_intros]: "(\<And>a b. silent (f a b)) \<Longrightarrow> silent (case p of (a, b) \<Rightarrow> f a b)"
  by (cases p) simp

lemma silent_sum [silent_intros]:
  "(\<And>a. silent (f a)) \<Longrightarrow> (\<And>a. silent (g a)) \<Longrightarrow> silent (case x of Inl a \<Rightarrow> f a | Inr a \<Rightarrow> g a)"
  by (cases x) simp_all

lemma silent_let [silent_intros]: "silent (f v) \<Longrightarrow> silent (let x = v in f x)"
  by simp

lemma silent_each [silent_intros]: "(\<And>x. silent (f x)) \<Longrightarrow> silent (em_each xs f)"
  by (induction xs) (simp_all add: silent_intros)

lemma silent_arguments [silent_intros]:
  "silent (api_arg M i)" "silent (syscall_arg M i)" "silent (read_ptr M a)" "silent (write_ptr M a v)"
  "silent (set_result r)" "silent (put_u32 M a c)" "silent (api_ret M n)"
  unfolding api_arg_def syscall_arg_def read_ptr_def write_ptr_def set_result_def put_u32_def api_ret_def
  by (intro silent_intros)+

lemma silent_names [silent_intros]:
  "silent (read_name M a wide)" "silent (name_arg M i wide)" "silent (nt_object_attr_name M a)"
  "silent (read_nt_timeout M a)" "silent rewind_syscall"
  unfolding read_name_def name_arg_def nt_object_attr_name_def read_nt_timeout_def rewind_syscall_def
  by (intro silent_intros)+

lemma silent_read_handles [silent_intros]: "silent (read_handles M a st i n)"
  by (induction n arbitrary: i) (auto intro!: silent_intros)

lemma silent_read_known_handles [silent_intros]: "silent (read_known_handles M a st i n)"
  by (induction n arbitrary: i) (auto intro!: silent_intros)

section \<open>Rules\<close>

lemma leads_silent: "silent m \<Longrightarrow> (\<And>w. P w \<Longrightarrow> R w) \<Longrightarrow> leads P m R"
  by (simp add: leads_def silent_def)

lemma leads_weaken: "leads P m R \<Longrightarrow> (\<And>w. P' w \<Longrightarrow> P w) \<Longrightarrow> (\<And>w. R w \<Longrightarrow> R' w) \<Longrightarrow> leads P' m R'"
  by (simp add: leads_def)

lemma leads_bind_os:
  assumes "\<And>a. leads (\<lambda>w. P w \<and> f w = a) (g a) R"
  shows "leads P (em_bind (os f) g) R"
  using assms by (simp add: leads_def em_bind_apply os_def em_apply)

lemma leads_bind_silent:
  fixes m :: "('m, 'a) service"
  assumes "silent m" "\<And>w. P w \<Longrightarrow> R w" "\<And>a. leads P (g a) R"
  shows "leads P (em_bind m g) R"
proof (rule leadsI)
  fix s :: "'m sysw" assume "P (sw_os s)"
  then show "R (sw_os (snd (em_bind m g s)))"
    using assms(2,3) silentD [OF assms(1), of s]
    by (cases "m s") (auto simp: em_bind_def leads_def split: sum.splits)
qed

lemma leads_bind:
  fixes m :: "('m, 'a) service"
  assumes "leads P m P" "\<And>w. P w \<Longrightarrow> R w" "\<And>a. leads P (g a) R"
  shows "leads P (em_bind m g) R"
proof (rule leadsI)
  fix s :: "'m sysw" assume "P (sw_os s)"
  then show "R (sw_os (snd (em_bind m g s)))"
    using assms(2,3) leadsD [OF assms(1), of s]
    by (cases "m s") (auto simp: em_bind_def leads_def split: sum.splits)
qed

lemma leads_bind_upd:
  assumes "\<And>w. P w \<Longrightarrow> P' (f w)" "leads P' (g ()) R"
  shows "leads P (em_bind (os_upd f) g) R"
  using assms by (simp add: leads_def em_bind_apply os_upd_def em_apply)

lemma leads_bind_run:
  fixes g :: "'b \<Rightarrow> ('m, 'a) service"
  assumes "\<And>w. P w \<Longrightarrow> P' (snd (f w))" "\<And>a. leads P' (g a) R"
  shows "leads P (em_bind (os_run f) g) R"
proof (rule leadsI)
  fix s :: "'m sysw" assume "P (sw_os s)"
  then have "P' (snd (f (sw_os s)))" by (rule assms(1))
  then show "R (sw_os (snd (em_bind (os_run f) g s)))"
    using assms(2) [unfolded leads_def, rule_format, of "s\<lparr>sw_os := snd (f (sw_os s))\<rparr>"]
    by (simp add: em_bind_apply os_run_def case_prod_beta)
qed

lemma leads_bind_switch:
  fixes g :: "'b \<Rightarrow> ('m, 'a) service"
  assumes "\<And>c w. P w \<Longrightarrow> P' (snd (snd (f c w)))" "\<And>a. leads P' (g a) R"
  shows "leads P (em_bind (on_switch f) g) R"
proof (rule leadsI)
  fix s :: "'m sysw" assume "P (sw_os s)"
  then have "P' (snd (snd (f (sw_cpu s) (sw_os s))))" by (rule assms(1))
  then show "R (sw_os (snd (em_bind (on_switch f) g s)))"
    using assms(2) [unfolded leads_def, rule_format,
        of "s\<lparr>sw_cpu := fst (snd (f (sw_cpu s) (sw_os s))), sw_os := snd (snd (f (sw_cpu s) (sw_os s)))\<rparr>"]
    by (simp add: em_bind_apply on_switch_def case_prod_beta)
qed

lemma leads_upd: "(\<And>w. P w \<Longrightarrow> R (f w)) \<Longrightarrow> leads P (os_upd f) R"
  by (simp add: leads_def os_upd_def em_apply)

lemma leads_run: "(\<And>w. P w \<Longrightarrow> R (snd (f w))) \<Longrightarrow> leads P (os_run f) R"
  by (simp add: leads_def os_run_def split: prod.splits) (metis snd_conv)

lemma leads_switch: "(\<And>c w. P w \<Longrightarrow> R (snd (snd (f c w)))) \<Longrightarrow> leads P (on_switch f) R"
  by (simp add: leads_def on_switch_def split: prod.splits) (metis snd_conv)

lemma leads_if:
  "(b \<Longrightarrow> leads P m R) \<Longrightarrow> (\<not> b \<Longrightarrow> leads P n R) \<Longrightarrow> leads P (if b then m else n) R"
  by simp

lemma leads_option:
  "(x = None \<Longrightarrow> leads P m R) \<Longrightarrow> (\<And>a. x = Some a \<Longrightarrow> leads P (f a) R) \<Longrightarrow>
    leads P (case x of None \<Rightarrow> m | Some a \<Rightarrow> f a) R"
  by (cases x) simp_all

lemma leads_prod: "(\<And>a b. p = (a, b) \<Longrightarrow> leads P (f a b) R) \<Longrightarrow> leads P (case p of (a, b) \<Rightarrow> f a b) R"
  by (cases p) simp

lemma leads_let: "leads P (f v) R \<Longrightarrow> leads P (let x = v in f x) R"
  by simp

lemmas leads_cases = leads_if leads_option leads_prod leads_let

section \<open>What a service keeps\<close>

text \<open>
  The rules of \<open>leads_keeps\<close> are for \<open>leads P m P\<close>; each of them is chosen by the head of \<open>m\<close>.
\<close>

named_theorems leads_keeps \<open>rules for a property that a service keeps\<close>

lemma leads_same: "silent m \<Longrightarrow> leads P m P"
  by (rule leads_silent)

lemma leads_bind_same [leads_keeps]: "leads P m P \<Longrightarrow> (\<And>a. leads P (g a) P) \<Longrightarrow> leads P (em_bind m g) P"
  by (rule leads_bind)

lemma leads_when [leads_keeps]: "(b \<Longrightarrow> leads P m P) \<Longrightarrow> leads P (em_when b m) P"
  by (simp add: em_when_def leads_same silent_intros)

lemmas silent_keeps [leads_keeps] =
  silent_simple [THEN leads_same] silent_on_mem [THEN leads_same] silent_arguments [THEN leads_same]
  silent_names [THEN leads_same] silent_read_handles [THEN leads_same] silent_read_known_handles [THEN leads_same]

lemmas leads_same_cases [leads_keeps] =
  leads_if [where R = P and P = P for P] leads_option [where R = P and P = P for P]
  leads_prod [where R = P and P = P for P] leads_let [where R = P and P = P for P]

lemmas leads_updates [leads_keeps] =
  leads_upd [where R = P and P = P for P] leads_run [where R = P and P = P for P]
  leads_switch [where R = P and P = P for P]

end
