(* ===== verification/Os_Sched_Laws.thy ===== *)
theory Os_Sched_Laws
  imports Os_Logic
begin

text \<open>
  The scheduler's invariant: exactly one thread is running, and it is the current one. Every
  service keeps it, except that the exit of the last thread that can run ends the process.
\<close>

section \<open>Bookkeeping\<close>

locale os_bookkeeping =
  \<comment> \<open>a property of the services that does not depend on where they allocate, nor on their errors\<close>
  fixes Q :: "win_os \<Rightarrow> bool"
  assumes book [simp]:
    "Q (w\<lparr>os_valloc_next := a\<rparr>) = Q w" "Q (w\<lparr>os_last_error := e\<rparr>) = Q w" "Q (w\<lparr>os_next_tid := t\<rparr>) = Q w"
    "Q (w\<lparr>os_clock := k\<rparr>) = Q w" "Q (w\<lparr>os_syscall_resume_as_is := b\<rparr>) = Q w"
begin

lemma keeps_find_free: "leads Q (vm_find_free M sz) Q"
  by (auto simp: leads_def vm_find_free_def Let_def split: option.splits)

lemma keeps_find_free_below: "leads Q (vm_find_free_below M sz mx) Q"
  using keeps_find_free [of M sz]
  by (auto simp: leads_def vm_find_free_below_def em_bind_def em_apply split: option.splits prod.splits sum.splits)

lemma keeps_set_last_error: "leads Q (set_last_error e) Q"
  unfolding set_last_error_def by (intro leads_keeps) simp

lemma keeps_map_anywhere: "leads Q (map_anywhere M sz p name) Q"
  unfolding map_anywhere_def by (intro leads_keeps keeps_find_free)

lemma keeps_map_anywhere_low: "leads Q (map_anywhere_low M sz p name) Q"
  unfolding map_anywhere_low_def by (intro leads_keeps keeps_find_free_below)

lemma keeps_no_memory: "leads Q no_memory Q"
  unfolding no_memory_def by (intro leads_keeps keeps_set_last_error)

lemma keeps_fresh_tid: "Q w \<Longrightarrow> Q (snd (fresh_tid w))"
  by (simp add: fresh_tid_def)

lemma keeps_new_thread_teb: "leads Q (new_thread_teb M tid sb st) Q"
  unfolding new_thread_teb_def by (intro leads_keeps keeps_map_anywhere)

lemma keeps_resume_as_is: "leads Q resume_as_is Q"
  unfolding resume_as_is_def by (intro leads_keeps) simp

end

section \<open>Choosing\<close>

lemma pick_next_Some:
  assumes "pick_next w = Some i"
  obtains k where "1 \<le> k" "k < length (os_threads w)" "i = (os_current w + k) mod length (os_threads w)"
    "runnable w i" "\<And>j. 1 \<le> j \<Longrightarrow> j < k \<Longrightarrow> \<not> runnable w ((os_current w + j) mod length (os_threads w))"
proof -
  let ?n = "length (os_threads w)"
  obtain m where m: "m < ?n - 1" "i = (os_current w + Suc m) mod ?n" "runnable w i"
      "\<forall>j < m. \<not> runnable w ((os_current w + Suc j) mod ?n)"
    using assms by (auto simp: pick_next_def Let_def find_Some_iff)
  have "\<not> runnable w ((os_current w + j) mod ?n)" if "1 \<le> j" "j < Suc m" for j
    using m(4) that by (cases j) auto
  then show ?thesis using that [of "Suc m"] m by simp
qed

lemma pick_next_other:
  assumes "pick_next w = Some n" "os_current w < length (os_threads w)"
  shows "n \<noteq> os_current w" "n < length (os_threads w)" "runnable w n"
proof -
  let ?n = "length (os_threads w)"
  obtain k where k: "1 \<le> k" "k < ?n" "n = (os_current w + k) mod ?n" "runnable w n"
    using assms(1) by (rule pick_next_Some)
  have "0 < ?n" using k(1,2) by linarith
  then show "n < ?n" unfolding k(3) by (rule mod_less_divisor)
  show "runnable w n" by (rule k(4))
  show "n \<noteq> os_current w"
  proof
    assume "n = os_current w"
    then have "(os_current w + k) mod ?n = (os_current w + 0) mod ?n" using k assms(2) by simp
    then have "?n dvd k" by (simp add: mod_eq_dvd_iff_nat)
    then show False using k by (simp add: nat_dvd_not_less)
  qed
qed

lemma pick_next_None:
  assumes "pick_next w = None" "i < length (os_threads w)" "i \<noteq> os_current w"
    "os_current w < length (os_threads w)"
  shows "\<not> runnable w i"
proof -
  let ?n = "length (os_threads w)"
  define k where "k = (if os_current w < i then i - os_current w else i + ?n - os_current w)"
  have "1 \<le> k" "k < ?n" "(os_current w + k) mod ?n = i"
    using assms(2-4) by (auto simp: k_def mod_if)
  then show ?thesis
    using assms(1) by (auto simp: pick_next_def Let_def find_None_iff)
qed

section \<open>The invariant\<close>

definition sched_ok :: "win_os \<Rightarrow> bool" where
  "sched_ok w \<longleftrightarrow>
     os_current w < length (os_threads w) \<and>
     (\<forall>i < length (os_threads w). th_state (os_threads w ! i) = Running \<longleftrightarrow> i = os_current w) \<and>
     os_current_tid w = th_tid (os_threads w ! os_current w)"

definition leaving :: "win_os \<Rightarrow> bool" where
  \<comment> \<open>the current thread has stopped and no other runs\<close>
  "leaving w \<longleftrightarrow>
     os_current w < length (os_threads w) \<and>
     (\<forall>i < length (os_threads w). th_state (os_threads w ! i) \<noteq> Running)"

lemma sched_okI:
  "os_current w < length (os_threads w) \<Longrightarrow>
    (\<And>i. i < length (os_threads w) \<Longrightarrow> th_state (os_threads w ! i) = Running \<longleftrightarrow> i = os_current w) \<Longrightarrow>
    os_current_tid w = th_tid (os_threads w ! os_current w) \<Longrightarrow> sched_ok w"
  by (simp add: sched_ok_def)

interpretation sb: os_bookkeeping sched_ok
  by unfold_locales (simp_all add: sched_ok_def)

lemma upd_thread_sel [simp]:
  "os_current (upd_thread i f w) = os_current w" "os_current_tid (upd_thread i f w) = os_current_tid w"
  "length (os_threads (upd_thread i f w)) = length (os_threads w)"
  "os_kobjects (upd_thread i f w) = os_kobjects w" "os_guest_mode32 (upd_thread i f w) = os_guest_mode32 w"
  "os_sched_ticks (upd_thread i f w) = os_sched_ticks w" "os_next_handle (upd_thread i f w) = os_next_handle w"
  by (simp_all add: upd_thread_def)

lemma upd_thread_nth:
  "j < length (os_threads w) \<Longrightarrow>
    os_threads (upd_thread i f w) ! j = (if i = j then f (os_threads w ! j) else os_threads w ! j)"
  by (auto simp: upd_thread_def nth_list_update)

lemma upd_thread_beyond: "\<not> i < length (os_threads w) \<Longrightarrow> upd_thread i f w = w"
  unfolding upd_thread_def by (subst list_update_beyond) auto

lemma upd_thread_ok:
  \<comment> \<open>a change of a thread that neither starts nor stops it\<close>
  assumes "sched_ok w" "\<And>t. th_tid (f t) = th_tid t"
    "i < length (os_threads w) \<Longrightarrow>
      th_state (f (os_threads w ! i)) = Running \<longleftrightarrow> th_state (os_threads w ! i) = Running"
  shows "sched_ok (upd_thread i f w)"
proof (cases "i < length (os_threads w)")
  case True then show ?thesis using assms by (auto simp: sched_ok_def upd_thread_nth)
next
  case False then show ?thesis using assms(1) by (simp add: upd_thread_beyond)
qed

lemma activate_sel [simp]:
  "os_current (snd (activate n w)) = n" "length (os_threads (snd (activate n w))) = length (os_threads w)"
  "os_kobjects (snd (activate n w)) = os_kobjects w" "os_sched_ticks (snd (activate n w)) = 0"
  by (simp_all add: activate_def Let_def)

lemma activate_state:
  assumes "i < length (os_threads w)"
  shows "th_state (os_threads (snd (activate n w)) ! i) = (if i = n then Running else th_state (os_threads w ! i))"
    "th_tid (os_threads (snd (activate n w)) ! i) = th_tid (os_threads w ! i)"
  using assms by (auto simp: activate_def Let_def upd_thread_nth)

lemma activate_tid: "n < length (os_threads w) \<Longrightarrow> os_current_tid (snd (activate n w)) = th_tid (os_threads w ! n)"
  by (auto simp: activate_def Let_def upd_thread_nth)

lemma activate_ok:
  assumes "leaving w" "n < length (os_threads w)"
  shows "sched_ok (snd (activate n w))"
  using assms by (auto simp: leaving_def sched_ok_def activate_state activate_tid)

lemma leaving_upd:
  assumes "sched_ok w" "th_state (f (os_threads w ! os_current w)) \<noteq> Running"
  shows "leaving (upd_thread (os_current w) f w)"
  using assms by (auto simp: leaving_def sched_ok_def upd_thread_nth)

lemma switch_from_ok:
  assumes "sched_ok w" "\<And>t. th_state (leave t) \<noteq> Running"
  shows "sched_ok (snd (snd (switch_from leave c w)))"
proof (cases "pick_next w")
  case None then show ?thesis using assms(1) by (simp add: switch_from_def)
next
  case (Some n)
  then have "n < length (os_threads w)" using assms(1) pick_next_other by (auto simp: sched_ok_def)
  then show ?thesis
    using Some activate_ok [OF leaving_upd [OF assms(1)]] assms(2) by (simp add: switch_from_def)
qed

lemma leaves_stop [simp]:
  "th_state (block_leave d t) = Blocked" "th_state (yield_leave t) = Ready"
  by (simp_all add: block_leave_def yield_leave_def)

section \<open>The services\<close>

lemma block_ok [leads_keeps]: "leads sched_ok (block_and_switch d) sched_ok"
  unfolding block_and_switch_def by (intro leads_keeps switch_from_ok) simp_all

lemma yield_ok [leads_keeps]: "leads sched_ok yield_and_switch sched_ok"
  unfolding yield_and_switch_def by (intro leads_keeps switch_from_ok) simp_all

lemma preempt_ok: "leads sched_ok (preempt_by n) sched_ok"
  unfolding preempt_by_def by (intro leads_keeps) (simp_all add: sched_ok_def)

lemma kobject_acquire_sel [simp]:
  "os_threads (snd (kobject_acquire h tid w)) = os_threads w"
  "os_current (snd (kobject_acquire h tid w)) = os_current w"
  "os_current_tid (snd (kobject_acquire h tid w)) = os_current_tid w"
  "os_next_handle (snd (kobject_acquire h tid w)) = os_next_handle w"
  by (simp_all add: kobject_acquire_def split: option.splits prod.splits)

lemma sched_ok_cong:
  "os_threads w' = os_threads w \<Longrightarrow> os_current w' = os_current w \<Longrightarrow> os_current_tid w' = os_current_tid w \<Longrightarrow>
    sched_ok w' = sched_ok w"
  by (simp add: sched_ok_def)

lemma acquire_every_sel [simp]:
  "os_threads (acquire_every tid hs w) = os_threads w \<and> os_current (acquire_every tid hs w) = os_current w \<and>
    os_current_tid (acquire_every tid hs w) = os_current_tid w \<and>
    os_next_handle (acquire_every tid hs w) = os_next_handle w"
  by (induction hs arbitrary: w) (simp_all add: acquire_every_def)

lemma acquire_first_sel [simp]:
  "os_threads (snd (acquire_first tid i hs w)) = os_threads w \<and>
    os_current (snd (acquire_first tid i hs w)) = os_current w \<and>
    os_current_tid (snd (acquire_first tid i hs w)) = os_current_tid w \<and>
    os_next_handle (snd (acquire_first tid i hs w)) = os_next_handle w"
  by (induction tid i hs w rule: acquire_first.induct)
    (auto split: prod.splits dest: arg_cong [where f = snd], (metis kobject_acquire_sel snd_conv)+)

lemma sync_ok [simp]:
  "sched_ok (snd (kobject_acquire h tid w)) = sched_ok w"
  "sched_ok (acquire_every tid hs w) = sched_ok w"
  "sched_ok (snd (acquire_first tid i hs w)) = sched_ok w"
  "sched_ok (snd (insert_kobject k w)) = sched_ok w"
  "sched_ok (put_kobject h k w) = sched_ok w"
  by (intro sched_ok_cong; simp add: insert_kobject_def alloc_khandle_def put_kobject_def)+

lemma blocked_ok [leads_keeps]: "leads sched_ok (blocked_or_zero d) sched_ok"
  unfolding blocked_or_zero_def by (intro leads_keeps)

lemma wait_single_ok: "leads sched_ok (wait_single M) sched_ok"
  unfolding wait_single_def by (intro leads_keeps) simp

lemma wait_multiple_ok: "leads sched_ok (wait_multiple M) sched_ok"
  unfolding wait_multiple_def Let_def by (intro leads_keeps) simp_all

lemma nt_wait_acquire_ok: "sched_ok (snd (nt_wait_acquire hs all_of tid w)) = sched_ok w"
  using sync_ok(3) [of tid 0 hs w]
  by (cases "acquire_first tid 0 hs w") (auto simp: nt_wait_acquire_def split: option.splits)

lemma nt_wait_ok [leads_keeps]: "leads sched_ok (nt_wait hs all_of t) sched_ok"
  unfolding nt_wait_def by (intro leads_keeps) (simp_all add: nt_wait_acquire_ok)

lemma nt_single_ok: "leads sched_ok (nt_wait_for_single_object M) sched_ok"
  unfolding nt_wait_for_single_object_def by (intro leads_keeps)

lemma nt_multiple_ok: "leads sched_ok (nt_wait_for_multiple_objects M) sched_ok"
  unfolding nt_wait_for_multiple_objects_def by (intro leads_keeps)

lemma give_up_ok [leads_keeps]: "leads sched_ok (complete_and_yield M v n) sched_ok"
  unfolding complete_and_yield_def by (intro leads_keeps)

lemma sleep_ok: "leads sched_ok (sleep M n) sched_ok"
  unfolding sleep_def by (intro leads_keeps) simp

lemma switch_to_thread_ok: "leads sched_ok (switch_to_thread M) sched_ok"
  unfolding switch_to_thread_def by (intro leads_keeps)

lemma suspend_at_ok: "sched_ok w \<Longrightarrow> sched_ok (snd (suspend_at i w))"
  unfolding suspend_at_def Let_def snd_conv by (rule upd_thread_ok) (auto simp: sched_ok_def)

lemma resume_at_ok: "sched_ok w \<Longrightarrow> sched_ok (snd (resume_at i w))"
proof -
  assume w: "sched_ok w"
  show ?thesis
  proof (cases "0 < th_suspend_count (os_threads w ! i)")
    case True
    show ?thesis unfolding resume_at_def Let_def snd_conv if_P [OF True] by (rule upd_thread_ok [OF w]) auto
  next
    case False then show ?thesis using w by (simp add: resume_at_def Let_def)
  qed
qed

lemma suspend_resume_ok:
  "leads sched_ok (suspend_thread M) sched_ok" "leads sched_ok (resume_thread M) sched_ok"
  "leads sched_ok (nt_suspend_thread M) sched_ok"
  unfolding suspend_thread_def resume_thread_def nt_suspend_thread_def
  by (intro leads_keeps suspend_at_ok resume_at_ok; assumption)+

lemma push_thread_ok: "sched_ok w \<Longrightarrow> th_state t \<noteq> Running \<Longrightarrow> sched_ok (push_thread t w)"
  by (auto simp: sched_ok_def push_thread_def nth_append less_Suc_eq)

lemmas sched_book [leads_keeps] =
  sb.keeps_map_anywhere sb.keeps_map_anywhere_low sb.keeps_new_thread_teb sb.keeps_no_memory

lemma spawn_ok [leads_keeps]: "leads sched_ok (spawn_thread M sz e p susp) sched_ok"
  unfolding spawn_thread_def Let_def
  by (intro leads_keeps sb.keeps_fresh_tid push_thread_ok) (simp_all add: new_thread_def)

lemma spawn_wow64_ok [leads_keeps]: "leads sched_ok (spawn_wow64_thread M sz e p susp) sched_ok"
  unfolding spawn_wow64_thread_def Let_def
  by (intro leads_keeps sb.keeps_fresh_tid push_thread_ok) (simp_all add: new_thread_def)

lemma create_ok:
  "leads sched_ok (create_thread M) sched_ok" "leads sched_ok (nt_create_thread_ex M) sched_ok"
  unfolding create_thread_def nt_create_thread_ex_def Let_def by (intro leads_keeps)+

section \<open>The end of a thread\<close>

lemma silent_free_stack [silent_intros]: "silent (free_thread_stack M i)"
  unfolding free_thread_stack_def unmap_if_def by (intro silent_intros)

lemma mark_terminated_sel [simp]:
  "os_threads (mark_terminated i c w) =
     os_threads (upd_thread i (\<lambda>t. t\<lparr>th_state := Terminated, th_exit_code := c\<rparr>) w)"
  "os_current (mark_terminated i c w) = os_current w"
  "os_current_tid (mark_terminated i c w) = os_current_tid w"
  by (simp_all add: mark_terminated_def Let_def put_kobject_def split: option.splits kobject.splits)

lemma mark_current_leaving: "sched_ok w \<Longrightarrow> leaving (mark_terminated (os_current w) c w)"
  using leaving_upd [of w "\<lambda>t. t\<lparr>th_state := Terminated, th_exit_code := c\<rparr>"]
  by (simp add: leaving_def)

lemma mark_other_ok:
  assumes "sched_ok w" "i \<noteq> os_current w"
  shows "sched_ok (mark_terminated i c w)"
proof -
  have "sched_ok (upd_thread i (\<lambda>t. t\<lparr>th_state := Terminated, th_exit_code := c\<rparr>) w)"
    by (rule upd_thread_ok [OF assms(1)]) (use assms in \<open>auto simp: sched_ok_def\<close>)
  then show ?thesis by (subst sched_ok_cong) auto
qed

lemma end_thread_os:
  "sw_os (snd (end_thread M i c s)) = mark_terminated i c (sw_os s)"
  using silentD [OF silent_free_stack, of M i "s\<lparr>sw_os := mark_terminated i c (sw_os s)\<rparr>"]
  by (simp add: end_thread_def em_bind_apply os_upd_def em_apply)

end
