(* ===== verification/Os_Fairness.thy ===== *)
theory Os_Fairness
  imports Os_Sched_Laws
begin

text \<open>
  Fairness. The scheduler searches the threads in cyclic order from the current one, so every
  switch brings a ready thread nearer to its turn, and a time slice bounds how many instructions
  a thread executes before the next switch.
\<close>

section \<open>The way to the turn of a thread\<close>

definition turns :: "nat \<Rightarrow> win_os \<Rightarrow> nat" where
  \<comment> \<open>how far thread \<open>i\<close> is behind the current one in the cyclic order\<close>
  "turns i w = (i + length (os_threads w) - os_current w) mod length (os_threads w)"

definition waiting :: "nat \<Rightarrow> win_os \<Rightarrow> bool" where
  "waiting i w \<longleftrightarrow> i < length (os_threads w) \<and> os_current w < length (os_threads w) \<and> i \<noteq> os_current w \<and>
     th_state (os_threads w ! i) = Ready \<and> os_sched_ticks w < TIMESLICE"

definition patience :: "nat \<Rightarrow> win_os \<Rightarrow> nat" where
  \<comment> \<open>how many steps thread \<open>i\<close> waits at most\<close>
  "patience i w = turns i w * unat TIMESLICE - unat (os_sched_ticks w)"

lemma waiting_runnable: "waiting i w \<Longrightarrow> runnable w i"
  by (simp add: waiting_def runnable_def Let_def)

lemma waiting_turns:
  assumes "waiting i w"
  shows "1 \<le> turns i w" "turns i w < length (os_threads w)"
    "(os_current w + turns i w) mod length (os_threads w) = i"
proof -
  let ?n = "length (os_threads w)"
  have *: "i < ?n" "os_current w < ?n" "i \<noteq> os_current w" using assms by (auto simp: waiting_def)
  then show "1 \<le> turns i w" "turns i w < ?n" by (auto simp: turns_def mod_if)
  show "(os_current w + turns i w) mod ?n = i"
    using * by (simp add: turns_def mod_add_right_eq)
qed

lemma waiting_picks:
  assumes "waiting i w" obtains m where "pick_next w = Some m"
proof (cases "pick_next w")
  case None
  then have "\<not> runnable w i" by (rule pick_next_None) (use assms in \<open>auto simp: waiting_def\<close>)
  then show ?thesis using waiting_runnable [OF assms] by simp
qed (use that in blast)

lemma nearer:
  assumes "waiting i w" "pick_next w = Some m" "length (os_threads w1) = length (os_threads w)"
    "os_current w1 = m" "m \<noteq> i"
  shows "turns i w1 < turns i w"
proof -
  let ?n = "length (os_threads w)" and ?d = "turns i w"
  obtain k where k: "1 \<le> k" "k < ?n" "m = (os_current w + k) mod ?n"
      "\<And>j. 1 \<le> j \<Longrightarrow> j < k \<Longrightarrow> \<not> runnable w ((os_current w + j) mod ?n)"
    using assms(2) by (rule pick_next_Some) blast
  note d = waiting_turns [OF assms(1)]
  have "\<not> ?d < k" using k(4) [OF d(1)] d(3) waiting_runnable [OF assms(1)] by auto
  moreover have "?d \<noteq> k" using k(3) d(3) assms(5) by auto
  ultimately have less: "k < ?d" by simp
  have m: "m < ?n" using k(1,2) unfolding k(3) by (intro mod_less_divisor) linarith
  have "(m + (?d - k)) mod ?n = (os_current w + (k + (?d - k))) mod ?n"
    unfolding k(3) mod_add_left_eq by (simp add: add.assoc)
  also have "\<dots> = i" using less d(3) by simp
  finally have i: "(m + (?d - k)) mod ?n = i" .
  have "(i + ?n - m) mod ?n = ?d - k"
  proof (cases "m + (?d - k) < ?n")
    case True
    then have "i + ?n - m = (?d - k) + ?n" using i by simp
    then show ?thesis using d(2) by simp
  next
    case False
    then have "(m + (?d - k)) mod ?n = (m + (?d - k) - ?n) mod ?n" by (simp add: le_mod_geq)
    moreover have "m + (?d - k) - ?n < ?n" using m d(2) by linarith
    ultimately have "i = m + (?d - k) - ?n" using i by simp
    then have "i + ?n - m = ?d - k" using False by linarith
    then show ?thesis using d(2) by simp
  qed
  then have "turns i w1 = ?d - k" by (simp add: turns_def assms(3,4))
  then show ?thesis using less k(1) by simp
qed

section \<open>Steps\<close>

definition undisturbed :: "nat \<Rightarrow> 'm sysw \<Rightarrow> 'm sysw \<Rightarrow> bool" where
  \<comment> \<open>the current thread executes; it starts no thread and does not suspend thread \<open>i\<close>\<close>
  "undisturbed i s t \<longleftrightarrow>
     os_current (sw_os t) = os_current (sw_os s) \<and> os_sched_ticks (sw_os t) = os_sched_ticks (sw_os s) \<and>
     length (os_threads (sw_os t)) = length (os_threads (sw_os s)) \<and>
     th_state (os_threads (sw_os t) ! i) = th_state (os_threads (sw_os s) ! i)"

inductive sched_step :: "'m memory_ops \<Rightarrow> nat \<Rightarrow> 'm sysw \<Rightarrow> 'm sysw \<Rightarrow> bool" for M i where
  retired: "undisturbed i s t \<Longrightarrow> sched_step M i s (snd (preempt t))"
| yielded: "undisturbed i s t \<Longrightarrow> fst (yield_and_switch t) = Inr True \<Longrightarrow> sched_step M i s (snd (yield_and_switch t))"
| blocked: "undisturbed i s t \<Longrightarrow> fst (block_and_switch d t) = Inr True \<Longrightarrow> sched_step M i s (snd (block_and_switch d t))"
| ended: "undisturbed i s t \<Longrightarrow> fst (exit_thread M c t) = Inr Resume \<Longrightarrow> sched_step M i s (snd (exit_thread M c t))"

definition progress :: "nat \<Rightarrow> win_os \<Rightarrow> win_os \<Rightarrow> bool" where
  \<comment> \<open>thread \<open>i\<close> has the processor, or it is nearer to it\<close>
  "progress i w w' \<longleftrightarrow>
     length (os_threads w') = length (os_threads w) \<and>
     (os_current w' = i \<and> th_state (os_threads w' ! i) = Running \<or> waiting i w' \<and> patience i w' < patience i w)"

lemma TIMESLICE_pos: "0 < unat TIMESLICE" "unat TIMESLICE = 50000"
  by (simp_all add: TIMESLICE_def)

lemma ticks_less: "waiting i w \<Longrightarrow> unat (os_sched_ticks w) < unat TIMESLICE"
  by (simp add: waiting_def word_less_unat)

lemma patience_pos: "waiting i w \<Longrightarrow> 0 < patience i w"
proof -
  assume w: "waiting i w"
  have "unat TIMESLICE \<le> turns i w * unat TIMESLICE"
    using mult_le_mono1 [OF waiting_turns(1) [OF w], of "unat TIMESLICE"] by (simp only: mult_1)
  then show ?thesis using ticks_less [OF w] unfolding patience_def by linarith
qed

lemma less_patience:
  assumes "waiting i w" "turns i w' < turns i w" "os_sched_ticks w' = 0"
  shows "patience i w' < patience i w"
proof -
  let ?T = "unat TIMESLICE"
  have "turns i w' * ?T + ?T \<le> turns i w * ?T"
    using mult_right_mono [of "turns i w' + 1" "turns i w" ?T] assms(2) by simp
  moreover have "unat (os_sched_ticks w) < ?T" by (rule ticks_less [OF assms(1)])
  ultimately show ?thesis using assms(3) by (simp add: patience_def)
qed

lemma activate_progress:
  assumes w: "waiting i w" and m: "pick_next w = Some m"
    and w1: "os_current w1 = os_current w" "length (os_threads w1) = length (os_threads w)"
      "th_state (os_threads w1 ! i) = Ready"
  shows "progress i w (snd (activate m w1))"
proof -
  let ?w' = "snd (activate m w1)"
  have i: "i < length (os_threads w1)" using w w1 by (simp add: waiting_def)
  have m_less: "m < length (os_threads w)" using pick_next_other [OF m] w by (simp add: waiting_def)
  show ?thesis
  proof (cases "m = i")
    case True then show ?thesis using i w1 by (simp add: progress_def activate_state)
  next
    case False
    then have "waiting i ?w'"
      using i m_less w1 by (simp add: waiting_def activate_state TIMESLICE_def)
    moreover have "turns i ?w' < turns i w" using nearer [OF w m] False w1 by simp
    then have "patience i ?w' < patience i w" by (rule less_patience [OF w]) simp
    ultimately show ?thesis using w1 by (simp add: progress_def)
  qed
qed

lemma switch_progress:
  assumes "waiting i w"
  shows "progress i w (snd (snd (switch_from leave c w)))"
proof -
  obtain m where m: "pick_next w = Some m" using assms by (rule waiting_picks)
  have "progress i w (snd (activate m (upd_thread (os_current w) (\<lambda>t. leave (t\<lparr>th_saved := c\<rparr>)) w)))"
    by (rule activate_progress [OF assms m]) (use assms in \<open>auto simp: waiting_def upd_thread_nth\<close>)
  then show ?thesis by (simp add: switch_from_def m)
qed

lemma progress_mono: "patience i w = patience i v \<Longrightarrow> length (os_threads w) = length (os_threads v) \<Longrightarrow>
    progress i w w' \<Longrightarrow> progress i v w'"
  by (simp add: progress_def)

lemma preempt_progress:
  assumes w: "waiting i (sw_os s)"
  shows "progress i (sw_os s) (sw_os (snd (preempt s)))"
proof -
  let ?w = "sw_os s" and ?T = "unat TIMESLICE"
  have two: "\<not> length (os_threads ?w) < 2" using w by (auto simp: waiting_def)
  have t: "unat (os_sched_ticks ?w) < ?T" by (rule ticks_less [OF w])
  have t': "unat (os_sched_ticks ?w + 1) = unat (os_sched_ticks ?w) + 1"
    using t unat_plus_no_wrap [of "os_sched_ticks ?w" 1] by (simp add: TIMESLICE_pos)
  note d = waiting_turns [OF w]
  show ?thesis
  proof (cases "os_sched_ticks ?w + 1 < TIMESLICE")
    case True
    let ?w' = "?w\<lparr>os_sched_ticks := os_sched_ticks ?w + 1\<rparr>"
    have "sw_os (snd (preempt s)) = ?w'"
      using two True by (simp add: preempt_def preempt_by_def em_bind_apply os_def os_upd_def em_apply)
    moreover have "waiting i ?w'" using w True by (simp add: waiting_def)
    moreover have "patience i ?w' < patience i ?w"
    proof -
      have "?T \<le> turns i ?w * ?T" using mult_le_mono1 [OF d(1), of ?T] by (simp only: mult_1)
      moreover have "patience i ?w' = turns i ?w * ?T - (unat (os_sched_ticks ?w) + 1)"
        by (simp add: patience_def turns_def t')
      ultimately show ?thesis using t unfolding patience_def by linarith
    qed
    ultimately show ?thesis by (simp add: progress_def)
  next
    case False
    let ?reset = "?w\<lparr>os_sched_ticks := 0\<rparr>"
    have e: "sw_os (snd (preempt s)) = snd (snd (switch_from yield_leave (sw_cpu s) ?reset))"
      using two False
      by (simp add: preempt_def preempt_by_def em_bind_apply os_def os_upd_def em_apply yield_and_switch_def
          on_switch_def case_prod_beta)
    have w0: "waiting i ?reset" using w by (simp add: waiting_def TIMESLICE_def)
    have "kobject_is_signaled ?reset = kobject_is_signaled ?w" by (simp add: fun_eq_iff kobject_is_signaled_def)
    then have "wait_satisfiable ?reset = wait_satisfiable ?w" by (intro ext) (simp add: wait_satisfiable_def)
    then have "runnable ?reset = runnable ?w" by (intro ext) (simp add: runnable_def Let_def split: thread_state.split option.split)
    then have sel: "pick_next ?reset = pick_next ?w" by (simp add: pick_next_def)
    from waiting_picks [OF w] obtain m where m: "pick_next (sw_os s) = Some m" by blast
    have "progress i ?w (snd (activate m (upd_thread (os_current ?w) (\<lambda>t. yield_leave (t\<lparr>th_saved := sw_cpu s\<rparr>)) ?reset)))"
      by (rule activate_progress [OF w m]) (use w in \<open>auto simp: waiting_def upd_thread_nth\<close>)
    then show ?thesis unfolding e by (simp add: switch_from_def m sel)
  qed
qed

lemma leave_progress:
  assumes "waiting i (sw_os s)"
  shows "progress i (sw_os s) (sw_os (snd (leave_thread c s)))"
proof -
  obtain m where m: "pick_next (sw_os s) = Some m" using assms by (rule waiting_picks)
  have "progress i (sw_os s) (snd (activate m (sw_os s)))"
    by (rule activate_progress [OF assms m]) (use assms in \<open>auto simp: waiting_def\<close>)
  then show ?thesis
    using m by (simp add: leave_thread_def em_bind_apply os_def em_apply activate_thread_def on_switch_def case_prod_beta)
qed

lemma exit_progress:
  assumes w: "waiting i (sw_os s)" and r: "fst (exit_thread M c s) = Inr Resume"
  shows "progress i (sw_os s) (sw_os (snd (exit_thread M c s)))"
proof -
  let ?w = "sw_os s" and ?cur = "os_current (sw_os s)"
  obtain x t where e: "end_thread M ?cur c s = (x, t)" by force
  have t: "sw_os t = mark_terminated ?cur c ?w" using end_thread_os [of M ?cur c s] by (simp add: e)
  have x: "exit_thread M c s = (case x of Inl y \<Rightarrow> (Inl y, t) | Inr _ \<Rightarrow> leave_thread c t)"
    by (simp add: exit_thread_def em_bind_apply os_def em_apply e)
  have same: "os_sched_ticks (mark_terminated ?cur c ?w) = os_sched_ticks ?w"
    by (simp add: mark_terminated_def Let_def put_kobject_def split: option.splits kobject.splits)
  have "waiting i (sw_os t)"
    using w by (auto simp: t same waiting_def upd_thread_nth)
  from leave_progress [OF this] have "progress i (sw_os t) (sw_os (snd (exit_thread M c s)))"
    using r by (cases x) (simp_all add: x)
  then show ?thesis by (rule progress_mono [rotated 2]) (simp_all add: t same patience_def turns_def)
qed

lemma undisturbed_waiting:
  assumes "undisturbed i s t" "waiting i (sw_os s)"
  shows "waiting i (sw_os t)" "patience i (sw_os t) = patience i (sw_os s)"
  using assms by (simp_all add: undisturbed_def waiting_def patience_def turns_def)

lemma step_progress:
  assumes "sched_step M i s u" "waiting i (sw_os s)"
  shows "progress i (sw_os s) (sw_os u)"
  using assms(1)
proof cases
  case (retired t)
  note t = undisturbed_waiting [OF retired(2) assms(2)]
  show ?thesis
    using preempt_progress [OF t(1)] t(2) retired(1,2) by (auto simp: undisturbed_def elim: progress_mono [rotated 2])
next
  case (yielded t)
  note t = undisturbed_waiting [OF yielded(2) assms(2)]
  show ?thesis
    using switch_progress [OF t(1), of yield_leave "sw_cpu t"] t(2) yielded(1,2)
    by (auto simp: undisturbed_def yield_and_switch_def on_switch_def case_prod_beta elim: progress_mono [rotated 2])
next
  case (blocked t d)
  note t = undisturbed_waiting [OF blocked(2) assms(2)]
  show ?thesis
    using switch_progress [OF t(1), of "block_leave d" "sw_cpu t"] t(2) blocked(1,2)
    by (auto simp: undisturbed_def block_and_switch_def on_switch_def case_prod_beta elim: progress_mono [rotated 2])
next
  case (ended t c)
  note t = undisturbed_waiting [OF ended(2) assms(2)]
  show ?thesis
    using exit_progress [OF t(1) ended(3)] t(2) ended(1,2) by (auto simp: undisturbed_def elim: progress_mono [rotated 2])
qed

lemma waits_or_runs:
  assumes "\<And>k. sched_step M i (f k) (f (Suc k))" "waiting i (sw_os (f 0))"
  shows "(\<exists>j \<le> k. os_current (sw_os (f j)) = i \<and> th_state (os_threads (sw_os (f j)) ! i) = Running) \<or>
    waiting i (sw_os (f k)) \<and> patience i (sw_os (f k)) + k \<le> patience i (sw_os (f 0))"
proof (induction k)
  case 0 then show ?case using assms(2) by simp
next
  case (Suc k)
  show ?case
  proof (cases "\<exists>j \<le> k. os_current (sw_os (f j)) = i \<and> th_state (os_threads (sw_os (f j)) ! i) = Running")
    case True then show ?thesis using le_SucI by blast
  next
    case False
    then have w: "waiting i (sw_os (f k))" "patience i (sw_os (f k)) + k \<le> patience i (sw_os (f 0))" using Suc by auto
    from step_progress [OF assms(1) w(1)] show ?thesis using w(2) by (auto simp: progress_def)
  qed
qed

lemma patience_bound:
  assumes "waiting i w"
  shows "patience i w \<le> (length (os_threads w) - 1) * 50000"
proof -
  have "turns i w \<le> length (os_threads w) - 1" using waiting_turns(2) [OF assms] by linarith
  then have "turns i w * 50000 \<le> (length (os_threads w) - 1) * 50000" by (rule mult_le_mono1)
  then show ?thesis by (simp add: patience_def TIMESLICE_pos)
qed

end
