(* ===== verification/Os_Syscall.thy ===== *)
theory Os_Syscall
  imports Os_Thread_Nt Exec
begin

text \<open>
  \<open>os/src/syscall.rs\<close> and the hooks of \<open>os/src/lib.rs\<close>: how a system call, or a call of an API
  thunk, of the guest reaches its service. The two tables of system services are fields of
  \<open>WinOs\<close> that are filled when it is built; here they are arguments, as their entries are services.
\<close>

section \<open>Service tables\<close>

definition SSDT_LEN :: nat where "SSDT_LEN = 0x400"
definition WIN32K_LEN :: nat where "WIN32K_LEN = 0x700"
definition WIN32K_TABLE_BIT :: u32 where "WIN32K_TABLE_BIT = 0x1000"

record 'm ssdt =
  sd_handlers :: "('m, u32) service list"
  sd_claimed :: "bool list"

definition ssdt_unimplemented :: "('m, u32) service" where
  "ssdt_unimplemented = em_return STATUS_NOT_IMPLEMENTED"

definition ssdt_of_length :: "nat \<Rightarrow> 'm ssdt" where
  "ssdt_of_length n = \<lparr>sd_handlers = replicate n ssdt_unimplemented, sd_claimed = replicate n False\<rparr>"

definition ssdt_new :: "'m ssdt" where "ssdt_new = ssdt_of_length SSDT_LEN"

definition ssdt_new_win32k :: "'m ssdt" where "ssdt_new_win32k = ssdt_of_length WIN32K_LEN"

definition ssdt_set_stub :: "u32 \<Rightarrow> ('m, u32) service \<Rightarrow> 'm ssdt \<Rightarrow> 'm ssdt" where
  "ssdt_set_stub index h t = t\<lparr>sd_handlers := (sd_handlers t)[unat index := h]\<rparr>"

definition ssdt_set :: "u32 \<Rightarrow> ('m, u32) service \<Rightarrow> 'm ssdt \<Rightarrow> 'm ssdt" where
  "ssdt_set index h t =
     (if unat index < length (sd_handlers t)
      then t\<lparr>sd_handlers := (sd_handlers t)[unat index := h], sd_claimed := (sd_claimed t)[unat index := True]\<rparr>
      else t)"

definition ssdt_implemented :: "u32 \<Rightarrow> 'm ssdt \<Rightarrow> bool" where
  "ssdt_implemented index t = (unat index < length (sd_claimed t) \<and> sd_claimed t ! unat index)"

definition ssdt_handler :: "'m ssdt \<Rightarrow> u32 \<Rightarrow> ('m, u32) service" where
  "ssdt_handler t index =
     (if unat index < length (sd_handlers t) then sd_handlers t ! unat index else ssdt_unimplemented)"

definition set_win32k_handler :: "u32 \<Rightarrow> ('m, u32) service \<Rightarrow> 'm ssdt \<Rightarrow> 'm ssdt" where
  "set_win32k_handler index h t = ssdt_set (index AND NOT WIN32K_TABLE_BIT) h t"

definition set_win32k_stub :: "u32 \<Rightarrow> ('m, u32) service \<Rightarrow> 'm ssdt \<Rightarrow> 'm ssdt" where
  "set_win32k_stub index h t = ssdt_set_stub (index AND NOT WIN32K_TABLE_BIT) h t"

section \<open>The context of the caller\<close>

definition UNIX_STACK_SIZE :: u64 where "UNIX_STACK_SIZE = 0x4000"
definition TEB_REGION_SIZE :: u64 where "TEB_REGION_SIZE = 0x2000"
definition FRAME_SIZE :: u64 where "FRAME_SIZE = 0x140"
definition FRAME_RIP :: u64 where "FRAME_RIP = 0x48"
definition FRAME_FLAGS :: u64 where "FRAME_FLAGS = 0x50"
definition FRAME_XMM_BASE :: u64 where "FRAME_XMM_BASE = 0x60"

definition FRAME_GPRS :: "(u64 \<times> reg) list" where
  \<comment> \<open>the nonvolatile registers and their places in the frame\<close>
  "FRAME_GPRS = [(0x00, Rbx), (0x08, Rbp), (0x10, Rsi), (0x18, Rdi), (0x20, Rsp),
     (0x28, R12), (0x30, R13), (0x38, R14), (0x40, R15)]"

definition FRAME_XMMS :: "(u64 \<times> u8) list" where
  \<comment> \<open>registers 6 to 15, 16 bytes each\<close>
  "FRAME_XMMS = map (\<lambda>i. (FRAME_XMM_BASE + of_nat i * 16, of_nat i + 6)) [0..<10]"

record host_context =
  hc_gpr :: "u64 list"
  hc_rip :: u64
  hc_flags :: u64
  hc_xmm :: "u128 list"

datatype saved_context = SavedTeb u64 | SavedHost host_context

definition syscall_frame_base :: "win_os \<Rightarrow> u64 option" where
  "syscall_frame_base w =
     (let teb = current_thread_teb w in
      if teb \<noteq> 0 then Some (teb + TEB_REGION_SIZE - FRAME_SIZE) else None)"

definition frame_words :: "cpu_state \<Rightarrow> (u64 \<times> u64) list" where
  \<comment> \<open>the return address is in \<open>rcx\<close>, the flags are in \<open>r11\<close>\<close>
  "frame_words c =
     map (\<lambda>(off, r). (off, cpu_reg r c)) FRAME_GPRS @
     [(FRAME_RIP, cpu_reg Rcx c), (FRAME_FLAGS, cpu_reg R11 c)] @
     concat (map (\<lambda>(off, n). [(off, ucast (xmm_get n c)), (off + 8, ucast (drop_bit 64 (xmm_get n c)))]) FRAME_XMMS)"

definition host_context_of :: "cpu_state \<Rightarrow> host_context" where
  "host_context_of c =
     \<lparr>hc_gpr = map (\<lambda>(off, r). cpu_reg r c) FRAME_GPRS, hc_rip = cpu_reg Rcx c, hc_flags = cpu_reg R11 c,
       hc_xmm = map (\<lambda>(off, n). xmm_get n c) FRAME_XMMS\<rparr>"

definition save_context :: "'m memory_ops \<Rightarrow> ('m, saved_context) service" where
  "save_context M =
     em_bind (os syscall_frame_base) (\<lambda>fb.
     em_bind (on_cpu id) (\<lambda>c.
     case fb of
       Some base \<Rightarrow> em_bind (on_mem (write_u64s M base (frame_words c))) (\<lambda>_. em_return (SavedTeb base))
     | None \<Rightarrow> em_return (SavedHost (host_context_of c))))"

definition non_vol :: "u64 list \<Rightarrow> cpu_state \<Rightarrow> cpu_state" where
  "non_vol gpr c = fold (\<lambda>((off, r), v). cpu_set_reg r v) (zip FRAME_GPRS gpr) c"

fun read_u64s :: "'m memory_ops \<Rightarrow> u64 \<Rightarrow> u64 list \<Rightarrow> ('m, u64 list) em" where
  "read_u64s M base [] = em_return []"
| "read_u64s M base (off # offs) =
     em_bind (mem_read_u64 M (base + off)) (\<lambda>v. em_bind (read_u64s M base offs) (\<lambda>vs. em_return (v # vs)))"

definition restore_frame_xmm :: "'m memory_ops \<Rightarrow> u64 \<Rightarrow> u64 \<times> u8 \<Rightarrow> ('m, unit) service" where
  "restore_frame_xmm M base = (\<lambda>(off, n).
     em_bind (on_mem (mem_read_u64 M (base + off))) (\<lambda>lo.
     em_bind (on_mem (mem_read_u64 M (base + off + 8))) (\<lambda>hi.
     cpu_upd (set_xmm_keep_upper n (ucast lo OR push_bit 64 (ucast hi))))))"

definition restore_context :: "'m memory_ops \<Rightarrow> saved_context \<Rightarrow> ('m, unit) service" where
  "restore_context M saved =
     (case saved of
        SavedTeb base \<Rightarrow>
          em_bind (on_mem (read_u64s M base (map fst FRAME_GPRS))) (\<lambda>gpr.
          em_bind (cpu_upd (non_vol gpr)) (\<lambda>_.
          em_bind (on_mem (mem_read_u64 M (base + FRAME_RIP))) (\<lambda>rip.
          em_bind (cpu_upd (\<lambda>c. c\<lparr>cpu_rip := rip\<rparr>)) (\<lambda>_.
          em_bind (on_mem (mem_read_u64 M (base + FRAME_FLAGS))) (\<lambda>fl.
          em_bind (cpu_upd (\<lambda>c. c\<lparr>cpu_rflags := fl\<rparr>)) (\<lambda>_.
          em_each FRAME_XMMS (restore_frame_xmm M base)))))))
      | SavedHost h \<Rightarrow>
          cpu_upd (\<lambda>c. fold (\<lambda>((off, n), v). set_xmm_keep_upper n v) (zip FRAME_XMMS (hc_xmm h))
            ((non_vol (hc_gpr h) c)\<lparr>cpu_rip := hc_rip h, cpu_rflags := hc_flags h\<rparr>)))"

definition ensure_unix_stack :: "'m memory_ops \<Rightarrow> ('m, u64) service" where
  "ensure_unix_stack M =
     em_bind (os os_unix_stack_top) (\<lambda>top0.
     if top0 \<noteq> 0 then em_return top0
     else
       em_bind (map_anywhere M UNIX_STACK_SIZE PERM_RW ''unix-stack'') (\<lambda>r.
       em_bind (case r of
           Some base \<Rightarrow> os_upd (\<lambda>w. w\<lparr>os_unix_stack_top := (base + UNIX_STACK_SIZE - 0x10) AND NOT 0xf\<rparr>)
         | None \<Rightarrow> em_return ()) (\<lambda>_.
       os os_unix_stack_top)))"

section \<open>Dispatch\<close>

definition syscall_enter :: "('m, unit) service" where
  \<comment> \<open>what the dispatcher resets before it calls the service\<close>
  "syscall_enter =
     em_bind (on_cpu cpu_rsp) (\<lambda>sp.
     em_bind (os_upd (\<lambda>w. w\<lparr>os_syscall_guest_rsp := sp, os_syscall_resume_as_is := False,
       os_pending_syscall_exit := None, os_syscall_result64 := None\<rparr>)) (\<lambda>_.
     cpu_upd (\<lambda>c. c\<lparr>cpu_rflags := cpu_rflags c AND NOT DF\<rparr>)))"

definition take_syscall_exit :: "win_os \<Rightarrow> 32 word option \<times> win_os" where
  "take_syscall_exit w = (os_pending_syscall_exit w, w\<lparr>os_pending_syscall_exit := None\<rparr>)"

definition take_syscall_result :: "u32 \<Rightarrow> win_os \<Rightarrow> u64 \<times> win_os" where
  "take_syscall_result st w =
     ((case os_syscall_result64 w of Some v \<Rightarrow> v | None \<Rightarrow> ucast st), w\<lparr>os_syscall_result64 := None\<rparr>)"

definition syscall_finish :: "'m memory_ops \<Rightarrow> saved_context \<Rightarrow> u32 \<Rightarrow> ('m, exit) service" where
  "syscall_finish M saved st =
     em_bind (os_run take_syscall_exit) (\<lambda>code.
     case code of
       Some c \<Rightarrow> em_return (ProcessExit c)
     | None \<Rightarrow>
         em_bind (os os_syscall_resume_as_is) (\<lambda>as_is.
         if as_is then em_return Continue
         else
           em_bind (restore_context M saved) (\<lambda>_.
           em_bind (os_run (take_syscall_result st)) (\<lambda>v.
           em_bind (cpu_upd (cpu_set_reg Rax v)) (\<lambda>_. em_return Continue)))))"

definition choose_handler :: "'m ssdt \<Rightarrow> 'm ssdt \<Rightarrow> u32 \<Rightarrow> ('m, u32) service" where
  "choose_handler ssdt win32k index =
     (if index AND WIN32K_TABLE_BIT \<noteq> 0 then ssdt_handler win32k (index AND NOT WIN32K_TABLE_BIT)
      else ssdt_handler ssdt index)"

definition dispatch_syscall :: "'m ssdt \<Rightarrow> 'm ssdt \<Rightarrow> 'm memory_ops \<Rightarrow> u32 \<Rightarrow> ('m, exit) service" where
  "dispatch_syscall ssdt win32k M index =
     em_bind syscall_enter (\<lambda>_.
     em_bind (save_context M) (\<lambda>saved.
     em_bind (ensure_unix_stack M) (\<lambda>unix_top.
     em_bind (em_when (unix_top \<noteq> 0) (cpu_upd (cpu_set_rsp unix_top))) (\<lambda>_.
     em_bind (choose_handler ssdt win32k index) (\<lambda>st. syscall_finish M saved st)))))"

section \<open>Hooks\<close>

definition os_retire :: "u64 \<Rightarrow> ('m, exit option) service" where
  \<comment> \<open>\<open>Hooks::retire\<close>\<close>
  "os_retire n = em_bind (preempt_by n) (\<lambda>p. em_return (if p then Some Continue else None))"

definition os_retire_budget :: "win_os \<Rightarrow> u64" where
  "os_retire_budget w = ticks_left w"

definition os_intercept ::
    "(u64 \<Rightarrow> (u32 \<times> ('m, api_outcome) service) option) \<Rightarrow> 'm memory_ops \<Rightarrow> u64 \<Rightarrow> ('m, exit option) service" where
  \<comment> \<open>\<open>Hooks::intercept\<close>; \<open>api\<close> gives the argument count and the dispatch of the API of a thunk\<close>
  "os_intercept api M rip =
     em_bind preempt (\<lambda>p.
     if p then em_return (Some Continue)
     else
       em_bind (os (\<lambda>w. rip < cf_api_base (os_cfg w) \<or> os_next_thunk w \<le> rip)) (\<lambda>outside.
       if outside then em_return None
       else
         (case api rip of
            None \<Rightarrow> em_return None
          | Some (argc, call) \<Rightarrow>
              em_bind call (\<lambda>outcome.
              case outcome of
                Return v \<Rightarrow>
                  em_bind (set_result v) (\<lambda>_.
                  em_bind (api_ret M argc) (\<lambda>_. em_return (Some Continue)))
              | Exit code \<Rightarrow> em_return (Some (ProcessExit code))
              | Resume \<Rightarrow> em_return (Some Continue)))))"

section \<open>The processor under the services\<close>

text \<open>
  The interpreter and the services share the clock (a \<open>GuestClock\<close> is an \<open>Arc\<close>): a hook starts with
  the clock of the interpreter and leaves its own there.
\<close>

definition in_world :: "('m, 'a) service \<Rightarrow> ((win_os, 'm) world, 'a) em" where
  "in_world f = (\<lambda>(h, c, k, m).
     case f \<lparr>sw_os = h\<lparr>os_clock := k\<rparr>, sw_cpu = c, sw_mem = m\<rparr> of (r, s) \<Rightarrow>
       (r, sw_os s, sw_cpu s, os_clock (sw_os s), sw_mem s))"

definition win_hooks ::
    "(u64 \<Rightarrow> (u32 \<times> ('m, api_outcome) service) option) \<Rightarrow> 'm ssdt \<Rightarrow> 'm ssdt \<Rightarrow> 'm memory_ops \<Rightarrow> (win_os, 'm) hooks" where
  \<comment> \<open>\<open>impl Hooks for WinOs\<close>\<close>
  "win_hooks api ssdt win32k M =
     \<lparr>hk_intercept = (\<lambda>rip. in_world (os_intercept api M rip)),
       hk_syscall = (\<lambda>index. in_world (dispatch_syscall ssdt win32k M index))\<rparr>"

end
