(* ===== verification/Os_Time.thy ===== *)
theory Os_Time
  imports Os_Sync_Nt
begin

text \<open>
  \<open>os/src/time.rs\<close>: the services that tell the time, from the guest clock when it is virtual and
  from the host otherwise, and the calendar of a \<open>SYSTEMTIME\<close>. What the host's clocks say is an
  argument (\<open>host_time\<close>).
\<close>

definition QPC_FREQ :: u64 where "QPC_FREQ = QPC_FREQUENCY"
definition EPOCH_DIFF_SECS :: u64 where "EPOCH_DIFF_SECS = 11644473600"
definition STATUS_ACCESS_VIOLATION :: u32 where "STATUS_ACCESS_VIOLATION = 0xC0000005"

record host_time =
  \<comment> \<open>since 1970, and since the start of the process\<close>
  ht_secs :: u64
  ht_subsec_nanos :: u32
  ht_elapsed_100ns :: u64
  ht_elapsed_ms :: u64

definition host_filetime :: "host_time \<Rightarrow> u64" where
  \<comment> \<open>\<open>filetime_now\<close>, the free function\<close>
  "host_filetime h = (ht_secs h + EPOCH_DIFF_SECS) * QPC_FREQ + ucast (ht_subsec_nanos h) div 100"

definition filetime_now :: "host_time \<Rightarrow> win_os \<Rightarrow> u64" where
  "filetime_now h w = (case filetime (os_clock w) of Some t \<Rightarrow> t | None \<Rightarrow> host_filetime h)"

definition os_monotonic_100ns :: "host_time \<Rightarrow> win_os \<Rightarrow> u64" where
  "os_monotonic_100ns h w = (case monotonic_100ns (os_clock w) of Some t \<Rightarrow> t | None \<Rightarrow> ht_elapsed_100ns h)"

definition os_tick_count_ms :: "host_time \<Rightarrow> win_os \<Rightarrow> u64" where
  "os_tick_count_ms h w = (case tick_count_ms (os_clock w) of Some t \<Rightarrow> t | None \<Rightarrow> ht_elapsed_ms h)"

section \<open>The calendar\<close>

text \<open>
  The source computes with \<open>i64\<close> values; for every \<open>u64\<close> file time they stay below \<open>2\<^sup>4\<^sup>2\<close> in
  magnitude, so that they are integers here. The division of a negative value by the length of
  an era rounds to zero, as in the source.
\<close>

definition trunc_div :: "int \<Rightarrow> int \<Rightarrow> int" where
  \<comment> \<open>\<open>/\<close> of Rust's signed integers, for a positive divisor\<close>
  "trunc_div a b = (if 0 \<le> a then a div b else - (- a div b))"

definition civil_from_days :: "int \<Rightarrow> int \<times> int \<times> int" where
  \<comment> \<open>year, month and day of a number of days since 1970\<close>
  "civil_from_days days =
     (let z = days + 719468;
          era = trunc_div (if 0 \<le> z then z else z - 146096) 146097;
          doe = z - era * 146097;
          yoe = trunc_div (doe - trunc_div doe 1460 + trunc_div doe 36524 - trunc_div doe 146096) 365;
          year = yoe + era * 400;
          doy = doe - (365 * yoe + trunc_div yoe 4 - trunc_div yoe 100);
          mp = trunc_div (5 * doy + 2) 153;
          day = doy - trunc_div (153 * mp + 2) 5 + 1;
          month = (if mp < 10 then mp + 3 else mp - 9)
      in (year + (if month \<le> 2 then 1 else 0), month, day))"

definition systemtime_fields :: "u64 \<Rightarrow> u16 list" where
  "systemtime_fields ft =
     (let secs = uint (ft div QPC_FREQ) - uint EPOCH_DIFF_SECS;
          ms = ucast ((ft mod QPC_FREQ) div 10000);
          days = secs div 86400;
          secs_of_day = secs mod 86400
      in case civil_from_days days of (year, month, day) \<Rightarrow>
           [word_of_int year, word_of_int month, word_of_int ((days mod 7 + 4) mod 7), word_of_int day,
            word_of_int (trunc_div secs_of_day 3600), word_of_int (trunc_div (secs_of_day mod 3600) 60),
            word_of_int (secs_of_day mod 60), ms])"

section \<open>Services\<close>

definition get_tick_count :: "host_time \<Rightarrow> ('m, api_outcome) service" where
  "get_tick_count h = em_bind (os (os_tick_count_ms h)) (\<lambda>t. em_return (Return t))"

definition put_u64 :: "'m memory_ops \<Rightarrow> u64 \<Rightarrow> u64 \<Rightarrow> ('m, unit) service" where
  "put_u64 M ptr v = em_when (ptr \<noteq> 0) (on_mem (mem_write_u64 M ptr v))"

definition query_performance_counter :: "'m memory_ops \<Rightarrow> host_time \<Rightarrow> ('m, api_outcome) service" where
  "query_performance_counter M h =
     em_bind (api_arg M 0) (\<lambda>ptr.
     em_bind (os (os_monotonic_100ns h)) (\<lambda>t.
     em_bind (put_u64 M ptr t) (\<lambda>_. em_return (Return 1))))"

definition query_performance_frequency :: "'m memory_ops \<Rightarrow> ('m, api_outcome) service" where
  "query_performance_frequency M =
     em_bind (api_arg M 0) (\<lambda>ptr. em_bind (put_u64 M ptr QPC_FREQ) (\<lambda>_. em_return (Return 1)))"

definition get_system_time_as_filetime :: "'m memory_ops \<Rightarrow> host_time \<Rightarrow> ('m, api_outcome) service" where
  "get_system_time_as_filetime M h =
     em_bind (api_arg M 0) (\<lambda>ptr.
     em_bind (os (filetime_now h)) (\<lambda>t.
     em_bind (put_u64 M ptr t) (\<lambda>_. em_return (Return 0))))"

fun write_u16s :: "'m memory_ops \<Rightarrow> u64 \<Rightarrow> nat \<Rightarrow> u16 list \<Rightarrow> ('m, unit) em" where
  "write_u16s M ptr i [] = em_return ()"
| "write_u16s M ptr i (v # vs) =
     em_bind (mem_write_u16 M (ptr + of_nat i * 2) v) (\<lambda>_. write_u16s M ptr (Suc i) vs)"

definition get_system_time :: "'m memory_ops \<Rightarrow> host_time \<Rightarrow> ('m, api_outcome) service" where
  "get_system_time M h =
     em_bind (api_arg M 0) (\<lambda>ptr.
     em_bind (os (filetime_now h)) (\<lambda>t.
     em_bind (em_when (ptr \<noteq> 0) (on_mem (write_u16s M ptr 0 (systemtime_fields t)))) (\<lambda>_.
     em_return (Return 0))))"

definition nt_query_system_time :: "'m memory_ops \<Rightarrow> host_time \<Rightarrow> ('m, u32) service" where
  "nt_query_system_time M h =
     em_bind (syscall_arg M 0) (\<lambda>ptr.
     if ptr = 0 then status STATUS_ACCESS_VIOLATION
     else
       em_bind (os (filetime_now h)) (\<lambda>t.
       em_bind (on_mem (mem_write_u64 M ptr t)) (\<lambda>_. status STATUS_SUCCESS)))"

definition nt_query_performance_counter :: "'m memory_ops \<Rightarrow> host_time \<Rightarrow> ('m, u32) service" where
  "nt_query_performance_counter M h =
     em_bind (syscall_arg M 0) (\<lambda>counter_ptr.
     em_bind (syscall_arg M 1) (\<lambda>freq_ptr.
     if counter_ptr = 0 then status STATUS_ACCESS_VIOLATION
     else
       em_bind (os (os_monotonic_100ns h)) (\<lambda>t.
       em_bind (on_mem (mem_write_u64 M counter_ptr t)) (\<lambda>_.
       em_bind (put_u64 M freq_ptr QPC_FREQ) (\<lambda>_. status STATUS_SUCCESS)))))"

end
