(* ===== verification/Os_Data.thy ===== *)
theory Os_Data
  imports Os_State
begin

text \<open>
  Process data that the services keep themselves: the heap, a bump allocator (\<open>heap_alloc\<close> of
  \<open>os/src/lib.rs\<close> and the heap services of \<open>os/src/api.rs\<close>), the thread-local slots, and the
  environment variables with their expansion.
\<close>

section \<open>The heap\<close>

definition HANDLE_PROCESS_HEAP :: u64 where "HANDLE_PROCESS_HEAP = 0x00AB0000"

definition heap_alloc :: "u64 \<Rightarrow> win_os \<Rightarrow> u64 \<times> win_os" where
  \<comment> \<open>the sums that align the pointer wrap; the one that ends the block is checked\<close>
  "heap_alloc sz w =
     (let ptr = (os_heap_next w + 16 - 1) AND NOT (16 - 1);
          stored = max sz 1
      in if unat ptr + unat stored < 2 ^ 64 \<and> ptr + stored \<le> cf_heap_base (os_cfg w) + cf_heap_size (os_cfg w)
         then (ptr, w\<lparr>os_heap_next := ptr + stored, os_heap_sizes := (os_heap_sizes w)(ptr \<mapsto> stored)\<rparr>)
         else (0, w\<lparr>os_last_error := 8\<rparr>))"

definition heap_free :: "u64 \<Rightarrow> win_os \<Rightarrow> win_os" where
  \<comment> \<open>the last block is given back to the arena\<close>
  "heap_free ptr w =
     (if ptr = 0 then w
      else (case os_heap_sizes w ptr of
              None \<Rightarrow> w
            | Some sz \<Rightarrow>
                w\<lparr>os_heap_sizes := (os_heap_sizes w)(ptr := None),
                  os_heap_next := (if os_heap_next w = ptr + sz then ptr else os_heap_next w)\<rparr>))"

fun copy_bytes :: "'m memory_ops \<Rightarrow> u64 \<Rightarrow> u64 \<Rightarrow> nat \<Rightarrow> nat \<Rightarrow> ('m, unit) em" where
  "copy_bytes M new old i 0 = em_return ()"
| "copy_bytes M new old i (Suc n) =
     em_bind (mem_read_u8 M (old + of_nat i)) (\<lambda>b.
     em_bind (mem_write_u8 M (new + of_nat i) b) (\<lambda>_. copy_bytes M new old (Suc i) n))"

definition heap_alloc_at :: "'m memory_ops \<Rightarrow> nat \<Rightarrow> ('m, api_outcome) service" where
  \<comment> \<open>\<open>HeapAlloc\<close>, \<open>GlobalAlloc\<close> and \<open>malloc\<close> with their size argument\<close>
  "heap_alloc_at M i = em_bind (api_arg M i) (\<lambda>sz. em_bind (os_run (heap_alloc sz)) (\<lambda>p. em_return (Return p)))"

definition api_heap_realloc :: "'m memory_ops \<Rightarrow> ('m, api_outcome) service" where
  "api_heap_realloc M =
     em_bind (api_arg M 2) (\<lambda>old.
     em_bind (api_arg M 3) (\<lambda>new_size.
     em_bind (os_run (heap_alloc new_size)) (\<lambda>new.
     em_bind (os (\<lambda>w. case os_heap_sizes w old of Some n \<Rightarrow> n | None \<Rightarrow> new_size)) (\<lambda>old_size.
     em_bind (em_when (new \<noteq> 0 \<and> old \<noteq> 0) (on_mem (copy_bytes M new old 0 (unat (min old_size new_size))))) (\<lambda>_.
     em_return (Return new))))))"

definition api_heap_free :: "'m memory_ops \<Rightarrow> ('m, api_outcome) service" where
  "api_heap_free M = em_bind (api_arg M 2) (\<lambda>ptr. em_bind (os_upd (heap_free ptr)) (\<lambda>_. em_return (Return 1)))"

definition saturating_mul :: "u64 \<Rightarrow> u64 \<Rightarrow> u64" where
  "saturating_mul a b = (if unat a * unat b < 2 ^ 64 then a * b else - 1)"

definition api_calloc :: "'m memory_ops \<Rightarrow> ('m, api_outcome) service" where
  "api_calloc M =
     em_bind (api_arg M 0) (\<lambda>num.
     em_bind (api_arg M 1) (\<lambda>sz.
     em_bind (os_run (heap_alloc (saturating_mul num sz))) (\<lambda>p. em_return (Return p))))"

definition api_realloc :: "'m memory_ops \<Rightarrow> ('m, api_outcome) service" where
  \<comment> \<open>copies as many bytes as the new block has\<close>
  "api_realloc M =
     em_bind (api_arg M 0) (\<lambda>old.
     em_bind (api_arg M 1) (\<lambda>sz.
     em_bind (os_run (heap_alloc sz)) (\<lambda>new.
     em_bind (em_when (new \<noteq> 0 \<and> old \<noteq> 0) (on_mem (copy_bytes M new old 0 (unat sz)))) (\<lambda>_.
     em_return (Return new)))))"

definition api_global_realloc :: "'m memory_ops \<Rightarrow> ('m, api_outcome) service" where
  "api_global_realloc M =
     em_bind (api_arg M 0) (\<lambda>old.
     em_bind (api_arg M 1) (\<lambda>sz.
     em_bind (os_run (heap_alloc sz)) (\<lambda>new.
     em_bind (em_when (new \<noteq> 0 \<and> old \<noteq> 0)
       (em_bind (on_mem (mo_read M old (unat sz))) (\<lambda>tmp. on_mem (mo_write M new tmp)))) (\<lambda>_.
     em_return (Return new)))))"

section \<open>Thread-local slots\<close>

definition tls_values :: "bool \<Rightarrow> thread \<Rightarrow> u64 \<rightharpoonup> u64" where
  "tls_values fiber t = (if fiber then th_fls t else th_tls t)"

definition upd_tls_values :: "bool \<Rightarrow> ((u64 \<rightharpoonup> u64) \<Rightarrow> u64 \<rightharpoonup> u64) \<Rightarrow> thread \<Rightarrow> thread" where
  "upd_tls_values fiber f t = (if fiber then t\<lparr>th_fls := f (th_fls t)\<rparr> else t\<lparr>th_tls := f (th_tls t)\<rparr>)"

definition tls_alloc_map :: "bool \<Rightarrow> win_os \<Rightarrow> bool list" where
  "tls_alloc_map fiber w = (if fiber then os_fls_alloc w else os_tls_alloc w)"

definition set_tls_alloc_map :: "bool \<Rightarrow> bool list \<Rightarrow> win_os \<Rightarrow> win_os" where
  "set_tls_alloc_map fiber m w = (if fiber then w\<lparr>os_fls_alloc := m\<rparr> else w\<lparr>os_tls_alloc := m\<rparr>)"

definition clear_slot :: "bool \<Rightarrow> u64 \<Rightarrow> win_os \<Rightarrow> win_os" where
  "clear_slot fiber i w =
     w\<lparr>os_threads := map (upd_tls_values fiber (\<lambda>m. m(i := None))) (os_threads w)\<rparr>"

definition tls_alloc :: "bool \<Rightarrow> win_os \<Rightarrow> u64 \<times> win_os" where
  "tls_alloc fiber w =
     (let m = tls_alloc_map fiber w;
          (i, m') = (case position Not m of Some i \<Rightarrow> (i, m[i := True]) | None \<Rightarrow> (length m, m @ [True]))
      in (of_nat i, clear_slot fiber (of_nat i) (set_tls_alloc_map fiber m' w)))"

definition tls_set :: "bool \<Rightarrow> u64 \<Rightarrow> u64 \<Rightarrow> win_os \<Rightarrow> bool \<times> win_os" where
  "tls_set fiber i v w =
     (True, w\<lparr>os_threads := (os_threads w)[os_current w :=
        upd_tls_values fiber (\<lambda>m. m(i \<mapsto> v)) (os_threads w ! os_current w)]\<rparr>)"

definition tls_get :: "bool \<Rightarrow> u64 \<Rightarrow> win_os \<Rightarrow> u64" where
  "tls_get fiber i w = (case tls_values fiber (os_threads w ! os_current w) i of Some v \<Rightarrow> v | None \<Rightarrow> 0)"

definition tls_free :: "bool \<Rightarrow> u64 \<Rightarrow> win_os \<Rightarrow> bool \<times> win_os" where
  "tls_free fiber i w =
     (let m = tls_alloc_map fiber w in
      (True, clear_slot fiber i
        (if unat i < length m then set_tls_alloc_map fiber (m[unat i := False]) w else w)))"

section \<open>The environment\<close>

definition eq_ignore_ascii_case :: "string \<Rightarrow> string \<Rightarrow> bool" where
  "eq_ignore_ascii_case a b \<longleftrightarrow> to_ascii_lowercase a = to_ascii_lowercase b"

definition env_lookup :: "(string \<times> string) list \<Rightarrow> string \<Rightarrow> string option" where
  "env_lookup env name = map_option snd (List.find (\<lambda>(k, v). eq_ignore_ascii_case k name) env)"

definition env_get :: "string \<Rightarrow> win_os \<Rightarrow> string option" where
  "env_get name w = env_lookup (os_env w) name"

definition env_update :: "string \<Rightarrow> string option \<Rightarrow> (string \<times> string) list \<Rightarrow> (string \<times> string) list" where
  "env_update name value env =
     (case (position (\<lambda>(k, v). eq_ignore_ascii_case k name) env, value) of
        (Some i, Some v) \<Rightarrow> env[i := (fst (env ! i), v)]
      | (Some i, None) \<Rightarrow> remove_at i env
      | (None, Some v) \<Rightarrow> env @ [(name, v)]
      | (None, None) \<Rightarrow> env)"

definition env_set :: "string \<Rightarrow> string option \<Rightarrow> win_os \<Rightarrow> win_os" where
  "env_set name value w = w\<lparr>os_env := env_update name value (os_env w)\<rparr>"

definition set_environment :: "(string \<times> string) list \<Rightarrow> win_os \<Rightarrow> win_os" where
  "set_environment env w = (if env \<noteq> [] then w\<lparr>os_env := env\<rparr> else w)"

definition PERCENT :: char where "PERCENT = CHR 0x25"

definition split_percent :: "string \<Rightarrow> (string \<times> string) option" where
  \<comment> \<open>what is before and after the first percent sign\<close>
  "split_percent s = map_option (\<lambda>i. (take i s, drop (Suc i) s)) (position (\<lambda>c. c = PERCENT) s)"

lemma split_percent_shorter: "split_percent s = Some (a, b) \<Longrightarrow> length b < length s"
  by (auto simp: split_percent_def position_def Let_def split: if_splits)

function expand_with :: "(string \<Rightarrow> string option) \<Rightarrow> string \<Rightarrow> string" where
  "expand_with look src =
     (case split_percent src of
        None \<Rightarrow> src
      | Some (before, after) \<Rightarrow>
          before @
          (case split_percent after of
             None \<Rightarrow> PERCENT # after
           | Some (name, rest) \<Rightarrow>
               (case look name of Some v \<Rightarrow> v | None \<Rightarrow> PERCENT # name @ [PERCENT]) @ expand_with look rest))"
  by pat_completeness auto
termination
  by (relation "measure (\<lambda>(look, src). length src)")
    (auto dest!: split_percent_shorter intro: less_trans)

declare expand_with.simps [simp del]

definition expand_env :: "string \<Rightarrow> win_os \<Rightarrow> string" where
  "expand_env src w = expand_with (\<lambda>name. env_get name w) src"

definition env_block_ansi :: "win_os \<Rightarrow> bytes" where
  "env_block_ansi w =
     concat (map (\<lambda>(k, v). map of_char (k @ ''='' @ v) @ [0]) (os_env w)) @ [0]"

section \<open>Strings of the guest\<close>

fun astr_bytes :: "'m memory_ops \<Rightarrow> u64 \<Rightarrow> nat \<Rightarrow> u64 \<Rightarrow> ('m, bytes) em" where
  \<comment> \<open>the loop of \<open>read_astr\<close>: it stops at a zero byte, or when \<open>i\<close> exceeds \<open>2\<^sup>2\<^sup>0\<close>\<close>
  "astr_bytes M addr 0 i = em_return []"
| "astr_bytes M addr (Suc n) i =
     em_bind (mem_read_u8 M (addr + i)) (\<lambda>b.
     if b = 0 \<or> 2 ^ 20 < i then em_return []
     else em_bind (astr_bytes M addr n (i + 1)) (\<lambda>rest. em_return (b # rest)))"

definition read_astr :: "'m memory_ops \<Rightarrow> u64 \<Rightarrow> ('m, string) em" where
  "read_astr M addr =
     (if addr = 0 then em_return []
      else em_bind (astr_bytes M addr (2 ^ 20 + 2) 0) (\<lambda>bs. em_return (utf8_lossy bs)))"

definition read_path :: "'m memory_ops \<Rightarrow> u64 \<Rightarrow> bool \<Rightarrow> ('m, string) em" where
  "read_path M addr wide = (if wide then read_wstr M addr else read_astr M addr)"

definition api_set_environment_variable :: "'m memory_ops \<Rightarrow> bool \<Rightarrow> ('m, api_outcome) service" where
  "api_set_environment_variable M wide =
     em_bind (api_arg M 0) (\<lambda>name_ptr.
     em_bind (api_arg M 1) (\<lambda>value_ptr.
     em_bind (on_mem (read_path M name_ptr wide)) (\<lambda>name.
     if name = [] then em_return (Return 0)
     else
       em_bind (if value_ptr = 0 then em_return None
                else em_bind (on_mem (read_path M value_ptr wide)) (\<lambda>v. em_return (Some v))) (\<lambda>value.
       em_bind (os_upd (env_set name value)) (\<lambda>_. em_return (Return 1))))))"

definition api_get_environment_variable_a :: "'m memory_ops \<Rightarrow> ('m, api_outcome) service" where
  \<comment> \<open>\<open>GetEnvironmentVariableA\<close>\<close>
  "api_get_environment_variable_a M =
     em_bind (api_arg M 0) (\<lambda>name_ptr.
     em_bind (api_arg M 1) (\<lambda>buf.
     em_bind (api_arg M 2) (\<lambda>sz.
     em_bind (on_mem (read_astr M name_ptr)) (\<lambda>name.
     em_bind (os (env_get name)) (\<lambda>found.
     case found of
       None \<Rightarrow> em_bind (set_last_error 203) (\<lambda>_. em_return (Return 0))
     | Some value \<Rightarrow>
         if unat sz < length value + 1 then em_return (Return (of_nat (length value) + 1))
         else
           em_bind (on_mem (mo_write M buf (map of_char value))) (\<lambda>_.
           em_bind (on_mem (mem_write_u8 M (buf + of_nat (length value)) 0)) (\<lambda>_.
           em_return (Return (of_nat (length value))))))))))"

end
