(* ===== verification/Os_Exc.thy ===== *)
theory Os_Exc
  imports Os_Thread_Nt Os_Time Os_Data
begin

text \<open>
  \<open>os/src/exc.rs\<close>: structured exceptions. A hardware fault is delivered by building the frame of
  \<open>KiUserExceptionDispatcher\<close> on the stack of the thread: the context, the exception record and a
  machine frame. A software exception is dispatched by the services themselves, which walk the
  stack with the virtual unwinder and call one language handler after another. Deliveries that the
  guest never resumes from are bounded (\<open>ExcChain\<close>). \<open>nt_continue\<close> and the start through the loader of
  the guest are in \<open>os/src/boot.rs\<close>.
\<close>

section \<open>Constants\<close>

definition CONTEXT_SIZE :: u64 where "CONTEXT_SIZE = 0x4d0"
definition RVA_KI_USER_EXCEPTION_DISPATCHER :: u64 where "RVA_KI_USER_EXCEPTION_DISPATCHER = 0x10a30"
definition EXC_FRAME_BYTES :: u64 where "EXC_FRAME_BYTES = 0x5C0"
definition EXCEPTION_RECORD_SIZE :: u64 where "EXCEPTION_RECORD_SIZE = 0x20 + 15 * 8"
definition ER_CODE :: u64 where "ER_CODE = 0x00"
definition ER_FLAGS :: u64 where "ER_FLAGS = 0x04"
definition ER_NESTED :: u64 where "ER_NESTED = 0x08"
definition ER_ADDRESS :: u64 where "ER_ADDRESS = 0x10"
definition ER_NUM_PARAMS :: u64 where "ER_NUM_PARAMS = 0x18"
definition ER_INFO :: u64 where "ER_INFO = 0x20"
definition EXCEPTION_UNWINDING :: u32 where "EXCEPTION_UNWINDING = 0x2"
definition EXCEPTION_CONTINUE_EXECUTION :: u64 where "EXCEPTION_CONTINUE_EXECUTION = 0"
definition DISPATCHER_CONTEXT_SIZE :: u64 where "DISPATCHER_CONTEXT_SIZE = 0x50"
definition OFF_CONTEXT_FLAGS :: u64 where "OFF_CONTEXT_FLAGS = 0x30"
definition OFF_MXCSR :: u64 where "OFF_MXCSR = 0x34"
definition OFF_EFLAGS :: u64 where "OFF_EFLAGS = 0x44"
definition OFF_GPR :: u64 where "OFF_GPR = 0x78"
definition OFF_RIP :: u64 where "OFF_RIP = 0xf8"
definition OFF_XMM0 :: u64 where "OFF_XMM0 = 0x1a0"
definition OFF_SEG_CS :: u64 where "OFF_SEG_CS = 0x38"
definition OFF_SEGS :: "u64 list" where
  \<comment> \<open>DS, ES, FS, GS, SS\<close>
  "OFF_SEGS = [0x3a, 0x3c, 0x3e, 0x40, 0x42]"
definition CONTEXT_AMD64 :: u32 where "CONTEXT_AMD64 = 0x00100000"
definition CONTEXT_SEGMENTS :: u32 where "CONTEXT_SEGMENTS = CONTEXT_AMD64 OR 0x4"
definition CONTEXT_ALL :: u32 where
  "CONTEXT_ALL = (CONTEXT_AMD64 OR 0x1) OR (CONTEXT_AMD64 OR 0x2) OR (CONTEXT_AMD64 OR 0x8)"
definition MAX_DISPATCH_FRAMES :: nat where "MAX_DISPATCH_FRAMES = 4096"

definition LAST_RESORT :: string where
  "LAST_RESORT = ''the guest's own exception dispatcher found no handler and asked the kernel to terminate the process (NtRaiseException, FirstChance = FALSE)''"

definition RE_DELIVERY_BOUND :: string where
  "RE_DELIVERY_BOUND = ''exemu stopped re-delivering it: the guest never resumed from it, so nothing handled it''"

datatype trap_mode = Long | Compat32

record trap =
  tr_code :: u32
  tr_address :: u64
  tr_info :: "u64 list"
  tr_mode :: trap_mode

section \<open>The chain of deliveries\<close>

definition MAX_IDENTICAL_DELIVERIES :: u32 where "MAX_IDENTICAL_DELIVERIES = 3"
definition MAX_CHAIN_DELIVERIES :: u32 where "MAX_CHAIN_DELIVERIES = 32"

definition note_delivery :: "u32 \<Rightarrow> u64 \<Rightarrow> u64 \<Rightarrow> exc_chain \<Rightarrow> unhandled_exception option \<times> exc_chain" where
  "note_delivery code address rip e =
     (let e = (if ec_first e = None then e\<lparr>ec_first := Some (code, address)\<rparr> else e);
          e = (if ec_last e = Some (code, address, rip) then e\<lparr>ec_repeats := ec_repeats e + 1\<rparr>
               else e\<lparr>ec_last := Some (code, address, rip), ec_repeats := 1\<rparr>);
          e = e\<lparr>ec_depth := ec_depth e + 1\<rparr>
      in if MAX_IDENTICAL_DELIVERIES \<le> ec_repeats e \<or> MAX_CHAIN_DELIVERIES < ec_depth e
         then (case ec_first e of
                 Some (c, a) \<Rightarrow> (Some \<lparr>uh_code = c, uh_address = a, uh_how = RE_DELIVERY_BOUND\<rparr>, e)
               | None \<Rightarrow> (Some \<lparr>uh_code = code, uh_address = address, uh_how = RE_DELIVERY_BOUND\<rparr>, e))
         else (None, e))"

definition note_exception_delivery :: "u32 \<Rightarrow> u64 \<Rightarrow> u64 \<Rightarrow> win_os \<Rightarrow> unhandled_exception option \<times> win_os" where
  \<comment> \<open>\<open>Some\<close> is the error of the source's \<open>Result\<close>\<close>
  "note_exception_delivery code address rip w =
     (case note_delivery code address rip (os_exc_chain w) of
        (Some u, e) \<Rightarrow> (Some u, w\<lparr>os_exc_chain := e, os_unhandled := Some u\<rparr>)
      | (None, e) \<Rightarrow> (None, w\<lparr>os_exc_chain := e\<rparr>))"

definition note_exception_resumed :: "win_os \<Rightarrow> win_os" where
  "note_exception_resumed w = w\<lparr>os_exc_chain := exc_chain_default\<rparr>"

definition take_unhandled_exception :: "win_os \<Rightarrow> unhandled_exception option \<times> win_os" where
  "take_unhandled_exception w = (os_unhandled w, w\<lparr>os_unhandled := None\<rparr>)"

definition module_base :: "string \<Rightarrow> win_os \<Rightarrow> u64 option" where
  \<comment> \<open>\<open>dll.rs\<close>: a module that is loaded and has an export table\<close>
  "module_base name w =
     (case os_by_name w name of None \<Rightarrow> None | Some base \<Rightarrow> if os_has_exports w base then Some base else None)"

section \<open>Records in guest memory\<close>

fun write_words :: "'m memory_ops \<Rightarrow> u64 \<Rightarrow> u64 list \<Rightarrow> ('m, unit) em" where
  \<comment> \<open>consecutive 64-bit words\<close>
  "write_words M addr [] = em_return ()"
| "write_words M addr (v # vs) = em_bind (mem_write_u64 M addr v) (\<lambda>_. write_words M (addr + 8) vs)"

definition write_exception_record ::
    "'m memory_ops \<Rightarrow> u64 \<Rightarrow> u32 \<Rightarrow> u32 \<Rightarrow> u64 \<Rightarrow> u64 list \<Rightarrow> ('m, unit) em" where
  "write_exception_record M addr code fl address params =
     em_bind (mem_write_u32 M (addr + ER_CODE) code) (\<lambda>_.
     em_bind (mem_write_u32 M (addr + ER_FLAGS) fl) (\<lambda>_.
     em_bind (mem_write_u64 M (addr + ER_NESTED) 0) (\<lambda>_.
     em_bind (mem_write_u64 M (addr + ER_ADDRESS) address) (\<lambda>_.
     em_bind (mem_write_u32 M (addr + ER_NUM_PARAMS) (of_nat (min (length params) 15))) (\<lambda>_.
     write_words M (addr + ER_INFO) (take 15 params))))))"

definition set_record_flags :: "'m memory_ops \<Rightarrow> u64 \<Rightarrow> u32 \<Rightarrow> ('m, unit) em" where
  "set_record_flags M addr fl = mem_write_u32 M (addr + ER_FLAGS) fl"

definition record_flags :: "'m memory_ops \<Rightarrow> u64 \<Rightarrow> ('m, u32) em" where
  "record_flags M addr = mem_read_u32 M (addr + ER_FLAGS)"

record dispatcher_context =
  dc_control_pc :: u64
  dc_image_base :: u64
  dc_function_entry :: u64
  dc_establisher_frame :: u64
  dc_target_ip :: u64
  dc_context_record :: u64
  dc_language_handler :: u64
  dc_handler_data :: u64

definition write_dispatcher_context :: "'m memory_ops \<Rightarrow> u64 \<Rightarrow> dispatcher_context \<Rightarrow> ('m, unit) em" where
  "write_dispatcher_context M addr d =
     write_words M addr [dc_control_pc d, dc_image_base d, dc_function_entry d, dc_establisher_frame d,
       dc_target_ip d, dc_context_record d, dc_language_handler d, dc_handler_data d, 0, 0]"

definition write_context :: "'m memory_ops \<Rightarrow> u64 \<Rightarrow> cpu_state \<Rightarrow> ('m, unit) em" where
  "write_context M addr c =
     em_bind (mem_write_u32 M (addr + OFF_CONTEXT_FLAGS) CONTEXT_ALL) (\<lambda>_.
     em_bind (mem_write_u32 M (addr + OFF_MXCSR) 0x1f80) (\<lambda>_.
     em_bind (mem_write_u32 M (addr + OFF_EFLAGS) (ucast (cpu_rflags c))) (\<lambda>_.
     em_bind (em_each [0..<16] (\<lambda>i. mem_write_u64 M (addr + OFF_GPR + of_nat i * 8) (cpu_gpr c (of_nat i)))) (\<lambda>_.
     em_bind (mem_write_u64 M (addr + OFF_RIP) (cpu_rip c)) (\<lambda>_.
     em_each [0..<16] (\<lambda>i. mo_write M (addr + OFF_XMM0 + of_nat i * 16) (to_le 16 (cpu_xmm c (of_nat i)))))))))"

fun read_into :: "(nat \<Rightarrow> ('m, 'a) em) \<Rightarrow> (nat \<Rightarrow> 'a \<Rightarrow> cpu_state \<Rightarrow> cpu_state) \<Rightarrow> nat list \<Rightarrow> cpu_state \<Rightarrow> ('m, cpu_state) em" where
  \<comment> \<open>a loop that reads one register after another\<close>
  "read_into rd put [] c = em_return c"
| "read_into rd put (i # is) c = em_bind (rd i) (\<lambda>v. read_into rd put is (put i v c))"

definition read_context :: "'m memory_ops \<Rightarrow> u64 \<Rightarrow> ('m, cpu_state) em" where
  "read_context M addr =
     em_bind (read_into (\<lambda>i. mem_read_u64 M (addr + OFF_GPR + of_nat i * 8))
       (\<lambda>i v c. c\<lparr>cpu_gpr := (cpu_gpr c)(of_nat i := v)\<rparr>) [0..<16] cpu_state_new) (\<lambda>c.
     em_bind (mem_read_u64 M (addr + OFF_RIP)) (\<lambda>rip.
     em_bind (mem_read_u32 M (addr + OFF_EFLAGS)) (\<lambda>fl.
     let c = c\<lparr>cpu_rip := rip, cpu_rflags := (ucast fl AND NOT RESERVED_ONE) OR RESERVED_ONE\<rparr> in
     read_into (\<lambda>i. mo_read M (addr + OFF_XMM0 + of_nat i * 16) 16)
       (\<lambda>i b c. c\<lparr>cpu_xmm := (cpu_xmm c)(of_nat i := from_le b)\<rparr>) [0..<16] c)))"

section \<open>Hardware faults\<close>

definition deliver_hw_exception :: "'m memory_ops \<Rightarrow> u64 \<Rightarrow> trap \<Rightarrow> ('m, unit) service" where
  "deliver_hw_exception M ntdll_base t =
     em_bind (on_cpu id) (\<lambda>c.
     let old_rsp = cpu_rsp c in
     if old_rsp < EXC_FRAME_BYTES then
       em_fail (Os (''cannot deliver exception '' @ fmt_hex (unat (tr_code t)) @ '': rsp '' @ fmt_hex (unat old_rsp)
         @ '' is below the 0x5c0-byte KiUserExceptionDispatcher frame''))
     else
       let new_rsp = (old_rsp - EXC_FRAME_BYTES) AND NOT 0xF;
           cs = (case tr_mode t of Long \<Rightarrow> SEL_CS64 | Compat32 \<Rightarrow> SEL_CS32) in
       em_bind (on_mem (
         em_bind (write_context M new_rsp c) (\<lambda>_.
         em_bind (mem_write_u16 M (new_rsp + OFF_SEG_CS) cs) (\<lambda>_.
         em_bind (em_each OFF_SEGS (\<lambda>off. mem_write_u16 M (new_rsp + off) SEL_DATA)) (\<lambda>_.
         em_bind (mem_write_u32 M (new_rsp + OFF_CONTEXT_FLAGS) (CONTEXT_ALL OR CONTEXT_SEGMENTS)) (\<lambda>_.
         em_bind (write_words M (new_rsp + 0x4D0) [0, 0, 0]) (\<lambda>_.
         em_bind (write_exception_record M (new_rsp + 0x4F0) (tr_code t) 0 (tr_address t) (tr_info t)) (\<lambda>_.
         write_words M (new_rsp + 0x590) [cpu_rip c, ucast cs, cpu_rflags c, old_rsp, ucast SEL_DATA])))))))) (\<lambda>_.
       cpu_upd (\<lambda>c. (cpu_set_rsp new_rsp c)\<lparr>cpu_rip := ntdll_base + RVA_KI_USER_EXCEPTION_DISPATCHER\<rparr>)))"

definition load_context :: "cpu_state \<Rightarrow> cpu_state \<Rightarrow> cpu_state" where
  \<comment> \<open>the four assignments with which a restored context enters the CPU state\<close>
  "load_context r c = c\<lparr>cpu_gpr := cpu_gpr r, cpu_xmm := cpu_xmm r, cpu_rip := cpu_rip r, cpu_rflags := cpu_rflags r\<rparr>"

definition nt_continue :: "'m memory_ops \<Rightarrow> ('m, u32) service" where
  "nt_continue M =
     em_bind (syscall_arg M 0) (\<lambda>ctx.
     if ctx = 0 then em_return STATUS_ACCESS_VIOLATION
     else
       em_bind (on_mem (tried (read_context M ctx))) (\<lambda>r.
       case r of
         None \<Rightarrow> em_return STATUS_ACCESS_VIOLATION
       | Some restored \<Rightarrow>
           em_bind (cpu_upd (load_context restored)) (\<lambda>_.
           em_bind (os_upd (\<lambda>w. (note_exception_resumed w)\<lparr>os_syscall_resume_as_is := True\<rparr>)) (\<lambda>_.
           em_return STATUS_SUCCESS))))"

fun read_info :: "'m memory_ops \<Rightarrow> u64 \<Rightarrow> nat \<Rightarrow> ('m, u64 list) em" where
  \<comment> \<open>\<open>n\<close> words, a word that cannot be read counts as 0\<close>
  "read_info M addr 0 = em_return []"
| "read_info M addr (Suc n) =
     em_bind (tried (mem_read_u64 M addr)) (\<lambda>v.
     em_bind (read_info M (addr + 8) n) (\<lambda>vs. em_return (case_option 0 id v # vs)))"

definition raise_last_chance :: "u32 \<Rightarrow> u64 \<Rightarrow> win_os \<Rightarrow> win_os" where
  "raise_last_chance code address w =
     w\<lparr>os_unhandled := Some \<lparr>uh_code = code, uh_address = address, uh_how = LAST_RESORT\<rparr>,
       os_exc_chain := exc_chain_default, os_pending_syscall_exit := Some code\<rparr>"

definition redeliver :: "'m memory_ops \<Rightarrow> u64 \<Rightarrow> u64 \<Rightarrow> u64 \<Rightarrow> u32 \<Rightarrow> u64 \<Rightarrow> ('m, u32) service" where
  \<comment> \<open>the first chance: the record goes to the dispatcher of the guest\<close>
  "redeliver M ntdll rec ctx code address =
     em_bind (on_mem (tried (mem_read_u32 M (rec + ER_NUM_PARAMS)))) (\<lambda>n.
     em_bind (on_mem (read_info M (rec + ER_INFO) (min (case n of None \<Rightarrow> 0 | Some v \<Rightarrow> unat v) 15))) (\<lambda>info.
     em_bind (if ctx = 0 then em_return None else on_mem (tried (read_context M ctx))) (\<lambda>r.
     em_bind (case r of None \<Rightarrow> em_return () | Some restored \<Rightarrow> cpu_upd (load_context restored)) (\<lambda>_.
     em_bind (on_cpu cpu_rip) (\<lambda>rip.
     em_bind (os_run (note_exception_delivery code address rip)) (\<lambda>u.
     case u of
       Some x \<Rightarrow> em_bind (os_upd (\<lambda>w. w\<lparr>os_pending_syscall_exit := Some (uh_code x)\<rparr>)) (\<lambda>_. em_return STATUS_SUCCESS)
     | None \<Rightarrow>
         em_bind (tried (deliver_hw_exception M ntdll
           \<lparr>tr_code = code, tr_address = address, tr_info = info, tr_mode = Long\<rparr>)) (\<lambda>d.
         case d of
           None \<Rightarrow> em_return STATUS_ACCESS_VIOLATION
         | Some _ \<Rightarrow> em_bind (os_upd (\<lambda>w. w\<lparr>os_syscall_resume_as_is := True\<rparr>)) (\<lambda>_. em_return STATUS_SUCCESS))))))))"

definition nt_raise_exception :: "'m memory_ops \<Rightarrow> ('m, u32) service" where
  "nt_raise_exception M =
     em_bind (syscall_arg M 0) (\<lambda>rec.
     em_bind (syscall_arg M 1) (\<lambda>ctx.
     em_bind (syscall_arg M 2) (\<lambda>chance.
     if rec = 0 then em_return STATUS_ACCESS_VIOLATION
     else
       em_bind (on_mem (tried (mem_read_u32 M (rec + ER_CODE)))) (\<lambda>code.
       em_bind (on_mem (tried (mem_read_u64 M (rec + ER_ADDRESS)))) (\<lambda>address.
       case (code, address) of
         (Some code, Some address) \<Rightarrow>
           if chance AND 0xff = 0 then
             em_bind (os_upd (raise_last_chance code address)) (\<lambda>_. em_return STATUS_SUCCESS)
           else
             em_bind (os (module_base ''ntdll.dll'')) (\<lambda>ntdll.
             case ntdll of
               None \<Rightarrow> em_return STATUS_NOT_IMPLEMENTED
             | Some ntdll \<Rightarrow> redeliver M ntdll rec ctx code address)
       | _ \<Rightarrow> em_return STATUS_ACCESS_VIOLATION)))))"

section \<open>Software exceptions\<close>

definition alloc_dispatch_buffers :: "win_os \<Rightarrow> (u64 \<times> u64 \<times> u64 \<times> u64 \<times> u64) option \<times> win_os" where
  "alloc_dispatch_buffers w =
     (case heap_alloc EXCEPTION_RECORD_SIZE w of (record, w) \<Rightarrow>
      case heap_alloc CONTEXT_SIZE w of (orig, w) \<Rightarrow>
      case heap_alloc CONTEXT_SIZE w of (work, w) \<Rightarrow>
      case heap_alloc CONTEXT_SIZE w of (frame, w) \<Rightarrow>
      case heap_alloc DISPATCHER_CONTEXT_SIZE w of (disp, w) \<Rightarrow>
        (if 0 \<in> set [record, orig, work, frame, disp] then None else Some (record, orig, work, frame, disp), w))"

definition finish_dispatch :: "'m memory_ops \<Rightarrow> ('m, api_outcome) service" where
  "finish_dispatch M =
     em_bind (os_run (\<lambda>w. (os_exc_stack w, w\<lparr>os_exc_stack := []\<rparr>))) (\<lambda>stack.
     case stack of
       [] \<Rightarrow> em_return (Exit 0)
     | f # fs \<Rightarrow>
         if df_phase f = UnwindPhase then em_return (Exit 1)
         else em_bind (on_mem (tried (mem_read_u32 M (df_record f)))) (\<lambda>code.
              em_return (Exit (case code of None \<Rightarrow> 0 | Some c \<Rightarrow> c))))"

definition transfer_to_target :: "cpu_state \<Rightarrow> u64 \<Rightarrow> u64 \<Rightarrow> ('m, api_outcome) service" where
  "transfer_to_target c target_ip return_value =
     em_bind (cpu_upd (\<lambda>_. cpu_set_reg Rax return_value (c\<lparr>cpu_rip := target_ip\<rparr>))) (\<lambda>_.
     em_bind (os_upd (\<lambda>w. w\<lparr>os_exc_stack := []\<rparr>)) (\<lambda>_. em_return Resume))"

definition lookup_entry :: "win_os \<Rightarrow> u64 \<Rightarrow> unwind_entry option" where
  "lookup_entry w pc =
     (case rva_of (cf_image_base (os_cfg w)) pc of None \<Rightarrow> None | Some rva \<Rightarrow> unwind_lookup (os_function_table w) rva)"

definition walk_from :: "'m memory_ops \<Rightarrow> handler_type \<Rightarrow> cpu_state \<Rightarrow> ('m, frame_unwind \<times> cpu_state) service" where
  \<comment> \<open>\<open>virtual_unwind_typed\<close> on a copy of the CPU state, which it leaves as the caller's\<close>
  "walk_from M ht c =
     em_bind (os (\<lambda>w. (os_function_table w, cf_image_base (os_cfg w)))) (\<lambda>(table, base).
     on_mem (\<lambda>m. case virtual_unwind_typed M table base ht (c, m) of (r, caller, m') \<Rightarrow>
       (case r of Inl x \<Rightarrow> Inl x | Inr fu \<Rightarrow> Inr (fu, caller), m')))"

definition phase_handler :: "exc_phase \<Rightarrow> handler_type" where
  "phase_handler p = (case p of SearchPhase \<Rightarrow> HT_EXCEPTION | UnwindPhase \<Rightarrow> HT_UNWIND)"

definition phase_flags :: "exc_phase \<Rightarrow> u32 \<Rightarrow> u32" where
  "phase_flags p fl =
     (case p of SearchPhase \<Rightarrow> fl AND NOT EXCEPTION_UNWINDING | UnwindPhase \<Rightarrow> fl OR EXCEPTION_UNWINDING)"

definition call_language_handler ::
    "'m memory_ops \<Rightarrow> dispatch_frame \<Rightarrow> unwind_entry \<Rightarrow> cpu_state \<Rightarrow> frame_unwind \<Rightarrow> u32 \<Rightarrow> ('m, api_outcome) service" where
  "call_language_handler M f entry pre fu handler_rva =
     em_bind (os (\<lambda>w. cf_image_base (os_cfg w))) (\<lambda>base.
     let handler = base + ucast handler_rva in
     em_bind (on_mem (write_context M (df_frame_context f) pre)) (\<lambda>_.
     em_bind (on_mem (record_flags M (df_record f))) (\<lambda>fl.
     em_bind (on_mem (set_record_flags M (df_record f) (phase_flags (df_phase f) fl))) (\<lambda>_.
     em_bind (on_mem (write_dispatcher_context M (df_dispatcher f)
       \<lparr>dc_control_pc = cpu_rip pre, dc_image_base = base, dc_function_entry = ucast (ue_record entry) + base,
         dc_establisher_frame = fu_establisher_frame fu,
         dc_target_ip = (if df_phase f = UnwindPhase then df_target_ip f else 0),
         dc_context_record = df_frame_context f, dc_language_handler = handler,
         dc_handler_data = (case fu_handler_data_rva fu of None \<Rightarrow> 0 | Some r \<Rightarrow> base + ucast r)\<rparr>)) (\<lambda>_.
     em_bind (os os_exc_driver) (\<lambda>driver.
     em_bind (setup_call_args M handler
       [df_record f, fu_establisher_frame fu, df_orig_context f, df_dispatcher f] driver (df_final_rsp f)) (\<lambda>_.
     em_return Resume)))))))"

definition walk_leaf :: "'m memory_ops \<Rightarrow> u64 \<Rightarrow> cpu_state \<Rightarrow> ('m, unit) em" where
  \<comment> \<open>a function without unwind data: only its return address is popped\<close>
  "walk_leaf M work c =
     em_bind (mem_read_u64 M (cpu_rsp c)) (\<lambda>ret.
     let c = c\<lparr>cpu_rip := ret\<rparr> in write_context M work (cpu_set_rsp (cpu_rsp c + 8) c))"

fun pump_dispatch :: "'m memory_ops \<Rightarrow> nat \<Rightarrow> ('m, api_outcome) service" where
  \<comment> \<open>the loop over at most \<open>n\<close> frames\<close>
  "pump_dispatch M 0 = finish_dispatch M"
| "pump_dispatch M (Suc n) =
     em_bind (os os_exc_stack) (\<lambda>stack.
     case stack of
       [] \<Rightarrow> em_panic ''pump_dispatch without a frame''
     | f # fs \<Rightarrow>
         em_bind (on_mem (read_context M (df_work_context f))) (\<lambda>c.
         em_bind (os (\<lambda>w. cpu_rip c = 0 \<or> cf_api_base (os_cfg w) \<le> cpu_rip c)) (\<lambda>outside.
         if outside then finish_dispatch M
         else
           em_bind (os (\<lambda>w. lookup_entry w (cpu_rip c))) (\<lambda>entry.
           case entry of
             None \<Rightarrow> em_bind (on_mem (walk_leaf M (df_work_context f) c)) (\<lambda>_. pump_dispatch M n)
           | Some e \<Rightarrow>
               em_bind (walk_from M (phase_handler (df_phase f)) c) (\<lambda>(fu, caller).
               if df_phase f = UnwindPhase \<and> fu_establisher_frame fu = df_target_frame f
               then transfer_to_target c (df_target_ip f) (df_return_value f)
               else
                 em_bind (on_mem (write_context M (df_work_context f) caller)) (\<lambda>_.
                 case fu_handler_rva fu of
                   None \<Rightarrow> pump_dispatch M n
                 | Some rva \<Rightarrow> call_language_handler M f e c fu rva))))))"

definition start_dispatch :: "'m memory_ops \<Rightarrow> dispatch_frame \<Rightarrow> ('m, api_outcome) service" where
  "start_dispatch M f =
     em_bind (os_upd (\<lambda>w. w\<lparr>os_exc_stack := f # os_exc_stack w\<rparr>)) (\<lambda>_. pump_dispatch M MAX_DISPATCH_FRAMES)"

fun read_params :: "'m memory_ops \<Rightarrow> u64 \<Rightarrow> nat \<Rightarrow> ('m, u64 list) em" where
  "read_params M addr 0 = em_return []"
| "read_params M addr (Suc n) =
     em_bind (mem_read_u64 M addr) (\<lambda>v. em_bind (read_params M (addr + 8) n) (\<lambda>vs. em_return (v # vs)))"

definition raise_exception :: "'m memory_ops \<Rightarrow> ('m, api_outcome) service" where
  "raise_exception M =
     em_bind (api_arg M 0) (\<lambda>code.
     em_bind (api_arg M 1) (\<lambda>fl.
     em_bind (api_arg M 2) (\<lambda>nparams.
     em_bind (api_arg M 3) (\<lambda>args_ptr.
     em_bind (on_cpu id) (\<lambda>c.
     em_bind (on_mem (mem_read_u64 M (cpu_rsp c))) (\<lambda>ret_addr.
     let final_rsp = cpu_rsp c + 8 in
     em_bind (if args_ptr = 0 then em_return []
       else on_mem (read_params M args_ptr (min (unat nparams) 15))) (\<lambda>params.
     em_bind (os_run alloc_dispatch_buffers) (\<lambda>bufs.
     case bufs of
       None \<Rightarrow> em_fail (Os ''out of heap for exception dispatch'')
     | Some (rec, orig, work, frame, disp) \<Rightarrow>
         let snap = cpu_set_rsp final_rsp (c\<lparr>cpu_rip := ret_addr\<rparr>) in
         em_bind (on_mem (write_context M orig snap)) (\<lambda>_.
         em_bind (on_mem (write_context M work snap)) (\<lambda>_.
         em_bind (on_mem (write_exception_record M rec (ucast code) (ucast fl) ret_addr params)) (\<lambda>_.
         start_dispatch M
           \<lparr>df_phase = SearchPhase, df_record = rec, df_orig_context = orig, df_work_context = work,
             df_dispatcher = disp, df_final_rsp = final_rsp, df_frame_context = frame,
             df_target_frame = 0, df_target_ip = 0, df_return_value = 0\<rparr>)))))))))))"

definition rtl_unwind_ex :: "'m memory_ops \<Rightarrow> ('m, api_outcome) service" where
  "rtl_unwind_ex M =
     em_bind (api_arg M 0) (\<lambda>target_frame.
     em_bind (api_arg M 1) (\<lambda>target_ip.
     em_bind (api_arg M 2) (\<lambda>rec.
     em_bind (api_arg M 3) (\<lambda>return_value.
     em_bind (api_arg M 4) (\<lambda>ctx_in.
     em_bind (on_cpu id) (\<lambda>c.
     em_bind (os_run alloc_dispatch_buffers) (\<lambda>bufs.
     case bufs of
       None \<Rightarrow> em_fail (Os ''out of heap for unwind'')
     | Some (r, orig, work, frame, disp) \<Rightarrow>
         em_bind (if ctx_in \<noteq> 0 then on_mem (read_context M ctx_in) else em_return c) (\<lambda>start.
         em_bind (on_mem (write_context M work start)) (\<lambda>_.
         em_bind (on_mem (write_context M orig start)) (\<lambda>_.
         em_bind (os os_exc_stack) (\<lambda>stack.
         let rec = (if rec \<noteq> 0 then rec else case stack of [] \<Rightarrow> 0 | f # fs \<Rightarrow> df_record f) in
         start_dispatch M
           \<lparr>df_phase = UnwindPhase, df_record = rec, df_orig_context = orig, df_work_context = work,
             df_dispatcher = disp, df_final_rsp = cpu_rsp c + 8, df_frame_context = frame,
             df_target_frame = target_frame, df_target_ip = target_ip, df_return_value = return_value\<rparr>)))))))))))"

definition exc_advance :: "'m memory_ops \<Rightarrow> ('m, api_outcome) service" where
  "exc_advance M =
     em_bind (os os_exc_stack) (\<lambda>stack.
     case stack of
       [] \<Rightarrow> em_return (Return 0)
     | f # fs \<Rightarrow>
         em_bind (on_cpu (cpu_reg Rax)) (\<lambda>disposition.
         if df_phase f = SearchPhase \<and> disposition = EXCEPTION_CONTINUE_EXECUTION then
           em_bind (on_mem (read_context M (df_orig_context f))) (\<lambda>resume.
           em_bind (cpu_upd (\<lambda>_. resume)) (\<lambda>_.
           em_bind (os_upd (\<lambda>w. w\<lparr>os_exc_stack := []\<rparr>)) (\<lambda>_. em_return Resume)))
         else pump_dispatch M MAX_DISPATCH_FRAMES))"

section \<open>The start of a process\<close>

definition RVA_LDR_INITIALIZE_THUNK :: u64 where "RVA_LDR_INITIALIZE_THUNK = 0x155c0"
definition RVA_RTL_USER_THREAD_START :: u64 where "RVA_RTL_USER_THREAD_START = 0x10d14"

definition bootstrap_via_ldr_init :: "'m memory_ops \<Rightarrow> u64 \<Rightarrow> u64 \<Rightarrow> u64 \<Rightarrow> u64 \<Rightarrow> ('m, u64 option) service" where
  \<comment> \<open>the loader of the guest runs first, and continues with the context of the new thread\<close>
  "bootstrap_via_ldr_init M ntdll_base entry arg stack_top =
     (let ctx = (stack_top - CONTEXT_SIZE) AND NOT 0xf;
          boot = cpu_set_rsp ((ctx - 0x100) AND NOT 0xf) (cpu_set_reg Rdx arg (cpu_set_reg Rcx entry
            (cpu_state_new\<lparr>cpu_rip := ntdll_base + RVA_RTL_USER_THREAD_START\<rparr>))) in
      em_bind (on_mem (write_context M ctx boot)) (\<lambda>_.
      em_bind (cpu_upd (\<lambda>c. cpu_set_rsp ((ctx - 0x100) AND NOT 0xf) (cpu_set_reg Rcx ctx
        (c\<lparr>cpu_rip := ntdll_base + RVA_LDR_INITIALIZE_THUNK\<rparr>)))) (\<lambda>_.
      em_return (Some ctx))))"

definition start_process :: "'m memory_ops \<Rightarrow> u64 \<Rightarrow> ('m, unit) service" where
  \<comment> \<open>the TLS callbacks run first, and return to the entry point\<close>
  "start_process M entry =
     em_bind (os os_tls_callbacks) (\<lambda>cbs.
     if cbs = [] then cpu_upd (\<lambda>c. c\<lparr>cpu_rip := entry\<rparr>)
     else
       em_bind (os (\<lambda>w. (cf_image_base (os_cfg w), is_64bit w))) (\<lambda>(module, b64).
       em_bind (on_cpu (\<lambda>c. cpu_rsp c - (if b64 then 8 else 4))) (\<lambda>sp.
       em_bind (on_mem (if b64 then mem_write_u64 M sp entry else mem_write_u32 M sp (ucast entry))) (\<lambda>_.
       em_bind (cpu_upd (cpu_set_rsp sp)) (\<lambda>_.
       em_bind (invoke_callbacks M (map (\<lambda>cb. (cb, [module, 1, 0])) cbs) 0 0 False) (\<lambda>_.
       em_return ()))))))"

end
