(* ===== verification/Os_New.thy ===== *)
theory Os_New
  imports Os_Syscall Os_Time Os_Data Os_Exc
begin

text \<open>
  \<open>WinOs::new\<close> of \<open>os/src/lib.rs\<close>: the state of the services when a process starts, and the table
  of the native services that are modelled. The services that are not are given as a list of
  entries, which the constructor puts into the table in the same way.
\<close>

definition default_environment :: "(string \<times> string) list" where
  "default_environment =
    [(''ALLUSERSPROFILE'', (''C:'' @ BACKSLASH # ''ProgramData'')),
     (''APPDATA'', (''C:'' @ BACKSLASH # ''Users'' @ BACKSLASH # ''exemu'' @ BACKSLASH # ''AppData'' @ BACKSLASH # ''Roaming'')),
     (''CommonProgramFiles'', (''C:'' @ BACKSLASH # ''Program Files'' @ BACKSLASH # ''Common Files'')),
     (''COMPUTERNAME'', ''EXEMU''),
     (''ComSpec'', (''C:'' @ BACKSLASH # ''Windows'' @ BACKSLASH # ''system32'' @ BACKSLASH # ''cmd.exe'')),
     (''HOMEDRIVE'', ''C:''),
     (''HOMEPATH'', ([] @ BACKSLASH # ''Users'' @ BACKSLASH # ''exemu'')),
     (''LOCALAPPDATA'', (''C:'' @ BACKSLASH # ''Users'' @ BACKSLASH # ''exemu'' @ BACKSLASH # ''AppData'' @ BACKSLASH # ''Local'')),
     (''NUMBER_OF_PROCESSORS'', ''8''),
     (''OS'', ''Windows_NT''),
     (''Path'', (''C:'' @ BACKSLASH # ''Windows;C:'' @ BACKSLASH # ''Windows'' @ BACKSLASH # ''system32;C:'' @ BACKSLASH # ''Windows'' @ BACKSLASH # ''System32'' @ BACKSLASH # ''Wbem'')),
     (''PATHEXT'', ''.COM;.EXE;.BAT;.CMD;.VBS;.JS''),
     (''PROCESSOR_ARCHITECTURE'', ''AMD64''),
     (''ProgramData'', (''C:'' @ BACKSLASH # ''ProgramData'')),
     (''ProgramFiles'', (''C:'' @ BACKSLASH # ''Program Files'')),
     (''ProgramFiles(x86)'', (''C:'' @ BACKSLASH # ''Program Files (x86)'')),
     (''SystemDrive'', ''C:''),
     (''SystemRoot'', (''C:'' @ BACKSLASH # ''Windows'')),
     (''TEMP'', (''C:'' @ BACKSLASH # ''Temp'')),
     (''TMP'', (''C:'' @ BACKSLASH # ''Temp'')),
     (''USERDOMAIN'', ''EXEMU''),
     (''USERNAME'', ''exemu''),
     (''USERPROFILE'', (''C:'' @ BACKSLASH # ''Users'' @ BACKSLASH # ''exemu'')),
     (''windir'', (''C:'' @ BACKSLASH # ''Windows''))]"

definition os_config_default :: os_config where
  \<comment> \<open>\<open>WinConfig::default\<close>\<close>
  "os_config_default =
     \<lparr>cf_image_base = 0x140000000, cf_is_64bit = True, cf_peb_addr = 0, cf_teb_base = 0,
       cf_heap_base = 0x200000000, cf_heap_size = 0x4000000, cf_api_base = 0x7EFF00000000,
       cf_valloc_base = 0x4000000000\<rparr>"

definition thunk_at :: "os_config \<Rightarrow> nat \<Rightarrow> u64" where
  \<comment> \<open>the address that the call number \<open>n\<close> of \<open>alloc_thunk\<close> gives\<close>
  "thunk_at cfg n = cf_api_base cfg + of_nat n * 8"

definition win_os_new :: "os_config \<Rightarrow> clock \<Rightarrow> win_os" where
  "win_os_new cfg clk =
     \<lparr>os_cfg = cfg, os_last_error = 0, os_env = default_environment, os_heap_next = cf_heap_base cfg,
       os_heap_sizes = Map.empty, os_next_thunk = thunk_at cfg 7, os_vm_allocs = [],
       os_valloc_next = cf_valloc_base cfg, os_cb_driver = thunk_at cfg 1, os_cb_stack = [], os_modules = [],
       os_next_handle = 0x1000, os_tls_alloc = [], os_fls_alloc = [], os_tls_callbacks = [],
       os_kobjects = Map.empty, os_named_kobjects = Map.empty, os_current_tid = 0x1001,
       os_threads = [(main_thread 0x1001)\<lparr>th_teb_base := cf_teb_base cfg\<rparr>], os_current = 0, os_next_tid = 0x1002,
       os_thread_exit_thunk = thunk_at cfg 4, os_thread_tls_thunk = thunk_at cfg 5,
       os_thread_entry_thunk = thunk_at cfg 6, os_sched_ticks = 0, os_clock = clk, os_unix_stack_top = 0,
       os_syscall_guest_rsp = 0, os_syscall_resume_as_is = False, os_syscall_result64 = None,
       os_pending_syscall_exit = None, os_wow64_peb32 = 0, os_guest_mode32 = False,
       os_pending_mode_switch = None, os_wow64_threading = None,
       os_function_table = [], os_exc_driver = thunk_at cfg 3, os_exc_stack = [], os_exc_chain = exc_chain_default,
       os_unhandled = None, os_by_name = Map.empty, os_has_exports = (\<lambda>b. False)\<rparr>"

definition modelled_services :: "'m child_ops \<Rightarrow> host_time \<Rightarrow> 'm memory_ops \<Rightarrow> (u32 \<times> ('m, u32) service) list" where
  "modelled_services C h M =
     [(0x18, nt_allocate_virtual_memory M), (0x1e, nt_free_virtual_memory M), (0x50, nt_protect_virtual_memory M),
      (0x85, nt_create_thread_ex M), (0x53, nt_terminate_thread M), (0x2c, nt_terminate_process C M),
      (0xf5, nt_suspend_thread M), (0x52, nt_resume_thread C M), (0x25, nt_query_information_thread M),
      (0x0d, nt_set_information_thread M), (0xcb, nt_query_system_information_ex M),
      (0x36, nt_query_system_information M), (0x48, nt_create_event M), (0x40, nt_open_event M),
      (0x0e, nt_set_event M), (0x7e, nt_create_mutant M), (0x83, nt_create_semaphore M),
      (0x0a, nt_release_semaphore M), (0x04, nt_wait_for_single_object M),
      (0x5b, nt_wait_for_multiple_objects M), (0x5a, nt_query_system_time M h),
      (0x31, nt_query_performance_counter M h),
      (0x43, nt_continue M), (0xcf, nt_raise_exception M)]"

definition win_ssdt :: "(u32 \<times> ('m, u32) service) list \<Rightarrow> 'm child_ops \<Rightarrow> host_time \<Rightarrow> 'm memory_ops \<Rightarrow> 'm ssdt" where
  "win_ssdt others C h M = fold (\<lambda>(i, f). ssdt_set i f) (modelled_services C h M @ others) ssdt_new"

end
