(* ===== verification/Os_Sched_Theorems.thy ===== *)
theory Os_Sched_Theorems
  imports Os_Fairness Os_New Virtual_Memory
begin

text \<open>
  The properties of the scheduler, with a process of two threads as their witness.
\<close>

section \<open>A process with two threads\<close>

definition two_threads :: win_os where
  "two_threads =
     (push_thread (new_thread 0x1002 0x1000 False cpu_state_new) (win_os_new os_config_default (clock_new True)))
       \<lparr>os_kobjects := [0x1000 \<mapsto> KThread False], os_next_handle := 0x1004\<rparr>"

definition two_threads_sys :: "vmem sysw" where
  "two_threads_sys = \<lparr>sw_os = two_threads, sw_cpu = cpu_state_new, sw_mem = vm_new\<rparr>"

lemma two_threads_sel [simp]:
  "os_current two_threads = 0" "os_current_tid two_threads = 0x1001" "os_sched_ticks two_threads = 0"
  "length (os_threads two_threads) = 2" "th_state (os_threads two_threads ! 0) = Running"
  "th_state (os_threads two_threads ! 1) = Ready" "th_tid (os_threads two_threads ! 0) = 0x1001"
  "th_state (os_threads two_threads ! Suc 0) = Ready"
  by (simp_all add: two_threads_def push_thread_def new_thread_def win_os_new_def main_thread_def)

lemma two_threads_ok: "sched_ok two_threads"
  by (auto simp: sched_ok_def less_2_cases_iff)

lemma sched_ok_new: "sched_ok (win_os_new cfg clk)"
  by (simp add: sched_ok_def win_os_new_def main_thread_def)

section \<open>Properties\<close>

lemma list_services: "(\<And>f. f \<in> set fs \<Longrightarrow> leads P f P) \<Longrightarrow> P (sw_os s) \<Longrightarrow>
    list_all (\<lambda>f. P (sw_os (snd (f s)))) fs"
  by (auto simp: list_all_iff leads_def)

lemma silent_tried [silent_intros]: "silent f \<Longrightarrow> silent (tried f)"
  unfolding silent_def tried_def by (auto split: prod.splits sum.splits stop.splits) (metis snd_conv)+

lemma insert_kobject_sel [simp]:
  "os_threads (snd (insert_kobject k w)) = os_threads w" "os_current (snd (insert_kobject k w)) = os_current w"
  "os_current_tid (snd (insert_kobject k w)) = os_current_tid w"
  by (simp_all add: insert_kobject_def alloc_khandle_def put_kobject_def)

lemma make_object_ok [simp]:
  "sched_ok (snd (make_object kind name manual signaled count mx w)) = sched_ok w"
  unfolding make_object_def by (intro sched_ok_cong) (simp_all add: Let_def case_prod_beta split: option.splits)

lemma created_ok [leads_keeps]:
  "leads sched_ok (created M out (make_object kind name manual signaled count mx)) sched_ok"
  unfolding created_def by (intro leads_keeps) simp

lemma sync_nt_ok:
  "leads sched_ok (nt_create_event M) sched_ok" "leads sched_ok (nt_open_event M) sched_ok"
  "leads sched_ok (nt_set_event M) sched_ok" "leads sched_ok (nt_create_mutant M) sched_ok"
  "leads sched_ok (nt_create_semaphore M) sched_ok"
  unfolding nt_create_event_def nt_open_event_def nt_set_event_def nt_create_mutant_def nt_create_semaphore_def Let_def
  by (intro leads_keeps; simp)+

lemma nt_release_ok: "leads sched_ok (nt_release_semaphore M) sched_ok"
  unfolding nt_release_semaphore_def Let_def
  by (intro leads_keeps) (auto split: kobject.split intro!: leads_keeps)

lemma alloc_books [simp]:
  "sched_ok (vm_insert_alloc a w) = sched_ok w" "sched_ok (upd_alloc b f w) = sched_ok w"
  "sched_ok (snd (vm_protect_region c p w)) = sched_ok w"
  by (simp_all add: vm_insert_alloc_def upd_alloc_def vm_protect_region_def Let_def sched_ok_def)

lemma vm_alloc_ok [leads_keeps]: "leads sched_ok (vm_alloc_region_below M a sz t p mx) sched_ok"
  unfolding vm_alloc_region_below_def Let_def vm_alloc_new_def vm_alloc_at_def
  by (intro leads_keeps sb.keeps_find_free_below sb.keeps_set_last_error) simp_all

lemma vm_free_ok [leads_keeps]: "leads sched_ok (vm_free_region M a t) sched_ok"
  unfolding vm_free_region_def Let_def
  apply (intro leads_keeps)
   apply (simp add: sched_ok_def)
  apply simp
  done

lemma silent_write_mbi [silent_intros]: "silent (write_mbi M buf b)" "silent (vm_query_region M a buf)"
  unfolding vm_query_region_def write_mbi_def by (intro silent_intros)+

lemma silent_protect_image [silent_intros]: "silent (protect_mapped_image_pages M a sz p)"
  unfolding protect_mapped_image_pages_def Let_def by (intro silent_intros)

lemma vm_ok_services:
  "leads sched_ok (nt_allocate_virtual_memory M) sched_ok" "leads sched_ok (nt_free_virtual_memory M) sched_ok"
  "leads sched_ok (nt_protect_virtual_memory M) sched_ok"
  "leads sched_ok (virtual_alloc M) sched_ok" "leads sched_ok (virtual_free M) sched_ok"
  "leads sched_ok (virtual_protect M) sched_ok" "leads sched_ok (virtual_query M) sched_ok"
  unfolding nt_allocate_virtual_memory_def nt_free_virtual_memory_def nt_protect_virtual_memory_def
    virtual_alloc_def virtual_free_def virtual_protect_def virtual_query_def vm_alloc_region_def
  by (intro leads_keeps silent_protect_image [THEN leads_same] silent_write_mbi [THEN leads_same];
      (simp add: leads_keeps split: sum.split option.split)?)+

lemma information_ok:
  "leads sched_ok (nt_query_information_thread M) sched_ok"
  "leads sched_ok (nt_set_information_thread M) sched_ok"
  "leads sched_ok (nt_query_system_information M) sched_ok"
  "leads sched_ok (nt_query_system_information_ex M) sched_ok"
  "leads sched_ok (nt_query_system_time M h) sched_ok"
  "leads sched_ok (nt_query_performance_counter M h) sched_ok"
  unfolding nt_query_information_thread_def nt_set_information_thread_def nt_query_system_information_def
    nt_query_system_information_ex_def nt_query_system_time_def nt_query_performance_counter_def Let_def
    query_wow64_context_def set_wow64_context_def wow64_context_area_def put_u64_def
  by (intro leads_keeps)+

lemma exc_books [simp]:
  "sched_ok (note_exception_resumed w) = sched_ok w" "sched_ok (w\<lparr>os_pending_syscall_exit := x\<rparr>) = sched_ok w"
  "sched_ok (raise_last_chance code a w) = sched_ok w"
  "sched_ok (snd (note_exception_delivery code a rip w)) = sched_ok w"
  by (simp_all add: sched_ok_def note_exception_resumed_def raise_last_chance_def note_exception_delivery_def
      case_prod_beta split: option.split)

lemma silent_deliver [silent_intros]: "silent (deliver_hw_exception M b t)"
  unfolding deliver_hw_exception_def Let_def by (intro silent_intros)

lemma redeliver_ok [leads_keeps]: "leads sched_ok (redeliver M n rec cx code a) sched_ok"
  unfolding redeliver_def
  by (intro leads_keeps silent_deliver [THEN silent_tried, THEN leads_same]) simp_all

lemma exception_ok: "leads sched_ok (nt_continue M) sched_ok" "leads sched_ok (nt_raise_exception M) sched_ok"
  unfolding nt_continue_def nt_raise_exception_def by (intro leads_keeps; simp)+

lemma child_services_ok:
  assumes "\<And>h. leads sched_ok (ch_resume_thread C h) sched_ok" "\<And>h c. leads sched_ok (ch_terminate C h c) sched_ok"
  shows "leads sched_ok (nt_resume_thread C M) sched_ok" "leads sched_ok (nt_terminate_process C M) sched_ok"
  unfolding nt_resume_thread_def nt_terminate_process_def
  by (intro leads_keeps assms resume_at_ok; simp add: sched_ok_def)+

lemma made_ok [leads_keeps]: "leads sched_ok (made (make_object kind name manual signaled count mx)) sched_ok"
  unfolding made_def by (intro leads_keeps) simp

lemma create_sync_ok: "leads sched_ok (create_sync M kind ex wide) sched_ok" "leads sched_ok (open_sync M wide) sched_ok"
proof -
  have "leads sched_ok (create_event M ex wide) sched_ok" "leads sched_ok (create_mutex M ex wide) sched_ok"
    "leads sched_ok (create_semaphore M wide) sched_ok" "leads sched_ok (create_timer M ex wide) sched_ok"
    unfolding create_event_def create_mutex_def create_semaphore_def create_timer_def by (intro leads_keeps)+
  then show "leads sched_ok (create_sync M kind ex wide) sched_ok"
    unfolding create_sync_def by (cases kind) (simp_all add: leads_bind_same sb.keeps_set_last_error)
  show "leads sched_ok (open_sync M wide) sched_ok"
    unfolding open_sync_def by (intro leads_keeps sb.keeps_set_last_error)
qed

lemma signal_sync_ok: "leads sched_ok (signal_sync M op) sched_ok"
  unfolding signal_sync_def by (intro leads_keeps) simp

lemma modelled_services_ok:
  assumes "\<And>h. leads sched_ok (ch_resume_thread C h) sched_ok" "\<And>h c. leads sched_ok (ch_terminate C h c) sched_ok"
    and "(n, f) \<in> set (modelled_services C h M)" "n \<noteq> 0x53"
  shows "leads sched_ok f sched_ok"
  using assms(3,4) child_services_ok [OF assms(1,2)]
  by (auto simp: modelled_services_def sync_nt_ok nt_release_ok vm_ok_services information_ok exception_ok
      create_ok suspend_resume_ok nt_single_ok nt_multiple_ok)

section \<open>The end of a thread\<close>

definition post :: "(win_os \<Rightarrow> bool) \<Rightarrow> ('m, 'a) service \<Rightarrow> (stop + 'a \<Rightarrow> win_os \<Rightarrow> bool) \<Rightarrow> bool" where
  \<comment> \<open>as \<open>leads\<close>, with a postcondition that depends on the outcome\<close>
  "post P m R \<longleftrightarrow> (\<forall>s. P (sw_os s) \<longrightarrow> R (fst (m s)) (sw_os (snd (m s))))"

lemma postD: "post P m R \<Longrightarrow> P (sw_os s) \<Longrightarrow> R (fst (m s)) (sw_os (snd (m s)))"
  by (simp add: post_def)

lemma post_silent:
  fixes m :: "('m, 'a) service"
  assumes "silent m" "\<And>x w. P w \<Longrightarrow> R (Inl x) w" "\<And>a. post P (g a) R"
  shows "post P (em_bind m g) R"
  unfolding post_def
proof (intro allI impI)
  fix s :: "'m sysw" assume "P (sw_os s)"
  then show "R (fst (em_bind m g s)) (sw_os (snd (em_bind m g s)))"
    using assms(2,3) silentD [OF assms(1), of s]
    by (cases "m s") (auto simp: em_bind_def post_def split: sum.splits)
qed

lemma post_return: "(\<And>w. P w \<Longrightarrow> R (Inr a) w) \<Longrightarrow> post P (em_return a) R"
  by (simp add: post_def em_apply)

lemma post_status: "(\<And>w. P w \<Longrightarrow> R (Inr st) w) \<Longrightarrow> post P (status st) R"
  by (simp add: post_def em_apply status_def)

lemma post_os: "(\<And>w. P w \<Longrightarrow> post (\<lambda>v. v = w) (g (f w)) R) \<Longrightarrow> post P (em_bind (os f) g) R"
  by (simp add: post_def em_bind_apply os_def em_apply)

lemma post_same: "sched_ok w \<Longrightarrow> (\<And>u. sched_ok u \<Longrightarrow> R (Inr a) u) \<Longrightarrow> post (\<lambda>v. v = w) (em_return a) R"
  by (simp add: post_def em_apply)

lemma post_switch: "P' (snd (activate n w)) \<Longrightarrow> post P' (g ()) R \<Longrightarrow> post (\<lambda>v. v = w) (em_bind (activate_thread n) g) R"
  by (simp add: post_def em_bind_apply activate_thread_def on_switch_def case_prod_beta)

definition no_error :: "('m, 'a) service \<Rightarrow> bool" where
  \<comment> \<open>ends with a value, or not at all\<close>
  "no_error m \<longleftrightarrow> (\<forall>s e. fst (m s) \<noteq> Inl (Err e))"

lemma no_error_bind: "no_error m \<Longrightarrow> (\<And>a. no_error (g a)) \<Longrightarrow> no_error (em_bind m g)"
  unfolding no_error_def em_bind_def by (auto split: prod.splits sum.splits) (metis fst_conv)

lemma no_error_free: "no_error (free_thread_stack M i)"
proof -
  have "no_error (on_mem (tried f))" for f :: "('m, unit) em"
    by (auto simp: no_error_def on_mem_def tried_def split: prod.splits sum.splits stop.splits)
  moreover have "no_error (em_return a)" "no_error (os g)" for a :: 'b and g :: "win_os \<Rightarrow> 'c"
    by (simp_all add: no_error_def em_apply os_def)
  ultimately show ?thesis unfolding free_thread_stack_def unmap_if_def em_when_def by (auto intro!: no_error_bind)
qed

lemma post_end:
  fixes M :: "'m memory_ops"
  assumes "\<And>x. (\<And>e. x \<noteq> Err e) \<Longrightarrow> R (Inl x) (mark_terminated i c w)"
    and "post (\<lambda>v. v = mark_terminated i c w) (g ()) R"
  shows "post (\<lambda>v. v = w) (em_bind (end_thread M i c) g) R"
  unfolding post_def
proof (intro allI impI)
  fix s :: "'m sysw" assume s: "sw_os s = w"
  obtain r t where e: "end_thread M i c s = (r, t)" by force
  have t: "sw_os t = mark_terminated i c w" using end_thread_os [of M i c s] s by (simp add: e)
  have "no_error (end_thread M i c)"
    unfolding end_thread_def by (intro no_error_bind no_error_free) (simp add: no_error_def os_upd_def em_apply)
  then have "r \<noteq> Inl (Err x)" for x unfolding no_error_def by (metis e fst_conv)
  then show "R (fst (em_bind (end_thread M i c) g s)) (sw_os (snd (em_bind (end_thread M i c) g s)))"
    using assms t by (cases r) (auto simp: em_bind_apply e post_def)
qed

definition ended :: "('a \<Rightarrow> bool) \<Rightarrow> ('a \<Rightarrow> bool) \<Rightarrow> stop + 'a \<Rightarrow> win_os \<Rightarrow> bool" where
  \<comment> \<open>the scheduler goes on with a value of \<open>on\<close>, or no thread can run any more, with one of \<open>halted\<close>\<close>
  "ended on halted r w \<longleftrightarrow>
     (case r of
        Inr a \<Rightarrow> on a \<and> sched_ok w \<or> halted a \<and> leaving w \<and> pick_next w = None
      | Inl (Err e) \<Rightarrow> sched_ok w
      | Inl x \<Rightarrow> sched_ok w \<or> leaving w)"

definition goes_on :: "api_outcome \<Rightarrow> bool" where
  "goes_on a \<longleftrightarrow> (\<forall>c. a \<noteq> Exit c)"

lemma goes_on_simps [simp]: "goes_on Resume" "goes_on (Return v)"
  by (simp_all add: goes_on_def)

lemma ended_sched_ok: "sched_ok w \<Longrightarrow> (\<And>a. r = Inr a \<Longrightarrow> on a) \<Longrightarrow> ended on halted r w"
  by (simp add: ended_def split: sum.split stop.split)

lemma ended_Inr: "sched_ok w \<Longrightarrow> on a \<Longrightarrow> ended on halted (Inr a) w"
  "leaving w \<Longrightarrow> pick_next w = None \<Longrightarrow> halted a \<Longrightarrow> ended on halted (Inr a) w"
  by (simp_all add: ended_def)

lemma ended_marked: "sched_ok w \<Longrightarrow> (\<And>e. x \<noteq> Err e) \<Longrightarrow> ended on halted (Inl x) (mark_terminated i c w)"
  using mark_current_leaving [of w c] mark_other_ok [of w i c]
  by (cases x; cases "i = os_current w") (auto simp: ended_def)

lemma post_upd: "post (\<lambda>v. \<exists>u. P u \<and> v = f u) (g ()) R \<Longrightarrow> post P (em_bind (os_upd f) g) R"
  by (force simp: post_def em_bind_apply os_upd_def em_apply)

lemma ended_switch:
  assumes "leaving v" "pick_next v = None \<Longrightarrow> post (\<lambda>u. u = v) m R" "post sched_ok (g ()) R"
  shows "post (\<lambda>u. u = v) (case pick_next v of None \<Rightarrow> m | Some n \<Rightarrow> em_bind (activate_thread n) g) R"
proof (cases "pick_next v")
  case (Some n)
  then have "n < length (os_threads v)" using assms(1) pick_next_other by (auto simp: leaving_def)
  then show ?thesis unfolding Some option.case
    by (intro post_switch [where P' = sched_ok] activate_ok [OF assms(1)] assms(3))
qed (simp add: assms(2))

lemma ended_post_mono:
  assumes "post P m (ended on h)" "\<And>a. h a \<Longrightarrow> h' a"
  shows "post P m (ended on h')"
proof -
  have "ended on h r w \<Longrightarrow> ended on h' r w" for r w
    using assms(2) unfolding ended_def by (cases r) auto
  then show ?thesis using assms(1) by (simp add: post_def)
qed

lemma ended_leave:
  assumes "sched_ok w"
  shows "post (\<lambda>v. v = mark_terminated (os_current w) c w) (leave_thread c) (ended goes_on (\<lambda>a. a = Exit c))"
  unfolding leave_thread_def
proof (rule post_os)
  fix v assume v: "v = mark_terminated (os_current w) c w"
  then have l: "leaving v" using mark_current_leaving [OF assms] by simp
  show "post (\<lambda>u. u = v) (case pick_next v of None \<Rightarrow> em_return (Exit c)
    | Some i \<Rightarrow> em_bind (activate_thread i) (\<lambda>_. em_return Resume)) (ended goes_on (\<lambda>a. a = Exit c))"
    by (rule ended_switch [OF l]) (use l in \<open>auto intro!: post_return intro: ended_Inr\<close>)
qed

lemma exit_thread_ended: "post sched_ok (exit_thread M c) (ended goes_on (\<lambda>a. a = Exit c))"
  unfolding exit_thread_def by (intro post_os post_end ended_marked ended_leave) (simp_all add: ended_leave)

lemma terminate_thread_ended: "post sched_ok (terminate_thread M) (ended goes_on (\<lambda>a. \<exists>c. a = Exit c))"
proof -
  have other: "post (\<lambda>v. v = mark_terminated i c w) (em_return (Return 1)) (ended goes_on (\<lambda>a. \<exists>c. a = Exit c))"
    if "sched_ok w" "i \<noteq> os_current w" for i c w
    using mark_other_ok [OF that] by (auto intro!: post_return post_status ended_Inr(1))
  have self: "post (\<lambda>v. v = mark_terminated (os_current w) c w) (leave_thread c) (ended goes_on (\<lambda>a. \<exists>c. a = Exit c))"
    if "sched_ok w" for c w
    using ended_leave [OF that, of c] by (rule ended_post_mono) blast
  show ?thesis
    unfolding terminate_thread_def
    apply (rule post_silent [OF silent_arguments(1) ended_sched_ok], assumption, simp)
    apply (rule post_silent [OF silent_arguments(1) ended_sched_ok], assumption, simp)
    apply (rule post_os)
    subgoal for h c w
      by (cases "thread_by_handle h w"; cases "thread_by_handle h w = Some (os_current w)")
        (auto intro!: post_end ended_marked post_same [where a = "Return 0"] ended_Inr(1) intro: other self)
    done
qed

lemma nt_terminate_thread_ended: "post sched_ok (nt_terminate_thread M) (ended (\<lambda>a. True) (\<lambda>a. True))"
proof -
  have other: "post (\<lambda>v. v = mark_terminated i c w) (status st) (ended (\<lambda>a. True) (\<lambda>a. True))"
    if "sched_ok w" "i \<noteq> os_current w" for i c w st
    using mark_other_ok [OF that] by (auto intro!: post_return post_status ended_Inr(1))
  have self: "post (\<lambda>v. v = mark_terminated (os_current w) c w)
      (em_bind (os_upd (\<lambda>w. w\<lparr>os_syscall_resume_as_is := True\<rparr>)) (\<lambda>_. em_bind (os pick_next) (\<lambda>n.
         case n of Some n \<Rightarrow> em_bind (activate_thread n) (\<lambda>_. status STATUS_SUCCESS) | None \<Rightarrow> status st)))
      (ended (\<lambda>a. True) (\<lambda>a. True))" if w: "sched_ok w" for w c st
  proof (rule post_upd, rule post_os)
    fix v assume v: "\<exists>u. u = mark_terminated (os_current w) c w \<and> v = u\<lparr>os_syscall_resume_as_is := True\<rparr>"
    then have l: "leaving v" using mark_current_leaving [OF w] by (auto simp: leaving_def)
    show "post (\<lambda>u. u = v) (case pick_next v of Some n \<Rightarrow> em_bind (activate_thread n) (\<lambda>_. status STATUS_SUCCESS)
      | None \<Rightarrow> status st) (ended (\<lambda>a. True) (\<lambda>a. True))"
      by (rule ended_switch [OF l]) (use l in \<open>auto intro!: post_status intro: ended_Inr\<close>)
  qed
  show ?thesis
    unfolding nt_terminate_thread_def resume_as_is_def
    apply (rule post_silent [OF silent_arguments(2) ended_sched_ok], assumption, simp)
    apply (rule post_silent [OF silent_arguments(2) ended_sched_ok], assumption, simp)
    apply (rule post_os)
    subgoal for h c w
      by (cases "nt_thread_index h w"; cases "nt_thread_index h w = Some (os_current w)")
        (auto intro!: post_end ended_marked intro: other self post_status [OF ended_sched_ok])
    done
qed

lemma ended_outcome:
  assumes "post P m (ended on halted)" "P (sw_os s)"
  shows "case m s of
      (Inr out, t) \<Rightarrow> on out \<and> sched_ok (sw_os t) \<or> halted out \<and> leaving (sw_os t) \<and> pick_next (sw_os t) = None
    | (Inl (Err e), t) \<Rightarrow> sched_ok (sw_os t)
    | (Inl x, t) \<Rightarrow> sched_ok (sw_os t) \<or> leaving (sw_os t)"
  using postD [OF assms] by (cases "m s"; cases "fst (m s)") (auto simp: ended_def split: stop.splits)
text \<open>
  C28: Exactly one thread is running, the current one, and its id is the current thread id. This
  holds when the process starts; and it is kept by every Win32 service that waits, signals,
  creates or opens an object, sleeps, yields, suspends, resumes or creates threads, or manages
  memory, and by every modelled native service but the one that terminates a thread, whatever
  the arguments, the memory and the outcome (for the two services that reach a child process: as
  long as the child's part leaves this process's scheduler alone); and by a preemption. The exit
  and the termination of a thread, by Win32 or by the native service, keep it too, with one
  exception: when the thread that ends is the last one that can run, no thread runs any more. The
  Win32 services then report the exit of the process; the native service returns as if a thread had
  been found, so that the terminated thread itself goes on. (Should unmapping the thread's stack
  panic, no thread need be running either.)
\<close>
theorem scheduler_invariant:
  assumes s: "sched_ok (sw_os s)"
    and child: "\<And>h. leads sched_ok (ch_resume_thread C h) sched_ok"
      "\<And>h c. leads sched_ok (ch_terminate C h c) sched_ok"
  shows "sched_ok (win_os_new cfg clk) \<and>
    list_all (\<lambda>f. sched_ok (sw_os (snd (f s))))
      [wait_single M, wait_multiple M, signal_sync M op, create_sync M kind ex wide, open_sync M wide,
       suspend_thread M, resume_thread M, create_thread M, sleep M argc, switch_to_thread M,
       virtual_alloc M, virtual_free M, virtual_protect M, virtual_query M] \<and>
    (\<forall>(n, f) \<in> set (modelled_services C h M). n \<noteq> 0x53 \<longrightarrow> sched_ok (sw_os (snd (f s)))) \<and>
    sched_ok (sw_os (snd (preempt_by n s))) \<and>
    (case exit_thread M code s of
       (Inr out, t) \<Rightarrow> goes_on out \<and> sched_ok (sw_os t) \<or>
         out = Exit code \<and> leaving (sw_os t) \<and> pick_next (sw_os t) = None
     | (Inl (Err e), t) \<Rightarrow> sched_ok (sw_os t)
     | (Inl x, t) \<Rightarrow> sched_ok (sw_os t) \<or> leaving (sw_os t)) \<and>
    (case terminate_thread M s of
       (Inr out, t) \<Rightarrow> goes_on out \<and> sched_ok (sw_os t) \<or>
         (\<exists>c. out = Exit c) \<and> leaving (sw_os t) \<and> pick_next (sw_os t) = None
     | (Inl (Err e), t) \<Rightarrow> sched_ok (sw_os t)
     | (Inl x, t) \<Rightarrow> sched_ok (sw_os t) \<or> leaving (sw_os t)) \<and>
    (case nt_terminate_thread M s of
       (Inr st, t) \<Rightarrow> sched_ok (sw_os t) \<or> leaving (sw_os t) \<and> pick_next (sw_os t) = None
     | (Inl (Err e), t) \<Rightarrow> sched_ok (sw_os t)
     | (Inl x, t) \<Rightarrow> sched_ok (sw_os t) \<or> leaving (sw_os t))"
proof (intro conjI)
  show "list_all (\<lambda>f. sched_ok (sw_os (snd (f s))))
      [wait_single M, wait_multiple M, signal_sync M op, create_sync M kind ex wide, open_sync M wide,
       suspend_thread M, resume_thread M, create_thread M, sleep M argc, switch_to_thread M,
       virtual_alloc M, virtual_free M, virtual_protect M, virtual_query M]"
    by (rule list_services [where P = sched_ok, OF _ s])
      (auto intro: wait_single_ok wait_multiple_ok signal_sync_ok create_sync_ok suspend_resume_ok create_ok
        sleep_ok switch_to_thread_ok vm_ok_services)
  show "\<forall>(n, f) \<in> set (modelled_services C h M). n \<noteq> 0x53 \<longrightarrow> sched_ok (sw_os (snd (f s)))"
    using modelled_services_ok [OF child] leadsD [where P = sched_ok and R = sched_ok, OF _ s] by blast
  show "sched_ok (sw_os (snd (preempt_by n s)))" by (rule leadsD [OF preempt_ok s])
  show "sched_ok (win_os_new cfg clk)" by (rule sched_ok_new)
qed (rule ended_outcome [OF exit_thread_ended s] ended_outcome [OF terminate_thread_ended s]
    ended_outcome [OF nt_terminate_thread_ended s, unfolded simp_thms])+

definition no_child_ops :: "'m child_ops" where
  \<comment> \<open>a process without children\<close>
  "no_child_ops = \<lparr>ch_resume_thread = \<lambda>h. em_return None, ch_terminate = \<lambda>h c. em_return False\<rparr>"

theorem scheduler_invariant_witness:
  "sched_ok (sw_os (snd (preempt_by 60000 two_threads_sys)))"
proof -
  have "leads sched_ok (ch_resume_thread no_child_ops h) sched_ok"
    "leads sched_ok (ch_terminate no_child_ops h c) sched_ok" for h c
    by (simp_all add: no_child_ops_def leads_keeps)
  from scheduler_invariant [of two_threads_sys, OF _ this] show ?thesis
    by (simp add: two_threads_sys_def two_threads_ok)
qed

text \<open>
  C35: No ready thread starves. While thread \<open>i\<close> is ready, and no thread is created, it gets the
  processor after at most \<open>(n - 1) * 50000\<close> steps, where a step of the other threads is the
  execution of an instruction, a yield, a wait that blocks or the end of a thread.
\<close>
theorem ready_thread_runs:
  assumes "\<And>k. sched_step M i (f k) (f (Suc k))" "sched_ok (sw_os (f 0))"
    "i < length (os_threads (sw_os (f 0)))" "th_state (os_threads (sw_os (f 0)) ! i) = Ready"
    "os_sched_ticks (sw_os (f 0)) < TIMESLICE"
  shows "\<exists>k. k \<le> (length (os_threads (sw_os (f 0))) - 1) * 50000 \<and>
    os_current (sw_os (f k)) = i \<and> th_state (os_threads (sw_os (f k)) ! i) = Running"
proof -
  have w: "waiting i (sw_os (f 0))" using assms(2-5) by (auto simp: waiting_def sched_ok_def)
  let ?n = "patience i (sw_os (f 0))"
  have "\<not> (waiting i (sw_os (f ?n)) \<and> patience i (sw_os (f ?n)) + ?n \<le> ?n)"
    using patience_pos [of i "sw_os (f ?n)"] by auto
  then obtain j where "j \<le> ?n" "os_current (sw_os (f j)) = i" "th_state (os_threads (sw_os (f j)) ! i) = Running"
    using waits_or_runs [of M i f ?n, OF assms(1) w] by blast
  then show ?thesis using patience_bound [OF w] by (intro exI [of _ j]) simp
qed

theorem ready_thread_runs_witness:
  "\<exists>k. k \<le> 50000 \<and> os_current (sw_os (((\<lambda>s. snd (preempt s)) ^^ k) two_threads_sys)) = 1 \<and>
    th_state (os_threads (sw_os (((\<lambda>s. snd (preempt s)) ^^ k) two_threads_sys)) ! 1) = Running"
proof -
  have "sched_step (vm_ops (\<lambda>_. False)) 1 s (snd (preempt s))" for s
    by (rule sched_step.retired) (simp add: undisturbed_def)
  then show ?thesis
    using ready_thread_runs [of "vm_ops (\<lambda>_. False)" 1 "\<lambda>k. ((\<lambda>s. snd (preempt s)) ^^ k) two_threads_sys"]
    by (simp add: two_threads_sys_def two_threads_ok TIMESLICE_def)
qed

end
