(* ===== verification/Os_Room.thy ===== *)
theory Os_Room
  imports Os_Vm Os_Thread Memory_Theorems
begin

text \<open>
  The search for room of \<open>os/src/vm.rs\<close> on \<open>VirtualMemory\<close>: where the last granule of the address
  space is free it ends, with an aligned base whose range meets no region, and mapping that range
  succeeds and leaves the rest of the space alone.
\<close>

lemma vm_ops_layout [simp]:
  "mo_next_region (vm_ops alloc) = vm_next_region" "mo_map_fixed (vm_ops alloc) = vm_map_fixed alloc"
  "mo_unmap (vm_ops alloc) = vm_unmap" "mo_protect (vm_ops alloc) = vm_protect"
  by (simp_all add: vm_ops_def)

section \<open>Granules\<close>

definition granular :: "u64 \<Rightarrow> bool" where
  "granular b \<longleftrightarrow> unat b mod 0x10000 = 0"

definition roomy :: "mapped list \<Rightarrow> bool" where
  \<comment> \<open>no region reaches into the last granule\<close>
  "roomy rs \<longleftrightarrow> (\<forall>x \<in> set rs. unat (rg_base (mp_region x)) + unat (rg_size (mp_region x)) \<le> 2 ^ 64 - 0x10000)"

lemma and_not_low: "unat (x AND NOT (mask k :: u64)) = unat x div 2 ^ k * 2 ^ k"
proof -
  have e: "x AND NOT (mask k) = push_bit k (drop_bit k x)"
    by (rule bit_word_eqI) (auto simp: bit_simps)
  have "push_bit k (drop_bit k (unat x)) = unat x div 2 ^ k * 2 ^ k"
    by (simp add: push_bit_eq_mult drop_bit_eq_div)
  moreover have "unat x div 2 ^ k * 2 ^ k < 2 ^ 64" using unat_bound64 [of x] div_times_less_eq_dividend le_less_trans by blast
  ultimately show ?thesis
    unfolding e unsigned_push_bit_eq unat_drop_bit_eq by (simp add: take_bit_nat_eq_self)
qed

lemma unat_align_mask:
  assumes "unat v + 2 ^ k - 1 < 2 ^ 64" "k < 64"
  shows "unat (align_up v (2 ^ k)) = (unat v + 2 ^ k - 1) div 2 ^ k * 2 ^ k"
proof -
  have "v + 2 ^ k - 1 = v + of_nat (2 ^ k - 1)" by (simp add: of_nat_diff)
  moreover have "unat (v + of_nat (2 ^ k - 1)) = unat v + 2 ^ k - 1"
    using assms unat_plus_no_wrap [of v "2 ^ k - 1"] by simp
  ultimately have "unat (v + 2 ^ k - 1) = unat v + 2 ^ k - 1" by (simp only:)
  moreover have "align_up v (2 ^ k) = (v + 2 ^ k - 1) AND NOT (mask k)"
    by (simp add: align_up_def mask_eq_exp_minus_1)
  ultimately show ?thesis by (simp add: and_not_low)
qed

lemma align_up_gran: "align_up v GRAN = (v + 0xFFFF) AND NOT (mask 16)"
  by (simp add: align_up_def GRAN_def mask_eq_exp_minus_1 add.commute)

lemma unat_align_up:
  assumes "unat v \<le> 2 ^ 64 - 0x10000"
  shows "unat (align_up v GRAN) = (unat v + 0xFFFF) div 0x10000 * 0x10000"
proof -
  have "unat (v + 0xFFFF) = unat v + 0xFFFF"
    using assms unat_plus_no_wrap [of v "0xFFFF"] by simp
  then show ?thesis by (simp add: align_up_gran and_not_low)
qed

lemma granular_align_up: "granular (align_up v GRAN)"
  by (simp add: granular_def align_up_gran and_not_low)

lemma granularE:
  assumes "granular b"
  obtains k where "unat b = k * 0x10000" "k < 2 ^ 48"
proof (rule that [of "unat b div 0x10000"])
  show "unat b = unat b div 0x10000 * 0x10000"
    using assms div_mult_mod_eq [of "unat b" "0x10000"] by (simp add: granular_def)
  have "unat b < 2 ^ 48 * 0x10000" using unat_bound64 [of b] by simp
  then show "unat b div 0x10000 < 2 ^ 48" by (rule less_mult_imp_div_less)
qed

lemma granular_le: "granular b \<Longrightarrow> unat b \<le> 2 ^ 64 - 0x10000"
  by (erule granularE) simp

lemma roomy_end:
  assumes "roomy rs" "x \<in> set rs"
  shows "rg_base (mp_region x) + rg_size (mp_region x) = mapped_end x" "unat (mapped_end x) \<le> 2 ^ 64 - 0x10000"
proof -
  let ?b = "unat (rg_base (mp_region x))" and ?s = "unat (rg_size (mp_region x))"
  have le: "?b + ?s \<le> 2 ^ 64 - 0x10000" using assms by (simp add: roomy_def)
  then have e: "unat (mapped_end x) = ?b + ?s" by (simp add: mapped_end_def unat_region_end)
  then show "unat (mapped_end x) \<le> 2 ^ 64 - 0x10000" using le by simp
  have "unat (rg_base (mp_region x) + rg_size (mp_region x)) = ?b + ?s"
    using le by (simp add: unat_word_ariths)
  with e show "rg_base (mp_region x) + rg_size (mp_region x) = mapped_end x"
    by (simp add: word_unat_eq_iff)
qed

lemma roomy_below_top: "roomy rs \<Longrightarrow> table_below_top rs"
  by (auto simp: roomy_def table_below_top_def below_top_def)

section \<open>The search\<close>

definition free_range :: "mapped list \<Rightarrow> u64 \<Rightarrow> u64 \<Rightarrow> bool" where
  "free_range rs b sz \<longleftrightarrow> (\<forall>x \<in> set rs. mapped_end x \<le> b \<or> saturating_add b sz \<le> rg_base (mp_region x))"

lemma find_mapped:
  assumes "List.find (\<lambda>x. mapped_end x > a) rs = Some x"
  obtains k where "k < length rs" "rs ! k = x" "a < mapped_end x" "\<forall>j < k. mapped_end (rs ! j) \<le> a"
  using assms by (auto simp: find_Some_iff not_less)

lemma next_region_cases:
  assumes "table_ok (vm_regions m)"
  obtains (none) "vm_next_region m a = None" "\<forall>x \<in> set (vm_regions m). mapped_end x \<le> a"
    | (some) x where "x \<in> set (vm_regions m)" "a < mapped_end x"
        "vm_next_region m a = Some (rg_base (mp_region x), rg_size (mp_region x), rg_perm (mp_region x))"
        "\<forall>y \<in> set (vm_regions m). mapped_end y \<le> a \<or> rg_base (mp_region x) \<le> rg_base (mp_region y)"
proof (cases "List.find (\<lambda>x. mapped_end x > a) (vm_regions m)")
  case None
  then show ?thesis by (intro none) (auto simp: vm_next_region_def find_None_iff not_less)
next
  case (Some x)
  then obtain k where k: "k < length (vm_regions m)" "vm_regions m ! k = x" "a < mapped_end x"
      "\<forall>j < k. mapped_end (vm_regions m ! j) \<le> a" by (rule find_mapped)
  have "mapped_end y \<le> a \<or> rg_base (mp_region x) \<le> rg_base (mp_region y)" if y: "y \<in> set (vm_regions m)" for y
  proof -
    obtain j where j: "j < length (vm_regions m)" "vm_regions m ! j = y" using y by (auto simp: in_set_conv_nth)
    then show ?thesis
      using k table_bases_sorted [OF assms, of k j] by (cases "j < k") auto
  qed
  with k Some show ?thesis by (intro some [of x]) (auto simp: vm_next_region_def)
qed

lemma granule_step:
  \<comment> \<open>a step over a region moves the base up by a granule at least\<close>
  assumes "roomy rs" "x \<in> set rs" "granular b" "b < mapped_end x" "(2 ^ 64 - unat b) div 0x10000 \<le> Suc n"
  shows "(2 ^ 64 - unat (align_up (rg_base (mp_region x) + rg_size (mp_region x)) GRAN)) div 0x10000 \<le> n"
    "b \<le> align_up (rg_base (mp_region x) + rg_size (mp_region x)) GRAN"
proof -
  note e = roomy_end [OF assms(1,2)]
  let ?c = "align_up (mapped_end x) GRAN"
  have c: "unat ?c = (unat (mapped_end x) + 0xFFFF) div 0x10000 * 0x10000"
    by (rule unat_align_up [OF e(2)])
  have lt: "unat b < unat (mapped_end x)" using assms(4) by (simp add: word_less_unat)
  obtain k where k: "unat b = k * 0x10000" "k < 2 ^ 48" using assms(3) by (rule granularE)
  have "Suc k \<le> (unat (mapped_end x) + 0xFFFF) div 0x10000"
    using lt k(1) by (simp add: less_eq_div_iff_mult_less_eq)
  then have le: "unat b + 0x10000 \<le> unat ?c" unfolding c k(1) by (simp add: add.commute)
  then show "b \<le> align_up (rg_base (mp_region x) + rg_size (mp_region x)) GRAN"
    by (simp add: e(1) word_le_unat)
  have "(2 ^ 64 - unat b) div 0x10000 = 2 ^ 48 - k" unfolding k(1) by (simp add: left_diff_distrib')
  moreover have "(2 ^ 64 - unat ?c) div 0x10000 \<le> (2 ^ 64 - (unat b + 0x10000)) div 0x10000"
    using le by (intro div_le_mono diff_le_mono2)
  moreover have "(2 ^ 64 - (unat b + 0x10000)) div 0x10000 = 2 ^ 48 - Suc k" unfolding k(1) by simp
  ultimately show "(2 ^ 64 - unat (align_up (rg_base (mp_region x) + rg_size (mp_region x)) GRAN)) div 0x10000 \<le> n"
    using assms(5) unfolding e(1) by linarith
qed

lemma free_range_before:
  assumes "\<forall>y \<in> set rs. mapped_end y \<le> b \<or> rb \<le> rg_base (mp_region y)" "saturating_add b sz \<le> rb"
  shows "free_range rs b sz"
  unfolding free_range_def using assms by (auto intro: order_trans)

lemma saturating_add_mono: "b \<le> d \<Longrightarrow> saturating_add b n \<le> saturating_add d n"
  by (simp add: word_le_unat unat_saturating_add)

lemma skips_nothing:
  \<comment> \<open>no granule that the search steps over is the base of a free range\<close>
  assumes "roomy rs" "x \<in> set rs" "granular d" "b \<le> d" "free_range rs d sz"
    "\<not> saturating_add b sz \<le> rg_base (mp_region x)"
  shows "align_up (rg_base (mp_region x) + rg_size (mp_region x)) GRAN \<le> d"
proof (rule ccontr)
  note e = roomy_end [OF assms(1,2)]
  assume "\<not> align_up (rg_base (mp_region x) + rg_size (mp_region x)) GRAN \<le> d"
  then have lt: "unat d < (unat (mapped_end x) + 0xFFFF) div 0x10000 * 0x10000"
    using unat_align_up [OF e(2)] by (simp add: e(1) word_le_unat)
  obtain k where k: "unat d = k * 0x10000" using assms(3) by (rule granularE)
  have "Suc k \<le> (unat (mapped_end x) + 0xFFFF) div 0x10000" using lt unfolding k by simp
  then have "Suc k * 0x10000 \<le> unat (mapped_end x) + 0xFFFF" by (simp add: less_eq_div_iff_mult_less_eq)
  then have "\<not> mapped_end x \<le> d" by (simp add: word_le_unat k)
  then have "saturating_add d sz \<le> rg_base (mp_region x)" using assms(2,5) by (auto simp: free_range_def)
  with assms(6) saturating_add_mono [OF assms(4)] show False by (meson order_trans)
qed

definition first_fit :: "mapped list \<Rightarrow> u64 \<Rightarrow> u64 \<Rightarrow> u64 \<Rightarrow> bool" where
  \<comment> \<open>\<open>c\<close> is the lowest granular base from \<open>b\<close> on whose range is free\<close>
  "first_fit rs b sz c \<longleftrightarrow> granular c \<and> b \<le> c \<and> free_range rs c sz \<and>
     (\<forall>d. granular d \<and> b \<le> d \<and> free_range rs d sz \<longrightarrow> c \<le> d)"

lemma first_fit_step:
  assumes "roomy rs" "x \<in> set rs" "granular b" "b < mapped_end x" "\<not> saturating_add b sz \<le> rg_base (mp_region x)"
    "first_fit rs (align_up (rg_base (mp_region x) + rg_size (mp_region x)) GRAN) sz c"
  shows "first_fit rs b sz c"
proof -
  have "(2 ^ 64 - unat b) div 0x10000 \<le> Suc (2 ^ 64)" by simp
  note le = granule_step(2) [OF assms(1-4) this]
  show ?thesis
    using assms(6) le skips_nothing [OF assms(1,2) _ _ _ assms(5)] unfolding first_fit_def by (meson order_trans)
qed

lemma find_free_from_ends:
  assumes tab: "table_ok (vm_regions m)" and room: "roomy (vm_regions m)"
  shows "granular b \<Longrightarrow> (2 ^ 64 - unat b) div 0x10000 \<le> n \<Longrightarrow>
    \<exists>c. find_free_from (vm_next_region m) sz n b = Some c \<and> first_fit (vm_regions m) b sz c \<and>
      (c = b \<or> (\<exists>x \<in> set (vm_regions m). c = align_up (mapped_end x) GRAN))"
proof (induction n arbitrary: b)
  case 0
  then show ?case using granular_le [OF 0(1)] by simp
next
  case (Suc n)
  show ?case
  proof (cases rule: next_region_cases [where a = b, OF tab, case_names none some])
    case none
    then show ?thesis using Suc.prems by (auto simp: free_range_def first_fit_def)
  next
    case (some x)
    show ?thesis
    proof (cases "saturating_add b sz \<le> rg_base (mp_region x)")
      case True
      then show ?thesis using free_range_before [OF some(4)] some Suc.prems by (simp add: first_fit_def)
    next
      case False
      note st = granule_step [OF room some(1) Suc.prems(1) some(2) Suc.prems(2)]
      from Suc.IH [OF granular_align_up st(1)] show ?thesis
        using False some first_fit_step [OF room some(1) Suc.prems(1) some(2) False] roomy_end(1) [OF room some(1)]
        by fastforce
    qed
  qed
qed

definition low_fit :: "mapped list \<Rightarrow> u64 \<Rightarrow> u64 \<Rightarrow> u64 \<Rightarrow> u64 option \<Rightarrow> bool" where
  \<comment> \<open>the first fit where it ends at \<open>mx\<close> or below, nothing where there is none\<close>
  "low_fit rs b sz mx r \<longleftrightarrow>
     (case r of
        Some c \<Rightarrow> first_fit rs b sz c \<and> unat c + unat sz < 2 ^ 64 \<and> c + sz - 1 \<le> mx
      | None \<Rightarrow> \<forall>d. granular d \<and> b \<le> d \<and> free_range rs d sz \<longrightarrow> 2 ^ 64 \<le> unat d + unat sz \<or> mx < d + sz - 1)"

lemma too_high:
  fixes b d mx sz :: u64
  assumes "2 ^ 64 \<le> unat b + unat sz \<or> mx < b + sz - 1" "b \<le> d" "sz \<noteq> 0"
  shows "2 ^ 64 \<le> unat d + unat sz \<or> mx < d + sz - 1"
proof (cases "2 ^ 64 \<le> unat d + unat sz")
  case False
  have "unat (x + sz - 1) = unat x + unat sz - 1" if "unat x + unat sz < 2 ^ 64" for x :: u64
  proof -
    have "unat (x + sz) = unat x + unat sz" using that by (simp add: unat_word_ariths)
    moreover have "0 < unat sz" using assms(3) by (simp add: unat_gt_0)
    ultimately show ?thesis using unat_minus_le [of 1 "x + sz"] by (simp add: word_le_unat)
  qed
  with False assms(1,2) show ?thesis by (auto simp: word_le_unat word_less_unat)
qed simp

lemma find_low_from_ends:
  assumes tab: "table_ok (vm_regions m)" and room: "roomy (vm_regions m)" and sz: "sz \<noteq> 0"
  shows "granular b \<Longrightarrow> (2 ^ 64 - unat b) div 0x10000 \<le> n \<Longrightarrow>
    \<exists>r. find_low_from (vm_next_region m) sz mx n b = Some r \<and> low_fit (vm_regions m) b sz mx r"
proof (induction n arbitrary: b)
  case 0
  then show ?case using granular_le [OF 0(1)] by simp
next
  case (Suc n)
  show ?case
  proof (cases "2 ^ 64 \<le> unat b + unat sz \<or> mx < b + sz - 1")
    case True
    then show ?thesis using too_high [OF True _ sz] by (auto simp: low_fit_def)
  next
    case False
    then have sat: "saturating_add b sz = b + sz" by (simp add: saturating_add_def not_le)
    show ?thesis
    proof (cases rule: next_region_cases [where a = b, OF tab, case_names none some])
      case none
      then show ?thesis using Suc.prems False by (auto simp: low_fit_def free_range_def first_fit_def not_less)
    next
      case (some x)
      show ?thesis
      proof (cases "b + sz \<le> rg_base (mp_region x)")
        case True
        then show ?thesis using free_range_before [OF some(4)] sat some Suc.prems False
          by (auto simp: low_fit_def first_fit_def)
      next
        case n: False
        then have ns: "\<not> saturating_add b sz \<le> rg_base (mp_region x)" by (simp add: sat)
        note st = granule_step [OF room some(1) Suc.prems(1) some(2) Suc.prems(2)]
        obtain r where r: "find_low_from (vm_next_region m) sz mx n
              (align_up (rg_base (mp_region x) + rg_size (mp_region x)) GRAN) = Some r"
            "low_fit (vm_regions m) (align_up (rg_base (mp_region x) + rg_size (mp_region x)) GRAN) sz mx r"
          using Suc.IH [OF granular_align_up st(1)] by blast
        have "low_fit (vm_regions m) b sz mx r"
          using r(2) first_fit_step [OF room some(1) Suc.prems(1) some(2) ns] skips_nothing [OF room some(1) _ _ _ ns]
          unfolding low_fit_def by (auto split: option.splits)
        then show ?thesis using r(1) n False some(3) by (auto simp: not_le not_less)
      qed
    qed
  qed
qed

lemma vm_find_free_ends:
  assumes "vm_inv (sw_mem s)" "roomy (vm_regions (sw_mem s))"
  obtains b where "first_fit (vm_regions (sw_mem s)) (align_up (os_valloc_next (sw_os s)) GRAN) sz b"
    "b = align_up (os_valloc_next (sw_os s)) GRAN \<or> (\<exists>x \<in> set (vm_regions (sw_mem s)). b = align_up (mapped_end x) GRAN)"
    "vm_find_free (vm_ops alloc) sz s =
      (Inr b, s\<lparr>sw_os := (sw_os s)\<lparr>os_valloc_next := b + align_up sz GRAN\<rparr>\<rparr>)"
proof -
  let ?b = "align_up (os_valloc_next (sw_os s)) GRAN"
  have "(2 ^ 64 - unat ?b) div 0x10000 \<le> BASES" by (simp add: BASES_def)
  from find_free_from_ends [OF vm_inv_table [OF assms(1)] assms(2) granular_align_up this, of sz]
  obtain c where "find_free_from (vm_next_region (sw_mem s)) sz BASES ?b = Some c"
      "first_fit (vm_regions (sw_mem s)) ?b sz c" "c = ?b \<or> (\<exists>x \<in> set (vm_regions (sw_mem s)). c = align_up (mapped_end x) GRAN)"
    by blast
  then show thesis by (intro that [of c]) (simp_all add: vm_find_free_def Let_def)
qed

lemma vm_find_low_ends:
  assumes "vm_inv (sw_mem s)" "roomy (vm_regions (sw_mem s))" "sz \<noteq> 0" "mx \<noteq> - 1"
  obtains r where "vm_find_free_below (vm_ops alloc) sz mx s = (Inr r, s)"
    "low_fit (vm_regions (sw_mem s)) LOW_ARENA_BASE sz mx r"
proof -
  have "granular LOW_ARENA_BASE" "(2 ^ 64 - unat LOW_ARENA_BASE) div 0x10000 \<le> BASES"
    by (simp_all add: granular_def LOW_ARENA_BASE_def BASES_def)
  then obtain r where "find_low_from (vm_next_region (sw_mem s)) sz mx BASES LOW_ARENA_BASE = Some r"
      "low_fit (vm_regions (sw_mem s)) LOW_ARENA_BASE sz mx r"
    using find_low_from_ends [OF vm_inv_table [OF assms(1)] assms(2,3)] by blast
  then show thesis using assms(4) by (intro that [of r]) (simp_all add: vm_find_free_below_def)
qed

section \<open>Mapping what was found\<close>

definition grows :: "u64 \<Rightarrow> u64 \<Rightarrow> perm \<Rightarrow> vmem \<Rightarrow> vmem \<Rightarrow> bool" where
  \<comment> \<open>\<open>m'\<close> is \<open>m\<close> with \<open>sz\<close> zero bytes at \<open>b\<close>, where nothing was\<close>
  "grows b sz p m m' \<longleftrightarrow> vm_ok m' \<and>
     (\<forall>i < unat sz. vm_space m (b + of_nat i) = None) \<and>
     vm_space m' = (\<lambda>a. if unat (a - b) < unat sz then Some (p, 0) else vm_space m a) \<and>
     vm_acc m' p b (unat sz) \<and> (\<forall>q a n. vm_acc m q a n \<longrightarrow> vm_acc m' q a n)"

lemma free_range_apart:
  assumes "free_range rs b sz"
  shows "\<not> list_ex (overlaps \<lparr>rg_name = nm, rg_base = b, rg_size = sz, rg_perm = p\<rparr>) rs"
  using assms by (auto simp: list_ex_iff free_range_def overlaps_def region_end_def not_less)

lemma in_range_iff:
  assumes "unat b + unat sz < 2 ^ 64"
  shows "region_contains \<lparr>rg_name = nm, rg_base = b, rg_size = sz, rg_perm = p\<rparr> a \<longleftrightarrow> unat (a - b) < unat sz"
proof (cases "b \<le> a")
  case True
  then show ?thesis using assms
    by (auto simp: region_contains_end word_less_unat word_le_unat unat_region_end unat_minus_le)
next
  case False
  then have "unat a < unat b" by (simp add: word_le_unat)
  have "unat (a - b) = 2 ^ 64 + unat a - unat b"
    using \<open>unat a < unat b\<close> unat_sub_if_size [of a b] by (simp add: word_size not_le)
  then show ?thesis using False assms unat_bound64 [of a] by (simp add: region_contains_end)
qed

lemma map_free_range:
  assumes inv: "vm_ok m" and free: "free_range (vm_regions m) b sz" and sz: "sz \<noteq> 0"
    and top: "unat b + unat sz < 2 ^ 64" and alloc: "alloc sz"
  shows "fst (vm_map_fixed alloc b sz p nm m) = Inr ()" "grows b sz p m (snd (vm_map_fixed alloc b sz p nm m))"
proof -
  let ?r = "\<lparr>rg_name = nm, rg_base = b, rg_size = sz, rg_perm = p\<rparr>"
  let ?bs = "replicate (unat sz) 0 :: bytes" and ?m = "snd (vm_map_fixed alloc b sz p nm m)"
  have map: "vm_map_fixed alloc b sz p nm m = vm_insert ?r ?bs m"
    using alloc by (simp add: vm_map_fixed_def vm_map_def zeroed_def)
  note apart = free_range_apart [OF free, of nm p]
  note run = vm_insert_def [of ?r ?bs m, unfolded Let_def, simplified, simplified apart if_False]
  show "fst (vm_map_fixed alloc b sz p nm m) = Inr ()" using sz by (simp add: map run)
  have regs: "set (vm_regions ?m) = insert \<lparr>mp_region = ?r, mp_bytes = ?bs\<rparr> (set (vm_regions m))"
    using sz by (simp add: map run)
  have "below_top ?r" using top by (simp add: below_top_def)
  then have "table_below_top (vm_regions ?m)"
    using inv by (simp add: table_below_top_def regs vm_ok_def)
  then have ok: "vm_ok ?m"
    using vm_inv_insert [OF vm_ok_inv [OF inv], of ?bs ?r] by (simp add: map vm_okI)
  have sp: "vm_space ?m a = (if unat (a - b) < unat sz then Some (p, 0) else vm_space m a)" for a
    using vm_insert_space [OF vm_ok_inv [OF inv], of ?r a] sz apart
    by (simp add: map in_range_iff [OF top])
  have none: "vm_space m (b + of_nat i) = None" if i: "i < unat sz" for i
  proof -
    have u: "unat (b + of_nat i) = unat b + i" using top i by (intro unat_plus_no_wrap) linarith
    have "\<not> in_region (b + of_nat i) x" if x: "x \<in> set (vm_regions m)" for x
    proof -
      have "mapped_end x \<le> b \<or> unat b + unat sz \<le> unat (rg_base (mp_region x))"
        using free x top by (auto simp: free_range_def saturating_add_def word_le_unat unat_word_ariths)
      then show ?thesis using u i by (auto simp: in_region_iff word_le_unat word_less_unat)
    qed
    then show ?thesis by (simp add: vm_space_def table_space_def position_None [THEN iffD2])
  qed
  have "vm_acc ?m q a n" if "vm_acc m q a n" for q a n
    using that by (auto simp: vm_acc_def list_ex_iff regs)
  moreover have "vm_acc ?m p b (unat sz)"
    using sz in_range_iff [OF top, of nm p b] by (auto simp: vm_acc_def list_ex_iff regs unat_gt_0)
  ultimately show "grows b sz p m ?m"
    unfolding grows_def using ok sp none by blast
qed

lemma tried_grows:
  assumes "vm_ok m" "free_range (vm_regions m) b sz" "sz \<noteq> 0" "unat b + unat sz < 2 ^ 64" "alloc sz"
  obtains m' where "tried (vm_map_fixed alloc b sz p nm) m = (Inr (Some ()), m')" "grows b sz p m m'"
  using map_free_range [where alloc = alloc, OF assms, of p nm] by (cases "vm_map_fixed alloc b sz p nm m") (simp add: tried_def)

lemma tried_refused:
  assumes "\<not> alloc sz"
  shows "tried (vm_map_fixed alloc b sz p nm) m = (Inr None, m)"
  using assms by (simp add: tried_def vm_map_fixed_def vm_map_def zeroed_def)

lemma vm_write_layout:
  assumes "vm_inv m"
  shows "map mp_region (vm_regions (snd (vm_write a bs m))) = map mp_region (vm_regions m)"
proof (cases "bs = []")
  case False
  with assms show ?thesis by (cases rule: vm_write_cases [where a = a]) (simp_all add: vm_regions_write_located)
qed (simp add: vm_write_def em_apply)

lemma roomy_regions: "roomy rs \<longleftrightarrow> (\<forall>r \<in> set (map mp_region rs). unat (rg_base r) + unat (rg_size r) \<le> 2 ^ 64 - 0x10000)"
  by (simp add: roomy_def)

lemma roomy_writes: "keeps (\<lambda>m. vm_inv m \<and> roomy (vm_regions m)) (write_u64s (vm_ops alloc) base ws)"
proof -
  have "keeps (\<lambda>m. vm_inv m \<and> roomy (vm_regions m)) (vm_write a bs)" for a bs
    by (simp add: keeps_def vm_inv_write roomy_regions vm_write_layout del: set_map)
  then show ?thesis
    unfolding write_u64s_def by (intro keeps_each) (simp add: mem_write_u64_def split: prod.split)
qed

end
