(* ===== verification/Os_Vm_Theorems.thy ===== *)
theory Os_Vm_Theorems
  imports Os_Room Os_Vm_Nt Os_New
begin

text \<open>
  The properties of the address-space manager on \<open>VirtualMemory\<close>: what an allocation does, and
  that every allocation on the books is backed by a region of its own.
\<close>

section \<open>Allocation\<close>

definition user_space :: "win_os \<Rightarrow> vmem \<Rightarrow> bool" where
  \<comment> \<open>the regions and the allocation cursor lie in the 47 bits of user space\<close>
  "user_space w m \<longleftrightarrow> vm_ok m \<and> unat (os_valloc_next w) \<le> 2 ^ 47 \<and>
     (\<forall>x \<in> set (vm_regions m). unat (rg_base (mp_region x)) + unat (rg_size (mp_region x)) \<le> 2 ^ 47)"

lemma user_space_roomy: "user_space w m \<Longrightarrow> roomy (vm_regions m)"
  by (auto simp: user_space_def roomy_def)

lemma align_user: "unat v \<le> 2 ^ 47 \<Longrightarrow> unat (align_up v GRAN) \<le> 2 ^ 47"
  using unat_align_up [of v] by simp

lemma fit_user_space:
  assumes "user_space w m"
    "b = align_up (os_valloc_next w) GRAN \<or> (\<exists>x \<in> set (vm_regions m). b = align_up (mapped_end x) GRAN)"
  shows "unat b \<le> 2 ^ 47"
proof -
  have "unat (mapped_end x) \<le> 2 ^ 47" if "x \<in> set (vm_regions m)" for x
    using assms(1) that by (auto simp: user_space_def mapped_end_def unat_region_end intro: min.coboundedI1)
  then show ?thesis using assms align_user by (auto simp: user_space_def)
qed

definition granted :: "u64 \<Rightarrow> u64 \<Rightarrow> vm_alloc \<Rightarrow> vmem sysw \<Rightarrow> (stop + u64) \<times> vmem sysw \<Rightarrow> bool" where
  \<comment> \<open>\<open>sz\<close> zero bytes at \<open>b\<close>, where nothing was, with every right, and on the books\<close>
  "granted b sz a s r \<longleftrightarrow> fst r = Inr b \<and> grows b sz PERM_RWX (sw_mem s) (sw_mem (snd r)) \<and>
     os_vm_allocs (sw_os (snd r)) = os_vm_allocs (vm_insert_alloc a (sw_os s))"

definition denied :: "vmem sysw \<Rightarrow> (stop + u64) \<times> vmem sysw \<Rightarrow> bool" where
  "denied s r \<longleftrightarrow> fst r = Inr 0 \<and> sw_mem (snd r) = sw_mem s \<and>
     os_vm_allocs (sw_os (snd r)) = os_vm_allocs (sw_os s) \<and> os_last_error (sw_os (snd r)) = 8"

lemma alloc_new_run:
  assumes "vm_find_free_below (vm_ops alloc) sz mx s = (Inr (Some b), s\<lparr>sw_os := w\<rparr>)"
    "vm_ok (sw_mem s)" "free_range (vm_regions (sw_mem s)) b sz" "sz \<noteq> 0" "unat b + unat sz < 2 ^ 64"
    "os_vm_allocs w = os_vm_allocs (sw_os s)"
  shows "if alloc sz then granted b sz (private_alloc b sz prot c) s (vm_alloc_new (vm_ops alloc) sz prot c mx s)
    else denied s (vm_alloc_new (vm_ops alloc) sz prot c mx s)"
proof (cases "alloc sz")
  case True
  obtain m' where "tried (vm_map_fixed alloc b sz PERM_RWX ''valloc'') (sw_mem s) = (Inr (Some ()), m')"
      "grows b sz PERM_RWX (sw_mem s) m'"
    using tried_grows [where alloc = alloc, OF assms(2-5) True] .
  then show ?thesis using True assms(1,6)
    by (simp add: granted_def vm_alloc_new_def em_bind_apply on_mem_def os_upd_def em_apply vm_insert_alloc_def)
next
  case False
  then show ?thesis using assms(1,6) tried_refused [where alloc = alloc, OF False]
    by (simp add: denied_def vm_alloc_new_def em_bind_apply on_mem_def os_upd_def em_apply set_last_error_def)
qed

lemma page_size:
  assumes "unat n \<le> 2 ^ 47"
  shows "align_up (max n 1) PAGE \<noteq> 0" "unat (align_up (max n 1) PAGE) \<le> 2 ^ 48"
proof -
  let ?n = "unat (max n 1)"
  have n: "1 \<le> ?n" "?n \<le> 2 ^ 47" using assms by (auto simp: max_def word_le_unat not_le)
  have "unat (align_up (max n 1) PAGE) = (?n + 2 ^ 12 - 1) div 2 ^ 12 * 2 ^ 12"
    using unat_align_mask [of "max n 1" 12] n by (simp add: PAGE_def)
  moreover have "1 \<le> (?n + 2 ^ 12 - 1) div 2 ^ 12" using n by (simp add: less_eq_div_iff_mult_less_eq)
  moreover have "(?n + 2 ^ 12 - 1) div 2 ^ 12 * 2 ^ 12 \<le> ?n + 2 ^ 12 - 1" by (rule div_times_less_eq_dividend)
  ultimately show "align_up (max n 1) PAGE \<noteq> 0" "unat (align_up (max n 1) PAGE) \<le> 2 ^ 48"
    using n by (auto simp: unat_gt_0 [symmetric])
qed


section \<open>The books\<close>

definition backed :: "vmem \<Rightarrow> vm_alloc \<Rightarrow> bool" where
  "backed m a \<longleftrightarrow> (\<exists>x \<in> set (vm_regions m). rg_base (mp_region x) = va_base a \<and> rg_size (mp_region x) = va_size a)"

definition books_ok :: "win_os \<Rightarrow> vmem \<Rightarrow> bool" where
  "books_ok w m \<longleftrightarrow> vm_inv m \<and> sorted_wrt (\<lambda>a b. va_base a < va_base b) (os_vm_allocs w) \<and>
     (\<forall>a \<in> set (os_vm_allocs w). backed m a)"

definition layout :: "vmem \<Rightarrow> (u64 \<times> u64) set" where
  "layout m = (\<lambda>x. (rg_base (mp_region x), rg_size (mp_region x))) ` set (vm_regions m)"

lemma books_backed:
  assumes "books_ok w m" "a \<in> set (os_vm_allocs w)"
  obtains x where "x \<in> set (vm_regions m)" "rg_base (mp_region x) = va_base a" "rg_size (mp_region x) = va_size a"
  using assms unfolding books_ok_def backed_def by metis

lemma backed_layout: "backed m a \<longleftrightarrow> (va_base a, va_size a) \<in> layout m"
  by (simp add: backed_def layout_def image_iff eq_commute [of "va_base a"] eq_commute [of "va_size a"])

lemma books_keep:
  "books_ok w m \<Longrightarrow> vm_inv m' \<Longrightarrow> layout m \<subseteq> layout m' \<Longrightarrow> os_vm_allocs w' = os_vm_allocs w \<Longrightarrow> books_ok w' m'"
  by (auto simp: books_ok_def backed_layout)

lemma allocs_apart:
  assumes "books_ok w m" "a \<in> set (os_vm_allocs w)" "b \<in> set (os_vm_allocs w)" "va_base a < va_base b"
  shows "saturating_add (va_base a) (va_size a) \<le> va_base b"
proof -
  obtain x y where x: "x \<in> set (vm_regions m)" "rg_base (mp_region x) = va_base a" "rg_size (mp_region x) = va_size a"
      and y: "y \<in> set (vm_regions m)" "rg_base (mp_region y) = va_base b"
    using books_backed [OF assms(1,2)] books_backed [OF assms(1,3)] by metis
  have tab: "table_ok (vm_regions m)" using assms(1) by (simp add: books_ok_def vm_inv_table)
  obtain i j where ij: "i < length (vm_regions m)" "j < length (vm_regions m)" "vm_regions m ! i = x" "vm_regions m ! j = y"
    using x(1) y(1) by (auto simp: in_set_conv_nth)
  have "i < j"
  proof (rule ccontr)
    assume "\<not> i < j"
    then show False using table_bases_sorted [OF tab, of j i] ij x y assms(4) by simp
  qed
  then have "mapped_end x \<le> va_base b" using table_sorted [OF tab, of i j] ij y by simp
  then show ?thesis by (simp add: mapped_end_def region_end_def x)
qed

lemma books_insert:
  assumes "books_ok w m" "vm_insert \<lparr>rg_name = nm, rg_base = va_base a, rg_size = va_size a, rg_perm = p\<rparr> bs m = (Inr (), m')"
    "vm_inv m'" "va_size a \<noteq> 0" "va_base a \<noteq> - 1"
  shows "books_ok (vm_insert_alloc a w) m'"
proof -
  let ?r = "\<lparr>rg_name = nm, rg_base = va_base a, rg_size = va_size a, rg_perm = p\<rparr>"
  let ?as = "os_vm_allocs w" and ?p = "partition_point (\<lambda>x. va_base x < va_base a) (os_vm_allocs w)"
  have free: "\<not> list_ex (overlaps ?r) (vm_regions m)" and m': "layout m' = insert (va_base a, va_size a) (layout m)"
    using assms(2,4) by (auto simp: vm_insert_def Let_def layout_def split: if_splits)
  have sorted: "sorted_wrt (\<lambda>a b. va_base a < va_base b) ?as" using assms(1) by (simp add: books_ok_def)
  have other: "va_base b \<noteq> va_base a" if b: "b \<in> set ?as" for b
  proof
    assume eq: "va_base b = va_base a"
    obtain x where x: "x \<in> set (vm_regions m)" "rg_base (mp_region x) = va_base b"
      using books_backed [OF assms(1) b] .
    have "region_ok x" using assms(1) x(1) unfolding books_ok_def vm_inv_def table_ok_def by blast
    then have "rg_base (mp_region x) < mapped_end x" using region_end_gt_base [of x] x(2) assms(5) eq by simp
    moreover have "va_base a < region_end ?r"
      using region_end_gt_base [of "\<lparr>mp_region = ?r, mp_bytes = replicate (unat (va_size a)) 0\<rparr>"] assms(4,5)
      by (simp add: region_ok_def mapped_end_def)
    ultimately have "overlaps ?r x" using x(2) eq by (simp add: overlaps_def)
    with x(1) free show False by (auto simp: list_ex_iff)
  qed
  have "sorted_wrt (\<lambda>a b. va_base a < va_base b) (insert_at ?p a ?as)"
  proof (rule sorted_wrt_insert_at [OF sorted partition_point_le])
    fix k
    show "va_base (?as ! k) < va_base a" if "k < ?p" using nth_before_partition_point [OF that] .
    show "va_base a < va_base (?as ! k)" if k: "?p \<le> k" "k < length ?as"
    proof -
      have "\<not> va_base (?as ! ?p) < va_base a"
        using k nth_at_partition_point [of "\<lambda>x. va_base x < va_base a" ?as] by simp
      moreover have "va_base (?as ! ?p) \<le> va_base (?as ! k)"
        using k sorted_wrt_nth_less [OF sorted, of ?p k] by (cases "?p = k") (auto intro: less_imp_le)
      moreover have "va_base (?as ! k) \<noteq> va_base a" using k other by simp
      ultimately show ?thesis by simp
    qed
  qed
  moreover have "\<forall>b \<in> set (insert_at ?p a ?as). backed m' b"
    using assms(1) m' by (auto simp: books_ok_def backed_layout)
  ultimately show ?thesis using assms(3) by (simp add: books_ok_def vm_insert_alloc_def)
qed

lemma books_remove:
  assumes "books_ok w m" "position (\<lambda>a. va_base a = b) (os_vm_allocs w) = Some i"
  shows "books_ok (w\<lparr>os_vm_allocs := remove_at i (os_vm_allocs w)\<rparr>) (snd (vm_unmap b 0 m))"
proof -
  let ?as = "os_vm_allocs w"
  have i: "i < length ?as" "va_base (?as ! i) = b" using assms(2) by (auto simp: position_Some)
  have sorted: "sorted_wrt (\<lambda>a b. va_base a < va_base b) ?as" using assms(1) by (simp add: books_ok_def)
  have "distinct (map va_base ?as)" using sorted by (intro sorted_less_distinct) (simp add: sorted_wrt_map)
  then have gone: "va_base a \<noteq> b" if "a \<in> set (remove_at i ?as)" for a
    using that i set_remove_at [of ?as i] by (auto simp: distinct_map inj_on_def)
  have keep: "x \<in> set (vm_regions (snd (vm_unmap b 0 m)))" if "x \<in> set (vm_regions m)" "rg_base (mp_region x) \<noteq> b" for x
  proof (cases "position (\<lambda>x. rg_base (mp_region x) = b) (vm_regions m)")
    case (Some p)
    then have p: "p < length (vm_regions m)" "rg_base (mp_region (vm_regions m ! p)) = b" by (auto simp: position_Some)
    have "vm_regions m = take p (vm_regions m) @ vm_regions m ! p # drop (Suc p) (vm_regions m)"
      by (rule id_take_nth_drop [OF p(1)])
    then have "x \<in> set (take p (vm_regions m) @ vm_regions m ! p # drop (Suc p) (vm_regions m))" using that(1) by simp
    then show ?thesis using that(2) p Some by (auto simp: vm_unmap_def Let_def remove_at_def)
  qed (use that in \<open>simp add: vm_unmap_def Let_def\<close>)
  have "backed (snd (vm_unmap b 0 m)) a" if a: "a \<in> set (remove_at i ?as)" for a
  proof -
    have "a \<in> set ?as" using a set_take_subset [of i ?as] set_drop_subset [of "Suc i" ?as] by (auto simp: remove_at_def)
    then obtain x where "x \<in> set (vm_regions m)" "rg_base (mp_region x) = va_base a" "rg_size (mp_region x) = va_size a"
      using books_backed [OF assms(1)] by blast
    then show ?thesis using keep gone [OF a] unfolding backed_def by metis
  qed
  then show ?thesis
    using assms(1) sorted_wrt_remove_at [OF sorted] by (simp add: books_ok_def vm_inv_unmap)
qed

lemma find_free_from_granular: "granular b \<Longrightarrow> find_free_from nx sz n b = Some c \<Longrightarrow> granular c"
proof (induction n arbitrary: b)
  case (Suc n)
  show ?case using Suc.prems Suc.IH [OF granular_align_up] by (auto split: option.splits if_splits)
qed simp

lemma find_low_from_granular: "granular b \<Longrightarrow> find_low_from nx sz mx n b = Some (Some c) \<Longrightarrow> granular c"
proof (induction n arbitrary: b)
  case (Suc n)
  show ?case using Suc.prems Suc.IH [OF granular_align_up] by (auto split: option.splits if_splits)
qed simp

lemma vm_find_free_below_frame:
  "sw_mem (snd (vm_find_free_below M sz mx s)) = sw_mem s \<and>
    os_vm_allocs (sw_os (snd (vm_find_free_below M sz mx s))) = os_vm_allocs (sw_os s) \<and>
    (fst (vm_find_free_below M sz mx s) = Inr (Some b) \<longrightarrow> granular b)"
proof -
  have "granular LOW_ARENA_BASE" by (simp add: granular_def LOW_ARENA_BASE_def)
  then show ?thesis
    using find_free_from_granular [OF granular_align_up] find_low_from_granular
    by (auto simp: vm_find_free_below_def vm_find_free_def em_bind_apply em_apply Let_def split: option.splits)
qed

lemma granular_not_top: "granular b \<Longrightarrow> b \<noteq> - 1"
  using granular_le [of b] by (auto simp: unsigned_minus_1_eq_mask mask_eq_exp_minus_1)

lemma map_and_insert:
  assumes "books_ok w m" "va_size a \<noteq> 0" "va_base a \<noteq> - 1"
    "tried (vm_map_fixed alloc (va_base a) (va_size a) p nm) m = (Inr r, m')"
  shows "if r = None then books_ok w m' else books_ok (vm_insert_alloc a w) m'"
proof -
  let ?r = "\<lparr>rg_name = nm, rg_base = va_base a, rg_size = va_size a, rg_perm = p\<rparr>"
  let ?bs = "replicate (unat (va_size a)) 0 :: bytes"
  have inv: "vm_inv m" using assms(1) by (simp add: books_ok_def)
  have inv': "vm_inv (snd (vm_insert ?r ?bs m))" by (rule vm_inv_insert [OF inv]) simp
  show ?thesis
  proof (cases "alloc (va_size a)")
    case True
    then have run: "vm_map_fixed alloc (va_base a) (va_size a) p nm m = vm_insert ?r ?bs m"
      by (simp add: vm_map_fixed_def vm_map_def zeroed_def)
    show ?thesis
    proof (cases rule: vm_insert_cases [of ?r ?bs m])
      case inserted
      then have "books_ok (vm_insert_alloc a w) m'"
        using books_insert [OF assms(1) _ _ assms(2,3), of nm p ?bs m'] inv' assms(4) run
        by (simp add: tried_def split: prod.splits sum.splits stop.splits)
      moreover have "r = Some ()" using inserted assms(4) run by (simp add: tried_def)
      ultimately show ?thesis by simp
    qed (use assms run in \<open>simp_all add: tried_def\<close>)
  next
    case False
    then show ?thesis using assms(1,4) tried_refused [where alloc = alloc, OF False] by simp
  qed
qed

lemma tried_map_returns: "\<exists>r m'. tried (vm_map_fixed alloc b sz p nm) m = (Inr r, m')"
  by (auto simp: tried_def vm_map_fixed_def vm_map_def zeroed_def vm_insert_def Let_def)

lemma books_os: "books_ok w m \<Longrightarrow> os_vm_allocs w' = os_vm_allocs w \<Longrightarrow> books_ok w' m"
  by (simp add: books_ok_def)

abbreviation books :: "vmem sysw \<Rightarrow> bool" where
  "books s \<equiv> books_ok (sw_os s) (sw_mem s)"

lemma books_alloc_new:
  assumes "books s" "sz \<noteq> 0"
  shows "books (snd (vm_alloc_new (vm_ops alloc) sz prot c mx s))"
proof -
  obtain f s1 where f: "vm_find_free_below (vm_ops alloc) sz mx s = (f, s1)" by force
  note frame = vm_find_free_below_frame [of "vm_ops alloc" sz mx s, unfolded f fst_conv snd_conv]
  have b1: "books_ok (sw_os s1) (sw_mem s1)" using books_os [OF assms(1)] frame by auto
  show ?thesis
  proof (cases "\<exists>b. f = Inr (Some b)")
    case True
    then obtain b where b: "f = Inr (Some b)" ..
    obtain r m' where t: "tried (vm_map_fixed alloc b sz PERM_RWX ''valloc'') (sw_mem s1) = (Inr r, m')"
      using tried_map_returns by blast
    have "b \<noteq> - 1" using frame b granular_not_top by blast
    then have "if r = None then books_ok (sw_os s1) m' else books_ok (vm_insert_alloc (private_alloc b sz prot c) (sw_os s1)) m'"
      using map_and_insert [where alloc = alloc and r = r and m' = m' and p = PERM_RWX and nm = "''valloc''", OF b1, of "private_alloc b sz prot c"] assms(2) t by (simp add: private_alloc_def)
    then show ?thesis
      by (cases r) (simp_all add: vm_alloc_new_def em_bind_apply f b t on_mem_def os_upd_def em_apply
          set_last_error_def books_os)
  next
    case False
    then show ?thesis using b1
      by (auto simp: vm_alloc_new_def em_bind_apply f os_upd_def em_apply set_last_error_def
          intro: books_os split: sum.splits option.splits)
  qed
qed

lemma books_upd_alloc:
  assumes "books_ok w m" "\<And>x. va_base (f x) = va_base x \<and> va_size (f x) = va_size x"
  shows "books_ok (upd_alloc a f w) m"
proof (cases "position (va_holds a) (os_vm_allocs w)")
  case (Some i)
  have map: "map (\<lambda>x. (va_base x, va_size x)) ((os_vm_allocs w)[i := f (os_vm_allocs w ! i)]) =
      map (\<lambda>x. (va_base x, va_size x)) (os_vm_allocs w)"
    using assms(2) position_Some [THEN iffD1, OF Some] by (simp add: map_update list_update_same_conv)
  have "books_ok (w\<lparr>os_vm_allocs := xs\<rparr>) m \<longleftrightarrow> vm_inv m \<and>
      sorted_wrt (<) (map fst (map (\<lambda>x. (va_base x, va_size x)) xs)) \<and>
      set (map (\<lambda>x. (va_base x, va_size x)) xs) \<subseteq> layout m" for xs
    by (auto simp: books_ok_def backed_layout sorted_wrt_map)
  from this [of "(os_vm_allocs w)[i := f (os_vm_allocs w ! i)]"] this [of "os_vm_allocs w"] show ?thesis
    using assms(1) unfolding map by (simp add: upd_alloc_def upd_first_def Some)
qed (simp add: upd_alloc_def upd_first_def assms(1))

lemma books_alloc_at:
  assumes "books s" "sz \<noteq> 0" "base \<noteq> - 1"
  shows "books (snd (vm_alloc_at (vm_ops alloc) base sz prot c s))"
proof -
  obtain r m' where t: "tried (vm_map_fixed alloc base sz PERM_RWX ''valloc'') (sw_mem s) = (Inr r, m')"
    using tried_map_returns by blast
  have "if r = None then books_ok (sw_os s) m' else books_ok (vm_insert_alloc (private_alloc base sz prot c) (sw_os s)) m'"
    using map_and_insert [where alloc = alloc and r = r and m' = m' and p = PERM_RWX and nm = "''valloc''",
        OF assms(1), of "private_alloc base sz prot c"] assms(2,3) t by (simp add: private_alloc_def)
  then show ?thesis using assms(1) t
    by (cases r) (auto simp: vm_alloc_at_def em_bind_apply em_apply os_def os_upd_def on_mem_def em_when_def
        intro: books_upd_alloc)
qed

lemma books_free:
  assumes "books s"
  shows "books (snd (vm_free_region (vm_ops alloc) addr ty s))"
proof -
  have keep: "books_ok (upd_alloc b (\<lambda>a. a\<lparr>va_committed := False\<rparr>) (sw_os s)) (sw_mem s)" for b
    by (rule books_upd_alloc [OF assms]) simp
  have unmap: "tried (vm_unmap b 0) m = (Inr (Some ()), snd (vm_unmap b 0 m))" for b m
    by (simp add: tried_def vm_unmap_def Let_def split: option.splits)
  show ?thesis
  proof (cases "ty AND MEM_RELEASE \<noteq> 0")
    case True
    then show ?thesis using assms books_remove [OF assms, of "page_of addr"]
      by (cases "position (\<lambda>a. va_base a = page_of addr) (os_vm_allocs (sw_os s))")
        (simp_all add: vm_free_region_def Let_def em_bind_apply em_apply os_def os_upd_def on_mem_def unmap)
  next
    case False
    then show ?thesis using assms keep by (simp add: vm_free_region_def Let_def em_apply os_upd_def)
  qed
qed

lemma books_protect:
  assumes "books s"
  shows "books (snd (os_run (vm_protect_region addr prot) s))"
  using books_upd_alloc [OF assms, of "\<lambda>a. a\<lparr>va_protect := prot\<rparr>" "page_of addr"]
  by (simp add: os_run_def vm_protect_region_def Let_def)

lemma books_access:
  assumes "books_ok w m"
  shows "books_ok w (snd (vm_read a n m))" "books_ok w (snd (vm_fetch a n m))" "books_ok w (snd (vm_write a bs m))"
proof -
  have inv: "vm_inv m" using assms by (simp add: books_ok_def)
  show "books_ok w (snd (vm_read a n m))" "books_ok w (snd (vm_fetch a n m))"
    by (rule books_keep [OF assms]; simp add: layout_def vm_read_frame [OF inv] vm_inv_read vm_inv_fetch inv)+
  have "map mp_region (vm_regions (snd (vm_write a bs m))) = map mp_region (vm_regions m)" by (rule vm_write_layout [OF inv])
  then have "mp_region ` set (vm_regions (snd (vm_write a bs m))) = mp_region ` set (vm_regions m)"
    by (metis set_map)
  then have "layout (snd (vm_write a bs m)) = layout m"
    by (simp add: layout_def image_image [symmetric, where f = "\<lambda>r. (rg_base r, rg_size r)" and g = mp_region])
  then show "books_ok w (snd (vm_write a bs m))"
    by (intro books_keep [OF assms]) (simp_all add: vm_inv_write inv)
qed

lemma page_rounded:
  assumes "unat n \<le> 2 ^ 64 - 0x1000"
  shows "align_up (max n 1) PAGE \<noteq> 0"
proof -
  let ?n = "unat (max n 1)"
  have n: "1 \<le> ?n" "?n \<le> 2 ^ 64 - 0x1000" using assms by (auto simp: max_def word_le_unat not_le)
  have "unat (align_up (max n 1) PAGE) = (?n + 2 ^ 12 - 1) div 2 ^ 12 * 2 ^ 12"
    using unat_align_mask [of "max n 1" 12] n by (simp add: PAGE_def)
  moreover have "1 \<le> (?n + 2 ^ 12 - 1) div 2 ^ 12" using n by (simp add: less_eq_div_iff_mult_less_eq)
  ultimately show ?thesis by (auto simp: unat_gt_0 [symmetric])
qed

lemma page_of_not_top: "page_of a \<noteq> - 1"
proof
  assume "page_of a = - 1"
  then have "bit (page_of a) 0" by simp
  then show False by (simp add: page_of_def PAGE_def bit_simps)
qed

text \<open>
  C31: The books of the address-space manager are right. Every allocation on them is a mapped region of its
  own with the same base and size, and they are sorted, so no two allocations share an
  address. Reserving and committing keep this, with any arguments but a size within a page of
  \<open>2 ^ 64\<close>, which the rounding to whole pages turns into zero, so that an allocation without a region
  is booked; releasing, decommitting and changing the protection keep it with any arguments, and so
  do the reads, writes and fetches of the guest.
\<close>
theorem allocations_backed:
  assumes "books_ok (sw_os s) (sw_mem s)" "unat size_req \<le> 2 ^ 64 - 0x1000"
  shows "books_ok (sw_os (snd (vm_alloc_region_below (vm_ops alloc) addr size_req ty prot mx s)))
      (sw_mem (snd (vm_alloc_region_below (vm_ops alloc) addr size_req ty prot mx s))) \<and>
    books_ok (sw_os (snd (vm_free_region (vm_ops alloc) addr ty s))) (sw_mem (snd (vm_free_region (vm_ops alloc) addr ty s))) \<and>
    books_ok (snd (vm_protect_region addr prot (sw_os s))) (sw_mem s) \<and>
    (\<forall>a n bs. books_ok (sw_os s) (snd (vm_read a n (sw_mem s))) \<and> books_ok (sw_os s) (snd (vm_fetch a n (sw_mem s))) \<and>
      books_ok (sw_os s) (snd (vm_write a bs (sw_mem s)))) \<and>
    (\<forall>a b x. a \<in> set (os_vm_allocs (sw_os s)) \<and> b \<in> set (os_vm_allocs (sw_os s)) \<and>
      va_base a \<le> x \<and> x < saturating_add (va_base a) (va_size a) \<and>
      va_base b \<le> x \<and> x < saturating_add (va_base b) (va_size b) \<longrightarrow> va_base a = va_base b)"
proof (intro conjI allI)
  show "books (snd (vm_alloc_region_below (vm_ops alloc) addr size_req ty prot mx s))"
    using books_alloc_new [OF assms(1) page_rounded [OF assms(2)]] books_alloc_at [OF assms(1) page_rounded [OF assms(2)] page_of_not_top]
    by (simp add: vm_alloc_region_below_def Let_def)
  show "books (snd (vm_free_region (vm_ops alloc) addr ty s))" by (rule books_free [OF assms(1)])
  show "books_ok (snd (vm_protect_region addr prot (sw_os s))) (sw_mem s)"
    using books_protect [OF assms(1), of addr prot] by (simp add: os_run_def case_prod_beta)
  fix a n bs
  show "books_ok (sw_os s) (snd (vm_read a n (sw_mem s)))" "books_ok (sw_os s) (snd (vm_fetch a n (sw_mem s)))"
    "books_ok (sw_os s) (snd (vm_write a bs (sw_mem s)))" by (rule books_access [OF assms(1)])+
next
  fix a b x
  show "a \<in> set (os_vm_allocs (sw_os s)) \<and> b \<in> set (os_vm_allocs (sw_os s)) \<and>
      va_base a \<le> x \<and> x < saturating_add (va_base a) (va_size a) \<and>
      va_base b \<le> x \<and> x < saturating_add (va_base b) (va_size b) \<longrightarrow> va_base a = va_base b"
    using allocs_apart [OF assms(1), of a b] allocs_apart [OF assms(1), of b a]
    by (meson leD less_le_trans linorder_neqE order_trans)
qed

definition fresh_sys :: "vmem sysw" where
  \<comment> \<open>a process that has just started, with an empty memory\<close>
  "fresh_sys = \<lparr>sw_os = win_os_new os_config_default (clock_new True), sw_cpu = cpu_state_new, sw_mem = vm_new\<rparr>"

lemma fresh_user_space: "user_space (sw_os fresh_sys) (sw_mem fresh_sys)"
  by (simp add: user_space_def fresh_sys_def win_os_new_def os_config_default_def vm_new_def vm_ok_def vm_inv_def
      table_ok_def table_below_top_def)


theorem allocations_backed_witness:
  "books_ok (sw_os (snd (vm_alloc_region_below (vm_ops (\<lambda>n. n \<le> 0x10000)) 0x30000 0x1234 MEM_COMMIT 4 (- 1) fresh_sys)))
    (sw_mem (snd (vm_alloc_region_below (vm_ops (\<lambda>n. n \<le> 0x10000)) 0x30000 0x1234 MEM_COMMIT 4 (- 1) fresh_sys)))"
proof -
  have "books_ok (sw_os fresh_sys) (sw_mem fresh_sys)"
    by (simp add: books_ok_def fresh_sys_def win_os_new_def vm_new_def vm_inv_def table_ok_def)
  from allocations_backed [OF this, of "0x1234" "\<lambda>n. n \<le> 0x10000" "0x30000" MEM_COMMIT 4 "- 1"] show ?thesis
    by simp
qed

end
