(* ===== verification/Os_Syscall_Laws.thy ===== *)
theory Os_Syscall_Laws
  imports Os_Syscall Os_Room
begin

text \<open>
  The saved context of a system call: writing the frame into the thread block and reading it back, on
  any memory that keeps the contract \<open>guest_memory\<close>. Restoring from the frame is restoring from
  the copy on the host.
\<close>

section \<open>Words of a frame\<close>

definition frame_apart :: "(u64 \<times> u64) list \<Rightarrow> bool" where
  "frame_apart ws \<longleftrightarrow> sorted_wrt (\<lambda>x y. unat (fst x) + 8 \<le> unat (fst y)) ws"

definition frame_within :: "nat \<Rightarrow> (u64 \<times> u64) list \<Rightarrow> bool" where
  "frame_within n ws \<longleftrightarrow> (\<forall>(off, v) \<in> set ws. unat off + 8 \<le> n)"

lemma word_apart:
  fixes b o1 o2 :: u64
  assumes "unat o1 + 8 \<le> unat o2" "i < 8" "unat o2 < 2 ^ 63"
  shows "\<not> unat (b + o1 + of_nat i - (b + o2)) < 8" "\<not> unat (b + o2 + of_nat i - (b + o1)) < 8"
proof -
  have "unat (o1 + of_nat i) = unat o1 + i" using assms unat_bound64 [of o2] by (intro unat_plus_no_wrap) simp
  then have "8 \<le> unat (o1 + of_nat i - o2)"
    using assms unat_sub_if_size [of "o1 + of_nat i" o2] by (simp add: word_size word_le_unat)
  moreover have "b + o1 + of_nat i - (b + o2) = o1 + of_nat i - o2" by simp
  ultimately show "\<not> unat (b + o1 + of_nat i - (b + o2)) < 8" by (simp only: not_less)
  have "unat (o2 + of_nat i) = unat o2 + i" using assms by (intro unat_plus_no_wrap) simp
  then have "8 \<le> unat (o2 + of_nat i - o1)" using assms by (simp add: unat_minus_le word_le_unat)
  moreover have "b + o2 + of_nat i - (b + o1) = o2 + of_nat i - o1" by simp
  ultimately show "\<not> unat (b + o2 + of_nat i - (b + o1)) < 8" by (simp only: not_less)
qed

lemma frame_xmms:
  "FRAME_XMMS = [(0x60, 6), (0x70, 7), (0x80, 8), (0x90, 9), (0xA0, 10), (0xB0, 11), (0xC0, 12), (0xD0, 13), (0xE0, 14), (0xF0, 15)]"
  by code_simp

definition FRAME_OFFSETS :: "u64 list" where
  "FRAME_OFFSETS = map fst FRAME_GPRS @ [FRAME_RIP, FRAME_FLAGS] @ concat (map (\<lambda>(off, n). [off, off + 8]) FRAME_XMMS)"

lemma map_fst_frame_words: "map fst (frame_words c) = FRAME_OFFSETS"
  by (simp add: frame_words_def FRAME_OFFSETS_def map_concat comp_def split_def)

lemma frame_words_layout: "frame_apart (frame_words c)" "frame_within 0x100 (frame_words c)"
proof -
  have "sorted_wrt (\<lambda>a b. unat a + 8 \<le> unat b) FRAME_OFFSETS" by code_simp
  then have "sorted_wrt (\<lambda>a b. unat a + 8 \<le> unat b) (map fst (frame_words c))" by (simp only: map_fst_frame_words)
  then show "frame_apart (frame_words c)" by (simp add: frame_apart_def sorted_wrt_map)
  have "list_all (\<lambda>a. unat a + 8 \<le> 0x100) FRAME_OFFSETS" by code_simp
  then have "list_all (\<lambda>a. unat a + 8 \<le> 0x100) (map fst (frame_words c))" by (simp only: map_fst_frame_words)
  then show "frame_within 0x100 (frame_words c)" by (auto simp: frame_within_def list_all_iff)
qed

lemma frame_words_xmm:
  assumes "(off, r) \<in> set FRAME_XMMS"
  shows "(off, ucast (xmm_get r c)) \<in> set (frame_words c)" "(off + 8, ucast (drop_bit 64 (xmm_get r c))) \<in> set (frame_words c)"
proof -
  have "set ((\<lambda>(off, n). [(off, ucast (xmm_get n c)), (off + 8, ucast (drop_bit 64 (xmm_get n c)))]) (off, r)) \<subseteq> set (frame_words c)"
    using assms unfolding frame_words_def set_append set_concat set_map by blast
  then show "(off, ucast (xmm_get r c)) \<in> set (frame_words c)"
    "(off + 8, ucast (drop_bit 64 (xmm_get r c))) \<in> set (frame_words c)" by simp_all
qed

lemma sysw_order: "s\<lparr>sw_mem := m, sw_cpu := c\<rparr> = s\<lparr>sw_cpu := c, sw_mem := m\<rparr>"
  by simp

section \<open>What is restored\<close>

definition host_restored :: "host_context \<Rightarrow> cpu_state \<Rightarrow> cpu_state" where
  "host_restored h c =
     fold (\<lambda>((off, n), v). set_xmm_keep_upper n v) (zip FRAME_XMMS (hc_xmm h))
       ((non_vol (hc_gpr h) c)\<lparr>cpu_rip := hc_rip h, cpu_rflags := hc_flags h\<rparr>)"

definition NONVOL :: "reg set" where
  "NONVOL = {Rbx, Rbp, Rsi, Rdi, Rsp, R12, R13, R14, R15}"

lemma zip_map_same: "zip xs (map f xs) = map (\<lambda>x. (x, f x)) xs"
  by (induction xs) simp_all

lemma fold_set_regs:
  "cpu_gpr (fold (\<lambda>x. cpu_set_reg (snd x) (cpu_reg (snd x) c0)) xs c) r =
    (if r \<in> snd ` set xs then cpu_gpr c0 r else cpu_gpr c r)"
  by (induction xs arbitrary: c) (auto simp: cpu_set_reg_def cpu_reg_def)

lemma fold_set_xmms:
  "cpu_xmm (fold (\<lambda>x. set_xmm_keep_upper (snd x) (xmm_get (snd x) c0)) xs c) r =
    (if r \<in> (\<lambda>x. ucast (snd x)) ` set xs then cpu_xmm c0 r else cpu_xmm c r)"
  by (induction xs arbitrary: c) (auto simp: set_xmm_keep_upper_def xmm_get_def)

lemma fold_set_xmms_rest [simp]:
  "cpu_gpr (fold (\<lambda>x. set_xmm_keep_upper (snd x) (f x)) xs c) = cpu_gpr c"
  "cpu_rip (fold (\<lambda>x. set_xmm_keep_upper (snd x) (f x)) xs c) = cpu_rip c"
  "cpu_rflags (fold (\<lambda>x. set_xmm_keep_upper (snd x) (f x)) xs c) = cpu_rflags c"
  "cpu_ymm_hi (fold (\<lambda>x. set_xmm_keep_upper (snd x) (f x)) xs c) = cpu_ymm_hi c"
  "cpu_x87 (fold (\<lambda>x. set_xmm_keep_upper (snd x) (f x)) xs c) = cpu_x87 c"
  "cpu_gs_base (fold (\<lambda>x. set_xmm_keep_upper (snd x) (f x)) xs c) = cpu_gs_base c"
  "cpu_fs_base (fold (\<lambda>x. set_xmm_keep_upper (snd x) (f x)) xs c) = cpu_fs_base c"
  by (induction xs arbitrary: c) (auto simp: set_xmm_keep_upper_def)

lemma xmm_high:
  fixes x :: reg
  shows "x \<in> (\<lambda>x. ucast (snd x)) ` set FRAME_XMMS \<longleftrightarrow> 6 \<le> x"
proof -
  have "\<forall>x :: reg. x \<in> (\<lambda>x. ucast (snd x)) ` set FRAME_XMMS \<longleftrightarrow> 6 \<le> x" by code_simp
  then show ?thesis ..
qed

lemma non_vol_gprs:
  "cpu_gpr (non_vol (map (\<lambda>(off, r). cpu_reg r c0) FRAME_GPRS) c) r = (if r \<in> NONVOL then cpu_gpr c0 r else cpu_gpr c r)"
proof -
  have "snd ` set FRAME_GPRS = NONVOL" by (auto simp: FRAME_GPRS_def NONVOL_def)
  then show ?thesis by (simp add: non_vol_def zip_map_same fold_map comp_def case_prod_beta fold_set_regs)
qed

lemma non_vol_rest [simp]:
  "cpu_rip (non_vol vs c) = cpu_rip c" "cpu_rflags (non_vol vs c) = cpu_rflags c" "cpu_xmm (non_vol vs c) = cpu_xmm c"
  "cpu_ymm_hi (non_vol vs c) = cpu_ymm_hi c" "cpu_x87 (non_vol vs c) = cpu_x87 c"
  "cpu_gs_base (non_vol vs c) = cpu_gs_base c" "cpu_fs_base (non_vol vs c) = cpu_fs_base c"
proof -
  have "cpu_rip (fold (\<lambda>((off, r), v). cpu_set_reg r v) xs c) = cpu_rip c \<and>
      cpu_rflags (fold (\<lambda>((off, r), v). cpu_set_reg r v) xs c) = cpu_rflags c \<and>
      cpu_xmm (fold (\<lambda>((off, r), v). cpu_set_reg r v) xs c) = cpu_xmm c \<and>
      cpu_ymm_hi (fold (\<lambda>((off, r), v). cpu_set_reg r v) xs c) = cpu_ymm_hi c \<and>
      cpu_x87 (fold (\<lambda>((off, r), v). cpu_set_reg r v) xs c) = cpu_x87 c \<and>
      cpu_gs_base (fold (\<lambda>((off, r), v). cpu_set_reg r v) xs c) = cpu_gs_base c \<and>
      cpu_fs_base (fold (\<lambda>((off, r), v). cpu_set_reg r v) xs c) = cpu_fs_base c" for xs :: "((u64 \<times> reg) \<times> u64) list"
    by (induction xs arbitrary: c) (auto simp: cpu_set_reg_def)
  then show
    "cpu_rip (non_vol vs c) = cpu_rip c" "cpu_rflags (non_vol vs c) = cpu_rflags c" "cpu_xmm (non_vol vs c) = cpu_xmm c"
    "cpu_ymm_hi (non_vol vs c) = cpu_ymm_hi c" "cpu_x87 (non_vol vs c) = cpu_x87 c"
    "cpu_gs_base (non_vol vs c) = cpu_gs_base c" "cpu_fs_base (non_vol vs c) = cpu_fs_base c"
    by (simp_all add: non_vol_def)
qed

lemma host_restored_fold:
  "host_restored (host_context_of c0) c =
    fold (\<lambda>x. set_xmm_keep_upper (snd x) (xmm_get (snd x) c0)) FRAME_XMMS
      ((non_vol (map (\<lambda>(off, r). cpu_reg r c0) FRAME_GPRS) c)\<lparr>cpu_rip := cpu_reg Rcx c0, cpu_rflags := cpu_reg R11 c0\<rparr>)"
  by (simp add: host_restored_def host_context_of_def zip_map_same fold_map comp_def case_prod_beta)

lemma host_restored_regs:
  "cpu_gpr (host_restored (host_context_of c0) c) r = (if r \<in> NONVOL then cpu_gpr c0 r else cpu_gpr c r)"
  "cpu_rip (host_restored (host_context_of c0) c) = cpu_gpr c0 Rcx"
  "cpu_rflags (host_restored (host_context_of c0) c) = cpu_gpr c0 R11"
  "cpu_xmm (host_restored (host_context_of c0) c) x = (if 6 \<le> x then cpu_xmm c0 x else cpu_xmm c x)"
  "cpu_ymm_hi (host_restored (host_context_of c0) c) = cpu_ymm_hi c"
  "cpu_x87 (host_restored (host_context_of c0) c) = cpu_x87 c"
  "cpu_gs_base (host_restored (host_context_of c0) c) = cpu_gs_base c"
  "cpu_fs_base (host_restored (host_context_of c0) c) = cpu_fs_base c"
proof -
  note h = host_restored_fold [of c0 c]
  show "cpu_gpr (host_restored (host_context_of c0) c) r = (if r \<in> NONVOL then cpu_gpr c0 r else cpu_gpr c r)"
    unfolding h by (simp add: non_vol_gprs)
  show "cpu_xmm (host_restored (host_context_of c0) c) x = (if 6 \<le> x then cpu_xmm c0 x else cpu_xmm c x)"
    unfolding h fold_set_xmms xmm_high by simp
qed (simp_all add: host_restored_fold cpu_reg_def)

lemma bytes_at_part:
  assumes "bytes_at sp a n = bytes_at sp' a n" "unat off + k \<le> n"
  shows "bytes_at sp (a + off) k = bytes_at sp' (a + off) k"
proof -
  have "bytes_at s' (a + off) k = take k (drop (unat off) (bytes_at s' a n))" for s'
    using assms(2) by (intro nth_equalityI) (simp_all add: add.assoc)
  then show ?thesis using assms(1) by simp
qed

context guest_memory
begin

definition frame_holds :: "'m \<Rightarrow> u64 \<Rightarrow> (u64 \<times> u64) list \<Rightarrow> bool" where
  "frame_holds m base ws \<longleftrightarrow> (\<forall>(off, v) \<in> set ws. bytes_at (space m) (base + off) 8 = to_le 8 v)"

definition reads :: "'m \<Rightarrow> ('m, 'a) em \<Rightarrow> 'a \<Rightarrow> bool" where
  \<comment> \<open>\<open>f\<close> gives \<open>v\<close> and changes nothing that the guest sees\<close>
  "reads m f v \<longleftrightarrow> (\<exists>m'. f m = (Inr v, m') \<and> same_view inv space acc m m')"

lemma reads_u64:
  assumes "inv m" "acc m PERM_READ base n" "unat off + 8 \<le> n" "bytes_at (space m) (base + off) 8 = to_le 8 v"
  shows "reads m (mem_read_u64 M (base + off)) v"
proof -
  have "acc m PERM_READ (base + of_nat (unat off)) 8" using assms by (intro acc_sub) simp_all
  then have "fst (mo_read M (base + off) 8 m) = Inr (to_le 8 v)" using read_ok [OF assms(1)] assms(4) by simp
  then show ?thesis
    using read_keeps [OF assms(1), of "base + off" 8]
    by (cases "mo_read M (base + off) 8 m")
      (simp add: reads_def same_view_def mem_read_u64_def em_bind_apply em_apply from_le_to_le take_bit_word_eq_self)
qed

lemma same_view_holds:
  assumes "same_view inv space acc m m'"
  shows "inv m'" "acc m' = acc m" "frame_holds m' base ws = frame_holds m base ws"
  using assms by (simp_all add: same_view_def frame_holds_def)

lemma write_u64_ok:
  assumes "inv m" "acc m PERM_WRITE base n" "unat off + 8 \<le> n"
  obtains m' where "mem_write_u64 M (base + off) v m = (Inr (), m')" "inv m'" "acc m' = acc m"
    "bytes_at (space m') (base + off) 8 = to_le 8 v"
    "\<And>x. \<not> unat (x - (base + off)) < 8 \<Longrightarrow> space m' x = space m x"
proof -
  have a: "acc m PERM_WRITE (base + off) (length (to_le 8 v))"
    using acc_sub [OF assms(1,2), of 8 "unat off"] assms(3) by simp
  let ?m = "snd (mo_write M (base + off) (to_le 8 v) m)"
  have w: "fst (mo_write M (base + off) (to_le 8 v) m) = Inr ()" "space ?m = overlay (base + off) (to_le 8 v) (space m)"
    using write_ok [OF assms(1), of "to_le 8 v" "base + off"] a by auto
  show thesis
  proof (rule that [of ?m])
    show "mem_write_u64 M (base + off) v m = (Inr (), ?m)" using w(1) by (simp add: mem_write_u64_def prod_eq_iff)
    show "inv ?m" "acc ?m = acc m" using write_keeps [OF assms(1)] by auto
    show "bytes_at (space ?m) (base + off) 8 = to_le 8 v"
      using bytes_at_overlay [of "to_le 8 v" "space m" "base + off"] space_some [OF assms(1) a] by (simp add: w(2))
    show "space ?m x = space m x" if "\<not> unat (x - (base + off)) < 8" for x
      using that by (simp add: w(2) overlay_def)
  qed
qed

lemma write_u64s_ok:
  assumes "inv m" "acc m PERM_WRITE base n" "frame_within n ws" "frame_apart ws" "n \<le> 2 ^ 32"
  obtains m' where "write_u64s M base ws m = (Inr (), m')" "inv m'" "acc m' = acc m" "frame_holds m' base ws"
    "\<And>x. \<forall>(off, v) \<in> set ws. \<not> unat (x - (base + off)) < 8 \<Longrightarrow> space m' x = space m x"
  using assms
proof (induction ws arbitrary: m thesis)
  case Nil
  then show ?case by (simp add: write_u64s_def em_apply frame_holds_def)
next
  case (Cons w ws)
  obtain off v where w: "w = (off, v)" by (cases w)
  have within: "unat off + 8 \<le> n" "frame_within n ws" using Cons.prems(4) w by (auto simp: frame_within_def)
  have apart: "frame_apart ws" and first: "\<forall>(o2, u) \<in> set ws. unat off + 8 \<le> unat o2"
    using Cons.prems(5) w by (auto simp: frame_apart_def)
  obtain m1 where m1: "mem_write_u64 M (base + off) v m = (Inr (), m1)" "inv m1" "acc m1 = acc m"
      "bytes_at (space m1) (base + off) 8 = to_le 8 v" "\<And>x. \<not> unat (x - (base + off)) < 8 \<Longrightarrow> space m1 x = space m x"
    using write_u64_ok [OF Cons.prems(2,3) within(1), of v] by blast
  obtain m2 where m2: "write_u64s M base ws m1 = (Inr (), m2)" "inv m2" "acc m2 = acc m1" "frame_holds m2 base ws"
      "\<And>x. \<forall>(o2, u) \<in> set ws. \<not> unat (x - (base + o2)) < 8 \<Longrightarrow> space m2 x = space m1 x"
    using Cons.IH [OF _ m1(2) _ within(2) apart Cons.prems(6)] m1(3) Cons.prems(3) by metis
  have "space m2 (base + off + of_nat i) = space m1 (base + off + of_nat i)" if i: "i < 8" for i
  proof (rule m2(5), clarify)
    fix o2 u assume o: "(o2, u) \<in> set ws"
    assume lt: "unat (base + off + of_nat i - (base + o2)) < 8"
    have "unat off + 8 \<le> unat o2" using first o by auto
    moreover have "unat o2 < 2 ^ 63" using within(2) o Cons.prems(6) by (auto simp: frame_within_def)
    ultimately show False using word_apart(1) [OF _ i, of off o2 base] lt by simp
  qed
  then have "bytes_at (space m2) (base + off) 8 = bytes_at (space m1) (base + off) 8" by (simp add: bytes_at_def)
  then have "frame_holds m2 base (w # ws)" using m1(4) m2(4) w by (simp add: frame_holds_def)
  moreover have "space m2 x = space m x" if "\<forall>(o2, u) \<in> set (w # ws). \<not> unat (x - (base + o2)) < 8" for x
    using that m1(5) m2(5) w by simp
  ultimately show ?case
    using Cons.prems(1) [of m2] m1 m2 w by (simp add: write_u64s_def em_bind_apply)
qed

lemma reads_u64s:
  assumes "inv m" "acc m PERM_READ base n" "frame_within n ws" "frame_holds m base ws"
  shows "reads m (read_u64s M base (map fst ws)) (map snd ws)"
  using assms
proof (induction ws arbitrary: m)
  case Nil
  then show ?case by (simp add: reads_def em_apply same_view_refl)
next
  case (Cons w ws)
  obtain off v where w: "w = (off, v)" by (cases w)
  have "reads m (mem_read_u64 M (base + off)) v"
    using Cons.prems w by (intro reads_u64 [where n = n]) (auto simp: frame_within_def frame_holds_def)
  then obtain m1 where m1: "mem_read_u64 M (base + off) m = (Inr v, m1)" "same_view inv space acc m m1"
    by (auto simp: reads_def)
  have "reads m1 (read_u64s M base (map fst ws)) (map snd ws)"
    using Cons.prems same_view_holds [OF m1(2)] by (intro Cons.IH) (auto simp: frame_within_def frame_holds_def)
  then show ?case
    using m1 w by (auto simp: reads_def em_bind_apply em_apply intro: same_view_trans)
qed

lemma on_mem_reads:
  assumes "reads (sw_mem s) f v"
  obtains m' where "on_mem f s = (Inr v, s\<lparr>sw_mem := m'\<rparr>)" "same_view inv space acc (sw_mem s) m'"
  using assms by (auto simp: reads_def on_mem_def)

lemma restore_xmms:
  assumes "inv (sw_mem s)" "acc (sw_mem s) PERM_READ base n"
    "\<forall>(off, r) \<in> set xs. unat off + 16 \<le> n \<and> unat (off + 8) + 8 \<le> n \<and>
      frame_holds (sw_mem s) base [(off, ucast (f r :: u128)), (off + 8, ucast (drop_bit 64 (f r)))]"
  shows "\<exists>m'. em_each xs (restore_frame_xmm M base) s =
      (Inr (), s\<lparr>sw_cpu := fold (\<lambda>(off, r). set_xmm_keep_upper r (f r)) xs (sw_cpu s), sw_mem := m'\<rparr>) \<and>
      same_view inv space acc (sw_mem s) m'"
  using assms
proof (induction xs arbitrary: s)
  case Nil
  have "same_view inv space acc (sw_mem s) (sw_mem s)" using Nil(1) by (rule same_view_refl)
  then show ?case by (intro exI [of _ "sw_mem s"]) (simp add: em_apply)
next
  case (Cons x xs)
  obtain off r where x: "x = (off, r)" by (cases x)
  have lo: "reads (sw_mem s) (mem_read_u64 M (base + off)) (ucast (f r))"
    using Cons.prems x by (intro reads_u64 [where n = n]) (auto simp: frame_holds_def)
  then obtain m1 where m1: "on_mem (mem_read_u64 M (base + off)) s = (Inr (ucast (f r)), s\<lparr>sw_mem := m1\<rparr>)"
      "same_view inv space acc (sw_mem s) m1" by (rule on_mem_reads)
  have "reads m1 (mem_read_u64 M (base + (off + 8))) (ucast (drop_bit 64 (f r)))"
    using Cons.prems x same_view_holds [OF m1(2)] m1(2)
    by (intro reads_u64 [where n = n]) (auto simp: frame_holds_def same_view_def)
  then have hi: "reads (sw_mem (s\<lparr>sw_mem := m1\<rparr>)) (mem_read_u64 M (base + off + 8)) (ucast (drop_bit 64 (f r)))"
    by (simp add: add.assoc)
  obtain m2 where m2: "on_mem (mem_read_u64 M (base + off + 8)) (s\<lparr>sw_mem := m1\<rparr>) =
      (Inr (ucast (drop_bit 64 (f r))), s\<lparr>sw_mem := m2\<rparr>)" "same_view inv space acc m1 m2"
    using hi by (rule on_mem_reads) simp
  have join: "ucast (ucast (f r) :: u64) OR push_bit 64 (ucast (ucast (drop_bit 64 (f r)) :: u64)) = f r"
    by (rule bit_word_eqI) (auto simp: bit_simps)
  let ?s = "s\<lparr>sw_cpu := set_xmm_keep_upper r (f r) (sw_cpu s), sw_mem := m2\<rparr>"
  have one: "restore_frame_xmm M base x s = (Inr (), ?s)"
    using m1(1) m2(1) join by (simp add: restore_frame_xmm_def x em_bind_apply cpu_upd_def em_apply)
  note view = same_view_trans [OF m1(2) m2(2)]
  have "\<exists>m'. em_each xs (restore_frame_xmm M base) ?s =
      (Inr (), ?s\<lparr>sw_cpu := fold (\<lambda>(off, r). set_xmm_keep_upper r (f r)) xs (sw_cpu ?s), sw_mem := m'\<rparr>) \<and>
      same_view inv space acc (sw_mem ?s) m'"
    using Cons.prems same_view_holds [OF view] by (intro Cons.IH) auto
  then show ?case
    using one x same_view_trans [OF view] by (auto simp: em_bind_apply)
qed

lemma holds_specials:
  assumes "frame_holds m base (frame_words c0)"
  shows "bytes_at (space m) (base + FRAME_RIP) 8 = to_le 8 (cpu_reg Rcx c0)"
    "bytes_at (space m) (base + FRAME_FLAGS) 8 = to_le 8 (cpu_reg R11 c0)"
  using assms by (auto simp: frame_holds_def frame_words_def)

lemma restore_teb:
  assumes "inv (sw_mem s)" "acc (sw_mem s) PERM_READ base 0x100" "frame_holds (sw_mem s) base (frame_words c0)"
  obtains m' where "restore_context M (SavedTeb base) s =
      (Inr (), s\<lparr>sw_cpu := host_restored (host_context_of c0) (sw_cpu s), sw_mem := m'\<rparr>)"
    "same_view inv space acc (sw_mem s) m'"
proof -
  let ?ws = "map (\<lambda>(off, r). (off, cpu_reg r c0)) FRAME_GPRS"
  have sub: "set ?ws \<subseteq> set (frame_words c0)" unfolding frame_words_def set_append by blast
  have "frame_within 0x100 ?ws" using frame_words_layout(2) [of c0] sub by (auto simp: frame_within_def)
  moreover have "frame_holds (sw_mem s) base ?ws" using assms(3) sub by (auto simp: frame_holds_def)
  ultimately have "reads (sw_mem s) (read_u64s M base (map fst ?ws)) (map snd ?ws)"
    by (rule reads_u64s [OF assms(1,2)])
  then obtain m1 where m1: "on_mem (read_u64s M base (map fst ?ws)) s = (Inr (map snd ?ws), s\<lparr>sw_mem := m1\<rparr>)"
      "same_view inv space acc (sw_mem s) m1" by (rule on_mem_reads)
  have names: "map fst ?ws = map fst FRAME_GPRS" "map snd ?ws = map (\<lambda>(off, r). cpu_reg r c0) FRAME_GPRS"
    by (simp_all add: split_def)
  have "reads m1 (mem_read_u64 M (base + FRAME_RIP)) (cpu_reg Rcx c0)"
    using assms same_view_holds [OF m1(2)] by (intro reads_u64 [where n = "0x100"] holds_specials) (simp_all add: FRAME_RIP_def)
  then obtain m2 where m2: "mem_read_u64 M (base + FRAME_RIP) m1 = (Inr (cpu_reg Rcx c0), m2)"
      "same_view inv space acc m1 m2" by (auto simp: reads_def)
  note view2 = same_view_trans [OF m1(2) m2(2)]
  have "reads m2 (mem_read_u64 M (base + FRAME_FLAGS)) (cpu_reg R11 c0)"
    using assms same_view_holds [OF view2] by (intro reads_u64 [where n = "0x100"] holds_specials) (simp_all add: FRAME_FLAGS_def)
  then obtain m3 where m3: "mem_read_u64 M (base + FRAME_FLAGS) m2 = (Inr (cpu_reg R11 c0), m3)"
      "same_view inv space acc m2 m3" by (auto simp: reads_def)
  note view3 = same_view_trans [OF view2 m3(2)]
  let ?c = "(non_vol (map (\<lambda>(off, r). cpu_reg r c0) FRAME_GPRS) (sw_cpu s))\<lparr>cpu_rip := cpu_reg Rcx c0, cpu_rflags := cpu_reg R11 c0\<rparr>"
  let ?s = "s\<lparr>sw_cpu := ?c, sw_mem := m3\<rparr>"
  have "\<exists>m'. em_each FRAME_XMMS (restore_frame_xmm M base) ?s =
      (Inr (), ?s\<lparr>sw_cpu := fold (\<lambda>(off, r). set_xmm_keep_upper r (xmm_get r c0)) FRAME_XMMS (sw_cpu ?s), sw_mem := m'\<rparr>) \<and>
      same_view inv space acc (sw_mem ?s) m'"
  proof (rule restore_xmms [where n = "0x100"])
    show "inv (sw_mem ?s)" "acc (sw_mem ?s) PERM_READ base 0x100"
      using assms same_view_holds [OF view3] by simp_all
    have holds: "frame_holds m3 base (frame_words c0)" using assms(3) same_view_holds(3) [OF view3] by simp
    have "list_all (\<lambda>x. unat (fst x) + 16 \<le> 0x100 \<and> unat (fst x + 8) + 8 \<le> 0x100) FRAME_XMMS" by code_simp
    then show "\<forall>(off, r) \<in> set FRAME_XMMS. unat off + 16 \<le> 0x100 \<and> unat (off + 8) + 8 \<le> 0x100 \<and>
        frame_holds (sw_mem ?s) base [(off, ucast (xmm_get r c0)), (off + 8, ucast (drop_bit 64 (xmm_get r c0)))]"
      using holds frame_words_xmm [where c = c0] by (fastforce simp: list_all_iff frame_holds_def)
  qed
  then obtain m4 where m4: "em_each FRAME_XMMS (restore_frame_xmm M base) ?s =
      (Inr (), ?s\<lparr>sw_cpu := fold (\<lambda>(off, r). set_xmm_keep_upper r (xmm_get r c0)) FRAME_XMMS ?c, sw_mem := m4\<rparr>)"
      "same_view inv space acc m3 m4" by auto
  show thesis
  proof (rule that [of m4])
    show "same_view inv space acc (sw_mem s) m4" by (rule same_view_trans [OF view3 m4(2)])
    show "restore_context M (SavedTeb base) s =
        (Inr (), s\<lparr>sw_cpu := host_restored (host_context_of c0) (sw_cpu s), sw_mem := m4\<rparr>)"
      using m1(1) m2(1) m3(1) m4(1) unfolding names
      by (simp add: restore_context_def em_bind_apply cpu_upd_def em_apply host_restored_fold split_def on_mem_def sysw_order)
  qed
qed

lemma restore_host:
  "restore_context M (SavedHost (host_context_of c0)) s = (Inr (), s\<lparr>sw_cpu := host_restored (host_context_of c0) (sw_cpu s)\<rparr>)"
  by (simp add: restore_context_def cpu_upd_def em_apply host_restored_def)

end

section \<open>Up to the handler\<close>

definition syscall_prologue :: "'m memory_ops \<Rightarrow> ('m, saved_context) service" where
  "syscall_prologue M =
     em_bind syscall_enter (\<lambda>_.
     em_bind (save_context M) (\<lambda>saved.
     em_bind (ensure_unix_stack M) (\<lambda>unix_top.
     em_bind (em_when (unix_top \<noteq> 0) (cpu_upd (cpu_set_rsp unix_top))) (\<lambda>_. em_return saved))))"

lemma dispatch_prologue:
  "dispatch_syscall ssdt w32 M index =
    em_bind (syscall_prologue M) (\<lambda>saved. em_bind (choose_handler ssdt w32 index) (\<lambda>st. syscall_finish M saved st))"
  unfolding dispatch_syscall_def syscall_prologue_def em_bind_assoc em_bind_return ..

definition extends :: "vmem \<Rightarrow> vmem \<Rightarrow> bool" where
  \<comment> \<open>\<open>m'\<close> is \<open>m\<close> with more mapped\<close>
  "extends m m' \<longleftrightarrow> vm_ok m' \<and> (\<forall>q a n. vm_acc m q a n \<longrightarrow> vm_acc m' q a n) \<and>
     (\<forall>a. vm_space m a \<noteq> None \<longrightarrow> vm_space m' a = vm_space m a)"

lemma extends_refl: "vm_ok m \<Longrightarrow> extends m m"
  by (simp add: extends_def)

lemma grows_extends:
  assumes "grows b sz p m m'"
  shows "extends m m'"
proof -
  have "vm_space m' a = vm_space m a" if "vm_space m a \<noteq> None" for a
  proof -
    have "\<not> unat (a - b) < unat sz"
    proof
      assume "unat (a - b) < unat sz"
      then have "vm_space m (b + of_nat (unat (a - b))) = None" using assms unfolding grows_def by blast
      with that show False by simp
    qed
    then show ?thesis using assms by (simp add: grows_def)
  qed
  then show ?thesis using assms by (simp add: grows_def extends_def)
qed

lemma extends_bytes:
  assumes "extends m m'" "vm_ok m" "vm_acc m p a n"
  shows "bytes_at (vm_space m') a n = bytes_at (vm_space m) a n"
  using assms(1) vmem.space_some [OF assms(2,3)] by (simp add: bytes_at_def extends_def)

lemma ensure_unix_stack_run:
  assumes "vm_ok (sw_mem s)" "roomy (vm_regions (sw_mem s))"
  obtains top n m' where "ensure_unix_stack (vm_ops alloc) s =
      (Inr top, s\<lparr>sw_os := (sw_os s)\<lparr>os_valloc_next := n, os_unix_stack_top := top\<rparr>, sw_mem := m'\<rparr>)"
    "extends (sw_mem s) m'"
proof (cases "os_unix_stack_top (sw_os s) = 0")
  case False
  then show ?thesis
    using that [where top = "os_unix_stack_top (sw_os s)" and n = "os_valloc_next (sw_os s)" and m' = "sw_mem s"] extends_refl [OF assms(1)]
    by (simp add: ensure_unix_stack_def em_bind_apply os_def em_apply)
next
  case zero: True
  obtain b where b: "first_fit (vm_regions (sw_mem s)) (align_up (os_valloc_next (sw_os s)) GRAN) UNIX_STACK_SIZE b"
      "vm_find_free (vm_ops alloc) UNIX_STACK_SIZE s =
        (Inr b, s\<lparr>sw_os := (sw_os s)\<lparr>os_valloc_next := b + align_up UNIX_STACK_SIZE GRAN\<rparr>\<rparr>)"
    using vm_find_free_ends [OF vm_ok_inv [OF assms(1)] assms(2)] by metis
  have g: "granular b" "free_range (vm_regions (sw_mem s)) b UNIX_STACK_SIZE" using b(1) by (simp_all add: first_fit_def)
  have top: "unat b + unat UNIX_STACK_SIZE < 2 ^ 64" using granular_le [OF g(1)] by (simp add: UNIX_STACK_SIZE_def)
  have sz: "UNIX_STACK_SIZE \<noteq> 0" by (simp add: UNIX_STACK_SIZE_def)
  show ?thesis
  proof (cases "alloc UNIX_STACK_SIZE")
    case True
    obtain m' where m': "tried (vm_map_fixed alloc b UNIX_STACK_SIZE PERM_RW ''unix-stack'') (sw_mem s) = (Inr (Some ()), m')"
        "grows b UNIX_STACK_SIZE PERM_RW (sw_mem s) m'"
      using tried_grows [where alloc = alloc, OF assms(1) g(2) sz top True] by blast
    show ?thesis
      by (rule that [where top = "(b + UNIX_STACK_SIZE - 0x10) AND NOT 0xf" and n = "b + align_up UNIX_STACK_SIZE GRAN" and m' = m'])
        (simp_all add: zero ensure_unix_stack_def map_anywhere_def em_bind_apply os_def os_upd_def em_apply b(2) on_mem_def m'(1)
          grows_extends [OF m'(2)])
  next
    case False
    show ?thesis
      by (rule that [where top = 0 and n = "b + align_up UNIX_STACK_SIZE GRAN" and m' = "sw_mem s"])
        (simp_all add: zero ensure_unix_stack_def map_anywhere_def em_bind_apply os_def os_upd_def em_apply b(2) on_mem_def
          tried_refused [where alloc = alloc, OF False] extends_refl [OF assms(1)])
  qed
qed

definition frame_usable :: "win_os \<Rightarrow> vmem \<Rightarrow> bool" where
  \<comment> \<open>the thread has no block, or the place of the frame in it is read and written\<close>
  "frame_usable w m \<longleftrightarrow>
     (case syscall_frame_base w of
        None \<Rightarrow> True
      | Some base \<Rightarrow> vm_acc m PERM_READ base 0x100 \<and> vm_acc m PERM_WRITE base 0x100)"

definition saved_for :: "win_os \<Rightarrow> vmem \<Rightarrow> cpu_state \<Rightarrow> saved_context \<Rightarrow> bool" where
  \<comment> \<open>\<open>saved\<close> holds the context of \<open>c\<close>\<close>
  "saved_for w m c saved \<longleftrightarrow>
     (case syscall_frame_base w of
        None \<Rightarrow> saved = SavedHost (host_context_of c)
      | Some base \<Rightarrow> saved = SavedTeb base \<and> vm_acc m PERM_READ base 0x100 \<and>
          (\<forall>(off, v) \<in> set (frame_words c). bytes_at (vm_space m) (base + off) 8 = to_le 8 v))"

lemma frame_words_cong: "cpu_gpr c' = cpu_gpr c \<Longrightarrow> cpu_xmm c' = cpu_xmm c \<Longrightarrow>
    frame_words c' = frame_words c \<and> host_context_of c' = host_context_of c"
  by (simp add: frame_words_def host_context_of_def cpu_reg_def xmm_get_def)

lemma saved_for_cong:
  assumes "syscall_frame_base w' = syscall_frame_base w" "cpu_gpr c' = cpu_gpr c" "cpu_xmm c' = cpu_xmm c"
  shows "saved_for w' m c' saved = saved_for w m c saved"
  unfolding saved_for_def assms(1) using frame_words_cong [OF assms(2,3)] by (simp split: option.split)

lemma save_context_run:
  assumes "vm_ok (sw_mem s)" "roomy (vm_regions (sw_mem s))" "frame_usable (sw_os s) (sw_mem s)"
  obtains saved m' where "save_context (vm_ops alloc) s = (Inr saved, s\<lparr>sw_mem := m'\<rparr>)"
    "vm_ok m'" "roomy (vm_regions m')" "saved_for (sw_os s) m' (sw_cpu s) saved"
proof (cases "syscall_frame_base (sw_os s)")
  case None
  then show ?thesis
    using that [of "SavedHost (host_context_of (sw_cpu s))" "sw_mem s"] assms
    by (simp add: save_context_def em_bind_apply os_def on_cpu_def em_apply saved_for_def)
next
  case (Some base)
  then have acc: "vm_acc (sw_mem s) PERM_READ base 0x100" "vm_acc (sw_mem s) PERM_WRITE base 0x100"
    using assms(3) by (simp_all add: frame_usable_def)
  obtain m' where m': "write_u64s (vm_ops alloc) base (frame_words (sw_cpu s)) (sw_mem s) = (Inr (), m')" "vm_ok m'"
      "vm_acc m' = vm_acc (sw_mem s)" "vmem.frame_holds m' base (frame_words (sw_cpu s))"
    by (rule vmem.write_u64s_ok [where alloc = alloc, OF assms(1) acc(2) frame_words_layout(2,1)]) simp_all
  have "vm_inv m' \<and> roomy (vm_regions m')"
    using keepsD [OF roomy_writes, of "sw_mem s" alloc base "frame_words (sw_cpu s)"] m'(1) assms(1,2) by (simp add: vm_ok_def)
  then show ?thesis
    using that [of "SavedTeb base" m'] m' acc Some
    by (simp add: save_context_def em_bind_apply os_def on_cpu_def em_apply on_mem_def saved_for_def vmem.frame_holds_def)
qed

lemma saved_for_extends:
  assumes "saved_for w m c saved" "vm_ok m" "extends m m'"
  shows "saved_for w m' c saved"
proof (cases "syscall_frame_base w")
  case (Some base)
  then have read: "vm_acc m PERM_READ base 0x100" using assms(1) by (simp add: saved_for_def)
  have "bytes_at (vm_space m') (base + off) 8 = bytes_at (vm_space m) (base + off) 8" if "(off, v) \<in> set (frame_words c)" for off v
  proof -
    have "unat off + 8 \<le> 0x100" using frame_words_layout(2) [of c] that by (auto simp: frame_within_def)
    then have "vm_acc m PERM_READ (base + of_nat (unat off)) 8" using vmem.acc_sub [OF assms(2) read, of 8 "unat off"] by simp
    then show ?thesis using extends_bytes [OF assms(3,2)] by simp
  qed
  then show ?thesis using assms(1,3) Some by (auto simp: saved_for_def extends_def)
qed (use assms(1) in \<open>simp add: saved_for_def\<close>)

lemma syscall_prologue_run:
  assumes "vm_ok (sw_mem s)" "roomy (vm_regions (sw_mem s))" "frame_usable (sw_os s) (sw_mem s)"
  obtains saved t where "syscall_prologue (vm_ops alloc) s = (Inr saved, t)"
    "vm_ok (sw_mem t)" "saved_for (sw_os s) (sw_mem t) (sw_cpu s) saved"
    "syscall_frame_base (sw_os t) = syscall_frame_base (sw_os s)" "os_syscall_guest_rsp (sw_os t) = cpu_rsp (sw_cpu s)"
    "\<And>r. r \<noteq> Rsp \<Longrightarrow> cpu_reg r (sw_cpu t) = cpu_reg r (sw_cpu s)" "cpu_rflags (sw_cpu t) = cpu_rflags (sw_cpu s) AND NOT DF"
    "os_pending_syscall_exit (sw_os t) = None" "\<not> os_syscall_resume_as_is (sw_os t)" "os_syscall_result64 (sw_os t) = None"
proof -
  let ?w = "(sw_os s)\<lparr>os_syscall_guest_rsp := cpu_rsp (sw_cpu s), os_syscall_resume_as_is := False,
       os_pending_syscall_exit := None, os_syscall_result64 := None\<rparr>"
  let ?c = "(sw_cpu s)\<lparr>cpu_rflags := cpu_rflags (sw_cpu s) AND NOT DF\<rparr>"
  let ?s1 = "s\<lparr>sw_os := ?w, sw_cpu := ?c\<rparr>"
  have base: "syscall_frame_base (f ?w) = syscall_frame_base (sw_os s)"
    if "os_threads (f ?w) = os_threads ?w" "os_current (f ?w) = os_current ?w" for f
    using that by (simp add: syscall_frame_base_def current_thread_teb_def)
  have usable: "frame_usable (sw_os ?s1) (sw_mem ?s1)" using assms(3) base [of id] by (simp add: frame_usable_def)
  obtain saved m1 where save: "save_context (vm_ops alloc) ?s1 = (Inr saved, ?s1\<lparr>sw_mem := m1\<rparr>)"
      "vm_ok m1" "roomy (vm_regions m1)" "saved_for (sw_os ?s1) m1 (sw_cpu ?s1) saved"
    by (rule save_context_run [of ?s1 alloc, OF _ _ usable]) (use assms(1,2) in simp_all)
  have saved: "saved_for (sw_os s) m1 (sw_cpu s) saved"
    using save(4) base [of id] saved_for_cong [of ?w "sw_os s" ?c "sw_cpu s"] by simp
  obtain top n m2 where stack: "ensure_unix_stack (vm_ops alloc) (?s1\<lparr>sw_mem := m1\<rparr>) =
      (Inr top, (?s1\<lparr>sw_mem := m1\<rparr>)\<lparr>sw_os := ?w\<lparr>os_valloc_next := n, os_unix_stack_top := top\<rparr>, sw_mem := m2\<rparr>)"
      and ext: "extends (sw_mem (?s1\<lparr>sw_mem := m1\<rparr>)) m2"
    by (rule ensure_unix_stack_run [of "?s1\<lparr>sw_mem := m1\<rparr>" alloc]) (use save(2,3) in simp_all)
  then have stack2: "extends m1 m2" by simp
  let ?t = "s\<lparr>sw_os := ?w\<lparr>os_valloc_next := n, os_unix_stack_top := top\<rparr>,
      sw_cpu := (if top \<noteq> 0 then cpu_set_rsp top ?c else ?c), sw_mem := m2\<rparr>"
  have run: "syscall_prologue (vm_ops alloc) s = (Inr saved, ?t)"
    using save(1) stack
    by (simp add: syscall_prologue_def syscall_enter_def em_bind_apply on_cpu_def os_upd_def cpu_upd_def em_apply em_when_def)
  show thesis
    using saved_for_extends [OF saved save(2) stack2] stack2
    by (intro that [OF run]) (simp_all add: extends_def syscall_frame_base_def current_thread_teb_def cpu_reg_def cpu_set_rsp_def)
qed

end
