(* ===== verification/Os_Syscall_Theorems.thy ===== *)
theory Os_Syscall_Theorems
  imports Os_Syscall_Laws Os_New
begin

text \<open>
  The property of the system-call dispatcher: a call looks to the guest like a call of a function
  that keeps the nonvolatile registers, whatever its service does to the CPU.
\<close>

definition keeps_frame :: "win_os \<Rightarrow> vmem \<Rightarrow> vmem \<Rightarrow> bool" where
  \<comment> \<open>the service left the saved frame alone\<close>
  "keeps_frame w m m' \<longleftrightarrow>
     (case syscall_frame_base w of
        None \<Rightarrow> True
      | Some base \<Rightarrow> vm_acc m' PERM_READ base 0x100 \<and> bytes_at (vm_space m') base 0x100 = bytes_at (vm_space m) base 0x100)"

lemma saved_for_kept:
  assumes "saved_for w m c saved" "keeps_frame w m m'"
  shows "saved_for w m' c saved"
proof (cases "syscall_frame_base w")
  case (Some base)
  have "bytes_at (vm_space m') (base + off) 8 = bytes_at (vm_space m) (base + off) 8" if "(off, v) \<in> set (frame_words c)" for off v
    using frame_words_layout(2) [of c] that assms(2) Some
    by (intro bytes_at_part [where n = "0x100"]) (auto simp: frame_within_def keeps_frame_def)
  then show ?thesis using assms Some by (auto simp: saved_for_def keeps_frame_def)
qed (use assms(1) in \<open>simp add: saved_for_def\<close>)

lemma restore_saved:
  assumes "vm_ok (sw_mem s)" "saved_for w (sw_mem s) c saved"
  obtains m' where "restore_context (vm_ops alloc) saved s =
      (Inr (), s\<lparr>sw_cpu := host_restored (host_context_of c) (sw_cpu s), sw_mem := m'\<rparr>)"
    "vm_space m' = vm_space (sw_mem s)"
proof (cases "syscall_frame_base w")
  case None
  then show ?thesis using assms that [of "sw_mem s"] by (simp add: saved_for_def vmem.restore_host)
next
  case (Some base)
  then have h: "saved = SavedTeb base" "vm_acc (sw_mem s) PERM_READ base 0x100"
      "vmem.frame_holds (sw_mem s) base (frame_words c)"
    using assms(2) by (simp_all add: saved_for_def vmem.frame_holds_def)
  from vmem.restore_teb [where alloc = alloc, OF assms(1) h(2,3)] that show ?thesis
    unfolding h(1) same_view_def by metis
qed

lemma NONVOL_not_Rax: "Rax \<notin> NONVOL"
  by (simp add: NONVOL_def reg_defs R12_def R13_def R14_def R15_def)

text \<open>
  C29: A system call whose service leaves the saved frame alone preserves the context. The dispatcher
  keeps the context in the frame of the thread's own environment block, in guest memory, or on the
  host when the thread has no block. Let the memory be well-formed before and after the service,
  with no region in the last granule, let the frame's 0x100 bytes be readable and writable, and let
  the service neither change those bytes nor unmap them (one that writes a guest buffer there
  destroys the saved registers). Then a call that is not an exit and whose service does not take
  over the context returns to the guest with the nonvolatile registers, the stack pointer and the
  registers 6 to 15 of the vector file as before the call, whatever else the service did to them.
  It resumes at the address in \<open>rcx\<close> with the flags in \<open>r11\<close>, the result in \<open>rax\<close> and the other
  registers and the memory as the service left them. The service starts with the direction flag
  clear and all registers but the stack pointer.
\<close>
theorem syscall_preserves_context:
  fixes s :: "vmem sysw" and alloc :: "u64 \<Rightarrow> bool"
  defines "h \<equiv> snd (syscall_prologue (vm_ops alloc) s)"
  assumes "vm_ok (sw_mem s)" "roomy (vm_regions (sw_mem s))" "frame_usable (sw_os s) (sw_mem s)"
    and "choose_handler ssdt win32k index h = (Inr st, t)" "vm_ok (sw_mem t)" "keeps_frame (sw_os s) (sw_mem h) (sw_mem t)"
    and "os_pending_syscall_exit (sw_os t) = None" "\<not> os_syscall_resume_as_is (sw_os t)"
  shows "\<exists>u. dispatch_syscall ssdt win32k (vm_ops alloc) index s = (Inr Continue, u) \<and>
    (\<forall>r. cpu_reg r (sw_cpu u) =
      (if r = Rax then (case os_syscall_result64 (sw_os t) of Some v \<Rightarrow> v | None \<Rightarrow> ucast st)
       else if r \<in> NONVOL then cpu_reg r (sw_cpu s) else cpu_reg r (sw_cpu t))) \<and>
    cpu_rip (sw_cpu u) = cpu_reg Rcx (sw_cpu s) \<and> cpu_rflags (sw_cpu u) = cpu_reg R11 (sw_cpu s) \<and>
    (\<forall>x. cpu_xmm (sw_cpu u) x = (if 6 \<le> x then cpu_xmm (sw_cpu s) x else cpu_xmm (sw_cpu t) x)) \<and>
    cpu_ymm_hi (sw_cpu u) = cpu_ymm_hi (sw_cpu t) \<and> vm_space (sw_mem u) = vm_space (sw_mem t) \<and>
    os_syscall_guest_rsp (sw_os h) = cpu_rsp (sw_cpu s) \<and> \<not> cpu_flag DF (sw_cpu h) \<and>
    (\<forall>r. r \<noteq> Rsp \<longrightarrow> cpu_reg r (sw_cpu h) = cpu_reg r (sw_cpu s))"
proof -
  obtain saved where p: "syscall_prologue (vm_ops alloc) s = (Inr saved, h)" "saved_for (sw_os s) (sw_mem h) (sw_cpu s) saved"
      and start: "os_syscall_guest_rsp (sw_os h) = cpu_rsp (sw_cpu s)" "cpu_rflags (sw_cpu h) = cpu_rflags (sw_cpu s) AND NOT DF"
        "\<And>r. r \<noteq> Rsp \<Longrightarrow> cpu_reg r (sw_cpu h) = cpu_reg r (sw_cpu s)"
    using syscall_prologue_run [where alloc = alloc, OF assms(2-4)] unfolding h_def by (metis snd_conv)
  have df: "\<not> cpu_flag DF (sw_cpu h)"
    unfolding cpu_flag_def start(2) by (simp add: and.assoc)
  let ?t = "t\<lparr>sw_os := (sw_os t)\<lparr>os_pending_syscall_exit := None\<rparr>\<rparr>"
  let ?v = "case os_syscall_result64 (sw_os t) of Some v \<Rightarrow> v | None \<Rightarrow> ucast st"
  have "saved_for (sw_os s) (sw_mem ?t) (sw_cpu s) saved" using saved_for_kept [OF p(2) assms(7)] by simp
  then obtain m' where m': "restore_context (vm_ops alloc) saved ?t =
      (Inr (), ?t\<lparr>sw_cpu := host_restored (host_context_of (sw_cpu s)) (sw_cpu t), sw_mem := m'\<rparr>)"
      "vm_space m' = vm_space (sw_mem t)"
    using restore_saved [of ?t "sw_os s" "sw_cpu s" saved alloc] assms(6) by force
  let ?u = "?t\<lparr>sw_os := (sw_os ?t)\<lparr>os_syscall_result64 := None\<rparr>,
      sw_cpu := cpu_set_reg Rax ?v (host_restored (host_context_of (sw_cpu s)) (sw_cpu t)), sw_mem := m'\<rparr>"
  have "dispatch_syscall ssdt win32k (vm_ops alloc) index s = (Inr Continue, ?u)"
    using p(1) assms(5,8,9) m'(1)
    by (simp add: dispatch_prologue em_bind_apply syscall_finish_def os_run_def take_syscall_exit_def os_def em_apply
        take_syscall_result_def cpu_upd_def)
  moreover have "cpu_reg r (sw_cpu ?u) = (if r = Rax then ?v else if r \<in> NONVOL then cpu_reg r (sw_cpu s) else cpu_reg r (sw_cpu t))" for r
    by (simp add: cpu_reg_def cpu_set_reg_def host_restored_regs)
  ultimately show ?thesis
    using start df m'(2) by (intro exI [of _ ?u]) (simp add: cpu_set_reg_def cpu_reg_def host_restored_regs)
qed

section \<open>A service that destroys every register\<close>

definition clobber :: "('m, u32) service" where
  "clobber =
     em_bind (cpu_upd (\<lambda>c. c\<lparr>cpu_gpr := \<lambda>r. if r \<in> {Rbx, Rbp, Rsi, Rdi, R12, R13, R14, R15} then 0xDEAD
       else if r = R8 then 0x5A5A else cpu_gpr c r, cpu_xmm := \<lambda>x. if 6 \<le> x then 0xDEAD else cpu_xmm c x\<rparr>)) (\<lambda>_.
     em_return 0x12345678)"

definition teb_sys :: "vmem sysw" where
  "teb_sys =
     \<lparr>sw_os = win_os_new (os_config_default\<lparr>cf_teb_base := 0x7FFDE000\<rparr>) (clock_new True),
       sw_cpu = cpu_state_new\<lparr>cpu_gpr := (\<lambda>_. 0)(Rcx := 0x401234, R11 := 0x646, Rbx := 0xB16B00B5, Rsp := 0x1000001000)\<rparr>,
       sw_mem = vm_new\<lparr>vm_regions := [\<lparr>mp_region = \<lparr>rg_name = ''teb'', rg_base = 0x7FFDE000, rg_size = 0x2000, rg_perm = PERM_RW\<rparr>,
         mp_bytes = replicate 0x2000 0\<rparr>]\<rparr>\<rparr>"

lemma teb_sys_ok: "vm_ok (sw_mem teb_sys)" "roomy (vm_regions (sw_mem teb_sys))" "frame_usable (sw_os teb_sys) (sw_mem teb_sys)"
proof -
  show "vm_ok (sw_mem teb_sys)"
    by (simp add: teb_sys_def vm_ok_def vm_inv_def table_ok_def region_ok_def table_below_top_def below_top_def vm_new_def)
  show "roomy (vm_regions (sw_mem teb_sys))" by (simp add: teb_sys_def roomy_def)
  have "syscall_frame_base (sw_os teb_sys) = Some 0x7FFDFEC0"
    by (simp add: teb_sys_def syscall_frame_base_def current_thread_teb_def win_os_new_def main_thread_def TEB_REGION_SIZE_def FRAME_SIZE_def)
  moreover have "PERM_READ \<le> PERM_RW" "PERM_WRITE \<le> PERM_RW"
    by (simp_all add: less_eq_perm_def perm_contains_def perm_defs)
  ultimately show "frame_usable (sw_os teb_sys) (sw_mem teb_sys)"
    by (simp add: frame_usable_def vm_acc_def teb_sys_def region_contains_def saturating_add_def)
qed

theorem syscall_preserves_context_witness:
  "\<exists>u. dispatch_syscall (ssdt_set 7 clobber ssdt_new) ssdt_new_win32k (vm_ops (\<lambda>_. True)) 7 teb_sys = (Inr Continue, u) \<and>
    cpu_reg Rbx (sw_cpu u) = 0xB16B00B5 \<and> cpu_reg R8 (sw_cpu u) = 0x5A5A \<and> cpu_reg Rax (sw_cpu u) = 0x12345678 \<and>
    cpu_rip (sw_cpu u) = 0x401234 \<and> cpu_rflags (sw_cpu u) = 0x646 \<and> cpu_xmm (sw_cpu u) 6 = 0"
proof -
  let ?M = "vm_ops (\<lambda>_. True)"
  let ?h = "snd (syscall_prologue ?M teb_sys)"
  have handler: "choose_handler (ssdt_set 7 clobber ssdt_new) ssdt_new_win32k 7 = (clobber :: (vmem, u32) service)"
    by (simp add: choose_handler_def WIN32K_TABLE_BIT_def ssdt_handler_def ssdt_set_def ssdt_new_def ssdt_of_length_def SSDT_LEN_def)
  obtain saved t where h: "syscall_prologue ?M teb_sys = (Inr saved, t)" "vm_ok (sw_mem t)"
      "saved_for (sw_os teb_sys) (sw_mem t) (sw_cpu teb_sys) saved" "os_pending_syscall_exit (sw_os t) = None"
      "\<not> os_syscall_resume_as_is (sw_os t)" "os_syscall_result64 (sw_os t) = None"
    by (rule syscall_prologue_run [where alloc = "\<lambda>_. True", OF teb_sys_ok]) auto
  have kept: "keeps_frame (sw_os teb_sys) (sw_mem t) (sw_mem t)"
    using h(3) by (auto simp: keeps_frame_def saved_for_def split: option.splits)
  let ?t = "t\<lparr>sw_cpu := (sw_cpu t)\<lparr>cpu_gpr := \<lambda>r. if r \<in> {Rbx, Rbp, Rsi, Rdi, R12, R13, R14, R15} then 0xDEAD
       else if r = R8 then 0x5A5A else cpu_gpr (sw_cpu t) r, cpu_xmm := \<lambda>x. if 6 \<le> x then 0xDEAD else cpu_xmm (sw_cpu t) x\<rparr>\<rparr>"
  obtain t' where t': "t' = ?t" by simp
  have run: "choose_handler (ssdt_set 7 clobber ssdt_new) ssdt_new_win32k 7 (snd (syscall_prologue ?M teb_sys)) = (Inr 0x12345678, t')"
    unfolding handler h(1) by (simp add: clobber_def em_bind_apply cpu_upd_def em_apply t')
  have same: "sw_os t' = sw_os t" "sw_mem t' = sw_mem t" by (simp_all add: t')
  have regs: "R8 \<noteq> Rax" "R8 \<notin> NONVOL" "Rbx \<noteq> Rax" "Rbx \<in> NONVOL" "R8 \<notin> {Rbx, Rbp, Rsi, Rdi, R12, R13, R14, R15}"
      "Rcx \<noteq> Rbx" "Rcx \<noteq> R11" "Rcx \<noteq> Rsp" "R11 \<noteq> Rbx" "R11 \<noteq> Rsp" "Rbx \<noteq> Rsp"
    by (simp_all add: NONVOL_def reg_defs R8_def R11_def R12_def R13_def R14_def R15_def)
  have teb: "cpu_reg Rcx (sw_cpu teb_sys) = 0x401234" "cpu_reg R11 (sw_cpu teb_sys) = 0x646" "cpu_reg Rbx (sw_cpu teb_sys) = 0xB16B00B5"
      "cpu_xmm (sw_cpu teb_sys) 6 = 0"
    using regs by (auto simp: teb_sys_def cpu_reg_def cpu_state_new_def)
  have r8: "cpu_reg R8 (sw_cpu t') = 0x5A5A" using regs(5) by (simp add: cpu_reg_def t')
  obtain u where "dispatch_syscall (ssdt_set 7 clobber ssdt_new) ssdt_new_win32k ?M 7 teb_sys = (Inr Continue, u)"
      and u: "\<And>r. cpu_reg r (sw_cpu u) = (if r = Rax then 0x12345678
        else if r \<in> NONVOL then cpu_reg r (sw_cpu teb_sys) else cpu_reg r (sw_cpu t'))"
        "cpu_rip (sw_cpu u) = cpu_reg Rcx (sw_cpu teb_sys)" "cpu_rflags (sw_cpu u) = cpu_reg R11 (sw_cpu teb_sys)"
        "\<And>x. cpu_xmm (sw_cpu u) x = (if 6 \<le> x then cpu_xmm (sw_cpu teb_sys) x else cpu_xmm (sw_cpu t') x)"
    using syscall_preserves_context [OF teb_sys_ok run] h kept unfolding same h(1) snd_conv h(6) by fastforce
  then show ?thesis
    using regs teb r8 h(6) by (intro exI [of _ u]) simp
qed

end
