(* ===== verification/Os_Time_Theorems.thy ===== *)
theory Os_Time_Theorems
  imports Os_Time
begin

text \<open>
  The calendar of \<open>os/src/time.rs\<close>. The reference is the rule by which people count days:
  \<open>next_day\<close>, from month lengths and leap years. The closed formulas of the source agree with it.
\<close>

section \<open>The reference\<close>

definition leap_year :: "int \<Rightarrow> bool" where
  "leap_year y \<longleftrightarrow> y mod 4 = 0 \<and> (y mod 100 \<noteq> 0 \<or> y mod 400 = 0)"

definition month_length :: "int \<Rightarrow> int \<Rightarrow> int" where
  "month_length y m = (if m = 2 then (if leap_year y then 29 else 28) else if m = 4 \<or> m = 6 \<or> m = 9 \<or> m = 11 then 30 else 31)"

fun next_day :: "int \<times> int \<times> int \<Rightarrow> int \<times> int \<times> int" where
  "next_day (y, m, d) =
     (if d < month_length y m then (y, m, d + 1) else if m < 12 then (y, m + 1, 1) else (y + 1, 1, 1))"

definition valid_date :: "int \<times> int \<times> int \<Rightarrow> bool" where
  "valid_date = (\<lambda>(y, m, d). 1 \<le> m \<and> m \<le> 12 \<and> 1 \<le> d \<and> d \<le> month_length y m)"

lemma next_day_valid: "valid_date v \<Longrightarrow> valid_date (next_day v)"
  by (cases v) (auto simp: valid_date_def month_length_def)

section \<open>Years that start in March\<close>

definition year_start :: "int \<Rightarrow> int" where
  \<comment> \<open>days of an era before its year \<open>y\<close>\<close>
  "year_start y = 365 * y + y div 4 - y div 100 + y div 400"

definition era_days :: "int \<Rightarrow> int" where
  \<comment> \<open>the numerator of the year in \<open>civil_from_days\<close>\<close>
  "era_days n = n - n div 1460 + n div 36524 - n div 146096"

definition year_ok :: "int \<Rightarrow> bool" where
  "year_ok y \<longleftrightarrow> year_start (y + 1) \<le> 146097 \<and> 0 \<le> year_start y \<and> year_start (y + 1) = year_start y + 365 + of_bool (leap_year (y + 1)) \<and>
     365 * y \<le> era_days (year_start y) \<and> era_days (year_start (y + 1) - 1) < 365 * (y + 1)"

lemma year_table: "list_all year_ok [0..399]"
  by code_simp

lemma year_ok: "0 \<le> y \<Longrightarrow> y < 400 \<Longrightarrow> year_ok y"
  using year_table by (simp add: list_all_iff)

lemma div_pred:
  fixes n k :: int
  assumes "0 < k"
  shows "n div k = (n - 1) div k + of_bool (k dvd n)"
proof -
  have n: "n = n div k * k + n mod k" by simp
  show ?thesis
  proof (cases "k dvd n")
    case True
    then obtain q where q: "n = q * k" by (metis dvd_def mult.commute)
    have "n - 1 = (k - 1) + (q - 1) * k" by (simp add: q algebra_simps)
    then have "(n - 1) div k = (q - 1) + (k - 1) div k" using assms by (simp only: div_mult_self1) 
    then show ?thesis using assms True by (simp add: q)
  next
    case False
    then have "0 < n mod k" using assms by (metis dvd_eq_mod_eq_0 order_le_less pos_mod_sign)
    then have "(n mod k - 1) div k = 0" using assms pos_mod_bound [OF assms, of n] by (intro div_pos_pos_trivial) auto
    moreover have "n - 1 = (n mod k - 1) + (n div k) * k" using n by linarith
    then have "(n - 1) div k = n div k + (n mod k - 1) div k" using assms by (metis div_mult_self1 less_irrefl)
    ultimately show ?thesis using False by simp
  qed
qed

lemma era_days_step: "era_days (n - 1) \<le> era_days n"
proof -
  have "(146096 :: int) dvd n \<longrightarrow> 36524 dvd n" by (auto intro: dvd_trans [of _ 146096])
  then show ?thesis
    using div_pred [of 1460 n] div_pred [of 36524 n] div_pred [of 146096 n] by (simp add: era_days_def of_bool_def split: if_splits)
qed

lemma era_days_mono: "a \<le> b \<Longrightarrow> era_days a \<le> era_days b"
proof (induction "nat (b - a)" arbitrary: b)
  case (Suc n)
  then have "era_days a \<le> era_days (b - 1)" by (intro Suc(1)) auto
  with era_days_step [of b] show ?case by simp
qed simp

lemma year_of_era:
  assumes "0 \<le> y" "y < 400" "year_start y \<le> n" "n < year_start (y + 1)"
  shows "era_days n div 365 = y"
proof -
  have "365 * y \<le> era_days n"
    using year_ok [OF assms(1,2)] era_days_mono [OF assms(3)] by (simp add: year_ok_def)
  moreover have "era_days n < 365 * (y + 1)"
  proof -
    have "era_days n \<le> era_days (year_start (y + 1) - 1)" using assms(4) by (intro era_days_mono) simp
    also have "\<dots> < 365 * (y + 1)" using year_ok [OF assms(1,2)] unfolding year_ok_def by blast
    finally show ?thesis .
  qed
  ultimately show ?thesis by (intro int_div_pos_eq [where r = "era_days n - 365 * y"]) auto
qed

section \<open>Dates and day numbers\<close>

definition shifted_year :: "int \<Rightarrow> int \<Rightarrow> int" where
  "shifted_year y m = (if m \<le> 2 then y - 1 else y)"

definition shifted_month :: "int \<Rightarrow> int" where
  "shifted_month m = (if m \<le> 2 then m + 9 else m - 3)"

definition day_of_year :: "int \<Rightarrow> int \<Rightarrow> int" where
  "day_of_year m d = (153 * shifted_month m + 2) div 5 + d - 1"

definition day_number :: "int \<times> int \<times> int \<Rightarrow> int" where
  \<comment> \<open>days since 1970\<close>
  "day_number = (\<lambda>(y, m, d).
     let s = shifted_year y m in (s div 400) * 146097 + year_start (s mod 400) + day_of_year m d - 719468)"

lemma month_cases:
  assumes "1 \<le> (m :: int)" "m \<le> 12"
  shows "m = 1 \<or> m = 2 \<or> m = 3 \<or> m = 4 \<or> m = 5 \<or> m = 6 \<or> m = 7 \<or> m = 8 \<or> m = 9 \<or> m = 10 \<or> m = 11 \<or> m = 12"
  using assms by presburger

lemma leap_period: "leap_year (y mod 400 + 1) = leap_year (y + 1)"
proof -
  have "(y mod 400 + 1) mod k = (y + 1) mod k" if "k dvd 400" for k
    by (metis mod_add_left_eq mod_mod_cancel that)
  then show ?thesis by (simp add: leap_year_def)
qed

lemma day_of_year_bounds:
  assumes "valid_date (y, m, d)"
  shows "0 \<le> day_of_year m d" "day_of_year m d < 365 + of_bool (leap_year (shifted_year y m + 1))"
    "(5 * day_of_year m d + 2) div 153 = shifted_month m"
    "day_of_year m d - (153 * shifted_month m + 2) div 5 + 1 = d"
proof -
  have v: "1 \<le> m" "m \<le> 12" "1 \<le> d" "d \<le> month_length y m" using assms by (simp_all add: valid_date_def)
  note months = month_cases [OF v(1,2)]
  from months show "0 \<le> day_of_year m d" "day_of_year m d < 365 + of_bool (leap_year (shifted_year y m + 1))"
    using v(3,4) by (elim disjE; simp add: day_of_year_def shifted_month_def shifted_year_def month_length_def of_bool_def split: if_splits)+
  from months show "(5 * day_of_year m d + 2) div 153 = shifted_month m"
    using v(3,4) by (elim disjE; simp add: day_of_year_def shifted_month_def month_length_def split: if_splits; presburger)
  show "day_of_year m d - (153 * shifted_month m + 2) div 5 + 1 = d" by (simp add: day_of_year_def)
qed

definition days_before :: "int \<Rightarrow> int" where
  \<comment> \<open>days before the shifted year \<open>s\<close>\<close>
  "days_before s = (s div 400) * 146097 + year_start (s mod 400)"

lemma day_number_eq: "day_number (y, m, d) = days_before (shifted_year y m) + day_of_year m d - 719468"
  by (simp add: day_number_def days_before_def Let_def)

lemma days_before_step: "days_before (s + 1) = days_before s + 365 + of_bool (leap_year (s + 1))"
proof -
  have m: "0 \<le> s mod 400" "s mod 400 < 400" by simp_all
  have step: "year_start (s mod 400 + 1) = year_start (s mod 400) + 365 + of_bool (leap_year (s + 1))"
    using year_ok [OF m] leap_period [of s] unfolding year_ok_def by simp
  show ?thesis
  proof (cases "s mod 400 = 399")
    case True
    have "s + 1 = (s div 400 + 1) * 400" using True div_mult_mod_eq [of s 400] by (simp add: distrib_right)
    then have "(s + 1) div 400 = s div 400 + 1" "(s + 1) mod 400 = 0"
      by (metis nonzero_mult_div_cancel_right zero_neq_numeral, metis mod_mult_self2_is_0)
    then show ?thesis using step True by (simp add: days_before_def year_start_def)
  next
    case False
    have "s + 1 = (s mod 400 + 1) + (s div 400) * 400" using div_mult_mod_eq [of s 400] by linarith
    moreover have "(s mod 400 + 1) div 400 = 0" "(s mod 400 + 1) mod 400 = s mod 400 + 1" using False m by simp_all
    ultimately have "(s + 1) div 400 = s div 400" "(s + 1) mod 400 = s mod 400 + 1"
      by (metis div_mult_self1 add_0_right zero_neq_numeral, metis mod_mult_self1)
    then show ?thesis using step by (simp add: days_before_def)
  qed
qed

lemma day_number_next:
  assumes "valid_date (y, m, d)"
  shows "day_number (next_day (y, m, d)) = day_number (y, m, d) + 1"
proof -
  have v: "1 \<le> m" "m \<le> 12" "d \<le> month_length y m" using assms by (simp_all add: valid_date_def)
  show ?thesis
  proof (cases "d < month_length y m")
    case True
    then show ?thesis by (simp add: day_number_eq day_of_year_def)
  next
    case False
    then have d: "d = month_length y m" using v by simp
    show ?thesis
      using month_cases [OF v(1,2)] days_before_step [of "y - 1"]
      by (elim disjE; simp add: d day_number_eq day_of_year_def shifted_year_def shifted_month_def month_length_def)
  qed
qed

lemma trunc_div_nonneg: "0 \<le> a \<Longrightarrow> trunc_div a b = a div b"
  by (simp add: trunc_div_def)

lemma civil_of_day_number:
  assumes "valid_date (y, m, d)" "0 \<le> shifted_year y m"
  shows "civil_from_days (day_number (y, m, d)) = (y, m, d)"
proof -
  let ?s = "shifted_year y m"
  let ?y = "?s mod 400" and ?n = "day_of_year m d"
  let ?e = "year_start ?y + ?n"
  note b = day_of_year_bounds [OF assms(1)]
  have y: "0 \<le> ?y" "?y < 400" by simp_all
  have step: "year_start (?y + 1) = year_start ?y + 365 + of_bool (leap_year (?s + 1))"
    using year_ok [OF y] leap_period [of ?s] unfolding year_ok_def by simp
  have start: "0 \<le> year_start ?y" and last: "year_start (?y + 1) \<le> 146097" and era0: "365 * ?y \<le> era_days (year_start ?y)"
    using year_ok [OF y] unfolding year_ok_def by blast+
  have e: "0 \<le> ?e" "?e < 146097" "year_start ?y \<le> ?e" "?e < year_start (?y + 1)"
    using b(1,2) step start last by simp_all
  have z: "day_number (y, m, d) + 719468 = ?e + (?s div 400) * 146097"
    by (simp add: day_number_eq days_before_def)
  have nonneg: "0 \<le> ?s div 400" using assms(2) by (simp add: pos_imp_zdiv_nonneg_iff)
  then have z0: "0 \<le> day_number (y, m, d) + 719468" unfolding z using e by simp
  have era: "(day_number (y, m, d) + 719468) div 146097 = ?s div 400" unfolding z using e by simp
  have doe: "day_number (y, m, d) + 719468 - (?s div 400) * 146097 = ?e" unfolding z by simp
  have yoe: "(?e - ?e div 1460 + ?e div 36524 - ?e div 146096) div 365 = ?y"
    using year_of_era [OF y e(3,4)] by (simp add: era_days_def)
  have doy: "?e - (365 * ?y + ?y div 4 - ?y div 100) = ?n"
    using y by (simp add: year_start_def)
  have month: "0 \<le> shifted_month m" using assms(1) by (auto simp: valid_date_def shifted_month_def)
  have t: "trunc_div (day_number (y, m, d) + 719468) 146097 = ?s div 400"
      "trunc_div ?e 1460 = ?e div 1460" "trunc_div ?e 36524 = ?e div 36524" "trunc_div ?e 146096 = ?e div 146096"
      "trunc_div ?y 4 = ?y div 4" "trunc_div ?y 100 = ?y div 100"
    using z0 e(1) y(1) era by (simp_all only: trunc_div_nonneg)
  have yoe': "trunc_div (?e - ?e div 1460 + ?e div 36524 - ?e div 146096) 365 = ?y"
  proof -
    have "0 \<le> 365 * ?y" using y(1) by simp
    also have "365 * ?y \<le> era_days ?e" using era0 era_days_mono [OF e(3)] by (rule order_trans)
    finally have "0 \<le> ?e - ?e div 1460 + ?e div 36524 - ?e div 146096" by (simp only: era_days_def)
    then show ?thesis using yoe by (simp only: trunc_div_nonneg)
  qed
  have mp: "trunc_div (5 * ?n + 2) 153 = shifted_month m" using b(1,3) by (simp add: trunc_div_nonneg)
  have c: "trunc_div (153 * shifted_month m + 2) 5 = (153 * shifted_month m + 2) div 5" using month by (simp add: trunc_div_nonneg)
  have year: "?y + ?s div 400 * 400 = ?s" using div_mult_mod_eq [of ?s 400] by linarith
  show ?thesis
    unfolding civil_from_days_def Let_def if_P [OF z0] t doe yoe' doy mp c b(4) year
    using assms(1) by (auto simp: valid_date_def shifted_month_def shifted_year_def)
qed

section \<open>The formulas are the reference\<close>

lemma date_of_day:
  assumes "0 \<le> n"
  shows "\<exists>y m d. valid_date (y, m, d) \<and> 0 \<le> shifted_year y m \<and> day_number (y, m, d) = n - 719468"
  using assms
proof (induction n rule: int_ge_induct)
  case base
  have "valid_date (0, 3, 1) \<and> 0 \<le> shifted_year 0 3 \<and> day_number (0, 3, 1) = - 719468"
    by (simp add: valid_date_def month_length_def shifted_year_def day_number_eq days_before_def year_start_def
        day_of_year_def shifted_month_def)
  then show ?case by fastforce
next
  case (step n)
  then obtain y m d where v: "valid_date (y, m, d)" "0 \<le> shifted_year y m" "day_number (y, m, d) = n - 719468" by blast
  obtain y2 m2 d2 where n: "next_day (y, m, d) = (y2, m2, d2)" by (cases "next_day (y, m, d)")
  then have "0 \<le> shifted_year y2 m2" using v(1,2) by (auto simp: shifted_year_def valid_date_def split: if_splits)
  moreover have "valid_date (y2, m2, d2)" using next_day_valid [OF v(1)] n by simp
  moreover have "day_number (y2, m2, d2) = n + 1 - 719468" using day_number_next [OF v(1)] n v(3) by simp
  ultimately show ?case by blast
qed

lemma civil_steps:
  assumes "- 719468 \<le> n"
  shows "civil_from_days (n + 1) = next_day (civil_from_days n)" "valid_date (civil_from_days n)"
    "day_number (civil_from_days n) = n" "case civil_from_days n of (y, m, d) \<Rightarrow> 0 \<le> shifted_year y m"
proof -
  obtain y m d where v: "valid_date (y, m, d)" "0 \<le> shifted_year y m" "day_number (y, m, d) = n"
    using date_of_day [of "n + 719468"] assms by auto
  have c: "civil_from_days n = (y, m, d)" using civil_of_day_number [OF v(1,2)] v(3) by simp
  then show "valid_date (civil_from_days n)" "day_number (civil_from_days n) = n"
    "case civil_from_days n of (y, m, d) \<Rightarrow> 0 \<le> shifted_year y m" using v by simp_all
  obtain y2 m2 d2 where n: "next_day (y, m, d) = (y2, m2, d2)" by (cases "next_day (y, m, d)")
  then have "0 \<le> shifted_year y2 m2" using v(1,2) by (auto simp: shifted_year_def valid_date_def split: if_splits)
  moreover have "valid_date (y2, m2, d2)" using next_day_valid [OF v(1)] n by simp
  ultimately have "civil_from_days (day_number (y2, m2, d2)) = (y2, m2, d2)" by (intro civil_of_day_number)
  moreover have "day_number (y2, m2, d2) = n + 1" using day_number_next [OF v(1)] n v(3) by simp
  ultimately show "civil_from_days (n + 1) = next_day (civil_from_days n)" by (simp only: c n)
qed

text \<open>The property of \<open>SYSTEMTIME\<close>: the fields are the date and the time of day of a file time.\<close>

lemma days_before_ge: "0 \<le> s \<Longrightarrow> 365 * s \<le> days_before s"
proof -
  have y: "0 \<le> s mod 400" "s mod 400 < 400" by simp_all
  have "(s mod 400) div 100 \<le> (s mod 400) div 4" using y by (intro zdiv_mono2) auto
  moreover have "(s mod 400) div 400 = 0" using y by simp
  ultimately have "365 * (s mod 400) \<le> year_start (s mod 400)" by (simp add: year_start_def)
  moreover have "365 * s = 146000 * (s div 400) + 365 * (s mod 400)" using div_mult_mod_eq [of s 400] by linarith
  moreover assume "0 \<le> s"
  then have "0 \<le> s div 400" by (simp add: pos_imp_zdiv_nonneg_iff)
  ultimately show ?thesis by (simp add: days_before_def)
qed

lemma civil_year:
  assumes "- 134774 \<le> n" "n \<le> 21215624" "civil_from_days n = (y, m, d)"
  shows "0 \<le> y" "y < 65536" "1 \<le> m" "m \<le> 12" "1 \<le> d" "d \<le> 31"
proof -
  have n: "- 719468 \<le> n" using assms(1) by simp
  have v: "valid_date (y, m, d)" "day_number (y, m, d) = n" "0 \<le> shifted_year y m"
    using civil_steps(2-4) [OF n] assms(3) by simp_all
  have "365 * shifted_year y m \<le> n + 719468"
    using days_before_ge [OF v(3)] day_of_year_bounds(1) [OF v(1)] v(2) by (simp add: day_number_eq)
  then have "shifted_year y m < 65535" using assms(2) by linarith
  then show "0 \<le> y" "y < 65536" using v(3) by (auto simp: shifted_year_def split: if_splits)
  show "1 \<le> m" "m \<le> 12" "1 \<le> d" "d \<le> 31"
    using v(1) by (auto simp: valid_date_def month_length_def split: if_splits)
qed

lemma word_of_int16: "0 \<le> i \<Longrightarrow> i < 65536 \<Longrightarrow> uint (word_of_int i :: u16) = i"
  by (simp add: uint_word_of_int)

definition field :: "u64 \<Rightarrow> nat \<Rightarrow> int" where
  "field ft i = uint (systemtime_fields ft ! i)"

lemma fields_of_ints:
  assumes "systemtime_fields ft = map word_of_int [y, m, w, d, h, mi, sec] @ [ms]"
    "list_all (\<lambda>i. 0 \<le> i \<and> i < 65536) [y, m, w, d, h, mi, sec]"
  shows "field ft 0 = y" "field ft 1 = m" "field ft 2 = w" "field ft 3 = d" "field ft 4 = h" "field ft 5 = mi"
    "field ft 6 = sec" "field ft 7 = uint ms"
  using assms by (simp_all add: field_def word_of_int16)

lemma ticks_split: "(x :: int) div 10000 = (x div 10000000) * 1000 + x mod 10000000 div 10000"
proof -
  have "x mod (10000 * 1000) = 10000 * (x div 10000 mod 1000) + x mod 10000" by (rule zmod_zmult2_eq) simp
  then have "x mod 10000000 div 10000 = x div 10000 mod 1000" by simp
  moreover have "x div 10000000 = x div 10000 div 1000" using zdiv_zmult2_eq [of 1000 x 10000] by simp
  ultimately show ?thesis using div_mult_mod_eq [of "x div 10000" 1000] by simp
qed

lemma seconds_split: "(t :: int) = t div 3600 * 3600 + t mod 3600 div 60 * 60 + t mod 60"
proof -
  have "t mod 3600 mod 60 = t mod 60" by (simp add: mod_mod_cancel)
  then show ?thesis using div_mult_mod_eq [of t 3600] div_mult_mod_eq [of "t mod 3600" 60] by linarith
qed

lemma ticks_of_parts:
  fixes x :: int
  assumes "x = a * 1000 + ms" "a - 11644473600 = n * 86400 + t" "t = h * 3600 + mi * 60 + sec"
  shows "x = (n + 134774) * 86400000 + h * 3600000 + mi * 60000 + sec * 1000 + ms"
  using assms by (simp add: algebra_simps)

lemma time_bounds:
  fixes t x :: int
  assumes "t < 86400"
  shows "t div 3600 < 24" "t mod 3600 div 60 < 60" "t mod 60 < 60" "x mod 10000000 div 10000 < 1000"
  using assms by linarith+

text \<open>
  C32: The eight fields of a \<open>SYSTEMTIME\<close> are the date and the time of day of every file time
  from 1601 to the end of the 64-bit range. All fields are in range, they determine the file time up to its
  millisecond, and the calendar is the Gregorian one: the day number counts up by one from each
  date to the next, with 1601-01-01 at its place.
\<close>
theorem systemtime_exact:
  "length (systemtime_fields ft) = 8 \<and> valid_date (field ft 0, field ft 1, field ft 3) \<and>
    field ft 2 = (day_number (field ft 0, field ft 1, field ft 3) + 4) mod 7 \<and>
    field ft 4 < 24 \<and> field ft 5 < 60 \<and> field ft 6 < 60 \<and> field ft 7 < 1000 \<and>
    uint ft div 10000 = (day_number (field ft 0, field ft 1, field ft 3) + 134774) * 86400000 +
      field ft 4 * 3600000 + field ft 5 * 60000 + field ft 6 * 1000 + field ft 7 \<and>
    day_number (1601, 1, 1) = - 134774 \<and>
    (\<forall>v. valid_date v \<longrightarrow> valid_date (next_day v) \<and> day_number (next_day v) = day_number v + 1)"
proof -
  let ?s = "uint ft div 10000000 - 11644473600"
  let ?n = "?s div 86400" and ?t = "?s mod 86400"
  obtain y m d where c: "civil_from_days ?n = (y, m, d)" by (cases "civil_from_days ?n")
  have ft: "0 \<le> uint ft" "uint ft < 18446744073709551616" using uint_lt2p [of ft] by simp_all
  have n: "- 134774 \<le> ?n" "?n \<le> 21215624" using ft by linarith+
  note b = civil_year [OF n c]
  have t: "0 \<le> ?t" "?t < 86400" by simp_all
  have div: "uint (ft div QPC_FREQ) = uint ft div 10000000" "uint (ft mod QPC_FREQ div 10000) = uint ft mod 10000000 div 10000"
    by (simp_all add: QPC_FREQ_def QPC_FREQUENCY_def uint_div uint_mod)
  have ms: "uint (ucast (ft mod QPC_FREQ div 10000) :: u16) = uint ft mod 10000000 div 10000"
  proof -
    have "uint ft mod 10000000 div 10000 < 1000" using ft by linarith
    moreover have "0 \<le> uint ft mod 10000000 div 10000" by simp
    ultimately show ?thesis by (simp add: unsigned_ucast_eq div(2) take_bit_int_eq_self)
  qed
  have fs: "systemtime_fields ft = [word_of_int y, word_of_int m, word_of_int ((?n mod 7 + 4) mod 7), word_of_int d,
      word_of_int (?t div 3600), word_of_int (?t mod 3600 div 60), word_of_int (?t mod 60), ucast (ft mod QPC_FREQ div 10000)]"
    using c t by (simp add: systemtime_fields_def Let_def div EPOCH_DIFF_SECS_def trunc_div_nonneg)
  have f: "field ft 0 = y" "field ft 1 = m" "field ft 2 = (?n mod 7 + 4) mod 7" "field ft 3 = d"
      "field ft 4 = ?t div 3600" "field ft 5 = ?t mod 3600 div 60" "field ft 6 = ?t mod 60" "field ft 7 = uint ft mod 10000000 div 10000"
  proof -
    have w: "0 \<le> (?n mod 7 + 4) mod 7" "(?n mod 7 + 4) mod 7 < 65536" "0 \<le> ?t div 3600" "?t div 3600 < 65536"
      "0 \<le> ?t mod 3600 div 60" "?t mod 3600 div 60 < 65536" "0 \<le> ?t mod 60" "?t mod 60 < 65536"
      using t by linarith+
    have md: "0 \<le> m" "m < 65536" "0 \<le> d" "d < 65536" using b(3-6) by simp_all
    have "list_all (\<lambda>i. 0 \<le> i \<and> i < 65536) [y, m, (?n mod 7 + 4) mod 7, d, ?t div 3600, ?t mod 3600 div 60, ?t mod 60]"
      unfolding list.pred_inject using b(1,2) md w by (simp only: simp_thms list.pred_inject)
    from fields_of_ints [OF _ this, of ft "ucast (ft mod QPC_FREQ div 10000)"]
    show "field ft 0 = y" "field ft 1 = m" "field ft 2 = (?n mod 7 + 4) mod 7" "field ft 3 = d"
      "field ft 4 = ?t div 3600" "field ft 5 = ?t mod 3600 div 60" "field ft 6 = ?t mod 60" "field ft 7 = uint ft mod 10000000 div 10000"
      unfolding fs list.map append.simps ms by blast+
  qed
  have v: "valid_date (y, m, d)" "day_number (y, m, d) = ?n" using civil_steps(2,3) [of ?n] n c by simp_all
  note parts = ticks_split [of "uint ft"] and day = seconds_split [of ?t]
  have "?s = ?n * 86400 + ?t" by (simp only: div_mult_mod_eq)
  then have ticks: "uint ft div 10000 = (?n + 134774) * 86400000 + ?t div 3600 * 3600000 + ?t mod 3600 div 60 * 60000 +
      ?t mod 60 * 1000 + uint ft mod 10000000 div 10000"
    by (rule ticks_of_parts [OF parts _ day])
  note tb = time_bounds [OF t(2)]
  show ?thesis
    unfolding f v(2)
  proof (intro conjI)
    show "length (systemtime_fields ft) = 8" by (simp add: fs)
    show "valid_date (y, m, d)" by (rule v(1))
    show "(?n mod 7 + 4) mod 7 = (?n + 4) mod 7" by (rule mod_add_left_eq)
    show "?t div 3600 < 24" "?t mod 3600 div 60 < 60" "?t mod 60 < 60" "uint ft mod 10000000 div 10000 < 1000"
      by (rule tb)+
    show "uint ft div 10000 = (?n + 134774) * 86400000 + ?t div 3600 * 3600000 + ?t mod 3600 div 60 * 60000 +
      ?t mod 60 * 1000 + uint ft mod 10000000 div 10000" by (rule ticks)
    show "day_number (1601, 1, 1) = - 134774"
      by (simp add: day_number_eq days_before_def year_start_def day_of_year_def shifted_month_def shifted_year_def)
    show "\<forall>v. valid_date v \<longrightarrow> valid_date (next_day v) \<and> day_number (next_day v) = day_number v + 1"
      using next_day_valid day_number_next by fastforce
  qed
qed

theorem systemtime_exact_witness:
  "valid_date (2024, 2, 29) \<and> day_number (next_day (2024, 2, 29)) = day_number (2024, 2, 29) + 1"
proof -
  have "valid_date (2024, 2, 29)" by (simp add: valid_date_def month_length_def leap_year_def)
  with systemtime_exact [of 0] show ?thesis by blast
qed

end
