(* ===== verification/Os_Objects.thy ===== *)
theory Os_Objects
  imports Os_Sched_Laws Os_New Virtual_Memory
begin

text \<open>
  How a synchronisation object may change: \<open>obj_step tid\<close> lists the changes that thread \<open>tid\<close> can
  make, and every wait and signal service refines it, whichever handles it names and whatever its
  outcome. The rules are those of the objects' contracts; the services of Win32 that break them are left out.
\<close>

section \<open>The rules\<close>

inductive obj_step :: "u32 \<Rightarrow> kobject \<Rightarrow> kobject \<Rightarrow> bool" for tid where
  event: "obj_step tid (KEvent manual s) (KEvent manual s')"
| timer: "obj_step tid (KTimer manual s) (KTimer manual s')"
| lock: "obj_step tid (KMutex None r) (KMutex (Some tid) 1)"
| relock: "obj_step tid (KMutex (Some tid) r) (KMutex (Some tid) (r + 1))"
| unlock: "r \<noteq> 0 \<Longrightarrow> r \<noteq> 1 \<Longrightarrow> obj_step tid (KMutex (Some tid) r) (KMutex (Some tid) (r - 1))"
| free: "r = 0 \<or> r = 1 \<Longrightarrow> obj_step tid (KMutex (Some tid) r) (KMutex None 0)"
| take: "0 <s c \<Longrightarrow> obj_step tid (KSemaphore c m) (KSemaphore (c - 1) m)"
| give: "1 \<le>s n \<Longrightarrow> sint c + sint n < 2 ^ 31 \<Longrightarrow> m \<le>s 0 \<or> c + n \<le>s m \<Longrightarrow>
    obj_step tid (KSemaphore c m) (KSemaphore (c + n) m)"

inductive_cases obj_step_mutex: "obj_step tid (KMutex owner r) k"
inductive_cases obj_step_semaphore: "obj_step tid (KSemaphore c m) k"

abbreviation obj_steps :: "u32 \<Rightarrow> kobject \<Rightarrow> kobject \<Rightarrow> bool" where
  "obj_steps tid \<equiv> (obj_step tid)\<^sup>*\<^sup>*"

definition obj_ok :: "u32 \<Rightarrow> u64 \<Rightarrow> kobject \<Rightarrow> win_os \<Rightarrow> bool" where
  \<comment> \<open>the object of \<open>h\<close> was \<open>k\<close>, and thread \<open>tid\<close> changed it by the rules\<close>
  "obj_ok tid h k w \<longleftrightarrow> (\<exists>k'. os_kobjects w h = Some k' \<and> obj_steps tid k k')"

definition obj_at :: "u32 \<Rightarrow> u64 \<Rightarrow> kobject \<Rightarrow> win_os \<Rightarrow> bool" where
  "obj_at tid h k w \<longleftrightarrow> obj_ok tid h k w \<and> os_current_tid w = tid"

section \<open>Operations\<close>

lemma obj_ok_resume [simp]: "obj_ok tid h k (w\<lparr>os_syscall_resume_as_is := b\<rparr>) = obj_ok tid h k w"
  by (simp add: obj_ok_def)

lemma obj_ok_put:
  assumes "obj_ok tid h k w" "os_kobjects w h' = Some o1" "obj_steps tid o1 o2"
  shows "obj_ok tid h k (put_kobject h' o2 w)"
  using assms by (auto simp: obj_ok_def put_kobject_def intro: rtranclp_trans)

lemma acquire_steps: "acquire tid k = (got, k') \<Longrightarrow> obj_steps tid k k'"
  by (auto simp: acquire_def split: kobject.splits if_splits option.splits intro: obj_step.intros r_into_rtranclp)

lemma kobject_acquire_ok: "obj_ok tid h k w \<Longrightarrow> obj_ok tid h k (snd (kobject_acquire h' tid w))"
  using obj_ok_put [of tid h k w h'] acquire_steps
  by (auto simp: kobject_acquire_def put_kobject_def split: option.splits prod.splits)

lemma acquire_every_ok: "obj_ok tid h k w \<Longrightarrow> obj_ok tid h k (acquire_every tid hs w)"
  unfolding acquire_every_def by (induction hs arbitrary: w) (simp_all add: kobject_acquire_ok)

lemma acquire_first_ok: "obj_ok tid h k w \<Longrightarrow> obj_ok tid h k (snd (acquire_first tid i hs w))"
proof (induction hs arbitrary: i w)
  case (Cons a hs)
  then show ?case using kobject_acquire_ok [OF Cons(2), of a] by (cases "kobject_acquire a tid w") auto
qed simp

lemma nt_wait_acquire_keeps: "obj_ok tid h k w \<Longrightarrow> obj_ok tid h k (snd (nt_wait_acquire hs all_of tid w))"
  using acquire_first_ok [of tid h k w 0 hs]
  by (cases "acquire_first tid 0 hs w") (auto simp: nt_wait_acquire_def acquire_every_ok split: option.splits)

lemma set_signaled_steps: "set_signaled b k = Some k' \<Longrightarrow> obj_steps tid k k'"
  by (auto simp: set_signaled_def split: kobject.splits intro: obj_step.intros r_into_rtranclp)

lemma release_mutex_steps: "release_mutex tid owner r = (ok, k') \<Longrightarrow> obj_steps tid (KMutex owner r) k'"
proof (cases "owner = Some tid")
  case True
  assume "release_mutex tid owner r = (ok, k')"
  with True consider "r = 0 \<or> r = 1" "k' = KMutex None 0" | "r \<noteq> 0" "r \<noteq> 1" "k' = KMutex (Some tid) (r - 1)"
    by (auto simp: release_mutex_def Let_def split: if_splits)
  then show ?thesis using True by cases (auto intro: obj_step.intros r_into_rtranclp)
qed (auto simp: release_mutex_def)

lemma signal_steps: "signal_kobject tid op rel k = (ok, k') \<Longrightarrow> op \<noteq> ReleaseSemaphore \<Longrightarrow> obj_steps tid k k'"
  using set_signaled_steps release_mutex_steps
  by (auto simp: signal_kobject_def split: signal_op.splits option.splits kobject.splits)

lemma nt_release_steps:
  "nt_release_count c m n = Some b \<Longrightarrow> \<not> n <s 1 \<Longrightarrow> obj_steps tid (KSemaphore c m) (KSemaphore b m)"
  by (auto simp: nt_release_count_def checked_add_i32_def Let_def split: option.splits if_splits
      intro!: obj_step.intros r_into_rtranclp)

section \<open>Services\<close>

lemma leads_object_read:
  fixes g :: "'c \<Rightarrow> ('m, 'a) service" and f :: "win_os \<Rightarrow> 'c"
  assumes "\<And>w. obj_at tid h k w \<Longrightarrow> leads (obj_ok tid h k) (g (f w)) (obj_ok tid h k)"
  shows "leads (obj_at tid h k) (em_bind (os f) g) (obj_ok tid h k)"
proof (rule leads_bind_os, rule leadsI)
  fix a :: 'c and s :: "'m sysw" assume s: "obj_at tid h k (sw_os s) \<and> f (sw_os s) = a"
  then have "leads (obj_ok tid h k) (g a) (obj_ok tid h k)" using assms by blast
  then show "obj_ok tid h k (sw_os (snd (g a s)))" using s by (auto simp: obj_at_def dest: leadsD)
qed

lemma leads_object_silent:
  assumes "silent m" "\<And>a. leads (obj_at tid h k) (g a) (obj_ok tid h k)"
  shows "leads (obj_at tid h k) (em_bind m g) (obj_ok tid h k)"
  using assms by (intro leads_bind_silent) (simp_all add: obj_at_def)

lemma switch_keeps [leads_keeps]: "leads (obj_ok tid h k) (block_and_switch d) (obj_ok tid h k)"
  unfolding block_and_switch_def
  by (intro leads_keeps) (auto simp: switch_from_def activate_def upd_thread_def Let_def obj_ok_def split: option.splits)

lemma blocked_or_zero_keeps [leads_keeps]: "leads (obj_ok tid h k) (blocked_or_zero d) (obj_ok tid h k)"
  unfolding blocked_or_zero_def by (intro leads_keeps)

lemma obj_at_ok: "obj_at tid h k w \<Longrightarrow> obj_ok tid h k w" "obj_at tid h k w \<Longrightarrow> os_current_tid w = tid"
  by (simp_all add: obj_at_def)

lemma leads_at: "leads (obj_ok tid h k) m (obj_ok tid h k) \<Longrightarrow> leads (obj_at tid h k) m (obj_ok tid h k)"
  by (auto simp: leads_def obj_at_def)

lemma wait_single_objects: "leads (obj_at tid h k) (wait_single M) (obj_ok tid h k)"
  unfolding wait_single_def
  by (intro leads_object_silent leads_object_read silent_intros)
    (auto simp: obj_at_ok intro!: leads_keeps kobject_acquire_ok)

lemma wait_multiple_objects: "leads (obj_at tid h k) (wait_multiple M) (obj_ok tid h k)"
  unfolding wait_multiple_def Let_def
  apply (rule leads_object_silent [OF silent_arguments(1)])+
  apply (rule leads_object_read)
  apply (simp only: prod.case obj_at_ok(2))
  apply (intro leads_keeps)
  apply (simp_all add: acquire_every_ok acquire_first_ok)
  done

lemma nt_wait_objects: "leads (obj_at tid h k) (nt_wait hs all_of t) (obj_ok tid h k)"
  unfolding nt_wait_def
  apply (rule leads_object_read)
  apply (simp only: prod.case obj_at_ok(2))
  apply (intro leads_keeps)
  apply (simp_all add: nt_wait_acquire_keeps)
  done

lemma leads_object_branch:
  "leads (obj_at tid h k) m (obj_ok tid h k) \<Longrightarrow> leads (obj_at tid h k) n (obj_ok tid h k) \<Longrightarrow>
    leads (obj_at tid h k) (if b then m else n) (obj_ok tid h k)"
  by simp

lemma nt_single_objects: "leads (obj_at tid h k) (nt_wait_for_single_object M) (obj_ok tid h k)"
  unfolding nt_wait_for_single_object_def
  by (intro leads_object_silent silent_intros leads_if nt_wait_objects) (rule leads_silent, rule silent_intros, rule obj_at_ok)

lemma nt_multiple_objects: "leads (obj_at tid h k) (nt_wait_for_multiple_objects M) (obj_ok tid h k)"
  unfolding nt_wait_for_multiple_objects_def Let_def
  by (intro leads_object_silent silent_intros leads_if leads_option nt_wait_objects; rule leads_silent, rule silent_intros, rule obj_at_ok)

lemma leads_object_known:
  fixes g :: "kobject option \<Rightarrow> ('m, 'a) service"
  assumes "\<And>w. obj_at tid h k w \<Longrightarrow> leads (\<lambda>v. obj_ok tid h k v \<and> os_kobjects v h' = os_kobjects w h') (g (os_kobjects w h')) (obj_ok tid h k)"
  shows "leads (obj_at tid h k) (em_bind (os (\<lambda>w. os_kobjects w h')) g) (obj_ok tid h k)"
proof (rule leads_bind_os, rule leadsI)
  fix a and s :: "'m sysw" assume "obj_at tid h k (sw_os s) \<and> os_kobjects (sw_os s) h' = a"
  then show "obj_ok tid h k (sw_os (snd (g a s)))"
    using leadsD [OF assms, of "sw_os s" s] by (auto simp: obj_at_def)
qed

lemma leads_put:
  assumes "obj_steps tid o1 o2" "leads (obj_ok tid h k) (g ()) (obj_ok tid h k)"
  shows "leads (\<lambda>v. obj_ok tid h k v \<and> os_kobjects v h' = Some o1) (em_bind (os_upd (put_kobject h' o2)) g) (obj_ok tid h k)"
  using assms by (intro leads_bind_upd [where P' = "obj_ok tid h k"]) (auto intro: obj_ok_put)

lemma leads_known_status: "leads (\<lambda>v. obj_ok tid h k v \<and> q v) (status st) (obj_ok tid h k)"
  by (rule leads_silent) (simp_all add: silent_intros)

lemma nt_set_event_objects: "leads (obj_at tid h k) (nt_set_event M) (obj_ok tid h k)"
  unfolding nt_set_event_def
  apply (rule leads_object_silent [OF silent_arguments(2)])+
  apply (rule leads_object_known)
  apply (simp split: option.split split del: if_split add: leads_known_status)
  apply (intro allI impI leads_put)
  apply (simp add: set_signaled_steps)
  apply (intro leads_keeps)
  done

lemma nt_release_objects: "leads (obj_at tid h k) (nt_release_semaphore M) (obj_ok tid h k)"
  unfolding nt_release_semaphore_def Let_def
  apply (rule leads_object_silent [OF silent_arguments(2)])+
  apply (rule leads_object_known)
  apply (simp split: option.split kobject.split add: leads_known_status)
  apply (intro allI impI leads_put)
  apply (simp add: nt_release_steps)
  apply (intro leads_keeps)
  done

lemma leads_object_and_tid:
  fixes g :: "kobject option \<times> u32 \<Rightarrow> ('m, 'a) service"
  assumes "\<And>obj. leads (\<lambda>v. obj_ok tid h k v \<and> os_kobjects v h' = obj) (g (obj, tid)) (obj_ok tid h k)"
  shows "leads (obj_at tid h k) (em_bind (os (\<lambda>w. (os_kobjects w h', os_current_tid w))) g) (obj_ok tid h k)"
proof (rule leads_bind_os, rule leadsI)
  fix a and s :: "'m sysw"
  assume "obj_at tid h k (sw_os s) \<and> (os_kobjects (sw_os s) h', os_current_tid (sw_os s)) = a"
  then show "obj_ok tid h k (sw_os (snd (g a s)))"
    using leadsD [OF assms, of s "os_kobjects (sw_os s) h'"] by (auto simp: obj_at_def)
qed

lemma signal_objects:
  assumes "op \<noteq> ReleaseSemaphore"
  shows "leads (obj_at tid h k) (signal_sync M op) (obj_ok tid h k)"
  unfolding signal_sync_def
  apply (rule leads_object_silent [OF silent_arguments(1)])
  using assms apply (simp split del: if_split)
  apply (rule leads_object_and_tid)
  apply (simp split: option.split prod.split split del: if_split add: em_when_def)
  apply (intro conjI allI impI leads_put)
  apply (rule leads_silent, rule silent_intros, simp)
  apply (simp add: signal_steps)
  apply (intro leads_keeps)
  done

section \<open>New objects\<close>

lemma make_object_keeps:
  assumes "obj_ok tid h k w" "h \<noteq> os_next_handle w"
  shows "obj_ok tid h k (snd (make_object kind name manual signaled count mx w))"
  using assms by (auto simp: make_object_def insert_kobject_def alloc_khandle_def obj_ok_def split: option.splits)

definition obj_old :: "u32 \<Rightarrow> u64 \<Rightarrow> kobject \<Rightarrow> win_os \<Rightarrow> bool" where
  \<comment> \<open>\<open>h\<close> is not the handle of the next object\<close>
  "obj_old tid h k w \<longleftrightarrow> obj_ok tid h k w \<and> h \<noteq> os_next_handle w"

lemma leads_old_silent:
  assumes "silent m" "\<And>a. leads (obj_old tid h k) (g a) (obj_ok tid h k)"
  shows "leads (obj_old tid h k) (em_bind m g) (obj_ok tid h k)"
  using assms by (intro leads_bind_silent) (simp_all add: obj_old_def)

lemma leads_old_status: "leads (obj_old tid h k) (status st) (obj_ok tid h k)"
  by (rule leads_silent) (simp_all add: silent_intros obj_old_def)

lemma leads_old_create: "leads (obj_old tid h k) (created M out (make_object kind name manual signaled count mx)) (obj_ok tid h k)"
  unfolding created_def
  by (rule leads_bind_run [where P' = "obj_ok tid h k"]) (auto simp: obj_old_def make_object_keeps intro!: leads_keeps)

lemma leads_old_made: "leads (obj_old tid h k) (made (make_object kind name manual signaled count mx)) (obj_ok tid h k)"
  unfolding made_def
  by (rule leads_bind_run [where P' = "obj_ok tid h k"]) (auto simp: obj_old_def make_object_keeps intro!: leads_keeps)

lemma nt_create_objects:
  "leads (obj_old tid h k) (nt_create_event M) (obj_ok tid h k)"
  "leads (obj_old tid h k) (nt_create_mutant M) (obj_ok tid h k)"
  "leads (obj_old tid h k) (nt_create_semaphore M) (obj_ok tid h k)"
  unfolding nt_create_event_def nt_create_mutant_def nt_create_semaphore_def Let_def
  by (intro leads_old_silent silent_intros leads_if leads_old_status leads_old_create)+

lemma create_sync_objects: "leads (obj_old tid h k) (create_sync M kind ex wide) (obj_ok tid h k)"
proof -
  have "leads (obj_old tid h k) (create_event M ex wide) (obj_ok tid h k)"
    "leads (obj_old tid h k) (create_mutex M ex wide) (obj_ok tid h k)"
    "leads (obj_old tid h k) (create_semaphore M wide) (obj_ok tid h k)"
    "leads (obj_old tid h k) (create_timer M ex wide) (obj_ok tid h k)"
    unfolding create_event_def create_mutex_def create_semaphore_def create_timer_def
    by (intro leads_old_silent silent_intros leads_if leads_old_made)+
  then show ?thesis
    unfolding create_sync_def set_last_error_def
    by (intro leads_bind_upd [where P' = "obj_old tid h k"]) (auto simp: obj_old_def obj_ok_def split: sync_kind.split)
qed

section \<open>What the rules keep\<close>

definition obj_type :: "kobject \<Rightarrow> kobject" where
  \<comment> \<open>what never changes: the kind, the reset mode, the maximum\<close>
  "obj_type k =
     (case k of KEvent m s \<Rightarrow> KEvent m False | KTimer m s \<Rightarrow> KTimer m False | KMutex ow r \<Rightarrow> KMutex None 0
      | KSemaphore c m \<Rightarrow> KSemaphore 0 m | KThread e \<Rightarrow> KThread False | KProcess e \<Rightarrow> KProcess False)"

definition obj_wf :: "kobject \<Rightarrow> bool" where
  "obj_wf k = (case k of KSemaphore c m \<Rightarrow> 0 \<le>s c \<and> c \<le>s m \<and> 1 \<le>s m | _ \<Rightarrow> True)"

lemma obj_step_type: "obj_step tid k k' \<Longrightarrow> obj_type k' = obj_type k"
  by (induction rule: obj_step.induct) (simp_all add: obj_type_def)

lemma obj_steps_type: "obj_steps tid k k' \<Longrightarrow> obj_type k' = obj_type k"
  by (induction rule: rtranclp_induct) (simp_all add: obj_step_type)

lemma take_wf:
  fixes c m :: "32 word"
  assumes "0 <s c" "c \<le>s m"
  shows "0 \<le>s c - 1 \<and> c - 1 \<le>s m"
proof -
  have "0 < sint c" using assms(1) by (simp add: word_sless_alt)
  moreover have "sint (c - 1) = sint c - 1"
    using calculation sint_lt [of c] by (simp add: sint_word_ariths signed_take_bit_int_eq_self)
  ultimately show ?thesis using assms(2) by (simp add: word_sle_eq)
qed

lemma give_wf:
  fixes c m n :: "32 word"
  assumes "0 \<le>s c" "c \<le>s m" "1 \<le>s m" "1 \<le>s n" "sint c + sint n < 2 ^ 31" "m \<le>s 0 \<or> c + n \<le>s m"
  shows "0 \<le>s c + n \<and> c + n \<le>s m"
proof -
  have c: "0 \<le> sint c" "1 \<le> sint n" "sint c \<le> sint m" "1 \<le> sint m" using assms(1-4) by (simp_all add: word_sle_eq)
  then have sum: "sint (c + n) = sint c + sint n" using assms(5) by (simp add: sint_word_ariths signed_take_bit_int_eq_self)
  show ?thesis using c assms(6) sum by (auto simp: word_sle_eq)
qed

lemma obj_step_wf: "obj_step tid k k' \<Longrightarrow> obj_wf k \<Longrightarrow> obj_wf k'"
  by (induction rule: obj_step.induct) (auto simp: obj_wf_def dest: take_wf give_wf)

lemma obj_steps_wf: "obj_steps tid k k' \<Longrightarrow> obj_wf k \<Longrightarrow> obj_wf k'"
  by (induction rule: rtranclp_induct) (auto dest: obj_step_wf)

lemma other_owner_step: "obj_step tid k k' \<Longrightarrow> k = KMutex (Some ow) r \<Longrightarrow> ow \<noteq> tid \<Longrightarrow> False"
  by (auto elim: obj_step_mutex)

lemma other_owner_steps: "obj_steps tid (KMutex (Some ow) r) k' \<Longrightarrow> ow \<noteq> tid \<Longrightarrow> k' = KMutex (Some ow) r"
  by (induction rule: rtranclp_induct) (auto dest: other_owner_step)

section \<open>The table of objects\<close>

definition table_wf :: "win_os \<Rightarrow> bool" where
  "table_wf w \<longleftrightarrow> (\<forall>h k. os_kobjects w h = Some k \<longrightarrow> obj_wf k)"

lemma table_wf_put:
  "table_wf w \<Longrightarrow> os_kobjects w h = Some k \<Longrightarrow> obj_steps tid k k' \<Longrightarrow> table_wf (put_kobject h k' w)"
  by (auto simp: table_wf_def put_kobject_def intro: obj_steps_wf)

lemma table_wf_acquire: "table_wf w \<Longrightarrow> table_wf (snd (kobject_acquire h tid w))"
  using table_wf_put [of w h _ tid] acquire_steps [of tid]
  by (auto simp: kobject_acquire_def put_kobject_def split: option.splits prod.splits)

lemma table_wf_acquire_every: "table_wf w \<Longrightarrow> table_wf (acquire_every tid hs w)"
  unfolding acquire_every_def by (induction hs arbitrary: w) (simp_all add: table_wf_acquire)

lemma table_wf_acquire_first: "table_wf w \<Longrightarrow> table_wf (snd (acquire_first tid i hs w))"
proof (induction hs arbitrary: i w)
  case (Cons a hs)
  then show ?case using table_wf_acquire [OF Cons(2), of a tid] by (cases "kobject_acquire a tid w") auto
qed simp

lemma table_wf_nt_wait_acquire: "table_wf w \<Longrightarrow> table_wf (snd (nt_wait_acquire hs all_of tid w))"
  using table_wf_acquire_first [of w tid 0 hs]
  by (cases "acquire_first tid 0 hs w") (auto simp: nt_wait_acquire_def table_wf_acquire_every split: option.splits)

lemma table_wf_make:
  assumes "table_wf w" "kind = SyncSemaphore \<Longrightarrow> 0 \<le>s count \<and> count \<le>s mx \<and> 1 \<le>s mx"
  shows "table_wf (snd (make_object kind name manual signaled count mx w))"
  using assms
  by (auto simp: make_object_def insert_kobject_def alloc_khandle_def table_wf_def new_kobject_def obj_wf_def
      split: option.splits sync_kind.splits)

lemma table_wf_resume [simp]: "table_wf (w\<lparr>os_syscall_resume_as_is := b\<rparr>) = table_wf w"
  by (simp add: table_wf_def)

lemma table_wf_error [simp]: "table_wf (w\<lparr>os_last_error := b\<rparr>) = table_wf w"
  by (simp add: table_wf_def)

lemma switch_table [leads_keeps]: "leads table_wf (block_and_switch d) table_wf"
  unfolding block_and_switch_def
  by (intro leads_keeps) (auto simp: switch_from_def activate_def upd_thread_def Let_def table_wf_def split: option.splits)

lemma nt_wait_table [leads_keeps]: "leads table_wf (nt_wait hs all_of t) table_wf"
  unfolding nt_wait_def by (intro leads_keeps) (simp_all add: table_wf_nt_wait_acquire)

lemma created_table:
  "(kind = SyncSemaphore \<Longrightarrow> 0 \<le>s count \<and> count \<le>s mx \<and> 1 \<le>s mx) \<Longrightarrow>
    leads table_wf (created M out (make_object kind name manual signaled count mx)) table_wf"
  unfolding created_def by (intro leads_keeps) (simp_all add: table_wf_make)

lemma made_table:
  "kind \<noteq> SyncSemaphore \<Longrightarrow> leads table_wf (made (make_object kind name manual signaled count mx)) table_wf"
  unfolding made_def by (intro leads_keeps) (rule table_wf_make; simp)

lemma leads_known:
  fixes g :: "kobject option \<Rightarrow> ('m, 'a) service"
  assumes "\<And>obj. leads (\<lambda>v. P v \<and> os_kobjects v h = obj) (g obj) P"
  shows "leads P (em_bind (os (\<lambda>w. os_kobjects w h)) g) P"
  by (rule leads_bind_os) (rule assms)

lemma leads_table_put:
  assumes "obj_steps tid o1 o2" "leads table_wf (g ()) table_wf"
  shows "leads (\<lambda>v. table_wf v \<and> os_kobjects v h = Some o1) (em_bind (os_upd (put_kobject h o2)) g) table_wf"
  using assms by (intro leads_bind_upd [where P' = table_wf]) (auto intro: table_wf_put)

lemma leads_table_status: "leads (\<lambda>v. table_wf v \<and> q v) (status st) table_wf"
  by (rule leads_silent) (simp_all add: silent_intros)

lemma table_services:
  "leads table_wf (nt_wait_for_single_object M) table_wf" "leads table_wf (nt_wait_for_multiple_objects M) table_wf"
  "leads table_wf (nt_create_event M) table_wf" "leads table_wf (nt_create_mutant M) table_wf"
  "leads table_wf (nt_create_semaphore M) table_wf" "leads table_wf (wait_single M) table_wf"
  "leads table_wf (wait_multiple M) table_wf"
proof -
  show "leads table_wf (nt_wait_for_single_object M) table_wf" "leads table_wf (nt_wait_for_multiple_objects M) table_wf"
    unfolding nt_wait_for_single_object_def nt_wait_for_multiple_objects_def Let_def by (intro leads_keeps)+
  show "leads table_wf (nt_create_event M) table_wf" "leads table_wf (nt_create_mutant M) table_wf"
    "leads table_wf (nt_create_semaphore M) table_wf"
    unfolding nt_create_event_def nt_create_mutant_def nt_create_semaphore_def Let_def
    by (intro leads_keeps created_table; simp add: word_sle_eq word_sless_alt)+
  show "leads table_wf (wait_single M) table_wf" "leads table_wf (wait_multiple M) table_wf"
    unfolding wait_single_def wait_multiple_def Let_def blocked_or_zero_def
    by (intro leads_keeps; simp add: table_wf_acquire table_wf_acquire_every table_wf_acquire_first)+
qed

lemma leads_known_and_tid:
  fixes g :: "kobject option \<times> u32 \<Rightarrow> ('m, 'a) service"
  assumes "\<And>obj tid. leads (\<lambda>v. P v \<and> os_kobjects v h = obj) (g (obj, tid)) P"
  shows "leads P (em_bind (os (\<lambda>w. (os_kobjects w h, os_current_tid w))) g) P"
  by (rule leads_bind_os, rule leadsI) (use leadsD [OF assms] in auto)

lemmas leads_after_argument =
  leads_bind_same [OF silent_arguments(1) [THEN leads_same]] leads_bind_same [OF silent_arguments(2) [THEN leads_same]]

lemma table_signals:
  "leads table_wf (nt_set_event M) table_wf" "leads table_wf (nt_release_semaphore M) table_wf"
  "op \<noteq> ReleaseSemaphore \<Longrightarrow> leads table_wf (signal_sync M op) table_wf"
proof -
  show "leads table_wf (nt_set_event M) table_wf"
    unfolding nt_set_event_def
    apply (rule leads_after_argument)+
    apply (rule leads_known)
    apply (simp split: option.split split del: if_split add: leads_table_status)
    apply (intro allI impI leads_table_put)
    apply (simp add: set_signaled_steps)
    apply (intro leads_keeps)
    done
  show "leads table_wf (nt_release_semaphore M) table_wf"
    unfolding nt_release_semaphore_def Let_def
    apply (rule leads_after_argument)+
    apply (rule leads_known)
    apply (simp split: option.split kobject.split add: leads_table_status)
    apply (intro allI impI leads_table_put)
    apply (simp add: nt_release_steps)
    apply (intro leads_keeps)
    done
  assume op: "op \<noteq> ReleaseSemaphore"
  then show "leads table_wf (signal_sync M op) table_wf"
    unfolding signal_sync_def
    apply (intro leads_after_argument)
    apply (simp split del: if_split)
    apply (rule leads_known_and_tid)
    apply (simp split: option.split prod.split split del: if_split add: em_when_def)
    apply (intro conjI allI impI)
    apply (rule leads_silent, rule silent_intros, simp)
    apply (rule leads_table_put [OF signal_steps], assumption+, intro leads_keeps)
    done
qed

lemma create_sync_table:
  assumes "kind \<noteq> SyncSemaphore"
  shows "leads table_wf (create_sync M kind ex wide) table_wf"
proof -
  have "leads table_wf (create_event M ex wide) table_wf" "leads table_wf (create_mutex M ex wide) table_wf"
    "leads table_wf (create_timer M ex wide) table_wf"
    unfolding create_event_def create_mutex_def create_timer_def
    by (intro leads_bind_same silent_keeps leads_if made_table; simp)+
  then show ?thesis
    unfolding create_sync_def set_last_error_def using assms
    by (intro leads_bind_upd [where P' = table_wf]) (auto split: sync_kind.split)
qed

text \<open>
  The properties of the table of synchronisation objects, with a process that owns a semaphore and
  a mutex of another thread as their witness.
\<close>

definition two_objects :: "vmem sysw" where
  "two_objects = \<lparr>
     sw_os = (win_os_new os_config_default (clock_new True))
       \<lparr>os_kobjects := [0x1000 \<mapsto> KSemaphore 1 2, 0x1004 \<mapsto> KMutex (Some 0x1002) 3], os_next_handle := 0x1008\<rparr>,
     sw_cpu = cpu_state_new, sw_mem = vm_new\<rparr>"

lemma two_objects_sel [simp]:
  "os_kobjects (sw_os two_objects) 0x1000 = Some (KSemaphore 1 2)"
  "os_kobjects (sw_os two_objects) 0x1004 = Some (KMutex (Some 0x1002) 3)"
  "os_next_handle (sw_os two_objects) = 0x1008" "os_current_tid (sw_os two_objects) = 0x1001"
  by (simp_all add: two_objects_def win_os_new_def)

lemma two_objects_wf: "table_wf (sw_os two_objects)"
  by (simp add: two_objects_def table_wf_def win_os_new_def obj_wf_def word_sle_eq)

lemma obj_ok_type: "obj_ok tid h k w \<Longrightarrow> \<exists>k'. os_kobjects w h = Some k' \<and> obj_type k' = obj_type k"
  by (auto simp: obj_ok_def dest: obj_steps_type)

lemma obj_ok_foreign: "obj_ok tid h (KMutex (Some ow) r) w \<Longrightarrow> ow \<noteq> tid \<Longrightarrow> os_kobjects w h = Some (KMutex (Some ow) r)"
  by (auto simp: obj_ok_def dest: other_owner_steps)

lemma table_wf_semaphore: "table_wf w \<Longrightarrow> os_kobjects w h = Some (KSemaphore c m) \<Longrightarrow> 0 \<le>s c \<and> c \<le>s m"
  by (force simp: table_wf_def obj_wf_def)

definition api_services :: "'m memory_ops \<Rightarrow> bool \<Rightarrow> bool \<Rightarrow> ('m, api_outcome) service list" where
  "api_services M ex wide =
     [wait_single M, wait_multiple M, signal_sync M SetEvent, signal_sync M ResetEvent, signal_sync M PulseEvent,
      signal_sync M ReleaseMutex, create_sync M SyncEvent ex wide, create_sync M SyncMutex ex wide,
      create_sync M SyncTimer ex wide]"

definition nt_services :: "'m memory_ops \<Rightarrow> ('m, u32) service list" where
  "nt_services M =
     [nt_wait_for_single_object M, nt_wait_for_multiple_objects M, nt_set_event M, nt_release_semaphore M,
      nt_create_event M, nt_create_mutant M, nt_create_semaphore M]"

lemma services_follow_rules:
  assumes "os_kobjects (sw_os s) h = Some k" "h \<noteq> os_next_handle (sw_os s)"
  shows "f \<in> set (api_services M ex wide) \<Longrightarrow> obj_ok (os_current_tid (sw_os s)) h k (sw_os (snd (f s)))"
    "g \<in> set (nt_services M) \<Longrightarrow> obj_ok (os_current_tid (sw_os s)) h k (sw_os (snd (g s)))"
proof -
  let ?tid = "os_current_tid (sw_os s)"
  have ok: "obj_at ?tid h k (sw_os s)" "obj_old ?tid h k (sw_os s)"
    using assms by (auto simp: obj_at_def obj_old_def obj_ok_def)
  show "f \<in> set (api_services M ex wide) \<Longrightarrow> obj_ok ?tid h k (sw_os (snd (f s)))"
    using leadsD [OF wait_single_objects ok(1)] leadsD [OF wait_multiple_objects ok(1)]
      leadsD [OF signal_objects ok(1)] leadsD [OF create_sync_objects ok(2)]
    by (auto simp: api_services_def)
  show "g \<in> set (nt_services M) \<Longrightarrow> obj_ok ?tid h k (sw_os (snd (g s)))"
    using leadsD [OF nt_single_objects ok(1)] leadsD [OF nt_multiple_objects ok(1)]
      leadsD [OF nt_set_event_objects ok(1)] leadsD [OF nt_release_objects ok(1)]
      leadsD [OF nt_create_objects(1) ok(2)] leadsD [OF nt_create_objects(2) ok(2)] leadsD [OF nt_create_objects(3) ok(2)]
    by (auto simp: nt_services_def)
qed

lemma services_keep_table:
  assumes "table_wf (sw_os s)"
  shows "f \<in> set (api_services M ex wide) \<Longrightarrow> table_wf (sw_os (snd (f s)))"
    "g \<in> set (nt_services M) \<Longrightarrow> table_wf (sw_os (snd (g s)))"
proof -
  show "f \<in> set (api_services M ex wide) \<Longrightarrow> table_wf (sw_os (snd (f s)))"
    using leadsD [OF table_services(6) assms] leadsD [OF table_services(7) assms]
      leadsD [OF table_signals(3) assms] leadsD [OF create_sync_table assms]
    by (auto simp: api_services_def)
  show "g \<in> set (nt_services M) \<Longrightarrow> table_wf (sw_os (snd (g s)))"
    using leadsD [OF table_services(1) assms] leadsD [OF table_services(2) assms] leadsD [OF table_services(3) assms]
      leadsD [OF table_services(4) assms] leadsD [OF table_services(5) assms]
      leadsD [OF table_signals(1) assms] leadsD [OF table_signals(2) assms]
    by (auto simp: nt_services_def)
qed





end
