(* ===== verification/Float_Bits.thy ===== *)
theory Float_Bits
  imports Prelude
begin

text \<open>
  The floating-point numbers of Rust, \<open>f32\<close> and \<open>f64\<close>, as their IEEE 754 bit patterns. An
  operation decodes its operands, computes the exact result, and rounds it once, to the nearest
  number and to even between two. Rust leaves open which pattern a result that is not a number
  has, and how precise the transcendental functions are: both are a parameter, \<open>host_fp\<close>.
\<close>

type_synonym f64 = u64
type_synonym f32 = u32

section \<open>Formats\<close>

datatype fp = FpNan | FpInf bool | FpNum bool nat int
  \<comment> \<open>\<open>FpNum s m e\<close> is \<open>(-1)^s * m * 2^e\<close>\<close>

definition fp_bias :: "nat \<Rightarrow> int" where
  "fp_bias w = 2 ^ (w - 1) - 1"

definition fp_low :: "nat \<Rightarrow> nat \<Rightarrow> int" where
  \<comment> \<open>the exponent of the last bit of a subnormal number\<close>
  "fp_low p w = 1 - fp_bias w - int p"

definition fp_decode :: "nat \<Rightarrow> nat \<Rightarrow> nat \<Rightarrow> fp" where
  \<comment> \<open>a pattern with \<open>p\<close> bits of fraction and \<open>w\<close> bits of exponent\<close>
  "fp_decode p w v =
     (let s = odd (v div 2 ^ (p + w)); ex = v div 2 ^ p mod 2 ^ w; fr = v mod 2 ^ p in
      if ex = 2 ^ w - 1 then if fr = 0 then FpInf s else FpNan
      else if ex = 0 then FpNum s fr (fp_low p w)
      else FpNum s (2 ^ p + fr) (fp_low p w + int ex - 1))"

fun nat_bits :: "nat \<Rightarrow> nat" where
  "nat_bits n = (if n = 0 then 0 else Suc (nat_bits (n div 2)))"

declare nat_bits.simps [simp del]

definition round_even :: "nat \<Rightarrow> nat \<Rightarrow> nat" where
  \<comment> \<open>\<open>m / 2^k\<close>, to the nearest integer and to even between two\<close>
  "round_even m k =
     (let q = m div 2 ^ k; r = m mod 2 ^ k in
      if 2 ^ k < 2 * r \<or> 2 ^ k = 2 * r \<and> odd q then Suc q else q)"

definition fp_last :: "nat \<Rightarrow> nat \<Rightarrow> nat \<Rightarrow> int \<Rightarrow> int" where
  \<comment> \<open>the exponent of the last bit that the format keeps of \<open>m * 2^e\<close>\<close>
  "fp_last p w m e = max (e + int (nat_bits m) - int (Suc p)) (fp_low p w)"

definition fp_magnitude :: "nat \<Rightarrow> nat \<Rightarrow> nat \<Rightarrow> int \<Rightarrow> nat" where
  "fp_magnitude p w m e =
     (if m = 0 then 0
      else let l = fp_last p w m e;
               q = (if l \<le> e then m * 2 ^ nat (e - l) else round_even m (nat (l - e)))
           in min (nat (l - fp_low p w) * 2 ^ p + q) ((2 ^ w - 1) * 2 ^ p))"

definition fp_encode :: "nat \<Rightarrow> nat \<Rightarrow> nat \<Rightarrow> fp \<Rightarrow> nat" where
  \<comment> \<open>the pattern of a number, rounded, or \<open>nan\<close>\<close>
  "fp_encode p w nan x =
     (case x of
        FpNan \<Rightarrow> nan
      | FpInf s \<Rightarrow> of_bool s * 2 ^ (p + w) + (2 ^ w - 1) * 2 ^ p
      | FpNum s m e \<Rightarrow> of_bool s * 2 ^ (p + w) + fp_magnitude p w m e)"

definition f64_val :: "f64 \<Rightarrow> fp" where "f64_val v = fp_decode 52 11 (unat v)"
definition f32_val :: "f32 \<Rightarrow> fp" where "f32_val v = fp_decode 23 8 (unat v)"
definition f64_pack :: "f64 \<Rightarrow> fp \<Rightarrow> f64" where "f64_pack nan x = of_nat (fp_encode 52 11 (unat nan) x)"
definition f32_pack :: "f32 \<Rightarrow> fp \<Rightarrow> f32" where "f32_pack nan x = of_nat (fp_encode 23 8 (unat nan) x)"

section \<open>Arithmetic\<close>

fun fp_neg :: "fp \<Rightarrow> fp" where
  "fp_neg FpNan = FpNan"
| "fp_neg (FpInf s) = FpInf (\<not> s)"
| "fp_neg (FpNum s m e) = FpNum (\<not> s) m e"

definition signed_nat :: "bool \<Rightarrow> nat \<Rightarrow> int" where
  "signed_nat s m = (if s then - int m else int m)"

definition fp_of_int :: "bool \<Rightarrow> int \<Rightarrow> int \<Rightarrow> fp" where
  \<comment> \<open>\<open>v * 2^e\<close>, a zero with the sign \<open>s\<close>\<close>
  "fp_of_int s v e = FpNum (if v = 0 then s else v < 0) (nat \<bar>v\<bar>) e"

fun fp_add :: "fp \<Rightarrow> fp \<Rightarrow> fp" where
  "fp_add FpNan y = FpNan"
| "fp_add x FpNan = FpNan"
| "fp_add (FpInf s) (FpInf t) = (if s = t then FpInf s else FpNan)"
| "fp_add (FpInf s) y = FpInf s"
| "fp_add x (FpInf t) = FpInf t"
| "fp_add (FpNum s m e) (FpNum t n f) =
     (let g = min e f in
      fp_of_int (s \<and> t) (signed_nat s m * 2 ^ nat (e - g) + signed_nat t n * 2 ^ nat (f - g)) g)"

fun fp_mul :: "fp \<Rightarrow> fp \<Rightarrow> fp" where
  "fp_mul FpNan y = FpNan"
| "fp_mul x FpNan = FpNan"
| "fp_mul (FpInf s) (FpInf t) = FpInf (s \<noteq> t)"
| "fp_mul (FpInf s) (FpNum t n f) = (if n = 0 then FpNan else FpInf (s \<noteq> t))"
| "fp_mul (FpNum s m e) (FpInf t) = (if m = 0 then FpNan else FpInf (s \<noteq> t))"
| "fp_mul (FpNum s m e) (FpNum t n f) = FpNum (s \<noteq> t) (m * n) (e + f)"

definition sticky :: "nat \<Rightarrow> bool \<Rightarrow> nat" where
  \<comment> \<open>a quotient or a root with one more bit, which records whether there is a rest\<close>
  "sticky q rest = 2 * q + of_bool rest"

fun fp_div :: "nat \<Rightarrow> fp \<Rightarrow> fp \<Rightarrow> fp" where
  \<comment> \<open>with \<open>k\<close> bits more than the divisor has, so that the sticky bit is below the rounding\<close>
  "fp_div k FpNan y = FpNan"
| "fp_div k x FpNan = FpNan"
| "fp_div k (FpInf s) (FpInf t) = FpNan"
| "fp_div k (FpInf s) (FpNum t n f) = FpInf (s \<noteq> t)"
| "fp_div k (FpNum s m e) (FpInf t) = FpNum (s \<noteq> t) 0 0"
| "fp_div k (FpNum s m e) (FpNum t n f) =
     (if n = 0 then if m = 0 then FpNan else FpInf (s \<noteq> t)
      else let h = k + nat_bits n; q = m * 2 ^ h div n in
           FpNum (s \<noteq> t) (sticky q (m * 2 ^ h mod n \<noteq> 0)) (e - f - int h - 1))"

fun root_from :: "nat \<Rightarrow> nat \<Rightarrow> nat \<Rightarrow> nat" where
  \<comment> \<open>the integer square root, bit by bit from the bit \<open>k\<close> down\<close>
  "root_from m 0 r = r"
| "root_from m (Suc k) r = root_from m k (if (r + 2 ^ k) * (r + 2 ^ k) \<le> m then r + 2 ^ k else r)"

definition nat_root :: "nat \<Rightarrow> nat" where
  "nat_root m = root_from m (nat_bits m) 0"

fun fp_sqrt :: "nat \<Rightarrow> fp \<Rightarrow> fp" where
  "fp_sqrt k FpNan = FpNan"
| "fp_sqrt k (FpInf s) = (if s then FpNan else FpInf s)"
| "fp_sqrt k (FpNum s m e) =
     (if m = 0 then FpNum s m e
      else if s then FpNan
      else let h = 2 * k + nat (e mod 2); a = m * 2 ^ h; r = nat_root a in
           FpNum False (sticky r (r * r \<noteq> a)) ((e - int h) div 2 - 1))"

section \<open>Rounding to an integer\<close>

datatype int_round = ToTrunc | ToFloor | ToCeil | ToAway | ToEven

definition round_magnitude :: "int_round \<Rightarrow> bool \<Rightarrow> nat \<Rightarrow> nat \<Rightarrow> nat" where
  "round_magnitude rd s m k =
     (let q = m div 2 ^ k; r = m mod 2 ^ k in
      case rd of
        ToTrunc \<Rightarrow> q
      | ToFloor \<Rightarrow> if s \<and> r \<noteq> 0 then Suc q else q
      | ToCeil \<Rightarrow> if \<not> s \<and> r \<noteq> 0 then Suc q else q
      | ToAway \<Rightarrow> if 2 ^ k \<le> 2 * r then Suc q else q
      | ToEven \<Rightarrow> round_even m k)"

fun fp_integral :: "int_round \<Rightarrow> fp \<Rightarrow> fp" where
  "fp_integral rd (FpNum s m e) =
     (if 0 \<le> e then FpNum s m e else FpNum s (round_magnitude rd s m (nat (- e))) 0)"
| "fp_integral rd x = x"

fun fp_trunc_int :: "fp \<Rightarrow> int" where
  \<comment> \<open>the integer part of a number\<close>
  "fp_trunc_int (FpNum s m e) = signed_nat s (if 0 \<le> e then m * 2 ^ nat e else m div 2 ^ nat (- e))"
| "fp_trunc_int x = 0"

definition fp_as_int :: "nat \<Rightarrow> fp \<Rightarrow> int" where
  \<comment> \<open>\<open>x as iN\<close>: saturating, and 0 for what is not a number\<close>
  "fp_as_int n x =
     (let lo = - (2 ^ (n - 1)); hi = 2 ^ (n - 1) - 1 in
      case x of
        FpNan \<Rightarrow> 0
      | FpInf s \<Rightarrow> if s then lo else hi
      | FpNum s m e \<Rightarrow> max lo (min hi (fp_trunc_int x)))"

section \<open>The operations on \<open>f64\<close> and \<open>f32\<close>\<close>

record host_fp =
  hf_nan :: f64                                \<comment> \<open>\<open>f64::NAN\<close>\<close>
  hf_nan1 :: "f64 \<Rightarrow> f64"                      \<comment> \<open>the NaN that an operation on this operand gives\<close>
  hf_nan2 :: "f64 \<Rightarrow> f64 \<Rightarrow> f64"
  hf_nan1_32 :: "f32 \<Rightarrow> f32"
  hf_nan2_32 :: "f32 \<Rightarrow> f32 \<Rightarrow> f32"
  hf_narrow :: "f64 \<Rightarrow> f32"
  hf_widen :: "f32 \<Rightarrow> f64"
  hf_log2 :: "f64 \<Rightarrow> f64"
  hf_exp2 :: "f64 \<Rightarrow> f64"
  hf_sin :: "f64 \<Rightarrow> f64"
  hf_cos :: "f64 \<Rightarrow> f64"
  hf_tan :: "f64 \<Rightarrow> f64"
  hf_atan2 :: "f64 \<Rightarrow> f64 \<Rightarrow> f64"

definition f64_add :: "host_fp \<Rightarrow> f64 \<Rightarrow> f64 \<Rightarrow> f64" where
  "f64_add F a b = f64_pack (hf_nan2 F a b) (fp_add (f64_val a) (f64_val b))"

definition f64_sub :: "host_fp \<Rightarrow> f64 \<Rightarrow> f64 \<Rightarrow> f64" where
  "f64_sub F a b = f64_pack (hf_nan2 F a b) (fp_add (f64_val a) (fp_neg (f64_val b)))"

definition f64_mul :: "host_fp \<Rightarrow> f64 \<Rightarrow> f64 \<Rightarrow> f64" where
  "f64_mul F a b = f64_pack (hf_nan2 F a b) (fp_mul (f64_val a) (f64_val b))"

definition f64_div :: "host_fp \<Rightarrow> f64 \<Rightarrow> f64 \<Rightarrow> f64" where
  "f64_div F a b = f64_pack (hf_nan2 F a b) (fp_div 55 (f64_val a) (f64_val b))"

definition f64_sqrt :: "host_fp \<Rightarrow> f64 \<Rightarrow> f64" where
  "f64_sqrt F a = f64_pack (hf_nan1 F a) (fp_sqrt 55 (f64_val a))"

definition f64_round :: "host_fp \<Rightarrow> int_round \<Rightarrow> f64 \<Rightarrow> f64" where
  \<comment> \<open>\<open>trunc\<close>, \<open>floor\<close>, \<open>ceil\<close>, \<open>round\<close> and \<open>round_ties_even\<close>\<close>
  "f64_round F rd a = f64_pack (hf_nan1 F a) (fp_integral rd (f64_val a))"

definition f32_add :: "host_fp \<Rightarrow> f32 \<Rightarrow> f32 \<Rightarrow> f32" where
  "f32_add F a b = f32_pack (hf_nan2_32 F a b) (fp_add (f32_val a) (f32_val b))"

definition f32_mul :: "host_fp \<Rightarrow> f32 \<Rightarrow> f32 \<Rightarrow> f32" where
  "f32_mul F a b = f32_pack (hf_nan2_32 F a b) (fp_mul (f32_val a) (f32_val b))"

definition f32_round :: "host_fp \<Rightarrow> int_round \<Rightarrow> f32 \<Rightarrow> f32" where
  "f32_round F rd a = f32_pack (hf_nan1_32 F a) (fp_integral rd (f32_val a))"

definition f64_as_f32 :: "host_fp \<Rightarrow> f64 \<Rightarrow> f32" where
  "f64_as_f32 F a = f32_pack (hf_narrow F a) (f64_val a)"

definition f32_as_f64 :: "host_fp \<Rightarrow> f32 \<Rightarrow> f64" where
  "f32_as_f64 F a = f64_pack (hf_widen F a) (f32_val a)"

definition int_as_f64 :: "int \<Rightarrow> f64" where
  "int_as_f64 v = f64_pack 0 (fp_of_int False v 0)"

definition int_as_f32 :: "int \<Rightarrow> f32" where
  "int_as_f32 v = f32_pack 0 (fp_of_int False v 0)"

definition f64_as_int :: "nat \<Rightarrow> f64 \<Rightarrow> int" where
  "f64_as_int n a = fp_as_int n (f64_val a)"

section \<open>Comparisons and signs\<close>

definition f64_is_nan :: "f64 \<Rightarrow> bool" where
  "f64_is_nan a \<longleftrightarrow> f64_val a = FpNan"

definition f64_is_infinite :: "f64 \<Rightarrow> bool" where
  "f64_is_infinite a \<longleftrightarrow> (case f64_val a of FpInf s \<Rightarrow> True | _ \<Rightarrow> False)"

definition f64_is_finite :: "f64 \<Rightarrow> bool" where
  "f64_is_finite a \<longleftrightarrow> \<not> f64_is_nan a \<and> \<not> f64_is_infinite a"

definition f64_negative :: "f64 \<Rightarrow> bool" where
  \<comment> \<open>\<open>is_sign_negative\<close>\<close>
  "f64_negative a \<longleftrightarrow> bit a 63"

definition f32_negative :: "f32 \<Rightarrow> bool" where
  "f32_negative a \<longleftrightarrow> bit a 31"

definition f64_neg :: "f64 \<Rightarrow> f64" where "f64_neg a = a XOR push_bit 63 1"
definition f64_abs :: "f64 \<Rightarrow> f64" where "f64_abs a = a AND NOT (push_bit 63 1)"

definition f64_rank :: "f64 \<Rightarrow> int" where
  \<comment> \<open>an integer in the order of the numbers; both zeros have the rank 0\<close>
  "f64_rank a = signed_nat (bit a 63) (unat (f64_abs a))"

definition f64_eq :: "f64 \<Rightarrow> f64 \<Rightarrow> bool" where
  "f64_eq a b \<longleftrightarrow> \<not> f64_is_nan a \<and> \<not> f64_is_nan b \<and> f64_rank a = f64_rank b"

definition f64_lt :: "f64 \<Rightarrow> f64 \<Rightarrow> bool" where
  "f64_lt a b \<longleftrightarrow> \<not> f64_is_nan a \<and> \<not> f64_is_nan b \<and> f64_rank a < f64_rank b"

definition f64_le :: "f64 \<Rightarrow> f64 \<Rightarrow> bool" where
  "f64_le a b \<longleftrightarrow> f64_lt a b \<or> f64_eq a b"

definition f64_zero :: f64 where "f64_zero = 0"
definition f64_neg_zero :: f64 where "f64_neg_zero = 0x8000000000000000"
definition f64_one :: f64 where "f64_one = 0x3FF0000000000000"
definition f64_half :: f64 where "f64_half = 0x3FE0000000000000"
definition f64_inf :: f64 where "f64_inf = 0x7FF0000000000000"
definition f64_neg_inf :: f64 where "f64_neg_inf = 0xFFF0000000000000"

lemma f64_lt_irrefl [simp]: "\<not> f64_lt a a"
  by (simp add: f64_lt_def)

lemma f64_lt_not_sym: "f64_lt a b \<Longrightarrow> \<not> f64_lt b a"
  by (simp add: f64_lt_def)

lemma f64_trichotomy:
  "\<not> f64_is_nan a \<Longrightarrow> \<not> f64_is_nan b \<Longrightarrow> f64_lt a b \<or> f64_eq a b \<or> f64_lt b a"
  by (auto simp: f64_lt_def f64_eq_def)

end
