(* ===== verification/Simd_Lanes.thy ===== *)
theory Simd_Lanes
  imports Simd_Int Float_Bits
begin

text \<open>
  \<open>cpu/src/sse.rs\<close>, the lane operations that only the SSE and VEX units use: the integer
  operations of SSSE3 and SSE4, and the operations on floating-point lanes. A lane of 32 bits is
  computed as \<open>f64\<close> and rounded, as the source does.
\<close>

section \<open>Integer lanes\<close>

definition lane64 :: "u128 \<Rightarrow> nat \<Rightarrow> nat \<Rightarrow> u64" where
  \<comment> \<open>\<open>((v >> at) & emask(esz)) as u64\<close>\<close>
  "lane64 v at esz = ucast (drop_bit at v AND emask esz)"

definition signed_lane :: "u128 \<Rightarrow> nat \<Rightarrow> nat \<Rightarrow> u64" where
  \<comment> \<open>the lane, sign-extended to \<open>i64\<close>\<close>
  "signed_lane v at esz = sign_shift (64 - esz * 8) (lane64 v at esz)"

definition hcombine :: "nat \<Rightarrow> bool \<Rightarrow> bool \<Rightarrow> u64 \<Rightarrow> u64 \<Rightarrow> u64" where
  \<comment> \<open>the closure \<open>combine\<close> of \<open>phaddsub\<close>\<close>
  "hcombine esz sub sat x y =
     (let r = (if sub then x - y else x + y); r = (if sat then clamp64 (- 32768) 32767 r else r)
      in r AND ucast (emask esz))"

definition hfirst :: "nat \<Rightarrow> bool \<Rightarrow> bool \<Rightarrow> nat \<Rightarrow> u64 list \<Rightarrow> u64 list" where
  \<comment> \<open>\<open>d[k] = combine(d[2 * k], d[2 * k + 1])\<close>, in place\<close>
  "hfirst esz sub sat k d =
     (let ext = sign_shift (64 - esz * 8) in
      d[k := hcombine esz sub sat (ext (d ! (2 * k))) (ext (d ! (2 * k + 1)))])"

definition hsecond :: "nat \<Rightarrow> bool \<Rightarrow> bool \<Rightarrow> bool \<Rightarrow> u128 \<Rightarrow> nat \<Rightarrow> u64 list \<Rightarrow> u64 list" where
  "hsecond esz sub sat aliased b k d =
     (let ext = sign_shift (64 - esz * 8); half = 16 div esz div 2; bits = esz * 8;
          x = (if aliased then ext (d ! (2 * k)) else signed_lane b (2 * k * bits) esz);
          y = (if aliased then ext (d ! (2 * k + 1)) else signed_lane b ((2 * k + 1) * bits) esz)
      in d[half + k := hcombine esz sub sat x y])"

definition phaddsub :: "u128 \<Rightarrow> u128 \<Rightarrow> nat \<Rightarrow> bool \<Rightarrow> bool \<Rightarrow> bool \<Rightarrow> u128" where
  "phaddsub a b esz sub sat aliased =
     (let bits = esz * 8; lanes = 16 div esz; half = lanes div 2;
          d0 = map (\<lambda>i. if i < lanes then lane64 a (i * bits) esz else 0) [0..<8];
          d1 = fold (hfirst esz sub sat) [0..<half] d0;
          d2 = fold (hsecond esz sub sat aliased b) [0..<half] d1
      in or_lanes lanes (\<lambda>i. push_bit (i * bits) (ucast (d2 ! i) AND emask esz)))"

definition clamp_i32 :: "int \<Rightarrow> int \<Rightarrow> u32 \<Rightarrow> u32" where
  "clamp_i32 lo hi v = (if sint v < lo then of_int lo else if hi < sint v then of_int hi else v)"

definition byte_at :: "u128 \<Rightarrow> nat \<Rightarrow> u8" where
  "byte_at v at = ucast (drop_bit at v AND 0xFF)"

definition pmaddubsw :: "u128 \<Rightarrow> u128 \<Rightarrow> u128" where
  "pmaddubsw a b = or_lanes 8 (\<lambda>i.
     let base = i * 16; a0 = ucast (byte_at a base); a1 = ucast (byte_at a (base + 8));
         b0 = scast (byte_at b base); b1 = scast (byte_at b (base + 8));
         s = clamp_i32 (- 32768) 32767 (a0 * b0 + a1 * b1)
     in push_bit base (ucast s AND 0xFFFF))"

definition psign :: "u128 \<Rightarrow> u128 \<Rightarrow> nat \<Rightarrow> u128" where
  "psign a b esz =
     (let bits = esz * 8 in
      or_lanes (16 div esz) (\<lambda>i.
        let av = lane64 a (i * bits) esz; bv = sint (signed_lane b (i * bits) esz);
            r = (if bv < 0 then - av else if bv = 0 then 0 else av)
        in push_bit (i * bits) (ucast r AND emask esz)))"

definition pmulhrsw :: "u128 \<Rightarrow> u128 \<Rightarrow> u128" where
  "pmulhrsw a b = or_lanes 8 (\<lambda>i.
     let x = i16_lane a (i * 16); y = i16_lane b (i * 16);
         r = signed_drop_bit 1 (signed_drop_bit 14 (x * y) + 1)
     in push_bit (i * 16) (ucast r AND 0xFFFF))"

definition pabs :: "u128 \<Rightarrow> nat \<Rightarrow> u128" where
  "pabs v esz =
     (let bits = esz * 8 in
      or_lanes (16 div esz) (\<lambda>i.
        let x = signed_lane v (i * bits) esz; r = (if sint x < 0 then - x else x)
        in push_bit (i * bits) (ucast r AND emask esz)))"

definition blend_var :: "u128 \<Rightarrow> u128 \<Rightarrow> u128 \<Rightarrow> nat \<Rightarrow> u128" where
  "blend_var a b m esz =
     (let bits = esz * 8 in
      or_lanes (16 div esz) (\<lambda>i.
        let top = drop_bit (i * bits + bits - 1) m AND 1; src = (if top = 1 then b else a)
        in push_bit (i * bits) (drop_bit (i * bits) src AND emask esz)))"

definition blend_imm :: "u128 \<Rightarrow> u128 \<Rightarrow> u8 \<Rightarrow> nat \<Rightarrow> u128" where
  \<comment> \<open>the shift \<open>imm >> i\<close> of a byte takes its amount modulo 8\<close>
  "blend_imm dst src imm esz =
     (let bits = esz * 8 in
      or_lanes (16 div esz) (\<lambda>i.
        let v = (if drop_bit (i mod 8) imm AND 1 = 1 then src else dst)
        in push_bit (i * bits) (drop_bit (i * bits) v AND emask esz)))"

definition pmovx :: "u128 \<Rightarrow> nat \<Rightarrow> nat \<Rightarrow> bool \<Rightarrow> u128" where
  "pmovx src src_sz dst_sz sg =
     (let sbits = src_sz * 8; dbits = dst_sz * 8 in
      or_lanes (16 div dst_sz) (\<lambda>i.
        let raw = lane64 src (i * sbits) src_sz;
            ext = (if sg then sign_shift (64 - sbits) raw else raw)
        in push_bit (i * dbits) (ucast ext AND emask dst_sz)))"

definition i32_at :: "u128 \<Rightarrow> nat \<Rightarrow> u64" where
  \<comment> \<open>\<open>((v >> at) & 0xFFFF_FFFF) as u32 as i32 as i64\<close>\<close>
  "i32_at v at = scast (ucast (drop_bit at v AND 0xFFFFFFFF) :: u32)"

definition pmuldq :: "u128 \<Rightarrow> u128 \<Rightarrow> u128" where
  "pmuldq a b = ucast (i32_at a 0 * i32_at b 0) OR push_bit 64 (ucast (i32_at a 64 * i32_at b 64))"

definition packusdw :: "u128 \<Rightarrow> u128 \<Rightarrow> u128" where
  "packusdw a b =
     (let c = (\<lambda>src i. ucast (clamp_i32 0 0xFFFF (ucast (drop_bit (i * 32) src AND 0xFFFFFFFF))))
      in or_lanes 4 (\<lambda>i. push_bit (i * 16) (c a i)) OR or_lanes 4 (\<lambda>i. push_bit ((4 + i) * 16) (c b i)))"

definition int_minmax :: "u128 \<Rightarrow> u128 \<Rightarrow> nat \<Rightarrow> bool \<Rightarrow> bool \<Rightarrow> u128" where
  "int_minmax a b esz sg max_of =
     (let bits = esz * 8 in
      or_lanes (16 div esz) (\<lambda>i.
        let xr = lane64 a (i * bits) esz; yr = lane64 b (i * bits) esz;
            x = sint (signed_lane a (i * bits) esz); y = sint (signed_lane b (i * bits) esz);
            take_x = (if sg then if max_of then y < x else x < y else if max_of then yr < xr else xr < yr)
        in push_bit (i * bits) (ucast (if take_x then xr else yr) AND emask esz)))"

definition pmulld :: "u128 \<Rightarrow> u128 \<Rightarrow> u128" where
  "pmulld a b = or_lanes 4 (\<lambda>i.
     let x = (ucast (drop_bit (i * 32) a AND 0xFFFFFFFF) :: u32);
         y = (ucast (drop_bit (i * 32) b AND 0xFFFFFFFF) :: u32)
     in push_bit (i * 32) (ucast (x * y)))"

definition phminposuw :: "u128 \<Rightarrow> u128" where
  "phminposuw src =
     (case fold (\<lambda>i (m, idx).
        let w = (ucast (drop_bit (i * 16) src AND 0xFFFF) :: u32) in if w < m then (w, i) else (m, idx))
        [0..<8] (0xFFFF, 0) of
        (m, idx) \<Rightarrow> ucast m OR push_bit 16 (of_nat idx))"

definition palignr :: "u128 \<Rightarrow> u128 \<Rightarrow> u8 \<Rightarrow> u128" where
  "palignr a b imm =
     (let n = unat imm in
      if 32 \<le> n then 0
      else if n = 0 then b
      else if n < 16 then drop_bit (n * 8) b OR push_bit (128 - n * 8) a
      else drop_bit ((n - 16) * 8) a)"

definition mpsadbw_sum :: "u128 \<Rightarrow> u128 \<Rightarrow> nat \<Rightarrow> nat \<Rightarrow> u32" where
  "mpsadbw_sum a b at_a at_b =
     fold (\<lambda>j sum. sum + byte_distance (ucast (byte_at a ((at_a + j) * 8))) (ucast (byte_at b ((at_b + j) * 8))))
       [0..<4] 0"

definition mpsadbw :: "u128 \<Rightarrow> u128 \<Rightarrow> u8 \<Rightarrow> u128" where
  "mpsadbw a b imm =
     (let a_off = unat (drop_bit 2 imm AND 1) * 4; b_off = unat (imm AND 3) * 4 in
      or_lanes 8 (\<lambda>k. push_bit (k * 16) (ucast (mpsadbw_sum a b (a_off + k) b_off) AND 0xFFFF)))"

definition implicit_len :: "u128 \<Rightarrow> nat \<Rightarrow> nat \<Rightarrow> nat" where
  \<comment> \<open>the number of elements before the first zero\<close>
  "implicit_len v elem_bytes n =
     length (takeWhile (\<lambda>i. drop_bit (i * (elem_bytes * 8)) v AND emask elem_bytes \<noteq> 0) [0..<n])"

section \<open>Floating-point lanes\<close>

definition f64_lane :: "u128 \<Rightarrow> nat \<Rightarrow> f64" where
  "f64_lane v lane = ucast (drop_bit (lane * 64) v)"

definition f32_lane :: "u128 \<Rightarrow> nat \<Rightarrow> f32" where
  "f32_lane v lane = ucast (drop_bit (lane * 32) v)"

definition cvt_f_to_int :: "host_fp \<Rightarrow> f64 \<Rightarrow> bool \<Rightarrow> nat \<Rightarrow> u64" where
  "cvt_f_to_int F f chop sz =
     (let r = (if chop then f64_round F ToTrunc f else f64_round F ToEven f) in
      if sz = 8 then
        if f64_le 0xC3E0000000000000 r \<and> f64_lt r 0x43E0000000000000
        then of_int (f64_as_int 64 r) else 0x8000000000000000
      else if f64_le 0xC1E0000000000000 r \<and> f64_lt r 0x41E0000000000000
      then ucast (of_int (f64_as_int 32 r) :: u32) else 0x80000000)"

definition cvtdq2ps :: "u128 \<Rightarrow> u128" where
  "cvtdq2ps v = or_lanes 4 (\<lambda>i.
     let x = (ucast (drop_bit (i * 32) v AND 0xFFFFFFFF) :: u32)
     in push_bit (i * 32) (ucast (int_as_f32 (sint x))))"

definition cvtps2dq :: "host_fp \<Rightarrow> u128 \<Rightarrow> bool \<Rightarrow> u128" where
  "cvtps2dq F v chop = or_lanes 4 (\<lambda>i.
     let r = (ucast (cvt_f_to_int F (f32_as_f64 F (f32_lane v i)) chop 4) :: u32)
     in push_bit (i * 32) (ucast r))"

definition dpps_sum :: "host_fp \<Rightarrow> u128 \<Rightarrow> u128 \<Rightarrow> u8 \<Rightarrow> f32" where
  "dpps_sum F a b imm =
     fold (\<lambda>i sum. if drop_bit (4 + i) imm AND 1 = 1
       then f32_add F sum (f32_mul F (f32_lane a i) (f32_lane b i)) else sum) [0..<4] 0"

definition dpps :: "host_fp \<Rightarrow> u128 \<Rightarrow> u128 \<Rightarrow> u8 \<Rightarrow> u128" where
  "dpps F a b imm = or_lanes 4 (\<lambda>i.
     push_bit (i * 32) (ucast (if drop_bit i imm AND 1 = 1 then dpps_sum F a b imm else 0)))"

definition dppd_sum :: "host_fp \<Rightarrow> u128 \<Rightarrow> u128 \<Rightarrow> u8 \<Rightarrow> f64" where
  "dppd_sum F a b imm =
     fold (\<lambda>i sum. if drop_bit (4 + i) imm AND 1 = 1
       then f64_add F sum (f64_mul F (f64_lane a i) (f64_lane b i)) else sum) [0..<2] 0"

definition dppd :: "host_fp \<Rightarrow> u128 \<Rightarrow> u128 \<Rightarrow> u8 \<Rightarrow> u128" where
  "dppd F a b imm = or_lanes 2 (\<lambda>i.
     push_bit (i * 64) (ucast (if drop_bit i imm AND 1 = 1 then dppd_sum F a b imm else 0)))"

definition sse_round_f32 :: "host_fp \<Rightarrow> f32 \<Rightarrow> u8 \<Rightarrow> f32" where
  \<comment> \<open>\<open>round_f32\<close>; \<open>r == 0.0\<close> holds of both zeros\<close>
  "sse_round_f32 F x mode =
     (if mode = 0 then
        let r = f32_round F ToEven x in if (r = 0 \<or> r = 0x80000000) \<and> f32_negative x then 0x80000000 else r
      else if mode = 1 then f32_round F ToFloor x
      else if mode = 2 then f32_round F ToCeil x
      else f32_round F ToTrunc x)"

definition sse_round_f64 :: "host_fp \<Rightarrow> f64 \<Rightarrow> u8 \<Rightarrow> f64" where
  "sse_round_f64 F x mode =
     (if mode = 0 then
        let r = f64_round F ToEven x in if f64_eq r f64_zero \<and> f64_negative x then f64_neg_zero else r
      else if mode = 1 then f64_round F ToFloor x
      else if mode = 2 then f64_round F ToCeil x
      else f64_round F ToTrunc x)"

definition map_f64 :: "(f64 \<Rightarrow> f64) \<Rightarrow> u128 \<Rightarrow> u128" where
  \<comment> \<open>both 64-bit lanes\<close>
  "map_f64 f v = or_lanes 2 (\<lambda>l. push_bit (l * 64) (ucast (f (f64_lane v l))))"

definition map_f32 :: "(f32 \<Rightarrow> f32) \<Rightarrow> u128 \<Rightarrow> u128" where
  \<comment> \<open>all four 32-bit lanes\<close>
  "map_f32 f v = or_lanes 4 (\<lambda>l. push_bit (l * 32) (ucast (f (f32_lane v l))))"

definition via_f64 :: "host_fp \<Rightarrow> (f64 \<Rightarrow> f64) \<Rightarrow> f32 \<Rightarrow> f32" where
  \<comment> \<open>\<open>f(x as f64) as f32\<close>\<close>
  "via_f64 F f x = f64_as_f32 F (f (f32_as_f64 F x))"

definition via_f64_2 :: "host_fp \<Rightarrow> (f64 \<Rightarrow> f64 \<Rightarrow> f64) \<Rightarrow> f32 \<Rightarrow> f32 \<Rightarrow> f32" where
  "via_f64_2 F f x y = f64_as_f32 F (f (f32_as_f64 F x) (f32_as_f64 F y))"

definition map2_f64 :: "(f64 \<Rightarrow> f64 \<Rightarrow> f64) \<Rightarrow> u128 \<Rightarrow> u128 \<Rightarrow> u128" where
  "map2_f64 f a b = or_lanes 2 (\<lambda>l. push_bit (l * 64) (ucast (f (f64_lane a l) (f64_lane b l))))"

definition map2_f32 :: "(f32 \<Rightarrow> f32 \<Rightarrow> f32) \<Rightarrow> u128 \<Rightarrow> u128 \<Rightarrow> u128" where
  "map2_f32 f a b = or_lanes 4 (\<lambda>l. push_bit (l * 32) (ucast (f (f32_lane a l) (f32_lane b l))))"

section \<open>Comparison predicates\<close>

text \<open>\<open>cmp_pred\<close> and its packed form, of \<open>vex.rs\<close>, which the SSE unit shares.\<close>

definition unordered :: "f64 \<Rightarrow> f64 \<Rightarrow> bool" where
  "unordered a b \<longleftrightarrow> f64_is_nan a \<or> f64_is_nan b"

definition cmp_pred_low :: "f64 \<Rightarrow> f64 \<Rightarrow> u8 \<Rightarrow> bool" where
  \<comment> \<open>the arms \<open>0x00\<close> to \<open>0x0F\<close>\<close>
  "cmp_pred_low a b v =
     (if v = 0x00 then f64_eq a b else if v = 0x01 then f64_lt a b
      else if v = 0x02 then f64_le a b else if v = 0x03 then unordered a b
      else if v = 0x04 then \<not> f64_eq a b \<or> unordered a b else if v = 0x05 then f64_le b a \<or> unordered a b
      else if v = 0x06 then f64_lt b a \<or> unordered a b
      else if v = 0x07 then \<not> f64_is_nan a \<and> \<not> f64_is_nan b
      else if v = 0x08 then f64_eq a b else if v = 0x09 then f64_lt a b \<or> unordered a b
      else if v = 0x0A then f64_le a b \<or> unordered a b else if v = 0x0B then False
      else if v = 0x0C then \<not> f64_eq a b \<and> \<not> f64_is_nan a \<and> \<not> f64_is_nan b
      else if v = 0x0D then f64_le b a else if v = 0x0E then f64_lt b a else True)"

definition cmp_pred :: "f64 \<Rightarrow> f64 \<Rightarrow> u8 \<Rightarrow> bool" where
  "cmp_pred a b imm =
     (let v = imm AND 0x1F in if v \<le> 0x0F then cmp_pred_low a b v else cmp_pred_low a b (v AND 0x07))"

definition cmp_pred_full :: "f64 \<Rightarrow> f64 \<Rightarrow> u8 \<Rightarrow> bool" where
  "cmp_pred_full a b imm = (if imm AND 0x1F = 0x08 then f64_eq a b \<or> unordered a b else cmp_pred a b imm)"

definition pcmp_float :: "host_fp \<Rightarrow> u128 \<Rightarrow> u128 \<Rightarrow> bool \<Rightarrow> u8 \<Rightarrow> u128" where
  "pcmp_float F a b dbl imm =
     (if dbl then map2_f64 (\<lambda>x y. if cmp_pred_full x y imm then - 1 else 0) a b
      else map2_f32 (\<lambda>x y. if cmp_pred_full (f32_as_f64 F x) (f32_as_f64 F y) imm then - 1 else 0) a b)"

end
