(* ===== verification/Exec_Sse.thy ===== *)
theory Exec_Sse
  imports Operands Simd_Lanes
begin

text \<open>
  \<open>cpu/src/sse.rs\<close>, \<open>exec_sse\<close>: the two-byte SSE and SSE2 instructions. The arms that combine
  the destination with a 16-byte operand lane by lane are one pure function, \<open>sse_binary\<close>; the
  others are grouped as the source has them. The choice of NaN patterns is the parameter \<open>F\<close>.
\<close>

section \<open>Kinds and operands\<close>

datatype sse_kind = Ps | Pd | Ss | Sd

definition sse_kind_of :: "prefixes \<Rightarrow> sse_kind" where
  "sse_kind_of p =
     (if px_rep p = 0xF3 then Ss else if px_rep p = 0xF2 then Sd else if px_p66 p then Pd else Ps)"

definition prefix_text :: "prefixes \<Rightarrow> string" where
  "prefix_text p =
     (if px_rep p = 0xF3 then ''f3 '' else if px_rep p = 0xF2 then ''f2 '' else if px_p66 p then ''66 '' else '''')"

definition fmt_02x :: "u8 \<Rightarrow> string" where
  \<comment> \<open>\<open>{:02x}\<close>\<close>
  "fmt_02x v = (if v < 16 then ''0'' else []) @ digits_in 16 (unat v)"

definition sse_unsupported :: "u8 \<Rightarrow> string \<Rightarrow> ('m mach, 'a) em" where
  "sse_unsupported op2 what = em_bind (ctx cx_pfx) (\<lambda>p.
     em_fail (Unsupported (what @ '': '' @ prefix_text p @ ''0f '' @ fmt_02x op2)))"

definition sse_unsupported3 :: "u8 \<Rightarrow> u8 \<Rightarrow> string \<Rightarrow> ('m mach, 'a) em" where
  "sse_unsupported3 esc op3 what = em_bind (ctx cx_pfx) (\<lambda>p.
     em_fail (Unsupported (what @ '': '' @ prefix_text p @ ''0f '' @ fmt_02x esc @ '' '' @ fmt_02x op3)))"

definition get_xmm :: "u8 \<Rightarrow> ('m mach, u128) em" where
  "get_xmm i = cpu (xmm_get i)"

definition put_xmm_reg :: "u8 \<Rightarrow> u128 \<Rightarrow> ('m mach, unit) em" where
  \<comment> \<open>\<open>set_xmm\<close>: the upper half of the register stays\<close>
  "put_xmm_reg i v = upd_cpu (set_xmm_keep_upper i v)"

definition read_vec :: "'m memory_ops \<Rightarrow> u64 \<Rightarrow> nat \<Rightarrow> ('m mach, u128) em" where
  \<comment> \<open>\<open>n\<close> bytes of guest memory, zero-extended\<close>
  "read_vec M addr n = em_bind (mem_do (mo_read M addr n)) (\<lambda>bs. em_return (from_le bs))"

definition sse_rm :: "'m memory_ops \<Rightarrow> nat \<Rightarrow> ('m mach, u128) em" where
  "sse_rm M n = em_bind (ctx (\<lambda>c. c)) (\<lambda>c. case cx_rm c of
     RmReg i \<Rightarrow> get_xmm i
   | RmMem b d r \<Rightarrow> read_vec M (rm_addr_of c) n)"

definition sse_store_full :: "'m memory_ops \<Rightarrow> u128 \<Rightarrow> ('m mach, unit) em" where
  "sse_store_full M v = em_bind (ctx (\<lambda>c. c)) (\<lambda>c. case cx_rm c of
     RmReg i \<Rightarrow> put_xmm_reg i v
   | RmMem b d r \<Rightarrow> mem_do (mo_write M (rm_addr_of c) (to_le 16 v)))"

definition sse_store_low :: "'m memory_ops \<Rightarrow> nat \<Rightarrow> u128 \<Rightarrow> ('m mach, unit) em" where
  "sse_store_low M n v = em_bind (ctx (\<lambda>c. c)) (\<lambda>c. case cx_rm c of
     RmReg i \<Rightarrow> em_bind (get_xmm i) (\<lambda>cur.
       put_xmm_reg i ((cur AND NOT (low_mask n)) OR (v AND low_mask n)))
   | RmMem b d r \<Rightarrow> mem_do (mo_write M (rm_addr_of c) (to_le n v)))"

definition mov_scalar_load :: "'m memory_ops \<Rightarrow> u8 \<Rightarrow> nat \<Rightarrow> ('m mach, unit) em" where
  "mov_scalar_load M reg n = em_bind (ctx (\<lambda>c. c)) (\<lambda>c. case cx_rm c of
     RmReg i \<Rightarrow> em_bind (get_xmm i) (\<lambda>v. em_bind (get_xmm reg) (\<lambda>cur.
       put_xmm_reg reg ((cur AND NOT (low_mask n)) OR (v AND low_mask n))))
   | RmMem b d r \<Rightarrow> em_bind (sse_rm M n) (\<lambda>v. put_xmm_reg reg (v AND low_mask n)))"

definition rex_size :: "ctx \<Rightarrow> nat" where
  \<comment> \<open>\<open>if ctx.pfx.w() { 8 } else { 4 }\<close>\<close>
  "rex_size c = (if px_w (cx_pfx c) then 8 else 4)"

section \<open>Lane by lane\<close>

definition sse_logic :: "'m memory_ops \<Rightarrow> (u128 \<Rightarrow> u128 \<Rightarrow> u128) \<Rightarrow> ('m mach, unit) em" where
  "sse_logic M f = em_bind (ctx cx_reg) (\<lambda>reg.
     em_bind (get_xmm reg) (\<lambda>a. em_bind (sse_rm M 16) (\<lambda>b. put_xmm_reg reg (f a b))))"

definition sse_arith :: "host_fp \<Rightarrow> 'm memory_ops \<Rightarrow> sse_kind \<Rightarrow> (f64 \<Rightarrow> f64 \<Rightarrow> f64) \<Rightarrow> ('m mach, unit) em" where
  "sse_arith F M kind f = em_bind (ctx cx_reg) (\<lambda>reg.
     em_bind (sse_rm M 16) (\<lambda>src. em_bind (get_xmm reg) (\<lambda>dst.
     put_xmm_reg reg (case kind of
       Sd \<Rightarrow> (dst AND NOT LOW64) OR ucast (f (f64_lane dst 0) (f64_lane src 0))
     | Ss \<Rightarrow> (dst AND NOT LOW32) OR ucast (via_f64_2 F f (f32_lane dst 0) (f32_lane src 0))
     | Pd \<Rightarrow> map2_f64 f dst src
     | Ps \<Rightarrow> map2_f32 (via_f64_2 F f) dst src))))"

definition sse_unary :: "host_fp \<Rightarrow> 'm memory_ops \<Rightarrow> sse_kind \<Rightarrow> (f64 \<Rightarrow> f64) \<Rightarrow> ('m mach, unit) em" where
  "sse_unary F M kind f = em_bind (ctx cx_reg) (\<lambda>reg.
     em_bind (sse_rm M 16) (\<lambda>src. em_bind (get_xmm reg) (\<lambda>dst.
     put_xmm_reg reg (case kind of
       Sd \<Rightarrow> (dst AND NOT LOW64) OR ucast (f (f64_lane src 0))
     | Ss \<Rightarrow> (dst AND NOT LOW32) OR ucast (via_f64 F f (f32_lane src 0))
     | Pd \<Rightarrow> map_f64 f src
     | Ps \<Rightarrow> map_f32 (via_f64 F f) src))))"

definition compare_flags :: "f64 \<Rightarrow> f64 \<Rightarrow> cpu_state \<Rightarrow> cpu_state" where
  \<comment> \<open>\<open>set_compare_flags\<close>\<close>
  "compare_flags a b s =
     (let s = set_flag AF False (set_flag SF False (set_flag OF False s)) in
      if f64_is_nan a \<or> f64_is_nan b then set_flag CF True (set_flag PF True (set_flag ZF True s))
      else set_flag CF (f64_lt a b) (set_flag PF False (set_flag ZF (f64_eq a b) s)))"

definition sse_unpack_size :: "u8 \<Rightarrow> nat" where
  \<comment> \<open>the element size of the arms \<open>0x60\<close> to \<open>0x6D\<close>\<close>
  "sse_unpack_size op2 =
     (if op2 = 0x60 \<or> op2 = 0x68 then 1 else if op2 = 0x61 \<or> op2 = 0x69 then 2
      else if op2 = 0x62 \<or> op2 = 0x6A then 4 else 8)"

definition sse_unpack_ops :: "u8 set" where
  "sse_unpack_ops = {0x60, 0x61, 0x62, 0x6C, 0x68, 0x69, 0x6A, 0x6D}"

definition sse_saturating_ops :: "u8 set" where
  "sse_saturating_ops = {0xD8, 0xD9, 0xDC, 0xDD, 0xE8, 0xE9, 0xEC, 0xED}"

definition sse_shift_ops :: "u8 set" where
  "sse_shift_ops = {0xD1, 0xD2, 0xD3, 0xE1, 0xE2, 0xF1, 0xF2, 0xF3}"

definition sse_is_binary :: "u8 \<Rightarrow> bool" where
  "sse_is_binary op2 \<longleftrightarrow>
     op2 \<in> {0x54, 0x55, 0x56, 0x57, 0xDB, 0xDF, 0xEB, 0xEF, 0x74, 0x75, 0x76, 0x64, 0x65, 0x66,
       0xFC, 0xFD, 0xFE, 0xD4, 0xF8, 0xF9, 0xFA, 0xFB, 0xD5, 0xE4, 0xE5, 0xF4, 0xF5,
       0xE0, 0xE3, 0xF6, 0x63, 0x6B, 0x67, 0xDA, 0xDE} \<or>
     op2 \<in> sse_unpack_ops \<or> op2 \<in> sse_saturating_ops \<or> op2 \<in> sse_shift_ops"

definition sse_shift_var :: "u8 \<Rightarrow> u128 \<Rightarrow> u128 \<Rightarrow> u128" where
  \<comment> \<open>the shifts by the low 64 bits of the operand\<close>
  "sse_shift_var op2 dst src =
     (let count = ucast (src AND LOW64) in
      if op2 = 0xD1 then shift_r dst 2 count False else if op2 = 0xD2 then shift_r dst 4 count False
      else if op2 = 0xD3 then shift_r dst 8 count False else if op2 = 0xE1 then shift_r dst 2 count True
      else if op2 = 0xE2 then shift_r dst 4 count True else if op2 = 0xF1 then shift_l dst 2 count
      else if op2 = 0xF2 then shift_l dst 4 count else shift_l dst 8 count)"

definition sse_binary :: "u8 \<Rightarrow> u128 \<Rightarrow> u128 \<Rightarrow> u128" where
  "sse_binary op2 a b =
     (if op2 = 0x54 \<or> op2 = 0xDB then a AND b
      else if op2 = 0x55 \<or> op2 = 0xDF then NOT a AND b
      else if op2 = 0x56 \<or> op2 = 0xEB then a OR b
      else if op2 = 0x57 \<or> op2 = 0xEF then a XOR b
      else if op2 \<in> sse_unpack_ops then punpck a b (sse_unpack_size op2) (op2 \<in> {0x68, 0x69, 0x6A, 0x6D})
      else if 0x74 \<le> op2 \<and> op2 \<le> 0x76 then pcmp a b (2 ^ unat (op2 - 0x74)) False
      else if 0x64 \<le> op2 \<and> op2 \<le> 0x66 then pcmp a b (2 ^ unat (op2 - 0x64)) True
      else if 0xFC \<le> op2 \<and> op2 \<le> 0xFE then add_sub a b (2 ^ unat (op2 - 0xFC)) True
      else if op2 = 0xD4 then add_sub a b 8 True
      else if 0xF8 \<le> op2 \<and> op2 \<le> 0xFB then add_sub a b (2 ^ unat (op2 - 0xF8)) False
      else if op2 \<in> sse_saturating_ops
      then add_sub_sat a b (if op2 AND 1 = 0 then 1 else 2)
             (op2 \<in> {0xDC, 0xDD, 0xEC, 0xED}) (op2 \<in> {0xE8, 0xE9, 0xEC, 0xED})
      else if op2 = 0xD5 then pmullw a b else if op2 = 0xE5 then pmulh a b True
      else if op2 = 0xE4 then pmulh a b False else if op2 = 0xF4 then pmuludq a b
      else if op2 = 0xF5 then pmaddwd a b
      else if op2 = 0xE0 then pavg a b 1 else if op2 = 0xE3 then pavg a b 2
      else if op2 = 0xF6 then psadbw a b else if op2 = 0x63 then pack a b 2 True
      else if op2 = 0x6B then pack a b 4 True else if op2 = 0x67 then pack a b 2 False
      else if op2 = 0xDA then byte_minmax a b False else if op2 = 0xDE then byte_minmax a b True
      else sse_shift_var op2 a b)"

section \<open>Moves\<close>

definition sse_load_half :: "'m memory_ops \<Rightarrow> u8 \<Rightarrow> (u128 \<Rightarrow> u128 \<Rightarrow> u128) \<Rightarrow> (u128 \<Rightarrow> u128 \<Rightarrow> u128) \<Rightarrow> ('m mach, unit) em" where
  \<comment> \<open>the arms \<open>0x12\<close> and \<open>0x16\<close>: one combination for a register, one for 8 bytes of memory\<close>
  "sse_load_half M reg of_reg of_mem = em_bind (ctx cx_rm) (\<lambda>rm. em_bind (get_xmm reg) (\<lambda>cur.
     case rm of
       RmReg i \<Rightarrow> em_bind (get_xmm i) (\<lambda>v. put_xmm_reg reg (of_reg cur v))
     | RmMem b d r \<Rightarrow> em_bind (sse_rm M 8) (\<lambda>v. put_xmm_reg reg (of_mem cur v))))"

definition sse_load :: "'m memory_ops \<Rightarrow> u8 \<Rightarrow> ('m mach, unit) em" where
  "sse_load M reg = em_bind (sse_rm M 16) (\<lambda>v. put_xmm_reg reg v)"

definition sse_store :: "'m memory_ops \<Rightarrow> u8 \<Rightarrow> ('m mach, unit) em" where
  "sse_store M reg = em_bind (get_xmm reg) (\<lambda>v. sse_store_full M v)"

definition sse_moves :: "'m memory_ops \<Rightarrow> sse_kind \<Rightarrow> u8 \<Rightarrow> u8 \<Rightarrow> ('m mach, unit) em" where
  \<comment> \<open>the arms \<open>0x10\<close> to \<open>0x29\<close>\<close>
  "sse_moves M kind reg op2 =
     (if op2 = 0x10 then
        (case kind of Ss \<Rightarrow> mov_scalar_load M reg 4 | Sd \<Rightarrow> mov_scalar_load M reg 8 | _ \<Rightarrow> sse_load M reg)
      else if op2 = 0x11 then
        em_bind (get_xmm reg) (\<lambda>v.
          case kind of Ss \<Rightarrow> sse_store_low M 4 v | Sd \<Rightarrow> sse_store_low M 8 v | _ \<Rightarrow> sse_store_full M v)
      else if op2 = 0x12 then
        sse_load_half M reg (\<lambda>cur v. (cur AND NOT LOW64) OR drop_bit 64 v)
          (\<lambda>cur v. (cur AND NOT LOW64) OR (v AND LOW64))
      else if op2 = 0x13 then em_bind (get_xmm reg) (\<lambda>v. sse_store_low M 8 (v AND LOW64))
      else if op2 = 0x16 then
        sse_load_half M reg (\<lambda>cur v. (cur AND LOW64) OR push_bit 64 v) (\<lambda>cur v. (cur AND LOW64) OR push_bit 64 v)
      else if op2 = 0x17 then em_bind (get_xmm reg) (\<lambda>v. sse_store_low M 8 (drop_bit 64 v))
      else if op2 = 0x28 then sse_load M reg
      else sse_store M reg)"

definition sse_moves_int :: "'m memory_ops \<Rightarrow> sse_kind \<Rightarrow> u8 \<Rightarrow> u8 \<Rightarrow> ('m mach, unit) em" where
  \<comment> \<open>the arms \<open>0xF0\<close>, \<open>0x6E\<close>, \<open>0x6F\<close>, \<open>0x7E\<close>, \<open>0x7F\<close>, \<open>0xD6\<close>, \<open>0x2B\<close> and \<open>0xE7\<close>\<close>
  "sse_moves_int M kind reg op2 = em_bind (ctx (\<lambda>c. c)) (\<lambda>c.
     if op2 = 0xF0 then
       if kind \<noteq> Sd then sse_unsupported op2 ''0f f0'' else sse_load M reg
     else if op2 = 0x6E then em_bind (read_rm M (rex_size c)) (\<lambda>v. put_xmm_reg reg (ucast v))
     else if op2 = 0x6F then sse_load M reg
     else if op2 = 0x7E then
       if kind = Ss then em_bind (sse_rm M 8) (\<lambda>v. put_xmm_reg reg (v AND LOW64))
       else em_bind (get_xmm reg) (\<lambda>v. write_rm M (rex_size c) (ucast v))
     else if op2 = 0xD6 then
       em_bind (get_xmm reg) (\<lambda>v. case cx_rm c of
         RmReg i \<Rightarrow> put_xmm_reg i (v AND LOW64)
       | RmMem b d r \<Rightarrow> mem_do (mo_write M (rm_addr_of c) (to_le 8 (v AND LOW64))))
     else sse_store M reg)"

section \<open>Conversions and comparisons\<close>

definition sse_from_int :: "'m memory_ops \<Rightarrow> sse_kind \<Rightarrow> u8 \<Rightarrow> ('m mach, unit) em" where
  \<comment> \<open>the arm \<open>0x2A\<close>\<close>
  "sse_from_int M kind reg = em_bind (ctx rex_size) (\<lambda>sz.
     em_bind (read_rm M sz) (\<lambda>v. em_bind (get_xmm reg) (\<lambda>cur.
       let src = sint (sext v sz) in
       put_xmm_reg reg
         (if kind = Sd then (cur AND NOT LOW64) OR ucast (int_as_f64 src)
          else (cur AND NOT LOW32) OR ucast (int_as_f32 src)))))"

definition sse_to_int :: "host_fp \<Rightarrow> 'm memory_ops \<Rightarrow> sse_kind \<Rightarrow> u8 \<Rightarrow> ('m mach, unit) em" where
  \<comment> \<open>the arms \<open>0x2C\<close> and \<open>0x2D\<close>\<close>
  "sse_to_int F M kind op2 = em_bind (ctx rex_size) (\<lambda>sz.
     em_bind (sse_rm M 8) (\<lambda>v.
       let f = (if kind = Sd then ucast (v AND LOW64) else f32_as_f64 F (ucast (v AND LOW32))) in
       write_reg_field sz (cvt_f_to_int F f (op2 = 0x2C) sz)))"

definition sse_comis :: "host_fp \<Rightarrow> 'm memory_ops \<Rightarrow> sse_kind \<Rightarrow> u8 \<Rightarrow> ('m mach, unit) em" where
  \<comment> \<open>the arms \<open>0x2E\<close> and \<open>0x2F\<close>\<close>
  "sse_comis F M kind reg = em_bind (get_xmm reg) (\<lambda>dst.
     if kind = Pd then
       em_bind (sse_rm M 8) (\<lambda>src. upd_cpu (compare_flags (ucast (dst AND LOW64)) (ucast (src AND LOW64))))
     else
       em_bind (sse_rm M 4) (\<lambda>src.
         upd_cpu (compare_flags (f32_as_f64 F (ucast (dst AND LOW32))) (f32_as_f64 F (ucast (src AND LOW32))))))"

definition sse_scalar_width :: "host_fp \<Rightarrow> 'm memory_ops \<Rightarrow> sse_kind \<Rightarrow> u8 \<Rightarrow> u8 \<Rightarrow> ('m mach, unit) em" where
  \<comment> \<open>the arm \<open>0x5A\<close>\<close>
  "sse_scalar_width F M kind reg op2 =
     (case kind of
        Sd \<Rightarrow> em_bind (sse_rm M 8) (\<lambda>v. em_bind (get_xmm reg) (\<lambda>cur.
          put_xmm_reg reg ((cur AND NOT LOW32) OR ucast (f64_as_f32 F (ucast (v AND LOW64))))))
      | Ss \<Rightarrow> em_bind (sse_rm M 4) (\<lambda>v. em_bind (get_xmm reg) (\<lambda>cur.
          put_xmm_reg reg ((cur AND NOT LOW64) OR ucast (f32_as_f64 F (ucast (v AND LOW32))))))
      | _ \<Rightarrow> sse_unsupported op2 ''cvtps2pd/cvtpd2ps'')"

definition sse_packed_int :: "host_fp \<Rightarrow> 'm memory_ops \<Rightarrow> sse_kind \<Rightarrow> u8 \<Rightarrow> u8 \<Rightarrow> ('m mach, unit) em" where
  \<comment> \<open>the arm \<open>0x5B\<close>\<close>
  "sse_packed_int F M kind reg op2 = em_bind (sse_rm M 16) (\<lambda>src.
     case kind of
       Ps \<Rightarrow> put_xmm_reg reg (cvtdq2ps src)
     | Pd \<Rightarrow> put_xmm_reg reg (cvtps2dq F src False)
     | Ss \<Rightarrow> put_xmm_reg reg (cvtps2dq F src True)
     | Sd \<Rightarrow> sse_unsupported op2 ''cvt 5b/f2'')"

definition sse_movmsk :: "'m memory_ops \<Rightarrow> sse_kind \<Rightarrow> u8 \<Rightarrow> ('m mach, unit) em" where
  \<comment> \<open>the arm \<open>0x50\<close>\<close>
  "sse_movmsk M kind op2 = em_bind (sse_rm M 16) (\<lambda>v. em_bind (ctx rex_size) (\<lambda>sz.
     case kind of
       Ps \<Rightarrow> write_reg_field sz (ucast ((drop_bit 31 v AND 1) OR (drop_bit 62 v AND 2) OR
               (drop_bit 93 v AND 4) OR (drop_bit 124 v AND 8)))
     | Pd \<Rightarrow> write_reg_field sz (ucast ((drop_bit 63 v AND 1) OR (drop_bit 126 v AND 2)))
     | _ \<Rightarrow> sse_unsupported op2 ''movmsk ss/sd''))"

definition sse_arith_op :: "host_fp \<Rightarrow> u8 \<Rightarrow> f64 \<Rightarrow> f64 \<Rightarrow> f64" where
  \<comment> \<open>the closures of the arms \<open>0x58\<close> to \<open>0x5F\<close>\<close>
  "sse_arith_op F op2 a b =
     (if op2 = 0x58 then f64_add F a b else if op2 = 0x59 then f64_mul F a b
      else if op2 = 0x5C then f64_sub F a b else if op2 = 0x5D then (if f64_lt a b then a else b)
      else if op2 = 0x5E then f64_div F a b else (if f64_lt b a then a else b))"

section \<open>Immediates\<close>

definition sse_cmp :: "host_fp \<Rightarrow> 'm memory_ops \<Rightarrow> sse_kind \<Rightarrow> u8 \<Rightarrow> ('m mach, unit) em" where
  \<comment> \<open>the arm \<open>0xC2\<close>\<close>
  "sse_cmp F M kind reg = em_bind (get_xmm reg) (\<lambda>dst.
     em_bind (sse_rm M (case kind of Ss \<Rightarrow> 4 | Sd \<Rightarrow> 8 | _ \<Rightarrow> 16)) (\<lambda>src.
     em_bind (ctx_u8 M) (\<lambda>imm.
     put_xmm_reg reg (case kind of
       Ps \<Rightarrow> pcmp_float F dst src False imm
     | Pd \<Rightarrow> pcmp_float F dst src True imm
     | Ss \<Rightarrow> (dst AND NOT LOW32) OR
         (if cmp_pred_full (f32_as_f64 F (ucast dst)) (f32_as_f64 F (ucast src)) imm then LOW32 else 0)
     | Sd \<Rightarrow> (dst AND NOT LOW64) OR (if cmp_pred_full (ucast dst) (ucast src) imm then LOW64 else 0)))))"

definition sse_pinsrw :: "'m memory_ops \<Rightarrow> u8 \<Rightarrow> ('m mach, unit) em" where
  \<comment> \<open>the arm \<open>0xC4\<close>\<close>
  "sse_pinsrw M reg = em_bind (ctx (\<lambda>c. c)) (\<lambda>c.
     em_bind (case cx_rm c of
         RmReg i \<Rightarrow> cpu (\<lambda>s. ucast (reg_at i s) :: u16)
       | RmMem b d r \<Rightarrow> em_bind (mem_do (mo_read M (rm_addr_of c) 2)) (\<lambda>bs. em_return (from_le bs))) (\<lambda>word.
     em_bind (ctx_u8 M) (\<lambda>imm.
     em_bind (get_xmm reg) (\<lambda>dst.
       let at = unat (imm AND 7) * 16
       in put_xmm_reg reg ((dst AND NOT (push_bit at 0xFFFF)) OR push_bit at (ucast word))))))"

definition sse_pextrw :: "'m memory_ops \<Rightarrow> ('m mach, unit) em" where
  \<comment> \<open>the arm \<open>0xC5\<close>\<close>
  "sse_pextrw M = em_bind (sse_rm M 16) (\<lambda>src. em_bind (ctx_u8 M) (\<lambda>imm. em_bind (ctx rex_size) (\<lambda>sz.
     write_reg_field sz (ucast (drop_bit (unat (imm AND 7) * 16) src AND 0xFFFF)))))"

definition sse_pshuf :: "'m memory_ops \<Rightarrow> sse_kind \<Rightarrow> u8 \<Rightarrow> u8 \<Rightarrow> ('m mach, unit) em" where
  \<comment> \<open>the arm \<open>0x70\<close>\<close>
  "sse_pshuf M kind reg op2 = em_bind (sse_rm M 16) (\<lambda>src. em_bind (ctx_u8 M) (\<lambda>imm.
     case kind of
       Pd \<Rightarrow> put_xmm_reg reg (pshufd src imm)
     | Sd \<Rightarrow> put_xmm_reg reg (pshuflw src imm)
     | Ss \<Rightarrow> put_xmm_reg reg (pshufhw src imm)
     | Ps \<Rightarrow> sse_unsupported op2 ''pshufw(mm)''))"

definition sse_shuf :: "'m memory_ops \<Rightarrow> sse_kind \<Rightarrow> u8 \<Rightarrow> ('m mach, unit) em" where
  \<comment> \<open>the arm \<open>0xC6\<close>\<close>
  "sse_shuf M kind reg = em_bind (sse_rm M 16) (\<lambda>src. em_bind (get_xmm reg) (\<lambda>dst. em_bind (ctx_u8 M) (\<lambda>imm.
     put_xmm_reg reg (if kind = Pd then shufpd dst src imm else shufps dst src imm))))"

definition sse_shift_of :: "u8 \<Rightarrow> u8 \<Rightarrow> u128 \<Rightarrow> u64 \<Rightarrow> u128 option" where
  \<comment> \<open>the shifts by an immediate; \<open>None\<close> where the digit names no instruction\<close>
  "sse_shift_of op2 digit src imm =
     (let esz = (if op2 = 0x71 then 2 else if op2 = 0x72 then 4 else 8) in
      if digit = 2 then Some (shift_r src esz imm False)
      else if (op2 = 0x71 \<or> op2 = 0x72) \<and> digit = 4 then Some (shift_r src esz imm True)
      else if digit = 6 then Some (shift_l src esz imm)
      else if op2 = 0x73 \<and> digit = 3 then Some (if 16 \<le> imm then 0 else drop_bit (unat imm * 8) src)
      else if op2 = 0x73 \<and> digit = 7 then Some (if 16 \<le> imm then 0 else push_bit (unat imm * 8) src)
      else None)"

definition sse_shift_imm :: "'m memory_ops \<Rightarrow> u8 \<Rightarrow> ('m mach, unit) em" where
  \<comment> \<open>the arms \<open>0x71\<close> to \<open>0x73\<close>\<close>
  "sse_shift_imm M op2 = em_bind (ctx (\<lambda>c. cx_reg c AND 7)) (\<lambda>digit.
     em_bind (sse_rm M 16) (\<lambda>src. em_bind (ctx_u8 M) (\<lambda>imm.
     case sse_shift_of op2 digit src (ucast imm) of
       Some out \<Rightarrow> sse_store_full M out
     | None \<Rightarrow> sse_unsupported op2 ''psh-group'')))"

section \<open>The dispatch\<close>

definition exec_sse_match :: "host_fp \<Rightarrow> 'm memory_ops \<Rightarrow> sse_kind \<Rightarrow> u8 \<Rightarrow> u8 \<Rightarrow> ('m mach, unit) em" where
  "exec_sse_match F M kind reg op2 =
     (if op2 \<in> {0x10, 0x11, 0x12, 0x13, 0x16, 0x17, 0x28, 0x29} then sse_moves M kind reg op2
      else if op2 = 0x2A then sse_from_int M kind reg
      else if op2 = 0x2C \<or> op2 = 0x2D then sse_to_int F M kind op2
      else if op2 = 0x2E \<or> op2 = 0x2F then sse_comis F M kind reg
      else if op2 = 0x50 then sse_movmsk M kind op2
      else if op2 = 0x51 then sse_unary F M kind (f64_sqrt F)
      else if op2 \<in> {0x58, 0x59, 0x5C, 0x5D, 0x5E, 0x5F} then sse_arith F M kind (sse_arith_op F op2)
      else if op2 = 0x5A then sse_scalar_width F M kind reg op2
      else if op2 = 0x5B then sse_packed_int F M kind reg op2
      else if op2 \<in> {0xF0, 0x6E, 0x6F, 0x7E, 0x7F, 0xD6, 0x2B, 0xE7} then sse_moves_int M kind reg op2
      else if sse_is_binary op2 then sse_logic M (sse_binary op2)
      else if op2 = 0xC5 then sse_pextrw M
      else if op2 = 0xD7 then
        em_bind (sse_rm M 16) (\<lambda>v. em_bind (ctx rex_size) (\<lambda>sz. write_reg_field sz (ucast (pmovmskb v))))
      else if op2 = 0x70 then sse_pshuf M kind reg op2
      else if op2 = 0xC2 then sse_cmp F M kind reg
      else if op2 = 0xC4 then sse_pinsrw M reg
      else if op2 = 0xC6 then sse_shuf M kind reg
      else if op2 = 0x71 \<or> op2 = 0x72 \<or> op2 = 0x73 then sse_shift_imm M op2
      else sse_unsupported op2 ''sse'')"

definition exec_sse :: "host_fp \<Rightarrow> 'm memory_ops \<Rightarrow> u8 \<Rightarrow> ('m mach, unit) em" where
  "exec_sse F M op2 =
     em_bind (read_modrm M) (\<lambda>_. em_bind (ctx (\<lambda>c. c)) (\<lambda>c.
     exec_sse_match F M (sse_kind_of (cx_pfx c)) (cx_reg c) op2))"

end
