(* ===== verification/Exec_Sse_Ext.thy ===== *)
theory Exec_Sse_Ext
  imports Exec_Sse
begin

text \<open>
  \<open>cpu/src/sse.rs\<close>, \<open>exec_sse_0f38\<close> and \<open>exec_sse_0f3a\<close>: the three-byte SSSE3, SSE4.1 and
  SSE4.2 instructions, with CRC32 and the string comparisons.
\<close>

section \<open>CRC32\<close>

definition crc_bit :: "u32 \<Rightarrow> u32" where
  "crc_bit crc = (if crc AND 1 \<noteq> 0 then drop_bit 1 crc XOR 0x82F63B78 else drop_bit 1 crc)"

definition crc_byte :: "u8 \<Rightarrow> u32 \<Rightarrow> u32" where
  "crc_byte byte crc = (crc_bit ^^ 8) (crc XOR ucast byte)"

definition crc_bytes :: "nat \<Rightarrow> u64 \<Rightarrow> u32 \<Rightarrow> u32" where
  "crc_bytes n src crc = fold (\<lambda>i. crc_byte (ucast (drop_bit (i * 8) src))) [0..<n] crc"

definition crc32 :: "'m memory_ops \<Rightarrow> u8 \<Rightarrow> ('m mach, unit) em" where
  "crc32 M op3 =
     em_bind (read_modrm M) (\<lambda>_. em_bind (ctx (\<lambda>c. c)) (\<lambda>c.
       let src_sz = (if op3 = 0xF0 then 1 else if px_p66 (cx_pfx c) then 2 else if px_w (cx_pfx c) then 8 else 4);
           dst_sz = rex_size c
       in em_bind (read_rm M src_sz) (\<lambda>src. em_bind (read_reg_field dst_sz) (\<lambda>crc.
          write_reg_field dst_sz (ucast (crc_bytes src_sz src (ucast crc)))))))"

section \<open>String comparisons\<close>

definition str_elem :: "nat \<Rightarrow> bool \<Rightarrow> u128 \<Rightarrow> nat \<Rightarrow> int" where
  \<comment> \<open>the closure \<open>get\<close>\<close>
  "str_elem elem_bytes sg v i =
     (let bits = elem_bytes * 8 in
      if sg then sint (signed_lane v (i * bits) elem_bytes) else uint (lane64 v (i * bits) elem_bytes))"

definition str_raw :: "u8 \<Rightarrow> (nat \<Rightarrow> int) \<Rightarrow> (nat \<Rightarrow> int) \<Rightarrow> nat \<Rightarrow> nat \<Rightarrow> bool" where
  "str_raw agg ea eb i j =
     (if agg = 1 then if even j then ea j \<le> eb i else eb i \<le> ea j else eb i = ea j)"

definition str_overridden :: "u8 \<Rightarrow> (nat \<Rightarrow> int) \<Rightarrow> (nat \<Rightarrow> int) \<Rightarrow> nat \<Rightarrow> nat \<Rightarrow> nat \<Rightarrow> nat \<Rightarrow> bool" where
  \<comment> \<open>the comparison of \<open>b[i]\<close> with \<open>a[j]\<close>, where one of them is past the end of its string\<close>
  "str_overridden agg ea eb len_a len_b i j =
     (let aj = j < len_a; bi = i < len_b in
      if agg = 0 \<or> agg = 1 then if aj \<and> bi then str_raw agg ea eb i j else False
      else if agg = 2 then if aj \<and> bi then str_raw agg ea eb i j else \<not> aj \<and> \<not> bi
      else if \<not> aj then True else if \<not> bi then False else str_raw agg ea eb i j)"

definition str_result :: "u8 \<Rightarrow> nat \<Rightarrow> (nat \<Rightarrow> nat \<Rightarrow> bool) \<Rightarrow> nat \<Rightarrow> bool" where
  \<comment> \<open>the entry \<open>i\<close> of \<open>int_res\<close>\<close>
  "str_result agg n hit i =
     (if agg = 0 then list_ex (hit i) [0..<n]
      else if agg = 1 then list_ex (\<lambda>k. even k \<and> k + 1 < n \<and> hit i k \<and> hit i (k + 1)) [0..<n]
      else if agg = 2 then hit i i
      else list_all (\<lambda>j. hit (i + j) j) [0..<n])"

definition str_polarity :: "u8 \<Rightarrow> nat \<Rightarrow> nat \<Rightarrow> bool \<Rightarrow> bool" where
  "str_polarity neg len_b i r = (if neg = 1 then \<not> r else if neg = 3 then (if i < len_b then \<not> r else r) else r)"

definition str_compare :: "u128 \<Rightarrow> u128 \<Rightarrow> u8 \<Rightarrow> nat \<Rightarrow> nat \<Rightarrow> bool list" where
  \<comment> \<open>\<open>res[..n]\<close>\<close>
  "str_compare a b imm len_a len_b =
     (let elem_bytes = (if imm AND 1 = 0 then 1 else 2); sg = (imm AND 2 \<noteq> 0);
          agg = drop_bit 2 imm AND 3; n = 16 div elem_bytes;
          hit = str_overridden agg (str_elem elem_bytes sg a) (str_elem elem_bytes sg b) len_a len_b
      in map (\<lambda>i. str_polarity (drop_bit 4 imm AND 3) len_b i (str_result agg n hit i)) [0..<n])"

definition explicit_len :: "u64 \<Rightarrow> nat \<Rightarrow> nat" where
  \<comment> \<open>\<open>(v as i32).unsigned_abs().min(n)\<close>\<close>
  "explicit_len v n = min (nat \<bar>sint (ucast v :: u32)\<bar>) n"

definition str_index :: "u8 \<Rightarrow> bool list \<Rightarrow> nat" where
  \<comment> \<open>the first or the last entry that is set, or the number of entries\<close>
  "str_index imm res =
     (let hits = filter (nth res) [0..<length res] in
      if hits = [] then length res else if imm AND 0x40 \<noteq> 0 then last hits else hd hits)"

definition str_mask :: "u8 \<Rightarrow> bool list \<Rightarrow> u128" where
  "str_mask imm res =
     (let elem_bytes = (if imm AND 1 = 0 then 1 else 2) in
      or_lanes (length res) (\<lambda>i. if res ! i
        then if imm AND 0x40 \<noteq> 0 then push_bit (i * (elem_bytes * 8)) (emask elem_bytes) else push_bit i 1
        else 0))"

definition str_flags :: "bool list \<Rightarrow> nat \<Rightarrow> nat \<Rightarrow> cpu_state \<Rightarrow> cpu_state" where
  "str_flags res len_a len_b s =
     (let n = length res in
      set_flag PF False (set_flag AF False (set_flag OF (res ! 0) (set_flag SF (len_a < n)
        (set_flag ZF (len_b < n) (set_flag CF (list_ex id res) s))))))"

definition pcmpstr_of :: "u128 \<Rightarrow> u128 \<Rightarrow> u8 \<Rightarrow> bool \<Rightarrow> bool \<Rightarrow> cpu_state \<Rightarrow> cpu_state" where
  "pcmpstr_of a b imm explicit index s =
     (let elem_bytes = (if imm AND 1 = 0 then 1 else 2); n = 16 div elem_bytes;
          len_a = (if explicit then explicit_len (gpr_read 0 4 s) n else implicit_len a elem_bytes n);
          len_b = (if explicit then explicit_len (gpr_read 2 4 s) n else implicit_len b elem_bytes n);
          res = str_compare a b imm len_a len_b;
          t = str_flags res len_a len_b s
      in if index then gpr_write 1 8 (of_nat (str_index imm res)) t
         else set_xmm_keep_upper 0 (str_mask imm res) t)"

section \<open>The map 0F 38\<close>

definition sse38_is_binary :: "u8 \<Rightarrow> bool" where
  "sse38_is_binary op3 \<longleftrightarrow>
     op3 \<in> {0x00, 0x04, 0x08, 0x09, 0x0A, 0x0B, 0x28, 0x29, 0x37, 0x2B, 0x40} \<or> 0x38 \<le> op3 \<and> op3 \<le> 0x3F"

definition minmax_kind :: "u8 \<Rightarrow> nat \<times> bool" where
  \<comment> \<open>the element size and the signedness of \<open>0x38\<close> to \<open>0x3F\<close>\<close>
  "minmax_kind op3 =
     (let k = op3 AND 3 in if k = 0 then (1, True) else if k = 1 then (4, True) else if k = 2 then (2, False) else (4, False))"

definition sse38_binary :: "u8 \<Rightarrow> u128 \<Rightarrow> u128 \<Rightarrow> u128" where
  "sse38_binary op3 a b =
     (if op3 = 0x00 then pshufb a b
      else if op3 = 0x04 then pmaddubsw a b
      else if 0x08 \<le> op3 \<and> op3 \<le> 0x0A then psign a b (2 ^ unat (op3 - 0x08))
      else if op3 = 0x0B then pmulhrsw a b
      else if op3 = 0x28 then pmuldq a b
      else if op3 = 0x29 \<or> op3 = 0x37 then pcmp a b 8 (op3 = 0x37)
      else if op3 = 0x2B then packusdw a b
      else if op3 = 0x40 then pmulld a b
      else case minmax_kind op3 of (esz, sg) \<Rightarrow> int_minmax a b esz sg (0x3C \<le> op3))"

definition sse_phaddsub :: "'m memory_ops \<Rightarrow> u8 \<Rightarrow> u8 \<Rightarrow> ('m mach, unit) em" where
  "sse_phaddsub M reg op3 = em_bind (get_xmm reg) (\<lambda>a. em_bind (sse_rm M 16) (\<lambda>b. em_bind (ctx cx_rm) (\<lambda>rm.
     let esz = (if op3 = 0x02 \<or> op3 = 0x06 then 4 else 2); sub = (0x05 \<le> op3 \<and> op3 \<le> 0x07);
         sat = (op3 = 0x03 \<or> op3 = 0x07)
     in put_xmm_reg reg (phaddsub a b esz sub sat (rm = RmReg reg)))))"

definition ptest_flags :: "u128 \<Rightarrow> u128 \<Rightarrow> cpu_state \<Rightarrow> cpu_state" where
  "ptest_flags a b s =
     set_flag PF False (set_flag AF False (set_flag SF False (set_flag OF False
       (set_flag CF (b AND NOT a = 0) (set_flag ZF (b AND a = 0) s)))))"

definition pmovx_sizes :: "u8 \<Rightarrow> nat \<times> nat" where
  "pmovx_sizes sel = [(1, 2), (1, 4), (1, 8), (2, 4), (2, 8), (4, 8)] ! unat sel"

definition sse_pmovx :: "'m memory_ops \<Rightarrow> u8 \<Rightarrow> u8 \<Rightarrow> ('m mach, unit) em" where
  "sse_pmovx M reg op3 =
     (case pmovx_sizes (op3 AND 0x0F) of (src_sz, dst_sz) \<Rightarrow>
        em_bind (sse_rm M (16 div dst_sz * src_sz)) (\<lambda>src.
        put_xmm_reg reg (pmovx src src_sz dst_sz (op3 < 0x30))))"

definition sse38_match :: "'m memory_ops \<Rightarrow> u8 \<Rightarrow> u8 \<Rightarrow> ('m mach, unit) em" where
  "sse38_match M reg op3 =
     (if sse38_is_binary op3 then sse_logic M (sse38_binary op3)
      else if op3 \<in> {0x01, 0x02, 0x03, 0x05, 0x06, 0x07} then sse_phaddsub M reg op3
      else if 0x1C \<le> op3 \<and> op3 \<le> 0x1E
      then em_bind (sse_rm M 16) (\<lambda>src. put_xmm_reg reg (pabs src (2 ^ unat (op3 - 0x1C))))
      else if op3 = 0x10 \<or> op3 = 0x14 \<or> op3 = 0x15 then
        em_bind (get_xmm reg) (\<lambda>a. em_bind (sse_rm M 16) (\<lambda>b. em_bind (get_xmm 0) (\<lambda>m.
        put_xmm_reg reg (blend_var a b m (if op3 = 0x10 then 1 else if op3 = 0x14 then 4 else 8)))))
      else if op3 = 0x17 then
        em_bind (get_xmm reg) (\<lambda>a. em_bind (sse_rm M 16) (\<lambda>b. upd_cpu (ptest_flags a b)))
      else if 0x20 \<le> op3 \<and> op3 \<le> 0x25 \<or> 0x30 \<le> op3 \<and> op3 \<le> 0x35 then sse_pmovx M reg op3
      else if op3 = 0x2A then sse_load M reg
      else if op3 = 0x41 then em_bind (sse_rm M 16) (\<lambda>src. put_xmm_reg reg (phminposuw src))
      else sse_unsupported3 0x38 op3 ''sse38'')"

definition exec_sse_0f38 :: "'m memory_ops \<Rightarrow> u8 \<Rightarrow> ('m mach, unit) em" where
  "exec_sse_0f38 M op3 =
     (if op3 = 0xF0 \<or> op3 = 0xF1 then crc32 M op3
      else em_bind (read_modrm M) (\<lambda>_. em_bind (ctx cx_reg) (\<lambda>reg. sse38_match M reg op3)))"

section \<open>The map 0F 3A\<close>

definition round_mode :: "u8 \<Rightarrow> interp \<Rightarrow> u8" where
  "round_mode imm it = (if imm AND 4 \<noteq> 0 then ucast (drop_bit 13 (it_mxcsr it) AND 3) else imm AND 3)"

definition sse_round :: "host_fp \<Rightarrow> 'm memory_ops \<Rightarrow> u8 \<Rightarrow> u8 \<Rightarrow> u8 \<Rightarrow> ('m mach, unit) em" where
  \<comment> \<open>the arms \<open>0x08\<close> to \<open>0x0B\<close>\<close>
  "sse_round F M reg op3 imm =
     em_bind (sse_rm M 16) (\<lambda>src. em_bind (interp (round_mode imm)) (\<lambda>mode. em_bind (get_xmm reg) (\<lambda>dst.
     put_xmm_reg reg
       (if op3 = 0x08 then map_f32 (\<lambda>x. sse_round_f32 F x mode) src
        else if op3 = 0x09 then map_f64 (\<lambda>x. sse_round_f64 F x mode) src
        else if op3 = 0x0A then (dst AND NOT LOW32) OR ucast (sse_round_f32 F (f32_lane src 0) mode)
        else (dst AND NOT LOW64) OR ucast (sse_round_f64 F (f64_lane src 0) mode)))))"

definition sse_pextr :: "'m memory_ops \<Rightarrow> u8 \<Rightarrow> u8 \<Rightarrow> u8 \<Rightarrow> ('m mach, unit) em" where
  \<comment> \<open>the arms \<open>0x14\<close> to \<open>0x16\<close>\<close>
  "sse_pextr M reg op3 imm = em_bind (get_xmm reg) (\<lambda>src. em_bind (ctx (\<lambda>c. c)) (\<lambda>c.
     let esz = (if op3 = 0x14 then 1 else if op3 = 0x15 then 2 else rex_size c);
         idx = unat imm mod (16 div esz);
         v = lane64 src (idx * esz * 8) esz;
         store_sz = (if op3 = 0x16 then esz else case cx_rm c of RmReg i \<Rightarrow> rex_size c | RmMem b d r \<Rightarrow> esz)
     in write_rm M store_sz v))"

definition sse_extractps :: "'m memory_ops \<Rightarrow> u8 \<Rightarrow> u8 \<Rightarrow> ('m mach, unit) em" where
  \<comment> \<open>the arm \<open>0x17\<close>\<close>
  "sse_extractps M reg imm = em_bind (get_xmm reg) (\<lambda>src. em_bind (ctx (\<lambda>c. c)) (\<lambda>c.
     let v = ucast (drop_bit (unat (imm AND 3) * 32) src AND LOW32);
         store_sz = (case cx_rm c of RmReg i \<Rightarrow> rex_size c | RmMem b d r \<Rightarrow> 4)
     in write_rm M store_sz v))"

definition sse_pinsr :: "'m memory_ops \<Rightarrow> u8 \<Rightarrow> u8 \<Rightarrow> u8 \<Rightarrow> ('m mach, unit) em" where
  \<comment> \<open>the arms \<open>0x20\<close> and \<open>0x22\<close>\<close>
  "sse_pinsr M reg op3 imm = em_bind (ctx (\<lambda>c. c)) (\<lambda>c.
     let esz = (if op3 = 0x20 then 1 else rex_size c) in
     em_bind (case cx_rm c of
         RmReg i \<Rightarrow> get_gpr i (if esz = 8 then 8 else 4)
       | RmMem b d r \<Rightarrow> mem_do (mo_read_uint M (rm_addr_of c) esz)) (\<lambda>v.
     em_bind (get_xmm reg) (\<lambda>dst.
       let gp = v AND ucast (emask esz); at = unat imm mod (16 div esz) * esz * 8;
           m = push_bit at (emask esz)
       in put_xmm_reg reg ((dst AND NOT m) OR (push_bit at (ucast gp) AND m)))))"

definition sse_insertps :: "'m memory_ops \<Rightarrow> u8 \<Rightarrow> u8 \<Rightarrow> ('m mach, unit) em" where
  \<comment> \<open>the arm \<open>0x21\<close>\<close>
  "sse_insertps M reg imm = em_bind (ctx (\<lambda>c. c)) (\<lambda>c.
     em_bind (case cx_rm c of
         RmReg i \<Rightarrow> em_bind (get_xmm i) (\<lambda>v. em_return (ucast (drop_bit (unat (drop_bit 6 imm AND 3) * 32) v) :: u32))
       | RmMem b d r \<Rightarrow> mem_do (mem_read_u32 M (rm_addr_of c))) (\<lambda>dword.
     em_bind (get_xmm reg) (\<lambda>dst.
       let at = unat (drop_bit 4 imm AND 3) * 32; m = push_bit at LOW32;
           ins = (dst AND NOT m) OR (push_bit at (ucast dword) AND m)
       in put_xmm_reg reg
            (fold (\<lambda>l v. if drop_bit l imm AND 1 = 1 then v AND NOT (push_bit (l * 32) LOW32) else v) [0..<4] ins))))"

definition sse3a_match :: "host_fp \<Rightarrow> 'm memory_ops \<Rightarrow> u8 \<Rightarrow> u8 \<Rightarrow> u8 \<Rightarrow> ('m mach, unit) em" where
  "sse3a_match F M reg imm op3 =
     (if 0x08 \<le> op3 \<and> op3 \<le> 0x0B then sse_round F M reg op3 imm
      else if 0x0C \<le> op3 \<and> op3 \<le> 0x0E then
        em_bind (sse_rm M 16) (\<lambda>src. em_bind (get_xmm reg) (\<lambda>dst.
        put_xmm_reg reg (blend_imm dst src imm (if op3 = 0x0C then 4 else if op3 = 0x0D then 8 else 2))))
      else if op3 = 0x0F then sse_logic M (\<lambda>a b. palignr a b imm)
      else if 0x14 \<le> op3 \<and> op3 \<le> 0x16 then sse_pextr M reg op3 imm
      else if op3 = 0x17 then sse_extractps M reg imm
      else if op3 = 0x20 \<or> op3 = 0x22 then sse_pinsr M reg op3 imm
      else if op3 = 0x21 then sse_insertps M reg imm
      else if op3 = 0x40 \<or> op3 = 0x41 then
        em_bind (sse_rm M 16) (\<lambda>src. em_bind (get_xmm reg) (\<lambda>dst.
        put_xmm_reg reg (if op3 = 0x40 then dpps F dst src imm else dppd F dst src imm)))
      else if op3 = 0x42 then sse_logic M (\<lambda>a b. mpsadbw a b imm)
      else if 0x60 \<le> op3 \<and> op3 \<le> 0x63 then
        em_bind (get_xmm reg) (\<lambda>a. em_bind (sse_rm M 16) (\<lambda>b.
        upd_cpu (pcmpstr_of a b imm (op3 \<le> 0x61) (op3 AND 1 = 1))))
      else sse_unsupported3 0x3A op3 ''sse3a'')"

definition exec_sse_0f3a :: "host_fp \<Rightarrow> 'm memory_ops \<Rightarrow> u8 \<Rightarrow> ('m mach, unit) em" where
  "exec_sse_0f3a F M op3 =
     em_bind (read_modrm M) (\<lambda>_. em_bind (ctx_u8 M) (\<lambda>imm. em_bind (ctx cx_reg) (\<lambda>reg.
     sse3a_match F M reg imm op3)))"

end
