(* ===== verification/Vex_Lanes.thy ===== *)
theory Vex_Lanes
  imports Simd_Lanes Alu
begin

text \<open>
  \<open>cpu/src/vex.rs\<close>, the pure functions behind the VEX instructions: floating-point lanes with
  the minimum and maximum of SSE, variable shifts, blends, permutations, half precision, and the
  bit manipulation of BMI1 and BMI2.
\<close>

section \<open>Floating-point lanes\<close>

definition sse_min :: "f64 \<Rightarrow> f64 \<Rightarrow> f64" where
  "sse_min a b =
     (if f64_is_nan a \<or> f64_is_nan b \<or> f64_eq a b then b else if f64_lt a b then a else b)"

definition sse_max :: "f64 \<Rightarrow> f64 \<Rightarrow> f64" where
  "sse_max a b =
     (if f64_is_nan a \<or> f64_is_nan b \<or> f64_eq a b then b else if f64_lt b a then a else b)"

definition pfloat :: "host_fp \<Rightarrow> bool \<Rightarrow> (f64 \<Rightarrow> f64 \<Rightarrow> f64) \<Rightarrow> u128 \<Rightarrow> u128 \<Rightarrow> u128" where
  "pfloat F dbl f a b = (if dbl then map2_f64 f a b else map2_f32 (via_f64_2 F f) a b)"

definition pfloat_un :: "host_fp \<Rightarrow> bool \<Rightarrow> (f64 \<Rightarrow> f64) \<Rightarrow> u128 \<Rightarrow> u128" where
  "pfloat_un F dbl f a = (if dbl then map_f64 f a else map_f32 (via_f64 F f) a)"

definition round_packed :: "host_fp \<Rightarrow> u128 \<Rightarrow> bool \<Rightarrow> u8 \<Rightarrow> u128" where
  "round_packed F v dbl mode =
     (if dbl then map_f64 (\<lambda>x. sse_round_f64 F x mode) v else map_f32 (\<lambda>x. sse_round_f32 F x mode) v)"

section \<open>Integer lanes\<close>

definition sign_extend :: "u128 \<Rightarrow> nat \<Rightarrow> u128" where
  "sign_extend x bits = signed_drop_bit (128 - bits) (push_bit (128 - bits) x)"

definition var_shift_lane :: "u128 \<Rightarrow> u128 \<Rightarrow> nat \<Rightarrow> bool \<Rightarrow> bool \<Rightarrow> u128" where
  "var_shift_lane v counts esz arith left =
     (let bits = esz * 8; m = emask esz in
      or_lanes (16 div esz) (\<lambda>i.
        let x = drop_bit (i * bits) v AND m; c = unat (drop_bit (i * bits) counts AND m);
            r = (if bits \<le> c then
                   if arith \<and> \<not> left then if drop_bit (bits - 1) x AND 1 \<noteq> 0 then m else 0 else 0
                 else if left then push_bit c x AND m
                 else if arith then signed_drop_bit c (sign_extend x bits) AND m
                 else drop_bit c x)
        in push_bit (i * bits) r))"

definition blend_imm_wide :: "u128 \<Rightarrow> u128 \<Rightarrow> u8 \<Rightarrow> nat \<Rightarrow> u128" where
  "blend_imm_wide dst src sel4 esz =
     (let bits = esz * 8; m = emask esz in
      or_lanes (16 div esz) (\<lambda>i.
        let v = (if drop_bit i sel4 AND 1 \<noteq> 0 then drop_bit (i * bits) src AND m else drop_bit (i * bits) dst AND m)
        in push_bit (i * bits) v))"

definition pmovx_from :: "u128 \<Rightarrow> nat \<Rightarrow> nat \<Rightarrow> nat \<Rightarrow> nat \<Rightarrow> bool \<Rightarrow> u128" where
  "pmovx_from src start count src_sz dst_sz sg =
     (let sbits = src_sz * 8; dbits = dst_sz * 8; dmask = emask dst_sz in
      or_lanes count (\<lambda>i.
        let e = drop_bit ((start + i) * sbits) src AND emask src_sz;
            widened = (if sg then sign_extend e sbits AND dmask else e)
        in push_bit (i * dbits) (widened AND dmask)))"

definition dwords :: "u128 \<Rightarrow> u32 list" where
  "dwords v = [ucast v, ucast (drop_bit 32 v), ucast (drop_bit 64 v), ucast (drop_bit 96 v)]"

definition pack_dwords :: "u32 list \<Rightarrow> u128" where
  "pack_dwords ws = or_lanes (length ws) (\<lambda>i. push_bit (i * 32) (ucast (ws ! i)))"

definition qwords :: "u128 \<Rightarrow> u128 \<Rightarrow> u64 list" where
  "qwords lo hi = [ucast lo, ucast (drop_bit 64 lo), ucast hi, ucast (drop_bit 64 hi)]"

definition permq :: "u128 \<Rightarrow> u128 \<Rightarrow> u8 \<Rightarrow> u128 \<times> u128" where
  \<comment> \<open>the body of \<open>vex_permq\<close>\<close>
  "permq sl sh imm =
     (let pick = (\<lambda>k. ucast (qwords sl sh ! selector imm k)) in
      (pick 0 OR push_bit 64 (pick 1), pick 2 OR push_bit 64 (pick 3)))"

definition permd :: "u128 \<times> u128 \<Rightarrow> u128 \<times> u128 \<Rightarrow> u128 \<times> u128" where
  \<comment> \<open>the body of \<open>vex_permd\<close>: the indices, then the source\<close>
  "permd idx src =
     (let all = dwords (fst src) @ dwords (snd src);
          out = map (\<lambda>i. all ! unat (i AND 7)) (dwords (fst idx) @ dwords (snd idx))
      in (pack_dwords (take 4 out), pack_dwords (drop 4 out)))"

definition perm2 :: "u128 list \<Rightarrow> u8 \<Rightarrow> u128" where
  \<comment> \<open>the closure \<open>sel\<close> of \<open>vex_perm2i128\<close>\<close>
  "perm2 lanes ctrl = (if ctrl AND 8 \<noteq> 0 then 0 else lanes ! unat (ctrl AND 3))"

definition broadcast :: "u128 \<Rightarrow> nat \<Rightarrow> u128" where
  "broadcast elem esz = or_lanes (16 div esz) (\<lambda>i. push_bit (i * esz * 8) elem)"

definition movmsk :: "u128 \<Rightarrow> nat \<Rightarrow> nat \<Rightarrow> u64" where
  \<comment> \<open>the inner loop of the arm \<open>0x50\<close>: the sign bits of one half, from the bit \<open>at\<close> on\<close>
  "movmsk v esz at =
     or_lanes (16 div esz) (\<lambda>i. push_bit (at + i) (ucast (drop_bit ((i + 1) * esz * 8 - 1) v AND 1)))"

section \<open>Half precision\<close>

fun half_normalize :: "nat \<Rightarrow> u32 \<Rightarrow> u32 \<Rightarrow> u32 \<times> u32" where
  \<comment> \<open>the loop \<open>while m & 0x400 == 0\<close>, which shifts a nonzero mantissa at most ten times\<close>
  "half_normalize 0 m e = (m, e)"
| "half_normalize (Suc n) m e = (if m AND 0x400 = 0 then half_normalize n (push_bit 1 m) (e - 1) else (m, e))"

definition f16_to_f32 :: "u16 \<Rightarrow> u32" where
  "f16_to_f32 h =
     (let sign = push_bit 16 (ucast h AND 0x8000); exp = drop_bit 10 h AND 0x1F; mant = ucast (h AND 0x3FF) in
      if exp = 0 then
        if mant = 0 then sign
        else case half_normalize 10 mant (- 1) of (m, e) \<Rightarrow>
          sign OR push_bit 23 (127 - 15 + 1 + e) OR push_bit 13 (m AND 0x3FF)
      else if exp = 0x1F then sign OR 0x7F800000 OR push_bit 13 mant
      else sign OR push_bit 23 (ucast exp - 15 + 127) OR push_bit 13 mant)"

definition round_up :: "u32 \<Rightarrow> u32 \<Rightarrow> u32 \<Rightarrow> bool" where
  \<comment> \<open>to nearest, to even between two: whether \<open>kept\<close> grows by one\<close>
  "round_up rest halfway kept \<longleftrightarrow> halfway < rest \<or> rest = halfway \<and> kept AND 1 \<noteq> 0"

definition f32_to_f16_small :: "u16 \<Rightarrow> int \<Rightarrow> u32 \<Rightarrow> u16" where
  \<comment> \<open>the case \<open>e <= 0\<close>\<close>
  "f32_to_f16_small sign e mant =
     (if e < - 10 then sign
      else let m = mant OR 0x00800000; shift = nat (14 - e); half_shifted = drop_bit shift m;
               r = ucast half_shifted;
               r = (if round_up (m AND (push_bit shift 1 - 1)) (push_bit (shift - 1) 1) half_shifted then r + 1 else r)
           in sign OR r)"

definition f32_to_f16_normal :: "u16 \<Rightarrow> int \<Rightarrow> u32 \<Rightarrow> u16" where
  "f32_to_f16_normal sign e mant =
     (let half_mant = (ucast (drop_bit 13 mant) :: u16); half_exp = of_int e in
      if round_up (mant AND 0x1FFF) 0x1000 (ucast half_mant) then
        if half_mant + 1 = 0x400 then
          if 0x1F \<le> half_exp + 1 then sign OR 0x7C00 else sign OR push_bit 10 (half_exp + 1)
        else sign OR push_bit 10 half_exp OR (half_mant + 1)
      else sign OR push_bit 10 half_exp OR half_mant)"

definition f32_to_f16 :: "f32 \<Rightarrow> u16" where
  "f32_to_f16 f =
     (let sign = ucast (drop_bit 16 f AND 0x8000); exp = uint (drop_bit 23 f AND 0xFF); mant = f AND 0x007FFFFF;
          e = exp - 127 + 15
      in if exp = 0xFF then if mant \<noteq> 0 then sign OR 0x7E00 else sign OR 0x7C00
         else if 0x1F \<le> e then sign OR 0x7C00
         else if e \<le> 0 then f32_to_f16_small sign e mant
         else f32_to_f16_normal sign e mant)"

definition cvtph_half :: "u128 \<Rightarrow> nat \<Rightarrow> u128" where
  \<comment> \<open>four numbers of \<open>vex_cvtph2ps\<close>, from the number \<open>start\<close> on\<close>
  "cvtph_half src start =
     or_lanes 4 (\<lambda>i. push_bit (i * 32) (ucast (f16_to_f32 (ucast (drop_bit ((start + i) * 16) src AND 0xFFFF)))))"

definition cvtps_halves :: "u128 \<Rightarrow> u128 \<Rightarrow> nat \<Rightarrow> u128" where
  \<comment> \<open>the loop of \<open>vex_cvtps2ph\<close>\<close>
  "cvtps_halves sl sh n = or_lanes n (\<lambda>i.
     let bits = (if i < 4 then ucast (drop_bit (i * 32) sl) else ucast (drop_bit ((i - 4) * 32) sh))
     in push_bit (i * 16) (ucast (f32_to_f16 bits)))"

section \<open>Bit manipulation\<close>

definition pext :: "u64 \<Rightarrow> u64 \<Rightarrow> nat \<Rightarrow> u64" where
  "pext v m n =
     fst (fold (\<lambda>i (res, k).
       if bit m i then (if bit v i then res OR push_bit k 1 else res, Suc k) else (res, k)) [0..<n] (0, 0))"

definition pdep :: "u64 \<Rightarrow> u64 \<Rightarrow> nat \<Rightarrow> u64" where
  "pdep v m n =
     fst (fold (\<lambda>i (res, k).
       if bit m i then (if bit v k then res OR push_bit i 1 else res, Suc k) else (res, k)) [0..<n] (0, 0))"

definition bextr :: "u64 \<Rightarrow> u64 \<Rightarrow> nat \<Rightarrow> u64" where
  "bextr src ctrl n =
     (let start = unat (ctrl AND 0xFF); len = unat (drop_bit 8 ctrl AND 0xFF); m = alu_mask (n div 8);
          shifted = (if n \<le> start then 0 else drop_bit start src)
      in if n \<le> len then shifted AND m else if len = 0 then 0 else shifted AND (push_bit len 1 - 1))"

definition shift_bmi :: "u8 \<Rightarrow> u64 \<Rightarrow> nat \<Rightarrow> nat \<Rightarrow> u64" where
  \<comment> \<open>SHLX, SARX and SHRX, by the prefix \<open>pp\<close>\<close>
  "shift_bmi pp src cnt n =
     (let m = alu_mask (n div 8) in
      if pp = 1 then push_bit cnt src AND m
      else if pp = 3 then drop_bit cnt src
      else let sext = (if src AND push_bit (n - 1) 1 \<noteq> 0 then src OR NOT m else src)
           in signed_drop_bit cnt sext AND m)"

definition rorx :: "u64 \<Rightarrow> nat \<Rightarrow> nat \<Rightarrow> u64" where
  "rorx src k n =
     (if k = 0 then src else (drop_bit k src OR push_bit (n - k) src) AND alu_mask (n div 8))"

end
