(* ===== verification/Exec_Vex.thy ===== *)
theory Exec_Vex
  imports Exec_Sse_Ext Vex_Lanes
begin

text \<open>
  \<open>cpu/src/vex.rs\<close>: the VEX prefix, the operands of 128 and 256 bits, and the helpers that its
  three opcode maps are made of, with the bit manipulation instructions. An instruction of 128
  bits clears the upper half of its destination.
\<close>

section \<open>The prefix\<close>

record vex =
  vx_r :: u8
  vx_x :: u8
  vx_b :: u8
  vx_w :: bool
  vx_vvvv :: u8
  vx_l :: bool
  vx_pp :: u8
  vx_mmmmm :: u8

definition vx_pd :: "vex \<Rightarrow> bool" where "vx_pd v \<longleftrightarrow> vx_pp v = 1"
definition vx_f3 :: "vex \<Rightarrow> bool" where "vx_f3 v \<longleftrightarrow> vx_pp v = 2"
definition vx_f2 :: "vex \<Rightarrow> bool" where "vx_f2 v \<longleftrightarrow> vx_pp v = 3"

definition vex2 :: "u8 \<Rightarrow> vex" where
  \<comment> \<open>from the byte after \<open>0xC5\<close>\<close>
  "vex2 b1 =
     \<lparr>vx_r = NOT (drop_bit 7 b1) AND 1, vx_x = 0, vx_b = 0, vx_w = False, vx_vvvv = NOT (drop_bit 3 b1) AND 0xF,
       vx_l = (drop_bit 2 b1 AND 1 \<noteq> 0), vx_pp = b1 AND 3, vx_mmmmm = 1\<rparr>"

definition vex3 :: "u8 \<Rightarrow> u8 \<Rightarrow> vex" where
  \<comment> \<open>from the two bytes after \<open>0xC4\<close>\<close>
  "vex3 b1 b2 =
     \<lparr>vx_r = NOT (drop_bit 7 b1) AND 1, vx_x = NOT (drop_bit 6 b1) AND 1, vx_b = NOT (drop_bit 5 b1) AND 1,
       vx_w = (drop_bit 7 b2 AND 1 \<noteq> 0), vx_vvvv = NOT (drop_bit 3 b2) AND 0xF,
       vx_l = (drop_bit 2 b2 AND 1 \<noteq> 0), vx_pp = b2 AND 3, vx_mmmmm = b1 AND 0x1F\<rparr>"

definition vex32 :: "bits \<Rightarrow> vex \<Rightarrow> vex" where
  \<comment> \<open>32-bit code has eight registers\<close>
  "vex32 bts v =
     (if bts = B32 then v\<lparr>vx_r := 0, vx_x := 0, vx_b := 0, vx_vvvv := vx_vvvv v AND 7\<rparr> else v)"

definition decode_vex :: "'m memory_ops \<Rightarrow> bool \<Rightarrow> ('m mach, vex) em" where
  "decode_vex M two_byte =
     em_bind (if two_byte then em_bind (ctx_u8 M) (\<lambda>b1. em_return (vex2 b1))
              else em_bind (ctx_u8 M) (\<lambda>b1. em_bind (ctx_u8 M) (\<lambda>b2. em_return (vex3 b1 b2)))) (\<lambda>v.
     em_bind (ctx cx_bits) (\<lambda>bts.
     em_bind (ctx_u8 M) (\<lambda>op.
     em_bind (upd_ctx (\<lambda>c. c\<lparr>cx_u8_at_op := op\<rparr>)) (\<lambda>_.
     em_return (vex32 bts v)))))"

definition vex_rex :: "vex \<Rightarrow> u8" where
  "vex_rex v = 0x40 OR push_bit 3 (of_bool (vx_w v)) OR push_bit 2 (vx_r v) OR push_bit 1 (vx_x v) OR vx_b v"

definition read_modrm_vex :: "'m memory_ops \<Rightarrow> vex \<Rightarrow> ('m mach, unit) em" where
  "read_modrm_vex M v = em_bind (ctx cx_bits) (\<lambda>bts.
     em_bind (upd_pfx (\<lambda>p. p\<lparr>px_rex := vex_rex v, px_has_rex := (bts = B64)\<rparr>)) (\<lambda>_. read_modrm M))"

section \<open>Operands\<close>

definition vrm128 :: "'m memory_ops \<Rightarrow> nat \<Rightarrow> ('m mach, u128) em" where
  "vrm128 M n = em_bind (ctx (\<lambda>c. c)) (\<lambda>c. case cx_rm c of
     RmReg i \<Rightarrow> cpu (xmm_get i)
   | RmMem b d r \<Rightarrow> read_vec M (rm_addr_of c) n)"

definition vrm256 :: "'m memory_ops \<Rightarrow> ('m mach, u128 \<times> u128) em" where
  "vrm256 M = em_bind (ctx (\<lambda>c. c)) (\<lambda>c. case cx_rm c of
     RmReg i \<Rightarrow> cpu (\<lambda>s. (xmm_get i s, ymm_hi_get i s))
   | RmMem b d r \<Rightarrow> em_bind (mem_do (mo_read M (rm_addr_of c) 32)) (\<lambda>bs.
       em_return (from_le (take 16 bs), from_le (drop 16 bs))))"

definition vload_rm :: "'m memory_ops \<Rightarrow> vex \<Rightarrow> ('m mach, u128 \<times> u128) em" where
  "vload_rm M v = (if vx_l v then vrm256 M else em_bind (vrm128 M 16) (\<lambda>lo. em_return (lo, 0)))"

definition put_xmm_clear :: "u8 \<Rightarrow> u128 \<Rightarrow> ('m mach, unit) em" where
  "put_xmm_clear i v = upd_cpu (set_xmm_zero_upper i v)"

definition put_ymm :: "u8 \<Rightarrow> u128 \<Rightarrow> u128 \<Rightarrow> ('m mach, unit) em" where
  "put_ymm i lo hi = upd_cpu (set_ymm i lo hi)"

definition vstore128 :: "'m memory_ops \<Rightarrow> u128 \<Rightarrow> ('m mach, unit) em" where
  "vstore128 M v = em_bind (ctx (\<lambda>c. c)) (\<lambda>c. case cx_rm c of
     RmReg i \<Rightarrow> put_xmm_clear i v
   | RmMem b d r \<Rightarrow> mem_do (mo_write M (rm_addr_of c) (to_le 16 v)))"

definition vstore256 :: "'m memory_ops \<Rightarrow> u128 \<Rightarrow> u128 \<Rightarrow> ('m mach, unit) em" where
  "vstore256 M lo hi = em_bind (ctx (\<lambda>c. c)) (\<lambda>c. case cx_rm c of
     RmReg i \<Rightarrow> put_ymm i lo hi
   | RmMem b d r \<Rightarrow> mem_do (mo_write M (rm_addr_of c) (to_le 16 lo @ to_le 16 hi)))"

definition vstore_low :: "'m memory_ops \<Rightarrow> nat \<Rightarrow> u128 \<Rightarrow> ('m mach, unit) em" where
  "vstore_low M n v = em_bind (ctx (\<lambda>c. c)) (\<lambda>c. case cx_rm c of
     RmReg i \<Rightarrow> put_xmm_clear i (v AND low_mask n)
   | RmMem b d r \<Rightarrow> mem_do (mo_write M (rm_addr_of c) (to_le n v)))"

definition vdst :: "u8 \<Rightarrow> bool \<Rightarrow> u128 \<Rightarrow> u128 \<Rightarrow> ('m mach, unit) em" where
  "vdst reg l lo hi = (if l then put_ymm reg lo hi else put_xmm_clear reg lo)"

definition vsrc :: "vex \<Rightarrow> ('m mach, u128 \<times> u128) em" where
  "vsrc v = cpu (\<lambda>s. (xmm_get (vx_vvvv v) s, ymm_hi_get (vx_vvvv v) s))"

definition vdst_both :: "vex \<Rightarrow> u8 \<Rightarrow> (u128 \<Rightarrow> u128) \<Rightarrow> u128 \<times> u128 \<Rightarrow> ('m mach, unit) em" where
  \<comment> \<open>\<open>vdst(reg, l, f(lo), if l { f(hi) } else { 0 })\<close>\<close>
  "vdst_both v reg f p = vdst reg (vx_l v) (f (fst p)) (if vx_l v then f (snd p) else 0)"

definition vdst_both2 :: "vex \<Rightarrow> u8 \<Rightarrow> (u128 \<Rightarrow> u128 \<Rightarrow> u128) \<Rightarrow> u128 \<times> u128 \<Rightarrow> u128 \<times> u128 \<Rightarrow> ('m mach, unit) em" where
  "vdst_both2 v reg f p q = vdst reg (vx_l v) (f (fst p) (fst q)) (if vx_l v then f (snd p) (snd q) else 0)"

section \<open>Lane by lane\<close>

definition vex_lane_bin :: "'m memory_ops \<Rightarrow> vex \<Rightarrow> u8 \<Rightarrow> (u128 \<Rightarrow> u128 \<Rightarrow> u128) \<Rightarrow> ('m mach, unit) em" where
  "vex_lane_bin M v reg f = em_bind (vsrc v) (\<lambda>a. em_bind (vload_rm M v) (\<lambda>b. vdst_both2 v reg f a b))"

definition vex_unary_lane :: "'m memory_ops \<Rightarrow> vex \<Rightarrow> u8 \<Rightarrow> (u128 \<Rightarrow> u128) \<Rightarrow> ('m mach, unit) em" where
  "vex_unary_lane M v reg f = em_bind (vload_rm M v) (\<lambda>b. vdst_both v reg f b)"

definition vx_scalar :: "vex \<Rightarrow> bool" where "vx_scalar v \<longleftrightarrow> vx_f2 v \<or> vx_f3 v"
definition vx_dbl :: "vex \<Rightarrow> bool" where "vx_dbl v \<longleftrightarrow> vx_pd v \<or> vx_f2 v"

definition vload_scalar :: "'m memory_ops \<Rightarrow> vex \<Rightarrow> ('m mach, u128 \<times> u128) em" where
  \<comment> \<open>the operand of a scalar instruction, or a packed one\<close>
  "vload_scalar M v =
     (if vx_scalar v then em_bind (vrm128 M (if vx_dbl v then 8 else 4)) (\<lambda>b. em_return (b, 0)) else vload_rm M v)"

definition scalar_into :: "bool \<Rightarrow> u128 \<Rightarrow> u64 \<Rightarrow> u32 \<Rightarrow> u128" where
  \<comment> \<open>the lowest lane of \<open>base\<close> replaced by the double or the single\<close>
  "scalar_into dbl base d f = (if dbl then (base AND NOT LOW64) OR ucast d else (base AND NOT LOW32) OR ucast f)"

definition vex_farith :: "host_fp \<Rightarrow> 'm memory_ops \<Rightarrow> vex \<Rightarrow> u8 \<Rightarrow> (f64 \<Rightarrow> f64 \<Rightarrow> f64) \<Rightarrow> ('m mach, unit) em" where
  "vex_farith F M v reg f = em_bind (vsrc v) (\<lambda>a. em_bind (vload_scalar M v) (\<lambda>b.
     if vx_scalar v then
       put_xmm_clear reg (scalar_into (vx_dbl v) (fst a) (f (ucast (fst a)) (ucast (fst b)))
         (via_f64_2 F f (ucast (fst a)) (ucast (fst b))))
     else vdst_both2 v reg (pfloat F (vx_dbl v) f) a b))"

definition vex_funary :: "host_fp \<Rightarrow> 'm memory_ops \<Rightarrow> vex \<Rightarrow> u8 \<Rightarrow> (f64 \<Rightarrow> f64) \<Rightarrow> ('m mach, unit) em" where
  "vex_funary F M v reg f = em_bind (vload_scalar M v) (\<lambda>b. em_bind (vsrc v) (\<lambda>base.
     if vx_scalar v then
       put_xmm_clear reg (scalar_into (vx_dbl v) (fst base) (f (ucast (fst b))) (via_f64 F f (ucast (fst b))))
     else vdst_both v reg (pfloat_un F (vx_dbl v) f) b))"

definition vex_movss_sd :: "'m memory_ops \<Rightarrow> vex \<Rightarrow> u8 \<Rightarrow> bool \<Rightarrow> ('m mach, unit) em" where
  "vex_movss_sd M v reg store =
     (let n = (if vx_f2 v then 8 else 4); m = (if vx_f2 v then LOW64 else LOW32) in
      em_bind (ctx cx_rm) (\<lambda>rm. em_bind (vsrc v) (\<lambda>base. em_bind (cpu (xmm_get reg)) (\<lambda>cur.
      case rm of
        RmReg i \<Rightarrow>
          if store then vstore128 M ((fst base AND NOT m) OR (cur AND m))
          else em_bind (cpu (xmm_get i)) (\<lambda>x. put_xmm_clear reg ((fst base AND NOT m) OR (x AND m)))
      | RmMem b d r \<Rightarrow>
          if store then vstore_low M n (cur AND m)
          else em_bind (vrm128 M n) (\<lambda>x. put_xmm_clear reg (x AND m))))))"

definition vex_cmp :: "host_fp \<Rightarrow> 'm memory_ops \<Rightarrow> vex \<Rightarrow> u8 \<Rightarrow> ('m mach, unit) em" where
  "vex_cmp F M v reg = em_bind (vsrc v) (\<lambda>a. em_bind (vload_scalar M v) (\<lambda>b. em_bind (ctx_u8 M) (\<lambda>imm.
     if vx_scalar v then
       put_xmm_clear reg (scalar_into (vx_dbl v) (fst a)
         (if cmp_pred (ucast (fst a)) (ucast (fst b)) imm then - 1 else 0)
         (if cmp_pred (f32_as_f64 F (ucast (fst a))) (f32_as_f64 F (ucast (fst b))) imm then - 1 else 0))
     else vdst_both2 v reg (\<lambda>x y. pcmp_float F x y (vx_dbl v) imm) a b)))"

definition vex_pmovx :: "'m memory_ops \<Rightarrow> vex \<Rightarrow> u8 \<Rightarrow> nat \<Rightarrow> nat \<Rightarrow> bool \<Rightarrow> ('m mach, unit) em" where
  "vex_pmovx M v reg src_sz dst_sz sg =
     (let per_lane = 16 div dst_sz in
      if vx_l v then
        em_bind (vrm128 M 16) (\<lambda>src. put_ymm reg (pmovx_from src 0 per_lane src_sz dst_sz sg)
          (pmovx_from src per_lane per_lane src_sz dst_sz sg))
      else em_bind (vrm128 M (per_lane * src_sz)) (\<lambda>src. put_xmm_clear reg (pmovx src src_sz dst_sz sg)))"

definition vex_broadcast :: "'m memory_ops \<Rightarrow> vex \<Rightarrow> u8 \<Rightarrow> nat \<Rightarrow> ('m mach, unit) em" where
  "vex_broadcast M v reg esz = em_bind (vrm128 M esz) (\<lambda>src.
     let lane = broadcast (src AND emask esz) esz in vdst reg (vx_l v) lane (if vx_l v then lane else 0))"

definition vex_ptest_flags :: "bool \<Rightarrow> u128 \<times> u128 \<Rightarrow> u128 \<times> u128 \<Rightarrow> cpu_state \<Rightarrow> cpu_state" where
  "vex_ptest_flags l a b s =
     (let zf = (if l then (fst a AND fst b) OR (snd a AND snd b) = 0 else fst a AND fst b = 0);
          cf = (if l then (NOT (fst a) AND fst b) OR (NOT (snd a) AND snd b) = 0 else NOT (fst a) AND fst b = 0)
      in set_flag PF False (set_flag AF False (set_flag SF False (set_flag OF False
           (set_flag CF cf (set_flag ZF zf s))))))"

definition vex_ptest :: "'m memory_ops \<Rightarrow> vex \<Rightarrow> u8 \<Rightarrow> ('m mach, unit) em" where
  "vex_ptest M v reg = em_bind (cpu (\<lambda>s. (xmm_get reg s, ymm_hi_get reg s))) (\<lambda>a.
     em_bind (vload_rm M v) (\<lambda>b. upd_cpu (vex_ptest_flags (vx_l v) a b)))"

section \<open>Shifts, blends and permutations\<close>

definition vex_shift_imm :: "'m memory_ops \<Rightarrow> vex \<Rightarrow> u8 \<Rightarrow> ('m mach, unit) em" where
  "vex_shift_imm M v op = em_bind (ctx (\<lambda>c. cx_reg c AND 7)) (\<lambda>ext.
     let esz = (if op = 0x71 then 2 else if op = 0x72 then 4 else 8) in
     em_bind (vload_rm M v) (\<lambda>src. em_bind (ctx_u8 M) (\<lambda>imm.
       let count = ucast imm in
       if ext = 2 then vdst_both v (vx_vvvv v) (\<lambda>x. shift_r x esz count False) src
       else if ext = 4 then vdst_both v (vx_vvvv v) (\<lambda>x. shift_r x esz count True) src
       else if ext = 6 then vdst_both v (vx_vvvv v) (\<lambda>x. shift_l x esz count) src
       else em_fail (Unsupported (''VEX shift-imm /'' @ fmt_dec (unat ext))))))"

definition vex_shift_var :: "'m memory_ops \<Rightarrow> vex \<Rightarrow> u8 \<Rightarrow> nat \<Rightarrow> bool \<Rightarrow> bool \<Rightarrow> ('m mach, unit) em" where
  "vex_shift_var M v reg esz arith left = em_bind (vrm128 M 16) (\<lambda>c. em_bind (vsrc v) (\<lambda>d.
     let count = ucast (c AND LOW64)
     in vdst_both v reg (\<lambda>x. if left then shift_l x esz count else shift_r x esz count arith) d))"

definition vex_var_shift :: "'m memory_ops \<Rightarrow> vex \<Rightarrow> u8 \<Rightarrow> nat \<Rightarrow> bool \<Rightarrow> bool \<Rightarrow> ('m mach, unit) em" where
  "vex_var_shift M v reg esz arith left = em_bind (vsrc v) (\<lambda>d. em_bind (vload_rm M v) (\<lambda>c.
     vdst_both2 v reg (\<lambda>x y. var_shift_lane x y esz arith left) d c))"

definition vex_blend_imm :: "'m memory_ops \<Rightarrow> vex \<Rightarrow> u8 \<Rightarrow> nat \<Rightarrow> ('m mach, unit) em" where
  "vex_blend_imm M v reg esz = em_bind (vsrc v) (\<lambda>a. em_bind (vload_rm M v) (\<lambda>b. em_bind (ctx_u8 M) (\<lambda>imm.
     if vx_l v \<and> esz = 4 then
       vdst reg (vx_l v) (blend_imm_wide (fst a) (fst b) (imm AND 0x0F) esz)
         (blend_imm_wide (snd a) (snd b) (drop_bit 4 imm) esz)
     else vdst_both2 v reg (\<lambda>x y. blend_imm x y imm esz) a b)))"

definition vex_round_packed :: "host_fp \<Rightarrow> 'm memory_ops \<Rightarrow> vex \<Rightarrow> u8 \<Rightarrow> bool \<Rightarrow> ('m mach, unit) em" where
  "vex_round_packed F M v reg dbl = em_bind (vload_rm M v) (\<lambda>b. em_bind (ctx_u8 M) (\<lambda>imm.
     em_bind (interp (round_mode imm)) (\<lambda>mode. vdst_both v reg (\<lambda>x. round_packed F x dbl mode) b)))"

definition vex_round_scalar :: "host_fp \<Rightarrow> 'm memory_ops \<Rightarrow> vex \<Rightarrow> u8 \<Rightarrow> bool \<Rightarrow> ('m mach, unit) em" where
  "vex_round_scalar F M v reg dbl = em_bind (vrm128 M (if dbl then 8 else 4)) (\<lambda>src.
     em_bind (ctx_u8 M) (\<lambda>imm. em_bind (interp (round_mode imm)) (\<lambda>mode. em_bind (vsrc v) (\<lambda>base.
     put_xmm_clear reg (scalar_into dbl (fst base) (sse_round_f64 F (ucast src) mode) (sse_round_f32 F (ucast src) mode))))))"

definition vex_permq :: "'m memory_ops \<Rightarrow> u8 \<Rightarrow> ('m mach, unit) em" where
  "vex_permq M reg = em_bind (vrm256 M) (\<lambda>s. em_bind (ctx_u8 M) (\<lambda>imm.
     case permq (fst s) (snd s) imm of (lo, hi) \<Rightarrow> put_ymm reg lo hi))"

definition vex_permd :: "'m memory_ops \<Rightarrow> vex \<Rightarrow> u8 \<Rightarrow> ('m mach, unit) em" where
  "vex_permd M v reg = em_bind (vsrc v) (\<lambda>idx. em_bind (vrm256 M) (\<lambda>src.
     case permd idx src of (lo, hi) \<Rightarrow> put_ymm reg lo hi))"

definition vex_perm2i128 :: "'m memory_ops \<Rightarrow> vex \<Rightarrow> u8 \<Rightarrow> ('m mach, unit) em" where
  "vex_perm2i128 M v reg = em_bind (vsrc v) (\<lambda>a. em_bind (vrm256 M) (\<lambda>b. em_bind (ctx_u8 M) (\<lambda>imm.
     let lanes = [fst a, snd a, fst b, snd b]
     in put_ymm reg (perm2 lanes (imm AND 0x0F)) (perm2 lanes (drop_bit 4 imm)))))"

definition vex_pextr :: "'m memory_ops \<Rightarrow> u8 \<Rightarrow> nat \<Rightarrow> ('m mach, unit) em" where
  "vex_pextr M reg esz = em_bind (cpu (xmm_get reg)) (\<lambda>src. em_bind (ctx_u8 M) (\<lambda>imm. em_bind (ctx cx_rm) (\<lambda>rm.
     let v = lane64 src (unat imm mod (16 div esz) * (esz * 8)) esz in
     case rm of
       RmReg i \<Rightarrow> write_rm M (if 4 \<le> esz then esz else 4) v
     | RmMem b d r \<Rightarrow> write_rm M esz v)))"

definition vex_pinsr :: "'m memory_ops \<Rightarrow> vex \<Rightarrow> u8 \<Rightarrow> nat \<Rightarrow> ('m mach, unit) em" where
  "vex_pinsr M v reg esz = em_bind (read_rm M esz) (\<lambda>src. em_bind (ctx_u8 M) (\<lambda>imm. em_bind (vsrc v) (\<lambda>base.
     let at = unat imm mod (16 div esz) * (esz * 8)
     in put_xmm_clear reg ((fst base AND NOT (push_bit at (emask esz))) OR push_bit at (ucast src AND emask esz)))))"

section \<open>Half precision\<close>

definition vex_cvtph2ps :: "'m memory_ops \<Rightarrow> vex \<Rightarrow> u8 \<Rightarrow> ('m mach, unit) em" where
  "vex_cvtph2ps M v reg = em_bind (vrm128 M (if vx_l v then 16 else 8)) (\<lambda>src.
     vdst reg (vx_l v) (cvtph_half src 0) (if vx_l v then cvtph_half src 4 else 0))"

definition vex_cvtps2ph :: "'m memory_ops \<Rightarrow> vex \<Rightarrow> u8 \<Rightarrow> ('m mach, unit) em" where
  "vex_cvtps2ph M v reg = em_bind (cpu (\<lambda>s. (xmm_get reg s, ymm_hi_get reg s))) (\<lambda>src.
     em_bind (ctx_u8 M) (\<lambda>imm. em_bind (ctx (\<lambda>c. c)) (\<lambda>c.
       let n = (if vx_l v then 8 else 4); packed = cvtps_halves (fst src) (snd src) n in
       case cx_rm c of
         RmReg i \<Rightarrow> put_xmm_clear i packed
       | RmMem b d r \<Rightarrow> mem_do (mo_write M (rm_addr_of c) (to_le (n * 2) packed)))))"

section \<open>Bit manipulation\<close>

definition bmi_size :: "vex \<Rightarrow> nat" where
  "bmi_size v = (if vx_w v then 8 else 4)"

definition bmi_szf :: "u64 \<Rightarrow> nat \<Rightarrow> cpu_state \<Rightarrow> cpu_state" where
  "bmi_szf res sz s =
     set_flag OF False (set_flag ZF (res = 0) (set_flag SF (res AND push_bit (sz * 8 - 1) 1 \<noteq> 0) s))"

definition get_vvvv :: "vex \<Rightarrow> ('m mach, u64) em" where
  "get_vvvv v = get_gpr (vx_vvvv v) (bmi_size v)"

definition read_rm_masked :: "'m memory_ops \<Rightarrow> vex \<Rightarrow> ('m mach, u64) em" where
  "read_rm_masked M v = em_bind (read_rm M (bmi_size v)) (\<lambda>x. em_return (x AND alu_mask (bmi_size v)))"

definition bmi_andn :: "'m memory_ops \<Rightarrow> vex \<Rightarrow> ('m mach, unit) em" where
  "bmi_andn M v = em_bind (get_vvvv v) (\<lambda>a. em_bind (read_rm M (bmi_size v)) (\<lambda>src.
     let sz = bmi_size v; res = (NOT a AND src) AND alu_mask sz in
     em_bind (write_reg_field sz res) (\<lambda>_. upd_cpu (\<lambda>s. bmi_szf res sz (set_flag CF False s)))))"

definition bmi_group17_flags :: "u8 \<Rightarrow> u64 \<Rightarrow> bool \<Rightarrow> nat \<Rightarrow> cpu_state \<Rightarrow> cpu_state" where
  "bmi_group17_flags digit res cf sz s =
     (if digit = 2 then
        set_flag OF False (set_flag ZF False (set_flag SF (res AND push_bit (sz * 8 - 1) 1 \<noteq> 0) (set_flag CF cf s)))
      else bmi_szf res sz (set_flag CF cf s))"

definition bmi_group17 :: "'m memory_ops \<Rightarrow> vex \<Rightarrow> ('m mach, unit) em" where
  "bmi_group17 M v = em_bind (read_rm_masked M v) (\<lambda>src. em_bind (ctx (\<lambda>c. cx_reg c AND 7)) (\<lambda>digit.
     let sz = bmi_size v; m = alu_mask sz;
         put = (\<lambda>res cf. em_bind (put_gpr (vx_vvvv v) sz res) (\<lambda>_. upd_cpu (bmi_group17_flags digit res cf sz)))
     in if digit = 1 then put (src AND (src - 1) AND m) (src = 0)
        else if digit = 2 then put (((src - 1) XOR src) AND m) (src = 0)
        else if digit = 3 then put (- src AND src AND m) (src \<noteq> 0)
        else em_fail (Unsupported (''VEX 0F38 F3 /'' @ fmt_dec (unat digit)))))"

definition bmi_f5 :: "'m memory_ops \<Rightarrow> vex \<Rightarrow> ('m mach, unit) em" where
  "bmi_f5 M v =
     (let sz = bmi_size v; m = alu_mask sz; n = sz * 8 in
      if vx_pp v = 0 then
        em_bind (read_rm_masked M v) (\<lambda>src. em_bind (get_vvvv v) (\<lambda>ctrl.
          let idx = unat (ctrl AND 0xFF); res = (if n \<le> idx then src else src AND (push_bit idx 1 - 1)) AND m in
          em_bind (write_reg_field sz res) (\<lambda>_. upd_cpu (\<lambda>s. bmi_szf res sz (set_flag CF (n \<le> idx) s)))))
      else if vx_pp v = 2 then
        em_bind (get_vvvv v) (\<lambda>x. em_bind (read_rm_masked M v) (\<lambda>y.
          write_reg_field sz (pext (x AND m) y n AND m)))
      else if vx_pp v = 3 then
        em_bind (get_vvvv v) (\<lambda>x. em_bind (read_rm_masked M v) (\<lambda>y.
          write_reg_field sz (pdep (x AND m) y n AND m)))
      else em_fail (Unsupported ''VEX 0F38 F5 pp''))"

definition bmi_mulx :: "'m memory_ops \<Rightarrow> vex \<Rightarrow> ('m mach, unit) em" where
  "bmi_mulx M v =
     (if \<not> vx_f2 v then em_fail (Unsupported ''VEX 0F38 F6 non-F2'')
      else let sz = bmi_size v; m = alu_mask sz in
        em_bind (read_rm_masked M v) (\<lambda>src. em_bind (get_gpr 2 sz) (\<lambda>edx.
          let prod = (ucast (edx AND m) * ucast src :: u128) in
          em_bind (put_gpr (vx_vvvv v) sz (ucast prod AND m)) (\<lambda>_.
          write_reg_field sz (ucast (drop_bit (sz * 8) prod) AND m)))))"

definition bmi_f7 :: "'m memory_ops \<Rightarrow> vex \<Rightarrow> ('m mach, unit) em" where
  "bmi_f7 M v =
     (let sz = bmi_size v; m = alu_mask sz; n = sz * 8 in
      em_bind (read_rm_masked M v) (\<lambda>src. em_bind (get_vvvv v) (\<lambda>ctrl.
        if vx_pp v = 0 then
          let res = bextr src ctrl n AND m in
          em_bind (write_reg_field sz res) (\<lambda>_.
          upd_cpu (\<lambda>s. set_flag OF False (set_flag CF False (set_flag ZF (res = 0) s))))
        else write_reg_field sz (shift_bmi (vx_pp v) src (unat (ctrl AND (of_nat n - 1))) n))))"

definition bmi_rorx :: "'m memory_ops \<Rightarrow> vex \<Rightarrow> ('m mach, unit) em" where
  "bmi_rorx M v = em_bind (read_rm_masked M v) (\<lambda>src. em_bind (ctx_u8 M) (\<lambda>imm.
     let sz = bmi_size v in write_reg_field sz (rorx src (unat imm mod (sz * 8)) (sz * 8))))"

end
