(* ===== verification/Exec_Vex_Maps.thy ===== *)
theory Exec_Vex_Maps
  imports Exec_Vex
begin

text \<open>
  \<open>cpu/src/vex.rs\<close>: the opcode maps 0F, 0F 38 and 0F 3A behind the VEX prefix, and
  \<open>exec_vex\<close>. The arms that combine the second source with the operand lane by lane are the
  tables \<open>vex_0f_binary\<close> and \<open>vex_38_binary\<close>.
\<close>

section \<open>The map 0F\<close>

definition vex_0f_arith :: "u8 \<Rightarrow> (u128 \<Rightarrow> u128 \<Rightarrow> u128) option" where
  \<comment> \<open>the integer arms \<open>0xD4\<close> to \<open>0xE3\<close>\<close>
  "vex_0f_arith op =
     (if op = 0xD4 then Some (\<lambda>a b. add_sub a b 8 True) else if op = 0xFB then Some (\<lambda>a b. add_sub a b 8 False)
      else if op = 0xFC then Some (\<lambda>a b. add_sub a b 1 True) else if op = 0xFD then Some (\<lambda>a b. add_sub a b 2 True)
      else if op = 0xFE then Some (\<lambda>a b. add_sub a b 4 True) else if op = 0xF8 then Some (\<lambda>a b. add_sub a b 1 False)
      else if op = 0xF9 then Some (\<lambda>a b. add_sub a b 2 False) else if op = 0xFA then Some (\<lambda>a b. add_sub a b 4 False)
      else if op = 0xDB then Some (\<lambda>a b. a AND b) else if op = 0xDF then Some (\<lambda>a b. NOT a AND b)
      else if op = 0xEB then Some (\<lambda>a b. a OR b) else if op = 0xEF then Some (\<lambda>a b. a XOR b)
      else if op = 0x74 then Some (\<lambda>a b. pcmp a b 1 False) else if op = 0x75 then Some (\<lambda>a b. pcmp a b 2 False)
      else if op = 0x76 then Some (\<lambda>a b. pcmp a b 4 False) else if op = 0x64 then Some (\<lambda>a b. pcmp a b 1 True)
      else if op = 0x65 then Some (\<lambda>a b. pcmp a b 2 True) else if op = 0x66 then Some (\<lambda>a b. pcmp a b 4 True)
      else if op = 0xD5 then Some pmullw else if op = 0xE5 then Some (\<lambda>a b. pmulh a b True)
      else if op = 0xE4 then Some (\<lambda>a b. pmulh a b False) else if op = 0xF4 then Some pmuludq
      else if op = 0xF5 then Some pmaddwd else if op = 0xF6 then Some psadbw
      else if op = 0xDC then Some (\<lambda>a b. add_sub_sat a b 1 True False)
      else if op = 0xDD then Some (\<lambda>a b. add_sub_sat a b 2 True False)
      else if op = 0xEC then Some (\<lambda>a b. add_sub_sat a b 1 True True)
      else if op = 0xED then Some (\<lambda>a b. add_sub_sat a b 2 True True)
      else if op = 0xD8 then Some (\<lambda>a b. add_sub_sat a b 1 False False)
      else if op = 0xD9 then Some (\<lambda>a b. add_sub_sat a b 2 False False)
      else if op = 0xE8 then Some (\<lambda>a b. add_sub_sat a b 1 False True)
      else if op = 0xE9 then Some (\<lambda>a b. add_sub_sat a b 2 False True)
      else if op = 0xDA then Some (\<lambda>a b. byte_minmax a b False) else if op = 0xDE then Some (\<lambda>a b. byte_minmax a b True)
      else if op = 0xEA then Some (\<lambda>a b. int_minmax a b 2 True False)
      else if op = 0xEE then Some (\<lambda>a b. int_minmax a b 2 True True)
      else if op = 0xE0 then Some (\<lambda>a b. pavg a b 1) else if op = 0xE3 then Some (\<lambda>a b. pavg a b 2)
      else None)"

definition vex_0f_unpack :: "u8 \<Rightarrow> (u128 \<Rightarrow> u128 \<Rightarrow> u128) option" where
  \<comment> \<open>the arms \<open>0x60\<close> to \<open>0x67\<close>\<close>
  "vex_0f_unpack op =
     (if op = 0x60 then Some (\<lambda>a b. punpck a b 1 False) else if op = 0x61 then Some (\<lambda>a b. punpck a b 2 False)
      else if op = 0x62 then Some (\<lambda>a b. punpck a b 4 False) else if op = 0x6C then Some (\<lambda>a b. punpck a b 8 False)
      else if op = 0x68 then Some (\<lambda>a b. punpck a b 1 True) else if op = 0x69 then Some (\<lambda>a b. punpck a b 2 True)
      else if op = 0x6A then Some (\<lambda>a b. punpck a b 4 True) else if op = 0x6D then Some (\<lambda>a b. punpck a b 8 True)
      else if op = 0x63 then Some (\<lambda>a b. pack a b 2 True) else if op = 0x6B then Some (\<lambda>a b. pack a b 4 True)
      else if op = 0x67 then Some (\<lambda>a b. pack a b 2 False)
      else None)"

definition vex_0f_logic :: "vex \<Rightarrow> u8 \<Rightarrow> (u128 \<Rightarrow> u128 \<Rightarrow> u128) option" where
  \<comment> \<open>the arms \<open>0x54\<close> to \<open>0x57\<close>, \<open>0x14\<close> and \<open>0x15\<close>\<close>
  "vex_0f_logic v op =
     (if op = 0x54 then Some (\<lambda>a b. a AND b) else if op = 0x55 then Some (\<lambda>a b. NOT a AND b)
      else if op = 0x56 then Some (\<lambda>a b. a OR b) else if op = 0x57 then Some (\<lambda>a b. a XOR b)
      else if op = 0x14 then Some (\<lambda>a b. punpck a b (if vx_pd v then 8 else 4) False)
      else if op = 0x15 then Some (\<lambda>a b. punpck a b (if vx_pd v then 8 else 4) True)
      else None)"

definition vex_0f_binary :: "vex \<Rightarrow> u8 \<Rightarrow> (u128 \<Rightarrow> u128 \<Rightarrow> u128) option" where
  "vex_0f_binary v op =
     (case vex_0f_logic v op of Some f \<Rightarrow> Some f
      | None \<Rightarrow> case vex_0f_arith op of Some f \<Rightarrow> Some f | None \<Rightarrow> vex_0f_unpack op)"

definition vex_arith_op :: "host_fp \<Rightarrow> u8 \<Rightarrow> f64 \<Rightarrow> f64 \<Rightarrow> f64" where
  \<comment> \<open>the closures of the arms \<open>0x58\<close> to \<open>0x5F\<close>\<close>
  "vex_arith_op F op =
     (if op = 0x58 then f64_add F else if op = 0x59 then f64_mul F else if op = 0x5C then f64_sub F
      else if op = 0x5D then sse_min else if op = 0x5E then f64_div F else sse_max)"

definition vex_store :: "'m memory_ops \<Rightarrow> vex \<Rightarrow> u8 \<Rightarrow> ('m mach, unit) em" where
  "vex_store M v reg = em_bind (cpu (\<lambda>s. (xmm_get reg s, ymm_hi_get reg s))) (\<lambda>p.
     if vx_l v then vstore256 M (fst p) (snd p) else vstore128 M (fst p))"

definition vex_load :: "'m memory_ops \<Rightarrow> vex \<Rightarrow> u8 \<Rightarrow> ('m mach, unit) em" where
  "vex_load M v reg = em_bind (vload_rm M v) (\<lambda>p. vdst reg (vx_l v) (fst p) (snd p))"

definition vex_load_half :: "'m memory_ops \<Rightarrow> vex \<Rightarrow> u8 \<Rightarrow> (u128 \<Rightarrow> u128 \<Rightarrow> u128) \<Rightarrow> (u128 \<Rightarrow> u128 \<Rightarrow> u128) \<Rightarrow>
    ('m mach, unit) em" where
  "vex_load_half M v reg of_reg of_mem = em_bind (vsrc v) (\<lambda>dst. em_bind (ctx cx_rm) (\<lambda>rm. case rm of
     RmReg i \<Rightarrow> em_bind (cpu (xmm_get i)) (\<lambda>x. put_xmm_clear reg (of_reg (fst dst) x))
   | RmMem b d r \<Rightarrow> em_bind (vrm128 M 8) (\<lambda>x. put_xmm_clear reg (of_mem (fst dst) x))))"

definition vex_0f_moves :: "'m memory_ops \<Rightarrow> vex \<Rightarrow> u8 \<Rightarrow> u8 \<Rightarrow> ('m mach, unit) em" where
  \<comment> \<open>the arms \<open>0x10\<close> to \<open>0x29\<close>, \<open>0x6E\<close>, \<open>0x6F\<close>, \<open>0x7E\<close>, \<open>0x7F\<close> and \<open>0xD6\<close>\<close>
  "vex_0f_moves M v reg op =
     (let sz = (if vx_w v then 8 else 4) in
      if op = 0x10 \<or> op = 0x28 then
        if vx_scalar v then vex_movss_sd M v reg False else vex_load M v reg
      else if op = 0x11 \<or> op = 0x29 then
        if vx_scalar v then vex_movss_sd M v reg True else vex_store M v reg
      else if op = 0x12 then
        vex_load_half M v reg (\<lambda>dst x. (dst AND NOT LOW64) OR drop_bit 64 x)
          (\<lambda>dst x. (dst AND NOT LOW64) OR (x AND LOW64))
      else if op = 0x16 then
        vex_load_half M v reg (\<lambda>dst x. (dst AND LOW64) OR push_bit 64 x) (\<lambda>dst x. (dst AND LOW64) OR push_bit 64 x)
      else if op = 0x17 then em_bind (cpu (xmm_get reg)) (\<lambda>x. vstore_low M 8 (drop_bit 64 x))
      else if op = 0x6F then vex_load M v reg
      else if op = 0x7F then vex_store M v reg
      else if op = 0x6E then em_bind (read_rm M sz) (\<lambda>x. put_xmm_clear reg (ucast x AND low_mask sz))
      else if op = 0x7E then
        if vx_f3 v then em_bind (vrm128 M 8) (\<lambda>x. put_xmm_clear reg (x AND LOW64))
        else em_bind (cpu (xmm_get reg)) (\<lambda>x. write_rm M sz (ucast (x AND low_mask sz)))
      else em_bind (cpu (xmm_get reg)) (\<lambda>x. vstore_low M 8 (x AND LOW64)))"

definition vex_shuf :: "'m memory_ops \<Rightarrow> vex \<Rightarrow> u8 \<Rightarrow> ('m mach, unit) em" where
  \<comment> \<open>the arm \<open>0xC6\<close>\<close>
  "vex_shuf M v reg = em_bind (vsrc v) (\<lambda>a. em_bind (vload_rm M v) (\<lambda>b. em_bind (ctx_u8 M) (\<lambda>imm.
     if vx_pd v then
       vdst reg (vx_l v) (shufpd (fst a) (fst b) imm) (if vx_l v then shufpd (snd a) (snd b) (drop_bit 2 imm) else 0)
     else vdst_both2 v reg (\<lambda>x y. shufps x y imm) a b)))"

definition vex_pshuf :: "'m memory_ops \<Rightarrow> vex \<Rightarrow> u8 \<Rightarrow> ('m mach, unit) em" where
  \<comment> \<open>the arm \<open>0x70\<close>\<close>
  "vex_pshuf M v reg = em_bind (vload_rm M v) (\<lambda>b. em_bind (ctx_u8 M) (\<lambda>imm.
     vdst_both v reg (\<lambda>x. if vx_f2 v then pshuflw x imm else if vx_f3 v then pshufhw x imm else pshufd x imm) b))"

definition vex_comis :: "host_fp \<Rightarrow> 'm memory_ops \<Rightarrow> vex \<Rightarrow> u8 \<Rightarrow> ('m mach, unit) em" where
  \<comment> \<open>the arms \<open>0x2E\<close> and \<open>0x2F\<close>\<close>
  "vex_comis F M v reg = em_bind (vrm128 M (if vx_pd v then 8 else 4)) (\<lambda>src. em_bind (cpu (xmm_get reg)) (\<lambda>dst.
     upd_cpu (if vx_pd v then compare_flags (ucast dst) (ucast src)
              else compare_flags (f32_as_f64 F (ucast dst)) (f32_as_f64 F (ucast src)))))"

definition vex_pmovmskb :: "'m memory_ops \<Rightarrow> vex \<Rightarrow> u8 \<Rightarrow> ('m mach, unit) em" where
  \<comment> \<open>the arm \<open>0xD7\<close>\<close>
  "vex_pmovmskb M v reg = em_bind (vrm128 M 16) (\<lambda>x.
     if vx_l v then em_bind (vrm256 M) (\<lambda>p. put_gpr reg 4 (ucast (pmovmskb x OR push_bit 16 (pmovmskb (snd p)))))
     else put_gpr reg 4 (ucast (pmovmskb x)))"

definition vex_movmsk :: "'m memory_ops \<Rightarrow> vex \<Rightarrow> u8 \<Rightarrow> ('m mach, unit) em" where
  \<comment> \<open>the arm \<open>0x50\<close>\<close>
  "vex_movmsk M v reg = em_bind (vload_rm M v) (\<lambda>p.
     let esz = (if vx_pd v then 8 else 4) in
     put_gpr reg 4 (movmsk (fst p) esz 0 OR (if vx_l v then movmsk (snd p) esz (16 div esz) else 0)))"

definition vex_0f_shift :: "u8 \<Rightarrow> (nat \<times> bool \<times> bool) option" where
  \<comment> \<open>the element size and the kind (arithmetic, left) of the shifts by a register\<close>
  "vex_0f_shift op =
     (if op = 0xD1 then Some (2, False, False) else if op = 0xD2 then Some (4, False, False)
      else if op = 0xD3 then Some (8, False, False) else if op = 0xE1 then Some (2, True, False)
      else if op = 0xE2 then Some (4, True, False) else if op = 0xF1 then Some (2, False, True)
      else if op = 0xF2 then Some (4, False, True) else if op = 0xF3 then Some (8, False, True) else None)"

definition vex_0f_convert :: "host_fp \<Rightarrow> 'm memory_ops \<Rightarrow> vex \<Rightarrow> u8 \<Rightarrow> u8 \<Rightarrow> ('m mach, unit) em" where
  \<comment> \<open>the arms \<open>0x5B\<close>, \<open>0x2A\<close>, \<open>0x2C\<close>, \<open>0x2D\<close> and \<open>0x5A\<close>\<close>
  "vex_0f_convert F M v reg op =
     (let sz = (if vx_w v then 8 else 4) in
      if op = 0x5B then
        em_bind (vload_rm M v) (\<lambda>p. vdst_both v reg
          (\<lambda>x. if vx_pd v then cvtps2dq F x False else if vx_f3 v then cvtps2dq F x True else cvtdq2ps x) p)
      else if op = 0x2A then
        em_bind (read_rm M sz) (\<lambda>x. em_bind (vsrc v) (\<lambda>base.
          let src = sint (sext x sz) in
          put_xmm_clear reg (scalar_into (vx_f2 v) (fst base) (int_as_f64 src) (int_as_f32 src))))
      else if op = 0x5A then
        em_bind (vrm128 M 8) (\<lambda>src. em_bind (vsrc v) (\<lambda>base.
          put_xmm_clear reg (scalar_into (\<not> vx_f2 v) (fst base) (f32_as_f64 F (ucast src)) (f64_as_f32 F (ucast src)))))
      else
        em_bind (vrm128 M 8) (\<lambda>src.
          let f = (if vx_f2 v then ucast src else f32_as_f64 F (ucast src)) in
          write_reg_field sz (cvt_f_to_int F f (op = 0x2C) sz)))"

definition vex_unsupported :: "string \<Rightarrow> u8 \<Rightarrow> ('m mach, 'a) em" where
  "vex_unsupported omap op = em_fail (Unsupported (''VEX '' @ omap @ '' '' @ fmt_hex2 (unat op)))"

definition vex_0f :: "host_fp \<Rightarrow> 'm memory_ops \<Rightarrow> vex \<Rightarrow> u8 \<Rightarrow> u8 \<Rightarrow> ('m mach, unit) em" where
  "vex_0f F M v reg op =
     (if op \<in> {0x10, 0x28, 0x11, 0x29, 0x12, 0x16, 0x17, 0x6F, 0x7F, 0x6E, 0x7E, 0x13, 0xD6} then vex_0f_moves M v reg op
      else if op \<in> {0x58, 0x59, 0x5C, 0x5D, 0x5E, 0x5F} then vex_farith F M v reg (vex_arith_op F op)
      else if op = 0x51 then vex_funary F M v reg (f64_sqrt F)
      else case vex_0f_binary v op of
        Some f \<Rightarrow> vex_lane_bin M v reg f
      | None \<Rightarrow>
          if op = 0xC6 then vex_shuf M v reg
          else if op = 0xC2 then vex_cmp F M v reg
          else if op = 0x2E \<or> op = 0x2F then vex_comis F M v reg
          else if op = 0x70 then vex_pshuf M v reg
          else if op = 0xD7 then vex_pmovmskb M v reg
          else if op = 0x50 then vex_movmsk M v reg
          else if 0x71 \<le> op \<and> op \<le> 0x73 then vex_shift_imm M v op
          else if op \<in> {0x5B, 0x2A, 0x2C, 0x2D, 0x5A} then vex_0f_convert F M v reg op
          else case vex_0f_shift op of
            Some (esz, arith, left) \<Rightarrow> vex_shift_var M v reg esz arith left
          | None \<Rightarrow> vex_unsupported ''0F'' op)"

section \<open>The map 0F 38\<close>

definition vex_38_binary :: "u8 \<Rightarrow> (u128 \<Rightarrow> u128 \<Rightarrow> u128) option" where
  "vex_38_binary op =
     (if op = 0x00 then Some pshufb
      else if op = 0x01 then Some (\<lambda>a b. phaddsub a b 2 False False False)
      else if op = 0x02 then Some (\<lambda>a b. phaddsub a b 4 False False False)
      else if op = 0x05 then Some (\<lambda>a b. phaddsub a b 2 True False False)
      else if op = 0x06 then Some (\<lambda>a b. phaddsub a b 4 True False False)
      else if op = 0x03 then Some (\<lambda>a b. phaddsub a b 2 False True False)
      else if op = 0x07 then Some (\<lambda>a b. phaddsub a b 2 True True False)
      else if op = 0x04 then Some pmaddubsw
      else if op = 0x08 then Some (\<lambda>a b. psign a b 1) else if op = 0x09 then Some (\<lambda>a b. psign a b 2)
      else if op = 0x0A then Some (\<lambda>a b. psign a b 4) else if op = 0x0B then Some pmulhrsw
      else if op = 0x28 then Some pmuldq
      else if op = 0x29 then Some (\<lambda>a b. pcmp a b 8 False) else if op = 0x37 then Some (\<lambda>a b. pcmp a b 8 True)
      else if op = 0x2B then Some packusdw else if op = 0x40 then Some pmulld
      else if op = 0x38 then Some (\<lambda>a b. int_minmax a b 1 True False)
      else if op = 0x3C then Some (\<lambda>a b. int_minmax a b 1 True True)
      else if op = 0x39 then Some (\<lambda>a b. int_minmax a b 4 True False)
      else if op = 0x3D then Some (\<lambda>a b. int_minmax a b 4 True True)
      else if op = 0x3A then Some (\<lambda>a b. int_minmax a b 2 False False)
      else if op = 0x3E then Some (\<lambda>a b. int_minmax a b 2 False True)
      else if op = 0x3B then Some (\<lambda>a b. int_minmax a b 4 False False)
      else if op = 0x3F then Some (\<lambda>a b. int_minmax a b 4 False True)
      else None)"

definition vex_38_pmovx :: "u8 \<Rightarrow> (nat \<times> nat \<times> bool) option" where
  \<comment> \<open>the arms \<open>0x20\<close> to \<open>0x35\<close>\<close>
  "vex_38_pmovx op =
     (if 0x20 \<le> op \<and> op \<le> 0x25 then Some (fst (pmovx_sizes (op - 0x20)), snd (pmovx_sizes (op - 0x20)), True)
      else if 0x30 \<le> op \<and> op \<le> 0x35 then Some (fst (pmovx_sizes (op - 0x30)), snd (pmovx_sizes (op - 0x30)), False)
      else None)"

definition vex_38_broadcast :: "u8 \<Rightarrow> nat option" where
  "vex_38_broadcast op =
     (if op = 0x78 then Some 1 else if op = 0x79 then Some 2 else if op = 0x58 \<or> op = 0x18 then Some 4
      else if op = 0x59 \<or> op = 0x19 then Some 8 else None)"

definition vex_38_lanes :: "'m memory_ops \<Rightarrow> vex \<Rightarrow> u8 \<Rightarrow> u8 \<Rightarrow> ('m mach, unit) em" where
  \<comment> \<open>the second \<open>match\<close> of \<open>vex_0f38\<close>\<close>
  "vex_38_lanes M v reg op =
     (case vex_38_binary op of
        Some f \<Rightarrow> vex_lane_bin M v reg f
      | None \<Rightarrow>
      case vex_38_pmovx op of
        Some (src_sz, dst_sz, sg) \<Rightarrow> vex_pmovx M v reg src_sz dst_sz sg
      | None \<Rightarrow>
      case vex_38_broadcast op of
        Some esz \<Rightarrow> vex_broadcast M v reg esz
      | None \<Rightarrow>
          if 0x1C \<le> op \<and> op \<le> 0x1E then vex_unary_lane M v reg (\<lambda>x. pabs x (2 ^ unat (op - 0x1C)))
          else if op = 0x17 then vex_ptest M v reg
          else if op = 0x36 \<or> op = 0x16 then vex_permd M v reg
          else if op = 0x47 then vex_var_shift M v reg (if vx_w v then 8 else 4) False True
          else if op = 0x45 then vex_var_shift M v reg (if vx_w v then 8 else 4) False False
          else if op = 0x46 then vex_var_shift M v reg 4 True False
          else vex_unsupported ''0F38'' op)"

definition vex_0f38 :: "'m memory_ops \<Rightarrow> vex \<Rightarrow> u8 \<Rightarrow> u8 \<Rightarrow> ('m mach, unit) em" where
  "vex_0f38 M v reg op =
     (if op = 0xF2 then bmi_andn M v else if op = 0xF3 then bmi_group17 M v
      else if op = 0xF5 then bmi_f5 M v else if op = 0xF6 then bmi_mulx M v
      else if op = 0xF7 then bmi_f7 M v
      else if op = 0x13 \<and> vx_pp v = 1 then vex_cvtph2ps M v reg
      else vex_38_lanes M v reg op)"

section \<open>The map 0F 3A\<close>

definition vex_palignr :: "'m memory_ops \<Rightarrow> vex \<Rightarrow> u8 \<Rightarrow> ('m mach, unit) em" where
  \<comment> \<open>the arm \<open>0x0F\<close>, which reads its immediate first\<close>
  "vex_palignr M v reg = em_bind (ctx_u8 M) (\<lambda>imm. em_bind (vsrc v) (\<lambda>a. em_bind (vload_rm M v) (\<lambda>b.
     vdst_both2 v reg (\<lambda>x y. palignr x y imm) a b)))"

definition vex_extract128 :: "'m memory_ops \<Rightarrow> u8 \<Rightarrow> ('m mach, unit) em" where
  \<comment> \<open>the arms \<open>0x39\<close> and \<open>0x19\<close>\<close>
  "vex_extract128 M reg = em_bind (ctx_u8 M) (\<lambda>imm. em_bind (cpu (\<lambda>s. (xmm_get reg s, ymm_hi_get reg s))) (\<lambda>p.
     vstore128 M (if imm AND 1 \<noteq> 0 then snd p else fst p)))"

definition vex_insert128 :: "'m memory_ops \<Rightarrow> vex \<Rightarrow> u8 \<Rightarrow> ('m mach, unit) em" where
  \<comment> \<open>the arms \<open>0x38\<close> and \<open>0x18\<close>\<close>
  "vex_insert128 M v reg = em_bind (ctx_u8 M) (\<lambda>imm. em_bind (vsrc v) (\<lambda>d. em_bind (vrm128 M 16) (\<lambda>ins.
     if imm AND 1 \<noteq> 0 then put_ymm reg (fst d) ins else put_ymm reg ins (snd d))))"

definition vex_mpsadbw :: "'m memory_ops \<Rightarrow> vex \<Rightarrow> u8 \<Rightarrow> ('m mach, unit) em" where
  \<comment> \<open>the arm \<open>0x42\<close>\<close>
  "vex_mpsadbw M v reg = em_bind (ctx_u8 M) (\<lambda>imm. em_bind (vsrc v) (\<lambda>a. em_bind (vrm128 M 16) (\<lambda>b.
     put_xmm_clear reg (mpsadbw (fst a) b imm))))"

definition vex_0f3a :: "host_fp \<Rightarrow> 'm memory_ops \<Rightarrow> vex \<Rightarrow> u8 \<Rightarrow> u8 \<Rightarrow> ('m mach, unit) em" where
  "vex_0f3a F M v reg op =
     (if op = 0xF0 \<and> vx_f2 v then bmi_rorx M v
      else if op = 0x1D \<and> vx_pp v = 1 then vex_cvtps2ph M v reg
      else if op = 0x0F then vex_palignr M v reg
      else if op = 0x0E then vex_blend_imm M v reg 2
      else if op = 0x0C \<or> op = 0x02 then vex_blend_imm M v reg 4
      else if op = 0x0D then vex_blend_imm M v reg 8
      else if op = 0x08 then vex_round_packed F M v reg False
      else if op = 0x09 then vex_round_packed F M v reg True
      else if op = 0x0A then vex_round_scalar F M v reg False
      else if op = 0x0B then vex_round_scalar F M v reg True
      else if op = 0x00 \<or> op = 0x01 then vex_permq M reg
      else if op = 0x39 \<or> op = 0x19 then vex_extract128 M reg
      else if op = 0x38 \<or> op = 0x18 then vex_insert128 M v reg
      else if op = 0x46 \<or> op = 0x06 then vex_perm2i128 M v reg
      else if op = 0x14 then vex_pextr M reg 1
      else if op = 0x15 then vex_pextr M reg 2
      else if op = 0x16 then vex_pextr M reg (if vx_w v then 8 else 4)
      else if op = 0x20 then vex_pinsr M v reg 1
      else if op = 0x22 then vex_pinsr M v reg (if vx_w v then 8 else 4)
      else if op = 0x42 then vex_mpsadbw M v reg
      else vex_unsupported ''0F3A'' op)"

section \<open>The dispatch\<close>

definition vzero :: "bool \<Rightarrow> cpu_state \<Rightarrow> cpu_state" where
  \<comment> \<open>VZEROALL and VZEROUPPER\<close>
  "vzero l s = (if l then s\<lparr>cpu_xmm := (\<lambda>_. 0), cpu_ymm_hi := (\<lambda>_. 0)\<rparr> else s\<lparr>cpu_ymm_hi := (\<lambda>_. 0)\<rparr>)"

definition exec_vex :: "host_fp \<Rightarrow> 'm memory_ops \<Rightarrow> bool \<Rightarrow> ('m mach, unit) em" where
  "exec_vex F M two_byte =
     em_bind (decode_vex M two_byte) (\<lambda>v.
     em_bind (ctx cx_u8_at_op) (\<lambda>op.
     if vx_mmmmm v = 1 \<and> op = 0x77 then upd_cpu (vzero (vx_l v))
     else em_bind (read_modrm_vex M v) (\<lambda>_. em_bind (ctx cx_reg) (\<lambda>reg.
       if vx_mmmmm v = 1 then vex_0f F M v reg op
       else if vx_mmmmm v = 2 then vex_0f38 M v reg op
       else if vx_mmmmm v = 3 then vex_0f3a F M v reg op
       else em_fail (Unsupported (''VEX map '' @ fmt_dec (unat (vx_mmmmm v)) @ '' op '' @ fmt_hex2 (unat op)))))))"

end
