(* ===== verification/Exec_X87.thy ===== *)
theory Exec_X87
  imports Exec_0F Float_Bits
begin

text \<open>
  The x87 unit, \<open>cpu/src/x87.rs\<close>.

  The conversions: the 80-bit registers of the x87 unit are computed with as
  \<open>f64\<close>, so every operand is narrowed by \<open>ext_to_f64\<close> and every result is widened by
  \<open>f64_to_ext\<close>.
\<close>

section \<open>Between \<open>f64\<close> and 80 bits\<close>

definition ext_parts :: "f64 \<Rightarrow> u32 \<times> u64" where
  \<comment> \<open>the biased exponent and the significand with its integer bit\<close>
  "ext_parts x =
     (let exp = (ucast (drop_bit 52 x AND 0x7ff) :: u32); frac = x AND 0x000fffffffffffff in
      if exp = 0x7ff then
        (0x7fff, if frac = 0 then 0x8000000000000000 else 0x8000000000000000 OR push_bit 11 frac)
      else if exp = 0 then
        if frac = 0 then (0, 0)
        else let lead = (of_nat (leading_zeros frac) :: u32) - 11;
                 signif = shl64 frac (11 + lead + 1);
                 e = 1 - 1023 - lead - 1 + 16383
             in (e, 0x8000000000000000 OR signif)
      else (exp + (16383 - 1023), 0x8000000000000000 OR push_bit 11 frac))"

definition f64_to_ext :: "f64 \<Rightarrow> u128" where
  "f64_to_ext x =
     (case ext_parts x of (ext_exp, ext_signif) \<Rightarrow>
        push_bit 79 (ucast (drop_bit 63 x AND 1)) OR push_bit 64 (ucast ext_exp) OR ucast ext_signif)"

function exp2_loop :: "host_fp \<Rightarrow> int \<Rightarrow> f64 \<Rightarrow> f64" where
  \<comment> \<open>the two loops of \<open>exp2\<close>, of which only one runs\<close>
  "exp2_loop F k r =
     (if 0 < k then let s = min k 1000 in exp2_loop F (k - s) (f64_mul F r (push_bit 52 (of_int (1023 + s))))
      else if k < 0 then
        let s = min (- k) 1000 in exp2_loop F (k + s) (f64_mul F r (push_bit 52 (of_int (1023 - s))))
      else r)"
  by pat_completeness auto
termination by (relation "measure (\<lambda>(F, k, r). nat \<bar>k\<bar>)") (auto simp: min_def)

declare exp2_loop.simps [simp del]

definition x87_exp2 :: "host_fp \<Rightarrow> int \<Rightarrow> f64" where
  "x87_exp2 F n = (if 1100 < n then f64_inf else if n < - 1100 then f64_zero else exp2_loop F n f64_one)"

definition ext_to_f64 :: "host_fp \<Rightarrow> u128 \<Rightarrow> f64" where
  "ext_to_f64 F v =
     (let sign = bit v 79; exp = (ucast (drop_bit 64 v AND 0x7fff) :: u32); signif = (ucast v :: u64) in
      if exp = 0x7fff then
        let frac = signif AND 0x7fffffffffffffff in
        if frac = 0 then if sign then f64_neg_inf else f64_inf
        else (if sign then push_bit 63 1 else 0) OR push_bit 52 0x7ff OR drop_bit 11 frac OR 0x0008000000000000
      else if exp = 0 \<and> signif = 0 then if sign then push_bit 63 1 else 0
      else let mag = f64_mul F (int_as_f64 (uint signif)) (x87_exp2 F (uint exp - 16383 - 63))
           in if sign then f64_neg mag else mag)"

definition tag_of :: "u128 \<Rightarrow> u16" where
  "tag_of v =
     (let exp = (ucast (drop_bit 64 v AND 0x7fff) :: u32); signif = (ucast v :: u64) in
      if exp = 0 \<and> signif = 0 then 1
      else if exp = 0x7fff \<or> exp \<noteq> 0 \<and> signif AND 0x8000000000000000 = 0 \<or> exp = 0 \<and> signif \<noteq> 0 then 2
      else 0)"

definition is_ext_denormal :: "u128 \<Rightarrow> bool" where
  "is_ext_denormal v \<longleftrightarrow> (ucast (drop_bit 64 v AND 0x7fff) :: u32) = 0 \<and> (ucast v :: u64) \<noteq> 0"

definition ext_of :: "u16 \<Rightarrow> u64 \<Rightarrow> u128" where
  \<comment> \<open>the macro \<open>ext!\<close>\<close>
  "ext_of hi lo = ucast lo OR push_bit 64 (ucast hi)"

definition EXT_PI :: u128 where "EXT_PI = ext_of 0x4000 0xC90FDAA22168C235"
definition EXT_L2T :: u128 where "EXT_L2T = ext_of 0x4000 0xD49A784BCD1B8AFE"
definition EXT_L2E :: u128 where "EXT_L2E = ext_of 0x3FFF 0xB8AA3B295C17F0BC"
definition EXT_LG2 :: u128 where "EXT_LG2 = ext_of 0x3FFD 0x9A209A84FBCFF799"
definition EXT_LN2 :: u128 where "EXT_LN2 = ext_of 0x3FFE 0xB17217F7D1CF79AC"

section \<open>Rounding\<close>

definition round_half_even :: "host_fp \<Rightarrow> f64 \<Rightarrow> f64" where
  "round_half_even F x =
     (let r = f64_round F ToAway x in
      if f64_eq (f64_abs (f64_sub F x (f64_round F ToTrunc x))) f64_half
      then let f = f64_round F ToFloor x in if even (f64_as_int 64 f) then f else f64_add F f f64_one
      else r)"

definition fpu_round_int :: "host_fp \<Rightarrow> u16 \<Rightarrow> f64 \<Rightarrow> f64" where
  \<comment> \<open>in the rounding mode of the control word \<open>cw\<close>\<close>
  "fpu_round_int F cw x =
     (if \<not> f64_is_finite x then x
      else let mode = drop_bit 10 cw AND 3;
               r = (if mode = 0 then round_half_even F x else if mode = 1 then f64_round F ToFloor x
                    else if mode = 2 then f64_round F ToCeil x else f64_round F ToTrunc x)
           in if f64_eq r f64_zero \<and> f64_negative x then f64_neg_zero else r)"

definition to_signed_int :: "host_fp \<Rightarrow> u16 \<Rightarrow> f64 \<Rightarrow> nat \<Rightarrow> bool \<Rightarrow> u64" where
  "to_signed_int F cw x n chop =
     (let r = (if chop then f64_round F ToTrunc x else fpu_round_int F cw x);
          indef = of_int (- (2 ^ (if n = 2 then 15 else if n = 4 then 31 else 63)));
          lo = (if n = 2 then 0xC0E0000000000000 else if n = 4 then 0xC1E0000000000000 else 0xC3E0000000000000);
          hi = (if n = 2 then 0x40E0000000000000 else if n = 4 then 0x41E0000000000000 else 0x43E0000000000000)
      in if \<not> f64_is_finite r then indef
         else if f64_lt r lo \<or> f64_le hi r then indef
         else of_int (f64_as_int 64 r))"

definition SW_C0 :: u16 where "SW_C0 = push_bit 8 1"
definition SW_C1 :: u16 where "SW_C1 = push_bit 9 1"
definition SW_C2 :: u16 where "SW_C2 = push_bit 10 1"
definition SW_C3 :: u16 where "SW_C3 = push_bit 14 1"
definition SW_IE :: u16 where "SW_IE = push_bit 0 1"

definition prem_cc :: "f64 \<Rightarrow> u16 \<Rightarrow> u16" where
  \<comment> \<open>\<open>set_prem_cc\<close>: the low bits of the quotient\<close>
  "prem_cc q sw =
     (let qi = (of_int (f64_as_int 64 q) :: u64);
          sw = (if qi AND 1 \<noteq> 0 then sw OR SW_C1 else sw);
          sw = (if qi AND 2 \<noteq> 0 then sw OR SW_C3 else sw)
      in if qi AND 4 \<noteq> 0 then sw OR SW_C0 else sw)"

text \<open>
  \<open>cpu/src/x87.rs\<close>: the register stack and the instructions of the x87 unit, the escape codes
  \<open>0xD8\<close> to \<open>0xDF\<close>. What only touches the unit is a function on its state \<open>x87\<close>.
\<close>

section \<open>The register stack\<close>

definition fpu_read_ext :: "u8 \<Rightarrow> x87 \<Rightarrow> u128" where
  "fpu_read_ext i x = fp_st x (x87_phys i x)"

definition fpu_read :: "host_fp \<Rightarrow> u8 \<Rightarrow> x87 \<Rightarrow> f64" where
  "fpu_read F i x = ext_to_f64 F (fpu_read_ext i x)"

definition fpu_set_tag :: "3 word \<Rightarrow> u16 \<Rightarrow> x87 \<Rightarrow> x87" where
  "fpu_set_tag phys tag x =
     (let at = unat phys * 2 in
      x\<lparr>fp_tw := (fp_tw x AND NOT (push_bit at 3)) OR push_bit at (tag AND 3)\<rparr>)"

definition fpu_put :: "3 word \<Rightarrow> u128 \<Rightarrow> x87 \<Rightarrow> x87" where
  \<comment> \<open>80 bits of \<open>v\<close> into a physical register, with its tag\<close>
  "fpu_put p v x =
     (let w = v AND (push_bit 80 1 - 1) in fpu_set_tag p (tag_of w) (x\<lparr>fp_st := (fp_st x)(p := w)\<rparr>))"

definition fpu_write_ext :: "u8 \<Rightarrow> u128 \<Rightarrow> x87 \<Rightarrow> x87" where
  "fpu_write_ext i v x = fpu_put (x87_phys i x) v x"

definition fpu_write :: "u8 \<Rightarrow> f64 \<Rightarrow> x87 \<Rightarrow> x87" where
  "fpu_write i v x = fpu_write_ext i (f64_to_ext v) x"

definition fpu_push :: "u128 \<Rightarrow> x87 \<Rightarrow> x87" where
  "fpu_push v x = (let new_top = (x87_top x - 1) AND 7 in fpu_put (ucast new_top) v (x87_set_top new_top x))"

definition fpu_push_f64 :: "f64 \<Rightarrow> x87 \<Rightarrow> x87" where
  "fpu_push_f64 v x = fpu_push (f64_to_ext v) x"

definition fpu_pop :: "x87 \<Rightarrow> x87" where
  "fpu_pop x = (let tos = x87_top x in x87_set_top ((tos + 1) AND 7) (fpu_set_tag (ucast tos) 3 x))"

definition set_sw :: "u16 \<Rightarrow> bool \<Rightarrow> x87 \<Rightarrow> x87" where
  "set_sw b on x = x\<lparr>fp_sw := (if on then fp_sw x OR b else fp_sw x AND NOT b)\<rparr>"

definition clear_cc :: "x87 \<Rightarrow> x87" where
  "clear_cc x = x\<lparr>fp_sw := fp_sw x AND NOT (SW_C0 OR SW_C1 OR SW_C2 OR SW_C3)\<rparr>"

definition fpu_set_compare :: "f64 \<Rightarrow> f64 \<Rightarrow> x87 \<Rightarrow> x87" where
  "fpu_set_compare a b x =
     (let x = clear_cc x in
      if f64_is_nan a \<or> f64_is_nan b then x\<lparr>fp_sw := fp_sw x OR (SW_C0 OR SW_C2 OR SW_C3)\<rparr>
      else if f64_lt a b then set_sw SW_C0 True x
      else if f64_lt b a then x
      else set_sw SW_C3 True x)"

definition fpu_compare_eflags :: "f64 \<Rightarrow> f64 \<Rightarrow> cpu_state \<Rightarrow> cpu_state" where
  "fpu_compare_eflags a b s =
     (case (if f64_is_nan a \<or> f64_is_nan b then (True, True, True) else if f64_lt a b then (False, False, True)
            else if f64_lt b a then (False, False, False) else (True, False, False)) of
        (zf, pf, cf) \<Rightarrow>
          set_flag AF False (set_flag SF False (set_flag OF False (set_flag CF cf (set_flag PF pf (set_flag ZF zf s))))))"

section \<open>Instructions on the stack\<close>

definition fpu_arith :: "host_fp \<Rightarrow> (host_fp \<Rightarrow> f64 \<Rightarrow> f64 \<Rightarrow> f64) \<Rightarrow> u8 \<Rightarrow> u8 \<Rightarrow> u8 \<Rightarrow> x87 \<Rightarrow> x87" where
  \<comment> \<open>\<open>let r = read(a) op read(b); write(dst, r)\<close>\<close>
  "fpu_arith F f dst a b x = fpu_write dst (f F (fpu_read F a x) (fpu_read F b x)) x"

definition fpu_compare :: "host_fp \<Rightarrow> u8 \<Rightarrow> x87 \<Rightarrow> x87" where
  "fpu_compare F sti x = fpu_set_compare (fpu_read F 0 x) (fpu_read F sti x) x"

definition fxch :: "u8 \<Rightarrow> x87 \<Rightarrow> x87" where
  "fxch sti x =
     (let a = fpu_read_ext 0 x; b = fpu_read_ext sti x in
      set_sw SW_C1 False (fpu_write_ext sti a (fpu_write_ext 0 b x)))"

definition ffree :: "u8 \<Rightarrow> x87 \<Rightarrow> x87" where
  "ffree sti x = fpu_set_tag (x87_phys sti x) 3 x"

definition fcompp :: "host_fp \<Rightarrow> x87 \<Rightarrow> x87" where
  "fcompp F x = fpu_pop (fpu_pop (fpu_compare F 1 x))"

definition fxam :: "host_fp \<Rightarrow> x87 \<Rightarrow> x87" where
  "fxam F x =
     (let tag = drop_bit (unat (x87_top x) * 2) (fp_tw x) AND 3; v = fpu_read_ext 0 x;
          f = ext_to_f64 F v;
          (c3, c2, c0) = (if tag = 3 then (True, False, True) else if f64_is_nan f then (False, False, True)
            else if f64_is_infinite f then (False, True, True) else if f64_eq f f64_zero then (True, False, False)
            else if is_ext_denormal v then (True, True, False) else (False, True, False));
          x = clear_cc x; x = (if bit v 79 then set_sw SW_C1 True x else x);
          x = (if c3 then set_sw SW_C3 True x else x); x = (if c2 then set_sw SW_C2 True x else x)
      in if c0 then set_sw SW_C0 True x else x)"

definition fxtract :: "host_fp \<Rightarrow> x87 \<Rightarrow> x87" where
  "fxtract F x =
     (let v = fpu_read F 0 x in
      if f64_eq v f64_zero then fpu_push_f64 v (fpu_write 0 f64_neg_inf x)
      else if \<not> f64_is_finite v then fpu_push_f64 v (fpu_write 0 (f64_abs v) x)
      else let exp = f64_round F ToFloor (hf_log2 F (f64_abs v));
               signif = f64_div F v (x87_exp2 F (f64_as_int 32 exp))
           in fpu_push_f64 signif (fpu_write 0 exp x))"

definition fprem_with :: "host_fp \<Rightarrow> (f64 \<Rightarrow> f64) \<Rightarrow> x87 \<Rightarrow> f64 \<times> x87" where
  \<comment> \<open>\<open>fprem_value\<close> and \<open>fprem1_value\<close>, which differ in how they round the quotient\<close>
  "fprem_with F rnd x =
     (let a = fpu_read F 0 x; b = fpu_read F 1 x; x = clear_cc x in
      if f64_is_nan a \<or> f64_is_nan b then (hf_nan F, x)
      else if f64_eq b f64_zero \<or> f64_is_infinite a then (hf_nan F, set_sw SW_IE True x)
      else if f64_is_infinite b then (a, x)
      else let q = rnd (f64_div F a b) in (f64_sub F a (f64_mul F q b), x\<lparr>fp_sw := prem_cc q (fp_sw x)\<rparr>))"

definition fprem :: "host_fp \<Rightarrow> (f64 \<Rightarrow> f64) \<Rightarrow> x87 \<Rightarrow> x87" where
  "fprem F rnd x = (case fprem_with F rnd x of (r, x') \<Rightarrow> fpu_write 0 r x')"

definition f64_clamp :: "f64 \<Rightarrow> f64 \<Rightarrow> f64 \<Rightarrow> f64" where
  "f64_clamp lo hi v = (if f64_lt v lo then lo else if f64_lt hi v then hi else v)"

definition fscale_value :: "host_fp \<Rightarrow> x87 \<Rightarrow> f64" where
  "fscale_value F x =
     (let v = fpu_read F 0 x; n = f64_round F ToTrunc (fpu_read F 1 x) in
      if \<not> f64_is_finite v \<or> f64_eq v f64_zero then v
      else f64_mul F v (x87_exp2 F (f64_as_int 32 (f64_clamp (int_as_f64 (- 100000)) (int_as_f64 100000) n))))"

definition fpu_step_top :: "u8 \<Rightarrow> x87 \<Rightarrow> x87" where
  \<comment> \<open>\<open>fdecstp\<close> with \<open>-1\<close> and \<open>fincstp\<close> with \<open>1\<close>\<close>
  "fpu_step_top d x = set_sw SW_C1 False (x87_set_top ((x87_top x + d) AND 7) x)"

definition d9_e0_group :: "host_fp \<Rightarrow> u8 \<Rightarrow> (x87 \<Rightarrow> x87) option" where
  "d9_e0_group F low =
     (if low = 0 then Some (\<lambda>x. set_sw SW_C1 False (fpu_write_ext 0 (fpu_read_ext 0 x XOR push_bit 79 1) x))
      else if low = 1 then Some (\<lambda>x. set_sw SW_C1 False (fpu_write_ext 0 (fpu_read_ext 0 x AND NOT (push_bit 79 1)) x))
      else if low = 4 then Some (\<lambda>x. fpu_set_compare (fpu_read F 0 x) f64_zero x)
      else if low = 5 then Some (fxam F)
      else None)"

definition d9_e8_group :: "u8 \<Rightarrow> (x87 \<Rightarrow> x87) option" where
  "d9_e8_group low =
     map_option fpu_push
       (if low = 0 then Some (f64_to_ext f64_one) else if low = 1 then Some EXT_L2T
        else if low = 2 then Some EXT_L2E else if low = 3 then Some EXT_PI else if low = 4 then Some EXT_LG2
        else if low = 5 then Some EXT_LN2 else if low = 6 then Some (f64_to_ext f64_zero) else None)"

definition d9_f0_group :: "host_fp \<Rightarrow> u8 \<Rightarrow> x87 \<Rightarrow> x87" where
  "d9_f0_group F low x =
     (if low = 0 then fpu_write 0 (f64_sub F (hf_exp2 F (fpu_read F 0 x)) f64_one) x
      else if low = 1 then fpu_pop (fpu_write 1 (f64_mul F (fpu_read F 1 x) (hf_log2 F (fpu_read F 0 x))) x)
      else if low = 2 then
        set_sw SW_C2 False (fpu_push_f64 f64_one (fpu_write 0 (hf_tan F (fpu_read F 0 x)) x))
      else if low = 3 then fpu_pop (fpu_write 1 (hf_atan2 F (fpu_read F 1 x) (fpu_read F 0 x)) x)
      else if low = 4 then fxtract F x
      else if low = 5 then fprem F (round_half_even F) x
      else if low = 6 then fpu_step_top (- 1) x
      else fpu_step_top 1 x)"

definition d9_f8_group :: "host_fp \<Rightarrow> u8 \<Rightarrow> x87 \<Rightarrow> x87" where
  "d9_f8_group F low x =
     (let v = fpu_read F 0 x in
      if low = 0 then fprem F (f64_round F ToTrunc) x
      else if low = 1 then fpu_pop (fpu_write 1 (f64_mul F (fpu_read F 1 x) (hf_log2 F (f64_add F v f64_one))) x)
      else if low = 2 then fpu_write 0 (f64_sqrt F v) x
      else if low = 3 then set_sw SW_C2 False (fpu_push_f64 (hf_cos F v) (fpu_write 0 (hf_sin F v) x))
      else if low = 4 then fpu_write 0 (fpu_round_int F (fp_cw x) v) x
      else if low = 5 then fpu_write 0 (fscale_value F x) x
      else if low = 6 then set_sw SW_C2 False (fpu_write 0 (hf_sin F v) x)
      else set_sw SW_C2 False (fpu_write 0 (hf_cos F v) x))"

definition db_e0_group :: "u8 \<Rightarrow> (x87 \<Rightarrow> x87) option" where
  "db_e0_group low =
     (if low = 2 then Some (\<lambda>x. x\<lparr>fp_sw := fp_sw x AND NOT 0x80ff\<rparr>)
      else if low = 3 then Some (\<lambda>x. x\<lparr>fp_cw := 0x037F, fp_sw := 0, fp_tw := 0xFFFF\<rparr>)
      else if low = 0 \<or> low = 1 \<or> low = 4 then Some (\<lambda>x. x)
      else None)"

section \<open>Register forms\<close>

definition fpu_compare_pop :: "host_fp \<Rightarrow> u8 \<Rightarrow> x87 \<Rightarrow> x87" where
  "fpu_compare_pop F sti x = fpu_pop (fpu_compare F sti x)"

definition d8_form :: "host_fp \<Rightarrow> u8 \<Rightarrow> u8 \<Rightarrow> x87 \<Rightarrow> x87" where
  "d8_form F reg sti =
     (if reg = 0 then fpu_arith F f64_add 0 0 sti else if reg = 1 then fpu_arith F f64_mul 0 0 sti
      else if reg = 2 then fpu_compare F sti else if reg = 3 then fpu_compare_pop F sti
      else if reg = 4 then fpu_arith F f64_sub 0 0 sti else if reg = 5 then fpu_arith F f64_sub 0 sti 0
      else if reg = 6 then fpu_arith F f64_div 0 0 sti else fpu_arith F f64_div 0 sti 0)"

definition dc_form :: "host_fp \<Rightarrow> u8 \<Rightarrow> u8 \<Rightarrow> (x87 \<Rightarrow> x87) option" where
  "dc_form F reg sti =
     (if reg = 0 then Some (fpu_arith F f64_add sti sti 0) else if reg = 1 then Some (fpu_arith F f64_mul sti sti 0)
      else if reg = 4 then Some (fpu_arith F f64_sub sti 0 sti) else if reg = 5 then Some (fpu_arith F f64_sub sti sti 0)
      else if reg = 6 then Some (fpu_arith F f64_div sti 0 sti) else if reg = 7 then Some (fpu_arith F f64_div sti sti 0)
      else None)"

definition dd_form :: "host_fp \<Rightarrow> u8 \<Rightarrow> u8 \<Rightarrow> (x87 \<Rightarrow> x87) option" where
  "dd_form F reg sti =
     (if reg = 0 then Some (ffree sti)
      else if reg = 2 then Some (\<lambda>x. fpu_write_ext sti (fpu_read_ext 0 x) x)
      else if reg = 3 then Some (\<lambda>x. fpu_pop (fpu_write_ext sti (fpu_read_ext 0 x) x))
      else if reg = 4 then Some (fpu_compare F sti)
      else if reg = 5 then Some (fpu_compare_pop F sti)
      else None)"

definition de_form :: "host_fp \<Rightarrow> u8 \<Rightarrow> u8 \<Rightarrow> (x87 \<Rightarrow> x87) option" where
  "de_form F reg sti =
     (if reg = 2 then Some (fpu_compare_pop F sti)
      else if reg = 3 then Some (fcompp F)
      else map_option (\<lambda>f x. fpu_pop (f x)) (dc_form F reg sti))"

definition upd_x87 :: "(x87 \<Rightarrow> x87) \<Rightarrow> ('m mach, unit) em" where
  "upd_x87 f = upd_cpu (\<lambda>s. s\<lparr>cpu_x87 := f (cpu_x87 s)\<rparr>)"

definition x87_form :: "string \<Rightarrow> (x87 \<Rightarrow> x87) option \<Rightarrow> ('m mach, unit) em" where
  "x87_form why f = (case f of Some g \<Rightarrow> upd_x87 g | None \<Rightarrow> em_fail (Unsupported why))"

definition fpu_comi :: "host_fp \<Rightarrow> u8 \<Rightarrow> ('m mach, unit) em" where
  \<comment> \<open>the arms of \<open>0xDB\<close> and \<open>0xDF\<close> that compare into RFLAGS\<close>
  "fpu_comi F sti = upd_cpu (\<lambda>s. fpu_compare_eflags (fpu_read F 0 (cpu_x87 s)) (fpu_read F sti (cpu_x87 s)) s)"

definition x87_d9_form :: "host_fp \<Rightarrow> u8 \<Rightarrow> u8 \<Rightarrow> string \<Rightarrow> ('m mach, unit) em" where
  "x87_d9_form F reg sti why =
     (if reg = 0 then upd_x87 (\<lambda>x. fpu_push (fpu_read_ext sti x) x)
      else if reg = 1 then upd_x87 (fxch sti)
      else if reg = 4 then x87_form (''x87 D9 E0-group /'' @ fmt_dec (unat sti)) (d9_e0_group F sti)
      else if reg = 5 then x87_form (''x87 D9 E8-group /'' @ fmt_dec (unat sti)) (d9_e8_group sti)
      else if reg = 6 then upd_x87 (d9_f0_group F sti)
      else if reg = 7 then upd_x87 (d9_f8_group F sti)
      else em_fail (Unsupported why))"

definition x87_reg_form :: "host_fp \<Rightarrow> u8 \<Rightarrow> u8 \<Rightarrow> u8 \<Rightarrow> ('m mach, unit) em" where
  "x87_reg_form F esc reg sti =
     (let why = ''x87 reg-form esc='' @ fmt_hex (unat esc) @ '' /'' @ fmt_dec (unat reg) @ '' st'' @ fmt_dec (unat sti) in
      if esc = 0xD8 then upd_x87 (d8_form F reg sti)
      else if esc = 0xD9 then x87_d9_form F reg sti why
      else if esc = 0xDB \<and> (reg = 5 \<or> reg = 6) then fpu_comi F sti
      else if esc = 0xDF \<and> (reg = 5 \<or> reg = 6) then em_bind (fpu_comi F sti) (\<lambda>_. upd_x87 fpu_pop)
      else if esc = 0xDB \<and> reg = 4 then x87_form (''x87 DB E0-group /'' @ fmt_dec (unat sti)) (db_e0_group sti)
      else if esc = 0xDF \<and> reg = 4 then em_bind (cpu (\<lambda>s. fp_sw (cpu_x87 s))) (\<lambda>sw. put_gpr 0 2 (ucast sw))
      else if esc = 0xDC then x87_form why (dc_form F reg sti)
      else if esc = 0xDD then x87_form why (dd_form F reg sti)
      else if esc = 0xDE then x87_form why (de_form F reg sti)
      else em_fail (Unsupported why))"

section \<open>Memory forms\<close>

definition x87_mem_arith :: "host_fp \<Rightarrow> u8 \<Rightarrow> f64 \<Rightarrow> x87 \<Rightarrow> x87" where
  "x87_mem_arith F reg v x =
     (let a = fpu_read F 0 x in
      if reg = 0 then fpu_write 0 (f64_add F a v) x else if reg = 1 then fpu_write 0 (f64_mul F a v) x
      else if reg = 2 then fpu_set_compare a v x else if reg = 3 then fpu_pop (fpu_set_compare a v x)
      else if reg = 4 then fpu_write 0 (f64_sub F a v) x else if reg = 5 then fpu_write 0 (f64_sub F v a) x
      else if reg = 6 then fpu_write 0 (f64_div F a v) x else fpu_write 0 (f64_div F v a) x)"

definition fpu_top :: "host_fp \<Rightarrow> ('m mach, f64) em" where
  "fpu_top F = cpu (\<lambda>s. fpu_read F 0 (cpu_x87 s))"

definition fpu_top_int :: "host_fp \<Rightarrow> nat \<Rightarrow> bool \<Rightarrow> ('m mach, u64) em" where
  "fpu_top_int F n chop = cpu (\<lambda>s. to_signed_int F (fp_cw (cpu_x87 s)) (fpu_read F 0 (cpu_x87 s)) n chop)"

definition x87_then_pop :: "('m mach, unit) em \<Rightarrow> ('m mach, unit) em" where
  "x87_then_pop m = em_bind m (\<lambda>_. upd_x87 fpu_pop)"

definition x87_d9_mem :: "host_fp \<Rightarrow> 'm memory_ops \<Rightarrow> u8 \<Rightarrow> u64 \<Rightarrow> ('m mach, unit) em" where
  "x87_d9_mem F M reg addr =
     (let store = em_bind (fpu_top F) (\<lambda>v. mem_do (mem_write_u32 M addr (f64_as_f32 F v))) in
      if reg = 0 then em_bind (mem_do (mem_read_u32 M addr)) (\<lambda>v. upd_x87 (fpu_push_f64 (f32_as_f64 F v)))
      else if reg = 2 then store
      else if reg = 3 then x87_then_pop store
      else if reg = 5 then em_bind (mem_do (mem_read_u16 M addr)) (\<lambda>v. upd_x87 (\<lambda>x. x\<lparr>fp_cw := v\<rparr>))
      else if reg = 7 then em_bind (cpu (\<lambda>s. fp_cw (cpu_x87 s))) (\<lambda>v. mem_do (mem_write_u16 M addr v))
      else em_fail (Unsupported (''x87 D9 mem /'' @ fmt_dec (unat reg))))"

definition read_ext :: "'m memory_ops \<Rightarrow> u64 \<Rightarrow> ('m, u128) em" where
  "read_ext M addr = em_bind (mem_read_u64 M addr) (\<lambda>lo. em_bind (mem_read_u16 M (addr + 8)) (\<lambda>hi.
     em_return (ucast lo OR push_bit 64 (ucast hi))))"

definition write_ext :: "'m memory_ops \<Rightarrow> u64 \<Rightarrow> u128 \<Rightarrow> ('m, unit) em" where
  "write_ext M addr v = em_bind (mem_write_u64 M addr (ucast v)) (\<lambda>_.
     mem_write_u16 M (addr + 8) (ucast (drop_bit 64 v)))"

definition x87_db_mem :: "host_fp \<Rightarrow> 'm memory_ops \<Rightarrow> u8 \<Rightarrow> u64 \<Rightarrow> ('m mach, unit) em" where
  "x87_db_mem F M reg addr =
     (let store = (\<lambda>chop. em_bind (fpu_top_int F 4 chop) (\<lambda>v. mem_do (mem_write_u32 M addr (ucast v)))) in
      if reg = 0 then em_bind (mem_do (mem_read_u32 M addr)) (\<lambda>v. upd_x87 (fpu_push_f64 (int_as_f64 (sint v))))
      else if reg = 1 then x87_then_pop (store True)
      else if reg = 2 then store False
      else if reg = 3 then x87_then_pop (store False)
      else if reg = 5 then em_bind (mem_do (read_ext M addr)) (\<lambda>v. upd_x87 (fpu_push v))
      else if reg = 7 then
        x87_then_pop (em_bind (cpu (\<lambda>s. fpu_read_ext 0 (cpu_x87 s))) (\<lambda>v. mem_do (write_ext M addr v)))
      else em_fail (Unsupported (''x87 DB mem /'' @ fmt_dec (unat reg))))"

definition x87_dd_mem :: "host_fp \<Rightarrow> 'm memory_ops \<Rightarrow> u8 \<Rightarrow> u64 \<Rightarrow> ('m mach, unit) em" where
  "x87_dd_mem F M reg addr =
     (let store = em_bind (fpu_top F) (\<lambda>v. mem_do (mem_write_u64 M addr v)) in
      if reg = 0 then em_bind (mem_do (mem_read_u64 M addr)) (\<lambda>v. upd_x87 (fpu_push_f64 v))
      else if reg = 1 then x87_then_pop (em_bind (fpu_top_int F 8 True) (\<lambda>v. mem_do (mem_write_u64 M addr v)))
      else if reg = 2 then store
      else if reg = 3 then x87_then_pop store
      else if reg = 7 then em_bind (cpu (\<lambda>s. fp_sw (cpu_x87 s))) (\<lambda>v. mem_do (mem_write_u16 M addr v))
      else em_fail (Unsupported (''x87 DD mem /'' @ fmt_dec (unat reg))))"

definition x87_df_mem :: "host_fp \<Rightarrow> 'm memory_ops \<Rightarrow> u8 \<Rightarrow> u64 \<Rightarrow> ('m mach, unit) em" where
  "x87_df_mem F M reg addr =
     (let store = (\<lambda>chop. em_bind (fpu_top_int F 2 chop) (\<lambda>v. mem_do (mem_write_u16 M addr (ucast v)))) in
      if reg = 0 then em_bind (mem_do (mem_read_u16 M addr)) (\<lambda>v. upd_x87 (fpu_push_f64 (int_as_f64 (sint v))))
      else if reg = 1 then x87_then_pop (store True)
      else if reg = 2 then store False
      else if reg = 3 then x87_then_pop (store False)
      else if reg = 5 then em_bind (mem_do (mem_read_u64 M addr)) (\<lambda>v. upd_x87 (fpu_push_f64 (int_as_f64 (sint v))))
      else if reg = 7 then x87_then_pop (em_bind (fpu_top_int F 8 False) (\<lambda>v. mem_do (mem_write_u64 M addr v)))
      else em_fail (Unsupported (''x87 DF mem /'' @ fmt_dec (unat reg))))"

definition x87_mem_form :: "host_fp \<Rightarrow> 'm memory_ops \<Rightarrow> u8 \<Rightarrow> u8 \<Rightarrow> u64 \<Rightarrow> ('m mach, unit) em" where
  "x87_mem_form F M esc reg addr =
     (if esc = 0xD8 then em_bind (mem_do (mem_read_u32 M addr)) (\<lambda>v. upd_x87 (x87_mem_arith F reg (f32_as_f64 F v)))
      else if esc = 0xD9 then x87_d9_mem F M reg addr
      else if esc = 0xDB then x87_db_mem F M reg addr
      else if esc = 0xDC then em_bind (mem_do (mem_read_u64 M addr)) (\<lambda>v. upd_x87 (x87_mem_arith F reg v))
      else if esc = 0xDD then x87_dd_mem F M reg addr
      else if esc = 0xDF then x87_df_mem F M reg addr
      else em_fail (Unsupported (''x87 mem esc='' @ fmt_hex (unat esc) @ '' /'' @ fmt_dec (unat reg))))"

definition exec_x87 :: "host_fp \<Rightarrow> 'm memory_ops \<Rightarrow> u8 \<Rightarrow> ('m mach, unit) em" where
  "exec_x87 F M esc =
     em_bind (ctx_u8 M) (\<lambda>modrm.
       let reg = drop_bit 3 modrm AND 7 in
       if drop_bit 6 modrm = 3 then x87_reg_form F esc reg (modrm AND 7)
       else em_bind (upd_ctx (\<lambda>c. c\<lparr>cx_cur := cx_cur c - 1\<rparr>)) (\<lambda>_.
            em_bind (read_modrm M) (\<lambda>_.
            em_bind (ctx (\<lambda>c. c)) (\<lambda>c. case cx_rm c of
              RmMem b d r \<Rightarrow> x87_mem_form F M esc reg (rm_addr_of c)
            | RmReg i \<Rightarrow> em_panic ''internal error: entered unreachable code: mod!=3 decoded as register''))))"

end
