(* ===== verification/Units_Sound.thy ===== *)
theory Units_Sound
  imports Exec_Vex_Maps Exec_X87 Run_Theorems
begin

text \<open>
  The complete CPU: the record of the x87, SSE and VEX units that the dispatch of \<open>execute_one\<close>
  reaches, and the proof that every instruction of them keeps the invariant of the machine, as the
  integer instructions do.
\<close>

definition cpu_units :: "host_fp \<Rightarrow> 'm memory_ops \<Rightarrow> 'm ext_units" where
  "cpu_units F M = \<lparr>eu_x87 = exec_x87 F M, eu_vex = exec_vex F M, eu_sse = exec_sse F M,
     eu_sse_0f38 = exec_sse_0f38 M, eu_sse_0f3a = exec_sse_0f3a F M\<rparr>"

section \<open>Flags and registers\<close>

lemma rflags_vectors [simp]:
  "cpu_rflags (set_xmm_keep_upper i v c) = cpu_rflags c" "cpu_rflags (set_xmm_zero_upper i v c) = cpu_rflags c"
  "cpu_rflags (set_ymm i v w c) = cpu_rflags c" "cpu_rflags (vzero l c) = cpu_rflags c"
  by (simp_all add: set_xmm_keep_upper_def set_xmm_zero_upper_def set_ymm_def vzero_def)

lemma flags_kept_vectors [sound_intros]:
  "flags_kept (set_xmm_keep_upper i v)" "flags_kept (set_xmm_zero_upper i v)" "flags_kept (set_ymm i v w)"
  "flags_kept (vzero l)" "flags_kept (compare_flags a b)" "flags_kept (ptest_flags x y)"
  "flags_kept (vex_ptest_flags l p q)" "flags_kept (bmi_group17_flags d r cf sz)"
  "flags_kept (\<lambda>s. bmi_szf r sz (set_flag CF cf s))" "flags_kept (pcmpstr_of x y imm ex ix)"
  "flags_kept (\<lambda>s. fpu_compare_eflags (g s) (h s) s)"
  "flags_kept (\<lambda>s. set_flag OF o1 (set_flag CF o2 (set_flag ZF o3 s)))"
  by (simp_all add: flags_kept_def compare_flags_def ptest_flags_def vex_ptest_flags_def bmi_group17_flags_def
      bmi_szf_def pcmpstr_of_def str_flags_def fpu_compare_eflags_def Let_def split: prod.split)

lemma sound_vector_writes [sound_intros]:
  "sound (mach_fit minv macc k) (put_xmm_reg i v)" "sound (mach_fit minv macc k) (put_xmm_clear i v)"
  "sound (mach_fit minv macc k) (put_ymm i v w)" "sound (mach_fit minv macc k) (vdst i l v w)"
  "sound (mach_fit minv macc k) (vdst_both vx i f p)" "sound (mach_fit minv macc k) (vdst_both2 vx i g p q)"
  "sound (mach_fit minv macc k) (upd_x87 u)" "sound P (get_xmm i)" "sound P (vsrc vx)" "sound P (get_vvvv vx)"
  "sound P (sse_unsupported op1 why)" "sound P (sse_unsupported3 e op1 why)" "sound P (vex_unsupported why op1)"
  unfolding put_xmm_reg_def put_xmm_clear_def put_ymm_def vdst_def vdst_both_def vdst_both2_def upd_x87_def
    get_xmm_def vsrc_def get_vvvv_def sse_unsupported_def sse_unsupported3_def vex_unsupported_def
  by (intro sound_intros)+

lemma sound_sse_kind [sound_intros]:
  "sound P a \<Longrightarrow> sound P b \<Longrightarrow> sound P c \<Longrightarrow> sound P d \<Longrightarrow>
    sound P (case kind of Ps \<Rightarrow> a | Pd \<Rightarrow> b | Ss \<Rightarrow> c | Sd \<Rightarrow> d)"
  by (cases kind) simp_all

lemma sound_upd_if [sound_intros]:
  "sound P (upd_cpu f) \<Longrightarrow> sound P (upd_cpu g) \<Longrightarrow> sound P (upd_cpu (if b then f else g))"
  by simp

context bounded_memory
begin

section \<open>SSE\<close>

lemma sound_vectors:
  "sound (mach_fit inv acc k) (read_vec M a n)" "sound (mach_fit inv acc k) (sse_rm M n)"
  "sound (mach_fit inv acc k) (sse_store_full M v)" "sound (mach_fit inv acc k) (sse_store_low M n v)"
  "sound (mach_fit inv acc k) (mov_scalar_load M r n)"
proof -
  show read: "sound (mach_fit inv acc k) (read_vec M a n)" for a n
    unfolding read_vec_def by (intro sound_intros mem_sound)
  show rm: "sound (mach_fit inv acc k) (sse_rm M n)" for n unfolding sse_rm_def by (intro sound_intros read)
  show "sound (mach_fit inv acc k) (sse_store_full M v)" "sound (mach_fit inv acc k) (sse_store_low M n v)"
    "sound (mach_fit inv acc k) (mov_scalar_load M r n)"
    unfolding sse_store_full_def sse_store_low_def mov_scalar_load_def by (intro sound_intros mem_sound rm)+
qed

lemma sound_sse_arms:
  "sound (mach_fit inv acc k) (sse_logic M g)" "sound (mach_fit inv acc k) (sse_arith F M kind f)"
  "sound (mach_fit inv acc k) (sse_unary F M kind u)" "sound (mach_fit inv acc k) (sse_load M reg)"
  "sound (mach_fit inv acc k) (sse_store M reg)" "sound (mach_fit inv acc k) (sse_load_half M reg h1 h2)"
  "sound (mach_fit inv acc k) (sse_moves M kind reg op)" "sound (mach_fit inv acc k) (sse_moves_int M kind reg op)"
  "sound (mach_fit inv acc k) (sse_from_int M kind reg)" "sound (mach_fit inv acc k) (sse_to_int F M kind op)"
  "sound (mach_fit inv acc k) (sse_comis F M kind reg)" "sound (mach_fit inv acc k) (sse_scalar_width F M kind reg op)"
  "sound (mach_fit inv acc k) (sse_packed_int F M kind reg op)" "sound (mach_fit inv acc k) (sse_movmsk M kind op)"
  "sound (mach_fit inv acc k) (sse_cmp F M kind reg)" "sound (mach_fit inv acc k) (sse_pinsrw M reg)"
  "sound (mach_fit inv acc k) (sse_pextrw M)" "sound (mach_fit inv acc k) (sse_pshuf M kind reg op)"
  "sound (mach_fit inv acc k) (sse_shuf M kind reg)" "sound (mach_fit inv acc k) (sse_shift_imm M op)"
  unfolding sse_logic_def sse_arith_def sse_unary_def sse_load_def sse_store_def sse_load_half_def sse_moves_def
    sse_moves_int_def sse_from_int_def sse_to_int_def sse_comis_def sse_scalar_width_def sse_packed_int_def
    sse_movmsk_def sse_cmp_def sse_pinsrw_def sse_pextrw_def sse_pshuf_def sse_shuf_def sse_shift_imm_def Let_def
  by (intro sound_intros step_sound sound_vectors)+

lemma sound_exec_sse: "sound (mach_fit inv acc k) (exec_sse F M op)"
  unfolding exec_sse_def exec_sse_match_def
  by (intro sound_intros step_sound sound_vectors sound_sse_arms)

lemma sound_sse38: "sound (mach_fit inv acc k) (exec_sse_0f38 M op)"
  unfolding exec_sse_0f38_def crc32_def sse38_match_def sse_phaddsub_def sse_pmovx_def Let_def
  by (intro sound_intros step_sound sound_vectors sound_sse_arms)

lemma sound_sse3a: "sound (mach_fit inv acc k) (exec_sse_0f3a F M op)"
  unfolding exec_sse_0f3a_def sse3a_match_def sse_round_def sse_pextr_def sse_extractps_def sse_pinsr_def
    sse_insertps_def Let_def
  by (intro sound_intros step_sound sound_vectors sound_sse_arms)

section \<open>VEX\<close>

lemma sound_vex_operands:
  "sound (mach_fit inv acc k) (vrm128 M n)" "sound (mach_fit inv acc k) (vrm256 M)"
  "sound (mach_fit inv acc k) (vload_rm M v)" "sound (mach_fit inv acc k) (vload_scalar M v)"
  "sound (mach_fit inv acc k) (vstore128 M x)" "sound (mach_fit inv acc k) (vstore256 M x y)"
  "sound (mach_fit inv acc k) (vstore_low M n x)" "sound (mach_fit inv acc k) (read_rm_masked M v)"
  unfolding vload_rm_def vload_scalar_def vload_rm_def vrm128_def vrm256_def vstore128_def vstore256_def
    vstore_low_def read_rm_masked_def
  by (intro sound_intros step_sound sound_vectors)+

lemma sound_vex_lanes:
  "sound (mach_fit inv acc k) (vex_lane_bin M v reg g)" "sound (mach_fit inv acc k) (vex_unary_lane M v reg u)"
  "sound (mach_fit inv acc k) (vex_farith F M v reg f)" "sound (mach_fit inv acc k) (vex_funary F M v reg h)"
  "sound (mach_fit inv acc k) (vex_movss_sd M v reg st)" "sound (mach_fit inv acc k) (vex_cmp F M v reg)"
  "sound (mach_fit inv acc k) (vex_pmovx M v reg sz dz sg)" "sound (mach_fit inv acc k) (vex_broadcast M v reg sz)"
  "sound (mach_fit inv acc k) (vex_ptest M v reg)"
  unfolding vex_lane_bin_def vex_unary_lane_def vex_farith_def vex_funary_def vex_movss_sd_def vex_cmp_def
    vex_pmovx_def vex_broadcast_def vex_ptest_def Let_def
  by (intro sound_intros step_sound sound_vex_operands)+

lemma sound_vex_shuffles:
  "sound (mach_fit inv acc k) (vex_shift_imm M v op)" "sound (mach_fit inv acc k) (vex_shift_var M v reg sz ar lf)"
  "sound (mach_fit inv acc k) (vex_var_shift M v reg sz ar lf)" "sound (mach_fit inv acc k) (vex_blend_imm M v reg sz)"
  "sound (mach_fit inv acc k) (vex_round_packed F M v reg dbl)" "sound (mach_fit inv acc k) (vex_round_scalar F M v reg dbl)"
  "sound (mach_fit inv acc k) (vex_permq M reg)" "sound (mach_fit inv acc k) (vex_permd M v reg)"
  "sound (mach_fit inv acc k) (vex_perm2i128 M v reg)" "sound (mach_fit inv acc k) (vex_pextr M reg sz)"
  "sound (mach_fit inv acc k) (vex_pinsr M v reg sz)" "sound (mach_fit inv acc k) (vex_cvtph2ps M v reg)"
  "sound (mach_fit inv acc k) (vex_cvtps2ph M v reg)"
  unfolding vex_shift_imm_def vex_shift_var_def vex_var_shift_def vex_blend_imm_def vex_round_packed_def
    vex_round_scalar_def vex_permq_def vex_permd_def vex_perm2i128_def vex_pextr_def vex_pinsr_def
    vex_cvtph2ps_def vex_cvtps2ph_def Let_def
  by (intro sound_intros step_sound sound_vex_operands)+

lemma sound_bmi:
  "sound (mach_fit inv acc k) (bmi_andn M v)" "sound (mach_fit inv acc k) (bmi_group17 M v)"
  "sound (mach_fit inv acc k) (bmi_f5 M v)" "sound (mach_fit inv acc k) (bmi_mulx M v)"
  "sound (mach_fit inv acc k) (bmi_f7 M v)" "sound (mach_fit inv acc k) (bmi_rorx M v)"
  unfolding bmi_andn_def bmi_group17_def bmi_f5_def bmi_mulx_def bmi_f7_def bmi_rorx_def Let_def
  by (intro sound_intros step_sound sound_vex_operands)+

lemma sound_vex_0f: "sound (mach_fit inv acc k) (vex_0f F M v reg op)"
  unfolding vex_0f_def vex_0f_moves_def vex_load_def vex_store_def vex_load_half_def vex_shuf_def vex_comis_def
    vex_pshuf_def vex_pmovmskb_def vex_movmsk_def vex_0f_convert_def Let_def
  by (intro sound_intros step_sound sound_vex_operands sound_vex_lanes sound_vex_shuffles)

lemma sound_vex_0f38: "sound (mach_fit inv acc k) (vex_0f38 M v reg op)"
  unfolding vex_0f38_def vex_38_lanes_def
  by (intro sound_intros sound_bmi sound_vex_lanes sound_vex_shuffles)

lemma sound_vex_0f3a: "sound (mach_fit inv acc k) (vex_0f3a F M v reg op)"
  unfolding vex_0f3a_def vex_palignr_def vex_extract128_def vex_insert128_def vex_mpsadbw_def
  by (intro sound_intros step_sound sound_bmi sound_vex_operands sound_vex_shuffles)

lemma sound_exec_vex: "sound (mach_fit inv acc k) (exec_vex F M two)"
  unfolding exec_vex_def decode_vex_def read_modrm_vex_def
  by (intro sound_intros step_sound sound_vex_0f sound_vex_0f38 sound_vex_0f3a) simp_all

section \<open>The x87 unit\<close>

lemma sound_x87_memory:
  "sound (mach_fit inv acc k) (mem_do (read_ext M a))" "sound (mach_fit inv acc k) (mem_do (write_ext M a v))"
proof -
  show "sound (mach_fit inv acc k) (mem_do (read_ext M a))"
    unfolding read_ext_def by (intro sound_mem sound_intros sound_reads)
  show "sound (mach_fit inv acc k) (mem_do (write_ext M a v))"
    unfolding write_ext_def by (intro sound_mem sound_intros sound_reads)
qed

lemma sound_x87_forms:
  "sound (mach_fit inv acc k) (x87_reg_form F esc reg sti)" "sound (mach_fit inv acc k) (x87_mem_form F M esc reg addr)"
  unfolding x87_reg_form_def x87_form_def fpu_comi_def x87_d9_form_def x87_mem_form_def x87_d9_mem_def x87_db_mem_def
    x87_dd_mem_def x87_df_mem_def x87_then_pop_def fpu_top_def fpu_top_int_def Let_def
  by (intro sound_intros mem_sound sound_x87_memory)+

text \<open>
  \<open>exec_x87\<close> decides between a register and a memory form by the mode bits, steps back and
  decodes the same byte again: its \<open>unreachable!\<close> arm cannot be reached.
\<close>

lemma ctx_u8_again:
  assumes inv: "inv (mc_mem s)" and u8: "ctx_u8 M s = (Inr b, t)"
  shows "fst (ctx_u8 M (t\<lparr>mc_ctx := (mc_ctx t)\<lparr>cx_cur := cx_cur (mc_ctx t) - 1\<rparr>\<rparr>)) = Inr b"
proof (cases "unat (cx_cur (mc_ctx s) - cx_ibuf_base (mc_ctx s)) < cx_ibuf_n (mc_ctx s)")
  case True
  with u8 show ?thesis
    by (auto simp: ctx_u8_def ctx_take_def em_bind_def mach_laws em_apply Let_def)
next
  case False
  obtain r m where f: "mo_fetch M (cx_cur (mc_ctx s)) 1 (mc_mem s) = (r, m)" by fastforce
  from u8 f False obtain bs where r: "r = Inr bs" "b = bs ! 0"
      "t = s\<lparr>mc_mem := m, mc_ctx := (mc_ctx s)\<lparr>cx_cur := cx_cur (mc_ctx s) + 1\<rparr>\<rparr>"
    by (auto simp: ctx_u8_def ctx_u8_slow_def ctx_take_def em_bind_def mach_laws em_apply Let_def split: sum.splits)
  have keep: "inv m" "space m = space (mc_mem s)" "acc m = acc (mc_mem s)"
    using fetch_keeps [OF inv, of "cx_cur (mc_ctx s)" 1] f by simp_all
  have acc: "acc (mc_mem s) PERM_EXEC (cx_cur (mc_ctx s)) 1"
    using fetch_err [OF inv, of 1 "cx_cur (mc_ctx s)"] f r(1) by auto
  then have "bs = bytes_at (space (mc_mem s)) (cx_cur (mc_ctx s)) 1"
    using fetch_ok [OF inv, of 1 "cx_cur (mc_ctx s)"] f r(1) by simp
  with acc keep have "fst (mo_fetch M (cx_cur (mc_ctx s)) 1 m) = Inr bs"
    using fetch_ok [OF keep(1), of 1 "cx_cur (mc_ctx s)"] by simp
  then obtain m' where "mo_fetch M (cx_cur (mc_ctx s)) 1 m = (Inr bs, m')" by (metis prod.collapse)
  with False r show ?thesis
    by (simp add: ctx_u8_def ctx_u8_slow_def ctx_take_def em_bind_def mach_laws em_apply Let_def)
qed

end

definition sets_mem :: "('m mach, unit) em \<Rightarrow> bool" where
  \<comment> \<open>a computation that returns only with a memory operand decoded\<close>
  "sets_mem m \<longleftrightarrow> (\<forall>s t. m s = (Inr (), t) \<longrightarrow> (\<exists>b d r. cx_rm (mc_ctx t) = RmMem b d r))"

lemma sets_mem_bind: "(\<And>a. sets_mem (f a)) \<Longrightarrow> sets_mem (em_bind m f)"
  by (auto simp: sets_mem_def em_bind_def split: prod.splits sum.splits)

lemma sets_mem_if: "(b \<Longrightarrow> sets_mem m) \<Longrightarrow> (\<not> b \<Longrightarrow> sets_mem n) \<Longrightarrow> sets_mem (if b then m else n)"
  by simp

lemma sets_mem_set: "sets_mem (set_rm (RmMem b d r))"
  by (auto simp: sets_mem_def set_rm_def mach_laws)

definition read_modrm_of :: "'m memory_ops \<Rightarrow> u8 \<Rightarrow> ('m mach, unit) em" where
  \<comment> \<open>\<open>read_modrm\<close> after its first byte\<close>
  "read_modrm_of M modrm = em_bind (ctx cx_pfx) (\<lambda>p.
     em_bind (upd_ctx (\<lambda>c. c\<lparr>cx_reg := (drop_bit 3 modrm AND 7) OR push_bit 3 (px_r p)\<rparr>)) (\<lambda>_.
       if drop_bit 6 modrm = 3 then set_rm (RmReg ((modrm AND 7) OR push_bit 3 (px_b p)))
       else if modrm AND 7 = 4 then modrm_sib M (drop_bit 6 modrm)
       else if modrm AND 7 = 5 \<and> drop_bit 6 modrm = 0 then modrm_abs M
       else em_bind (cpu (reg_at ((modrm AND 7) OR push_bit 3 (px_b p)))) (\<lambda>base.
            modrm_disp M (drop_bit 6 modrm) base)))"

lemma read_modrm_split: "read_modrm M = em_bind (ctx_u8 M) (read_modrm_of M)"
  unfolding read_modrm_def read_modrm_of_def Let_def ..

lemma sets_mem_modrm: "drop_bit 6 modrm \<noteq> 3 \<Longrightarrow> sets_mem (read_modrm_of M modrm)"
  unfolding read_modrm_of_def modrm_sib_def modrm_abs_def modrm_disp_def Let_def
  by (intro sets_mem_bind sets_mem_if sets_mem_set; simp)

definition ends_well :: "('s \<Rightarrow> bool) \<Rightarrow> (stop + 'a) \<times> 's \<Rightarrow> bool" where
  \<comment> \<open>the outcome of one run of a \<open>sound\<close> computation\<close>
  "ends_well P o1 \<longleftrightarrow> P (snd o1) \<and> (\<forall>x. fst o1 = Inl x \<longrightarrow> benign x)"

lemma sound_ends: "sound P m \<Longrightarrow> P s \<Longrightarrow> ends_well P (m s)"
  by (simp add: sound_def ends_well_def)

lemma sound_ends_all: "(\<And>s. P s \<Longrightarrow> ends_well P (m s)) \<Longrightarrow> sound P m"
  by (simp add: sound_def ends_well_def)

lemma ends_well_bind:
  "ends_well P (m s) \<Longrightarrow> (\<And>a t. m s = (Inr a, t) \<Longrightarrow> P t \<Longrightarrow> ends_well P (f a t)) \<Longrightarrow> ends_well P (em_bind m f s)"
  by (cases "m s") (auto simp: ends_well_def em_bind_def split: sum.split)

context bounded_memory
begin

lemma ends_x87_memory:
  assumes ok: "mach_fit inv acc k s" and b: "fst (ctx_u8 M s) = Inr b" "drop_bit 6 b \<noteq> 3"
  shows "ends_well (mach_fit inv acc k) (em_bind (read_modrm M) (\<lambda>_. em_bind (ctx (\<lambda>c. c)) (\<lambda>c. case cx_rm c of
      RmMem b d r \<Rightarrow> x87_mem_form F M esc reg (rm_addr_of c) | RmReg i \<Rightarrow> em_panic why)) s)"
proof (rule ends_well_bind)
  show "ends_well (mach_fit inv acc k) (read_modrm M s)" by (rule sound_ends [OF sound_read_modrm ok])
  fix a t assume t: "read_modrm M s = (Inr a, t)" "mach_fit inv acc k t"
  obtain u where "ctx_u8 M s = (Inr b, u)" using b(1) by (metis prod.collapse)
  with t(1) have "read_modrm_of M b u = (Inr (), t)" by (simp add: read_modrm_split em_bind_def)
  with sets_mem_modrm [OF b(2), of M, unfolded sets_mem_def] obtain p d r where
    "cx_rm (mc_ctx t) = RmMem p d r" by blast
  then show "ends_well (mach_fit inv acc k) (em_bind (ctx (\<lambda>c. c)) (\<lambda>c. case cx_rm c of
      RmMem b d r \<Rightarrow> x87_mem_form F M esc reg (rm_addr_of c) | RmReg i \<Rightarrow> em_panic why) t)"
    using sound_ends [OF sound_x87_forms(2) t(2)] by (simp add: em_bind_def mach_laws em_apply)
qed

lemma sound_exec_x87: "sound (mach_fit inv acc k) (exec_x87 F M esc)"
proof (rule sound_ends_all)
  fix s assume ok: "mach_fit inv acc k s"
  show "ends_well (mach_fit inv acc k) (exec_x87 F M esc s)"
    unfolding exec_x87_def Let_def
  proof (rule ends_well_bind)
    show "ends_well (mach_fit inv acc k) (ctx_u8 M s)" by (rule sound_ends [OF sound_ctx_u8 ok])
    fix b t assume b: "ctx_u8 M s = (Inr b, t)" and t: "mach_fit inv acc k t"
    let ?undo = "upd_ctx (\<lambda>c. c\<lparr>cx_cur := cx_cur c - 1\<rparr>) :: ('a mach, unit) em"
    have undo: "sound (mach_fit inv acc k) ?undo" by (intro sound_upd_ctx) simp
    have "inv (mc_mem s)" using ok by (simp add: mach_fit_def)
    from ctx_u8_again [OF this b] have again: "?undo t = (Inr a, u) \<Longrightarrow> fst (ctx_u8 M u) = Inr b" for a u
      by (auto simp: mach_laws em_apply)
    show "ends_well (mach_fit inv acc k) ((if drop_bit 6 b = 3 then x87_reg_form F esc (drop_bit 3 b AND 7) (b AND 7)
        else em_bind ?undo (\<lambda>_. em_bind (read_modrm M) (\<lambda>_. em_bind (ctx (\<lambda>c. c)) (\<lambda>c. case cx_rm c of
          RmReg i \<Rightarrow> em_panic ''internal error: entered unreachable code: mod!=3 decoded as register''
        | RmMem p d r \<Rightarrow> x87_mem_form F M esc (drop_bit 3 b AND 7) (rm_addr_of c))))) t)"
    proof (cases "drop_bit 6 b = 3")
      case True
      then show ?thesis using sound_ends [OF sound_x87_forms(1) t] by simp
    next
      case False
      show ?thesis
        unfolding if_not_P [OF False]
        by (rule ends_well_bind, rule sound_ends [OF undo t]) (rule ends_x87_memory, assumption, erule again, rule False)
    qed
  qed
qed

lemma sound_cpu_units: "units_sound (mach_fit inv acc k) (cpu_units F M)"
  by (simp add: units_sound_def cpu_units_def sound_exec_x87 sound_exec_sse sound_sse38 sound_sse3a sound_exec_vex)

end

section \<open>Runs of the complete CPU\<close>

text \<open>
  C36: Along every run of the complete CPU, every instruction of the integer, MMX, x87, SSE and VEX
  units included, memory, MXCSR and XCR0 stay well-formed, also after a last step that fails,
  whatever floating-point functions the host provides. The hooks of the embedder (interception and
  system calls) must keep the memory well-formed; apart from that they may fail, panic, and change
  registers, flags, the clock and the memory as they like, as the services of the operating system
  do. Under hooks that besides leave the clock alone, keep the reserved bits of RFLAGS and do not
  panic, RFLAGS stays well-formed too, and the clock has retired exactly one instruction per step.
\<close>

theorem cpu_invariant:
  assumes "cpu_runs H (cpu_units F (vm_ops alloc)) (vm_ops alloc) n r s" "hooks_keep (\<lambda>x. True) vm_ok H"
    and "runner_fit vm_ok r"
  shows "runner_fit vm_ok s \<and>
    runner_fit vm_ok (snd (cpu_step H (cpu_units F (vm_ops alloc)) (vm_ops alloc) s)) \<and>
    (\<forall>k. hooks_sound vm_ok H \<longrightarrow> runner_ok vm_ok k r \<longrightarrow> runner_ok vm_ok ((retire_one ^^ n) k) s)"
proof (intro conjI allI impI)
  show s: "runner_fit vm_ok s"
    using vtop.cpu_runs_fit [OF assms(1,2) _ vtop.sound_cpu_units assms(3)] by simp
  show "runner_fit vm_ok (snd (cpu_step H (cpu_units F (vm_ops alloc)) (vm_ops alloc) s))"
    using soundD [OF vtop.cpu_step_fit [OF assms(2) _ vtop.sound_cpu_units] s] by simp
  show "runner_ok vm_ok ((retire_one ^^ n) k) s" if "hooks_sound vm_ok H" "runner_ok vm_ok k r" for k
    using vtop.cpu_runs_ok [OF assms(1) that(1) _ that(2)] vtop.sound_cpu_units [where k = "Some k" for k]
    unfolding fit_ok by blast
qed

definition demo_fp :: host_fp where
  \<comment> \<open>a host that gives the default quiet NaN of AArch64; its elementary functions are placeholders\<close>
  "demo_fp = \<lparr>hf_nan = 0x7FF8000000000000, hf_nan1 = (\<lambda>a. a OR 0x0008000000000000), hf_nan2 = (\<lambda>a b. 0x7FF8000000000000),
     hf_nan1_32 = (\<lambda>a. a OR 0x00400000), hf_nan2_32 = (\<lambda>a b. 0x7FC00000), hf_narrow = (\<lambda>a. 0x7FC00000),
     hf_widen = (\<lambda>a. 0x7FF8000000000000), hf_log2 = id, hf_exp2 = id, hf_sin = id, hf_cos = id, hf_tan = id,
     hf_atan2 = (\<lambda>a b. a)\<rparr>"

definition sleep_hooks :: "(unit, 'm) hooks" where
  \<comment> \<open>an embedder with one service, at 0x400020: it sleeps for 5 ms and goes on behind\<close>
  "sleep_hooks = \<lparr>hk_intercept = (\<lambda>a (h, c, k, m).
       if a = 0x400020 then (Inr (Some Continue), h, c\<lparr>cpu_rip := a + 1\<rparr>, credit_ms 5 k, m) else (Inr None, h, c, k, m)),
     hk_syscall = (\<lambda>i. em_return (Interrupt 0x80))\<rparr>"

lemma sleep_hooks_keep: "hooks_keep (\<lambda>x. True) vm_ok sleep_hooks"
  by (auto simp: hooks_keep_def sleep_hooks_def sound_for_def world_ok_def em_apply)

theorem cpu_invariant_witness:
  "\<exists>s. cpu_runs sleep_hooks (cpu_units demo_fp (vm_ops (\<lambda>_. True))) (vm_ops (\<lambda>_. True)) 2 call_runner s \<and>
    cpu_rip (it_state (mc_it (rn_mach s))) = 0x400021 \<and> runner_fit vm_ok s"
proof -
  let ?s = "(rn_mach call_runner)\<lparr>mc_it := (mc_it (rn_mach call_runner))
    \<lparr>it_clock := retire_one (it_clock (mc_it (rn_mach call_runner)))\<rparr>\<rparr>"
  let ?U = "cpu_units demo_fp (vm_ops (\<lambda>_. True))"
  have s: "mc_mem ?s = call_vm" "stack_width (mc_it ?s) = 8" "addr_mask (mc_it ?s) = - 1"
    "cpu_rsp (it_state (mc_it ?s)) = 0x400040" "cpu_rip (it_state (mc_it ?s)) = 0x400000"
    by (simp_all add: call_runner_def call_demo_simps [simplified addr_mask_def stack_width_def] addr_mask_def stack_width_def)
  obtain t where t: "execute_one ?U (vm_ops (\<lambda>_. True)) ?s = (Inr Continue, t)" "cpu_rip (it_state (mc_it t)) = 0x400020"
    using vmem.execute_call [of ?s ?U "\<lambda>_. True", unfolded s] call_vm_ok call_vm_acc call_vm_space
    by (auto simp: sx32_def)
  have one: "cpu_step sleep_hooks ?U (vm_ops (\<lambda>_. True)) call_runner = (Inr Continue, call_runner\<lparr>rn_mach := t\<rparr>)"
    using t(1) s(5)
    by (simp add: cpu_step_def with_mach_def em_bind_def em_apply mach_laws sleep_hooks_def with_world_def Let_def)
  obtain u where u: "cpu_step sleep_hooks ?U (vm_ops (\<lambda>_. True)) (call_runner\<lparr>rn_mach := t\<rparr>) = (Inr Continue, u)"
      "cpu_rip (it_state (mc_it (rn_mach u))) = 0x400021"
    using t(2) by (simp add: cpu_step_def with_mach_def em_bind_def em_apply mach_laws sleep_hooks_def with_world_def Let_def)
  have "cpu_runs sleep_hooks ?U (vm_ops (\<lambda>_. True)) (Suc (Suc 0)) call_runner u"
    by (rule cpu_runs.step [OF cpu_runs.step [OF cpu_runs.start one] u(1)])
  with cpu_invariant [OF this sleep_hooks_keep runner_fit_ok [OF call_runner_ok]] u(2) show ?thesis
    by (auto simp: numeral_2_eq_2)
qed

end
