(* ===== verification/X87_Theorems.thy ===== *)
theory X87_Theorems
  imports Exec_X87
begin

text \<open>
  What the 80-bit registers of the x87 unit keep of a double: the laws of rounding for numbers
  that the format holds exactly, and the exact round trip of a load and a store of 64 bits.
\<close>

section \<open>Exact numbers\<close>

lemma nat_bits_unique: "2 ^ k \<le> n \<Longrightarrow> n < 2 ^ Suc k \<Longrightarrow> nat_bits n = Suc k"
proof (induction k arbitrary: n)
  case 0
  then have "n = 1" by simp
  then show ?case by (simp add: nat_bits.simps)
next
  case (Suc k)
  then have "nat_bits (n div 2) = Suc k" by (intro Suc.IH) auto
  moreover have "n \<noteq> 0" using Suc.prems(1) by (cases "n = 0") auto
  ultimately show ?case by (simp add: nat_bits.simps [of n])
qed

lemma round_even_exact: "round_even (m * 2 ^ k) k = m"
  by (simp add: round_even_def)

lemma fp_magnitude_exact:
  assumes "2 ^ p \<le> m" "m < 2 ^ Suc p" "fp_low p w \<le> f"
  shows "fp_magnitude p w (m * 2 ^ j) (f - int j) =
    min (nat (f - fp_low p w) * 2 ^ p + m) ((2 ^ w - 1) * 2 ^ p)"
proof -
  have bits: "nat_bits (m * 2 ^ j) = Suc (p + j)"
    using assms(1,2) by (intro nat_bits_unique) (simp_all add: power_add)
  have last: "fp_last p w (m * 2 ^ j) (f - int j) = f"
    using assms(3) by (simp add: fp_last_def bits)
  have m: "m * 2 ^ j \<noteq> 0" using assms(1) by (cases "m = 0") auto
  have "(if f \<le> f - int j then m * 2 ^ j * 2 ^ nat (f - int j - f) else round_even (m * 2 ^ j) (nat (f - (f - int j)))) = m"
    by (cases "j = 0") (simp_all add: round_even_exact)
  then show ?thesis using m by (simp only: fp_magnitude_def last Let_def if_False)
qed

lemma low64: "fp_low 52 11 = - 1074"
  by (simp add: fp_low_def fp_bias_def)

definition f64_of :: "bool \<Rightarrow> nat \<Rightarrow> nat \<Rightarrow> f64" where
  \<comment> \<open>a pattern by its sign, its biased exponent and its fraction\<close>
  "f64_of s ex fr = of_nat ((of_bool s * 2048 + ex) * 2 ^ 52 + fr)"

lemma fields_of_nat:
  assumes "ex < k" "fr < (p :: nat)"
  shows "(of_bool s * k + ex) * p + fr < 2 * k * p" "((of_bool s * k + ex) * p + fr) div p = of_bool s * k + ex"
    "((of_bool s * k + ex) * p + fr) mod p = fr" "(of_bool s * k + ex) mod k = ex" "(of_bool s * k + ex) div k = of_bool s"
proof -
  have "(of_bool s * k + ex + 1) * p \<le> (2 * k) * p" using assms(1) by (intro mult_le_mono1) (cases s; simp)
  then show "(of_bool s * k + ex) * p + fr < 2 * k * p" using assms(2) by (simp add: algebra_simps)
qed (use assms in simp_all)

lemma f64_fields:
  assumes "ex < 2048" "fr < 2 ^ 52"
  shows "unat (f64_of s ex fr) = (of_bool s * 2048 + ex) * 2 ^ 52 + fr"
proof -
  have "(of_bool s * 2048 + ex) * 2 ^ 52 + fr < 2 ^ 64" using fields_of_nat(1) [OF assms, of s] by simp
  moreover have "LENGTH(64) = 64" by simp
  ultimately show ?thesis unfolding f64_of_def unat_of_nat by (simp only: mod_less)
qed

lemma div_fields:
  assumes "ex < 2048" "fr < 2 ^ 52"
  shows "((of_bool s * 2048 + ex) * 2 ^ 52 + fr) div 2 ^ (52 + 11) = (of_bool s :: nat)"
    "((of_bool s * 2048 + ex) * 2 ^ 52 + fr) div 2 ^ 52 mod 2 ^ 11 = (ex :: nat)"
proof -
  have "(2 :: nat) ^ (52 + 11) = 2 ^ 52 * 2048" by simp
  then show "((of_bool s * 2048 + ex) * 2 ^ 52 + fr) div 2 ^ (52 + 11) = (of_bool s :: nat)"
    by (simp only: div_mult2_eq fields_of_nat [OF assms])
  have "(2 :: nat) ^ 11 = 2048" by simp
  then show "((of_bool s * 2048 + ex) * 2 ^ 52 + fr) div 2 ^ 52 mod 2 ^ 11 = (ex :: nat)"
    by (simp only: fields_of_nat [OF assms])
qed

lemma f64_val_of:
  assumes "ex < 2047" "fr < 2 ^ 52"
  shows "f64_val (f64_of s ex fr) =
    (if ex = 0 then FpNum s fr (- 1074) else FpNum s (2 ^ 52 + fr) (int ex - 1075))"
proof -
  have ex: "ex < 2048" using assms(1) by simp
  have "odd (of_bool s :: nat) = s" "(ex = 2 ^ 11 - 1) = False" using assms(1) by simp_all
  moreover have "- 1074 + int ex - 1 = int ex - 1075" by simp
  ultimately show ?thesis
    by (simp only: f64_val_def fp_decode_def f64_fields [OF ex assms(2)] div_fields [OF ex assms(2)]
        fields_of_nat(3) [OF ex assms(2)] low64 Let_def if_False)
qed

lemma pack_exact:
  \<comment> \<open>a number that the format holds is packed as it is, however it is written\<close>
  assumes "2 ^ 52 \<le> m" "m < 2 ^ 53" "1 \<le> ex" "ex < 2047"
  shows "f64_pack nan (FpNum s (m * 2 ^ j) (int ex - 1075 - int j)) = f64_of s ex (m - 2 ^ 52)"
proof -
  have low: "fp_low 52 11 \<le> int ex - 1075" "nat (int ex - 1075 - fp_low 52 11) = ex - 1"
    using assms(3) by (simp_all add: low64)
  have lim: "(ex - 1) * 2 ^ 52 + m \<le> (2 ^ 11 - 1) * 2 ^ 52"
  proof -
    have "(ex - 1) * 2 ^ 52 + m \<le> (ex - 1) * 2 ^ 52 + 2 * 2 ^ 52" using assms(2) by simp
    also have "\<dots> = (ex - 1 + 2) * 2 ^ 52" by (simp only: add_mult_distrib)
    also have "\<dots> \<le> (2 ^ 11 - 1) * 2 ^ 52" using assms(3,4) by (intro mult_le_mono1) simp
    finally show ?thesis .
  qed
  have eq: "(ex - 1) * 2 ^ 52 + m = ex * 2 ^ 52 + (m - 2 ^ 52)"
    using assms(1,3) by (cases ex) simp_all
  have "fp_magnitude 52 11 (m * 2 ^ j) (int ex - 1075 - int j) = ex * 2 ^ 52 + (m - 2 ^ 52)"
    using fp_magnitude_exact [of 52 m 11 "int ex - 1075" j] assms(1,2) low lim eq by simp
  then show ?thesis
    by (simp add: f64_pack_def fp_encode_def f64_of_def add_mult_distrib)
qed

section \<open>Powers of two\<close>

lemma val_pow: "1 \<le> ex \<Longrightarrow> ex < 2047 \<Longrightarrow> f64_val (f64_of False ex 0) = FpNum False (2 ^ 52) (int ex - 1075)"
  by (subst f64_val_of) simp_all

lemma val_tiny: "i < 52 \<Longrightarrow> f64_val (f64_of False 0 (2 ^ i)) = FpNum False (2 ^ i) (- 1074)"
  using power_strict_increasing [of i 52 "2 :: nat"] by (subst f64_val_of) simp_all

lemma pow_words:
  "f64_one = f64_of False 1023 0" "f64_zero = f64_of False 0 0"
  "- 1023 \<le> k \<Longrightarrow> push_bit 52 (of_int (1023 + k)) = f64_of False (nat (1023 + k)) 0"
proof -
  show "f64_one = f64_of False 1023 0" by (simp add: f64_one_def f64_of_def)
  show "f64_zero = f64_of False 0 0" by (simp add: f64_zero_def f64_of_def)
  assume "- 1023 \<le> k"
  then have "(of_int (1023 + k) :: f64) = of_nat (nat (1023 + k))" by (simp add: of_nat_nat [symmetric])
  then show "push_bit 52 (of_int (1023 + k)) = f64_of False (nat (1023 + k)) 0"
    by (simp only: f64_of_def push_bit_eq_mult) simp
qed

lemma fp_mul_pow:
  "f64_mul F (f64_of False a 0) (f64_of False b 0) =
    f64_pack (hf_nan2 F (f64_of False a 0) (f64_of False b 0)) (FpNum False (2 ^ 52 * 2 ^ 52) (int a + int b - 2150))"
  if "1 \<le> a" "a < 2047" "1 \<le> b" "b < 2047"
  using that by (simp add: f64_mul_def val_pow)

lemma mul_pow:
  assumes "1 \<le> a" "a < 2047" "1 \<le> b" "b < 2047" "1024 \<le> a + b" "a + b < 3070"
  shows "f64_mul F (f64_of False a 0) (f64_of False b 0) = f64_of False (a + b - 1023) 0"
proof -
  have "int a + int b - 2150 = int (a + b - 1023) - 1075 - int 52" using assms(5) by linarith
  moreover have "1 \<le> a + b - 1023" "a + b - 1023 < 2047" using assms(5,6) by simp_all
  ultimately show ?thesis
    using pack_exact [of "2 ^ 52" "a + b - 1023" _ False 52] assms(1-4) by (simp only: fp_mul_pow) simp
qed

lemma tiny_magnitude:
  \<comment> \<open>below the smallest normal number the product is rounded to a multiple of \<open>2^-1074\<close>\<close>
  assumes "- 1137 \<le> n" "n < - 1022"
  shows "fp_magnitude 52 11 (2 ^ 52 * 2 ^ 52) (n - 104) = (if n < - 1074 then 0 else 2 ^ nat (n + 1074))"
proof -
  have pow: "(2 :: nat) ^ 52 * 2 ^ 52 = 2 ^ 104" by (simp only: power_add [symmetric]) simp
  have bits: "nat_bits (2 ^ 104) = Suc 104" by (intro nat_bits_unique) simp_all
  have last: "fp_last 52 11 (2 ^ 104) (n - 104) = - 1074"
    using assms(2) by (simp only: fp_last_def bits low64)
  obtain k where k: "nat (- 1074 - (n - 104)) = k" by simp
  have round: "round_even (2 ^ 104) k = (if 104 < k then 0 else 2 ^ (104 - k))"
  proof (cases "104 < k")
    case True
    then have "(2 :: nat) ^ 104 * 2 \<le> 2 ^ k" using power_increasing [of 105 k "2 :: nat"] by simp
    then show ?thesis using True by (simp add: round_even_def)
  next
    case False
    then have "(2 :: nat) ^ 104 = 2 ^ (104 - k) * 2 ^ k" by (simp only: power_add [symmetric]) simp
    then show ?thesis using False round_even_exact [of "2 ^ (104 - k)" k] by (simp only:) simp
  qed
  have "nat (n + 1074) \<le> 52" using assms by simp
  then have "(2 :: nat) ^ nat (n + 1074) \<le> 2 ^ 52" by (intro power_increasing) simp_all
  then have "(2 :: nat) ^ nat (n + 1074) \<le> (2 ^ 11 - 1) * 2 ^ 52" by simp
  moreover have "fp_magnitude 52 11 (2 ^ 104) (n - 104) = min (round_even (2 ^ 104) k) ((2 ^ 11 - 1) * 2 ^ 52)"
  proof -
    have "((2 :: nat) ^ 104 = 0) = False" "(- 1074 \<le> n - 104) = False" "nat (- 1074 - - 1074) = 0" using assms(2) by simp_all
    then show ?thesis by (simp only: fp_magnitude_def last Let_def k low64 mult_0 add_0 if_False)
  qed
  moreover have "n < - 1074 \<longleftrightarrow> 104 < k" "\<not> n < - 1074 \<Longrightarrow> 104 - k = nat (n + 1074)"
    using assms k by linarith+
  ultimately show ?thesis
    by (cases "n < - 1074") (simp_all only: pow round if_True if_False min_0L min_absorb1 simp_thms)
qed

lemma exp2_loop_0: "exp2_loop F 0 r = r"
  by (simp add: exp2_loop.simps)

lemma exp2_once: "- 1000 \<le> k \<Longrightarrow> k \<le> 1000 \<Longrightarrow> k \<noteq> 0 \<Longrightarrow>
    exp2_loop F k r = f64_mul F r (f64_of False (nat (1023 + k)) 0)"
  using pow_words(3) [of k]
  by (subst exp2_loop.simps) (auto simp: exp2_loop_0 Let_def min_def)

lemma exp2_twice:
  assumes "- 1100 \<le> k" "k < - 1000"
  shows "exp2_loop F k r = f64_mul F (f64_mul F r (f64_of False 23 0)) (f64_of False (nat (2023 + k)) 0)"
proof -
  have "min (- k) 1000 = 1000" "\<not> 0 < k" "k < 0" using assms by simp_all
  then have "exp2_loop F k r = exp2_loop F (k + 1000) (f64_mul F r (push_bit 52 (of_int (1023 - 1000))))"
    by (subst exp2_loop.simps) (simp only: if_True if_False Let_def)
  also have "push_bit 52 (of_int (1023 - 1000)) = f64_of False 23 0"
    using pow_words(3) [of "- 1000"] by simp
  finally show ?thesis using assms exp2_once [of "k + 1000" F] by (simp add: add.commute)
qed

lemma exp2_val:
  assumes "- 1137 \<le> n" "n \<le> 1000"
  shows "f64_val (x87_exp2 F n) =
    (if n < - 1074 then FpNum False 0 (- 1074)
     else if n < - 1022 then FpNum False (2 ^ nat (n + 1074)) (- 1074) else FpNum False (2 ^ 52) (n - 52))"
proof (cases "n < - 1000")
  case False
  then have "x87_exp2 F n = f64_of False (nat (1023 + n)) 0"
    using assms mul_pow [of 1023 "nat (1023 + n)" F]
    by (cases "n = 0") (simp_all add: x87_exp2_def exp2_loop_0 exp2_once pow_words(1))
  then show ?thesis using False assms by (simp add: val_pow)
next
  case True
  have zero: "f64_val (f64_of False 0 0) = FpNum False 0 (- 1074)" by (subst f64_val_of) simp_all
  show ?thesis
  proof (cases "n < - 1100")
    case True
    then show ?thesis by (simp add: x87_exp2_def pow_words(2) zero)
  next
    case False
    obtain nan where mul: "x87_exp2 F n = f64_pack nan (FpNum False (2 ^ 52 * 2 ^ 52) (n - 104))"
    proof
      have "x87_exp2 F n = f64_mul F (f64_of False 23 0) (f64_of False (nat (2023 + n)) 0)"
        using True False assms mul_pow [of 1023 23 F] by (simp add: x87_exp2_def exp2_twice pow_words(1))
      also have "\<dots> = f64_pack (hf_nan2 F (f64_of False 23 0) (f64_of False (nat (2023 + n)) 0))
          (FpNum False (2 ^ 52 * 2 ^ 52) (n - 104))"
        using True False by (subst fp_mul_pow) simp_all
      finally show "x87_exp2 F n = \<dots>" .
    qed
    show ?thesis
    proof (cases "n < - 1022")
      case sub: True
      then have "f64_pack nan (FpNum False (2 ^ 52 * 2 ^ 52) (n - 104)) =
          (if n < - 1074 then f64_of False 0 0 else f64_of False 0 (2 ^ nat (n + 1074)))"
        using tiny_magnitude [OF assms(1)] by (simp only: f64_pack_def fp_encode_def f64_of_def fp.case) simp
      then show ?thesis using sub mul zero val_tiny [of "nat (n + 1074)"] by simp
    next
      case norm: False
      have e: "n - 104 = int (nat (n + 1023)) - 1075 - int 52" using norm by simp
      have "f64_pack nan (FpNum False (2 ^ 52 * 2 ^ 52) (n - 104)) = f64_of False (nat (n + 1023)) 0"
        using pack_exact [of "2 ^ 52" "nat (n + 1023)" nan False 52] norm True unfolding e by simp
      then show ?thesis using norm True mul val_pow [of "nat (n + 1023)"] by simp
    qed
  qed
qed

section \<open>Narrowing\<close>

lemma int_as_f64_exact:
  assumes "2 ^ 52 \<le> m" "m < 2 ^ 53"
  shows "f64_val (int_as_f64 (int (m * 2 ^ 11))) = FpNum False m 11"
proof -
  have "m * 2 ^ 11 \<noteq> 0" using assms(1) by (cases "m = 0") auto
  then have num: "fp_of_int False (int (m * 2 ^ 11)) 0 = FpNum False (m * 2 ^ 11) 0"
    by (simp only: fp_of_int_def abs_of_nat nat_int of_nat_eq_0_iff if_False) simp
  have "f64_pack 0 (FpNum False (m * 2 ^ 11) 0) = f64_of False 1086 (m - 2 ^ 52)"
    using pack_exact [OF assms, of 1086 0 False 11] by simp
  then have "int_as_f64 (int (m * 2 ^ 11)) = f64_of False 1086 (m - 2 ^ 52)"
    by (simp only: int_as_f64_def num)
  moreover have "f64_val (f64_of False 1086 (m - 2 ^ 52)) = FpNum False m 11"
    using assms by (subst f64_val_of) simp_all
  ultimately show ?thesis by simp
qed

lemma narrow_magnitude:
  assumes m: "2 ^ 52 \<le> m" "m < 2 ^ 53" and n: "- 1137 \<le> n" "n \<le> 960"
  shows "f64_mul F (int_as_f64 (int (m * 2 ^ 11))) (x87_exp2 F n) =
    (if n < - 1074 then 0 else f64_of False (nat (n + 1086)) (m - 2 ^ 52))"
proof -
  obtain nan where mul: "f64_mul F (int_as_f64 (int (m * 2 ^ 11))) (x87_exp2 F n) =
      f64_pack nan (fp_mul (FpNum False m 11) (f64_val (x87_exp2 F n)))"
    using int_as_f64_exact [OF m] by (auto simp: f64_mul_def)
  have n': "n \<le> 1000" using n(2) by simp
  have pack: "f64_pack nan (FpNum False (m * 2 ^ j) e) = f64_of False (nat (n + 1086)) (m - 2 ^ 52)"
    if "- 1074 \<le> n" "e = n + 11 - int j" for j e
  proof -
    have "e = int (nat (n + 1086)) - 1075 - int j" "1 \<le> nat (n + 1086)" "nat (n + 1086) < 2047"
      using that n(2) by simp_all
    then show ?thesis using pack_exact [OF m, of "nat (n + 1086)" nan False j] by simp
  qed
  consider "n < - 1074" | "- 1074 \<le> n" "n < - 1022" | "- 1022 \<le> n" by linarith
  then show ?thesis
  proof cases
    case 1
    have "f64_pack nan (FpNum False (m * 0) e) = 0" for e
      by (simp add: f64_pack_def fp_encode_def fp_magnitude_def)
    then show ?thesis using 1 exp2_val [OF n(1) n', of F] by (simp only: mul fp_mul.simps if_True) simp
  next
    case 2
    then have "11 + - 1074 = n + 11 - int (nat (n + 1074))" by simp
    note p = pack [OF 2(1) this]
    have "(n < - 1074) = False" using 2 by simp
    then show ?thesis using 2 exp2_val [OF n(1) n', of F] p by (simp only: mul fp_mul.simps if_True if_False) simp
  next
    case 3
    then have n'': "- 1074 \<le> n" "(n < - 1074) = False" "(n < - 1022) = False" by simp_all
    have "11 + (n - 52) = n + 11 - int 52" by simp
    note p = pack [OF n''(1) this]
    then show ?thesis using exp2_val [OF n(1) n', of F] p by (simp only: mul fp_mul.simps n'' if_False) simp
  qed
qed

section \<open>Patterns and words\<close>

lemma mask_words: "(mask 11 :: u64) = 0x7ff" "(mask 52 :: u64) = 0x000fffffffffffff"
  by (simp_all add: mask_eq_exp_minus_1)

lemma of_bool_odd: "q < 2 \<Longrightarrow> b = odd q \<Longrightarrow> of_bool b = (q :: nat)"
  by (auto dest: less_2_cases)

lemma odd_top: "odd (unat w div 2 ^ 63) = bit w 63"
  by (simp only: bit_iff_odd [symmetric]) (simp add: bit_unsigned_iff)

lemma f64_pattern: "f64_of (bit x 63) (unat (drop_bit 52 x AND 0x7ff)) (unat (x AND 0x000fffffffffffff)) = x"
proof -
  obtain N where N: "unat x = N" by simp
  have lt: "N < 2 ^ 64" using unsigned_less [of x, where ?'a = nat] N by simp
  have ex: "unat (drop_bit 52 x AND 0x7ff) = N div 2 ^ 52 mod 2048"
    by (simp only: mask_words(1) [symmetric] take_bit_eq_mask [symmetric] unsigned_take_bit_eq unat_drop_bit_eq N)
      (simp add: take_bit_eq_mod drop_bit_eq_div)
  have fr: "unat (x AND 0x000fffffffffffff) = N mod 2 ^ 52"
    by (simp only: mask_words(2) [symmetric] take_bit_eq_mask [symmetric] unsigned_take_bit_eq N)
      (simp only: take_bit_eq_mod)
  have "N div 2 ^ 63 < 2" using lt by (simp add: less_mult_imp_div_less)
  moreover have "bit x 63 = odd (N div 2 ^ 63)"
    by (simp only: odd_top [symmetric] N)
  ultimately have "of_bool (bit x 63) = N div 2 ^ 63"
    by (rule of_bool_odd)
  also have "(2 :: nat) ^ 63 = 2 ^ 52 * 2048" by simp
  finally have s: "of_bool (bit x 63) = N div 2 ^ 52 div 2048" by (simp only: div_mult2_eq)
  have "f64_of (bit x 63) (N div 2 ^ 52 mod 2048) (N mod 2 ^ 52) = of_nat N"
    by (simp only: f64_of_def s div_mult_mod_eq)
  moreover have "of_nat N = x" unfolding N [symmetric] by simp
  ultimately show ?thesis by (simp only: ex fr)
qed

lemma top_bit_of:
  "\<exists>k < n. bit v k \<Longrightarrow> \<exists>k < n. bit v k \<and> zeros_above n v = n - 1 - k \<and> (\<forall>i. k < i \<and> i < n \<longrightarrow> \<not> bit v i)"
proof (induction n)
  case (Suc n)
  show ?case
  proof (cases "bit v n")
    case True
    then show ?thesis by (intro exI [of _ n]) auto
  next
    case False
    then obtain k where "k < n" "bit v k" "zeros_above n v = n - 1 - k" "\<forall>i. k < i \<and> i < n \<longrightarrow> \<not> bit v i"
      using Suc by (auto simp: less_Suc_eq)
    with False show ?thesis by (intro exI [of _ k]) (auto simp: less_Suc_eq)
  qed
qed simp

lemma ext_fields:
  fixes e :: u32 and w :: u64 and b :: bool
  assumes "e AND 0x7fff = e"
  shows "bit (push_bit 79 (of_bool b) OR push_bit 64 (ucast e) OR ucast w :: u128) 79 = b"
    "ucast (drop_bit 64 (push_bit 79 (of_bool b) OR push_bit 64 (ucast e) OR ucast w :: u128) AND 0x7fff) = e"
    "ucast (push_bit 79 (of_bool b) OR push_bit 64 (ucast e) OR ucast w :: u128) = w"
proof -
  have "(0x7fff :: u32) = mask 15" by (simp add: mask_eq_exp_minus_1)
  with assms have e: "bit e n \<Longrightarrow> n < 15" for n by (metis bit_and_iff bit_mask_iff)
  have m: "(0x7fff :: u128) = mask 15" by (simp add: mask_eq_exp_minus_1)
  show "bit (push_bit 79 (of_bool b) OR push_bit 64 (ucast e) OR ucast w :: u128) 79 = b"
    using e [of 15] by (auto simp: bit_simps dest: bit_imp_le_length)
  show "ucast (drop_bit 64 (push_bit 79 (of_bool b) OR push_bit 64 (ucast e) OR ucast w :: u128) AND 0x7fff) = e"
    unfolding m by (rule bit_word_eqI) (auto simp: bit_simps dest: e bit_imp_le_length)
  show "ucast (push_bit 79 (of_bool b) OR push_bit 64 (ucast e) OR ucast w :: u128) = w"
    by (rule bit_word_eqI) (auto simp: bit_simps)
qed

lemma significand_top:
  fixes w :: u64
  assumes "\<And>i. i < 11 \<Longrightarrow> \<not> bit w i" "bit w 63"
  obtains m where "uint w = int (m * 2 ^ 11)" "2 ^ 52 \<le> m" "m < 2 ^ 53" "m = unat (drop_bit 11 w)"
proof
  have "take_bit 11 w = 0" by (rule bit_word_eqI) (auto simp: bit_simps assms(1))
  then have "unat w mod 2 ^ 11 = 0"
    by (simp only: take_bit_eq_mod [symmetric] unsigned_take_bit_eq [symmetric] unsigned_0)
  moreover have m: "unat (drop_bit 11 w) = unat w div 2 ^ 11"
    by (simp only: unat_drop_bit_eq) (simp only: drop_bit_eq_div)
  ultimately have w: "unat w = unat (drop_bit 11 w) * 2 ^ 11"
    by (metis div_mult_mod_eq add.right_neutral)
  moreover have "uint w = int (unat w)" by simp
  ultimately show "uint w = int (unat (drop_bit 11 w) * 2 ^ 11)" by metis
  have split: "(2 :: nat) ^ 64 = 2 ^ 53 * 2 ^ 11" "(2 :: nat) ^ 63 = 2 ^ 52 * 2 ^ 11" by simp_all
  have "unat w < 2 ^ LENGTH(64)" by (rule unsigned_less)
  then have "unat (drop_bit 11 w) * 2 ^ 11 < 2 ^ 53 * 2 ^ 11" by (simp only: w [symmetric] split [symmetric]) simp
  then show "unat (drop_bit 11 w) < 2 ^ 53" by (simp only: mult_less_cancel2)
  have "odd (unat w div 2 ^ 63)" using assms(2) by (simp only: odd_top)
  then have "unat w div 2 ^ 63 \<noteq> 0" by (metis even_zero)
  then have "2 ^ 63 \<le> unat w" using div_less [of "unat w" "2 ^ 63"] by (metis leI)
  then have "2 ^ 52 * 2 ^ 11 \<le> unat (drop_bit 11 w) * 2 ^ 11" by (simp only: w [symmetric] split [symmetric])
  then show "2 ^ 52 \<le> unat (drop_bit 11 w)" by (simp only: mult_le_cancel2) simp
qed simp

lemma ext_to_f64_parts:
  \<comment> \<open>narrowing of a finite number, by its parts\<close>
  fixes e :: u32 and w :: u64
  assumes "e AND 0x7fff = e" "e \<noteq> 0x7fff" "e \<noteq> 0 \<or> w \<noteq> 0"
  shows "ext_to_f64 F (push_bit 79 (of_bool b) OR push_bit 64 (ucast e) OR ucast w) =
    (let mag = f64_mul F (int_as_f64 (uint w)) (x87_exp2 F (uint e - 16383 - 63)) in if b then f64_neg mag else mag)"
proof -
  obtain v where v: "v = (push_bit 79 (of_bool b) OR push_bit 64 (ucast e) OR ucast w :: u128)" by simp
  have "bit v 79 = b" "ucast (drop_bit 64 v AND 0x7fff) = e" "ucast v = w"
    unfolding v by (rule ext_fields [OF assms(1)])+
  moreover have "(e = 0x7fff) = False" "(e = 0 \<and> w = 0) = False" using assms(2,3) by auto
  ultimately show ?thesis
    unfolding v [symmetric] by (simp only: ext_to_f64_def Let_def if_False)
qed

lemma bit_masks:
  "bit (0x7ff :: u64) n \<longleftrightarrow> n < 11" "bit (0x000fffffffffffff :: u64) n \<longleftrightarrow> n < 52"
  "bit (0x8000000000000000 :: u64) n \<longleftrightarrow> n = 63" "bit (0x0010000000000000 :: u64) n \<longleftrightarrow> n = 52"
  "bit (0x7FF0000000000000 :: u64) n \<longleftrightarrow> 52 \<le> n \<and> n < 63" "bit (0x7fffffffffffffff :: u64) n \<longleftrightarrow> n < 63"
proof -
  have "(0x8000000000000000 :: u64) = push_bit 63 1" by simp
  then show "bit (0x8000000000000000 :: u64) n \<longleftrightarrow> n = 63"
    by (simp only: bit_push_bit_iff bit_1_iff) (auto simp: possible_bit_def)
  have "(0x0010000000000000 :: u64) = push_bit 52 1" by simp
  then show "bit (0x0010000000000000 :: u64) n \<longleftrightarrow> n = 52"
    by (simp only: bit_push_bit_iff bit_1_iff) (auto simp: possible_bit_def)
  have "(0x7FF0000000000000 :: u64) = push_bit 52 (mask 11)" by (simp add: mask_eq_exp_minus_1)
  then show "bit (0x7FF0000000000000 :: u64) n \<longleftrightarrow> 52 \<le> n \<and> n < 63"
    by (simp only: bit_push_bit_iff bit_mask_iff) (auto simp: possible_bit_def)
  have "(0x7fffffffffffffff :: u64) = mask 63" by (simp add: mask_eq_exp_minus_1)
  then show "bit (0x7fffffffffffffff :: u64) n \<longleftrightarrow> n < 63"
    by (simp only: bit_mask_iff) (auto simp: possible_bit_def)
  show "bit (0x7ff :: u64) n \<longleftrightarrow> n < 11" "bit (0x000fffffffffffff :: u64) n \<longleftrightarrow> n < 52"
    by (simp_all only: mask_words [symmetric] bit_mask_iff) (auto simp: possible_bit_def)
qed

lemma f64_of_inf: "f64_of b 2047 0 = (if b then f64_neg_inf else f64_inf)"
  by (simp add: f64_of_def f64_neg_inf_def f64_inf_def)

lemma f64_abs_fields:
  "bit (f64_abs x) 63 = False" "drop_bit 52 (f64_abs x) AND 0x7ff = drop_bit 52 x AND 0x7ff"
  "f64_abs x AND 0x000fffffffffffff = x AND 0x000fffffffffffff"
  unfolding f64_abs_def by (auto intro!: bit_word_eqI simp: bit_simps bit_masks simp del: bit_numeral_word_iff)

lemma f64_abs_pattern: "f64_of False (unat (drop_bit 52 x AND 0x7ff)) (unat (x AND 0x000fffffffffffff)) = f64_abs x"
  using f64_pattern [of "f64_abs x"] by (simp only: f64_abs_fields)

lemma signed_abs: "(if bit x 63 then f64_neg (f64_abs x) else f64_abs x) = x"
  unfolding f64_neg_def f64_abs_def by (rule bit_word_eqI) (auto simp: bit_simps bit_masks simp del: bit_numeral_word_iff)

lemma signed_zero: "(if bit x 63 then f64_neg 0 else 0) = x AND push_bit 63 1"
  unfolding f64_neg_def by (rule bit_word_eqI) (auto simp: bit_simps bit_masks simp del: bit_numeral_word_iff)

lemma sign_word: "(ucast (drop_bit 63 x AND 1) :: u128) = of_bool (bit (x :: u64) 63)"
proof -
  have "drop_bit 63 x AND 1 = of_bool (bit x 63)"
    by (rule bit_word_eqI) (auto simp: bit_simps dest: bit_imp_le_length)
  then show ?thesis by simp
qed

lemma f64_to_ext_parts:
  "ext_parts x = (e, w) \<Longrightarrow> f64_to_ext x = push_bit 79 (of_bool (bit x 63)) OR push_bit 64 (ucast e) OR ucast w"
  by (simp add: f64_to_ext_def sign_word)

section \<open>The round trip\<close>

lemma significand_bits:
  fixes fr :: u64
  assumes "\<And>i. i < 11 \<Longrightarrow> \<not> bit fr i"
  shows "\<And>i. i < 11 \<Longrightarrow> \<not> bit (0x8000000000000000 OR fr) i" "bit (0x8000000000000000 OR fr) 63"
  using assms by (auto simp: bit_simps bit_masks simp del: bit_numeral_word_iff)

lemma narrow_finite:
  \<comment> \<open>a significand whose lowest 11 bits are zero\<close>
  fixes e :: u32 and fr :: u64
  assumes "e AND 0x7fff = e" "e \<noteq> 0x7fff" "\<And>i. i < 11 \<Longrightarrow> \<not> bit fr i" "- 1137 \<le> uint e - 16446" "uint e - 16446 \<le> 960"
  shows "ext_to_f64 F (push_bit 79 (of_bool b) OR push_bit 64 (ucast e) OR ucast (0x8000000000000000 OR fr)) =
    (let mag = (if uint e - 16446 < - 1074 then 0
       else f64_of False (nat (uint e - 15360)) (unat (drop_bit 11 (0x8000000000000000 OR fr)) - 2 ^ 52))
     in if b then f64_neg mag else mag)"
proof -
  obtain m where m: "uint (0x8000000000000000 OR fr) = int (m * 2 ^ 11)" "2 ^ 52 \<le> m" "m < 2 ^ 53"
      "m = unat (drop_bit 11 (0x8000000000000000 OR fr))"
    using significand_top [OF significand_bits [OF assms(3)]] by metis
  have "0x8000000000000000 OR fr \<noteq> 0"
    using significand_bits(2) [OF assms(3)] by (metis bit_0_eq bot_apply bot_bool_def)
  moreover have "uint e - 16383 - 63 = uint e - 16446" "uint e - 16446 + 1086 = uint e - 15360" by simp_all
  ultimately show ?thesis
    using ext_to_f64_parts [OF assms(1,2)] narrow_magnitude [OF m(2,3) assms(4,5)]
    by (simp only: m(1) m(4) [symmetric] simp_thms)
qed

lemma fraction_top:
  fixes x :: u64
  assumes "x AND 0x000fffffffffffff \<noteq> 0"
  obtains k where "k < 52" "leading_zeros (x AND 0x000fffffffffffff) = 63 - k"
    "k = 0 \<Longrightarrow> x AND 0x000fffffffffffff = 1"
proof -
  obtain fr where fr: "fr = x AND 0x000fffffffffffff" by simp
  have above: "\<not> bit fr i" if "52 \<le> i" for i
    using that by (simp add: fr bit_and_iff bit_masks del: bit_numeral_word_iff)
  have "\<exists>k < 64. bit fr k"
  proof (rule ccontr)
    assume "\<not> (\<exists>k < 64. bit fr k)"
    then have "fr = 0" by (intro bit_word_eqI) auto
    with assms fr show False by simp
  qed
  from top_bit_of [OF this] obtain k where k: "k < 64" "bit fr k" "zeros_above 64 fr = 64 - 1 - k"
      "\<And>i. k < i \<Longrightarrow> i < 64 \<Longrightarrow> \<not> bit fr i" by auto
  have "k < 52" using above k(2) by (metis leI)
  moreover have "leading_zeros fr = 63 - k" by (simp add: leading_zeros_def k(3))
  moreover have "fr = 1" if "k = 0"
    by (rule bit_word_eqI) (use k that in \<open>auto simp: bit_1_iff\<close>)
  ultimately show thesis using that unfolding fr by blast
qed

lemma ext_parts_subnormal:
  assumes fr: "x AND 0x000fffffffffffff = (fr :: u64)" "fr \<noteq> 0" and x: "drop_bit 52 x AND 0x7ff = (0 :: u64)"
  obtains k where "k < 52" "k = 0 \<Longrightarrow> fr = 1"
    "ext_parts x = (of_nat (15308 + k), 0x8000000000000000 OR push_bit ((64 - k) mod 64) fr)"
proof -
  obtain k where k: "k < 52" "leading_zeros fr = 63 - k" "k = 0 \<Longrightarrow> fr = 1"
    using fraction_top [of x] fr by metis
  have lead: "(of_nat (63 - k) :: u32) - 11 = of_nat (52 - k)" "(11 :: u32) + of_nat (52 - k) + 1 = of_nat (64 - k)"
    "(1 :: u32) - 1023 - of_nat (52 - k) - 1 + 16383 = of_nat (15308 + k)"
    using k(1) by (simp_all add: of_nat_diff)
  have small: "unat (of_nat (64 - k) :: u32) = 64 - k"
    by (simp add: unat_of_nat)
  have "(ucast (drop_bit 52 x AND 0x7ff) :: u32) = 0" unfolding x by simp
  moreover have "((0 :: u32) = 0x7ff) = False" by simp
  ultimately have "ext_parts x = (of_nat (15308 + k), 0x8000000000000000 OR push_bit ((64 - k) mod 64) fr)"
    using fr(2) by (simp only: ext_parts_def Let_def fr(1) k(2) lead shl64_def small if_True if_False simp_thms)
  with k that show thesis by blast
qed

lemma narrow_least: "f64_val (int_as_f64 (uint (0x8000000000000001 :: u64))) = FpNum False (2 ^ 52) 11"
proof -
  have bits: "nat_bits 9223372036854775809 = Suc 63" by (intro nat_bits_unique) simp_all
  have last: "fp_last 52 11 9223372036854775809 0 = 11" by (simp add: fp_last_def bits low64)
  have "round_even 9223372036854775809 11 = 4503599627370496" by (simp add: round_even_def)
  then have mag: "fp_magnitude 52 11 9223372036854775809 0 = 1086 * 2 ^ 52"
    by (simp add: fp_magnitude_def last low64 Let_def)
  have "fp_of_int False (uint (0x8000000000000001 :: u64)) 0 = FpNum False 9223372036854775809 0"
    by (simp add: fp_of_int_def)
  then have "int_as_f64 (uint (0x8000000000000001 :: u64)) = f64_of False 1086 0"
    by (simp only: int_as_f64_def f64_pack_def fp_encode_def fp.case mag f64_of_def) simp
  then show ?thesis by (simp add: f64_val_of)
qed

lemma exponent_kept:
  fixes e :: u32
  assumes "unat e < 32767" shows "e AND 0x7fff = e" "e \<noteq> 0x7fff"
proof -
  have "take_bit 15 (unat e) = unat e" using assms by (intro take_bit_nat_eq_self) simp
  then have "unat (take_bit 15 e) = unat e" by (simp only: unsigned_take_bit_eq)
  then have "take_bit 15 e = e" by (rule unsigned_word_eqI)
  moreover have "(0x7fff :: u32) = mask 15" by (simp add: mask_eq_exp_minus_1)
  ultimately show "e AND 0x7fff = e" by (simp only: take_bit_eq_mask)
  show "e \<noteq> 0x7fff" using assms by auto
qed

lemma narrow_tiny:
  \<comment> \<open>the subnormal numbers come back as zeros\<close>
  assumes "drop_bit 52 x AND 0x7ff = (0 :: u64)" "x AND 0x000fffffffffffff \<noteq> 0"
  shows "ext_to_f64 F (f64_to_ext x) = (if bit x 63 then f64_neg 0 else 0)"
proof -
  obtain fr where fr: "x AND 0x000fffffffffffff = fr" by simp
  obtain k where k: "k < 52" "k = 0 \<Longrightarrow> fr = 1"
      "ext_parts x = (of_nat (15308 + k), 0x8000000000000000 OR push_bit ((64 - k) mod 64) fr)"
    using ext_parts_subnormal [OF fr _ assms(1)] assms(2) fr by metis
  obtain e :: u32 where e: "e = of_nat (15308 + k)" by simp
  have un: "unat e = 15308 + k" unfolding e unat_of_nat by (rule mod_less) (use k(1) in simp)
  have "int (unat e) = uint e" by simp
  then have ue: "uint e = int (15308 + k)" by (simp only: un)
  have m: "e AND 0x7fff = e" "e \<noteq> 0x7fff" using exponent_kept [of e] un k(1) by simp_all
  note ext = f64_to_ext_parts [OF k(3), folded e]
  show ?thesis
  proof (cases "k = 0")
    case True
    then have "fr = 1" by (rule k(2))
    then have w: "0x8000000000000000 OR push_bit ((64 - k) mod 64) fr = 0x8000000000000001" using True by simp
    have "x87_exp2 F (uint e - 16383 - 63) = f64_zero" using True by (simp add: x87_exp2_def ue)
    moreover have "f64_val f64_zero = FpNum False 0 (- 1074)" by (simp add: pow_words(2) f64_val_of)
    moreover have "f64_pack nan (FpNum False (m * 0) j) = 0" for nan m j
      by (simp add: f64_pack_def fp_encode_def fp_magnitude_def)
    ultimately have "f64_mul F (int_as_f64 (uint (0x8000000000000001 :: u64))) (x87_exp2 F (uint e - 16383 - 63)) = 0"
      by (simp only: f64_mul_def narrow_least fp_mul.simps simp_thms)
    then show ?thesis
      unfolding ext w by (subst ext_to_f64_parts [OF m]) (simp_all only: Let_def, simp)
  next
    case False
    then have "11 < (64 - k) mod 64" using k(1) by simp
    then have "\<not> bit (push_bit ((64 - k) mod 64) fr) i" if "i < 11" for i
      using that by (simp only: bit_push_bit_iff) linarith
    then show ?thesis unfolding ext
      using k(1) ue False by (subst narrow_finite [OF m]) (simp_all add: Let_def)
  qed
qed

lemma narrow_normal:
  assumes ex: "unat (drop_bit 52 x AND 0x7ff) = E" "1 \<le> E" "E < 2047"
  shows "ext_to_f64 F (f64_to_ext x) = (if E < 12 then (if bit x 63 then f64_neg 0 else 0) else x)"
proof -
  obtain fr where fr: "x AND 0x000fffffffffffff = fr" by simp
  obtain e :: u32 where e: "ucast (drop_bit 52 x AND 0x7ff) + (16383 - 1023) = e" by simp
  have exw: "(ucast (drop_bit 52 x AND 0x7ff) :: u32) = of_nat E"
    by (simp only: ex(1) [symmetric]) simp
  have un: "unat e = E + 15360"
  proof -
    have "e = of_nat (E + 15360)" by (simp only: e [symmetric] exw of_nat_add) simp
    then show ?thesis unfolding unat_of_nat by (simp only: unat_of_nat) (rule mod_less, use ex(3) in simp)
  qed
  have "int (unat e) = uint e" by simp
  then have ue: "uint e = int (E + 15360)" by (simp only: un)
  have m: "e AND 0x7fff = e" "e \<noteq> 0x7fff" using exponent_kept [of e] un ex(3) by simp_all
  have "unat (of_nat E :: u32) = E" unfolding unat_of_nat by (rule mod_less) (use ex(3) in simp)
  then have "((of_nat E :: u32) = 0x7ff) = False" "((of_nat E :: u32) = 0) = False" using ex(2,3) by auto
  then have parts: "ext_parts x = (e, 0x8000000000000000 OR push_bit 11 fr)"
    using e by (simp only: ext_parts_def Let_def exw fr if_False)
  have low: "\<not> bit (push_bit 11 fr) i" if "i < 11" for i
    using that by (simp only: bit_push_bit_iff) linarith
  have "drop_bit 11 (0x8000000000000000 OR push_bit 11 fr) = push_bit 52 1 OR fr"
    by (rule bit_word_eqI) (auto simp: bit_simps bit_masks fr [symmetric] simp del: bit_numeral_word_iff)
  also have "\<dots> = push_bit 52 1 + fr"
    by (rule disjunctive_add [symmetric]) (auto simp: bit_simps bit_masks fr [symmetric] simp del: bit_numeral_word_iff)
  finally have sig: "drop_bit 11 (0x8000000000000000 OR push_bit 11 fr) = push_bit 52 1 + fr" .
  have "fr = take_bit 52 x" by (simp only: fr [symmetric] mask_words(2) [symmetric] take_bit_eq_mask)
  then have "unat fr < 2 ^ 52" by (simp only: unsigned_take_bit_eq take_bit_nat_less_exp)
  then have "unat (push_bit 52 1 + fr) = 2 ^ 52 + unat fr"
    by (subst unat_plus_simple [THEN iffD1]) (simp_all add: word_le_nat_alt unat_word_ariths)
  then have frac: "unat (drop_bit 11 (0x8000000000000000 OR push_bit 11 fr)) - 2 ^ 52 = unat fr"
    by (simp only: sig add_diff_cancel_left')
  have "f64_of False E (unat fr) = f64_abs x" using f64_abs_pattern [of x] by (simp only: ex(1) fr)
  moreover have "nat (uint e - 15360) = E" using ue by simp
  moreover have "uint e - 16446 < - 1074 \<longleftrightarrow> E < 12" "- 1137 \<le> uint e - 16446" "uint e - 16446 \<le> 960"
    using ue ex by linarith+
  ultimately have "ext_to_f64 F (f64_to_ext x) =
      (let mag = (if E < 12 then 0 else f64_abs x) in if bit x 63 then f64_neg mag else mag)"
    using narrow_finite [OF m low, of F "bit x 63"] by (simp only: f64_to_ext_parts [OF parts] frac)
  then show ?thesis using signed_abs [of x] by (cases "E < 12") (simp_all only: Let_def if_True if_False)
qed

lemma narrow_special:
  assumes x: "drop_bit 52 x AND 0x7ff = (0x7ff :: u64)"
  shows "ext_to_f64 F (f64_to_ext x) = (if x AND 0x000fffffffffffff = 0 then x else x OR 0x0008000000000000)"
proof -
  obtain fr where fr: "x AND 0x000fffffffffffff = fr" by simp
  obtain w where w: "w = (if fr = 0 then 0x8000000000000000 else 0x8000000000000000 OR push_bit 11 fr)" by simp
  have "(ucast (drop_bit 52 x AND 0x7ff) :: u32) = 0x7ff" unfolding x by simp
  then have parts: "ext_parts x = (0x7fff, w)" by (simp add: ext_parts_def Let_def fr w)
  have "(0x7fff :: u32) AND 0x7fff = 0x7fff" by simp
  note fields = ext_fields [OF this, of "bit x 63" w, folded f64_to_ext_parts [OF parts]]
  have frac: "w AND 0x7fffffffffffffff = push_bit 11 fr"
  proof (cases "fr = 0")
    case False
    have frb: "bit fr i \<Longrightarrow> i < 52" for i
      by (simp add: fr [symmetric] bit_and_iff bit_masks del: bit_numeral_word_iff)
    show ?thesis unfolding w if_not_P [OF False]
      by (intro bit_word_eqI) (auto simp: bit_simps bit_masks dest: frb simp del: bit_numeral_word_iff)
  qed (simp add: w)
  show ?thesis
  proof (cases "fr = 0")
    case True
    then have "x = f64_of (bit x 63) 2047 0" using f64_pattern [of x] x fr by simp
    then have "x = (if bit x 63 then f64_neg_inf else f64_inf)"
      by (metis f64_of_inf)
    then show ?thesis using True fr by (simp only: ext_to_f64_def fields Let_def frac) simp
  next
    case False
    have ones: "bit x n" if "52 \<le> n" "n < 63" for n
    proof -
      have "n - 52 < 11" using that by linarith
      then show ?thesis using arg_cong [OF x, of "\<lambda>v. bit v (n - 52)"] that
        by (simp add: bit_simps bit_masks del: bit_numeral_word_iff)
    qed
    have "drop_bit 11 (push_bit 11 fr) = fr"
      by (rule bit_word_eqI) (auto simp: bit_simps bit_masks fr [symmetric] simp del: bit_numeral_word_iff)
    moreover from this have "push_bit 11 fr \<noteq> 0" using False by auto
    moreover have "(if bit x 63 then push_bit 63 1 else 0) OR push_bit 52 0x7ff OR fr OR 0x0008000000000000 = x OR 0x0008000000000000"
    proof -
      have top: "n < 64 \<Longrightarrow> \<not> n < 63 \<Longrightarrow> n = 63" for n :: nat by linarith
      show ?thesis using ones
        by (intro bit_word_eqI) (auto simp: bit_simps bit_masks fr [symmetric] dest: top simp del: bit_numeral_word_iff)
    qed
    ultimately show ?thesis using False fr by (simp only: ext_to_f64_def fields Let_def frac if_True if_False simp_thms)
  qed
qed

lemma narrow_zero:
  assumes "drop_bit 52 x AND 0x7ff = (0 :: u64)" "x AND 0x000fffffffffffff = 0"
  shows "ext_to_f64 F (f64_to_ext x) = (if bit x 63 then f64_neg 0 else 0)"
proof -
  have parts: "ext_parts x = (0, 0)" by (simp add: ext_parts_def Let_def assms)
  have "(0 :: u32) AND 0x7fff = 0" by simp
  note fields = ext_fields [OF this, of "bit x 63" 0, folded f64_to_ext_parts [OF parts]]
  have "((0 :: u32) = 0x7fff) = False" by simp
  then show ?thesis by (simp only: ext_to_f64_def fields Let_def if_False simp_thms if_True) (simp add: f64_neg_def)
qed

text \<open>
  C40: A double that is loaded into an 80-bit register and stored again (FLD and FSTP of 64 bits)
  comes back as it was, a signalling NaN as the quiet one with its payload, except that every
  number below \<open>2^-1011\<close> in magnitude, normal or subnormal, comes back as a zero of its sign.
\<close>

theorem x87_double_round_trip:
  "ext_to_f64 F (f64_to_ext x) =
    (let ex = drop_bit 52 x AND 0x7ff in
     if ex < 12 then x AND push_bit 63 1
     else if ex = 0x7ff \<and> x AND 0x000fffffffffffff \<noteq> 0 then x OR 0x0008000000000000
     else x)"
proof -
  obtain ex where ex: "drop_bit 52 x AND 0x7ff = ex" by simp
  have "ex \<le> 0x7ff" unfolding ex [symmetric] by (rule word_and_le1)
  then have le: "unat ex \<le> 2047" by (simp add: word_le_nat_alt)
  consider "ex = 0" | "1 \<le> unat ex" "unat ex < 2047" | "ex = 0x7ff"
  proof -
    have "unat ex = 0 \<or> (1 \<le> unat ex \<and> unat ex < 2047) \<or> unat ex = 2047" using le by linarith
    then show thesis
    proof (elim disjE)
      assume "unat ex = 0"
      then have "of_nat (unat ex) = (0 :: u64)" by (simp only:) simp
      then show thesis using that(1) by simp
    next
      assume "unat ex = 2047"
      then have "of_nat (unat ex) = (0x7ff :: u64)" by (simp only:) simp
      then show thesis using that(3) by simp
    qed (use that(2) in blast)
  qed
  then show ?thesis
  proof cases
    case 1
    then show ?thesis
      using narrow_zero [of x F] narrow_tiny [of x F] ex signed_zero [of x]
      by (cases "x AND 0x000fffffffffffff = 0") (simp_all add: Let_def)
  next
    case 2
    then have "ex \<noteq> 0x7ff" "ex < 12 \<longleftrightarrow> unat ex < 12" by (auto simp: word_less_nat_alt)
    then show ?thesis using narrow_normal [of x "unat ex" F] 2 ex signed_zero [of x] by (simp add: Let_def)
  next
    case 3
    then show ?thesis using narrow_special [of x F] ex by (simp add: Let_def)
  qed
qed

end
