(* ===== verification/Process_Run.thy ===== *)
theory Process_Run
  imports Os_Exc Os_New Virtual_Memory
begin

text \<open>
  \<open>app/src/process\<close>: the run loop of a loaded process (\<open>run.rs\<close>), the delivery of its hardware
  faults (\<open>exception.rs\<close>), the service of a debugger front end (\<open>debug.rs\<close>) and the error a run
  ends with (\<open>fault.rs\<close>), and the time fields of the shared user page (\<open>app/src/kuser.rs\<close>).

  The process is the interpreter under the hooks of \<open>WinOs\<close> on \<open>VirtualMemory\<close>. The environment of
  a run is a record: the API and system-call tables, the CPU units, the block compiler, and the
  texts of diagnostics, which name modules and registers and are written for people.
\<close>

section \<open>The shared user page\<close>

definition KUSER_SHARED_DATA_BASE :: u64 where "KUSER_SHARED_DATA_BASE = 0x7ffe0000"
definition KUSER_DISPATCHER_PAGE :: u64 where "KUSER_DISPATCHER_PAGE = 0x7ffe1000"
definition KUSER_TICK_COUNT_MULTIPLIER :: u64 where "KUSER_TICK_COUNT_MULTIPLIER = 0x004"
definition KUSER_INTERRUPT_TIME :: u64 where "KUSER_INTERRUPT_TIME = 0x008"
definition KUSER_SYSTEM_TIME :: u64 where "KUSER_SYSTEM_TIME = 0x014"
definition KUSER_SYSTEM_CALL :: u64 where "KUSER_SYSTEM_CALL = 0x308"
definition KUSER_TICK_COUNT :: u64 where "KUSER_TICK_COUNT = 0x320"
definition KUSER_TICK_PERIOD_100NS :: u64 where "KUSER_TICK_PERIOD_100NS = 156250"
definition KUSER_TICK_COUNT_MULTIPLIER_VALUE :: u32 where "KUSER_TICK_COUNT_MULTIPLIER_VALUE = 0x0FA00000"
definition KUSER_REFRESH_INSTRUCTIONS :: u64 where "KUSER_REFRESH_INSTRUCTIONS = 65536"
definition KUSER_FILETIME_EPOCH_DIFF_SECS :: u64 where "KUSER_FILETIME_EPOCH_DIFF_SECS = 11644473600"
definition PAGE_SIZE :: u64 where "PAGE_SIZE = 0x1000"

definition write_ksystem_time :: "u64 \<Rightarrow> u64 \<Rightarrow> (vmem, unit) em" where
  "write_ksystem_time off val =
     (let low = (ucast (val AND 0xFFFFFFFF) :: u32); high = (ucast (drop_bit 32 val) :: u32) in
      em_bind (vm_poke (KUSER_SHARED_DATA_BASE + off) (to_le 4 low)) (\<lambda>_.
      em_bind (vm_poke (KUSER_SHARED_DATA_BASE + off + 4) (to_le 4 high)) (\<lambda>_.
      vm_poke (KUSER_SHARED_DATA_BASE + off + 8) (to_le 4 high))))"

definition refresh_kuser_time :: "clock \<Rightarrow> (vmem, unit) em" where
  "refresh_kuser_time k =
     (case (monotonic_100ns k, filetime k) of
        (Some mt, Some ft) \<Rightarrow>
          em_bind (write_ksystem_time KUSER_SYSTEM_TIME ft) (\<lambda>_.
          em_bind (write_ksystem_time KUSER_INTERRUPT_TIME mt) (\<lambda>_.
          write_ksystem_time KUSER_TICK_COUNT (mt div KUSER_TICK_PERIOD_100NS)))
      | _ \<Rightarrow> em_return ())"

definition map_kuser_shared_data :: "(u64 \<Rightarrow> bool) \<Rightarrow> u64 \<times> u32 \<Rightarrow> clock \<Rightarrow> (vmem, unit) em" where
  \<comment> \<open>\<open>now\<close> is the host's time since 1970, in seconds and nanoseconds\<close>
  "map_kuser_shared_data alloc now k =
     em_bind (vm_map alloc \<lparr>rg_name = ''kuser_shared_data'', rg_base = KUSER_SHARED_DATA_BASE,
       rg_size = PAGE_SIZE, rg_perm = PERM_READ\<rparr>) (\<lambda>_.
     em_bind (vm_map alloc \<lparr>rg_name = ''kuser_dispatcher'', rg_base = KUSER_DISPATCHER_PAGE,
       rg_size = PAGE_SIZE, rg_perm = PERM_RWX\<rparr>) (\<lambda>_.
     em_bind (if ck_virtualized k then refresh_kuser_time k
       else
         em_bind (write_ksystem_time KUSER_SYSTEM_TIME
           ((fst now + KUSER_FILETIME_EPOCH_DIFF_SECS) * 10000000 + ucast (snd now) div 100)) (\<lambda>_.
         em_bind (write_ksystem_time KUSER_INTERRUPT_TIME 0) (\<lambda>_.
         write_ksystem_time KUSER_TICK_COUNT 0))) (\<lambda>_.
     em_bind (vm_poke (KUSER_SHARED_DATA_BASE + KUSER_TICK_COUNT_MULTIPLIER) (to_le 4 KUSER_TICK_COUNT_MULTIPLIER_VALUE)) (\<lambda>_.
     vm_poke (KUSER_SHARED_DATA_BASE + KUSER_SYSTEM_CALL) (to_le 4 (1 :: u32))))))"

section \<open>The process\<close>

datatype stop_reason =
    Paused
  | Breakpoint u64
  | Watch u64 watch_kind
  | StepComplete
  | StepCount u64
  | Faulted string

record debug_snapshot =
  sn_stop :: stop_reason
  sn_steps :: u64
  sn_regs :: cpu_state
  sn_bits :: u8
  sn_rip_note :: string
  sn_trail :: "u64 list"
  sn_backtrace :: "u64 list"
  sn_modules :: "(string \<times> u64 \<times> u64) list"
  sn_regions :: "region list"

datatype debug_command =
    CmdPause
  | CmdResume
  | CmdStep
  | CmdArmBreak u64
  | CmdDisarmBreak u64
  | CmdArmWatch u64 u64 watch_kind
  | CmdDisarmWatch u64
  | CmdBreakAtStep "u64 option"
  | CmdReadMemory u64 u64
  | CmdDisassemble u64 u32
  | CmdDetach
  | CmdKill

datatype debug_event =
    EvStopped debug_snapshot
  | EvResumed
  | EvMemory u64 bytes
  | EvExited "32 word" u64
  | EvError string

datatype debug_action = ActContinue | ActStep | ActDetach | ActKill

datatype jit_run = Executed u32 | SideExit u32 | RunFaulted u32 | NotCompiled

fun jit_insns :: "jit_run \<Rightarrow> u32" where
  "jit_insns NotCompiled = 0"
| "jit_insns (Executed n) = n"
| "jit_insns (SideExit n) = n"
| "jit_insns (RunFaulted n) = n"

record 'j process =
  \<comment> \<open>\<open>pc_run\<close> holds the services, the interpreter and the memory; the clock is the interpreter's,
    and the debug control block, a shared handle, is the memory's\<close>
  pc_run :: "(win_os, vmem) runner"
  pc_max_steps :: u64
  pc_image_base :: u64
  pc_exc_depth :: u32
  pc_wow64 :: bool
  pc_jit :: "'j option"
  pc_cmds :: "debug_command list option"   \<comment> \<open>what the front end sends before it hangs up\<close>
  pc_events :: bool                        \<comment> \<open>whether there is a sender of events\<close>
  pc_sent :: "debug_event list"            \<comment> \<open>the events sent\<close>

record 'j run_env =
  ev_hooks :: "(win_os, vmem) hooks"
  ev_units :: "vmem ext_units"
  ev_alloc :: "u64 \<Rightarrow> bool"
  ev_jit :: "bits \<Rightarrow> u64 \<Rightarrow> cpu_state \<times> vmem \<times> 'j \<Rightarrow> jit_run \<times> cpu_state \<times> vmem \<times> 'j"
  ev_blocks :: "'j \<Rightarrow> u64 list"
  ev_report :: "'j process \<Rightarrow> string \<Rightarrow> emu_error option \<Rightarrow> u64 \<Rightarrow> u64 list \<Rightarrow> string"
  ev_addr_note :: "win_os \<Rightarrow> u64 \<Rightarrow> string"
  ev_describe :: "win_os \<Rightarrow> u64 \<Rightarrow> string"
  ev_modules :: "win_os \<Rightarrow> (string \<times> u64 \<times> u64) list"

record 'j running =
  \<comment> \<open>the process and the local variables of \<open>run_borrowed\<close>\<close>
  ru_proc :: "'j process"
  ru_steps :: u64
  ru_next_refresh :: u64
  ru_recent :: "u64 list"
  ru_debugging :: bool
  ru_stepping :: bool
  ru_step_target :: u64

definition proc_it :: "'j process \<Rightarrow> interp" where "proc_it p = mc_it (rn_mach (pc_run p))"
definition proc_cpu :: "'j process \<Rightarrow> cpu_state" where "proc_cpu p = it_state (proc_it p)"
definition proc_mem :: "'j process \<Rightarrow> vmem" where "proc_mem p = mc_mem (rn_mach (pc_run p))"
definition proc_os :: "'j process \<Rightarrow> win_os" where "proc_os p = rn_hooks (pc_run p)"

definition proc_dbg :: "'j process \<Rightarrow> debug" where
  \<comment> \<open>memory keeps the handle when it is attached; a detached one does nothing\<close>
  "proc_dbg p = (case vm_debug (proc_mem p) of Some d \<Rightarrow> d | None \<Rightarrow> debug_new False)"

definition set_mem :: "vmem \<Rightarrow> 'j process \<Rightarrow> 'j process" where
  "set_mem m p = p\<lparr>pc_run := (pc_run p)\<lparr>rn_mach := (rn_mach (pc_run p))\<lparr>mc_mem := m\<rparr>\<rparr>\<rparr>"

definition upd_it :: "(interp \<Rightarrow> interp) \<Rightarrow> 'j process \<Rightarrow> 'j process" where
  "upd_it f p = p\<lparr>pc_run := (pc_run p)\<lparr>rn_mach := (rn_mach (pc_run p))\<lparr>mc_it := f (proc_it p)\<rparr>\<rparr>\<rparr>"

definition upd_os :: "(win_os \<Rightarrow> win_os) \<Rightarrow> 'j process \<Rightarrow> 'j process" where
  "upd_os f p = p\<lparr>pc_run := (pc_run p)\<lparr>rn_hooks := f (proc_os p)\<rparr>\<rparr>"

definition set_rip_to :: "u64 \<Rightarrow> interp \<Rightarrow> interp" where
  "set_rip_to rip it = it\<lparr>it_state := (it_state it)\<lparr>cpu_rip := rip\<rparr>\<rparr>"

definition upd_dbg :: "(debug \<Rightarrow> debug) \<Rightarrow> 'j process \<Rightarrow> 'j process" where
  "upd_dbg f p = set_mem ((proc_mem p)\<lparr>vm_debug := map_option f (vm_debug (proc_mem p))\<rparr>) p"

definition on_proc_mem :: "(vmem, 'a) em \<Rightarrow> ('j process, 'a) em" where
  "on_proc_mem f p = (case f (proc_mem p) of (r, m) \<Rightarrow> (r, set_mem m p))"

definition on_runner :: "((win_os, vmem) runner, 'a) em \<Rightarrow> ('j process, 'a) em" where
  "on_runner f p = (case f (pc_run p) of (r, w) \<Rightarrow> (r, p\<lparr>pc_run := w\<rparr>))"

definition on_services :: "(vmem, 'a) service \<Rightarrow> ('j process, 'a) em" where
  "on_services f = on_runner (with_world (in_world f))"

definition on_proc :: "('j process, 'a) em \<Rightarrow> ('j running, 'a) em" where
  "on_proc f s = (case f (ru_proc s) of (r, p) \<Rightarrow> (r, s\<lparr>ru_proc := p\<rparr>))"

definition proc :: "('j process \<Rightarrow> 'a) \<Rightarrow> ('j process, 'a) em" where "proc f = em_get f"
definition proc_upd :: "('j process \<Rightarrow> 'j process) \<Rightarrow> ('j process, unit) em" where "proc_upd f = em_mod f"

definition apply_thread_mode_switch :: "('j process, unit) em" where
  "apply_thread_mode_switch = proc_upd (\<lambda>p.
     case os_pending_mode_switch (proc_os p) of
       None \<Rightarrow> p
     | Some mode32 \<Rightarrow> upd_it (\<lambda>it. it\<lparr>it_bits := (if mode32 then B32 else B64)\<rparr>)
         (upd_os (\<lambda>w. w\<lparr>os_pending_mode_switch := None\<rparr>) p))"

section \<open>Delivery of hardware faults\<close>

datatype exc_source = SrcInterrupt u8 | SrcError emu_error

definition MAX_EXC_DEPTH :: u32 where "MAX_EXC_DEPTH = 8"

definition at_exc_dispatcher :: "u64 \<Rightarrow> win_os \<Rightarrow> bool" where
  "at_exc_dispatcher rip w =
     (case module_base ''ntdll.dll'' w of None \<Rightarrow> False | Some b \<Rightarrow> rip = b + RVA_KI_USER_EXCEPTION_DISPATCHER)"

definition exception_of :: "u64 \<Rightarrow> exc_source \<Rightarrow> (u32 \<times> u64 \<times> u64 list) option" where
  \<comment> \<open>code, address and parameters of a fault of the CPU\<close>
  "exception_of rip src =
     (case src of
        SrcInterrupt n \<Rightarrow>
          if n = 0 then Some (0xC0000094, rip, [])
          else if n = 3 then Some (0x80000003, rip + 1, [])
          else None
      | SrcError e \<Rightarrow>
          (case cause e of
             Permission addr needed \<Rightarrow>
               Some (0xC0000005, addr, [if needed = ''write'' then 1 else if needed = ''execute'' then 8 else 0, addr])
           | Unmapped addr len \<Rightarrow> Some (0xC0000005, addr, [0, addr])
           | _ \<Rightarrow> None))"

definition deliver_to_guest :: "(u64 \<Rightarrow> bool) \<Rightarrow> exc_source \<Rightarrow> u64 \<Rightarrow> trap \<Rightarrow> ('j process, bool) em" where
  \<comment> \<open>the frame is built; when that fails the fault is not the guest's\<close>
  "deliver_to_guest alloc src ntdll_base t =
     em_bind (proc (\<lambda>p. cpu_rip (proc_cpu p))) (\<lambda>rip_before.
     em_bind (em_when (src = SrcInterrupt 3) (proc_upd (upd_it (set_rip_to (rip_before + 1))))) (\<lambda>_.
     em_bind (tried (on_services (deliver_hw_exception (vm_ops alloc) ntdll_base t))) (\<lambda>d.
     case d of
       None \<Rightarrow> em_bind (proc_upd (upd_it (set_rip_to rip_before))) (\<lambda>_. em_return False)
     | Some _ \<Rightarrow>
         em_bind (em_when (tr_mode t = Compat32) (proc_upd (upd_it (\<lambda>it. it\<lparr>it_bits := B64\<rparr>)))) (\<lambda>_.
         em_bind (proc_upd (\<lambda>p. p\<lparr>pc_exc_depth := pc_exc_depth p + 1\<rparr>)) (\<lambda>_.
         em_return True)))))"

definition try_deliver_hw_exception :: "(u64 \<Rightarrow> bool) \<Rightarrow> exc_source \<Rightarrow> ('j process, bool) em" where
  "try_deliver_hw_exception alloc src =
     em_bind (proc (\<lambda>p. module_base ''ntdll.dll'' (proc_os p))) (\<lambda>ntdll.
     case ntdll of
       None \<Rightarrow> em_return False
     | Some ntdll_base \<Rightarrow>
         em_bind (proc (\<lambda>p. if pc_wow64 p \<and> it_bits (proc_it p) = B32 then Compat32 else Long)) (\<lambda>mode.
         em_bind (proc pc_exc_depth) (\<lambda>depth.
         if MAX_EXC_DEPTH \<le> depth then em_return False
         else
           em_bind (proc (\<lambda>p. cpu_rip (proc_cpu p))) (\<lambda>rip.
           case exception_of rip src of
             None \<Rightarrow> em_return False
           | Some (code, address, info) \<Rightarrow>
               em_bind (on_services (os_run (note_exception_delivery code address rip))) (\<lambda>u.
               if u \<noteq> None then em_return False
               else deliver_to_guest alloc src ntdll_base
                 \<lparr>tr_code = code, tr_address = address, tr_info = info, tr_mode = mode\<rparr>)))))"

section \<open>The debugger front end\<close>

definition JIT_EXACT_STOP_WINDOW :: u64 where "JIT_EXACT_STOP_WINDOW = 128"
definition DEBUG_READ_MAX :: u64 where "DEBUG_READ_MAX = push_bit 20 1"

definition debug_pending_stop :: "u64 \<Rightarrow> u64 \<Rightarrow> ('j process, stop_reason option) em" where
  "debug_pending_stop steps step_target = em_run (\<lambda>p.
     case take_watch_hit (proc_dbg p) of (hit, d) \<Rightarrow>
       let p = upd_dbg (\<lambda>_. d) p in
       case hit of
         Some (addr, kind) \<Rightarrow> (Some (Watch addr kind), p)
       | None \<Rightarrow>
           if step_target \<le> steps then (Some StepComplete, p)
           else if break_at_step (proc_dbg p) \<le> steps
           then (Some (StepCount steps), upd_dbg (set_break_at_step None) p)
           else (None, p))"

definition saturating_sub :: "u64 \<Rightarrow> u64 \<Rightarrow> u64" where
  "saturating_sub a b = (if a < b then 0 else a - b)"

definition debug_needs_interpreter :: "bool \<Rightarrow> u64 \<Rightarrow> 'j process \<Rightarrow> bool" where
  "debug_needs_interpreter stepping steps p \<longleftrightarrow>
     stepping \<or> saturating_sub (break_at_step (proc_dbg p)) steps \<le> JIT_EXACT_STOP_WINDOW"

fun debug_read_bytes :: "u64 \<Rightarrow> nat \<Rightarrow> (vmem, bytes) em" where
  \<comment> \<open>byte by byte, up to the first that cannot be read\<close>
  "debug_read_bytes addr 0 = em_return []"
| "debug_read_bytes addr (Suc n) =
     em_bind (tried (vm_read addr 1)) (\<lambda>b.
     case b of
       None \<Rightarrow> em_return []
     | Some bs \<Rightarrow> em_bind (debug_read_bytes (addr + 1) n) (\<lambda>rest. em_return (bs @ rest)))"

definition debug_read :: "u64 \<Rightarrow> u64 \<Rightarrow> (vmem, bytes) em" where
  "debug_read addr len0 =
     (let len = unat (min len0 DEBUG_READ_MAX) in
      em_bind (tried (vm_read addr len)) (\<lambda>r.
      case r of Some bs \<Rightarrow> em_return bs | None \<Rightarrow> debug_read_bytes addr len))"

definition send_event :: "bool \<Rightarrow> debug_event \<Rightarrow> ('j process, unit) em" where
  "send_event events e = em_when events (proc_upd (\<lambda>p. p\<lparr>pc_sent := pc_sent p @ [e]\<rparr>))"

definition debug_snapshot_of :: "'j run_env \<Rightarrow> stop_reason \<Rightarrow> u64 \<Rightarrow> u64 list \<Rightarrow> ('j process, debug_snapshot) em" where
  "debug_snapshot_of E stop steps trail =
     em_bind (proc (\<lambda>p. (proc_cpu p, os_function_table (proc_os p), pc_image_base p))) (\<lambda>(regs, table, base).
     em_bind (if table = [] then em_return []
       else on_proc_mem (backtrace (vm_ops (ev_alloc E)) table base regs 24)) (\<lambda>frames.
     proc (\<lambda>p. \<lparr>sn_stop = stop, sn_steps = steps, sn_regs = regs,
       sn_bits = (case it_bits (proc_it p) of B64 \<Rightarrow> 64 | B32 \<Rightarrow> 32),
       sn_rip_note = ev_describe E (proc_os p) (cpu_rip regs), sn_trail = trail, sn_backtrace = frames,
       sn_modules = ev_modules E (proc_os p), sn_regions = map mp_region (vm_regions (proc_mem p))\<rparr>)))"

fun debug_commands :: "bool \<Rightarrow> debug_command list \<Rightarrow> ('j process, debug_action \<times> debug_command list) em" where
  \<comment> \<open>the loop of \<open>debug_serve\<close> over the commands that arrive; a front end that hangs up detaches\<close>
  "debug_commands events [] = em_return (ActDetach, [])"
| "debug_commands events (cmd # cmds) =
     (case cmd of
        CmdResume \<Rightarrow> em_bind (send_event events EvResumed) (\<lambda>_. em_return (ActContinue, cmds))
      | CmdStep \<Rightarrow> em_bind (send_event events EvResumed) (\<lambda>_. em_return (ActStep, cmds))
      | CmdPause \<Rightarrow> debug_commands events cmds
      | CmdArmBreak addr \<Rightarrow> em_bind (proc_upd (upd_dbg (arm_break addr))) (\<lambda>_. debug_commands events cmds)
      | CmdDisarmBreak addr \<Rightarrow> em_bind (proc_upd (upd_dbg (disarm_break addr))) (\<lambda>_. debug_commands events cmds)
      | CmdArmWatch base len kind \<Rightarrow>
          em_bind (proc_upd (upd_dbg (arm_watch base len kind))) (\<lambda>_. debug_commands events cmds)
      | CmdDisarmWatch base \<Rightarrow> em_bind (proc_upd (upd_dbg (disarm_watch base))) (\<lambda>_. debug_commands events cmds)
      | CmdBreakAtStep n \<Rightarrow> em_bind (proc_upd (upd_dbg (set_break_at_step n))) (\<lambda>_. debug_commands events cmds)
      | CmdReadMemory addr len \<Rightarrow>
          em_bind (on_proc_mem (debug_read addr len)) (\<lambda>bs.
          em_bind (send_event events (EvMemory addr bs)) (\<lambda>_. debug_commands events cmds))
      | CmdDisassemble addr count \<Rightarrow>
          em_bind (send_event events (EvError (''cannot disassemble at '' @ fmt_hex (unat addr) @
            '': the decoder is not a public seam yet (roadmap W9.2). Read the bytes with ReadMemory instead.''))) (\<lambda>_.
          debug_commands events cmds)
      | CmdDetach \<Rightarrow> em_return (ActDetach, cmds)
      | CmdKill \<Rightarrow> em_return (ActKill, cmds))"

definition debug_disarm_all :: "debug \<Rightarrow> debug" where
  "debug_disarm_all d =
     (let d = fold disarm_break (breakpoints d) d;
          d = fold (\<lambda>w. disarm_watch (wp_base w)) (watchpoints d) d
      in request SrRun (set_break_at_step None d))"

definition debug_stop :: "'j run_env \<Rightarrow> stop_reason \<Rightarrow> u64 \<Rightarrow> u64 list \<Rightarrow> ('j process, debug_action) em" where
  "debug_stop E reason steps trail =
     em_bind (proc (\<lambda>p. (pc_cmds p, pc_events p))) (\<lambda>(cmds, events).
     case cmds of
       None \<Rightarrow> em_return ActContinue
     | Some cmds \<Rightarrow>
         em_bind (proc_upd (\<lambda>p. p\<lparr>pc_cmds := None, pc_events := False\<rparr>)) (\<lambda>_.
         em_bind (debug_snapshot_of E reason steps trail) (\<lambda>sn.
         em_bind (send_event events (EvStopped sn)) (\<lambda>_.
         em_bind (debug_commands events cmds) (\<lambda>(action, rest).
         em_bind (if action = ActDetach then proc_upd (upd_dbg debug_disarm_all)
           else proc_upd (\<lambda>p. p\<lparr>pc_cmds := Some rest, pc_events := events\<rparr>)) (\<lambda>_.
         em_return action))))))"

section \<open>The error of a run\<close>

definition fault_debugged :: "'j run_env \<Rightarrow> bool \<Rightarrow> emu_error \<Rightarrow> u64 \<Rightarrow> u64 list \<Rightarrow> ('j process, emu_error) em" where
  "fault_debugged E debugging err steps recent =
     em_bind (proc (\<lambda>p. ev_report E p (show_error err) (Some err) steps recent)) (\<lambda>report.
     em_bind (if debugging then em_bind (debug_stop E (Faulted report) steps recent) (\<lambda>_. em_return ())
       else em_return ()) (\<lambda>_.
     em_return (Fault report err)))"

definition fmt_hex10 :: "nat \<Rightarrow> string" where
  \<comment> \<open>\<open>{:#010x}\<close>\<close>
  "fmt_hex10 n = (let d = digits_in 16 n in ''0x'' @ replicate (8 - length d) (hex_char 0) @ d)"

definition EM_DASH :: string where "EM_DASH = [CHR 0xE2, CHR 0x80, CHR 0x94]"

definition unhandled_fault ::
    "'j run_env \<Rightarrow> bool \<Rightarrow> unhandled_exception \<Rightarrow> u64 \<Rightarrow> u64 list \<Rightarrow> ('j process, emu_error) em" where
  "unhandled_fault E debugging u steps recent =
     em_bind (proc proc_os) (\<lambda>w.
     fault_debugged E debugging (Os (''unhandled guest exception '' @ fmt_hex10 (unat (uh_code u)) @ '' at '' @
       ev_addr_note E w (uh_address u) @ '' '' @ EM_DASH @ '' '' @ uh_how u)) steps recent)"

section \<open>The run loop\<close>

definition CHAIN_MAX_INSTRUCTIONS :: u64 where "CHAIN_MAX_INSTRUCTIONS = 65536"
definition TAIL :: nat where "TAIL = 24"

definition rip_trail :: "'j run_env \<Rightarrow> 'j running \<Rightarrow> u64 list" where
  "rip_trail E s = (case pc_jit (ru_proc s) of Some j \<Rightarrow> ev_blocks E j | None \<Rightarrow> ru_recent s)"

definition note_rip :: "'j running \<Rightarrow> 'j running" where
  "note_rip s =
     (let r = ru_recent s @ [cpu_rip (proc_cpu (ru_proc s))] in
      s\<lparr>ru_recent := (if TAIL < length r then tl r else r)\<rparr>)"

definition run_fails :: "'j run_env \<Rightarrow> emu_error \<Rightarrow> ('j running, 'a) em" where
  \<comment> \<open>\<open>return Err(self.fault_debugged(..))\<close>\<close>
  "run_fails E err s =
     em_bind (on_proc (fault_debugged E (ru_debugging s) err (ru_steps s) (rip_trail E s))) em_fail s"

definition run_unhandled :: "'j run_env \<Rightarrow> unhandled_exception \<Rightarrow> ('j running, 'a) em" where
  "run_unhandled E u s =
     em_bind (on_proc (unhandled_fault E (ru_debugging s) u (ru_steps s) (rip_trail E s))) em_fail s"

definition stop_wanted :: "('j running, stop_reason option) em" where
  \<comment> \<open>a pending stop, a request of the front end, or a breakpoint at the next instruction\<close>
  "stop_wanted =
     em_bind (em_get (\<lambda>s. (ru_steps s, ru_step_target s))) (\<lambda>(steps, step_target).
     em_bind (on_proc (debug_pending_stop steps step_target)) (\<lambda>reason.
     em_bind (if reason \<noteq> None then em_return reason
       else
         em_bind (em_run (\<lambda>s. case take_request (proc_dbg (ru_proc s)) of (r, d) \<Rightarrow>
           (r, s\<lparr>ru_proc := upd_dbg (\<lambda>_. d) (ru_proc s)\<rparr>))) (\<lambda>r.
         case r of
           SrPause \<Rightarrow> em_return (Some Paused)
         | SrStep \<Rightarrow> em_bind (em_mod (\<lambda>s. s\<lparr>ru_step_target := ru_steps s + 1, ru_stepping := True\<rparr>)) (\<lambda>_. em_return None)
         | SrRun \<Rightarrow> em_return None)) (\<lambda>reason.
     em_get (\<lambda>s. let rip = cpu_rip (proc_cpu (ru_proc s)) in
       if reason = None \<and> is_break (proc_dbg (ru_proc s)) rip then Some (Breakpoint rip) else reason))))"

definition killed :: "u64 \<Rightarrow> emu_error" where
  "killed steps = Os (''the debugger abandoned the run after '' @ fmt_dec (unat steps) @ '' instructions'')"

definition debug_turn :: "'j run_env \<Rightarrow> ('j running, unit) em" where
  \<comment> \<open>the front end's turn before an instruction\<close>
  "debug_turn E =
     em_bind stop_wanted (\<lambda>reason.
     case reason of
       None \<Rightarrow> em_return ()
     | Some reason \<Rightarrow>
         em_bind (\<lambda>s. on_proc (debug_stop E reason (ru_steps s) (rip_trail E s)) s) (\<lambda>action.
         case action of
           ActContinue \<Rightarrow> em_mod (\<lambda>s. s\<lparr>ru_stepping := False, ru_step_target := - 1\<rparr>)
         | ActStep \<Rightarrow> em_mod (\<lambda>s. s\<lparr>ru_stepping := True, ru_step_target := ru_steps s + 1\<rparr>)
         | ActDetach \<Rightarrow> em_mod (\<lambda>s. s\<lparr>ru_debugging := False, ru_stepping := False, ru_step_target := - 1\<rparr>)
         | ActKill \<Rightarrow> em_bind (em_get ru_steps) (\<lambda>n. em_fail (killed n))))"

definition virtual_time :: "'j running \<Rightarrow> bool" where
  "virtual_time s = ck_virtualized (it_clock (proc_it (ru_proc s)))"

definition after_progress :: "u64 \<Rightarrow> ('j running, unit) em" where
  \<comment> \<open>what follows instructions that have retired: the time page, and the end of a fault's delivery\<close>
  "after_progress step_rip =
     em_bind (em_get (\<lambda>s. virtual_time s \<and> ru_next_refresh s \<le> ru_steps s)) (\<lambda>due.
     em_bind (em_when due (
       em_bind (\<lambda>s. on_proc (on_proc_mem (refresh_kuser_time (it_clock (proc_it (ru_proc s))))) s) (\<lambda>_.
       em_mod (\<lambda>s. s\<lparr>ru_next_refresh :=
         (ru_steps s div KUSER_REFRESH_INSTRUCTIONS + 1) * KUSER_REFRESH_INSTRUCTIONS\<rparr>)))) (\<lambda>_.
     em_mod (\<lambda>s. if pc_exc_depth (ru_proc s) \<noteq> 0 \<and> \<not> at_exc_dispatcher step_rip (proc_os (ru_proc s))
       then s\<lparr>ru_proc := (ru_proc s)\<lparr>pc_exc_depth := 0\<rparr>\<rparr> else s)))"

definition jit_budget :: "'j running \<Rightarrow> u64" where
  "jit_budget s =
     (let p = ru_proc s; steps = ru_steps s in
      if pc_exc_depth p \<noteq> 0 then 0
      else
        let b = min CHAIN_MAX_INSTRUCTIONS (os_retire_budget (proc_os p));
            b = (if virtual_time s then min b (saturating_sub (ru_next_refresh s) steps) else b);
            b = (if pc_max_steps p \<noteq> 0 then min b (saturating_sub (pc_max_steps p) steps) else b)
        in if ru_debugging s then min b (saturating_sub (break_at_step (proc_dbg p)) steps) else b)"

definition jit_call :: "'j run_env \<Rightarrow> 'j \<Rightarrow> 'j running \<Rightarrow> jit_run \<times> 'j running" where
  "jit_call E j s =
     (let p = ru_proc s; it = proc_it p in
      case ev_jit E (it_bits it) (jit_budget s) (proc_cpu p, proc_mem p, j) of (res, c, m, j') \<Rightarrow>
        (res, s\<lparr>ru_proc := (set_mem m (upd_it (\<lambda>it. it\<lparr>it_state := c\<rparr>) p))\<lparr>pc_jit := Some j'\<rparr>\<rparr>))"

definition blocks_retired :: "u64 \<Rightarrow> u64 \<Rightarrow> ('j running, unit) em" where
  \<comment> \<open>\<open>n\<close> instructions of compiled blocks have retired\<close>
  "blocks_retired step_rip n =
     em_bind (on_proc (proc_upd (upd_it (\<lambda>it. it\<lparr>it_clock := retire n (it_clock it)\<rparr>)))) (\<lambda>_.
     em_bind (em_mod (\<lambda>s. s\<lparr>ru_steps := ru_steps s + n\<rparr>)) (\<lambda>_.
     em_bind (on_proc (on_services (os_retire n))) (\<lambda>_.
     em_bind (on_proc apply_thread_mode_switch) (\<lambda>_.
     after_progress step_rip))))"

definition blocks_ran :: "u64 \<Rightarrow> jit_run \<Rightarrow> ('j running, bool) em" where
  "blocks_ran step_rip res =
     (let n = (ucast (jit_insns res) :: u64) in
      em_bind (em_when (n \<noteq> 0) (blocks_retired step_rip n)) (\<lambda>_.
      em_return (case res of Executed _ \<Rightarrow> True | _ \<Rightarrow> False)))"

definition jit_turn :: "'j run_env \<Rightarrow> u64 \<Rightarrow> ('j running, bool) em" where
  \<comment> \<open>compiled blocks first; whether the iteration is over\<close>
  "jit_turn E step_rip =
     em_bind (em_get (\<lambda>s. if ru_debugging s \<and> debug_needs_interpreter (ru_stepping s) (ru_steps s) (ru_proc s)
       then None else pc_jit (ru_proc s))) (\<lambda>jit.
     case jit of
       None \<Rightarrow> em_return False
     | Some j \<Rightarrow> em_bind (em_run (jit_call E j)) (blocks_ran step_rip))"

definition take_unhandled :: "('j running, unhandled_exception option) em" where
  "take_unhandled = on_proc (on_services (os_run take_unhandled_exception))"

definition hw_fault :: "'j run_env \<Rightarrow> exc_source \<Rightarrow> emu_error \<Rightarrow> ('j running, 'a option) em" where
  \<comment> \<open>a fault: delivered to the guest, or the end of the run\<close>
  "hw_fault E src err =
     em_bind (on_proc (try_deliver_hw_exception (ev_alloc E) src)) (\<lambda>delivered.
     if delivered then em_return None
     else
       em_bind take_unhandled (\<lambda>u.
       case u of Some u \<Rightarrow> run_unhandled E u | None \<Rightarrow> run_fails E err))"

definition step_outcome :: "'j run_env \<Rightarrow> u64 \<Rightarrow> stop + exit \<Rightarrow> ('j running, 32 word option) em" where
  "step_outcome E step_rip outcome =
     (case outcome of
        Inr Continue \<Rightarrow>
          em_bind (em_mod (\<lambda>s. s\<lparr>ru_steps := ru_steps s + 1\<rparr>)) (\<lambda>_.
          em_bind (after_progress step_rip) (\<lambda>_. em_return None))
      | Inr (ProcessExit code) \<Rightarrow>
          em_bind take_unhandled (\<lambda>u.
          case u of Some u \<Rightarrow> run_unhandled E u | None \<Rightarrow> em_return (Some code))
      | Inr Halted \<Rightarrow> em_return (Some 0)
      | Inr (Interrupt n) \<Rightarrow> hw_fault E (SrcInterrupt n) (Os (''unhandled interrupt '' @ fmt_hex (unat n)))
      | Inr (Syscall index) \<Rightarrow> run_fails E (Os (''SYSCALL '' @ fmt_hex (unat index) @ '' escaped the dispatcher''))
      | Inl (Err e) \<Rightarrow> hw_fault E (SrcError e) e
      | Inl x \<Rightarrow> em_stop x)"

definition run_step :: "'j run_env \<Rightarrow> ('j running, stop + exit) em" where
  \<comment> \<open>\<open>self.cpu.step(..)\<close>, whose outcome is matched\<close>
  "run_step E s =
     (case on_proc (on_runner (cpu_step (ev_hooks E) (ev_units E) (vm_ops (ev_alloc E)))) s of (r, t) \<Rightarrow> (Inr r, t))"

definition interpreter_turn :: "'j run_env \<Rightarrow> u64 \<Rightarrow> ('j running, 32 word option) em" where
  "interpreter_turn E step_rip =
     em_bind (run_step E) (\<lambda>outcome.
     em_bind (on_proc apply_thread_mode_switch) (\<lambda>_.
     step_outcome E step_rip outcome))"

definition run_round :: "'j run_env \<Rightarrow> ('j running, 32 word option) em" where
  \<comment> \<open>one round within the budget: \<open>Some\<close> leaves the loop with the exit code\<close>
  "run_round E =
     em_bind (em_mod note_rip) (\<lambda>_.
     em_bind (em_get (\<lambda>s. cpu_rip (proc_cpu (ru_proc s)))) (\<lambda>step_rip.
     em_bind (on_proc (proc_upd (\<lambda>p. upd_os (\<lambda>w. w\<lparr>os_guest_mode32 := (it_bits (proc_it p) = B32)\<rparr>) p))) (\<lambda>_.
     em_bind (em_get ru_debugging) (\<lambda>debugging.
     em_bind (em_when debugging (debug_turn E)) (\<lambda>_.
     em_bind (jit_turn E step_rip) (\<lambda>over.
     if over then em_return None else interpreter_turn E step_rip))))))"

definition budget_spent :: "'j running \<Rightarrow> bool" where
  "budget_spent s \<longleftrightarrow> pc_max_steps (ru_proc s) \<noteq> 0 \<and> pc_max_steps (ru_proc s) \<le> ru_steps s"

definition run_iter :: "'j run_env \<Rightarrow> ('j running, 32 word option) em" where
  "run_iter E s =
     (if budget_spent s
      then run_fails E (Os (''instruction budget exhausted after '' @ fmt_dec (unat (ru_steps s)) @ '' steps'')) s
      else run_round E s)"

fun run_loop :: "'j run_env \<Rightarrow> nat \<Rightarrow> 'j running \<Rightarrow> ((stop + 32 word) \<times> 'j running) option" where
  \<comment> \<open>at most \<open>n\<close> rounds\<close>
  "run_loop E 0 s = None"
| "run_loop E (Suc n) s =
     (case run_iter E s of
        (Inl x, t) \<Rightarrow> Some (Inl x, t)
      | (Inr (Some code), t) \<Rightarrow> Some (Inr code, t)
      | (Inr None, t) \<Rightarrow> run_loop E n t)"

definition run_start :: "'j process \<Rightarrow> 'j running" where
  "run_start p = \<lparr>ru_proc = p, ru_steps = 0, ru_next_refresh = KUSER_REFRESH_INSTRUCTIONS, ru_recent = [],
     ru_debugging = dbg_attached (proc_dbg p), ru_stepping = False, ru_step_target = - 1\<rparr>"

definition run_borrowed :: "'j run_env \<Rightarrow> nat \<Rightarrow> 'j process \<Rightarrow> ((stop + 32 word \<times> u64) \<times> 'j process) option" where
  \<comment> \<open>the exit code and the number of steps\<close>
  "run_borrowed E n p =
     (case run_loop E n (run_start p) of
        None \<Rightarrow> None
      | Some (Inl x, t) \<Rightarrow> Some (Inl x, ru_proc t)
      | Some (Inr code, t) \<Rightarrow>
          let q = ru_proc t in
          Some (Inr (code, ru_steps t),
            if pc_events q then q\<lparr>pc_sent := pc_sent q @ [EvExited code (ru_steps t)]\<rparr> else q))"

definition show_exit :: "exit \<Rightarrow> string" where
  \<comment> \<open>\<open>{:?}\<close> of an exit\<close>
  "show_exit x =
     (case x of
        Continue \<Rightarrow> ''Continue''
      | ProcessExit c \<Rightarrow> ''ProcessExit('' @ (if c <s 0 then ''-'' else []) @ fmt_dec (nat \<bar>sint c\<bar>) @ '')''
      | Halted \<Rightarrow> ''Halted''
      | Interrupt n \<Rightarrow> ''Interrupt('' @ fmt_dec (unat n) @ '')''
      | Syscall i \<Rightarrow> ''Syscall('' @ fmt_dec (unat i) @ '')'')"

fun run_until_rip :: "'j run_env \<Rightarrow> u64 \<Rightarrow> u64 \<Rightarrow> nat \<Rightarrow> u64 \<Rightarrow> ('j process, u64) em" where
  \<comment> \<open>\<open>n\<close> is the number of steps that are left of \<open>max_steps\<close>\<close>
  "run_until_rip E target max_steps n steps =
     em_bind (proc (\<lambda>p. cpu_rip (proc_cpu p))) (\<lambda>rip.
     if rip = target then em_return steps
     else
       (case n of
          0 \<Rightarrow> em_fail (Os (''run_until_rip('' @ fmt_hex (unat target) @ ''): not reached within '' @
            fmt_dec (unat max_steps) @ '' steps (rip '' @ fmt_hex (unat rip) @ '')''))
        | Suc k \<Rightarrow>
            em_bind (on_runner (cpu_step (ev_hooks E) (ev_units E) (vm_ops (ev_alloc E)))) (\<lambda>x.
            if x = Continue then run_until_rip E target max_steps k (steps + 1)
            else em_fail (Os (''run_until_rip('' @ fmt_hex (unat target) @
              ''): process left the run loop with '' @ show_exit x @ '' after '' @ fmt_dec (unat steps) @ '' steps'')))))"

end
