(* ===== verification/Process_Sound.thy ===== *)
theory Process_Sound
  imports Process_Run Units_Sound Unwind_Theorems
begin

text \<open>
  What a round of the run loop keeps, and how it can stop. \<open>ends P m\<close>: \<open>m\<close> keeps \<open>P\<close>, and it comes
  to an end, with a value, an error or a panic. Every part of a round is of this kind but the calls
  of the hooks, which \<open>services_end\<close> speaks of: those that a run really makes, in the states in
  which it makes them.
\<close>

section \<open>Memory and debugger\<close>

abbreviation ends :: "('s \<Rightarrow> bool) \<Rightarrow> ('s, 'a) em \<Rightarrow> bool" where
  "ends \<equiv> sound_for (\<lambda>x. x \<noteq> Loops)"

named_theorems ends_intros \<open>rules for \<open>ends\<close>\<close>

lemma ends_sound: "sound P m \<Longrightarrow> ends P m" "safe P m \<Longrightarrow> ends P m"
  by (auto simp: sound_for_def)

lemma ends_simple [ends_intros]: "ends P (em_fail e)" "ends P (em_return a)" "ends P (em_get f)" "ends P (em_panic w)"
  by (simp_all add: sound_for_def em_apply)

lemma ends_tried [ends_intros]: "ends P m \<Longrightarrow> ends P (tried m)"
  by (auto simp: sound_for_def tried_def case_prod_beta split: sum.splits stop.splits)

lemma sound_every: "(\<And>A. sound_for B (\<lambda>m. P m \<and> q m = A) f) \<Longrightarrow> sound_for B P f"
  by (auto simp: sound_for_def)

lemmas ends_rules [ends_intros] = sound_bind sound_when sound_if sound_case_prod sound_case_option sound_each

lemma ends_memory [ends_intros]:
  "ends vm_ok (mem_write_u16 (vm_ops alloc) a b)" "ends vm_ok (mem_write_u32 (vm_ops alloc) a c)"
  "ends vm_ok (mem_write_u64 (vm_ops alloc) a d)" "ends vm_ok (vm_write a bs)" "ends vm_ok (vm_read a n)"
  using vmem.sound_reads [where alloc = alloc] vmem.sound_ops [where alloc = alloc]
  by (auto intro!: ends_sound(1) intro: sound_every [where q = vm_acc])

lemma ends_poke [ends_intros]: "ends vm_ok (vm_poke a bs)"
proof (rule soundI)
  fix m x assume ok: "vm_ok m"
  then have inv: "vm_inv m" by (rule vm_ok_inv)
  show "fst (vm_poke a bs m) = Inl x \<Longrightarrow> x \<noteq> Loops"
    by (auto simp: vm_poke_def Let_def split: prod.splits option.splits if_splits)
  have "table_below_top (vm_regions (snd (vm_poke a bs m)))"
  proof (cases "bs = []")
    case False
    from inv False show ?thesis
    proof (cases rule: vm_poke_cases [where a = a])
      case (ok h i s e)
      then show ?thesis
        using \<open>vm_ok m\<close> by (simp add: set_bytes_blit vm_ok_def table_below_top_splice_at)
    qed (use ok in \<open>simp add: vm_ok_def\<close>)
  qed (use ok in \<open>simp add: vm_poke_def vm_ok_def\<close>)
  then show "vm_ok (snd (vm_poke a bs m))" using vm_inv_poke [OF inv] by (simp add: vm_ok_def)
qed

lemma ends_kuser [ends_intros]: "ends vm_ok (refresh_kuser_time k)"
  unfolding refresh_kuser_time_def write_ksystem_time_def Let_def by (intro ends_intros)

lemma ends_backtrace [ends_intros]: "ends vm_ok (backtrace (vm_ops alloc) table base c n)"
  using vtop.backtrace_bound [where alloc = alloc and table = table and base = base and c = c and limit = n]
  by (fastforce intro!: soundI simp: same_view_def)

lemma ends_debug_read_bytes: "ends vm_ok (debug_read_bytes a n)"
  by (induction n arbitrary: a) (auto intro!: ends_intros)

lemma ends_debug_read [ends_intros]: "ends vm_ok (debug_read a n)"
  unfolding debug_read_def Let_def by (intro ends_intros ends_debug_read_bytes)

section \<open>Services\<close>

lemma ends_services [ends_intros]:
  "ends (\<lambda>s. I (sw_mem s)) (os_run g)" "ends (\<lambda>s. I (sw_mem s)) (cpu_upd u)" "ends (\<lambda>s. I (sw_mem s)) (on_cpu h)"
  "ends (\<lambda>s. I (sw_mem s)) (os_upd v)" "ends (\<lambda>s. I (sw_mem s)) (os w)" "ends (\<lambda>s. I (sw_mem s)) (on_switch k)"
  by (auto simp: sound_for_def em_apply os_run_def cpu_upd_def on_cpu_def os_upd_def os_def on_switch_def case_prod_beta)

lemma ends_on_mem [ends_intros]: "ends I f \<Longrightarrow> ends (\<lambda>s. I (sw_mem s)) (on_mem f)"
  by (auto simp: sound_for_def on_mem_def case_prod_beta)

lemma ends_write_words [ends_intros]: "ends vm_ok (write_words (vm_ops alloc) a vs)"
  by (induction vs arbitrary: a) (auto intro!: ends_intros)

lemma ends_deliver [ends_intros]: "ends (\<lambda>s. vm_ok (sw_mem s)) (deliver_hw_exception (vm_ops alloc) base t)"
  unfolding deliver_hw_exception_def Let_def write_context_def write_exception_record_def
  by (intro ends_intros) (simp add: ends_intros)

lemma ends_retire [ends_intros]: "ends (\<lambda>s. vm_ok (sw_mem s)) (os_retire n)"
  unfolding os_retire_def preempt_by_def yield_and_switch_def by (intro ends_intros)

section \<open>The process\<close>

definition proc_fit :: "'j process \<Rightarrow> bool" where
  "proc_fit p \<longleftrightarrow> runner_fit vm_ok (pc_run p)"

lemma proc_fit_vm: "proc_fit p \<longleftrightarrow> vm_ok (proc_mem p) \<and> interp_fit None (proc_it p)"
  by (simp add: proc_fit_def runner_fit_def at_rest_def proc_mem_def proc_it_def)

lemma proc_parts [simp]:
  "proc_mem (set_mem m p) = m" "proc_it (set_mem m p) = proc_it p"
  "proc_mem (upd_it f p) = proc_mem p" "proc_it (upd_it f p) = f (proc_it p)"
  "proc_mem (upd_os g p) = proc_mem p" "proc_it (upd_os g p) = proc_it p"
  "proc_mem (p\<lparr>pc_exc_depth := d\<rparr>) = proc_mem p" "proc_it (p\<lparr>pc_exc_depth := d\<rparr>) = proc_it p"
  "proc_mem (p\<lparr>pc_sent := ev\<rparr>) = proc_mem p" "proc_it (p\<lparr>pc_sent := ev\<rparr>) = proc_it p"
  "proc_mem (p\<lparr>pc_cmds := cs, pc_events := b\<rparr>) = proc_mem p" "proc_it (p\<lparr>pc_cmds := cs, pc_events := b\<rparr>) = proc_it p"
  "proc_mem (p\<lparr>pc_jit := j\<rparr>) = proc_mem p" "proc_it (p\<lparr>pc_jit := j\<rparr>) = proc_it p"
  by (simp_all add: set_mem_def upd_it_def upd_os_def proc_mem_def proc_it_def)

lemma interp_fit_updates [simp]:
  "interp_fit None (set_rip_to r it) = interp_fit None it" "interp_fit None (it\<lparr>it_bits := b\<rparr>) = interp_fit None it"
  "interp_fit None (it\<lparr>it_clock := k\<rparr>) = interp_fit None it" "interp_fit None (it\<lparr>it_state := c\<rparr>) = interp_fit None it"
  by (simp_all add: interp_fit_def set_rip_to_def)

definition debug_step :: "(debug \<Rightarrow> debug) \<Rightarrow> bool" where
  "debug_step f \<longleftrightarrow> (\<forall>d. debug_inv d \<and> dbg_attached d \<longrightarrow> debug_inv (f d) \<and> dbg_attached (f d))"

lemma attached_mutate: "dbg_attached (debug_mutate f d) = dbg_attached d"
  by (auto simp: debug_mutate_def Let_def split: prod.split)

lemma attached_ops:
  "dbg_attached (arm_break a d) = dbg_attached d" "dbg_attached (disarm_break a d) = dbg_attached d"
  "dbg_attached (arm_watch b n k d) = dbg_attached d" "dbg_attached (disarm_watch b d) = dbg_attached d"
  "dbg_attached (set_break_at_step s d) = dbg_attached d" "dbg_attached (request r d) = dbg_attached d"
  "dbg_attached (snd (take_watch_hit d)) = dbg_attached d" "dbg_attached (snd (take_request d)) = dbg_attached d"
  by (simp_all add: arm_break_def disarm_break_def arm_watch_def disarm_watch_def attached_mutate
      set_break_at_step_def request_def take_watch_hit_def take_request_def Let_def split: option.splits)

lemma debug_step_ops:
  "debug_step (arm_break a)" "debug_step (disarm_break a)" "debug_step (arm_watch b n k)" "debug_step (disarm_watch b)"
  "debug_step (set_break_at_step s)" "debug_step (request r)" "debug_step (\<lambda>d. snd (take_watch_hit d))"
  "debug_step (\<lambda>d. snd (take_request d))"
  by (simp_all add: debug_step_def debug_inv_arm_break debug_inv_disarm_break debug_inv_arm_watch
      debug_inv_disarm_watch debug_inv_frame attached_ops)

lemma debug_step_fold: "(\<And>x. debug_step (f x)) \<Longrightarrow> debug_step (fold f xs)"
  by (induction xs) (auto simp: debug_step_def)

lemma debug_step_all: "debug_step debug_disarm_all"
  using debug_step_fold [of disarm_break] debug_step_fold [of "\<lambda>w. disarm_watch (wp_base w)"] debug_step_ops
  unfolding debug_step_def debug_disarm_all_def Let_def by metis

lemma proc_fit_dbg:
  assumes "debug_step f" "proc_fit p" shows "proc_fit (upd_dbg f p)"
proof -
  have "vm_ok ((proc_mem p)\<lparr>vm_debug := map_option f (vm_debug (proc_mem p))\<rparr>)"
    using assms by (auto simp: proc_fit_vm vm_ok_def vm_inv_def debug_step_def)
  then show ?thesis using assms(2) by (simp add: proc_fit_vm upd_dbg_def)
qed

lemma proc_fit_dbg_to:
  assumes "debug_step f" "proc_fit p" shows "proc_fit (upd_dbg (\<lambda>_. f (proc_dbg p)) p)"
proof -
  have "upd_dbg (\<lambda>_. f (proc_dbg p)) p = upd_dbg f p"
    by (cases "vm_debug (proc_mem p)") (simp_all add: upd_dbg_def proc_dbg_def)
  then show ?thesis using proc_fit_dbg [OF assms] by simp
qed

lemma ends_runner: "ends (runner_fit vm_ok) f \<Longrightarrow> ends proc_fit (on_runner f)"
  by (auto simp: sound_for_def on_runner_def proc_fit_def case_prod_beta)

lemma ends_proc_mem [ends_intros]: "ends vm_ok f \<Longrightarrow> ends proc_fit (on_proc_mem f)"
  by (auto simp: sound_for_def on_proc_mem_def proc_fit_vm case_prod_beta)

lemma ends_in_world:
  fixes f :: "(vmem, 'a) service"
  assumes "ends (\<lambda>s. vm_ok (sw_mem s)) f" shows "ends (world_ok vm_ok) (in_world f)"
proof (rule soundI)
  fix w :: "(win_os, vmem) world" and x assume w: "world_ok vm_ok w"
  obtain h c k m where p: "w = (h, c, k, m)" by (cases w)
  let ?s = "\<lparr>sw_os = h\<lparr>os_clock := k\<rparr>, sw_cpu = c, sw_mem = m\<rparr>"
  have s: "vm_ok (sw_mem ?s)" using w by (simp add: p world_ok_def)
  show "world_ok vm_ok (snd (in_world f w))" "fst (in_world f w) = Inl x \<Longrightarrow> x \<noteq> Loops"
    using soundD [OF assms s] sound_stop [OF assms s] by (simp_all add: p in_world_def world_ok_def case_prod_beta)
qed

lemma ends_on_services [ends_intros]: "ends (\<lambda>s. vm_ok (sw_mem s)) f \<Longrightarrow> ends proc_fit (on_services f)"
  unfolding on_services_def by (intro ends_runner sound_world ends_in_world)

lemma ends_proc [ends_intros]: "ends P (proc f)"
  by (simp add: proc_def ends_simple)

lemma ends_proc_upd [ends_intros]: "(\<And>p. proc_fit p \<Longrightarrow> proc_fit (f p)) \<Longrightarrow> ends proc_fit (proc_upd f)"
  by (simp add: proc_upd_def sound_for_def em_apply)

lemma proc_fit_moves [ends_intros]:
  "proc_fit p \<Longrightarrow> proc_fit (upd_os g p)" "proc_fit p \<Longrightarrow> proc_fit (upd_it (set_rip_to r) p)"
  "proc_fit p \<Longrightarrow> proc_fit (upd_it (\<lambda>it. it\<lparr>it_bits := b\<rparr>) p)" "proc_fit p \<Longrightarrow> proc_fit (p\<lparr>pc_exc_depth := d\<rparr>)"
  "proc_fit p \<Longrightarrow> proc_fit (upd_it (\<lambda>it. it\<lparr>it_clock := kf it\<rparr>) p)"
  "proc_fit p \<Longrightarrow> proc_fit (p\<lparr>pc_sent := ev\<rparr>)" "proc_fit p \<Longrightarrow> proc_fit (p\<lparr>pc_cmds := cs, pc_events := e\<rparr>)"
  by (simp_all add: proc_fit_vm)

lemma ends_send [ends_intros]: "ends proc_fit (send_event b e)"
  unfolding send_event_def by (intro ends_intros)

lemma ends_switch [ends_intros]: "ends proc_fit apply_thread_mode_switch"
  unfolding apply_thread_mode_switch_def by (intro ends_proc_upd) (simp add: proc_fit_vm split: option.split)

lemma ends_exception [ends_intros]: "ends proc_fit (try_deliver_hw_exception alloc src)"
  unfolding try_deliver_hw_exception_def deliver_to_guest_def by (intro ends_intros; assumption?)

lemma ends_snapshot [ends_intros]: "ends proc_fit (debug_snapshot_of E r n trail)"
  unfolding debug_snapshot_of_def by (intro ends_intros)

lemma ends_commands [ends_intros]: "ends proc_fit (debug_commands events cmds)"
proof (induction cmds)
  case (Cons cmd cmds)
  then show ?case by (cases cmd) (auto intro!: ends_intros proc_fit_dbg debug_step_ops)
qed (simp add: ends_simple)

lemma ends_stop [ends_intros]: "ends proc_fit (debug_stop E r n trail)"
  unfolding debug_stop_def by (intro ends_intros proc_fit_dbg debug_step_all; assumption?)

lemma proc_fit_taken:
  "proc_fit p \<Longrightarrow> proc_fit (upd_dbg (\<lambda>_. snd (take_watch_hit (proc_dbg p))) p)"
  "proc_fit p \<Longrightarrow> proc_fit (upd_dbg (\<lambda>_. snd (take_request (proc_dbg p))) p)"
  by (rule proc_fit_dbg_to [OF debug_step_ops(7)], assumption) (rule proc_fit_dbg_to [OF debug_step_ops(8)])

lemma ends_pending [ends_intros]: "ends proc_fit (debug_pending_stop n t)"
  unfolding debug_pending_stop_def
proof (rule sound_run)
  fix p :: "'j process" assume p: "proc_fit p"
  obtain hit d where t: "take_watch_hit (proc_dbg p) = (hit, d)" by (rule prod.exhaust)
  then have d: "proc_fit (upd_dbg (\<lambda>_. d) p)" using proc_fit_taken(1) [OF p] by simp
  show "proc_fit (snd (case take_watch_hit (proc_dbg p) of (hit, d) \<Rightarrow>
       let p = upd_dbg (\<lambda>_. d) p in
       case hit of
         Some (addr, kind) \<Rightarrow> (Some (Watch addr kind), p)
       | None \<Rightarrow>
           if t \<le> n then (Some StepComplete, p)
           else if break_at_step (proc_dbg p) \<le> n
           then (Some (StepCount n), upd_dbg (set_break_at_step None) p)
           else (None, p)))"
    using d proc_fit_dbg [OF debug_step_ops(5) d, of None] by (simp add: t Let_def split: option.split)
qed

lemma ends_faults [ends_intros]:
  "ends proc_fit (fault_debugged E b e n trail)" "ends proc_fit (unhandled_fault E b u n trail)"
  unfolding unhandled_fault_def fault_debugged_def by (intro ends_intros)+

section \<open>The run\<close>

definition run_fit :: "'j running \<Rightarrow> bool" where
  "run_fit s \<longleftrightarrow> proc_fit (ru_proc s)"

definition blocks_fit :: "'j run_env \<Rightarrow> bool" where
  \<comment> \<open>compiled blocks keep the memory well-formed\<close>
  "blocks_fit E \<longleftrightarrow> (\<forall>b n c m j. vm_ok m \<longrightarrow> vm_ok (fst (snd (snd (ev_jit E b n (c, m, j))))))"

definition call_fine :: "('m \<Rightarrow> bool) \<Rightarrow> (('h, 'm) world, 'a) em \<Rightarrow> ('h, 'm) runner \<Rightarrow> bool" where
  \<comment> \<open>this call of a hook comes to an end, and leaves the memory well-formed\<close>
  "call_fine minv f r \<longleftrightarrow> fst (with_world f r) \<noteq> Inl Loops \<and> minv (mc_mem (rn_mach (snd (with_world f r))))"

definition calls_fine :: "('m \<Rightarrow> bool) \<Rightarrow> ('h, 'm) hooks \<Rightarrow> 'm ext_units \<Rightarrow> 'm memory_ops \<Rightarrow> ('h, 'm) runner \<Rightarrow> bool" where
  \<comment> \<open>the calls of a step: the intercept at its address, and the system call the instruction makes\<close>
  "calls_fine minv H U M r \<longleftrightarrow>
     (let s = snd (with_mach (upd_interp (\<lambda>it. it\<lparr>it_clock := retire_one (it_clock it)\<rparr>)) r);
          f = hk_intercept H (cpu_rip (it_state (mc_it (rn_mach s)))) in
      call_fine minv f s \<and>
      (\<forall>t i u. with_world f s = (Inr None, t) \<longrightarrow> with_mach (execute_one U M) t = (Inr (Syscall i), u) \<longrightarrow>
         call_fine minv (hk_syscall H i) u))"

definition to_step :: "'j run_env \<Rightarrow> ('j running, u64 option) em" where
  \<comment> \<open>a round up to the step of the interpreter; \<open>None\<close> when compiled blocks have made it\<close>
  "to_step E =
     em_bind (em_mod note_rip) (\<lambda>_.
     em_bind (em_get (\<lambda>s. cpu_rip (proc_cpu (ru_proc s)))) (\<lambda>step_rip.
     em_bind (on_proc (proc_upd (\<lambda>p. upd_os (\<lambda>w. w\<lparr>os_guest_mode32 := (it_bits (proc_it p) = B32)\<rparr>) p))) (\<lambda>_.
     em_bind (em_get ru_debugging) (\<lambda>debugging.
     em_bind (em_when debugging (debug_turn E)) (\<lambda>_.
     em_bind (jit_turn E step_rip) (\<lambda>over. em_return (if over then None else Some step_rip)))))))"

lemma run_round_to_step:
  "run_round E = em_bind (to_step E) (\<lambda>r. case r of None \<Rightarrow> em_return None | Some rip \<Rightarrow> interpreter_turn E rip)"
proof -
  have "(case if over then None else Some rip of None \<Rightarrow> em_return None | Some rip \<Rightarrow> interpreter_turn E rip) =
      (if over then em_return None else interpreter_turn E rip)" for over rip by simp
  then show ?thesis unfolding run_round_def to_step_def em_bind_assoc em_bind_return by presburger
qed

inductive run_reaches :: "'j run_env \<Rightarrow> 'j running \<Rightarrow> 'j running \<Rightarrow> bool" for E s where
  here: "run_reaches E s s"
| round: "run_reaches E s t \<Longrightarrow> run_iter E t = (Inr None, u) \<Longrightarrow> run_reaches E s u"

definition services_end :: "'j run_env \<Rightarrow> 'j running \<Rightarrow> bool" where
  \<comment> \<open>every call of a hook that the run from \<open>s\<close> makes comes to an end and leaves the memory well-formed\<close>
  "services_end E s \<longleftrightarrow> (\<forall>t rip u. run_reaches E s t \<longrightarrow> \<not> budget_spent t \<longrightarrow> to_step E t = (Inr (Some rip), u) \<longrightarrow>
     calls_fine vm_ok (ev_hooks E) (ev_units E) (vm_ops (ev_alloc E)) (pc_run (ru_proc u)))"

lemma call_fineD:
  assumes "runner_fit minv r" "call_fine minv f r"
  shows "runner_fit minv (snd (with_world f r))" "fst (with_world f r) \<noteq> Inl Loops"
  using assms by (auto simp: call_fine_def runner_fit_def at_rest_def interp_fit_def with_world_def Let_def case_prod_beta)

lemma step_ends:
  assumes r: "runner_fit vm_ok r" and fine: "calls_fine vm_ok H (cpu_units F (vm_ops alloc)) (vm_ops alloc) r"
  shows "runner_fit vm_ok (snd (cpu_step H (cpu_units F (vm_ops alloc)) (vm_ops alloc) r)) \<and>
    fst (cpu_step H (cpu_units F (vm_ops alloc)) (vm_ops alloc) r) \<noteq> Inl Loops"
proof -
  let ?M = "vm_ops alloc" and ?U = "cpu_units F (vm_ops alloc)"
  let ?tick = "with_mach (upd_interp (\<lambda>it. it\<lparr>it_clock := retire_one (it_clock it)\<rparr>))"
  define s where "s = snd (?tick r)"
  define f where "f = hk_intercept H (cpu_rip (it_state (mc_it (rn_mach s))))"
  have tick: "?tick r = (Inr (), s)" by (simp add: s_def with_mach_def mach_laws)
  have s: "runner_fit vm_ok s"
    using r by (simp add: s_def with_mach_def mach_laws runner_fit_def at_rest_def interp_fit_def)
  obtain x t where f: "with_world f s = (x, t)" by (rule prod.exhaust)
  have calls: "call_fine vm_ok f s" and sys: "with_world f s = (Inr None, t) \<Longrightarrow>
      with_mach (execute_one ?U ?M) t = (Inr (Syscall i), u) \<Longrightarrow> call_fine vm_ok (hk_syscall H i) u" for i t u
    using fine unfolding calls_fine_def s_def [symmetric] Let_def f_def [symmetric] by blast+
  have t: "runner_fit vm_ok t" "x \<noteq> Inl Loops" using call_fineD [OF s calls] by (simp_all add: f)
  show ?thesis
  proof (cases "x = Inr None")
    case False
    then show ?thesis
      using t f by (auto simp: cpu_step_def em_bind_def tick em_apply f_def split: sum.split option.split)
  next
    case True
    obtain e u where e: "with_mach (execute_one ?U ?M) t = (e, u)" by (rule prod.exhaust)
    have exec: "sound (runner_fit vm_ok) (with_mach (execute_one ?U ?M))"
      using vtop.execute_one_fit [OF vtop.sound_cpu_units] mach_fit_rest
      by (fastforce intro!: soundI simp: with_mach_def runner_fit_def case_prod_beta)
    then have u: "runner_fit vm_ok u" "e \<noteq> Inl Loops"
      using soundD [OF exec t(1)] sound_stop [OF exec t(1)] e by (auto simp: benign_def)
    have eq: "cpu_step H ?U ?M r =
        (case e of Inl x \<Rightarrow> (Inl x, u) | Inr (Syscall i) \<Rightarrow> with_world (hk_syscall H i) u | Inr e \<Rightarrow> (Inr e, u))"
      using f e True by (auto simp: cpu_step_def em_bind_def tick em_apply f_def split: sum.split exit.split)
    show ?thesis
    proof (cases "\<exists>i. e = Inr (Syscall i)")
      case True
      then obtain i where i: "e = Inr (Syscall i)" by blast
      have "call_fine vm_ok (hk_syscall H i) u"
        using f e \<open>x = Inr None\<close> by (intro sys) (simp_all add: i)
      from call_fineD [OF u(1) this] show ?thesis by (simp add: eq i)
    qed (use u in \<open>auto simp: eq split: sum.split exit.split\<close>)
  qed
qed

lemma ends_on_proc [ends_intros]: "ends proc_fit f \<Longrightarrow> ends run_fit (on_proc f)"
  by (auto simp: sound_for_def on_proc_def run_fit_def case_prod_beta)

lemma ends_run_mod: "(\<And>s. ru_proc (f s) = ru_proc s) \<Longrightarrow> ends run_fit (em_mod f)"
  by (rule sound_mod) (simp add: run_fit_def)

lemma ends_reader: "(\<And>s. ends P (f s)) \<Longrightarrow> ends P (\<lambda>s. f s s)"
  by (simp add: sound_for_def)

lemma ends_fails [ends_intros]: "ends run_fit (run_fails E e)" "ends run_fit (run_unhandled E u)"
  unfolding run_fails_def [abs_def] run_unhandled_def [abs_def] by (rule ends_reader, intro ends_intros)+

lemma ends_turn [ends_intros]: "ends run_fit (debug_turn E)"
proof -
  have take: "ends run_fit (em_run (\<lambda>s. case take_request (proc_dbg (ru_proc s)) of (r, d) \<Rightarrow>
      (r, s\<lparr>ru_proc := upd_dbg (\<lambda>_. d) (ru_proc s)\<rparr>)))"
    by (rule sound_run) (simp add: run_fit_def case_prod_beta proc_fit_taken)
  have asked: "ends run_fit (case r of SrPause \<Rightarrow> em_return (Some Paused)
       | SrStep \<Rightarrow> em_bind (em_mod (\<lambda>s. s\<lparr>ru_step_target := ru_steps s + 1, ru_stepping := True\<rparr>)) (\<lambda>_. em_return None)
       | SrRun \<Rightarrow> em_return None)" for r
    by (cases r) (simp_all add: sound_bind ends_simple ends_run_mod)
  have stop: "ends run_fit (\<lambda>s. on_proc (debug_stop E reason (ru_steps s) (rip_trail E s)) s)" for reason
    by (rule ends_reader) (intro ends_intros)
  have wanted: "ends run_fit stop_wanted"
    unfolding stop_wanted_def by (intro ends_intros take asked)
  have acted: "ends run_fit (case action of
           ActContinue \<Rightarrow> em_mod (\<lambda>s. s\<lparr>ru_stepping := False, ru_step_target := - 1\<rparr>)
         | ActStep \<Rightarrow> em_mod (\<lambda>s. s\<lparr>ru_stepping := True, ru_step_target := ru_steps s + 1\<rparr>)
         | ActDetach \<Rightarrow> em_mod (\<lambda>s. s\<lparr>ru_debugging := False, ru_stepping := False, ru_step_target := - 1\<rparr>)
         | ActKill \<Rightarrow> em_bind (em_get ru_steps) (\<lambda>n. em_fail (killed n)))" for action
    by (cases action) (simp_all add: sound_bind ends_simple ends_run_mod)
  show ?thesis
    unfolding debug_turn_def by (intro ends_intros wanted acted stop)
qed

lemma ends_progress [ends_intros]: "ends run_fit (after_progress rip)"
proof -
  have over: "ends run_fit (em_mod (\<lambda>s. if pc_exc_depth (ru_proc s) \<noteq> 0 \<and> \<not> at_exc_dispatcher rip (proc_os (ru_proc s))
      then s\<lparr>ru_proc := (ru_proc s)\<lparr>pc_exc_depth := 0\<rparr>\<rparr> else s))"
    by (rule sound_mod) (simp add: run_fit_def proc_fit_moves)
  have page: "ends run_fit (\<lambda>s. on_proc (on_proc_mem (refresh_kuser_time (it_clock (proc_it (ru_proc s))))) s)"
    by (rule ends_reader) (intro ends_intros)
  have due: "ends run_fit (em_mod (\<lambda>s. s\<lparr>ru_next_refresh :=
      (ru_steps s div KUSER_REFRESH_INSTRUCTIONS + 1) * KUSER_REFRESH_INSTRUCTIONS\<rparr>))"
    by (rule ends_run_mod) simp
  show ?thesis
    unfolding after_progress_def by (intro ends_intros page due over)
qed

lemma ends_took [ends_intros]: "ends run_fit take_unhandled"
  unfolding take_unhandled_def by (intro ends_intros)

lemma ends_fault [ends_intros]: "ends run_fit (hw_fault E src err)"
  unfolding hw_fault_def by (intro ends_intros)

lemma ends_jit [ends_intros]:
  fixes E :: "'j run_env"
  assumes "blocks_fit E" shows "ends run_fit (jit_turn E rip)"
proof -
  have call: "ends run_fit (em_run (jit_call E j))" for j
  proof (rule sound_run)
    fix s :: "'j running" assume "run_fit s"
    moreover obtain res c m j' where r: "ev_jit E (it_bits (proc_it (ru_proc s))) (jit_budget s)
        (proc_cpu (ru_proc s), proc_mem (ru_proc s), j) = (res, c, m, j')" by (metis prod.exhaust)
    moreover have "vm_ok m" if "vm_ok (proc_mem (ru_proc s))"
      using assms that r unfolding blocks_fit_def by (metis fst_conv snd_conv)
    ultimately show "run_fit (snd (jit_call E j s))"
      by (simp add: run_fit_def proc_fit_vm jit_call_def Let_def)
  qed
  have "ends run_fit (blocks_retired rip k)" for k
    unfolding blocks_retired_def by (intro ends_intros ends_run_mod) simp_all
  then show ?thesis
    unfolding jit_turn_def blocks_ran_def Let_def by (intro ends_intros call)
qed

lemma ends_to_step: "blocks_fit E \<Longrightarrow> ends run_fit (to_step E)"
  unfolding to_step_def by (intro ends_intros ends_run_mod) (simp_all add: note_rip_def Let_def)

lemma ends_outcome:
  assumes "out \<noteq> Inl Loops" shows "ends run_fit (step_outcome E rip out)"
proof (cases out)
  case (Inl x)
  then show ?thesis
    using assms ends_fault by (cases x) (simp_all add: step_outcome_def, simp_all add: sound_for_def em_apply)
next
  case (Inr e)
  have "ends run_fit (em_bind take_unhandled (\<lambda>u. case u of Some u \<Rightarrow> run_unhandled E u | None \<Rightarrow> em_return (Some c)))" for c
    by (intro ends_intros)
  moreover have "ends run_fit (em_bind (em_mod (\<lambda>s. s\<lparr>ru_steps := ru_steps s + 1\<rparr>))
      (\<lambda>_. em_bind (after_progress rip) (\<lambda>_. em_return None)))"
    by (intro ends_intros ends_run_mod) simp
  ultimately show ?thesis using Inr by (cases e) (simp_all add: step_outcome_def ends_fault ends_fails ends_simple)
qed

lemma turn_ends:
  fixes s :: "'j running"
  assumes s: "run_fit s" and U: "ev_units E = cpu_units F (vm_ops (ev_alloc E))"
    and fine: "calls_fine vm_ok (ev_hooks E) (ev_units E) (vm_ops (ev_alloc E)) (pc_run (ru_proc s))"
  shows "run_fit (snd (interpreter_turn E rip s)) \<and> fst (interpreter_turn E rip s) \<noteq> Inl Loops"
proof -
  obtain out t where r: "run_step E s = (Inr out, t)" by (simp add: run_step_def case_prod_beta)
  have t: "run_fit t" "out \<noteq> Inl Loops"
    using step_ends [OF s [unfolded run_fit_def proc_fit_def] fine [unfolded U]] r
    by (auto simp: run_step_def on_proc_def on_runner_def run_fit_def proc_fit_def U case_prod_beta)
  have "ends run_fit (em_bind (on_proc apply_thread_mode_switch) (\<lambda>_. step_outcome E rip out))"
    by (intro ends_intros ends_outcome t(2))
  from soundD [OF this t(1)] sound_stop [OF this t(1)] show ?thesis
    unfolding interpreter_turn_def em_bind_apply [of "run_step E"] r by auto
qed

lemma iter_ends:
  assumes U: "ev_units E = cpu_units F (vm_ops (ev_alloc E))" and "blocks_fit E" "run_fit s"
    and fine: "\<And>rip u. \<not> budget_spent s \<Longrightarrow> to_step E s = (Inr (Some rip), u) \<Longrightarrow> run_fit u \<Longrightarrow>
      calls_fine vm_ok (ev_hooks E) (ev_units E) (vm_ops (ev_alloc E)) (pc_run (ru_proc u))"
  shows "run_fit (snd (run_iter E s)) \<and> fst (run_iter E s) \<noteq> Inl Loops"
proof (cases "budget_spent s")
  case True
  have "run_fit (snd (run_fails E e s)) \<and> fst (run_fails E e s :: (stop + u32 option) \<times> _) \<noteq> Inl Loops" for e
    using soundD [OF ends_fails(1) assms(3)] sound_stop [OF ends_fails(1) assms(3), where x = Loops] by blast
  then show ?thesis unfolding run_iter_def if_P [OF True] .
next
  case False
  obtain r t where r: "to_step E s = (r, t)" by (rule prod.exhaust)
  have t: "run_fit t" "r \<noteq> Inl Loops"
    using soundD [OF ends_to_step [OF assms(2)] assms(3)] sound_stop [OF ends_to_step [OF assms(2)] assms(3)] r by auto
  have "run_fit (snd (interpreter_turn E rip t)) \<and> fst (interpreter_turn E rip t) \<noteq> Inl Loops" if "r = Inr (Some rip)" for rip
    using False r that t(1) by (intro turn_ends [OF t(1) U] fine) simp_all
  then show ?thesis
    using False t by (auto simp: run_iter_def run_round_to_step em_bind_def r em_apply split: sum.split option.split)
qed

lemma reaches_from: "run_reaches E t u \<Longrightarrow> run_iter E s = (Inr None, t) \<Longrightarrow> run_reaches E s u"
  by (induction rule: run_reaches.induct) (auto intro: run_reaches.intros)

lemma run_loop_not_stuck:
  assumes "ev_units E = cpu_units F (vm_ops (ev_alloc E))" "blocks_fit E"
    and "run_fit s" "services_end E s" "run_loop E k s = Some (r, t)"
  shows "r \<noteq> Inl Loops"
  using assms(3-)
proof (induction k arbitrary: s)
  case (Suc k)
  obtain y u where it: "run_iter E s = (y, u)" by (rule prod.exhaust)
  have "run_fit (snd (run_iter E s)) \<and> fst (run_iter E s) \<noteq> Inl Loops"
    using Suc.prems(2) by (intro iter_ends [OF assms(1,2) Suc.prems(1)]) (auto simp: services_end_def intro: run_reaches.here)
  with it have u: "run_fit u" "y \<noteq> Inl Loops" by auto
  have "services_end E u" if "y = Inr None"
    using Suc.prems(2) reaches_from it that unfolding services_end_def by blast
  with it u Suc show ?case by (auto split: sum.splits option.splits)
qed simp

text \<open>Hooks that always come to an end and keep the memory well-formed are more than a run needs.\<close>

lemma keep_calls_fine:
  assumes "hooks_keep (\<lambda>x. x \<noteq> Loops) vm_ok H" "runner_fit vm_ok r"
  shows "calls_fine vm_ok H (cpu_units F (vm_ops alloc)) (vm_ops alloc) r"
proof -
  have fine: "call_fine vm_ok (hk_intercept H a) s" "call_fine vm_ok (hk_syscall H i) s" if s: "runner_fit vm_ok s" for a i s
  proof -
    have ends: "ends (runner_fit vm_ok) (with_world (hk_intercept H a))" "ends (runner_fit vm_ok) (with_world (hk_syscall H i))"
      using assms(1) by (intro sound_world; simp add: hooks_keep_def)+
    from soundD [OF ends(1) s] sound_stop [OF ends(1) s, where x = Loops]
    show "call_fine vm_ok (hk_intercept H a) s" by (auto simp: call_fine_def runner_fit_def at_rest_def)
    from soundD [OF ends(2) s] sound_stop [OF ends(2) s, where x = Loops]
    show "call_fine vm_ok (hk_syscall H i) s" by (auto simp: call_fine_def runner_fit_def at_rest_def)
  qed
  let ?s = "snd (with_mach (upd_interp (\<lambda>it. it\<lparr>it_clock := retire_one (it_clock it)\<rparr>)) r)"
  have s: "runner_fit vm_ok ?s"
    using assms(2) by (simp add: with_mach_def mach_laws runner_fit_def at_rest_def interp_fit_def)
  have u: "runner_fit vm_ok u" if "with_world (hk_intercept H a) ?s = (Inr None, t)"
      "with_mach (execute_one (cpu_units F (vm_ops alloc)) (vm_ops alloc)) t = (e, u)" for a t e u
  proof -
    have "runner_fit vm_ok t" using call_fineD(1) [OF s fine(1) [OF s], of a] that(1) by simp
    moreover have "sound (runner_fit vm_ok) (with_mach (execute_one (cpu_units F (vm_ops alloc)) (vm_ops alloc)))"
      using vtop.execute_one_fit [OF vtop.sound_cpu_units] mach_fit_rest
      by (fastforce intro!: soundI simp: with_mach_def runner_fit_def case_prod_beta)
    ultimately show ?thesis using soundD that(2) by fastforce
  qed
  show ?thesis
    unfolding calls_fine_def Let_def using fine(1) [OF s] fine(2) u by blast
qed

lemma hooks_keep_services_end:
  assumes "hooks_keep (\<lambda>x. x \<noteq> Loops) vm_ok (ev_hooks E)" "ev_units E = cpu_units F (vm_ops (ev_alloc E))" "blocks_fit E"
    and "run_fit s"
  shows "services_end E s"
proof -
  have fine: "calls_fine vm_ok (ev_hooks E) (ev_units E) (vm_ops (ev_alloc E)) (pc_run (ru_proc u))" if "run_fit u" for u :: "'a running"
    using keep_calls_fine [OF assms(1)] that unfolding assms(2) run_fit_def proc_fit_def .
  have "run_fit t" if "run_reaches E s t" for t
    using that
  proof induction
    case (round t u)
    then show ?case using iter_ends [OF assms(2,3) round.IH fine] by simp
  qed (rule assms(4))
  then show ?thesis
    unfolding services_end_def using soundD [OF ends_to_step [OF assms(3)]] fine by (metis snd_conv)
qed

end
