(* ===== verification/Process_Theorems.thy ===== *)
theory Process_Theorems
  imports Process_Sound
begin

text \<open>
  The run loop comes to an end: with an instruction budget, every round either retires an
  instruction or delivers one of at most eight faults in a row, and no round hangs unless a service
  that it calls does.
\<close>

section \<open>What a computation leaves behind when it returns\<close>

definition after :: "('s \<Rightarrow> bool) \<Rightarrow> ('s, 'a) em \<Rightarrow> ('a \<Rightarrow> 's \<Rightarrow> bool) \<Rightarrow> bool" where
  "after P m Q \<longleftrightarrow> (\<forall>s a t. P s \<longrightarrow> m s = (Inr a, t) \<longrightarrow> Q a t)"

lemma after_bind: "after P m R \<Longrightarrow> (\<And>a. after (R a) (f a) Q) \<Longrightarrow> after P (em_bind m f) Q"
  unfolding after_def em_bind_def by (fastforce split: prod.splits sum.splits)

lemma after_keeps: "keeps P m \<Longrightarrow> after P m (\<lambda>a. P)"
  by (auto simp: after_def keeps_def)

lemma after_get: "after P (em_get f) (\<lambda>a s. P s \<and> a = f s)"
  by (auto simp: after_def em_apply)

lemma after_return: "(\<And>s. P s \<Longrightarrow> Q a s) \<Longrightarrow> after P (em_return a) Q"
  by (simp add: after_def em_apply)

lemma after_fail: "after P (em_fail e) Q" "after P (em_stop x) Q"
  by (simp_all add: after_def em_apply)

lemma after_mod: "(\<And>s. P s \<Longrightarrow> Q () (f s)) \<Longrightarrow> after P (em_mod f) Q"
  by (simp add: after_def em_apply)

lemma after_conseq: "after P' m Q' \<Longrightarrow> (\<And>s. P s \<Longrightarrow> P' s) \<Longrightarrow> (\<And>a s. Q' a s \<Longrightarrow> Q a s) \<Longrightarrow> after P m Q"
  unfolding after_def by blast

lemma after_disj: "after P m R \<Longrightarrow> after Q m R \<Longrightarrow> after (\<lambda>s. P s \<or> Q s) m R"
  by (auto simp: after_def)

lemma after_assume: "(c \<Longrightarrow> after P m Q) \<Longrightarrow> after (\<lambda>s. P s \<and> c) m Q"
  by (auto simp: after_def)

lemma after_step: "keeps P m \<Longrightarrow> (\<And>a. after P (f a) Q) \<Longrightarrow> after P (em_bind m f) Q"
  by (rule after_bind [OF after_keeps])

lemma after_if: "(b \<Longrightarrow> after P m Q) \<Longrightarrow> (\<not> b \<Longrightarrow> after P n Q) \<Longrightarrow> after P (if b then m else n) Q"
  by simp

lemma after_case_option:
  "(x = None \<Longrightarrow> after P m Q) \<Longrightarrow> (\<And>a. x = Some a \<Longrightarrow> after P (f a) Q) \<Longrightarrow>
    after P (case x of None \<Rightarrow> m | Some a \<Rightarrow> f a) Q"
  by (cases x) simp_all

lemma after_case_prod: "(\<And>a b. x = (a, b) \<Longrightarrow> after P (f a b) Q) \<Longrightarrow> after P (case x of (a, b) \<Rightarrow> f a b) Q"
  by (cases x) simp

section \<open>The gauges of a process\<close>

definition gauged :: "u32 \<Rightarrow> u64 \<Rightarrow> 'j process \<Rightarrow> bool" where
  \<comment> \<open>depth of unresumed faults and instruction budget\<close>
  "gauged d M p \<longleftrightarrow> pc_exc_depth p = d \<and> pc_max_steps p = M"

named_theorems gauges \<open>operations that leave the gauges alone\<close>

lemma gauged_simps [simp]:
  "gauged d M (set_mem m p) = gauged d M p" "gauged d M (upd_it f p) = gauged d M p"
  "gauged d M (upd_os g p) = gauged d M p" "gauged d M (upd_dbg h p) = gauged d M p"
  "gauged d M (p\<lparr>pc_sent := ev\<rparr>) = gauged d M p" "gauged d M (p\<lparr>pc_cmds := cs, pc_events := b\<rparr>) = gauged d M p"
  "gauged d M (p\<lparr>pc_jit := j\<rparr>) = gauged d M p" "gauged d M (p\<lparr>pc_run := r\<rparr>) = gauged d M p"
  by (simp_all add: gauged_def set_mem_def upd_it_def upd_os_def upd_dbg_def)

lemma gauges_basic [gauges]:
  "keeps (gauged d M) (on_runner f)" "keeps (gauged d M) (on_proc_mem g)" "keeps (gauged d M) (proc h)"
  "keeps (gauged d M) (on_services k)"
  by (auto simp: keeps_def on_runner_def on_proc_mem_def proc_def em_apply on_services_def split: prod.splits)

lemma gauges_upd [gauges]:
  "(\<And>p. gauged d M p \<Longrightarrow> gauged d M (f p)) \<Longrightarrow> keeps (gauged d M) (proc_upd f)"
  by (auto simp: keeps_def proc_upd_def em_apply)

lemma keeps_disj: "keeps P m \<Longrightarrow> keeps Q m \<Longrightarrow> keeps (\<lambda>s. P s \<or> Q s) m"
  by (auto simp: keeps_def)

lemma keeps_tried [gauges]: "keeps P m \<Longrightarrow> keeps P (tried m)"
  by (auto simp: keeps_def tried_def case_prod_beta)

lemma gauges_send [gauges]: "keeps (gauged d M) (send_event b e)"
  unfolding send_event_def by (intro keeps_intros gauges) simp

lemma gauges_snapshot [gauges]: "keeps (gauged d M) (debug_snapshot_of E r n trail)"
  unfolding debug_snapshot_of_def by (intro keeps_intros gauges)

lemma gauges_commands [gauges]: "keeps (gauged d M) (debug_commands events cmds)"
proof (induction cmds)
  case (Cons cmd cmds)
  then show ?case by (cases cmd) (auto intro!: keeps_intros gauges)
qed (simp add: keeps_return)

lemma gauges_stop [gauges]: "keeps (gauged d M) (debug_stop E r n trail)"
  unfolding debug_stop_def by (intro keeps_intros gauges) simp_all

lemma gauges_pending [gauges]: "keeps (gauged d M) (debug_pending_stop n t)"
  unfolding debug_pending_stop_def by (auto intro!: keeps_run simp: Let_def split: prod.splits option.splits)

lemma gauges_switch [gauges]: "keeps (gauged d M) apply_thread_mode_switch"
  unfolding apply_thread_mode_switch_def by (intro gauges) (simp split: option.split)

lemma gauges_faults [gauges]:
  "keeps (gauged d M) (fault_debugged E b e n trail)" "keeps (gauged d M) (unhandled_fault E b u n trail)"
proof -
  show "keeps (gauged d M) (fault_debugged E b e n trail)" for e
    unfolding fault_debugged_def by (intro keeps_intros gauges)
  then show "keeps (gauged d M) (unhandled_fault E b u n trail)"
    unfolding unhandled_fault_def by (intro keeps_intros gauges)
qed

definition delivery :: "u32 \<Rightarrow> u64 \<Rightarrow> bool \<Rightarrow> 'j process \<Rightarrow> bool" where
  \<comment> \<open>after an attempt at depth \<open>d\<close>\<close>
  "delivery d M delivered p \<longleftrightarrow> gauged (if delivered then d + 1 else d) M p \<and> (delivered \<longrightarrow> d < MAX_EXC_DEPTH)"

lemma delivery_refused: "after (gauged d M) (em_return False) (delivery d M)"
  by (rule after_return) (simp add: delivery_def)

lemma deliver_after:
  assumes "d < MAX_EXC_DEPTH"
  shows "after (gauged d M) (deliver_to_guest alloc src base t) (delivery d M)"
proof -
  have deeper: "after (gauged d M) (proc_upd (\<lambda>p. p\<lparr>pc_exc_depth := pc_exc_depth p + 1\<rparr>)) (\<lambda>_. gauged (d + 1) M)"
    by (simp add: after_def proc_upd_def em_apply gauged_def)
  have given: "after (gauged (d + 1) M) (em_return True) (delivery d M)"
    using assms by (intro after_return) (simp add: delivery_def)
  show ?thesis
    unfolding deliver_to_guest_def
    by (intro after_case_option delivery_refused after_bind [OF deeper] given after_step gauges keeps_intros) simp_all
qed

lemma gauged_depth: "after (gauged d M) (f d) Q \<Longrightarrow> after (gauged d M) (em_bind (proc pc_exc_depth) f) Q"
  by (auto simp: after_def proc_def em_bind_def em_apply gauged_def)

lemma try_deliver_after: "after (gauged d M) (try_deliver_hw_exception alloc src) (delivery d M)"
  unfolding try_deliver_hw_exception_def
  by (rule after_step, rule gauges, rule after_case_option, rule delivery_refused,
      rule after_step, rule gauges, rule gauged_depth)
    (intro after_if after_case_option after_case_prod delivery_refused after_step gauges deliver_after; simp)

section \<open>The gauges of a run\<close>

definition at_steps :: "nat \<Rightarrow> u32 \<Rightarrow> u64 \<Rightarrow> 'j running \<Rightarrow> bool" where
  "at_steps n d M s \<longleftrightarrow> unat (ru_steps s) = n \<and> gauged d M (ru_proc s)"

definition moved :: "nat \<Rightarrow> u64 \<Rightarrow> 'j running \<Rightarrow> bool" where
  \<comment> \<open>compiled blocks have retired instructions, at most \<open>2 ^ 32\<close>\<close>
  "moved n M s \<longleftrightarrow> n < unat (ru_steps s) \<and> unat (ru_steps s) < n + 2 ^ 32 \<and> pc_max_steps (ru_proc s) = M"

definition stands :: "('j running \<Rightarrow> bool) \<Rightarrow> bool" where
  \<comment> \<open>a property of the steps, the depth and the budget alone\<close>
  "stands P \<longleftrightarrow> (\<forall>s t. ru_steps s = ru_steps t \<and> pc_exc_depth (ru_proc s) = pc_exc_depth (ru_proc t) \<and>
     pc_max_steps (ru_proc s) = pc_max_steps (ru_proc t) \<longrightarrow> P s = P t)"

lemma stands_gauges: "stands (at_steps n d M)" "stands (moved n M)"
  by (simp_all add: stands_def at_steps_def moved_def gauged_def)

lemma standsD:
  "stands P \<Longrightarrow> P s \<Longrightarrow> ru_steps t = ru_steps s \<Longrightarrow> pc_exc_depth (ru_proc t) = pc_exc_depth (ru_proc s) \<Longrightarrow>
    pc_max_steps (ru_proc t) = pc_max_steps (ru_proc s) \<Longrightarrow> P t"
  unfolding stands_def by metis

lemma stands_on_proc:
  assumes "stands P" "\<And>d M. keeps (gauged d M) f"
  shows "keeps P (on_proc f)"
proof (rule keepsI)
  fix s assume "P s"
  have "gauged (pc_exc_depth (ru_proc s)) (pc_max_steps (ru_proc s)) (snd (f (ru_proc s)))"
    using assms(2) by (rule keepsD) (simp add: gauged_def)
  then show "P (snd (on_proc f s))"
    by (intro standsD [OF assms(1) \<open>P s\<close>]) (simp_all add: on_proc_def gauged_def case_prod_beta)
qed

lemma stands_mod:
  "stands P \<Longrightarrow> (\<And>s. ru_steps (f s) = ru_steps s \<and> ru_proc (f s) = ru_proc s) \<Longrightarrow> keeps P (em_mod f)"
  by (rule keepsI) (simp add: em_apply, erule (1) standsD, simp_all)

lemma stands_fails:
  assumes "stands P" shows "keeps P (run_fails E e)" "keeps P (run_unhandled E u)"
proof -
  have f: "keeps P (em_bind (on_proc (fault_debugged E b e n trail)) em_fail)" for b n trail
    by (intro keeps_intros stands_on_proc assms gauges_faults)
  show "keeps P (run_fails E e)" unfolding run_fails_def by (rule keepsI) (rule keepsD [OF f])
  have u: "keeps P (em_bind (on_proc (unhandled_fault E b u n trail)) em_fail)" for b n trail
    by (intro keeps_intros stands_on_proc assms gauges_faults)
  show "keeps P (run_unhandled E u)" unfolding run_unhandled_def by (rule keepsI) (rule keepsD [OF u])
qed

lemma stands_turn:
  assumes "stands P" shows "keeps P (debug_turn E)"
proof -
  have take: "keeps P (em_run (\<lambda>s. case take_request (proc_dbg (ru_proc s)) of (r, d) \<Rightarrow>
      (r, s\<lparr>ru_proc := upd_dbg (\<lambda>_. d) (ru_proc s)\<rparr>)))"
    by (rule keeps_run) (erule standsD [OF assms]; simp add: upd_dbg_def set_mem_def split: prod.splits)
  have "keeps P (on_proc (debug_stop E reason n trail))" for reason n trail
    by (intro stands_on_proc assms gauges_stop)
  then have stop: "keeps P (\<lambda>s. on_proc (debug_stop E reason (ru_steps s) (rip_trail E s)) s)" for reason
    by (simp add: keeps_def)
  have pending: "keeps P (on_proc (debug_pending_stop n m))" for n m
    by (intro stands_on_proc assms gauges_pending)
  have mods: "keeps P (em_mod (\<lambda>s. s\<lparr>ru_step_target := ru_steps s + 1, ru_stepping := True\<rparr>))"
      "keeps P (em_mod (\<lambda>s. s\<lparr>ru_stepping := False, ru_step_target := - 1\<rparr>))"
      "keeps P (em_mod (\<lambda>s. s\<lparr>ru_stepping := True, ru_step_target := ru_steps s + 1\<rparr>))"
      "keeps P (em_mod (\<lambda>s. s\<lparr>ru_debugging := False, ru_stepping := False, ru_step_target := - 1\<rparr>))"
    by (rule stands_mod [OF assms], simp)+
  have asked: "keeps P (case r of SrPause \<Rightarrow> em_return (Some Paused)
       | SrStep \<Rightarrow> em_bind (em_mod (\<lambda>s. s\<lparr>ru_step_target := ru_steps s + 1, ru_stepping := True\<rparr>)) (\<lambda>_. em_return None)
       | SrRun \<Rightarrow> em_return None)" for r
    by (cases r) (simp_all add: keeps_return keeps_bind mods)
  have wanted: "keeps P stop_wanted"
    unfolding stop_wanted_def by (intro keeps_intros take pending asked)
  have acted: "keeps P (case action of
           ActContinue \<Rightarrow> em_mod (\<lambda>s. s\<lparr>ru_stepping := False, ru_step_target := - 1\<rparr>)
         | ActStep \<Rightarrow> em_mod (\<lambda>s. s\<lparr>ru_stepping := True, ru_step_target := ru_steps s + 1\<rparr>)
         | ActDetach \<Rightarrow> em_mod (\<lambda>s. s\<lparr>ru_debugging := False, ru_stepping := False, ru_step_target := - 1\<rparr>)
         | ActKill \<Rightarrow> em_bind (em_get ru_steps) (\<lambda>n. em_fail (killed n)))" for action
    by (cases action) (simp_all add: keeps_bind keeps_get keeps_fail mods)
  show ?thesis
    unfolding debug_turn_def by (intro keeps_intros wanted stop acted)
qed

lemma progress_steps:
  assumes "\<And>s. P s \<Longrightarrow> Q (s\<lparr>ru_proc := (ru_proc s)\<lparr>pc_exc_depth := 0\<rparr>\<rparr>)" "\<And>s. P s \<Longrightarrow> Q s" "stands P"
  shows "after P (after_progress rip) (\<lambda>_. Q)"
proof -
  have "keeps P (on_proc (on_proc_mem (refresh_kuser_time k)))" for k
    by (intro stands_on_proc assms(3) gauges_basic)
  then have refresh: "keeps P (\<lambda>s. on_proc (on_proc_mem (refresh_kuser_time (it_clock (proc_it (ru_proc s))))) s)"
    by (simp add: keeps_def)
  have due: "keeps P (em_mod (\<lambda>s. s\<lparr>ru_next_refresh :=
      (ru_steps s div KUSER_REFRESH_INSTRUCTIONS + 1) * KUSER_REFRESH_INSTRUCTIONS\<rparr>))"
    by (rule stands_mod [OF assms(3)]) simp
  show ?thesis
    unfolding after_progress_def
    by (intro after_step keeps_intros refresh due after_mod) (simp_all add: assms(1,2))
qed

definition went_on :: "nat \<Rightarrow> u32 \<Rightarrow> u64 \<Rightarrow> 'j running \<Rightarrow> bool" where
  \<comment> \<open>a round that stays in the loop has retired an instruction or delivered a fault\<close>
  "went_on n d M s \<longleftrightarrow> pc_max_steps (ru_proc s) = M \<and>
     (n < unat (ru_steps s) \<or> unat (ru_steps s) = n \<and> pc_exc_depth (ru_proc s) = d + 1 \<and> d < MAX_EXC_DEPTH)"

definition busy_blocks :: "'j run_env \<Rightarrow> bool" where
  \<comment> \<open>what the loop relies on: compiled blocks that end in order have retired an instruction\<close>
  "busy_blocks E \<longleftrightarrow> (\<forall>b n x k. fst (ev_jit E b n x) = Executed k \<longrightarrow> k \<noteq> 0)"

lemma stands_took: "stands P \<Longrightarrow> keeps P take_unhandled"
  unfolding take_unhandled_def by (intro stands_on_proc gauges_basic)

lemma blocks_retired_after:
  assumes "n < 2 ^ 63" "k \<noteq> 0" "unat k < 2 ^ 32"
  shows "after (at_steps n d M) (blocks_retired rip k) (\<lambda>_. moved n M)"
proof -
  have grow: "moved n M (s\<lparr>ru_steps := ru_steps s + k\<rparr>)" if "at_steps n d M s" for s
  proof -
    have "unat (ru_steps s + k) = n + unat k"
      using that assms unat_plus_no_wrap [of "ru_steps s" "unat k"] by (simp add: at_steps_def)
    moreover have "0 < unat k" using assms(2) by (simp add: unat_gt_0)
    ultimately show ?thesis using that assms(3) by (simp add: moved_def at_steps_def gauged_def)
  qed
  have tick: "keeps (at_steps n d M) (on_proc (proc_upd (upd_it (\<lambda>it. it\<lparr>it_clock := retire k (it_clock it)\<rparr>))))"
    by (intro stands_on_proc stands_gauges gauges) simp
  have add: "after (at_steps n d M) (em_mod (\<lambda>s. s\<lparr>ru_steps := ru_steps s + k\<rparr>)) (\<lambda>_. moved n M)"
    by (rule after_mod) (rule grow)
  have rest: "keeps (moved n M) (on_proc (on_services (os_retire k)))" "keeps (moved n M) (on_proc apply_thread_mode_switch)"
    by (intro stands_on_proc stands_gauges gauges)+
  have progress: "after (moved n M) (after_progress rip) (\<lambda>_. moved n M)"
    by (rule progress_steps) (simp_all add: moved_def stands_gauges)
  show ?thesis
    unfolding blocks_retired_def
    by (rule after_step [OF tick], rule after_bind [OF add], rule after_step [OF rest(1)], rule after_step [OF rest(2)], rule progress)
qed

lemma blocks_ran_after:
  assumes "n < 2 ^ 63" "\<And>k. res = Executed k \<Longrightarrow> k \<noteq> 0"
  shows "after (at_steps n d M) (blocks_ran rip res) (\<lambda>over s. moved n M s \<or> \<not> over \<and> at_steps n d M s)"
proof (cases "jit_insns res = 0")
  case True
  then have "(case res of Executed _ \<Rightarrow> True | _ \<Rightarrow> False) = False" using assms(2) by (cases res) auto
  then show ?thesis using True by (simp add: after_def blocks_ran_def em_when_def em_apply)
next
  case False
  let ?k = "ucast (jit_insns res) :: u64"
  have lt: "unat (jit_insns res) < 2 ^ LENGTH(32)" by (rule unsigned_less)
  then have u: "unat ?k = unat (jit_insns res)" by (simp add: unsigned_ucast_eq take_bit_nat_eq_self)
  have k: "?k \<noteq> 0" "unat ?k < 2 ^ 32"
    using False u lt by (auto simp: unsigned_eq_0_iff)
  show ?thesis
    unfolding blocks_ran_def Let_def em_when_def if_P [OF k(1)]
    by (rule after_bind [OF blocks_retired_after [OF assms(1) k]], rule after_return) simp
qed

lemma jit_turn_after:
  assumes "n < 2 ^ 63" "busy_blocks E"
  shows "after (at_steps n d M) (jit_turn E rip) (\<lambda>over s. moved n M s \<or> \<not> over \<and> at_steps n d M s)"
proof -
  have call: "after (at_steps n d M) (em_run (jit_call E j)) (\<lambda>res s. at_steps n d M s \<and> (\<forall>k. res = Executed k \<longrightarrow> k \<noteq> 0))" for j
  proof -
    have "at_steps n d M t \<and> (\<forall>k. res = Executed k \<longrightarrow> k \<noteq> 0)" if "at_steps n d M s" "jit_call E j s = (res, t)" for s res t
    proof -
      obtain res' c m j' where call: "ev_jit E (it_bits (proc_it (ru_proc s))) (jit_budget s)
          (proc_cpu (ru_proc s), proc_mem (ru_proc s), j) = (res', c, m, j')" by (metis prod.exhaust)
      then have "fst (ev_jit E (it_bits (proc_it (ru_proc s))) (jit_budget s)
          (proc_cpu (ru_proc s), proc_mem (ru_proc s), j)) = res'" by simp
      then have "\<forall>k. res' = Executed k \<longrightarrow> k \<noteq> 0" using assms(2) unfolding busy_blocks_def by metis
      then show ?thesis using that call by (auto simp: jit_call_def Let_def at_steps_def)
    qed
    then show ?thesis unfolding after_def em_run_def by (auto split: prod.splits)
  qed
  have ran: "after (\<lambda>s. at_steps n d M s \<and> (\<forall>k. res = Executed k \<longrightarrow> k \<noteq> 0)) (blocks_ran rip res)
      (\<lambda>over s. moved n M s \<or> \<not> over \<and> at_steps n d M s)" for res
    by (rule after_assume) (rule blocks_ran_after [OF assms(1)], blast)
  show ?thesis
    unfolding jit_turn_def
    by (rule after_step, rule keeps_get, rule after_case_option, rule after_return, simp, rule after_bind [OF call ran])
qed

lemma hw_fault_after:
  assumes "pc_exc_depth (ru_proc s) = d" "hw_fault E src err s = (Inr r, t)"
  shows "r = None \<and> ru_steps t = ru_steps s \<and> pc_max_steps (ru_proc t) = pc_max_steps (ru_proc s) \<and>
    pc_exc_depth (ru_proc t) = d + 1 \<and> d < MAX_EXC_DEPTH"
proof -
  let ?M = "pc_max_steps (ru_proc s)"
  obtain b p where b: "try_deliver_hw_exception (ev_alloc E) src (ru_proc s) = (b, p)" by (rule prod.exhaust)
  have no: "em_bind take_unhandled (\<lambda>u. case u of Some u \<Rightarrow> run_unhandled E u | None \<Rightarrow> run_fails E err) u \<noteq> (Inr r, t)" for u
    by (auto simp: em_bind_def run_unhandled_def run_fails_def em_apply split: prod.splits sum.splits option.splits)
  show ?thesis
  proof (cases b)
    case (Inl x)
    then show ?thesis using assms(2) b by (simp add: hw_fault_def em_bind_apply on_proc_def)
  next
    case (Inr delivered)
    have q: "delivery d ?M delivered p"
      using try_deliver_after [of d ?M "ev_alloc E" src] assms(1) b Inr unfolding after_def gauged_def by blast
    show ?thesis
    proof (cases delivered)
      case True
      then show ?thesis
        using b Inr assms(2) q by (auto simp: hw_fault_def em_bind_apply on_proc_def em_apply delivery_def gauged_def)
    next
      case False
      then have "em_bind take_unhandled (\<lambda>u. case u of Some u \<Rightarrow> run_unhandled E u | None \<Rightarrow> run_fails E err) (s\<lparr>ru_proc := p\<rparr>) = (Inr r, t)"
        using b Inr assms(2) unfolding hw_fault_def em_bind_apply [of "on_proc f" for f] by (simp add: on_proc_def)
      then show ?thesis using no by blast
    qed
  qed
qed

lemma step_outcome_after:
  assumes "n < 2 ^ 63"
  shows "after (\<lambda>s. at_steps n d M s \<or> moved n M s) (step_outcome E rip outcome) (\<lambda>r s. r = None \<longrightarrow> went_on n d M s)"
proof -
  have fault: "went_on n d M t" if "at_steps n d M s \<or> moved n M s" "hw_fault E src err s = (Inr r, t)" for s src err r t
  proof -
    have "ru_steps t = ru_steps s \<and> pc_max_steps (ru_proc t) = pc_max_steps (ru_proc s) \<and>
        pc_exc_depth (ru_proc t) = pc_exc_depth (ru_proc s) + 1 \<and> pc_exc_depth (ru_proc s) < MAX_EXC_DEPTH"
      using hw_fault_after [OF refl that(2)] by blast
    then show ?thesis using that(1) by (auto simp: went_on_def at_steps_def moved_def gauged_def)
  qed
  have tick: "after (\<lambda>s. at_steps n d M s \<or> moved n M s) (em_mod (\<lambda>s. s\<lparr>ru_steps := ru_steps s + 1\<rparr>))
      (\<lambda>_ s. n < unat (ru_steps s) \<and> pc_max_steps (ru_proc s) = M)"
  proof (rule after_mod)
    fix s assume "at_steps n d M s \<or> moved n M s"
    then have "n \<le> unat (ru_steps s)" "unat (ru_steps s) + 1 < 2 ^ 64" "pc_max_steps (ru_proc s) = M"
      using assms by (auto simp: at_steps_def moved_def gauged_def)
    then show "n < unat (ru_steps (s\<lparr>ru_steps := ru_steps s + 1\<rparr>)) \<and> pc_max_steps (ru_proc (s\<lparr>ru_steps := ru_steps s + 1\<rparr>)) = M"
      using unat_plus_no_wrap [of "ru_steps s" 1] by simp
  qed
  have progress: "after (\<lambda>s. n < unat (ru_steps s) \<and> pc_max_steps (ru_proc s) = M) (after_progress rip) (\<lambda>_. went_on n d M)"
    by (rule progress_steps) (auto simp: went_on_def stands_def)
  show ?thesis
  proof (cases outcome)
    case (Inl x)
    then show ?thesis by (cases x) (auto simp: after_def step_outcome_def em_apply intro: fault)
  next
    case (Inr e)
    show ?thesis
    proof (cases e)
      case Continue
      show ?thesis unfolding step_outcome_def Inr Continue sum.case exit.case
        by (rule after_bind [OF tick], rule after_bind [OF progress], rule after_return) simp
    next
      case (ProcessExit c)
      have "after (\<lambda>s. at_steps n d M s \<or> moved n M s) take_unhandled (\<lambda>_ _. True)" by (simp add: after_def)
      moreover have "after (\<lambda>_. True) (case u of None \<Rightarrow> em_return (Some c) | Some u \<Rightarrow> run_unhandled E u)
          (\<lambda>r s. r = None \<longrightarrow> went_on n d M s)" for u
        by (auto simp: after_def em_apply run_unhandled_def em_bind_def split: option.splits prod.splits sum.splits)
      ultimately show ?thesis unfolding step_outcome_def Inr ProcessExit sum.case exit.case by (rule after_bind)
    qed (auto simp: after_def step_outcome_def Inr em_apply run_fails_def em_bind_def intro: fault split: prod.splits sum.splits)
  qed
qed

lemma stands_step: assumes "stands P" shows "keeps P (run_step E)"
proof (rule keepsI)
  fix s assume "P s"
  have "keeps P (on_proc (on_runner (cpu_step (ev_hooks E) (ev_units E) (vm_ops (ev_alloc E)))))"
    by (intro stands_on_proc assms gauges)
  from keepsD [OF this \<open>P s\<close>] show "P (snd (run_step E s))" by (simp add: run_step_def case_prod_beta)
qed

lemma stands_switch: "stands P \<Longrightarrow> keeps P (on_proc apply_thread_mode_switch)"
  by (intro stands_on_proc gauges_switch)

lemma interpreter_turn_after:
  assumes "n < 2 ^ 63"
  shows "after (\<lambda>s. at_steps n d M s \<or> moved n M s) (interpreter_turn E rip) (\<lambda>r s. r = None \<longrightarrow> went_on n d M s)"
  unfolding interpreter_turn_def
  by (rule after_step [OF keeps_disj [OF stands_step stands_step]], rule stands_gauges, rule stands_gauges,
      rule after_step [OF keeps_disj [OF stands_switch stands_switch]], rule stands_gauges, rule stands_gauges,
      rule step_outcome_after [OF assms])

lemma run_round_after:
  assumes "n < 2 ^ 63" "busy_blocks E"
  shows "after (at_steps n d M) (run_round E) (\<lambda>r s. r = None \<longrightarrow> went_on n d M s)"
proof -
  have noted: "keeps (at_steps n d M) (em_mod note_rip)"
    by (rule stands_mod [OF stands_gauges(1)]) (simp add: note_rip_def Let_def)
  have mode: "keeps (at_steps n d M) (on_proc (proc_upd (\<lambda>p. upd_os (\<lambda>w. w\<lparr>os_guest_mode32 := (it_bits (proc_it p) = B32)\<rparr>) p)))"
    by (intro stands_on_proc stands_gauges gauges) simp
  have tail: "after (\<lambda>s. moved n M s \<or> \<not> over \<and> at_steps n d M s) (if over then em_return None else interpreter_turn E rip)
      (\<lambda>r s. r = None \<longrightarrow> went_on n d M s)" for over rip
  proof (cases over)
    case True
    have "after (moved n M) (em_return None) (\<lambda>r s. r = None \<longrightarrow> went_on n d M s)"
      by (rule after_return) (simp add: went_on_def moved_def)
    then show ?thesis using True by simp
  next
    case False
    have "after (\<lambda>s. moved n M s \<or> at_steps n d M s) (interpreter_turn E rip) (\<lambda>r s. r = None \<longrightarrow> went_on n d M s)"
      by (rule after_conseq [OF interpreter_turn_after [OF assms(1)]]) blast+
    then show ?thesis using False by simp
  qed
  show ?thesis
    unfolding run_round_def
    by (rule after_step [OF noted], rule after_step [OF keeps_get], rule after_step [OF mode], rule after_step [OF keeps_get],
        rule after_step [OF keeps_when [OF stands_turn [OF stands_gauges(1)]]], rule after_bind [OF jit_turn_after [OF assms] tail])
qed

definition rounds_left :: "'j running \<Rightarrow> nat" where
  \<comment> \<open>rounds until the budget is spent: nine for each instruction, one for each fault that can still be delivered\<close>
  "rounds_left s = 9 * (unat (pc_max_steps (ru_proc s)) - unat (ru_steps s)) + (8 - unat (pc_exc_depth (ru_proc s)))"

lemma run_iter_progress:
  assumes "pc_max_steps (ru_proc s) \<noteq> 0" "unat (pc_max_steps (ru_proc s)) \<le> 2 ^ 63" "busy_blocks E" "run_iter E s = (Inr None, t)"
  shows "rounds_left t < rounds_left s" "pc_max_steps (ru_proc t) = pc_max_steps (ru_proc s)"
proof -
  let ?n = "unat (ru_steps s)" and ?d = "pc_exc_depth (ru_proc s)" and ?M = "pc_max_steps (ru_proc s)"
  have unspent: "\<not> budget_spent s"
    using assms(4) by (auto simp: run_iter_def run_fails_def em_bind_def em_apply split: if_splits prod.splits sum.splits)
  then have n: "?n < unat ?M" using assms(1) by (simp add: budget_spent_def not_le word_less_unat)
  then have "?n < 2 ^ 63" using assms(2) by simp
  from run_round_after [OF this assms(3), of ?d ?M] have on: "went_on ?n ?d ?M t"
    using assms(4) unspent by (simp add: after_def run_iter_def at_steps_def gauged_def)
  have d: "unat (?d + 1) = Suc (unat ?d)" "unat ?d < 8" if "?d < MAX_EXC_DEPTH"
    using that by (simp_all add: MAX_EXC_DEPTH_def word_less_unat unat_word_ariths)
  show "pc_max_steps (ru_proc t) = ?M" using on by (simp add: went_on_def)
  then show "rounds_left t < rounds_left s"
    using on n d by (auto simp: went_on_def rounds_left_def)
qed

lemma run_loop_ends:
  assumes "pc_max_steps (ru_proc s) \<noteq> 0" "unat (pc_max_steps (ru_proc s)) \<le> 2 ^ 63" "busy_blocks E" "rounds_left s < k"
  shows "run_loop E k s \<noteq> None"
  using assms(1,2,4)
proof (induction k arbitrary: s)
  case (Suc k)
  obtain r t where it: "run_iter E s = (r, t)" by (rule prod.exhaust)
  show ?case
  proof (cases "r = Inr None")
    case True
    then show ?thesis
      using Suc.IH [of t] run_iter_progress [OF Suc.prems(1,2) assms(3)] it Suc.prems by simp
  qed (use it in \<open>auto split: sum.split option.split\<close>)
qed simp


definition demo_hooks :: "(win_os, vmem) hooks" where
  \<comment> \<open>the intercept of the emulated system, without any API; a system call ends the process\<close>
  "demo_hooks = (win_hooks (\<lambda>_. None) ssdt_new ssdt_new_win32k (vm_ops (\<lambda>_. True)))
     \<lparr>hk_syscall := (\<lambda>i. em_return (ProcessExit (ucast i)))\<rparr>"

definition demo_env :: "unit run_env" where
  \<comment> \<open>a block compiler that compiles nothing\<close>
  "demo_env =
     \<lparr>ev_hooks = demo_hooks, ev_units = cpu_units demo_fp (vm_ops (\<lambda>_. True)), ev_alloc = (\<lambda>_. True),
       ev_jit = (\<lambda>b n (c, m, j). (NotCompiled, c, m, j)), ev_blocks = (\<lambda>_. []), ev_report = (\<lambda>p t e n r. t),
       ev_addr_note = (\<lambda>w a. fmt_hex (unat a)), ev_describe = (\<lambda>w a. fmt_hex (unat a)), ev_modules = (\<lambda>w. [])\<rparr>"

definition demo_process :: "unit process" where
  "demo_process =
     \<lparr>pc_run = \<lparr>rn_hooks = win_os_new os_config_default (clock_new True), rn_mach = boot 0x400000 call_vm\<rparr>,
       pc_max_steps = 5, pc_image_base = 0x400000, pc_exc_depth = 0, pc_wow64 = False, pc_jit = Some (),
       pc_cmds = None, pc_events = False, pc_sent = []\<rparr>"

lemma demo_fit: "proc_fit demo_process"
  using boot_ok [OF call_vm_ok]
  by (simp add: demo_process_def proc_fit_def runner_fit_def at_boundary_def at_rest_def interp_ok_def interp_fit_def)

lemma demo_blocks: "blocks_fit demo_env" "busy_blocks demo_env"
  by (simp_all add: demo_env_def busy_blocks_def blocks_fit_def split_beta)

lemma demo_services_end: "services_end demo_env (run_start demo_process)"
proof -
  have "ends (\<lambda>s. vm_ok (sw_mem s)) (os_intercept (\<lambda>_. None) (vm_ops (\<lambda>_. True)) a)" for a
    unfolding os_intercept_def preempt_def preempt_by_def yield_and_switch_def option.case by (intro ends_intros)
  then have "hooks_keep (\<lambda>x. x \<noteq> Loops) vm_ok demo_hooks"
    by (simp add: hooks_keep_def demo_hooks_def win_hooks_def ends_in_world ends_simple)
  then show ?thesis
    using demo_fit
    by (intro hooks_keep_services_end [where F = demo_fp] demo_blocks) (simp_all add: demo_env_def run_fit_def run_start_def)
qed


end
