(* ===== verification/Divergences.thy ===== *)
theory Divergences
  imports Exec_X87 Vex_Lanes Exec_Arith Os_Sync Os_Vm_Theorems Process_Theorems Debug_Control Pe_Resolve Exec_Vex
begin

text \<open>
  Evidence: inputs at which the code, as modelled, departs from the architecture or from the
  Windows contract it implements. Each lemma evaluates the code there.
\<close>

section \<open>Instructions\<close>

text \<open>AX = 0x8000 divided by -1: the 16-bit division overflows and Rust panics.\<close>

lemma idiv8_overflows: "div8 0x8000 0xFF True = None"
  by (simp add: div8_def sdiv_words_def)

text \<open>A quotient that does not fit raises no exception: 0x10000 / 1 leaves 0 in a 16-bit register.\<close>

lemma div16_truncates:
  "div_wide 1 0 1 2 False = Some (0x10000, 0)" "(ucast (0x10000 :: u128) :: u16) = 0"
  by (simp_all add: div_wide_def push_bit_eq_mult)

section \<open>Floating point\<close>

text \<open>The subnormal half 0x0200 is \<open>2 ^ -15\<close>; the single it becomes, 0x37800000, is \<open>2 ^ -16\<close>.\<close>

lemma f16_subnormal_halved: "f16_to_f32 0x0200 = 0x37800000"
  by code_simp

text \<open>The subnormal double \<open>2 ^ -1023\<close> gets the exponent of \<open>2 ^ -1024\<close>; \<open>3 * 2 ^ -1024\<close> the same
  image, its second bit is shifted onto the integer bit.\<close>

lemma ext_subnormal_wrong:
  "ext_parts 0x0008000000000000 = (16383 - 1024, 0x8000000000000000)"
  "ext_parts 0x000C000000000000 = (16383 - 1024, 0x8000000000000000)"
  by code_simp+

section \<open>Services\<close>

text \<open>A size of \<open>2 ^ 64 - 1\<close> rounds up to zero: an allocation is booked, and nothing is mapped.\<close>

lemma wrapped_allocation:
  "let r = vm_alloc_region_below (vm_ops (\<lambda>_. True)) 0 (- 1) MEM_COMMIT 4 (- 1) fresh_sys
   in vm_regions (sw_mem (snd r)) = [] \<and> (\<exists>a. os_vm_allocs (sw_os (snd r)) = [a] \<and> va_size a = 0)"
proof -
  have sz: "max (- 1) 1 = (- 1 :: u64)" "align_up (- 1) PAGE = 0" by code_simp+
  obtain n where n: "BASES = Suc n" by (cases BASES) (simp_all add: BASES_def)
  have free: "vm_next_region (sw_mem fresh_sys) b = None" for b
    by (simp add: fresh_sys_def vm_new_def vm_next_region_def)
  have mapped: "vm_map_fixed (\<lambda>_. True) b 0 p nm m = (Inr (), m)" for b p nm m
    by (simp add: vm_map_fixed_def vm_map_def zeroed_def vm_insert_def)
  have e: "vm_regions (sw_mem fresh_sys) = []" "os_vm_allocs (sw_os fresh_sys) = []"
    by (simp_all add: fresh_sys_def vm_new_def win_os_new_def)
  show ?thesis
    by (simp add: vm_alloc_region_below_def Let_def sz vm_alloc_new_def vm_find_free_below_def vm_find_free_def
        em_bind_apply em_apply n free on_mem_def tried_def mapped os_upd_def vm_insert_alloc_def e insert_at_def private_alloc_def)
qed

text \<open>
  A search for more than there is between zero and the last granule does not end once that granule
  is mapped: the next base wraps to zero, and the scan starts again.
\<close>

definition top_mapped :: "vmem sysw" where
  "top_mapped = fresh_sys\<lparr>sw_mem := snd (vm_map_fixed (\<lambda>_. True) 0xFFFFFFFFFFFF0000 0x10000 PERM_RW ''top'' vm_new)\<rparr>"

lemma endless_search: "fst (vm_find_free (vm_ops (\<lambda>_. True)) 0xFFFFFFFFFFFFF000 top_mapped) = Inl Loops"
proof -
  let ?nr = "vm_next_region (sw_mem top_mapped)"
  have top: "?nr b = Some (0xFFFFFFFFFFFF0000, 0x10000, PERM_RW)" if "b \<noteq> - 1" for b
    using that word_order.not_eq_extremum [of b]
    by (simp add: top_mapped_def vm_map_fixed_def vm_map_def zeroed_def vm_insert_def vm_new_def Let_def insert_at_def
        vm_next_region_def mapped_end_def region_end_def saturating_add_def partition_point_def)
  have wrap: "align_up 0x10000000000000000 GRAN = (0 :: u64)" by code_simp
  have zero: "find_free_from ?nr 0xFFFFFFFFFFFFF000 n 0 = None" for n
    by (induction n) (simp_all add: top wrap saturating_add_def)
  have start: "align_up (os_valloc_next (sw_os top_mapped)) GRAN = 0x4000000000"
  proof -
    have "os_valloc_next (sw_os top_mapped) = 0x4000000000"
      by (simp add: top_mapped_def fresh_sys_def win_os_new_def os_config_default_def)
    moreover have "align_up 0x4000000000 GRAN = (0x4000000000 :: u64)" by code_simp
    ultimately show ?thesis by simp
  qed
  have far: "\<not> (- 1 :: u64) \<le> 0xFFFFFFFFFFFF0000" by code_simp
  have "find_free_from ?nr 0xFFFFFFFFFFFFF000 n 0x4000000000 = None" for n
    by (cases n) (simp_all add: top wrap zero saturating_add_def far [simplified])
  then show ?thesis by (simp add: vm_find_free_def Let_def start)
qed

text \<open>A watchpoint hit on the last byte of the address space is lost.\<close>

lemma watch_hit_at_top_lost: "fst (take_watch_hit (note_watch_hit (- 1) k d)) = None"
  by (simp add: take_watch_hit_def note_watch_hit_def)

text \<open>A negative release count takes units from a semaphore.\<close>

lemma semaphore_released_backwards: "release_semaphore (- 1) 1 5 = (True, KSemaphore 0 5)"
  by (simp add: release_semaphore_def word_sless_alt)

text \<open>The recursion count of a mutex wraps, so that one release frees what was taken \<open>2 ^ 32\<close> times.\<close>

lemma mutex_recursion_wraps:
  "acquire tid (KMutex (Some tid) (- 1)) = (True, KMutex (Some tid) 0)"
  "release_mutex tid (Some tid) 0 = (True, KMutex None 0)"
  by (simp_all add: acquire_def release_mutex_def)

text \<open>An API set of the storage extensions resolves to the name of another API set.\<close>

lemma storage_extension_unresolved:
  "map_option (\<lambda>h. starts_with h ''api-'') (resolve_api_set ''ext-ms-win-storage-hbus-l1-1-0'') = Some True"
  by code_simp

text \<open>
  A context record that is read back is a fresh CPU with the registers of the record: the segment
  bases are the defaults, whatever thread runs, and the x87 and the upper vector registers are
  lost. \<open>exc_advance\<close> and \<open>transfer_to_target\<close> make such a CPU the current one.
\<close>

lemma read_into_keeps:
  assumes "\<And>i v c. f (upd i v c) = f c"
  shows "after (\<lambda>_. f c = x) (read_into rd upd ks c) (\<lambda>c' _. f c' = x)"
proof (induction ks arbitrary: c)
  case (Cons k ks)
  have "after (\<lambda>_. f c = x) (rd k) (\<lambda>v _. f (upd k v c) = x)" by (simp add: after_def assms)
  then show ?case unfolding read_into.simps by (rule after_bind) (rule Cons.IH)
qed (simp add: after_def em_apply)

lemma context_forgets:
  assumes "read_context M addr m = (Inr c, m')"
  shows "cpu_gs_base c = cpu_gs_base cpu_state_new" "cpu_fs_base c = cpu_fs_base cpu_state_new"
    "cpu_x87 c = x87_new" "cpu_ymm_hi c = (\<lambda>_. 0)"
proof -
  define rest where "rest = (\<lambda>c :: cpu_state. (cpu_gs_base c, cpu_fs_base c, cpu_x87 c, cpu_ymm_hi c))"
  have up: "rest (c\<lparr>cpu_gpr := g\<rparr>) = rest c" "rest (c\<lparr>cpu_xmm := x\<rparr>) = rest c"
      "rest (c\<lparr>cpu_rip := r, cpu_rflags := fl\<rparr>) = rest c" for c g x r fl by (simp_all add: rest_def)
  have "after (\<lambda>_. rest cpu_state_new = rest cpu_state_new) (read_context M addr) (\<lambda>c _. rest c = rest cpu_state_new)"
    unfolding read_context_def Let_def
  proof (rule after_bind [OF read_into_keeps], simp add: up)
    fix c1
    show "after (\<lambda>_. rest c1 = rest cpu_state_new) (em_bind (mem_read_u64 M (addr + OFF_RIP)) (\<lambda>rip.
        em_bind (mem_read_u32 M (addr + OFF_EFLAGS)) (\<lambda>fl.
        read_into (\<lambda>i. mo_read M (addr + OFF_XMM0 + of_nat i * 16) 16)
          (\<lambda>i b c. c\<lparr>cpu_xmm := (cpu_xmm c)(of_nat i := from_le b)\<rparr>) [0..<16]
          (c1\<lparr>cpu_rip := rip, cpu_rflags := (ucast fl AND NOT RESERVED_ONE) OR RESERVED_ONE\<rparr>)))) (\<lambda>c _. rest c = rest cpu_state_new)"
      by (rule after_step, simp add: keeps_def, rule after_step, simp add: keeps_def,
          rule after_conseq [OF read_into_keeps]) (simp_all add: up)
  qed
  then have "rest c = rest cpu_state_new" using assms unfolding after_def by blast
  then show "cpu_gs_base c = cpu_gs_base cpu_state_new" "cpu_fs_base c = cpu_fs_base cpu_state_new"
    "cpu_x87 c = x87_new" "cpu_ymm_hi c = (\<lambda>_. 0)"
    by (simp_all add: rest_def cpu_state_new_def)
qed

end
