(* ===== verification/Os_Exc_Laws.thy ===== *)
theory Os_Exc_Laws
  imports Os_Exc Os_Syscall_Laws
begin

text \<open>
  The exception frame in guest memory, on any memory that keeps the contract \<open>guest_memory\<close>: what a
  list of field writes leaves behind, and that a context that was written is read back.
\<close>

section \<open>Fields of a record\<close>

type_synonym fields = "(u64 \<times> bytes) list"

definition put_fields :: "u64 \<Rightarrow> fields \<Rightarrow> space \<Rightarrow> space" where
  "put_fields base fs = fold (\<lambda>(off, bs). overlay (base + off) bs) fs"

definition fields_apart :: "fields \<Rightarrow> bool" where
  "fields_apart fs \<longleftrightarrow> sorted_wrt (\<lambda>x y. unat (fst x) + length (snd x) \<le> unat (fst y)) fs"

definition fields_within :: "nat \<Rightarrow> fields \<Rightarrow> bool" where
  "fields_within n fs \<longleftrightarrow> (\<forall>(off, bs) \<in> set fs. bs \<noteq> [] \<and> unat off + length bs \<le> n)"

definition clear_of :: "u64 \<Rightarrow> nat \<Rightarrow> fields \<Rightarrow> bool" where
  \<comment> \<open>no field of \<open>fs\<close> meets the \<open>n\<close> bytes at \<open>off\<close>\<close>
  "clear_of off n fs \<longleftrightarrow> (\<forall>(o2, bs) \<in> set fs. unat off + n \<le> unat o2 \<or> unat o2 + length bs \<le> unat off)"

lemma put_fields_simps [simp]:
  "put_fields base [] sp = sp"
  "put_fields base (f # fs) sp = put_fields base fs (overlay (base + fst f) (snd f) sp)"
  "put_fields base (fs @ gs) sp = put_fields base gs (put_fields base fs sp)"
  by (simp_all add: put_fields_def case_prod_beta)

lemma overlay_mapped [simp]: "overlay a bs sp x = None \<longleftrightarrow> sp x = None"
  by (simp add: overlay_def)

lemma put_fields_mapped [simp]: "put_fields base fs sp x = None \<longleftrightarrow> sp x = None"
  by (induction fs arbitrary: sp) simp_all

lemma offsets_apart:
  fixes b o1 o2 :: u64
  assumes "unat o1 + n \<le> unat o2 \<or> unat o2 + k \<le> unat o1" "i < n"
    "unat o1 + n \<le> 2 ^ 63" "unat o2 + k \<le> 2 ^ 63"
  shows "\<not> unat (b + o1 + of_nat i - (b + o2)) < k"
proof -
  have u: "unat (o1 + of_nat i) = unat o1 + i" using assms by (intro unat_plus_no_wrap) simp
  have "k \<le> unat (o1 + of_nat i - o2)"
  proof (cases "unat o1 + n \<le> unat o2")
    case True
    then have "unat (o1 + of_nat i - o2) = unat o1 + i + 2 ^ 64 - unat o2"
      using u assms(2) unat_sub_if_size [of "o1 + of_nat i" o2] by (simp add: word_size word_le_unat)
    then show ?thesis using assms True by simp
  next
    case False
    then have "unat (o1 + of_nat i - o2) = unat o1 + i - unat o2"
      using u assms(1) by (simp add: unat_minus_le word_le_unat)
    then show ?thesis using assms False by simp
  qed
  moreover have "b + o1 + of_nat i - (b + o2) = o1 + of_nat i - o2" by simp
  ultimately show ?thesis by (simp only: not_less)
qed

lemma put_fields_clear:
  assumes "clear_of off n fs" "fields_within k fs" "unat off + n \<le> 2 ^ 63" "k \<le> 2 ^ 63"
  shows "bytes_at (put_fields base fs sp) (base + off) n = bytes_at sp (base + off) n"
  using assms(1,2)
proof (induction fs arbitrary: sp)
  case (Cons f fs)
  obtain o2 bs where f: "f = (o2, bs)" by (cases f)
  have "unat off + n \<le> unat o2 \<or> unat o2 + length bs \<le> unat off" "unat o2 + length bs \<le> 2 ^ 63"
    using Cons.prems assms(4) f by (auto simp: clear_of_def fields_within_def)
  then have "bytes_at (overlay (base + o2) bs sp) (base + off) n = bytes_at sp (base + off) n"
    using assms(3) by (intro bytes_at_overlay_disjoint offsets_apart)
  then show ?case using Cons f by (simp add: clear_of_def fields_within_def)
qed simp

lemma put_fields_holds:
  assumes "(off, bs) \<in> set fs" "fields_apart fs" "fields_within k fs" "k \<le> 2 ^ 63"
    "\<And>i. i < length bs \<Longrightarrow> sp (base + off + of_nat i) \<noteq> None"
  shows "bytes_at (put_fields base fs sp) (base + off) (length bs) = bs"
  using assms(1-3,5)
proof (induction fs arbitrary: sp)
  case (Cons f fs)
  have within: "fields_within k fs" "fields_apart fs" using Cons.prems by (auto simp: fields_within_def fields_apart_def)
  show ?case
  proof (cases "f = (off, bs)")
    case True
    have len: "unat off + length bs \<le> 2 ^ 63"
      using Cons.prems(3) True assms(4) by (simp add: fields_within_def)
    have "clear_of off (length bs) fs" using Cons.prems(2) True by (auto simp: clear_of_def fields_apart_def)
    moreover have "bytes_at (overlay (base + off) bs sp) (base + off) (length bs) = bs"
      using Cons.prems(4) len by (intro bytes_at_overlay) auto
    ultimately show ?thesis using put_fields_clear [OF _ within(1) len assms(4)] True by simp
  next
    case False
    then have m: "(off, bs) \<in> set fs" using Cons.prems(1) by simp
    have nn: "overlay (base + fst f) (snd f) sp (base + off + of_nat i) \<noteq> None" if "i < length bs" for i
      using Cons.prems(4) [OF that] unfolding overlay_mapped .
    show ?thesis unfolding put_fields_simps by (rule Cons.IH [OF m within(2,1)]) (rule nn)
  qed
qed simp

section \<open>The fields of a context\<close>

definition context_fields :: "cpu_state \<Rightarrow> fields" where
  "context_fields c =
     [(OFF_CONTEXT_FLAGS, to_le 4 CONTEXT_ALL), (OFF_MXCSR, to_le 4 (0x1f80 :: u32)),
      (OFF_EFLAGS, to_le 4 (ucast (cpu_rflags c) :: u32))] @
     map (\<lambda>i. (OFF_GPR + of_nat i * 8, to_le 8 (cpu_gpr c (of_nat i)))) [0..<16] @
     [(OFF_RIP, to_le 8 (cpu_rip c))] @
     map (\<lambda>i. (OFF_XMM0 + of_nat i * 16, to_le 16 (cpu_xmm c (of_nat i)))) [0..<16]"

definition CONTEXT_LAYOUT :: "(u64 \<times> nat) list" where
  "CONTEXT_LAYOUT =
     [(0x30, 4), (0x34, 4), (0x44, 4)] @ map (\<lambda>i. (0x78 + of_nat i * 8, 8)) [0..<16] @ [(0xf8, 8)] @
     map (\<lambda>i. (0x1a0 + of_nat i * 16, 16)) [0..<16]"

lemma context_layout: "map (\<lambda>(off, bs). (off, length bs)) (context_fields c) = CONTEXT_LAYOUT"
  by (simp add: context_fields_def CONTEXT_LAYOUT_def OFF_CONTEXT_FLAGS_def OFF_MXCSR_def OFF_EFLAGS_def
      OFF_GPR_def OFF_RIP_def OFF_XMM0_def comp_def)

lemma context_fields_layout: "fields_apart (context_fields c)" "fields_within 0x4d0 (context_fields c)"
proof -
  have "sorted_wrt (\<lambda>x y. unat (fst x) + snd x \<le> unat (fst y)) CONTEXT_LAYOUT" by code_simp
  then have "sorted_wrt (\<lambda>x y. unat (fst x) + snd x \<le> unat (fst y)) (map (\<lambda>(off, bs). (off, length bs)) (context_fields c))"
    by (simp only: context_layout)
  then show "fields_apart (context_fields c)" by (simp add: fields_apart_def sorted_wrt_map case_prod_beta)
  have "list_all (\<lambda>x. 0 < snd x \<and> unat (fst x) + snd x \<le> 0x4d0) CONTEXT_LAYOUT" by code_simp
  then have "list_all (\<lambda>x. 0 < snd x \<and> unat (fst x) + snd x \<le> 0x4d0) (map (\<lambda>(off, bs). (off, length bs)) (context_fields c))"
    by (simp only: context_layout)
  then show "fields_within 0x4d0 (context_fields c)" by (auto simp: fields_within_def list_all_iff)
qed

lemma register_offsets:
  assumes "i < 16"
  shows "unat (OFF_GPR + of_nat i * 8) = 0x78 + i * 8" "unat (OFF_XMM0 + of_nat i * 16) = 0x1a0 + i * 16"
proof -
  have "list_all (\<lambda>i. unat (OFF_GPR + of_nat i * 8) = 0x78 + i * 8 \<and> unat (OFF_XMM0 + of_nat i * 16) = 0x1a0 + i * 16) [0..<16]"
    by code_simp
  then show "unat (OFF_GPR + of_nat i * 8) = 0x78 + i * 8" "unat (OFF_XMM0 + of_nat i * 16) = 0x1a0 + i * 16"
    using assms by (simp_all add: list_all_iff)
qed

fun word_fields :: "u64 \<Rightarrow> u64 list \<Rightarrow> fields" where
  "word_fields off [] = []"
| "word_fields off (v # vs) = (off, to_le 8 v) # word_fields (off + 8) vs"

definition fields_span :: "nat \<Rightarrow> nat \<Rightarrow> fields \<Rightarrow> bool" where
  \<comment> \<open>the fields lie between \<open>a\<close> and \<open>b\<close>\<close>
  "fields_span a b fs \<longleftrightarrow> (\<forall>(off, bs) \<in> set fs. bs \<noteq> [] \<and> a \<le> unat off \<and> unat off + length bs \<le> b)"

lemma fields_span_simps [simp]:
  "fields_span a b []"
  "fields_span a b (f # fs) \<longleftrightarrow> snd f \<noteq> [] \<and> a \<le> unat (fst f) \<and> unat (fst f) + length (snd f) \<le> b \<and> fields_span a b fs"
  "fields_span a b (fs @ gs) \<longleftrightarrow> fields_span a b fs \<and> fields_span a b gs"
  by (auto simp: fields_span_def)

lemma fields_span_mono: "fields_span a b fs \<Longrightarrow> a' \<le> a \<Longrightarrow> b \<le> b' \<Longrightarrow> fields_span a' b' fs"
  unfolding fields_span_def by fastforce

lemma to_le_nonempty [simp]: "to_le n v = [] \<longleftrightarrow> n = 0"
  by (simp flip: length_0_conv)

lemma fields_apart_simps [simp]:
  "fields_apart []"
  "fields_apart (f # fs) \<longleftrightarrow> (\<forall>x \<in> set fs. unat (fst f) + length (snd f) \<le> unat (fst x)) \<and> fields_apart fs"
  by (auto simp: fields_apart_def)

lemma fields_apart_spans:
  "fields_apart fs \<Longrightarrow> fields_apart gs \<Longrightarrow> fields_span a b fs \<Longrightarrow> fields_span c d gs \<Longrightarrow> b \<le> c \<Longrightarrow> fields_apart (fs @ gs)"
  by (fastforce simp: fields_apart_def fields_span_def sorted_wrt_append)

lemma fields_apart_Cons_span:
  "fields_span c d fs \<Longrightarrow> unat (fst f) + length (snd f) \<le> c \<Longrightarrow> fields_apart fs \<Longrightarrow> fields_apart (f # fs)"
  by (fastforce simp: fields_span_def)

lemma word_fields_span:
  assumes "unat off + 8 * length vs \<le> 2 ^ 63"
  shows "fields_apart (word_fields off vs) \<and> fields_span (unat off) (unat off + 8 * length vs) (word_fields off vs)"
  using assms
proof (induction vs arbitrary: off)
  case (Cons v vs)
  have u: "unat (off + 8) = unat off + 8" using Cons.prems unat_plus_no_wrap [of off 8] by simp
  then have ih: "fields_apart (word_fields (off + 8) vs)"
      "fields_span (unat off + 8) (unat off + 8 + 8 * length vs) (word_fields (off + 8) vs)"
    using Cons.IH [of "off + 8"] Cons.prems by simp_all
  have "fields_apart ((off, to_le 8 v) # word_fields (off + 8) vs)"
    by (rule fields_apart_Cons_span [OF ih(2) _ ih(1)]) simp
  moreover have "fields_span (unat off) (unat off + 8 * length (v # vs)) (word_fields (off + 8) vs)"
    using ih(2) by (rule fields_span_mono) simp_all
  ultimately show ?case by simp
qed simp

lemma word_fields_within:
  assumes "a = unat off" "unat off + 8 * length vs \<le> b" "b \<le> 2 ^ 63"
  shows "fields_apart (word_fields off vs)" "fields_span a b (word_fields off vs)"
  using word_fields_span [of off vs] assms fields_span_mono [of "unat off" "unat off + 8 * length vs" _ "unat off" b]
  by (simp_all del: word_fields.simps)

definition record_fields :: "u32 \<Rightarrow> u64 \<Rightarrow> u64 list \<Rightarrow> fields" where
  \<comment> \<open>the exception record of the frame, at 0x4F0\<close>
  "record_fields code address params =
     [(0x4F0, to_le 4 code), (0x4F4, to_le 4 (0 :: u32)), (0x4F8, to_le 8 (0 :: u64)), (0x500, to_le 8 address),
      (0x508, to_le 4 (of_nat (min (length params) 15) :: u32))] @ word_fields 0x510 (take 15 params)"

definition machine_frame :: "cpu_state \<Rightarrow> u16 \<Rightarrow> fields" where
  "machine_frame c cs = word_fields 0x590 [cpu_rip c, ucast cs, cpu_rflags c, cpu_rsp c, ucast SEL_DATA]"

definition lower_fields :: "u16 \<Rightarrow> fields" where
  \<comment> \<open>what is written over and behind the context\<close>
  "lower_fields cs =
     [(0x38, to_le 2 cs)] @ map (\<lambda>off. (off, to_le 2 SEL_DATA)) OFF_SEGS @
     [(0x30, to_le 4 (CONTEXT_ALL OR CONTEXT_SEGMENTS))]"

definition upper_fields :: "cpu_state \<Rightarrow> u16 \<Rightarrow> trap \<Rightarrow> fields" where
  "upper_fields c cs t =
     word_fields 0x4D0 [0, 0, 0] @ record_fields (tr_code t) (tr_address t) (tr_info t) @ machine_frame c cs"

lemma record_fields_layout:
  "fields_apart (record_fields code address params)" "fields_span 0x4F0 0x588 (record_fields code address params)"
proof -
  have w: "fields_apart (word_fields 0x510 (take 15 params))" "fields_span 0x510 0x588 (word_fields 0x510 (take 15 params))"
    by (rule word_fields_within [where b = "0x588"] word_fields_within; simp)+
  have "fields_span 0x4F0 0x588 (word_fields 0x510 (take 15 params))"
    using w(2) by (rule fields_span_mono) simp_all
  then show "fields_span 0x4F0 0x588 (record_fields code address params)" by (simp add: record_fields_def)
  show "fields_apart (record_fields code address params)"
    unfolding record_fields_def by (rule fields_apart_spans [OF _ w(1) _ w(2), of _ "0x4F0" "0x50C"]) simp_all
qed

lemma upper_fields_layout:
  "fields_apart (upper_fields c cs t)" "fields_span 0x4D0 0x5B8 (upper_fields c cs t)"
proof -
  note r = record_fields_layout [of "tr_code t" "tr_address t" "tr_info t"]
  have m: "fields_apart (machine_frame c cs)" "fields_span 0x590 0x5B8 (machine_frame c cs)"
    unfolding machine_frame_def by (rule word_fields_within [where b = "0x5B8"] word_fields_within; simp)+
  have z: "fields_apart (word_fields 0x4D0 [0, 0, 0])" "fields_span 0x4D0 0x4E8 (word_fields 0x4D0 [0, 0, 0])"
    by (rule word_fields_within [where b = "0x4E8"] word_fields_within; simp)+
  have rm: "fields_apart (record_fields (tr_code t) (tr_address t) (tr_info t) @ machine_frame c cs)"
      "fields_span 0x4F0 0x5B8 (record_fields (tr_code t) (tr_address t) (tr_info t) @ machine_frame c cs)"
    using fields_apart_spans [OF r(1) m(1) r(2) m(2)] fields_span_mono [OF r(2), of "0x4F0" "0x5B8"]
      fields_span_mono [OF m(2), of "0x4F0" "0x5B8"] by simp_all
  show "fields_apart (upper_fields c cs t)"
    unfolding upper_fields_def by (rule fields_apart_spans [OF z(1) rm(1) z(2) rm(2)]) simp
  show "fields_span 0x4D0 0x5B8 (upper_fields c cs t)"
    using fields_span_mono [OF z(2), of "0x4D0" "0x5B8"] fields_span_mono [OF rm(2), of "0x4D0" "0x5B8"]
    unfolding upper_fields_def fields_span_simps by simp
qed

section \<open>Writing fields\<close>

context guest_memory
begin

definition lays :: "u64 \<Rightarrow> nat \<Rightarrow> ('m, unit) em \<Rightarrow> fields \<Rightarrow> bool" where
  \<comment> \<open>where \<open>n\<close> bytes at \<open>base\<close> can be written, \<open>f\<close> writes exactly the fields \<open>fs\<close>\<close>
  "lays base n f fs \<longleftrightarrow> (\<forall>m. inv m \<and> acc m PERM_WRITE base n \<longrightarrow>
     (\<exists>m'. f m = (Inr (), m') \<and> inv m' \<and> acc m' = acc m \<and> space m' = put_fields base fs (space m)))"

lemma lays_nothing: "lays base n (em_return ()) []"
  by (simp add: lays_def em_apply)

lemma lays_bind: "lays base n f fs \<Longrightarrow> lays base n g gs \<Longrightarrow> lays base n (em_bind f (\<lambda>_. g)) (fs @ gs)"
  unfolding lays_def em_bind_apply by fastforce

lemma lays_write:
  assumes "bs \<noteq> []" "unat off + length bs \<le> n"
  shows "lays base n (mo_write M (base + off) bs) [(off, bs)]"
  unfolding lays_def
proof (intro allI impI)
  fix m assume m: "inv m \<and> acc m PERM_WRITE base n"
  have "acc m PERM_WRITE (base + of_nat (unat off)) (length bs)"
    using m assms by (intro acc_sub [where n = n]) simp_all
  then show "\<exists>m'. mo_write M (base + off) bs m = (Inr (), m') \<and> inv m' \<and> acc m' = acc m \<and>
      space m' = put_fields base [(off, bs)] (space m)"
    using write_ok [of m bs "base + off"] write_keeps [of m "base + off" bs] m
    by (intro exI [of _ "snd (mo_write M (base + off) bs m)"]) (auto simp: prod_eq_iff)
qed

lemma lays_u16: "unat off + 2 \<le> n \<Longrightarrow> lays base n (mem_write_u16 M (base + off) v) [(off, to_le 2 v)]"
  unfolding mem_write_u16_def by (rule lays_write) (simp_all flip: length_greater_0_conv)

lemma lays_u32: "unat off + 4 \<le> n \<Longrightarrow> lays base n (mem_write_u32 M (base + off) v) [(off, to_le 4 v)]"
  unfolding mem_write_u32_def by (rule lays_write) (simp_all flip: length_greater_0_conv)

lemma lays_u64: "unat off + 8 \<le> n \<Longrightarrow> lays base n (mem_write_u64 M (base + off) v) [(off, to_le 8 v)]"
  unfolding mem_write_u64_def by (rule lays_write) (simp_all flip: length_greater_0_conv)

lemma lays_each:
  assumes "\<And>i. i \<in> set ks \<Longrightarrow> lays base n (f i) [g i]"
  shows "lays base n (em_each ks f) (map g ks)"
  using assms
proof (induction ks)
  case (Cons i ks)
  then have "lays base n (em_bind (f i) (\<lambda>_. em_each ks f)) ([g i] @ map g ks)" by (intro lays_bind) simp_all
  then show ?case by simp
qed (simp add: lays_nothing)

lemma lays_context:
  assumes "0x4d0 \<le> n" shows "lays base n (write_context M base c) (context_fields c)"
proof -
  have g: "lays base n (em_each [0..<16] (\<lambda>i. mem_write_u64 M (base + OFF_GPR + of_nat i * 8) (cpu_gpr c (of_nat i))))
      (map (\<lambda>i. (OFF_GPR + of_nat i * 8, to_le 8 (cpu_gpr c (of_nat i)))) [0..<16])"
  proof (rule lays_each)
    fix i :: nat assume "i \<in> set [0..<16]"
    then have "unat (OFF_GPR + of_nat i * 8) = 0x78 + i * 8"
      by (simp add: register_offsets)
    then show "lays base n (mem_write_u64 M (base + OFF_GPR + of_nat i * 8) (cpu_gpr c (of_nat i)))
        [(OFF_GPR + of_nat i * 8, to_le 8 (cpu_gpr c (of_nat i)))]"
      using assms \<open>i \<in> set [0..<16]\<close> by (subst add.assoc) (rule lays_u64, simp)
  qed
  have x: "lays base n (em_each [0..<16] (\<lambda>i. mo_write M (base + OFF_XMM0 + of_nat i * 16) (to_le 16 (cpu_xmm c (of_nat i)))))
      (map (\<lambda>i. (OFF_XMM0 + of_nat i * 16, to_le 16 (cpu_xmm c (of_nat i)))) [0..<16])"
  proof (rule lays_each)
    fix i :: nat assume "i \<in> set [0..<16]"
    then have "unat (OFF_XMM0 + of_nat i * 16) = 0x1a0 + i * 16"
      by (simp add: register_offsets)
    then show "lays base n (mo_write M (base + OFF_XMM0 + of_nat i * 16) (to_le 16 (cpu_xmm c (of_nat i))))
        [(OFF_XMM0 + of_nat i * 16, to_le 16 (cpu_xmm c (of_nat i)))]"
      using assms \<open>i \<in> set [0..<16]\<close>
      by (subst add.assoc) (rule lays_write, simp_all flip: length_greater_0_conv)
  qed
  have "lays base n (write_context M base c)
    ([(OFF_CONTEXT_FLAGS, to_le 4 CONTEXT_ALL)] @ [(OFF_MXCSR, to_le 4 (0x1f80 :: u32))] @
      [(OFF_EFLAGS, to_le 4 (ucast (cpu_rflags c) :: u32))] @
      map (\<lambda>i. (OFF_GPR + of_nat i * 8, to_le 8 (cpu_gpr c (of_nat i)))) [0..<16] @
      [(OFF_RIP, to_le 8 (cpu_rip c))] @
      map (\<lambda>i. (OFF_XMM0 + of_nat i * 16, to_le 16 (cpu_xmm c (of_nat i)))) [0..<16])"
    unfolding write_context_def using assms
    by (intro lays_bind lays_u32 lays_u64 g x)
      (simp_all add: OFF_CONTEXT_FLAGS_def OFF_MXCSR_def OFF_EFLAGS_def OFF_RIP_def)
  then show ?thesis by (simp add: context_fields_def)
qed

lemma lays_words:
  assumes "unat off + 8 * length vs \<le> n" "n \<le> 2 ^ 63"
  shows "lays base n (write_words M (base + off) vs) (word_fields off vs)"
  using assms(1)
proof (induction vs arbitrary: off)
  case Nil
  then show ?case by (simp add: lays_nothing)
next
  case (Cons v vs)
  have "unat (off + 8) = unat off + 8" using Cons.prems assms(2) unat_plus_no_wrap [of off 8] by simp
  then have "lays base n (write_words M (base + (off + 8)) vs) (word_fields (off + 8) vs)"
    using Cons.IH [of "off + 8"] Cons.prems by simp
  then show ?case
    using lays_bind [OF lays_u64, of off n base "write_words M (base + (off + 8)) vs" _ v] Cons.prems
    unfolding write_words.simps word_fields.simps add.assoc by simp
qed

section \<open>Reading a context\<close>

lemma reads_return: "inv m \<Longrightarrow> reads m (em_return a) a"
  by (simp add: reads_def em_apply same_view_refl)

lemma reads_bind:
  assumes "reads m f v" "\<And>m'. same_view inv space acc m m' \<Longrightarrow> reads m' (g v) w"
  shows "reads m (em_bind f g) w"
proof -
  obtain m' where m': "f m = (Inr v, m')" "same_view inv space acc m m'" using assms(1) by (auto simp: reads_def)
  then obtain m'' where "g v m' = (Inr w, m'')" "same_view inv space acc m' m''" using assms(2) by (auto simp: reads_def)
  then show ?thesis using m' by (auto simp: reads_def em_bind_apply intro: same_view_trans)
qed

lemma reads_bytes:
  assumes "inv m" "acc m PERM_READ base n" "0 < k" "unat off + k \<le> n"
  shows "reads m (mo_read M (base + off) k) (bytes_at (space m) (base + off) k)"
proof -
  have "acc m PERM_READ (base + of_nat (unat off)) k" using assms by (intro acc_sub) simp_all
  then show ?thesis
    using read_ok [OF assms(1), of k "base + off"] read_keeps [OF assms(1), of "base + off" k]
    by (cases "mo_read M (base + off) k m") (simp add: reads_def same_view_def)
qed

lemma reads_u32:
  assumes "inv m" "acc m PERM_READ base n" "unat off + 4 \<le> n" "bytes_at (space m) (base + off) 4 = to_le 4 v"
  shows "reads m (mem_read_u32 M (base + off)) v"
proof -
  have "reads m (mo_read M (base + off) 4) (to_le 4 v)"
    using reads_bytes [OF assms(1,2), of 4 off] assms(3,4) by simp
  then show ?thesis
    by (auto simp: reads_def mem_read_u32_def em_bind_apply em_apply from_le_to_le take_bit_word_eq_self)
qed

definition context_at :: "'m \<Rightarrow> u64 \<Rightarrow> cpu_state \<Rightarrow> bool" where
  \<comment> \<open>the registers of \<open>c\<close> lie in the context record at \<open>base\<close>\<close>
  "context_at m base c \<longleftrightarrow> inv m \<and> acc m PERM_READ base 0x4d0 \<and>
     (\<forall>(off, bs) \<in> set (drop 2 (context_fields c)). bytes_at (space m) (base + off) (length bs) = bs)"

lemma context_at_view: "context_at m base c \<Longrightarrow> same_view inv space acc m m' \<Longrightarrow> context_at m' base c"
  by (simp add: context_at_def same_view_def)

lemma reads_into:
  assumes "\<And>m i. context_at m base c \<Longrightarrow> i \<in> set ks \<Longrightarrow> reads m (rd i) (f i)" "context_at m base c"
  shows "reads m (read_into rd upd ks c0) (fold (\<lambda>i. upd i (f i)) ks c0)"
  using assms
proof (induction ks arbitrary: m c0)
  case Nil
  then show ?case by (simp add: reads_return context_at_def)
next
  case (Cons k ks)
  show ?case
    unfolding read_into.simps fold_simps
    using Cons.prems by (intro reads_bind [where v = "f k"] Cons.IH) (auto intro: context_at_view)
qed

end

definition context_loaded :: "cpu_state \<Rightarrow> cpu_state" where
  \<comment> \<open>what \<open>read_context\<close> makes of a context of \<open>c\<close>: a fresh CPU with its registers\<close>
  "context_loaded c = cpu_state_new\<lparr>cpu_gpr := cpu_gpr c, cpu_rip := cpu_rip c,
     cpu_rflags := (ucast (ucast (cpu_rflags c) :: u32) AND NOT RESERVED_ONE) OR RESERVED_ONE, cpu_xmm := cpu_xmm c\<rparr>"

lemma all_regs: "(of_nat ` {0..<16} :: reg set) = UNIV"
proof -
  have "\<forall>r :: reg. r \<in> set (map of_nat [0..<16])" by code_simp
  then show ?thesis by auto
qed

lemma fold_gpr:
  "fold (\<lambda>i c. c\<lparr>cpu_gpr := (cpu_gpr c)(of_nat i := f (of_nat i))\<rparr>) ks c =
    c\<lparr>cpu_gpr := \<lambda>r. if r \<in> of_nat ` set ks then f r else cpu_gpr c r\<rparr>"
  by (induction ks arbitrary: c) (auto simp: fun_eq_iff intro!: cpu_state.equality)

lemma fold_xmm:
  "fold (\<lambda>i c. c\<lparr>cpu_xmm := (cpu_xmm c)(of_nat i := f (of_nat i))\<rparr>) ks c =
    c\<lparr>cpu_xmm := \<lambda>r. if r \<in> of_nat ` set ks then f r else cpu_xmm c r\<rparr>"
  by (induction ks arbitrary: c) (auto simp: fun_eq_iff intro!: cpu_state.equality)

context guest_memory
begin

lemma context_at_gpr:
  assumes "context_at m base c" "i < 16"
  shows "reads m (mem_read_u64 M (base + OFF_GPR + of_nat i * 8)) (cpu_gpr c (of_nat i))"
proof -
  have "(OFF_GPR + of_nat i * 8, to_le 8 (cpu_gpr c (of_nat i))) \<in> set (drop 2 (context_fields c))"
    using assms(2) by (auto simp: context_fields_def)
  then show ?thesis
    using assms unfolding add.assoc
    by (intro reads_u64 [where n = "0x4d0"]) (auto simp: context_at_def register_offsets)
qed

lemma context_at_xmm:
  assumes "context_at m base c" "i < 16"
  shows "reads m (mo_read M (base + OFF_XMM0 + of_nat i * 16) 16) (to_le 16 (cpu_xmm c (of_nat i)))"
proof -
  have "(OFF_XMM0 + of_nat i * 16, to_le 16 (cpu_xmm c (of_nat i))) \<in> set (drop 2 (context_fields c))"
    using assms(2) by (auto simp: context_fields_def)
  then have "bytes_at (space m) (base + (OFF_XMM0 + of_nat i * 16)) 16 = to_le 16 (cpu_xmm c (of_nat i))"
    using assms by (auto simp: context_at_def)
  then show ?thesis
    using assms reads_bytes [of m base "0x4d0" 16 "OFF_XMM0 + of_nat i * 16"]
    by (simp add: context_at_def register_offsets add.assoc)
qed

lemma context_at_rest:
  assumes "context_at m base c"
  shows "reads m (mem_read_u64 M (base + OFF_RIP)) (cpu_rip c)"
    "reads m (mem_read_u32 M (base + OFF_EFLAGS)) (ucast (cpu_rflags c))"
proof -
  have "(OFF_RIP, to_le 8 (cpu_rip c)) \<in> set (drop 2 (context_fields c))" by (simp add: context_fields_def)
  then show "reads m (mem_read_u64 M (base + OFF_RIP)) (cpu_rip c)"
    using assms by (intro reads_u64 [where n = "0x4d0"]) (auto simp: context_at_def OFF_RIP_def)
  have "(OFF_EFLAGS, to_le 4 (ucast (cpu_rflags c) :: u32)) \<in> set (drop 2 (context_fields c))"
    by (simp add: context_fields_def)
  then show "reads m (mem_read_u32 M (base + OFF_EFLAGS)) (ucast (cpu_rflags c))"
    using assms by (intro reads_u32 [where n = "0x4d0"]) (auto simp: context_at_def OFF_EFLAGS_def)
qed

lemma reads_context:
  assumes "context_at m base c"
  shows "reads m (read_context M base) (context_loaded c)"
proof -
  let ?g = "fold (\<lambda>i s. s\<lparr>cpu_gpr := (cpu_gpr s)(of_nat i := cpu_gpr c (of_nat i))\<rparr>) [0..<16] cpu_state_new"
  let ?r = "?g\<lparr>cpu_rip := cpu_rip c, cpu_rflags := (ucast (ucast (cpu_rflags c) :: u32) AND NOT RESERVED_ONE) OR RESERVED_ONE\<rparr>"
  have "reads m (read_context M base)
    (fold (\<lambda>i s. s\<lparr>cpu_xmm := (cpu_xmm s)(of_nat i := from_le (to_le 16 (cpu_xmm c (of_nat i))))\<rparr>) [0..<16] ?r)"
    unfolding read_context_def Let_def
  proof (rule reads_bind)
    show "reads m (read_into (\<lambda>i. mem_read_u64 M (base + OFF_GPR + of_nat i * 8))
        (\<lambda>i v c. c\<lparr>cpu_gpr := (cpu_gpr c)(of_nat i := v)\<rparr>) [0..<16] cpu_state_new) ?g"
      using assms context_at_gpr by (intro reads_into) auto
  next
    fix m1 assume "same_view inv space acc m m1"
    then have m1: "context_at m1 base c" using assms by (rule context_at_view [rotated])
    show "reads m1 (em_bind (mem_read_u64 M (base + OFF_RIP)) (\<lambda>rip.
       em_bind (mem_read_u32 M (base + OFF_EFLAGS)) (\<lambda>fl.
       read_into (\<lambda>i. mo_read M (base + OFF_XMM0 + of_nat i * 16) 16)
         (\<lambda>i b c. c\<lparr>cpu_xmm := (cpu_xmm c)(of_nat i := from_le b)\<rparr>) [0..<16]
         (?g\<lparr>cpu_rip := rip, cpu_rflags := (ucast fl AND NOT RESERVED_ONE) OR RESERVED_ONE\<rparr>))))
      (fold (\<lambda>i s. s\<lparr>cpu_xmm := (cpu_xmm s)(of_nat i := from_le (to_le 16 (cpu_xmm c (of_nat i))))\<rparr>) [0..<16] ?r)"
    proof (rule reads_bind [OF context_at_rest(1) [OF m1]], rule reads_bind [OF context_at_rest(2)])
      fix m2 assume v: "same_view inv space acc m1 m2"
      show "context_at m2 base c" by (rule context_at_view [OF m1 v])
      fix m3 assume "same_view inv space acc m2 m3"
      then have "context_at m3 base c" by (rule context_at_view [OF context_at_view [OF m1 v]])
      then show "reads m3 (read_into (\<lambda>i. mo_read M (base + OFF_XMM0 + of_nat i * 16) 16)
         (\<lambda>i b c. c\<lparr>cpu_xmm := (cpu_xmm c)(of_nat i := from_le b)\<rparr>) [0..<16] ?r)
        (fold (\<lambda>i s. s\<lparr>cpu_xmm := (cpu_xmm s)(of_nat i := from_le (to_le 16 (cpu_xmm c (of_nat i))))\<rparr>) [0..<16] ?r)"
        using context_at_xmm by (intro reads_into) auto
    qed
  qed
  moreover have "from_le (to_le 16 v) = v" for v :: u128
    by (simp add: from_le_to_le take_bit_word_eq_self)
  ultimately show ?thesis
    by (simp add: fold_gpr fold_xmm all_regs context_loaded_def flip: atLeast_upt)
qed

section \<open>The exception frame\<close>

lemma put_fields_span:
  assumes "fields_span a b fs" "b \<le> 2 ^ 63" "unat off + n \<le> a" "a \<le> b"
  shows "bytes_at (put_fields base fs sp) (base + off) n = bytes_at sp (base + off) n"
  using assms
  by (intro put_fields_clear [where k = b])
    (auto simp: clear_of_def fields_span_def fields_within_def)

lemma lays_record:
  assumes "0x588 \<le> n" "n \<le> 2 ^ 63"
  shows "lays base n (write_exception_record M (base + 0x4F0) code 0 address params) (record_fields code address params)"
proof -
  have w: "lays base n (write_words M (base + 0x510) (take 15 params)) (word_fields 0x510 (take 15 params))"
    using assms by (intro lays_words) simp_all
  have "lays base n
     (em_bind (mem_write_u32 M (base + 0x4F0) code) (\<lambda>_.
      em_bind (mem_write_u32 M (base + 0x4F4) 0) (\<lambda>_.
      em_bind (mem_write_u64 M (base + 0x4F8) 0) (\<lambda>_.
      em_bind (mem_write_u64 M (base + 0x500) address) (\<lambda>_.
      em_bind (mem_write_u32 M (base + 0x508) (of_nat (min (length params) 15))) (\<lambda>_.
      write_words M (base + 0x510) (take 15 params)))))))
     ([(0x4F0, to_le 4 code)] @ [(0x4F4, to_le 4 (0 :: u32))] @ [(0x4F8, to_le 8 (0 :: u64))] @ [(0x500, to_le 8 address)] @
      [(0x508, to_le 4 (of_nat (min (length params) 15) :: u32))] @ word_fields 0x510 (take 15 params))"
    using assms by (intro lays_bind lays_u32 lays_u64 w) simp_all
  moreover have at: "(0x4F0 :: u64) + 0x00 = 0x4F0" "(0x4F0 :: u64) + 0x04 = 0x4F4" "(0x4F0 :: u64) + 0x08 = 0x4F8"
      "(0x4F0 :: u64) + 0x10 = 0x500" "(0x4F0 :: u64) + 0x18 = 0x508" "(0x4F0 :: u64) + 0x20 = 0x510" by simp_all
  have "write_exception_record M (base + 0x4F0) code 0 address params =
     em_bind (mem_write_u32 M (base + 0x4F0) code) (\<lambda>_.
      em_bind (mem_write_u32 M (base + 0x4F4) 0) (\<lambda>_.
      em_bind (mem_write_u64 M (base + 0x4F8) 0) (\<lambda>_.
      em_bind (mem_write_u64 M (base + 0x500) address) (\<lambda>_.
      em_bind (mem_write_u32 M (base + 0x508) (of_nat (min (length params) 15))) (\<lambda>_.
      write_words M (base + 0x510) (take 15 params))))))"
    unfolding write_exception_record_def ER_CODE_def ER_FLAGS_def ER_NESTED_def ER_ADDRESS_def ER_NUM_PARAMS_def ER_INFO_def
      add.assoc at by simp
  ultimately show ?thesis by (simp add: record_fields_def)
qed

definition frame_writes :: "u64 \<Rightarrow> cpu_state \<Rightarrow> u16 \<Rightarrow> trap \<Rightarrow> ('m, unit) em" where
  \<comment> \<open>the writes of \<open>deliver_hw_exception\<close>\<close>
  "frame_writes base c cs t =
     em_bind (write_context M base c) (\<lambda>_.
     em_bind (mem_write_u16 M (base + OFF_SEG_CS) cs) (\<lambda>_.
     em_bind (em_each OFF_SEGS (\<lambda>off. mem_write_u16 M (base + off) SEL_DATA)) (\<lambda>_.
     em_bind (mem_write_u32 M (base + OFF_CONTEXT_FLAGS) (CONTEXT_ALL OR CONTEXT_SEGMENTS)) (\<lambda>_.
     em_bind (write_words M (base + 0x4D0) [0, 0, 0]) (\<lambda>_.
     em_bind (write_exception_record M (base + 0x4F0) (tr_code t) 0 (tr_address t) (tr_info t)) (\<lambda>_.
     write_words M (base + 0x590) [cpu_rip c, ucast cs, cpu_rflags c, cpu_rsp c, ucast SEL_DATA]))))))"

lemma lays_frame:
  "lays base 0x5C0 (frame_writes base c cs t) (context_fields c @ lower_fields cs @ upper_fields c cs t)"
proof -
  have "lays base 0x5C0 (frame_writes base c cs t)
    (context_fields c @ [(OFF_SEG_CS, to_le 2 cs)] @ map (\<lambda>off. (off, to_le 2 SEL_DATA)) OFF_SEGS @
     [(OFF_CONTEXT_FLAGS, to_le 4 (CONTEXT_ALL OR CONTEXT_SEGMENTS))] @ word_fields 0x4D0 [0, 0, 0] @
     record_fields (tr_code t) (tr_address t) (tr_info t) @
     word_fields 0x590 [cpu_rip c, ucast cs, cpu_rflags c, cpu_rsp c, ucast SEL_DATA])"
    unfolding frame_writes_def
    by (intro lays_bind lays_context lays_u16 lays_each lays_u32 lays_words lays_record)
      (auto simp: OFF_SEG_CS_def OFF_SEGS_def OFF_CONTEXT_FLAGS_def)
  then show ?thesis
    by (simp add: lower_fields_def upper_fields_def machine_frame_def OFF_SEG_CS_def OFF_CONTEXT_FLAGS_def)
qed

end

definition frame_holds_trap :: "space \<Rightarrow> u64 \<Rightarrow> cpu_state \<Rightarrow> u16 \<Rightarrow> trap \<Rightarrow> bool" where
  \<comment> \<open>the exception record and the machine frame of the trap lie at their places\<close>
  "frame_holds_trap sp base c cs t \<longleftrightarrow>
     (\<forall>(off, bs) \<in> set (record_fields (tr_code t) (tr_address t) (tr_info t) @ machine_frame c cs).
        bytes_at sp (base + off) (length bs) = bs)"

context guest_memory
begin

lemma frame_written:
  assumes "inv m" "acc m PERM_WRITE base 0x5C0" "acc m PERM_READ base 0x5C0"
  obtains m' where "frame_writes base c cs t m = (Inr (), m')" "acc m' = acc m" "context_at m' base c"
    "frame_holds_trap (space m') base c cs t"
    "space m' = put_fields base (context_fields c @ lower_fields cs @ upper_fields c cs t) (space m)"
proof -
  obtain m' where m': "frame_writes base c cs t m = (Inr (), m')" "inv m'" "acc m' = acc m"
      "space m' = put_fields base (context_fields c @ lower_fields cs @ upper_fields c cs t) (space m)"
    using lays_frame [of base c cs t] assms(1,2) unfolding lays_def by blast
  let ?s1 = "put_fields base (context_fields c) (space m)"
  let ?s2 = "put_fields base (lower_fields cs) ?s1"
  note up = upper_fields_layout [of c cs t]
  have mapped: "space m (base + off + of_nat i) \<noteq> None" if "unat off + i < 0x5C0" for off i
  proof -
    have eq: "base + off + of_nat i = base + of_nat (unat off + i)" by (simp add: add.assoc)
    show ?thesis unfolding eq by (rule space_some [OF assms(1,2) that])
  qed
  have ctx: "bytes_at (space m') (base + off) (length bs) = bs" if "(off, bs) \<in> set (drop 2 (context_fields c))" for off bs
  proof -
    have mem: "(off, bs) \<in> set (context_fields c)" using that by (rule in_set_dropD)
    then have le: "unat off + length bs \<le> 0x4d0"
      using context_fields_layout(2) [of c] by (auto simp: fields_within_def)
    have "(off, length bs) \<in> set (drop 2 CONTEXT_LAYOUT)"
      using that unfolding context_layout [of c, symmetric] drop_map by (auto intro: rev_image_eqI)
    moreover have "list_all (\<lambda>x. 0x44 \<le> unat (fst x)) (drop 2 CONTEXT_LAYOUT)" by code_simp
    ultimately have ge: "0x44 \<le> unat off" by (auto simp: list_all_iff)
    have "bytes_at ?s1 (base + off) (length bs) = bs"
      using mem context_fields_layout le mapped by (intro put_fields_holds [where k = "0x4d0"]) auto
    moreover have "clear_of off (length bs) (lower_fields cs)" "fields_within 0x44 (lower_fields cs)"
      using ge by (simp_all add: clear_of_def fields_within_def lower_fields_def OFF_SEGS_def)
    ultimately have "bytes_at ?s2 (base + off) (length bs) = bs"
      using le put_fields_clear [of off "length bs" "lower_fields cs" "0x44" base ?s1] by simp
    then show ?thesis
      using put_fields_span [OF up(2), of off "length bs" base ?s2] le m'(4) by simp
  qed
  have trap: "bytes_at (space m') (base + off) (length bs) = bs" if "(off, bs) \<in> set (upper_fields c cs t)" for off bs
  proof -
    have within: "fields_within 0x5B8 (upper_fields c cs t)" using up(2) by (auto simp: fields_span_def fields_within_def)
    then have "unat off + length bs \<le> 0x5B8" using that by (auto simp: fields_within_def)
    then show ?thesis
      using put_fields_holds [OF that up(1) within, of ?s2 base] mapped m'(4) by simp
  qed
  have "acc m' PERM_READ (base + of_nat 0) 0x4d0"
    using acc_sub [OF m'(2), of PERM_READ base "0x5C0" "0x4d0" 0] assms(3) m'(3) by simp
  then have "context_at m' base c" using ctx m'(2) by (auto simp: context_at_def)
  moreover have "frame_holds_trap (space m') base c cs t"
    using trap unfolding frame_holds_trap_def upper_fields_def set_append by blast
  ultimately show thesis using that m' by blast
qed

end

end
