(* ===== verification/Os_Exc_Theorems.thy ===== *)
theory Os_Exc_Theorems
  imports Os_Exc_Laws Os_New
begin

text \<open>
  The properties of exceptions: a fault that is delivered can be resumed, and a fault that nobody
  handles is not delivered for ever.
\<close>

section \<open>Deliver and continue\<close>

definition exc_base :: "cpu_state \<Rightarrow> u64" where
  "exc_base c = (cpu_rsp c - EXC_FRAME_BYTES) AND NOT 0xF"

definition mode_cs :: "trap_mode \<Rightarrow> u16" where
  "mode_cs mode = (case mode of Long \<Rightarrow> SEL_CS64 | Compat32 \<Rightarrow> SEL_CS32)"

definition in_dispatcher :: "u64 \<Rightarrow> cpu_state \<Rightarrow> cpu_state" where
  "in_dispatcher ntdll c = (cpu_set_rsp (exc_base c) c)\<lparr>cpu_rip := ntdll + RVA_KI_USER_EXCEPTION_DISPATCHER\<rparr>"

lemma deliver_frame:
  assumes "EXC_FRAME_BYTES \<le> cpu_rsp (sw_cpu s)"
    "vmem.frame_writes alloc (exc_base (sw_cpu s)) (sw_cpu s) (mode_cs (tr_mode t)) t (sw_mem s) = (Inr (), m')"
  shows "deliver_hw_exception (vm_ops alloc) ntdll t s = (Inr (), s\<lparr>sw_cpu := in_dispatcher ntdll (sw_cpu s), sw_mem := m'\<rparr>)"
  using assms
  by (simp add: deliver_hw_exception_def vmem.frame_writes_def em_bind_apply on_cpu_def em_apply on_mem_def cpu_upd_def
      Let_def not_less [symmetric] mode_cs_def in_dispatcher_def exc_base_def)

definition resumed :: "cpu_state \<Rightarrow> cpu_state \<Rightarrow> cpu_state" where
  \<comment> \<open>a CPU \<open>d\<close> that goes on where \<open>c\<close> was\<close>
  "resumed c d = d\<lparr>cpu_gpr := cpu_gpr c, cpu_xmm := cpu_xmm c, cpu_rip := cpu_rip c,
     cpu_rflags := (ucast (ucast (cpu_rflags c) :: u32) AND NOT RESERVED_ONE) OR RESERVED_ONE\<rparr>"

lemma continue_context:
  assumes "vmem.context_at (sw_mem v) base c" "cpu_reg R10 (sw_cpu v) = base" "base \<noteq> 0"
  shows "\<exists>m'. nt_continue (vm_ops alloc) v = (Inr STATUS_SUCCESS,
      v\<lparr>sw_os := (sw_os v)\<lparr>os_exc_chain := exc_chain_default, os_syscall_resume_as_is := True\<rparr>,
        sw_cpu := resumed c (sw_cpu v), sw_mem := m'\<rparr>) \<and> vm_space m' = vm_space (sw_mem v)"
proof -
  obtain m' where "read_context (vm_ops alloc) base (sw_mem v) = (Inr (context_loaded c), m')"
      "same_view vm_ok vm_space vm_acc (sw_mem v) m'"
    using vmem.reads_context [OF assms(1)] unfolding vmem.reads_def by blast
  then show ?thesis
    using assms(2,3)
    by (intro exI [of _ m']) (simp add: nt_continue_def syscall_arg_def em_bind_apply on_cpu_def em_apply on_mem_def
        tried_def cpu_upd_def os_upd_def load_context_def context_loaded_def resumed_def note_exception_resumed_def same_view_def)
qed

text \<open>
  C37: A hardware fault on a thread with room for the frame on its stack is delivered: the thread
  goes to the dispatcher of the guest with a 16-byte aligned stack below its own, all its other
  registers as they were, and the exception record and the machine frame lie in the frame. When
  the guest later continues with the context of that frame, however it got there and as long as
  the bytes of the context are as they were delivered, the general and the vector registers, the
  instruction pointer and the 32 low flags are exactly those of the fault, and the count of
  unhandled deliveries starts again.
\<close>
theorem exception_round_trip:
  fixes s :: "vmem sysw" and alloc :: "u64 \<Rightarrow> bool"
  defines "base \<equiv> exc_base (sw_cpu s)"
  assumes "vm_ok (sw_mem s)" "EXC_FRAME_BYTES \<le> cpu_rsp (sw_cpu s)" "base \<noteq> 0"
    "vm_acc (sw_mem s) PERM_WRITE base 0x5C0" "vm_acc (sw_mem s) PERM_READ base 0x5C0"
  shows "\<exists>u. deliver_hw_exception (vm_ops alloc) ntdll t s = (Inr (), u) \<and> sw_os u = sw_os s \<and>
    sw_cpu u = (sw_cpu s)\<lparr>cpu_gpr := (cpu_gpr (sw_cpu s))(Rsp := base),
      cpu_rip := ntdll + RVA_KI_USER_EXCEPTION_DISPATCHER\<rparr> \<and>
    base AND 0xF = 0 \<and> base \<le> cpu_rsp (sw_cpu s) - 0x5C0 \<and>
    frame_holds_trap (vm_space (sw_mem u)) base (sw_cpu s) (mode_cs (tr_mode t)) t \<and>
    vm_ok (sw_mem u) \<and> vm_acc (sw_mem u) = vm_acc (sw_mem s) \<and>
    (\<forall>v. vm_ok (sw_mem v) \<and> vm_acc (sw_mem v) PERM_READ base 0x4d0 \<and>
       bytes_at (vm_space (sw_mem v)) base 0x4d0 = bytes_at (vm_space (sw_mem u)) base 0x4d0 \<and>
       cpu_reg R10 (sw_cpu v) = base \<longrightarrow>
       (\<exists>w. nt_continue (vm_ops alloc) v = (Inr STATUS_SUCCESS, w) \<and>
         sw_cpu w = resumed (sw_cpu s) (sw_cpu v) \<and> vm_space (sw_mem w) = vm_space (sw_mem v) \<and>
         os_syscall_resume_as_is (sw_os w) \<and> os_exc_chain (sw_os w) = exc_chain_default))"
proof -
  obtain m' where m': "vmem.frame_writes alloc base (sw_cpu s) (mode_cs (tr_mode t)) t (sw_mem s) = (Inr (), m')"
      "vmem.context_at m' base (sw_cpu s)" "frame_holds_trap (vm_space m') base (sw_cpu s) (mode_cs (tr_mode t)) t"
      "vm_acc m' = vm_acc (sw_mem s)"
    using vmem.frame_written [OF assms(2,5,6)] by metis
  have later: "vmem.context_at (sw_mem v) base (sw_cpu s)"
    if v: "vm_ok (sw_mem v)" "vm_acc (sw_mem v) PERM_READ base 0x4d0"
      "bytes_at (vm_space (sw_mem v)) base 0x4d0 = bytes_at (vm_space m') base 0x4d0" for v :: "vmem sysw"
  proof -
    have "bytes_at (vm_space (sw_mem v)) (base + off) (length bs) = bytes_at (vm_space m') (base + off) (length bs)"
      if "(off, bs) \<in> set (drop 2 (context_fields (sw_cpu s)))" for off bs
      using context_fields_layout(2) [of "sw_cpu s"] in_set_dropD [OF that]
      by (intro bytes_at_part [OF v(3)]) (auto simp: fields_within_def)
    then show ?thesis using m'(2) v by (auto simp: vmem.context_at_def)
  qed
  have "base AND 0xF = 0" by (simp add: base_def exc_base_def and.assoc)
  moreover have "base \<le> cpu_rsp (sw_cpu s) - 0x5C0"
    by (simp add: base_def exc_base_def EXC_FRAME_BYTES_def word_and_le2)
  moreover have "sw_cpu (s\<lparr>sw_cpu := in_dispatcher ntdll (sw_cpu s), sw_mem := m'\<rparr>) =
      (sw_cpu s)\<lparr>cpu_gpr := (cpu_gpr (sw_cpu s))(Rsp := base), cpu_rip := ntdll + RVA_KI_USER_EXCEPTION_DISPATCHER\<rparr>"
    by (simp add: in_dispatcher_def base_def cpu_set_rsp_def cpu_set_reg_def)
  moreover have "vm_ok m'" using m'(2) by (simp add: vmem.context_at_def)
  ultimately show ?thesis
    using m'(4) deliver_frame [OF assms(3) m'(1) [unfolded base_def], of ntdll] m'(3) continue_context [OF later _ assms(4), of _ alloc]
    by (intro exI [of _ "s\<lparr>sw_cpu := in_dispatcher ntdll (sw_cpu s), sw_mem := m'\<rparr>"]) fastforce
qed

definition stack_sys :: "vmem sysw" where
  \<comment> \<open>a thread at 0x401000 with a stack of two pages\<close>
  "stack_sys =
     \<lparr>sw_os = win_os_new os_config_default (clock_new True),
       sw_cpu = cpu_state_new\<lparr>cpu_gpr := (\<lambda>_. 0)(Rsp := 0x1000001800, R10 := 0x1000001240), cpu_rip := 0x401000\<rparr>,
       sw_mem = vm_new\<lparr>vm_regions := [\<lparr>mp_region = \<lparr>rg_name = ''stack'', rg_base = 0x1000000000, rg_size = 0x2000, rg_perm = PERM_RW\<rparr>,
         mp_bytes = replicate 0x2000 0\<rparr>]\<rparr>\<rparr>"

lemma stack_sys_ok:
  "vm_ok (sw_mem stack_sys)" "EXC_FRAME_BYTES \<le> cpu_rsp (sw_cpu stack_sys)" "exc_base (sw_cpu stack_sys) = 0x1000001240"
  "vm_acc (sw_mem stack_sys) PERM_WRITE 0x1000001240 0x5C0" "vm_acc (sw_mem stack_sys) PERM_READ 0x1000001240 n \<longleftrightarrow> n \<le> 0xDC0"
  "cpu_reg R10 (sw_cpu stack_sys) = 0x1000001240"
proof -
  have regs: "R10 \<noteq> Rsp" "Rsp \<noteq> R10" by (simp_all add: reg_defs R10_def)
  show "vm_ok (sw_mem stack_sys)"
    by (simp add: stack_sys_def vm_ok_def vm_inv_def table_ok_def region_ok_def table_below_top_def below_top_def vm_new_def)
  show "EXC_FRAME_BYTES \<le> cpu_rsp (sw_cpu stack_sys)" "exc_base (sw_cpu stack_sys) = 0x1000001240"
    "cpu_reg R10 (sw_cpu stack_sys) = 0x1000001240"
    using regs by (simp_all add: stack_sys_def cpu_rsp_def cpu_reg_def EXC_FRAME_BYTES_def exc_base_def)
  have "PERM_READ \<le> PERM_RW" "PERM_WRITE \<le> PERM_RW"
    by (simp_all add: less_eq_perm_def perm_contains_def perm_defs)
  then show "vm_acc (sw_mem stack_sys) PERM_WRITE 0x1000001240 0x5C0"
    "vm_acc (sw_mem stack_sys) PERM_READ 0x1000001240 n \<longleftrightarrow> n \<le> 0xDC0"
    by (auto simp: vm_acc_def stack_sys_def region_contains_def saturating_add_def)
qed

theorem exception_round_trip_witness:
  "\<exists>u w. deliver_hw_exception (vm_ops (\<lambda>_. True)) 0x170000000
       \<lparr>tr_code = 0xC0000005, tr_address = 0x10, tr_info = [0, 0x10], tr_mode = Long\<rparr> stack_sys = (Inr (), u) \<and>
    cpu_rip (sw_cpu u) = 0x170010a30 \<and> cpu_rsp (sw_cpu u) = 0x1000001240 \<and>
    nt_continue (vm_ops (\<lambda>_. True)) (u\<lparr>sw_cpu := sw_cpu stack_sys\<lparr>cpu_rip := 0\<rparr>\<rparr>) = (Inr STATUS_SUCCESS, w) \<and>
    cpu_rip (sw_cpu w) = 0x401000 \<and> cpu_rsp (sw_cpu w) = 0x1000001800"
proof -
  let ?t = "\<lparr>tr_code = 0xC0000005, tr_address = 0x10, tr_info = [0, 0x10], tr_mode = Long\<rparr>"
  obtain u where u: "deliver_hw_exception (vm_ops (\<lambda>_. True)) 0x170000000 ?t stack_sys = (Inr (), u)"
      "sw_cpu u = (sw_cpu stack_sys)\<lparr>cpu_gpr := (cpu_gpr (sw_cpu stack_sys))(Rsp := 0x1000001240),
        cpu_rip := 0x170000000 + RVA_KI_USER_EXCEPTION_DISPATCHER\<rparr>"
      "vm_ok (sw_mem u)" "vm_acc (sw_mem u) = vm_acc (sw_mem stack_sys)"
      and later: "\<And>v :: vmem sysw. vm_ok (sw_mem v) \<Longrightarrow> vm_acc (sw_mem v) PERM_READ 0x1000001240 0x4d0 \<Longrightarrow>
       bytes_at (vm_space (sw_mem v)) 0x1000001240 0x4d0 = bytes_at (vm_space (sw_mem u)) 0x1000001240 0x4d0 \<Longrightarrow>
       cpu_reg R10 (sw_cpu v) = 0x1000001240 \<Longrightarrow>
       \<exists>w. nt_continue (vm_ops (\<lambda>_. True)) v = (Inr STATUS_SUCCESS, w) \<and> sw_cpu w = resumed (sw_cpu stack_sys) (sw_cpu v)"
    using exception_round_trip [of stack_sys "\<lambda>_. True" "0x170000000" ?t, unfolded stack_sys_ok(3), OF stack_sys_ok(1,2) _ stack_sys_ok(4)]
    unfolding stack_sys_ok(5) by fastforce
  let ?v = "u\<lparr>sw_cpu := sw_cpu stack_sys\<lparr>cpu_rip := 0\<rparr>\<rparr>"
  have "cpu_reg R10 (sw_cpu ?v) = 0x1000001240" using stack_sys_ok(6) by (simp add: cpu_reg_def)
  then obtain w where "nt_continue (vm_ops (\<lambda>_. True)) ?v = (Inr STATUS_SUCCESS, w)" "sw_cpu w = resumed (sw_cpu stack_sys) (sw_cpu ?v)"
    using later [of ?v] u(3,4) stack_sys_ok(5) by auto
  moreover have "cpu_rip (sw_cpu stack_sys) = 0x401000" "cpu_gpr (sw_cpu stack_sys) Rsp = 0x1000001800"
    by (simp_all add: stack_sys_def reg_defs R10_def)
  ultimately show ?thesis
    using u(1,2) by (intro exI [of _ u] exI [of _ w])
      (simp add: resumed_def cpu_rsp_def cpu_reg_def RVA_KI_USER_EXCEPTION_DISPATCHER_def)
qed

section \<open>The bound on deliveries\<close>

definition chain_after :: "(u32 \<times> u64 \<times> u64) list \<Rightarrow> exc_chain" where
  \<comment> \<open>the chain after these deliveries, none of which the guest resumed from\<close>
  "chain_after evs = fold (\<lambda>(c, a, r) e. snd (note_delivery c a r e)) evs exc_chain_default"

definition run_length :: "(u32 \<times> u64 \<times> u64) \<Rightarrow> (u32 \<times> u64 \<times> u64) list \<Rightarrow> nat" where
  "run_length ev evs = length (takeWhile ((=) ev) (rev evs))"

lemma run_length_snoc: "run_length ev (evs @ [x]) = (if ev = x then Suc (run_length ev evs) else 0)"
  by (simp add: run_length_def)

lemma run_length_other: "evs \<noteq> [] \<Longrightarrow> last evs \<noteq> ev \<Longrightarrow> run_length ev evs = 0"
  by (cases evs rule: rev_cases) (auto simp: run_length_snoc)

lemma run_length_le: "run_length ev evs \<le> length evs"
  unfolding run_length_def using length_takeWhile_le [of "(=) ev" "rev evs"] by simp

lemma chain_after_snoc: "chain_after (evs @ [(c, a, r)]) = snd (note_delivery c a r (chain_after evs))"
  by (simp add: chain_after_def)

lemma note_delivery_chain:
  "snd (note_delivery c a r e) =
    \<lparr>ec_first = (if ec_first e = None then Some (c, a) else ec_first e), ec_last = Some (c, a, r),
      ec_repeats = (if ec_last e = Some (c, a, r) then ec_repeats e + 1 else 1), ec_depth = ec_depth e + 1\<rparr>"
  by (cases e) (auto simp: note_delivery_def Let_def split: option.splits)

lemma chain_after_exact:
  "chain_after evs =
    \<lparr>ec_first = (case evs of [] \<Rightarrow> None | (c, a, r) # _ \<Rightarrow> Some (c, a)),
      ec_last = (if evs = [] then None else Some (last evs)),
      ec_repeats = (if evs = [] then 0 else of_nat (run_length (last evs) evs)), ec_depth = of_nat (length evs)\<rparr>"
proof (induction evs rule: rev_induct)
  case Nil
  then show ?case by (simp add: chain_after_def exc_chain_default_def)
next
  case (snoc ev evs)
  obtain c a r where ev: "ev = (c, a, r)" by (cases ev)
  show ?case
    unfolding ev chain_after_snoc note_delivery_chain snoc.IH
    by (auto simp: run_length_snoc run_length_other run_length_def [of _ "[]"] split: list.splits)
qed

text \<open>
  C38: A fault that the guest does not resume from is not delivered for ever. After any deliveries
  since the last resumption (fewer than \<open>2 ^ 32\<close>), the next one is refused exactly when there
  were 32 of them or the last two were the same fault at the same place; the refusal names the
  first fault of the chain.
\<close>
theorem redelivery_bounded:
  assumes "length evs < 2 ^ 32 - 1"
  shows "fst (note_delivery c a r (chain_after evs)) =
    (if 32 \<le> length evs \<or> 2 \<le> run_length (c, a, r) evs
     then Some \<lparr>uh_code = fst (hd (evs @ [(c, a, r)])), uh_address = fst (snd (hd (evs @ [(c, a, r)]))),
       uh_how = RE_DELIVERY_BOUND\<rparr>
     else None)"
proof -
  let ?e = "snd (note_delivery c a r (chain_after evs))"
  have e: "?e = chain_after (evs @ [(c, a, r)])" by (simp add: chain_after_snoc)
  have first: "ec_first ?e = Some (fst (hd (evs @ [(c, a, r)])), fst (snd (hd (evs @ [(c, a, r)]))))"
    unfolding e by (cases evs) (auto simp: chain_after_exact)
  have small: "of_nat n < (2 ^ 32 :: nat) \<Longrightarrow> unat (of_nat n :: u32) = n" for n
    by (simp add: unat_of_nat take_bit_nat_eq_self)
  have "unat (ec_repeats ?e) = Suc (run_length (c, a, r) evs)" "unat (ec_depth ?e) = Suc (length evs)"
    unfolding e using assms run_length_le [of "(c, a, r)" evs] small [of "Suc (run_length (c, a, r) evs)"]
      small [of "Suc (length evs)"] by (simp_all add: chain_after_exact run_length_snoc)
  then have "MAX_IDENTICAL_DELIVERIES \<le> ec_repeats ?e \<longleftrightarrow> 2 \<le> run_length (c, a, r) evs"
      "MAX_CHAIN_DELIVERIES < ec_depth ?e \<longleftrightarrow> 32 \<le> length evs"
    by (auto simp: word_le_nat_alt word_less_nat_alt MAX_IDENTICAL_DELIVERIES_def MAX_CHAIN_DELIVERIES_def)
  moreover have "fst (note_delivery c a r e) =
      (if MAX_IDENTICAL_DELIVERIES \<le> ec_repeats (snd (note_delivery c a r e)) \<or> MAX_CHAIN_DELIVERIES < ec_depth (snd (note_delivery c a r e))
       then (case ec_first (snd (note_delivery c a r e)) of
          Some (c, a) \<Rightarrow> Some \<lparr>uh_code = c, uh_address = a, uh_how = RE_DELIVERY_BOUND\<rparr> | None \<Rightarrow> None) else None)" for e
    by (cases e) (auto simp: note_delivery_def Let_def split: option.splits)
  ultimately show ?thesis unfolding first by (simp add: first)
qed

theorem redelivery_bounded_witness:
  "fst (note_delivery 0xC0000005 0x10 0x401000 (chain_after [(0xC0000094, 0x401000, 0x401000), (0xC0000005, 0x10, 0x401000),
     (0xC0000005, 0x10, 0x401000)])) = Some \<lparr>uh_code = 0xC0000094, uh_address = 0x401000, uh_how = RE_DELIVERY_BOUND\<rparr>"
  using redelivery_bounded [of "[(0xC0000094, 0x401000, 0x401000), (0xC0000005, 0x10, 0x401000), (0xC0000005, 0x10, 0x401000)]"
    "0xC0000005" "0x10" "0x401000"]
  by (simp add: run_length_def)

end
